(* ===== verification/Prelude.thy ===== *)
theory Prelude
  imports Main "HOL-Library.Word" "HOL-Library.Monad_Syntax"
begin

text \<open>
  Shared vocabulary of the development: the C integer types as words, the fact collections
  the component theories extend, and the generic lemmas on options, lists and words that
  several components use. A C function that can stop the process (a failed assertion, a NULL
  dereference, an exhausted allocator) returns an \<open>option\<close>; \<open>None\<close> is the stop.
\<close>

unbundle bit_operations_syntax

type_synonym u8 = "8 word"
type_synonym u16 = "16 word"
type_synonym u32 = "32 word"
type_synonym u64 = "64 word"
type_synonym addr = "64 word"

named_theorems frame_simps \<open>components an operation leaves unchanged\<close>
named_theorems shadow_simps \<open>evaluation of the shadow memory primitives\<close>

text \<open>\<open>assert_that\<close> is \<open>tl_assert\<close>, \<open>vg_assert\<close> or \<open>assert\<close>.\<close>

definition assert_that :: "bool \<Rightarrow> unit option" where
  "assert_that b = (if b then Some () else None)"

lemma assert_that_simps [simp]:
  "assert_that True = Some ()" "assert_that False = None"
  by (simp_all add: assert_that_def)

lemma assert_that_eq_Some [simp]: "assert_that b = Some u \<longleftrightarrow> b"
  by (simp add: assert_that_def)

lemma bind_Some_iff: "Option.bind x f = Some y \<longleftrightarrow> (\<exists>z. x = Some z \<and> f z = Some y)"
  by (cases x) auto

text \<open>The value of a word fits its width.\<close>

lemma take_bit_uint: "LENGTH('a) \<le> n \<Longrightarrow> take_bit n (uint (x :: 'a::len word)) = uint x"
  by (rule bit_eqI) (auto simp: bit_simps dest: bit_imp_le_length)

end
