(* ===== verification/OSet.thy ===== *)
theory OSet
  imports Prelude
begin

text \<open>
  The ordered sets of Valgrind (\<^verbatim>\<open>coregrind/m_oset.c\<close>): AVL trees that
  Taintgrind uses for its auxiliary primary map and its secondary V-bits table. A node
  pointer is the subtree it points to; a NULL dereference or a failed \<open>vg_assert\<close> is
  \<open>None\<close>. The balance of a node is the height of its right subtree minus the height of
  its left one, as the code maintains it. The comparison function and the key projection
  (\<open>keyOff\<close>) are arguments, as they are fields of the C structure.
\<close>

section \<open>Nodes and rotations\<close>

datatype 'e avl = Null | AvlNode "'e avl" 'e int "'e avl"

record 'e oset =
  oset_root :: "'e avl"
  nElems :: u32
  iterStack :: "('e avl \<times> nat) list"

definition STACK_MAX :: nat where
  "STACK_MAX = 32"

definition fast_cmp :: "('e \<Rightarrow> 'k::linorder) \<Rightarrow> 'k \<Rightarrow> 'e \<Rightarrow> int" where
  "fast_cmp key w1 e = (if w1 > key e then 1 else if w1 < key e then -1 else 0)"

fun avl_swl :: "'e avl \<Rightarrow> 'e avl option" where
  "avl_swl (AvlNode al a ab (AvlNode bl b bb br)) = Some (AvlNode (AvlNode al a ab bl) b bb br)"
| "avl_swl _ = None"

fun avl_swr :: "'e avl \<Rightarrow> 'e avl option" where
  "avl_swr (AvlNode (AvlNode bl b bb br) a ab ar) = Some (AvlNode bl b bb (AvlNode br a ab ar))"
| "avl_swr _ = None"

fun avl_nasty :: "'e avl \<Rightarrow> 'e avl option" where
  "avl_nasty (AvlNode (AvlNode ll l lb lr) e b (AvlNode rl r rb rr)) =
     (if b = -1 then Some (AvlNode (AvlNode ll l 0 lr) e 0 (AvlNode rl r 1 rr))
      else if b = 1 then Some (AvlNode (AvlNode ll l (-1) lr) e 0 (AvlNode rl r 0 rr))
      else if b = 0 then Some (AvlNode (AvlNode ll l 0 lr) e 0 (AvlNode rl r 0 rr))
      else Some (AvlNode (AvlNode ll l lb lr) e 0 (AvlNode rl r rb rr)))"
| "avl_nasty _ = None"

text \<open>The assignments \<open>t->root->balance = b\<close>, \<open>t->root->left->balance = b\<close> and
  \<open>t->root->right->balance = b\<close>.\<close>

fun set_bal :: "int \<Rightarrow> 'e avl \<Rightarrow> 'e avl option" where
  "set_bal b (AvlNode l e _ r) = Some (AvlNode l e b r)"
| "set_bal b Null = None"

fun set_left_bal :: "int \<Rightarrow> 'e avl \<Rightarrow> 'e avl option" where
  "set_left_bal b (AvlNode (AvlNode ll l _ lr) e eb r) = Some (AvlNode (AvlNode ll l b lr) e eb r)"
| "set_left_bal b _ = None"

fun set_right_bal :: "int \<Rightarrow> 'e avl \<Rightarrow> 'e avl option" where
  "set_right_bal b (AvlNode l e eb (AvlNode rl r _ rr)) = Some (AvlNode l e eb (AvlNode rl r b rr))"
| "set_right_bal b _ = None"

fun get_bal :: "'e avl \<Rightarrow> int option" where
  "get_bal (AvlNode _ _ b _) = Some b"
| "get_bal Null = None"

section \<open>Insertion\<close>

text \<open>What \<open>avl_insert\<close> does once the left subtree has grown: \<open>balance--\<close>, then the
  rotations of lines 476 to 488.\<close>

definition insert_left_fix :: "'e avl \<Rightarrow> 'e \<Rightarrow> int \<Rightarrow> 'e avl \<Rightarrow> (bool \<times> 'e avl) option" where
  "insert_left_fix l e b r =
     (if b = 1 then Some (False, AvlNode l e (b - 1) r)
      else if b = 0 then Some (True, AvlNode l e (b - 1) r)
      else do {
        lb \<leftarrow> get_bal l;
        if lb < 0
        then do {
          t \<leftarrow> avl_swr (AvlNode l e (b - 1) r);
          t \<leftarrow> set_bal 0 t;
          t \<leftarrow> set_right_bal 0 t;
          Some (False, t)
        } else do {
          l' \<leftarrow> avl_swl l;
          t \<leftarrow> avl_swr (AvlNode l' e (b - 1) r);
          t \<leftarrow> avl_nasty t;
          Some (False, t)
        }
      })"

definition insert_right_fix :: "'e avl \<Rightarrow> 'e \<Rightarrow> int \<Rightarrow> 'e avl \<Rightarrow> (bool \<times> 'e avl) option" where
  "insert_right_fix l e b r =
     (if b = -1 then Some (False, AvlNode l e (b + 1) r)
      else if b = 0 then Some (True, AvlNode l e (b + 1) r)
      else do {
        rb \<leftarrow> get_bal r;
        if rb > 0
        then do {
          t \<leftarrow> avl_swl (AvlNode l e (b + 1) r);
          t \<leftarrow> set_bal 0 t;
          t \<leftarrow> set_left_bal 0 t;
          Some (False, t)
        } else do {
          r' \<leftarrow> avl_swr r;
          t \<leftarrow> avl_swl (AvlNode l e (b + 1) r');
          t \<leftarrow> avl_nasty t;
          Some (False, t)
        }
      })"

text \<open>\<open>avl_insert\<close> returns whether the depth has grown. When a subtree has grown the code
  leaves the parent's pointer alone, because a grown subtree keeps its root node
  (\<open>avl_insert_grown_root\<close> below); the model stores the updated subtree. A duplicate key
  fails the assertion.\<close>

fun avl_insert :: "('k \<Rightarrow> 'e \<Rightarrow> int) \<Rightarrow> ('e \<Rightarrow> 'k) \<Rightarrow> 'e avl \<Rightarrow> 'e \<Rightarrow> (bool \<times> 'e avl) option" where
  "avl_insert cmp key Null n = None"
| "avl_insert cmp key (AvlNode l e b r) n =
     (let cmpres = cmp (key n) e in
      if cmpres < 0 then
        (if l \<noteq> Null then do {
           (grown, l') \<leftarrow> avl_insert cmp key l n;
           if grown then insert_left_fix l' e b r else Some (False, AvlNode l' e b r)
         } else Some (b = 0, AvlNode (AvlNode Null n 0 Null) e (b - 1) r))
      else if cmpres > 0 then
        (if r \<noteq> Null then do {
           (grown, r') \<leftarrow> avl_insert cmp key r n;
           if grown then insert_right_fix l e b r' else Some (False, AvlNode l e b r')
         } else Some (b = 0, AvlNode l e (b + 1) (AvlNode Null n 0 Null)))
      else None)"

definition OSetGen_Insert ::
  "('k \<Rightarrow> 'e \<Rightarrow> int) \<Rightarrow> ('e \<Rightarrow> 'k) \<Rightarrow> 'e oset \<Rightarrow> 'e \<Rightarrow> 'e oset option" where
  "OSetGen_Insert cmp key t n = do {
     rt \<leftarrow> (if oset_root t = Null then Some (AvlNode Null n 0 Null)
            else map_option snd (avl_insert cmp key (oset_root t) n));
     Some (t\<lparr>oset_root := rt, nElems := nElems t + 1, iterStack := []\<rparr>)
   }"

section \<open>Lookup\<close>

fun avl_lookup :: "('k \<Rightarrow> 'e \<Rightarrow> int) \<Rightarrow> 'e avl \<Rightarrow> 'k \<Rightarrow> 'e option" where
  "avl_lookup cmp Null k = None"
| "avl_lookup cmp (AvlNode l e b r) k =
     (let cmpres = cmp k e in
      if cmpres < 0 then avl_lookup cmp l k
      else if cmpres > 0 then avl_lookup cmp r k
      else Some e)"

definition OSetGen_Lookup :: "('k \<Rightarrow> 'e \<Rightarrow> int) \<Rightarrow> 'e oset \<Rightarrow> 'k \<Rightarrow> 'e option" where
  "OSetGen_Lookup cmp t k = avl_lookup cmp (oset_root t) k"

definition OSetGen_LookupWithCmp :: "'e oset \<Rightarrow> 'k \<Rightarrow> ('k \<Rightarrow> 'e \<Rightarrow> int) \<Rightarrow> 'e option" where
  "OSetGen_LookupWithCmp t k cmp = OSetGen_Lookup cmp t k"

definition OSetGen_Contains :: "('k \<Rightarrow> 'e \<Rightarrow> int) \<Rightarrow> 'e oset \<Rightarrow> 'k \<Rightarrow> bool" where
  "OSetGen_Contains cmp t k \<longleftrightarrow> OSetGen_Lookup cmp t k \<noteq> None"

text \<open>A write through the element pointer \<open>OSetGen_Lookup\<close> returned: the element with this
  key is replaced in place. The callers never change the key of an element.\<close>

fun avl_modify :: "('k \<Rightarrow> 'e \<Rightarrow> int) \<Rightarrow> 'k \<Rightarrow> ('e \<Rightarrow> 'e) \<Rightarrow> 'e avl \<Rightarrow> 'e avl" where
  "avl_modify cmp k f Null = Null"
| "avl_modify cmp k f (AvlNode l e b r) =
     (let cmpres = cmp k e in
      if cmpres < 0 then AvlNode (avl_modify cmp k f l) e b r
      else if cmpres > 0 then AvlNode l e b (avl_modify cmp k f r)
      else AvlNode l (f e) b r)"

definition oset_modify :: "('k \<Rightarrow> 'e \<Rightarrow> int) \<Rightarrow> 'k \<Rightarrow> ('e \<Rightarrow> 'e) \<Rightarrow> 'e oset \<Rightarrow> 'e oset" where
  "oset_modify cmp k f t = t\<lparr>oset_root := avl_modify cmp k f (oset_root t)\<rparr>"

section \<open>Creation and size\<close>

definition OSetGen_Create :: "'e oset" where
  "OSetGen_Create = \<lparr>oset_root = Null, nElems = 0, iterStack = []\<rparr>"

definition OSetGen_EmptyClone :: "'e oset \<Rightarrow> 'e oset" where
  "OSetGen_EmptyClone os = \<lparr>oset_root = Null, nElems = 0, iterStack = []\<rparr>"

definition OSetGen_Size :: "'e oset \<Rightarrow> u32" where
  "OSetGen_Size t = nElems t"


section \<open>Deletion\<close>

text \<open>What \<open>avl_remove\<close> does once the left (right) subtree has shrunk.\<close>

definition remove_left_fix :: "'e avl \<Rightarrow> 'e \<Rightarrow> int \<Rightarrow> 'e avl \<Rightarrow> (bool \<times> 'e avl) option" where
  "remove_left_fix l e b r =
     (if b = -1 then Some (True, AvlNode l e (b + 1) r)
      else if b = 0 then Some (False, AvlNode l e (b + 1) r)
      else do {
        rb \<leftarrow> get_bal r;
        if rb = 0 then do {
          t \<leftarrow> avl_swl (AvlNode l e (b + 1) r);
          t \<leftarrow> set_bal (-1) t;
          t \<leftarrow> set_left_bal 1 t;
          Some (False, t)
        } else if rb = 1 then do {
          t \<leftarrow> avl_swl (AvlNode l e (b + 1) r);
          t \<leftarrow> set_bal 0 t;
          t \<leftarrow> set_left_bal 0 t;
          Some (True, t)
        } else do {
          r' \<leftarrow> avl_swr r;
          t \<leftarrow> avl_swl (AvlNode l e (b + 1) r');
          t \<leftarrow> avl_nasty t;
          Some (True, t)
        }
      })"

definition remove_right_fix :: "'e avl \<Rightarrow> 'e \<Rightarrow> int \<Rightarrow> 'e avl \<Rightarrow> (bool \<times> 'e avl) option" where
  "remove_right_fix l e b r =
     (if b = 1 then Some (True, AvlNode l e (b - 1) r)
      else if b = 0 then Some (False, AvlNode l e (b - 1) r)
      else do {
        lb \<leftarrow> get_bal l;
        if lb = 0 then do {
          t \<leftarrow> avl_swr (AvlNode l e (b - 1) r);
          t \<leftarrow> set_bal 1 t;
          t \<leftarrow> set_right_bal (-1) t;
          Some (False, t)
        } else if lb = -1 then do {
          t \<leftarrow> avl_swr (AvlNode l e (b - 1) r);
          t \<leftarrow> set_bal 0 t;
          t \<leftarrow> set_right_bal 0 t;
          Some (True, t)
        } else do {
          l' \<leftarrow> avl_swl l;
          t \<leftarrow> avl_swr (AvlNode l' e (b - 1) r);
          t \<leftarrow> avl_nasty t;
          Some (True, t)
        }
      })"

text \<open>The loops \<open>while (n->right) n = n->right\<close> and \<open>while (n->left) n = n->left\<close>.\<close>

fun rightmost :: "'e avl \<Rightarrow> 'e option" where
  "rightmost Null = None"
| "rightmost (AvlNode l e b r) = (if r = Null then Some e else rightmost r)"

fun leftmost :: "'e avl \<Rightarrow> 'e option" where
  "leftmost Null = None"
| "leftmost (AvlNode l e b r) = (if l = Null then Some e else leftmost l)"

text \<open>\<open>avl_removeroot\<close> calls \<open>avl_remove\<close> on the whole tree with a node below the root. In
  the model the first step of that call, the comparison with the root, is written out, so
  that the recursion is on a subtree; the comparison that finds the root fails the
  assertion \<open>t->root == n\<close>.\<close>

function (sequential) avl_remove :: "('k \<Rightarrow> 'e \<Rightarrow> int) \<Rightarrow> ('e \<Rightarrow> 'k) \<Rightarrow> 'e avl \<Rightarrow> 'e \<Rightarrow> (bool \<times> 'e avl) option"
  and avl_removeroot :: "('k \<Rightarrow> 'e \<Rightarrow> int) \<Rightarrow> ('e \<Rightarrow> 'k) \<Rightarrow> 'e avl \<Rightarrow> (bool \<times> 'e avl) option" where
  "avl_remove cmp key Null n = None"
| "avl_remove cmp key (AvlNode l e b r) n =
     (let cmpres = cmp (key n) e in
      if cmpres < 0 then
        (if l = Null then None else do {
           (ch, l') \<leftarrow> avl_remove cmp key l n;
           if ch then remove_left_fix l' e b r else Some (False, AvlNode l' e b r)
         })
      else if cmpres > 0 then
        (if r = Null then None else do {
           (ch, r') \<leftarrow> avl_remove cmp key r n;
           if ch then remove_right_fix l e b r' else Some (False, AvlNode l e b r')
         })
      else if e = n then avl_removeroot cmp key (AvlNode l e b r) else None)"
| "avl_removeroot cmp key Null = None"
| "avl_removeroot cmp key (AvlNode l e b r) =
     (if l = Null then Some (True, r)
      else if r = Null then Some (True, l)
      else do {
        n \<leftarrow> (if b < 0 then rightmost l else leftmost r);
        (ch, t) \<leftarrow>
          (let cmpres = cmp (key n) e in
           if cmpres < 0 then do {
             (ch, l') \<leftarrow> avl_remove cmp key l n;
             if ch then remove_left_fix l' e b r else Some (False, AvlNode l' e b r)
           }
           else if cmpres > 0 then do {
             (ch, r') \<leftarrow> avl_remove cmp key r n;
             if ch then remove_right_fix l e b r' else Some (False, AvlNode l e b r')
           }
           else None);
        (case t of
           Null \<Rightarrow> None
         | AvlNode t1 te tb t2 \<Rightarrow> Some (tb = 0 \<and> ch, AvlNode t1 n tb t2))
      })"
  by pat_completeness auto
termination
  by (relation "measures [\<lambda>x. case x of Inl (c, k, t, n) \<Rightarrow> size t | Inr (c, k, t) \<Rightarrow> size t,
       \<lambda>x. case x of Inl _ \<Rightarrow> 1 | Inr _ \<Rightarrow> 0]") auto

definition OSetGen_Remove ::
  "('k \<Rightarrow> 'e \<Rightarrow> int) \<Rightarrow> ('e \<Rightarrow> 'k) \<Rightarrow> 'e oset \<Rightarrow> 'k \<Rightarrow> ('e option \<times> 'e oset) option" where
  "OSetGen_Remove cmp key t k =
     (case avl_lookup cmp (oset_root t) k of
        None \<Rightarrow> Some (None, t)
      | Some n \<Rightarrow> do {
          (_, rt) \<leftarrow> avl_remove cmp key (oset_root t) n;
          Some (Some n, t\<lparr>oset_root := rt, nElems := nElems t - 1, iterStack := []\<rparr>)
        })"

section \<open>Iterator\<close>

text \<open>The iterator stack holds a node and how far its visit has come; the list has the top
  first, so its length is \<open>stackTop\<close>.\<close>

type_synonym 'e iter_stack = "('e avl \<times> nat) list"

definition stackPush :: "'e iter_stack \<Rightarrow> 'e avl \<Rightarrow> nat \<Rightarrow> 'e iter_stack option" where
  "stackPush s n i =
     (if length s < STACK_MAX \<and> 1 \<le> i \<and> i \<le> 3 then Some ((n, i) # s) else None)"

fun stackPop :: "'e iter_stack \<Rightarrow> (('e avl \<times> nat) \<times> 'e iter_stack) option" where
  "stackPop [] = None"
| "stackPop (x # s) = Some (x, s)"

definition OSetGen_ResetIter :: "'e oset \<Rightarrow> 'e oset option" where
  "OSetGen_ResetIter t =
     (if oset_root t \<noteq> Null
      then do { s \<leftarrow> stackPush [] (oset_root t) 1; Some (t\<lparr>iterStack := s\<rparr>) }
      else Some (t\<lparr>iterStack := []\<rparr>))"

text \<open>The label \<open>case_1\<close>: push the node with 2 and go left.\<close>

fun case_1 :: "'e avl \<Rightarrow> 'e iter_stack \<Rightarrow> 'e iter_stack option" where
  "case_1 Null s = None"
| "case_1 (AvlNode l e b r) s = do {
     s' \<leftarrow> stackPush s (AvlNode l e b r) 2;
     if l \<noteq> Null then case_1 l s' else Some s'
   }"

fun avl_size :: "'e avl \<Rightarrow> nat" where
  "avl_size Null = 0"
| "avl_size (AvlNode l e b r) = avl_size l + 1 + avl_size r"

fun entry_work :: "'e avl \<times> nat \<Rightarrow> nat" where
  "entry_work (Null, i) = 1"
| "entry_work (AvlNode l e b r, i) =
     (if i = 1 then 1 + 2 * avl_size (AvlNode l e b r)
      else if i = 2 then 2 + 2 * avl_size r else 1 + 2 * avl_size r)"

lemma case_1_work:
  "case_1 n s = Some s' \<Longrightarrow>
   sum_list (map entry_work s') = 2 * avl_size n + sum_list (map entry_work s)"
  by (induction n s rule: case_1.induct)
    (auto simp: stackPush_def bind_Some_iff split: if_splits)

text \<open>One call of \<open>OSetGen_Next\<close>: the element (\<open>None\<close> for NULL) and the stack after it.\<close>

function next_loop :: "'e iter_stack \<Rightarrow> ('e option \<times> 'e iter_stack) option" where
  "next_loop s =
     (case s of
        [] \<Rightarrow> Some (None, [])
      | (n, i) # s' \<Rightarrow>
          (case n of
             Null \<Rightarrow> None
           | AvlNode l e b r \<Rightarrow>
               if i = 1 then
                 (case case_1 n s' of None \<Rightarrow> None | Some s'' \<Rightarrow> next_loop s'')
               else if i = 2 then
                 (case stackPush s' n 3 of None \<Rightarrow> None | Some s'' \<Rightarrow> Some (Some e, s''))
               else if i = 3 then
                 (if r \<noteq> Null
                  then (case case_1 r s' of None \<Rightarrow> None | Some s'' \<Rightarrow> next_loop s'')
                  else next_loop s')
               else None))"
  by pat_completeness auto
termination
  by (relation "measure (\<lambda>s. sum_list (map entry_work s))")
    (auto simp del: case_1.simps dest: case_1_work)

declare next_loop.simps [simp del]

definition OSetGen_Next :: "'e oset \<Rightarrow> ('e option \<times> 'e oset) option" where
  "OSetGen_Next t = do {
     (e, s) \<leftarrow> next_loop (iterStack t);
     Some (e, t\<lparr>iterStack := s\<rparr>)
   }"

text \<open>\<open>OSetGen_ResetIterAt\<close>: the search that fills the stack with the nodes where it went
  left, so that the iteration starts at the least key not below \<open>k\<close>.\<close>

fun reset_at :: "('k \<Rightarrow> 'e \<Rightarrow> int) \<Rightarrow> 'e avl \<Rightarrow> 'k \<Rightarrow> 'e iter_stack \<Rightarrow> 'e iter_stack option" where
  "reset_at cmp Null k s = Some s"
| "reset_at cmp (AvlNode l e b r) k s =
     (let c = cmp k e in
      if c = 0 then stackPush s (AvlNode l e b r) 2
      else if c < 0 then do { s' \<leftarrow> stackPush s (AvlNode l e b r) 2; reset_at cmp l k s' }
      else reset_at cmp r k s)"

definition OSetGen_ResetIterAt :: "('k \<Rightarrow> 'e \<Rightarrow> int) \<Rightarrow> 'e oset \<Rightarrow> 'k \<Rightarrow> 'e oset option" where
  "OSetGen_ResetIterAt cmp t k = do {
     s \<leftarrow> reset_at cmp (oset_root t) k [];
     Some (t\<lparr>iterStack := s\<rparr>)
   }"

text \<open>An element returned leaves less work, so the clients' loops end.\<close>

lemma next_loop_work:
  "next_loop s = Some (Some e, s') \<Longrightarrow>
   sum_list (map entry_work s') < sum_list (map entry_work s)"
proof (induction s rule: next_loop.induct)
  case (1 s)
  show ?case
  proof (cases s)
    case Nil
    with "1.prems" show ?thesis by (simp add: next_loop.simps)
  next
    case (Cons a s'')
    obtain n i where a: "a = (n, i)" by force
    show ?thesis
    proof (cases n)
      case Null
      with "1.prems" Cons a show ?thesis by (simp add: next_loop.simps)
    next
      case (AvlNode l x b r)
      note IH = "1.IH" [OF Cons a [symmetric] AvlNode]
      show ?thesis
        using "1.prems" Cons a AvlNode IH
        by (subst (asm) next_loop.simps)
          (auto simp: stackPush_def simp del: case_1.simps split: if_splits option.splits dest: case_1_work)
    qed
  qed
qed

text \<open>The loop of the clients, \<open>VG_(OSetGen_ResetIter)(t); while ((n = VG_(OSetGen_Next)(t)))\<close>,
  with the elements in the order it sees them.\<close>

function next_all :: "'e iter_stack \<Rightarrow> 'e list option" where
  "next_all s =
     (case next_loop s of
        None \<Rightarrow> None
      | Some (None, s') \<Rightarrow> Some []
      | Some (Some e, s') \<Rightarrow> map_option (Cons e) (next_all s'))"
  by pat_completeness auto
termination
  by (relation "measure (\<lambda>s. sum_list (map entry_work s))") (auto dest: next_loop_work)

declare next_all.simps [simp del]

definition OSetGen_iterate :: "'e oset \<Rightarrow> 'e list option" where
  "OSetGen_iterate t = do { t' \<leftarrow> OSetGen_ResetIter t; next_all (iterStack t') }"

section \<open>Balance\<close>

fun avl_height :: "'e avl \<Rightarrow> nat" where
  "avl_height Null = 0"
| "avl_height (AvlNode l e b r) = Suc (max (avl_height l) (avl_height r))"

fun avl_inorder :: "'e avl \<Rightarrow> 'e list" where
  "avl_inorder Null = []"
| "avl_inorder (AvlNode l e b r) = avl_inorder l @ e # avl_inorder r"

fun avl_ok :: "'e avl \<Rightarrow> bool" where
  "avl_ok Null = True"
| "avl_ok (AvlNode l e b r) =
     (b = int (avl_height r) - int (avl_height l) \<and> b \<in> {-1, 0, 1} \<and> avl_ok l \<and> avl_ok r)"

fun grown_ok :: "bool \<Rightarrow> 'e avl \<Rightarrow> 'e avl \<Rightarrow> bool" where
  "grown_ok g t t' = (avl_ok t' \<and> avl_height t' = avl_height t + (if g then 1 else 0) \<and>
     (g \<longrightarrow> get_bal t' \<noteq> Some 0))"

lemma avl_height_0 [simp]: "avl_height t = 0 \<longleftrightarrow> t = Null" "0 = avl_height t \<longleftrightarrow> t = Null"
  by (cases t; simp)+

lemma avl_ok_node_cases:
  assumes "avl_ok t" "avl_height t = Suc h"
  obtains l e r where "t = AvlNode l e 0 r" "avl_height l = h" "avl_height r = h" "avl_ok l" "avl_ok r"
  | l e r k where "t = AvlNode l e (-1) r" "h = Suc k" "avl_height l = h" "avl_height r = k" "avl_ok l" "avl_ok r"
  | l e r k where "t = AvlNode l e 1 r" "h = Suc k" "avl_height l = k" "avl_height r = h" "avl_ok l" "avl_ok r"
proof (cases t)
  case Null
  with assms show ?thesis by simp
next
  case (AvlNode l e b r)
  with assms have b: "b = int (avl_height r) - int (avl_height l)" "b \<in> {-1, 0, 1}" "avl_ok l" "avl_ok r"
    "h = max (avl_height l) (avl_height r)" by auto
  then consider "b = 0" | "b = -1" | "b = 1" by auto
  then show ?thesis
  proof cases
    case 1
    with b AvlNode show ?thesis by (intro that(1) [of l e r]) auto
  next
    case 2
    with b AvlNode show ?thesis by (intro that(2) [of l e r "avl_height r"]) auto
  next
    case 3
    with b AvlNode show ?thesis by (intro that(3) [of l e r "avl_height l"]) auto
  qed
qed


text \<open>The result of a rebalancing: shape, height and contents.\<close>

definition fix_result :: "nat \<Rightarrow> 'e list \<Rightarrow> (bool \<times> 'e avl) option \<Rightarrow> bool" where
  "fix_result h xs res =
     (case res of None \<Rightarrow> False
      | Some (g, t) \<Rightarrow> avl_ok t \<and> avl_height t = h + (if g then 1 else 0) \<and>
          (g \<longrightarrow> get_bal t \<noteq> Some 0) \<and> avl_inorder t = xs)"

definition shrink_result :: "nat \<Rightarrow> 'e list \<Rightarrow> (bool \<times> 'e avl) option \<Rightarrow> bool" where
  "shrink_result h xs res =
     (case res of None \<Rightarrow> False
      | Some (ch, t) \<Rightarrow> avl_ok t \<and> avl_height t + (if ch then 1 else 0) = h \<and> avl_inorder t = xs)"

lemma insert_left_fix_ok:
  assumes l': "avl_ok l'" "avl_height l' = Suc h" "get_bal l' \<noteq> Some 0" and r: "avl_ok r"
    and b: "b = int (avl_height r) - int h" "b \<in> {-1, 0, 1}"
  shows "fix_result (Suc (max h (avl_height r))) (avl_inorder l' @ e # avl_inorder r)
    (insert_left_fix l' e b r)"
proof -
  consider "b = 1" "avl_height r = Suc h" | "b = 0" "avl_height r = h" | "b = -1" "Suc (avl_height r) = h"
    using b by auto
  then show ?thesis
  proof cases
    case 1
    with assms show ?thesis by (simp add: insert_left_fix_def fix_result_def)
  next
    case 2
    with assms show ?thesis by (simp add: insert_left_fix_def fix_result_def)
  next
    case b3: 3
    from l'(1,2) show ?thesis
    proof (cases rule: avl_ok_node_cases)
      case (1 l x r)
      with l' show ?thesis by simp
    next
      case (2 ll x lr k)
      with b3 r show ?thesis by (simp add: insert_left_fix_def fix_result_def)
    next
      case (3 ll x lr k)
      note up = 3
      from \<open>avl_ok lr\<close> have "avl_height lr = Suc k" using 3 by simp
      with \<open>avl_ok lr\<close> show ?thesis
      proof (cases rule: avl_ok_node_cases)
        case (1 l' e' r')
        with 3 b3 r show ?thesis by (simp add: insert_left_fix_def fix_result_def)
      next
        case (2 l' e' r' k')
        with 3 b3 r show ?thesis by (simp add: insert_left_fix_def fix_result_def)
      next
        case (3 l'' e' r'' k')
        with up b3 r show ?thesis by (simp add: insert_left_fix_def fix_result_def)
      qed
    qed
  qed
qed

lemma insert_right_fix_ok:
  assumes r': "avl_ok r'" "avl_height r' = Suc h" "get_bal r' \<noteq> Some 0" and l: "avl_ok l"
    and b: "b = int h - int (avl_height l)" "b \<in> {-1, 0, 1}"
  shows "fix_result (Suc (max (avl_height l) h)) (avl_inorder l @ e # avl_inorder r')
    (insert_right_fix l e b r')"
proof -
  consider "b = -1" "avl_height l = Suc h" | "b = 0" "avl_height l = h" | "b = 1" "Suc (avl_height l) = h"
    using b by auto
  then show ?thesis
  proof cases
    case 1
    with assms show ?thesis by (simp add: insert_right_fix_def fix_result_def)
  next
    case 2
    with assms show ?thesis by (simp add: insert_right_fix_def fix_result_def)
  next
    case b3: 3
    from r'(1,2) show ?thesis
    proof (cases rule: avl_ok_node_cases)
      case (1 l x r)
      with r' show ?thesis by simp
    next
      case (2 rl x rr k)
      note up = 2
      from \<open>avl_ok rl\<close> have "avl_height rl = Suc k" using 2 by simp
      with \<open>avl_ok rl\<close> show ?thesis
      proof (cases rule: avl_ok_node_cases)
        case (1 l' e' r')
        with 2 b3 l show ?thesis by (simp add: insert_right_fix_def fix_result_def)
      next
        case (2 l'' e' r'' k')
        with up b3 l show ?thesis by (simp add: insert_right_fix_def fix_result_def)
      next
        case (3 l' e' r' k')
        with 2 b3 l show ?thesis by (simp add: insert_right_fix_def fix_result_def)
      qed
    next
      case (3 rl x rr k)
      with b3 l show ?thesis by (simp add: insert_right_fix_def fix_result_def)
    qed
  qed
qed

lemma remove_left_fix_ok:
  assumes l': "avl_ok l'" "avl_height l' = h" and r: "avl_ok r"
    and b: "b = int (avl_height r) - int (Suc h)" "b \<in> {-1, 0, 1}"
  shows "shrink_result (Suc (max (Suc h) (avl_height r))) (avl_inorder l' @ e # avl_inorder r)
    (remove_left_fix l' e b r)"
proof -
  consider "b = -1" "avl_height r = h" | "b = 0" "avl_height r = Suc h" | "b = 1" "avl_height r = Suc (Suc h)"
    using b by auto
  then show ?thesis
  proof cases
    case 1
    with assms show ?thesis by (simp add: remove_left_fix_def shrink_result_def)
  next
    case 2
    with assms show ?thesis by (simp add: remove_left_fix_def shrink_result_def)
  next
    case b3: 3
    from r b3(2) show ?thesis
    proof (cases rule: avl_ok_node_cases)
      case (1 l x r)
      with b3 l' show ?thesis by (simp add: remove_left_fix_def shrink_result_def)
    next
      case (2 rl x rr k)
      note up = 2
      from \<open>avl_ok rl\<close> have "avl_height rl = Suc k" using 2 by simp
      with \<open>avl_ok rl\<close> show ?thesis
      proof (cases rule: avl_ok_node_cases)
        case (1 l'' e' r')
        with 2 b3 l' show ?thesis by (simp add: remove_left_fix_def shrink_result_def)
      next
        case (2 l'' e' r' k')
        with up b3 l'
        show ?thesis by (simp add: remove_left_fix_def shrink_result_def)
      next
        case (3 l'' e' r' k')
        with 2 b3 l' show ?thesis by (simp add: remove_left_fix_def shrink_result_def)
      qed
    next
      case (3 rl x rr k)
      with b3 l' show ?thesis by (simp add: remove_left_fix_def shrink_result_def)
    qed
  qed
qed

lemma remove_right_fix_ok:
  assumes r': "avl_ok r'" "avl_height r' = h" and l: "avl_ok l"
    and b: "b = int (Suc h) - int (avl_height l)" "b \<in> {-1, 0, 1}"
  shows "shrink_result (Suc (max (avl_height l) (Suc h))) (avl_inorder l @ e # avl_inorder r')
    (remove_right_fix l e b r')"
proof -
  consider "b = 1" "avl_height l = h" | "b = 0" "avl_height l = Suc h" | "b = -1" "avl_height l = Suc (Suc h)"
    using b by auto
  then show ?thesis
  proof cases
    case 1
    with assms show ?thesis by (simp add: remove_right_fix_def shrink_result_def)
  next
    case 2
    with assms show ?thesis by (simp add: remove_right_fix_def shrink_result_def)
  next
    case b3: 3
    from l b3(2) show ?thesis
    proof (cases rule: avl_ok_node_cases)
      case (1 l x r)
      with b3 r' show ?thesis by (simp add: remove_right_fix_def shrink_result_def)
    next
      case (2 rl x rr k)
      with b3 r' show ?thesis by (simp add: remove_right_fix_def shrink_result_def)
    next
      case (3 ll x lr k)
      note up = 3
      from \<open>avl_ok lr\<close> have "avl_height lr = Suc k" using 3 by simp
      with \<open>avl_ok lr\<close> show ?thesis
      proof (cases rule: avl_ok_node_cases)
        case (1 l'' e' r'')
        with 3 b3 r' show ?thesis by (simp add: remove_right_fix_def shrink_result_def)
      next
        case (2 l'' e' r'' k')
        with 3 b3 r' show ?thesis by (simp add: remove_right_fix_def shrink_result_def)
      next
        case (3 l'' e' r'' k')
        with up b3 r'
        show ?thesis by (simp add: remove_right_fix_def shrink_result_def)
      qed
    qed
  qed
qed

section \<open>Contents\<close>

definition key_sorted :: "('e \<Rightarrow> 'k::linorder) \<Rightarrow> 'e list \<Rightarrow> bool" where
  "key_sorted key xs \<longleftrightarrow> sorted_wrt (\<lambda>x y. key x < key y) xs"

lemma key_sorted_append [simp]:
  "key_sorted key (xs @ ys) \<longleftrightarrow>
     key_sorted key xs \<and> key_sorted key ys \<and> (\<forall>x\<in>set xs. \<forall>y\<in>set ys. key x < key y)"
  by (simp add: key_sorted_def sorted_wrt_append)

lemma key_sorted_Cons [simp]:
  "key_sorted key (x # ys) \<longleftrightarrow> (\<forall>y\<in>set ys. key x < key y) \<and> key_sorted key ys"
  by (simp add: key_sorted_def)

lemma key_sorted_Nil [simp]: "key_sorted key []"
  by (simp add: key_sorted_def)

text \<open>The contents of a set as a map from keys to elements.\<close>

definition elem_map :: "('e \<Rightarrow> 'k) \<Rightarrow> 'e list \<Rightarrow> 'k \<Rightarrow> 'e option" where
  "elem_map key xs = map_of (map (\<lambda>e. (key e, e)) xs)"

lemma elem_map_Nil [simp]: "elem_map key [] = Map.empty"
  by (simp add: elem_map_def)

lemma elem_map_Cons [simp]: "elem_map key (x # xs) = (elem_map key xs)(key x \<mapsto> x)"
  by (simp add: elem_map_def)

lemma elem_map_append [simp]: "elem_map key (xs @ ys) = elem_map key ys ++ elem_map key xs"
  by (simp add: elem_map_def)

lemma elem_map_None: "elem_map key xs k = None \<longleftrightarrow> k \<notin> key ` set xs"
  by (induction xs) auto

lemma elem_map_Some: "elem_map key xs k = Some e \<Longrightarrow> e \<in> set xs \<and> key e = k"
  by (induction xs) (auto split: if_splits)

lemma elem_map_in: "key_sorted key xs \<Longrightarrow> e \<in> set xs \<Longrightarrow> elem_map key xs (key e) = Some e"
  by (induction xs) auto

lemma insort_key_append_left:
  "\<forall>y\<in>set (e # ys). key n < key y \<Longrightarrow>
   insort_key key n (xs @ e # ys) = insort_key key n xs @ e # ys"
  by (induction xs) auto

lemma insort_key_append_right:
  "\<forall>x\<in>set xs. key x < (key n :: 'k::linorder) \<Longrightarrow> key e < key n \<Longrightarrow>
   insort_key key n (xs @ e # ys) = xs @ e # insort_key key n ys"
  by (induction xs) auto

lemma elem_map_insort:
  "key n \<notin> key ` set xs \<Longrightarrow> elem_map key (insort_key key n xs) = (elem_map key xs)(key n \<mapsto> n)"
  by (induction xs) auto

lemma key_sorted_insort:
  "key_sorted key xs \<Longrightarrow> key n \<notin> key ` set xs \<Longrightarrow> key_sorted key (insort_key key n xs)"
  by (induction xs) (auto simp: set_insort_key)

definition key_delete :: "('e \<Rightarrow> 'k) \<Rightarrow> 'k \<Rightarrow> 'e list \<Rightarrow> 'e list" where
  "key_delete key k xs = filter (\<lambda>e. key e \<noteq> k) xs"

lemma key_delete_append [simp]: "key_delete key k (xs @ ys) = key_delete key k xs @ key_delete key k ys"
  by (simp add: key_delete_def)

lemma key_delete_Cons [simp]:
  "key_delete key k (x # xs) = (if key x = k then key_delete key k xs else x # key_delete key k xs)"
  by (simp add: key_delete_def)

lemma key_delete_Nil [simp]: "key_delete key k [] = []"
  by (simp add: key_delete_def)

lemma key_delete_absent: "k \<notin> key ` set xs \<Longrightarrow> key_delete key k xs = xs"
  by (induction xs) auto

lemma set_key_delete [simp]: "set (key_delete key k xs) = {e \<in> set xs. key e \<noteq> k}"
  by (auto simp: key_delete_def)

lemma elem_map_delete: "elem_map key (key_delete key k xs) = (elem_map key xs)(k := None)"
  by (induction xs) (auto simp: fun_eq_iff)

lemma key_sorted_delete: "key_sorted key xs \<Longrightarrow> key_sorted key (key_delete key k xs)"
  by (induction xs) auto

lemma length_avl_inorder [simp]: "length (avl_inorder t) = avl_size t"
  by (induction t) auto

lemma avl_inorder_Nil [simp]: "avl_inorder t = [] \<longleftrightarrow> t = Null" "[] = avl_inorder t \<longleftrightarrow> t = Null"
  by (cases t; simp)+

lemma leftmost_inorder: "t \<noteq> Null \<Longrightarrow> leftmost t = Some (hd (avl_inorder t))"
  by (induction t rule: leftmost.induct) auto

lemma rightmost_inorder: "t \<noteq> Null \<Longrightarrow> rightmost t = Some (last (avl_inorder t))"
  by (induction t rule: rightmost.induct) auto

lemma key_delete_last:
  "key_sorted key xs \<Longrightarrow> xs \<noteq> [] \<Longrightarrow> key_delete key (key (last xs)) xs = butlast xs"
proof (induction xs)
  case (Cons x xs)
  then have "xs \<noteq> [] \<Longrightarrow> key x \<noteq> key (last xs)" using last_in_set [of xs] by force
  with Cons show ?case by auto
qed simp

lemma key_delete_hd:
  "key_sorted key xs \<Longrightarrow> xs \<noteq> [] \<Longrightarrow> key_delete key (key (hd xs)) xs = tl xs"
  by (cases xs) (auto intro!: key_delete_absent)

section \<open>The contract of an ordered set\<close>

text \<open>The comparison function of a set must order keys as a linear order does
  (\<^verbatim>\<open>include/pub_tool_oset.h\<close>).\<close>

locale oset_order =
  fixes cmp :: "'k::linorder \<Rightarrow> 'e \<Rightarrow> int" and key :: "'e \<Rightarrow> 'k"
  assumes cmp_less: "cmp k e < 0 \<longleftrightarrow> k < key e"
    and cmp_greater: "cmp k e > 0 \<longleftrightarrow> key e < k"
begin

lemma cmp_zero: "cmp k e = 0 \<longleftrightarrow> k = key e"
  using cmp_less [of k e] cmp_greater [of k e] by auto

lemma avl_lookup_elem_map:
  "key_sorted key (avl_inorder t) \<Longrightarrow> avl_lookup cmp t k = elem_map key (avl_inorder t) k"
proof (induction t)
  case Null
  then show ?case by simp
next
  case (AvlNode l e b r)
  have out: "k \<le> key e \<Longrightarrow> elem_map key (avl_inorder r) k = None"
    "key e \<le> k \<Longrightarrow> elem_map key (avl_inorder l) k = None"
    using AvlNode.prems by (force simp: elem_map_None)+
  from AvlNode out show ?case
    by (cases k "key e" rule: linorder_cases)
      (auto simp: Let_def cmp_less cmp_greater cmp_zero map_add_def split: option.splits)
qed

lemma avl_insert_ok:
  assumes "avl_ok t" "key_sorted key (avl_inorder t)" "key n \<notin> key ` set (avl_inorder t)" "t \<noteq> Null"
  shows "fix_result (avl_height t) (insort_key key n (avl_inorder t)) (avl_insert cmp key t n)"
  using assms
proof (induction t)
  case Null
  then show ?case by simp
next
  case (AvlNode l e b r)
  have b: "b = int (avl_height r) - int (avl_height l)" "b \<in> {-1, 0, 1}" "avl_ok l" "avl_ok r"
    using AvlNode.prems by auto
  consider "key n < key e" | "key e < key n" using AvlNode.prems(3) by force
  then show ?case
  proof cases
    case less: 1
    then have ins: "insort_key key n (avl_inorder (AvlNode l e b r)) =
        insort_key key n (avl_inorder l) @ e # avl_inorder r"
      using AvlNode.prems(2) by (auto intro!: insort_key_append_left intro: order.strict_trans)
    show ?thesis
    proof (cases "l = Null")
      case True
      with less ins b show ?thesis
        by (auto simp: Let_def cmp_less fix_result_def)
    next
      case False
      with AvlNode have "fix_result (avl_height l) (insort_key key n (avl_inorder l)) (avl_insert cmp key l n)"
        by auto
      then obtain g l' where l': "avl_insert cmp key l n = Some (g, l')" "avl_ok l'"
        "avl_height l' = avl_height l + (if g then 1 else 0)" "g \<longrightarrow> get_bal l' \<noteq> Some 0"
        "avl_inorder l' = insort_key key n (avl_inorder l)"
        by (auto simp: fix_result_def split: option.splits)
      show ?thesis
      proof (cases g)
        case True
        with False less ins l' b insert_left_fix_ok [of l' "avl_height l" r b e] show ?thesis
          by (simp add: Let_def cmp_less)
      next
        case g: False
        with False less ins l' b show ?thesis
          by (simp add: Let_def cmp_less fix_result_def)
      qed
    qed
  next
    case greater: 2
    then have ins: "insort_key key n (avl_inorder (AvlNode l e b r)) =
        avl_inorder l @ e # insort_key key n (avl_inorder r)"
      using AvlNode.prems(2) by (auto intro!: insort_key_append_right intro: order.strict_trans)
    have c: "\<not> cmp (key n) e < 0" "cmp (key n) e > 0" using greater by (auto simp: cmp_less cmp_greater)
    show ?thesis
    proof (cases "r = Null")
      case True
      with c ins b show ?thesis
        by (auto simp: Let_def fix_result_def)
    next
      case False
      with AvlNode have "fix_result (avl_height r) (insort_key key n (avl_inorder r)) (avl_insert cmp key r n)"
        by auto
      then obtain g r' where r': "avl_insert cmp key r n = Some (g, r')" "avl_ok r'"
        "avl_height r' = avl_height r + (if g then 1 else 0)" "g \<longrightarrow> get_bal r' \<noteq> Some 0"
        "avl_inorder r' = insort_key key n (avl_inorder r)"
        by (auto simp: fix_result_def split: option.splits)
      show ?thesis
      proof (cases g)
        case True
        with False c ins r' b insert_right_fix_ok [of r' "avl_height r" l b e] show ?thesis
          by (simp add: Let_def)
      next
        case g: False
        with False c ins r' b show ?thesis
          by (simp add: Let_def fix_result_def)
      qed
    qed
  qed
qed

lemma avl_removeroot_step:
  assumes l: "\<And>n. n \<in> set (avl_inorder l) \<Longrightarrow>
      shrink_result (avl_height l) (key_delete key (key n) (avl_inorder l)) (avl_remove cmp key l n)"
    and r: "\<And>n. n \<in> set (avl_inorder r) \<Longrightarrow>
      shrink_result (avl_height r) (key_delete key (key n) (avl_inorder r)) (avl_remove cmp key r n)"
    and t: "avl_ok (AvlNode l e b r)" "key_sorted key (avl_inorder (AvlNode l e b r))"
  shows "shrink_result (avl_height (AvlNode l e b r)) (avl_inorder l @ avl_inorder r)
    (avl_removeroot cmp key (AvlNode l e b r))"
proof -
  have b: "b = int (avl_height r) - int (avl_height l)" "b \<in> {-1, 0, 1}" "avl_ok l" "avl_ok r"
    using t by auto
  consider "l = Null" | "r = Null" "l \<noteq> Null" | "l \<noteq> Null" "r \<noteq> Null" "b = -1"
    | "l \<noteq> Null" "r \<noteq> Null" "b \<noteq> -1" by auto
  then show ?thesis
  proof cases
    case 1
    with b show ?thesis by (simp add: shrink_result_def)
  next
    case 2
    with b show ?thesis by (simp add: shrink_result_def)
  next
    case 3
    let ?n = "last (avl_inorder l)"
    have n: "?n \<in> set (avl_inorder l)" using 3 by simp
    then have c: "cmp (key ?n) e < 0" using t by (simp add: cmp_less)
    from l [OF n] obtain ch l' where l': "avl_remove cmp key l ?n = Some (ch, l')" "avl_ok l'"
      "avl_height l' + (if ch then 1 else 0) = avl_height l" "avl_inorder l' = butlast (avl_inorder l)"
      using t 3 by (auto simp: shrink_result_def key_delete_last split: option.splits)
    have "butlast (avl_inorder l) @ ?n # avl_inorder r = avl_inorder l @ avl_inorder r"
      using 3 by (metis append_butlast_last_id append.assoc append_Cons append_Nil avl_inorder_Nil(1))
    then show ?thesis
      using 3 c l' b by (cases ch) (auto simp: rightmost_inorder remove_left_fix_def shrink_result_def)
  next
    case 4
    let ?n = "hd (avl_inorder r)"
    have n: "?n \<in> set (avl_inorder r)" using 4 by simp
    then have c: "\<not> cmp (key ?n) e < 0" "cmp (key ?n) e > 0" using t by (auto simp: cmp_less cmp_greater)
    from r [OF n] obtain ch r' where r': "avl_remove cmp key r ?n = Some (ch, r')" "avl_ok r'"
      "avl_height r' + (if ch then 1 else 0) = avl_height r" "avl_inorder r' = tl (avl_inorder r)"
      using t 4 by (auto simp: shrink_result_def key_delete_hd split: option.splits)
    have "avl_inorder l @ ?n # tl (avl_inorder r) = avl_inorder l @ avl_inorder r"
      using 4 by simp
    moreover have "b = 0 \<or> b = 1" using b 4 by auto
    ultimately show ?thesis
      using 4 c r' b by (cases ch) (auto simp: leftmost_inorder remove_right_fix_def shrink_result_def)
  qed
qed

lemma avl_remove_ok:
  assumes "avl_ok t" "key_sorted key (avl_inorder t)" "n \<in> set (avl_inorder t)"
  shows "shrink_result (avl_height t) (key_delete key (key n) (avl_inorder t)) (avl_remove cmp key t n)"
  using assms
proof (induction t arbitrary: n)
  case Null
  then show ?case by simp
next
  case (AvlNode l e b r)
  have b: "b = int (avl_height r) - int (avl_height l)" "b \<in> {-1, 0, 1}" "avl_ok l" "avl_ok r"
    and s: "key_sorted key (avl_inorder l)" "key_sorted key (avl_inorder r)"
    and lr: "\<And>x. x \<in> set (avl_inorder l) \<Longrightarrow> key x < key e" "\<And>y. y \<in> set (avl_inorder r) \<Longrightarrow> key e < key y"
    using AvlNode.prems by auto
  note IHl = AvlNode.IH(1) [OF b(3) s(1)] and IHr = AvlNode.IH(2) [OF b(4) s(2)]
  from AvlNode.prems(3) consider "n \<in> set (avl_inorder l)" | "n = e" | "n \<in> set (avl_inorder r)" by auto
  then show ?case
  proof cases
    case 1
    then have c: "cmp (key n) e < 0" and k: "key n < key e" using lr by (auto simp: cmp_less)
    have del: "key_delete key (key n) (avl_inorder r) = avl_inorder r"
      using lr(2) k by (intro key_delete_absent) force
    from IHl [OF 1] obtain ch l' where l': "avl_remove cmp key l n = Some (ch, l')" "avl_ok l'"
      "avl_height l' + (if ch then 1 else 0) = avl_height l"
      "avl_inorder l' = key_delete key (key n) (avl_inorder l)"
      by (auto simp: shrink_result_def split: option.splits)
    show ?thesis
    proof (cases ch)
      case True
      with 1 c k l' b del remove_left_fix_ok [of l' "avl_height l'" r b e] show ?thesis
        by (auto simp: Let_def)
    next
      case False
      with 1 c k l' b del show ?thesis by (auto simp: Let_def shrink_result_def)
    qed
  next
    case 2
    then have c: "cmp (key n) e = 0" by (simp add: cmp_zero)
    have "key_delete key (key e) (avl_inorder l) = avl_inorder l"
      "key_delete key (key e) (avl_inorder r) = avl_inorder r"
      using lr by (force intro!: key_delete_absent)+
    with 2 c avl_removeroot_step [OF IHl IHr AvlNode.prems(1,2)] show ?thesis
      by (simp add: Let_def del: avl_height.simps avl_removeroot.simps)
  next
    case 3
    then have k: "key e < key n" by (rule lr)
    then have c: "\<not> cmp (key n) e < 0" "cmp (key n) e > 0"
      by (auto simp: cmp_less cmp_greater)
    have del: "key_delete key (key n) (avl_inorder l) = avl_inorder l"
      using lr(1) k by (intro key_delete_absent) force
    from IHr [OF 3] obtain ch r' where r': "avl_remove cmp key r n = Some (ch, r')" "avl_ok r'"
      "avl_height r' + (if ch then 1 else 0) = avl_height r"
      "avl_inorder r' = key_delete key (key n) (avl_inorder r)"
      by (auto simp: shrink_result_def split: option.splits)
    show ?thesis
    proof (cases ch)
      case True
      with 3 c k r' b del remove_right_fix_ok [of r' "avl_height r'" l b e] show ?thesis
        by (auto simp: Let_def)
    next
      case False
      with 3 c k r' b del show ?thesis by (auto simp: Let_def shrink_result_def)
    qed
  qed
qed

lemma avl_modify_inorder:
  assumes "key_sorted key (avl_inorder t)"
  shows "avl_inorder (avl_modify cmp k f t) = map (\<lambda>e. if key e = k then f e else e) (avl_inorder t)"
  using assms
proof (induction t)
  case Null
  then show ?case by simp
next
  case (AvlNode l e b r)
  have out: "k \<le> key e \<Longrightarrow> map (\<lambda>e. if key e = k then f e else e) (avl_inorder r) = avl_inorder r"
    "key e \<le> k \<Longrightarrow> map (\<lambda>e. if key e = k then f e else e) (avl_inorder l) = avl_inorder l"
    using AvlNode.prems by (force intro!: map_idI)+
  from AvlNode out show ?case
    by (cases k "key e" rule: linorder_cases) (auto simp: Let_def cmp_less cmp_greater cmp_zero)
qed

end

lemma avl_modify_height [simp]: "avl_height (avl_modify cmp k f t) = avl_height t"
  by (induction t) (auto simp: Let_def)

lemma avl_modify_ok [simp]: "avl_ok (avl_modify cmp k f t) = avl_ok t"
  by (induction t) (auto simp: Let_def)

lemma avl_modify_size [simp]: "avl_size (avl_modify cmp k f t) = avl_size t"
  by (induction t) (auto simp: Let_def)

section \<open>Iteration\<close>

text \<open>The elements a stack still has to produce, and the room it needs: an entry at depth
  \<open>d\<close> may push as many nodes as its subtree is high.\<close>

fun entry_rest :: "'e avl \<times> nat \<Rightarrow> 'e list" where
  "entry_rest (Null, i) = []"
| "entry_rest (AvlNode l e b r, i) =
     (if i = 1 then avl_inorder l @ e # avl_inorder r
      else if i = 2 then e # avl_inorder r else avl_inorder r)"

definition stack_rest :: "'e iter_stack \<Rightarrow> 'e list" where
  "stack_rest s = concat (map entry_rest s)"

fun stack_room :: "'e iter_stack \<Rightarrow> bool" where
  "stack_room [] = True"
| "stack_room ((n, i) # s) =
     (length s + avl_height n \<le> STACK_MAX \<and> n \<noteq> Null \<and> 1 \<le> i \<and> i \<le> 3 \<and> stack_room s)"

lemma stack_rest_simps [simp]:
  "stack_rest [] = []" "stack_rest (x # s) = entry_rest x @ stack_rest s"
  by (simp_all add: stack_rest_def)

lemma case_1_ok:
  "n \<noteq> Null \<Longrightarrow> length s + avl_height n \<le> STACK_MAX \<Longrightarrow> stack_room s \<Longrightarrow>
   \<exists>s'. case_1 n s = Some s' \<and> stack_room s' \<and> stack_rest s' = avl_inorder n @ stack_rest s"
proof (induction n arbitrary: s)
  case Null
  then show ?case by simp
next
  case (AvlNode l e b r)
  have push: "stackPush s (AvlNode l e b r) 2 = Some ((AvlNode l e b r, 2) # s)"
    using AvlNode.prems by (simp add: stackPush_def)
  show ?case
  proof (cases "l = Null")
    case True
    with AvlNode.prems push show ?thesis by simp
  next
    case False
    with AvlNode.IH(1) [of "(AvlNode l e b r, 2) # s"] AvlNode.prems push show ?thesis by simp
  qed
qed

lemma next_loop_ok:
  "stack_room s \<Longrightarrow>
   \<exists>s'. next_loop s = Some (case stack_rest s of [] \<Rightarrow> (None, []) | x # xs \<Rightarrow> (Some x, s')) \<and>
        stack_room s' \<and> stack_rest s' = tl (stack_rest s)"
proof (induction s rule: next_loop.induct)
  case (1 s)
  show ?case
  proof (cases s)
    case Nil
    then show ?thesis by (intro exI [of _ "[]"]) (simp add: next_loop.simps)
  next
    case (Cons a s')
    obtain n i where a: "a = (n, i)" by force
    obtain l e b r where n: "n = AvlNode l e b r" using "1.prems" Cons a by (cases n) auto
    have room: "length s' + avl_height n \<le> STACK_MAX" "stack_room s'" "1 \<le> i" "i \<le> 3"
      using "1.prems" Cons a by auto
    note IH = "1.IH" [OF Cons a [symmetric] n]
    consider "i = 1" | "i = 2" | "i = 3" using room by linarith
    then show ?thesis
    proof cases
      case i: 1
      obtain s'' where s'': "case_1 n s' = Some s''" "stack_room s''"
        "stack_rest s'' = avl_inorder n @ stack_rest s'"
        using case_1_ok [of n s'] room n by auto
      from IH(1) [OF i s''(1) s''(2)] show ?thesis
        using i Cons a n s'' by (subst next_loop.simps) (simp del: case_1.simps)
    next
      case 2
      then show ?thesis
        using Cons a n room by (subst next_loop.simps) (simp add: stackPush_def)
    next
      case i: 3
      show ?thesis
      proof (cases "r = Null")
        case True
        with IH(3) i room show ?thesis
          using Cons a n by (subst next_loop.simps) simp
      next
        case False
        obtain s'' where s'': "case_1 r s' = Some s''" "stack_room s''"
          "stack_rest s'' = avl_inorder r @ stack_rest s'"
          using case_1_ok [of r s'] room n False by (auto simp: max_def split: if_splits)
        from IH(2) [OF _ _ _ False s''(1) s''(2)] i show ?thesis
          using Cons a n s'' False by (subst next_loop.simps) (simp del: case_1.simps)
      qed
    qed
  qed
qed

lemma next_all_ok: "stack_room s \<Longrightarrow> next_all s = Some (stack_rest s)"
proof (induction s rule: next_all.induct)
  case (1 s)
  obtain s' where s': "next_loop s = Some (case stack_rest s of [] \<Rightarrow> (None, []) | x # xs \<Rightarrow> (Some x, s'))"
    "stack_room s'" "stack_rest s' = tl (stack_rest s)"
    using next_loop_ok [OF "1.prems"] by blast
  with "1.IH" show ?case
    by (subst next_all.simps) (auto split: list.splits)
qed

lemma iterate_inorder:
  "avl_height (oset_root t) \<le> STACK_MAX \<Longrightarrow> OSetGen_iterate t = Some (avl_inorder (oset_root t))"
  using next_all_ok [of "[(oset_root t, 1)]"]
  by (cases "oset_root t")
    (auto simp: OSetGen_iterate_def OSetGen_ResetIter_def stackPush_def STACK_MAX_def next_all_ok)

subsection \<open>How many elements fit under the stack limit\<close>

text \<open>The least size of an AVL tree of height \<open>h\<close>, by the Fibonacci-like recurrence.\<close>

fun avl_min_iter :: "nat \<Rightarrow> nat \<Rightarrow> nat \<Rightarrow> nat" where
  "avl_min_iter 0 a b = a"
| "avl_min_iter (Suc h) a b = avl_min_iter h b (a + b + 1)"

definition avl_min_size :: "nat \<Rightarrow> nat" where
  "avl_min_size h = avl_min_iter h 0 1"

lemma avl_min_iter_Suc_Suc:
  "avl_min_iter (Suc (Suc h)) a b = Suc (avl_min_iter h a b + avl_min_iter (Suc h) a b)"
proof (induction h arbitrary: a b)
  case (Suc h)
  from Suc.IH [of b "a + b + 1"] show ?case by (metis avl_min_iter.simps(2))
qed simp

lemma avl_min_size_Suc_Suc:
  "avl_min_size (Suc (Suc h)) = Suc (avl_min_size h + avl_min_size (Suc h))"
  by (simp only: avl_min_size_def avl_min_iter_Suc_Suc)

lemma avl_min_size_0_1 [simp]: "avl_min_size 0 = 0" "avl_min_size (Suc 0) = 1"
  by (simp_all add: avl_min_size_def)

lemma avl_min_size_mono: "avl_min_size h \<le> avl_min_size (Suc h)"
  by (cases h) (auto simp: avl_min_size_Suc_Suc)

lemma avl_min_size_le: "avl_ok t \<Longrightarrow> avl_min_size (avl_height t) \<le> avl_size t"
proof (induction t)
  case Null
  then show ?case by simp
next
  case (AvlNode l e b r)
  have IH: "avl_min_size (avl_height l) \<le> avl_size l" "avl_min_size (avl_height r) \<le> avl_size r"
    using AvlNode by auto
  have hs: "avl_height r = avl_height l \<or> avl_height r = Suc (avl_height l) \<or> avl_height l = Suc (avl_height r)"
    using AvlNode.prems by auto
  have mono: "avl_min_size (avl_height l - 1) \<le> avl_min_size (avl_height l)"
    using avl_min_size_mono [of "avl_height l - 1"] by (cases "avl_height l") auto
  from hs show ?case
  proof (elim disjE)
    assume "avl_height r = avl_height l"
    with IH mono show ?thesis
      by (cases "avl_height l") (auto simp: avl_min_size_Suc_Suc)
  qed (use IH in \<open>auto simp: avl_min_size_Suc_Suc\<close>)
qed

lemma avl_min_size_mono': "i \<le> j \<Longrightarrow> avl_min_size i \<le> avl_min_size j"
  by (rule lift_Suc_mono_le [of avl_min_size]) (rule avl_min_size_mono)

text \<open>The number of elements below which the iterator stack always suffices.\<close>

definition ITER_SAFE :: nat where
  "ITER_SAFE = 9227464"

lemma avl_min_iter_numeral:
  "avl_min_iter (numeral k) a b = avl_min_iter (pred_numeral k) b (a + b + 1)"
  by (simp only: numeral_eq_Suc avl_min_iter.simps)

lemma avl_min_iter_1: "avl_min_iter 1 a b = b"
  by simp

lemma avl_min_size_33: "avl_min_size 33 = ITER_SAFE"
  by (simp add: avl_min_size_def ITER_SAFE_def avl_min_iter_numeral avl_min_iter_1
      del: One_nat_def avl_min_iter.simps)

lemma iter_safe_height:
  assumes "avl_ok t" "avl_size t < ITER_SAFE"
  shows "avl_height t \<le> STACK_MAX"
proof (rule ccontr)
  assume "\<not> avl_height t \<le> STACK_MAX"
  then have "33 \<le> avl_height t" by (simp add: STACK_MAX_def)
  then have "ITER_SAFE \<le> avl_min_size (avl_height t)"
    using avl_min_size_mono' [of 33] by (simp add: avl_min_size_33)
  with assms avl_min_size_le [of t] show False by simp
qed


section \<open>The operations on whole sets\<close>

definition oset_inv :: "('e \<Rightarrow> 'k::linorder) \<Rightarrow> 'e oset \<Rightarrow> bool" where
  "oset_inv key t \<longleftrightarrow>
     avl_ok (oset_root t) \<and> key_sorted key (avl_inorder (oset_root t)) \<and>
     nElems t = of_nat (avl_size (oset_root t))"

abbreviation oset_elems :: "'e oset \<Rightarrow> 'e list" where
  "oset_elems t \<equiv> avl_inorder (oset_root t)"

lemma oset_inv_create [simp]: "oset_inv key OSetGen_Create"
  by (simp add: oset_inv_def OSetGen_Create_def)

lemma oset_elems_create [simp]: "oset_elems OSetGen_Create = []"
  by (simp add: OSetGen_Create_def)

lemma key_sorted_map: "key_sorted key xs \<longleftrightarrow> sorted_wrt (<) (map key xs)"
  by (simp add: key_sorted_def sorted_wrt_map)

context oset_order
begin

lemma lookup_elems: "oset_inv key t \<Longrightarrow> OSetGen_Lookup cmp t k = elem_map key (oset_elems t) k"
  by (simp add: OSetGen_Lookup_def oset_inv_def avl_lookup_elem_map)

lemma insert_elems:
  assumes inv: "oset_inv key t" and new: "OSetGen_Lookup cmp t (key e) = None"
  shows "\<exists>t'. OSetGen_Insert cmp key t e = Some t' \<and> oset_inv key t' \<and>
    oset_elems t' = insort_key key e (oset_elems t)"
proof (cases "oset_root t = Null")
  case True
  with inv show ?thesis by (simp add: OSetGen_Insert_def oset_inv_def)
next
  case False
  have fresh: "key e \<notin> key ` set (oset_elems t)"
    using new inv by (simp add: lookup_elems elem_map_None)
  with inv False have "fix_result (avl_height (oset_root t)) (insort_key key e (oset_elems t))
      (avl_insert cmp key (oset_root t) e)"
    by (intro avl_insert_ok) (auto simp: oset_inv_def)
  then obtain g rt where rt: "avl_insert cmp key (oset_root t) e = Some (g, rt)" "avl_ok rt"
    "avl_inorder rt = insort_key key e (oset_elems t)"
    by (auto simp: fix_result_def split: option.splits)
  then have "avl_size rt = Suc (avl_size (oset_root t))"
    by (metis length_avl_inorder length_insort)
  with rt False inv fresh show ?thesis
    by (auto simp: OSetGen_Insert_def oset_inv_def key_sorted_insort algebra_simps)
qed

lemma remove_elems:
  assumes inv: "oset_inv key t"
  shows "\<exists>t'. OSetGen_Remove cmp key t k = Some (OSetGen_Lookup cmp t k, t') \<and> oset_inv key t' \<and>
    oset_elems t' = key_delete key k (oset_elems t)"
proof (cases "OSetGen_Lookup cmp t k")
  case None
  with inv have "k \<notin> key ` set (oset_elems t)" by (simp add: lookup_elems elem_map_None)
  with None inv show ?thesis
    by (auto simp: OSetGen_Remove_def OSetGen_Lookup_def key_delete_absent)
next
  case (Some n)
  with inv have n: "n \<in> set (oset_elems t)" "key n = k"
    by (auto simp: lookup_elems dest: elem_map_Some)
  with inv have "shrink_result (avl_height (oset_root t)) (key_delete key k (oset_elems t))
      (avl_remove cmp key (oset_root t) n)"
    using avl_remove_ok [of "oset_root t" n] by (simp add: oset_inv_def)
  then obtain ch rt where rt: "avl_remove cmp key (oset_root t) n = Some (ch, rt)" "avl_ok rt"
    "avl_inorder rt = key_delete key k (oset_elems t)"
    by (auto simp: shrink_result_def split: option.splits)
  have "length (key_delete key k xs) = length xs - 1"
    if "key_sorted key xs" "n \<in> set xs" "key n = k" for xs
    using that
  proof (induction xs)
    case (Cons x xs)
    show ?case
    proof (cases "key x = k")
      case True
      with Cons.prems have "k \<notin> key ` set xs" by force
      with True show ?thesis by (simp add: key_delete_absent)
    next
      case False
      with Cons show ?thesis by (cases xs) auto
    qed
  qed simp
  then have "avl_size rt = avl_size (oset_root t) - 1"
    using n inv rt(3) unfolding length_avl_inorder [symmetric] by (simp add: oset_inv_def)
  moreover have "avl_size (oset_root t) \<noteq> 0"
    using n by (cases "oset_root t") auto
  ultimately show ?thesis
    using rt Some inv by (simp add: OSetGen_Remove_def OSetGen_Lookup_def oset_inv_def key_sorted_delete)
qed

lemma modify_elems:
  assumes "oset_inv key t" "\<And>e. key (f e) = key e"
  shows "oset_inv key (oset_modify cmp k f t) \<and>
    oset_elems (oset_modify cmp k f t) = map (\<lambda>e. if key e = k then f e else e) (oset_elems t)"
proof -
  have "key_sorted key (map (\<lambda>e. if key e = k then f e else e) xs) = key_sorted key xs" for xs
    using assms(2) by (simp add: key_sorted_map comp_def if_distrib [of key] cong: if_cong)
  with assms show ?thesis
    by (auto simp: oset_modify_def oset_inv_def avl_modify_inorder)
qed

end

lemma elem_map_map:
  "(\<And>e. key (f e) = key e) \<Longrightarrow>
   elem_map key (map (\<lambda>e. if key e = k then f e else e) xs) j =
     (if j = k then map_option f (elem_map key xs k) else elem_map key xs j)"
  by (induction xs) auto

subsection \<open>The contract the clients use\<close>

text \<open>A table of elements with a key each: what the auxiliary primary map and the secondary
  V-bits table need of the ordered set they are built on.\<close>

locale keyed_table =
  fixes key :: "'e \<Rightarrow> 'k" and inv :: "'t \<Rightarrow> bool" and empty :: 't
    and lookup :: "'t \<Rightarrow> 'k \<Rightarrow> 'e option" and insert :: "'t \<Rightarrow> 'e \<Rightarrow> 't option"
    and modify :: "'k \<Rightarrow> ('e \<Rightarrow> 'e) \<Rightarrow> 't \<Rightarrow> 't"
  assumes inv_empty: "inv empty" and lookup_empty: "lookup empty k = None"
    and insert_new: "inv t \<Longrightarrow> lookup t (key e) = None \<Longrightarrow>
      \<exists>t'. insert t e = Some t' \<and> inv t' \<and> lookup t' = (lookup t)(key e \<mapsto> e)"
    and modify_inv: "inv t \<Longrightarrow> (\<And>e. key (f e) = key e) \<Longrightarrow> inv (modify k f t)"
    and modify_lookup: "inv t \<Longrightarrow> (\<And>e. key (f e) = key e) \<Longrightarrow>
      lookup (modify k f t) = (lookup t)(k := map_option f (lookup t k))"
    and lookup_key: "inv t \<Longrightarrow> lookup t k = Some e \<Longrightarrow> key e = k"
begin

text \<open>Find an element or insert a fresh one: the pattern of \<open>find_or_alloc_in_auxmap\<close> and
  \<open>set_sec_vbits8\<close>.\<close>

lemma find_or_insert:
  assumes "inv t" "key e = k"
  shows "\<exists>t'. (case lookup t k of None \<Rightarrow> insert t e | Some _ \<Rightarrow> Some t) = Some t' \<and> inv t' \<and>
    lookup t' = (lookup t)(k \<mapsto> (case lookup t k of None \<Rightarrow> e | Some x \<Rightarrow> x))"
proof (cases "lookup t k")
  case None
  with insert_new [of t e] assms show ?thesis by auto
next
  case (Some x)
  then have "(lookup t)(k \<mapsto> x) = lookup t" by auto
  with Some assms show ?thesis by simp
qed

lemma insert_Some:
  assumes "inv t" "lookup t (key e) = None" "insert t e = Some t'"
  shows "inv t'" "lookup t' = (lookup t)(key e \<mapsto> e)"
  using insert_new [OF assms(1,2)] assms(3) by auto

end

sublocale oset_order \<subseteq> table: keyed_table key "oset_inv key" OSetGen_Create
  "OSetGen_Lookup cmp" "OSetGen_Insert cmp key" "oset_modify cmp"
proof unfold_locales
  show "oset_inv key OSetGen_Create" by simp
  show "OSetGen_Lookup cmp OSetGen_Create k = None" for k
    by (simp add: lookup_elems)
  show "\<exists>t'. OSetGen_Insert cmp key t e = Some t' \<and> oset_inv key t' \<and>
      OSetGen_Lookup cmp t' = (OSetGen_Lookup cmp t)(key e \<mapsto> e)"
    if "oset_inv key t" "OSetGen_Lookup cmp t (key e) = None" for t e
    using insert_elems [OF that] that
    by (auto simp: lookup_elems elem_map_insort elem_map_None fun_eq_iff)
  show "oset_inv key (oset_modify cmp k f t)" if "oset_inv key t" "\<And>e. key (f e) = key e" for t k f
    using modify_elems [OF that] by blast
  show "OSetGen_Lookup cmp (oset_modify cmp k f t) = (OSetGen_Lookup cmp t)(k := map_option f (OSetGen_Lookup cmp t k))"
    if "oset_inv key t" "\<And>e. key (f e) = key e" for t k f
    using modify_elems [OF that] that by (auto simp: lookup_elems elem_map_map fun_eq_iff)
  show "key e = k" if "oset_inv key t" "OSetGen_Lookup cmp t k = Some e" for t k e
    using that by (auto simp: lookup_elems dest: elem_map_Some)
qed

text \<open>The fast comparison, on the first word of an element, satisfies the contract.\<close>

lemma fast_cmp_order: "oset_order (fast_cmp key) key"
  by unfold_locales (auto simp: fast_cmp_def)

section \<open>Insertion, iteration from a key and word sets\<close>

subsection \<open>Facts the model of insertion rests on\<close>

text \<open>A subtree that has grown keeps its root element: the code relies on it when it leaves the
  parent's pointer alone.\<close>

fun root_elem :: "'e avl \<Rightarrow> 'e option" where
  "root_elem Null = None"
| "root_elem (AvlNode l e b r) = Some e"

lemma avl_insert_grown_root:
  "avl_insert cmp key t n = Some (True, t') \<Longrightarrow> root_elem t' = root_elem t"
  by (cases t)
    (auto simp: Let_def bind_Some_iff insert_left_fix_def insert_right_fix_def split: if_splits)

context oset_order
begin

lemma insert_duplicate_fails:
  "avl_lookup cmp t (key n) = Some e \<Longrightarrow> avl_insert cmp key t n = None"
  by (induction t) (auto simp: Let_def split: if_splits)

lemma reset_at_ok:
  "key_sorted key (avl_inorder t) \<Longrightarrow> length s + avl_height t \<le> STACK_MAX \<Longrightarrow> stack_room s \<Longrightarrow>
   \<exists>s'. reset_at cmp t k s = Some s' \<and> stack_room s' \<and>
     stack_rest s' = filter (\<lambda>e. k \<le> key e) (avl_inorder t) @ stack_rest s"
proof (induction t arbitrary: s)
  case Null
  then show ?case by simp
next
  case (AvlNode l e b r)
  have push: "stackPush s (AvlNode l e b r) 2 = Some ((AvlNode l e b r, 2) # s)"
    using AvlNode.prems by (simp add: stackPush_def)
  have le: "key e \<le> key y" if "y \<in> set (avl_inorder r)" for y
    using AvlNode.prems(1) that by (auto intro: order.strict_implies_order)
  have gt: "key y < key e" if "y \<in> set (avl_inorder l)" for y
    using AvlNode.prems(1) that by auto
  consider (eq) "k = key e" | (less) "k < key e" | (greater) "key e < k" by force
  then show ?case
  proof cases
    case eq
    then have "filter (\<lambda>e. k \<le> key e) (avl_inorder l) = []"
      using gt by (auto simp: filter_empty_conv not_le)
    moreover have "filter (\<lambda>e. k \<le> key e) (avl_inorder r) = avl_inorder r"
      using eq le by (auto simp: filter_id_conv)
    ultimately show ?thesis
      using eq push AvlNode.prems by (auto simp: Let_def cmp_zero)
  next
    case less
    then have "filter (\<lambda>e. k \<le> key e) (avl_inorder r) = avl_inorder r"
      using le by (auto simp: filter_id_conv) (meson order.trans order.strict_implies_order)
    moreover have "cmp k e < 0" using less by (simp add: cmp_less)
    ultimately show ?thesis
      using less push AvlNode.prems AvlNode.IH(1) [of "(AvlNode l e b r, 2) # s"]
      by (auto simp: Let_def)
  next
    case greater
    then have "filter (\<lambda>e. k \<le> key e) (avl_inorder l) = []"
      using gt by (fastforce simp: filter_empty_conv not_le)
    moreover have "cmp k e > 0" using greater by (simp add: cmp_greater)
    ultimately show ?thesis
      using greater AvlNode.prems AvlNode.IH(2) [of s] by (auto simp: Let_def)
  qed
qed

end

section \<open>Sets of words\<close>

definition OSetWord_Create :: "u64 oset" where "OSetWord_Create = OSetGen_Create"

definition OSetWord_Insert :: "u64 oset \<Rightarrow> u64 \<Rightarrow> u64 oset option" where
  "OSetWord_Insert t val = OSetGen_Insert (fast_cmp id) id t val"

definition OSetWord_Contains :: "u64 oset \<Rightarrow> u64 \<Rightarrow> bool" where
  "OSetWord_Contains t val \<longleftrightarrow> OSetGen_Lookup (fast_cmp id) t val \<noteq> None"

definition OSetWord_Remove :: "u64 oset \<Rightarrow> u64 \<Rightarrow> (bool \<times> u64 oset) option" where
  "OSetWord_Remove t val = do {
     (n, t') \<leftarrow> OSetGen_Remove (fast_cmp id) id t val;
     Some (n \<noteq> None, t')
   }"

definition OSetWord_ResetIter :: "u64 oset \<Rightarrow> u64 oset option" where
  "OSetWord_ResetIter t = OSetGen_ResetIter t"

definition OSetWord_Next :: "u64 oset \<Rightarrow> u64 \<Rightarrow> (bool \<times> u64 \<times> u64 oset) option" where
  "OSetWord_Next t val = do {
     (n, t') \<leftarrow> OSetGen_Next t;
     Some (case n of Some w \<Rightarrow> (True, w, t') | None \<Rightarrow> (False, val, t'))
   }"

definition OSetWord_Size :: "u64 oset \<Rightarrow> u64" where
  "OSetWord_Size t = ucast (OSetGen_Size t)"

interpretation fast: oset_order "fast_cmp key" key for key :: "'e \<Rightarrow> 'k::linorder"
  by (rule fast_cmp_order)

text \<open>A set of words is a finite set: the abstract view of the word operations.\<close>

locale word_set =
  fixes inv :: "'t \<Rightarrow> bool" and elems :: "'t \<Rightarrow> 'a set"
    and create :: 't and contains :: "'t \<Rightarrow> 'a \<Rightarrow> bool"
    and insert_op :: "'t \<Rightarrow> 'a \<Rightarrow> 't option" and remove_op :: "'t \<Rightarrow> 'a \<Rightarrow> (bool \<times> 't) option"
  assumes create: "inv create \<and> elems create = {}"
    and contains: "inv t \<Longrightarrow> contains t x \<longleftrightarrow> x \<in> elems t"
    and insert_op: "inv t \<Longrightarrow> x \<notin> elems t \<Longrightarrow>
      \<exists>t'. insert_op t x = Some t' \<and> inv t' \<and> elems t' = insert x (elems t)"
    and remove_op: "inv t \<Longrightarrow>
      \<exists>t'. remove_op t x = Some (x \<in> elems t, t') \<and> inv t' \<and> elems t' = elems t - {x}"
begin

lemma insert_remove:
  assumes "inv t" "x \<notin> elems t"
  shows "\<exists>t1 t2. insert_op t x = Some t1 \<and> remove_op t1 x = Some (True, t2) \<and> inv t2 \<and> elems t2 = elems t"
proof -
  obtain t1 where t1: "insert_op t x = Some t1" "inv t1" "elems t1 = insert x (elems t)"
    using insert_op [OF assms] by blast
  moreover obtain t2 where "remove_op t1 x = Some (x \<in> elems t1, t2)" "inv t2" "elems t2 = elems t1 - {x}"
    using remove_op [OF t1(2)] by blast
  ultimately show ?thesis using assms by auto
qed

end

interpretation word_oset: word_set "oset_inv id" "\<lambda>t. set (oset_elems t)" OSetWord_Create
  OSetWord_Contains OSetWord_Insert OSetWord_Remove
proof unfold_locales
  show "oset_inv id OSetWord_Create \<and> set (oset_elems OSetWord_Create) = {}"
    by (simp add: OSetWord_Create_def)
  show "OSetWord_Contains t x = (x \<in> set (oset_elems t))" if "oset_inv id t" for t x
    using that by (auto simp: OSetWord_Contains_def fast.lookup_elems elem_map_None
        simp flip: not_None_eq)
  show "\<exists>t'. OSetWord_Insert t x = Some t' \<and> oset_inv id t' \<and> set (oset_elems t') = insert x (set (oset_elems t))"
    if "oset_inv id t" "x \<notin> set (oset_elems t)" for t x
    using fast.insert_elems [OF that(1), of x] that
    by (auto simp: OSetWord_Insert_def fast.lookup_elems elem_map_None set_insort_key)
  show "\<exists>t'. OSetWord_Remove t x = Some (x \<in> set (oset_elems t), t') \<and> oset_inv id t' \<and>
      set (oset_elems t') = set (oset_elems t) - {x}" if "oset_inv id t" for t x
    using fast.remove_elems [OF that, of x] that
    by (auto simp: OSetWord_Remove_def fast.lookup_elems elem_map_None bind_Some_iff simp flip: not_None_eq)
qed

section \<open>Sets the iterator cannot walk\<close>

text \<open>The sparsest balanced tree of height \<open>h\<close>, its elements numbered in order from \<open>o\<close>, the
  higher subtree on the left.\<close>

fun fib_tree :: "nat \<Rightarrow> nat \<Rightarrow> u64 avl" where
  "fib_tree 0 i = Null"
| "fib_tree (Suc 0) i = AvlNode Null (of_nat i) 0 Null"
| "fib_tree (Suc (Suc h)) i =
     (let m = i + avl_min_size (Suc h)
      in AvlNode (fib_tree (Suc h) i) (of_nat m) (-1) (fib_tree h (Suc m)))"

lemma fib_tree_height [simp]: "avl_height (fib_tree h i) = h"
  by (induction h i rule: fib_tree.induct) (auto simp: Let_def)

lemma fib_tree_ok [simp]: "avl_ok (fib_tree h i)"
  by (induction h i rule: fib_tree.induct) (auto simp: Let_def)

lemma fib_tree_inorder: "avl_inorder (fib_tree h i) = map of_nat [i..<i + avl_min_size h]"
proof (induction h i rule: fib_tree.induct)
  case (3 h i)
  let ?m = "i + avl_min_size (Suc h)"
  have "[i..<i + avl_min_size (Suc (Suc h))] = [i..<?m] @ ?m # [Suc ?m..<Suc ?m + avl_min_size h]"
    using upt_add_eq_append [of i ?m "Suc (avl_min_size h)"]
    by (simp add: avl_min_size_Suc_Suc upt_conv_Cons algebra_simps del: upt_Suc)
  with 3 show ?case by (simp add: Let_def)
qed simp_all

fun left_spine :: "'e avl \<Rightarrow> nat" where
  "left_spine Null = 0"
| "left_spine (AvlNode l e b r) = Suc (left_spine l)"

lemma fib_tree_spine [simp]: "left_spine (fib_tree h i) = h"
  by (induction h i rule: fib_tree.induct) (auto simp: Let_def)

lemma case_1_overflow:
  "length s + left_spine n > STACK_MAX \<Longrightarrow> case_1 n s = None"
proof (induction n arbitrary: s)
  case (AvlNode l e b r)
  then show ?case
    by (cases "length s < STACK_MAX"; cases "l = Null") (auto simp: stackPush_def)
qed simp

lemma iterate_overflow:
  assumes "left_spine (oset_root t) > STACK_MAX"
  shows "OSetGen_iterate t = None"
proof -
  obtain l e b r where n: "oset_root t = AvlNode l e b r" using assms by (cases "oset_root t") auto
  have "next_loop [(oset_root t, 1)] = None"
    using case_1_overflow [of "[]" "oset_root t"] assms n
    by (subst next_loop.simps) (simp del: case_1.simps)
  then show ?thesis
    using n by (simp add: OSetGen_iterate_def OSetGen_ResetIter_def stackPush_def STACK_MAX_def next_all.simps)
qed

definition fib_oset :: "u64 oset" where
  "fib_oset = \<lparr>oset_root = fib_tree 33 0, nElems = of_nat ITER_SAFE, iterStack = []\<rparr>"

lemma fib_oset_inv: "oset_inv id fib_oset"
proof -
  have "sorted_wrt (<) (map (of_nat :: nat \<Rightarrow> u64) [0..<ITER_SAFE])"
    unfolding sorted_wrt_map
    by (rule sorted_wrt_mono_rel [OF _ sorted_wrt_upt])
      (auto simp: ITER_SAFE_def of_nat_word_less_iff take_bit_nat_eq_self)
  then have "key_sorted id (avl_inorder (fib_tree 33 0))"
    by (simp add: fib_tree_inorder avl_min_size_33 key_sorted_def)
  moreover have "avl_size (fib_tree 33 0) = ITER_SAFE"
    by (metis avl_min_size_33 fib_tree_inorder length_avl_inorder length_map length_upt add_diff_cancel_left')
  ultimately show ?thesis
    by (simp add: oset_inv_def fib_oset_def)
qed


section \<open>Properties\<close>

text \<open>C1: Inserting an element whose key is absent succeeds, keeps the AVL and order
  invariants, changes the lookup function at that key only, and counts one element more.\<close>

theorem OSetGen_Insert_refines_update:
  assumes "oset_inv key t" "OSetGen_Lookup (fast_cmp key) t (key e) = None"
  shows "\<exists>t'. OSetGen_Insert (fast_cmp key) key t e = Some t' \<and> oset_inv key t' \<and>
    OSetGen_Lookup (fast_cmp key) t' = (OSetGen_Lookup (fast_cmp key) t)(key e \<mapsto> e) \<and>
    oset_elems t' = insort_key key e (oset_elems t) \<and> OSetGen_Size t' = OSetGen_Size t + 1"
proof -
  obtain t' where t': "OSetGen_Insert (fast_cmp key) key t e = Some t'" "oset_inv key t'"
    "oset_elems t' = insort_key key e (oset_elems t)"
    using fast.insert_elems [OF assms] by blast
  moreover have "OSetGen_Lookup (fast_cmp key) t' = (OSetGen_Lookup (fast_cmp key) t)(key e \<mapsto> e)"
    using fast.table.insert_Some [OF assms t'(1)] by blast
  moreover have "OSetGen_Size t' = OSetGen_Size t + 1"
    using t'(1) by (auto simp: OSetGen_Insert_def OSetGen_Size_def bind_Some_iff split: if_splits)
  ultimately show ?thesis by blast
qed

definition sample_oset :: "nat oset" where
  "sample_oset = \<lparr>oset_root = AvlNode (AvlNode Null 2 0 Null) 5 (-1) Null, nElems = 2, iterStack = []\<rparr>"

lemma sample_oset_inv: "oset_inv id sample_oset"
  by (simp add: sample_oset_def oset_inv_def key_sorted_def)

lemma sample_oset_lookup: "OSetGen_Lookup (fast_cmp id) sample_oset k =
    (if k = 2 then Some 2 else if k = 5 then Some 5 else None)"
  using fast.lookup_elems [OF sample_oset_inv, of k] by (simp add: sample_oset_def)

theorem OSetGen_Insert_refines_update_witness:
  "\<exists>t'. OSetGen_Insert (fast_cmp id) id sample_oset 1 = Some t' \<and> oset_elems t' = [1, 2, 5]"
  using OSetGen_Insert_refines_update [OF sample_oset_inv, of 1]
  by (auto simp: sample_oset_lookup) (auto simp: sample_oset_def)

text \<open>C2: Removing by key succeeds on every well-formed set: it returns the element that had
  the key (NULL when there was none), keeps the invariants, and removes exactly that key.\<close>

theorem OSetGen_Remove_refines_delete:
  assumes "oset_inv key t"
  shows "\<exists>t'. OSetGen_Remove (fast_cmp key) key t k = Some (OSetGen_Lookup (fast_cmp key) t k, t') \<and>
    oset_inv key t' \<and> OSetGen_Lookup (fast_cmp key) t' = (OSetGen_Lookup (fast_cmp key) t)(k := None)"
  using fast.remove_elems [OF assms, of k] fast.lookup_elems [OF assms]
  by (auto simp: fast.lookup_elems elem_map_delete fun_eq_iff)

theorem OSetGen_Remove_refines_delete_witness:
  "\<exists>t'. OSetGen_Remove (fast_cmp id) id sample_oset 5 = Some (Some 5, t') \<and> oset_inv id t' \<and>
    OSetGen_Lookup (fast_cmp id) t' 5 = None \<and> OSetGen_Lookup (fast_cmp id) t' 2 = Some 2"
  using OSetGen_Remove_refines_delete [OF sample_oset_inv, of 5]
  by (auto simp: sample_oset_lookup fun_eq_iff)

text \<open>C3: A set of fewer than 9227464 elements is iterated completely: reset and repeated next
  produce every element once, in key order, and the stack of 32 entries never overflows.\<close>

theorem OSetGen_iterate_complete:
  assumes "oset_inv key t" "avl_size (oset_root t) < ITER_SAFE"
  shows "\<exists>xs. OSetGen_iterate t = Some xs \<and> sorted_wrt (<) (map key xs) \<and>
    set xs = {e. OSetGen_Lookup (fast_cmp key) t (key e) = Some e}"
proof -
  have "OSetGen_iterate t = Some (oset_elems t)"
    using assms by (intro iterate_inorder iter_safe_height) (auto simp: oset_inv_def)
  moreover have "set (oset_elems t) = {e. OSetGen_Lookup (fast_cmp key) t (key e) = Some e}"
    using assms by (auto simp: fast.lookup_elems oset_inv_def elem_map_in dest: elem_map_Some)
  ultimately show ?thesis
    using assms by (auto simp: oset_inv_def key_sorted_map)
qed

theorem OSetGen_iterate_complete_witness:
  "\<exists>xs. OSetGen_iterate sample_oset = Some xs \<and> sorted_wrt (<) (map id xs) \<and> set xs = {2, 5}"
  using OSetGen_iterate_complete [OF sample_oset_inv]
  by (auto simp: sample_oset_lookup) (auto simp: sample_oset_def ITER_SAFE_def split: if_splits)

text \<open>C4: \<open>OSetGen_ResetIterAt\<close> starts the iteration at the least key that is not below the
  given one: what follows is every element with such a key, in order.\<close>

theorem OSetGen_ResetIterAt_suffix:
  assumes "oset_inv key t" "avl_size (oset_root t) < ITER_SAFE"
  shows "\<exists>t'. OSetGen_ResetIterAt (fast_cmp key) t k = Some t' \<and>
    next_all (iterStack t') = Some (filter (\<lambda>e. k \<le> key e) (oset_elems t))"
proof -
  have "avl_height (oset_root t) \<le> STACK_MAX"
    using assms by (intro iter_safe_height) (auto simp: oset_inv_def)
  then show ?thesis
    using assms fast.reset_at_ok [of key "oset_root t" "[]" k]
    by (auto simp: OSetGen_ResetIterAt_def oset_inv_def next_all_ok)
qed

theorem OSetGen_ResetIterAt_suffix_witness:
  "\<exists>t'. OSetGen_ResetIterAt (fast_cmp id) sample_oset 3 = Some t' \<and> next_all (iterStack t') = Some [5]"
  using OSetGen_ResetIterAt_suffix [OF sample_oset_inv, of 3]
  by (simp add: sample_oset_def ITER_SAFE_def)

text \<open>C5: The limit on iteration is the height of the tree, 32, and not the 2**32 entries the
  comment on \<open>STACK_MAX\<close> gives: there is a well-formed set of 9227464 words whose iteration
  fails the assertion of \<open>stackPush\<close>.\<close>

theorem OSetGen_iterate_limit:
  "oset_inv id fib_oset \<and> OSetGen_Size fib_oset = 9227464 \<and> OSetGen_iterate fib_oset = None"
  by (simp add: fib_oset_inv iterate_overflow) (simp add: fib_oset_def OSetGen_Size_def ITER_SAFE_def STACK_MAX_def iterate_overflow)

end
