(* ===== verification/TntBits.thy ===== *)
theory TntBits
  imports Prelude
begin

text \<open>
  The bit layout of Taintgrind's shadow memory (\<^verbatim>\<open>taintgrind/tnt_main.c\<close>, lines 93 to
  150 and 577 to 613): two bits describe a byte of client memory, a \<open>vabits8\<close> describes four
  bytes, a secondary map 64k of them. The model is of the 64-bit little-endian build
  (\<open>VG_WORDSIZE = 8\<close>, \<open>N_PRIMARY_BITS = 19\<close>).
\<close>

section \<open>Constants and address arithmetic\<close>

definition N_PRIMARY_BITS :: nat where "N_PRIMARY_BITS = 19"
definition N_PRIMARY_MAP :: u64 where "N_PRIMARY_MAP = push_bit N_PRIMARY_BITS 1"
definition MAX_PRIMARY_ADDRESS :: addr where "MAX_PRIMARY_ADDRESS = 65536 * N_PRIMARY_MAP - 1"

definition SM_SIZE :: u64 where "SM_SIZE = 65536"
definition SM_MASK :: u64 where "SM_MASK = SM_SIZE - 1"
definition SM_CHUNKS :: nat where "SM_CHUNKS = 16384"

definition VA_BITS2_NOACCESS :: u8 where "VA_BITS2_NOACCESS = 0x0"
definition VA_BITS2_TAINTED :: u8 where "VA_BITS2_TAINTED = 0x1"
definition VA_BITS2_UNTAINTED :: u8 where "VA_BITS2_UNTAINTED = 0x2"
definition VA_BITS2_PARTUNTAINTED :: u8 where "VA_BITS2_PARTUNTAINTED = 0x3"
definition VA_BITS4_TAINTED :: u8 where "VA_BITS4_TAINTED = 0x5"
definition VA_BITS4_UNTAINTED :: u8 where "VA_BITS4_UNTAINTED = 0xa"
definition VA_BITS8_NOACCESS :: u8 where "VA_BITS8_NOACCESS = 0x00"
definition VA_BITS8_TAINTED :: u8 where "VA_BITS8_TAINTED = 0x55"
definition VA_BITS8_UNTAINTED :: u8 where "VA_BITS8_UNTAINTED = 0xaa"
definition VA_BITS16_NOACCESS :: u16 where "VA_BITS16_NOACCESS = 0x0000"
definition VA_BITS16_TAINTED :: u16 where "VA_BITS16_TAINTED = 0x5555"
definition VA_BITS16_UNTAINTED :: u16 where "VA_BITS16_UNTAINTED = 0xaaaa"

definition V_BITS8_UNTAINTED :: u8 where "V_BITS8_UNTAINTED = 0"
definition V_BITS8_TAINTED :: u8 where "V_BITS8_TAINTED = 0xFF"
definition V_BITS16_UNTAINTED :: u64 where "V_BITS16_UNTAINTED = 0"
definition V_BITS16_TAINTED :: u64 where "V_BITS16_TAINTED = 0xFFFF"
definition V_BITS32_UNTAINTED :: u64 where "V_BITS32_UNTAINTED = 0"
definition V_BITS32_TAINTED :: u64 where "V_BITS32_TAINTED = 0xFFFFFFFF"
definition V_BITS64_UNTAINTED :: u64 where "V_BITS64_UNTAINTED = 0"
definition V_BITS64_TAINTED :: u64 where "V_BITS64_TAINTED = 0xFFFFFFFFFFFFFFFF"

lemmas va_bits_defs [shadow_simps] =
  VA_BITS2_NOACCESS_def VA_BITS2_TAINTED_def VA_BITS2_UNTAINTED_def VA_BITS2_PARTUNTAINTED_def
  VA_BITS4_TAINTED_def VA_BITS4_UNTAINTED_def VA_BITS8_NOACCESS_def VA_BITS8_TAINTED_def
  VA_BITS8_UNTAINTED_def VA_BITS16_NOACCESS_def VA_BITS16_TAINTED_def VA_BITS16_UNTAINTED_def

lemmas v_bits_defs [shadow_simps] =
  V_BITS8_UNTAINTED_def V_BITS8_TAINTED_def V_BITS16_UNTAINTED_def V_BITS16_TAINTED_def
  V_BITS32_UNTAINTED_def V_BITS32_TAINTED_def V_BITS64_UNTAINTED_def V_BITS64_TAINTED_def

definition SM_OFF :: "addr \<Rightarrow> nat" where
  "SM_OFF a = unat (drop_bit 2 (a AND 0xffff))"

definition SM_OFF_16 :: "addr \<Rightarrow> nat" where
  "SM_OFF_16 a = unat (drop_bit 3 (a AND 0xffff))"

definition start_of_this_sm :: "addr \<Rightarrow> addr" where
  "start_of_this_sm a = a AND NOT SM_MASK"

definition is_start_of_sm :: "addr \<Rightarrow> bool" where
  "is_start_of_sm a \<longleftrightarrow> start_of_this_sm a = a"

definition VG_IS_2_ALIGNED :: "addr \<Rightarrow> bool" where "VG_IS_2_ALIGNED a \<longleftrightarrow> a AND 1 = 0"
definition VG_IS_4_ALIGNED :: "addr \<Rightarrow> bool" where "VG_IS_4_ALIGNED a \<longleftrightarrow> a AND 3 = 0"
definition VG_IS_8_ALIGNED :: "addr \<Rightarrow> bool" where "VG_IS_8_ALIGNED a \<longleftrightarrow> a AND 7 = 0"

definition VG_ROUNDDN :: "addr \<Rightarrow> addr \<Rightarrow> addr" where
  "VG_ROUNDDN p a = p AND NOT (a - 1)"

definition byte_offset_w :: "u64 \<Rightarrow> bool \<Rightarrow> u64 \<Rightarrow> u64" where
  "byte_offset_w wordszB bigendian byteno = (if bigendian then wordszB - 1 - byteno else byteno)"

section \<open>Packing two-bit states\<close>

definition insert_vabits2_into_vabits8 :: "addr \<Rightarrow> u8 \<Rightarrow> u8 \<Rightarrow> u8" where
  "insert_vabits2_into_vabits8 a vabits2 vabits8 =
     (let shift = unat (push_bit 1 (a AND 3))
      in (vabits8 AND NOT (push_bit shift 0x3)) OR push_bit shift vabits2)"

definition insert_vabits4_into_vabits8 :: "addr \<Rightarrow> u8 \<Rightarrow> u8 \<Rightarrow> u8 option" where
  "insert_vabits4_into_vabits8 a vabits4 vabits8 = do {
     assert_that (VG_IS_2_ALIGNED a);
     let shift = unat (push_bit 1 (a AND 2));
     Some ((vabits8 AND NOT (push_bit shift 0xf)) OR push_bit shift vabits4)
   }"

definition extract_vabits2_from_vabits8 :: "addr \<Rightarrow> u8 \<Rightarrow> u8" where
  "extract_vabits2_from_vabits8 a vabits8 =
     (let shift = unat (push_bit 1 (a AND 3)) in 0x3 AND drop_bit shift vabits8)"

definition extract_vabits4_from_vabits8 :: "addr \<Rightarrow> u8 \<Rightarrow> u8 option" where
  "extract_vabits4_from_vabits8 a vabits8 = do {
     assert_that (VG_IS_2_ALIGNED a);
     let shift = unat (push_bit 1 (a AND 2));
     Some (0xf AND drop_bit shift vabits8)
   }"

text \<open>The \<open>UShort\<close> view of two neighbouring \<open>vabits8\<close> entries on a little-endian host.\<close>

definition u16_of_bytes :: "u8 \<Rightarrow> u8 \<Rightarrow> u16" where
  "u16_of_bytes lo hi = push_bit 8 (ucast hi) OR ucast lo"

definition u16_lo :: "u16 \<Rightarrow> u8" where "u16_lo w = ucast w"
definition u16_hi :: "u16 \<Rightarrow> u8" where "u16_hi w = ucast (drop_bit 8 w)"

section \<open>Lanes: the two bits of one byte\<close>

lemma mask_64_numerals:
  "(1::u64) = mask 1" "(3::u64) = mask 2" "(7::u64) = mask 3" "(0xF::u64) = mask 4" "(0xFFFF::u64) = mask 16"
  by (simp_all add: mask_eq_exp_minus_1)

lemma unat_and_low:
  "unat ((a::u64) AND 1) = unat a mod 2" "unat (a AND 3) = unat a mod 4"
  "unat (a AND 7) = unat a mod 8" "unat (a AND 0xFFFF) = unat a mod 65536"
  by (simp_all only: mask_64_numerals take_bit_eq_mask [symmetric] unsigned_take_bit_eq)
   (simp_all add: take_bit_eq_mod)

definition lane :: "addr \<Rightarrow> nat" where
  "lane a = unat a mod 4"

lemma shift_lane: "unat (push_bit 1 ((a::u64) AND 3)) = 2 * lane a"
proof -
  have "a AND 3 \<le> 3" by (simp add: word_and_le1)
  then have "unat (a AND 3) \<le> 3" by (simp add: word_le_nat_alt)
  then have "unat (2 * (a AND 3)) = 2 * unat (a AND 3)"
    by (subst unat_mult_lem [THEN iffD1]) simp_all
  then show ?thesis by (simp add: lane_def unat_and_low push_bit_eq_mult mult.commute)
qed

lemma lane_less: "lane a < 4"
  by (simp add: lane_def)

lemma lane_cases: obtains "lane a = 0" | "lane a = 1" | "lane a = 2" | "lane a = 3"
  using lane_less [of a] by linarith

lemma unat_drop_bit: "unat (drop_bit n (w::u64)) = unat w div 2 ^ n"
proof -
  have "unat w < 2 ^ 64" using unsigned_less [of w] by simp
  then show ?thesis
    unfolding unsigned_drop_bit_eq by (simp add: take_bit_nat_eq_self drop_bit_eq_div)
qed

lemma SM_OFF_nat: "SM_OFF a = unat a mod 65536 div 4"
  unfolding SM_OFF_def unat_drop_bit unat_and_low by simp

lemma SM_OFF_16_nat: "SM_OFF_16 a = unat a mod 65536 div 8"
  unfolding SM_OFF_16_def unat_drop_bit unat_and_low by simp

lemma mask_8_2: "(3::u8) = mask 2" by (simp add: mask_eq_exp_minus_1)
lemma mask_8_4: "(15::u8) = mask 4" by (simp add: mask_eq_exp_minus_1)

lemma small_u8_bit: "(v::u8) < 4 \<Longrightarrow> bit v n \<Longrightarrow> n < 2"
proof -
  assume "v < 4" "bit v n"
  then have "v = take_bit 2 v"
    by (metis less_mask_eq take_bit_eq_mask mask_8_2 one_add_one power2_eq_square mult_2 numeral_Bit0 take_bit_word_eq_self)
  with \<open>bit v n\<close> show "n < 2" by (metis bit_take_bit_iff)
qed

lemma extract_lane: "extract_vabits2_from_vabits8 a w = take_bit 2 (drop_bit (2 * lane a) w)"
  by (simp only: extract_vabits2_from_vabits8_def Let_def shift_lane mask_8_2 take_bit_eq_mask ac_simps)

lemma insert_lane_bit:
  "bit (insert_vabits2_into_vabits8 a v w) n \<longleftrightarrow> n < 8 \<and>
     (bit w n \<and> \<not> (2 * lane a \<le> n \<and> n < 2 * lane a + 2) \<or> 2 * lane a \<le> n \<and> bit v (n - 2 * lane a))"
  unfolding insert_vabits2_into_vabits8_def Let_def shift_lane mask_8_2
  by (auto simp: bit_simps)

lemma bit_extract_lane:
  "bit (extract_vabits2_from_vabits8 b w) k \<longleftrightarrow> k < 2 \<and> bit w (2 * lane b + k)"
  using lane_less [of b] by (auto simp: extract_lane bit_simps)

lemma extract_insert_vabits2:
  assumes "v < 4"
  shows "extract_vabits2_from_vabits8 b (insert_vabits2_into_vabits8 a v w) =
    (if lane a = lane b then v else extract_vabits2_from_vabits8 b w)"
proof (rule bit_word_eqI)
  fix k assume "k < LENGTH(8)"
  have eq: "bit (extract_vabits2_from_vabits8 b (insert_vabits2_into_vabits8 a v w)) k \<longleftrightarrow>
      k < 2 \<and> (bit w (2 * lane b + k) \<and> \<not> (2 * lane a \<le> 2 * lane b + k \<and> 2 * lane b + k < 2 * lane a + 2) \<or>
        2 * lane a \<le> 2 * lane b + k \<and> bit v (2 * lane b + k - 2 * lane a))"
    using lane_less [of b] by (auto simp: bit_extract_lane insert_lane_bit)
  show "bit (extract_vabits2_from_vabits8 b (insert_vabits2_into_vabits8 a v w)) k =
    bit (if lane a = lane b then v else extract_vabits2_from_vabits8 b w) k"
  proof (cases "lane a = lane b")
    case True
    then show ?thesis unfolding eq using small_u8_bit [OF assms, of k] by auto
  next
    case False
    then have "\<not> bit v (2 * lane b + k - 2 * lane a)" if "2 * lane a \<le> 2 * lane b + k" "k < 2"
      using small_u8_bit [OF assms, of "2 * lane b + k - 2 * lane a"] that by linarith
    with False show ?thesis unfolding eq by (auto simp: bit_extract_lane)
  qed
qed

lemma extract_less_4: "extract_vabits2_from_vabits8 a w < 4"
proof -
  have "take_bit 2 (drop_bit (2 * lane a) w) AND 3 = take_bit 2 (drop_bit (2 * lane a) w)"
    by (simp only: mask_8_2 take_bit_eq_mask [symmetric] take_bit_take_bit) simp
  then have "take_bit 2 (drop_bit (2 * lane a) w) \<le> 3" by (metis word_and_le1)
  then show ?thesis by (simp add: extract_lane word_less_nat_alt word_le_nat_alt)
qed

end
