(* ===== verification/TntShadow.thy ===== *)
theory TntShadow
  imports OSet TntBits "HOL-Library.Multiset"
begin

text \<open>
  The shadow memory of Taintgrind (\<^verbatim>\<open>taintgrind/tnt_main.c\<close>, lines 145 to 909 and 3499 to
  3535): secondary maps behind a primary map for the low 32G and an auxiliary map, with its
  self-organising cache, for the rest; and the table of V bits of partly tainted bytes with
  its garbage collection. A pointer to a secondary map is a \<open>sm_ptr\<close>; \<open>SM n\<close> is the
  \<open>n\<close>-th map obtained from \<open>VG_(am_shadow_alloc)\<close>, whose answers are the field
  \<open>shadow_alloc_ok\<close>. Dereferencing a map that was unmapped stops the process.
\<close>

section \<open>State\<close>

datatype sm_ptr = DSM nat | SM nat

definition SM_DIST_NOACCESS :: nat where "SM_DIST_NOACCESS = 0"
definition SM_DIST_TAINTED :: nat where "SM_DIST_TAINTED = 1"
definition SM_DIST_UNTAINTED :: nat where "SM_DIST_UNTAINTED = 2"

lemmas sm_dist_defs [shadow_simps] =
  SM_DIST_NOACCESS_def SM_DIST_TAINTED_def SM_DIST_UNTAINTED_def

record AuxMapEnt =
  aux_base :: addr
  aux_sm :: sm_ptr

record SecVBitNode =
  sv_a :: addr
  sv_vbits8 :: "u8 list"

text \<open>The counters of the statistics report.\<close>

record sm_counts =
  n_issued_SMs :: int
  n_deissued_SMs :: int
  n_noaccess_SMs :: int
  n_undefined_SMs :: int
  n_defined_SMs :: int
  n_non_DSM_SMs :: int
  max_noaccess_SMs :: int
  max_undefined_SMs :: int
  max_defined_SMs :: int
  max_non_DSM_SMs :: int

text \<open>\<open>auxmap_L1\<close> holds a base and a pointer to the matching node of \<open>auxmap_L2\<close>, which is
  named by its key; nodes are never removed from \<open>auxmap_L2\<close>. \<open>sm_live\<close> are the allocated
  maps not unmapped since, \<open>sm_next\<close> the number of the next one.\<close>

record tnt_mem =
  sm_vabits8 :: "sm_ptr \<Rightarrow> nat \<Rightarrow> u8"
  sm_live :: "nat \<Rightarrow> bool"
  sm_next :: nat
  shadow_alloc_ok :: "nat \<Rightarrow> bool"
  primary_map :: "nat \<Rightarrow> sm_ptr"
  auxmap_L1 :: "(addr \<times> addr option) list"
  auxmap_L2 :: "AuxMapEnt oset"
  sm_stats :: sm_counts
  n_auxmap_L1_searches :: u64
  n_auxmap_L1_cmps :: u64
  n_auxmap_L2_searches :: u64
  n_auxmap_L2_nodes :: u64
  secVBitTable :: "SecVBitNode oset"
  secVBitLimit :: int
  GCs_done :: u32
  sec_vbits_new_nodes :: u64
  sec_vbits_updates :: u64
  n_secVBit_nodes :: int
  max_secVBit_nodes :: int

definition is_distinguished_sm :: "sm_ptr \<Rightarrow> bool" where
  "is_distinguished_sm p = (case p of DSM i \<Rightarrow> i \<le> 2 | SM n \<Rightarrow> False)"

section \<open>Secondary maps\<close>

definition sm_mapped :: "tnt_mem \<Rightarrow> sm_ptr \<Rightarrow> bool" where
  "sm_mapped s p = (case p of DSM i \<Rightarrow> i \<le> 2 | SM n \<Rightarrow> sm_live s n)"

definition read_vabits8 :: "tnt_mem \<Rightarrow> sm_ptr \<Rightarrow> nat \<Rightarrow> u8 option" where
  "read_vabits8 s p i = do {
     assert_that (sm_mapped s p \<and> i < SM_CHUNKS);
     Some (sm_vabits8 s p i)
   }"

definition write_vabits8 :: "tnt_mem \<Rightarrow> sm_ptr \<Rightarrow> nat \<Rightarrow> u8 \<Rightarrow> tnt_mem option" where
  "write_vabits8 s p i w = do {
     assert_that (sm_mapped s p \<and> i < SM_CHUNKS);
     Some (s\<lparr>sm_vabits8 := (sm_vabits8 s)(p := (sm_vabits8 s p)(i := w))\<rparr>)
   }"

definition count_old_SM :: "sm_ptr \<Rightarrow> sm_counts \<Rightarrow> sm_counts" where
  "count_old_SM p c =
     (if p = DSM SM_DIST_NOACCESS then c\<lparr>n_noaccess_SMs := n_noaccess_SMs c - 1\<rparr>
      else if p = DSM SM_DIST_TAINTED then c\<lparr>n_undefined_SMs := n_undefined_SMs c - 1\<rparr>
      else if p = DSM SM_DIST_UNTAINTED then c\<lparr>n_defined_SMs := n_defined_SMs c - 1\<rparr>
      else c\<lparr>n_non_DSM_SMs := n_non_DSM_SMs c - 1, n_deissued_SMs := n_deissued_SMs c + 1\<rparr>)"

definition count_new_SM :: "sm_ptr \<Rightarrow> sm_counts \<Rightarrow> sm_counts" where
  "count_new_SM p c =
     (if p = DSM SM_DIST_NOACCESS then c\<lparr>n_noaccess_SMs := n_noaccess_SMs c + 1\<rparr>
      else if p = DSM SM_DIST_TAINTED then c\<lparr>n_undefined_SMs := n_undefined_SMs c + 1\<rparr>
      else if p = DSM SM_DIST_UNTAINTED then c\<lparr>n_defined_SMs := n_defined_SMs c + 1\<rparr>
      else c\<lparr>n_non_DSM_SMs := n_non_DSM_SMs c + 1, n_issued_SMs := n_issued_SMs c + 1\<rparr>)"

definition update_SM_counts :: "sm_ptr \<Rightarrow> sm_ptr \<Rightarrow> sm_counts \<Rightarrow> sm_counts" where
  "update_SM_counts oldSM newSM c =
     (let c = count_new_SM newSM (count_old_SM oldSM c)
      in c\<lparr>max_noaccess_SMs := max (max_noaccess_SMs c) (n_noaccess_SMs c),
           max_undefined_SMs := max (max_undefined_SMs c) (n_undefined_SMs c),
           max_defined_SMs := max (max_defined_SMs c) (n_defined_SMs c),
           max_non_DSM_SMs := max (max_non_DSM_SMs c) (n_non_DSM_SMs c)\<rparr>)"

definition copy_for_writing :: "tnt_mem \<Rightarrow> sm_ptr \<Rightarrow> (sm_ptr \<times> tnt_mem) option" where
  "copy_for_writing s dist_sm = do {
     assert_that (dist_sm = DSM 0 \<or> dist_sm = DSM 1 \<or> dist_sm = DSM 2);
     let n = sm_next s;
     assert_that (shadow_alloc_ok s n);
     Some (SM n, s\<lparr>sm_vabits8 := (sm_vabits8 s)(SM n := sm_vabits8 s dist_sm),
                   sm_live := (sm_live s)(n := True), sm_next := Suc n,
                   sm_stats := update_SM_counts dist_sm (SM n) (sm_stats s)\<rparr>)
   }"

section \<open>The auxiliary primary map\<close>

definition N_AUXMAP_L1 :: nat where "N_AUXMAP_L1 = 24"
definition AUXMAP_L1_INSERT_IX :: nat where "AUXMAP_L1_INSERT_IX = 12"

definition aux_lookup :: "tnt_mem \<Rightarrow> addr \<Rightarrow> AuxMapEnt option" where
  "aux_lookup s b = OSetGen_Lookup (fast_cmp aux_base) (auxmap_L2 s) b"

text \<open>The shifting loop: \<open>for (i = N_AUXMAP_L1-1; i > rank; i--) auxmap_L1[i] = auxmap_L1[i-1]\<close>.\<close>

fun l1_shift :: "nat \<Rightarrow> nat \<Rightarrow> 'a list \<Rightarrow> 'a list" where
  "l1_shift rank 0 l = l"
| "l1_shift rank (Suc i) l = (if Suc i > rank then l1_shift rank i (l[Suc i := l ! i]) else l)"

definition insert_into_auxmap_L1_at :: "tnt_mem \<Rightarrow> nat \<Rightarrow> addr \<Rightarrow> tnt_mem option" where
  "insert_into_auxmap_L1_at s rank ent = do {
     assert_that (rank < N_AUXMAP_L1);
     e \<leftarrow> aux_lookup s ent;
     let l = l1_shift rank (N_AUXMAP_L1 - 1) (auxmap_L1 s);
     Some (s\<lparr>auxmap_L1 := l[rank := (aux_base e, Some ent)]\<rparr>)
   }"

text \<open>The linear search of the cache: the index of the entry, or the length.\<close>

fun l1_search :: "(addr \<times> addr option) list \<Rightarrow> addr \<Rightarrow> nat" where
  "l1_search [] a = 0"
| "l1_search (x # l) a = (if fst x = a then 0 else Suc (l1_search l a))"

definition swap_at :: "nat \<Rightarrow> 'a list \<Rightarrow> 'a list" where
  "swap_at i l = l[i := l ! Suc i, Suc i := l ! i]"

definition maybe_find_in_auxmap :: "tnt_mem \<Rightarrow> addr \<Rightarrow> (addr option \<times> tnt_mem) option" where
  "maybe_find_in_auxmap s a = do {
     assert_that (a > MAX_PRIMARY_ADDRESS);
     let a = a AND NOT 0xFFFF;
     if fst (auxmap_L1 s ! 0) = a then Some (snd (auxmap_L1 s ! 0), s)
     else if fst (auxmap_L1 s ! 1) = a then
       (let l = swap_at 0 (auxmap_L1 s) in Some (snd (l ! 0), s\<lparr>auxmap_L1 := l\<rparr>))
     else do {
       let i = l1_search (auxmap_L1 s) a;
       assert_that (i \<le> N_AUXMAP_L1);
       let s = s\<lparr>n_auxmap_L1_searches := n_auxmap_L1_searches s + 1,
                 n_auxmap_L1_cmps := n_auxmap_L1_cmps s + of_nat (i + 1)\<rparr>;
       if i < N_AUXMAP_L1 then
         (if i > 0 then
            (let l = swap_at (i - 1) (auxmap_L1 s) in Some (snd (l ! (i - 1)), s\<lparr>auxmap_L1 := l\<rparr>))
          else Some (snd (auxmap_L1 s ! i), s))
       else do {
         let s = s\<lparr>n_auxmap_L2_searches := n_auxmap_L2_searches s + 1\<rparr>;
         (case aux_lookup s a of
            None \<Rightarrow> Some (None, s)
          | Some e \<Rightarrow> do {
              s \<leftarrow> insert_into_auxmap_L1_at s AUXMAP_L1_INSERT_IX a;
              Some (Some a, s)
            })
       }
     }
   }"

definition find_or_alloc_in_auxmap :: "tnt_mem \<Rightarrow> addr \<Rightarrow> (addr \<times> tnt_mem) option" where
  "find_or_alloc_in_auxmap s a = do {
     (res, s) \<leftarrow> maybe_find_in_auxmap s a;
     (case res of
        Some ent \<Rightarrow> Some (ent, s)
      | None \<Rightarrow> do {
          let a = a AND NOT 0xFFFF;
          L2 \<leftarrow> OSetGen_Insert (fast_cmp aux_base) aux_base (auxmap_L2 s)
                  \<lparr>aux_base = a, aux_sm = DSM SM_DIST_NOACCESS\<rparr>;
          s \<leftarrow> insert_into_auxmap_L1_at (s\<lparr>auxmap_L2 := L2\<rparr>) AUXMAP_L1_INSERT_IX a;
          Some (a, s\<lparr>n_auxmap_L2_nodes := n_auxmap_L2_nodes s + 1\<rparr>)
        })
   }"

section \<open>Finding the secondary map of an address\<close>

text \<open>A \<open>SecMap**\<close>: an entry of the primary map, or the \<open>sm\<close> field of a node.\<close>

datatype sm_loc = PM nat | AUX addr

definition sm_load :: "tnt_mem \<Rightarrow> sm_loc \<Rightarrow> sm_ptr option" where
  "sm_load s l = (case l of PM i \<Rightarrow> Some (primary_map s i) | AUX b \<Rightarrow> map_option aux_sm (aux_lookup s b))"

definition sm_store :: "tnt_mem \<Rightarrow> sm_loc \<Rightarrow> sm_ptr \<Rightarrow> tnt_mem option" where
  "sm_store s l p =
     (case l of
        PM i \<Rightarrow> Some (s\<lparr>primary_map := (primary_map s)(i := p)\<rparr>)
      | AUX b \<Rightarrow> do {
          _ \<leftarrow> aux_lookup s b;
          Some (s\<lparr>auxmap_L2 := oset_modify (fast_cmp aux_base) b (\<lambda>e. e\<lparr>aux_sm := p\<rparr>) (auxmap_L2 s)\<rparr>)
        })"

definition get_secmap_low_ptr :: "tnt_mem \<Rightarrow> addr \<Rightarrow> (sm_loc \<times> tnt_mem) option" where
  "get_secmap_low_ptr s a = do {
     let pm_off = drop_bit 16 a;
     assert_that (pm_off < N_PRIMARY_MAP);
     Some (PM (unat pm_off), s)
   }"

definition get_secmap_high_ptr :: "tnt_mem \<Rightarrow> addr \<Rightarrow> (sm_loc \<times> tnt_mem) option" where
  "get_secmap_high_ptr s a = do {
     (am, s) \<leftarrow> find_or_alloc_in_auxmap s a;
     Some (AUX am, s)
   }"

definition get_secmap_ptr :: "tnt_mem \<Rightarrow> addr \<Rightarrow> (sm_loc \<times> tnt_mem) option" where
  "get_secmap_ptr s a = (if a \<le> MAX_PRIMARY_ADDRESS then get_secmap_low_ptr s a else get_secmap_high_ptr s a)"

definition get_secmap_for_reading_low :: "tnt_mem \<Rightarrow> addr \<Rightarrow> (sm_ptr \<times> tnt_mem) option" where
  "get_secmap_for_reading_low s a = do {
     (l, s) \<leftarrow> get_secmap_low_ptr s a;
     p \<leftarrow> sm_load s l;
     Some (p, s)
   }"

definition get_secmap_for_reading_high :: "tnt_mem \<Rightarrow> addr \<Rightarrow> (sm_ptr \<times> tnt_mem) option" where
  "get_secmap_for_reading_high s a = do {
     (l, s) \<leftarrow> get_secmap_high_ptr s a;
     p \<leftarrow> sm_load s l;
     Some (p, s)
   }"

definition get_secmap_for_writing_low :: "tnt_mem \<Rightarrow> addr \<Rightarrow> (sm_ptr \<times> tnt_mem) option" where
  "get_secmap_for_writing_low s a = do {
     (l, s) \<leftarrow> get_secmap_low_ptr s a;
     p \<leftarrow> sm_load s l;
     if is_distinguished_sm p then do {
       (p', s) \<leftarrow> copy_for_writing s p;
       s \<leftarrow> sm_store s l p';
       Some (p', s)
     } else Some (p, s)
   }"

definition get_secmap_for_writing_high :: "tnt_mem \<Rightarrow> addr \<Rightarrow> (sm_ptr \<times> tnt_mem) option" where
  "get_secmap_for_writing_high s a = do {
     (l, s) \<leftarrow> get_secmap_high_ptr s a;
     p \<leftarrow> sm_load s l;
     if is_distinguished_sm p then do {
       (p', s) \<leftarrow> copy_for_writing s p;
       s \<leftarrow> sm_store s l p';
       Some (p', s)
     } else Some (p, s)
   }"

definition get_secmap_for_reading :: "tnt_mem \<Rightarrow> addr \<Rightarrow> (sm_ptr \<times> tnt_mem) option" where
  "get_secmap_for_reading s a =
     (if a \<le> MAX_PRIMARY_ADDRESS then get_secmap_for_reading_low s a else get_secmap_for_reading_high s a)"

definition get_secmap_for_writing :: "tnt_mem \<Rightarrow> addr \<Rightarrow> (sm_ptr \<times> tnt_mem) option" where
  "get_secmap_for_writing s a =
     (if a \<le> MAX_PRIMARY_ADDRESS then get_secmap_for_writing_low s a else get_secmap_for_writing_high s a)"

section \<open>Reading and writing the state of a byte\<close>

definition set_vabits2 :: "tnt_mem \<Rightarrow> addr \<Rightarrow> u8 \<Rightarrow> tnt_mem option" where
  "set_vabits2 s a vabits2 = do {
     (sm, s) \<leftarrow> get_secmap_for_writing s a;
     let sm_off = SM_OFF a;
     w \<leftarrow> read_vabits8 s sm sm_off;
     write_vabits8 s sm sm_off (insert_vabits2_into_vabits8 a vabits2 w)
   }"

definition get_vabits2 :: "tnt_mem \<Rightarrow> addr \<Rightarrow> (u8 \<times> tnt_mem) option" where
  "get_vabits2 s a = do {
     (sm, s) \<leftarrow> get_secmap_for_reading s a;
     let sm_off = SM_OFF a;
     w \<leftarrow> read_vabits8 s sm sm_off;
     Some (extract_vabits2_from_vabits8 a w, s)
   }"

definition get_vabits8_for_aligned_word32 :: "tnt_mem \<Rightarrow> addr \<Rightarrow> (u8 \<times> tnt_mem) option" where
  "get_vabits8_for_aligned_word32 s a = do {
     (sm, s) \<leftarrow> get_secmap_for_reading s a;
     w \<leftarrow> read_vabits8 s sm (SM_OFF a);
     Some (w, s)
   }"

definition set_vabits8_for_aligned_word32 :: "tnt_mem \<Rightarrow> addr \<Rightarrow> u8 \<Rightarrow> tnt_mem option" where
  "set_vabits8_for_aligned_word32 s a vabits8 = do {
     (sm, s) \<leftarrow> get_secmap_for_writing s a;
     write_vabits8 s sm (SM_OFF a) vabits8
   }"

section \<open>The table of V bits of partly tainted bytes\<close>

definition BYTES_PER_SEC_VBIT_NODE :: addr where "BYTES_PER_SEC_VBIT_NODE = 16"
definition DRIFTUP_MAX_SIZE :: int where "DRIFTUP_MAX_SIZE = 80000"

definition sec_key :: "addr \<Rightarrow> addr" where
  "sec_key a = VG_ROUNDDN a BYTES_PER_SEC_VBIT_NODE"

definition sec_index :: "addr \<Rightarrow> nat" where
  "sec_index a = unat (a mod BYTES_PER_SEC_VBIT_NODE)"

definition sec_lookup :: "tnt_mem \<Rightarrow> addr \<Rightarrow> SecVBitNode option" where
  "sec_lookup s k = OSetGen_Lookup (fast_cmp sv_a) (secVBitTable s) k"

definition createSecVBitTable :: "SecVBitNode oset" where
  "createSecVBitTable = OSetGen_Create"

text \<open>Does one of the sixteen bytes of a node still have the state the node is for?\<close>

function gc_node_fresh :: "tnt_mem \<Rightarrow> addr \<Rightarrow> nat \<Rightarrow> (bool \<times> tnt_mem) option" where
  "gc_node_fresh s a i =
     (if i < 16 then do {
        (v, s) \<leftarrow> get_vabits2 s (a + of_nat i);
        if VA_BITS2_PARTUNTAINTED = v then Some (True, s) else gc_node_fresh s a (Suc i)
      } else Some (False, s))"
  by pat_completeness auto
termination
  by (relation "measure (\<lambda>(s, a, i). 16 - i)") auto

declare gc_node_fresh.simps [simp del]

text \<open>The traversal of the old table (its elements are those \<open>OSetGen_iterate\<close> yields; the
  loop body does not touch that table), inserting the fresh nodes into the new one.\<close>

fun gc_nodes :: "tnt_mem \<Rightarrow> SecVBitNode oset \<Rightarrow> SecVBitNode list \<Rightarrow> (tnt_mem \<times> SecVBitNode oset) option" where
  "gc_nodes s table2 [] = Some (s, table2)"
| "gc_nodes s table2 (n # ns) = do {
     (fresh, s) \<leftarrow> gc_node_fresh s (sv_a n) 0;
     table2 \<leftarrow> (if fresh then OSetGen_Insert (fast_cmp sv_a) sv_a table2 n else Some table2);
     gc_nodes s table2 ns
   }"

text \<open>The limits grow in double precision. A product of an \<open>Int\<close> and a constant is the exact
  product of the integer and the constant's mantissa, rounded to 53 significant bits (ties to
  even) and scaled by a power of two; \<open>double_round\<close> is the rounding of that integer.\<close>

fun bit_length :: "nat \<Rightarrow> nat" where
  "bit_length p = (if p = 0 then 0 else Suc (bit_length (p div 2)))"

declare bit_length.simps [simp del]

definition double_round :: "nat \<Rightarrow> nat" where
  "double_round p =
     (let k = bit_length p - 53; q = p div 2 ^ k; r = p mod 2 ^ k
      in (if 2 * r > 2 ^ k \<or> (2 * r = 2 ^ k \<and> odd q) then q + 1 else q) * 2 ^ k)"

definition STEPUP_GROWTH_FACTOR :: nat where \<comment> \<open>1.414213562, times 2 to the 52\<close>
  "STEPUP_GROWTH_FACTOR = 6369051670845502"
definition DRIFTUP_GROWTH_FACTOR :: nat where \<comment> \<open>1.015, times 2 to the 52\<close>
  "DRIFTUP_GROWTH_FACTOR = 4571153621781053"
definition DRIFTUP_SURVIVOR_PROPORTION :: nat where \<comment> \<open>0.15, times 2 to the 55\<close>
  "DRIFTUP_SURVIVOR_PROPORTION = 5404319552844595"

definition double_scale :: "int \<Rightarrow> nat \<Rightarrow> int option" where
  "double_scale limit factor =
     (let x = int (double_round (nat limit * factor) div 2 ^ 52)
      in if x < 2 ^ 31 then Some x else None)"

definition grow_limit :: "int \<Rightarrow> int \<Rightarrow> int option" where
  "grow_limit limit n_survivors =
     (if 2 * n_survivors > limit then double_scale limit STEPUP_GROWTH_FACTOR
      else if limit < DRIFTUP_MAX_SIZE \<and>
        int (double_round (nat limit * DRIFTUP_SURVIVOR_PROPORTION)) < n_survivors * 2 ^ 55
      then double_scale limit DRIFTUP_GROWTH_FACTOR
      else Some limit)"

definition gcSecVBitTable :: "tnt_mem \<Rightarrow> tnt_mem option" where
  "gcSecVBitTable s = do {
     let s = s\<lparr>GCs_done := GCs_done s + 1\<rparr>;
     nodes \<leftarrow> OSetGen_iterate (secVBitTable s);
     (s, table2) \<leftarrow> gc_nodes s createSecVBitTable nodes;
     let n_survivors = sint (OSetGen_Size table2);
     limit \<leftarrow> grow_limit (secVBitLimit s) n_survivors;
     Some (s\<lparr>secVBitTable := table2, secVBitLimit := limit\<rparr>)
   }"

definition get_sec_vbits8 :: "tnt_mem \<Rightarrow> addr \<Rightarrow> u8 option" where
  "get_sec_vbits8 s a = do {
     n \<leftarrow> sec_lookup s (sec_key a);
     assert_that (sec_index a < length (sv_vbits8 n));
     let vbits8 = sv_vbits8 n ! sec_index a;
     assert_that (V_BITS8_UNTAINTED \<noteq> vbits8 \<and> V_BITS8_TAINTED \<noteq> vbits8);
     Some vbits8
   }"

definition set_sec_vbits8 :: "tnt_mem \<Rightarrow> addr \<Rightarrow> u64 \<Rightarrow> tnt_mem option" where
  "set_sec_vbits8 s a vbits8 = do {
     assert_that (ucast V_BITS8_UNTAINTED \<noteq> vbits8 \<and> ucast V_BITS8_TAINTED \<noteq> vbits8);
     (case sec_lookup s (sec_key a) of
        Some n \<Rightarrow>
          Some (s\<lparr>secVBitTable := oset_modify (fast_cmp sv_a) (sec_key a)
                    (\<lambda>n. n\<lparr>sv_vbits8 := (sv_vbits8 n)[sec_index a := ucast vbits8]\<rparr>) (secVBitTable s),
                  sec_vbits_updates := sec_vbits_updates s + 1\<rparr>)
      | None \<Rightarrow> do {
          s \<leftarrow> (if secVBitLimit s = sint (OSetGen_Size (secVBitTable s)) then gcSecVBitTable s else Some s);
          t \<leftarrow> OSetGen_Insert (fast_cmp sv_a) sv_a (secVBitTable s)
                 \<lparr>sv_a = sec_key a,
                  sv_vbits8 = (replicate 16 V_BITS8_TAINTED)[sec_index a := ucast vbits8]\<rparr>;
          let n = sint (OSetGen_Size t);
          Some (s\<lparr>secVBitTable := t, sec_vbits_new_nodes := sec_vbits_new_nodes s + 1,
                  n_secVBit_nodes := n, max_secVBit_nodes := max (max_secVBit_nodes s) n\<rparr>)
        })
   }"

section \<open>V bits in register format\<close>

definition set_vbits8 :: "tnt_mem \<Rightarrow> addr \<Rightarrow> u8 \<Rightarrow> (bool \<times> tnt_mem) option" where
  "set_vbits8 s a vbits8 = do {
     (vabits2, s) \<leftarrow> get_vabits2 s a;
     (vabits2, s) \<leftarrow>
       (if V_BITS8_UNTAINTED = vbits8 then Some (VA_BITS2_UNTAINTED, s)
        else if V_BITS8_TAINTED = vbits8 then Some (VA_BITS2_TAINTED, s)
        else do {
          s \<leftarrow> set_sec_vbits8 s a (ucast vbits8);
          Some (VA_BITS2_PARTUNTAINTED, s)
        });
     s \<leftarrow> set_vabits2 s a vabits2;
     Some (True, s)
   }"

definition get_vbits8 :: "tnt_mem \<Rightarrow> addr \<Rightarrow> (bool \<times> u8 \<times> tnt_mem) option" where
  "get_vbits8 s a = do {
     (vabits2, s) \<leftarrow> get_vabits2 s a;
     if VA_BITS2_UNTAINTED = vabits2 then Some (True, V_BITS8_UNTAINTED, s)
     else if VA_BITS2_TAINTED = vabits2 then Some (True, V_BITS8_TAINTED, s)
     else if VA_BITS2_NOACCESS = vabits2 then Some (False, V_BITS8_UNTAINTED, s)
     else do {
       assert_that (VA_BITS2_PARTUNTAINTED = vabits2);
       vbits8 \<leftarrow> get_sec_vbits8 s a;
       Some (True, vbits8, s)
     }
   }"

section \<open>Initialisation\<close>

definition sm_distinguished :: "nat \<Rightarrow> nat \<Rightarrow> u8" where
  "sm_distinguished d i =
     (if d = SM_DIST_NOACCESS then VA_BITS8_NOACCESS
      else if d = SM_DIST_TAINTED then VA_BITS8_TAINTED else VA_BITS8_UNTAINTED)"

definition init_auxmap_L1 :: "(addr \<times> addr option) list" where
  "init_auxmap_L1 = replicate N_AUXMAP_L1 (0, None)"

definition init_shadow_memory :: "(nat \<Rightarrow> bool) \<Rightarrow> tnt_mem" where
  "init_shadow_memory alloc_ok =
     \<lparr>sm_vabits8 = (\<lambda>p i. case p of DSM d \<Rightarrow> sm_distinguished d i | SM n \<Rightarrow> 0),
      sm_live = (\<lambda>_. False), sm_next = 0, shadow_alloc_ok = alloc_ok,
      primary_map = (\<lambda>_. DSM SM_DIST_UNTAINTED),
      auxmap_L1 = init_auxmap_L1, auxmap_L2 = OSetGen_Create,
      sm_stats = \<lparr>n_issued_SMs = 0, n_deissued_SMs = 0, n_noaccess_SMs = 2 ^ N_PRIMARY_BITS,
                  n_undefined_SMs = 0, n_defined_SMs = 0, n_non_DSM_SMs = 0,
                  max_noaccess_SMs = 0, max_undefined_SMs = 0, max_defined_SMs = 0, max_non_DSM_SMs = 0\<rparr>,
      n_auxmap_L1_searches = 0, n_auxmap_L1_cmps = 0, n_auxmap_L2_searches = 0, n_auxmap_L2_nodes = 0,
      secVBitTable = createSecVBitTable, secVBitLimit = 1000, GCs_done = 0,
      sec_vbits_new_nodes = 0, sec_vbits_updates = 0, n_secVBit_nodes = 0, max_secVBit_nodes = 0\<rparr>"

section \<open>Pages and the abstract view\<close>

lemma SM_OFF_less [simp]: "SM_OFF a < SM_CHUNKS"
  by (simp add: SM_OFF_nat SM_CHUNKS_def)

definition page_of :: "addr \<Rightarrow> addr" where
  "page_of a = a AND NOT 0xFFFF"

lemma start_of_this_sm_page: "start_of_this_sm a = page_of a"
  by (simp add: start_of_this_sm_def page_of_def SM_MASK_def SM_SIZE_def)

lemma MAX_PRIMARY_ADDRESS_val: "MAX_PRIMARY_ADDRESS = 0x7FFFFFFFF"
  by (simp add: MAX_PRIMARY_ADDRESS_def N_PRIMARY_MAP_def N_PRIMARY_BITS_def)

lemma page_bit: "bit (page_of a) n \<longleftrightarrow> bit a n \<and> \<not> n < 16"
  unfolding page_of_def mask_64_numerals(5) by (auto simp: bit_simps dest: bit_imp_le_length)

lemma page_of_page [simp]: "page_of (page_of a) = page_of a"
  by (rule bit_word_eqI) (auto simp: page_bit)

lemma page_of_aligned [simp]: "page_of a AND 0xFFFF = 0"
  unfolding mask_64_numerals by (rule bit_word_eqI) (auto simp: page_bit bit_simps)

lemma page_of_drop: "page_of a = push_bit 16 (drop_bit 16 a)"
  by (rule bit_word_eqI) (auto simp: page_bit bit_simps)

lemma drop_16_eq_page: "drop_bit 16 a = drop_bit 16 b \<longleftrightarrow> page_of a = page_of b"
proof
  assume "page_of a = page_of b"
  then have eq: "\<And>n. bit (page_of a) n = bit (page_of b) n" by simp
  show "drop_bit 16 a = drop_bit 16 b"
  proof (rule bit_word_eqI)
    fix n show "bit (drop_bit 16 a) n = bit (drop_bit 16 b) n"
      using eq [of "16 + n"] by (simp add: page_bit bit_simps)
  qed
qed (simp add: page_of_drop)

lemma low_address: "a \<le> MAX_PRIMARY_ADDRESS \<longleftrightarrow> drop_bit 16 a < N_PRIMARY_MAP"
proof -
  have "unat (drop_bit 16 a) < 524288 \<longleftrightarrow> unat a \<le> 0x7FFFFFFFF"
    unfolding unat_drop_bit by (simp add: div_less_iff_less_mult less_Suc_eq_le [symmetric])
  then show ?thesis
    by (simp add: MAX_PRIMARY_ADDRESS_val N_PRIMARY_MAP_def N_PRIMARY_BITS_def word_less_nat_alt word_le_nat_alt)
qed

lemma low_page: "a \<le> MAX_PRIMARY_ADDRESS \<longleftrightarrow> page_of a \<le> MAX_PRIMARY_ADDRESS"
  by (simp only: low_address) (metis drop_16_eq_page page_of_page)

text \<open>Two addresses share their two bits of shadow exactly when they are equal.\<close>

lemma address_parts: "unat a = unat (drop_bit 16 a) * 65536 + 4 * SM_OFF a + lane a"
proof -
  have "unat a mod 65536 mod 4 = unat a mod 4" by (rule mod_mod_cancel) simp
  then have "unat a mod 65536 = 4 * SM_OFF a + lane a"
    unfolding SM_OFF_nat lane_def by (metis mult_div_mod_eq)
  then show ?thesis
    using unat_drop_bit [of 16 a] div_mult_mod_eq [of "unat a" 65536] by simp
qed

lemma address_eq: "page_of a = page_of b \<and> SM_OFF a = SM_OFF b \<and> lane a = lane b \<longleftrightarrow> a = b"
proof (intro iffI; (elim conjE)?)
  assume eq: "page_of a = page_of b" "SM_OFF a = SM_OFF b" "lane a = lane b"
  then have "drop_bit 16 a = drop_bit 16 b" by (simp only: drop_16_eq_page)
  with eq have "unat a = unat b"
    using address_parts [of a] address_parts [of b] by argo
  then show "a = b" by (simp only: word_unat_eq_iff)
qed simp

definition secmap_of :: "tnt_mem \<Rightarrow> addr \<Rightarrow> sm_ptr" where
  "secmap_of s a =
     (if a \<le> MAX_PRIMARY_ADDRESS then primary_map s (unat (drop_bit 16 a))
      else case aux_lookup s (page_of a) of None \<Rightarrow> DSM SM_DIST_NOACCESS | Some e \<Rightarrow> aux_sm e)"

lemma secmap_of_page: "page_of a = page_of b \<Longrightarrow> secmap_of s a = secmap_of s b"
  unfolding secmap_of_def using low_page [of a] low_page [of b] drop_16_eq_page [of a b] by auto

definition vab8 :: "tnt_mem \<Rightarrow> addr \<Rightarrow> u8" where
  "vab8 s a = sm_vabits8 s (secmap_of s a) (SM_OFF a)"

definition vab2 :: "tnt_mem \<Rightarrow> addr \<Rightarrow> u8" where
  "vab2 s a = extract_vabits2_from_vabits8 a (vab8 s a)"

section \<open>The invariant of the maps\<close>

definition l1_entry_ok :: "(addr \<Rightarrow> AuxMapEnt option) \<Rightarrow> addr \<times> addr option \<Rightarrow> bool" where
  "l1_entry_ok L2 x \<longleftrightarrow> (if fst x = 0 then snd x = None else snd x = Some (fst x) \<and> L2 (fst x) \<noteq> None)"

definition l1_ok :: "tnt_mem \<Rightarrow> bool" where
  "l1_ok s \<longleftrightarrow> length (auxmap_L1 s) = N_AUXMAP_L1 \<and>
     (\<forall>x \<in> set (auxmap_L1 s). l1_entry_ok (aux_lookup s) x) \<and>
     distinct (filter (\<lambda>b. b \<noteq> 0) (map fst (auxmap_L1 s)))"

definition l2_ok :: "tnt_mem \<Rightarrow> bool" where
  "l2_ok s \<longleftrightarrow> oset_inv aux_base (auxmap_L2 s) \<and>
     (\<forall>b. aux_lookup s b \<noteq> None \<longrightarrow> page_of b = b \<and> b > MAX_PRIMARY_ADDRESS)"

definition sm_ok :: "tnt_mem \<Rightarrow> bool" where
  "sm_ok s \<longleftrightarrow>
     (\<forall>d \<le> 2. \<forall>i < SM_CHUNKS. sm_vabits8 s (DSM d) i = sm_distinguished d i) \<and>
     (\<forall>a. sm_mapped s (secmap_of s a)) \<and>
     (\<forall>n. sm_live s n \<longrightarrow> n < sm_next s) \<and>
     (\<forall>a b n. secmap_of s a = SM n \<and> secmap_of s b = SM n \<longrightarrow> page_of a = page_of b)"

definition maps_ok :: "tnt_mem \<Rightarrow> bool" where
  "maps_ok s \<longleftrightarrow> l1_ok s \<and> l2_ok s \<and> sm_ok s"

text \<open>What a read may change: the caches, the auxiliary nodes it allocates and the counters.\<close>

definition view_eq :: "tnt_mem \<Rightarrow> tnt_mem \<Rightarrow> bool" where
  "view_eq s s' \<longleftrightarrow> sm_vabits8 s' = sm_vabits8 s \<and> sm_live s' = sm_live s \<and> sm_next s' = sm_next s \<and>
     shadow_alloc_ok s' = shadow_alloc_ok s \<and> secmap_of s' = secmap_of s \<and>
     primary_map s' = primary_map s \<and> sm_stats s' = sm_stats s \<and>
     secVBitTable s' = secVBitTable s \<and> secVBitLimit s' = secVBitLimit s"

lemma view_eq_refl [simp]: "view_eq s s"
  by (simp add: view_eq_def)

lemma view_eq_trans [trans]: "view_eq s t \<Longrightarrow> view_eq t u \<Longrightarrow> view_eq s u"
  by (simp add: view_eq_def)

lemma view_eq_vab: "view_eq s s' \<Longrightarrow> vab8 s' = vab8 s \<and> vab2 s' = vab2 s"
  by (auto simp: view_eq_def vab8_def vab2_def fun_eq_iff)

lemma view_eq_sm_ok: "view_eq s s' \<Longrightarrow> sm_ok s' = sm_ok s"
proof -
  assume "view_eq s s'"
  moreover from this have "sm_mapped s' = sm_mapped s" 
    by (auto simp: view_eq_def sm_mapped_def fun_eq_iff split: sm_ptr.splits)
  ultimately show ?thesis by (simp add: view_eq_def sm_ok_def)
qed

section \<open>The auxiliary map finds and creates entries\<close>

lemma l1_shift_length [simp]: "length (l1_shift rank i l) = length l"
  by (induction i arbitrary: l) auto

lemma l1_shift_nth:
  "i < length l \<Longrightarrow> j < length l \<Longrightarrow>
   l1_shift rank i l ! j = (if rank < j \<and> j \<le> i then l ! (j - 1) else l ! j)"
  by (induction i arbitrary: l) (auto simp: nth_list_update le_Suc_eq)

lemma l1_insert_list:
  assumes "length l = N_AUXMAP_L1" "rank < N_AUXMAP_L1"
  shows "(l1_shift rank (N_AUXMAP_L1 - 1) l)[rank := x] =
    take rank l @ x # take (N_AUXMAP_L1 - 1 - rank) (drop rank l)"
  using assms
  by (intro nth_equalityI)
    (auto simp: l1_shift_nth nth_append nth_Cons nth_list_update min_def split: nat.splits
      intro!: arg_cong [where f = "(!) l"])

lemma l1_search_le: "l1_search l a \<le> length l"
  by (induction l) auto

lemma l1_search_found: "l1_search l a < length l \<Longrightarrow> fst (l ! l1_search l a) = a"
  by (induction l) auto

lemma l1_search_missing: "\<not> l1_search l a < length l \<Longrightarrow> a \<notin> fst ` set l"
  by (induction l) (auto split: if_splits)

lemma swap_at_mset: "Suc i < length l \<Longrightarrow> mset (swap_at i l) = mset l"
  using mset_swap [of i l "Suc i"] by (simp add: swap_at_def list_update_swap)

lemma swap_at_nth: "Suc i < length l \<Longrightarrow> swap_at i l ! i = l ! Suc i"
  by (simp add: swap_at_def)

lemma swap_at_length [simp]: "length (swap_at i l) = length l"
  by (simp add: swap_at_def)

lemma l1_ok_mset:
  assumes "l1_ok s" "mset (auxmap_L1 s') = mset (auxmap_L1 s)" "aux_lookup s' = aux_lookup s"
  shows "l1_ok s'"
proof -
  have "mset (filter (\<lambda>b. b \<noteq> 0) (map fst (auxmap_L1 s'))) = mset (filter (\<lambda>b. b \<noteq> 0) (map fst (auxmap_L1 s)))"
    using assms(2) by (simp add: mset_filter)
  then have "distinct (filter (\<lambda>b. b \<noteq> 0) (map fst (auxmap_L1 s')))"
    using assms(1) mset_eq_imp_distinct_iff unfolding l1_ok_def by blast
  then show ?thesis
    using assms mset_eq_length [OF assms(2)] mset_eq_setD [OF assms(2)] by (simp add: l1_ok_def)
qed

lemma aux_lookup_update [simp]:
  "aux_lookup (s\<lparr>auxmap_L1 := l\<rparr>) = aux_lookup s"
  "aux_lookup (s\<lparr>n_auxmap_L1_searches := w\<rparr>) = aux_lookup s"
  "aux_lookup (s\<lparr>n_auxmap_L1_cmps := w\<rparr>) = aux_lookup s"
  "aux_lookup (s\<lparr>n_auxmap_L2_searches := w\<rparr>) = aux_lookup s"
  "aux_lookup (s\<lparr>n_auxmap_L2_nodes := w\<rparr>) = aux_lookup s"
  "aux_lookup (s\<lparr>primary_map := pm\<rparr>) = aux_lookup s"
  "aux_lookup (s\<lparr>sm_vabits8 := v\<rparr>) = aux_lookup s"
  "aux_lookup (s\<lparr>sm_live := lv\<rparr>) = aux_lookup s"
  "aux_lookup (s\<lparr>sm_next := n\<rparr>) = aux_lookup s"
  "aux_lookup (s\<lparr>sm_stats := st\<rparr>) = aux_lookup s"
  "aux_lookup (s\<lparr>secVBitTable := t\<rparr>) = aux_lookup s"
  "aux_lookup (s\<lparr>secVBitLimit := i\<rparr>) = aux_lookup s"
  "aux_lookup (s\<lparr>GCs_done := g\<rparr>) = aux_lookup s"
  "aux_lookup (s\<lparr>sec_vbits_new_nodes := w\<rparr>) = aux_lookup s"
  "aux_lookup (s\<lparr>sec_vbits_updates := w\<rparr>) = aux_lookup s"
  "aux_lookup (s\<lparr>n_secVBit_nodes := i\<rparr>) = aux_lookup s"
  "aux_lookup (s\<lparr>max_secVBit_nodes := i\<rparr>) = aux_lookup s"
  by (simp_all add: aux_lookup_def fun_eq_iff)

lemma page_mask [simp]: "a AND - 65536 = page_of a"
  by (simp add: page_of_def)

text \<open>Only the cache and its counters differ.\<close>

definition cache_eq :: "tnt_mem \<Rightarrow> tnt_mem \<Rightarrow> bool" where
  "cache_eq s s' \<longleftrightarrow>
     s'\<lparr>auxmap_L1 := [], n_auxmap_L1_searches := 0, n_auxmap_L1_cmps := 0, n_auxmap_L2_searches := 0\<rparr> =
     s\<lparr>auxmap_L1 := [], n_auxmap_L1_searches := 0, n_auxmap_L1_cmps := 0, n_auxmap_L2_searches := 0\<rparr>"

lemma cache_eq_refl [simp]: "cache_eq s s"
  by (simp add: cache_eq_def)

lemma cache_eq_updates [simp]:
  "cache_eq s (t\<lparr>auxmap_L1 := l\<rparr>) \<longleftrightarrow> cache_eq s t"
  "cache_eq s (t\<lparr>n_auxmap_L1_searches := w\<rparr>) \<longleftrightarrow> cache_eq s t"
  "cache_eq s (t\<lparr>n_auxmap_L1_cmps := w\<rparr>) \<longleftrightarrow> cache_eq s t"
  "cache_eq s (t\<lparr>n_auxmap_L2_searches := w\<rparr>) \<longleftrightarrow> cache_eq s t"
  by (simp_all add: cache_eq_def)

lemma cache_eq_aux: "cache_eq s s' \<Longrightarrow> auxmap_L2 s' = auxmap_L2 s \<and> aux_lookup s' = aux_lookup s"
  by (cases s; cases s') (simp add: cache_eq_def aux_lookup_def fun_eq_iff)

lemma cache_eq_view: "cache_eq s s' \<Longrightarrow> view_eq s s'"
  by (frule cache_eq_aux, cases s; cases s') (simp add: cache_eq_def view_eq_def secmap_of_def fun_eq_iff)

lemma insert_L1_ok:
  assumes "l1_ok s" "aux_lookup s b \<noteq> None" "b \<notin> fst ` set (auxmap_L1 s)" "b \<noteq> 0" "l2_ok s" "rank < N_AUXMAP_L1"
  shows "\<exists>s'. insert_into_auxmap_L1_at s rank b = Some s' \<and> cache_eq s s' \<and> l1_ok s'"
proof -
  obtain e where e: "aux_lookup s b = Some e" using assms(2) by blast
  then have eb: "aux_base e = b"
    using assms(5) fast.table.lookup_key [of aux_base "auxmap_L2 s" b e] by (simp add: aux_lookup_def l2_ok_def)
  let ?l = "take rank (auxmap_L1 s) @ (b, Some b) # take (N_AUXMAP_L1 - 1 - rank) (drop rank (auxmap_L1 s))"
  have len: "length (auxmap_L1 s) = N_AUXMAP_L1" using assms(1) by (simp add: l1_ok_def)
  let ?k = "N_AUXMAP_L1 - 1"
  have old: "take rank (auxmap_L1 s) @ take (?k - rank) (drop rank (auxmap_L1 s)) = take ?k (auxmap_L1 s)"
    using assms(6) take_add [of rank "?k - rank" "auxmap_L1 s"] by simp
  have dist: "distinct (filter (\<lambda>b. b \<noteq> 0) (map fst (take ?k (auxmap_L1 s))))"
    using assms(1) unfolding l1_ok_def
    by (metis (no_types, lifting) append_take_drop_id distinct_append filter_append map_append)
  have perm: "mset (filter (\<lambda>b. b \<noteq> 0) (map fst ?l)) =
      mset (b # filter (\<lambda>b. b \<noteq> 0) (map fst (take ?k (auxmap_L1 s))))"
    using assms(4) unfolding old [symmetric] by simp
  have fresh: "b \<notin> set (map fst (take ?k (auxmap_L1 s)))"
    using assms(3) set_take_subset [of ?k "auxmap_L1 s"] by auto
  have "distinct (filter (\<lambda>b. b \<noteq> 0) (map fst ?l))"
    unfolding mset_eq_imp_distinct_iff [OF perm] using dist fresh by simp
  moreover have "set ?l \<subseteq> insert (b, Some b) (set (take ?k (auxmap_L1 s)))"
    unfolding old [symmetric] by auto
  then have "\<forall>x \<in> set ?l. l1_entry_ok (aux_lookup s) x"
    using assms(1,2,4) set_take_subset [of ?k "auxmap_L1 s"]
    unfolding l1_ok_def by (fastforce simp: l1_entry_ok_def simp del: set_append)
  moreover have "length ?l = N_AUXMAP_L1" using len assms(6) by simp
  ultimately have "l1_ok (s\<lparr>auxmap_L1 := ?l\<rparr>)"
    unfolding l1_ok_def by simp
  then have "l1_ok (s\<lparr>auxmap_L1 := (l1_shift rank ?k (auxmap_L1 s))[rank := (b, Some b)]\<rparr>)"
    by (simp only: l1_insert_list [OF len assms(6)])
  then show ?thesis
    using assms(6) e eb by (simp add: insert_into_auxmap_L1_at_def)
qed

lemma l1_entry:
  assumes "l1_ok s" "i < N_AUXMAP_L1" "fst (auxmap_L1 s ! i) = b" "b \<noteq> 0"
  shows "snd (auxmap_L1 s ! i) = Some b \<and> aux_lookup s b \<noteq> None"
proof -
  have "l1_entry_ok (aux_lookup s) (auxmap_L1 s ! i)"
    using assms(1,2) by (auto simp: l1_ok_def)
  with assms(3,4) show ?thesis by (simp add: l1_entry_ok_def)
qed

lemma l1_swap_ok: "l1_ok s \<Longrightarrow> Suc i < N_AUXMAP_L1 \<Longrightarrow> aux_lookup t = aux_lookup s \<Longrightarrow>
    auxmap_L1 t = swap_at i (auxmap_L1 s) \<Longrightarrow> l1_ok t"
  by (rule l1_ok_mset [of s]) (auto simp: swap_at_mset l1_ok_def)

lemma l1_ok_same: "l1_ok s \<Longrightarrow> aux_lookup t = aux_lookup s \<Longrightarrow> auxmap_L1 t = auxmap_L1 s \<Longrightarrow> l1_ok t"
  by (simp add: l1_ok_def)

lemma l2_ok_same: "auxmap_L2 t = auxmap_L2 s \<Longrightarrow> l2_ok t = l2_ok s"
  unfolding l2_ok_def aux_lookup_def by (simp only:)

lemma l1_entry_ok_upd: "l1_entry_ok L x \<Longrightarrow> l1_entry_ok (L(k \<mapsto> e)) x"
  by (auto simp: l1_entry_ok_def)

lemma page_nonzero: "a > MAX_PRIMARY_ADDRESS \<Longrightarrow> page_of a \<noteq> 0"
  using low_page [of a] by (auto simp: MAX_PRIMARY_ADDRESS_val)

lemma maybe_find_ok:
  assumes ok: "l1_ok s" "l2_ok s" and high: "a > MAX_PRIMARY_ADDRESS"
  shows "\<exists>s'. maybe_find_in_auxmap s a =
      Some (if aux_lookup s (page_of a) = None then None else Some (page_of a), s') \<and> cache_eq s s' \<and> l1_ok s'
      \<and> (aux_lookup s (page_of a) = None \<longrightarrow> page_of a \<notin> fst ` set (auxmap_L1 s'))"
proof -
  let ?b = "page_of a"
  have nz: "?b \<noteq> 0" using high by (rule page_nonzero)
  have n: "0 < N_AUXMAP_L1" "1 < N_AUXMAP_L1" "AUXMAP_L1_INSERT_IX < N_AUXMAP_L1"
    and len: "length (auxmap_L1 s) = N_AUXMAP_L1"
    using ok by (simp_all add: N_AUXMAP_L1_def AUXMAP_L1_INSERT_IX_def l1_ok_def)
  let ?i = "l1_search (auxmap_L1 s) ?b"
  have le: "?i \<le> N_AUXMAP_L1" using l1_search_le [of "auxmap_L1 s" ?b] len by simp
  consider "fst (auxmap_L1 s ! 0) = ?b" | "fst (auxmap_L1 s ! 0) \<noteq> ?b" "fst (auxmap_L1 s ! 1) = ?b"
    | "fst (auxmap_L1 s ! 0) \<noteq> ?b" "fst (auxmap_L1 s ! 1) \<noteq> ?b" "?i < N_AUXMAP_L1"
    | "fst (auxmap_L1 s ! 0) \<noteq> ?b" "fst (auxmap_L1 s ! 1) \<noteq> ?b" "\<not> ?i < N_AUXMAP_L1" by blast
  then show ?thesis
  proof cases
    case 1
    with l1_entry [OF ok(1) n(1) 1 nz] high ok show ?thesis
      by (auto simp: maybe_find_in_auxmap_def Let_def)
  next
    case 2
    with l1_entry [OF ok(1) n(2) 2(2) nz] high ok len n l1_swap_ok [of s 0] show ?thesis
      by (auto simp add: maybe_find_in_auxmap_def Let_def swap_at_nth)
  next
    case 3
    have fnd: "fst (auxmap_L1 s ! ?i) = ?b" using 3 len l1_search_found [of "auxmap_L1 s" ?b] by simp
    with 3 have pos: "?i \<noteq> 0" by metis
    obtain e where ent: "snd (auxmap_L1 s ! ?i) = Some ?b" "aux_lookup s ?b = Some e"
      using l1_entry [OF ok(1) 3(3) fnd nz] by blast
    have sw: "Suc (?i - 1) = ?i" using pos by simp
    show ?thesis
      using 3 ent high le pos len l1_swap_ok [OF ok(1), of "?i - 1"] swap_at_nth [of "?i - 1" "auxmap_L1 s"] sw
      by (simp add: maybe_find_in_auxmap_def Let_def)
  next
    case 4
    have miss: "?b \<notin> fst ` set (auxmap_L1 s)"
      using 4 len l1_search_missing [of "auxmap_L1 s" ?b] by simp
    let ?s = "s\<lparr>n_auxmap_L1_searches := n_auxmap_L1_searches s + 1,
                 n_auxmap_L1_cmps := n_auxmap_L1_cmps s + of_nat (?i + 1),
                 n_auxmap_L2_searches := n_auxmap_L2_searches s + 1\<rparr>"
    have s1: "l1_ok ?s" "l2_ok ?s" "aux_lookup ?s = aux_lookup s" "cache_eq s ?s"
      using ok by (auto intro: l1_ok_same simp: l2_ok_def)
    show ?thesis
    proof (cases "aux_lookup s ?b")
      case None
      with 4 s1 high le miss show ?thesis
        by (simp add: maybe_find_in_auxmap_def Let_def)
    next
      case (Some e)
      have "?b \<notin> fst ` set (auxmap_L1 ?s)" using miss by simp
      from insert_L1_ok [OF s1(1) _ this nz s1(2) n(3)] Some s1(3)
      obtain s' where s': "insert_into_auxmap_L1_at ?s AUXMAP_L1_INSERT_IX ?b = Some s'" "cache_eq ?s s'" "l1_ok s'"
        by auto
      have "cache_eq s s'" using s'(2) s1(4) by (simp add: cache_eq_def)
      with 4 s' Some high le show ?thesis
        by (simp add: maybe_find_in_auxmap_def Let_def)
    qed
  qed
qed

lemma find_or_alloc_ok:
  assumes ok: "l1_ok s" "l2_ok s" and high: "a > MAX_PRIMARY_ADDRESS"
  shows "\<exists>s'. find_or_alloc_in_auxmap s a = Some (page_of a, s') \<and> view_eq s s' \<and> l1_ok s' \<and> l2_ok s' \<and>
    aux_lookup s' = (aux_lookup s)(page_of a \<mapsto>
      (case aux_lookup s (page_of a) of None \<Rightarrow> \<lparr>aux_base = page_of a, aux_sm = DSM SM_DIST_NOACCESS\<rparr> | Some e \<Rightarrow> e))"
proof -
  let ?b = "page_of a"
  obtain s1 where s1: "maybe_find_in_auxmap s a = Some (if aux_lookup s ?b = None then None else Some ?b, s1)"
    "cache_eq s s1" "l1_ok s1" "aux_lookup s ?b = None \<longrightarrow> ?b \<notin> fst ` set (auxmap_L1 s1)"
    using maybe_find_ok [OF assms] by (elim exE conjE) (rule that)
  have s1': "view_eq s s1" "auxmap_L2 s1 = auxmap_L2 s" "aux_lookup s1 = aux_lookup s" "l2_ok s1"
    using cache_eq_view [OF s1(2)] cache_eq_aux [OF s1(2)] ok(2) by (auto simp: l2_ok_def)
  show ?thesis
  proof (cases "aux_lookup s ?b")
    case (Some e)
    then have "(aux_lookup s)(?b \<mapsto> e) = aux_lookup s" by auto
    with Some s1 s1' show ?thesis by (simp add: find_or_alloc_in_auxmap_def)
  next
    case None
    let ?e = "\<lparr>aux_base = ?b, aux_sm = DSM SM_DIST_NOACCESS\<rparr>"
    have inv: "oset_inv aux_base (auxmap_L2 s1)" using s1'(4) by (simp add: l2_ok_def)
    have "OSetGen_Lookup (fast_cmp aux_base) (auxmap_L2 s1) (aux_base ?e) = None"
      using None s1'(3) by (simp add: aux_lookup_def [symmetric])
    from fast.table.insert_new [OF inv this]
    obtain L2 where L2: "OSetGen_Insert (fast_cmp aux_base) aux_base (auxmap_L2 s1) ?e = Some L2"
      "oset_inv aux_base L2"
      "OSetGen_Lookup (fast_cmp aux_base) L2 = (OSetGen_Lookup (fast_cmp aux_base) (auxmap_L2 s1))(?b \<mapsto> ?e)"
      by auto
    let ?s = "s1\<lparr>auxmap_L2 := L2\<rparr>"
    have lk: "aux_lookup ?s = (aux_lookup s)(?b \<mapsto> ?e)"
      using L2(3) s1'(2) by (simp add: aux_lookup_def [abs_def] fun_eq_iff)
    have l2: "l2_ok ?s"
      using s1'(4) L2(2) high low_page [of a] s1'(3) by (auto simp: l2_ok_def lk not_le)
    have l1: "l1_ok ?s"
      using s1(3) by (simp add: l1_ok_def lk s1'(3) l1_entry_ok_upd)
    from insert_L1_ok [OF l1 _ _ page_nonzero [OF high] l2, of AUXMAP_L1_INSERT_IX] lk s1(4) None
    obtain s2 where s2: "insert_into_auxmap_L1_at ?s AUXMAP_L1_INSERT_IX ?b = Some s2" "cache_eq ?s s2" "l1_ok s2"
      by (auto simp: N_AUXMAP_L1_def AUXMAP_L1_INSERT_IX_def)
    let ?s3 = "s2\<lparr>n_auxmap_L2_nodes := n_auxmap_L2_nodes s2 + 1\<rparr>"
    have s3: "aux_lookup ?s3 = (aux_lookup s)(?b \<mapsto> ?e)" "auxmap_L2 ?s3 = L2"
      using cache_eq_aux [OF s2(2)] lk by simp_all
    have "view_eq ?s ?s3"
      using cache_eq_view [OF s2(2)] cache_eq_aux [OF s2(2)] by (simp add: view_eq_def secmap_of_def fun_eq_iff)
    moreover have "view_eq s ?s"
      using s1'(1) None high by (auto simp: view_eq_def secmap_of_def fun_eq_iff lk)
    moreover have "l1_ok ?s3" by (rule l1_ok_same [OF s2(3)]) simp_all
    moreover have "l2_ok ?s3" using l2 l2_ok_same [of ?s3 ?s] s3(2) by simp
    ultimately have r: "view_eq s ?s3 \<and> l1_ok ?s3 \<and> l2_ok ?s3" by (auto intro: view_eq_trans)
    have "find_or_alloc_in_auxmap s a = Some (?b, ?s3)"
      using None s1(1) s2(1) L2(1) by (simp add: find_or_alloc_in_auxmap_def Let_def)
    with r s3 None show ?thesis by simp
  qed
qed

section \<open>Reading and writing the two bits of a byte\<close>

lemma secmap_of_update [simp]:
  "secmap_of (s\<lparr>auxmap_L1 := l\<rparr>) = secmap_of s"
  "secmap_of (s\<lparr>n_auxmap_L1_searches := w\<rparr>) = secmap_of s"
  "secmap_of (s\<lparr>n_auxmap_L1_cmps := w\<rparr>) = secmap_of s"
  "secmap_of (s\<lparr>n_auxmap_L2_searches := w\<rparr>) = secmap_of s"
  "secmap_of (s\<lparr>n_auxmap_L2_nodes := w\<rparr>) = secmap_of s"
  "secmap_of (s\<lparr>sm_vabits8 := v\<rparr>) = secmap_of s"
  "secmap_of (s\<lparr>sm_live := lv\<rparr>) = secmap_of s"
  "secmap_of (s\<lparr>sm_next := n\<rparr>) = secmap_of s"
  "secmap_of (s\<lparr>sm_stats := st\<rparr>) = secmap_of s"
  "secmap_of (s\<lparr>secVBitTable := t\<rparr>) = secmap_of s"
  "secmap_of (s\<lparr>secVBitLimit := i\<rparr>) = secmap_of s"
  "secmap_of (s\<lparr>GCs_done := g\<rparr>) = secmap_of s"
  "secmap_of (s\<lparr>sec_vbits_new_nodes := w\<rparr>) = secmap_of s"
  "secmap_of (s\<lparr>sec_vbits_updates := w\<rparr>) = secmap_of s"
  "secmap_of (s\<lparr>n_secVBit_nodes := i\<rparr>) = secmap_of s"
  "secmap_of (s\<lparr>max_secVBit_nodes := i\<rparr>) = secmap_of s"
  by (simp_all add: secmap_of_def fun_eq_iff)

definition alloc_ok :: "tnt_mem \<Rightarrow> bool" where
  "alloc_ok s \<longleftrightarrow> (\<forall>n. shadow_alloc_ok s n)"

text \<open>What the operations on the maps leave alone.\<close>

definition sec_eq :: "tnt_mem \<Rightarrow> tnt_mem \<Rightarrow> bool" where
  "sec_eq s s' \<longleftrightarrow> shadow_alloc_ok s' = shadow_alloc_ok s \<and>
     secVBitTable s' = secVBitTable s \<and> secVBitLimit s' = secVBitLimit s"

lemma sec_eq_refl [simp]: "sec_eq s s"
  by (simp add: sec_eq_def)

lemma sec_eq_trans [trans]: "sec_eq s t \<Longrightarrow> sec_eq t u \<Longrightarrow> sec_eq s u"
  by (simp add: sec_eq_def)

lemma view_eq_sec: "view_eq s s' \<Longrightarrow> sec_eq s s'"
  by (simp add: view_eq_def sec_eq_def)

lemma sec_eq_alloc: "sec_eq s s' \<Longrightarrow> alloc_ok s' = alloc_ok s"
  by (simp add: sec_eq_def alloc_ok_def)

text \<open>A pointer to the entry of an address.\<close>

definition loc_of :: "tnt_mem \<Rightarrow> addr \<Rightarrow> sm_loc \<Rightarrow> bool" where
  "loc_of s a l \<longleftrightarrow>
     (if a \<le> MAX_PRIMARY_ADDRESS then l = PM (unat (drop_bit 16 a))
      else l = AUX (page_of a) \<and> aux_lookup s (page_of a) \<noteq> None)"

lemma secmap_ptr_ok:
  assumes "maps_ok s"
  shows "\<exists>l s'. get_secmap_ptr s a = Some (l, s') \<and> loc_of s' a l \<and> view_eq s s' \<and> maps_ok s'"
proof (cases "a \<le> MAX_PRIMARY_ADDRESS")
  case True
  then have "drop_bit 16 a < N_PRIMARY_MAP" by (simp only: low_address)
  with True assms show ?thesis
    by (simp add: get_secmap_ptr_def get_secmap_low_ptr_def loc_of_def)
next
  case False
  then have high: "a > MAX_PRIMARY_ADDRESS" by simp
  from assms have "l1_ok s" "l2_ok s" by (auto simp: maps_ok_def)
  from find_or_alloc_ok [OF this high]
  obtain s' where s': "find_or_alloc_in_auxmap s a = Some (page_of a, s')" "view_eq s s'" "l1_ok s'" "l2_ok s'"
    "aux_lookup s' (page_of a) \<noteq> None"
    by auto
  with False assms view_eq_sm_ok [of s s'] show ?thesis
    by (simp add: get_secmap_ptr_def get_secmap_high_ptr_def loc_of_def maps_ok_def)
qed

lemma sm_load_loc: "loc_of s a l \<Longrightarrow> sm_load s l = Some (secmap_of s a)"
  by (auto simp: loc_of_def sm_load_def secmap_of_def split: if_splits)

lemma page_index: "unat (drop_bit 16 b) = unat (drop_bit 16 a) \<longleftrightarrow> page_of b = page_of a"
  by (simp only: word_unat_eq_iff [symmetric] drop_16_eq_page)

lemma sm_store_loc:
  assumes loc: "loc_of s a l" and ok: "l1_ok s" "l2_ok s"
  shows "\<exists>s'. sm_store s l p = Some s' \<and> l1_ok s' \<and> l2_ok s' \<and>
    secmap_of s' = (\<lambda>b. if page_of b = page_of a then p else secmap_of s b) \<and> sec_eq s s' \<and>
    sm_vabits8 s' = sm_vabits8 s \<and> sm_live s' = sm_live s \<and> sm_next s' = sm_next s"
proof (cases "a \<le> MAX_PRIMARY_ADDRESS")
  case True
  let ?s = "s\<lparr>primary_map := (primary_map s)(unat (drop_bit 16 a) := p)\<rparr>"
  have "secmap_of ?s b = (if page_of b = page_of a then p else secmap_of s b)" for b
    using True low_page [of a] low_page [of b]
    by (simp add: secmap_of_def fun_upd_apply page_index del: unsigned_drop_bit_eq)
  moreover have "l1_ok ?s" using ok(1) by (rule l1_ok_same) simp_all
  moreover have "l2_ok ?s" using ok(2) l2_ok_same [of ?s s] by simp
  ultimately show ?thesis
    using True loc by (auto simp: sm_store_def loc_of_def sec_eq_def)
next
  case False
  with loc obtain e where e: "l = AUX (page_of a)" "aux_lookup s (page_of a) = Some e"
    by (auto simp: loc_of_def)
  let ?s = "s\<lparr>auxmap_L2 := oset_modify (fast_cmp aux_base) (page_of a) (\<lambda>e. e\<lparr>aux_sm := p\<rparr>) (auxmap_L2 s)\<rparr>"
  have inv: "oset_inv aux_base (auxmap_L2 s)" using ok(2) by (simp add: l2_ok_def)
  have lk: "aux_lookup ?s = (aux_lookup s)(page_of a \<mapsto> e\<lparr>aux_sm := p\<rparr>)"
    using fast.table.modify_lookup [OF inv, of "\<lambda>e. e\<lparr>aux_sm := p\<rparr>" "page_of a"] e
    by (simp add: aux_lookup_def [abs_def] fun_eq_iff)
  have "secmap_of ?s b = (if page_of b = page_of a then p else secmap_of s b)" for b
    using False low_page [of a] low_page [of b] by (simp add: secmap_of_def lk)
  moreover have "l1_ok ?s"
    using ok(1) by (simp add: l1_ok_def lk l1_entry_ok_upd)
  moreover have "oset_inv aux_base (auxmap_L2 ?s)"
    using fast.table.modify_inv [OF inv, of "\<lambda>e. e\<lparr>aux_sm := p\<rparr>" "page_of a"] by simp
  then have "l2_ok ?s"
    using ok(2) False low_page [of a] unfolding l2_ok_def lk by auto
  ultimately show ?thesis
    using e by (auto simp: sm_store_def sec_eq_def)
qed

lemma sm_mapped_eq: "sm_live s' = sm_live s \<Longrightarrow> sm_mapped s' = sm_mapped s"
  by (auto simp: sm_mapped_def fun_eq_iff split: sm_ptr.splits)

lemma get_secmap_for_reading_eq:
  "get_secmap_for_reading s a = do { (l, s) \<leftarrow> get_secmap_ptr s a; p \<leftarrow> sm_load s l; Some (p, s) }"
  by (simp add: get_secmap_for_reading_def get_secmap_for_reading_low_def get_secmap_for_reading_high_def
      get_secmap_ptr_def)

lemma get_secmap_for_writing_eq:
  "get_secmap_for_writing s a = do {
     (l, s) \<leftarrow> get_secmap_ptr s a;
     p \<leftarrow> sm_load s l;
     if is_distinguished_sm p then do {
       (p', s) \<leftarrow> copy_for_writing s p; s \<leftarrow> sm_store s l p'; Some (p', s)
     } else Some (p, s)
   }"
  by (simp add: get_secmap_for_writing_def get_secmap_for_writing_low_def get_secmap_for_writing_high_def
      get_secmap_ptr_def)

lemma secmap_for_reading_ok:
  assumes "maps_ok s"
  shows "\<exists>s'. get_secmap_for_reading s a = Some (secmap_of s a, s') \<and> view_eq s s' \<and> maps_ok s'"
proof -
  obtain l s' where "get_secmap_ptr s a = Some (l, s')" "loc_of s' a l" "view_eq s s'" "maps_ok s'"
    using secmap_ptr_ok [OF assms] by blast
  moreover from this have "secmap_of s' a = secmap_of s a" by (simp add: view_eq_def)
  ultimately show ?thesis by (simp add: get_secmap_for_reading_eq sm_load_loc)
qed

text \<open>Copy on write: after it the page has a map of its own, with the contents it had.\<close>

lemma secmap_for_writing_ok:
  assumes ok: "maps_ok s" and alloc: "is_distinguished_sm (secmap_of s a) \<longrightarrow> shadow_alloc_ok s (sm_next s)"
  shows "\<exists>n s'. get_secmap_for_writing s a = Some (SM n, s') \<and> maps_ok s' \<and> sec_eq s s' \<and>
    secmap_of s' a = SM n \<and> vab8 s' = vab8 s"
proof -
  obtain l s1 where s1: "get_secmap_ptr s a = Some (l, s1)" "loc_of s1 a l" "view_eq s s1" "maps_ok s1"
    using secmap_ptr_ok [OF ok] by blast
  have sm: "secmap_of s1 = secmap_of s" using s1(3) by (simp add: view_eq_def)
  have ok1: "l1_ok s1" "l2_ok s1" "sm_ok s1" using s1(4) by (auto simp: maps_ok_def)
  have mapped: "\<And>b. sm_mapped s1 (secmap_of s b)" and lt: "\<And>n. sm_live s1 n \<Longrightarrow> n < sm_next s1"
    and inj: "\<And>b c n. secmap_of s b = SM n \<Longrightarrow> secmap_of s c = SM n \<Longrightarrow> page_of b = page_of c"
    and dsm: "\<And>d i. d \<le> 2 \<Longrightarrow> i < SM_CHUNKS \<Longrightarrow> sm_vabits8 s1 (DSM d) i = sm_distinguished d i"
    using ok1(3) unfolding sm_ok_def sm by blast+
  show ?thesis
  proof (cases "is_distinguished_sm (secmap_of s a)")
    case False
    then obtain n where "secmap_of s a = SM n"
      using mapped [of a] by (auto simp: is_distinguished_sm_def sm_mapped_def split: sm_ptr.splits)
    with False s1 sm view_eq_vab [OF s1(3)] show ?thesis
      by (simp add: get_secmap_for_writing_eq sm_load_loc view_eq_sec)
  next
    case True
    then obtain d where d: "secmap_of s a = DSM d" "d \<le> 2"
      by (auto simp: is_distinguished_sm_def split: sm_ptr.splits)
    let ?n = "sm_next s1"
    have al: "shadow_alloc_ok s1 ?n" using alloc True s1(3) by (simp add: view_eq_def)
    let ?s2 = "s1\<lparr>sm_vabits8 := (sm_vabits8 s1)(SM ?n := sm_vabits8 s1 (DSM d)),
                  sm_live := (sm_live s1)(?n := True), sm_next := Suc ?n,
                  sm_stats := update_SM_counts (DSM d) (SM ?n) (sm_stats s1)\<rparr>"
    have cp: "copy_for_writing s1 (DSM d) = Some (SM ?n, ?s2)"
      using d(2) al by (auto simp: copy_for_writing_def Let_def le_Suc_eq numeral_2_eq_2)
    have ok2: "loc_of ?s2 a l" "l1_ok ?s2" "l2_ok ?s2"
      using s1(2) l1_ok_same [OF ok1(1), of ?s2] ok1(2) l2_ok_same [of ?s2 s1] by (simp_all add: loc_of_def)
    have "secmap_of ?s2 = secmap_of s1" by (simp add: secmap_of_def fun_eq_iff)
    then have sm2: "secmap_of ?s2 = secmap_of s" by (simp only: sm)
    obtain s3 where s3: "sm_store ?s2 l (SM ?n) = Some s3" "l1_ok s3" "l2_ok s3"
      "secmap_of s3 = (\<lambda>b. if page_of b = page_of a then SM ?n else secmap_of ?s2 b)" "sec_eq ?s2 s3"
      "sm_vabits8 s3 = sm_vabits8 ?s2" "sm_live s3 = sm_live ?s2" "sm_next s3 = sm_next ?s2"
      using sm_store_loc [OF ok2, of "SM ?n"] by (elim exE conjE) (rule that)
    have fresh: "secmap_of s b \<noteq> SM ?n" for b
      using mapped [of b] lt [of ?n] by (auto simp: sm_mapped_def)
    have "sm_ok s3"
      unfolding sm_ok_def s3(4,6,8) sm2
    proof (intro conjI allI impI)
      show "sm_vabits8 ?s2 (DSM e) i = sm_distinguished e i" if "e \<le> 2" "i < SM_CHUNKS" for e i
        using dsm that by simp
      show "sm_mapped s3 (if page_of b = page_of a then SM ?n else secmap_of s b)" for b
        using mapped [of b] s3(7) by (auto simp: sm_mapped_def split: sm_ptr.splits)
      show "n < sm_next ?s2" if "sm_live s3 n" for n
        using that s3(7) lt [of n] by (auto split: if_splits)
      show "page_of b = page_of c"
        if "(if page_of b = page_of a then SM ?n else secmap_of s b) = SM n \<and>
            (if page_of c = page_of a then SM ?n else secmap_of s c) = SM n" for b c n
        using that fresh inj [of b n c] by (metis sm_ptr.inject(2))
    qed
    moreover have "vab8 s3 b = vab8 s b" for b
    proof (cases "page_of b = page_of a")
      case True
      then have "secmap_of s b = DSM d" using d(1) secmap_of_page [of b a s] by simp
      with True show ?thesis using view_eq_vab [OF s1(3)] s1(3) by (simp add: vab8_def s3 view_eq_def)
    next
      case False
      then show ?thesis using fresh [of b] s1(3) by (simp add: vab8_def s3 sm2 view_eq_def)
    qed
    moreover have "sec_eq s s3"
      using view_eq_sec [OF s1(3)] s3(5) by (simp add: sec_eq_def)
    ultimately show ?thesis
      using s1 sm d True cp s3 sm_load_loc [OF s1(2)]
      by (simp add: get_secmap_for_writing_eq maps_ok_def fun_eq_iff)
  qed
qed

lemma read_vabits8_ok: "maps_ok s \<Longrightarrow> read_vabits8 s (secmap_of s a) (SM_OFF a) = Some (vab8 s a)"
  by (simp add: read_vabits8_def vab8_def maps_ok_def sm_ok_def)

lemma write_vabits8_ok:
  assumes ok: "maps_ok s" and own: "secmap_of s a = SM n"
  shows "\<exists>s'. write_vabits8 s (SM n) (SM_OFF a) w = Some s' \<and> maps_ok s' \<and> sec_eq s s' \<and>
    secmap_of s' = secmap_of s \<and>
    vab8 s' = (\<lambda>b. if page_of b = page_of a \<and> SM_OFF b = SM_OFF a then w else vab8 s b)"
proof -
  let ?s = "s\<lparr>sm_vabits8 := (sm_vabits8 s)(SM n := (sm_vabits8 s (SM n))(SM_OFF a := w))\<rparr>"
  have sm: "secmap_of ?s = secmap_of s" by (simp add: secmap_of_def fun_eq_iff)
  have mp: "sm_mapped ?s = sm_mapped s" by (rule sm_mapped_eq) simp
  have "vab8 ?s b = (if page_of b = page_of a \<and> SM_OFF b = SM_OFF a then w else vab8 s b)" for b
  proof (cases "page_of b = page_of a")
    case True
    then have "secmap_of s b = SM n" using own secmap_of_page [of b a s] by simp
    with True show ?thesis by (simp add: vab8_def)
  next
    case False
    then have "secmap_of s b \<noteq> SM n" using ok own unfolding maps_ok_def sm_ok_def by metis
    with False show ?thesis by (simp add: vab8_def)
  qed
  then have "vab8 ?s = (\<lambda>b. if page_of b = page_of a \<and> SM_OFF b = SM_OFF a then w else vab8 s b)"
    by (rule ext)
  moreover have "maps_ok ?s"
    using ok l1_ok_same [of s ?s] l2_ok_same [of ?s s] unfolding maps_ok_def sm_ok_def sm mp by simp
  moreover have "sm_mapped s (SM n)" using ok own unfolding maps_ok_def sm_ok_def by metis
  ultimately show ?thesis
    by (simp add: write_vabits8_def sm sec_eq_def)
qed

lemma get_vabits2_ok:
  assumes "maps_ok s"
  shows "\<exists>s'. get_vabits2 s a = Some (vab2 s a, s') \<and> view_eq s s' \<and> maps_ok s'"
proof -
  obtain s' where "get_secmap_for_reading s a = Some (secmap_of s a, s')" "view_eq s s'" "maps_ok s'"
    using secmap_for_reading_ok [OF assms] by blast
  moreover from this read_vabits8_ok [of s' a] have "read_vabits8 s' (secmap_of s a) (SM_OFF a) = Some (vab8 s a)"
    using view_eq_vab [of s s'] by (simp add: view_eq_def)
  ultimately show ?thesis by (simp add: get_vabits2_def vab2_def Let_def)
qed

lemma set_vabits2_ok:
  assumes ok: "maps_ok s" and alloc: "is_distinguished_sm (secmap_of s a) \<longrightarrow> shadow_alloc_ok s (sm_next s)"
    and v: "v < 4"
  shows "\<exists>s'. set_vabits2 s a v = Some s' \<and> maps_ok s' \<and> sec_eq s s' \<and> vab2 s' = (vab2 s)(a := v)"
proof -
  obtain n s1 where s1: "get_secmap_for_writing s a = Some (SM n, s1)" "maps_ok s1" "sec_eq s s1"
    "secmap_of s1 a = SM n" "vab8 s1 = vab8 s"
    using secmap_for_writing_ok [OF ok alloc] by (elim exE conjE) (rule that)
  let ?w = "insert_vabits2_into_vabits8 a v (vab8 s a)"
  obtain s2 where s2: "write_vabits8 s1 (SM n) (SM_OFF a) ?w = Some s2" "maps_ok s2" "sec_eq s1 s2"
    "secmap_of s2 = secmap_of s1"
    "vab8 s2 = (\<lambda>b. if page_of b = page_of a \<and> SM_OFF b = SM_OFF a then ?w else vab8 s1 b)"
    using write_vabits8_ok [OF s1(2,4), of ?w] by (elim exE conjE) (rule that)
  have rd: "read_vabits8 s1 (SM n) (SM_OFF a) = Some (vab8 s a)"
    using read_vabits8_ok [OF s1(2), of a] s1(4,5) by simp
  have "vab2 s2 b = ((vab2 s)(a := v)) b" for b
  proof (cases "page_of b = page_of a \<and> SM_OFF b = SM_OFF a")
    case True
    then have "vab8 s b = vab8 s a" using secmap_of_page [of b a s] by (simp add: vab8_def)
    with True address_eq [of b a] show ?thesis
      by (auto simp: vab2_def s2(5) extract_insert_vabits2 [OF v])
  next
    case False
    then have "b \<noteq> a" by auto
    with False show ?thesis by (simp only: vab2_def s2(5) s1(5) if_False fun_upd_apply)
  qed
  then have "vab2 s2 = (vab2 s)(a := v)" by (rule ext)
  with s1 s2 rd sec_eq_trans [OF s1(3) s2(3)] show ?thesis
    by (simp add: set_vabits2_def)
qed

section \<open>Growth of the table limit\<close>

lemma bit_length_bounds: "0 < p \<Longrightarrow> 2 ^ (bit_length p - 1) \<le> p \<and> p < 2 ^ bit_length p \<and> 0 < bit_length p"
proof (induction p rule: bit_length.induct)
  case (1 p)
  show ?case
  proof (cases "p = 1")
    case True
    then show ?thesis by (simp add: bit_length.simps)
  next
    case False
    with "1.prems" have "0 < p div 2" by simp
    with "1.IH" "1.prems" have IH: "2 ^ (bit_length (p div 2) - 1) \<le> p div 2" "p div 2 < 2 ^ bit_length (p div 2)"
      "0 < bit_length (p div 2)" by auto
    then have "2 * 2 ^ (bit_length (p div 2) - 1) \<le> p" "p < 2 * 2 ^ bit_length (p div 2)" by linarith+
    moreover have "2 * 2 ^ (bit_length (p div 2) - 1) = (2::nat) ^ bit_length (p div 2)"
      using IH(3) by (cases "bit_length (p div 2)") auto
    ultimately show ?thesis using "1.prems" by (subst (1 2 3) bit_length.simps) simp
  qed
qed

text \<open>Rounding to 53 significant bits errs by at most one part in two to the 53.\<close>

lemma double_round_near:
  "2 ^ 53 * double_round p \<le> (2 ^ 53 + 1) * p" "(2 ^ 53 - 1) * p \<le> 2 ^ 53 * double_round p"
proof -
  define k where "k = bit_length p - 53"
  define T where "T = (2::nat) ^ k"
  define q r where "q = p div T" and "r = p mod T"
  have T: "0 < T" by (simp add: T_def)
  have p: "p = q * T + r" "r < T" using T by (simp_all add: q_def r_def)
  define d where "d = (if 2 * r > T \<or> (2 * r = T \<and> odd q) then q + 1 else q)"
  define X where "X = d * T"
  have dr: "double_round p = X"
    by (simp add: double_round_def k_def q_def r_def d_def X_def T_def Let_def)
  have "2 ^ 53 * double_round p \<le> (2 ^ 53 + 1) * p \<and> (2 ^ 53 - 1) * p \<le> 2 ^ 53 * double_round p"
  proof (cases "k = 0")
    case True
    then have "T = 1" by (simp add: T_def)
    then have "double_round p = p" using dr p by (simp add: d_def X_def)
    then show ?thesis by simp
  next
    case False
    have "bit_length 0 = 0" by (simp add: bit_length.simps)
    with False have pos: "0 < p" unfolding k_def by (cases "p = 0") auto
    have "bit_length p = k + 53" using False unfolding k_def by simp
    with bit_length_bounds [OF pos] have "2 ^ (k + 52) \<le> p" by (simp add: add.commute)
    then have big: "4503599627370496 * T \<le> p" by (simp add: power_add T_def mult.commute)
    have "(d = q + 1 \<and> T \<le> 2 * r) \<or> (d = q \<and> 2 * r \<le> T)"
      unfolding d_def by (simp split: if_splits)
    then have "(X = q * T + T \<and> T \<le> 2 * r) \<or> (X = q * T \<and> 2 * r \<le> T)"
      unfolding X_def by (elim disjE conjE) simp_all
    then have near: "2 * X \<le> 2 * p + T" "2 * p \<le> 2 * X + T"
      using p by linarith+
    have "9007199254740992 * X \<le> 9007199254740993 * p" "9007199254740991 * p \<le> 9007199254740992 * X"
      using near big by linarith+
    then show ?thesis unfolding dr by simp
  qed
  then show "2 ^ 53 * double_round p \<le> (2 ^ 53 + 1) * p" "(2 ^ 53 - 1) * p \<le> 2 ^ 53 * double_round p"
    by auto
qed

lemma div_bound: "(d::nat) * m \<le> n * c \<Longrightarrow> 0 < c \<Longrightarrow> m * (d div c) \<le> n"
proof -
  assume le: "d * m \<le> n * c" and c: "0 < c"
  have "m * (d div c) * c \<le> m * d" by (simp add: div_times_less_eq_dividend)
  also have "\<dots> \<le> n * c" using le by (simp add: mult.commute)
  finally show ?thesis using c by simp
qed

lemma stepup_bounds:
  assumes "1000 \<le> l" "l < 2 ^ 30"
  shows "\<exists>x. double_scale (int l) STEPUP_GROWTH_FACTOR = Some (int x) \<and> l < x \<and> 1000000 * x \<le> 1414214 * l"
proof -
  let ?x = "double_round (l * STEPUP_GROWTH_FACTOR) div 2 ^ 52"
  note near = double_round_near [of "l * STEPUP_GROWTH_FACTOR"]
  have "(l + 1) * 2 ^ 52 \<le> double_round (l * STEPUP_GROWTH_FACTOR)"
    using near(2) assms by (simp add: STEPUP_GROWTH_FACTOR_def)
  then have lo: "l < ?x" by (simp add: less_eq_div_iff_mult_less_eq Suc_le_eq [symmetric])
  have "double_round (l * STEPUP_GROWTH_FACTOR) * 1000000 \<le> 1414214 * l * 2 ^ 52"
    using near(1) by (simp add: STEPUP_GROWTH_FACTOR_def)
  then have hi: "1000000 * ?x \<le> 1414214 * l" by (rule div_bound) simp
  with assms(2) have "?x < 2 ^ 31" by simp
  with lo hi show ?thesis by (simp add: double_scale_def Let_def)
qed

lemma driftup_bounds:
  assumes "1000 \<le> l" "l < 80000"
  shows "\<exists>x. double_scale (int l) DRIFTUP_GROWTH_FACTOR = Some (int x) \<and> l \<le> x \<and> x < 100000"
proof -
  let ?x = "double_round (l * DRIFTUP_GROWTH_FACTOR) div 2 ^ 52"
  note near = double_round_near [of "l * DRIFTUP_GROWTH_FACTOR"]
  have "l * 2 ^ 52 \<le> double_round (l * DRIFTUP_GROWTH_FACTOR)"
    using near(2) assms by (simp add: DRIFTUP_GROWTH_FACTOR_def)
  then have lo: "l \<le> ?x" by (simp add: less_eq_div_iff_mult_less_eq)
  have "double_round (l * DRIFTUP_GROWTH_FACTOR) < 100000 * 2 ^ 52"
    using near(1) assms(2) by (simp add: DRIFTUP_GROWTH_FACTOR_def)
  then have hi: "?x < 100000" by (simp add: div_less_iff_less_mult)
  with lo show ?thesis by (simp add: double_scale_def Let_def)
qed

text \<open>After a collection there is room, and a table whose survivors are at most three million
  stays small enough for the iterator.\<close>

lemma grow_limit_ok:
  assumes "1000 \<le> limit" "limit < 2 ^ 30" "0 \<le> n" "n \<le> limit"
  shows "\<exists>limit'. grow_limit limit n = Some limit' \<and> limit \<le> limit' \<and> n < limit' \<and> limit' < 2 ^ 31 \<and>
    (limit < int ITER_SAFE \<and> n \<le> 3000000 \<longrightarrow> limit' < int ITER_SAFE)"
proof -
  define l where "l = nat limit"
  have l: "limit = int l" "1000 \<le> l" "l < 2 ^ 30"
    using assms(1,2) by (auto simp: l_def nat_less_iff le_nat_iff)
  consider "2 * n > limit" | "\<not> 2 * n > limit" "limit < DRIFTUP_MAX_SIZE \<and>
      int (double_round (nat limit * DRIFTUP_SURVIVOR_PROPORTION)) < n * 2 ^ 55"
    | "\<not> 2 * n > limit" "\<not> (limit < DRIFTUP_MAX_SIZE \<and>
      int (double_round (nat limit * DRIFTUP_SURVIVOR_PROPORTION)) < n * 2 ^ 55)" by blast
  then show ?thesis
  proof cases
    case 1
    with stepup_bounds [OF l(2,3)] l assms show ?thesis
      by (auto simp: grow_limit_def ITER_SAFE_def)
  next
    case 2
    with driftup_bounds [OF l(2)] l assms show ?thesis
      by (auto simp: grow_limit_def ITER_SAFE_def DRIFTUP_MAX_SIZE_def)
  next
    case 3
    then have "grow_limit limit n = Some limit" by (simp only: grow_limit_def if_False)
    with 3 l assms show ?thesis by auto
  qed
qed

section \<open>Addresses in the table\<close>

lemma sec_key_bit: "bit (sec_key a) n \<longleftrightarrow> bit a n \<and> \<not> n < 4"
proof -
  have "(15::u64) = mask 4" by (simp add: mask_eq_exp_minus_1)
  then have "sec_key a = a AND NOT (mask 4)"
    by (simp add: sec_key_def VG_ROUNDDN_def BYTES_PER_SEC_VBIT_NODE_def)
  then show ?thesis by (auto simp: bit_simps dest: bit_imp_le_length)
qed

lemma sec_key_key [simp]: "sec_key (sec_key a) = sec_key a"
  by (rule bit_word_eqI) (auto simp: sec_key_bit)

lemma sec_index_nat: "sec_index a = unat a mod 16"
  unfolding sec_index_def BYTES_PER_SEC_VBIT_NODE_def unat_mod_distrib by simp

lemma sec_index_less [simp]: "sec_index a < 16"
  by (simp add: sec_index_nat)

lemma low4_bit: "i < 16 \<Longrightarrow> bit (of_nat i :: u64) n \<Longrightarrow> n < 4"
proof -
  assume i: "i < 16" and b: "bit (of_nat i :: u64) n"
  have "take_bit 4 i = i" using i by (simp add: take_bit_nat_eq_self)
  then have "bit i n = (n < 4 \<and> bit i n)" by (metis bit_take_bit_iff)
  with b show "n < 4" by (auto simp: bit_of_nat_iff)
qed

lemma sec_key_add: "i < 16 \<Longrightarrow> sec_key (sec_key a + of_nat i) = sec_key a"
proof (rule bit_word_eqI)
  fix n assume i: "i < 16"
  have "sec_key a AND of_nat i = 0"
    by (rule bit_word_eqI) (use low4_bit [OF i] in \<open>auto simp: bit_and_iff sec_key_bit\<close>)
  then have "sec_key a + of_nat i = sec_key a OR of_nat i" by (rule disjunctive_add_eq_or)
  then show "bit (sec_key (sec_key a + of_nat i)) n = bit (sec_key a) n"
    using low4_bit [OF i, of n] by (auto simp: sec_key_bit bit_or_iff)
qed

lemma sec_parts: "sec_key a + of_nat (sec_index a) = a"
proof -
  have idx: "of_nat (sec_index a) = take_bit 4 a"
  proof -
    have "sec_index a = take_bit 4 (unat a)" by (simp add: sec_index_nat take_bit_eq_mod)
    then have "sec_index a = unat (take_bit 4 a)" by (simp only: unsigned_take_bit_eq)
    then show ?thesis by simp
  qed
  have "sec_key a AND take_bit 4 a = 0"
    by (rule bit_word_eqI) (auto simp: bit_simps sec_key_bit)
  then have "sec_key a + take_bit 4 a = sec_key a OR take_bit 4 a" by (rule disjunctive_add_eq_or)
  also have "\<dots> = a" by (rule bit_word_eqI) (auto simp: bit_simps sec_key_bit)
  finally show ?thesis by (simp add: idx)
qed

lemma sec_addr_eq: "sec_key a = sec_key b \<and> sec_index a = sec_index b \<longleftrightarrow> a = b"
  by (metis sec_parts)

section \<open>The table of V bits\<close>

definition sec_val :: "tnt_mem \<Rightarrow> addr \<Rightarrow> u8 option" where
  "sec_val s a = map_option (\<lambda>n. sv_vbits8 n ! sec_index a) (sec_lookup s (sec_key a))"

text \<open>The shape of the table: its nodes cover sixteen aligned bytes, and it has at most
  \<open>secVBitLimit\<close> of them.\<close>

definition tab_ok :: "tnt_mem \<Rightarrow> bool" where
  "tab_ok s \<longleftrightarrow> oset_inv sv_a (secVBitTable s) \<and>
     (\<forall>k n. sec_lookup s k = Some n \<longrightarrow> length (sv_vbits8 n) = 16 \<and> sec_key k = k) \<and>
     1000 \<le> secVBitLimit s \<and> int (length (oset_elems (secVBitTable s))) \<le> secVBitLimit s \<and>
     secVBitLimit s < 2 ^ 31"

text \<open>Every partly tainted byte has its V bits in the table, and they are neither of the two
  values that are kept out of it.\<close>

definition pdb_ok :: "tnt_mem \<Rightarrow> bool" where
  "pdb_ok s \<longleftrightarrow> (\<forall>a. vab2 s a = 3 \<longrightarrow> (\<exists>v. sec_val s a = Some v \<and> v \<noteq> 0 \<and> v \<noteq> 0xFF))"

definition shadow_ok :: "tnt_mem \<Rightarrow> bool" where
  "shadow_ok s \<longleftrightarrow> maps_ok s \<and> tab_ok s \<and> pdb_ok s"

lemma sec_lookup_update [simp]:
  "sec_lookup (s\<lparr>sm_vabits8 := v\<rparr>) = sec_lookup s"
  "sec_lookup (s\<lparr>GCs_done := g\<rparr>) = sec_lookup s"
  "sec_lookup (s\<lparr>sec_vbits_new_nodes := w\<rparr>) = sec_lookup s"
  "sec_lookup (s\<lparr>sec_vbits_updates := w\<rparr>) = sec_lookup s"
  "sec_lookup (s\<lparr>n_secVBit_nodes := i\<rparr>) = sec_lookup s"
  "sec_lookup (s\<lparr>max_secVBit_nodes := i\<rparr>) = sec_lookup s"
  "sec_lookup (s\<lparr>secVBitLimit := i\<rparr>) = sec_lookup s"
  by (simp_all add: sec_lookup_def fun_eq_iff)

lemma sec_eq_lookup: "sec_eq s s' \<Longrightarrow> sec_lookup s' = sec_lookup s \<and> sec_val s' = sec_val s \<and> tab_ok s' = tab_ok s"
  by (simp add: sec_eq_def sec_lookup_def [abs_def] sec_val_def fun_eq_iff tab_ok_def)

lemma view_eq_shadow: "view_eq s s' \<Longrightarrow> maps_ok s' \<Longrightarrow> shadow_ok s \<Longrightarrow> shadow_ok s'"
  using view_eq_vab [of s s'] sec_eq_lookup [OF view_eq_sec, of s s'] by (simp add: shadow_ok_def pdb_ok_def)

lemma gc_node_fresh_ok:
  "maps_ok s \<Longrightarrow> \<exists>s'. gc_node_fresh s a i =
      Some (\<exists>j. i \<le> j \<and> j < 16 \<and> vab2 s (a + of_nat j) = 3, s') \<and> view_eq s s' \<and> maps_ok s'"
proof (induction "16 - i" arbitrary: s i)
  case 0
  then have "\<not> (\<exists>j. i \<le> j \<and> j < 16 \<and> vab2 s (a + of_nat j) = 3)" by auto
  with 0 show ?case by (subst gc_node_fresh.simps) simp
next
  case (Suc d)
  obtain s1 where s1: "get_vabits2 s (a + of_nat i) = Some (vab2 s (a + of_nat i), s1)" "view_eq s s1" "maps_ok s1"
    using get_vabits2_ok [OF Suc.prems] by blast
  show ?case
  proof (cases "vab2 s (a + of_nat i) = 3")
    case True
    then have "\<exists>j. i \<le> j \<and> j < 16 \<and> vab2 s (a + of_nat j) = 3" using Suc.hyps(2) by (intro exI [of _ i]) simp
    with True s1 Suc.hyps(2) show ?thesis
      by (subst gc_node_fresh.simps) (simp add: va_bits_defs)
  next
    case False
    have "d = 16 - Suc i" using Suc.hyps(2) by simp
    from Suc.hyps(1) [OF this s1(3)] obtain s2 where
      s2: "gc_node_fresh s1 a (Suc i) = Some (\<exists>j. Suc i \<le> j \<and> j < 16 \<and> vab2 s1 (a + of_nat j) = 3, s2)"
        "view_eq s1 s2" "maps_ok s2" by blast
    have "(\<exists>j. Suc i \<le> j \<and> j < 16 \<and> vab2 s1 (a + of_nat j) = 3) = (\<exists>j. i \<le> j \<and> j < 16 \<and> vab2 s (a + of_nat j) = 3)"
      using False view_eq_vab [OF s1(2)] by (metis Suc_leD Suc_leI le_neq_implies_less)
    moreover have "i < 16" using Suc.hyps(2) by simp
    ultimately show ?thesis
      using False s1 s2 view_eq_trans [OF s1(2) s2(2)]
      by (subst gc_node_fresh.simps) (simp add: va_bits_defs)
  qed
qed

definition node_fresh :: "tnt_mem \<Rightarrow> SecVBitNode \<Rightarrow> bool" where
  "node_fresh s n \<longleftrightarrow> (\<exists>j < 16. vab2 s (sv_a n + of_nat j) = 3)"

lemma gc_nodes_ok:
  "maps_ok s \<Longrightarrow> oset_inv sv_a t \<Longrightarrow> distinct (map sv_a ns) \<Longrightarrow>
   \<forall>n \<in> set ns. sv_a n \<notin> sv_a ` set (oset_elems t) \<Longrightarrow>
   \<exists>s' t'. gc_nodes s t ns = Some (s', t') \<and> view_eq s s' \<and> maps_ok s' \<and> oset_inv sv_a t' \<and>
     set (oset_elems t') = set (oset_elems t) \<union> {n \<in> set ns. node_fresh s n}"
proof (induction ns arbitrary: s t)
  case Nil
  then show ?case by auto
next
  case (Cons n ns)
  obtain s1 where s1: "gc_node_fresh s (sv_a n) 0 = Some (node_fresh s n, s1)" "view_eq s s1" "maps_ok s1"
    using gc_node_fresh_ok [OF Cons.prems(1), of "sv_a n" 0] by (auto simp: node_fresh_def)
  have nf: "node_fresh s1 = node_fresh s"
    using view_eq_vab [OF s1(2)] by (simp add: node_fresh_def fun_eq_iff)
  show ?case
  proof (cases "node_fresh s n")
    case True
    have "OSetGen_Lookup (fast_cmp sv_a) t (sv_a n) = None"
      using Cons.prems by (simp add: fast.lookup_elems elem_map_None)
    from fast.insert_elems [OF Cons.prems(2) this] obtain t1 where
      t1: "OSetGen_Insert (fast_cmp sv_a) sv_a t n = Some t1" "oset_inv sv_a t1"
        "set (oset_elems t1) = insert n (set (oset_elems t))" by (auto simp: set_insort_key)
    have new: "\<forall>m \<in> set ns. sv_a m \<notin> sv_a ` set (oset_elems t1)"
    proof
      fix m assume that: "m \<in> set ns"
      have "sv_a n \<notin> sv_a ` set ns" using Cons.prems(3) by simp
      then have "sv_a m \<noteq> sv_a n" using that by (metis image_eqI)
      moreover have "sv_a m \<notin> sv_a ` set (oset_elems t)" using that Cons.prems(4) by simp
      ultimately show "sv_a m \<notin> sv_a ` set (oset_elems t1)" unfolding t1(3) by simp
    qed
    have dist: "distinct (map sv_a ns)" using Cons.prems(3) by simp
    from Cons.IH [OF s1(3) t1(2) dist new] obtain s2 t2 where
      "gc_nodes s1 t1 ns = Some (s2, t2)" "view_eq s1 s2" "maps_ok s2" "oset_inv sv_a t2"
      "set (oset_elems t2) = set (oset_elems t1) \<union> {n \<in> set ns. node_fresh s1 n}"
      by (elim exE conjE) (rule that)
    with True s1 t1(1,3) nf view_eq_trans [OF s1(2), of s2] show ?thesis by auto
  next
    case False
    have new: "\<forall>m \<in> set ns. sv_a m \<notin> sv_a ` set (oset_elems t)" and dist: "distinct (map sv_a ns)"
      using Cons.prems(3,4) by simp_all
    from Cons.IH [OF s1(3) Cons.prems(2) dist new] obtain s2 t2 where
      "gc_nodes s1 t ns = Some (s2, t2)" "view_eq s1 s2" "maps_ok s2" "oset_inv sv_a t2"
      "set (oset_elems t2) = set (oset_elems t) \<union> {n \<in> set ns. node_fresh s1 n}"
      by (elim exE conjE) (rule that)
    with False s1 nf view_eq_trans [OF s1(2), of s2] show ?thesis by auto
  qed
qed

lemma elems_distinct_keys: "oset_inv key t \<Longrightarrow> distinct (map key (oset_elems t))"
  unfolding oset_inv_def key_sorted_map by (simp add: strict_sorted_iff)

lemma elems_length_card: "oset_inv key t \<Longrightarrow> length (oset_elems t) = card (key ` set (oset_elems t))"
  using distinct_card [OF elems_distinct_keys, of key t] by simp

lemma oset_size_int:
  "oset_inv key t \<Longrightarrow> int (length (oset_elems t)) < 2 ^ 31 \<Longrightarrow> sint (OSetGen_Size t) = int (length (oset_elems t))"
  by (simp add: oset_inv_def OSetGen_Size_def signed_of_nat signed_take_bit_int_eq_self)

text \<open>The granules of sixteen bytes with a partly tainted byte.\<close>

definition pdb_granules :: "tnt_mem \<Rightarrow> addr set" where
  "pdb_granules s = sec_key ` {a. vab2 s a = 3}"

lemma finite_pdb_granules [simp]: "finite (pdb_granules s)"
  by (rule finite_subset [OF subset_UNIV]) simp

lemma gc_ok:
  assumes maps: "maps_ok s" and tab: "tab_ok s" and small: "secVBitLimit s < int ITER_SAFE"
  shows "\<exists>s'. gcSecVBitTable s = Some s' \<and> maps_ok s' \<and> tab_ok s' \<and> vab2 s' = vab2 s \<and>
    shadow_alloc_ok s' = shadow_alloc_ok s \<and>
    (\<forall>k. sec_lookup s' k = (case sec_lookup s k of None \<Rightarrow> None | Some n \<Rightarrow> if node_fresh s n then Some n else None)) \<and>
    int (length (oset_elems (secVBitTable s'))) < secVBitLimit s' \<and>
    (card (pdb_granules s) \<le> 3000000 \<longrightarrow> secVBitLimit s' < int ITER_SAFE)"
proof -
  let ?t = "secVBitTable s" and ?s0 = "s\<lparr>GCs_done := GCs_done s + 1\<rparr>"
  have inv: "oset_inv sv_a ?t" and nodes: "\<And>k n. sec_lookup s k = Some n \<Longrightarrow> length (sv_vbits8 n) = 16 \<and> sec_key k = k"
    and lim: "1000 \<le> secVBitLimit s" and full: "int (length (oset_elems ?t)) \<le> secVBitLimit s"
    using tab by (auto simp: tab_ok_def)
  have iter: "OSetGen_iterate ?t = Some (oset_elems ?t)"
    using inv small full by (intro iterate_inorder iter_safe_height) (auto simp: oset_inv_def)
  have m0: "maps_ok ?s0" "view_eq s ?s0" 
  proof -
    show v: "view_eq s ?s0" by (simp add: view_eq_def)
    show "maps_ok ?s0"
      using maps view_eq_sm_ok [OF v] l1_ok_same [of s ?s0] l2_ok_same [of ?s0 s] by (simp add: maps_ok_def)
  qed
  obtain s1 t1 where s1: "gc_nodes ?s0 createSecVBitTable (oset_elems ?t) = Some (s1, t1)" "view_eq ?s0 s1"
    "maps_ok s1" "oset_inv sv_a t1" "set (oset_elems t1) = {n \<in> set (oset_elems ?t). node_fresh ?s0 n}"
    using gc_nodes_ok [OF m0(1), of createSecVBitTable "oset_elems ?t"] elems_distinct_keys [OF inv]
    by (auto simp: createSecVBitTable_def)
  have v1: "view_eq s s1" using m0(2) s1(2) by (rule view_eq_trans)
  have nf: "node_fresh ?s0 = node_fresh s"
    using view_eq_vab [OF m0(2)] by (simp add: node_fresh_def fun_eq_iff)
  let ?n = "length (oset_elems t1)"
  have sub: "set (oset_elems t1) \<subseteq> set (oset_elems ?t)" using s1(5) by auto
  then have le: "?n \<le> length (oset_elems ?t)"
    unfolding elems_length_card [OF inv] elems_length_card [OF s1(4)] by (intro card_mono image_mono) auto
  have gran: "?n \<le> card (pdb_granules s)"
    unfolding elems_length_card [OF s1(4)]
  proof (rule card_mono)
    show "sv_a ` set (oset_elems t1) \<subseteq> pdb_granules s"
    proof
      fix k assume "k \<in> sv_a ` set (oset_elems t1)"
      then obtain n where n: "k = sv_a n" "n \<in> set (oset_elems ?t)" "node_fresh s n" using s1(5) nf by auto
      then have "sec_lookup s k = Some n"
        using inv by (simp add: sec_lookup_def fast.lookup_elems elem_map_in oset_inv_def)
      with nodes have "sec_key k = k" by blast
      with n obtain j where "j < 16" "vab2 s (sec_key k + of_nat j) = 3" by (auto simp: node_fresh_def)
      with sec_key_add [of j k] \<open>sec_key k = k\<close> show "k \<in> pdb_granules s"
        unfolding pdb_granules_def by (metis (mono_tags, lifting) image_eqI mem_Collect_eq)
    qed
  qed simp
  have sz: "sint (OSetGen_Size t1) = int ?n"
    using le full small by (intro oset_size_int [OF s1(4)]) (simp add: ITER_SAFE_def)
  obtain limit' where l: "grow_limit (secVBitLimit s) (int ?n) = Some limit'" "secVBitLimit s \<le> limit'"
    "int ?n < limit'" "limit' < 2 ^ 31"
    "secVBitLimit s < int ITER_SAFE \<and> int ?n \<le> 3000000 \<longrightarrow> limit' < int ITER_SAFE"
    using grow_limit_ok [OF lim, of "int ?n"] le full small by (auto simp: ITER_SAFE_def)
  let ?s' = "s1\<lparr>secVBitTable := t1, secVBitLimit := limit'\<rparr>"
  have lk: "sec_lookup ?s' k = (case sec_lookup s k of None \<Rightarrow> None | Some n \<Rightarrow> if node_fresh s n then Some n else None)" for k
  proof (cases "sec_lookup s k")
    case None
    then have "k \<notin> sv_a ` set (oset_elems ?t)"
      using inv by (simp add: sec_lookup_def fast.lookup_elems elem_map_None)
    with sub have "k \<notin> sv_a ` set (oset_elems t1)" by auto
    with None s1(4) show ?thesis by (simp add: sec_lookup_def fast.lookup_elems elem_map_None)
  next
    case (Some n)
    then have n: "n \<in> set (oset_elems ?t)" "sv_a n = k"
      using inv by (auto simp: sec_lookup_def fast.lookup_elems dest: elem_map_Some)
    show ?thesis
    proof (cases "node_fresh s n")
      case True
      then have "n \<in> set (oset_elems t1)" using n s1(5) nf by simp
      with n have "elem_map sv_a (oset_elems t1) k = Some n"
        using s1(4) elem_map_in [of sv_a "oset_elems t1" n] by (simp add: oset_inv_def)
      with True Some s1(4) show ?thesis by (simp add: sec_lookup_def fast.lookup_elems)
    next
      case False
      have "k \<notin> sv_a ` set (oset_elems t1)"
      proof
        assume "k \<in> sv_a ` set (oset_elems t1)"
        then obtain m where m: "m \<in> set (oset_elems ?t)" "sv_a m = k" "node_fresh s m" using s1(5) nf by auto
        then have "m = n" using n elems_distinct_keys [OF inv] by (auto simp: distinct_map inj_on_def)
        with m False show False by simp
      qed
      with False Some s1(4) show ?thesis by (simp add: sec_lookup_def fast.lookup_elems elem_map_None)
    qed
  qed
  have nodes': "\<forall>k n. sec_lookup ?s' k = Some n \<longrightarrow> length (sv_vbits8 n) = 16 \<and> sec_key k = k"
    unfolding lk using nodes by (auto split: option.splits if_splits)
  have "tab_ok ?s'"
    unfolding tab_ok_def using s1(4) l(2,3,4) lim nodes' by simp
  moreover have "maps_ok ?s'"
    using s1(3) l1_ok_same [of s1 ?s'] l2_ok_same [of ?s' s1]
    by (simp add: maps_ok_def sm_ok_def sm_mapped_eq [of ?s' s1])
  moreover have "vab2 ?s' = vab2 s"
    using view_eq_vab [OF v1] by (simp add: vab2_def [abs_def] vab8_def [abs_def])
  moreover have "gcSecVBitTable s = Some ?s'"
    using iter s1(1,2) sz l(1) by (simp add: gcSecVBitTable_def Let_def view_eq_def)
  ultimately show ?thesis
    using lk l gran small v1 by (auto simp: view_eq_def)
qed

lemma sec_lookup_addr: "tab_ok s \<Longrightarrow> sec_lookup s k = Some n \<Longrightarrow> sv_a n = k"
  using fast.table.lookup_key [of sv_a "secVBitTable s" k n] by (simp add: tab_ok_def sec_lookup_def)

lemma maps_ok_table: "maps_ok s \<Longrightarrow> maps_ok (s\<lparr>secVBitTable := t\<rparr>)"
  using l1_ok_same [of s "s\<lparr>secVBitTable := t\<rparr>"] l2_ok_same [of "s\<lparr>secVBitTable := t\<rparr>" s]
  by (simp add: maps_ok_def sm_ok_def sm_mapped_eq [of "s\<lparr>secVBitTable := t\<rparr>" s])

lemma maps_ok_counters:
  "maps_ok s \<Longrightarrow> maps_ok (s\<lparr>sec_vbits_updates := w\<rparr>)"
  "maps_ok s \<Longrightarrow> maps_ok (s\<lparr>sec_vbits_new_nodes := w, n_secVBit_nodes := i, max_secVBit_nodes := j\<rparr>)"
  using l1_ok_same [of s "s\<lparr>sec_vbits_updates := w\<rparr>"] l2_ok_same [of "s\<lparr>sec_vbits_updates := w\<rparr>" s]
    l1_ok_same [of s "s\<lparr>sec_vbits_new_nodes := w, n_secVBit_nodes := i, max_secVBit_nodes := j\<rparr>"]
    l2_ok_same [of "s\<lparr>sec_vbits_new_nodes := w, n_secVBit_nodes := i, max_secVBit_nodes := j\<rparr>" s]
  by (simp_all add: maps_ok_def sm_ok_def sm_mapped_eq [of "s\<lparr>sec_vbits_updates := w\<rparr>" s]
      sm_mapped_eq [of "s\<lparr>sec_vbits_new_nodes := w, n_secVBit_nodes := i, max_secVBit_nodes := j\<rparr>" s])

lemma vab2_update [simp]:
  "vab2 (s\<lparr>secVBitTable := t\<rparr>) = vab2 s" "vab2 (s\<lparr>secVBitLimit := i\<rparr>) = vab2 s"
  "vab2 (s\<lparr>sec_vbits_updates := w\<rparr>) = vab2 s" "vab2 (s\<lparr>sec_vbits_new_nodes := w\<rparr>) = vab2 s"
  "vab2 (s\<lparr>n_secVBit_nodes := i\<rparr>) = vab2 s" "vab2 (s\<lparr>max_secVBit_nodes := i\<rparr>) = vab2 s"
  by (simp_all add: vab2_def [abs_def] vab8_def [abs_def])

definition sec_effect :: "tnt_mem \<Rightarrow> addr \<Rightarrow> u8 \<Rightarrow> tnt_mem \<Rightarrow> bool" where
  "sec_effect s a v s' \<longleftrightarrow> maps_ok s' \<and> tab_ok s' \<and> vab2 s' = vab2 s \<and> shadow_alloc_ok s' = shadow_alloc_ok s \<and>
     sec_val s' a = Some v \<and> (\<forall>b. b \<noteq> a \<longrightarrow> vab2 s b = 3 \<longrightarrow> sec_val s b \<noteq> None \<longrightarrow> sec_val s' b = sec_val s b) \<and>
     (card (pdb_granules s) \<le> 3000000 \<longrightarrow> secVBitLimit s' < int ITER_SAFE)"

lemma sec_new_node:
  assumes "maps_ok s" "tab_ok s" "sec_lookup s (sec_key a) = None"
    and room: "int (length (oset_elems (secVBitTable s))) < secVBitLimit s"
  shows "\<exists>t. OSetGen_Insert (fast_cmp sv_a) sv_a (secVBitTable s)
      \<lparr>sv_a = sec_key a, sv_vbits8 = (replicate 16 V_BITS8_TAINTED)[sec_index a := v]\<rparr> = Some t \<and>
    maps_ok (s\<lparr>secVBitTable := t\<rparr>) \<and> tab_ok (s\<lparr>secVBitTable := t\<rparr>) \<and>
    sec_val (s\<lparr>secVBitTable := t\<rparr>) a = Some v \<and>
    (\<forall>b. sec_val s b \<noteq> None \<longrightarrow> sec_val (s\<lparr>secVBitTable := t\<rparr>) b = sec_val s b)"
proof -
  let ?n = "\<lparr>sv_a = sec_key a, sv_vbits8 = (replicate 16 V_BITS8_TAINTED)[sec_index a := v]\<rparr>"
  have inv: "oset_inv sv_a (secVBitTable s)" using assms(2) by (simp add: tab_ok_def)
  have none: "OSetGen_Lookup (fast_cmp sv_a) (secVBitTable s) (sv_a ?n) = None"
    using assms(3) by (simp add: sec_lookup_def)
  obtain t where t: "OSetGen_Insert (fast_cmp sv_a) sv_a (secVBitTable s) ?n = Some t" "oset_inv sv_a t"
    "oset_elems t = insort_key sv_a ?n (oset_elems (secVBitTable s))"
    using fast.insert_elems [OF inv none] by blast
  have lk: "sec_lookup (s\<lparr>secVBitTable := t\<rparr>) = (sec_lookup s)(sec_key a \<mapsto> ?n)"
    using fast.table.insert_Some(2) [OF inv none t(1)] by (simp add: sec_lookup_def fun_eq_iff)
  have "length (oset_elems t) = Suc (length (oset_elems (secVBitTable s)))"
    using t(3) by (metis length_insort)
  then have "tab_ok (s\<lparr>secVBitTable := t\<rparr>)"
    using assms(2) room t(2) unfolding tab_ok_def lk by auto
  then show ?thesis
    using t(1) assms(3) maps_ok_table [OF assms(1)] by (auto simp: sec_val_def lk)
qed

lemma set_sec_ok:
  assumes ok: "maps_ok s" "tab_ok s" and small: "secVBitLimit s < int ITER_SAFE"
    and v: "v \<noteq> 0" "v \<noteq> 0xFF"
  shows "\<exists>s'. set_sec_vbits8 s a (ucast v) = Some s' \<and> sec_effect s a v s'"
proof -
  have asrt: "ucast V_BITS8_UNTAINTED \<noteq> (ucast v :: u64) \<and> ucast V_BITS8_TAINTED \<noteq> (ucast v :: u64)"
  proof -
    have "unat v < 2 ^ 8" using unsigned_less [of v] by simp
    then have "unat (ucast v :: u64) = unat v" by (simp add: unsigned_ucast_eq take_bit_nat_eq_self)
    then show ?thesis using v by (auto simp: v_bits_defs word_unat_eq_iff)
  qed
  have uc: "ucast (ucast v :: u64) = v" by (rule bit_word_eqI) (auto simp: bit_simps)
  have inv: "oset_inv sv_a (secVBitTable s)" using ok(2) by (simp add: tab_ok_def)
  show ?thesis
  proof (cases "sec_lookup s (sec_key a)")
    case (Some n)
    let ?f = "\<lambda>n. n\<lparr>sv_vbits8 := (sv_vbits8 n)[sec_index a := v]\<rparr>"
    let ?t = "oset_modify (fast_cmp sv_a) (sec_key a) ?f (secVBitTable s)"
    let ?s = "s\<lparr>secVBitTable := ?t, sec_vbits_updates := sec_vbits_updates s + 1\<rparr>"
    have inv': "oset_inv sv_a ?t" using fast.table.modify_inv [OF inv, of ?f] by simp
    have lk0: "sec_lookup (s\<lparr>secVBitTable := ?t\<rparr>) = (sec_lookup s)(sec_key a := Some (?f n))"
      using fast.table.modify_lookup [OF inv, of ?f "sec_key a"] Some by (simp add: sec_lookup_def fun_eq_iff)
    then have lk: "sec_lookup ?s = (sec_lookup s)(sec_key a := Some (?f n))" by simp
    have len: "length (sv_vbits8 n) = 16" using ok(2) Some by (auto simp: tab_ok_def)
    have "length (oset_elems ?t) = length (oset_elems (secVBitTable s))"
      using fast.modify_elems [OF inv, of ?f "sec_key a"] by (metis (no_types, lifting) SecVBitNode.ext_inject SecVBitNode.surjective SecVBitNode.update_convs(2) length_map)
    then have "tab_ok ?s"
      using ok(2) len inv' unfolding tab_ok_def lk by (auto split: if_splits)
    moreover have "maps_ok ?s" using maps_ok_counters(1) [OF maps_ok_table [OF ok(1)]] by simp
    moreover have "sec_val ?s b = sec_val s b" if "b \<noteq> a" for b
      using that sec_addr_eq [of b a] Some by (auto simp: sec_val_def lk0)
    moreover have "sec_val ?s a = Some v" using len by (simp add: sec_val_def lk0)
    ultimately have "sec_effect s a v ?s" using small by (simp add: sec_effect_def)
    moreover have "set_sec_vbits8 s a (ucast v) = Some ?s"
      using Some asrt by (simp add: set_sec_vbits8_def uc)
    ultimately show ?thesis by blast
  next
    case None
    let ?full = "secVBitLimit s = int (length (oset_elems (secVBitTable s)))"
    have sz: "sint (OSetGen_Size (secVBitTable s)) = int (length (oset_elems (secVBitTable s)))"
      using ok(2) small by (intro oset_size_int) (auto simp: tab_ok_def ITER_SAFE_def)
    have "\<exists>s1. (if ?full then gcSecVBitTable s else Some s) = Some s1 \<and> maps_ok s1 \<and> tab_ok s1 \<and> vab2 s1 = vab2 s \<and>
        shadow_alloc_ok s1 = shadow_alloc_ok s \<and> sec_lookup s1 (sec_key a) = None \<and>
        (\<forall>b. vab2 s b = 3 \<longrightarrow> sec_val s1 b = sec_val s b) \<and>
        int (length (oset_elems (secVBitTable s1))) < secVBitLimit s1 \<and>
        (card (pdb_granules s) \<le> 3000000 \<longrightarrow> secVBitLimit s1 < int ITER_SAFE)"
    proof (cases ?full)
      case True
      from gc_ok [OF ok small] obtain s1 where s1: "gcSecVBitTable s = Some s1" "maps_ok s1" "tab_ok s1"
        "vab2 s1 = vab2 s" "shadow_alloc_ok s1 = shadow_alloc_ok s"
        "\<forall>k. sec_lookup s1 k = (case sec_lookup s k of None \<Rightarrow> None | Some n \<Rightarrow> if node_fresh s n then Some n else None)"
        "int (length (oset_elems (secVBitTable s1))) < secVBitLimit s1"
        "card (pdb_granules s) \<le> 3000000 \<longrightarrow> secVBitLimit s1 < int ITER_SAFE" by (elim exE conjE) (rule that)
      have "sec_val s1 b = sec_val s b" if b: "vab2 s b = 3" for b
      proof (cases "sec_lookup s (sec_key b)")
        case None
        then show ?thesis using s1(6) by (simp add: sec_val_def)
      next
        case (Some n)
        then have "sv_a n = sec_key b" using sec_lookup_addr [OF ok(2)] by blast
        then have "node_fresh s n" using b sec_parts [of b] unfolding node_fresh_def by (metis sec_index_less)
        with Some show ?thesis using s1(6) by (simp add: sec_val_def)
      qed
      with True s1 None show ?thesis by auto
    next
      case False
      with ok None small show ?thesis by (auto simp: tab_ok_def)
    qed
    then obtain s1 where s1: "(if ?full then gcSecVBitTable s else Some s) = Some s1" "maps_ok s1" "tab_ok s1" "vab2 s1 = vab2 s"
      "shadow_alloc_ok s1 = shadow_alloc_ok s" "sec_lookup s1 (sec_key a) = None"
      "\<forall>b. vab2 s b = 3 \<longrightarrow> sec_val s1 b = sec_val s b"
      "int (length (oset_elems (secVBitTable s1))) < secVBitLimit s1"
      "card (pdb_granules s) \<le> 3000000 \<longrightarrow> secVBitLimit s1 < int ITER_SAFE" by (elim exE conjE) (rule that)
    obtain t where t: "OSetGen_Insert (fast_cmp sv_a) sv_a (secVBitTable s1)
        \<lparr>sv_a = sec_key a, sv_vbits8 = (replicate 16 V_BITS8_TAINTED)[sec_index a := v]\<rparr> = Some t"
      "maps_ok (s1\<lparr>secVBitTable := t\<rparr>)" "tab_ok (s1\<lparr>secVBitTable := t\<rparr>)"
      "sec_val (s1\<lparr>secVBitTable := t\<rparr>) a = Some v"
      "\<forall>b. sec_val s1 b \<noteq> None \<longrightarrow> sec_val (s1\<lparr>secVBitTable := t\<rparr>) b = sec_val s1 b"
      using sec_new_node [OF s1(2,3,6,8), of v] by (elim exE conjE) (rule that)
    let ?s2 = "s1\<lparr>secVBitTable := t\<rparr>" and ?i = "sint (OSetGen_Size t)"
    let ?s' = "?s2\<lparr>sec_vbits_new_nodes := sec_vbits_new_nodes s1 + 1, n_secVBit_nodes := ?i,
      max_secVBit_nodes := max (max_secVBit_nodes s1) ?i\<rparr>"
    have sv: "sec_val ?s' = sec_val ?s2" by (simp add: sec_val_def fun_eq_iff)
    have "tab_ok ?s'" using t(3) by (simp add: tab_ok_def)
    moreover have "maps_ok ?s'" using maps_ok_counters(2) [OF t(2)] by simp
    moreover have "sec_val ?s' b = sec_val s b" if "vab2 s b = 3" "sec_val s b \<noteq> None" for b
      unfolding sv using that s1(7) t(5) by simp
    ultimately have "sec_effect s a v ?s'"
      using s1 t(4) unfolding sec_effect_def sv by simp
    moreover have "set_sec_vbits8 s a (ucast v) = Some ?s'"
      using None asrt s1(1) sz t(1) by (simp add: set_sec_vbits8_def uc Let_def)
    ultimately show ?thesis by blast
  qed
qed

section \<open>A store of shadow bytes\<close>

definition vbyte :: "tnt_mem \<Rightarrow> addr \<Rightarrow> bool \<times> u8" where
  "vbyte s a =
     (if vab2 s a = VA_BITS2_UNTAINTED then (True, V_BITS8_UNTAINTED)
      else if vab2 s a = VA_BITS2_TAINTED then (True, V_BITS8_TAINTED)
      else if vab2 s a = VA_BITS2_NOACCESS then (False, V_BITS8_UNTAINTED)
      else (True, the (sec_val s a)))"

text \<open>Room for \<open>n\<close> more granules with partly tainted bytes: below three million of them the
  table stays small enough for the traversal of a collection.\<close>

definition pdb_room :: "nat \<Rightarrow> tnt_mem \<Rightarrow> bool" where
  "pdb_room n s \<longleftrightarrow> card (pdb_granules s) + n \<le> 3000000 \<and> secVBitLimit s < int ITER_SAFE"

definition store_ok :: "tnt_mem \<Rightarrow> bool" where
  "store_ok s \<longleftrightarrow> shadow_ok s \<and> alloc_ok s"

lemma vab2_less: "vab2 s a < 4"
  by (simp add: vab2_def extract_less_4)

lemma vab2_cases: obtains "vab2 s a = 0" | "vab2 s a = 1" | "vab2 s a = 2" | "vab2 s a = 3"
proof -
  have "unat (vab2 s a) < 4" using vab2_less [of s a] by (simp add: word_less_nat_alt)
  then have "unat (vab2 s a) \<in> {0, 1, 2, 3}" by auto
  then have "vab2 s a \<in> {0, 1, 2, 3}" by (auto simp: word_unat_eq_iff)
  then show ?thesis using that by auto
qed

lemma view_eq_vbyte: "view_eq s s' \<Longrightarrow> vbyte s' = vbyte s \<and> pdb_granules s' = pdb_granules s"
  using view_eq_vab [of s s'] sec_eq_lookup [OF view_eq_sec, of s s']
  by (simp add: vbyte_def fun_eq_iff pdb_granules_def)

lemma get_vbits8_ok:
  assumes "shadow_ok s"
  shows "\<exists>s'. get_vbits8 s a = Some (fst (vbyte s a), snd (vbyte s a), s') \<and> view_eq s s' \<and> shadow_ok s'"
proof -
  obtain s' where s': "get_vabits2 s a = Some (vab2 s a, s')" "view_eq s s'" "maps_ok s'"
    using get_vabits2_ok assms by (auto simp: shadow_ok_def)
  have ok: "shadow_ok s'" using view_eq_shadow [OF s'(2,3) assms] .
  show ?thesis
  proof (cases "vab2 s a = 3")
    case True
    then obtain v n where v: "v \<noteq> 0" "v \<noteq> 0xFF" "sec_lookup s (sec_key a) = Some n" "v = sv_vbits8 n ! sec_index a"
      using assms by (auto simp: shadow_ok_def pdb_ok_def sec_val_def)
    moreover have "length (sv_vbits8 n) = 16" using assms v(3) by (auto simp: shadow_ok_def tab_ok_def)
    moreover have "sec_lookup s' = sec_lookup s" using sec_eq_lookup [OF view_eq_sec [OF s'(2)]] by simp
    ultimately have "get_sec_vbits8 s' a = Some v" by (simp add: get_sec_vbits8_def Let_def v_bits_defs)
    with True s' ok v show ?thesis
      by (simp add: get_vbits8_def vbyte_def va_bits_defs v_bits_defs sec_val_def)
  next
    case False
    with s' ok vab2_cases [of s a] show ?thesis
      by (auto simp: get_vbits8_def vbyte_def va_bits_defs v_bits_defs)
  qed
qed

lemma set_vbits8_ok:
  assumes ok: "store_ok s" and room: "pdb_room (Suc n) s"
  shows "\<exists>s'. set_vbits8 s a v = Some (True, s') \<and> store_ok s' \<and> pdb_room n s' \<and>
    vbyte s' = (vbyte s)(a := (True, v))"
proof -
  have s: "maps_ok s" "tab_ok s" "pdb_ok s" "alloc_ok s"
    using ok by (auto simp: store_ok_def shadow_ok_def)
  obtain s1 where s1: "get_vabits2 s a = Some (vab2 s a, s1)" "view_eq s s1" "maps_ok s1"
    using get_vabits2_ok [OF s(1)] by blast
  note v1 = view_eq_vab [OF s1(2)] and e1 = view_eq_sec [OF s1(2)] and g1 = view_eq_vbyte [OF s1(2)]
  have s1': "tab_ok s1" "pdb_ok s1" "alloc_ok s1" "pdb_room (Suc n) s1"
    using s sec_eq_lookup [OF e1] sec_eq_alloc [OF e1] v1 room g1 e1
    by (simp_all add: pdb_ok_def pdb_room_def sec_eq_def)
  define w where "w = (if v = 0 then VA_BITS2_UNTAINTED else if v = 0xFF then VA_BITS2_TAINTED else VA_BITS2_PARTUNTAINTED)"
  have w4: "w < 4" by (simp add: w_def va_bits_defs)
  have "\<exists>s2. (if V_BITS8_UNTAINTED = v then Some (VA_BITS2_UNTAINTED, s1)
        else if V_BITS8_TAINTED = v then Some (VA_BITS2_TAINTED, s1)
        else do { s \<leftarrow> set_sec_vbits8 s1 a (ucast v); Some (VA_BITS2_PARTUNTAINTED, s) }) = Some (w, s2) \<and>
      maps_ok s2 \<and> tab_ok s2 \<and> vab2 s2 = vab2 s \<and> alloc_ok s2 \<and>
      (w = 3 \<longrightarrow> sec_val s2 a = Some v) \<and> (\<forall>b. b \<noteq> a \<longrightarrow> vab2 s b = 3 \<longrightarrow> sec_val s2 b = sec_val s b) \<and>
      secVBitLimit s2 < int ITER_SAFE"
  proof (cases "v = 0 \<or> v = 0xFF")
    case True
    then have w3: "w \<noteq> 3" by (auto simp: w_def va_bits_defs)
    moreover have "(if V_BITS8_UNTAINTED = v then Some (VA_BITS2_UNTAINTED, s1)
        else if V_BITS8_TAINTED = v then Some (VA_BITS2_TAINTED, s1)
        else do { s \<leftarrow> set_sec_vbits8 s1 a (ucast v); Some (VA_BITS2_PARTUNTAINTED, s) }) = Some (w, s1)"
      using True by (auto simp: w_def v_bits_defs)
    ultimately show ?thesis
      using s1 s1' v1 sec_eq_lookup [OF e1] by (simp add: pdb_room_def)
  next
    case False
    then obtain s2 where s2: "set_sec_vbits8 s1 a (ucast v) = Some s2" "sec_effect s1 a v s2"
      using set_sec_ok [OF s1(3) s1'(1)] s1'(4) by (auto simp: pdb_room_def)
    have "sec_val s2 b = sec_val s b" if "b \<noteq> a" "vab2 s b = 3" for b
    proof -
      have "sec_val s1 b \<noteq> None" using s1'(2) that v1 by (auto simp: pdb_ok_def)
      then show ?thesis using that s2(2) v1 sec_eq_lookup [OF e1] by (simp add: sec_effect_def)
    qed
    with False s2 v1 s1' show ?thesis
      by (auto simp: w_def sec_effect_def pdb_room_def alloc_ok_def v_bits_defs)
  qed
  then obtain s2 where s2: "(if V_BITS8_UNTAINTED = v then Some (VA_BITS2_UNTAINTED, s1)
        else if V_BITS8_TAINTED = v then Some (VA_BITS2_TAINTED, s1)
        else do { s \<leftarrow> set_sec_vbits8 s1 a (ucast v); Some (VA_BITS2_PARTUNTAINTED, s) }) = Some (w, s2)"
      "maps_ok s2" "tab_ok s2" "vab2 s2 = vab2 s" "alloc_ok s2"
      "w = 3 \<longrightarrow> sec_val s2 a = Some v" "\<forall>b. b \<noteq> a \<longrightarrow> vab2 s b = 3 \<longrightarrow> sec_val s2 b = sec_val s b"
      "secVBitLimit s2 < int ITER_SAFE" by (elim exE conjE) (rule that)
  have al: "is_distinguished_sm (secmap_of s2 a) \<longrightarrow> shadow_alloc_ok s2 (sm_next s2)"
    using s2(5) by (simp add: alloc_ok_def)
  obtain s3 where s3: "set_vabits2 s2 a w = Some s3" "maps_ok s3" "sec_eq s2 s3" "vab2 s3 = (vab2 s2)(a := w)"
    using set_vabits2_ok [OF s2(2) al w4] by blast
  note e3 = sec_eq_lookup [OF s3(3)]
  have gran: "pdb_granules s3 \<subseteq> insert (sec_key a) (pdb_granules s)"
    by (auto simp: pdb_granules_def s3(4) s2(4) split: if_splits)
  then have "card (pdb_granules s3) \<le> card (insert (sec_key a) (pdb_granules s))"
    by (intro card_mono) simp_all
  then have "card (pdb_granules s3) \<le> Suc (card (pdb_granules s))"
    by (simp add: card_insert_if split: if_splits)
  then have "pdb_room n s3"
    using room s2(8) s3(3) by (simp add: pdb_room_def sec_eq_def)
  moreover have "pdb_ok s3"
    unfolding pdb_ok_def
  proof (intro allI impI)
    fix b assume b: "vab2 s3 b = 3"
    show "\<exists>v. sec_val s3 b = Some v \<and> v \<noteq> 0 \<and> v \<noteq> 0xFF"
    proof (cases "b = a")
      case True
      with b s3(4) have w3: "w = 3" by simp
      then have "v \<noteq> 0 \<and> v \<noteq> 0xFF" by (auto simp: w_def va_bits_defs split: if_splits)
      with True w3 s2(6) e3 show ?thesis by simp
    next
      case False
      with b s3(4) s2(4) have "vab2 s b = 3" by simp
      with False s2(7) e3 s(3) show ?thesis by (simp add: pdb_ok_def)
    qed
  qed
  moreover have "alloc_ok s3" using s2(5) sec_eq_alloc [OF s3(3)] by simp
  moreover have "tab_ok s3" using s2(3) e3 by simp
  moreover have "vbyte s3 b = ((vbyte s)(a := (True, v))) b" for b
  proof (cases "b = a")
    case True
    then show ?thesis using s2(6) e3
      by (auto simp: vbyte_def s3(4) w_def va_bits_defs v_bits_defs)
  next
    case False
    then have "vab2 s3 b = vab2 s b" by (simp add: s3(4) s2(4))
    moreover have "sec_val s3 b = sec_val s b" if "vab2 s b \<noteq> 0" "vab2 s b \<noteq> 1" "vab2 s b \<noteq> 2"
      using that False s2(7) e3 by (cases rule: vab2_cases [of s b]) simp_all
    ultimately show ?thesis using False by (simp add: vbyte_def va_bits_defs)
  qed
  then have "vbyte s3 = (vbyte s)(a := (True, v))" by (rule ext)
  moreover have "set_vbits8 s a v = Some (True, s3)"
    using s1(1) s2(1) s3(1) by (simp add: set_vbits8_def)
  ultimately show ?thesis using s3(2) by (simp add: store_ok_def shadow_ok_def)
qed

section \<open>The contract of a store of shadow bytes\<close>

text \<open>Bytes of V bits with an addressability flag: reading changes nothing that can be seen,
  writing makes the byte addressable and changes only it. \<open>room\<close> counts the writes the store
  still has room for.\<close>

locale byte_store =
  fixes ok :: "'s \<Rightarrow> bool" and room :: "nat \<Rightarrow> 's \<Rightarrow> bool" and view :: "'s \<Rightarrow> addr \<Rightarrow> bool \<times> u8"
    and get :: "'s \<Rightarrow> addr \<Rightarrow> (bool \<times> u8 \<times> 's) option" and put :: "'s \<Rightarrow> addr \<Rightarrow> u8 \<Rightarrow> (bool \<times> 's) option"
  assumes get_ok: "ok s \<Longrightarrow> \<exists>s'. get s a = Some (fst (view s a), snd (view s a), s') \<and> ok s' \<and>
      view s' = view s \<and> (\<forall>n. room n s \<longrightarrow> room n s')"
    and put_ok: "ok s \<Longrightarrow> room (Suc n) s \<Longrightarrow>
      \<exists>s'. put s a v = Some (True, s') \<and> ok s' \<and> room n s' \<and> view s' = (view s)(a := (True, v))"
begin

lemma put_get:
  assumes "ok s" "room (Suc n) s"
  shows "\<exists>s1 s2. put s a v = Some (True, s1) \<and> get s1 a = Some (True, v, s2) \<and> view s2 = (view s)(a := (True, v))"
proof -
  obtain s1 where s1: "put s a v = Some (True, s1)" "ok s1" "view s1 = (view s)(a := (True, v))"
    using put_ok [OF assms] by blast
  moreover obtain s2 where "get s1 a = Some (fst (view s1 a), snd (view s1 a), s2)" "view s2 = view s1"
    using get_ok [OF s1(2)] by blast
  ultimately show ?thesis by auto
qed

end

interpretation shadow: byte_store store_ok pdb_room vbyte get_vbits8 set_vbits8
proof unfold_locales
  show "\<exists>s'. get_vbits8 s a = Some (fst (vbyte s a), snd (vbyte s a), s') \<and> store_ok s' \<and>
      vbyte s' = vbyte s \<and> (\<forall>n. pdb_room n s \<longrightarrow> pdb_room n s')" if ok: "store_ok s" for s a
  proof -
    have "shadow_ok s" using ok by (simp add: store_ok_def)
    from get_vbits8_ok [OF this] obtain s' where
      s': "get_vbits8 s a = Some (fst (vbyte s a), snd (vbyte s a), s')" "view_eq s s'" "shadow_ok s'" by blast
    then show ?thesis
      using ok view_eq_vbyte [OF s'(2)] view_eq_sec [OF s'(2)] sec_eq_alloc [OF view_eq_sec [OF s'(2)]]
      by (simp add: store_ok_def pdb_room_def sec_eq_def)
  qed
  show "\<exists>s'. set_vbits8 s a v = Some (True, s') \<and> store_ok s' \<and> pdb_room n s' \<and> vbyte s' = (vbyte s)(a := (True, v))"
    if "store_ok s" "pdb_room (Suc n) s" for s n a v
    using set_vbits8_ok [OF that] .
qed

section \<open>The initial memory\<close>

lemma init_secmap: "secmap_of (init_shadow_memory ok) a =
    DSM (if a \<le> MAX_PRIMARY_ADDRESS then SM_DIST_UNTAINTED else SM_DIST_NOACCESS)"
  by (auto simp: secmap_of_def init_shadow_memory_def aux_lookup_def fast.lookup_elems OSetGen_Lookup_def
      OSetGen_Create_def)

lemma extract_constant:
  "extract_vabits2_from_vabits8 a 0 = 0" "extract_vabits2_from_vabits8 a 0x55 = 1"
  "extract_vabits2_from_vabits8 a 0xaa = 2"
  by (rule lane_cases [of a]; simp add: extract_lane take_bit_eq_mod drop_bit_eq_div)+

lemma init_vab2: "vab2 (init_shadow_memory ok) a = (if a \<le> MAX_PRIMARY_ADDRESS then 2 else 0)"
  by (simp add: vab2_def vab8_def init_secmap)
    (simp add: init_shadow_memory_def sm_distinguished_def extract_constant shadow_simps)

lemma init_aux: "aux_lookup (init_shadow_memory ok) b = None"
  by (simp add: aux_lookup_def init_shadow_memory_def OSetGen_Lookup_def OSetGen_Create_def)

lemma init_sec: "sec_lookup (init_shadow_memory ok) k = None"
  by (simp add: sec_lookup_def init_shadow_memory_def createSecVBitTable_def OSetGen_Lookup_def OSetGen_Create_def)

lemma init_maps_ok: "maps_ok (init_shadow_memory ok)"
proof -
  let ?s = "init_shadow_memory ok"
  have "l1_ok ?s"
    by (auto simp: l1_ok_def l1_entry_ok_def init_shadow_memory_def init_auxmap_L1_def)
  moreover have "l2_ok ?s"
    unfolding l2_ok_def init_aux by (simp add: init_shadow_memory_def)
  moreover have "sm_ok ?s"
    unfolding sm_ok_def init_secmap by (auto simp: init_shadow_memory_def sm_mapped_def sm_dist_defs)
  ultimately show ?thesis by (simp add: maps_ok_def)
qed

lemma init_tab_ok: "tab_ok (init_shadow_memory ok)"
  unfolding tab_ok_def init_sec by (simp add: init_shadow_memory_def createSecVBitTable_def)

lemma init_store_ok: "store_ok (init_shadow_memory (\<lambda>_. True))"
  using init_maps_ok init_tab_ok
  by (simp add: store_ok_def shadow_ok_def pdb_ok_def init_vab2 alloc_ok_def)
    (simp add: init_shadow_memory_def)

lemma init_vbyte: "vbyte (init_shadow_memory ok) a = (a \<le> MAX_PRIMARY_ADDRESS, 0)"
  by (simp add: vbyte_def init_vab2 shadow_simps)

lemma init_room: "n \<le> 3000000 \<Longrightarrow> pdb_room n (init_shadow_memory ok)"
  unfolding pdb_room_def pdb_granules_def init_vab2
  by (simp add: init_shadow_memory_def ITER_SAFE_def)

section \<open>Properties\<close>

text \<open>C6: After initialisation the whole invariant of the shadow memory holds (of the maps, of the table of V bits and of the partly
  tainted bytes), and every byte of the low address range reads as addressable and untainted, every byte above it as not
  addressable.\<close>

theorem init_shadow_memory_view:
  "shadow_ok (init_shadow_memory ok) \<and> (\<forall>a. vbyte (init_shadow_memory ok) a = (a \<le> MAX_PRIMARY_ADDRESS, V_BITS8_UNTAINTED))"
  by (simp add: shadow_ok_def pdb_ok_def init_maps_ok init_tab_ok init_vab2 init_vbyte shadow_simps)

text \<open>C7: The lookup in the auxiliary map: it finds or creates the entry of the page in the
  ordered set, keeps the cache consistent with it and free of duplicates, and changes no shadow
  byte.\<close>

theorem find_or_alloc_in_auxmap_correct:
  assumes "maps_ok s" "a > MAX_PRIMARY_ADDRESS"
  shows "\<exists>s'. find_or_alloc_in_auxmap s a = Some (page_of a, s') \<and> maps_ok s' \<and>
    aux_lookup s' (page_of a) \<noteq> None \<and> secmap_of s' = secmap_of s \<and> vab2 s' = vab2 s"
proof -
  have "l1_ok s" "l2_ok s" using assms(1) by (auto simp: maps_ok_def)
  from find_or_alloc_ok [OF this assms(2)] obtain s' where
    s': "find_or_alloc_in_auxmap s a = Some (page_of a, s')" "view_eq s s'" "l1_ok s'" "l2_ok s'"
      "aux_lookup s' (page_of a) \<noteq> None" by auto
  moreover have "maps_ok s'" using s'(2-4) view_eq_sm_ok [of s s'] assms(1) by (simp add: maps_ok_def)
  ultimately show ?thesis using view_eq_vab [OF s'(2)] by (auto simp: view_eq_def)
qed

theorem find_or_alloc_in_auxmap_correct_witness:
  "\<exists>s'. find_or_alloc_in_auxmap (init_shadow_memory (\<lambda>_. True)) 0x1234567812345678 =
      Some (page_of 0x1234567812345678, s') \<and> vab2 s' 0x1234567812345678 = 0"
  using find_or_alloc_in_auxmap_correct [OF init_maps_ok [of "\<lambda>_. True"], of "0x1234567812345678"]
  by (auto simp: init_vab2 MAX_PRIMARY_ADDRESS_val)

text \<open>C8: Copy on write: \<open>get_secmap_for_writing\<close> returns an allocated map that belongs to
  the page alone, with the contents the page had, and no byte of the shadow memory changes.\<close>

theorem get_secmap_for_writing_cow:
  assumes "maps_ok s" "shadow_alloc_ok s (sm_next s)"
  shows "\<exists>n s'. get_secmap_for_writing s a = Some (SM n, s') \<and> maps_ok s' \<and> vab8 s' = vab8 s \<and>
    (\<forall>b. secmap_of s' b = SM n \<longleftrightarrow> page_of b = page_of a)"
proof -
  obtain n s' where s': "get_secmap_for_writing s a = Some (SM n, s')" "maps_ok s'" "sec_eq s s'"
    "secmap_of s' a = SM n" "vab8 s' = vab8 s"
    using secmap_for_writing_ok [OF assms(1), of a] assms(2) by blast
  have "secmap_of s' b = SM n \<longleftrightarrow> page_of b = page_of a" for b
    using s'(2,4) secmap_of_page [of b a s'] unfolding maps_ok_def sm_ok_def by metis
  with s' show ?thesis by blast
qed

theorem get_secmap_for_writing_cow_witness:
  "\<exists>n s'. get_secmap_for_writing (init_shadow_memory (\<lambda>_. True)) 0x1000 = Some (SM n, s') \<and>
     secmap_of s' 0x1001 = SM n \<and> secmap_of s' 0x11000 \<noteq> SM n"
proof -
  have "shadow_alloc_ok (init_shadow_memory (\<lambda>_. True)) (sm_next (init_shadow_memory (\<lambda>_. True)))"
    by (simp add: init_shadow_memory_def)
  from get_secmap_for_writing_cow [OF init_maps_ok this, of "0x1000"] obtain n s' where
    s': "get_secmap_for_writing (init_shadow_memory (\<lambda>_. True)) 0x1000 = Some (SM n, s')"
      "\<forall>b. secmap_of s' b = SM n \<longleftrightarrow> page_of b = page_of 0x1000" by (elim exE conjE) (rule that)
  moreover have "page_of 0x1001 = page_of 0x1000" "page_of 0x11000 \<noteq> page_of 0x1000"
    by (simp_all add: page_of_def del: page_mask)
  ultimately show ?thesis by blast
qed

text \<open>C9: \<open>set_vbits8\<close> and \<open>get_vbits8\<close> are a store of shadow bytes: as long as fewer than
  three million granules are partly tainted and shadow memory can be allocated, a write succeeds,
  keeps the whole invariant (the table of V bits and its limit included, garbage collections
  included), is what the next read of that byte returns, and changes no other byte.\<close>

theorem set_get_vbits8:
  assumes "store_ok s" "pdb_room (Suc n) s"
  shows "\<exists>s1 s2. set_vbits8 s a v = Some (True, s1) \<and> store_ok s1 \<and> pdb_room n s1 \<and>
    get_vbits8 s1 a = Some (True, v, s2) \<and> store_ok s2 \<and> vbyte s2 = (vbyte s)(a := (True, v))"
proof -
  obtain s1 where s1: "set_vbits8 s a v = Some (True, s1)" "store_ok s1" "pdb_room n s1"
    "vbyte s1 = (vbyte s)(a := (True, v))"
    using shadow.put_ok [OF assms] by blast
  from shadow.get_ok [OF s1(2), of a] s1 show ?thesis by auto
qed

theorem set_get_vbits8_witness:
  "\<exists>s1 s2. set_vbits8 (init_shadow_memory (\<lambda>_. True)) 0x2345 0x0F = Some (True, s1) \<and>
     get_vbits8 s1 0x2345 = Some (True, 0x0F, s2)"
  using set_get_vbits8 [OF init_store_ok, of 0 "0x2345" "0x0F"] init_room [of "Suc 0"] by auto

text \<open>C10: A garbage collection of the table keeps exactly the nodes that still cover a partly
  tainted byte, loses no V bits that are in use, changes no shadow byte, and leaves room: the
  table is strictly below its new limit.\<close>

theorem gcSecVBitTable_correct:
  assumes "shadow_ok s" "secVBitLimit s < int ITER_SAFE"
  shows "\<exists>s'. gcSecVBitTable s = Some s' \<and> shadow_ok s' \<and> vbyte s' = vbyte s \<and>
    (\<forall>k. sec_lookup s' k \<noteq> None \<longleftrightarrow> (\<exists>n. sec_lookup s k = Some n \<and> node_fresh s n)) \<and>
    sint (OSetGen_Size (secVBitTable s')) < secVBitLimit s'"
proof -
  have ok: "maps_ok s" "tab_ok s" "pdb_ok s" using assms(1) by (auto simp: shadow_ok_def)
  from gc_ok [OF ok(1,2) assms(2)] obtain s' where s': "gcSecVBitTable s = Some s'" "maps_ok s'" "tab_ok s'"
    "vab2 s' = vab2 s"
    "\<forall>k. sec_lookup s' k = (case sec_lookup s k of None \<Rightarrow> None | Some n \<Rightarrow> if node_fresh s n then Some n else None)"
    "int (length (oset_elems (secVBitTable s'))) < secVBitLimit s'" by (elim exE conjE) (rule that)
  have val: "sec_val s' b = sec_val s b" if b: "vab2 s b = 3" for b
  proof -
    obtain n where n: "sec_lookup s (sec_key b) = Some n"
      using ok(3) b by (auto simp: pdb_ok_def sec_val_def)
    then have "sv_a n = sec_key b" using sec_lookup_addr [OF ok(2)] by blast
    then have "node_fresh s n" using b sec_parts [of b] unfolding node_fresh_def by (metis sec_index_less)
    with n show ?thesis using s'(5) by (simp add: sec_val_def)
  qed
  then have "pdb_ok s'" using ok(3) s'(4) by (simp add: pdb_ok_def)
  moreover have "vbyte s' b = vbyte s b" for b
  proof -
    have "sec_val s' b = sec_val s b" if "vab2 s b \<noteq> 0" "vab2 s b \<noteq> 1" "vab2 s b \<noteq> 2"
      using that val by (cases rule: vab2_cases [of s b]) simp_all
    then show ?thesis by (simp add: vbyte_def s'(4) va_bits_defs)
  qed
  then have "vbyte s' = vbyte s" by (rule ext)
  moreover have "sint (OSetGen_Size (secVBitTable s')) = int (length (oset_elems (secVBitTable s')))"
    using s'(3) by (intro oset_size_int) (auto simp: tab_ok_def)
  ultimately show ?thesis
    using s' by (auto simp: shadow_ok_def split: option.splits)
qed

theorem gcSecVBitTable_correct_witness:
  "\<exists>s'. gcSecVBitTable (init_shadow_memory (\<lambda>_. True)) = Some s' \<and> shadow_ok s'"
proof -
  have "shadow_ok (init_shadow_memory (\<lambda>_. True))" using init_store_ok by (simp add: store_ok_def)
  moreover have "secVBitLimit (init_shadow_memory (\<lambda>_. True)) < int ITER_SAFE"
    by (simp add: init_shadow_memory_def ITER_SAFE_def)
  ultimately show ?thesis using gcSecVBitTable_correct by blast
qed

text \<open>The counters do not count: they start with every map distinguished as not
  accessible, while the primary map starts with every entry untainted, so the first write
  leaves the number of untainted maps at -1.\<close>

theorem sm_counts_after_first_write:
  "\<exists>p s'. get_secmap_for_writing (init_shadow_memory (\<lambda>_. True)) 0x1000 = Some (p, s') \<and>
     n_defined_SMs (sm_stats s') = -1 \<and> n_noaccess_SMs (sm_stats s') = 2 ^ N_PRIMARY_BITS \<and>
     (\<forall>i. primary_map (init_shadow_memory (\<lambda>_. True)) i = DSM SM_DIST_UNTAINTED)"
proof -
  have "(0x1000::addr) \<le> MAX_PRIMARY_ADDRESS" by (simp add: MAX_PRIMARY_ADDRESS_val)
  then show ?thesis
    by (simp add: get_secmap_for_writing_def get_secmap_for_writing_low_def get_secmap_low_ptr_def
        N_PRIMARY_MAP_def N_PRIMARY_BITS_def sm_load_def sm_store_def init_shadow_memory_def
        copy_for_writing_def is_distinguished_sm_def sm_dist_defs update_SM_counts_def
        count_old_SM_def count_new_SM_def Let_def)
qed

end
