(* ===== verification/TntAccess.thy ===== *)
theory TntAccess
  imports TntShadow
begin

text \<open>
  The load and store handlers (\<^verbatim>\<open>taintgrind/tnt_main.c\<close>, lines 921 to 1237 and 1771 to
  2417): the byte loops of the slow cases, and the fast paths the generated code calls, which
  test alignment and range with one mask and look at 4 or 8 bytes of client memory at once.
  \<open>PERF_FAST_LOADV\<close> and \<open>PERF_FAST_STOREV\<close> are defined in the source, so the fast
  paths are the ones modelled. V bits are a 64-bit word; a load of fewer bits is used by the
  generated code through a narrowing, so only its low bits matter. The counters of bad addresses
  are left out: the code computes them and no longer uses them.
\<close>

section \<open>The byte loops\<close>

text \<open>\<open>for (i = szB-1; i >= 0; i--)\<close>: bytes from the most significant down, each shifted in
  from the right. The accessor of a byte is a parameter, \<open>get_vbits8\<close> in the code.\<close>

fun load_bytes :: "('s \<Rightarrow> addr \<Rightarrow> (bool \<times> u8 \<times> 's) option) \<Rightarrow> addr \<Rightarrow> u64 \<Rightarrow> bool \<Rightarrow> nat \<Rightarrow> u64 \<Rightarrow> 's \<Rightarrow>
    (u64 \<times> 's) option" where
  "load_bytes get a szB bigendian 0 vbits64 s = Some (vbits64, s)"
| "load_bytes get a szB bigendian (Suc i) vbits64 s = do {
     let ai = a + byte_offset_w szB bigendian (of_nat i);
     (ok, vbits8, s) \<leftarrow> get s ai;
     load_bytes get a szB bigendian i (push_bit 8 vbits64 OR ucast vbits8) s
   }"

text \<open>\<open>for (i = 0; i < szB; i++)\<close>: the bytes of \<open>vbytes\<close> from the least significant up;
  \<open>n\<close> iterations are left.\<close>

fun store_bytes :: "('s \<Rightarrow> addr \<Rightarrow> u8 \<Rightarrow> (bool \<times> 's) option) \<Rightarrow> addr \<Rightarrow> u64 \<Rightarrow> bool \<Rightarrow> nat \<Rightarrow> nat \<Rightarrow> u64 \<Rightarrow> 's \<Rightarrow>
    's option" where
  "store_bytes put a szB bigendian i 0 vbytes s = Some s"
| "store_bytes put a szB bigendian i (Suc n) vbytes s = do {
     let ai = a + byte_offset_w szB bigendian (of_nat i);
     let vbits8 = ucast (vbytes AND 0xff);
     (ok, s) \<leftarrow> put s ai vbits8;
     store_bytes put a szB bigendian (Suc i) n (drop_bit 8 vbytes) s
   }"

section \<open>Slow cases\<close>

text \<open>The two-byte entry \<open>((UShort*)(sm->vabits8))[i]\<close>.\<close>

definition read_vabits16 :: "tnt_mem \<Rightarrow> sm_ptr \<Rightarrow> nat \<Rightarrow> u16 option" where
  "read_vabits16 s p i = do {
     lo \<leftarrow> read_vabits8 s p (2 * i);
     hi \<leftarrow> read_vabits8 s p (2 * i + 1);
     Some (u16_of_bytes lo hi)
   }"

definition write_vabits16 :: "tnt_mem \<Rightarrow> sm_ptr \<Rightarrow> nat \<Rightarrow> u16 \<Rightarrow> tnt_mem option" where
  "write_vabits16 s p i w = do {
     s \<leftarrow> write_vabits8 s p (2 * i) (u16_lo w);
     write_vabits8 s p (2 * i + 1) (u16_hi w)
   }"

definition HIGH32_TAINTED :: u64 where "HIGH32_TAINTED = 0xFFFFFFFF00000000"

text \<open>The semi-fast cases of the slow load: a result, or nothing when the byte loop decides.\<close>

definition load_semi64 :: "tnt_mem \<Rightarrow> addr \<Rightarrow> (u64 option \<times> tnt_mem) option" where
  "load_semi64 s a = do {
     (sm, s) \<leftarrow> get_secmap_for_reading s a;
     vabits16 \<leftarrow> read_vabits16 s sm (SM_OFF_16 a);
     if vabits16 = VA_BITS16_UNTAINTED then Some (Some V_BITS64_UNTAINTED, s)
     else if vabits16 = VA_BITS16_TAINTED then Some (Some V_BITS64_TAINTED, s)
     else Some (None, s)
   }"

definition load_semi32 :: "tnt_mem \<Rightarrow> addr \<Rightarrow> (u64 option \<times> tnt_mem) option" where
  "load_semi32 s a = do {
     (sm, s) \<leftarrow> get_secmap_for_reading s a;
     vabits8 \<leftarrow> read_vabits8 s sm (SM_OFF a);
     if vabits8 = VA_BITS8_UNTAINTED then Some (Some (HIGH32_TAINTED OR V_BITS32_UNTAINTED), s)
     else if vabits8 = VA_BITS8_TAINTED then Some (Some (HIGH32_TAINTED OR V_BITS32_TAINTED), s)
     else Some (None, s)
   }"

definition tnt_LOADVn_slow :: "tnt_mem \<Rightarrow> addr \<Rightarrow> nat \<Rightarrow> bool \<Rightarrow> (u64 \<times> tnt_mem) option" where
  "tnt_LOADVn_slow s a nBits bigendian = do {
     let szB = nBits div 8;
     (r, s) \<leftarrow> (if nBits = 64 \<and> VG_IS_8_ALIGNED a then load_semi64 s a
               else if nBits = 32 \<and> VG_IS_4_ALIGNED a then load_semi32 s a
               else Some (None, s));
     (case r of
        Some w \<Rightarrow> Some (w, s)
      | None \<Rightarrow> do {
          assert_that (nBits = 64 \<or> nBits = 32 \<or> nBits = 16 \<or> nBits = 8);
          load_bytes get_vbits8 a (of_nat szB) bigendian szB V_BITS64_TAINTED s
        })
   }"

text \<open>The outer loop of the vector load, from the last 64-bit element down.\<close>

fun load_longs :: "addr \<Rightarrow> nat \<Rightarrow> bool \<Rightarrow> nat \<Rightarrow> u64 list \<Rightarrow> tnt_mem \<Rightarrow> (u64 list \<times> tnt_mem) option" where
  "load_longs a szL bigendian 0 res s = Some (res, s)"
| "load_longs a szL bigendian (Suc j) res s = do {
     let long_index = byte_offset_w (of_nat szL) bigendian (of_nat j);
     (vbits64, s) \<leftarrow> load_bytes get_vbits8 (a + 8 * long_index) 8 bigendian 8 V_BITS64_TAINTED s;
     assert_that (unat long_index < length res);
     load_longs a szL bigendian j (res[unat long_index := vbits64]) s
   }"

definition tnt_LOADV_128_or_256_slow :: "tnt_mem \<Rightarrow> u64 list \<Rightarrow> addr \<Rightarrow> nat \<Rightarrow> bool \<Rightarrow> (u64 list \<times> tnt_mem) option" where
  "tnt_LOADV_128_or_256_slow s res a nBits bigendian = do {
     let szB = nBits div 8;
     let szL = szB div 8;
     assert_that (of_nat szB AND (of_nat szB - 1) = (0::u64) \<and> szL > 0);
     assert_that (szL \<le> length res);
     let res = replicate szL V_BITS64_TAINTED @ drop szL res;
     load_longs a szL bigendian szL res s
   }"

definition store_semi64 :: "tnt_mem \<Rightarrow> addr \<Rightarrow> u64 \<Rightarrow> (bool \<times> tnt_mem) option" where
  "store_semi64 s a vbytes = do {
     (sm, s) \<leftarrow> get_secmap_for_reading s a;
     vabits16 \<leftarrow> read_vabits16 s sm (SM_OFF_16 a);
     if \<not> is_distinguished_sm sm \<and> (VA_BITS16_UNTAINTED = vabits16 \<or> VA_BITS16_TAINTED = vabits16) then
       (if V_BITS64_UNTAINTED = vbytes then
          map_option (Pair True) (write_vabits16 s sm (SM_OFF_16 a) VA_BITS16_UNTAINTED)
        else if V_BITS64_TAINTED = vbytes then
          map_option (Pair True) (write_vabits16 s sm (SM_OFF_16 a) VA_BITS16_TAINTED)
        else Some (False, s))
     else Some (False, s)
   }"

definition store_semi32 :: "tnt_mem \<Rightarrow> addr \<Rightarrow> u64 \<Rightarrow> (bool \<times> tnt_mem) option" where
  "store_semi32 s a vbytes = do {
     (sm, s) \<leftarrow> get_secmap_for_reading s a;
     vabits8 \<leftarrow> read_vabits8 s sm (SM_OFF a);
     if \<not> is_distinguished_sm sm \<and> (VA_BITS8_UNTAINTED = vabits8 \<or> VA_BITS8_TAINTED = vabits8) then
       (if V_BITS32_UNTAINTED = vbytes AND 0xFFFFFFFF then
          map_option (Pair True) (write_vabits8 s sm (SM_OFF a) VA_BITS8_UNTAINTED)
        else if V_BITS32_TAINTED = vbytes AND 0xFFFFFFFF then
          map_option (Pair True) (write_vabits8 s sm (SM_OFF a) VA_BITS8_TAINTED)
        else Some (False, s))
     else Some (False, s)
   }"

definition tnt_STOREVn_slow :: "tnt_mem \<Rightarrow> addr \<Rightarrow> nat \<Rightarrow> u64 \<Rightarrow> bool \<Rightarrow> tnt_mem option" where
  "tnt_STOREVn_slow s a nBits vbytes bigendian = do {
     let szB = nBits div 8;
     (done, s) \<leftarrow> (if nBits = 64 \<and> VG_IS_8_ALIGNED a then store_semi64 s a vbytes
                  else if nBits = 32 \<and> VG_IS_4_ALIGNED a then store_semi32 s a vbytes
                  else Some (False, s));
     if done then Some s
     else do {
       assert_that (nBits = 64 \<or> nBits = 32 \<or> nBits = 16 \<or> nBits = 8);
       store_bytes set_vbits8 a (of_nat szB) bigendian 0 szB vbytes s
     }
   }"

section \<open>Fast paths\<close>

definition MASK :: "u64 \<Rightarrow> u64" where
  "MASK szInBytes = NOT ((0x10000 - szInBytes) OR push_bit 16 (N_PRIMARY_MAP - 1))"

definition UNALIGNED_OR_HIGH :: "addr \<Rightarrow> u64 \<Rightarrow> u64" where
  "UNALIGNED_OR_HIGH a szInBits = a AND MASK (drop_bit 3 szInBits)"

text \<open>The loop over the elements of a vector: \<open>None\<close> inside when an element is neither wholly
  tainted nor wholly untainted.\<close>

function load_vector_fast :: "tnt_mem \<Rightarrow> addr \<Rightarrow> nat \<Rightarrow> nat \<Rightarrow> u64 list \<Rightarrow> (u64 list option \<times> tnt_mem) option" where
  "load_vector_fast s a nULongs j res =
     (if j < nULongs then do {
        (sm, s) \<leftarrow> get_secmap_for_reading_low s (a + 8 * of_nat j);
        vabits16 \<leftarrow> read_vabits16 s sm (SM_OFF_16 (a + 8 * of_nat j));
        if vabits16 = VA_BITS16_UNTAINTED then load_vector_fast s a nULongs (Suc j) (res[j := V_BITS64_UNTAINTED])
        else if vabits16 = VA_BITS16_TAINTED then load_vector_fast s a nULongs (Suc j) (res[j := V_BITS64_TAINTED])
        else Some (None, s)
      } else Some (Some res, s))"
  by pat_completeness auto
termination
  by (relation "measure (\<lambda>(s, a, n, j, res). n - j)") auto

declare load_vector_fast.simps [simp del]

definition tnt_LOADV_128_or_256 :: "tnt_mem \<Rightarrow> u64 list \<Rightarrow> addr \<Rightarrow> nat \<Rightarrow> bool \<Rightarrow> (u64 list \<times> tnt_mem) option" where
  "tnt_LOADV_128_or_256 s res a nBits isBigEndian =
     (if UNALIGNED_OR_HIGH a (of_nat nBits) \<noteq> 0 then tnt_LOADV_128_or_256_slow s res a nBits isBigEndian
      else do {
        (r, s) \<leftarrow> load_vector_fast s a (nBits div 8 div 8) 0 res;
        (case r of
           Some res' \<Rightarrow> Some (res', s)
         | None \<Rightarrow> tnt_LOADV_128_or_256_slow s res a nBits isBigEndian)
      })"

definition tnt_LOADV64 :: "tnt_mem \<Rightarrow> addr \<Rightarrow> bool \<Rightarrow> (u64 \<times> tnt_mem) option" where
  "tnt_LOADV64 s a isBigEndian =
     (if UNALIGNED_OR_HIGH a 64 \<noteq> 0 then tnt_LOADVn_slow s a 64 isBigEndian
      else do {
        (sm, s) \<leftarrow> get_secmap_for_reading_low s a;
        vabits16 \<leftarrow> read_vabits16 s sm (SM_OFF_16 a);
        if vabits16 = VA_BITS16_UNTAINTED then Some (V_BITS64_UNTAINTED, s)
        else if vabits16 = VA_BITS16_TAINTED then Some (V_BITS64_TAINTED, s)
        else tnt_LOADVn_slow s a 64 isBigEndian
      })"

definition tnt_STOREV64 :: "tnt_mem \<Rightarrow> addr \<Rightarrow> u64 \<Rightarrow> bool \<Rightarrow> tnt_mem option" where
  "tnt_STOREV64 s a vbits64 isBigEndian =
     (if UNALIGNED_OR_HIGH a 64 \<noteq> 0 then tnt_STOREVn_slow s a 64 vbits64 isBigEndian
      else do {
        (sm, s) \<leftarrow> get_secmap_for_reading_low s a;
        vabits16 \<leftarrow> read_vabits16 s sm (SM_OFF_16 a);
        if \<not> is_distinguished_sm sm \<and> (VA_BITS16_UNTAINTED = vabits16 \<or> VA_BITS16_TAINTED = vabits16) then
          (if V_BITS64_UNTAINTED = vbits64 then write_vabits16 s sm (SM_OFF_16 a) VA_BITS16_UNTAINTED
           else if V_BITS64_TAINTED = vbits64 then write_vabits16 s sm (SM_OFF_16 a) VA_BITS16_TAINTED
           else tnt_STOREVn_slow s a 64 vbits64 isBigEndian)
        else tnt_STOREVn_slow s a 64 vbits64 isBigEndian
      })"

definition tnt_LOADV32 :: "tnt_mem \<Rightarrow> addr \<Rightarrow> bool \<Rightarrow> (u64 \<times> tnt_mem) option" where
  "tnt_LOADV32 s a isBigEndian =
     (if UNALIGNED_OR_HIGH a 32 \<noteq> 0 then tnt_LOADVn_slow s a 32 isBigEndian
      else do {
        (sm, s) \<leftarrow> get_secmap_for_reading_low s a;
        vabits8 \<leftarrow> read_vabits8 s sm (SM_OFF a);
        if vabits8 = VA_BITS8_UNTAINTED then Some (HIGH32_TAINTED OR V_BITS32_UNTAINTED, s)
        else if vabits8 = VA_BITS8_TAINTED then Some (HIGH32_TAINTED OR V_BITS32_TAINTED, s)
        else tnt_LOADVn_slow s a 32 isBigEndian
      })"

definition tnt_STOREV32 :: "tnt_mem \<Rightarrow> addr \<Rightarrow> u64 \<Rightarrow> bool \<Rightarrow> tnt_mem option" where
  "tnt_STOREV32 s a vbits32 isBigEndian =
     (if UNALIGNED_OR_HIGH a 32 \<noteq> 0 then tnt_STOREVn_slow s a 32 vbits32 isBigEndian
      else do {
        (sm, s) \<leftarrow> get_secmap_for_reading_low s a;
        vabits8 \<leftarrow> read_vabits8 s sm (SM_OFF a);
        if V_BITS32_UNTAINTED = vbits32 then
          (if vabits8 = VA_BITS8_UNTAINTED then Some s
           else if \<not> is_distinguished_sm sm \<and> VA_BITS8_TAINTED = vabits8 then
             write_vabits8 s sm (SM_OFF a) VA_BITS8_UNTAINTED
           else tnt_STOREVn_slow s a 32 vbits32 isBigEndian)
        else if V_BITS32_TAINTED = vbits32 then
          (if vabits8 = VA_BITS8_TAINTED then Some s
           else if \<not> is_distinguished_sm sm \<and> VA_BITS8_UNTAINTED = vabits8 then
             write_vabits8 s sm (SM_OFF a) VA_BITS8_TAINTED
           else tnt_STOREVn_slow s a 32 vbits32 isBigEndian)
        else tnt_STOREVn_slow s a 32 vbits32 isBigEndian
      })"

definition tnt_LOADV16 :: "tnt_mem \<Rightarrow> addr \<Rightarrow> bool \<Rightarrow> (u64 \<times> tnt_mem) option" where
  "tnt_LOADV16 s a isBigEndian =
     (if UNALIGNED_OR_HIGH a 16 \<noteq> 0 then tnt_LOADVn_slow s a 16 isBigEndian
      else do {
        (sm, s) \<leftarrow> get_secmap_for_reading_low s a;
        vabits8 \<leftarrow> read_vabits8 s sm (SM_OFF a);
        if vabits8 = VA_BITS8_UNTAINTED then Some (V_BITS16_UNTAINTED, s)
        else if vabits8 = VA_BITS8_TAINTED then Some (V_BITS16_TAINTED, s)
        else do {
          vabits4 \<leftarrow> extract_vabits4_from_vabits8 a vabits8;
          if vabits4 = VA_BITS4_UNTAINTED then Some (V_BITS16_UNTAINTED, s)
          else if vabits4 = VA_BITS4_TAINTED then Some (V_BITS16_TAINTED, s)
          else tnt_LOADVn_slow s a 16 isBigEndian
        }
      })"

definition tnt_STOREV16 :: "tnt_mem \<Rightarrow> addr \<Rightarrow> u64 \<Rightarrow> bool \<Rightarrow> tnt_mem option" where
  "tnt_STOREV16 s a vbits16 isBigEndian =
     (if UNALIGNED_OR_HIGH a 16 \<noteq> 0 then tnt_STOREVn_slow s a 16 vbits16 isBigEndian
      else do {
        (sm, s) \<leftarrow> get_secmap_for_reading_low s a;
        vabits8 \<leftarrow> read_vabits8 s sm (SM_OFF a);
        if \<not> is_distinguished_sm sm \<and> (VA_BITS8_UNTAINTED = vabits8 \<or> VA_BITS8_TAINTED = vabits8) then
          (if V_BITS16_UNTAINTED = vbits16 then do {
             w \<leftarrow> insert_vabits4_into_vabits8 a VA_BITS4_UNTAINTED vabits8;
             write_vabits8 s sm (SM_OFF a) w
           } else if V_BITS16_TAINTED = vbits16 then do {
             w \<leftarrow> insert_vabits4_into_vabits8 a VA_BITS4_TAINTED vabits8;
             write_vabits8 s sm (SM_OFF a) w
           } else tnt_STOREVn_slow s a 16 vbits16 isBigEndian)
        else tnt_STOREVn_slow s a 16 vbits16 isBigEndian
      })"

definition helperc_LOADV8 :: "tnt_mem \<Rightarrow> addr \<Rightarrow> (u64 \<times> tnt_mem) option" where
  "helperc_LOADV8 s a =
     (if UNALIGNED_OR_HIGH a 8 \<noteq> 0 then tnt_LOADVn_slow s a 8 False
      else do {
        (sm, s) \<leftarrow> get_secmap_for_reading_low s a;
        vabits8 \<leftarrow> read_vabits8 s sm (SM_OFF a);
        if vabits8 = VA_BITS8_UNTAINTED then Some (ucast V_BITS8_UNTAINTED, s)
        else if vabits8 = VA_BITS8_TAINTED then Some (ucast V_BITS8_TAINTED, s)
        else
          (let vabits2 = extract_vabits2_from_vabits8 a vabits8
           in if vabits2 = VA_BITS2_UNTAINTED then Some (ucast V_BITS8_UNTAINTED, s)
              else if vabits2 = VA_BITS2_TAINTED then Some (ucast V_BITS8_TAINTED, s)
              else tnt_LOADVn_slow s a 8 False)
      })"

definition helperc_STOREV8 :: "tnt_mem \<Rightarrow> addr \<Rightarrow> u64 \<Rightarrow> tnt_mem option" where
  "helperc_STOREV8 s a vbits8 =
     (if UNALIGNED_OR_HIGH a 8 \<noteq> 0 then tnt_STOREVn_slow s a 8 vbits8 False
      else do {
        (sm, s) \<leftarrow> get_secmap_for_reading_low s a;
        vabits8 \<leftarrow> read_vabits8 s sm (SM_OFF a);
        if \<not> is_distinguished_sm sm \<and>
           ((VA_BITS8_UNTAINTED = vabits8 \<or> VA_BITS8_TAINTED = vabits8) \<or>
            VA_BITS2_NOACCESS \<noteq> extract_vabits2_from_vabits8 a vabits8) then
          (if ucast V_BITS8_UNTAINTED = vbits8 then
             write_vabits8 s sm (SM_OFF a) (insert_vabits2_into_vabits8 a VA_BITS2_UNTAINTED vabits8)
           else if ucast V_BITS8_TAINTED = vbits8 then
             write_vabits8 s sm (SM_OFF a) (insert_vabits2_into_vabits8 a VA_BITS2_TAINTED vabits8)
           else tnt_STOREVn_slow s a 8 vbits8 False)
        else tnt_STOREVn_slow s a 8 vbits8 False
      })"

text \<open>The entry points of the generated code.\<close>

definition helperc_LOADV256be :: "tnt_mem \<Rightarrow> addr \<Rightarrow> (u64 list \<times> tnt_mem) option" where
  "helperc_LOADV256be s a = tnt_LOADV_128_or_256 s (replicate 4 0) a 256 True"
definition helperc_LOADV256le :: "tnt_mem \<Rightarrow> addr \<Rightarrow> (u64 list \<times> tnt_mem) option" where
  "helperc_LOADV256le s a = tnt_LOADV_128_or_256 s (replicate 4 0) a 256 False"
definition helperc_LOADV128be :: "tnt_mem \<Rightarrow> addr \<Rightarrow> (u64 list \<times> tnt_mem) option" where
  "helperc_LOADV128be s a = tnt_LOADV_128_or_256 s (replicate 2 0) a 128 True"
definition helperc_LOADV128le :: "tnt_mem \<Rightarrow> addr \<Rightarrow> (u64 list \<times> tnt_mem) option" where
  "helperc_LOADV128le s a = tnt_LOADV_128_or_256 s (replicate 2 0) a 128 False"
definition helperc_LOADV64be :: "tnt_mem \<Rightarrow> addr \<Rightarrow> (u64 \<times> tnt_mem) option" where
  "helperc_LOADV64be s a = tnt_LOADV64 s a True"
definition helperc_LOADV64le :: "tnt_mem \<Rightarrow> addr \<Rightarrow> (u64 \<times> tnt_mem) option" where
  "helperc_LOADV64le s a = tnt_LOADV64 s a False"
definition helperc_STOREV64be :: "tnt_mem \<Rightarrow> addr \<Rightarrow> u64 \<Rightarrow> tnt_mem option" where
  "helperc_STOREV64be s a v = tnt_STOREV64 s a v True"
definition helperc_STOREV64le :: "tnt_mem \<Rightarrow> addr \<Rightarrow> u64 \<Rightarrow> tnt_mem option" where
  "helperc_STOREV64le s a v = tnt_STOREV64 s a v False"
definition helperc_LOADV32be :: "tnt_mem \<Rightarrow> addr \<Rightarrow> (u64 \<times> tnt_mem) option" where
  "helperc_LOADV32be s a = tnt_LOADV32 s a True"
definition helperc_LOADV32le :: "tnt_mem \<Rightarrow> addr \<Rightarrow> (u64 \<times> tnt_mem) option" where
  "helperc_LOADV32le s a = tnt_LOADV32 s a False"
definition helperc_STOREV32be :: "tnt_mem \<Rightarrow> addr \<Rightarrow> u64 \<Rightarrow> tnt_mem option" where
  "helperc_STOREV32be s a v = tnt_STOREV32 s a v True"
definition helperc_STOREV32le :: "tnt_mem \<Rightarrow> addr \<Rightarrow> u64 \<Rightarrow> tnt_mem option" where
  "helperc_STOREV32le s a v = tnt_STOREV32 s a v False"
definition helperc_LOADV16be :: "tnt_mem \<Rightarrow> addr \<Rightarrow> (u64 \<times> tnt_mem) option" where
  "helperc_LOADV16be s a = tnt_LOADV16 s a True"
definition helperc_LOADV16le :: "tnt_mem \<Rightarrow> addr \<Rightarrow> (u64 \<times> tnt_mem) option" where
  "helperc_LOADV16le s a = tnt_LOADV16 s a False"
definition helperc_STOREV16be :: "tnt_mem \<Rightarrow> addr \<Rightarrow> u64 \<Rightarrow> tnt_mem option" where
  "helperc_STOREV16be s a v = tnt_STOREV16 s a v True"
definition helperc_STOREV16le :: "tnt_mem \<Rightarrow> addr \<Rightarrow> u64 \<Rightarrow> tnt_mem option" where
  "helperc_STOREV16le s a v = tnt_STOREV16 s a v False"

section \<open>Alignment and range in one mask\<close>

lemma MASK_values:
  "MASK 1 = NOT (mask 35)" "MASK 2 = NOT (mask 35) OR mask 1" "MASK 4 = NOT (mask 35) OR mask 2"
  "MASK 8 = NOT (mask 35) OR mask 3" "MASK 16 = NOT (mask 35) OR mask 4" "MASK 32 = NOT (mask 35) OR mask 5"
  by (simp_all add: MASK_def N_PRIMARY_MAP_def N_PRIMARY_BITS_def mask_eq_exp_minus_1)

lemma low_mask: "a AND NOT (mask 35) = 0 \<longleftrightarrow> a \<le> MAX_PRIMARY_ADDRESS" for a :: addr
proof -
  have "a AND NOT (mask 35) = 0 \<longleftrightarrow> take_bit 35 a = a"
  proof
    assume z: "a AND NOT (mask 35) = 0"
    have "a = (a AND mask 35) OR (a AND NOT (mask 35))"
      by (rule bit_word_eqI) (auto simp: bit_simps)
    with z show "take_bit 35 a = a" by (simp add: take_bit_eq_mask)
  next
    assume "take_bit 35 a = a"
    then have "a AND mask 35 = a" by (simp add: take_bit_eq_mask)
    then have "a AND NOT (mask 35) = (a AND mask 35) AND NOT (mask 35)" by simp
    also have "\<dots> = 0" by (rule bit_word_eqI) (auto simp: bit_simps)
    finally show "a AND NOT (mask 35) = 0" .
  qed
  also have "\<dots> \<longleftrightarrow> a < 2 ^ 35"
  proof -
    have "take_bit 35 a = a \<longleftrightarrow> take_bit 35 (unat a) = unat a"
      by (simp only: word_unat_eq_iff unsigned_take_bit_eq)
    then show ?thesis by (simp only: take_bit_nat_eq_self_iff) (simp add: word_less_nat_alt)
  qed
  also have "\<dots> \<longleftrightarrow> a \<le> MAX_PRIMARY_ADDRESS"
    by (simp add: MAX_PRIMARY_ADDRESS_val word_less_nat_alt word_le_nat_alt less_Suc_eq_le [symmetric])
  finally show ?thesis .
qed

lemma and_or_zero: "a AND (x OR y) = 0 \<longleftrightarrow> a AND x = 0 \<and> a AND y = 0" for a :: addr
  by (simp add: bit.conj_disj_distrib) (metis or_eq_0_iff)

lemma UNALIGNED_OR_HIGH_zero:
  "UNALIGNED_OR_HIGH a 8 = 0 \<longleftrightarrow> a \<le> MAX_PRIMARY_ADDRESS"
  "UNALIGNED_OR_HIGH a 16 = 0 \<longleftrightarrow> a \<le> MAX_PRIMARY_ADDRESS \<and> VG_IS_2_ALIGNED a"
  "UNALIGNED_OR_HIGH a 32 = 0 \<longleftrightarrow> a \<le> MAX_PRIMARY_ADDRESS \<and> VG_IS_4_ALIGNED a"
  "UNALIGNED_OR_HIGH a 64 = 0 \<longleftrightarrow> a \<le> MAX_PRIMARY_ADDRESS \<and> VG_IS_8_ALIGNED a"
  "UNALIGNED_OR_HIGH a 128 = 0 \<longleftrightarrow> a \<le> MAX_PRIMARY_ADDRESS \<and> a AND 15 = 0"
  "UNALIGNED_OR_HIGH a 256 = 0 \<longleftrightarrow> a \<le> MAX_PRIMARY_ADDRESS \<and> a AND 31 = 0"
proof -
  have d: "drop_bit 3 (8::u64) = 1" "drop_bit 3 (16::u64) = 2" "drop_bit 3 (32::u64) = 4"
    "drop_bit 3 (64::u64) = 8" "drop_bit 3 (128::u64) = 16" "drop_bit 3 (256::u64) = 32"
    by (simp_all add: drop_bit_eq_div)
  have m: "mask 1 = (1::u64)" "mask 2 = (3::u64)" "mask 3 = (7::u64)" "mask 4 = (15::u64)" "mask 5 = (31::u64)"
    by (simp_all add: mask_eq_exp_minus_1)
  show "UNALIGNED_OR_HIGH a 8 = 0 \<longleftrightarrow> a \<le> MAX_PRIMARY_ADDRESS"
    unfolding UNALIGNED_OR_HIGH_def d MASK_values low_mask ..
  show "UNALIGNED_OR_HIGH a 16 = 0 \<longleftrightarrow> a \<le> MAX_PRIMARY_ADDRESS \<and> VG_IS_2_ALIGNED a"
    unfolding UNALIGNED_OR_HIGH_def d MASK_values and_or_zero low_mask VG_IS_2_ALIGNED_def m ..
  show "UNALIGNED_OR_HIGH a 32 = 0 \<longleftrightarrow> a \<le> MAX_PRIMARY_ADDRESS \<and> VG_IS_4_ALIGNED a"
    unfolding UNALIGNED_OR_HIGH_def d MASK_values and_or_zero low_mask VG_IS_4_ALIGNED_def m ..
  show "UNALIGNED_OR_HIGH a 64 = 0 \<longleftrightarrow> a \<le> MAX_PRIMARY_ADDRESS \<and> VG_IS_8_ALIGNED a"
    unfolding UNALIGNED_OR_HIGH_def d MASK_values and_or_zero low_mask VG_IS_8_ALIGNED_def m ..
  show "UNALIGNED_OR_HIGH a 128 = 0 \<longleftrightarrow> a \<le> MAX_PRIMARY_ADDRESS \<and> a AND 15 = 0"
    unfolding UNALIGNED_OR_HIGH_def d MASK_values and_or_zero low_mask m ..
  show "UNALIGNED_OR_HIGH a 256 = 0 \<longleftrightarrow> a \<le> MAX_PRIMARY_ADDRESS \<and> a AND 31 = 0"
    unfolding UNALIGNED_OR_HIGH_def d MASK_values and_or_zero low_mask m ..
qed

section \<open>The bytes of an aligned word\<close>

lemma SM_OFF_alt: "SM_OFF a = unat a div 4 mod 16384"
proof -
  have "unat a mod (4 * 16384) = 4 * (unat a div 4 mod 16384) + unat a mod 4" by (rule mod_mult2_eq)
  then show ?thesis by (simp add: SM_OFF_nat)
qed

lemma aligned_mod: "a AND 1 = 0 \<longleftrightarrow> unat a mod 2 = 0" "a AND 3 = 0 \<longleftrightarrow> unat a mod 4 = 0"
  "a AND 7 = 0 \<longleftrightarrow> unat a mod 8 = 0" for a :: addr
  by (simp_all only: word_unat_eq_iff unat_and_low unsigned_0)

lemma unat_addr_less: "unat (a::addr) < 18446744073709551616"
  using unsigned_less [of a] by simp

lemma unat_add_small:
  assumes "unat (a::addr) mod m = 0" "i < m" "m dvd 2 ^ 64"
  shows "unat (a + of_nat i) = unat a + i"
proof -
  have lt: "unat a < 2 ^ 64" using unat_addr_less [of a] by simp
  have "unat a + m \<le> 2 ^ 64"
  proof -
    obtain q where q: "unat a = m * q" using assms(1) by auto
    obtain p where p: "2 ^ 64 = m * p" using assms(3) by (elim dvdE)
    have "q < p" using lt q p assms(2) by (metis less_nat_zero_code mult_less_cancel1)
    then have "m * (q + 1) \<le> m * p" by (intro mult_le_mono2) simp
    then show ?thesis using q p by simp
  qed
  then have "unat a + i < 2 ^ 64" "i < 2 ^ 64" using assms(2) by simp_all
  then show ?thesis
    by (simp add: unat_word_ariths unsigned_of_nat take_bit_nat_eq_self)
qed

lemma page_of_nat: "page_of a = page_of b \<longleftrightarrow> unat a div 65536 = unat b div 65536"
  using page_index [of a b] by (simp add: unat_drop_bit del: unsigned_drop_bit_eq)

lemma word_bytes:
  assumes "a AND 3 = 0" "i < 4"
  shows "page_of (a + of_nat i) = page_of a" "SM_OFF (a + of_nat i) = SM_OFF a" "lane (a + of_nat i) = i"
proof -
  have al: "unat a mod 4 = 0" using assms(1) by (simp only: aligned_mod)
  then have u: "unat (a + of_nat i) = unat a + i" using assms(2) by (intro unat_add_small) auto
  from al obtain q where q: "unat a = 4 * q" by auto
  show "SM_OFF (a + of_nat i) = SM_OFF a" "lane (a + of_nat i) = i"
    unfolding SM_OFF_alt lane_def u q using assms(2) by simp_all
  have "(4 * q + i) div 4 div 16384 = 4 * q div 4 div 16384" using assms(2) by simp
  then have "(4 * q + i) div (4 * 16384) = 4 * q div (4 * 16384)" by (simp only: div_mult2_eq)
  then show "page_of (a + of_nat i) = page_of a"
    unfolding page_of_nat u q by simp
qed

lemma word_bytes_iff:
  assumes "a AND 3 = 0"
  shows "page_of b = page_of a \<and> SM_OFF b = SM_OFF a \<longleftrightarrow> (\<exists>i < 4. b = a + of_nat i)"
proof
  assume eq: "page_of b = page_of a \<and> SM_OFF b = SM_OFF a"
  note wb = word_bytes [OF assms lane_less [of b]]
  have "b = a + of_nat (lane b)"
    using address_eq [of b "a + of_nat (lane b)"] wb eq by simp
  then show "\<exists>i < 4. b = a + of_nat i" using lane_less [of b] by blast
qed (use word_bytes [OF assms] in auto)

lemma long_bytes:
  assumes "a AND 7 = 0"
  shows "a AND 3 = 0" "(a + 4) AND 3 = 0" "page_of (a + 4) = page_of a" "SM_OFF (a + 4) = SM_OFF a + 1"
    "2 * SM_OFF_16 a = SM_OFF a"
proof -
  have al: "unat a mod 8 = 0" using assms by (simp only: aligned_mod)
  then have u: "unat (a + 4) = unat a + 4" using unat_add_small [of a 8 4] by simp
  from al obtain q where q: "unat a = 8 * q" by auto
  have "8 * q mod 4 = 0" "(8 * q + 4) mod 4 = 0" by presburger+
  then show "a AND 3 = 0" "(a + 4) AND 3 = 0" unfolding aligned_mod u q by simp_all
  have e: "8 * q div 4 = 2 * q" "(8 * q + 4) div 4 = 2 * q + 1" by simp_all
  have m: "2 * q mod 16384 = 2 * (q mod 8192)" by (rule mult_mod_right [of 2 q 8192, simplified, symmetric])
  have "q mod 8192 < 8192" by simp
  then have "(2 * q + 1) mod 16384 = 2 * (q mod 8192) + 1"
    using m by (metis mod_Suc Suc_eq_plus1 mod_less_divisor not_less_eq numeral_2_eq_2 even_Suc dvd_triv_left even_numeral odd_one)
  then show "SM_OFF (a + 4) = SM_OFF a + 1"
    unfolding SM_OFF_alt u q e m by simp
  have "8 * q div 65536 = (8 * q + 4) div 65536"
  proof -
    have "8 * q div (4 * 2 * 8192) = (8 * q + 4) div (4 * 2 * 8192)"
      unfolding div_mult2_eq e by simp
    then show ?thesis by simp
  qed
  then show "page_of (a + 4) = page_of a" unfolding page_of_nat u q by simp
  show "2 * SM_OFF_16 a = SM_OFF a"
    unfolding SM_OFF_16_nat SM_OFF_alt q e m
    using mult_mod_right [of 8 q 8192] by simp
qed

section \<open>What a load and a store mean\<close>

definition byte_addr :: "addr \<Rightarrow> nat \<Rightarrow> bool \<Rightarrow> nat \<Rightarrow> addr" where
  "byte_addr a n bigendian i = a + byte_offset_w (of_nat n) bigendian (of_nat i)"

text \<open>Bit \<open>k\<close> of an \<open>n\<close>-byte load is a bit of the byte \<open>k div 8\<close>, counted from the least
  significant end.\<close>

definition loaded :: "(addr \<Rightarrow> bool \<times> u8) \<Rightarrow> addr \<Rightarrow> nat \<Rightarrow> bool \<Rightarrow> u64 \<Rightarrow> bool" where
  "loaded view a n bigendian w \<longleftrightarrow>
     (\<forall>k < 8 * n. bit w k = bit (snd (view (byte_addr a n bigendian (k div 8)))) (k mod 8))"

definition stored :: "(addr \<Rightarrow> bool \<times> u8) \<Rightarrow> addr \<Rightarrow> nat \<Rightarrow> bool \<Rightarrow> u64 \<Rightarrow> (addr \<Rightarrow> bool \<times> u8)" where
  "stored view a n bigendian w = (\<lambda>b.
     case List.find (\<lambda>i. b = byte_addr a n bigendian i) [0..<n] of
       Some i \<Rightarrow> (True, ucast (drop_bit (8 * i) w))
     | None \<Rightarrow> view b)"

lemma byte_addr_inj:
  assumes "n \<le> 8" "i < n" "j < n" "byte_addr a n be i = byte_addr a n be j"
  shows "i = j"
proof -
  have "of_nat i = (of_nat j :: u64)"
    using assms(4) by (simp add: byte_addr_def byte_offset_w_def split: if_splits)
  then have "unat (of_nat i :: u64) = unat (of_nat j :: u64)" by simp
  then show ?thesis using assms(1-3) by (simp add: unsigned_of_nat take_bit_nat_eq_self)
qed

lemma byte_addr_le: "byte_addr a n False i = a + of_nat i"
  by (simp add: byte_addr_def byte_offset_w_def)

lemma byte_addr_be: "i < n \<Longrightarrow> byte_addr a n True i = a + of_nat (n - 1 - i)"
  by (simp add: byte_addr_def byte_offset_w_def of_nat_diff)

lemma byte_addr_range: "(\<exists>i < n. b = byte_addr a n be i) \<longleftrightarrow> (\<exists>i < n. b = a + of_nat i)"
proof (cases be)
  case True
  have "(\<exists>i < n. b = a + of_nat (n - 1 - i)) \<longleftrightarrow> (\<exists>i < n. b = a + of_nat i)"
  proof
    assume "\<exists>i < n. b = a + of_nat i"
    then obtain i where "i < n" "b = a + of_nat i" by blast
    then have "n - 1 - i < n" "b = a + of_nat (n - 1 - (n - 1 - i))" by simp_all
    then show "\<exists>i < n. b = a + of_nat (n - 1 - i)" by blast
  next
    assume "\<exists>i < n. b = a + of_nat (n - 1 - i)"
    then obtain i where "i < n" "b = a + of_nat (n - 1 - i)" by blast
    then have "n - 1 - i < n" "b = a + of_nat (n - 1 - i)" by simp_all
    then show "\<exists>i < n. b = a + of_nat i" by blast
  qed
  then show ?thesis using True by (auto simp: byte_addr_be)
qed (simp add: byte_addr_le)

lemma find_unique:
  assumes "i < n" "P i" "\<And>j. j < n \<Longrightarrow> P j \<Longrightarrow> j = i"
  shows "List.find P [0..<n] = Some i"
proof (cases "List.find P [0..<n]")
  case None
  then have "\<not> (\<exists>x. x \<in> set [0..<n] \<and> P x)" by (simp add: find_None_iff)
  with assms(1,2) show ?thesis by simp
next
  case (Some j)
  then have "j < n" "P j" by (auto simp: find_Some_iff)
  with assms(3) Some show ?thesis by simp
qed

lemma stored_at:
  "n \<le> 8 \<Longrightarrow> i < n \<Longrightarrow> stored view a n be w (byte_addr a n be i) = (True, ucast (drop_bit (8 * i) w))"
  unfolding stored_def by (subst find_unique [of i]) (auto dest: byte_addr_inj)

lemma stored_other: "\<nexists>i. i < n \<and> b = a + of_nat i \<Longrightarrow> stored view a n be w b = view b"
proof -
  assume "\<nexists>i. i < n \<and> b = a + of_nat i"
  then have "List.find (\<lambda>i. b = byte_addr a n be i) [0..<n] = None"
    unfolding find_None_iff using byte_addr_range [of n b a be] by auto
  then show ?thesis by (simp add: stored_def)
qed

text \<open>A value whose bytes are all the same is stored the same way in either byte order.\<close>

lemma stored_const:
  assumes "n \<le> 8" "\<And>i. i < n \<Longrightarrow> ucast (drop_bit (8 * i) w) = c"
  shows "stored view a n be w = (\<lambda>b. if \<exists>i < n. b = a + of_nat i then (True, c) else view b)"
proof
  fix b
  show "stored view a n be w b = (if \<exists>i < n. b = a + of_nat i then (True, c) else view b)"
  proof (cases "\<exists>i < n. b = a + of_nat i")
    case True
    then obtain i where i: "i < n" "b = byte_addr a n be i" using byte_addr_range [of n b a be] by blast
    with True show ?thesis using stored_at [OF assms(1) i(1), of view a be w] assms(2) [OF i(1)] by simp
  next
    case False
    then show ?thesis using stored_other [of n b a view be w] by auto
  qed
qed

lemma loaded_const:
  assumes "\<And>i. i < n \<Longrightarrow> snd (view (a + of_nat i)) = c" "\<And>k. k < 8 * n \<Longrightarrow> bit w k = bit c (k mod 8)"
  shows "loaded view a n be w"
  unfolding loaded_def
proof (intro allI impI)
  fix k assume k: "k < 8 * n"
  then have "k div 8 < n" by (simp add: div_less_iff_less_mult mult.commute)
  then obtain i where "i < n" "byte_addr a n be (k div 8) = a + of_nat i"
    using byte_addr_range [of n "byte_addr a n be (k div 8)" a be] by blast
  with assms k show "bit w k = bit (snd (view (byte_addr a n be (k div 8)))) (k mod 8)" by simp
qed

text \<open>Loading what was stored gives the bits back.\<close>

lemma loaded_stored: "n \<le> 8 \<Longrightarrow> loaded (stored view a n be w) a n be v \<longleftrightarrow> (\<forall>k < 8 * n. bit v k = bit w k)"
proof -
  assume n: "n \<le> 8"
  have "bit (snd (stored view a n be w (byte_addr a n be (k div 8)))) (k mod 8) = bit w k" if k: "k < 8 * n" for k
  proof -
    have "k div 8 < n" using k by (simp add: div_less_iff_less_mult mult.commute)
    moreover have "8 * (k div 8) + k mod 8 = k" by simp
    moreover have "k mod 8 < 8" by simp
    ultimately show ?thesis using n by (simp add: stored_at bit_simps)
  qed
  then show ?thesis by (simp add: loaded_def)
qed

section \<open>The byte loops over any store\<close>

context byte_store
begin

text \<open>What a load leaves of the store, and what a store does to it.\<close>

definition same_store :: "'s \<Rightarrow> 's \<Rightarrow> bool" where
  "same_store s s' \<longleftrightarrow> ok s' \<and> view s' = view s \<and> (\<forall>n. room n s \<longrightarrow> room n s')"

lemma load_bytes_ok:
  "ok s \<Longrightarrow> i \<le> 8 \<Longrightarrow> \<exists>w s'. load_bytes get a (of_nat n) be i acc s = Some (w, s') \<and> same_store s s' \<and>
    (\<forall>k < 64. bit w k = (if k < 8 * i then bit (snd (view s (byte_addr a n be (k div 8)))) (k mod 8)
       else bit acc (k - 8 * i)))"
proof (induction i arbitrary: acc s)
  case 0
  then show ?case by (simp add: same_store_def)
next
  case (Suc i)
  let ?ai = "byte_addr a n be i"
  obtain s1 where s1: "get s ?ai = Some (fst (view s ?ai), snd (view s ?ai), s1)" "ok s1" "view s1 = view s"
    "\<forall>n. room n s \<longrightarrow> room n s1" using get_ok [OF Suc.prems(1)] by blast
  have le: "i \<le> 8" using Suc.prems(2) by simp
  let ?acc = "push_bit 8 acc OR ucast (snd (view s ?ai))"
  obtain w s' where w: "load_bytes get a (of_nat n) be i ?acc s1 = Some (w, s')" "same_store s1 s'"
    "\<forall>k < 64. bit w k = (if k < 8 * i then bit (snd (view s1 (byte_addr a n be (k div 8)))) (k mod 8)
       else bit ?acc (k - 8 * i))"
    using Suc.IH [OF s1(2) le, of ?acc] by (elim exE conjE) (rule that)
  have "bit w k = (if k < 8 * Suc i then bit (snd (view s (byte_addr a n be (k div 8)))) (k mod 8)
       else bit acc (k - 8 * Suc i))" if k: "k < 64" for k
  proof -
    consider "k < 8 * i" | "8 * i \<le> k" "k < 8 * Suc i" | "8 * Suc i \<le> k" by linarith
    then show ?thesis
    proof cases
      case 1
      then show ?thesis using w(3) s1(3) k by simp
    next
      case 2
      then obtain r where r: "k = 8 * i + r" "r < 8" using le_Suc_ex by fastforce
      then have "(8 * i + r) div 8 = i" "(8 * i + r) mod 8 = r" by simp_all
      with r show ?thesis using w(3) [rule_format, OF k] by (simp add: bit_simps)
    next
      case 3
      then obtain r where r: "k = 8 * Suc i + r" using le_Suc_ex by blast
      then have "k - 8 * i = 8 + r" by simp
      then have "bit ?acc (k - 8 * i) = bit acc r"
        using k r by (auto simp: bit_simps dest: bit_imp_le_length)
      with r show ?thesis using w(3) [rule_format, OF k] by simp
    qed
  qed
  moreover have "same_store s s'" using w(2) s1 by (auto simp: same_store_def)
  ultimately show ?case using s1(1) w(1) by (auto simp: byte_addr_def Let_def)
qed

lemma store_bytes_ok:
  "ok s \<Longrightarrow> room (m + k) s \<Longrightarrow> i + m = n \<Longrightarrow> n \<le> 8 \<Longrightarrow>
   \<exists>s'. store_bytes put a (of_nat n) be i m w s = Some s' \<and> ok s' \<and> room k s' \<and>
     (\<forall>j < m. view s' (byte_addr a n be (i + j)) = (True, ucast (drop_bit (8 * j) w))) \<and>
     (\<forall>b. (\<forall>j < m. b \<noteq> byte_addr a n be (i + j)) \<longrightarrow> view s' b = view s b)"
proof (induction m arbitrary: s i w)
  case 0
  then show ?case by simp
next
  case (Suc m)
  let ?ai = "byte_addr a n be i" and ?v = "ucast (w AND 0xff) :: u8"
  have v: "?v = ucast w"
  proof -
    have ff: "(0xff::u64) = mask 8" by (simp add: mask_eq_exp_minus_1)
    show ?thesis unfolding ff by (intro bit_word_eqI) (auto simp: bit_simps)
  qed
  obtain s1 where s1: "put s ?ai ?v = Some (True, s1)" "ok s1" "room (m + k) s1" "view s1 = (view s)(?ai := (True, ?v))"
    using put_ok [OF Suc.prems(1), of "m + k" ?ai ?v] Suc.prems(2) by auto
  have step: "Suc i + m = n" using Suc.prems(3) by simp
  obtain s' where s': "store_bytes put a (of_nat n) be (Suc i) m (drop_bit 8 w) s1 = Some s'" "ok s'" "room k s'"
    "\<forall>j < m. view s' (byte_addr a n be (Suc i + j)) = (True, ucast (drop_bit (8 * j) (drop_bit 8 w)))"
    "\<forall>b. (\<forall>j < m. b \<noteq> byte_addr a n be (Suc i + j)) \<longrightarrow> view s' b = view s1 b"
    using Suc.IH [OF s1(2,3) step Suc.prems(4), of "drop_bit 8 w"] by (elim exE conjE) (rule that)
  have ai: "view s' ?ai = (True, ucast w)"
  proof -
    have "?ai \<noteq> byte_addr a n be (Suc i + j)" if "j < m" for j
      using byte_addr_inj [of n i "Suc i + j" a be] that Suc.prems(3,4) by auto
    then show ?thesis using s'(5) s1(4) v by simp
  qed
  have "view s' (byte_addr a n be (i + j)) = (True, ucast (drop_bit (8 * j) w))" if "j < Suc m" for j
  proof (cases j)
    case 0
    then show ?thesis using ai by simp
  next
    case (Suc j')
    with that s'(4) [rule_format, of j'] show ?thesis by (simp add: ac_simps)
  qed
  moreover have "view s' b = view s b" if "\<forall>j < Suc m. b \<noteq> byte_addr a n be (i + j)" for b
  proof -
    have "b \<noteq> ?ai" using that by (metis add.right_neutral zero_less_Suc)
    moreover have "b \<noteq> byte_addr a n be (Suc i + j)" if "j < m" for j
      using \<open>\<forall>j < Suc m. b \<noteq> byte_addr a n be (i + j)\<close> that by (metis Suc_mono add_Suc_shift)
    ultimately show ?thesis using s'(5) s1(4) by simp
  qed
  ultimately show ?case
    using s1(1) s'(1-3) by (auto simp: byte_addr_def Let_def)
qed

lemma store_bytes_stored:
  assumes "ok s" "room (n + k) s" "n \<le> 8"
  shows "\<exists>s'. store_bytes put a (of_nat n) be 0 n w s = Some s' \<and> ok s' \<and> room k s' \<and>
    view s' = stored (view s) a n be w"
proof -
  obtain s' where s': "store_bytes put a (of_nat n) be 0 n w s = Some s'" "ok s'" "room k s'"
    "\<forall>j < n. view s' (byte_addr a n be (0 + j)) = (True, ucast (drop_bit (8 * j) w))"
    "\<forall>b. (\<forall>j < n. b \<noteq> byte_addr a n be (0 + j)) \<longrightarrow> view s' b = view s b"
    using store_bytes_ok [OF assms(1,2) add_0_left assms(3), of a be w] by (elim exE conjE) (rule that)
  have "view s' b = stored (view s) a n be w b" for b
  proof (cases "\<exists>i < n. b = byte_addr a n be i")
    case True
    then show ?thesis using s'(4) stored_at [OF assms(3)] by auto
  next
    case False
    then have "\<nexists>i. i < n \<and> b = a + of_nat i" using byte_addr_range [of n b a be] by blast
    with False show ?thesis using s'(5) by (simp add: stored_other)
  qed
  then show ?thesis using s' by blast
qed

end

section \<open>Reading four and eight bytes at once\<close>

lemma reading_low: "a \<le> MAX_PRIMARY_ADDRESS \<Longrightarrow> get_secmap_for_reading_low s a = Some (secmap_of s a, s)"
  by (simp add: get_secmap_for_reading_low_def get_secmap_low_ptr_def low_address sm_load_def secmap_of_def Let_def)

lemma vab2_lane: "a AND 3 = 0 \<Longrightarrow> i < 4 \<Longrightarrow> vab2 s (a + of_nat i) = take_bit 2 (drop_bit (2 * i) (vab8 s a))"
  using word_bytes [of a i] secmap_of_page [of "a + of_nat i" a s]
  by (simp add: vab2_def vab8_def extract_lane)

lemma less_4_cases: obtains "(i::nat) = 0" | "i = 1" | "i = 2" | "i = 3" | "\<not> i < 4"
  by linarith

lemma lanes_const:
  assumes "i < 4"
  shows "take_bit 2 (drop_bit (2 * i) (0xAA::u8)) = 2" "take_bit 2 (drop_bit (2 * i) (0x55::u8)) = 1"
  using assms by (cases rule: less_4_cases [of i]; simp add: take_bit_eq_mod drop_bit_eq_div)+

lemma vbyte_vab2: "vab2 s a = 2 \<Longrightarrow> vbyte s a = (True, 0)" "vab2 s a = 1 \<Longrightarrow> vbyte s a = (True, 0xFF)"
  by (simp_all add: vbyte_def shadow_simps)

lemma word_const:
  assumes "a AND 3 = 0" "i < 4"
  shows "vab8 s a = 0xAA \<Longrightarrow> vbyte s (a + of_nat i) = (True, 0)"
    "vab8 s a = 0x55 \<Longrightarrow> vbyte s (a + of_nat i) = (True, 0xFF)"
  using vab2_lane [OF assms, of s] lanes_const [OF assms(2)] by (auto intro: vbyte_vab2)

lemma u16_of_bytes_eq: "u16_of_bytes lo hi = u16_of_bytes lo' hi' \<longleftrightarrow> lo = lo' \<and> hi = hi'"
proof
  assume eq: "u16_of_bytes lo hi = u16_of_bytes lo' hi'"
  have "bit lo k = bit lo' k" if "k < 8" for k
    using that arg_cong [OF eq, of "\<lambda>w. bit w k"] by (simp add: u16_of_bytes_def bit_simps)
  moreover have "bit hi k = bit hi' k" if "k < 8" for k
    using that arg_cong [OF eq, of "\<lambda>w. bit w (8 + k)"]
    by (auto simp: u16_of_bytes_def bit_simps dest: bit_imp_le_length)
  ultimately show "lo = lo' \<and> hi = hi'" by (auto intro!: bit_word_eqI)
qed simp

lemma u16_const: "u16_of_bytes lo hi = 0xAAAA \<longleftrightarrow> lo = 0xAA \<and> hi = 0xAA"
  "u16_of_bytes lo hi = 0x5555 \<longleftrightarrow> lo = 0x55 \<and> hi = 0x55"
proof -
  have "0xAAAA = u16_of_bytes 0xAA 0xAA" "0x5555 = u16_of_bytes 0x55 0x55" by (simp_all add: u16_of_bytes_def)
  then show "u16_of_bytes lo hi = 0xAAAA \<longleftrightarrow> lo = 0xAA \<and> hi = 0xAA"
    "u16_of_bytes lo hi = 0x5555 \<longleftrightarrow> lo = 0x55 \<and> hi = 0x55" by (simp_all only: u16_of_bytes_eq)
qed

lemma read16:
  assumes "maps_ok s" "a AND 7 = 0"
  shows "read_vabits16 s (secmap_of s a) (SM_OFF_16 a) = Some (u16_of_bytes (vab8 s a) (vab8 s (a + 4)))"
proof -
  have "secmap_of s (a + 4) = secmap_of s a" using secmap_of_page [OF long_bytes(3) [OF assms(2)]] .
  then show ?thesis
    using read_vabits8_ok [OF assms(1), of a] read_vabits8_ok [OF assms(1), of "a + 4"] long_bytes(4,5) [OF assms(2)]
    by (simp add: read_vabits16_def)
qed

lemma long_const:
  assumes "a AND 7 = 0" "i < 8"
  shows "u16_of_bytes (vab8 s a) (vab8 s (a + 4)) = 0xAAAA \<Longrightarrow> vbyte s (a + of_nat i) = (True, 0)"
    "u16_of_bytes (vab8 s a) (vab8 s (a + 4)) = 0x5555 \<Longrightarrow> vbyte s (a + of_nat i) = (True, 0xFF)"
proof -
  have both: "vbyte s (a + of_nat i) = c"
    if "\<And>j. j < 4 \<Longrightarrow> vbyte s (a + of_nat j) = c" "\<And>j. j < 4 \<Longrightarrow> vbyte s (a + 4 + of_nat j) = c" for c
  proof (cases "i < 4")
    case True
    then show ?thesis by (rule that(1))
  next
    case False
    then have "a + of_nat i = a + 4 + of_nat (i - 4)" by (simp add: of_nat_diff)
    moreover have "i - 4 < 4" using assms(2) by simp
    ultimately show ?thesis using that(2) [of "i - 4"] by (simp only:)
  qed
  note lo = long_bytes(1) [OF assms(1)] and hi = long_bytes(2) [OF assms(1)]
  show "u16_of_bytes (vab8 s a) (vab8 s (a + 4)) = 0xAAAA \<Longrightarrow> vbyte s (a + of_nat i) = (True, 0)"
    unfolding u16_const by (rule both) (rule word_const(1) [OF lo] word_const(1) [OF hi]; simp)+
  show "u16_of_bytes (vab8 s a) (vab8 s (a + 4)) = 0x5555 \<Longrightarrow> vbyte s (a + of_nat i) = (True, 0xFF)"
    unfolding u16_const by (rule both) (rule word_const(2) [OF lo] word_const(2) [OF hi]; simp)+
qed

section \<open>Loads\<close>

lemma same_refl [simp]: "store_ok s \<Longrightarrow> shadow.same_store s s"
  by (simp add: shadow.same_store_def)

lemma view_eq_same: "view_eq s s' \<Longrightarrow> maps_ok s' \<Longrightarrow> store_ok s \<Longrightarrow> shadow.same_store s s'"
  using view_eq_shadow [of s s'] view_eq_vbyte [of s s'] sec_eq_alloc [OF view_eq_sec, of s s'] view_eq_sec [of s s']
  by (simp add: shadow.same_store_def store_ok_def pdb_room_def sec_eq_def)

lemma same_trans: "shadow.same_store s t \<Longrightarrow> shadow.same_store t u \<Longrightarrow> shadow.same_store s u"
  by (simp add: shadow.same_store_def)

lemma store_ok_maps: "store_ok s \<Longrightarrow> maps_ok s"
  by (simp add: store_ok_def shadow_ok_def)

definition load_ok :: "tnt_mem \<Rightarrow> addr \<Rightarrow> nat \<Rightarrow> bool \<Rightarrow> (u64 \<times> tnt_mem) option \<Rightarrow> bool" where
  "load_ok s a n be r \<longleftrightarrow> (case r of None \<Rightarrow> False | Some (w, s') \<Rightarrow> loaded (vbyte s) a n be w \<and> shadow.same_store s s')"

lemma ff_bit: "bit (0xFF::u8) k \<longleftrightarrow> k < 8" "bit (0xFFFFFFFFFFFFFFFF::u64) k \<longleftrightarrow> k < 64"
  "bit (0xFFFFFFFF::u64) k \<longleftrightarrow> k < 32" "bit (0xFFFF::u64) k \<longleftrightarrow> k < 16"
proof -
  have m: "(0xFF::u8) = mask 8" "(0xFFFFFFFFFFFFFFFF::u64) = mask 64" "(0xFFFFFFFF::u64) = mask 32" "(0xFFFF::u64) = mask 16"
    by (simp_all add: mask_eq_exp_minus_1)
  show "bit (0xFF::u8) k \<longleftrightarrow> k < 8" "bit (0xFFFFFFFFFFFFFFFF::u64) k \<longleftrightarrow> k < 64"
    "bit (0xFFFFFFFF::u64) k \<longleftrightarrow> k < 32" "bit (0xFFFF::u64) k \<longleftrightarrow> k < 16"
    unfolding m by (auto simp: bit_mask_iff)
qed

lemma ff_bitI: "k < 8 \<Longrightarrow> bit (0xFF::u8) k" "k < 64 \<Longrightarrow> bit (0xFFFFFFFFFFFFFFFF::u64) k"
  "k < 32 \<Longrightarrow> bit (0xFFFFFFFF::u64) k" "k < 16 \<Longrightarrow> bit (0xFFFF::u64) k"
  unfolding ff_bit .

lemma high32_bit: "bit HIGH32_TAINTED k \<longleftrightarrow> 32 \<le> k \<and> k < 64"
proof -
  have h: "HIGH32_TAINTED = push_bit 32 (mask 32)" by (simp add: HIGH32_TAINTED_def mask_eq_exp_minus_1)
  show ?thesis unfolding h by (auto simp: bit_simps)
qed

text \<open>The constants a load returns for a wholly untainted or tainted value.\<close>

lemma load_untainted:
  "n \<le> 8 \<Longrightarrow> (\<And>i. i < n \<Longrightarrow> vbyte s (a + of_nat i) = (True, 0)) \<Longrightarrow> \<forall>k < 8 * n. \<not> bit w k \<Longrightarrow>
   shadow.same_store s s' \<Longrightarrow> load_ok s a n be (Some (w, s'))"
  unfolding load_ok_def by (auto intro!: loaded_const [where c = 0])

lemma load_tainted:
  "n \<le> 8 \<Longrightarrow> (\<And>i. i < n \<Longrightarrow> vbyte s (a + of_nat i) = (True, 0xFF)) \<Longrightarrow> \<forall>k < 8 * n. bit w k \<Longrightarrow>
   shadow.same_store s s' \<Longrightarrow> load_ok s a n be (Some (w, s'))"
  unfolding load_ok_def by (auto intro!: loaded_const [where c = "0xFF"] ff_bitI)

lemma load_ok_same: "shadow.same_store s s' \<Longrightarrow> load_ok s' a n be r \<Longrightarrow> load_ok s a n be r"
  by (auto simp: load_ok_def shadow.same_store_def split: option.splits)

lemma load_loop_ok:
  assumes "store_ok s" "n \<le> 8"
  shows "load_ok s a n be (load_bytes get_vbits8 a (of_nat n) be n V_BITS64_TAINTED s)"
proof -
  obtain w s' where w: "load_bytes get_vbits8 a (of_nat n) be n V_BITS64_TAINTED s = Some (w, s')" "shadow.same_store s s'"
    "\<forall>k < 64. bit w k = (if k < 8 * n then bit (snd (vbyte s (byte_addr a n be (k div 8)))) (k mod 8)
       else bit V_BITS64_TAINTED (k - 8 * n))"
    using shadow.load_bytes_ok [OF assms, of a n be V_BITS64_TAINTED] by (elim exE conjE) (rule that)
  then show ?thesis using assms(2) by (simp add: load_ok_def loaded_def)
qed

lemma load_semi64_ok:
  assumes ok: "store_ok s" and al: "VG_IS_8_ALIGNED a"
  shows "\<exists>r s'. load_semi64 s a = Some (r, s') \<and> shadow.same_store s s' \<and>
    (case r of None \<Rightarrow> True | Some w \<Rightarrow> load_ok s a 8 be (Some (w, s')))"
proof -
  obtain s' where s': "get_secmap_for_reading s a = Some (secmap_of s a, s')" "view_eq s s'" "maps_ok s'"
    using secmap_for_reading_ok [OF store_ok_maps [OF ok]] by blast
  note same = view_eq_same [OF s'(2,3) ok]
  have a8: "a AND 7 = 0" using al by (simp add: VG_IS_8_ALIGNED_def)
  have sm: "secmap_of s' = secmap_of s" "vab8 s' = vab8 s" using s'(2) view_eq_vab [OF s'(2)] by (simp_all add: view_eq_def)
  have rd: "read_vabits16 s' (secmap_of s a) (SM_OFF_16 a) = Some (u16_of_bytes (vab8 s a) (vab8 s (a + 4)))"
    using read16 [OF s'(3) a8] sm by simp
  note lc = long_const [OF a8, of _ s]
  let ?w = "u16_of_bytes (vab8 s a) (vab8 s (a + 4))"
  show ?thesis
  proof (cases "?w = 0xAAAA \<or> ?w = 0x5555")
    case True
    then show ?thesis
    proof
      assume w: "?w = 0xAAAA"
      have "load_ok s a 8 be (Some (V_BITS64_UNTAINTED, s'))"
        by (rule load_untainted) (use lc(1) w same in \<open>simp_all add: V_BITS64_UNTAINTED_def\<close>)
      with w s'(1) rd same show ?thesis by (simp add: load_semi64_def va_bits_defs)
    next
      assume w: "?w = 0x5555"
      have "load_ok s a 8 be (Some (V_BITS64_TAINTED, s'))"
        by (rule load_tainted) (use lc(2) w same ff_bitI(2) in \<open>simp_all add: V_BITS64_TAINTED_def\<close>)
      with w s'(1) rd same show ?thesis by (simp add: load_semi64_def va_bits_defs)
    qed
  next
    case False
    with s'(1) rd same show ?thesis by (auto simp: load_semi64_def va_bits_defs)
  qed
qed

lemma load_semi32_ok:
  assumes ok: "store_ok s" and al: "VG_IS_4_ALIGNED a"
  shows "\<exists>r s'. load_semi32 s a = Some (r, s') \<and> shadow.same_store s s' \<and>
    (case r of None \<Rightarrow> True | Some w \<Rightarrow> load_ok s a 4 be (Some (w, s')))"
proof -
  obtain s' where s': "get_secmap_for_reading s a = Some (secmap_of s a, s')" "view_eq s s'" "maps_ok s'"
    using secmap_for_reading_ok [OF store_ok_maps [OF ok]] by blast
  note same = view_eq_same [OF s'(2,3) ok]
  have a4: "a AND 3 = 0" using al by (simp add: VG_IS_4_ALIGNED_def)
  have rd: "read_vabits8 s' (secmap_of s a) (SM_OFF a) = Some (vab8 s a)"
    using read_vabits8_ok [OF s'(3), of a] s'(2) view_eq_vab [OF s'(2)] by (simp add: view_eq_def)
  note wc = word_const [OF a4, of _ s]
  show ?thesis
  proof (cases "vab8 s a = 0xAA \<or> vab8 s a = 0x55")
    case True
    then show ?thesis
    proof
      assume w: "vab8 s a = 0xAA"
      have "load_ok s a 4 be (Some (HIGH32_TAINTED OR V_BITS32_UNTAINTED, s'))"
        by (rule load_untainted) (use wc(1) w same in \<open>simp_all add: V_BITS32_UNTAINTED_def high32_bit\<close>)
      with w s'(1) rd same show ?thesis by (simp add: load_semi32_def va_bits_defs)
    next
      assume w: "vab8 s a = 0x55"
      have "load_ok s a 4 be (Some (HIGH32_TAINTED OR V_BITS32_TAINTED, s'))"
        by (rule load_tainted) (use wc(2) w same ff_bitI(3) in \<open>simp_all add: V_BITS32_TAINTED_def bit_or_iff\<close>)
      with w s'(1) rd same show ?thesis by (simp add: load_semi32_def va_bits_defs)
    qed
  next
    case False
    with s'(1) rd same show ?thesis by (auto simp: load_semi32_def va_bits_defs)
  qed
qed

lemma LOADVn_slow_ok:
  assumes ok: "store_ok s" and n: "n \<in> {1, 2, 4, 8}"
  shows "load_ok s a n be (tnt_LOADVn_slow s a (8 * n) be)"
proof -
  have asrt: "8 * n = 64 \<or> 8 * n = 32 \<or> 8 * n = 16 \<or> 8 * n = 8" "n \<le> 8" using n by auto
  have "\<exists>r s'. (if 8 * n = 64 \<and> VG_IS_8_ALIGNED a then load_semi64 s a
               else if 8 * n = 32 \<and> VG_IS_4_ALIGNED a then load_semi32 s a
               else Some (None, s)) = Some (r, s') \<and> shadow.same_store s s' \<and>
    (case r of None \<Rightarrow> True | Some w \<Rightarrow> load_ok s a n be (Some (w, s')))"
  proof (cases "8 * n = 64 \<and> VG_IS_8_ALIGNED a")
    case True
    then have n8: "n = 8" by simp
    show ?thesis unfolding if_P [OF True] using load_semi64_ok [OF ok, of a be] True unfolding n8 by blast
  next
    case False
    show ?thesis
    proof (cases "8 * n = 32 \<and> VG_IS_4_ALIGNED a")
      case True
      then have n4: "n = 4" by simp
      show ?thesis unfolding if_not_P [OF False] if_P [OF True] using load_semi32_ok [OF ok, of a be] True unfolding n4 by blast
    next
      case f2: False
      show ?thesis unfolding if_not_P [OF False] if_not_P [OF f2] using ok by simp
    qed
  qed
  then obtain r s' where r: "(if 8 * n = 64 \<and> VG_IS_8_ALIGNED a then load_semi64 s a
               else if 8 * n = 32 \<and> VG_IS_4_ALIGNED a then load_semi32 s a
               else Some (None, s)) = Some (r, s')" "shadow.same_store s s'"
    "case r of None \<Rightarrow> True | Some w \<Rightarrow> load_ok s a n be (Some (w, s'))" by (elim exE conjE) (rule that)
  show ?thesis
  proof (cases r)
    case None
    have "store_ok s'" using r(2) by (simp add: shadow.same_store_def)
    from load_ok_same [OF r(2) load_loop_ok [OF this asrt(2)]] None r(1) asrt(1) show ?thesis
      by (simp add: tnt_LOADVn_slow_def)
  next
    case (Some w)
    with r show ?thesis by (simp add: tnt_LOADVn_slow_def)
  qed
qed

lemma half_bytes:
  assumes "a AND 1 = 0" "i < 2"
  shows "page_of (a + of_nat i) = page_of a" "SM_OFF (a + of_nat i) = SM_OFF a" "lane (a + of_nat i) = lane a + i"
proof -
  have al: "unat a mod 2 = 0" using assms(1) by (simp only: aligned_mod)
  then have u: "unat (a + of_nat i) = unat a + i" using assms(2) by (intro unat_add_small) auto
  from al obtain q where q: "unat a = 2 * q" by auto
  have i: "i = 0 \<or> i = 1" using assms(2) by auto
  have "(2 * q + 1) div 4 = 2 * q div 4" "(2 * q + 1) mod 4 = 2 * q mod 4 + 1" by presburger+
  with i have e: "(2 * q + i) div 4 = 2 * q div 4" and m: "(2 * q + i) mod 4 = 2 * q mod 4 + i" by auto
  show "SM_OFF (a + of_nat i) = SM_OFF a" unfolding SM_OFF_alt u q e ..
  show "lane (a + of_nat i) = lane a + i" unfolding lane_def u q m ..
  have "(2 * q + i) div (4 * 16384) = 2 * q div (4 * 16384)" unfolding div_mult2_eq e ..
  then show "page_of (a + of_nat i) = page_of a" unfolding page_of_nat u q by simp
qed

lemma vab8_half: "a AND 1 = 0 \<Longrightarrow> i < 2 \<Longrightarrow> vab8 s (a + of_nat i) = vab8 s a"
  using half_bytes [of a i] secmap_of_page [of "a + of_nat i" a s] by (simp add: vab8_def)

lemma vbyte_const: "vab8 s b = 0xAA \<Longrightarrow> vbyte s b = (True, 0)" "vab8 s b = 0x55 \<Longrightarrow> vbyte s b = (True, 0xFF)"
  by (simp_all add: vbyte_vab2 vab2_def extract_constant)

lemma shift_half: "VG_IS_2_ALIGNED a \<Longrightarrow> unat (push_bit 1 (a AND 2)) = 2 * lane a"
proof -
  assume "VG_IS_2_ALIGNED a"
  then have z: "a AND 1 = 0" by (simp add: VG_IS_2_ALIGNED_def)
  have "a AND 3 = a AND (2 OR 1)" by simp
  also have "\<dots> = (a AND 2) OR (a AND 1)" by (simp only: bit.conj_disj_distrib)
  finally have "a AND 3 = (a AND 2) OR (a AND 1)" .
  with z have "a AND 2 = a AND 3" by simp
  then show ?thesis by (simp only: shift_lane)
qed

lemma extract4: "VG_IS_2_ALIGNED a \<Longrightarrow>
    extract_vabits4_from_vabits8 a w = Some (take_bit 4 (drop_bit (2 * lane a) w))"
proof -
  assume al: "VG_IS_2_ALIGNED a"
  have "15 AND drop_bit (2 * lane a) w = take_bit 4 (drop_bit (2 * lane a) w)"
    by (simp only: mask_8_4 take_bit_eq_mask ac_simps)
  then show ?thesis
    unfolding extract_vabits4_from_vabits8_def shift_half [OF al] Let_def using al by simp
qed

lemma vab2_half:
  assumes "VG_IS_2_ALIGNED a" "i < 2"
  shows "vab2 s (a + of_nat i) = take_bit 2 (drop_bit (2 * i) (take_bit 4 (drop_bit (2 * lane a) (vab8 s a))))"
proof -
  have a1: "a AND 1 = 0" using assms(1) by (simp add: VG_IS_2_ALIGNED_def)
  have "vab2 s (a + of_nat i) = take_bit 2 (drop_bit (2 * (lane a + i)) (vab8 s a))"
    using half_bytes(3) [OF a1 assms(2)] vab8_half [OF a1 assms(2)] by (simp add: vab2_def extract_lane)
  also have "\<dots> = take_bit 2 (drop_bit (2 * i) (take_bit 4 (drop_bit (2 * lane a) (vab8 s a))))"
    using assms(2) by (intro bit_word_eqI) (auto simp: bit_simps algebra_simps)
  finally show ?thesis .
qed

section \<open>The fast loads\<close>

lemma LOADV64_ok: "store_ok s \<Longrightarrow> load_ok s a 8 be (tnt_LOADV64 s a be)"
proof -
  assume ok: "store_ok s"
  have slow: "load_ok s a 8 be (tnt_LOADVn_slow s a 64 be)" using LOADVn_slow_ok [OF ok, of 8 a be] by simp
  show ?thesis
  proof (cases "UNALIGNED_OR_HIGH a 64 = 0")
    case False
    with slow show ?thesis by (simp add: tnt_LOADV64_def)
  next
    case True
    then have low: "a \<le> MAX_PRIMARY_ADDRESS" and a8: "a AND 7 = 0"
      by (auto simp: UNALIGNED_OR_HIGH_zero VG_IS_8_ALIGNED_def)
    let ?w = "u16_of_bytes (vab8 s a) (vab8 s (a + 4))"
    have rd: "read_vabits16 s (secmap_of s a) (SM_OFF_16 a) = Some ?w"
      using read16 [OF store_ok_maps [OF ok] a8] .
    note lc = long_const [OF a8, of _ s]
    consider "?w = 0xAAAA" | "?w = 0x5555" | "?w \<noteq> 0xAAAA" "?w \<noteq> 0x5555" by blast
    then show ?thesis
    proof cases
      case 1
      have "load_ok s a 8 be (Some (V_BITS64_UNTAINTED, s))"
        by (rule load_untainted) (use lc(1) 1 ok in \<open>simp_all add: V_BITS64_UNTAINTED_def\<close>)
      with 1 True rd show ?thesis by (simp add: tnt_LOADV64_def reading_low [OF low] va_bits_defs)
    next
      case 2
      have "load_ok s a 8 be (Some (V_BITS64_TAINTED, s))"
        by (rule load_tainted) (use lc(2) 2 ok ff_bitI(2) in \<open>simp_all add: V_BITS64_TAINTED_def\<close>)
      with 2 True rd show ?thesis by (simp add: tnt_LOADV64_def reading_low [OF low] va_bits_defs)
    next
      case 3
      with slow True rd show ?thesis by (simp add: tnt_LOADV64_def reading_low [OF low] va_bits_defs)
    qed
  qed
qed

lemma LOADV32_ok: "store_ok s \<Longrightarrow> load_ok s a 4 be (tnt_LOADV32 s a be)"
proof -
  assume ok: "store_ok s"
  have slow: "load_ok s a 4 be (tnt_LOADVn_slow s a 32 be)" using LOADVn_slow_ok [OF ok, of 4 a be] by simp
  show ?thesis
  proof (cases "UNALIGNED_OR_HIGH a 32 = 0")
    case False
    with slow show ?thesis by (simp add: tnt_LOADV32_def)
  next
    case True
    then have low: "a \<le> MAX_PRIMARY_ADDRESS" and a4: "a AND 3 = 0"
      by (auto simp: UNALIGNED_OR_HIGH_zero VG_IS_4_ALIGNED_def)
    note rd = read_vabits8_ok [OF store_ok_maps [OF ok], of a]
    note wc = word_const [OF a4, of _ s]
    consider "vab8 s a = 0xAA" | "vab8 s a = 0x55" | "vab8 s a \<noteq> 0xAA" "vab8 s a \<noteq> 0x55" by blast
    then show ?thesis
    proof cases
      case 1
      have "load_ok s a 4 be (Some (HIGH32_TAINTED OR V_BITS32_UNTAINTED, s))"
        by (rule load_untainted) (use wc(1) 1 ok in \<open>simp_all add: V_BITS32_UNTAINTED_def high32_bit\<close>)
      with 1 True rd show ?thesis by (simp add: tnt_LOADV32_def reading_low [OF low] va_bits_defs)
    next
      case 2
      have "load_ok s a 4 be (Some (HIGH32_TAINTED OR V_BITS32_TAINTED, s))"
        by (rule load_tainted) (use wc(2) 2 ok ff_bitI(3) in \<open>simp_all add: V_BITS32_TAINTED_def bit_or_iff\<close>)
      with 2 True rd show ?thesis by (simp add: tnt_LOADV32_def reading_low [OF low] va_bits_defs)
    next
      case 3
      with slow True rd show ?thesis by (simp add: tnt_LOADV32_def reading_low [OF low] va_bits_defs)
    qed
  qed
qed

lemma nibble_const:
  assumes "i < 2"
  shows "take_bit 2 (drop_bit (2 * i) (10::u8)) = 2" "take_bit 2 (drop_bit (2 * i) (5::u8)) = 1"
proof -
  have "i = 0 \<or> i = 1" using assms by auto
  then show "take_bit 2 (drop_bit (2 * i) (10::u8)) = 2" "take_bit 2 (drop_bit (2 * i) (5::u8)) = 1"
    by (auto simp: take_bit_eq_mod drop_bit_eq_div)
qed

lemma LOADV16_ok: "store_ok s \<Longrightarrow> load_ok s a 2 be (tnt_LOADV16 s a be)"
proof -
  assume ok: "store_ok s"
  have slow: "load_ok s a 2 be (tnt_LOADVn_slow s a 16 be)" using LOADVn_slow_ok [OF ok, of 2 a be] by simp
  show ?thesis
  proof (cases "UNALIGNED_OR_HIGH a 16 = 0")
    case False
    with slow show ?thesis by (simp add: tnt_LOADV16_def)
  next
    case True
    then have low: "a \<le> MAX_PRIMARY_ADDRESS" and al: "VG_IS_2_ALIGNED a" and a1: "a AND 1 = 0"
      by (auto simp: UNALIGNED_OR_HIGH_zero VG_IS_2_ALIGNED_def)
    note rd = read_vabits8_ok [OF store_ok_maps [OF ok], of a]
    let ?n = "take_bit 4 (drop_bit (2 * lane a) (vab8 s a))"
    have U: "load_ok s a 2 be (Some (V_BITS16_UNTAINTED, s))"
      if "\<And>i. i < 2 \<Longrightarrow> vbyte s (a + of_nat i) = (True, 0)"
      by (rule load_untainted) (use that ok in \<open>simp_all add: V_BITS16_UNTAINTED_def\<close>)
    have T: "load_ok s a 2 be (Some (V_BITS16_TAINTED, s))"
      if "\<And>i. i < 2 \<Longrightarrow> vbyte s (a + of_nat i) = (True, 0xFF)"
      by (rule load_tainted) (use that ok ff_bitI(4) in \<open>simp_all add: V_BITS16_TAINTED_def\<close>)
    note x4 = extract4 [OF al] and vh = vab2_half [OF al, of _ s]
    have cU: "vab8 s a = 0xAA \<Longrightarrow> i < 2 \<Longrightarrow> vbyte s (a + of_nat i) = (True, 0)"
      and cT: "vab8 s a = 0x55 \<Longrightarrow> i < 2 \<Longrightarrow> vbyte s (a + of_nat i) = (True, 0xFF)" for i
      using vab8_half [OF a1, of i s] vbyte_const [of s "a + of_nat i"] by auto
    have nU: "?n = 0xa \<Longrightarrow> i < 2 \<Longrightarrow> vbyte s (a + of_nat i) = (True, 0)"
      and nT: "?n = 0x5 \<Longrightarrow> i < 2 \<Longrightarrow> vbyte s (a + of_nat i) = (True, 0xFF)" for i
      using vh [of i] nibble_const [of i] by (auto intro: vbyte_vab2)
    consider "vab8 s a = 0xAA" | "vab8 s a = 0x55" | "vab8 s a \<noteq> 0xAA" "vab8 s a \<noteq> 0x55" "?n = 0xa"
      | "vab8 s a \<noteq> 0xAA" "vab8 s a \<noteq> 0x55" "?n = 0x5"
      | "vab8 s a \<noteq> 0xAA" "vab8 s a \<noteq> 0x55" "?n \<noteq> 0xa" "?n \<noteq> 0x5" by blast
    then show ?thesis
    proof cases
      case 1
      with U [OF cU [OF 1]] True rd show ?thesis by (simp add: tnt_LOADV16_def reading_low [OF low] va_bits_defs)
    next
      case 2
      with T [OF cT [OF 2]] True rd show ?thesis by (simp add: tnt_LOADV16_def reading_low [OF low] va_bits_defs)
    next
      case 3
      with U [OF nU [OF 3(3)]] True rd show ?thesis by (simp add: tnt_LOADV16_def reading_low [OF low] va_bits_defs x4)
    next
      case 4
      with T [OF nT [OF 4(3)]] True rd show ?thesis by (simp add: tnt_LOADV16_def reading_low [OF low] va_bits_defs x4)
    next
      case 5
      with slow True rd show ?thesis by (simp add: tnt_LOADV16_def reading_low [OF low] va_bits_defs x4)
    qed
  qed
qed

lemma LOADV8_ok: "store_ok s \<Longrightarrow> load_ok s a 1 be (helperc_LOADV8 s a)"
proof -
  assume ok: "store_ok s"
  have endian: "load_ok s a 1 be r \<longleftrightarrow> load_ok s a 1 False r" for r
    by (cases be) (auto simp: load_ok_def loaded_def byte_addr_def byte_offset_w_def split: option.splits)
  have "load_ok s a 1 False (tnt_LOADVn_slow s a 8 False)"
    using LOADVn_slow_ok [OF ok, of 1 a False] by simp
  then have slow: "load_ok s a 1 be (tnt_LOADVn_slow s a 8 False)" unfolding endian .
  show ?thesis
  proof (cases "UNALIGNED_OR_HIGH a 8 = 0")
    case False
    with slow show ?thesis by (simp add: helperc_LOADV8_def)
  next
    case True
    then have low: "a \<le> MAX_PRIMARY_ADDRESS" by (simp add: UNALIGNED_OR_HIGH_zero)
    note rd = read_vabits8_ok [OF store_ok_maps [OF ok], of a]
    have U: "load_ok s a 1 be (Some (ucast V_BITS8_UNTAINTED, s))" if "vbyte s a = (True, 0)"
      by (rule load_untainted) (use that ok in \<open>simp_all add: V_BITS8_UNTAINTED_def\<close>)
    have T: "load_ok s a 1 be (Some (ucast V_BITS8_TAINTED, s))" if "vbyte s a = (True, 0xFF)"
    proof (rule load_tainted)
      show "\<forall>k < 8 * 1. bit (ucast V_BITS8_TAINTED :: u64) k"
        using ff_bitI(1) by (auto simp: V_BITS8_TAINTED_def bit_ucast_iff simp del: unsigned_numeral)
    qed (use that ok in simp_all)
    have x2: "extract_vabits2_from_vabits8 a (vab8 s a) = vab2 s a" by (simp add: vab2_def)
    consider "vab8 s a = 0xAA" | "vab8 s a = 0x55" | "vab8 s a \<noteq> 0xAA" "vab8 s a \<noteq> 0x55" "vab2 s a = 2"
      | "vab8 s a \<noteq> 0xAA" "vab8 s a \<noteq> 0x55" "vab2 s a = 1"
      | "vab8 s a \<noteq> 0xAA" "vab8 s a \<noteq> 0x55" "vab2 s a \<noteq> 2" "vab2 s a \<noteq> 1" by blast
    then show ?thesis
    proof cases
      case 1
      with U [OF vbyte_const(1) [OF 1]] True rd show ?thesis by (simp add: helperc_LOADV8_def reading_low [OF low] va_bits_defs)
    next
      case 2
      with T [OF vbyte_const(2) [OF 2]] True rd show ?thesis by (simp add: helperc_LOADV8_def reading_low [OF low] va_bits_defs)
    next
      case 3
      with U [OF vbyte_vab2(1) [OF 3(3)]] True rd show ?thesis
        by (simp add: helperc_LOADV8_def reading_low [OF low] va_bits_defs x2 Let_def)
    next
      case 4
      with T [OF vbyte_vab2(2) [OF 4(3)]] True rd show ?thesis
        by (simp add: helperc_LOADV8_def reading_low [OF low] va_bits_defs x2 Let_def)
    next
      case 5
      with slow True rd show ?thesis by (simp add: helperc_LOADV8_def reading_low [OF low] va_bits_defs x2 Let_def)
    qed
  qed
qed

section \<open>Stores\<close>

lemma not_distinguished:
  assumes "maps_ok s" "\<not> is_distinguished_sm (secmap_of s a)"
  obtains n where "secmap_of s a = SM n"
proof -
  have "sm_mapped s (secmap_of s a)" using assms(1) by (simp add: maps_ok_def sm_ok_def)
  with assms(2) show thesis
    using that by (auto simp: is_distinguished_sm_def sm_mapped_def split: sm_ptr.splits)
qed

text \<open>Writing four bytes of shadow in place. A byte of the word either keeps its state or becomes
  wholly tainted or untainted, so the table of V bits stays right.\<close>

lemma write_word_ok:
  assumes ok: "store_ok s" and own: "secmap_of s a = SM n"
    and lanes: "\<forall>b. page_of b = page_of a \<longrightarrow> SM_OFF b = SM_OFF a \<longrightarrow>
      extract_vabits2_from_vabits8 b w = vab2 s b \<or> extract_vabits2_from_vabits8 b w \<in> {1, 2}"
  shows "\<exists>s'. write_vabits8 s (SM n) (SM_OFF a) w = Some s' \<and> store_ok s' \<and> (\<forall>k. pdb_room k s \<longrightarrow> pdb_room k s') \<and>
    secmap_of s' = secmap_of s \<and>
    vbyte s' = (\<lambda>b. if page_of b = page_of a \<and> SM_OFF b = SM_OFF a
      then (if extract_vabits2_from_vabits8 b w = 2 then (True, 0)
            else if extract_vabits2_from_vabits8 b w = 1 then (True, 0xFF) else vbyte s b)
      else vbyte s b)"
proof -
  have s: "maps_ok s" "tab_ok s" "pdb_ok s" "alloc_ok s" using ok by (auto simp: store_ok_def shadow_ok_def)
  obtain s' where s': "write_vabits8 s (SM n) (SM_OFF a) w = Some s'" "maps_ok s'" "sec_eq s s'"
    "secmap_of s' = secmap_of s"
    "vab8 s' = (\<lambda>b. if page_of b = page_of a \<and> SM_OFF b = SM_OFF a then w else vab8 s b)"
    using write_vabits8_ok [OF s(1) own, of w] by (elim exE conjE) (rule that)
  have v2: "vab2 s' b = (if page_of b = page_of a \<and> SM_OFF b = SM_OFF a then extract_vabits2_from_vabits8 b w else vab2 s b)" for b
    by (simp add: vab2_def s'(5))
  note sec = sec_eq_lookup [OF s'(3)]
  have pdb: "vab2 s' b = 3 \<Longrightarrow> vab2 s b = 3" for b
    using lanes [rule_format, of b] by (auto simp: v2 split: if_splits)
  then have "pdb_granules s' \<subseteq> pdb_granules s" by (auto simp: pdb_granules_def)
  then have "card (pdb_granules s') \<le> card (pdb_granules s)" by (intro card_mono) simp_all
  then have "\<forall>k. pdb_room k s \<longrightarrow> pdb_room k s'" using s'(3) by (auto simp: pdb_room_def sec_eq_def)
  moreover have "pdb_ok s'" using s(3) pdb sec by (simp add: pdb_ok_def)
  then have "store_ok s'"
    using s s'(2) sec sec_eq_alloc [OF s'(3)] by (simp add: store_ok_def shadow_ok_def)
  moreover have "vbyte s' b = (if page_of b = page_of a \<and> SM_OFF b = SM_OFF a
      then (if extract_vabits2_from_vabits8 b w = 2 then (True, 0)
            else if extract_vabits2_from_vabits8 b w = 1 then (True, 0xFF) else vbyte s b)
      else vbyte s b)" for b
  proof (cases "page_of b = page_of a \<and> SM_OFF b = SM_OFF a")
    case True
    then have "vab2 s' b = extract_vabits2_from_vabits8 b w" by (simp add: v2)
    moreover have "vab2 s' b = vab2 s b \<or> vab2 s' b = 1 \<or> vab2 s' b = 2"
      using lanes [rule_format, of b] True calculation by auto
    ultimately show ?thesis using True sec by (auto simp: vbyte_def shadow_simps)
  next
    case False
    then have "vab2 s' b = vab2 s b" by (simp only: v2 if_False)
    with sec have "vbyte s' b = vbyte s b" by (simp add: vbyte_def)
    with False show ?thesis by (simp only: if_False)
  qed
  then have "vbyte s' = (\<lambda>b. if page_of b = page_of a \<and> SM_OFF b = SM_OFF a
      then (if extract_vabits2_from_vabits8 b w = 2 then (True, 0)
            else if extract_vabits2_from_vabits8 b w = 1 then (True, 0xFF) else vbyte s b)
      else vbyte s b)" by (rule ext)
  ultimately show ?thesis using s'(1,4) by blast
qed

text \<open>The result of a store of \<open>n\<close> bytes that leaves room for \<open>k\<close> more.\<close>

definition store_res :: "tnt_mem \<Rightarrow> nat \<Rightarrow> (addr \<Rightarrow> bool \<times> u8) \<Rightarrow> tnt_mem option \<Rightarrow> bool" where
  "store_res s k view r \<longleftrightarrow> (case r of None \<Rightarrow> False | Some s' \<Rightarrow> store_ok s' \<and> pdb_room k s' \<and> vbyte s' = view)"

lemma pdb_room_mono: "pdb_room (n + k) s \<Longrightarrow> pdb_room k s"
  by (simp add: pdb_room_def)

definition fill :: "(addr \<Rightarrow> bool \<times> u8) \<Rightarrow> addr \<Rightarrow> nat \<Rightarrow> u8 \<Rightarrow> (addr \<Rightarrow> bool \<times> u8)" where
  "fill view a n c = (\<lambda>b. if \<exists>i < n. b = a + of_nat i then (True, c) else view b)"

lemma write_const_word:
  assumes ok: "store_ok s" and own: "secmap_of s a = SM n" and al: "a AND 3 = 0" and room: "pdb_room k s"
    and c: "w = 0xAA \<and> c = 0 \<or> w = 0x55 \<and> c = 0xFF"
  shows "store_res s k (fill (vbyte s) a 4 c) (write_vabits8 s (SM n) (SM_OFF a) w) \<and>
    (\<forall>s'. write_vabits8 s (SM n) (SM_OFF a) w = Some s' \<longrightarrow> secmap_of s' = secmap_of s)"
proof -
  have "extract_vabits2_from_vabits8 b w = vab2 s b \<or> extract_vabits2_from_vabits8 b w \<in> {1, 2}" for b
    using c by (auto simp: extract_constant)
  with write_word_ok [OF ok own, of w] obtain s' where s': "write_vabits8 s (SM n) (SM_OFF a) w = Some s'" "store_ok s'"
    "\<forall>k. pdb_room k s \<longrightarrow> pdb_room k s'" "secmap_of s' = secmap_of s"
    "vbyte s' = (\<lambda>b. if page_of b = page_of a \<and> SM_OFF b = SM_OFF a
      then (if extract_vabits2_from_vabits8 b w = 2 then (True, 0)
            else if extract_vabits2_from_vabits8 b w = 1 then (True, 0xFF) else vbyte s b)
      else vbyte s b)" by auto
  have "vbyte s' = fill (vbyte s) a 4 c"
    using c unfolding s'(5) fill_def word_bytes_iff [OF al] by (auto simp: extract_constant fun_eq_iff)
  with s' room show ?thesis by (simp add: store_res_def)
qed

lemma stored_fill:
  "n \<le> 8 \<Longrightarrow> stored view a n be 0 = fill view a n 0"
  "stored view a 8 be V_BITS64_TAINTED = fill view a 8 0xFF"
  "w AND 0xFFFFFFFF = 0 \<Longrightarrow> stored view a 4 be w = fill view a 4 0"
  "w AND 0xFFFFFFFF = 0xFFFFFFFF \<Longrightarrow> stored view a 4 be w = fill view a 4 0xFF"
  "stored view a 2 be V_BITS16_TAINTED = fill view a 2 0xFF"
  "stored view a 1 be (ucast V_BITS8_TAINTED) = fill view a 1 0xFF"
proof -
  have ff: "ucast (drop_bit (8 * i) w) = (0xFF::u8)" if "\<And>k. k < 8 * n \<Longrightarrow> bit w k" "i < n" for i n and w :: u64
  proof (rule bit_word_eqI)
    fix k assume k: "k < LENGTH(8)"
    then have "8 * i + k < 8 * n" using that(2) by simp
    with that(1) have "bit w (8 * i + k)" by blast
    with k ff_bitI(1) [of k] show "bit (ucast (drop_bit (8 * i) w) :: u8) k = bit (0xFF::u8) k"
      by (simp add: bit_simps del: bit_numeral_word_iff)
  qed
  have zz: "ucast (drop_bit (8 * i) w) = (0::u8)" if "\<And>k. k < 8 * n \<Longrightarrow> \<not> bit w k" "i < n" for i n and w :: u64
    using that by (intro bit_word_eqI) (auto simp: bit_simps)
  show "n \<le> 8 \<Longrightarrow> stored view a n be 0 = fill view a n 0"
    unfolding fill_def by (rule stored_const) simp_all
  show "stored view a 8 be V_BITS64_TAINTED = fill view a 8 0xFF"
    unfolding fill_def by (rule stored_const) (use ff [of 8 V_BITS64_TAINTED] ff_bitI(2) in \<open>simp_all add: V_BITS64_TAINTED_def\<close>)
  show "stored view a 2 be V_BITS16_TAINTED = fill view a 2 0xFF"
    unfolding fill_def by (rule stored_const) (use ff [of 2 V_BITS16_TAINTED] ff_bitI(4) in \<open>simp_all add: V_BITS16_TAINTED_def\<close>)
  show "stored view a 1 be (ucast V_BITS8_TAINTED) = fill view a 1 0xFF"
    unfolding fill_def by (rule stored_const) (simp_all add: V_BITS8_TAINTED_def)
  have low: "k < 32 \<Longrightarrow> bit (w AND 0xFFFFFFFF) k = bit w k" for k using ff_bitI(3) [of k] by (simp only: bit_and_iff simp_thms)
  show "w AND 0xFFFFFFFF = 0 \<Longrightarrow> stored view a 4 be w = fill view a 4 0"
    unfolding fill_def by (rule stored_const) (use zz [of 4 w] low in \<open>simp_all add: numeral_eq_Suc\<close>)
  show "w AND 0xFFFFFFFF = 0xFFFFFFFF \<Longrightarrow> stored view a 4 be w = fill view a 4 0xFF"
    unfolding fill_def by (rule stored_const) (use ff [of 4 w] low ff_bitI(3) in simp_all)
qed

lemma fill_fill: "fill (fill view a 4 c) (a + 4) 4 c = fill view a 8 c"
proof
  fix b
  have "(\<exists>i < 8. b = a + of_nat i) \<longleftrightarrow> (\<exists>i < 4. b = a + of_nat i) \<or> (\<exists>i < 4. b = a + 4 + of_nat i)"
  proof
    assume "\<exists>i < 8. b = a + of_nat i"
    then obtain i where i: "i < 8" "b = a + of_nat i" by blast
    show "(\<exists>i < 4. b = a + of_nat i) \<or> (\<exists>i < 4. b = a + 4 + of_nat i)"
    proof (cases "i < 4")
      case False
      then have "b = a + 4 + of_nat (i - 4)" "i - 4 < 4" using i by (simp_all add: of_nat_diff)
      then show ?thesis by blast
    qed (use i in blast)
  next
    assume "(\<exists>i < 4. b = a + of_nat i) \<or> (\<exists>i < 4. b = a + 4 + of_nat i)"
    then show "\<exists>i < 8. b = a + of_nat i"
    proof
      assume "\<exists>i < 4. b = a + of_nat i"
      then obtain i where "i < 4" "b = a + of_nat i" by blast
      then have "i < 8" "b = a + of_nat i" by simp_all
      then show ?thesis by blast
    next
      assume "\<exists>i < 4. b = a + 4 + of_nat i"
      then obtain i where "i < 4" "b = a + 4 + of_nat i" by blast
      then have "i + 4 < 8" "b = a + of_nat (i + 4)" by (simp_all add: ac_simps)
      then show ?thesis by blast
    qed
  qed
  then show "fill (fill view a 4 c) (a + 4) 4 c b = fill view a 8 c b"
    by (auto simp add: fill_def)
qed

lemma store_res_Some: "store_res s k v r \<Longrightarrow> \<exists>s'. r = Some s' \<and> store_ok s' \<and> pdb_room k s' \<and> vbyte s' = v"
  by (auto simp: store_res_def split: option.splits)

lemma write_const_long:
  assumes ok: "store_ok s" and own: "secmap_of s a = SM n" and al: "a AND 7 = 0" and room: "pdb_room k s"
    and c: "w = 0xAAAA \<and> c = 0 \<or> w = 0x5555 \<and> c = 0xFF"
  shows "store_res s k (fill (vbyte s) a 8 c) (write_vabits16 s (SM n) (SM_OFF_16 a) w)"
proof -
  note lb = long_bytes [OF al]
  have c1: "u16_lo w = 0xAA \<and> c = 0 \<or> u16_lo w = 0x55 \<and> c = 0xFF"
    and c2: "u16_hi w = 0xAA \<and> c = 0 \<or> u16_hi w = 0x55 \<and> c = 0xFF"
    using c by (auto simp: u16_lo_def u16_hi_def drop_bit_eq_div)
  from write_const_word [OF ok own lb(1) room c1] obtain s1 where
    s1: "write_vabits8 s (SM n) (SM_OFF a) (u16_lo w) = Some s1" "store_ok s1" "pdb_room k s1"
      "vbyte s1 = fill (vbyte s) a 4 c" "secmap_of s1 = secmap_of s"
    by (auto dest!: store_res_Some)
  have own1: "secmap_of s1 (a + 4) = SM n"
    using own s1(5) secmap_of_page [OF lb(3), of s] by simp
  from write_const_word [OF s1(2) own1 lb(2) s1(3) c2] obtain s2 where
    s2: "write_vabits8 s1 (SM n) (SM_OFF (a + 4)) (u16_hi w) = Some s2" "store_ok s2" "pdb_room k s2"
      "vbyte s2 = fill (vbyte s1) (a + 4) 4 c"
    by (auto dest!: store_res_Some)
  have "write_vabits16 s (SM n) (SM_OFF_16 a) w = Some s2"
    using s1(1) s2(1) lb(4,5) by (simp add: write_vabits16_def)
  with s2 s1(4) show ?thesis by (simp add: store_res_def fill_fill)
qed

lemma store_res_same: "shadow.same_store s s' \<Longrightarrow> store_res s' k v r \<Longrightarrow> store_res s k v r"
  by (simp add: store_res_def)

lemma store_loop_ok:
  assumes "store_ok s" "pdb_room (n + k) s" "n \<le> 8"
  shows "store_res s k (stored (vbyte s) a n be w) (store_bytes set_vbits8 a (of_nat n) be 0 n w s)"
  using shadow.store_bytes_stored [OF assms, of a be w] by (auto simp: store_res_def)

text \<open>A semi-fast case either is done, with the effect of the store, or changes nothing.\<close>

definition semi_res :: "tnt_mem \<Rightarrow> nat \<Rightarrow> (addr \<Rightarrow> bool \<times> u8) \<Rightarrow> (bool \<times> tnt_mem) option \<Rightarrow> bool" where
  "semi_res s k view r \<longleftrightarrow> (case r of None \<Rightarrow> False
     | Some (fin, s') \<Rightarrow> if fin then store_res s k view (Some s') else shadow.same_store s s')"

lemma semi_res_done: "store_res s k view r \<Longrightarrow> semi_res s k view (map_option (Pair True) r)"
  by (auto simp: semi_res_def store_res_def split: option.splits)

lemma store_semi64_ok:
  assumes ok: "store_ok s" and al: "VG_IS_8_ALIGNED a" and room: "pdb_room k s"
  shows "semi_res s k (stored (vbyte s) a 8 be w) (store_semi64 s a w)"
proof -
  obtain s' where s': "get_secmap_for_reading s a = Some (secmap_of s a, s')" "view_eq s s'" "maps_ok s'"
    using secmap_for_reading_ok [OF store_ok_maps [OF ok]] by blast
  note same = view_eq_same [OF s'(2,3) ok]
  have a8: "a AND 7 = 0" using al by (simp add: VG_IS_8_ALIGNED_def)
  have sm: "secmap_of s' = secmap_of s" using s'(2) by (simp add: view_eq_def)
  have vb: "vbyte s' = vbyte s" and ok': "store_ok s'" and room': "pdb_room k s'"
    using same room by (auto simp: shadow.same_store_def)
  have rd: "read_vabits16 s' (secmap_of s a) (SM_OFF_16 a) = Some (u16_of_bytes (vab8 s' a) (vab8 s' (a + 4)))"
    using read16 [OF s'(3) a8] sm by simp
  let ?v = "u16_of_bytes (vab8 s' a) (vab8 s' (a + 4))"
  show ?thesis
  proof (cases "\<not> is_distinguished_sm (secmap_of s a) \<and> (?v = 0xAAAA \<or> ?v = 0x5555) \<and> (w = 0 \<or> w = V_BITS64_TAINTED)")
    case False
    then show ?thesis
      using s'(1) rd same by (auto simp: store_semi64_def semi_res_def va_bits_defs V_BITS64_UNTAINTED_def)
  next
    case True
    then obtain n where n: "secmap_of s a = SM n"
      using not_distinguished [OF store_ok_maps [OF ok]] by blast
    then have own: "secmap_of s' a = SM n" using sm by simp
    show ?thesis
    proof (cases "w = 0")
      case w: True
      have "store_res s' k (fill (vbyte s') a 8 0) (write_vabits16 s' (SM n) (SM_OFF_16 a) 0xAAAA)"
        by (rule write_const_long [OF ok' own a8 room']) simp
      from semi_res_done [OF store_res_same [OF same this]] True w n s'(1) rd show ?thesis
        by (auto simp: store_semi64_def va_bits_defs V_BITS64_UNTAINTED_def stored_fill(1) vb)
    next
      case w: False
      then have t: "w = V_BITS64_TAINTED" "V_BITS64_TAINTED \<noteq> 0" using True by auto
      have "store_res s' k (fill (vbyte s') a 8 0xFF) (write_vabits16 s' (SM n) (SM_OFF_16 a) 0x5555)"
        by (rule write_const_long [OF ok' own a8 room']) simp
      from semi_res_done [OF store_res_same [OF same this]] True t n s'(1) rd show ?thesis
        by (auto simp: store_semi64_def va_bits_defs V_BITS64_UNTAINTED_def stored_fill(2) vb)
    qed
  qed
qed

lemma store_semi32_ok:
  assumes ok: "store_ok s" and al: "VG_IS_4_ALIGNED a" and room: "pdb_room k s"
  shows "semi_res s k (stored (vbyte s) a 4 be w) (store_semi32 s a w)"
proof -
  obtain s' where s': "get_secmap_for_reading s a = Some (secmap_of s a, s')" "view_eq s s'" "maps_ok s'"
    using secmap_for_reading_ok [OF store_ok_maps [OF ok]] by blast
  note same = view_eq_same [OF s'(2,3) ok]
  have a4: "a AND 3 = 0" using al by (simp add: VG_IS_4_ALIGNED_def)
  have sm: "secmap_of s' = secmap_of s" using s'(2) by (simp add: view_eq_def)
  have vb: "vbyte s' = vbyte s" and ok': "store_ok s'" and room': "pdb_room k s'"
    using same room by (auto simp: shadow.same_store_def)
  have rd: "read_vabits8 s' (secmap_of s a) (SM_OFF a) = Some (vab8 s' a)"
    using read_vabits8_ok [OF s'(3), of a] sm by simp
  let ?w = "w AND 0xFFFFFFFF"
  show ?thesis
  proof (cases "\<not> is_distinguished_sm (secmap_of s a) \<and> (vab8 s' a = 0xAA \<or> vab8 s' a = 0x55) \<and> (?w = 0 \<or> ?w = 0xFFFFFFFF)")
    case False
    then show ?thesis
      using s'(1) rd same
      by (auto simp: store_semi32_def semi_res_def va_bits_defs V_BITS32_UNTAINTED_def V_BITS32_TAINTED_def)
  next
    case True
    then obtain n where n: "secmap_of s a = SM n"
      using not_distinguished [OF store_ok_maps [OF ok]] by blast
    then have own: "secmap_of s' a = SM n" using sm by simp
    show ?thesis
    proof (cases "?w = 0")
      case w: True
      have "store_res s' k (fill (vbyte s') a 4 0) (write_vabits8 s' (SM n) (SM_OFF a) 0xAA)"
        using write_const_word [OF ok' own a4 room', of "0xAA" 0] by simp
      from semi_res_done [OF store_res_same [OF same this]] True w n s'(1) rd show ?thesis
        by (auto simp: store_semi32_def va_bits_defs V_BITS32_UNTAINTED_def stored_fill(3) vb)
    next
      case w: False
      have "store_res s' k (fill (vbyte s') a 4 0xFF) (write_vabits8 s' (SM n) (SM_OFF a) 0x55)"
        using write_const_word [OF ok' own a4 room', of "0x55" "0xFF"] by simp
      from semi_res_done [OF store_res_same [OF same this]] True w n s'(1) rd show ?thesis
        by (auto simp: store_semi32_def va_bits_defs V_BITS32_UNTAINTED_def V_BITS32_TAINTED_def stored_fill(4) vb)
    qed
  qed
qed

lemma STOREVn_slow_ok:
  assumes ok: "store_ok s" and n: "n \<in> {1, 2, 4, 8}" and room: "pdb_room (n + k) s"
  shows "store_res s k (stored (vbyte s) a n be w) (tnt_STOREVn_slow s a (8 * n) w be)"
proof -
  have asrt: "8 * n = 64 \<or> 8 * n = 32 \<or> 8 * n = 16 \<or> 8 * n = 8" "n \<le> 8" using n by auto
  note room0 = pdb_room_mono [OF room]
  have "semi_res s k (stored (vbyte s) a n be w)
    (if 8 * n = 64 \<and> VG_IS_8_ALIGNED a then store_semi64 s a w
     else if 8 * n = 32 \<and> VG_IS_4_ALIGNED a then store_semi32 s a w else Some (False, s))"
  proof (cases "8 * n = 64 \<and> VG_IS_8_ALIGNED a")
    case True
    then have n8: "n = 8" by simp
    show ?thesis unfolding if_P [OF True] using store_semi64_ok [OF ok _ room0] True unfolding n8 by blast
  next
    case False
    show ?thesis
    proof (cases "8 * n = 32 \<and> VG_IS_4_ALIGNED a")
      case True
      then have n4: "n = 4" by simp
      show ?thesis unfolding if_not_P [OF False] if_P [OF True] using store_semi32_ok [OF ok _ room0] True unfolding n4 by blast
    next
      case f2: False
      show ?thesis unfolding if_not_P [OF False] if_not_P [OF f2] using ok by (simp add: semi_res_def)
    qed
  qed
  then obtain fin s' where r: "(if 8 * n = 64 \<and> VG_IS_8_ALIGNED a then store_semi64 s a w
     else if 8 * n = 32 \<and> VG_IS_4_ALIGNED a then store_semi32 s a w else Some (False, s)) = Some (fin, s')"
    "if fin then store_res s k (stored (vbyte s) a n be w) (Some s') else shadow.same_store s s'"
    unfolding semi_res_def by (auto split: option.splits prod.splits)
  show ?thesis
  proof (cases fin)
    case True
    with r show ?thesis by (simp add: tnt_STOREVn_slow_def)
  next
    case False
    with r(2) have same: "shadow.same_store s s'" by simp
    then have s': "store_ok s'" "pdb_room (n + k) s'" "vbyte s' = vbyte s" using room by (auto simp: shadow.same_store_def)
    have "store_res s k (stored (vbyte s) a n be w) (store_bytes set_vbits8 a (of_nat n) be 0 n w s')"
      using store_loop_ok [OF s'(1,2) asrt(2), of a be w] s'(3) by (simp add: store_res_def)
    with False r(1) asrt(1) show ?thesis by (simp add: tnt_STOREVn_slow_def)
  qed
qed

section \<open>The fast stores\<close>

lemma write_lanes:
  assumes ok: "store_ok s" and own: "secmap_of s a = SM n" and room: "pdb_room k s"
    and range: "\<And>b. page_of b = page_of a \<Longrightarrow> SM_OFF b = SM_OFF a \<Longrightarrow> (b \<in> B \<longleftrightarrow> lane b \<in> L)"
    and inside: "\<And>b. b \<in> B \<Longrightarrow> page_of b = page_of a \<and> SM_OFF b = SM_OFF a"
    and w: "\<And>b. lane b \<in> L \<Longrightarrow> extract_vabits2_from_vabits8 b w = v"
      "\<And>b. lane b \<notin> L \<Longrightarrow> extract_vabits2_from_vabits8 b w = extract_vabits2_from_vabits8 b (vab8 s a)"
    and v: "v = 2 \<and> c = 0 \<or> v = 1 \<and> c = 0xFF"
  shows "store_res s k (\<lambda>b. if b \<in> B then (True, c) else vbyte s b) (write_vabits8 s (SM n) (SM_OFF a) w)"
proof -
  have same: "vab8 s b = vab8 s a" if "page_of b = page_of a" "SM_OFF b = SM_OFF a" for b
    using that secmap_of_page [of b a s] by (simp add: vab8_def)
  have out: "extract_vabits2_from_vabits8 b w = vab2 s b" if "page_of b = page_of a" "SM_OFF b = SM_OFF a" "lane b \<notin> L" for b
    using w(2) [OF that(3)] same [OF that(1,2)] by (simp add: vab2_def)
  have lanes: "\<forall>b. page_of b = page_of a \<longrightarrow> SM_OFF b = SM_OFF a \<longrightarrow>
      extract_vabits2_from_vabits8 b w = vab2 s b \<or> extract_vabits2_from_vabits8 b w \<in> {1, 2}"
    using out w(1) v by blast
  from write_word_ok [OF ok own lanes] obtain s' where s': "write_vabits8 s (SM n) (SM_OFF a) w = Some s'" "store_ok s'"
    "\<forall>k. pdb_room k s \<longrightarrow> pdb_room k s'"
    "vbyte s' = (\<lambda>b. if page_of b = page_of a \<and> SM_OFF b = SM_OFF a
      then (if extract_vabits2_from_vabits8 b w = 2 then (True, 0)
            else if extract_vabits2_from_vabits8 b w = 1 then (True, 0xFF) else vbyte s b)
      else vbyte s b)" by (elim exE conjE) (rule that)
  have "vbyte s' b = (if b \<in> B then (True, c) else vbyte s b)" for b
  proof (cases "page_of b = page_of a \<and> SM_OFF b = SM_OFF a")
    case True
    show ?thesis
    proof (cases "b \<in> B")
      case b: True
      then have "lane b \<in> L" using range True by blast
      then have "extract_vabits2_from_vabits8 b w = v" by (rule w(1))
      with True b v show ?thesis unfolding s'(4) by auto
    next
      case b: False
      then have "lane b \<notin> L" using range True by blast
      with out True have "extract_vabits2_from_vabits8 b w = vab2 s b" by blast
      with True b vbyte_vab2 [of s b] show ?thesis unfolding s'(4) by simp
    qed
  next
    case False
    then have "b \<notin> B" using inside by blast
    with False show ?thesis unfolding s'(4) by (simp only: if_False)
  qed
  then have "vbyte s' = (\<lambda>b. if b \<in> B then (True, c) else vbyte s b)" by (rule ext)
  with s' room show ?thesis by (simp add: store_res_def)
qed

lemma insert4_bit:
  assumes "VG_IS_2_ALIGNED a"
  shows "\<exists>x. insert_vabits4_into_vabits8 a v w = Some x \<and>
    (\<forall>n. bit x n \<longleftrightarrow> n < 8 \<and> (bit w n \<and> \<not> (2 * lane a \<le> n \<and> n < 2 * lane a + 4) \<or> 2 * lane a \<le> n \<and> bit v (n - 2 * lane a)))"
  unfolding insert_vabits4_into_vabits8_def Let_def shift_half [OF assms] mask_8_4 using assms
  by (auto simp: bit_simps)

lemma extract_insert4:
  assumes al: "VG_IS_2_ALIGNED a" and v: "v = 0xa \<and> r = 2 \<or> v = 5 \<and> r = 1"
  shows "\<exists>x. insert_vabits4_into_vabits8 a v w = Some x \<and>
    (\<forall>b. lane b \<in> {lane a, lane a + 1} \<longrightarrow> extract_vabits2_from_vabits8 b x = r) \<and>
    (\<forall>b. lane b \<notin> {lane a, lane a + 1} \<longrightarrow> extract_vabits2_from_vabits8 b x = extract_vabits2_from_vabits8 b w)"
proof -
  obtain x where x: "insert_vabits4_into_vabits8 a v w = Some x"
    "\<And>n. bit x n \<longleftrightarrow> n < 8 \<and> (bit w n \<and> \<not> (2 * lane a \<le> n \<and> n < 2 * lane a + 4) \<or> 2 * lane a \<le> n \<and> bit v (n - 2 * lane a))"
    using insert4_bit [OF al, of v w] by blast
  have v4: "bit v n \<Longrightarrow> n < 4" for n
  proof -
    assume b: "bit v n"
    have "take_bit 4 v = v" using v by (auto simp: take_bit_eq_mod)
    with b show "n < 4" by (metis bit_take_bit_iff)
  qed
  have nib: "take_bit 2 (drop_bit (2 * i) v) = r" if "i < 2" for i
    using v nibble_const [OF that] by auto
  have "extract_vabits2_from_vabits8 b x = r" if b: "lane b = lane a + i" "i < 2" for b i
  proof -
    have "extract_vabits2_from_vabits8 b x = take_bit 2 (drop_bit (2 * i) v)"
      using lane_less [of b] b
      by (intro bit_word_eqI) (auto simp: bit_extract_lane x(2) bit_simps algebra_simps)
    with nib [OF b(2)] show ?thesis by simp
  qed
  from this [where i = 0] this [where i = 1]
  have "\<forall>b. lane b \<in> {lane a, lane a + 1} \<longrightarrow> extract_vabits2_from_vabits8 b x = r" by auto
  moreover have "extract_vabits2_from_vabits8 b x = extract_vabits2_from_vabits8 b w"
    if b: "lane b \<notin> {lane a, lane a + 1}" for b
  proof (rule bit_word_eqI)
    fix k assume "k < LENGTH(8)"
    have "\<not> bit v (2 * lane b + k - 2 * lane a)" if "k < 2" "2 * lane a \<le> 2 * lane b + k"
    proof
      assume "bit v (2 * lane b + k - 2 * lane a)"
      from v4 [OF this] that b show False by auto
    qed
    moreover have "\<not> (2 * lane a \<le> 2 * lane b + k \<and> 2 * lane b + k < 2 * lane a + 4)" if "k < 2"
      using that b by auto
    ultimately show "bit (extract_vabits2_from_vabits8 b x) k = bit (extract_vabits2_from_vabits8 b w) k"
      using lane_less [of b] by (auto simp: bit_extract_lane x(2))
  qed
  ultimately show ?thesis using x(1) by blast
qed

lemma half_range:
  assumes "a AND 1 = 0" "page_of b = page_of a" "SM_OFF b = SM_OFF a"
  shows "(\<exists>i < 2. b = a + of_nat i) \<longleftrightarrow> lane b \<in> {lane a, lane a + 1}"
proof
  assume "\<exists>i < 2. b = a + of_nat i"
  then obtain i where "i < 2" "b = a + of_nat i" by blast
  with half_bytes(3) [OF assms(1)] show "lane b \<in> {lane a, lane a + 1}" by auto
next
  assume "lane b \<in> {lane a, lane a + 1}"
  then obtain i where i: "i < 2" "lane b = lane a + i" by (metis insert_iff empty_iff add_0_right one_less_numeral_iff semiring_norm(76) zero_less_numeral)
  have "b = a + of_nat i"
    using half_bytes [OF assms(1) i(1)] i(2) assms(2,3) by (intro address_eq [THEN iffD1]) simp
  with i(1) show "\<exists>i < 2. b = a + of_nat i" by blast
qed

lemma fill_set: "fill view a n c = (\<lambda>b. if b \<in> {b. \<exists>i < n. b = a + of_nat i} then (True, c) else view b)"
  by (simp add: fill_def)

lemma store16_fast:
  assumes ok: "store_ok s" and own: "secmap_of s a = SM n" and al: "VG_IS_2_ALIGNED a" and room: "pdb_room k s"
    and v: "v = 0xa \<and> c = 0 \<or> v = 5 \<and> c = 0xFF"
  shows "store_res s k (fill (vbyte s) a 2 c)
    (do { w \<leftarrow> insert_vabits4_into_vabits8 a v (vab8 s a); write_vabits8 s (SM n) (SM_OFF a) w })"
proof -
  have a1: "a AND 1 = 0" using al by (simp add: VG_IS_2_ALIGNED_def)
  define r :: u8 where "r = (if v = 0xa then 2 else 1)"
  have vr: "v = 0xa \<and> r = 2 \<or> v = 5 \<and> r = 1" "r = 2 \<and> c = 0 \<or> r = 1 \<and> c = 0xFF" using v by (auto simp: r_def)
  obtain x where x: "insert_vabits4_into_vabits8 a v (vab8 s a) = Some x"
    "\<And>b. lane b \<in> {lane a, lane a + 1} \<Longrightarrow> extract_vabits2_from_vabits8 b x = r"
    "\<And>b. lane b \<notin> {lane a, lane a + 1} \<Longrightarrow> extract_vabits2_from_vabits8 b x = extract_vabits2_from_vabits8 b (vab8 s a)"
    using extract_insert4 [OF al vr(1), of "vab8 s a"] by blast
  have "store_res s k (\<lambda>b. if b \<in> {b. \<exists>i < 2. b = a + of_nat i} then (True, c) else vbyte s b)
      (write_vabits8 s (SM n) (SM_OFF a) x)"
  proof (rule write_lanes [OF ok own room, where L = "{lane a, lane a + 1}" and v = r])
    show "b \<in> {b. \<exists>i < 2. b = a + of_nat i} \<longleftrightarrow> lane b \<in> {lane a, lane a + 1}"
      if "page_of b = page_of a" "SM_OFF b = SM_OFF a" for b
      using half_range [OF a1 that] by simp
    show "page_of b = page_of a \<and> SM_OFF b = SM_OFF a" if "b \<in> {b. \<exists>i < 2. b = a + of_nat i}" for b
      using that half_bytes(1,2) [OF a1] by auto
  qed (use x(2,3) vr(2) in auto)
  with x(1) show ?thesis by (simp add: fill_set)
qed

lemma store8_fast:
  assumes ok: "store_ok s" and own: "secmap_of s a = SM n" and room: "pdb_room k s"
    and v: "v = 2 \<and> c = 0 \<or> v = 1 \<and> c = 0xFF"
  shows "store_res s k (fill (vbyte s) a 1 c)
    (write_vabits8 s (SM n) (SM_OFF a) (insert_vabits2_into_vabits8 a v (vab8 s a)))"
proof -
  have v4: "v < 4" using v by auto
  have one: "{b. \<exists>i < 1. b = a + of_nat i} = {a}" by auto
  have "store_res s k (\<lambda>b. if b \<in> {a} then (True, c) else vbyte s b)
      (write_vabits8 s (SM n) (SM_OFF a) (insert_vabits2_into_vabits8 a v (vab8 s a)))"
  proof (rule write_lanes [OF ok own room, where L = "{lane a}" and v = v])
    show "b \<in> {a} \<longleftrightarrow> lane b \<in> {lane a}" if "page_of b = page_of a" "SM_OFF b = SM_OFF a" for b
      using address_eq [of b a] that by auto
  qed (use v extract_insert_vabits2 [OF v4] in auto)
  then show ?thesis unfolding fill_set one .
qed

lemma STOREV64_ok:
  assumes ok: "store_ok s" and room: "pdb_room (8 + k) s"
  shows "store_res s k (stored (vbyte s) a 8 be w) (tnt_STOREV64 s a w be)"
proof -
  have slow: "store_res s k (stored (vbyte s) a 8 be w) (tnt_STOREVn_slow s a 64 w be)"
    using STOREVn_slow_ok [OF ok, of 8 k a be w] room by simp
  note room0 = pdb_room_mono [OF room]
  show ?thesis
  proof (cases "UNALIGNED_OR_HIGH a 64 = 0")
    case False
    with slow show ?thesis by (simp add: tnt_STOREV64_def)
  next
    case True
    then have low: "a \<le> MAX_PRIMARY_ADDRESS" and a8: "a AND 7 = 0"
      by (auto simp: UNALIGNED_OR_HIGH_zero VG_IS_8_ALIGNED_def)
    let ?v = "u16_of_bytes (vab8 s a) (vab8 s (a + 4))"
    have rd: "read_vabits16 s (secmap_of s a) (SM_OFF_16 a) = Some ?v"
      using read16 [OF store_ok_maps [OF ok] a8] .
    show ?thesis
    proof (cases "\<not> is_distinguished_sm (secmap_of s a) \<and> (?v = 0xAAAA \<or> ?v = 0x5555) \<and> (w = 0 \<or> w = V_BITS64_TAINTED)")
      case False
      with True slow rd show ?thesis
        by (auto simp: tnt_STOREV64_def reading_low [OF low] va_bits_defs V_BITS64_UNTAINTED_def)
    next
      case fast: True
      then obtain n where n: "secmap_of s a = SM n" using not_distinguished [OF store_ok_maps [OF ok]] by blast
      show ?thesis
      proof (cases "w = 0")
        case w: True
        have "store_res s k (fill (vbyte s) a 8 0) (write_vabits16 s (SM n) (SM_OFF_16 a) 0xAAAA)"
          by (rule write_const_long [OF ok n a8 room0]) simp
        with True fast w n rd show ?thesis
          by (auto simp: tnt_STOREV64_def reading_low [OF low] va_bits_defs V_BITS64_UNTAINTED_def stored_fill(1))
      next
        case w: False
        then have t: "w = V_BITS64_TAINTED" "V_BITS64_TAINTED \<noteq> 0" using fast by auto
        have "store_res s k (fill (vbyte s) a 8 0xFF) (write_vabits16 s (SM n) (SM_OFF_16 a) 0x5555)"
          by (rule write_const_long [OF ok n a8 room0]) simp
        with True fast t n rd show ?thesis
          by (auto simp: tnt_STOREV64_def reading_low [OF low] va_bits_defs V_BITS64_UNTAINTED_def stored_fill(2))
      qed
    qed
  qed
qed

lemma fill_same:
  assumes "store_ok s" "\<And>i. i < n \<Longrightarrow> vbyte s (a + of_nat i) = (True, c)" "pdb_room k s"
  shows "store_res s k (fill (vbyte s) a n c) (Some s)"
  using assms by (auto simp: store_res_def fill_def fun_eq_iff)

lemma STOREV32_ok:
  assumes ok: "store_ok s" and room: "pdb_room (4 + k) s"
  shows "store_res s k (stored (vbyte s) a 4 be w) (tnt_STOREV32 s a w be)"
proof -
  have slow: "store_res s k (stored (vbyte s) a 4 be w) (tnt_STOREVn_slow s a 32 w be)"
    using STOREVn_slow_ok [OF ok, of 4 k a be w] room by simp
  note room0 = pdb_room_mono [OF room]
  show ?thesis
  proof (cases "UNALIGNED_OR_HIGH a 32 = 0")
    case False
    with slow show ?thesis by (simp add: tnt_STOREV32_def)
  next
    case True
    then have low: "a \<le> MAX_PRIMARY_ADDRESS" and a4: "a AND 3 = 0"
      by (auto simp: UNALIGNED_OR_HIGH_zero VG_IS_4_ALIGNED_def)
    note rd = read_vabits8_ok [OF store_ok_maps [OF ok], of a]
    have st: "w = 0 \<Longrightarrow> stored (vbyte s) a 4 be w = fill (vbyte s) a 4 0"
      "w = 0xFFFFFFFF \<Longrightarrow> stored (vbyte s) a 4 be w = fill (vbyte s) a 4 0xFF"
      by (simp_all add: stored_fill(3,4))
    have own: "\<not> is_distinguished_sm (secmap_of s a) \<Longrightarrow> \<exists>n. secmap_of s a = SM n"
      using not_distinguished [OF store_ok_maps [OF ok]] by blast
    have U: "store_res s k (fill (vbyte s) a 4 0) (write_vabits8 s (secmap_of s a) (SM_OFF a) 0xAA)"
      and T: "store_res s k (fill (vbyte s) a 4 0xFF) (write_vabits8 s (secmap_of s a) (SM_OFF a) 0x55)"
      if nd: "\<not> is_distinguished_sm (secmap_of s a)"
    proof -
      obtain n where n: "secmap_of s a = SM n" using own [OF nd] by blast
      show "store_res s k (fill (vbyte s) a 4 0) (write_vabits8 s (secmap_of s a) (SM_OFF a) 0xAA)"
        "store_res s k (fill (vbyte s) a 4 0xFF) (write_vabits8 s (secmap_of s a) (SM_OFF a) 0x55)"
        using write_const_word [OF ok n a4 room0, of "0xAA" 0] write_const_word [OF ok n a4 room0, of "0x55" "0xFF"] n by simp_all
    qed
    have sU: "store_res s k (fill (vbyte s) a 4 0) (Some s)" if "vab8 s a = 0xAA"
      by (rule fill_same [OF ok _ room0]) (rule word_const(1) [OF a4 _ that])
    have sT: "store_res s k (fill (vbyte s) a 4 0xFF) (Some s)" if "vab8 s a = 0x55"
      by (rule fill_same [OF ok _ room0]) (rule word_const(2) [OF a4 _ that])
    consider "w = 0" | "w = 0xFFFFFFFF" | "w \<noteq> 0" "w \<noteq> 0xFFFFFFFF" by blast
    then show ?thesis
    proof cases
      case 1
      with True rd slow U sU st(1) show ?thesis
        by (auto simp: tnt_STOREV32_def reading_low [OF low] va_bits_defs V_BITS32_UNTAINTED_def)
    next
      case 2
      with True rd slow T sT st(2) show ?thesis
        by (auto simp: tnt_STOREV32_def reading_low [OF low] va_bits_defs V_BITS32_UNTAINTED_def V_BITS32_TAINTED_def)
    next
      case 3
      with True rd slow show ?thesis
        by (auto simp: tnt_STOREV32_def reading_low [OF low] V_BITS32_UNTAINTED_def V_BITS32_TAINTED_def)
    qed
  qed
qed

lemma STOREV16_ok:
  assumes ok: "store_ok s" and room: "pdb_room (2 + k) s"
  shows "store_res s k (stored (vbyte s) a 2 be w) (tnt_STOREV16 s a w be)"
proof -
  have slow: "store_res s k (stored (vbyte s) a 2 be w) (tnt_STOREVn_slow s a 16 w be)"
    using STOREVn_slow_ok [OF ok, of 2 k a be w] room by simp
  note room0 = pdb_room_mono [OF room]
  show ?thesis
  proof (cases "UNALIGNED_OR_HIGH a 16 = 0")
    case False
    with slow show ?thesis by (simp add: tnt_STOREV16_def)
  next
    case True
    then have low: "a \<le> MAX_PRIMARY_ADDRESS" and al: "VG_IS_2_ALIGNED a" by (auto simp: UNALIGNED_OR_HIGH_zero)
    note rd = read_vabits8_ok [OF store_ok_maps [OF ok], of a]
    show ?thesis
    proof (cases "\<not> is_distinguished_sm (secmap_of s a) \<and> (vab8 s a = 0xAA \<or> vab8 s a = 0x55) \<and> (w = 0 \<or> w = V_BITS16_TAINTED)")
      case False
      with True slow rd show ?thesis
        by (auto simp: tnt_STOREV16_def reading_low [OF low] va_bits_defs V_BITS16_UNTAINTED_def)
    next
      case fast: True
      then obtain n where n: "secmap_of s a = SM n" using not_distinguished [OF store_ok_maps [OF ok]] by blast
      show ?thesis
      proof (cases "w = 0")
        case w: True
        have "store_res s k (fill (vbyte s) a 2 0)
            (do { w \<leftarrow> insert_vabits4_into_vabits8 a 0xa (vab8 s a); write_vabits8 s (SM n) (SM_OFF a) w })"
          by (rule store16_fast [OF ok n al room0]) simp
        with True fast w n rd show ?thesis
          by (auto simp: tnt_STOREV16_def reading_low [OF low] va_bits_defs V_BITS16_UNTAINTED_def stored_fill(1))
      next
        case w: False
        then have t: "w = V_BITS16_TAINTED" "V_BITS16_TAINTED \<noteq> 0" using fast by auto
        have "store_res s k (fill (vbyte s) a 2 0xFF)
            (do { w \<leftarrow> insert_vabits4_into_vabits8 a 5 (vab8 s a); write_vabits8 s (SM n) (SM_OFF a) w })"
          by (rule store16_fast [OF ok n al room0]) simp
        with True fast t n rd show ?thesis
          by (auto simp: tnt_STOREV16_def reading_low [OF low] va_bits_defs V_BITS16_UNTAINTED_def stored_fill(5))
      qed
    qed
  qed
qed

lemma STOREV8_ok:
  assumes ok: "store_ok s" and room: "pdb_room (1 + k) s"
  shows "store_res s k (stored (vbyte s) a 1 be w) (helperc_STOREV8 s a w)"
proof -
  have endian: "stored v a 1 be w = stored v a 1 False w" for v
    by (cases be) (auto simp: stored_def byte_addr_def byte_offset_w_def fun_eq_iff upt_rec)
  have slow: "store_res s k (stored (vbyte s) a 1 be w) (tnt_STOREVn_slow s a 8 w False)"
    using STOREVn_slow_ok [OF ok, of 1 k a False w] room unfolding endian by simp
  note room0 = pdb_room_mono [OF room]
  have UT: "(ucast V_BITS8_TAINTED :: u64) \<noteq> ucast V_BITS8_UNTAINTED" "(ucast V_BITS8_UNTAINTED :: u64) = 0"
    by (simp_all add: v_bits_defs)
  show ?thesis
  proof (cases "UNALIGNED_OR_HIGH a 8 = 0")
    case False
    with slow show ?thesis by (simp add: helperc_STOREV8_def)
  next
    case True
    then have low: "a \<le> MAX_PRIMARY_ADDRESS" by (simp add: UNALIGNED_OR_HIGH_zero)
    note rd = read_vabits8_ok [OF store_ok_maps [OF ok], of a]
    show ?thesis
    proof (cases "\<not> is_distinguished_sm (secmap_of s a) \<and>
        ((vab8 s a = 0xAA \<or> vab8 s a = 0x55) \<or> extract_vabits2_from_vabits8 a (vab8 s a) \<noteq> 0) \<and>
        (w = ucast V_BITS8_UNTAINTED \<or> w = ucast V_BITS8_TAINTED)")
      case False
      with True slow rd show ?thesis
        unfolding helperc_STOREV8_def reading_low [OF low] va_bits_defs by auto
    next
      case fast: True
      then obtain n where n: "secmap_of s a = SM n" using not_distinguished [OF store_ok_maps [OF ok]] by blast
      have cond: "(VA_BITS8_UNTAINTED = vab8 s a \<or> VA_BITS8_TAINTED = vab8 s a) \<or>
            VA_BITS2_NOACCESS \<noteq> extract_vabits2_from_vabits8 a (vab8 s a)"
        using fast by (auto simp: va_bits_defs)
      have nd: "\<not> is_distinguished_sm (SM n)" by (simp add: is_distinguished_sm_def)
      show ?thesis
      proof (cases "w = ucast V_BITS8_UNTAINTED")
        case w: True
        have "store_res s k (fill (vbyte s) a 1 0)
            (write_vabits8 s (SM n) (SM_OFF a) (insert_vabits2_into_vabits8 a 2 (vab8 s a)))"
          by (rule store8_fast [OF ok n room0]) simp
        then have "store_res s k (stored (vbyte s) a 1 be w)
            (write_vabits8 s (SM n) (SM_OFF a) (insert_vabits2_into_vabits8 a VA_BITS2_UNTAINTED (vab8 s a)))"
          using w UT stored_fill(1) [of 1 "vbyte s" a be] by (simp add: VA_BITS2_UNTAINTED_def)
        then show ?thesis
          using True rd n nd cond w by (simp add: helperc_STOREV8_def reading_low [OF low])
      next
        case w: False
        then have t: "w = ucast V_BITS8_TAINTED" using fast by blast
        have "store_res s k (fill (vbyte s) a 1 0xFF)
            (write_vabits8 s (SM n) (SM_OFF a) (insert_vabits2_into_vabits8 a 1 (vab8 s a)))"
          by (rule store8_fast [OF ok n room0]) simp
        then have "store_res s k (stored (vbyte s) a 1 be w)
            (write_vabits8 s (SM n) (SM_OFF a) (insert_vabits2_into_vabits8 a VA_BITS2_TAINTED (vab8 s a)))"
          using t stored_fill(6) [of "vbyte s" a be] by (simp only: VA_BITS2_TAINTED_def)
        then show ?thesis
          using True rd n nd cond w t by (simp add: helperc_STOREV8_def reading_low [OF low])
      qed
    qed
  qed
qed

section \<open>The vector loads\<close>

text \<open>Element \<open>i\<close> of the result is the 64-bit load at \<open>a + 8 * i\<close>, in either byte order.\<close>

definition vec_loaded :: "(addr \<Rightarrow> bool \<times> u8) \<Rightarrow> addr \<Rightarrow> nat \<Rightarrow> bool \<Rightarrow> u64 list \<Rightarrow> bool" where
  "vec_loaded view a n bigendian res \<longleftrightarrow>
     n \<le> length res \<and> (\<forall>i < n. loaded view (a + 8 * of_nat i) 8 bigendian (res ! i))"

definition vec_ok :: "tnt_mem \<Rightarrow> addr \<Rightarrow> nat \<Rightarrow> bool \<Rightarrow> (u64 list \<times> tnt_mem) option \<Rightarrow> bool" where
  "vec_ok s a n be r \<longleftrightarrow> (case r of None \<Rightarrow> False | Some (res, s') \<Rightarrow> vec_loaded (vbyte s) a n be res \<and> shadow.same_store s s')"

lemma vec_ok_same: "shadow.same_store s s' \<Longrightarrow> vec_ok s' a n be r \<Longrightarrow> vec_ok s a n be r"
  by (auto simp: vec_ok_def shadow.same_store_def split: option.splits)

lemma load_long_ok:
  assumes "store_ok s"
  obtains w s' where "load_bytes get_vbits8 c 8 be 8 acc s = Some (w, s')" "loaded (vbyte s) c 8 be w"
    "shadow.same_store s s'"
proof -
  obtain w s' where w: "load_bytes get_vbits8 c (of_nat 8) be 8 acc s = Some (w, s')" "shadow.same_store s s'"
    "\<forall>k < 64. bit w k = (if k < 8 * 8 then bit (snd (vbyte s (byte_addr c 8 be (k div 8)))) (k mod 8)
       else bit acc (k - 8 * 8))"
    using shadow.load_bytes_ok [OF assms order_refl, of c 8 be acc] by (elim exE conjE) (rule that)
  then have "loaded (vbyte s) c 8 be w" by (simp add: loaded_def)
  with w show ?thesis using that by simp
qed

lemma long_index:
  assumes "j < n" "n \<le> 4"
  shows "byte_offset_w (of_nat n) be (of_nat j) = of_nat (if be then n - 1 - j else j)"
    "unat (byte_offset_w (of_nat n) be (of_nat j)) = (if be then n - 1 - j else j)"
proof -
  show e: "byte_offset_w (of_nat n) be (of_nat j) = of_nat (if be then n - 1 - j else j)"
    using assms by (auto simp: byte_offset_w_def of_nat_diff)
  show "unat (byte_offset_w (of_nat n) be (of_nat j)) = (if be then n - 1 - j else j)"
    unfolding e using assms by (simp add: unsigned_of_nat take_bit_nat_eq_self)
qed

lemma load_longs_ok:
  "store_ok s \<Longrightarrow> j \<le> n \<Longrightarrow> n \<le> 4 \<Longrightarrow> n \<le> length res \<Longrightarrow>
   \<exists>res' s'. load_longs a n be j res s = Some (res', s') \<and> length res' = length res \<and> shadow.same_store s s' \<and>
     (\<forall>i < n. if (if be then n - 1 - i else i) < j then loaded (vbyte s) (a + 8 * of_nat i) 8 be (res' ! i)
        else res' ! i = res ! i)"
proof (induction j arbitrary: res s)
  case 0
  then show ?case by simp
next
  case (Suc j)
  define x where "x = (if be then n - 1 - j else j)"
  have j: "j < n" using Suc.prems(2) by simp
  note li = long_index [OF j Suc.prems(3), of be, folded x_def]
  obtain w s1 where w: "load_bytes get_vbits8 (a + 8 * of_nat x) 8 be 8 V_BITS64_TAINTED s = Some (w, s1)"
    "loaded (vbyte s) (a + 8 * of_nat x) 8 be w" "shadow.same_store s s1"
    by (rule load_long_ok [OF Suc.prems(1)])
  have x: "x < n" using j by (simp add: x_def)
  have s1: "store_ok s1" "vbyte s1 = vbyte s" using w(3) by (simp_all add: shadow.same_store_def)
  have l1: "n \<le> length (res[x := w])" using Suc.prems(4) by simp
  obtain res' s' where r: "load_longs a n be j (res[x := w]) s1 = Some (res', s')"
    "length res' = length (res[x := w])" "shadow.same_store s1 s'"
    "\<forall>i < n. if (if be then n - 1 - i else i) < j then loaded (vbyte s1) (a + 8 * of_nat i) 8 be (res' ! i)
        else res' ! i = res[x := w] ! i"
    using Suc.IH [OF s1(1) Suc_leD [OF Suc.prems(2)] Suc.prems(3) l1] by (elim exE conjE) (rule that)
  have "if (if be then n - 1 - i else i) < Suc j then loaded (vbyte s) (a + 8 * of_nat i) 8 be (res' ! i)
        else res' ! i = res ! i" if i: "i < n" for i
  proof (cases "i = x")
    case True
    then have "\<not> (if be then n - 1 - i else i) < j" "(if be then n - 1 - i else i) < Suc j" using j by (auto simp: x_def)
    then have "res' ! i = w" using r(4) [rule_format, OF i] True x Suc.prems(4) by (simp split: if_splits)
    then show ?thesis using w(2) True \<open>(if be then n - 1 - i else i) < Suc j\<close> by (metis (full_types))
  next
    case False
    then have "(if be then n - 1 - i else i) < Suc j \<longleftrightarrow> (if be then n - 1 - i else i) < j" using j i by (auto simp: x_def)
    then show ?thesis using r(4) [rule_format, OF i] False s1(2) by (metis nth_list_update_neq)
  qed
  moreover have "load_longs a n be (Suc j) res s = Some (res', s')"
    unfolding load_longs.simps Let_def li(2) unfolding li(1) using w(1) r(1) x Suc.prems(4) by simp
  moreover have "shadow.same_store s s'" by (rule same_trans [OF w(3) r(3)])
  ultimately show ?case using r(2) by auto
qed

lemma LOADV_vec_slow_ok:
  assumes ok: "store_ok s" and n: "n = 2 \<or> n = 4" and l: "n \<le> length res"
  shows "vec_ok s a n be (tnt_LOADV_128_or_256_slow s res a (64 * n) be)"
proof -
  let ?r = "replicate n V_BITS64_TAINTED @ drop n res"
  have le: "n \<le> 4" and ll: "n \<le> length ?r" using n by auto
  have pow: "(of_nat (8 * n) :: u64) AND (of_nat (8 * n) - 1) = 0" using n by auto
  have sz: "64 * n div 8 = 8 * n" "8 * n div 8 = n" by simp_all
  obtain res' s' where "load_longs a n be n ?r s = Some (res', s')" "length res' = length ?r" "shadow.same_store s s'"
    "\<forall>i < n. if (if be then n - 1 - i else i) < n then loaded (vbyte s) (a + 8 * of_nat i) 8 be (res' ! i)
        else res' ! i = ?r ! i"
    using load_longs_ok [OF ok order_refl le ll, of a be] by (elim exE conjE) (rule that)
  moreover have "(if be then n - 1 - i else i) < n" if "i < n" for i using that by auto
  moreover have "0 < n" "n \<le> length res'" if "length res' = length ?r" for res' :: "u64 list"
    using that n l by auto
  ultimately show ?thesis using l pow
    by (simp add: tnt_LOADV_128_or_256_slow_def sz vec_ok_def vec_loaded_def del: of_nat_mult)
qed

lemma vec_element:
  assumes "unat a mod (8 * n) = 0" "n = 2 \<or> n = 4" "a \<le> MAX_PRIMARY_ADDRESS" "i < n"
  shows "(a + 8 * of_nat i) AND 7 = 0" "a + 8 * of_nat i \<le> MAX_PRIMARY_ADDRESS"
proof -
  have d: "8 * n dvd 2 ^ 64" using assms(2) by auto
  have "8 * i < 8 * n" using assms(4) by simp
  then have u: "unat (a + of_nat (8 * i)) = unat a + 8 * i" by (rule unat_add_small [OF assms(1) _ d])
  have e: "a + 8 * of_nat i = a + of_nat (8 * i)" by simp
  have a8: "unat a mod 8 = 0" using assms(1,2) by (elim disjE) (simp_all; presburger)+
  then show "(a + 8 * of_nat i) AND 7 = 0" unfolding aligned_mod e u by simp
  have m: "unat MAX_PRIMARY_ADDRESS = 34359738367" by (simp add: MAX_PRIMARY_ADDRESS_def N_PRIMARY_MAP_def N_PRIMARY_BITS_def)
  have "unat a \<le> 34359738367" using assms(3) m by (metis word_le_nat_alt)
  moreover from assms(1) obtain q where q: "unat a = 8 * n * q" by auto
  ultimately have "unat a + 8 * i \<le> 34359738367" using assms(2,4) a8 by (elim disjE) (simp_all; presburger)+
  then show "a + 8 * of_nat i \<le> MAX_PRIMARY_ADDRESS" unfolding e word_le_nat_alt u m .
qed


lemma load_vector_fast_ok:
  assumes ok: "store_ok s" and al: "unat a mod (8 * n) = 0" and n: "n = 2 \<or> n = 4" and low: "a \<le> MAX_PRIMARY_ADDRESS"
  shows "j \<le> n \<Longrightarrow> n \<le> length res \<Longrightarrow> (\<forall>i < j. loaded (vbyte s) (a + 8 * of_nat i) 8 be (res ! i)) \<Longrightarrow>
    load_vector_fast s a n j res = Some (None, s) \<or>
    (\<exists>res'. load_vector_fast s a n j res = Some (Some res', s) \<and> vec_loaded (vbyte s) a n be res')"
proof (induction "n - j" arbitrary: j res)
  case 0
  then have "j = n" by simp
  with 0 show ?case by (simp add: load_vector_fast.simps [of s a n n] vec_loaded_def)
next
  case (Suc m)
  then have j: "j < n" by simp
  let ?c = "a + 8 * of_nat j"
  note el = vec_element [OF al n low j]
  let ?w = "u16_of_bytes (vab8 s ?c) (vab8 s (?c + 4))"
  have rd: "read_vabits16 s (secmap_of s ?c) (SM_OFF_16 ?c) = Some ?w"
    by (rule read16 [OF store_ok_maps [OF ok] el(1)])
  have step: "load_vector_fast s a n j res =
    (if ?w = VA_BITS16_UNTAINTED then load_vector_fast s a n (Suc j) (res[j := V_BITS64_UNTAINTED])
     else if ?w = VA_BITS16_TAINTED then load_vector_fast s a n (Suc j) (res[j := V_BITS64_TAINTED])
     else Some (None, s))"
    using j by (simp add: load_vector_fast.simps [of s a n j] reading_low [OF el(2)] rd)
  have go: "load_vector_fast s a n (Suc j) (res[j := c]) = Some (None, s) \<or>
    (\<exists>res'. load_vector_fast s a n (Suc j) (res[j := c]) = Some (Some res', s) \<and> vec_loaded (vbyte s) a n be res')"
    if c: "loaded (vbyte s) ?c 8 be c" for c
  proof (rule Suc.hyps(1))
    show "\<forall>i < Suc j. loaded (vbyte s) (a + 8 * of_nat i) 8 be (res[j := c] ! i)"
      using Suc.prems c j by (auto simp: less_Suc_eq)
  qed (use Suc.hyps(2) Suc.prems j in auto)
  note lc = long_const [OF el(1), of _ s]
  have lu: "?w = VA_BITS16_UNTAINTED \<Longrightarrow> loaded (vbyte s) ?c 8 be V_BITS64_UNTAINTED"
    by (rule loaded_const [where c = 0]) (use lc(1) in \<open>simp_all add: V_BITS64_UNTAINTED_def va_bits_defs\<close>)
  have lt: "?w = VA_BITS16_TAINTED \<Longrightarrow> loaded (vbyte s) ?c 8 be V_BITS64_TAINTED"
    by (rule loaded_const [where c = "0xFF"]) (use lc(2) ff_bitI in \<open>simp_all add: V_BITS64_TAINTED_def va_bits_defs\<close>)
  show ?case unfolding step using go [OF lu] go [OF lt] by simp
qed

lemma vector_aligned: "a AND 15 = 0 \<longleftrightarrow> unat a mod 16 = 0" "a AND 31 = 0 \<longleftrightarrow> unat a mod 32 = 0" for a :: addr
proof -
  have m: "(15::addr) = mask 4" "(31::addr) = mask 5" by (simp_all add: mask_eq_exp_minus_1)
  have "unat (a AND 15) = unat a mod 16" "unat (a AND 31) = unat a mod 32"
    unfolding m by (simp_all only: take_bit_eq_mask [symmetric] unsigned_take_bit_eq) (simp_all add: take_bit_eq_mod)
  then show "a AND 15 = 0 \<longleftrightarrow> unat a mod 16 = 0" "a AND 31 = 0 \<longleftrightarrow> unat a mod 32 = 0"
    by (simp_all only: word_unat_eq_iff unsigned_0)
qed

lemma LOADV_vec_ok:
  assumes ok: "store_ok s" and n: "n = 2 \<or> n = 4" and l: "n \<le> length res"
  shows "vec_ok s a n be (tnt_LOADV_128_or_256 s res a (64 * n) be)"
proof (cases "UNALIGNED_OR_HIGH a (of_nat (64 * n)) = 0")
  case False
  with LOADV_vec_slow_ok [OF assms] show ?thesis by (simp add: tnt_LOADV_128_or_256_def)
next
  case True
  have nn: "of_nat (64 * n) = (if n = 2 then 128 else 256 :: u64)" using n by auto
  have low: "a \<le> MAX_PRIMARY_ADDRESS" and "a AND (if n = 2 then 15 else 31) = 0"
    using True unfolding nn by (auto simp: UNALIGNED_OR_HIGH_zero split: if_splits)
  then have al: "unat a mod (8 * n) = 0"
    using n by (auto simp: vector_aligned)
  have sz: "64 * n div 8 div 8 = n" by simp
  have none: "\<forall>i < 0. loaded (vbyte s) (a + 8 * of_nat i) 8 be (res ! i)" by simp
  consider "load_vector_fast s a n 0 res = Some (None, s)"
    | res' where "load_vector_fast s a n 0 res = Some (Some res', s)" "vec_loaded (vbyte s) a n be res'"
    using load_vector_fast_ok [OF ok al n low le0 l none] by blast
  then show ?thesis
  proof cases
    case 1
    with LOADV_vec_slow_ok [OF assms] True show ?thesis by (simp add: tnt_LOADV_128_or_256_def sz)
  next
    case 2
    with ok True show ?thesis by (simp add: tnt_LOADV_128_or_256_def sz vec_ok_def)
  qed
qed

section \<open>Properties\<close>

text \<open>The helpers the generated code calls, with their size in bytes and byte order.\<close>

definition load_helpers :: "(nat \<times> bool \<times> (tnt_mem \<Rightarrow> addr \<Rightarrow> (u64 \<times> tnt_mem) option)) list" where
  "load_helpers = [(8, True, helperc_LOADV64be), (8, False, helperc_LOADV64le), (4, True, helperc_LOADV32be),
     (4, False, helperc_LOADV32le), (2, True, helperc_LOADV16be), (2, False, helperc_LOADV16le),
     (1, False, helperc_LOADV8)]"

definition store_helpers :: "(nat \<times> bool \<times> (tnt_mem \<Rightarrow> addr \<Rightarrow> u64 \<Rightarrow> tnt_mem option)) list" where
  "store_helpers = [(8, True, helperc_STOREV64be), (8, False, helperc_STOREV64le), (4, True, helperc_STOREV32be),
     (4, False, helperc_STOREV32le), (2, True, helperc_STOREV16be), (2, False, helperc_STOREV16le),
     (1, False, helperc_STOREV8)]"

lemma load_helper_ok:
  assumes "store_ok s" "(n, be, f) \<in> set load_helpers"
  shows "load_ok s a n be (f s a)"
  using assms LOADV64_ok LOADV32_ok LOADV16_ok LOADV8_ok
  by (auto simp: load_helpers_def helperc_LOADV64be_def helperc_LOADV64le_def helperc_LOADV32be_def
      helperc_LOADV32le_def helperc_LOADV16be_def helperc_LOADV16le_def)

lemma store_helper_ok:
  assumes "store_ok s" "(n, be, f) \<in> set store_helpers" "pdb_room (n + k) s"
  shows "store_res s k (stored (vbyte s) a n be w) (f s a w)"
  using assms STOREV64_ok STOREV32_ok STOREV16_ok STOREV8_ok [of s k a False]
  by (auto simp: store_helpers_def helperc_STOREV64be_def helperc_STOREV64le_def helperc_STOREV32be_def
      helperc_STOREV32le_def helperc_STOREV16be_def helperc_STOREV16le_def)

lemma load_helper_size: "(n, be, f) \<in> set load_helpers \<Longrightarrow> n \<le> 8"
  by (auto simp: load_helpers_def)

text \<open>C11: Every scalar load helper, on its fast path or its slow one, returns the V bits of the
  bytes it covers, assembled in its byte order, and changes neither the shadow bytes nor the
  invariant.\<close>

theorem load_helpers_bytewise:
  assumes "store_ok s" "(n, be, f) \<in> set load_helpers"
  shows "\<exists>w s'. f s a = Some (w, s') \<and> store_ok s' \<and> vbyte s' = vbyte s \<and>
    (\<forall>k < 8 * n. bit w k = bit (snd (vbyte s (byte_addr a n be (k div 8)))) (k mod 8))"
  using load_helper_ok [OF assms, of a]
  by (auto simp: load_ok_def loaded_def shadow.same_store_def split: option.splits)

theorem load_helpers_bytewise_witness:
  "\<exists>w s'. helperc_LOADV32be (init_shadow_memory (\<lambda>_. True)) 0x12344 = Some (w, s')"
  using load_helpers_bytewise [OF init_store_ok, of 4 True helperc_LOADV32be "0x12344"]
  by (auto simp: load_helpers_def)

text \<open>C12: Every scalar store helper writes the bytes of its operand in its byte order and
  changes no other shadow byte, on its fast path or its slow one, when the table of V bits has
  room for the bytes it may make partly tainted.\<close>

theorem store_helpers_bytewise:
  assumes "store_ok s" "(n, be, f) \<in> set store_helpers" "pdb_room (n + k) s"
  shows "\<exists>s'. f s a w = Some s' \<and> store_ok s' \<and> pdb_room k s' \<and>
    (\<forall>i < n. vbyte s' (byte_addr a n be i) = (True, ucast (drop_bit (8 * i) w))) \<and>
    (\<forall>b. (\<forall>i < n. b \<noteq> a + of_nat i) \<longrightarrow> vbyte s' b = vbyte s b)"
proof -
  have n: "n \<le> 8" using assms(2) by (auto simp: store_helpers_def)
  obtain s' where s': "f s a w = Some s'" "store_ok s'" "pdb_room k s'" "vbyte s' = stored (vbyte s) a n be w"
    using store_res_Some [OF store_helper_ok [OF assms]] by blast
  then show ?thesis using stored_at [OF n] stored_other [of n _ a] by auto
qed

theorem store_helpers_bytewise_witness:
  "\<exists>s'. helperc_STOREV64le (init_shadow_memory (\<lambda>_. True)) 0x7FFFFFFFD 0x0102030405060708 = Some s' \<and>
     vbyte s' 0x7FFFFFFFD = (True, 0x08) \<and> vbyte s' 0x800000004 = (True, 0x01)"
proof -
  obtain s' where s': "helperc_STOREV64le (init_shadow_memory (\<lambda>_. True)) 0x7FFFFFFFD 0x0102030405060708 = Some s'"
    "\<forall>i < 8. vbyte s' (byte_addr 0x7FFFFFFFD 8 False i) = (True, ucast (drop_bit (8 * i) (0x0102030405060708 :: u64)))"
    using store_helpers_bytewise [OF init_store_ok, of 8 False helperc_STOREV64le 0 "0x7FFFFFFFD" "0x0102030405060708"]
      init_room [of 8] by (auto simp: store_helpers_def)
  have "vbyte s' 0x7FFFFFFFD = (True, 0x08)" "vbyte s' 0x800000004 = (True, 0x01)"
    using s'(2) [rule_format, of 0] s'(2) [rule_format, of 7] by (simp_all add: byte_addr_le drop_bit_eq_div)
  with s'(1) show ?thesis by blast
qed

text \<open>C13: The fast path of a store and the slow case it falls back to agree: both succeed and
  leave the same shadow bytes; and a load returns the same bits on its fast path as the byte
  loop alone does.\<close>

theorem fast_paths_agree:
  assumes "store_ok s" "pdb_room 8 s"
  shows "(\<exists>s1 s2. tnt_STOREV64 s a w be = Some s1 \<and> tnt_STOREVn_slow s a 64 w be = Some s2 \<and> vbyte s1 = vbyte s2) \<and>
    (\<exists>v s1 s2. tnt_LOADV64 s a be = Some (v, s1) \<and> load_bytes get_vbits8 a 8 be 8 V_BITS64_TAINTED s = Some (v, s2))"
proof
  have room: "pdb_room (8 + 0) s" using assms(2) by simp
  show "\<exists>s1 s2. tnt_STOREV64 s a w be = Some s1 \<and> tnt_STOREVn_slow s a 64 w be = Some s2 \<and> vbyte s1 = vbyte s2"
    using store_res_Some [OF STOREV64_ok [OF assms(1) room, of a be w]]
      store_res_Some [OF STOREVn_slow_ok [OF assms(1), of 8 0 a be w]] room by auto
  obtain v s2 where v: "load_bytes get_vbits8 a 8 be 8 V_BITS64_TAINTED s = Some (v, s2)" "loaded (vbyte s) a 8 be v"
    by (rule load_long_ok [OF assms(1)])
  moreover obtain u s1 where u: "tnt_LOADV64 s a be = Some (u, s1)" "loaded (vbyte s) a 8 be u"
    using LOADV64_ok [OF assms(1), of a be] by (auto simp: load_ok_def split: option.splits)
  moreover have "u = v" using u(2) v(2) by (intro bit_word_eqI) (simp add: loaded_def)
  ultimately show "\<exists>v s1 s2. tnt_LOADV64 s a be = Some (v, s1) \<and>
    load_bytes get_vbits8 a 8 be 8 V_BITS64_TAINTED s = Some (v, s2)" by blast
qed

theorem fast_paths_agree_witness:
  "\<exists>s1 s2. tnt_STOREV64 (init_shadow_memory (\<lambda>_. True)) 0x1000 7 True = Some s1 \<and>
     tnt_STOREVn_slow (init_shadow_memory (\<lambda>_. True)) 0x1000 64 7 True = Some s2 \<and> vbyte s1 = vbyte s2"
  using fast_paths_agree [OF init_store_ok, of "0x1000" 7 True] init_room [of 8] by simp

text \<open>C14: What a store helper writes, the load helper of the same size and byte order reads back,
  whatever the alignment and whichever paths the two take.\<close>

theorem store_load_roundtrip:
  assumes "store_ok s" "(n, be, f) \<in> set store_helpers" "(n, be, g) \<in> set load_helpers" "pdb_room n s"
  shows "\<exists>s1 v s2. f s a w = Some s1 \<and> g s1 a = Some (v, s2) \<and> take_bit (8 * n) v = take_bit (8 * n) w"
proof -
  have room: "pdb_room (n + 0) s" using assms(4) by simp
  obtain s1 where s1: "f s a w = Some s1" "store_ok s1" "vbyte s1 = stored (vbyte s) a n be w"
    using store_res_Some [OF store_helper_ok [OF assms(1,2) room]] by blast
  obtain v s2 where v: "g s1 a = Some (v, s2)" "loaded (vbyte s1) a n be v"
    using load_helper_ok [OF s1(2) assms(3), of a] by (auto simp: load_ok_def split: option.splits)
  have "\<forall>k < 8 * n. bit v k = bit w k"
    using v(2) loaded_stored [OF load_helper_size [OF assms(3)]] unfolding s1(3) by blast
  then have "take_bit (8 * n) v = take_bit (8 * n) w" by (intro bit_word_eqI) (auto simp: bit_take_bit_iff)
  with s1 v show ?thesis by blast
qed

theorem store_load_roundtrip_witness:
  "\<exists>s1 v s2. helperc_STOREV16be (init_shadow_memory (\<lambda>_. True)) 0x1FFFF 0xBEEF = Some s1 \<and>
     helperc_LOADV16be s1 0x1FFFF = Some (v, s2) \<and> take_bit 16 v = take_bit 16 0xBEEF"
  using store_load_roundtrip [OF init_store_ok, of 2 True helperc_STOREV16be helperc_LOADV16be "0x1FFFF" "0xBEEF"]
    init_room [of 2] by (simp add: store_helpers_def load_helpers_def)

text \<open>C15: The 128-bit and 256-bit loads return, element by element, the 64-bit loads at
  \<open>a\<close>, \<open>a + 8\<close>, ... in the byte order asked for, and change no shadow byte.\<close>

theorem vector_load_bytewise:
  assumes "store_ok s" "n = 2 \<or> n = 4" "n \<le> length res"
  shows "\<exists>res' s'. tnt_LOADV_128_or_256 s res a (64 * n) be = Some (res', s') \<and> store_ok s' \<and> vbyte s' = vbyte s \<and>
    (\<forall>i < n. loaded (vbyte s) (a + 8 * of_nat i) 8 be (res' ! i))"
  using LOADV_vec_ok [OF assms, of a be]
  by (auto simp: vec_ok_def vec_loaded_def shadow.same_store_def split: option.splits)

theorem vector_load_bytewise_witness:
  "\<exists>res s'. helperc_LOADV256le (init_shadow_memory (\<lambda>_. True)) 0x1008 = Some (res, s')"
  using vector_load_bytewise [OF init_store_ok, of 4 "replicate 4 0" "0x1008" False]
  by (auto simp: helperc_LOADV256le_def)

end
