(* ===== verification/TntRange.thy ===== *)
theory TntRange
  imports TntAccess
begin

text \<open>
  Setting the permissions of address ranges: \<open>set_address_range_perms\<close> and \<open>TNT_(make_mem_*)\<close> of
  \<^verbatim>\<open>taintgrind/tnt_main.c\<close>. A range is split at the secondary maps. Part 1 is the range inside its first map,
  part 2 replaces whole maps by the distinguished one of the wanted state (and frees them), part 3 is the rest, in the last map.
  The loops in one map set single bytes up to an aligned address, then eight bytes (sixteen shadow bits) at a time, then single bytes.

  The \<open>goto part2\<close> of the source is a call of the part; the loops are recursive functions on the length that is left. Messages,
  event counts for profiling and the printing for the option \<^verbatim>\<open>--smt2\<close> are left out. The main lemma is
  \<open>set_address_range_perms_ok\<close>: the call sets the state of the bytes of the range, and changes no other byte.
\<close>

section \<open>Lengths\<close>

lemma len_1: "\<not> len < 1 \<Longrightarrow> unat len = Suc (unat (len - 1))" for len :: u64
proof -
  assume "\<not> len < 1"
  then have le: "1 \<le> len" by (simp only: not_less)
  then have "0 < unat len" by (simp only: word_le_nat_alt) simp
  with unat_sub [OF le] show ?thesis by simp
qed

lemma len_8: "\<not> len < 8 \<Longrightarrow> unat len = 8 + unat (len - 8)" for len :: u64
proof -
  assume "\<not> len < 8"
  then have le: "8 \<le> len" by (simp only: not_less)
  then have "8 \<le> unat len" by (simp only: word_le_nat_alt) simp
  with unat_sub [OF le] show ?thesis by simp
qed

section \<open>Setting permissions over address ranges\<close>

text \<open>\<open>VG_(am_munmap_valgrind)\<close> of a secondary map, which is then no longer allocated.\<close>

definition unmap_sm :: "tnt_mem \<Rightarrow> sm_ptr \<Rightarrow> tnt_mem" where
  "unmap_sm s p = (case p of DSM _ \<Rightarrow> s | SM n \<Rightarrow> s\<lparr>sm_live := (sm_live s)(n := False)\<rparr>)"

text \<open>The loops over one secondary map: a step of one byte up to the next multiple of eight, steps of eight bytes, steps of
  one byte to the end. Each gives the address and the length that are left.\<close>

definition sarp_byte :: "tnt_mem \<Rightarrow> sm_ptr \<Rightarrow> addr \<Rightarrow> u64 \<Rightarrow> tnt_mem option" where
  "sarp_byte s sm a vabits2 = do {
     let sm_off = SM_OFF a;
     w \<leftarrow> read_vabits8 s sm sm_off;
     write_vabits8 s sm sm_off (insert_vabits2_into_vabits8 a (ucast vabits2) w)
   }"

function sarp_align :: "tnt_mem \<Rightarrow> sm_ptr \<Rightarrow> u64 \<Rightarrow> addr \<Rightarrow> u64 \<Rightarrow> (addr \<times> u64 \<times> tnt_mem) option" where
  "sarp_align s sm vabits2 a len =
     (if VG_IS_8_ALIGNED a then Some (a, len, s)
      else if len < 1 then Some (a, len, s)
      else do { s \<leftarrow> sarp_byte s sm a vabits2; sarp_align s sm vabits2 (a + 1) (len - 1) })"
  by pat_completeness auto
termination by (relation "measure (\<lambda>(_, _, _, _, len). unat len)") (simp_all add: len_1)

function sarp_longs :: "tnt_mem \<Rightarrow> sm_ptr \<Rightarrow> u64 \<Rightarrow> addr \<Rightarrow> u64 \<Rightarrow> (addr \<times> u64 \<times> tnt_mem) option" where
  "sarp_longs s sm vabits16 a len =
     (if len < 8 then Some (a, len, s)
      else do { s \<leftarrow> write_vabits16 s sm (SM_OFF_16 a) (ucast vabits16); sarp_longs s sm vabits16 (a + 8) (len - 8) })"
  by pat_completeness auto
termination by (relation "measure (\<lambda>(_, _, _, _, len). unat len)") (simp_all add: len_8)

function sarp_rest :: "tnt_mem \<Rightarrow> sm_ptr \<Rightarrow> u64 \<Rightarrow> addr \<Rightarrow> u64 \<Rightarrow> (addr \<times> u64 \<times> tnt_mem) option" where
  "sarp_rest s sm vabits2 a len =
     (if len < 1 then Some (a, len, s)
      else do { s \<leftarrow> sarp_byte s sm a vabits2; sarp_rest s sm vabits2 (a + 1) (len - 1) })"
  by pat_completeness auto
termination by (relation "measure (\<lambda>(_, _, _, _, len). unat len)") (simp_all add: len_1)

declare sarp_align.simps [simp del] sarp_longs.simps [simp del] sarp_rest.simps [simp del]

text \<open>Part 3: the end of the range, at the start of a secondary map.\<close>

definition sarp_part3 :: "tnt_mem \<Rightarrow> addr \<Rightarrow> u64 \<Rightarrow> u64 \<Rightarrow> sm_ptr \<Rightarrow> tnt_mem option" where
  "sarp_part3 s a lenB vabits16 example_dsm = do {
     assert_that (is_start_of_sm a \<and> lenB < SM_SIZE);
     (sm_ptr, s) \<leftarrow> get_secmap_ptr s a;
     sm \<leftarrow> sm_load s sm_ptr;
     if is_distinguished_sm sm \<and> sm = example_dsm then Some s
     else do {
       (sm, s) \<leftarrow> (if is_distinguished_sm sm then do {
           (sm, s) \<leftarrow> copy_for_writing s sm; s \<leftarrow> sm_store s sm_ptr sm; Some (sm, s) } else Some (sm, s));
       (a, lenB, s) \<leftarrow> sarp_longs s sm vabits16 a lenB;
       (a, lenB, s) \<leftarrow> sarp_rest s sm (vabits16 AND 3) a lenB;
       Some s
     }
   }"

text \<open>Part 2: whole secondary maps, each replaced by the distinguished one.\<close>

function sarp_maps :: "tnt_mem \<Rightarrow> addr \<Rightarrow> u64 \<Rightarrow> sm_ptr \<Rightarrow> (addr \<times> u64 \<times> tnt_mem) option" where
  "sarp_maps s a lenB example_dsm =
     (if lenB < SM_SIZE then Some (a, lenB, s)
      else do {
        assert_that (is_start_of_sm a);
        (sm_ptr, s) \<leftarrow> get_secmap_ptr s a;
        sm \<leftarrow> sm_load s sm_ptr;
        let s = (if \<not> is_distinguished_sm sm then unmap_sm s sm else s);
        let s = s\<lparr>sm_stats := update_SM_counts sm example_dsm (sm_stats s)\<rparr>;
        s \<leftarrow> sm_store s sm_ptr example_dsm;
        sarp_maps s (a + SM_SIZE) (lenB - SM_SIZE) example_dsm
      })"
  by pat_completeness auto
termination
  by (relation "measure (\<lambda>(_, _, len, _). unat len)")
    (auto simp: unat_sub word_le_nat_alt word_less_nat_alt not_less SM_SIZE_def)

declare sarp_maps.simps [simp del]

definition sarp_part2 :: "tnt_mem \<Rightarrow> addr \<Rightarrow> u64 \<Rightarrow> u64 \<Rightarrow> u64 \<Rightarrow> sm_ptr \<Rightarrow> tnt_mem option" where
  "sarp_part2 s a lenA lenB vabits16 example_dsm = do {
     assert_that (lenA = 0);
     (a, lenB, s) \<leftarrow> sarp_maps s a lenB example_dsm;
     if lenB = 0 then Some s else sarp_part3 s a lenB vabits16 example_dsm
   }"

text \<open>Part 1: the range inside the first secondary map. It is skipped when the map is the wanted distinguished one.\<close>

definition sarp_part1 :: "tnt_mem \<Rightarrow> addr \<Rightarrow> u64 \<Rightarrow> u64 \<Rightarrow> u64 \<Rightarrow> sm_ptr \<Rightarrow> tnt_mem option" where
  "sarp_part1 s a lenA lenB vabits16 example_dsm = do {
     let aNext = start_of_this_sm a + SM_SIZE;
     (sm_ptr, s) \<leftarrow> get_secmap_ptr s a;
     sm \<leftarrow> sm_load s sm_ptr;
     (a, lenA, sm, s) \<leftarrow> (if is_distinguished_sm sm then
         (if sm = example_dsm then Some (aNext, 0, sm, s)
          else do { (sm, s) \<leftarrow> copy_for_writing s sm; s \<leftarrow> sm_store s sm_ptr sm; Some (a, lenA, sm, s) })
       else Some (a, lenA, sm, s));
     (a, lenA, s) \<leftarrow> sarp_align s sm (vabits16 AND 3) a lenA;
     (a, lenA, s) \<leftarrow> sarp_longs s sm vabits16 a lenA;
     (a, lenA, s) \<leftarrow> sarp_rest s sm (vabits16 AND 3) a lenA;
     if lenB = 0 then Some s else sarp_part2 s a lenA lenB vabits16 example_dsm
   }"

definition set_address_range_perms :: "tnt_mem \<Rightarrow> addr \<Rightarrow> u64 \<Rightarrow> u64 \<Rightarrow> nat \<Rightarrow> tnt_mem option" where
  "set_address_range_perms s a lenT vabits16 dsm_num = do {
     let vabits2 = vabits16 AND 3;
     assert_that (ucast VA_BITS16_NOACCESS = vabits16 \<or> ucast VA_BITS16_TAINTED = vabits16 \<or> ucast VA_BITS16_UNTAINTED = vabits16);
     assert_that (ucast VA_BITS2_PARTUNTAINTED \<noteq> vabits2);
     if lenT = 0 then Some s
     else do {
       let example_dsm = DSM dsm_num;
       let len_to_next_secmap = start_of_this_sm a + SM_SIZE - a;
       if lenT \<le> len_to_next_secmap then sarp_part1 s a lenT 0 vabits16 example_dsm
       else if is_start_of_sm a then sarp_part2 s a 0 lenT vabits16 example_dsm
       else sarp_part1 s a len_to_next_secmap (lenT - len_to_next_secmap) vabits16 example_dsm
     }
   }"

definition make_mem_noaccess :: "tnt_mem \<Rightarrow> addr \<Rightarrow> u64 \<Rightarrow> tnt_mem option" where
  "make_mem_noaccess s a len = set_address_range_perms s a len (ucast VA_BITS16_NOACCESS) SM_DIST_NOACCESS"

definition make_mem_tainted :: "tnt_mem \<Rightarrow> addr \<Rightarrow> u64 \<Rightarrow> tnt_mem option" where
  "make_mem_tainted s a len = set_address_range_perms s a len (ucast VA_BITS16_TAINTED) SM_DIST_TAINTED"

definition make_mem_untainted :: "tnt_mem \<Rightarrow> addr \<Rightarrow> u64 \<Rightarrow> tnt_mem option" where
  "make_mem_untainted s a len = set_address_range_perms s a len (ucast VA_BITS16_UNTAINTED) SM_DIST_UNTAINTED"

section \<open>Ranges of addresses\<close>

definition addrs :: "addr \<Rightarrow> nat \<Rightarrow> addr set" where
  "addrs a n = (\<lambda>i. a + of_nat i) ` {..<n}"

lemma addrs_iff: "b \<in> addrs a n \<longleftrightarrow> (\<exists>i < n. b = a + of_nat i)"
  by (auto simp: addrs_def)

lemma addrs_0 [simp]: "addrs a 0 = {}"
  by (simp add: addrs_def)

lemma addrs_1 [simp]: "addrs a (Suc 0) = {a}"
  by (simp add: addrs_def lessThan_Suc)

lemma addrs_add: "addrs a (m + n) = addrs a m \<union> addrs (a + of_nat m) n"
proof -
  have "{..<m + n} = {..<m} \<union> (\<lambda>i. m + i) ` {..<n}"
    by (simp only: lessThan_atLeast0 image_add_atLeastLessThan ivl_disj_un_two(3)) (auto simp: ivl_disj_un_two)
  then show ?thesis by (simp add: addrs_def image_Un image_image add.assoc)
qed

lemma addrs_split: "k \<le> n \<Longrightarrow> addrs a n = addrs a k \<union> addrs (a + of_nat k) (n - k)"
  using addrs_add [of a k "n - k"] by simp

section \<open>Writing one state to a set of bytes\<close>

definition set_to :: "tnt_mem \<Rightarrow> addr set \<Rightarrow> u8 \<Rightarrow> tnt_mem \<Rightarrow> bool" where
  "set_to s A v s' \<longleftrightarrow> maps_ok s' \<and> sec_eq s s' \<and> vab2 s' = (\<lambda>b. if b \<in> A then v else vab2 s b)"

lemma set_to_refl: "maps_ok s \<Longrightarrow> set_to s {} v s"
  by (simp add: set_to_def)

lemma set_to_trans: "set_to s A v s1 \<Longrightarrow> set_to s1 B v s2 \<Longrightarrow> set_to s (A \<union> B) v s2"
  unfolding set_to_def by (auto intro: sec_eq_trans)

lemma view_eq_set_to: "view_eq s s1 \<Longrightarrow> set_to s1 A v s2 \<Longrightarrow> set_to s A v s2"
  using view_eq_vab [of s s1] view_eq_sec [of s s1] unfolding set_to_def by (auto intro: sec_eq_trans)

text \<open>Inside a secondary map of its own.\<close>

definition fills :: "tnt_mem \<Rightarrow> addr set \<Rightarrow> u8 \<Rightarrow> tnt_mem \<Rightarrow> bool" where
  "fills s A v s' \<longleftrightarrow> set_to s A v s' \<and> secmap_of s' = secmap_of s"

lemma fills_refl: "maps_ok s \<Longrightarrow> fills s {} v s"
  by (simp add: fills_def set_to_refl)

lemma fills_trans: "fills s A v s1 \<Longrightarrow> fills s1 B v s2 \<Longrightarrow> fills s (A \<union> B) v s2"
  by (auto simp: fills_def intro: set_to_trans)

definition owns :: "tnt_mem \<Rightarrow> nat \<Rightarrow> addr set \<Rightarrow> bool" where
  "owns s n A \<longleftrightarrow> (\<forall>b \<in> A. secmap_of s b = SM n)"

lemma owns_fills: "fills s A v s' \<Longrightarrow> owns s' n B = owns s n B"
  by (simp add: owns_def fills_def)

lemma owns_subset: "owns s n B \<Longrightarrow> A \<subseteq> B \<Longrightarrow> owns s n A"
  by (auto simp: owns_def)

lemma fills_maps: "fills s A v s' \<Longrightarrow> maps_ok s'"
  by (simp add: fills_def set_to_def)

text \<open>The states that ranges are set to.\<close>

definition range_state :: "u64 \<Rightarrow> u8 \<Rightarrow> bool" where
  "range_state vabits16 v \<longleftrightarrow> (vabits16, v) \<in> {(0, 0), (0x5555, 1), (0xAAAA, 2)}"

lemma range_state_cases:
  assumes "range_state vabits16 v"
  obtains "vabits16 = 0" "v = 0" | "vabits16 = 0x5555" "v = 1" | "vabits16 = 0xAAAA" "v = 2"
  using assms by (auto simp: range_state_def)

lemma const_bytes:
  "u16_lo 0 = 0" "u16_hi 0 = 0" "u16_lo 0x5555 = 0x55" "u16_hi 0x5555 = 0x55" "u16_lo 0xAAAA = 0xAA" "u16_hi 0xAAAA = 0xAA"
  by (simp_all add: u16_lo_def u16_hi_def drop_bit_eq_div)

lemma range_state_bytes:
  assumes "range_state w v"
  shows "extract_vabits2_from_vabits8 b (u16_lo (ucast w)) = v" "extract_vabits2_from_vabits8 b (u16_hi (ucast w)) = v"
proof -
  have "(ucast w :: u16) = 0 \<and> v = 0 \<or> (ucast w :: u16) = 0x5555 \<and> v = 1 \<or> (ucast w :: u16) = 0xAAAA \<and> v = 2"
    using assms by (auto simp: range_state_def)
  then show "extract_vabits2_from_vabits8 b (u16_lo (ucast w)) = v" "extract_vabits2_from_vabits8 b (u16_hi (ucast w)) = v"
    by (elim disjE conjE; simp only: const_bytes extract_constant)+
qed

lemma sarp_byte_ok:
  assumes ok: "maps_ok s" and own: "secmap_of s a = SM n" and v: "ucast w = v" "v < 4"
  shows "\<exists>s'. sarp_byte s (SM n) a w = Some s' \<and> fills s {a} v s'"
proof -
  let ?w = "insert_vabits2_into_vabits8 a v (vab8 s a)"
  obtain s' where s': "write_vabits8 s (SM n) (SM_OFF a) ?w = Some s'" "maps_ok s'" "sec_eq s s'" "secmap_of s' = secmap_of s"
    "vab8 s' = (\<lambda>b. if page_of b = page_of a \<and> SM_OFF b = SM_OFF a then ?w else vab8 s b)"
    using write_vabits8_ok [OF ok own, of ?w] by (elim exE conjE) (rule that)
  have rd: "read_vabits8 s (SM n) (SM_OFF a) = Some (vab8 s a)" using read_vabits8_ok [OF ok, of a] own by simp
  have "vab2 s' b = (if b \<in> {a} then v else vab2 s b)" for b
  proof (cases "page_of b = page_of a \<and> SM_OFF b = SM_OFF a")
    case True
    then have "vab8 s b = vab8 s a" using secmap_of_page [of b a s] by (simp add: vab8_def)
    with True address_eq [of b a] show ?thesis by (auto simp: vab2_def s'(5) extract_insert_vabits2 [OF v(2)])
  next
    case False
    then have "b \<noteq> a" by auto
    with False show ?thesis by (simp only: vab2_def s'(5) if_False) simp
  qed
  then have "vab2 s' = (\<lambda>b. if b \<in> {a} then v else vab2 s b)" by (rule ext)
  with s' rd v(1) show ?thesis by (simp add: sarp_byte_def fills_def set_to_def)
qed

lemma write_chunk_fills:
  assumes ok: "maps_ok s" and own: "secmap_of s a = SM n" and al: "a AND 3 = 0"
    and w: "\<And>b. extract_vabits2_from_vabits8 b w = v"
  shows "\<exists>s'. write_vabits8 s (SM n) (SM_OFF a) w = Some s' \<and> fills s (addrs a 4) v s'"
proof -
  obtain s' where s': "write_vabits8 s (SM n) (SM_OFF a) w = Some s'" "maps_ok s'" "sec_eq s s'" "secmap_of s' = secmap_of s"
    "vab8 s' = (\<lambda>b. if page_of b = page_of a \<and> SM_OFF b = SM_OFF a then w else vab8 s b)"
    using write_vabits8_ok [OF ok own, of w] by (elim exE conjE) (rule that)
  have "vab2 s' = (\<lambda>b. if b \<in> addrs a 4 then v else vab2 s b)"
    unfolding addrs_iff word_bytes_iff [OF al, symmetric] by (auto simp: fun_eq_iff vab2_def s'(5) w)
  with s' show ?thesis by (simp add: fills_def set_to_def)
qed

lemma write_long_fills:
  assumes ok: "maps_ok s" and own: "owns s n (addrs a 8)" and al: "VG_IS_8_ALIGNED a" and v: "range_state w v"
  shows "\<exists>s'. write_vabits16 s (SM n) (SM_OFF_16 a) (ucast w) = Some s' \<and> fills s (addrs a 8) v s'"
proof -
  have al: "a AND 7 = 0" using al by (simp add: VG_IS_8_ALIGNED_def)
  note lb = long_bytes [OF al]
  note bytes = range_state_bytes [OF v]
  have "addrs a 8 = addrs a 4 \<union> addrs (a + 4) 4" using addrs_add [of a 4 4] by simp
  moreover have "a \<in> addrs a 4" "a + 4 \<in> addrs (a + 4) 4" unfolding addrs_iff by (intro exI [of _ 0]; simp)+
  ultimately have o: "secmap_of s a = SM n" "secmap_of s (a + 4) = SM n" using own by (auto simp: owns_def)
  obtain s1 where s1: "write_vabits8 s (SM n) (SM_OFF a) (u16_lo (ucast w)) = Some s1" "fills s (addrs a 4) v s1"
    using write_chunk_fills [OF ok o(1) lb(1) bytes(1)] by blast
  have "secmap_of s1 (a + 4) = SM n" using o(2) s1(2) by (simp add: fills_def)
  from write_chunk_fills [OF fills_maps [OF s1(2)] this lb(2) bytes(2)] obtain s2 where
    s2: "write_vabits8 s1 (SM n) (SM_OFF (a + 4)) (u16_hi (ucast w)) = Some s2" "fills s1 (addrs (a + 4) 4) v s2" by blast
  have "write_vabits16 s (SM n) (SM_OFF_16 a) (ucast w) = Some s2"
    using s1(1) s2(1) lb(4,5) by (simp add: write_vabits16_def)
  with fills_trans [OF s1(2) s2(2)] addrs_add [of a 4 4] show ?thesis by simp
qed

section \<open>The loops over one secondary map\<close>

lemma range_state_low:
  assumes "range_state w v"
  shows "ucast (w AND 3) = v" "v < 4" "v \<noteq> 3"
  using assms by (cases rule: range_state_cases; simp)+

text \<open>What a loop leaves to do, and what it did.\<close>

definition progress :: "tnt_mem \<Rightarrow> addr \<Rightarrow> u64 \<Rightarrow> u8 \<Rightarrow> (addr \<times> u64 \<times> tnt_mem) option \<Rightarrow> bool" where
  "progress s a len v r \<longleftrightarrow> (\<exists>k a' len' s'. r = Some (a', len', s') \<and> a' = a + of_nat k \<and> unat len = k + unat len' \<and> fills s (addrs a k) v s')"

lemma progress_stop: "maps_ok s \<Longrightarrow> progress s a len v (Some (a, len, s))"
  unfolding progress_def by (rule exI [of _ 0]) (simp add: fills_refl)

lemma progress_step:
  assumes "fills s (addrs a k) v s1" "unat len = k + unat len1" "progress s1 (a + of_nat k) len1 v r"
  shows "progress s a len v r"
proof -
  obtain j len' s' where r: "r = Some (a + of_nat k + of_nat j, len', s')" "unat len1 = j + unat len'"
    "fills s1 (addrs (a + of_nat k) j) v s'" using assms(3) by (auto simp: progress_def)
  from fills_trans [OF assms(1) r(3)] have "fills s (addrs a (k + j)) v s'" by (simp add: addrs_add)
  with r assms(2) show ?thesis unfolding progress_def by (intro exI [of _ "k + j"] exI) (simp add: add.assoc)
qed

lemma owns_rest:
  assumes "owns s n (addrs a (unat len))" "unat len = k + unat len1" "fills s A v s1"
  shows "owns s1 n (addrs (a + of_nat k) (unat len1))"
  using assms owns_subset [of s n "addrs a (unat len)" "addrs (a + of_nat k) (unat len1)"]
  by (simp add: owns_fills [OF assms(3)] addrs_add)

lemma owns_first: "owns s n (addrs a (unat len)) \<Longrightarrow> unat len = Suc j \<Longrightarrow> secmap_of s a = SM n"
proof -
  assume o: "owns s n (addrs a (unat len))" and "unat len = Suc j"
  then have "a \<in> addrs a (unat len)" unfolding addrs_iff by (intro exI [of _ 0]) simp
  with o show ?thesis by (simp add: owns_def)
qed

lemma len_sum: "unat len = k + unat len1 \<Longrightarrow> len = of_nat k + len1" for len :: u64
proof -
  assume eq: "unat len = k + unat len1"
  have "len = of_nat (unat len)" by simp
  also have "\<dots> = of_nat k + len1" unfolding eq by simp
  finally show ?thesis .
qed

lemma sarp_align_ok:
  assumes "maps_ok s" "owns s n (addrs a (unat len))" "ucast w = v" "v < 4"
  shows "progress s a len v (sarp_align s (SM n) w a len) \<and>
    (\<forall>a' len' s'. sarp_align s (SM n) w a len = Some (a', len', s') \<longrightarrow> VG_IS_8_ALIGNED a' \<or> len' < 1)"
  using assms
proof (induction s "SM n" w a len rule: sarp_align.induct)
  case (1 s w a len)
  show ?case
  proof (cases "VG_IS_8_ALIGNED a \<or> len < 1")
    case True
    then have "sarp_align s (SM n) w a len = Some (a, len, s)" by (subst sarp_align.simps) auto
    with True progress_stop [OF "1.prems"(1)] show ?thesis by simp
  next
    case False
    then have len: "unat len = 1 + unat (len - 1)" using len_1 [of len] by simp
    obtain s1 where s1: "sarp_byte s (SM n) a w = Some s1" "fills s {a} v s1"
      using sarp_byte_ok [OF "1.prems"(1) owns_first [OF "1.prems"(2)] "1.prems"(3,4)] len by auto
    then have step: "sarp_align s (SM n) w a len = sarp_align s1 (SM n) w (a + 1) (len - 1)"
      using False by (subst sarp_align.simps) auto
    have f1: "fills s (addrs a 1) v s1" using s1(2) by simp
    have "owns s1 n (addrs (a + 1) (unat (len - 1)))" using owns_rest [OF "1.prems"(2) len f1] by simp
    with "1.hyps" [OF _ _ s1(1)] False fills_maps [OF f1] "1.prems"(3,4) progress_step [OF f1 len] show ?thesis
      unfolding step by simp
  qed
qed

lemma sarp_rest_ok:
  assumes "maps_ok s" "owns s n (addrs a (unat len))" "ucast w = v" "v < 4"
  shows "\<exists>s'. sarp_rest s (SM n) w a len = Some (a + len, 0, s') \<and> fills s (addrs a (unat len)) v s'"
  using assms
proof (induction s "SM n" w a len rule: sarp_rest.induct)
  case (1 s w a len)
  show ?case
  proof (cases "len < 1")
    case True
    then have "len = 0" by (simp add: word_less_nat_alt word_unat_eq_iff)
    then show ?thesis using fills_refl [OF "1.prems"(1)] by (subst sarp_rest.simps) simp
  next
    case False
    then have len: "unat len = 1 + unat (len - 1)" using len_1 [of len] by simp
    obtain s1 where s1: "sarp_byte s (SM n) a w = Some s1" "fills s {a} v s1"
      using sarp_byte_ok [OF "1.prems"(1) owns_first [OF "1.prems"(2)] "1.prems"(3,4)] len by auto
    have f1: "fills s (addrs a 1) v s1" using s1(2) by simp
    have "owns s1 n (addrs (a + 1) (unat (len - 1)))" using owns_rest [OF "1.prems"(2) len f1] by simp
    from "1.hyps" [OF False s1(1) fills_maps [OF f1] this "1.prems"(3,4)] obtain s' where
      s': "sarp_rest s1 (SM n) w (a + 1) (len - 1) = Some (a + 1 + (len - 1), 0, s')"
      "fills s1 (addrs (a + 1) (unat (len - 1))) v s'" by blast
    have "addrs a (unat len) = addrs a 1 \<union> addrs (a + 1) (unat (len - 1))"
      unfolding len addrs_add by simp
    with fills_trans [OF f1 s'(2)] s'(1) s1(1) False show ?thesis
      by (subst sarp_rest.simps) simp
  qed
qed

lemma aligned_8_add: "VG_IS_8_ALIGNED a \<Longrightarrow> VG_IS_8_ALIGNED (a + 8)"
proof -
  assume "VG_IS_8_ALIGNED a"
  then have "unat a mod 8 = 0" by (simp add: VG_IS_8_ALIGNED_def aligned_mod)
  then have "(unat a + 8) mod 2 ^ 64 mod 8 = (0 :: nat)" by (subst mod_mod_cancel) auto
  then have "unat (a + 8) mod 8 = 0" by (simp add: unat_word_ariths)
  then show ?thesis by (simp add: VG_IS_8_ALIGNED_def aligned_mod)
qed

lemma sarp_longs_ok:
  assumes "maps_ok s" "owns s n (addrs a (unat len))" "range_state w v" "VG_IS_8_ALIGNED a \<or> len < 1"
  shows "progress s a len v (sarp_longs s (SM n) w a len)"
  using assms
proof (induction s "SM n" w a len rule: sarp_longs.induct)
  case (1 s w a len)
  show ?case
  proof (cases "len < 8")
    case True
    then show ?thesis using progress_stop [OF "1.prems"(1)] by (subst sarp_longs.simps) simp
  next
    case False
    note len = len_8 [OF False]
    have al: "VG_IS_8_ALIGNED a" using "1.prems"(4) len by (auto simp: word_less_nat_alt)
    have "owns s n (addrs a 8)" using "1.prems"(2) unfolding len addrs_add by (auto intro: owns_subset)
    then obtain s1 where s1: "write_vabits16 s (SM n) (SM_OFF_16 a) (ucast w) = Some s1" "fills s (addrs a 8) v s1"
      using write_long_fills [OF "1.prems"(1) _ al "1.prems"(3)] by blast
    have "owns s1 n (addrs (a + 8) (unat (len - 8)))" using owns_rest [OF "1.prems"(2) len s1(2)] by simp
    from "1.hyps" [OF False s1(1) fills_maps [OF s1(2)] this "1.prems"(3)] aligned_8_add [OF al]
    have "progress s1 (a + of_nat 8) (len - 8) v (sarp_longs s1 (SM n) w (a + 8) (len - 8))" by simp
    from progress_step [OF s1(2) len this] False s1(1) show ?thesis by (subst sarp_longs.simps) simp
  qed
qed

text \<open>The three loops together.\<close>

lemma sarp_tail_ok:
  assumes ok: "maps_ok s" and own: "owns s n (addrs a (unat len))" and w: "range_state w v" and al: "VG_IS_8_ALIGNED a \<or> len < 1"
  shows "\<exists>a' len' s'. sarp_longs s (SM n) w a len = Some (a', len', s') \<and>
    (\<exists>s2. sarp_rest s' (SM n) (w AND 3) a' len' = Some (a + len, 0, s2) \<and> fills s (addrs a (unat len)) v s2)"
proof -
  from sarp_longs_ok [OF assms] obtain k len' s' where
    s': "sarp_longs s (SM n) w a len = Some (a + of_nat k, len', s')" "unat len = k + unat len'" "fills s (addrs a k) v s'"
    by (auto simp: progress_def)
  from sarp_rest_ok [OF fills_maps [OF s'(3)] owns_rest [OF own s'(2,3)] range_state_low(1,2) [OF w]] obtain s2 where
    s2: "sarp_rest s' (SM n) (w AND 3) (a + of_nat k) len' = Some (a + of_nat k + len', 0, s2)"
      "fills s' (addrs (a + of_nat k) (unat len')) v s2" by blast
  have "len = of_nat k + len'" by (rule len_sum [OF s'(2)])
  moreover have "fills s (addrs a (unat len)) v s2" using fills_trans [OF s'(3) s2(2)] s'(2) by (simp add: addrs_add)
  ultimately show ?thesis using s'(1) s2(1) by (auto simp: add.assoc)
qed

lemma sarp_three_ok:
  assumes ok: "maps_ok s" and own: "owns s n (addrs a (unat len))" and w: "range_state w v"
  shows "\<exists>s2. do { (a, len, s) \<leftarrow> sarp_align s (SM n) (w AND 3) a len; (a, len, s) \<leftarrow> sarp_longs s (SM n) w a len;
      sarp_rest s (SM n) (w AND 3) a len } = Some (a + len, 0, s2) \<and> fills s (addrs a (unat len)) v s2"
proof -
  from sarp_align_ok [OF ok own range_state_low(1,2) [OF w]] obtain k len1 s1 where
    s1: "sarp_align s (SM n) (w AND 3) a len = Some (a + of_nat k, len1, s1)" "unat len = k + unat len1" "fills s (addrs a k) v s1"
      "VG_IS_8_ALIGNED (a + of_nat k) \<or> len1 < 1"
    by (auto simp: progress_def)
  from sarp_tail_ok [OF fills_maps [OF s1(3)] owns_rest [OF own s1(2,3)] w s1(4)] obtain a' len' s' s2 where
    s2: "sarp_longs s1 (SM n) w (a + of_nat k) len1 = Some (a', len', s')"
      "sarp_rest s' (SM n) (w AND 3) a' len' = Some (a + of_nat k + len1, 0, s2)"
      "fills s1 (addrs (a + of_nat k) (unat len1)) v s2" by blast
  have "len = of_nat k + len1" by (rule len_sum [OF s1(2)])
  moreover have "fills s (addrs a (unat len)) v s2" using fills_trans [OF s1(3) s2(3)] s1(2) by (simp add: addrs_add)
  ultimately show ?thesis using s1(1) s2(1,2) by (simp add: add.assoc)
qed

section \<open>Secondary maps as ranges\<close>

lemma page_split: "a = page_of a + (a AND 0xFFFF)"
proof -
  have "page_of a AND (a AND 0xFFFF) = 0"
    unfolding mask_64_numerals by (rule bit_word_eqI) (auto simp: page_bit bit_simps)
  then have "page_of a + (a AND 0xFFFF) = page_of a OR (a AND 0xFFFF)" by (rule disjunctive_add_eq_or)
  also have "\<dots> = a" unfolding mask_64_numerals by (rule bit_word_eqI) (auto simp: page_bit bit_simps)
  finally show ?thesis by simp
qed

lemma start_page: "is_start_of_sm a \<longleftrightarrow> page_of a = a"
  by (simp add: is_start_of_sm_def start_of_this_sm_page)

lemma offset_less: "unat (a AND 0xFFFF) < 65536" for a :: addr
  by (simp add: unat_and_low)

lemma to_next: "unat (start_of_this_sm a + SM_SIZE - a) = 65536 - unat (a AND 0xFFFF)"
proof -
  have "start_of_this_sm a + SM_SIZE - a = SM_SIZE - (a AND 0xFFFF)"
    using page_split [of a] unfolding start_of_this_sm_page by (metis add_diff_cancel_left)
  moreover have le: "a AND 0xFFFF \<le> SM_SIZE"
    unfolding SM_SIZE_def word_le_nat_alt using offset_less [of a] by simp
  ultimately have "unat (start_of_this_sm a + SM_SIZE - a) = unat SM_SIZE - unat (a AND 0xFFFF)"
    by (simp only: unat_sub [OF le])
  then show ?thesis by (simp add: SM_SIZE_def)
qed

lemma in_page:
  assumes "unat (a AND 0xFFFF) + i < 65536"
  shows "page_of (a + of_nat i) = page_of a"
proof -
  have m: "unat a mod 65536 + i < 65536" using assms by (simp add: unat_and_low)
  have d: "unat a = 65536 * (unat a div 65536) + unat a mod 65536" by simp
  have "unat a div 65536 < 2 ^ 48" using unsigned_less [of a] by (simp add: div_less_iff_less_mult)
  then have "unat a div 65536 \<le> 281474976710655" by simp
  with m d have "unat a + i < 18446744073709551616" by linarith
  then have less: "unat a + i < 2 ^ 64" by simp
  then have i: "unat (of_nat i :: addr) = i" by (simp add: unat_of_nat take_bit_nat_eq_self)
  have "unat (a + of_nat i) = unat a + i" using less by (simp add: unat_word_ariths i)
  moreover have "(unat a + i) div 65536 = unat a div 65536"
  proof -
    have "unat a + i = (unat a mod 65536 + i) + 65536 * (unat a div 65536)" by simp
    then have "(unat a + i) div 65536 = unat a div 65536 + (unat a mod 65536 + i) div 65536" by (simp only: div_mult_self2)
    with m show ?thesis by simp
  qed
  ultimately have "unat (drop_bit 16 (a + of_nat i)) = unat (drop_bit 16 a)" by (simp add: unat_drop_bit)
  then have "drop_bit 16 (a + of_nat i) = drop_bit 16 a" by (simp only: word_unat_eq_iff)
  then show ?thesis by (simp only: drop_16_eq_page)
qed

lemma addrs_page: "unat (a AND 0xFFFF) + n \<le> 65536 \<Longrightarrow> b \<in> addrs a n \<Longrightarrow> page_of b = page_of a"
  using in_page by (auto simp: addrs_iff)

lemma page_addrs: "is_start_of_sm a \<Longrightarrow> addrs a 65536 = {b. page_of b = page_of a}"
proof (intro equalityI subsetI)
  fix b assume a: "is_start_of_sm a" and "b \<in> addrs a 65536"
  moreover have "a AND 0xFFFF = 0" using a start_page [of a] by (metis page_of_aligned)
  ultimately show "b \<in> {b. page_of b = page_of a}" using addrs_page [of a 65536 b] by simp
next
  fix b assume a: "is_start_of_sm a" and "b \<in> {b. page_of b = page_of a}"
  then have "b = a + of_nat (unat (b AND 0xFFFF))" using page_split [of b] by (simp add: start_page)
  then show "b \<in> addrs a 65536" unfolding addrs_iff using offset_less [of b] by blast
qed

lemma next_start: "is_start_of_sm a \<Longrightarrow> is_start_of_sm (a + SM_SIZE)"
proof -
  assume a: "is_start_of_sm a"
  then have "a = push_bit 16 (drop_bit 16 a)" by (metis page_of_drop start_page)
  then have "a + SM_SIZE = push_bit 16 (drop_bit 16 a) + push_bit 16 1" by (simp add: SM_SIZE_def)
  also have "\<dots> = push_bit 16 (drop_bit 16 a + 1)" by (simp only: push_bit_add)
  finally have "a + SM_SIZE = push_bit 16 (drop_bit 16 a + 1)" .
  moreover have "page_of (push_bit 16 x) = push_bit 16 x" for x by (rule bit_word_eqI) (auto simp: page_bit bit_simps)
  ultimately show ?thesis by (simp add: start_page)
qed

lemma start_aligned: "is_start_of_sm a \<Longrightarrow> VG_IS_8_ALIGNED a"
proof -
  assume "is_start_of_sm a"
  then have "page_of a = a" by (simp add: start_page)
  then have "\<not> bit a n" if "n < 16" for n using page_bit [of a n] that by simp
  then have "a AND 7 = 0" unfolding mask_64_numerals by (intro bit_word_eqI) (auto simp: bit_simps)
  then show ?thesis by (simp add: VG_IS_8_ALIGNED_def)
qed

text \<open>The distinguished map of a state.\<close>

lemma dsm_state:
  assumes ok: "maps_ok s" and w: "range_state w v" and sm: "secmap_of s a = DSM (unat v)" and b: "page_of b = page_of a"
  shows "vab2 s b = v"
proof -
  have "secmap_of s b = DSM (unat v)" using secmap_of_page [OF b] sm by simp
  moreover have "unat v \<le> 2" using w by (cases rule: range_state_cases) simp_all
  ultimately have "vab8 s b = sm_distinguished (unat v) (SM_OFF b)" using ok by (simp add: vab8_def maps_ok_def sm_ok_def)
  with w show ?thesis
    by (cases rule: range_state_cases) (simp_all add: vab2_def sm_distinguished_def shadow_simps extract_constant)
qed

text \<open>A secondary map is made writable.\<close>

definition writable :: "tnt_mem \<Rightarrow> sm_ptr \<Rightarrow> sm_loc \<Rightarrow> (sm_ptr \<times> tnt_mem) option" where
  "writable s sm l = (if is_distinguished_sm sm then do { (sm, s) \<leftarrow> copy_for_writing s sm; s \<leftarrow> sm_store s l sm; Some (sm, s) }
     else Some (sm, s))"

lemma writable_ok:
  assumes ok: "maps_ok s" "alloc_ok s"
  shows "\<exists>l s1 n s2. get_secmap_ptr s a = Some (l, s1) \<and> sm_load s1 l = Some (secmap_of s a) \<and> view_eq s s1 \<and> maps_ok s1 \<and>
    writable s1 (secmap_of s a) l = Some (SM n, s2) \<and> set_to s {} v s2 \<and> owns s2 n {b. page_of b = page_of a}"
proof -
  obtain l s1 where s1: "get_secmap_ptr s a = Some (l, s1)" "loc_of s1 a l" "view_eq s s1" "maps_ok s1"
    using secmap_ptr_ok [OF ok(1)] by blast
  have ld: "sm_load s1 l = Some (secmap_of s a)" using sm_load_loc [OF s1(2)] s1(3) by (simp add: view_eq_def)
  obtain n s2 where s2: "get_secmap_for_writing s a = Some (SM n, s2)" "maps_ok s2" "sec_eq s s2" "secmap_of s2 a = SM n" "vab8 s2 = vab8 s"
    using secmap_for_writing_ok [OF ok(1), of a] ok(2) by (auto simp: alloc_ok_def)
  have "writable s1 (secmap_of s a) l = Some (SM n, s2)"
    using s2(1) s1(1) ld by (simp add: get_secmap_for_writing_eq writable_def)
  moreover have "set_to s {} v s2" using s2(2,3,5) by (simp add: set_to_def vab2_def [abs_def])
  moreover have "owns s2 n {b. page_of b = page_of a}" 
    unfolding owns_def
  proof
    fix b assume "b \<in> {b. page_of b = page_of a}"
    then show "secmap_of s2 b = SM n" using secmap_of_page [of b a s2] s2(4) by simp
  qed
  ultimately show ?thesis
    by - (rule exI [of _ l], rule exI [of _ s1], rule exI [of _ n], rule exI [of _ s2], intro conjI s1(1) s1(3) s1(4) ld)
qed

section \<open>Whole secondary maps\<close>

lemma unmap_update [simp]:
  "secmap_of (unmap_sm s p) = secmap_of s" "auxmap_L1 (unmap_sm s p) = auxmap_L1 s" "auxmap_L2 (unmap_sm s p) = auxmap_L2 s"
  "sm_vabits8 (unmap_sm s p) = sm_vabits8 s" "sm_next (unmap_sm s p) = sm_next s"
  "sec_eq s (unmap_sm s p)"
  by (simp_all add: unmap_sm_def sec_eq_def split: sm_ptr.splits)

lemma unmap_live: "sm_live (unmap_sm s p) n = (sm_live s n \<and> p \<noteq> SM n)"
  by (auto simp: unmap_sm_def split: sm_ptr.splits)

definition drop_map :: "tnt_mem \<Rightarrow> sm_ptr \<Rightarrow> sm_ptr \<Rightarrow> tnt_mem" where
  "drop_map s sm p = (let s = (if \<not> is_distinguished_sm sm then unmap_sm s sm else s) in s\<lparr>sm_stats := update_SM_counts sm p (sm_stats s)\<rparr>)"

lemma drop_map_update [simp]:
  "secmap_of (drop_map s sm p) = secmap_of s" "auxmap_L1 (drop_map s sm p) = auxmap_L1 s" "auxmap_L2 (drop_map s sm p) = auxmap_L2 s"
  "sm_vabits8 (drop_map s sm p) = sm_vabits8 s" "sm_next (drop_map s sm p) = sm_next s" "sec_eq s (drop_map s sm p)"
  "sm_live (drop_map s sm p) n = (sm_live s n \<and> sm \<noteq> SM n)"
  by (auto simp: drop_map_def Let_def unmap_live is_distinguished_sm_def sec_eq_def unmap_sm_def split: sm_ptr.splits)

lemma drop_map_aux [simp]: "aux_lookup (drop_map s sm p) = aux_lookup s"
  by (simp add: aux_lookup_def fun_eq_iff)

lemma sarp_map_ok:
  assumes ok: "maps_ok s" and w: "range_state w v"
  shows "\<exists>l s1 s2. get_secmap_ptr s a = Some (l, s1) \<and> sm_load s1 l = Some (secmap_of s a) \<and>
    sm_store (drop_map s1 (secmap_of s a) (DSM (unat v))) l (DSM (unat v)) = Some s2 \<and> set_to s {b. page_of b = page_of a} v s2"
proof -
  obtain l s1 where s1: "get_secmap_ptr s a = Some (l, s1)" "loc_of s1 a l" "view_eq s s1" "maps_ok s1"
    using secmap_ptr_ok [OF ok] by blast
  let ?p = "DSM (unat v)" and ?sm = "secmap_of s a"
  let ?t = "drop_map s1 ?sm ?p"
  have sm1: "secmap_of s1 = secmap_of s" using s1(3) by (simp add: view_eq_def)
  have ld: "sm_load s1 l = Some ?sm" using sm_load_loc [OF s1(2)] sm1 by simp
  have v2: "unat v \<le> 2" using w by (cases rule: range_state_cases) simp_all
  have ok1: "l1_ok s1" "l2_ok s1" "sm_ok s1" using s1(4) by (auto simp: maps_ok_def)
  have t: "loc_of ?t a l" "l1_ok ?t" "l2_ok ?t"
    using s1(2) l1_ok_same [OF ok1(1), of ?t] ok1(2) l2_ok_same [of ?t s1] by (simp_all add: loc_of_def)
  obtain s2 where s2: "sm_store ?t l ?p = Some s2" "l1_ok s2" "l2_ok s2"
      "secmap_of s2 = (\<lambda>b. if page_of b = page_of a then ?p else secmap_of s b)" "sec_eq ?t s2"
      "sm_vabits8 s2 = sm_vabits8 s1" "sm_live s2 = sm_live ?t" "sm_next s2 = sm_next s1"
    using sm_store_loc [OF t, of ?p] unfolding drop_map_update(1,4,5) sm1 by (elim exE conjE) (rule that)
  have "sm_ok s2"
    unfolding sm_ok_def
  proof (intro conjI allI impI)
    fix d i assume "d \<le> (2 :: nat)" "i < SM_CHUNKS"
    then show "sm_vabits8 s2 (DSM d) i = sm_distinguished d i" using ok1(3) s2(6) by (simp add: sm_ok_def)
  next
    fix b
    have "sm_mapped s1 (secmap_of s b)" using ok1(3) sm1 by (simp add: sm_ok_def)
    moreover have "?sm \<noteq> SM n" if "secmap_of s b = SM n" "page_of b \<noteq> page_of a" for n
      using ok1(3) that unfolding sm_ok_def sm1 by blast
    ultimately show "sm_mapped s2 (secmap_of s2 b)"
      using v2 by (auto simp: sm_mapped_def s2(4,7) split: sm_ptr.splits)
  next
    fix n assume "sm_live s2 n"
    then show "n < sm_next s2" using ok1(3) s2(7,8) by (simp add: sm_ok_def)
  next
    fix b c n assume "secmap_of s2 b = SM n \<and> secmap_of s2 c = SM n"
    then have "secmap_of s1 b = SM n" "secmap_of s1 c = SM n" by (simp_all add: s2(4) sm1 split: if_splits)
    then show "page_of b = page_of c" using ok1(3) unfolding sm_ok_def by blast
  qed
  then have mo: "maps_ok s2" using s2(2,3) by (simp add: maps_ok_def)
  have vab: "vab2 s2 b = (if b \<in> {b. page_of b = page_of a} then v else vab2 s b)" for b
  proof (cases "page_of b = page_of a")
    case True
    then show ?thesis using dsm_state [OF mo w, of a b] s2(4) by simp
  next
    case False
    then show ?thesis using s1(3) by (simp add: vab2_def vab8_def s2(4,6) view_eq_def)
  qed
  have "sec_eq s s2" using view_eq_sec [OF s1(3)] s2(5) drop_map_update(6) [of s1] by (blast intro: sec_eq_trans)
  with mo vab have "set_to s {b. page_of b = page_of a} v s2" unfolding set_to_def by (intro conjI ext) simp_all
  with s1(1) ld s2(1) show ?thesis by blast
qed

lemma set_to_maps: "set_to s A v s' \<Longrightarrow> maps_ok s'"
  by (simp add: set_to_def)

lemma len_page: "\<not> len < SM_SIZE \<Longrightarrow> unat len = 65536 + unat (len - SM_SIZE)" for len :: u64
proof -
  assume "\<not> len < SM_SIZE"
  then have le: "SM_SIZE \<le> len" by (simp only: not_less)
  moreover have "unat SM_SIZE = 65536" by (simp add: SM_SIZE_def)
  ultimately show ?thesis using unat_sub [OF le] by (simp add: word_le_nat_alt)
qed

lemma sarp_maps_ok:
  assumes "maps_ok s" "is_start_of_sm a" "range_state w v"
  shows "\<exists>k len' s'. sarp_maps s a len (DSM (unat v)) = Some (a + of_nat k, len', s') \<and> unat len = k + unat len' \<and>
    len' < SM_SIZE \<and> is_start_of_sm (a + of_nat k) \<and> set_to s (addrs a k) v s'"
  using assms
proof (induction "unat len" arbitrary: s a len rule: less_induct)
  case less
  show ?case
  proof (cases "len < SM_SIZE")
    case True
    then show ?thesis using less.prems by (subst sarp_maps.simps) (intro exI [of _ 0] exI [of _ len] exI [of _ s], simp add: set_to_refl)
  next
    case False
    note len = len_page [OF False]
    obtain l s1 s2 where s2: "get_secmap_ptr s a = Some (l, s1)" "sm_load s1 l = Some (secmap_of s a)"
      "sm_store (drop_map s1 (secmap_of s a) (DSM (unat v))) l (DSM (unat v)) = Some s2" "set_to s {b. page_of b = page_of a} v s2"
      using sarp_map_ok [OF less.prems(1,3)] by blast
    have step: "sarp_maps s a len (DSM (unat v)) = sarp_maps s2 (a + SM_SIZE) (len - SM_SIZE) (DSM (unat v))"
      using s2(1-3) False less.prems(2) by (subst sarp_maps.simps) (simp add: assert_that_def Let_def drop_map_def)
    have page: "set_to s (addrs a 65536) v s2" using s2(4) page_addrs [OF less.prems(2)] by simp
    have sz: "SM_SIZE = (of_nat 65536 :: u64)" by (simp add: SM_SIZE_def)
    have "unat (len - SM_SIZE) < unat len" using len by simp
    from less.hyps [OF this set_to_maps [OF page] next_start [OF less.prems(2)] less.prems(3)] obtain k len' s' where
      s': "sarp_maps s2 (a + SM_SIZE) (len - SM_SIZE) (DSM (unat v)) = Some (a + SM_SIZE + of_nat k, len', s')"
      "unat (len - SM_SIZE) = k + unat len'" "len' < SM_SIZE" "is_start_of_sm (a + SM_SIZE + of_nat k)"
      "set_to s2 (addrs (a + SM_SIZE) k) v s'" by blast
    have e: "a + SM_SIZE + of_nat k = a + of_nat (65536 + k)" unfolding sz by (simp add: add.assoc)
    have "set_to s (addrs a (65536 + k)) v s'" using set_to_trans [OF page s'(5)] unfolding addrs_add sz .
    moreover have "unat len = 65536 + k + unat len'" using len s'(2) by simp
    ultimately show ?thesis using s'(1,3,4) unfolding step e by blast
  qed
qed

section \<open>The parts of set_address_range_perms\<close>

lemma set_to_fills: "set_to s {} v s1 \<Longrightarrow> fills s1 A v s2 \<Longrightarrow> set_to s A v s2"
  using set_to_trans [of s "{}" v s1 A s2] by (simp add: fills_def)

lemma set_to_alloc: "set_to s A v s' \<Longrightarrow> alloc_ok s \<Longrightarrow> alloc_ok s'"
  using sec_eq_alloc [of s s'] by (simp add: set_to_def)

lemma set_to_same:
  assumes "maps_ok s'" "sec_eq s s'" "vab2 s' = vab2 s" "\<And>b. b \<in> A \<Longrightarrow> vab2 s b = v"
  shows "set_to s A v s'"
  using assms by (auto simp: set_to_def fun_eq_iff)

lemma page_owns: "owns s n {b. page_of b = page_of a} \<Longrightarrow> unat (a AND 0xFFFF) + m \<le> 65536 \<Longrightarrow> owns s n (addrs a m)"
  using addrs_page [of a m] by (auto simp: owns_def)

lemma range_state_map: "range_state w v \<Longrightarrow> is_distinguished_sm (DSM (unat v))"
  by (erule range_state_cases) (simp_all add: is_distinguished_sm_def)

lemma sarp_part3_ok:
  assumes ok: "maps_ok s" "alloc_ok s" and a: "is_start_of_sm a" "len < SM_SIZE" and w: "range_state w v"
  shows "\<exists>s'. sarp_part3 s a len w (DSM (unat v)) = Some s' \<and> set_to s (addrs a (unat len)) v s'"
proof -
  obtain l s1 n s2 where s1: "get_secmap_ptr s a = Some (l, s1)" "sm_load s1 l = Some (secmap_of s a)" "view_eq s s1" "maps_ok s1"
    and s2: "writable s1 (secmap_of s a) l = Some (SM n, s2)" "set_to s {} v s2" "owns s2 n {b. page_of b = page_of a}"
    using writable_ok [OF ok, of a v] by blast
  have off: "a AND 0xFFFF = 0" using a(1) start_page [of a] by (metis page_of_aligned)
  have "unat len < 65536" using a(2) by (simp add: word_less_nat_alt SM_SIZE_def)
  with off have in_pg: "unat (a AND 0xFFFF) + unat len \<le> 65536" by simp
  show ?thesis
  proof (cases "secmap_of s a = DSM (unat v)")
    case True
    have "vab2 s b = v" if "b \<in> addrs a (unat len)" for b
      using dsm_state [OF ok(1) w True addrs_page [OF in_pg that]] .
    then have "set_to s (addrs a (unat len)) v s1"
      using set_to_same [OF s1(4) view_eq_sec [OF s1(3)]] view_eq_vab [OF s1(3)] by blast
    with True s1(1,2) a show ?thesis by (simp add: sarp_part3_def assert_that_def range_state_map [OF w])
  next
    case False
    have own: "owns s2 n (addrs a (unat len))" by (rule page_owns [OF s2(3) in_pg])
    obtain a' len' s3 s4 where s4: "sarp_longs s2 (SM n) w a len = Some (a', len', s3)"
      "sarp_rest s3 (SM n) (w AND 3) a' len' = Some (a + len, 0, s4)" "fills s2 (addrs a (unat len)) v s4"
      using sarp_tail_ok [OF set_to_maps [OF s2(2)] own w] start_aligned [OF a(1)] by blast
    have "sarp_part3 s a len w (DSM (unat v)) = Some s4"
      using s1(1,2) s2(1) s4(1,2) a False by (simp add: sarp_part3_def assert_that_def writable_def [symmetric])
    with set_to_fills [OF s2(2) s4(3)] show ?thesis by blast
  qed
qed

lemma sarp_part2_ok:
  assumes ok: "maps_ok s" "alloc_ok s" and a: "is_start_of_sm a" and w: "range_state w v"
  shows "\<exists>s'. sarp_part2 s a 0 len w (DSM (unat v)) = Some s' \<and> set_to s (addrs a (unat len)) v s'"
proof -
  obtain k len' s1 where s1: "sarp_maps s a len (DSM (unat v)) = Some (a + of_nat k, len', s1)" "unat len = k + unat len'"
    "len' < SM_SIZE" "is_start_of_sm (a + of_nat k)" "set_to s (addrs a k) v s1"
    using sarp_maps_ok [OF ok(1) a w] by blast
  show ?thesis
  proof (cases "len' = 0")
    case True
    with s1 show ?thesis by (simp add: sarp_part2_def assert_that_def)
  next
    case False
    obtain s2 where "sarp_part3 s1 (a + of_nat k) len' w (DSM (unat v)) = Some s2" "set_to s1 (addrs (a + of_nat k) (unat len')) v s2"
      using sarp_part3_ok [OF set_to_maps [OF s1(5)] set_to_alloc [OF s1(5) ok(2)] s1(4,3) w] by blast
    with set_to_trans [OF s1(5), of "addrs (a + of_nat k) (unat len')" s2] s1(1,2) False show ?thesis
      by (simp add: sarp_part2_def assert_that_def addrs_add)
  qed
qed

text \<open>The first secondary map: either it is skipped, or the three loops run in it.\<close>

definition sarp_first :: "tnt_mem \<Rightarrow> addr \<Rightarrow> u64 \<Rightarrow> u64 \<Rightarrow> sm_ptr \<Rightarrow> (addr \<times> u64 \<times> tnt_mem) option" where
  "sarp_first s a lenA vabits16 example_dsm = do {
     let aNext = start_of_this_sm a + SM_SIZE;
     (sm_ptr, s) \<leftarrow> get_secmap_ptr s a;
     sm \<leftarrow> sm_load s sm_ptr;
     (a, lenA, sm, s) \<leftarrow> (if is_distinguished_sm sm then
         (if sm = example_dsm then Some (aNext, 0, sm, s)
          else do { (sm, s) \<leftarrow> copy_for_writing s sm; s \<leftarrow> sm_store s sm_ptr sm; Some (a, lenA, sm, s) })
       else Some (a, lenA, sm, s));
     (a, lenA, s) \<leftarrow> sarp_align s sm (vabits16 AND 3) a lenA;
     (a, lenA, s) \<leftarrow> sarp_longs s sm vabits16 a lenA;
     sarp_rest s sm (vabits16 AND 3) a lenA
   }"

lemma sarp_part1_first:
  "sarp_part1 s a lenA lenB vabits16 example_dsm = do {
     (a, lenA, s) \<leftarrow> sarp_first s a lenA vabits16 example_dsm;
     if lenB = 0 then Some s else sarp_part2 s a lenA lenB vabits16 example_dsm }"
  by (simp add: sarp_part1_def sarp_first_def Let_def split_def)

lemma start_next: "is_start_of_sm (start_of_this_sm a + SM_SIZE)"
proof -
  have "is_start_of_sm (start_of_this_sm a)" by (simp add: start_page start_of_this_sm_page)
  then show ?thesis by (rule next_start)
qed

lemma sarp_loops_0:
  assumes "VG_IS_8_ALIGNED a"
  shows "sarp_align s sm w a 0 = Some (a, 0, s)" "sarp_longs s sm w a 0 = Some (a, 0, s)" "sarp_rest s sm w a 0 = Some (a, 0, s)"
  using assms by (subst sarp_align.simps sarp_longs.simps sarp_rest.simps, simp)+

lemma sarp_first_ok:
  assumes ok: "maps_ok s" "alloc_ok s" and len: "unat (a AND 0xFFFF) + unat len \<le> 65536" and w: "range_state w v"
  shows "\<exists>a' s'. sarp_first s a len w (DSM (unat v)) = Some (a', 0, s') \<and> (a' = a + len \<or> a' = start_of_this_sm a + SM_SIZE) \<and>
    set_to s (addrs a (unat len)) v s'"
proof -
  obtain l s1 n s2 where s1: "get_secmap_ptr s a = Some (l, s1)" "sm_load s1 l = Some (secmap_of s a)" "view_eq s s1" "maps_ok s1"
    and s2: "writable s1 (secmap_of s a) l = Some (SM n, s2)" "set_to s {} v s2" "owns s2 n {b. page_of b = page_of a}"
    using writable_ok [OF ok, of a v] by blast
  show ?thesis
  proof (cases "secmap_of s a = DSM (unat v)")
    case True
    have "vab2 s b = v" if "b \<in> addrs a (unat len)" for b
      using dsm_state [OF ok(1) w True addrs_page [OF len that]] .
    then have "set_to s (addrs a (unat len)) v s1"
      using set_to_same [OF s1(4) view_eq_sec [OF s1(3)]] view_eq_vab [OF s1(3)] by blast
    with True s1(1,2) sarp_loops_0 [OF start_aligned [OF start_next]] show ?thesis
      by (simp add: sarp_first_def range_state_map [OF w] Let_def)
  next
    case False
    have own: "owns s2 n (addrs a (unat len))" by (rule page_owns [OF s2(3) len])
    obtain s3 where s3: "do { (a, len, s) \<leftarrow> sarp_align s2 (SM n) (w AND 3) a len; (a, len, s) \<leftarrow> sarp_longs s (SM n) w a len;
      sarp_rest s (SM n) (w AND 3) a len } = Some (a + len, 0, s3)" "fills s2 (addrs a (unat len)) v s3"
      using sarp_three_ok [OF set_to_maps [OF s2(2)] own w] by blast
    have "(if is_distinguished_sm (secmap_of s a) then
         (if secmap_of s a = DSM (unat v) then Some (start_of_this_sm a + SM_SIZE, 0, secmap_of s a, s1)
          else do { (sm, s) \<leftarrow> copy_for_writing s1 (secmap_of s a); s \<leftarrow> sm_store s l sm; Some (a, len, sm, s) })
       else Some (a, len, secmap_of s a, s1)) = Some (a, len, SM n, s2)"
      using s2(1) False by (auto simp: writable_def bind_Some_iff split: if_splits)
    then have "sarp_first s a len w (DSM (unat v)) = Some (a + len, 0, s3)"
      using s1(1,2) s3(1) by (simp add: sarp_first_def Let_def)
    with set_to_fills [OF s2(2) s3(2)] show ?thesis by blast
  qed
qed

lemma set_address_range_perms_ok:
  assumes ok: "maps_ok s" "alloc_ok s" and w: "range_state w v"
  shows "\<exists>s'. set_address_range_perms s a len w (unat v) = Some s' \<and> set_to s (addrs a (unat len)) v s'"
proof -
  let ?d = "start_of_this_sm a + SM_SIZE - a"
  have d: "unat ?d + unat (a AND 0xFFFF) = 65536" using to_next [of a] offset_less [of a] by simp
  have as: "ucast VA_BITS16_NOACCESS = w \<or> ucast VA_BITS16_TAINTED = w \<or> ucast VA_BITS16_UNTAINTED = w"
    "ucast VA_BITS2_PARTUNTAINTED \<noteq> w AND 3"
    using w by (cases rule: range_state_cases; simp add: va_bits_defs)+
  have first: "\<exists>s'. sarp_part1 s a n m w (DSM (unat v)) = Some s' \<and> set_to s (addrs a (unat n + unat m)) v s'"
    if "unat n \<le> unat ?d" "m = 0 \<or> n = ?d" for n m
  proof -
    have "unat (a AND 0xFFFF) + unat n \<le> 65536" using that(1) d by linarith
    then obtain a' s1 where s1: "sarp_first s a n w (DSM (unat v)) = Some (a', 0, s1)"
      "a' = a + n \<or> a' = start_of_this_sm a + SM_SIZE" "set_to s (addrs a (unat n)) v s1"
      using sarp_first_ok [OF ok _ w] by blast
    show ?thesis
    proof (cases "m = 0")
      case True
      with s1 show ?thesis by (simp add: sarp_part1_first)
    next
      case False
      with that(2) have n: "n = ?d" by simp
      with s1(2) have a': "a' = start_of_this_sm a + SM_SIZE" "a' = a + of_nat (unat n)" by auto
      have "is_start_of_sm a'" unfolding a'(1) by (rule start_next)
      then obtain s2 where "sarp_part2 s1 a' 0 m w (DSM (unat v)) = Some s2" "set_to s1 (addrs a' (unat m)) v s2"
        using sarp_part2_ok [OF set_to_maps [OF s1(3)] set_to_alloc [OF s1(3) ok(2)] _ w] by blast
      with s1(1) set_to_trans [OF s1(3), of "addrs a' (unat m)" s2] False show ?thesis
        unfolding addrs_add a'(2) [symmetric] by (simp add: sarp_part1_first)
    qed
  qed
  consider "len = 0" | "len \<noteq> 0" "len \<le> ?d" | "\<not> len \<le> ?d" "is_start_of_sm a" | "\<not> len \<le> ?d" "\<not> is_start_of_sm a" by blast
  then show ?thesis
  proof cases
    case 1
    with as set_to_refl [OF ok(1)] show ?thesis by (simp add: set_address_range_perms_def assert_that_def Let_def)
  next
    case 2
    then have "unat len \<le> unat ?d" by (simp only: word_le_nat_alt)
    with first [of len 0] 2 as show ?thesis by (simp add: set_address_range_perms_def assert_that_def Let_def)
  next
    case 3
    then have "len \<noteq> 0" by auto
    with 3 sarp_part2_ok [OF ok 3(2) w, of len] as show ?thesis by (simp add: set_address_range_perms_def assert_that_def Let_def)
  next
    case 4
    then have le: "?d \<le> len" and "len \<noteq> 0" by auto
    have "unat ?d + unat (len - ?d) = unat len" using unat_sub [OF le] le by (simp add: word_le_nat_alt)
    with first [of ?d "len - ?d"] 4 \<open>len \<noteq> 0\<close> as show ?thesis by (simp add: set_address_range_perms_def assert_that_def Let_def)
  qed
qed

section \<open>What a byte reads as after its range is set\<close>

definition state_of :: "u8 \<Rightarrow> bool \<times> u8" where
  "state_of v = (if v = 2 then (True, 0) else if v = 1 then (True, 0xFF) else (False, 0))"

lemma set_to_view:
  assumes ok: "store_ok s" and set: "set_to s A v s'" and v: "v \<noteq> 3" "v < 4"
  shows "store_ok s' \<and> (\<forall>k. pdb_room k s \<longrightarrow> pdb_room k s') \<and> vbyte s' = (\<lambda>b. if b \<in> A then state_of v else vbyte s b)"
proof -
  have s: "maps_ok s" "tab_ok s" "pdb_ok s" "alloc_ok s" using ok by (auto simp: store_ok_def shadow_ok_def)
  have s': "maps_ok s'" "sec_eq s s'" "vab2 s' = (\<lambda>b. if b \<in> A then v else vab2 s b)" using set by (auto simp: set_to_def)
  note sec = sec_eq_lookup [OF s'(2)]
  have "pdb_granules s' \<subseteq> pdb_granules s" using v(1) by (auto simp: pdb_granules_def s'(3))
  then have "card (pdb_granules s') \<le> card (pdb_granules s)" by (intro card_mono) simp_all
  then have "\<forall>k. pdb_room k s \<longrightarrow> pdb_room k s'" using s'(2) by (auto simp: pdb_room_def sec_eq_def)
  moreover have "pdb_ok s'" using s(3) v(1) sec by (simp add: pdb_ok_def s'(3))
  then have "store_ok s'" using s s'(1) sec sec_eq_alloc [OF s'(2)] by (simp add: store_ok_def shadow_ok_def)
  moreover have "vbyte s' b = (if b \<in> A then state_of v else vbyte s b)" for b
  proof (cases "b \<in> A")
    case True
    have "unat v < 4" using v(2) by (simp add: word_less_nat_alt)
    then have "unat v \<in> {0, 1, 2, 3}" by auto
    then have "v \<in> {0, 1, 2}" using v(1) by (auto simp: word_unat_eq_iff)
    with True show ?thesis by (auto simp: vbyte_def s'(3) state_of_def shadow_simps)
  next
    case False
    with sec show ?thesis by (simp add: vbyte_def s'(3))
  qed
  then have "vbyte s' = (\<lambda>b. if b \<in> A then state_of v else vbyte s b)" by (rule ext)
  ultimately show ?thesis by blast
qed

text \<open>The result of setting a range: it succeeds, the invariant and the room stay, and the bytes of the range, and no other, read as
  the given state.\<close>

definition sets_range :: "tnt_mem \<Rightarrow> addr \<Rightarrow> u64 \<Rightarrow> bool \<times> u8 \<Rightarrow> tnt_mem option \<Rightarrow> bool" where
  "sets_range s a len v r \<longleftrightarrow> (\<exists>s'. r = Some s' \<and> store_ok s' \<and> (\<forall>k. pdb_room k s \<longrightarrow> pdb_room k s') \<and>
     vbyte s' = (\<lambda>b. if \<exists>i < unat len. b = a + of_nat i then v else vbyte s b))"

lemma set_range_ok:
  assumes "store_ok s" and w: "range_state w v" and d: "d = unat v"
  shows "sets_range s a len (state_of v) (set_address_range_perms s a len w d)"
proof -
  have ok: "maps_ok s" "alloc_ok s" using assms(1) by (auto simp: store_ok_def shadow_ok_def)
  obtain s' where s': "set_address_range_perms s a len w (unat v) = Some s'" "set_to s (addrs a (unat len)) v s'"
    using set_address_range_perms_ok [OF ok w] by blast
  show ?thesis
    using set_to_view [OF assms(1) s'(2) range_state_low(3,2) [OF w]] s'(1) unfolding sets_range_def d addrs_iff by blast
qed

section \<open>Properties\<close>

text \<open>C34: Setting the permissions of an address range. In every well-formed shadow memory whose secondary maps can be allocated,
  \<open>TNT_(make_mem_noaccess)\<close>, \<open>TNT_(make_mem_tainted)\<close> and \<open>TNT_(make_mem_untainted)\<close> succeed for every address and every length, also across
  secondary maps and around the end of the address space: the invariant stays, no room for partly tainted bytes is lost, the bytes of
  the range read as not addressable, wholly tainted or untainted, and every other byte reads as before.\<close>

theorem make_mem_sets_range:
  assumes "store_ok s"
  shows "sets_range s a len (False, 0) (make_mem_noaccess s a len) \<and>
    sets_range s a len (True, 0xFF) (make_mem_tainted s a len) \<and>
    sets_range s a len (True, 0) (make_mem_untainted s a len)"
proof -
  have 0: "sets_range s a len (state_of 0) (set_address_range_perms s a len 0 0)"
    by (rule set_range_ok [OF assms]) (simp_all add: range_state_def)
  have 1: "sets_range s a len (state_of 1) (set_address_range_perms s a len 0x5555 1)"
    by (rule set_range_ok [OF assms]) (simp_all add: range_state_def)
  have 2: "sets_range s a len (state_of 2) (set_address_range_perms s a len 0xAAAA 2)"
    by (rule set_range_ok [OF assms]) (simp_all add: range_state_def)
  from 0 1 2 show ?thesis
    by (simp add: make_mem_noaccess_def make_mem_tainted_def make_mem_untainted_def state_of_def shadow_simps)
qed

text \<open>On the initial shadow memory, a range of 131088 bytes that ends two secondary maps later.\<close>

theorem make_mem_sets_range_witness:
  "\<exists>s. make_mem_tainted (init_shadow_memory (\<lambda>_. True)) 0x1FFF8 0x20010 = Some s \<and> vbyte s 0x40007 = (True, 0xFF) \<and>
     vbyte s 0x40008 = (True, 0)"
proof -
  obtain s where s: "make_mem_tainted (init_shadow_memory (\<lambda>_. True)) 0x1FFF8 0x20010 = Some s"
    "vbyte s = (\<lambda>b. if \<exists>i < unat (0x20010 :: u64). b = 0x1FFF8 + of_nat i then (True, 0xFF) else vbyte (init_shadow_memory (\<lambda>_. True)) b)"
    using make_mem_sets_range [OF init_store_ok, of "0x1FFF8" "0x20010"] unfolding sets_range_def by blast
  have "\<exists>i < unat (0x20010 :: u64). (0x40007 :: u64) = 0x1FFF8 + of_nat i"
    by (intro exI [of _ 131087]) simp
  moreover have "\<not> (\<exists>i < unat (0x20010 :: u64). (0x40008 :: u64) = 0x1FFF8 + of_nat i)"
  proof (intro notI, elim exE conjE)
    fix i assume i: "i < unat (0x20010 :: u64)" "(0x40008 :: u64) = 0x1FFF8 + of_nat i"
    then have "(of_nat i :: u64) = 0x20010" by (simp add: algebra_simps)
    then have "unat (of_nat i :: u64) = 131088" by simp
    moreover have "unat (of_nat i :: u64) = i" using i(1) by (simp add: unat_of_nat take_bit_nat_eq_self)
    ultimately show False using i(1) by simp
  qed
  ultimately show ?thesis using s by (simp add: init_vbyte MAX_PRIMARY_ADDRESS_val)
qed

end
