(* ===== verification/Switch.thy ===== *)
theory Switch
  imports Prelude
begin

text \<open>
  A C \<open>switch\<close> over an enumeration, as a table of label groups and bodies. C refuses a
  switch with a repeated label; the same fact, checked here with a search tree from labels to
  the position of their group, lets a label select its body without refuting every group
  before it.
\<close>

definition switch :: "('k list \<times> 'b) list \<Rightarrow> 'k \<Rightarrow> 'b option" where
  "switch gs k = map_option snd (List.find (\<lambda>g. k \<in> set (fst g)) gs)"

lemma switch_simps: "switch [] k = None" "switch ((ls, b) # gs) k = (if k \<in> set ls then Some b else switch gs k)"
  by (simp_all add: switch_def)

lemma switch_append: "switch (gs @ hs) k = (case switch gs k of None \<Rightarrow> switch hs k | Some b \<Rightarrow> Some b)"
  by (induction gs) (auto simp: switch_def)

lemma switch_None: "switch gs k = None \<longleftrightarrow> k \<notin> set (concat (map fst gs))"
  by (induction gs) (auto simp: switch_def)

text \<open>\<open>Below p l r\<close> splits the labels below \<open>p\<close> from the others.\<close>

datatype label_tree = Group nat | Below nat label_tree label_tree

primrec group_of :: "label_tree \<Rightarrow> nat \<Rightarrow> nat" where
  "group_of (Group i) k = i"
| "group_of (Below p l r) k = (if k < p then group_of l k else group_of r k)"

primrec in_group :: "label_tree \<Rightarrow> nat \<Rightarrow> nat list \<Rightarrow> bool" where
  "in_group T i [] = True"
| "in_group T i (k # ks) = (if group_of T k = i then in_group T i ks else False)"

primrec switch_ok :: "label_tree \<Rightarrow> nat \<Rightarrow> (nat list \<times> 'b) list \<Rightarrow> bool" where
  "switch_ok T i [] = True"
| "switch_ok T i (g # gs) = (if in_group T i (fst g) then switch_ok T (i + 1) gs else False)"

text \<open>Evaluation that never walks over the tree or the labels it has not reached.\<close>

lemma group_of_cong: "k = k' \<Longrightarrow> group_of T k = group_of T k'" by simp
lemma in_group_cong: "i = i' \<Longrightarrow> in_group T i ks = in_group T i' ks" by simp
lemma switch_ok_cong: "i = i' \<Longrightarrow> switch_ok T i gs = switch_ok T i' gs" by simp
lemma switch_ok_group: "switch_ok T i ((ls, b) # gs) = (if in_group T i ls then switch_ok T (i + 1) gs else False)"
  by simp
lemma switch_ok_append: "switch_ok T i (gs @ hs) \<longleftrightarrow> switch_ok T i gs \<and> switch_ok T (i + length gs) hs"
  by (induction gs arbitrary: i) auto

lemmas switch_eval = group_of.simps in_group.simps switch_ok.simps(1) switch_ok_group

lemma in_groupD: "in_group T i ks \<Longrightarrow> k \<in> set ks \<Longrightarrow> group_of T k = i"
  by (induction ks) (auto split: if_splits)

lemma switch_okD: "switch_ok T i gs \<Longrightarrow> k \<in> set (concat (map fst gs)) \<Longrightarrow> i \<le> group_of T k"
proof (induction gs arbitrary: i)
  case (Cons g gs)
  then have ok: "in_group T i (fst g)" "switch_ok T (i + 1) gs" by (simp_all split: if_splits)
  show ?case
  proof (cases "k \<in> set (fst g)")
    case True
    then show ?thesis using in_groupD [OF ok(1)] by simp
  next
    case False
    then show ?thesis using Cons.IH [OF ok(2)] Cons.prems(2) by simp
  qed
qed simp

lemma switch_hit: "switch_ok T i gs \<Longrightarrow> (ls, b) \<in> set gs \<Longrightarrow> k \<in> set ls \<Longrightarrow> switch gs k = Some b"
proof (induction gs arbitrary: i)
  case (Cons g gs)
  then have ok: "in_group T i (fst g)" "switch_ok T (i + 1) gs" by (simp_all split: if_splits)
  show ?case
  proof (cases "(ls, b) = g")
    case True
    then show ?thesis using Cons.prems by (auto simp: switch_def)
  next
    case False
    then have in_gs: "(ls, b) \<in> set gs" using Cons.prems(2) by auto
    then have "k \<in> set (concat (map fst gs))" using Cons.prems(3) by force
    then have "k \<notin> set (fst g)" using switch_okD [OF ok(2)] in_groupD [OF ok(1)] by fastforce
    with Cons.IH [OF ok(2) in_gs Cons.prems(3)] show ?thesis by (simp add: switch_def)
  qed
qed simp

lemmas switch_check = switch_eval simp_thms rel_simps arith_simps if_True if_False Suc_eq_plus1
  one_plus_numeral one_add_one numeral_plus_one

text \<open>All the equations of a switch at once, one for each label.\<close>

definition switch_eqs :: "(nat \<Rightarrow> 'b option) \<Rightarrow> (nat list \<times> 'b) list \<Rightarrow> bool" where
  "switch_eqs f gs \<longleftrightarrow> (\<forall>(ls, b) \<in> set gs. \<forall>k \<in> set ls. f k = Some b)"

primrec label_eqs :: "(nat \<Rightarrow> 'b option) \<Rightarrow> nat list \<Rightarrow> 'b \<Rightarrow> bool" where
  "label_eqs f [] b = True"
| "label_eqs f (k # ks) b = (f k = Some b \<and> label_eqs f ks b)"

lemma label_eqs_iff: "label_eqs f ks b \<longleftrightarrow> (\<forall>k \<in> set ks. f k = Some b)"
  by (induction ks) auto

lemma switch_eqs_Nil: "switch_eqs f [] = True"
  by (simp add: switch_eqs_def)

lemma switch_eqs_Cons: "switch_eqs f ((ls, b) # gs) = (label_eqs f ls b \<and> switch_eqs f gs)"
  by (auto simp: switch_eqs_def label_eqs_iff)

lemma switch_eqs_append: "switch_eqs f (gs @ hs) = (switch_eqs f gs \<and> switch_eqs f hs)"
  by (auto simp: switch_eqs_def)

lemma switch_eqsI: "switch_ok T i gs \<Longrightarrow> switch_eqs (switch gs) gs"
  by (auto simp: switch_eqs_def switch_hit)

lemmas switch_eqs_unfold = switch_eqs_Nil switch_eqs_Cons label_eqs.simps simp_thms

text \<open>A property of every label with its body.\<close>

definition switch_all :: "('k \<Rightarrow> 'b \<Rightarrow> bool) \<Rightarrow> ('k list \<times> 'b) list \<Rightarrow> bool" where
  "switch_all P gs \<longleftrightarrow> (\<forall>(ls, b) \<in> set gs. \<forall>k \<in> set ls. P k b)"

primrec labels_all :: "('k \<Rightarrow> 'b \<Rightarrow> bool) \<Rightarrow> 'k list \<Rightarrow> 'b \<Rightarrow> bool" where
  "labels_all P [] b = True"
| "labels_all P (k # ks) b = (P k b \<and> labels_all P ks b)"

lemma labels_all_iff: "labels_all P ks b \<longleftrightarrow> (\<forall>k \<in> set ks. P k b)"
  by (induction ks) auto

lemma switch_all_Nil: "switch_all P [] = True" by (simp add: switch_all_def)
lemma switch_all_Cons: "switch_all P ((ls, b) # gs) = (labels_all P ls b \<and> switch_all P gs)"
  by (auto simp: switch_all_def labels_all_iff)
lemma switch_all_append: "switch_all P (gs @ hs) = (switch_all P gs \<and> switch_all P hs)"
  by (auto simp: switch_all_def)

lemma switch_allD: "switch_all P gs \<Longrightarrow> switch gs k = Some b \<Longrightarrow> P k b"
  by (induction gs) (auto simp: switch_def switch_all_def split: if_splits)

lemmas switch_all_unfold = switch_all_Nil switch_all_Cons labels_all.simps simp_thms

end
