(* ===== verification/VexIR.thy ===== *)
theory VexIR
  imports Switch
begin

text \<open>
  The intermediate representation the instrumenter reads and emits
  (\<^verbatim>\<open>VEX/pub/libvex_ir.h\<close>, \<^verbatim>\<open>VEX/priv/ir_defs.c\<close>). An \<open>IROp\<close> is a
  value of the C enumeration that starts at 0x1400, kept as its number; types, constants,
  expressions and statements are the unions of the header, and \<open>typeOfPrimop\<close> is the table of
  the operators' types. A panic or a failed assertion is \<open>None\<close>. \<open>IRTemp_INVALID\<close> is
  \<open>None\<close>, and floating-point literals are kept as their bits.
\<close>

section \<open>Operators\<close>

type_synonym IROp = nat

abbreviation Iop_INVALID :: IROp where "Iop_INVALID \<equiv> 5120"
abbreviation Iop_Add8 :: IROp where "Iop_Add8 \<equiv> 5121"
abbreviation Iop_Add16 :: IROp where "Iop_Add16 \<equiv> 5122"
abbreviation Iop_Add32 :: IROp where "Iop_Add32 \<equiv> 5123"
abbreviation Iop_Add64 :: IROp where "Iop_Add64 \<equiv> 5124"
abbreviation Iop_Sub8 :: IROp where "Iop_Sub8 \<equiv> 5125"
abbreviation Iop_Sub16 :: IROp where "Iop_Sub16 \<equiv> 5126"
abbreviation Iop_Sub32 :: IROp where "Iop_Sub32 \<equiv> 5127"
abbreviation Iop_Sub64 :: IROp where "Iop_Sub64 \<equiv> 5128"
abbreviation Iop_Mul8 :: IROp where "Iop_Mul8 \<equiv> 5129"
abbreviation Iop_Mul16 :: IROp where "Iop_Mul16 \<equiv> 5130"
abbreviation Iop_Mul32 :: IROp where "Iop_Mul32 \<equiv> 5131"
abbreviation Iop_Mul64 :: IROp where "Iop_Mul64 \<equiv> 5132"
abbreviation Iop_Or8 :: IROp where "Iop_Or8 \<equiv> 5133"
abbreviation Iop_Or16 :: IROp where "Iop_Or16 \<equiv> 5134"
abbreviation Iop_Or32 :: IROp where "Iop_Or32 \<equiv> 5135"
abbreviation Iop_Or64 :: IROp where "Iop_Or64 \<equiv> 5136"
abbreviation Iop_And8 :: IROp where "Iop_And8 \<equiv> 5137"
abbreviation Iop_And16 :: IROp where "Iop_And16 \<equiv> 5138"
abbreviation Iop_And32 :: IROp where "Iop_And32 \<equiv> 5139"
abbreviation Iop_And64 :: IROp where "Iop_And64 \<equiv> 5140"
abbreviation Iop_Xor8 :: IROp where "Iop_Xor8 \<equiv> 5141"
abbreviation Iop_Xor16 :: IROp where "Iop_Xor16 \<equiv> 5142"
abbreviation Iop_Xor32 :: IROp where "Iop_Xor32 \<equiv> 5143"
abbreviation Iop_Xor64 :: IROp where "Iop_Xor64 \<equiv> 5144"
abbreviation Iop_Shl8 :: IROp where "Iop_Shl8 \<equiv> 5145"
abbreviation Iop_Shl16 :: IROp where "Iop_Shl16 \<equiv> 5146"
abbreviation Iop_Shl32 :: IROp where "Iop_Shl32 \<equiv> 5147"
abbreviation Iop_Shl64 :: IROp where "Iop_Shl64 \<equiv> 5148"
abbreviation Iop_Shr8 :: IROp where "Iop_Shr8 \<equiv> 5149"
abbreviation Iop_Shr16 :: IROp where "Iop_Shr16 \<equiv> 5150"
abbreviation Iop_Shr32 :: IROp where "Iop_Shr32 \<equiv> 5151"
abbreviation Iop_Shr64 :: IROp where "Iop_Shr64 \<equiv> 5152"
abbreviation Iop_Sar8 :: IROp where "Iop_Sar8 \<equiv> 5153"
abbreviation Iop_Sar16 :: IROp where "Iop_Sar16 \<equiv> 5154"
abbreviation Iop_Sar32 :: IROp where "Iop_Sar32 \<equiv> 5155"
abbreviation Iop_Sar64 :: IROp where "Iop_Sar64 \<equiv> 5156"
abbreviation Iop_CmpEQ8 :: IROp where "Iop_CmpEQ8 \<equiv> 5157"
abbreviation Iop_CmpEQ16 :: IROp where "Iop_CmpEQ16 \<equiv> 5158"
abbreviation Iop_CmpEQ32 :: IROp where "Iop_CmpEQ32 \<equiv> 5159"
abbreviation Iop_CmpEQ64 :: IROp where "Iop_CmpEQ64 \<equiv> 5160"
abbreviation Iop_CmpNE8 :: IROp where "Iop_CmpNE8 \<equiv> 5161"
abbreviation Iop_CmpNE16 :: IROp where "Iop_CmpNE16 \<equiv> 5162"
abbreviation Iop_CmpNE32 :: IROp where "Iop_CmpNE32 \<equiv> 5163"
abbreviation Iop_CmpNE64 :: IROp where "Iop_CmpNE64 \<equiv> 5164"
abbreviation Iop_Not8 :: IROp where "Iop_Not8 \<equiv> 5165"
abbreviation Iop_Not16 :: IROp where "Iop_Not16 \<equiv> 5166"
abbreviation Iop_Not32 :: IROp where "Iop_Not32 \<equiv> 5167"
abbreviation Iop_Not64 :: IROp where "Iop_Not64 \<equiv> 5168"
abbreviation Iop_CasCmpEQ8 :: IROp where "Iop_CasCmpEQ8 \<equiv> 5169"
abbreviation Iop_CasCmpEQ16 :: IROp where "Iop_CasCmpEQ16 \<equiv> 5170"
abbreviation Iop_CasCmpEQ32 :: IROp where "Iop_CasCmpEQ32 \<equiv> 5171"
abbreviation Iop_CasCmpEQ64 :: IROp where "Iop_CasCmpEQ64 \<equiv> 5172"
abbreviation Iop_CasCmpNE8 :: IROp where "Iop_CasCmpNE8 \<equiv> 5173"
abbreviation Iop_CasCmpNE16 :: IROp where "Iop_CasCmpNE16 \<equiv> 5174"
abbreviation Iop_CasCmpNE32 :: IROp where "Iop_CasCmpNE32 \<equiv> 5175"
abbreviation Iop_CasCmpNE64 :: IROp where "Iop_CasCmpNE64 \<equiv> 5176"
abbreviation Iop_ExpCmpNE8 :: IROp where "Iop_ExpCmpNE8 \<equiv> 5177"
abbreviation Iop_ExpCmpNE16 :: IROp where "Iop_ExpCmpNE16 \<equiv> 5178"
abbreviation Iop_ExpCmpNE32 :: IROp where "Iop_ExpCmpNE32 \<equiv> 5179"
abbreviation Iop_ExpCmpNE64 :: IROp where "Iop_ExpCmpNE64 \<equiv> 5180"
abbreviation Iop_MullS8 :: IROp where "Iop_MullS8 \<equiv> 5181"
abbreviation Iop_MullS16 :: IROp where "Iop_MullS16 \<equiv> 5182"
abbreviation Iop_MullS32 :: IROp where "Iop_MullS32 \<equiv> 5183"
abbreviation Iop_MullS64 :: IROp where "Iop_MullS64 \<equiv> 5184"
abbreviation Iop_MullU8 :: IROp where "Iop_MullU8 \<equiv> 5185"
abbreviation Iop_MullU16 :: IROp where "Iop_MullU16 \<equiv> 5186"
abbreviation Iop_MullU32 :: IROp where "Iop_MullU32 \<equiv> 5187"
abbreviation Iop_MullU64 :: IROp where "Iop_MullU64 \<equiv> 5188"
abbreviation Iop_Clz64 :: IROp where "Iop_Clz64 \<equiv> 5189"
abbreviation Iop_Clz32 :: IROp where "Iop_Clz32 \<equiv> 5190"
abbreviation Iop_Ctz64 :: IROp where "Iop_Ctz64 \<equiv> 5191"
abbreviation Iop_Ctz32 :: IROp where "Iop_Ctz32 \<equiv> 5192"
abbreviation Iop_CmpLT32S :: IROp where "Iop_CmpLT32S \<equiv> 5193"
abbreviation Iop_CmpLT64S :: IROp where "Iop_CmpLT64S \<equiv> 5194"
abbreviation Iop_CmpLE32S :: IROp where "Iop_CmpLE32S \<equiv> 5195"
abbreviation Iop_CmpLE64S :: IROp where "Iop_CmpLE64S \<equiv> 5196"
abbreviation Iop_CmpLT32U :: IROp where "Iop_CmpLT32U \<equiv> 5197"
abbreviation Iop_CmpLT64U :: IROp where "Iop_CmpLT64U \<equiv> 5198"
abbreviation Iop_CmpLE32U :: IROp where "Iop_CmpLE32U \<equiv> 5199"
abbreviation Iop_CmpLE64U :: IROp where "Iop_CmpLE64U \<equiv> 5200"
abbreviation Iop_CmpNEZ8 :: IROp where "Iop_CmpNEZ8 \<equiv> 5201"
abbreviation Iop_CmpNEZ16 :: IROp where "Iop_CmpNEZ16 \<equiv> 5202"
abbreviation Iop_CmpNEZ32 :: IROp where "Iop_CmpNEZ32 \<equiv> 5203"
abbreviation Iop_CmpNEZ64 :: IROp where "Iop_CmpNEZ64 \<equiv> 5204"
abbreviation Iop_CmpwNEZ32 :: IROp where "Iop_CmpwNEZ32 \<equiv> 5205"
abbreviation Iop_CmpwNEZ64 :: IROp where "Iop_CmpwNEZ64 \<equiv> 5206"
abbreviation Iop_Left8 :: IROp where "Iop_Left8 \<equiv> 5207"
abbreviation Iop_Left16 :: IROp where "Iop_Left16 \<equiv> 5208"
abbreviation Iop_Left32 :: IROp where "Iop_Left32 \<equiv> 5209"
abbreviation Iop_Left64 :: IROp where "Iop_Left64 \<equiv> 5210"
abbreviation Iop_Max32U :: IROp where "Iop_Max32U \<equiv> 5211"
abbreviation Iop_CmpORD32U :: IROp where "Iop_CmpORD32U \<equiv> 5212"
abbreviation Iop_CmpORD64U :: IROp where "Iop_CmpORD64U \<equiv> 5213"
abbreviation Iop_CmpORD32S :: IROp where "Iop_CmpORD32S \<equiv> 5214"
abbreviation Iop_CmpORD64S :: IROp where "Iop_CmpORD64S \<equiv> 5215"
abbreviation Iop_DivU32 :: IROp where "Iop_DivU32 \<equiv> 5216"
abbreviation Iop_DivS32 :: IROp where "Iop_DivS32 \<equiv> 5217"
abbreviation Iop_DivU64 :: IROp where "Iop_DivU64 \<equiv> 5218"
abbreviation Iop_DivS64 :: IROp where "Iop_DivS64 \<equiv> 5219"
abbreviation Iop_DivU64E :: IROp where "Iop_DivU64E \<equiv> 5220"
abbreviation Iop_DivS64E :: IROp where "Iop_DivS64E \<equiv> 5221"
abbreviation Iop_DivU32E :: IROp where "Iop_DivU32E \<equiv> 5222"
abbreviation Iop_DivS32E :: IROp where "Iop_DivS32E \<equiv> 5223"
abbreviation Iop_DivModU64to32 :: IROp where "Iop_DivModU64to32 \<equiv> 5224"
abbreviation Iop_DivModS64to32 :: IROp where "Iop_DivModS64to32 \<equiv> 5225"
abbreviation Iop_DivModU128to64 :: IROp where "Iop_DivModU128to64 \<equiv> 5226"
abbreviation Iop_DivModS128to64 :: IROp where "Iop_DivModS128to64 \<equiv> 5227"
abbreviation Iop_DivModS64to64 :: IROp where "Iop_DivModS64to64 \<equiv> 5228"
abbreviation Iop_8Uto16 :: IROp where "Iop_8Uto16 \<equiv> 5229"
abbreviation Iop_8Uto32 :: IROp where "Iop_8Uto32 \<equiv> 5230"
abbreviation Iop_8Uto64 :: IROp where "Iop_8Uto64 \<equiv> 5231"
abbreviation Iop_16Uto32 :: IROp where "Iop_16Uto32 \<equiv> 5232"
abbreviation Iop_16Uto64 :: IROp where "Iop_16Uto64 \<equiv> 5233"
abbreviation Iop_32Uto64 :: IROp where "Iop_32Uto64 \<equiv> 5234"
abbreviation Iop_8Sto16 :: IROp where "Iop_8Sto16 \<equiv> 5235"
abbreviation Iop_8Sto32 :: IROp where "Iop_8Sto32 \<equiv> 5236"
abbreviation Iop_8Sto64 :: IROp where "Iop_8Sto64 \<equiv> 5237"
abbreviation Iop_16Sto32 :: IROp where "Iop_16Sto32 \<equiv> 5238"
abbreviation Iop_16Sto64 :: IROp where "Iop_16Sto64 \<equiv> 5239"
abbreviation Iop_32Sto64 :: IROp where "Iop_32Sto64 \<equiv> 5240"
abbreviation Iop_64to8 :: IROp where "Iop_64to8 \<equiv> 5241"
abbreviation Iop_32to8 :: IROp where "Iop_32to8 \<equiv> 5242"
abbreviation Iop_64to16 :: IROp where "Iop_64to16 \<equiv> 5243"
abbreviation Iop_16to8 :: IROp where "Iop_16to8 \<equiv> 5244"
abbreviation Iop_16HIto8 :: IROp where "Iop_16HIto8 \<equiv> 5245"
abbreviation Iop_8HLto16 :: IROp where "Iop_8HLto16 \<equiv> 5246"
abbreviation Iop_32to16 :: IROp where "Iop_32to16 \<equiv> 5247"
abbreviation Iop_32HIto16 :: IROp where "Iop_32HIto16 \<equiv> 5248"
abbreviation Iop_16HLto32 :: IROp where "Iop_16HLto32 \<equiv> 5249"
abbreviation Iop_64to32 :: IROp where "Iop_64to32 \<equiv> 5250"
abbreviation Iop_64HIto32 :: IROp where "Iop_64HIto32 \<equiv> 5251"
abbreviation Iop_32HLto64 :: IROp where "Iop_32HLto64 \<equiv> 5252"
abbreviation Iop_128to64 :: IROp where "Iop_128to64 \<equiv> 5253"
abbreviation Iop_128HIto64 :: IROp where "Iop_128HIto64 \<equiv> 5254"
abbreviation Iop_64HLto128 :: IROp where "Iop_64HLto128 \<equiv> 5255"
abbreviation Iop_Not1 :: IROp where "Iop_Not1 \<equiv> 5256"
abbreviation Iop_32to1 :: IROp where "Iop_32to1 \<equiv> 5257"
abbreviation Iop_64to1 :: IROp where "Iop_64to1 \<equiv> 5258"
abbreviation Iop_1Uto8 :: IROp where "Iop_1Uto8 \<equiv> 5259"
abbreviation Iop_1Uto32 :: IROp where "Iop_1Uto32 \<equiv> 5260"
abbreviation Iop_1Uto64 :: IROp where "Iop_1Uto64 \<equiv> 5261"
abbreviation Iop_1Sto8 :: IROp where "Iop_1Sto8 \<equiv> 5262"
abbreviation Iop_1Sto16 :: IROp where "Iop_1Sto16 \<equiv> 5263"
abbreviation Iop_1Sto32 :: IROp where "Iop_1Sto32 \<equiv> 5264"
abbreviation Iop_1Sto64 :: IROp where "Iop_1Sto64 \<equiv> 5265"
abbreviation Iop_AddF64 :: IROp where "Iop_AddF64 \<equiv> 5266"
abbreviation Iop_SubF64 :: IROp where "Iop_SubF64 \<equiv> 5267"
abbreviation Iop_MulF64 :: IROp where "Iop_MulF64 \<equiv> 5268"
abbreviation Iop_DivF64 :: IROp where "Iop_DivF64 \<equiv> 5269"
abbreviation Iop_AddF32 :: IROp where "Iop_AddF32 \<equiv> 5270"
abbreviation Iop_SubF32 :: IROp where "Iop_SubF32 \<equiv> 5271"
abbreviation Iop_MulF32 :: IROp where "Iop_MulF32 \<equiv> 5272"
abbreviation Iop_DivF32 :: IROp where "Iop_DivF32 \<equiv> 5273"
abbreviation Iop_AddF64r32 :: IROp where "Iop_AddF64r32 \<equiv> 5274"
abbreviation Iop_SubF64r32 :: IROp where "Iop_SubF64r32 \<equiv> 5275"
abbreviation Iop_MulF64r32 :: IROp where "Iop_MulF64r32 \<equiv> 5276"
abbreviation Iop_DivF64r32 :: IROp where "Iop_DivF64r32 \<equiv> 5277"
abbreviation Iop_NegF64 :: IROp where "Iop_NegF64 \<equiv> 5278"
abbreviation Iop_AbsF64 :: IROp where "Iop_AbsF64 \<equiv> 5279"
abbreviation Iop_NegF32 :: IROp where "Iop_NegF32 \<equiv> 5280"
abbreviation Iop_AbsF32 :: IROp where "Iop_AbsF32 \<equiv> 5281"
abbreviation Iop_SqrtF64 :: IROp where "Iop_SqrtF64 \<equiv> 5282"
abbreviation Iop_SqrtF32 :: IROp where "Iop_SqrtF32 \<equiv> 5283"
abbreviation Iop_CmpF64 :: IROp where "Iop_CmpF64 \<equiv> 5284"
abbreviation Iop_CmpF32 :: IROp where "Iop_CmpF32 \<equiv> 5285"
abbreviation Iop_CmpF128 :: IROp where "Iop_CmpF128 \<equiv> 5286"
abbreviation Iop_F64toI16S :: IROp where "Iop_F64toI16S \<equiv> 5287"
abbreviation Iop_F64toI32S :: IROp where "Iop_F64toI32S \<equiv> 5288"
abbreviation Iop_F64toI64S :: IROp where "Iop_F64toI64S \<equiv> 5289"
abbreviation Iop_F64toI64U :: IROp where "Iop_F64toI64U \<equiv> 5290"
abbreviation Iop_F64toI32U :: IROp where "Iop_F64toI32U \<equiv> 5291"
abbreviation Iop_I32StoF64 :: IROp where "Iop_I32StoF64 \<equiv> 5292"
abbreviation Iop_I64StoF64 :: IROp where "Iop_I64StoF64 \<equiv> 5293"
abbreviation Iop_I64UtoF64 :: IROp where "Iop_I64UtoF64 \<equiv> 5294"
abbreviation Iop_I64UtoF32 :: IROp where "Iop_I64UtoF32 \<equiv> 5295"
abbreviation Iop_I32UtoF32 :: IROp where "Iop_I32UtoF32 \<equiv> 5296"
abbreviation Iop_I32UtoF64 :: IROp where "Iop_I32UtoF64 \<equiv> 5297"
abbreviation Iop_F32toI32S :: IROp where "Iop_F32toI32S \<equiv> 5298"
abbreviation Iop_F32toI64S :: IROp where "Iop_F32toI64S \<equiv> 5299"
abbreviation Iop_F32toI32U :: IROp where "Iop_F32toI32U \<equiv> 5300"
abbreviation Iop_F32toI64U :: IROp where "Iop_F32toI64U \<equiv> 5301"
abbreviation Iop_I32StoF32 :: IROp where "Iop_I32StoF32 \<equiv> 5302"
abbreviation Iop_I64StoF32 :: IROp where "Iop_I64StoF32 \<equiv> 5303"
abbreviation Iop_F32toF64 :: IROp where "Iop_F32toF64 \<equiv> 5304"
abbreviation Iop_F64toF32 :: IROp where "Iop_F64toF32 \<equiv> 5305"
abbreviation Iop_ReinterpF64asI64 :: IROp where "Iop_ReinterpF64asI64 \<equiv> 5306"
abbreviation Iop_ReinterpI64asF64 :: IROp where "Iop_ReinterpI64asF64 \<equiv> 5307"
abbreviation Iop_ReinterpF32asI32 :: IROp where "Iop_ReinterpF32asI32 \<equiv> 5308"
abbreviation Iop_ReinterpI32asF32 :: IROp where "Iop_ReinterpI32asF32 \<equiv> 5309"
abbreviation Iop_F64HLtoF128 :: IROp where "Iop_F64HLtoF128 \<equiv> 5310"
abbreviation Iop_F128HItoF64 :: IROp where "Iop_F128HItoF64 \<equiv> 5311"
abbreviation Iop_F128LOtoF64 :: IROp where "Iop_F128LOtoF64 \<equiv> 5312"
abbreviation Iop_AddF128 :: IROp where "Iop_AddF128 \<equiv> 5313"
abbreviation Iop_SubF128 :: IROp where "Iop_SubF128 \<equiv> 5314"
abbreviation Iop_MulF128 :: IROp where "Iop_MulF128 \<equiv> 5315"
abbreviation Iop_DivF128 :: IROp where "Iop_DivF128 \<equiv> 5316"
abbreviation Iop_MAddF128 :: IROp where "Iop_MAddF128 \<equiv> 5317"
abbreviation Iop_MSubF128 :: IROp where "Iop_MSubF128 \<equiv> 5318"
abbreviation Iop_NegMAddF128 :: IROp where "Iop_NegMAddF128 \<equiv> 5319"
abbreviation Iop_NegMSubF128 :: IROp where "Iop_NegMSubF128 \<equiv> 5320"
abbreviation Iop_NegF128 :: IROp where "Iop_NegF128 \<equiv> 5321"
abbreviation Iop_AbsF128 :: IROp where "Iop_AbsF128 \<equiv> 5322"
abbreviation Iop_SqrtF128 :: IROp where "Iop_SqrtF128 \<equiv> 5323"
abbreviation Iop_I32StoF128 :: IROp where "Iop_I32StoF128 \<equiv> 5324"
abbreviation Iop_I64StoF128 :: IROp where "Iop_I64StoF128 \<equiv> 5325"
abbreviation Iop_I32UtoF128 :: IROp where "Iop_I32UtoF128 \<equiv> 5326"
abbreviation Iop_I64UtoF128 :: IROp where "Iop_I64UtoF128 \<equiv> 5327"
abbreviation Iop_F32toF128 :: IROp where "Iop_F32toF128 \<equiv> 5328"
abbreviation Iop_F64toF128 :: IROp where "Iop_F64toF128 \<equiv> 5329"
abbreviation Iop_F128toI32S :: IROp where "Iop_F128toI32S \<equiv> 5330"
abbreviation Iop_F128toI64S :: IROp where "Iop_F128toI64S \<equiv> 5331"
abbreviation Iop_F128toI32U :: IROp where "Iop_F128toI32U \<equiv> 5332"
abbreviation Iop_F128toI64U :: IROp where "Iop_F128toI64U \<equiv> 5333"
abbreviation Iop_F128toI128S :: IROp where "Iop_F128toI128S \<equiv> 5334"
abbreviation Iop_F128toF64 :: IROp where "Iop_F128toF64 \<equiv> 5335"
abbreviation Iop_F128toF32 :: IROp where "Iop_F128toF32 \<equiv> 5336"
abbreviation Iop_RndF128 :: IROp where "Iop_RndF128 \<equiv> 5337"
abbreviation Iop_TruncF128toI32S :: IROp where "Iop_TruncF128toI32S \<equiv> 5338"
abbreviation Iop_TruncF128toI32U :: IROp where "Iop_TruncF128toI32U \<equiv> 5339"
abbreviation Iop_TruncF128toI64U :: IROp where "Iop_TruncF128toI64U \<equiv> 5340"
abbreviation Iop_TruncF128toI64S :: IROp where "Iop_TruncF128toI64S \<equiv> 5341"
abbreviation Iop_AtanF64 :: IROp where "Iop_AtanF64 \<equiv> 5342"
abbreviation Iop_Yl2xF64 :: IROp where "Iop_Yl2xF64 \<equiv> 5343"
abbreviation Iop_Yl2xp1F64 :: IROp where "Iop_Yl2xp1F64 \<equiv> 5344"
abbreviation Iop_PRemF64 :: IROp where "Iop_PRemF64 \<equiv> 5345"
abbreviation Iop_PRemC3210F64 :: IROp where "Iop_PRemC3210F64 \<equiv> 5346"
abbreviation Iop_PRem1F64 :: IROp where "Iop_PRem1F64 \<equiv> 5347"
abbreviation Iop_PRem1C3210F64 :: IROp where "Iop_PRem1C3210F64 \<equiv> 5348"
abbreviation Iop_ScaleF64 :: IROp where "Iop_ScaleF64 \<equiv> 5349"
abbreviation Iop_SinF64 :: IROp where "Iop_SinF64 \<equiv> 5350"
abbreviation Iop_CosF64 :: IROp where "Iop_CosF64 \<equiv> 5351"
abbreviation Iop_TanF64 :: IROp where "Iop_TanF64 \<equiv> 5352"
abbreviation Iop_2xm1F64 :: IROp where "Iop_2xm1F64 \<equiv> 5353"
abbreviation Iop_RoundF128toInt :: IROp where "Iop_RoundF128toInt \<equiv> 5354"
abbreviation Iop_RoundF64toInt :: IROp where "Iop_RoundF64toInt \<equiv> 5355"
abbreviation Iop_RoundF32toInt :: IROp where "Iop_RoundF32toInt \<equiv> 5356"
abbreviation Iop_MAddF32 :: IROp where "Iop_MAddF32 \<equiv> 5357"
abbreviation Iop_MSubF32 :: IROp where "Iop_MSubF32 \<equiv> 5358"
abbreviation Iop_MAddF64 :: IROp where "Iop_MAddF64 \<equiv> 5359"
abbreviation Iop_MSubF64 :: IROp where "Iop_MSubF64 \<equiv> 5360"
abbreviation Iop_MAddF64r32 :: IROp where "Iop_MAddF64r32 \<equiv> 5361"
abbreviation Iop_MSubF64r32 :: IROp where "Iop_MSubF64r32 \<equiv> 5362"
abbreviation Iop_RSqrtEst5GoodF64 :: IROp where "Iop_RSqrtEst5GoodF64 \<equiv> 5363"
abbreviation Iop_RoundF64toF64_NEAREST :: IROp where "Iop_RoundF64toF64_NEAREST \<equiv> 5364"
abbreviation Iop_RoundF64toF64_NegINF :: IROp where "Iop_RoundF64toF64_NegINF \<equiv> 5365"
abbreviation Iop_RoundF64toF64_PosINF :: IROp where "Iop_RoundF64toF64_PosINF \<equiv> 5366"
abbreviation Iop_RoundF64toF64_ZERO :: IROp where "Iop_RoundF64toF64_ZERO \<equiv> 5367"
abbreviation Iop_TruncF64asF32 :: IROp where "Iop_TruncF64asF32 \<equiv> 5368"
abbreviation Iop_RoundF64toF32 :: IROp where "Iop_RoundF64toF32 \<equiv> 5369"
abbreviation Iop_RecpExpF64 :: IROp where "Iop_RecpExpF64 \<equiv> 5370"
abbreviation Iop_RecpExpF32 :: IROp where "Iop_RecpExpF32 \<equiv> 5371"
abbreviation Iop_MaxNumF64 :: IROp where "Iop_MaxNumF64 \<equiv> 5372"
abbreviation Iop_MinNumF64 :: IROp where "Iop_MinNumF64 \<equiv> 5373"
abbreviation Iop_MaxNumF32 :: IROp where "Iop_MaxNumF32 \<equiv> 5374"
abbreviation Iop_MinNumF32 :: IROp where "Iop_MinNumF32 \<equiv> 5375"
abbreviation Iop_F16toF64 :: IROp where "Iop_F16toF64 \<equiv> 5376"
abbreviation Iop_F64toF16 :: IROp where "Iop_F64toF16 \<equiv> 5377"
abbreviation Iop_F16toF32 :: IROp where "Iop_F16toF32 \<equiv> 5378"
abbreviation Iop_F32toF16 :: IROp where "Iop_F32toF16 \<equiv> 5379"
abbreviation Iop_QAdd32S :: IROp where "Iop_QAdd32S \<equiv> 5380"
abbreviation Iop_QSub32S :: IROp where "Iop_QSub32S \<equiv> 5381"
abbreviation Iop_Add16x2 :: IROp where "Iop_Add16x2 \<equiv> 5382"
abbreviation Iop_Sub16x2 :: IROp where "Iop_Sub16x2 \<equiv> 5383"
abbreviation Iop_QAdd16Sx2 :: IROp where "Iop_QAdd16Sx2 \<equiv> 5384"
abbreviation Iop_QAdd16Ux2 :: IROp where "Iop_QAdd16Ux2 \<equiv> 5385"
abbreviation Iop_QSub16Sx2 :: IROp where "Iop_QSub16Sx2 \<equiv> 5386"
abbreviation Iop_QSub16Ux2 :: IROp where "Iop_QSub16Ux2 \<equiv> 5387"
abbreviation Iop_HAdd16Ux2 :: IROp where "Iop_HAdd16Ux2 \<equiv> 5388"
abbreviation Iop_HAdd16Sx2 :: IROp where "Iop_HAdd16Sx2 \<equiv> 5389"
abbreviation Iop_HSub16Ux2 :: IROp where "Iop_HSub16Ux2 \<equiv> 5390"
abbreviation Iop_HSub16Sx2 :: IROp where "Iop_HSub16Sx2 \<equiv> 5391"
abbreviation Iop_Add8x4 :: IROp where "Iop_Add8x4 \<equiv> 5392"
abbreviation Iop_Sub8x4 :: IROp where "Iop_Sub8x4 \<equiv> 5393"
abbreviation Iop_QAdd8Sx4 :: IROp where "Iop_QAdd8Sx4 \<equiv> 5394"
abbreviation Iop_QAdd8Ux4 :: IROp where "Iop_QAdd8Ux4 \<equiv> 5395"
abbreviation Iop_QSub8Sx4 :: IROp where "Iop_QSub8Sx4 \<equiv> 5396"
abbreviation Iop_QSub8Ux4 :: IROp where "Iop_QSub8Ux4 \<equiv> 5397"
abbreviation Iop_HAdd8Ux4 :: IROp where "Iop_HAdd8Ux4 \<equiv> 5398"
abbreviation Iop_HAdd8Sx4 :: IROp where "Iop_HAdd8Sx4 \<equiv> 5399"
abbreviation Iop_HSub8Ux4 :: IROp where "Iop_HSub8Ux4 \<equiv> 5400"
abbreviation Iop_HSub8Sx4 :: IROp where "Iop_HSub8Sx4 \<equiv> 5401"
abbreviation Iop_Sad8Ux4 :: IROp where "Iop_Sad8Ux4 \<equiv> 5402"
abbreviation Iop_CmpNEZ16x2 :: IROp where "Iop_CmpNEZ16x2 \<equiv> 5403"
abbreviation Iop_CmpNEZ8x4 :: IROp where "Iop_CmpNEZ8x4 \<equiv> 5404"
abbreviation Iop_I32UtoFx2 :: IROp where "Iop_I32UtoFx2 \<equiv> 5405"
abbreviation Iop_I32StoFx2 :: IROp where "Iop_I32StoFx2 \<equiv> 5406"
abbreviation Iop_FtoI32Ux2_RZ :: IROp where "Iop_FtoI32Ux2_RZ \<equiv> 5407"
abbreviation Iop_FtoI32Sx2_RZ :: IROp where "Iop_FtoI32Sx2_RZ \<equiv> 5408"
abbreviation Iop_F32ToFixed32Ux2_RZ :: IROp where "Iop_F32ToFixed32Ux2_RZ \<equiv> 5409"
abbreviation Iop_F32ToFixed32Sx2_RZ :: IROp where "Iop_F32ToFixed32Sx2_RZ \<equiv> 5410"
abbreviation Iop_Fixed32UToF32x2_RN :: IROp where "Iop_Fixed32UToF32x2_RN \<equiv> 5411"
abbreviation Iop_Fixed32SToF32x2_RN :: IROp where "Iop_Fixed32SToF32x2_RN \<equiv> 5412"
abbreviation Iop_Max32Fx2 :: IROp where "Iop_Max32Fx2 \<equiv> 5413"
abbreviation Iop_Min32Fx2 :: IROp where "Iop_Min32Fx2 \<equiv> 5414"
abbreviation Iop_PwMax32Fx2 :: IROp where "Iop_PwMax32Fx2 \<equiv> 5415"
abbreviation Iop_PwMin32Fx2 :: IROp where "Iop_PwMin32Fx2 \<equiv> 5416"
abbreviation Iop_CmpEQ32Fx2 :: IROp where "Iop_CmpEQ32Fx2 \<equiv> 5417"
abbreviation Iop_CmpGT32Fx2 :: IROp where "Iop_CmpGT32Fx2 \<equiv> 5418"
abbreviation Iop_CmpGE32Fx2 :: IROp where "Iop_CmpGE32Fx2 \<equiv> 5419"
abbreviation Iop_RecipEst32Fx2 :: IROp where "Iop_RecipEst32Fx2 \<equiv> 5420"
abbreviation Iop_RecipStep32Fx2 :: IROp where "Iop_RecipStep32Fx2 \<equiv> 5421"
abbreviation Iop_RSqrtEst32Fx2 :: IROp where "Iop_RSqrtEst32Fx2 \<equiv> 5422"
abbreviation Iop_RSqrtStep32Fx2 :: IROp where "Iop_RSqrtStep32Fx2 \<equiv> 5423"
abbreviation Iop_Neg32Fx2 :: IROp where "Iop_Neg32Fx2 \<equiv> 5424"
abbreviation Iop_Abs32Fx2 :: IROp where "Iop_Abs32Fx2 \<equiv> 5425"
abbreviation Iop_CmpNEZ8x8 :: IROp where "Iop_CmpNEZ8x8 \<equiv> 5426"
abbreviation Iop_CmpNEZ16x4 :: IROp where "Iop_CmpNEZ16x4 \<equiv> 5427"
abbreviation Iop_CmpNEZ32x2 :: IROp where "Iop_CmpNEZ32x2 \<equiv> 5428"
abbreviation Iop_Add8x8 :: IROp where "Iop_Add8x8 \<equiv> 5429"
abbreviation Iop_Add16x4 :: IROp where "Iop_Add16x4 \<equiv> 5430"
abbreviation Iop_Add32x2 :: IROp where "Iop_Add32x2 \<equiv> 5431"
abbreviation Iop_QAdd8Ux8 :: IROp where "Iop_QAdd8Ux8 \<equiv> 5432"
abbreviation Iop_QAdd16Ux4 :: IROp where "Iop_QAdd16Ux4 \<equiv> 5433"
abbreviation Iop_QAdd32Ux2 :: IROp where "Iop_QAdd32Ux2 \<equiv> 5434"
abbreviation Iop_QAdd64Ux1 :: IROp where "Iop_QAdd64Ux1 \<equiv> 5435"
abbreviation Iop_QAdd8Sx8 :: IROp where "Iop_QAdd8Sx8 \<equiv> 5436"
abbreviation Iop_QAdd16Sx4 :: IROp where "Iop_QAdd16Sx4 \<equiv> 5437"
abbreviation Iop_QAdd32Sx2 :: IROp where "Iop_QAdd32Sx2 \<equiv> 5438"
abbreviation Iop_QAdd64Sx1 :: IROp where "Iop_QAdd64Sx1 \<equiv> 5439"
abbreviation Iop_PwAdd8x8 :: IROp where "Iop_PwAdd8x8 \<equiv> 5440"
abbreviation Iop_PwAdd16x4 :: IROp where "Iop_PwAdd16x4 \<equiv> 5441"
abbreviation Iop_PwAdd32x2 :: IROp where "Iop_PwAdd32x2 \<equiv> 5442"
abbreviation Iop_PwMax8Sx8 :: IROp where "Iop_PwMax8Sx8 \<equiv> 5443"
abbreviation Iop_PwMax16Sx4 :: IROp where "Iop_PwMax16Sx4 \<equiv> 5444"
abbreviation Iop_PwMax32Sx2 :: IROp where "Iop_PwMax32Sx2 \<equiv> 5445"
abbreviation Iop_PwMax8Ux8 :: IROp where "Iop_PwMax8Ux8 \<equiv> 5446"
abbreviation Iop_PwMax16Ux4 :: IROp where "Iop_PwMax16Ux4 \<equiv> 5447"
abbreviation Iop_PwMax32Ux2 :: IROp where "Iop_PwMax32Ux2 \<equiv> 5448"
abbreviation Iop_PwMin8Sx8 :: IROp where "Iop_PwMin8Sx8 \<equiv> 5449"
abbreviation Iop_PwMin16Sx4 :: IROp where "Iop_PwMin16Sx4 \<equiv> 5450"
abbreviation Iop_PwMin32Sx2 :: IROp where "Iop_PwMin32Sx2 \<equiv> 5451"
abbreviation Iop_PwMin8Ux8 :: IROp where "Iop_PwMin8Ux8 \<equiv> 5452"
abbreviation Iop_PwMin16Ux4 :: IROp where "Iop_PwMin16Ux4 \<equiv> 5453"
abbreviation Iop_PwMin32Ux2 :: IROp where "Iop_PwMin32Ux2 \<equiv> 5454"
abbreviation Iop_PwAddL8Ux8 :: IROp where "Iop_PwAddL8Ux8 \<equiv> 5455"
abbreviation Iop_PwAddL16Ux4 :: IROp where "Iop_PwAddL16Ux4 \<equiv> 5456"
abbreviation Iop_PwAddL32Ux2 :: IROp where "Iop_PwAddL32Ux2 \<equiv> 5457"
abbreviation Iop_PwAddL8Sx8 :: IROp where "Iop_PwAddL8Sx8 \<equiv> 5458"
abbreviation Iop_PwAddL16Sx4 :: IROp where "Iop_PwAddL16Sx4 \<equiv> 5459"
abbreviation Iop_PwAddL32Sx2 :: IROp where "Iop_PwAddL32Sx2 \<equiv> 5460"
abbreviation Iop_Sub8x8 :: IROp where "Iop_Sub8x8 \<equiv> 5461"
abbreviation Iop_Sub16x4 :: IROp where "Iop_Sub16x4 \<equiv> 5462"
abbreviation Iop_Sub32x2 :: IROp where "Iop_Sub32x2 \<equiv> 5463"
abbreviation Iop_QSub8Ux8 :: IROp where "Iop_QSub8Ux8 \<equiv> 5464"
abbreviation Iop_QSub16Ux4 :: IROp where "Iop_QSub16Ux4 \<equiv> 5465"
abbreviation Iop_QSub32Ux2 :: IROp where "Iop_QSub32Ux2 \<equiv> 5466"
abbreviation Iop_QSub64Ux1 :: IROp where "Iop_QSub64Ux1 \<equiv> 5467"
abbreviation Iop_QSub8Sx8 :: IROp where "Iop_QSub8Sx8 \<equiv> 5468"
abbreviation Iop_QSub16Sx4 :: IROp where "Iop_QSub16Sx4 \<equiv> 5469"
abbreviation Iop_QSub32Sx2 :: IROp where "Iop_QSub32Sx2 \<equiv> 5470"
abbreviation Iop_QSub64Sx1 :: IROp where "Iop_QSub64Sx1 \<equiv> 5471"
abbreviation Iop_Abs8x8 :: IROp where "Iop_Abs8x8 \<equiv> 5472"
abbreviation Iop_Abs16x4 :: IROp where "Iop_Abs16x4 \<equiv> 5473"
abbreviation Iop_Abs32x2 :: IROp where "Iop_Abs32x2 \<equiv> 5474"
abbreviation Iop_Mul8x8 :: IROp where "Iop_Mul8x8 \<equiv> 5475"
abbreviation Iop_Mul16x4 :: IROp where "Iop_Mul16x4 \<equiv> 5476"
abbreviation Iop_Mul32x2 :: IROp where "Iop_Mul32x2 \<equiv> 5477"
abbreviation Iop_Mul32Fx2 :: IROp where "Iop_Mul32Fx2 \<equiv> 5478"
abbreviation Iop_MulHi16Ux4 :: IROp where "Iop_MulHi16Ux4 \<equiv> 5479"
abbreviation Iop_MulHi16Sx4 :: IROp where "Iop_MulHi16Sx4 \<equiv> 5480"
abbreviation Iop_PolynomialMul8x8 :: IROp where "Iop_PolynomialMul8x8 \<equiv> 5481"
abbreviation Iop_QDMulHi16Sx4 :: IROp where "Iop_QDMulHi16Sx4 \<equiv> 5482"
abbreviation Iop_QDMulHi32Sx2 :: IROp where "Iop_QDMulHi32Sx2 \<equiv> 5483"
abbreviation Iop_QRDMulHi16Sx4 :: IROp where "Iop_QRDMulHi16Sx4 \<equiv> 5484"
abbreviation Iop_QRDMulHi32Sx2 :: IROp where "Iop_QRDMulHi32Sx2 \<equiv> 5485"
abbreviation Iop_Avg8Ux8 :: IROp where "Iop_Avg8Ux8 \<equiv> 5486"
abbreviation Iop_Avg16Ux4 :: IROp where "Iop_Avg16Ux4 \<equiv> 5487"
abbreviation Iop_Max8Sx8 :: IROp where "Iop_Max8Sx8 \<equiv> 5488"
abbreviation Iop_Max16Sx4 :: IROp where "Iop_Max16Sx4 \<equiv> 5489"
abbreviation Iop_Max32Sx2 :: IROp where "Iop_Max32Sx2 \<equiv> 5490"
abbreviation Iop_Max8Ux8 :: IROp where "Iop_Max8Ux8 \<equiv> 5491"
abbreviation Iop_Max16Ux4 :: IROp where "Iop_Max16Ux4 \<equiv> 5492"
abbreviation Iop_Max32Ux2 :: IROp where "Iop_Max32Ux2 \<equiv> 5493"
abbreviation Iop_Min8Sx8 :: IROp where "Iop_Min8Sx8 \<equiv> 5494"
abbreviation Iop_Min16Sx4 :: IROp where "Iop_Min16Sx4 \<equiv> 5495"
abbreviation Iop_Min32Sx2 :: IROp where "Iop_Min32Sx2 \<equiv> 5496"
abbreviation Iop_Min8Ux8 :: IROp where "Iop_Min8Ux8 \<equiv> 5497"
abbreviation Iop_Min16Ux4 :: IROp where "Iop_Min16Ux4 \<equiv> 5498"
abbreviation Iop_Min32Ux2 :: IROp where "Iop_Min32Ux2 \<equiv> 5499"
abbreviation Iop_CmpEQ8x8 :: IROp where "Iop_CmpEQ8x8 \<equiv> 5500"
abbreviation Iop_CmpEQ16x4 :: IROp where "Iop_CmpEQ16x4 \<equiv> 5501"
abbreviation Iop_CmpEQ32x2 :: IROp where "Iop_CmpEQ32x2 \<equiv> 5502"
abbreviation Iop_CmpGT8Ux8 :: IROp where "Iop_CmpGT8Ux8 \<equiv> 5503"
abbreviation Iop_CmpGT16Ux4 :: IROp where "Iop_CmpGT16Ux4 \<equiv> 5504"
abbreviation Iop_CmpGT32Ux2 :: IROp where "Iop_CmpGT32Ux2 \<equiv> 5505"
abbreviation Iop_CmpGT8Sx8 :: IROp where "Iop_CmpGT8Sx8 \<equiv> 5506"
abbreviation Iop_CmpGT16Sx4 :: IROp where "Iop_CmpGT16Sx4 \<equiv> 5507"
abbreviation Iop_CmpGT32Sx2 :: IROp where "Iop_CmpGT32Sx2 \<equiv> 5508"
abbreviation Iop_Cnt8x8 :: IROp where "Iop_Cnt8x8 \<equiv> 5509"
abbreviation Iop_Clz8x8 :: IROp where "Iop_Clz8x8 \<equiv> 5510"
abbreviation Iop_Clz16x4 :: IROp where "Iop_Clz16x4 \<equiv> 5511"
abbreviation Iop_Clz32x2 :: IROp where "Iop_Clz32x2 \<equiv> 5512"
abbreviation Iop_Cls8x8 :: IROp where "Iop_Cls8x8 \<equiv> 5513"
abbreviation Iop_Cls16x4 :: IROp where "Iop_Cls16x4 \<equiv> 5514"
abbreviation Iop_Cls32x2 :: IROp where "Iop_Cls32x2 \<equiv> 5515"
abbreviation Iop_Clz64x2 :: IROp where "Iop_Clz64x2 \<equiv> 5516"
abbreviation Iop_Ctz8x16 :: IROp where "Iop_Ctz8x16 \<equiv> 5517"
abbreviation Iop_Ctz16x8 :: IROp where "Iop_Ctz16x8 \<equiv> 5518"
abbreviation Iop_Ctz32x4 :: IROp where "Iop_Ctz32x4 \<equiv> 5519"
abbreviation Iop_Ctz64x2 :: IROp where "Iop_Ctz64x2 \<equiv> 5520"
abbreviation Iop_Shl8x8 :: IROp where "Iop_Shl8x8 \<equiv> 5521"
abbreviation Iop_Shl16x4 :: IROp where "Iop_Shl16x4 \<equiv> 5522"
abbreviation Iop_Shl32x2 :: IROp where "Iop_Shl32x2 \<equiv> 5523"
abbreviation Iop_Shr8x8 :: IROp where "Iop_Shr8x8 \<equiv> 5524"
abbreviation Iop_Shr16x4 :: IROp where "Iop_Shr16x4 \<equiv> 5525"
abbreviation Iop_Shr32x2 :: IROp where "Iop_Shr32x2 \<equiv> 5526"
abbreviation Iop_Sar8x8 :: IROp where "Iop_Sar8x8 \<equiv> 5527"
abbreviation Iop_Sar16x4 :: IROp where "Iop_Sar16x4 \<equiv> 5528"
abbreviation Iop_Sar32x2 :: IROp where "Iop_Sar32x2 \<equiv> 5529"
abbreviation Iop_Sal8x8 :: IROp where "Iop_Sal8x8 \<equiv> 5530"
abbreviation Iop_Sal16x4 :: IROp where "Iop_Sal16x4 \<equiv> 5531"
abbreviation Iop_Sal32x2 :: IROp where "Iop_Sal32x2 \<equiv> 5532"
abbreviation Iop_Sal64x1 :: IROp where "Iop_Sal64x1 \<equiv> 5533"
abbreviation Iop_ShlN8x8 :: IROp where "Iop_ShlN8x8 \<equiv> 5534"
abbreviation Iop_ShlN16x4 :: IROp where "Iop_ShlN16x4 \<equiv> 5535"
abbreviation Iop_ShlN32x2 :: IROp where "Iop_ShlN32x2 \<equiv> 5536"
abbreviation Iop_ShrN8x8 :: IROp where "Iop_ShrN8x8 \<equiv> 5537"
abbreviation Iop_ShrN16x4 :: IROp where "Iop_ShrN16x4 \<equiv> 5538"
abbreviation Iop_ShrN32x2 :: IROp where "Iop_ShrN32x2 \<equiv> 5539"
abbreviation Iop_SarN8x8 :: IROp where "Iop_SarN8x8 \<equiv> 5540"
abbreviation Iop_SarN16x4 :: IROp where "Iop_SarN16x4 \<equiv> 5541"
abbreviation Iop_SarN32x2 :: IROp where "Iop_SarN32x2 \<equiv> 5542"
abbreviation Iop_QShl8x8 :: IROp where "Iop_QShl8x8 \<equiv> 5543"
abbreviation Iop_QShl16x4 :: IROp where "Iop_QShl16x4 \<equiv> 5544"
abbreviation Iop_QShl32x2 :: IROp where "Iop_QShl32x2 \<equiv> 5545"
abbreviation Iop_QShl64x1 :: IROp where "Iop_QShl64x1 \<equiv> 5546"
abbreviation Iop_QSal8x8 :: IROp where "Iop_QSal8x8 \<equiv> 5547"
abbreviation Iop_QSal16x4 :: IROp where "Iop_QSal16x4 \<equiv> 5548"
abbreviation Iop_QSal32x2 :: IROp where "Iop_QSal32x2 \<equiv> 5549"
abbreviation Iop_QSal64x1 :: IROp where "Iop_QSal64x1 \<equiv> 5550"
abbreviation Iop_QShlNsatSU8x8 :: IROp where "Iop_QShlNsatSU8x8 \<equiv> 5551"
abbreviation Iop_QShlNsatSU16x4 :: IROp where "Iop_QShlNsatSU16x4 \<equiv> 5552"
abbreviation Iop_QShlNsatSU32x2 :: IROp where "Iop_QShlNsatSU32x2 \<equiv> 5553"
abbreviation Iop_QShlNsatSU64x1 :: IROp where "Iop_QShlNsatSU64x1 \<equiv> 5554"
abbreviation Iop_QShlNsatUU8x8 :: IROp where "Iop_QShlNsatUU8x8 \<equiv> 5555"
abbreviation Iop_QShlNsatUU16x4 :: IROp where "Iop_QShlNsatUU16x4 \<equiv> 5556"
abbreviation Iop_QShlNsatUU32x2 :: IROp where "Iop_QShlNsatUU32x2 \<equiv> 5557"
abbreviation Iop_QShlNsatUU64x1 :: IROp where "Iop_QShlNsatUU64x1 \<equiv> 5558"
abbreviation Iop_QShlNsatSS8x8 :: IROp where "Iop_QShlNsatSS8x8 \<equiv> 5559"
abbreviation Iop_QShlNsatSS16x4 :: IROp where "Iop_QShlNsatSS16x4 \<equiv> 5560"
abbreviation Iop_QShlNsatSS32x2 :: IROp where "Iop_QShlNsatSS32x2 \<equiv> 5561"
abbreviation Iop_QShlNsatSS64x1 :: IROp where "Iop_QShlNsatSS64x1 \<equiv> 5562"
abbreviation Iop_QNarrowBin16Sto8Ux8 :: IROp where "Iop_QNarrowBin16Sto8Ux8 \<equiv> 5563"
abbreviation Iop_QNarrowBin16Sto8Sx8 :: IROp where "Iop_QNarrowBin16Sto8Sx8 \<equiv> 5564"
abbreviation Iop_QNarrowBin32Sto16Sx4 :: IROp where "Iop_QNarrowBin32Sto16Sx4 \<equiv> 5565"
abbreviation Iop_NarrowBin16to8x8 :: IROp where "Iop_NarrowBin16to8x8 \<equiv> 5566"
abbreviation Iop_NarrowBin32to16x4 :: IROp where "Iop_NarrowBin32to16x4 \<equiv> 5567"
abbreviation Iop_InterleaveHI8x8 :: IROp where "Iop_InterleaveHI8x8 \<equiv> 5568"
abbreviation Iop_InterleaveHI16x4 :: IROp where "Iop_InterleaveHI16x4 \<equiv> 5569"
abbreviation Iop_InterleaveHI32x2 :: IROp where "Iop_InterleaveHI32x2 \<equiv> 5570"
abbreviation Iop_InterleaveLO8x8 :: IROp where "Iop_InterleaveLO8x8 \<equiv> 5571"
abbreviation Iop_InterleaveLO16x4 :: IROp where "Iop_InterleaveLO16x4 \<equiv> 5572"
abbreviation Iop_InterleaveLO32x2 :: IROp where "Iop_InterleaveLO32x2 \<equiv> 5573"
abbreviation Iop_InterleaveOddLanes8x8 :: IROp where "Iop_InterleaveOddLanes8x8 \<equiv> 5574"
abbreviation Iop_InterleaveEvenLanes8x8 :: IROp where "Iop_InterleaveEvenLanes8x8 \<equiv> 5575"
abbreviation Iop_InterleaveOddLanes16x4 :: IROp where "Iop_InterleaveOddLanes16x4 \<equiv> 5576"
abbreviation Iop_InterleaveEvenLanes16x4 :: IROp where "Iop_InterleaveEvenLanes16x4 \<equiv> 5577"
abbreviation Iop_CatOddLanes8x8 :: IROp where "Iop_CatOddLanes8x8 \<equiv> 5578"
abbreviation Iop_CatOddLanes16x4 :: IROp where "Iop_CatOddLanes16x4 \<equiv> 5579"
abbreviation Iop_CatEvenLanes8x8 :: IROp where "Iop_CatEvenLanes8x8 \<equiv> 5580"
abbreviation Iop_CatEvenLanes16x4 :: IROp where "Iop_CatEvenLanes16x4 \<equiv> 5581"
abbreviation Iop_GetElem8x8 :: IROp where "Iop_GetElem8x8 \<equiv> 5582"
abbreviation Iop_GetElem16x4 :: IROp where "Iop_GetElem16x4 \<equiv> 5583"
abbreviation Iop_GetElem32x2 :: IROp where "Iop_GetElem32x2 \<equiv> 5584"
abbreviation Iop_SetElem8x8 :: IROp where "Iop_SetElem8x8 \<equiv> 5585"
abbreviation Iop_SetElem16x4 :: IROp where "Iop_SetElem16x4 \<equiv> 5586"
abbreviation Iop_SetElem32x2 :: IROp where "Iop_SetElem32x2 \<equiv> 5587"
abbreviation Iop_Dup8x8 :: IROp where "Iop_Dup8x8 \<equiv> 5588"
abbreviation Iop_Dup16x4 :: IROp where "Iop_Dup16x4 \<equiv> 5589"
abbreviation Iop_Dup32x2 :: IROp where "Iop_Dup32x2 \<equiv> 5590"
abbreviation Iop_Slice64 :: IROp where "Iop_Slice64 \<equiv> 5591"
abbreviation Iop_Reverse8sIn16_x4 :: IROp where "Iop_Reverse8sIn16_x4 \<equiv> 5592"
abbreviation Iop_Reverse8sIn32_x2 :: IROp where "Iop_Reverse8sIn32_x2 \<equiv> 5593"
abbreviation Iop_Reverse16sIn32_x2 :: IROp where "Iop_Reverse16sIn32_x2 \<equiv> 5594"
abbreviation Iop_Reverse8sIn64_x1 :: IROp where "Iop_Reverse8sIn64_x1 \<equiv> 5595"
abbreviation Iop_Reverse16sIn64_x1 :: IROp where "Iop_Reverse16sIn64_x1 \<equiv> 5596"
abbreviation Iop_Reverse32sIn64_x1 :: IROp where "Iop_Reverse32sIn64_x1 \<equiv> 5597"
abbreviation Iop_Perm8x8 :: IROp where "Iop_Perm8x8 \<equiv> 5598"
abbreviation Iop_GetMSBs8x8 :: IROp where "Iop_GetMSBs8x8 \<equiv> 5599"
abbreviation Iop_RecipEst32Ux2 :: IROp where "Iop_RecipEst32Ux2 \<equiv> 5600"
abbreviation Iop_RSqrtEst32Ux2 :: IROp where "Iop_RSqrtEst32Ux2 \<equiv> 5601"
abbreviation Iop_AddD64 :: IROp where "Iop_AddD64 \<equiv> 5602"
abbreviation Iop_SubD64 :: IROp where "Iop_SubD64 \<equiv> 5603"
abbreviation Iop_MulD64 :: IROp where "Iop_MulD64 \<equiv> 5604"
abbreviation Iop_DivD64 :: IROp where "Iop_DivD64 \<equiv> 5605"
abbreviation Iop_AddD128 :: IROp where "Iop_AddD128 \<equiv> 5606"
abbreviation Iop_SubD128 :: IROp where "Iop_SubD128 \<equiv> 5607"
abbreviation Iop_MulD128 :: IROp where "Iop_MulD128 \<equiv> 5608"
abbreviation Iop_DivD128 :: IROp where "Iop_DivD128 \<equiv> 5609"
abbreviation Iop_ShlD64 :: IROp where "Iop_ShlD64 \<equiv> 5610"
abbreviation Iop_ShrD64 :: IROp where "Iop_ShrD64 \<equiv> 5611"
abbreviation Iop_ShlD128 :: IROp where "Iop_ShlD128 \<equiv> 5612"
abbreviation Iop_ShrD128 :: IROp where "Iop_ShrD128 \<equiv> 5613"
abbreviation Iop_D32toD64 :: IROp where "Iop_D32toD64 \<equiv> 5614"
abbreviation Iop_D64toD128 :: IROp where "Iop_D64toD128 \<equiv> 5615"
abbreviation Iop_I32StoD128 :: IROp where "Iop_I32StoD128 \<equiv> 5616"
abbreviation Iop_I32UtoD128 :: IROp where "Iop_I32UtoD128 \<equiv> 5617"
abbreviation Iop_I64StoD128 :: IROp where "Iop_I64StoD128 \<equiv> 5618"
abbreviation Iop_I64UtoD128 :: IROp where "Iop_I64UtoD128 \<equiv> 5619"
abbreviation Iop_D64toD32 :: IROp where "Iop_D64toD32 \<equiv> 5620"
abbreviation Iop_D128toD64 :: IROp where "Iop_D128toD64 \<equiv> 5621"
abbreviation Iop_I32StoD64 :: IROp where "Iop_I32StoD64 \<equiv> 5622"
abbreviation Iop_I32UtoD64 :: IROp where "Iop_I32UtoD64 \<equiv> 5623"
abbreviation Iop_I64StoD64 :: IROp where "Iop_I64StoD64 \<equiv> 5624"
abbreviation Iop_I64UtoD64 :: IROp where "Iop_I64UtoD64 \<equiv> 5625"
abbreviation Iop_D64toI32S :: IROp where "Iop_D64toI32S \<equiv> 5626"
abbreviation Iop_D64toI32U :: IROp where "Iop_D64toI32U \<equiv> 5627"
abbreviation Iop_D64toI64S :: IROp where "Iop_D64toI64S \<equiv> 5628"
abbreviation Iop_D64toI64U :: IROp where "Iop_D64toI64U \<equiv> 5629"
abbreviation Iop_D128toI32S :: IROp where "Iop_D128toI32S \<equiv> 5630"
abbreviation Iop_D128toI32U :: IROp where "Iop_D128toI32U \<equiv> 5631"
abbreviation Iop_D128toI64S :: IROp where "Iop_D128toI64S \<equiv> 5632"
abbreviation Iop_D128toI64U :: IROp where "Iop_D128toI64U \<equiv> 5633"
abbreviation Iop_F32toD32 :: IROp where "Iop_F32toD32 \<equiv> 5634"
abbreviation Iop_F32toD64 :: IROp where "Iop_F32toD64 \<equiv> 5635"
abbreviation Iop_F32toD128 :: IROp where "Iop_F32toD128 \<equiv> 5636"
abbreviation Iop_F64toD32 :: IROp where "Iop_F64toD32 \<equiv> 5637"
abbreviation Iop_F64toD64 :: IROp where "Iop_F64toD64 \<equiv> 5638"
abbreviation Iop_F64toD128 :: IROp where "Iop_F64toD128 \<equiv> 5639"
abbreviation Iop_F128toD32 :: IROp where "Iop_F128toD32 \<equiv> 5640"
abbreviation Iop_F128toD64 :: IROp where "Iop_F128toD64 \<equiv> 5641"
abbreviation Iop_F128toD128 :: IROp where "Iop_F128toD128 \<equiv> 5642"
abbreviation Iop_D32toF32 :: IROp where "Iop_D32toF32 \<equiv> 5643"
abbreviation Iop_D32toF64 :: IROp where "Iop_D32toF64 \<equiv> 5644"
abbreviation Iop_D32toF128 :: IROp where "Iop_D32toF128 \<equiv> 5645"
abbreviation Iop_D64toF32 :: IROp where "Iop_D64toF32 \<equiv> 5646"
abbreviation Iop_D64toF64 :: IROp where "Iop_D64toF64 \<equiv> 5647"
abbreviation Iop_D64toF128 :: IROp where "Iop_D64toF128 \<equiv> 5648"
abbreviation Iop_D128toF32 :: IROp where "Iop_D128toF32 \<equiv> 5649"
abbreviation Iop_D128toF64 :: IROp where "Iop_D128toF64 \<equiv> 5650"
abbreviation Iop_D128toF128 :: IROp where "Iop_D128toF128 \<equiv> 5651"
abbreviation Iop_RoundD64toInt :: IROp where "Iop_RoundD64toInt \<equiv> 5652"
abbreviation Iop_RoundD128toInt :: IROp where "Iop_RoundD128toInt \<equiv> 5653"
abbreviation Iop_CmpD64 :: IROp where "Iop_CmpD64 \<equiv> 5654"
abbreviation Iop_CmpD128 :: IROp where "Iop_CmpD128 \<equiv> 5655"
abbreviation Iop_CmpExpD64 :: IROp where "Iop_CmpExpD64 \<equiv> 5656"
abbreviation Iop_CmpExpD128 :: IROp where "Iop_CmpExpD128 \<equiv> 5657"
abbreviation Iop_QuantizeD64 :: IROp where "Iop_QuantizeD64 \<equiv> 5658"
abbreviation Iop_QuantizeD128 :: IROp where "Iop_QuantizeD128 \<equiv> 5659"
abbreviation Iop_SignificanceRoundD64 :: IROp where "Iop_SignificanceRoundD64 \<equiv> 5660"
abbreviation Iop_SignificanceRoundD128 :: IROp where "Iop_SignificanceRoundD128 \<equiv> 5661"
abbreviation Iop_ExtractExpD64 :: IROp where "Iop_ExtractExpD64 \<equiv> 5662"
abbreviation Iop_ExtractExpD128 :: IROp where "Iop_ExtractExpD128 \<equiv> 5663"
abbreviation Iop_ExtractSigD64 :: IROp where "Iop_ExtractSigD64 \<equiv> 5664"
abbreviation Iop_ExtractSigD128 :: IROp where "Iop_ExtractSigD128 \<equiv> 5665"
abbreviation Iop_InsertExpD64 :: IROp where "Iop_InsertExpD64 \<equiv> 5666"
abbreviation Iop_InsertExpD128 :: IROp where "Iop_InsertExpD128 \<equiv> 5667"
abbreviation Iop_D64HLtoD128 :: IROp where "Iop_D64HLtoD128 \<equiv> 5668"
abbreviation Iop_D128HItoD64 :: IROp where "Iop_D128HItoD64 \<equiv> 5669"
abbreviation Iop_D128LOtoD64 :: IROp where "Iop_D128LOtoD64 \<equiv> 5670"
abbreviation Iop_DPBtoBCD :: IROp where "Iop_DPBtoBCD \<equiv> 5671"
abbreviation Iop_BCDtoDPB :: IROp where "Iop_BCDtoDPB \<equiv> 5672"
abbreviation Iop_BCDAdd :: IROp where "Iop_BCDAdd \<equiv> 5673"
abbreviation Iop_BCDSub :: IROp where "Iop_BCDSub \<equiv> 5674"
abbreviation Iop_I128StoBCD128 :: IROp where "Iop_I128StoBCD128 \<equiv> 5675"
abbreviation Iop_BCD128toI128S :: IROp where "Iop_BCD128toI128S \<equiv> 5676"
abbreviation Iop_ReinterpI64asD64 :: IROp where "Iop_ReinterpI64asD64 \<equiv> 5677"
abbreviation Iop_ReinterpD64asI64 :: IROp where "Iop_ReinterpD64asI64 \<equiv> 5678"
abbreviation Iop_Add32Fx4 :: IROp where "Iop_Add32Fx4 \<equiv> 5679"
abbreviation Iop_Sub32Fx4 :: IROp where "Iop_Sub32Fx4 \<equiv> 5680"
abbreviation Iop_Mul32Fx4 :: IROp where "Iop_Mul32Fx4 \<equiv> 5681"
abbreviation Iop_Div32Fx4 :: IROp where "Iop_Div32Fx4 \<equiv> 5682"
abbreviation Iop_Max32Fx4 :: IROp where "Iop_Max32Fx4 \<equiv> 5683"
abbreviation Iop_Min32Fx4 :: IROp where "Iop_Min32Fx4 \<equiv> 5684"
abbreviation Iop_Add32Fx2 :: IROp where "Iop_Add32Fx2 \<equiv> 5685"
abbreviation Iop_Sub32Fx2 :: IROp where "Iop_Sub32Fx2 \<equiv> 5686"
abbreviation Iop_CmpEQ32Fx4 :: IROp where "Iop_CmpEQ32Fx4 \<equiv> 5687"
abbreviation Iop_CmpLT32Fx4 :: IROp where "Iop_CmpLT32Fx4 \<equiv> 5688"
abbreviation Iop_CmpLE32Fx4 :: IROp where "Iop_CmpLE32Fx4 \<equiv> 5689"
abbreviation Iop_CmpUN32Fx4 :: IROp where "Iop_CmpUN32Fx4 \<equiv> 5690"
abbreviation Iop_CmpGT32Fx4 :: IROp where "Iop_CmpGT32Fx4 \<equiv> 5691"
abbreviation Iop_CmpGE32Fx4 :: IROp where "Iop_CmpGE32Fx4 \<equiv> 5692"
abbreviation Iop_PwMax32Fx4 :: IROp where "Iop_PwMax32Fx4 \<equiv> 5693"
abbreviation Iop_PwMin32Fx4 :: IROp where "Iop_PwMin32Fx4 \<equiv> 5694"
abbreviation Iop_Abs32Fx4 :: IROp where "Iop_Abs32Fx4 \<equiv> 5695"
abbreviation Iop_Neg32Fx4 :: IROp where "Iop_Neg32Fx4 \<equiv> 5696"
abbreviation Iop_Sqrt32Fx4 :: IROp where "Iop_Sqrt32Fx4 \<equiv> 5697"
abbreviation Iop_RecipEst32Fx4 :: IROp where "Iop_RecipEst32Fx4 \<equiv> 5698"
abbreviation Iop_RecipStep32Fx4 :: IROp where "Iop_RecipStep32Fx4 \<equiv> 5699"
abbreviation Iop_RSqrtEst32Fx4 :: IROp where "Iop_RSqrtEst32Fx4 \<equiv> 5700"
abbreviation Iop_RSqrtStep32Fx4 :: IROp where "Iop_RSqrtStep32Fx4 \<equiv> 5701"
abbreviation Iop_I32UtoFx4 :: IROp where "Iop_I32UtoFx4 \<equiv> 5702"
abbreviation Iop_I32StoFx4 :: IROp where "Iop_I32StoFx4 \<equiv> 5703"
abbreviation Iop_FtoI32Ux4_RZ :: IROp where "Iop_FtoI32Ux4_RZ \<equiv> 5704"
abbreviation Iop_FtoI32Sx4_RZ :: IROp where "Iop_FtoI32Sx4_RZ \<equiv> 5705"
abbreviation Iop_QFtoI32Ux4_RZ :: IROp where "Iop_QFtoI32Ux4_RZ \<equiv> 5706"
abbreviation Iop_QFtoI32Sx4_RZ :: IROp where "Iop_QFtoI32Sx4_RZ \<equiv> 5707"
abbreviation Iop_RoundF32x4_RM :: IROp where "Iop_RoundF32x4_RM \<equiv> 5708"
abbreviation Iop_RoundF32x4_RP :: IROp where "Iop_RoundF32x4_RP \<equiv> 5709"
abbreviation Iop_RoundF32x4_RN :: IROp where "Iop_RoundF32x4_RN \<equiv> 5710"
abbreviation Iop_RoundF32x4_RZ :: IROp where "Iop_RoundF32x4_RZ \<equiv> 5711"
abbreviation Iop_F32ToFixed32Ux4_RZ :: IROp where "Iop_F32ToFixed32Ux4_RZ \<equiv> 5712"
abbreviation Iop_F32ToFixed32Sx4_RZ :: IROp where "Iop_F32ToFixed32Sx4_RZ \<equiv> 5713"
abbreviation Iop_Fixed32UToF32x4_RN :: IROp where "Iop_Fixed32UToF32x4_RN \<equiv> 5714"
abbreviation Iop_Fixed32SToF32x4_RN :: IROp where "Iop_Fixed32SToF32x4_RN \<equiv> 5715"
abbreviation Iop_F32toF16x4 :: IROp where "Iop_F32toF16x4 \<equiv> 5716"
abbreviation Iop_F16toF32x4 :: IROp where "Iop_F16toF32x4 \<equiv> 5717"
abbreviation Iop_F64toF16x2 :: IROp where "Iop_F64toF16x2 \<equiv> 5718"
abbreviation Iop_F16toF64x2 :: IROp where "Iop_F16toF64x2 \<equiv> 5719"
abbreviation Iop_Add32F0x4 :: IROp where "Iop_Add32F0x4 \<equiv> 5720"
abbreviation Iop_Sub32F0x4 :: IROp where "Iop_Sub32F0x4 \<equiv> 5721"
abbreviation Iop_Mul32F0x4 :: IROp where "Iop_Mul32F0x4 \<equiv> 5722"
abbreviation Iop_Div32F0x4 :: IROp where "Iop_Div32F0x4 \<equiv> 5723"
abbreviation Iop_Max32F0x4 :: IROp where "Iop_Max32F0x4 \<equiv> 5724"
abbreviation Iop_Min32F0x4 :: IROp where "Iop_Min32F0x4 \<equiv> 5725"
abbreviation Iop_CmpEQ32F0x4 :: IROp where "Iop_CmpEQ32F0x4 \<equiv> 5726"
abbreviation Iop_CmpLT32F0x4 :: IROp where "Iop_CmpLT32F0x4 \<equiv> 5727"
abbreviation Iop_CmpLE32F0x4 :: IROp where "Iop_CmpLE32F0x4 \<equiv> 5728"
abbreviation Iop_CmpUN32F0x4 :: IROp where "Iop_CmpUN32F0x4 \<equiv> 5729"
abbreviation Iop_RecipEst32F0x4 :: IROp where "Iop_RecipEst32F0x4 \<equiv> 5730"
abbreviation Iop_Sqrt32F0x4 :: IROp where "Iop_Sqrt32F0x4 \<equiv> 5731"
abbreviation Iop_RSqrtEst32F0x4 :: IROp where "Iop_RSqrtEst32F0x4 \<equiv> 5732"
abbreviation Iop_Add64Fx2 :: IROp where "Iop_Add64Fx2 \<equiv> 5733"
abbreviation Iop_Sub64Fx2 :: IROp where "Iop_Sub64Fx2 \<equiv> 5734"
abbreviation Iop_Mul64Fx2 :: IROp where "Iop_Mul64Fx2 \<equiv> 5735"
abbreviation Iop_Div64Fx2 :: IROp where "Iop_Div64Fx2 \<equiv> 5736"
abbreviation Iop_Max64Fx2 :: IROp where "Iop_Max64Fx2 \<equiv> 5737"
abbreviation Iop_Min64Fx2 :: IROp where "Iop_Min64Fx2 \<equiv> 5738"
abbreviation Iop_CmpEQ64Fx2 :: IROp where "Iop_CmpEQ64Fx2 \<equiv> 5739"
abbreviation Iop_CmpLT64Fx2 :: IROp where "Iop_CmpLT64Fx2 \<equiv> 5740"
abbreviation Iop_CmpLE64Fx2 :: IROp where "Iop_CmpLE64Fx2 \<equiv> 5741"
abbreviation Iop_CmpUN64Fx2 :: IROp where "Iop_CmpUN64Fx2 \<equiv> 5742"
abbreviation Iop_Abs64Fx2 :: IROp where "Iop_Abs64Fx2 \<equiv> 5743"
abbreviation Iop_Neg64Fx2 :: IROp where "Iop_Neg64Fx2 \<equiv> 5744"
abbreviation Iop_Sqrt64Fx2 :: IROp where "Iop_Sqrt64Fx2 \<equiv> 5745"
abbreviation Iop_RecipEst64Fx2 :: IROp where "Iop_RecipEst64Fx2 \<equiv> 5746"
abbreviation Iop_RecipStep64Fx2 :: IROp where "Iop_RecipStep64Fx2 \<equiv> 5747"
abbreviation Iop_RSqrtEst64Fx2 :: IROp where "Iop_RSqrtEst64Fx2 \<equiv> 5748"
abbreviation Iop_RSqrtStep64Fx2 :: IROp where "Iop_RSqrtStep64Fx2 \<equiv> 5749"
abbreviation Iop_Add64F0x2 :: IROp where "Iop_Add64F0x2 \<equiv> 5750"
abbreviation Iop_Sub64F0x2 :: IROp where "Iop_Sub64F0x2 \<equiv> 5751"
abbreviation Iop_Mul64F0x2 :: IROp where "Iop_Mul64F0x2 \<equiv> 5752"
abbreviation Iop_Div64F0x2 :: IROp where "Iop_Div64F0x2 \<equiv> 5753"
abbreviation Iop_Max64F0x2 :: IROp where "Iop_Max64F0x2 \<equiv> 5754"
abbreviation Iop_Min64F0x2 :: IROp where "Iop_Min64F0x2 \<equiv> 5755"
abbreviation Iop_CmpEQ64F0x2 :: IROp where "Iop_CmpEQ64F0x2 \<equiv> 5756"
abbreviation Iop_CmpLT64F0x2 :: IROp where "Iop_CmpLT64F0x2 \<equiv> 5757"
abbreviation Iop_CmpLE64F0x2 :: IROp where "Iop_CmpLE64F0x2 \<equiv> 5758"
abbreviation Iop_CmpUN64F0x2 :: IROp where "Iop_CmpUN64F0x2 \<equiv> 5759"
abbreviation Iop_Sqrt64F0x2 :: IROp where "Iop_Sqrt64F0x2 \<equiv> 5760"
abbreviation Iop_V128to64 :: IROp where "Iop_V128to64 \<equiv> 5761"
abbreviation Iop_V128HIto64 :: IROp where "Iop_V128HIto64 \<equiv> 5762"
abbreviation Iop_64HLtoV128 :: IROp where "Iop_64HLtoV128 \<equiv> 5763"
abbreviation Iop_64UtoV128 :: IROp where "Iop_64UtoV128 \<equiv> 5764"
abbreviation Iop_SetV128lo64 :: IROp where "Iop_SetV128lo64 \<equiv> 5765"
abbreviation Iop_ZeroHI64ofV128 :: IROp where "Iop_ZeroHI64ofV128 \<equiv> 5766"
abbreviation Iop_ZeroHI96ofV128 :: IROp where "Iop_ZeroHI96ofV128 \<equiv> 5767"
abbreviation Iop_ZeroHI112ofV128 :: IROp where "Iop_ZeroHI112ofV128 \<equiv> 5768"
abbreviation Iop_ZeroHI120ofV128 :: IROp where "Iop_ZeroHI120ofV128 \<equiv> 5769"
abbreviation Iop_32UtoV128 :: IROp where "Iop_32UtoV128 \<equiv> 5770"
abbreviation Iop_V128to32 :: IROp where "Iop_V128to32 \<equiv> 5771"
abbreviation Iop_SetV128lo32 :: IROp where "Iop_SetV128lo32 \<equiv> 5772"
abbreviation Iop_NotV128 :: IROp where "Iop_NotV128 \<equiv> 5773"
abbreviation Iop_AndV128 :: IROp where "Iop_AndV128 \<equiv> 5774"
abbreviation Iop_OrV128 :: IROp where "Iop_OrV128 \<equiv> 5775"
abbreviation Iop_XorV128 :: IROp where "Iop_XorV128 \<equiv> 5776"
abbreviation Iop_ShlV128 :: IROp where "Iop_ShlV128 \<equiv> 5777"
abbreviation Iop_ShrV128 :: IROp where "Iop_ShrV128 \<equiv> 5778"
abbreviation Iop_CmpNEZ8x16 :: IROp where "Iop_CmpNEZ8x16 \<equiv> 5779"
abbreviation Iop_CmpNEZ16x8 :: IROp where "Iop_CmpNEZ16x8 \<equiv> 5780"
abbreviation Iop_CmpNEZ32x4 :: IROp where "Iop_CmpNEZ32x4 \<equiv> 5781"
abbreviation Iop_CmpNEZ64x2 :: IROp where "Iop_CmpNEZ64x2 \<equiv> 5782"
abbreviation Iop_Add8x16 :: IROp where "Iop_Add8x16 \<equiv> 5783"
abbreviation Iop_Add16x8 :: IROp where "Iop_Add16x8 \<equiv> 5784"
abbreviation Iop_Add32x4 :: IROp where "Iop_Add32x4 \<equiv> 5785"
abbreviation Iop_Add64x2 :: IROp where "Iop_Add64x2 \<equiv> 5786"
abbreviation Iop_QAdd8Ux16 :: IROp where "Iop_QAdd8Ux16 \<equiv> 5787"
abbreviation Iop_QAdd16Ux8 :: IROp where "Iop_QAdd16Ux8 \<equiv> 5788"
abbreviation Iop_QAdd32Ux4 :: IROp where "Iop_QAdd32Ux4 \<equiv> 5789"
abbreviation Iop_QAdd64Ux2 :: IROp where "Iop_QAdd64Ux2 \<equiv> 5790"
abbreviation Iop_QAdd8Sx16 :: IROp where "Iop_QAdd8Sx16 \<equiv> 5791"
abbreviation Iop_QAdd16Sx8 :: IROp where "Iop_QAdd16Sx8 \<equiv> 5792"
abbreviation Iop_QAdd32Sx4 :: IROp where "Iop_QAdd32Sx4 \<equiv> 5793"
abbreviation Iop_QAdd64Sx2 :: IROp where "Iop_QAdd64Sx2 \<equiv> 5794"
abbreviation Iop_QAddExtUSsatSS8x16 :: IROp where "Iop_QAddExtUSsatSS8x16 \<equiv> 5795"
abbreviation Iop_QAddExtUSsatSS16x8 :: IROp where "Iop_QAddExtUSsatSS16x8 \<equiv> 5796"
abbreviation Iop_QAddExtUSsatSS32x4 :: IROp where "Iop_QAddExtUSsatSS32x4 \<equiv> 5797"
abbreviation Iop_QAddExtUSsatSS64x2 :: IROp where "Iop_QAddExtUSsatSS64x2 \<equiv> 5798"
abbreviation Iop_QAddExtSUsatUU8x16 :: IROp where "Iop_QAddExtSUsatUU8x16 \<equiv> 5799"
abbreviation Iop_QAddExtSUsatUU16x8 :: IROp where "Iop_QAddExtSUsatUU16x8 \<equiv> 5800"
abbreviation Iop_QAddExtSUsatUU32x4 :: IROp where "Iop_QAddExtSUsatUU32x4 \<equiv> 5801"
abbreviation Iop_QAddExtSUsatUU64x2 :: IROp where "Iop_QAddExtSUsatUU64x2 \<equiv> 5802"
abbreviation Iop_Sub8x16 :: IROp where "Iop_Sub8x16 \<equiv> 5803"
abbreviation Iop_Sub16x8 :: IROp where "Iop_Sub16x8 \<equiv> 5804"
abbreviation Iop_Sub32x4 :: IROp where "Iop_Sub32x4 \<equiv> 5805"
abbreviation Iop_Sub64x2 :: IROp where "Iop_Sub64x2 \<equiv> 5806"
abbreviation Iop_QSub8Ux16 :: IROp where "Iop_QSub8Ux16 \<equiv> 5807"
abbreviation Iop_QSub16Ux8 :: IROp where "Iop_QSub16Ux8 \<equiv> 5808"
abbreviation Iop_QSub32Ux4 :: IROp where "Iop_QSub32Ux4 \<equiv> 5809"
abbreviation Iop_QSub64Ux2 :: IROp where "Iop_QSub64Ux2 \<equiv> 5810"
abbreviation Iop_QSub8Sx16 :: IROp where "Iop_QSub8Sx16 \<equiv> 5811"
abbreviation Iop_QSub16Sx8 :: IROp where "Iop_QSub16Sx8 \<equiv> 5812"
abbreviation Iop_QSub32Sx4 :: IROp where "Iop_QSub32Sx4 \<equiv> 5813"
abbreviation Iop_QSub64Sx2 :: IROp where "Iop_QSub64Sx2 \<equiv> 5814"
abbreviation Iop_Mul8x16 :: IROp where "Iop_Mul8x16 \<equiv> 5815"
abbreviation Iop_Mul16x8 :: IROp where "Iop_Mul16x8 \<equiv> 5816"
abbreviation Iop_Mul32x4 :: IROp where "Iop_Mul32x4 \<equiv> 5817"
abbreviation Iop_MulHi16Ux8 :: IROp where "Iop_MulHi16Ux8 \<equiv> 5818"
abbreviation Iop_MulHi32Ux4 :: IROp where "Iop_MulHi32Ux4 \<equiv> 5819"
abbreviation Iop_MulHi16Sx8 :: IROp where "Iop_MulHi16Sx8 \<equiv> 5820"
abbreviation Iop_MulHi32Sx4 :: IROp where "Iop_MulHi32Sx4 \<equiv> 5821"
abbreviation Iop_MullEven8Ux16 :: IROp where "Iop_MullEven8Ux16 \<equiv> 5822"
abbreviation Iop_MullEven16Ux8 :: IROp where "Iop_MullEven16Ux8 \<equiv> 5823"
abbreviation Iop_MullEven32Ux4 :: IROp where "Iop_MullEven32Ux4 \<equiv> 5824"
abbreviation Iop_MullEven8Sx16 :: IROp where "Iop_MullEven8Sx16 \<equiv> 5825"
abbreviation Iop_MullEven16Sx8 :: IROp where "Iop_MullEven16Sx8 \<equiv> 5826"
abbreviation Iop_MullEven32Sx4 :: IROp where "Iop_MullEven32Sx4 \<equiv> 5827"
abbreviation Iop_Mull8Ux8 :: IROp where "Iop_Mull8Ux8 \<equiv> 5828"
abbreviation Iop_Mull8Sx8 :: IROp where "Iop_Mull8Sx8 \<equiv> 5829"
abbreviation Iop_Mull16Ux4 :: IROp where "Iop_Mull16Ux4 \<equiv> 5830"
abbreviation Iop_Mull16Sx4 :: IROp where "Iop_Mull16Sx4 \<equiv> 5831"
abbreviation Iop_Mull32Ux2 :: IROp where "Iop_Mull32Ux2 \<equiv> 5832"
abbreviation Iop_Mull32Sx2 :: IROp where "Iop_Mull32Sx2 \<equiv> 5833"
abbreviation Iop_QDMull16Sx4 :: IROp where "Iop_QDMull16Sx4 \<equiv> 5834"
abbreviation Iop_QDMull32Sx2 :: IROp where "Iop_QDMull32Sx2 \<equiv> 5835"
abbreviation Iop_QDMulHi16Sx8 :: IROp where "Iop_QDMulHi16Sx8 \<equiv> 5836"
abbreviation Iop_QDMulHi32Sx4 :: IROp where "Iop_QDMulHi32Sx4 \<equiv> 5837"
abbreviation Iop_QRDMulHi16Sx8 :: IROp where "Iop_QRDMulHi16Sx8 \<equiv> 5838"
abbreviation Iop_QRDMulHi32Sx4 :: IROp where "Iop_QRDMulHi32Sx4 \<equiv> 5839"
abbreviation Iop_PolynomialMul8x16 :: IROp where "Iop_PolynomialMul8x16 \<equiv> 5840"
abbreviation Iop_PolynomialMull8x8 :: IROp where "Iop_PolynomialMull8x8 \<equiv> 5841"
abbreviation Iop_PolynomialMulAdd8x16 :: IROp where "Iop_PolynomialMulAdd8x16 \<equiv> 5842"
abbreviation Iop_PolynomialMulAdd16x8 :: IROp where "Iop_PolynomialMulAdd16x8 \<equiv> 5843"
abbreviation Iop_PolynomialMulAdd32x4 :: IROp where "Iop_PolynomialMulAdd32x4 \<equiv> 5844"
abbreviation Iop_PolynomialMulAdd64x2 :: IROp where "Iop_PolynomialMulAdd64x2 \<equiv> 5845"
abbreviation Iop_PwAdd8x16 :: IROp where "Iop_PwAdd8x16 \<equiv> 5846"
abbreviation Iop_PwAdd16x8 :: IROp where "Iop_PwAdd16x8 \<equiv> 5847"
abbreviation Iop_PwAdd32x4 :: IROp where "Iop_PwAdd32x4 \<equiv> 5848"
abbreviation Iop_PwAdd32Fx2 :: IROp where "Iop_PwAdd32Fx2 \<equiv> 5849"
abbreviation Iop_PwAddL8Ux16 :: IROp where "Iop_PwAddL8Ux16 \<equiv> 5850"
abbreviation Iop_PwAddL16Ux8 :: IROp where "Iop_PwAddL16Ux8 \<equiv> 5851"
abbreviation Iop_PwAddL32Ux4 :: IROp where "Iop_PwAddL32Ux4 \<equiv> 5852"
abbreviation Iop_PwAddL8Sx16 :: IROp where "Iop_PwAddL8Sx16 \<equiv> 5853"
abbreviation Iop_PwAddL16Sx8 :: IROp where "Iop_PwAddL16Sx8 \<equiv> 5854"
abbreviation Iop_PwAddL32Sx4 :: IROp where "Iop_PwAddL32Sx4 \<equiv> 5855"
abbreviation Iop_PwBitMtxXpose64x2 :: IROp where "Iop_PwBitMtxXpose64x2 \<equiv> 5856"
abbreviation Iop_Abs8x16 :: IROp where "Iop_Abs8x16 \<equiv> 5857"
abbreviation Iop_Abs16x8 :: IROp where "Iop_Abs16x8 \<equiv> 5858"
abbreviation Iop_Abs32x4 :: IROp where "Iop_Abs32x4 \<equiv> 5859"
abbreviation Iop_Abs64x2 :: IROp where "Iop_Abs64x2 \<equiv> 5860"
abbreviation Iop_Avg8Ux16 :: IROp where "Iop_Avg8Ux16 \<equiv> 5861"
abbreviation Iop_Avg16Ux8 :: IROp where "Iop_Avg16Ux8 \<equiv> 5862"
abbreviation Iop_Avg32Ux4 :: IROp where "Iop_Avg32Ux4 \<equiv> 5863"
abbreviation Iop_Avg8Sx16 :: IROp where "Iop_Avg8Sx16 \<equiv> 5864"
abbreviation Iop_Avg16Sx8 :: IROp where "Iop_Avg16Sx8 \<equiv> 5865"
abbreviation Iop_Avg32Sx4 :: IROp where "Iop_Avg32Sx4 \<equiv> 5866"
abbreviation Iop_Max8Sx16 :: IROp where "Iop_Max8Sx16 \<equiv> 5867"
abbreviation Iop_Max16Sx8 :: IROp where "Iop_Max16Sx8 \<equiv> 5868"
abbreviation Iop_Max32Sx4 :: IROp where "Iop_Max32Sx4 \<equiv> 5869"
abbreviation Iop_Max64Sx2 :: IROp where "Iop_Max64Sx2 \<equiv> 5870"
abbreviation Iop_Max8Ux16 :: IROp where "Iop_Max8Ux16 \<equiv> 5871"
abbreviation Iop_Max16Ux8 :: IROp where "Iop_Max16Ux8 \<equiv> 5872"
abbreviation Iop_Max32Ux4 :: IROp where "Iop_Max32Ux4 \<equiv> 5873"
abbreviation Iop_Max64Ux2 :: IROp where "Iop_Max64Ux2 \<equiv> 5874"
abbreviation Iop_Min8Sx16 :: IROp where "Iop_Min8Sx16 \<equiv> 5875"
abbreviation Iop_Min16Sx8 :: IROp where "Iop_Min16Sx8 \<equiv> 5876"
abbreviation Iop_Min32Sx4 :: IROp where "Iop_Min32Sx4 \<equiv> 5877"
abbreviation Iop_Min64Sx2 :: IROp where "Iop_Min64Sx2 \<equiv> 5878"
abbreviation Iop_Min8Ux16 :: IROp where "Iop_Min8Ux16 \<equiv> 5879"
abbreviation Iop_Min16Ux8 :: IROp where "Iop_Min16Ux8 \<equiv> 5880"
abbreviation Iop_Min32Ux4 :: IROp where "Iop_Min32Ux4 \<equiv> 5881"
abbreviation Iop_Min64Ux2 :: IROp where "Iop_Min64Ux2 \<equiv> 5882"
abbreviation Iop_CmpEQ8x16 :: IROp where "Iop_CmpEQ8x16 \<equiv> 5883"
abbreviation Iop_CmpEQ16x8 :: IROp where "Iop_CmpEQ16x8 \<equiv> 5884"
abbreviation Iop_CmpEQ32x4 :: IROp where "Iop_CmpEQ32x4 \<equiv> 5885"
abbreviation Iop_CmpEQ64x2 :: IROp where "Iop_CmpEQ64x2 \<equiv> 5886"
abbreviation Iop_CmpGT8Sx16 :: IROp where "Iop_CmpGT8Sx16 \<equiv> 5887"
abbreviation Iop_CmpGT16Sx8 :: IROp where "Iop_CmpGT16Sx8 \<equiv> 5888"
abbreviation Iop_CmpGT32Sx4 :: IROp where "Iop_CmpGT32Sx4 \<equiv> 5889"
abbreviation Iop_CmpGT64Sx2 :: IROp where "Iop_CmpGT64Sx2 \<equiv> 5890"
abbreviation Iop_CmpGT8Ux16 :: IROp where "Iop_CmpGT8Ux16 \<equiv> 5891"
abbreviation Iop_CmpGT16Ux8 :: IROp where "Iop_CmpGT16Ux8 \<equiv> 5892"
abbreviation Iop_CmpGT32Ux4 :: IROp where "Iop_CmpGT32Ux4 \<equiv> 5893"
abbreviation Iop_CmpGT64Ux2 :: IROp where "Iop_CmpGT64Ux2 \<equiv> 5894"
abbreviation Iop_Cnt8x16 :: IROp where "Iop_Cnt8x16 \<equiv> 5895"
abbreviation Iop_Clz8x16 :: IROp where "Iop_Clz8x16 \<equiv> 5896"
abbreviation Iop_Clz16x8 :: IROp where "Iop_Clz16x8 \<equiv> 5897"
abbreviation Iop_Clz32x4 :: IROp where "Iop_Clz32x4 \<equiv> 5898"
abbreviation Iop_Cls8x16 :: IROp where "Iop_Cls8x16 \<equiv> 5899"
abbreviation Iop_Cls16x8 :: IROp where "Iop_Cls16x8 \<equiv> 5900"
abbreviation Iop_Cls32x4 :: IROp where "Iop_Cls32x4 \<equiv> 5901"
abbreviation Iop_ShlN8x16 :: IROp where "Iop_ShlN8x16 \<equiv> 5902"
abbreviation Iop_ShlN16x8 :: IROp where "Iop_ShlN16x8 \<equiv> 5903"
abbreviation Iop_ShlN32x4 :: IROp where "Iop_ShlN32x4 \<equiv> 5904"
abbreviation Iop_ShlN64x2 :: IROp where "Iop_ShlN64x2 \<equiv> 5905"
abbreviation Iop_ShrN8x16 :: IROp where "Iop_ShrN8x16 \<equiv> 5906"
abbreviation Iop_ShrN16x8 :: IROp where "Iop_ShrN16x8 \<equiv> 5907"
abbreviation Iop_ShrN32x4 :: IROp where "Iop_ShrN32x4 \<equiv> 5908"
abbreviation Iop_ShrN64x2 :: IROp where "Iop_ShrN64x2 \<equiv> 5909"
abbreviation Iop_SarN8x16 :: IROp where "Iop_SarN8x16 \<equiv> 5910"
abbreviation Iop_SarN16x8 :: IROp where "Iop_SarN16x8 \<equiv> 5911"
abbreviation Iop_SarN32x4 :: IROp where "Iop_SarN32x4 \<equiv> 5912"
abbreviation Iop_SarN64x2 :: IROp where "Iop_SarN64x2 \<equiv> 5913"
abbreviation Iop_Shl8x16 :: IROp where "Iop_Shl8x16 \<equiv> 5914"
abbreviation Iop_Shl16x8 :: IROp where "Iop_Shl16x8 \<equiv> 5915"
abbreviation Iop_Shl32x4 :: IROp where "Iop_Shl32x4 \<equiv> 5916"
abbreviation Iop_Shl64x2 :: IROp where "Iop_Shl64x2 \<equiv> 5917"
abbreviation Iop_Shr8x16 :: IROp where "Iop_Shr8x16 \<equiv> 5918"
abbreviation Iop_Shr16x8 :: IROp where "Iop_Shr16x8 \<equiv> 5919"
abbreviation Iop_Shr32x4 :: IROp where "Iop_Shr32x4 \<equiv> 5920"
abbreviation Iop_Shr64x2 :: IROp where "Iop_Shr64x2 \<equiv> 5921"
abbreviation Iop_Sar8x16 :: IROp where "Iop_Sar8x16 \<equiv> 5922"
abbreviation Iop_Sar16x8 :: IROp where "Iop_Sar16x8 \<equiv> 5923"
abbreviation Iop_Sar32x4 :: IROp where "Iop_Sar32x4 \<equiv> 5924"
abbreviation Iop_Sar64x2 :: IROp where "Iop_Sar64x2 \<equiv> 5925"
abbreviation Iop_Sal8x16 :: IROp where "Iop_Sal8x16 \<equiv> 5926"
abbreviation Iop_Sal16x8 :: IROp where "Iop_Sal16x8 \<equiv> 5927"
abbreviation Iop_Sal32x4 :: IROp where "Iop_Sal32x4 \<equiv> 5928"
abbreviation Iop_Sal64x2 :: IROp where "Iop_Sal64x2 \<equiv> 5929"
abbreviation Iop_Rol8x16 :: IROp where "Iop_Rol8x16 \<equiv> 5930"
abbreviation Iop_Rol16x8 :: IROp where "Iop_Rol16x8 \<equiv> 5931"
abbreviation Iop_Rol32x4 :: IROp where "Iop_Rol32x4 \<equiv> 5932"
abbreviation Iop_Rol64x2 :: IROp where "Iop_Rol64x2 \<equiv> 5933"
abbreviation Iop_QShl8x16 :: IROp where "Iop_QShl8x16 \<equiv> 5934"
abbreviation Iop_QShl16x8 :: IROp where "Iop_QShl16x8 \<equiv> 5935"
abbreviation Iop_QShl32x4 :: IROp where "Iop_QShl32x4 \<equiv> 5936"
abbreviation Iop_QShl64x2 :: IROp where "Iop_QShl64x2 \<equiv> 5937"
abbreviation Iop_QSal8x16 :: IROp where "Iop_QSal8x16 \<equiv> 5938"
abbreviation Iop_QSal16x8 :: IROp where "Iop_QSal16x8 \<equiv> 5939"
abbreviation Iop_QSal32x4 :: IROp where "Iop_QSal32x4 \<equiv> 5940"
abbreviation Iop_QSal64x2 :: IROp where "Iop_QSal64x2 \<equiv> 5941"
abbreviation Iop_QShlNsatSU8x16 :: IROp where "Iop_QShlNsatSU8x16 \<equiv> 5942"
abbreviation Iop_QShlNsatSU16x8 :: IROp where "Iop_QShlNsatSU16x8 \<equiv> 5943"
abbreviation Iop_QShlNsatSU32x4 :: IROp where "Iop_QShlNsatSU32x4 \<equiv> 5944"
abbreviation Iop_QShlNsatSU64x2 :: IROp where "Iop_QShlNsatSU64x2 \<equiv> 5945"
abbreviation Iop_QShlNsatUU8x16 :: IROp where "Iop_QShlNsatUU8x16 \<equiv> 5946"
abbreviation Iop_QShlNsatUU16x8 :: IROp where "Iop_QShlNsatUU16x8 \<equiv> 5947"
abbreviation Iop_QShlNsatUU32x4 :: IROp where "Iop_QShlNsatUU32x4 \<equiv> 5948"
abbreviation Iop_QShlNsatUU64x2 :: IROp where "Iop_QShlNsatUU64x2 \<equiv> 5949"
abbreviation Iop_QShlNsatSS8x16 :: IROp where "Iop_QShlNsatSS8x16 \<equiv> 5950"
abbreviation Iop_QShlNsatSS16x8 :: IROp where "Iop_QShlNsatSS16x8 \<equiv> 5951"
abbreviation Iop_QShlNsatSS32x4 :: IROp where "Iop_QShlNsatSS32x4 \<equiv> 5952"
abbreviation Iop_QShlNsatSS64x2 :: IROp where "Iop_QShlNsatSS64x2 \<equiv> 5953"
abbreviation Iop_QandUQsh8x16 :: IROp where "Iop_QandUQsh8x16 \<equiv> 5954"
abbreviation Iop_QandUQsh16x8 :: IROp where "Iop_QandUQsh16x8 \<equiv> 5955"
abbreviation Iop_QandUQsh32x4 :: IROp where "Iop_QandUQsh32x4 \<equiv> 5956"
abbreviation Iop_QandUQsh64x2 :: IROp where "Iop_QandUQsh64x2 \<equiv> 5957"
abbreviation Iop_QandSQsh8x16 :: IROp where "Iop_QandSQsh8x16 \<equiv> 5958"
abbreviation Iop_QandSQsh16x8 :: IROp where "Iop_QandSQsh16x8 \<equiv> 5959"
abbreviation Iop_QandSQsh32x4 :: IROp where "Iop_QandSQsh32x4 \<equiv> 5960"
abbreviation Iop_QandSQsh64x2 :: IROp where "Iop_QandSQsh64x2 \<equiv> 5961"
abbreviation Iop_QandUQRsh8x16 :: IROp where "Iop_QandUQRsh8x16 \<equiv> 5962"
abbreviation Iop_QandUQRsh16x8 :: IROp where "Iop_QandUQRsh16x8 \<equiv> 5963"
abbreviation Iop_QandUQRsh32x4 :: IROp where "Iop_QandUQRsh32x4 \<equiv> 5964"
abbreviation Iop_QandUQRsh64x2 :: IROp where "Iop_QandUQRsh64x2 \<equiv> 5965"
abbreviation Iop_QandSQRsh8x16 :: IROp where "Iop_QandSQRsh8x16 \<equiv> 5966"
abbreviation Iop_QandSQRsh16x8 :: IROp where "Iop_QandSQRsh16x8 \<equiv> 5967"
abbreviation Iop_QandSQRsh32x4 :: IROp where "Iop_QandSQRsh32x4 \<equiv> 5968"
abbreviation Iop_QandSQRsh64x2 :: IROp where "Iop_QandSQRsh64x2 \<equiv> 5969"
abbreviation Iop_Sh8Sx16 :: IROp where "Iop_Sh8Sx16 \<equiv> 5970"
abbreviation Iop_Sh16Sx8 :: IROp where "Iop_Sh16Sx8 \<equiv> 5971"
abbreviation Iop_Sh32Sx4 :: IROp where "Iop_Sh32Sx4 \<equiv> 5972"
abbreviation Iop_Sh64Sx2 :: IROp where "Iop_Sh64Sx2 \<equiv> 5973"
abbreviation Iop_Sh8Ux16 :: IROp where "Iop_Sh8Ux16 \<equiv> 5974"
abbreviation Iop_Sh16Ux8 :: IROp where "Iop_Sh16Ux8 \<equiv> 5975"
abbreviation Iop_Sh32Ux4 :: IROp where "Iop_Sh32Ux4 \<equiv> 5976"
abbreviation Iop_Sh64Ux2 :: IROp where "Iop_Sh64Ux2 \<equiv> 5977"
abbreviation Iop_Rsh8Sx16 :: IROp where "Iop_Rsh8Sx16 \<equiv> 5978"
abbreviation Iop_Rsh16Sx8 :: IROp where "Iop_Rsh16Sx8 \<equiv> 5979"
abbreviation Iop_Rsh32Sx4 :: IROp where "Iop_Rsh32Sx4 \<equiv> 5980"
abbreviation Iop_Rsh64Sx2 :: IROp where "Iop_Rsh64Sx2 \<equiv> 5981"
abbreviation Iop_Rsh8Ux16 :: IROp where "Iop_Rsh8Ux16 \<equiv> 5982"
abbreviation Iop_Rsh16Ux8 :: IROp where "Iop_Rsh16Ux8 \<equiv> 5983"
abbreviation Iop_Rsh32Ux4 :: IROp where "Iop_Rsh32Ux4 \<equiv> 5984"
abbreviation Iop_Rsh64Ux2 :: IROp where "Iop_Rsh64Ux2 \<equiv> 5985"
abbreviation Iop_QandQShrNnarrow16Uto8Ux8 :: IROp where "Iop_QandQShrNnarrow16Uto8Ux8 \<equiv> 5986"
abbreviation Iop_QandQShrNnarrow32Uto16Ux4 :: IROp where "Iop_QandQShrNnarrow32Uto16Ux4 \<equiv> 5987"
abbreviation Iop_QandQShrNnarrow64Uto32Ux2 :: IROp where "Iop_QandQShrNnarrow64Uto32Ux2 \<equiv> 5988"
abbreviation Iop_QandQSarNnarrow16Sto8Sx8 :: IROp where "Iop_QandQSarNnarrow16Sto8Sx8 \<equiv> 5989"
abbreviation Iop_QandQSarNnarrow32Sto16Sx4 :: IROp where "Iop_QandQSarNnarrow32Sto16Sx4 \<equiv> 5990"
abbreviation Iop_QandQSarNnarrow64Sto32Sx2 :: IROp where "Iop_QandQSarNnarrow64Sto32Sx2 \<equiv> 5991"
abbreviation Iop_QandQSarNnarrow16Sto8Ux8 :: IROp where "Iop_QandQSarNnarrow16Sto8Ux8 \<equiv> 5992"
abbreviation Iop_QandQSarNnarrow32Sto16Ux4 :: IROp where "Iop_QandQSarNnarrow32Sto16Ux4 \<equiv> 5993"
abbreviation Iop_QandQSarNnarrow64Sto32Ux2 :: IROp where "Iop_QandQSarNnarrow64Sto32Ux2 \<equiv> 5994"
abbreviation Iop_QandQRShrNnarrow16Uto8Ux8 :: IROp where "Iop_QandQRShrNnarrow16Uto8Ux8 \<equiv> 5995"
abbreviation Iop_QandQRShrNnarrow32Uto16Ux4 :: IROp where "Iop_QandQRShrNnarrow32Uto16Ux4 \<equiv> 5996"
abbreviation Iop_QandQRShrNnarrow64Uto32Ux2 :: IROp where "Iop_QandQRShrNnarrow64Uto32Ux2 \<equiv> 5997"
abbreviation Iop_QandQRSarNnarrow16Sto8Sx8 :: IROp where "Iop_QandQRSarNnarrow16Sto8Sx8 \<equiv> 5998"
abbreviation Iop_QandQRSarNnarrow32Sto16Sx4 :: IROp where "Iop_QandQRSarNnarrow32Sto16Sx4 \<equiv> 5999"
abbreviation Iop_QandQRSarNnarrow64Sto32Sx2 :: IROp where "Iop_QandQRSarNnarrow64Sto32Sx2 \<equiv> 6000"
abbreviation Iop_QandQRSarNnarrow16Sto8Ux8 :: IROp where "Iop_QandQRSarNnarrow16Sto8Ux8 \<equiv> 6001"
abbreviation Iop_QandQRSarNnarrow32Sto16Ux4 :: IROp where "Iop_QandQRSarNnarrow32Sto16Ux4 \<equiv> 6002"
abbreviation Iop_QandQRSarNnarrow64Sto32Ux2 :: IROp where "Iop_QandQRSarNnarrow64Sto32Ux2 \<equiv> 6003"
abbreviation Iop_QNarrowBin16Sto8Ux16 :: IROp where "Iop_QNarrowBin16Sto8Ux16 \<equiv> 6004"
abbreviation Iop_QNarrowBin32Sto16Ux8 :: IROp where "Iop_QNarrowBin32Sto16Ux8 \<equiv> 6005"
abbreviation Iop_QNarrowBin16Sto8Sx16 :: IROp where "Iop_QNarrowBin16Sto8Sx16 \<equiv> 6006"
abbreviation Iop_QNarrowBin32Sto16Sx8 :: IROp where "Iop_QNarrowBin32Sto16Sx8 \<equiv> 6007"
abbreviation Iop_QNarrowBin16Uto8Ux16 :: IROp where "Iop_QNarrowBin16Uto8Ux16 \<equiv> 6008"
abbreviation Iop_QNarrowBin32Uto16Ux8 :: IROp where "Iop_QNarrowBin32Uto16Ux8 \<equiv> 6009"
abbreviation Iop_NarrowBin16to8x16 :: IROp where "Iop_NarrowBin16to8x16 \<equiv> 6010"
abbreviation Iop_NarrowBin32to16x8 :: IROp where "Iop_NarrowBin32to16x8 \<equiv> 6011"
abbreviation Iop_QNarrowBin64Sto32Sx4 :: IROp where "Iop_QNarrowBin64Sto32Sx4 \<equiv> 6012"
abbreviation Iop_QNarrowBin64Uto32Ux4 :: IROp where "Iop_QNarrowBin64Uto32Ux4 \<equiv> 6013"
abbreviation Iop_NarrowBin64to32x4 :: IROp where "Iop_NarrowBin64to32x4 \<equiv> 6014"
abbreviation Iop_NarrowUn16to8x8 :: IROp where "Iop_NarrowUn16to8x8 \<equiv> 6015"
abbreviation Iop_NarrowUn32to16x4 :: IROp where "Iop_NarrowUn32to16x4 \<equiv> 6016"
abbreviation Iop_NarrowUn64to32x2 :: IROp where "Iop_NarrowUn64to32x2 \<equiv> 6017"
abbreviation Iop_QNarrowUn16Sto8Sx8 :: IROp where "Iop_QNarrowUn16Sto8Sx8 \<equiv> 6018"
abbreviation Iop_QNarrowUn32Sto16Sx4 :: IROp where "Iop_QNarrowUn32Sto16Sx4 \<equiv> 6019"
abbreviation Iop_QNarrowUn64Sto32Sx2 :: IROp where "Iop_QNarrowUn64Sto32Sx2 \<equiv> 6020"
abbreviation Iop_QNarrowUn16Sto8Ux8 :: IROp where "Iop_QNarrowUn16Sto8Ux8 \<equiv> 6021"
abbreviation Iop_QNarrowUn32Sto16Ux4 :: IROp where "Iop_QNarrowUn32Sto16Ux4 \<equiv> 6022"
abbreviation Iop_QNarrowUn64Sto32Ux2 :: IROp where "Iop_QNarrowUn64Sto32Ux2 \<equiv> 6023"
abbreviation Iop_QNarrowUn16Uto8Ux8 :: IROp where "Iop_QNarrowUn16Uto8Ux8 \<equiv> 6024"
abbreviation Iop_QNarrowUn32Uto16Ux4 :: IROp where "Iop_QNarrowUn32Uto16Ux4 \<equiv> 6025"
abbreviation Iop_QNarrowUn64Uto32Ux2 :: IROp where "Iop_QNarrowUn64Uto32Ux2 \<equiv> 6026"
abbreviation Iop_Widen8Uto16x8 :: IROp where "Iop_Widen8Uto16x8 \<equiv> 6027"
abbreviation Iop_Widen16Uto32x4 :: IROp where "Iop_Widen16Uto32x4 \<equiv> 6028"
abbreviation Iop_Widen32Uto64x2 :: IROp where "Iop_Widen32Uto64x2 \<equiv> 6029"
abbreviation Iop_Widen8Sto16x8 :: IROp where "Iop_Widen8Sto16x8 \<equiv> 6030"
abbreviation Iop_Widen16Sto32x4 :: IROp where "Iop_Widen16Sto32x4 \<equiv> 6031"
abbreviation Iop_Widen32Sto64x2 :: IROp where "Iop_Widen32Sto64x2 \<equiv> 6032"
abbreviation Iop_InterleaveHI8x16 :: IROp where "Iop_InterleaveHI8x16 \<equiv> 6033"
abbreviation Iop_InterleaveHI16x8 :: IROp where "Iop_InterleaveHI16x8 \<equiv> 6034"
abbreviation Iop_InterleaveHI32x4 :: IROp where "Iop_InterleaveHI32x4 \<equiv> 6035"
abbreviation Iop_InterleaveHI64x2 :: IROp where "Iop_InterleaveHI64x2 \<equiv> 6036"
abbreviation Iop_InterleaveLO8x16 :: IROp where "Iop_InterleaveLO8x16 \<equiv> 6037"
abbreviation Iop_InterleaveLO16x8 :: IROp where "Iop_InterleaveLO16x8 \<equiv> 6038"
abbreviation Iop_InterleaveLO32x4 :: IROp where "Iop_InterleaveLO32x4 \<equiv> 6039"
abbreviation Iop_InterleaveLO64x2 :: IROp where "Iop_InterleaveLO64x2 \<equiv> 6040"
abbreviation Iop_InterleaveOddLanes8x16 :: IROp where "Iop_InterleaveOddLanes8x16 \<equiv> 6041"
abbreviation Iop_InterleaveEvenLanes8x16 :: IROp where "Iop_InterleaveEvenLanes8x16 \<equiv> 6042"
abbreviation Iop_InterleaveOddLanes16x8 :: IROp where "Iop_InterleaveOddLanes16x8 \<equiv> 6043"
abbreviation Iop_InterleaveEvenLanes16x8 :: IROp where "Iop_InterleaveEvenLanes16x8 \<equiv> 6044"
abbreviation Iop_InterleaveOddLanes32x4 :: IROp where "Iop_InterleaveOddLanes32x4 \<equiv> 6045"
abbreviation Iop_InterleaveEvenLanes32x4 :: IROp where "Iop_InterleaveEvenLanes32x4 \<equiv> 6046"
abbreviation Iop_CatOddLanes8x16 :: IROp where "Iop_CatOddLanes8x16 \<equiv> 6047"
abbreviation Iop_CatOddLanes16x8 :: IROp where "Iop_CatOddLanes16x8 \<equiv> 6048"
abbreviation Iop_CatOddLanes32x4 :: IROp where "Iop_CatOddLanes32x4 \<equiv> 6049"
abbreviation Iop_CatEvenLanes8x16 :: IROp where "Iop_CatEvenLanes8x16 \<equiv> 6050"
abbreviation Iop_CatEvenLanes16x8 :: IROp where "Iop_CatEvenLanes16x8 \<equiv> 6051"
abbreviation Iop_CatEvenLanes32x4 :: IROp where "Iop_CatEvenLanes32x4 \<equiv> 6052"
abbreviation Iop_GetElem8x16 :: IROp where "Iop_GetElem8x16 \<equiv> 6053"
abbreviation Iop_GetElem16x8 :: IROp where "Iop_GetElem16x8 \<equiv> 6054"
abbreviation Iop_GetElem32x4 :: IROp where "Iop_GetElem32x4 \<equiv> 6055"
abbreviation Iop_GetElem64x2 :: IROp where "Iop_GetElem64x2 \<equiv> 6056"
abbreviation Iop_Dup8x16 :: IROp where "Iop_Dup8x16 \<equiv> 6057"
abbreviation Iop_Dup16x8 :: IROp where "Iop_Dup16x8 \<equiv> 6058"
abbreviation Iop_Dup32x4 :: IROp where "Iop_Dup32x4 \<equiv> 6059"
abbreviation Iop_SliceV128 :: IROp where "Iop_SliceV128 \<equiv> 6060"
abbreviation Iop_Reverse8sIn16_x8 :: IROp where "Iop_Reverse8sIn16_x8 \<equiv> 6061"
abbreviation Iop_Reverse8sIn32_x4 :: IROp where "Iop_Reverse8sIn32_x4 \<equiv> 6062"
abbreviation Iop_Reverse16sIn32_x4 :: IROp where "Iop_Reverse16sIn32_x4 \<equiv> 6063"
abbreviation Iop_Reverse8sIn64_x2 :: IROp where "Iop_Reverse8sIn64_x2 \<equiv> 6064"
abbreviation Iop_Reverse16sIn64_x2 :: IROp where "Iop_Reverse16sIn64_x2 \<equiv> 6065"
abbreviation Iop_Reverse32sIn64_x2 :: IROp where "Iop_Reverse32sIn64_x2 \<equiv> 6066"
abbreviation Iop_Reverse1sIn8_x16 :: IROp where "Iop_Reverse1sIn8_x16 \<equiv> 6067"
abbreviation Iop_Perm8x16 :: IROp where "Iop_Perm8x16 \<equiv> 6068"
abbreviation Iop_Perm32x4 :: IROp where "Iop_Perm32x4 \<equiv> 6069"
abbreviation Iop_GetMSBs8x16 :: IROp where "Iop_GetMSBs8x16 \<equiv> 6070"
abbreviation Iop_RecipEst32Ux4 :: IROp where "Iop_RecipEst32Ux4 \<equiv> 6071"
abbreviation Iop_RSqrtEst32Ux4 :: IROp where "Iop_RSqrtEst32Ux4 \<equiv> 6072"
abbreviation Iop_MulI128by10 :: IROp where "Iop_MulI128by10 \<equiv> 6073"
abbreviation Iop_MulI128by10Carry :: IROp where "Iop_MulI128by10Carry \<equiv> 6074"
abbreviation Iop_MulI128by10E :: IROp where "Iop_MulI128by10E \<equiv> 6075"
abbreviation Iop_MulI128by10ECarry :: IROp where "Iop_MulI128by10ECarry \<equiv> 6076"
abbreviation Iop_V256to64_0 :: IROp where "Iop_V256to64_0 \<equiv> 6077"
abbreviation Iop_V256to64_1 :: IROp where "Iop_V256to64_1 \<equiv> 6078"
abbreviation Iop_V256to64_2 :: IROp where "Iop_V256to64_2 \<equiv> 6079"
abbreviation Iop_V256to64_3 :: IROp where "Iop_V256to64_3 \<equiv> 6080"
abbreviation Iop_64x4toV256 :: IROp where "Iop_64x4toV256 \<equiv> 6081"
abbreviation Iop_V256toV128_0 :: IROp where "Iop_V256toV128_0 \<equiv> 6082"
abbreviation Iop_V256toV128_1 :: IROp where "Iop_V256toV128_1 \<equiv> 6083"
abbreviation Iop_V128HLtoV256 :: IROp where "Iop_V128HLtoV256 \<equiv> 6084"
abbreviation Iop_AndV256 :: IROp where "Iop_AndV256 \<equiv> 6085"
abbreviation Iop_OrV256 :: IROp where "Iop_OrV256 \<equiv> 6086"
abbreviation Iop_XorV256 :: IROp where "Iop_XorV256 \<equiv> 6087"
abbreviation Iop_NotV256 :: IROp where "Iop_NotV256 \<equiv> 6088"
abbreviation Iop_CmpNEZ8x32 :: IROp where "Iop_CmpNEZ8x32 \<equiv> 6089"
abbreviation Iop_CmpNEZ16x16 :: IROp where "Iop_CmpNEZ16x16 \<equiv> 6090"
abbreviation Iop_CmpNEZ32x8 :: IROp where "Iop_CmpNEZ32x8 \<equiv> 6091"
abbreviation Iop_CmpNEZ64x4 :: IROp where "Iop_CmpNEZ64x4 \<equiv> 6092"
abbreviation Iop_Add8x32 :: IROp where "Iop_Add8x32 \<equiv> 6093"
abbreviation Iop_Add16x16 :: IROp where "Iop_Add16x16 \<equiv> 6094"
abbreviation Iop_Add32x8 :: IROp where "Iop_Add32x8 \<equiv> 6095"
abbreviation Iop_Add64x4 :: IROp where "Iop_Add64x4 \<equiv> 6096"
abbreviation Iop_Sub8x32 :: IROp where "Iop_Sub8x32 \<equiv> 6097"
abbreviation Iop_Sub16x16 :: IROp where "Iop_Sub16x16 \<equiv> 6098"
abbreviation Iop_Sub32x8 :: IROp where "Iop_Sub32x8 \<equiv> 6099"
abbreviation Iop_Sub64x4 :: IROp where "Iop_Sub64x4 \<equiv> 6100"
abbreviation Iop_CmpEQ8x32 :: IROp where "Iop_CmpEQ8x32 \<equiv> 6101"
abbreviation Iop_CmpEQ16x16 :: IROp where "Iop_CmpEQ16x16 \<equiv> 6102"
abbreviation Iop_CmpEQ32x8 :: IROp where "Iop_CmpEQ32x8 \<equiv> 6103"
abbreviation Iop_CmpEQ64x4 :: IROp where "Iop_CmpEQ64x4 \<equiv> 6104"
abbreviation Iop_CmpGT8Sx32 :: IROp where "Iop_CmpGT8Sx32 \<equiv> 6105"
abbreviation Iop_CmpGT16Sx16 :: IROp where "Iop_CmpGT16Sx16 \<equiv> 6106"
abbreviation Iop_CmpGT32Sx8 :: IROp where "Iop_CmpGT32Sx8 \<equiv> 6107"
abbreviation Iop_CmpGT64Sx4 :: IROp where "Iop_CmpGT64Sx4 \<equiv> 6108"
abbreviation Iop_ShlN16x16 :: IROp where "Iop_ShlN16x16 \<equiv> 6109"
abbreviation Iop_ShlN32x8 :: IROp where "Iop_ShlN32x8 \<equiv> 6110"
abbreviation Iop_ShlN64x4 :: IROp where "Iop_ShlN64x4 \<equiv> 6111"
abbreviation Iop_ShrN16x16 :: IROp where "Iop_ShrN16x16 \<equiv> 6112"
abbreviation Iop_ShrN32x8 :: IROp where "Iop_ShrN32x8 \<equiv> 6113"
abbreviation Iop_ShrN64x4 :: IROp where "Iop_ShrN64x4 \<equiv> 6114"
abbreviation Iop_SarN16x16 :: IROp where "Iop_SarN16x16 \<equiv> 6115"
abbreviation Iop_SarN32x8 :: IROp where "Iop_SarN32x8 \<equiv> 6116"
abbreviation Iop_Max8Sx32 :: IROp where "Iop_Max8Sx32 \<equiv> 6117"
abbreviation Iop_Max16Sx16 :: IROp where "Iop_Max16Sx16 \<equiv> 6118"
abbreviation Iop_Max32Sx8 :: IROp where "Iop_Max32Sx8 \<equiv> 6119"
abbreviation Iop_Max8Ux32 :: IROp where "Iop_Max8Ux32 \<equiv> 6120"
abbreviation Iop_Max16Ux16 :: IROp where "Iop_Max16Ux16 \<equiv> 6121"
abbreviation Iop_Max32Ux8 :: IROp where "Iop_Max32Ux8 \<equiv> 6122"
abbreviation Iop_Min8Sx32 :: IROp where "Iop_Min8Sx32 \<equiv> 6123"
abbreviation Iop_Min16Sx16 :: IROp where "Iop_Min16Sx16 \<equiv> 6124"
abbreviation Iop_Min32Sx8 :: IROp where "Iop_Min32Sx8 \<equiv> 6125"
abbreviation Iop_Min8Ux32 :: IROp where "Iop_Min8Ux32 \<equiv> 6126"
abbreviation Iop_Min16Ux16 :: IROp where "Iop_Min16Ux16 \<equiv> 6127"
abbreviation Iop_Min32Ux8 :: IROp where "Iop_Min32Ux8 \<equiv> 6128"
abbreviation Iop_Mul16x16 :: IROp where "Iop_Mul16x16 \<equiv> 6129"
abbreviation Iop_Mul32x8 :: IROp where "Iop_Mul32x8 \<equiv> 6130"
abbreviation Iop_MulHi16Ux16 :: IROp where "Iop_MulHi16Ux16 \<equiv> 6131"
abbreviation Iop_MulHi16Sx16 :: IROp where "Iop_MulHi16Sx16 \<equiv> 6132"
abbreviation Iop_QAdd8Ux32 :: IROp where "Iop_QAdd8Ux32 \<equiv> 6133"
abbreviation Iop_QAdd16Ux16 :: IROp where "Iop_QAdd16Ux16 \<equiv> 6134"
abbreviation Iop_QAdd8Sx32 :: IROp where "Iop_QAdd8Sx32 \<equiv> 6135"
abbreviation Iop_QAdd16Sx16 :: IROp where "Iop_QAdd16Sx16 \<equiv> 6136"
abbreviation Iop_QSub8Ux32 :: IROp where "Iop_QSub8Ux32 \<equiv> 6137"
abbreviation Iop_QSub16Ux16 :: IROp where "Iop_QSub16Ux16 \<equiv> 6138"
abbreviation Iop_QSub8Sx32 :: IROp where "Iop_QSub8Sx32 \<equiv> 6139"
abbreviation Iop_QSub16Sx16 :: IROp where "Iop_QSub16Sx16 \<equiv> 6140"
abbreviation Iop_Avg8Ux32 :: IROp where "Iop_Avg8Ux32 \<equiv> 6141"
abbreviation Iop_Avg16Ux16 :: IROp where "Iop_Avg16Ux16 \<equiv> 6142"
abbreviation Iop_Perm32x8 :: IROp where "Iop_Perm32x8 \<equiv> 6143"
abbreviation Iop_CipherV128 :: IROp where "Iop_CipherV128 \<equiv> 6144"
abbreviation Iop_CipherLV128 :: IROp where "Iop_CipherLV128 \<equiv> 6145"
abbreviation Iop_CipherSV128 :: IROp where "Iop_CipherSV128 \<equiv> 6146"
abbreviation Iop_NCipherV128 :: IROp where "Iop_NCipherV128 \<equiv> 6147"
abbreviation Iop_NCipherLV128 :: IROp where "Iop_NCipherLV128 \<equiv> 6148"
abbreviation Iop_SHA512 :: IROp where "Iop_SHA512 \<equiv> 6149"
abbreviation Iop_SHA256 :: IROp where "Iop_SHA256 \<equiv> 6150"
abbreviation Iop_Add64Fx4 :: IROp where "Iop_Add64Fx4 \<equiv> 6151"
abbreviation Iop_Sub64Fx4 :: IROp where "Iop_Sub64Fx4 \<equiv> 6152"
abbreviation Iop_Mul64Fx4 :: IROp where "Iop_Mul64Fx4 \<equiv> 6153"
abbreviation Iop_Div64Fx4 :: IROp where "Iop_Div64Fx4 \<equiv> 6154"
abbreviation Iop_Add32Fx8 :: IROp where "Iop_Add32Fx8 \<equiv> 6155"
abbreviation Iop_Sub32Fx8 :: IROp where "Iop_Sub32Fx8 \<equiv> 6156"
abbreviation Iop_Mul32Fx8 :: IROp where "Iop_Mul32Fx8 \<equiv> 6157"
abbreviation Iop_Div32Fx8 :: IROp where "Iop_Div32Fx8 \<equiv> 6158"
abbreviation Iop_Sqrt32Fx8 :: IROp where "Iop_Sqrt32Fx8 \<equiv> 6159"
abbreviation Iop_Sqrt64Fx4 :: IROp where "Iop_Sqrt64Fx4 \<equiv> 6160"
abbreviation Iop_RSqrtEst32Fx8 :: IROp where "Iop_RSqrtEst32Fx8 \<equiv> 6161"
abbreviation Iop_RecipEst32Fx8 :: IROp where "Iop_RecipEst32Fx8 \<equiv> 6162"
abbreviation Iop_Max32Fx8 :: IROp where "Iop_Max32Fx8 \<equiv> 6163"
abbreviation Iop_Min32Fx8 :: IROp where "Iop_Min32Fx8 \<equiv> 6164"
abbreviation Iop_Max64Fx4 :: IROp where "Iop_Max64Fx4 \<equiv> 6165"
abbreviation Iop_Min64Fx4 :: IROp where "Iop_Min64Fx4 \<equiv> 6166"

section \<open>Types, constants, expressions and statements\<close>

datatype IRType = Ity_INVALID | Ity_I1 | Ity_I8 | Ity_I16 | Ity_I32 | Ity_I64 | Ity_I128
  | Ity_F16 | Ity_F32 | Ity_F64 | Ity_D32 | Ity_D64 | Ity_D128 | Ity_F128 | Ity_V128 | Ity_V256

datatype IREndness = Iend_LE | Iend_BE

datatype IRConst = Ico_U1 bool | Ico_U8 u8 | Ico_U16 u16 | Ico_U32 u32 | Ico_U64 u64
  | Ico_F32 u32 | Ico_F32i u32 | Ico_F64 u64 | Ico_F64i u64 | Ico_V128 u16 | Ico_V256 u32

type_synonym IRTemp = nat

record IRRegArray =
  ra_base :: int
  ra_elemTy :: IRType
  ra_nElems :: int

record IRCallee =
  cee_regparms :: int
  cee_name :: "string option"
  cee_addr :: u64
  cee_mcx_mask :: u32

datatype IRExpr =
    Iex_Binder int
  | Iex_Get int IRType
  | Iex_GetI IRRegArray IRExpr int
  | Iex_RdTmp IRTemp
  | Iex_Qop IROp IRExpr IRExpr IRExpr IRExpr
  | Iex_Triop IROp IRExpr IRExpr IRExpr
  | Iex_Binop IROp IRExpr IRExpr
  | Iex_Unop IROp IRExpr
  | Iex_Load IREndness IRType IRExpr
  | Iex_Const IRConst
  | Iex_ITE IRExpr IRExpr IRExpr
  | Iex_CCall IRCallee IRType "IRExpr list"
  | Iex_VECRET
  | Iex_GSPTR

datatype IRJumpKind = Ijk_INVALID | Ijk_Boring | Ijk_Call | Ijk_Ret | Ijk_ClientReq | Ijk_Yield | Ijk_EmWarn
  | Ijk_EmFail | Ijk_NoDecode | Ijk_MapFail | Ijk_InvalICache | Ijk_FlushDCache | Ijk_NoRedir | Ijk_SigILL
  | Ijk_SigTRAP | Ijk_SigSEGV | Ijk_SigBUS | Ijk_SigFPE_IntDiv | Ijk_SigFPE_IntOvf | Ijk_Sys_syscall
  | Ijk_Sys_int32 | Ijk_Sys_int128 | Ijk_Sys_int129 | Ijk_Sys_int130 | Ijk_Sys_int145 | Ijk_Sys_int210
  | Ijk_Sys_sysenter

datatype IREffect = Ifx_None | Ifx_Read | Ifx_Write | Ifx_Modify

record IRFxState =
  fx_fx :: IREffect
  fx_offset :: int
  fx_size :: int
  fx_nRepeats :: int
  fx_repeatLen :: int

record IRDirty =
  d_cee :: IRCallee
  d_guard :: IRExpr
  d_args :: "IRExpr list"
  d_tmp :: "IRTemp option"
  d_mFx :: IREffect
  d_mAddr :: "IRExpr option"
  d_mSize :: int
  d_fxState :: "IRFxState list"

datatype IRMBusEvent = Imbe_Fence | Imbe_CancelReservation

text \<open>\<^verbatim>\<open>IRTemp_INVALID\<close> and null pointers are \<^const>\<open>None\<close>.\<close>

record IRCAS =
  cas_oldHi :: "IRTemp option"
  cas_oldLo :: IRTemp
  cas_end :: IREndness
  cas_addr :: IRExpr
  cas_expdHi :: "IRExpr option"
  cas_expdLo :: IRExpr
  cas_dataHi :: "IRExpr option"
  cas_dataLo :: IRExpr

record IRStoreG =
  sg_end :: IREndness
  sg_addr :: IRExpr
  sg_data :: IRExpr
  sg_guard :: IRExpr

datatype IRLoadGOp = ILGop_INVALID | ILGop_IdentV128 | ILGop_Ident64 | ILGop_Ident32 | ILGop_16Uto32 | ILGop_16Sto32
  | ILGop_8Uto32 | ILGop_8Sto32

record IRLoadG =
  lg_end :: IREndness
  lg_cvt :: IRLoadGOp
  lg_dst :: IRTemp
  lg_addr :: IRExpr
  lg_alt :: IRExpr
  lg_guard :: IRExpr

datatype IRStmt =
    Ist_NoOp
  | Ist_IMark u64 u32 u8
  | Ist_AbiHint IRExpr int IRExpr
  | Ist_Put int IRExpr
  | Ist_PutI IRRegArray IRExpr int IRExpr
  | Ist_WrTmp IRTemp IRExpr
  | Ist_Store IREndness IRExpr IRExpr
  | Ist_LoadG IRLoadG
  | Ist_StoreG IRStoreG
  | Ist_CAS IRCAS
  | Ist_LLSC IREndness IRTemp IRExpr "IRExpr option"
  | Ist_Dirty IRDirty
  | Ist_MBE IRMBusEvent
  | Ist_Exit IRExpr IRJumpKind IRConst int

record IRSB =
  bb_tyenv :: "IRType list"
  bb_stmts :: "IRStmt list"
  bb_stmts_size :: int
  bb_next :: IRExpr
  bb_jumpkind :: IRJumpKind
  bb_offsIP :: int

fun isIRAtom :: "IRExpr \<Rightarrow> bool" where
  "isIRAtom (Iex_RdTmp _) = True"
| "isIRAtom (Iex_Const _) = True"
| "isIRAtom _ = False"

fun sizeofIRType :: "IRType \<Rightarrow> nat option" where
  "sizeofIRType Ity_I8 = Some 1"
| "sizeofIRType Ity_I16 = Some 2"
| "sizeofIRType Ity_I32 = Some 4"
| "sizeofIRType Ity_I64 = Some 8"
| "sizeofIRType Ity_I128 = Some 16"
| "sizeofIRType Ity_F16 = Some 2"
| "sizeofIRType Ity_F32 = Some 4"
| "sizeofIRType Ity_F64 = Some 8"
| "sizeofIRType Ity_F128 = Some 16"
| "sizeofIRType Ity_D32 = Some 4"
| "sizeofIRType Ity_D64 = Some 8"
| "sizeofIRType Ity_D128 = Some 16"
| "sizeofIRType Ity_V128 = Some 16"
| "sizeofIRType Ity_V256 = Some 32"
| "sizeofIRType _ = None"

section \<open>Types of the operators\<close>

text \<open>The result type and the four argument types; \<open>Ity_INVALID\<close> where there is no argument.\<close>

type_synonym prim_type = "IRType \<times> IRType \<times> IRType \<times> IRType \<times> IRType"

definition UNARY :: "IRType \<Rightarrow> IRType \<Rightarrow> prim_type" where
  "UNARY a1 d = (d, a1, Ity_INVALID, Ity_INVALID, Ity_INVALID)"

definition BINARY :: "IRType \<Rightarrow> IRType \<Rightarrow> IRType \<Rightarrow> prim_type" where
  "BINARY a1 a2 d = (d, a1, a2, Ity_INVALID, Ity_INVALID)"

definition TERNARY :: "IRType \<Rightarrow> IRType \<Rightarrow> IRType \<Rightarrow> IRType \<Rightarrow> prim_type" where
  "TERNARY a1 a2 a3 d = (d, a1, a2, a3, Ity_INVALID)"

definition QUATERNARY :: "IRType \<Rightarrow> IRType \<Rightarrow> IRType \<Rightarrow> IRType \<Rightarrow> IRType \<Rightarrow> prim_type" where
  "QUATERNARY a1 a2 a3 a4 d = (d, a1, a2, a3, a4)"

definition COMPARISON :: "IRType \<Rightarrow> prim_type" where
  "COMPARISON a = (Ity_I1, a, a, Ity_INVALID, Ity_INVALID)"

definition UNARY_COMPARISON :: "IRType \<Rightarrow> prim_type" where
  "UNARY_COMPARISON a = (Ity_I1, a, Ity_INVALID, Ity_INVALID, Ity_INVALID)"

definition typeOfPrimop_cases_1 :: "(IROp list \<times> prim_type) list" where
  "typeOfPrimop_cases_1 = [
     ([Iop_Add8, Iop_Sub8, Iop_Mul8, Iop_Or8, Iop_And8, Iop_Xor8],
        BINARY Ity_I8 Ity_I8 Ity_I8),
     ([Iop_Add16, Iop_Sub16, Iop_Mul16, Iop_Or16, Iop_And16, Iop_Xor16],
        BINARY Ity_I16 Ity_I16 Ity_I16),
     ([Iop_CmpORD32U, Iop_CmpORD32S, Iop_Add32, Iop_Sub32, Iop_Mul32, Iop_Or32, Iop_And32, Iop_Xor32,
      Iop_Max32U, Iop_QAdd32S, Iop_QSub32S, Iop_Add16x2, Iop_Sub16x2, Iop_QAdd16Sx2, Iop_QAdd16Ux2,
      Iop_QSub16Sx2, Iop_QSub16Ux2, Iop_HAdd16Ux2, Iop_HAdd16Sx2, Iop_HSub16Ux2, Iop_HSub16Sx2,
      Iop_Add8x4, Iop_Sub8x4, Iop_QAdd8Sx4, Iop_QAdd8Ux4, Iop_QSub8Sx4, Iop_QSub8Ux4, Iop_HAdd8Ux4,
      Iop_HAdd8Sx4, Iop_HSub8Ux4, Iop_HSub8Sx4, Iop_Sad8Ux4],
        BINARY Ity_I32 Ity_I32 Ity_I32),
     ([Iop_Add64, Iop_Sub64, Iop_Mul64, Iop_Or64, Iop_And64, Iop_Xor64, Iop_CmpORD64U, Iop_CmpORD64S,
      Iop_Avg8Ux8, Iop_Avg16Ux4, Iop_Add8x8, Iop_Add16x4, Iop_Add32x2, Iop_Add32Fx2, Iop_Sub32Fx2,
      Iop_CmpEQ8x8, Iop_CmpEQ16x4, Iop_CmpEQ32x2, Iop_CmpGT8Sx8, Iop_CmpGT16Sx4, Iop_CmpGT32Sx2,
      Iop_CmpGT8Ux8, Iop_CmpGT16Ux4, Iop_CmpGT32Ux2, Iop_CmpGT32Fx2, Iop_CmpEQ32Fx2, Iop_CmpGE32Fx2,
      Iop_InterleaveHI8x8, Iop_InterleaveLO8x8, Iop_InterleaveHI16x4, Iop_InterleaveLO16x4,
      Iop_InterleaveHI32x2, Iop_InterleaveLO32x2, Iop_CatOddLanes8x8, Iop_CatEvenLanes8x8,
      Iop_CatOddLanes16x4, Iop_CatEvenLanes16x4, Iop_InterleaveOddLanes8x8, Iop_InterleaveEvenLanes8x8,
      Iop_InterleaveOddLanes16x4, Iop_InterleaveEvenLanes16x4, Iop_Perm8x8, Iop_Max8Ux8, Iop_Max16Ux4,
      Iop_Max32Ux2, Iop_Max8Sx8, Iop_Max16Sx4, Iop_Max32Sx2, Iop_Max32Fx2, Iop_Min32Fx2, Iop_PwMax32Fx2,
      Iop_PwMin32Fx2, Iop_Min8Ux8, Iop_Min16Ux4, Iop_Min32Ux2, Iop_Min8Sx8, Iop_Min16Sx4, Iop_Min32Sx2,
      Iop_PwMax8Ux8, Iop_PwMax16Ux4, Iop_PwMax32Ux2, Iop_PwMax8Sx8, Iop_PwMax16Sx4, Iop_PwMax32Sx2,
      Iop_PwMin8Ux8, Iop_PwMin16Ux4, Iop_PwMin32Ux2, Iop_PwMin8Sx8, Iop_PwMin16Sx4, Iop_PwMin32Sx2,
      Iop_Mul8x8, Iop_Mul16x4, Iop_Mul32x2, Iop_Mul32Fx2, Iop_PolynomialMul8x8, Iop_MulHi16Sx4,
      Iop_MulHi16Ux4, Iop_QDMulHi16Sx4, Iop_QDMulHi32Sx2, Iop_QRDMulHi16Sx4, Iop_QRDMulHi32Sx2,
      Iop_QAdd8Sx8, Iop_QAdd16Sx4, Iop_QAdd32Sx2, Iop_QAdd64Sx1, Iop_QAdd8Ux8, Iop_QAdd16Ux4,
      Iop_QAdd32Ux2, Iop_QAdd64Ux1, Iop_PwAdd8x8, Iop_PwAdd16x4, Iop_PwAdd32x2, Iop_PwAdd32Fx2,
      Iop_QNarrowBin32Sto16Sx4, Iop_QNarrowBin16Sto8Sx8, Iop_QNarrowBin16Sto8Ux8, Iop_NarrowBin16to8x8,
      Iop_NarrowBin32to16x4, Iop_Sub8x8, Iop_Sub16x4, Iop_Sub32x2, Iop_QSub8Sx8, Iop_QSub16Sx4,
      Iop_QSub32Sx2, Iop_QSub64Sx1, Iop_QSub8Ux8, Iop_QSub16Ux4, Iop_QSub32Ux2, Iop_QSub64Ux1,
      Iop_Shl8x8, Iop_Shl16x4, Iop_Shl32x2, Iop_Shr8x8, Iop_Shr16x4, Iop_Shr32x2, Iop_Sar8x8,
      Iop_Sar16x4, Iop_Sar32x2, Iop_Sal8x8, Iop_Sal16x4, Iop_Sal32x2, Iop_Sal64x1, Iop_QShl8x8,
      Iop_QShl16x4, Iop_QShl32x2, Iop_QShl64x1, Iop_QSal8x8, Iop_QSal16x4, Iop_QSal32x2, Iop_QSal64x1,
      Iop_RecipStep32Fx2, Iop_RSqrtStep32Fx2],
        BINARY Ity_I64 Ity_I64 Ity_I64),
     ([Iop_ShlN32x2, Iop_ShlN16x4, Iop_ShlN8x8, Iop_ShrN32x2, Iop_ShrN16x4, Iop_ShrN8x8, Iop_SarN32x2,
      Iop_SarN16x4, Iop_SarN8x8, Iop_QShlNsatUU8x8, Iop_QShlNsatUU16x4, Iop_QShlNsatUU32x2,
      Iop_QShlNsatUU64x1, Iop_QShlNsatSU8x8, Iop_QShlNsatSU16x4, Iop_QShlNsatSU32x2, Iop_QShlNsatSU64x1,
      Iop_QShlNsatSS8x8, Iop_QShlNsatSS16x4, Iop_QShlNsatSS32x2, Iop_QShlNsatSS64x1],
        BINARY Ity_I64 Ity_I8 Ity_I64),
     ([Iop_Shl8, Iop_Shr8, Iop_Sar8],
        BINARY Ity_I8 Ity_I8 Ity_I8),
     ([Iop_Shl16, Iop_Shr16, Iop_Sar16],
        BINARY Ity_I16 Ity_I8 Ity_I16),
     ([Iop_Shl32, Iop_Shr32, Iop_Sar32],
        BINARY Ity_I32 Ity_I8 Ity_I32),
     ([Iop_Shl64, Iop_Shr64, Iop_Sar64],
        BINARY Ity_I64 Ity_I8 Ity_I64),
     ([Iop_Not8],
        UNARY Ity_I8 Ity_I8),
     ([Iop_Not16],
        UNARY Ity_I16 Ity_I16),
     ([Iop_Not32, Iop_CmpNEZ16x2, Iop_CmpNEZ8x4],
        UNARY Ity_I32 Ity_I32),
     ([Iop_Not64, Iop_CmpNEZ32x2, Iop_CmpNEZ16x4, Iop_CmpNEZ8x8, Iop_Cnt8x8, Iop_Clz8x8, Iop_Clz16x4,
      Iop_Clz32x2, Iop_Cls8x8, Iop_Cls16x4, Iop_Cls32x2, Iop_PwAddL8Ux8, Iop_PwAddL16Ux4,
      Iop_PwAddL32Ux2, Iop_PwAddL8Sx8, Iop_PwAddL16Sx4, Iop_PwAddL32Sx2, Iop_Reverse8sIn64_x1,
      Iop_Reverse16sIn64_x1, Iop_Reverse32sIn64_x1, Iop_Reverse8sIn32_x2, Iop_Reverse16sIn32_x2,
      Iop_Reverse8sIn16_x4, Iop_FtoI32Sx2_RZ, Iop_FtoI32Ux2_RZ, Iop_I32StoFx2, Iop_I32UtoFx2,
      Iop_RecipEst32Ux2, Iop_RecipEst32Fx2, Iop_Abs32Fx2, Iop_RSqrtEst32Fx2, Iop_RSqrtEst32Ux2,
      Iop_Neg32Fx2, Iop_Abs8x8, Iop_Abs16x4, Iop_Abs32x2],
        UNARY Ity_I64 Ity_I64),
     ([Iop_CmpEQ8, Iop_CmpNE8, Iop_CasCmpEQ8, Iop_CasCmpNE8, Iop_ExpCmpNE8],
        COMPARISON Ity_I8),
     ([Iop_CmpEQ16, Iop_CmpNE16, Iop_CasCmpEQ16, Iop_CasCmpNE16, Iop_ExpCmpNE16],
        COMPARISON Ity_I16),
     ([Iop_CmpEQ32, Iop_CmpNE32, Iop_CasCmpEQ32, Iop_CasCmpNE32, Iop_ExpCmpNE32, Iop_CmpLT32S,
      Iop_CmpLE32S, Iop_CmpLT32U, Iop_CmpLE32U],
        COMPARISON Ity_I32)]"

definition typeOfPrimop_cases_2 :: "(IROp list \<times> prim_type) list" where
  "typeOfPrimop_cases_2 = [
     ([Iop_CmpEQ64, Iop_CmpNE64, Iop_CasCmpEQ64, Iop_CasCmpNE64, Iop_ExpCmpNE64, Iop_CmpLT64S,
      Iop_CmpLE64S, Iop_CmpLT64U, Iop_CmpLE64U],
        COMPARISON Ity_I64),
     ([Iop_CmpNEZ8],
        UNARY_COMPARISON Ity_I8),
     ([Iop_CmpNEZ16],
        UNARY_COMPARISON Ity_I16),
     ([Iop_CmpNEZ32],
        UNARY_COMPARISON Ity_I32),
     ([Iop_CmpNEZ64],
        UNARY_COMPARISON Ity_I64),
     ([Iop_Left8],
        UNARY Ity_I8 Ity_I8),
     ([Iop_Left16],
        UNARY Ity_I16 Ity_I16),
     ([Iop_CmpwNEZ32, Iop_Left32],
        UNARY Ity_I32 Ity_I32),
     ([Iop_CmpwNEZ64, Iop_Left64],
        UNARY Ity_I64 Ity_I64),
     ([Iop_GetMSBs8x8],
        UNARY Ity_I64 Ity_I8),
     ([Iop_GetMSBs8x16],
        UNARY Ity_V128 Ity_I16),
     ([Iop_MullU8, Iop_MullS8],
        BINARY Ity_I8 Ity_I8 Ity_I16),
     ([Iop_MullU16, Iop_MullS16],
        BINARY Ity_I16 Ity_I16 Ity_I32),
     ([Iop_MullU32, Iop_MullS32],
        BINARY Ity_I32 Ity_I32 Ity_I64),
     ([Iop_MullU64, Iop_MullS64],
        BINARY Ity_I64 Ity_I64 Ity_I128),
     ([Iop_Clz32, Iop_Ctz32],
        UNARY Ity_I32 Ity_I32),
     ([Iop_Clz64, Iop_Ctz64],
        UNARY Ity_I64 Ity_I64),
     ([Iop_DivU32, Iop_DivS32, Iop_DivU32E, Iop_DivS32E],
        BINARY Ity_I32 Ity_I32 Ity_I32),
     ([Iop_DivU64, Iop_DivS64, Iop_DivS64E, Iop_DivU64E],
        BINARY Ity_I64 Ity_I64 Ity_I64),
     ([Iop_DivModU64to32, Iop_DivModS64to32],
        BINARY Ity_I64 Ity_I32 Ity_I64),
     ([Iop_DivModU128to64, Iop_DivModS128to64],
        BINARY Ity_I128 Ity_I64 Ity_I128),
     ([Iop_DivModS64to64],
        BINARY Ity_I64 Ity_I64 Ity_I128),
     ([Iop_16HIto8, Iop_16to8],
        UNARY Ity_I16 Ity_I8),
     ([Iop_8HLto16],
        BINARY Ity_I8 Ity_I8 Ity_I16),
     ([Iop_32HIto16, Iop_32to16],
        UNARY Ity_I32 Ity_I16),
     ([Iop_16HLto32],
        BINARY Ity_I16 Ity_I16 Ity_I32),
     ([Iop_64HIto32, Iop_64to32],
        UNARY Ity_I64 Ity_I32),
     ([Iop_32HLto64],
        BINARY Ity_I32 Ity_I32 Ity_I64),
     ([Iop_128HIto64, Iop_128to64],
        UNARY Ity_I128 Ity_I64),
     ([Iop_64HLto128],
        BINARY Ity_I64 Ity_I64 Ity_I128),
     ([Iop_Not1],
        UNARY Ity_I1 Ity_I1),
     ([Iop_1Uto8],
        UNARY Ity_I1 Ity_I8),
     ([Iop_1Sto8],
        UNARY Ity_I1 Ity_I8),
     ([Iop_1Sto16],
        UNARY Ity_I1 Ity_I16),
     ([Iop_1Uto32, Iop_1Sto32],
        UNARY Ity_I1 Ity_I32),
     ([Iop_1Sto64, Iop_1Uto64],
        UNARY Ity_I1 Ity_I64),
     ([Iop_32to1],
        UNARY Ity_I32 Ity_I1),
     ([Iop_64to1],
        UNARY Ity_I64 Ity_I1),
     ([Iop_8Uto32, Iop_8Sto32],
        UNARY Ity_I8 Ity_I32),
     ([Iop_8Uto16, Iop_8Sto16],
        UNARY Ity_I8 Ity_I16),
     ([Iop_16Uto32, Iop_16Sto32],
        UNARY Ity_I16 Ity_I32),
     ([Iop_32Sto64, Iop_32Uto64],
        UNARY Ity_I32 Ity_I64),
     ([Iop_8Uto64, Iop_8Sto64],
        UNARY Ity_I8 Ity_I64),
     ([Iop_16Uto64, Iop_16Sto64],
        UNARY Ity_I16 Ity_I64),
     ([Iop_64to16],
        UNARY Ity_I64 Ity_I16),
     ([Iop_32to8],
        UNARY Ity_I32 Ity_I8),
     ([Iop_64to8],
        UNARY Ity_I64 Ity_I8),
     ([Iop_AddF64, Iop_SubF64, Iop_MulF64, Iop_DivF64, Iop_AddF64r32, Iop_SubF64r32, Iop_MulF64r32,
      Iop_DivF64r32],
        TERNARY Ity_I32 Ity_F64 Ity_F64 Ity_F64),
     ([Iop_AddF32, Iop_SubF32, Iop_MulF32, Iop_DivF32],
        TERNARY Ity_I32 Ity_F32 Ity_F32 Ity_F32),
     ([Iop_NegF64, Iop_AbsF64],
        UNARY Ity_F64 Ity_F64),
     ([Iop_NegF32, Iop_AbsF32],
        UNARY Ity_F32 Ity_F32),
     ([Iop_SqrtF64, Iop_RecpExpF64],
        BINARY Ity_I32 Ity_F64 Ity_F64),
     ([Iop_SqrtF32, Iop_RoundF32toInt, Iop_RecpExpF32],
        BINARY Ity_I32 Ity_F32 Ity_F32),
     ([Iop_MaxNumF64, Iop_MinNumF64],
        BINARY Ity_F64 Ity_F64 Ity_F64),
     ([Iop_MaxNumF32, Iop_MinNumF32],
        BINARY Ity_F32 Ity_F32 Ity_F32),
     ([Iop_CmpF32],
        BINARY Ity_F32 Ity_F32 Ity_I32),
     ([Iop_CmpF64],
        BINARY Ity_F64 Ity_F64 Ity_I32),
     ([Iop_CmpF128],
        BINARY Ity_F128 Ity_F128 Ity_I32),
     ([Iop_F64toI16S],
        BINARY Ity_I32 Ity_F64 Ity_I16),
     ([Iop_F64toI32S],
        BINARY Ity_I32 Ity_F64 Ity_I32),
     ([Iop_F64toI64S, Iop_F64toI64U],
        BINARY Ity_I32 Ity_F64 Ity_I64),
     ([Iop_F64toI32U],
        BINARY Ity_I32 Ity_F64 Ity_I32)]"

definition typeOfPrimop_cases_3 :: "(IROp list \<times> prim_type) list" where
  "typeOfPrimop_cases_3 = [
     ([Iop_I32StoF64],
        UNARY Ity_I32 Ity_F64),
     ([Iop_I64StoF64],
        BINARY Ity_I32 Ity_I64 Ity_F64),
     ([Iop_I64UtoF64],
        BINARY Ity_I32 Ity_I64 Ity_F64),
     ([Iop_I64UtoF32],
        BINARY Ity_I32 Ity_I64 Ity_F32),
     ([Iop_I32UtoF64],
        UNARY Ity_I32 Ity_F64),
     ([Iop_F32toI32S],
        BINARY Ity_I32 Ity_F32 Ity_I32),
     ([Iop_F32toI64S],
        BINARY Ity_I32 Ity_F32 Ity_I64),
     ([Iop_F32toI32U],
        BINARY Ity_I32 Ity_F32 Ity_I32),
     ([Iop_F32toI64U],
        BINARY Ity_I32 Ity_F32 Ity_I64),
     ([Iop_I32UtoF32],
        BINARY Ity_I32 Ity_I32 Ity_F32),
     ([Iop_I32StoF32],
        BINARY Ity_I32 Ity_I32 Ity_F32),
     ([Iop_I64StoF32],
        BINARY Ity_I32 Ity_I64 Ity_F32),
     ([Iop_F32toF64],
        UNARY Ity_F32 Ity_F64),
     ([Iop_F16toF64],
        UNARY Ity_F16 Ity_F64),
     ([Iop_F16toF32],
        UNARY Ity_F16 Ity_F32),
     ([Iop_F64toF32],
        BINARY Ity_I32 Ity_F64 Ity_F32),
     ([Iop_F64toF16],
        BINARY Ity_I32 Ity_F64 Ity_F16),
     ([Iop_F32toF16],
        BINARY Ity_I32 Ity_F32 Ity_F16),
     ([Iop_ReinterpI64asF64],
        UNARY Ity_I64 Ity_F64),
     ([Iop_ReinterpF64asI64],
        UNARY Ity_F64 Ity_I64),
     ([Iop_ReinterpI32asF32],
        UNARY Ity_I32 Ity_F32),
     ([Iop_ReinterpF32asI32],
        UNARY Ity_F32 Ity_I32),
     ([Iop_AtanF64, Iop_Yl2xF64, Iop_Yl2xp1F64, Iop_ScaleF64, Iop_PRemF64, Iop_PRem1F64],
        TERNARY Ity_I32 Ity_F64 Ity_F64 Ity_F64),
     ([Iop_PRemC3210F64, Iop_PRem1C3210F64],
        TERNARY Ity_I32 Ity_F64 Ity_F64 Ity_I32),
     ([Iop_SinF64, Iop_CosF64, Iop_TanF64, Iop_2xm1F64, Iop_RoundF64toInt],
        BINARY Ity_I32 Ity_F64 Ity_F64),
     ([Iop_MAddF64, Iop_MSubF64, Iop_MAddF64r32, Iop_MSubF64r32],
        QUATERNARY Ity_I32 Ity_F64 Ity_F64 Ity_F64 Ity_F64),
     ([Iop_RSqrtEst5GoodF64, Iop_RoundF64toF64_NEAREST, Iop_RoundF64toF64_NegINF,
      Iop_RoundF64toF64_PosINF, Iop_RoundF64toF64_ZERO],
        UNARY Ity_F64 Ity_F64),
     ([Iop_RoundF64toF32],
        BINARY Ity_I32 Ity_F64 Ity_F64),
     ([Iop_TruncF64asF32],
        UNARY Ity_F64 Ity_F32),
     ([Iop_I32UtoFx4, Iop_I32StoFx4, Iop_QFtoI32Ux4_RZ, Iop_QFtoI32Sx4_RZ, Iop_FtoI32Ux4_RZ,
      Iop_FtoI32Sx4_RZ, Iop_RoundF32x4_RM, Iop_RoundF32x4_RP, Iop_RoundF32x4_RN, Iop_RoundF32x4_RZ,
      Iop_Abs64Fx2, Iop_Abs32Fx4, Iop_RSqrtEst32Fx4, Iop_RSqrtEst32Ux4],
        UNARY Ity_V128 Ity_V128),
     ([Iop_Sqrt64Fx2, Iop_Sqrt32Fx4],
        BINARY Ity_I32 Ity_V128 Ity_V128),
     ([Iop_64HLtoV128],
        BINARY Ity_I64 Ity_I64 Ity_V128),
     ([Iop_V128to64, Iop_V128HIto64, Iop_NarrowUn16to8x8, Iop_NarrowUn32to16x4, Iop_NarrowUn64to32x2,
      Iop_QNarrowUn16Uto8Ux8, Iop_QNarrowUn32Uto16Ux4, Iop_QNarrowUn64Uto32Ux2, Iop_QNarrowUn16Sto8Sx8,
      Iop_QNarrowUn32Sto16Sx4, Iop_QNarrowUn64Sto32Sx2, Iop_QNarrowUn16Sto8Ux8, Iop_QNarrowUn32Sto16Ux4,
      Iop_QNarrowUn64Sto32Ux2, Iop_F32toF16x4],
        UNARY Ity_V128 Ity_I64),
     ([Iop_Widen8Uto16x8, Iop_Widen16Uto32x4, Iop_Widen32Uto64x2, Iop_Widen8Sto16x8, Iop_Widen16Sto32x4,
      Iop_Widen32Sto64x2, Iop_F16toF32x4],
        UNARY Ity_I64 Ity_V128),
     ([Iop_V128to32],
        UNARY Ity_V128 Ity_I32),
     ([Iop_32UtoV128],
        UNARY Ity_I32 Ity_V128),
     ([Iop_64UtoV128],
        UNARY Ity_I64 Ity_V128),
     ([Iop_SetV128lo32],
        BINARY Ity_V128 Ity_I32 Ity_V128),
     ([Iop_SetV128lo64],
        BINARY Ity_V128 Ity_I64 Ity_V128),
     ([Iop_Dup8x16],
        UNARY Ity_I8 Ity_V128),
     ([Iop_Dup16x8],
        UNARY Ity_I16 Ity_V128),
     ([Iop_Dup32x4],
        UNARY Ity_I32 Ity_V128),
     ([Iop_Dup8x8],
        UNARY Ity_I8 Ity_I64),
     ([Iop_Dup16x4],
        UNARY Ity_I16 Ity_I64),
     ([Iop_Dup32x2],
        UNARY Ity_I32 Ity_I64)]"

definition typeOfPrimop_cases_4 :: "(IROp list \<times> prim_type) list" where
  "typeOfPrimop_cases_4 = [
     ([Iop_CmpEQ32Fx4, Iop_CmpLT32Fx4, Iop_CmpEQ64Fx2, Iop_CmpLT64Fx2, Iop_CmpLE32Fx4, Iop_CmpUN32Fx4,
      Iop_CmpLE64Fx2, Iop_CmpUN64Fx2, Iop_CmpGT32Fx4, Iop_CmpGE32Fx4, Iop_CmpEQ32F0x4, Iop_CmpLT32F0x4,
      Iop_CmpEQ64F0x2, Iop_CmpLT64F0x2, Iop_CmpLE32F0x4, Iop_CmpUN32F0x4, Iop_CmpLE64F0x2,
      Iop_CmpUN64F0x2, Iop_Add32F0x4, Iop_Add64F0x2, Iop_Div32F0x4, Iop_Div64F0x2, Iop_Max32Fx4,
      Iop_Max32F0x4, Iop_PwMax32Fx4, Iop_PwMin32Fx4, Iop_Max64Fx2, Iop_Max64F0x2, Iop_Min32Fx4,
      Iop_Min32F0x4, Iop_Min64Fx2, Iop_Min64F0x2, Iop_Mul32F0x4, Iop_Mul64F0x2, Iop_Sub32F0x4,
      Iop_Sub64F0x2, Iop_AndV128, Iop_OrV128, Iop_XorV128, Iop_Add8x16, Iop_Add16x8, Iop_Add32x4,
      Iop_Add64x2, Iop_QAdd8Ux16, Iop_QAdd16Ux8, Iop_QAdd32Ux4, Iop_QAdd64Ux2, Iop_QAdd8Sx16,
      Iop_QAdd16Sx8, Iop_QAdd32Sx4, Iop_QAdd64Sx2, Iop_QAddExtUSsatSS8x16, Iop_QAddExtUSsatSS16x8,
      Iop_QAddExtUSsatSS32x4, Iop_QAddExtUSsatSS64x2, Iop_QAddExtSUsatUU8x16, Iop_QAddExtSUsatUU16x8,
      Iop_QAddExtSUsatUU32x4, Iop_QAddExtSUsatUU64x2, Iop_PwAdd8x16, Iop_PwAdd16x8, Iop_PwAdd32x4,
      Iop_Sub8x16, Iop_Sub16x8, Iop_Sub32x4, Iop_Sub64x2, Iop_QSub8Ux16, Iop_QSub16Ux8, Iop_QSub32Ux4,
      Iop_QSub64Ux2, Iop_QSub8Sx16, Iop_QSub16Sx8, Iop_QSub32Sx4, Iop_QSub64Sx2, Iop_Mul8x16,
      Iop_Mul16x8, Iop_Mul32x4, Iop_PolynomialMul8x16, Iop_PolynomialMulAdd8x16,
      Iop_PolynomialMulAdd16x8, Iop_PolynomialMulAdd32x4, Iop_PolynomialMulAdd64x2, Iop_MulHi16Ux8,
      Iop_MulHi32Ux4, Iop_MulHi16Sx8, Iop_MulHi32Sx4, Iop_QDMulHi16Sx8, Iop_QDMulHi32Sx4,
      Iop_QRDMulHi16Sx8, Iop_QRDMulHi32Sx4, Iop_MullEven8Ux16, Iop_MullEven16Ux8, Iop_MullEven32Ux4,
      Iop_MullEven8Sx16, Iop_MullEven16Sx8, Iop_MullEven32Sx4, Iop_Avg8Ux16, Iop_Avg16Ux8, Iop_Avg32Ux4,
      Iop_Avg8Sx16, Iop_Avg16Sx8, Iop_Avg32Sx4, Iop_Max8Sx16, Iop_Max16Sx8, Iop_Max32Sx4, Iop_Max64Sx2,
      Iop_Max8Ux16, Iop_Max16Ux8, Iop_Max32Ux4, Iop_Max64Ux2, Iop_Min8Sx16, Iop_Min16Sx8, Iop_Min32Sx4,
      Iop_Min64Sx2, Iop_Min8Ux16, Iop_Min16Ux8, Iop_Min32Ux4, Iop_Min64Ux2, Iop_CmpEQ8x16,
      Iop_CmpEQ16x8, Iop_CmpEQ32x4, Iop_CmpEQ64x2, Iop_CmpGT8Sx16, Iop_CmpGT16Sx8, Iop_CmpGT32Sx4,
      Iop_CmpGT64Sx2, Iop_CmpGT8Ux16, Iop_CmpGT16Ux8, Iop_CmpGT32Ux4, Iop_CmpGT64Ux2, Iop_Shl8x16,
      Iop_Shl16x8, Iop_Shl32x4, Iop_Shl64x2, Iop_QShl8x16, Iop_QShl16x8, Iop_QShl32x4, Iop_QShl64x2,
      Iop_QSal8x16, Iop_QSal16x8, Iop_QSal32x4, Iop_QSal64x2, Iop_Shr8x16, Iop_Shr16x8, Iop_Shr32x4,
      Iop_Shr64x2, Iop_Sar8x16, Iop_Sar16x8, Iop_Sar32x4, Iop_Sar64x2, Iop_Sal8x16, Iop_Sal16x8,
      Iop_Sal32x4, Iop_Sal64x2, Iop_Rol8x16, Iop_Rol16x8, Iop_Rol32x4, Iop_Rol64x2,
      Iop_QNarrowBin16Sto8Ux16, Iop_QNarrowBin32Sto16Ux8, Iop_QNarrowBin16Sto8Sx16,
      Iop_QNarrowBin32Sto16Sx8, Iop_QNarrowBin16Uto8Ux16, Iop_QNarrowBin32Uto16Ux8,
      Iop_QNarrowBin64Sto32Sx4, Iop_QNarrowBin64Uto32Ux4, Iop_NarrowBin16to8x16, Iop_NarrowBin32to16x8,
      Iop_NarrowBin64to32x4, Iop_InterleaveHI8x16, Iop_InterleaveHI16x8, Iop_InterleaveHI32x4,
      Iop_InterleaveHI64x2, Iop_InterleaveLO8x16, Iop_InterleaveLO16x8, Iop_InterleaveLO32x4,
      Iop_InterleaveLO64x2, Iop_CatOddLanes8x16, Iop_CatEvenLanes8x16, Iop_CatOddLanes16x8,
      Iop_CatEvenLanes16x8, Iop_CatOddLanes32x4, Iop_CatEvenLanes32x4, Iop_InterleaveOddLanes8x16,
      Iop_InterleaveEvenLanes8x16, Iop_InterleaveOddLanes16x8, Iop_InterleaveEvenLanes16x8,
      Iop_InterleaveOddLanes32x4, Iop_InterleaveEvenLanes32x4, Iop_Perm8x16, Iop_Perm32x4,
      Iop_RecipStep32Fx4, Iop_RecipStep64Fx2, Iop_RSqrtStep32Fx4, Iop_RSqrtStep64Fx2, Iop_CipherV128,
      Iop_CipherLV128, Iop_NCipherV128, Iop_NCipherLV128, Iop_Sh8Sx16, Iop_Sh16Sx8, Iop_Sh32Sx4,
      Iop_Sh64Sx2, Iop_Sh8Ux16, Iop_Sh16Ux8, Iop_Sh32Ux4, Iop_Sh64Ux2, Iop_Rsh8Sx16, Iop_Rsh16Sx8,
      Iop_Rsh32Sx4, Iop_Rsh64Sx2, Iop_Rsh8Ux16, Iop_Rsh16Ux8, Iop_Rsh32Ux4, Iop_Rsh64Ux2,
      Iop_MulI128by10E, Iop_MulI128by10ECarry],
        BINARY Ity_V128 Ity_V128 Ity_V128),
     ([Iop_PolynomialMull8x8, Iop_Mull8Ux8, Iop_Mull8Sx8, Iop_Mull16Ux4, Iop_Mull16Sx4, Iop_Mull32Ux2,
      Iop_Mull32Sx2],
        BINARY Ity_I64 Ity_I64 Ity_V128)]"

definition typeOfPrimop_cases_5 :: "(IROp list \<times> prim_type) list" where
  "typeOfPrimop_cases_5 = [
     ([Iop_NotV128, Iop_RecipEst32Fx4, Iop_RecipEst32F0x4, Iop_RecipEst64Fx2, Iop_RSqrtEst64Fx2,
      Iop_RecipEst32Ux4, Iop_RSqrtEst32F0x4, Iop_Sqrt32F0x4, Iop_Sqrt64F0x2, Iop_CmpNEZ8x16,
      Iop_CmpNEZ16x8, Iop_CmpNEZ32x4, Iop_CmpNEZ64x2, Iop_Cnt8x16, Iop_Clz8x16, Iop_Clz16x8,
      Iop_Clz32x4, Iop_Clz64x2, Iop_Cls8x16, Iop_Cls16x8, Iop_Cls32x4, Iop_PwAddL8Ux16, Iop_PwAddL16Ux8,
      Iop_PwAddL32Ux4, Iop_PwAddL8Sx16, Iop_PwAddL16Sx8, Iop_PwAddL32Sx4, Iop_Reverse8sIn64_x2,
      Iop_Reverse16sIn64_x2, Iop_Reverse32sIn64_x2, Iop_Reverse8sIn32_x4, Iop_Reverse16sIn32_x4,
      Iop_Reverse8sIn16_x8, Iop_Reverse1sIn8_x16, Iop_Neg64Fx2, Iop_Neg32Fx4, Iop_Abs8x16, Iop_Abs16x8,
      Iop_Abs32x4, Iop_Abs64x2, Iop_CipherSV128, Iop_PwBitMtxXpose64x2, Iop_ZeroHI64ofV128,
      Iop_ZeroHI96ofV128, Iop_ZeroHI112ofV128, Iop_ZeroHI120ofV128, Iop_F16toF64x2, Iop_F64toF16x2,
      Iop_MulI128by10, Iop_MulI128by10Carry, Iop_Ctz8x16, Iop_Ctz16x8, Iop_Ctz32x4, Iop_Ctz64x2,
      Iop_BCD128toI128S],
        UNARY Ity_V128 Ity_V128),
     ([Iop_ShlV128, Iop_ShrV128, Iop_ShlN8x16, Iop_ShlN16x8, Iop_ShlN32x4, Iop_ShlN64x2, Iop_ShrN8x16,
      Iop_ShrN16x8, Iop_ShrN32x4, Iop_ShrN64x2, Iop_SarN8x16, Iop_SarN16x8, Iop_SarN32x4, Iop_SarN64x2,
      Iop_QShlNsatUU8x16, Iop_QShlNsatUU16x8, Iop_QShlNsatUU32x4, Iop_QShlNsatUU64x2,
      Iop_QShlNsatSU8x16, Iop_QShlNsatSU16x8, Iop_QShlNsatSU32x4, Iop_QShlNsatSU64x2,
      Iop_QShlNsatSS8x16, Iop_QShlNsatSS16x8, Iop_QShlNsatSS32x4, Iop_QShlNsatSS64x2, Iop_SHA256,
      Iop_SHA512, Iop_QandQShrNnarrow16Uto8Ux8, Iop_QandQShrNnarrow32Uto16Ux4,
      Iop_QandQShrNnarrow64Uto32Ux2, Iop_QandQSarNnarrow16Sto8Sx8, Iop_QandQSarNnarrow32Sto16Sx4,
      Iop_QandQSarNnarrow64Sto32Sx2, Iop_QandQSarNnarrow16Sto8Ux8, Iop_QandQSarNnarrow32Sto16Ux4,
      Iop_QandQSarNnarrow64Sto32Ux2, Iop_QandQRShrNnarrow16Uto8Ux8, Iop_QandQRShrNnarrow32Uto16Ux4,
      Iop_QandQRShrNnarrow64Uto32Ux2, Iop_QandQRSarNnarrow16Sto8Sx8, Iop_QandQRSarNnarrow32Sto16Sx4,
      Iop_QandQRSarNnarrow64Sto32Sx2, Iop_QandQRSarNnarrow16Sto8Ux8, Iop_QandQRSarNnarrow32Sto16Ux4,
      Iop_QandQRSarNnarrow64Sto32Ux2, Iop_I128StoBCD128],
        BINARY Ity_V128 Ity_I8 Ity_V128),
     ([Iop_F32ToFixed32Ux4_RZ, Iop_F32ToFixed32Sx4_RZ, Iop_Fixed32UToF32x4_RN, Iop_Fixed32SToF32x4_RN],
        BINARY Ity_V128 Ity_I8 Ity_V128),
     ([Iop_F32ToFixed32Ux2_RZ, Iop_F32ToFixed32Sx2_RZ, Iop_Fixed32UToF32x2_RN, Iop_Fixed32SToF32x2_RN],
        BINARY Ity_I64 Ity_I8 Ity_I64),
     ([Iop_GetElem8x16],
        BINARY Ity_V128 Ity_I8 Ity_I8),
     ([Iop_GetElem16x8],
        BINARY Ity_V128 Ity_I8 Ity_I16),
     ([Iop_GetElem32x4],
        BINARY Ity_V128 Ity_I8 Ity_I32),
     ([Iop_GetElem64x2],
        BINARY Ity_V128 Ity_I8 Ity_I64),
     ([Iop_GetElem8x8],
        BINARY Ity_I64 Ity_I8 Ity_I8),
     ([Iop_GetElem16x4],
        BINARY Ity_I64 Ity_I8 Ity_I16),
     ([Iop_GetElem32x2],
        BINARY Ity_I64 Ity_I8 Ity_I32),
     ([Iop_SetElem8x8],
        TERNARY Ity_I64 Ity_I8 Ity_I8 Ity_I64),
     ([Iop_SetElem16x4],
        TERNARY Ity_I64 Ity_I8 Ity_I16 Ity_I64),
     ([Iop_SetElem32x2],
        TERNARY Ity_I64 Ity_I8 Ity_I32 Ity_I64),
     ([Iop_Slice64],
        TERNARY Ity_I64 Ity_I64 Ity_I8 Ity_I64),
     ([Iop_SliceV128],
        TERNARY Ity_V128 Ity_V128 Ity_I8 Ity_V128),
     ([Iop_BCDAdd, Iop_BCDSub],
        BINARY Ity_V128 Ity_V128 Ity_V128),
     ([Iop_QDMull16Sx4, Iop_QDMull32Sx2],
        BINARY Ity_I64 Ity_I64 Ity_V128),
     ([Iop_MAddF32, Iop_MSubF32],
        QUATERNARY Ity_I32 Ity_F32 Ity_F32 Ity_F32 Ity_F32),
     ([Iop_F64HLtoF128],
        BINARY Ity_F64 Ity_F64 Ity_F128),
     ([Iop_F128HItoF64, Iop_F128LOtoF64],
        UNARY Ity_F128 Ity_F64),
     ([Iop_AddF128, Iop_SubF128, Iop_MulF128, Iop_DivF128],
        TERNARY Ity_I32 Ity_F128 Ity_F128 Ity_F128),
     ([Iop_MAddF128, Iop_MSubF128, Iop_NegMAddF128, Iop_NegMSubF128],
        QUATERNARY Ity_I32 Ity_F128 Ity_F128 Ity_F128 Ity_F128),
     ([Iop_Add64Fx2, Iop_Sub64Fx2, Iop_Mul64Fx2, Iop_Div64Fx2, Iop_Add32Fx4, Iop_Sub32Fx4, Iop_Mul32Fx4,
      Iop_Div32Fx4],
        TERNARY Ity_I32 Ity_V128 Ity_V128 Ity_V128)]"

definition typeOfPrimop_cases_6 :: "(IROp list \<times> prim_type) list" where
  "typeOfPrimop_cases_6 = [
     ([Iop_Add64Fx4, Iop_Sub64Fx4, Iop_Mul64Fx4, Iop_Div64Fx4, Iop_Add32Fx8, Iop_Sub32Fx8, Iop_Mul32Fx8,
      Iop_Div32Fx8],
        TERNARY Ity_I32 Ity_V256 Ity_V256 Ity_V256),
     ([Iop_NegF128, Iop_AbsF128],
        UNARY Ity_F128 Ity_F128),
     ([Iop_SqrtF128, Iop_RoundF128toInt],
        BINARY Ity_I32 Ity_F128 Ity_F128),
     ([Iop_I32StoF128],
        UNARY Ity_I32 Ity_F128),
     ([Iop_I64StoF128],
        UNARY Ity_I64 Ity_F128),
     ([Iop_I32UtoF128],
        UNARY Ity_I32 Ity_F128),
     ([Iop_I64UtoF128],
        UNARY Ity_I64 Ity_F128),
     ([Iop_F128toI32S],
        BINARY Ity_I32 Ity_F128 Ity_I32),
     ([Iop_F128toI64S],
        BINARY Ity_I32 Ity_F128 Ity_I64),
     ([Iop_F128toI32U],
        BINARY Ity_I32 Ity_F128 Ity_I32),
     ([Iop_F128toI64U],
        BINARY Ity_I32 Ity_F128 Ity_I64),
     ([Iop_F32toF128],
        UNARY Ity_F32 Ity_F128),
     ([Iop_F64toF128],
        UNARY Ity_F64 Ity_F128),
     ([Iop_F128toF32],
        BINARY Ity_I32 Ity_F128 Ity_F32),
     ([Iop_F128toF64],
        BINARY Ity_I32 Ity_F128 Ity_F64),
     ([Iop_TruncF128toI32S, Iop_TruncF128toI64S, Iop_TruncF128toI32U, Iop_TruncF128toI64U],
        UNARY Ity_F128 Ity_F128),
     ([Iop_F128toI128S, Iop_RndF128],
        BINARY Ity_I32 Ity_F128 Ity_F128),
     ([Iop_D32toD64],
        UNARY Ity_D32 Ity_D64),
     ([Iop_ExtractExpD64],
        UNARY Ity_D64 Ity_I64),
     ([Iop_ExtractSigD64],
        UNARY Ity_D64 Ity_I64),
     ([Iop_InsertExpD64],
        BINARY Ity_I64 Ity_D64 Ity_D64),
     ([Iop_ExtractExpD128],
        UNARY Ity_D128 Ity_I64),
     ([Iop_ExtractSigD128],
        UNARY Ity_D128 Ity_I64),
     ([Iop_InsertExpD128],
        BINARY Ity_I64 Ity_D128 Ity_D128),
     ([Iop_D64toD128],
        UNARY Ity_D64 Ity_D128),
     ([Iop_ReinterpD64asI64],
        UNARY Ity_D64 Ity_I64),
     ([Iop_ReinterpI64asD64],
        UNARY Ity_I64 Ity_D64),
     ([Iop_RoundD64toInt],
        BINARY Ity_I32 Ity_D64 Ity_D64),
     ([Iop_RoundD128toInt],
        BINARY Ity_I32 Ity_D128 Ity_D128),
     ([Iop_I32StoD128, Iop_I32UtoD128],
        UNARY Ity_I32 Ity_D128),
     ([Iop_I64StoD128],
        UNARY Ity_I64 Ity_D128),
     ([Iop_I64UtoD128],
        UNARY Ity_I64 Ity_D128),
     ([Iop_DPBtoBCD, Iop_BCDtoDPB],
        UNARY Ity_I64 Ity_I64),
     ([Iop_D128HItoD64, Iop_D128LOtoD64],
        UNARY Ity_D128 Ity_D64),
     ([Iop_D128toI64S],
        BINARY Ity_I32 Ity_D128 Ity_I64),
     ([Iop_D128toI64U],
        BINARY Ity_I32 Ity_D128 Ity_I64),
     ([Iop_D128toI32S, Iop_D128toI32U],
        BINARY Ity_I32 Ity_D128 Ity_I32),
     ([Iop_D64HLtoD128],
        BINARY Ity_D64 Ity_D64 Ity_D128),
     ([Iop_ShlD64, Iop_ShrD64],
        BINARY Ity_D64 Ity_I8 Ity_D64),
     ([Iop_D64toD32],
        BINARY Ity_I32 Ity_D64 Ity_D32),
     ([Iop_D64toI32S, Iop_D64toI32U],
        BINARY Ity_I32 Ity_D64 Ity_I32),
     ([Iop_D64toI64S],
        BINARY Ity_I32 Ity_D64 Ity_I64),
     ([Iop_D64toI64U],
        BINARY Ity_I32 Ity_D64 Ity_I64),
     ([Iop_I32StoD64, Iop_I32UtoD64],
        UNARY Ity_I32 Ity_D64),
     ([Iop_I64StoD64],
        BINARY Ity_I32 Ity_I64 Ity_D64),
     ([Iop_I64UtoD64],
        BINARY Ity_I32 Ity_I64 Ity_D64),
     ([Iop_F32toD32],
        BINARY Ity_I32 Ity_F32 Ity_D32),
     ([Iop_F32toD64],
        BINARY Ity_I32 Ity_F32 Ity_D64),
     ([Iop_F32toD128],
        BINARY Ity_I32 Ity_F32 Ity_D128),
     ([Iop_F64toD32],
        BINARY Ity_I32 Ity_F64 Ity_D32)]"

definition typeOfPrimop_cases_7 :: "(IROp list \<times> prim_type) list" where
  "typeOfPrimop_cases_7 = [
     ([Iop_F64toD64],
        BINARY Ity_I32 Ity_F64 Ity_D64),
     ([Iop_F64toD128],
        BINARY Ity_I32 Ity_F64 Ity_D128),
     ([Iop_F128toD32],
        BINARY Ity_I32 Ity_F128 Ity_D32),
     ([Iop_F128toD64],
        BINARY Ity_I32 Ity_F128 Ity_D64),
     ([Iop_F128toD128],
        BINARY Ity_I32 Ity_F128 Ity_D128),
     ([Iop_D32toF32],
        BINARY Ity_I32 Ity_D32 Ity_F32),
     ([Iop_D32toF64],
        BINARY Ity_I32 Ity_D32 Ity_F64),
     ([Iop_D32toF128],
        BINARY Ity_I32 Ity_D32 Ity_F128),
     ([Iop_D64toF32],
        BINARY Ity_I32 Ity_D64 Ity_F32),
     ([Iop_D64toF64],
        BINARY Ity_I32 Ity_D64 Ity_F64),
     ([Iop_D64toF128],
        BINARY Ity_I32 Ity_D64 Ity_F128),
     ([Iop_D128toF32],
        BINARY Ity_I32 Ity_D128 Ity_F32),
     ([Iop_D128toF64],
        BINARY Ity_I32 Ity_D128 Ity_F64),
     ([Iop_D128toF128],
        BINARY Ity_I32 Ity_D128 Ity_F128),
     ([Iop_CmpD64, Iop_CmpExpD64],
        BINARY Ity_D64 Ity_D64 Ity_I32),
     ([Iop_CmpD128, Iop_CmpExpD128],
        BINARY Ity_D128 Ity_D128 Ity_I32),
     ([Iop_QuantizeD64],
        TERNARY Ity_I32 Ity_D64 Ity_D64 Ity_D64),
     ([Iop_SignificanceRoundD64],
        TERNARY Ity_I32 Ity_I8 Ity_D64 Ity_D64),
     ([Iop_QuantizeD128],
        TERNARY Ity_I32 Ity_D128 Ity_D128 Ity_D128),
     ([Iop_SignificanceRoundD128],
        TERNARY Ity_I32 Ity_I8 Ity_D128 Ity_D128),
     ([Iop_ShlD128, Iop_ShrD128],
        BINARY Ity_D128 Ity_I8 Ity_D128),
     ([Iop_AddD64, Iop_SubD64, Iop_MulD64, Iop_DivD64],
        TERNARY Ity_I32 Ity_D64 Ity_D64 Ity_D64),
     ([Iop_D128toD64],
        BINARY Ity_I32 Ity_D128 Ity_D64),
     ([Iop_AddD128, Iop_SubD128, Iop_MulD128, Iop_DivD128],
        TERNARY Ity_I32 Ity_D128 Ity_D128 Ity_D128),
     ([Iop_V256to64_0, Iop_V256to64_1, Iop_V256to64_2, Iop_V256to64_3],
        UNARY Ity_V256 Ity_I64),
     ([Iop_64x4toV256],
        QUATERNARY Ity_I64 Ity_I64 Ity_I64 Ity_I64 Ity_V256),
     ([Iop_AndV256, Iop_OrV256, Iop_XorV256, Iop_Max32Fx8, Iop_Min32Fx8, Iop_Max64Fx4, Iop_Min64Fx4,
      Iop_Add8x32, Iop_Add16x16, Iop_Add32x8, Iop_Add64x4, Iop_Sub8x32, Iop_Sub16x16, Iop_Sub32x8,
      Iop_Sub64x4, Iop_Mul16x16, Iop_Mul32x8, Iop_MulHi16Ux16, Iop_MulHi16Sx16, Iop_Avg8Ux32,
      Iop_Avg16Ux16, Iop_Max8Sx32, Iop_Max16Sx16, Iop_Max32Sx8, Iop_Max8Ux32, Iop_Max16Ux16,
      Iop_Max32Ux8, Iop_Min8Sx32, Iop_Min16Sx16, Iop_Min32Sx8, Iop_Min8Ux32, Iop_Min16Ux16,
      Iop_Min32Ux8, Iop_CmpEQ8x32, Iop_CmpEQ16x16, Iop_CmpEQ32x8, Iop_CmpEQ64x4, Iop_CmpGT8Sx32,
      Iop_CmpGT16Sx16, Iop_CmpGT32Sx8, Iop_CmpGT64Sx4, Iop_QAdd8Ux32, Iop_QAdd16Ux16, Iop_QAdd8Sx32,
      Iop_QAdd16Sx16, Iop_QSub8Ux32, Iop_QSub16Ux16, Iop_QSub8Sx32, Iop_QSub16Sx16, Iop_Perm32x8],
        BINARY Ity_V256 Ity_V256 Ity_V256),
     ([Iop_V256toV128_1, Iop_V256toV128_0],
        UNARY Ity_V256 Ity_V128),
     ([Iop_QandUQsh8x16, Iop_QandUQsh16x8, Iop_QandUQsh32x4, Iop_QandUQsh64x2, Iop_QandSQsh8x16,
      Iop_QandSQsh16x8, Iop_QandSQsh32x4, Iop_QandSQsh64x2, Iop_QandUQRsh8x16, Iop_QandUQRsh16x8,
      Iop_QandUQRsh32x4, Iop_QandUQRsh64x2, Iop_QandSQRsh8x16, Iop_QandSQRsh16x8, Iop_QandSQRsh32x4,
      Iop_QandSQRsh64x2, Iop_V128HLtoV256],
        BINARY Ity_V128 Ity_V128 Ity_V256),
     ([Iop_NotV256, Iop_RSqrtEst32Fx8, Iop_Sqrt32Fx8, Iop_Sqrt64Fx4, Iop_RecipEst32Fx8, Iop_CmpNEZ8x32,
      Iop_CmpNEZ16x16, Iop_CmpNEZ64x4, Iop_CmpNEZ32x8],
        UNARY Ity_V256 Ity_V256),
     ([Iop_ShlN16x16, Iop_ShlN32x8, Iop_ShlN64x4, Iop_ShrN16x16, Iop_ShrN32x8, Iop_ShrN64x4,
      Iop_SarN16x16, Iop_SarN32x8],
        BINARY Ity_V256 Ity_I8 Ity_V256)]"

definition typeOfPrimop_cases :: "(IROp list \<times> prim_type) list" where
  "typeOfPrimop_cases =
     typeOfPrimop_cases_1 @ typeOfPrimop_cases_2 @ typeOfPrimop_cases_3 @ typeOfPrimop_cases_4 @ typeOfPrimop_cases_5 @ typeOfPrimop_cases_6 @ typeOfPrimop_cases_7"

definition typeOfPrimop :: "IROp \<Rightarrow> prim_type option" where
  "typeOfPrimop op = switch typeOfPrimop_cases op"

definition typeOfPrimop_groups :: label_tree where
  "typeOfPrimop_groups =
     Below Iop_TruncF64asF32 (Below Iop_DivModS64to64 (Below Iop_CasCmpEQ16 (Below Iop_Shl8 (Below
     Iop_Or8 (Below Iop_Sub32 (Below Iop_Add64 (Below Iop_Add16 (Group 0) (Below Iop_Add32 (Group 1)
     (Group 2))) (Below Iop_Sub8 (Group 3) (Below Iop_Sub16 (Group 0) (Group 1)))) (Below Iop_Mul16
     (Below Iop_Sub64 (Group 2) (Below Iop_Mul8 (Group 3) (Group 0))) (Below Iop_Mul32 (Group 1) (Below
     Iop_Mul64 (Group 2) (Group 3))))) (Below Iop_And32 (Below Iop_Or64 (Below Iop_Or16 (Group 0) (Below
     Iop_Or32 (Group 1) (Group 2))) (Below Iop_And8 (Group 3) (Below Iop_And16 (Group 0) (Group 1))))
     (Below Iop_Xor16 (Below Iop_And64 (Group 2) (Below Iop_Xor8 (Group 3) (Group 0))) (Below Iop_Xor32
     (Group 1) (Below Iop_Xor64 (Group 2) (Group 3)))))) (Below Iop_CmpEQ8 (Below Iop_Shr32 (Below
     Iop_Shl64 (Below Iop_Shl16 (Group 5) (Below Iop_Shl32 (Group 6) (Group 7))) (Below Iop_Shr8 (Group
     8) (Below Iop_Shr16 (Group 5) (Group 6)))) (Below Iop_Sar16 (Below Iop_Shr64 (Group 7) (Below
     Iop_Sar8 (Group 8) (Group 5))) (Below Iop_Sar32 (Group 6) (Below Iop_Sar64 (Group 7) (Group 8)))))
     (Below Iop_CmpNE32 (Below Iop_CmpEQ64 (Below Iop_CmpEQ16 (Group 13) (Below Iop_CmpEQ32 (Group 14)
     (Group 15))) (Below Iop_CmpNE8 (Group 16) (Below Iop_CmpNE16 (Group 13) (Group 14)))) (Below
     Iop_Not16 (Below Iop_CmpNE64 (Group 15) (Below Iop_Not8 (Group 16) (Group 9))) (Below Iop_Not64
     (Below Iop_Not32 (Group 10) (Group 11)) (Below Iop_CasCmpEQ8 (Group 12) (Group 13))))))) (Below
     Iop_CmpLE32S (Below Iop_MullS16 (Below Iop_CasCmpNE64 (Below Iop_CasCmpNE8 (Below Iop_CasCmpEQ32
     (Group 14) (Below Iop_CasCmpEQ64 (Group 15) (Group 16))) (Below Iop_CasCmpNE16 (Group 13) (Below
     Iop_CasCmpNE32 (Group 14) (Group 15)))) (Below Iop_ExpCmpNE32 (Below Iop_ExpCmpNE8 (Group 16) (Below
     Iop_ExpCmpNE16 (Group 13) (Group 14))) (Below Iop_ExpCmpNE64 (Group 15) (Below Iop_MullS8 (Group 16)
     (Group 27))))) (Below Iop_MullU64 (Below Iop_MullU8 (Below Iop_MullS32 (Group 28) (Below Iop_MullS64
     (Group 29) (Group 30))) (Below Iop_MullU16 (Group 27) (Below Iop_MullU32 (Group 28) (Group 29))))
     (Below Iop_Ctz64 (Below Iop_Clz64 (Group 30) (Below Iop_Clz32 (Group 32) (Group 31))) (Below
     Iop_CmpLT32S (Below Iop_Ctz32 (Group 32) (Group 31)) (Below Iop_CmpLT64S (Group 15) (Group 16))))))
     (Below Iop_Left8 (Below Iop_CmpNEZ8 (Below Iop_CmpLT64U (Below Iop_CmpLE64S (Group 15) (Below
     Iop_CmpLT32U (Group 16) (Group 15))) (Below Iop_CmpLE32U (Group 16) (Below Iop_CmpLE64U (Group 15)
     (Group 16)))) (Below Iop_CmpNEZ64 (Below Iop_CmpNEZ16 (Group 17) (Below Iop_CmpNEZ32 (Group 18)
     (Group 19))) (Below Iop_CmpwNEZ32 (Group 20) (Below Iop_CmpwNEZ64 (Group 23) (Group 24))))) (Below
     Iop_CmpORD32S (Below Iop_Left64 (Below Iop_Left16 (Group 21) (Below Iop_Left32 (Group 22) (Group
     23))) (Below Iop_Max32U (Group 24) (Below Iop_CmpORD64U (Group 2) (Group 3)))) (Below Iop_DivU64
     (Below Iop_CmpORD64S (Group 2) (Below Iop_DivU32 (Group 3) (Group 33))) (Below Iop_DivModU64to32
     (Below Iop_DivU32E (Group 34) (Group 33)) (Below Iop_DivModU128to64 (Group 35) (Group 36))))))))
     (Below Iop_I64StoF64 (Below Iop_Not1 (Below Iop_32Sto64 (Below Iop_32Uto64 (Below Iop_8Uto64 (Below
     Iop_8Uto16 (Group 37) (Below Iop_8Uto32 (Group 55) (Group 54))) (Below Iop_16Uto32 (Group 58) (Below
     Iop_16Uto64 (Group 56) (Group 59)))) (Below Iop_8Sto64 (Below Iop_8Sto16 (Group 57) (Below
     Iop_8Sto32 (Group 55) (Group 54))) (Below Iop_16Sto32 (Group 58) (Below Iop_16Sto64 (Group 56)
     (Group 59))))) (Below Iop_32to16 (Below Iop_64to16 (Below Iop_64to8 (Group 57) (Below Iop_32to8
     (Group 62) (Group 61))) (Below Iop_16to8 (Group 60) (Below Iop_8HLto16 (Group 38) (Group 39))))
     (Below Iop_32HLto64 (Below Iop_16HLto32 (Group 40) (Below Iop_64to32 (Group 41) (Group 42))) (Below
     Iop_128to64 (Group 43) (Below Iop_64HLto128 (Group 44) (Group 45)))))) (Below Iop_AddF64r32 (Below
     Iop_1Sto8 (Below Iop_1Uto8 (Below Iop_32to1 (Group 46) (Below Iop_64to1 (Group 52) (Group 53)))
     (Below Iop_1Uto32 (Group 47) (Below Iop_1Uto64 (Group 50) (Group 51)))) (Below Iop_1Sto64 (Below
     Iop_1Sto16 (Group 48) (Below Iop_1Sto32 (Group 49) (Group 50))) (Below Iop_AddF64 (Group 51) (Below
     Iop_AddF32 (Group 63) (Group 64))))) (Below Iop_CmpF32 (Below Iop_SqrtF64 (Below Iop_NegF64 (Group
     63) (Below Iop_NegF32 (Group 65) (Group 66))) (Below Iop_SqrtF32 (Group 67) (Below Iop_CmpF64 (Group
     68) (Group 72)))) (Below Iop_F64toI32S (Below Iop_CmpF128 (Group 71) (Below Iop_F64toI16S (Group 73)
     (Group 74))) (Below Iop_F64toI32U (Below Iop_F64toI64S (Group 75) (Group 76)) (Below Iop_I32StoF64
     (Group 77) (Group 78))))))) (Below Iop_I32UtoF128 (Below Iop_F64toF32 (Below Iop_F32toI64S (Below
     Iop_I32UtoF32 (Below Iop_I64UtoF64 (Group 79) (Below Iop_I64UtoF32 (Group 80) (Group 81))) (Below
     Iop_I32UtoF64 (Group 87) (Below Iop_F32toI32S (Group 82) (Group 83)))) (Below Iop_I32StoF32 (Below
     Iop_F32toI32U (Group 84) (Below Iop_F32toI64U (Group 85) (Group 86))) (Below Iop_I64StoF32 (Group
     88) (Below Iop_F32toF64 (Group 89) (Group 90))))) (Below Iop_F128HItoF64 (Below Iop_ReinterpF32asI32
     (Below Iop_ReinterpF64asI64 (Group 93) (Below Iop_ReinterpI64asF64 (Group 97) (Group 96))) (Below
     Iop_ReinterpI32asF32 (Group 99) (Below Iop_F64HLtoF128 (Group 98) (Group 144)))) (Below Iop_NegF128
     (Below Iop_AddF128 (Group 145) (Below Iop_MAddF128 (Group 146) (Group 147))) (Below Iop_I32StoF128
     (Below Iop_SqrtF128 (Group 150) (Group 151)) (Below Iop_I64StoF128 (Group 152) (Group 153))))))
     (Below Iop_TruncF128toI32S (Below Iop_F128toI32U (Below Iop_F64toF128 (Below Iop_I64UtoF128 (Group
     154) (Below Iop_F32toF128 (Group 155) (Group 160))) (Below Iop_F128toI32S (Group 161) (Below
     Iop_F128toI64S (Group 156) (Group 157)))) (Below Iop_F128toF64 (Below Iop_F128toI64U (Group 158)
     (Below Iop_F128toI128S (Group 159) (Group 165))) (Below Iop_F128toF32 (Group 163) (Below Iop_RndF128
     (Group 162) (Group 165))))) (Below Iop_SinF64 (Below Iop_PRem1F64 (Below Iop_AtanF64 (Group 164)
     (Below Iop_PRemC3210F64 (Group 100) (Group 101))) (Below Iop_PRem1C3210F64 (Group 100) (Below
     Iop_ScaleF64 (Group 101) (Group 100)))) (Below Iop_RoundF32toInt (Below Iop_RoundF128toInt (Group
     102) (Below Iop_RoundF64toInt (Group 151) (Group 102))) (Below Iop_MAddF64 (Below Iop_MAddF32 (Group
     68) (Group 143)) (Below Iop_RSqrtEst5GoodF64 (Group 103) (Group 104))))))))) (Below
     Iop_InsertExpD128 (Below Iop_ShlD128 (Below Iop_Mul8x8 (Below Iop_I32UtoFx2 (Below Iop_F16toF64
     (Below Iop_RecpExpF32 (Below Iop_RoundF64toF32 (Group 106) (Below Iop_RecpExpF64 (Group 105) (Group
     67))) (Below Iop_MaxNumF64 (Group 68) (Below Iop_MaxNumF32 (Group 69) (Group 70)))) (Below
     Iop_F32toF16 (Below Iop_F64toF16 (Group 91) (Below Iop_F16toF32 (Group 94) (Group 92))) (Below
     Iop_QAdd32S (Group 95) (Below Iop_CmpNEZ16x2 (Group 2) (Group 11))))) (Below Iop_RSqrtStep32Fx2
     (Below Iop_RecipEst32Fx2 (Below Iop_F32ToFixed32Ux2_RZ (Group 12) (Below Iop_Max32Fx2 (Group 128)
     (Group 3))) (Below Iop_RecipStep32Fx2 (Group 12) (Below Iop_RSqrtEst32Fx2 (Group 3) (Group 12))))
     (Below Iop_PwAddL8Ux8 (Below Iop_Neg32Fx2 (Group 3) (Below Iop_Add8x8 (Group 12) (Group 3))) (Below
     Iop_Sub8x8 (Group 12) (Below Iop_Abs8x8 (Group 3) (Group 12)))))) (Below Iop_SetElem16x4 (Below
     Iop_QShlNsatSU8x8 (Below Iop_Shl8x8 (Below Iop_Cnt8x8 (Group 3) (Below Iop_Clz64x2 (Group 12) (Group
     125))) (Below Iop_ShlN8x8 (Group 3) (Below Iop_QShl8x8 (Group 4) (Group 3)))) (Below Iop_GetElem16x4
     (Below Iop_QNarrowBin16Sto8Ux8 (Group 4) (Below Iop_GetElem8x8 (Group 3) (Group 133))) (Below
     Iop_GetElem32x2 (Group 134) (Below Iop_SetElem8x8 (Group 135) (Group 136))))) (Below
     Iop_Reverse8sIn16_x4 (Below Iop_Dup16x4 (Below Iop_SetElem32x2 (Group 137) (Below Iop_Dup8x8 (Group
     138) (Group 120))) (Below Iop_Dup32x2 (Group 121) (Below Iop_Slice64 (Group 122) (Group 139))))
     (Below Iop_RecipEst32Ux2 (Below Iop_Perm8x8 (Group 12) (Below Iop_GetMSBs8x8 (Group 3) (Group 25)))
     (Below Iop_AddD128 (Below Iop_AddD64 (Group 12) (Group 220)) (Below Iop_ShlD64 (Group 222) (Group
     187))))))) (Below Iop_F128toD128 (Below Iop_D64toI64S (Below Iop_D64toD32 (Below Iop_I32StoD128
     (Below Iop_D32toD64 (Group 219) (Below Iop_D64toD128 (Group 166) (Group 173))) (Below Iop_I64StoD128
     (Group 178) (Below Iop_I64UtoD128 (Group 179) (Group 180)))) (Below Iop_I64StoD64 (Below
     Iop_D128toD64 (Group 188) (Below Iop_I32StoD64 (Group 221) (Group 192))) (Below Iop_I64UtoD64 (Group
     193) (Below Iop_D64toI32S (Group 194) (Group 189))))) (Below Iop_F32toD64 (Below Iop_D128toI64S
     (Below Iop_D64toI64U (Group 190) (Below Iop_D128toI32S (Group 191) (Group 185))) (Below
     Iop_D128toI64U (Group 183) (Below Iop_F32toD32 (Group 184) (Group 195)))) (Below Iop_F64toD64 (Below
     Iop_F32toD128 (Group 196) (Below Iop_F64toD32 (Group 197) (Group 198))) (Below Iop_F128toD32 (Below
     Iop_F64toD128 (Group 199) (Group 200)) (Below Iop_F128toD64 (Group 201) (Group 202)))))) (Below
     Iop_CmpD64 (Below Iop_D64toF128 (Below Iop_D32toF128 (Below Iop_D32toF32 (Group 203) (Below
     Iop_D32toF64 (Group 204) (Group 205))) (Below Iop_D64toF32 (Group 206) (Below Iop_D64toF64 (Group
     207) (Group 208)))) (Below Iop_D128toF128 (Below Iop_D128toF32 (Group 209) (Below Iop_D128toF64
     (Group 210) (Group 211))) (Below Iop_RoundD64toInt (Group 212) (Below Iop_RoundD128toInt (Group 176)
     (Group 177))))) (Below Iop_SignificanceRoundD64 (Below Iop_CmpExpD128 (Below Iop_CmpD128 (Group 213)
     (Below Iop_CmpExpD64 (Group 214) (Group 213))) (Below Iop_QuantizeD64 (Group 214) (Below
     Iop_QuantizeD128 (Group 215) (Group 217)))) (Below Iop_ExtractExpD128 (Below
     Iop_SignificanceRoundD128 (Group 216) (Below Iop_ExtractExpD64 (Group 218) (Group 167))) (Below
     Iop_ExtractSigD128 (Below Iop_ExtractSigD64 (Group 170) (Group 168)) (Below Iop_InsertExpD64 (Group
     171) (Group 169)))))))) (Below Iop_Mull8Ux8 (Below Iop_Add32F0x4 (Below Iop_CmpEQ32Fx4 (Below
     Iop_BCD128toI128S (Below Iop_DPBtoBCD (Below Iop_D64HLtoD128 (Group 172) (Below Iop_D128HItoD64
     (Group 186) (Group 182))) (Below Iop_BCDAdd (Group 181) (Below Iop_I128StoBCD128 (Group 141) (Group
     126)))) (Below Iop_Add32Fx4 (Below Iop_ReinterpI64asD64 (Group 125) (Below Iop_ReinterpD64asI64
     (Group 175) (Group 174))) (Below Iop_Max32Fx4 (Group 148) (Below Iop_Add32Fx2 (Group 123) (Group
     3))))) (Below Iop_RSqrtEst32Fx4 (Below Iop_Sqrt32Fx4 (Below Iop_Abs32Fx4 (Group 123) (Below
     Iop_Neg32Fx4 (Group 107) (Group 125))) (Below Iop_RecipEst32Fx4 (Group 108) (Below
     Iop_RecipStep32Fx4 (Group 125) (Group 123)))) (Below Iop_F32ToFixed32Ux4_RZ (Below
     Iop_RSqrtStep32Fx4 (Group 107) (Below Iop_I32UtoFx4 (Group 123) (Group 107))) (Below Iop_F16toF32x4
     (Below Iop_F32toF16x4 (Group 127) (Group 110)) (Below Iop_F64toF16x2 (Group 111) (Group 125))))))
     (Below Iop_V128to64 (Below Iop_Sqrt64Fx2 (Below Iop_Max64Fx2 (Below Iop_RecipEst32F0x4 (Group 123)
     (Below Iop_Add64Fx2 (Group 125) (Group 148))) (Below Iop_Abs64Fx2 (Group 123) (Below Iop_Neg64Fx2
     (Group 107) (Group 125)))) (Below Iop_RSqrtEst64Fx2 (Below Iop_RecipEst64Fx2 (Group 108) (Below
     Iop_RecipStep64Fx2 (Group 125) (Group 123))) (Below Iop_RSqrtStep64Fx2 (Group 125) (Below
     Iop_Sqrt64F0x2 (Group 123) (Group 125))))) (Below Iop_V128to32 (Below Iop_SetV128lo64 (Below
     Iop_64HLtoV128 (Group 110) (Below Iop_64UtoV128 (Group 109) (Group 114))) (Below Iop_ZeroHI64ofV128
     (Group 116) (Below Iop_32UtoV128 (Group 125) (Group 113)))) (Below Iop_AndV128 (Below
     Iop_SetV128lo32 (Group 112) (Below Iop_NotV128 (Group 115) (Group 125))) (Below Iop_CmpNEZ8x16
     (Below Iop_ShlV128 (Group 123) (Group 126)) (Below Iop_Add8x16 (Group 125) (Group 123))))))) (Below
     Iop_Dup32x4 (Below Iop_QandUQsh8x16 (Below Iop_PwAddL8Ux16 (Below Iop_PolynomialMull8x8 (Below
     Iop_QDMull16Sx4 (Group 124) (Below Iop_QDMulHi16Sx8 (Group 142) (Group 123))) (Below
     Iop_PolynomialMulAdd8x16 (Group 124) (Below Iop_PwAdd32Fx2 (Group 123) (Group 3)))) (Below
     Iop_ShlN8x16 (Below Iop_Avg8Ux16 (Group 125) (Below Iop_Cnt8x16 (Group 123) (Group 125))) (Below
     Iop_Shl8x16 (Group 126) (Below Iop_QShlNsatSU8x16 (Group 123) (Group 126))))) (Below
     Iop_InterleaveHI8x16 (Below Iop_QNarrowBin16Sto8Ux16 (Below Iop_Sh8Sx16 (Group 227) (Below
     Iop_QandQShrNnarrow16Uto8Ux8 (Group 123) (Group 126))) (Below Iop_NarrowUn16to8x8 (Group 123) (Below
     Iop_Widen8Uto16x8 (Group 110) (Group 111)))) (Below Iop_GetElem32x4 (Below Iop_GetElem8x16 (Group
     123) (Below Iop_GetElem16x8 (Group 129) (Group 130))) (Below Iop_Dup8x16 (Below Iop_GetElem64x2
     (Group 131) (Group 132)) (Below Iop_Dup16x8 (Group 117) (Group 118)))))) (Below Iop_V128HLtoV256
     (Below Iop_RSqrtEst32Ux4 (Below Iop_Perm8x16 (Below Iop_SliceV128 (Group 119) (Below
     Iop_Reverse8sIn16_x8 (Group 140) (Group 125))) (Below Iop_GetMSBs8x16 (Group 123) (Below
     Iop_RecipEst32Ux4 (Group 26) (Group 125)))) (Below Iop_V256to64_0 (Below Iop_MulI128by10 (Group 107)
     (Below Iop_MulI128by10E (Group 125) (Group 123))) (Below Iop_64x4toV256 (Group 223) (Below
     Iop_V256toV128_0 (Group 224) (Group 226))))) (Below Iop_CipherV128 (Below Iop_Add8x32 (Below
     Iop_AndV256 (Group 227) (Below Iop_NotV256 (Group 225) (Group 228))) (Below Iop_ShlN16x16 (Group
     225) (Below Iop_Max8Sx32 (Group 229) (Group 225)))) (Below Iop_SHA512 (Below Iop_CipherSV128 (Group
     123) (Below Iop_NCipherV128 (Group 125) (Group 123))) (Below Iop_Sqrt32Fx8 (Below Iop_Add64Fx4
     (Group 126) (Group 149)) (Below Iop_Max32Fx8 (Group 228) (Group 225)))))))))"

section \<open>Types of the expressions\<close>

fun typeOfIRConst :: "IRConst \<Rightarrow> IRType" where
  "typeOfIRConst (Ico_U1 _) = Ity_I1"
| "typeOfIRConst (Ico_U8 _) = Ity_I8"
| "typeOfIRConst (Ico_U16 _) = Ity_I16"
| "typeOfIRConst (Ico_U32 _) = Ity_I32"
| "typeOfIRConst (Ico_U64 _) = Ity_I64"
| "typeOfIRConst (Ico_F32 _) = Ity_F32"
| "typeOfIRConst (Ico_F32i _) = Ity_F32"
| "typeOfIRConst (Ico_F64 _) = Ity_F64"
| "typeOfIRConst (Ico_F64i _) = Ity_F64"
| "typeOfIRConst (Ico_V128 _) = Ity_V128"
| "typeOfIRConst (Ico_V256 _) = Ity_V256"

definition typeOfIRTemp :: "IRType list \<Rightarrow> IRTemp \<Rightarrow> IRType option" where
  "typeOfIRTemp env t = (if t < length env then Some (env ! t) else None)"

fun typeOfIRExpr :: "IRType list \<Rightarrow> IRExpr \<Rightarrow> IRType option" where
  "typeOfIRExpr tyenv (Iex_Load _ ty _) = Some ty"
| "typeOfIRExpr tyenv (Iex_Get _ ty) = Some ty"
| "typeOfIRExpr tyenv (Iex_GetI descr _ _) = Some (ra_elemTy descr)"
| "typeOfIRExpr tyenv (Iex_RdTmp t) = typeOfIRTemp tyenv t"
| "typeOfIRExpr tyenv (Iex_Const c) = Some (typeOfIRConst c)"
| "typeOfIRExpr tyenv (Iex_Qop op _ _ _ _) = map_option fst (typeOfPrimop op)"
| "typeOfIRExpr tyenv (Iex_Triop op _ _ _) = map_option fst (typeOfPrimop op)"
| "typeOfIRExpr tyenv (Iex_Binop op _ _) = map_option fst (typeOfPrimop op)"
| "typeOfIRExpr tyenv (Iex_Unop op _) = map_option fst (typeOfPrimop op)"
| "typeOfIRExpr tyenv (Iex_CCall _ retty _) = Some retty"
| "typeOfIRExpr tyenv (Iex_ITE _ _ f) = typeOfIRExpr tyenv f"
| "typeOfIRExpr tyenv (Iex_Binder _) = None"
| "typeOfIRExpr tyenv Iex_VECRET = None"
| "typeOfIRExpr tyenv Iex_GSPTR = None"

section \<open>The switch of the operator types\<close>

lemma typeOfPrimop_switch: "switch_ok typeOfPrimop_groups 0 typeOfPrimop_cases"
  unfolding typeOfPrimop_cases_def switch_ok_append typeOfPrimop_groups_def typeOfPrimop_cases_1_def
    typeOfPrimop_cases_2_def typeOfPrimop_cases_3_def typeOfPrimop_cases_4_def
    typeOfPrimop_cases_5_def typeOfPrimop_cases_6_def typeOfPrimop_cases_7_def list.size
  by (intro conjI) (simp only: switch_check list.size cong: group_of_cong in_group_cong switch_ok_cong if_weak_cong)+

lemma typeOfPrimop_eqs: "switch_eqs typeOfPrimop typeOfPrimop_cases"
  unfolding typeOfPrimop_def by (rule switch_eqsI [OF typeOfPrimop_switch])

text \<open>The type of every operator.\<close>

lemmas typeOfPrimop_parts = typeOfPrimop_eqs [unfolded typeOfPrimop_cases_def switch_eqs_append]

lemmas typeOfPrimop_simps [simp] =
  typeOfPrimop_parts [unfolded typeOfPrimop_cases_1_def typeOfPrimop_cases_2_def typeOfPrimop_cases_3_def
    typeOfPrimop_cases_4_def typeOfPrimop_cases_5_def typeOfPrimop_cases_6_def typeOfPrimop_cases_7_def
    switch_eqs_unfold]

lemmas prim_type_defs = UNARY_def BINARY_def TERNARY_def QUATERNARY_def COMPARISON_def UNARY_COMPARISON_def

end
