(* ===== verification/TntTranslate.thy ===== *)
theory TntTranslate
  imports VexIR
begin

text \<open>
  The instrumenter's building blocks (\<^verbatim>\<open>taintgrind/tnt_translate.c\<close>, lines 60 to 2090):
  the environment of a superblock under construction, shadow temporaries, and the functions
  that emit the shadow computation of one primitive. The C functions mutate the \<open>MCEnv\<close> they are
  given and return an expression; here both are returned, and \<open>None\<close> is a failed assertion or a
  panic. \<open>trace\<close> only prints and is left out. Where C passes a call as the argument of
  another, the inner call comes first, from left to right.
\<close>

section \<open>The state of the instrumenter\<close>

datatype TempKind = Orig | VSh

record TempMapEnt =
  tm_kind :: TempKind
  tm_shadowV :: "IRTemp option"

record VexGuestLayout =
  total_sizeB :: int
  offset_SP :: int
  sizeof_SP :: int
  offset_IP :: int
  sizeof_IP :: int
  alwaysDefd :: "(int \<times> int) list"

record MCEnv =
  sb_tyenv :: "IRType list"
  sb_stmts :: "IRStmt list"
  tmpMap :: "TempMapEnt list"
  bogusLiterals :: bool
  useLLVMworkarounds :: bool
  mc_layout :: VexGuestLayout
  hWordTy :: IRType

definition newTemp :: "MCEnv \<Rightarrow> IRType \<Rightarrow> TempKind \<Rightarrow> (IRTemp \<times> MCEnv) option" where
  "newTemp mce ty kind = do {
     let tmp = length (sb_tyenv mce);
     let mce = mce\<lparr>sb_tyenv := sb_tyenv mce @ [ty]\<rparr>;
     let newIx = length (tmpMap mce);
     let mce = mce\<lparr>tmpMap := tmpMap mce @ [\<lparr>tm_kind = kind, tm_shadowV = None\<rparr>]\<rparr>;
     assert_that (newIx = tmp);
     Some (tmp, mce)
   }"

text \<open>Shadow state is held in integer types.\<close>

fun shadowTypeV :: "IRType \<Rightarrow> IRType option" where
  "shadowTypeV Ity_I1 = Some Ity_I1"
| "shadowTypeV Ity_I8 = Some Ity_I8"
| "shadowTypeV Ity_I16 = Some Ity_I16"
| "shadowTypeV Ity_I32 = Some Ity_I32"
| "shadowTypeV Ity_I64 = Some Ity_I64"
| "shadowTypeV Ity_I128 = Some Ity_I128"
| "shadowTypeV Ity_F16 = Some Ity_I16"
| "shadowTypeV Ity_F32 = Some Ity_I32"
| "shadowTypeV Ity_D32 = Some Ity_I32"
| "shadowTypeV Ity_F64 = Some Ity_I64"
| "shadowTypeV Ity_D64 = Some Ity_I64"
| "shadowTypeV Ity_F128 = Some Ity_I128"
| "shadowTypeV Ity_D128 = Some Ity_I128"
| "shadowTypeV Ity_V128 = Some Ity_V128"
| "shadowTypeV Ity_V256 = Some Ity_V256"
| "shadowTypeV Ity_INVALID = None"

definition findShadowTmpV :: "MCEnv \<Rightarrow> IRTemp \<Rightarrow> (IRTemp \<times> MCEnv) option" where
  "findShadowTmpV mce orig = do {
     assert_that (orig < length (tmpMap mce));
     assert_that (tm_kind (tmpMap mce ! orig) = Orig);
     (case tm_shadowV (tmpMap mce ! orig) of
        Some v \<Rightarrow> Some (v, mce)
      | None \<Rightarrow> do {
          ty \<leftarrow> typeOfIRTemp (sb_tyenv mce) orig;
          sty \<leftarrow> shadowTypeV ty;
          (tmpV, mce) \<leftarrow> newTemp mce sty VSh;
          assert_that (tm_kind (tmpMap mce ! orig) = Orig);
          assert_that (tm_shadowV (tmpMap mce ! orig) = None);
          Some (tmpV, mce\<lparr>tmpMap := (tmpMap mce)[orig := (tmpMap mce ! orig)\<lparr>tm_shadowV := Some tmpV\<rparr>]\<rparr>)
        })
   }"

section \<open>Atoms\<close>

definition tempKind :: "MCEnv \<Rightarrow> IRTemp \<Rightarrow> TempKind option" where
  "tempKind mce t = (if t < length (tmpMap mce) then Some (tm_kind (tmpMap mce ! t)) else None)"

fun isOriginalAtom :: "MCEnv \<Rightarrow> IRExpr \<Rightarrow> bool" where
  "isOriginalAtom mce (Iex_Const _) = True"
| "isOriginalAtom mce (Iex_RdTmp t) = (tempKind mce t = Some Orig)"
| "isOriginalAtom mce _ = False"

fun isShadowAtom :: "MCEnv \<Rightarrow> IRExpr \<Rightarrow> bool" where
  "isShadowAtom mce (Iex_Const _) = True"
| "isShadowAtom mce (Iex_RdTmp t) = (tempKind mce t = Some VSh)"
| "isShadowAtom mce _ = False"

fun sameKindedAtoms :: "IRExpr \<Rightarrow> IRExpr \<Rightarrow> bool" where
  "sameKindedAtoms (Iex_RdTmp _) (Iex_RdTmp _) = True"
| "sameKindedAtoms (Iex_Const _) (Iex_Const _) = True"
| "sameKindedAtoms _ _ = False"

definition i128_const_zero :: IRExpr where
  "i128_const_zero = Iex_Binop Iop_64HLto128 (Iex_Const (Ico_U64 0)) (Iex_Const (Ico_U64 0))"

fun definedOfType :: "IRType \<Rightarrow> IRExpr option" where
  "definedOfType Ity_I1 = Some (Iex_Const (Ico_U1 False))"
| "definedOfType Ity_I8 = Some (Iex_Const (Ico_U8 0))"
| "definedOfType Ity_I16 = Some (Iex_Const (Ico_U16 0))"
| "definedOfType Ity_I32 = Some (Iex_Const (Ico_U32 0))"
| "definedOfType Ity_I64 = Some (Iex_Const (Ico_U64 0))"
| "definedOfType Ity_I128 = Some i128_const_zero"
| "definedOfType Ity_V128 = Some (Iex_Const (Ico_V128 0))"
| "definedOfType Ity_V256 = Some (Iex_Const (Ico_V256 0))"
| "definedOfType _ = None"

section \<open>Emitting statements\<close>

definition stmt :: "char \<Rightarrow> MCEnv \<Rightarrow> IRStmt \<Rightarrow> MCEnv" where
  "stmt cat mce st = mce\<lparr>sb_stmts := sb_stmts mce @ [st]\<rparr>"

definition assign :: "char \<Rightarrow> MCEnv \<Rightarrow> IRTemp \<Rightarrow> IRExpr \<Rightarrow> MCEnv" where
  "assign cat mce tmp e = stmt cat mce (Ist_WrTmp tmp e)"

definition assignNew :: "char \<Rightarrow> MCEnv \<Rightarrow> IRType \<Rightarrow> IRExpr \<Rightarrow> (IRExpr \<times> MCEnv) option" where
  "assignNew cat mce ty e = do {
     tyE \<leftarrow> typeOfIRExpr (sb_tyenv mce) e;
     assert_that (tyE = ty);
     k \<leftarrow> (if cat = CHR ''V'' then Some VSh else if cat = CHR ''C'' then Some Orig else None);
     (t, mce) \<leftarrow> newTemp mce ty k;
     Some (Iex_RdTmp t, assign cat mce t e)
   }"

section \<open>Defined if either is defined\<close>

definition mkDifD8 :: "MCEnv \<Rightarrow> IRExpr \<Rightarrow> IRExpr \<Rightarrow> (IRExpr \<times> MCEnv) option" where
  "mkDifD8 mce a1 a2 = do {
     assert_that (isShadowAtom mce a1);
     assert_that (isShadowAtom mce a2);
     assignNew CHR ''V'' mce Ity_I8 (Iex_Binop Iop_And8 a1 a2)
   }"

definition mkDifD16 :: "MCEnv \<Rightarrow> IRExpr \<Rightarrow> IRExpr \<Rightarrow> (IRExpr \<times> MCEnv) option" where
  "mkDifD16 mce a1 a2 = do {
     assert_that (isShadowAtom mce a1);
     assert_that (isShadowAtom mce a2);
     assignNew CHR ''V'' mce Ity_I16 (Iex_Binop Iop_And16 a1 a2)
   }"

definition mkDifD32 :: "MCEnv \<Rightarrow> IRExpr \<Rightarrow> IRExpr \<Rightarrow> (IRExpr \<times> MCEnv) option" where
  "mkDifD32 mce a1 a2 = do {
     assert_that (isShadowAtom mce a1);
     assert_that (isShadowAtom mce a2);
     assignNew CHR ''V'' mce Ity_I32 (Iex_Binop Iop_And32 a1 a2)
   }"

definition mkDifD64 :: "MCEnv \<Rightarrow> IRExpr \<Rightarrow> IRExpr \<Rightarrow> (IRExpr \<times> MCEnv) option" where
  "mkDifD64 mce a1 a2 = do {
     assert_that (isShadowAtom mce a1);
     assert_that (isShadowAtom mce a2);
     assignNew CHR ''V'' mce Ity_I64 (Iex_Binop Iop_And64 a1 a2)
   }"

definition mkDifDV128 :: "MCEnv \<Rightarrow> IRExpr \<Rightarrow> IRExpr \<Rightarrow> (IRExpr \<times> MCEnv) option" where
  "mkDifDV128 mce a1 a2 = do {
     assert_that (isShadowAtom mce a1);
     assert_that (isShadowAtom mce a2);
     assignNew CHR ''V'' mce Ity_V128 (Iex_Binop Iop_AndV128 a1 a2)
   }"

definition mkDifDV256 :: "MCEnv \<Rightarrow> IRExpr \<Rightarrow> IRExpr \<Rightarrow> (IRExpr \<times> MCEnv) option" where
  "mkDifDV256 mce a1 a2 = do {
     assert_that (isShadowAtom mce a1);
     assert_that (isShadowAtom mce a2);
     assignNew CHR ''V'' mce Ity_V256 (Iex_Binop Iop_AndV256 a1 a2)
   }"

section \<open>Undefined if either is undefined\<close>

definition mkUifU8 :: "MCEnv \<Rightarrow> IRExpr \<Rightarrow> IRExpr \<Rightarrow> (IRExpr \<times> MCEnv) option" where
  "mkUifU8 mce a1 a2 = do {
     assert_that (isShadowAtom mce a1);
     assert_that (isShadowAtom mce a2);
     assignNew CHR ''V'' mce Ity_I8 (Iex_Binop Iop_Or8 a1 a2)
   }"

definition mkUifU16 :: "MCEnv \<Rightarrow> IRExpr \<Rightarrow> IRExpr \<Rightarrow> (IRExpr \<times> MCEnv) option" where
  "mkUifU16 mce a1 a2 = do {
     assert_that (isShadowAtom mce a1);
     assert_that (isShadowAtom mce a2);
     assignNew CHR ''V'' mce Ity_I16 (Iex_Binop Iop_Or16 a1 a2)
   }"

definition mkUifU32 :: "MCEnv \<Rightarrow> IRExpr \<Rightarrow> IRExpr \<Rightarrow> (IRExpr \<times> MCEnv) option" where
  "mkUifU32 mce a1 a2 = do {
     assert_that (isShadowAtom mce a1);
     assert_that (isShadowAtom mce a2);
     assignNew CHR ''V'' mce Ity_I32 (Iex_Binop Iop_Or32 a1 a2)
   }"

definition mkUifU64 :: "MCEnv \<Rightarrow> IRExpr \<Rightarrow> IRExpr \<Rightarrow> (IRExpr \<times> MCEnv) option" where
  "mkUifU64 mce a1 a2 = do {
     assert_that (isShadowAtom mce a1);
     assert_that (isShadowAtom mce a2);
     assignNew CHR ''V'' mce Ity_I64 (Iex_Binop Iop_Or64 a1 a2)
   }"

definition mkUifUV128 :: "MCEnv \<Rightarrow> IRExpr \<Rightarrow> IRExpr \<Rightarrow> (IRExpr \<times> MCEnv) option" where
  "mkUifUV128 mce a1 a2 = do {
     assert_that (isShadowAtom mce a1);
     assert_that (isShadowAtom mce a2);
     assignNew CHR ''V'' mce Ity_V128 (Iex_Binop Iop_OrV128 a1 a2)
   }"

definition mkUifUV256 :: "MCEnv \<Rightarrow> IRExpr \<Rightarrow> IRExpr \<Rightarrow> (IRExpr \<times> MCEnv) option" where
  "mkUifUV256 mce a1 a2 = do {
     assert_that (isShadowAtom mce a1);
     assert_that (isShadowAtom mce a2);
     assignNew CHR ''V'' mce Ity_V256 (Iex_Binop Iop_OrV256 a1 a2)
   }"

definition mkUifU :: "MCEnv \<Rightarrow> IRType \<Rightarrow> IRExpr \<Rightarrow> IRExpr \<Rightarrow> (IRExpr \<times> MCEnv) option" where
  "mkUifU mce vty a1 a2 = (case vty of
       Ity_I8 \<Rightarrow> mkUifU8 mce a1 a2
     | Ity_I16 \<Rightarrow> mkUifU16 mce a1 a2
     | Ity_I32 \<Rightarrow> mkUifU32 mce a1 a2
     | Ity_I64 \<Rightarrow> mkUifU64 mce a1 a2
     | Ity_V128 \<Rightarrow> mkUifUV128 mce a1 a2
     | Ity_V256 \<Rightarrow> mkUifUV256 mce a1 a2
     | _ \<Rightarrow> None)"

section \<open>The Left family\<close>

definition mkLeft8 :: "MCEnv \<Rightarrow> IRExpr \<Rightarrow> (IRExpr \<times> MCEnv) option" where
  "mkLeft8 mce a1 = do {
     assert_that (isShadowAtom mce a1);
     assignNew CHR ''V'' mce Ity_I8 (Iex_Unop Iop_Left8 a1)
   }"

definition mkLeft16 :: "MCEnv \<Rightarrow> IRExpr \<Rightarrow> (IRExpr \<times> MCEnv) option" where
  "mkLeft16 mce a1 = do {
     assert_that (isShadowAtom mce a1);
     assignNew CHR ''V'' mce Ity_I16 (Iex_Unop Iop_Left16 a1)
   }"

definition mkLeft32 :: "MCEnv \<Rightarrow> IRExpr \<Rightarrow> (IRExpr \<times> MCEnv) option" where
  "mkLeft32 mce a1 = do {
     assert_that (isShadowAtom mce a1);
     assignNew CHR ''V'' mce Ity_I32 (Iex_Unop Iop_Left32 a1)
   }"

definition mkLeft64 :: "MCEnv \<Rightarrow> IRExpr \<Rightarrow> (IRExpr \<times> MCEnv) option" where
  "mkLeft64 mce a1 = do {
     assert_that (isShadowAtom mce a1);
     assignNew CHR ''V'' mce Ity_I64 (Iex_Unop Iop_Left64 a1)
   }"

section \<open>Improvement functions for AND and OR\<close>

definition mkImproveAND8 :: "MCEnv \<Rightarrow> IRExpr \<Rightarrow> IRExpr \<Rightarrow> (IRExpr \<times> MCEnv) option" where
  "mkImproveAND8 mce data vbits = do {
     assert_that (isOriginalAtom mce data);
     assert_that (isShadowAtom mce vbits);
     assert_that (sameKindedAtoms data vbits);
     assignNew CHR ''V'' mce Ity_I8 (Iex_Binop Iop_Or8 data vbits)
   }"

definition mkImproveAND16 :: "MCEnv \<Rightarrow> IRExpr \<Rightarrow> IRExpr \<Rightarrow> (IRExpr \<times> MCEnv) option" where
  "mkImproveAND16 mce data vbits = do {
     assert_that (isOriginalAtom mce data);
     assert_that (isShadowAtom mce vbits);
     assert_that (sameKindedAtoms data vbits);
     assignNew CHR ''V'' mce Ity_I16 (Iex_Binop Iop_Or16 data vbits)
   }"

definition mkImproveAND32 :: "MCEnv \<Rightarrow> IRExpr \<Rightarrow> IRExpr \<Rightarrow> (IRExpr \<times> MCEnv) option" where
  "mkImproveAND32 mce data vbits = do {
     assert_that (isOriginalAtom mce data);
     assert_that (isShadowAtom mce vbits);
     assert_that (sameKindedAtoms data vbits);
     assignNew CHR ''V'' mce Ity_I32 (Iex_Binop Iop_Or32 data vbits)
   }"

definition mkImproveAND64 :: "MCEnv \<Rightarrow> IRExpr \<Rightarrow> IRExpr \<Rightarrow> (IRExpr \<times> MCEnv) option" where
  "mkImproveAND64 mce data vbits = do {
     assert_that (isOriginalAtom mce data);
     assert_that (isShadowAtom mce vbits);
     assert_that (sameKindedAtoms data vbits);
     assignNew CHR ''V'' mce Ity_I64 (Iex_Binop Iop_Or64 data vbits)
   }"

definition mkImproveANDV128 :: "MCEnv \<Rightarrow> IRExpr \<Rightarrow> IRExpr \<Rightarrow> (IRExpr \<times> MCEnv) option" where
  "mkImproveANDV128 mce data vbits = do {
     assert_that (isOriginalAtom mce data);
     assert_that (isShadowAtom mce vbits);
     assert_that (sameKindedAtoms data vbits);
     assignNew CHR ''V'' mce Ity_V128 (Iex_Binop Iop_OrV128 data vbits)
   }"

definition mkImproveANDV256 :: "MCEnv \<Rightarrow> IRExpr \<Rightarrow> IRExpr \<Rightarrow> (IRExpr \<times> MCEnv) option" where
  "mkImproveANDV256 mce data vbits = do {
     assert_that (isOriginalAtom mce data);
     assert_that (isShadowAtom mce vbits);
     assert_that (sameKindedAtoms data vbits);
     assignNew CHR ''V'' mce Ity_V256 (Iex_Binop Iop_OrV256 data vbits)
   }"

definition mkImproveOR8 :: "MCEnv \<Rightarrow> IRExpr \<Rightarrow> IRExpr \<Rightarrow> (IRExpr \<times> MCEnv) option" where
  "mkImproveOR8 mce data vbits = do {
     assert_that (isOriginalAtom mce data);
     assert_that (isShadowAtom mce vbits);
     assert_that (sameKindedAtoms data vbits);
     (n, mce) \<leftarrow> assignNew CHR ''V'' mce Ity_I8 (Iex_Unop Iop_Not8 data);
     assignNew CHR ''V'' mce Ity_I8 (Iex_Binop Iop_Or8 n vbits)
   }"

definition mkImproveOR16 :: "MCEnv \<Rightarrow> IRExpr \<Rightarrow> IRExpr \<Rightarrow> (IRExpr \<times> MCEnv) option" where
  "mkImproveOR16 mce data vbits = do {
     assert_that (isOriginalAtom mce data);
     assert_that (isShadowAtom mce vbits);
     assert_that (sameKindedAtoms data vbits);
     (n, mce) \<leftarrow> assignNew CHR ''V'' mce Ity_I16 (Iex_Unop Iop_Not16 data);
     assignNew CHR ''V'' mce Ity_I16 (Iex_Binop Iop_Or16 n vbits)
   }"

definition mkImproveOR32 :: "MCEnv \<Rightarrow> IRExpr \<Rightarrow> IRExpr \<Rightarrow> (IRExpr \<times> MCEnv) option" where
  "mkImproveOR32 mce data vbits = do {
     assert_that (isOriginalAtom mce data);
     assert_that (isShadowAtom mce vbits);
     assert_that (sameKindedAtoms data vbits);
     (n, mce) \<leftarrow> assignNew CHR ''V'' mce Ity_I32 (Iex_Unop Iop_Not32 data);
     assignNew CHR ''V'' mce Ity_I32 (Iex_Binop Iop_Or32 n vbits)
   }"

definition mkImproveOR64 :: "MCEnv \<Rightarrow> IRExpr \<Rightarrow> IRExpr \<Rightarrow> (IRExpr \<times> MCEnv) option" where
  "mkImproveOR64 mce data vbits = do {
     assert_that (isOriginalAtom mce data);
     assert_that (isShadowAtom mce vbits);
     assert_that (sameKindedAtoms data vbits);
     (n, mce) \<leftarrow> assignNew CHR ''V'' mce Ity_I64 (Iex_Unop Iop_Not64 data);
     assignNew CHR ''V'' mce Ity_I64 (Iex_Binop Iop_Or64 n vbits)
   }"

definition mkImproveORV128 :: "MCEnv \<Rightarrow> IRExpr \<Rightarrow> IRExpr \<Rightarrow> (IRExpr \<times> MCEnv) option" where
  "mkImproveORV128 mce data vbits = do {
     assert_that (isOriginalAtom mce data);
     assert_that (isShadowAtom mce vbits);
     assert_that (sameKindedAtoms data vbits);
     (n, mce) \<leftarrow> assignNew CHR ''V'' mce Ity_V128 (Iex_Unop Iop_NotV128 data);
     assignNew CHR ''V'' mce Ity_V128 (Iex_Binop Iop_OrV128 n vbits)
   }"

definition mkImproveORV256 :: "MCEnv \<Rightarrow> IRExpr \<Rightarrow> IRExpr \<Rightarrow> (IRExpr \<times> MCEnv) option" where
  "mkImproveORV256 mce data vbits = do {
     assert_that (isOriginalAtom mce data);
     assert_that (isShadowAtom mce vbits);
     assert_that (sameKindedAtoms data vbits);
     (n, mce) \<leftarrow> assignNew CHR ''V'' mce Ity_V256 (Iex_Unop Iop_NotV256 data);
     assignNew CHR ''V'' mce Ity_V256 (Iex_Binop Iop_OrV256 n vbits)
   }"

end
