(* ===== verification/TntPrims.thy ===== *)
theory TntPrims
  imports TntTranslate
begin

text \<open>
  The composite shadow computations (\<^verbatim>\<open>taintgrind/tnt_translate.c\<close>, lines 622 to 2330):
  pessimising casts, exact and approximate comparison, lazy propagation, exact carry chains,
  shifts, lane-wise pessimisation and narrowing.
\<close>

section \<open>Pessimising casts\<close>

text \<open>Collapse the V bits to a single bit.\<close>

definition pcast_collapse :: "MCEnv \<Rightarrow> IRType \<Rightarrow> IRExpr \<Rightarrow> (IRExpr \<times> MCEnv) option" where
  "pcast_collapse mce src_ty vbits = (case src_ty of
       Ity_I1 \<Rightarrow> Some (vbits, mce)
     | Ity_I8 \<Rightarrow> assignNew CHR ''V'' mce Ity_I1 (Iex_Unop Iop_CmpNEZ8 vbits)
     | Ity_I16 \<Rightarrow> assignNew CHR ''V'' mce Ity_I1 (Iex_Unop Iop_CmpNEZ16 vbits)
     | Ity_I32 \<Rightarrow> assignNew CHR ''V'' mce Ity_I1 (Iex_Unop Iop_CmpNEZ32 vbits)
     | Ity_I64 \<Rightarrow> assignNew CHR ''V'' mce Ity_I1 (Iex_Unop Iop_CmpNEZ64 vbits)
     | Ity_I128 \<Rightarrow> do {
         (tmp2, mce) \<leftarrow> assignNew CHR ''V'' mce Ity_I64 (Iex_Unop Iop_128HIto64 vbits);
         (tmp3, mce) \<leftarrow> assignNew CHR ''V'' mce Ity_I64 (Iex_Unop Iop_128to64 vbits);
         (tmp4, mce) \<leftarrow> assignNew CHR ''V'' mce Ity_I64 (Iex_Binop Iop_Or64 tmp2 tmp3);
         assignNew CHR ''V'' mce Ity_I1 (Iex_Unop Iop_CmpNEZ64 tmp4)
       }
     | Ity_V128 \<Rightarrow> do {
         (tmp2, mce) \<leftarrow> assignNew CHR ''V'' mce Ity_I64 (Iex_Unop Iop_V128HIto64 vbits);
         (tmp3, mce) \<leftarrow> assignNew CHR ''V'' mce Ity_I64 (Iex_Unop Iop_V128to64 vbits);
         (tmp4, mce) \<leftarrow> assignNew CHR ''V'' mce Ity_I64 (Iex_Binop Iop_Or64 tmp2 tmp3);
         assignNew CHR ''V'' mce Ity_I1 (Iex_Unop Iop_CmpNEZ64 tmp4)
       }
     | Ity_V256 \<Rightarrow> do {
         (tmp2, mce) \<leftarrow> assignNew CHR ''V'' mce Ity_I64 (Iex_Unop Iop_V256to64_0 vbits);
         (tmp3, mce) \<leftarrow> assignNew CHR ''V'' mce Ity_I64 (Iex_Unop Iop_V256to64_1 vbits);
         (tmp4, mce) \<leftarrow> assignNew CHR ''V'' mce Ity_I64 (Iex_Binop Iop_Or64 tmp2 tmp3);
         (tmp5, mce) \<leftarrow> assignNew CHR ''V'' mce Ity_I64 (Iex_Unop Iop_V256to64_2 vbits);
         (tmp6, mce) \<leftarrow> assignNew CHR ''V'' mce Ity_I64 (Iex_Unop Iop_V256to64_3 vbits);
         (tmp7, mce) \<leftarrow> assignNew CHR ''V'' mce Ity_I64 (Iex_Binop Iop_Or64 tmp5 tmp6);
         (tmp8, mce) \<leftarrow> assignNew CHR ''V'' mce Ity_I64 (Iex_Binop Iop_Or64 tmp4 tmp7);
         assignNew CHR ''V'' mce Ity_I1 (Iex_Unop Iop_CmpNEZ64 tmp8)
       }
     | _ \<Rightarrow> None)"

text \<open>Widen the bit to the destination type.\<close>

definition pcast_widen :: "MCEnv \<Rightarrow> IRType \<Rightarrow> IRExpr \<Rightarrow> (IRExpr \<times> MCEnv) option" where
  "pcast_widen mce dst_ty tmp1 = (case dst_ty of
       Ity_I1 \<Rightarrow> Some (tmp1, mce)
     | Ity_I8 \<Rightarrow> assignNew CHR ''V'' mce Ity_I8 (Iex_Unop Iop_1Sto8 tmp1)
     | Ity_I16 \<Rightarrow> assignNew CHR ''V'' mce Ity_I16 (Iex_Unop Iop_1Sto16 tmp1)
     | Ity_I32 \<Rightarrow> assignNew CHR ''V'' mce Ity_I32 (Iex_Unop Iop_1Sto32 tmp1)
     | Ity_I64 \<Rightarrow> assignNew CHR ''V'' mce Ity_I64 (Iex_Unop Iop_1Sto64 tmp1)
     | Ity_V128 \<Rightarrow> do {
         (tmp1, mce) \<leftarrow> assignNew CHR ''V'' mce Ity_I64 (Iex_Unop Iop_1Sto64 tmp1);
         assignNew CHR ''V'' mce Ity_V128 (Iex_Binop Iop_64HLtoV128 tmp1 tmp1)
       }
     | Ity_I128 \<Rightarrow> do {
         (tmp1, mce) \<leftarrow> assignNew CHR ''V'' mce Ity_I64 (Iex_Unop Iop_1Sto64 tmp1);
         assignNew CHR ''V'' mce Ity_I128 (Iex_Binop Iop_64HLto128 tmp1 tmp1)
       }
     | Ity_V256 \<Rightarrow> do {
         (tmp1, mce) \<leftarrow> assignNew CHR ''V'' mce Ity_I64 (Iex_Unop Iop_1Sto64 tmp1);
         (tmp1, mce) \<leftarrow> assignNew CHR ''V'' mce Ity_V128 (Iex_Binop Iop_64HLtoV128 tmp1 tmp1);
         assignNew CHR ''V'' mce Ity_V256 (Iex_Binop Iop_V128HLtoV256 tmp1 tmp1)
       }
     | _ \<Rightarrow> None)"

definition mkPCastTo :: "MCEnv \<Rightarrow> IRType \<Rightarrow> IRExpr \<Rightarrow> (IRExpr \<times> MCEnv) option" where
  "mkPCastTo mce dst_ty vbits = do {
     assert_that (isShadowAtom mce vbits);
     src_ty \<leftarrow> typeOfIRExpr (sb_tyenv mce) vbits;
     if src_ty = Ity_I32 \<and> dst_ty = Ity_I32 then assignNew CHR ''V'' mce Ity_I32 (Iex_Unop Iop_CmpwNEZ32 vbits)
     else if src_ty = Ity_I64 \<and> dst_ty = Ity_I64 then assignNew CHR ''V'' mce Ity_I64 (Iex_Unop Iop_CmpwNEZ64 vbits)
     else if src_ty = Ity_I32 \<and> dst_ty = Ity_I64 then do {
       (tmp, mce) \<leftarrow> assignNew CHR ''V'' mce Ity_I32 (Iex_Unop Iop_CmpwNEZ32 vbits);
       assignNew CHR ''V'' mce Ity_I64 (Iex_Binop Iop_32HLto64 tmp tmp)
     }
     else if src_ty = Ity_I32 \<and> dst_ty = Ity_V128 then do {
       (tmp, mce) \<leftarrow> assignNew CHR ''V'' mce Ity_I32 (Iex_Unop Iop_CmpwNEZ32 vbits);
       (tmp, mce) \<leftarrow> assignNew CHR ''V'' mce Ity_I64 (Iex_Binop Iop_32HLto64 tmp tmp);
       assignNew CHR ''V'' mce Ity_V128 (Iex_Binop Iop_64HLtoV128 tmp tmp)
     }
     else if src_ty = Ity_I32 \<and> dst_ty = Ity_V256 then do {
       (tmp, mce) \<leftarrow> assignNew CHR ''V'' mce Ity_I32 (Iex_Unop Iop_CmpwNEZ32 vbits);
       (tmp, mce) \<leftarrow> assignNew CHR ''V'' mce Ity_I64 (Iex_Binop Iop_32HLto64 tmp tmp);
       (tmp, mce) \<leftarrow> assignNew CHR ''V'' mce Ity_V128 (Iex_Binop Iop_64HLtoV128 tmp tmp);
       assignNew CHR ''V'' mce Ity_V256 (Iex_Binop Iop_V128HLtoV256 tmp tmp)
     }
     else if src_ty = Ity_I64 \<and> dst_ty = Ity_I32 then do {
       (tmp, mce) \<leftarrow> assignNew CHR ''V'' mce Ity_I64 (Iex_Unop Iop_CmpwNEZ64 vbits);
       assignNew CHR ''V'' mce Ity_I32 (Iex_Unop Iop_64to32 tmp)
     }
     else if src_ty = Ity_V128 \<and> dst_ty = Ity_I64 then do {
       (hi64hi64, mce) \<leftarrow> assignNew CHR ''V'' mce Ity_V128 (Iex_Binop Iop_InterleaveHI64x2 vbits vbits);
       (lohi64, mce) \<leftarrow> mkUifUV128 mce hi64hi64 vbits;
       (lo64, mce) \<leftarrow> assignNew CHR ''V'' mce Ity_I64 (Iex_Unop Iop_V128to64 lohi64);
       assignNew CHR ''V'' mce Ity_I64 (Iex_Unop Iop_CmpwNEZ64 lo64)
     }
     else do {
       (tmp1, mce) \<leftarrow> pcast_collapse mce src_ty vbits;
       pcast_widen mce dst_ty tmp1
     }
   }"

definition mkPCastXXtoXXlsb :: "MCEnv \<Rightarrow> IRExpr \<Rightarrow> IRType \<Rightarrow> (IRExpr \<times> MCEnv) option" where
  "mkPCastXXtoXXlsb mce varg ty =
     (if ty = Ity_V128 then do {
        (pcdTo64, mce) \<leftarrow> mkPCastTo mce Ity_I64 varg;
        (d63pc, mce) \<leftarrow> assignNew CHR ''V'' mce Ity_I64 (Iex_Binop Iop_And64 pcdTo64 (Iex_Const (Ico_U64 1)));
        d64 \<leftarrow> definedOfType Ity_I64;
        assignNew CHR ''V'' mce Ity_V128 (Iex_Binop Iop_64HLtoV128 d64 d63pc)
      }
      else if ty = Ity_I64 then do {
        (pcd, mce) \<leftarrow> mkPCastTo mce Ity_I64 varg;
        assignNew CHR ''V'' mce Ity_I64 (Iex_Binop Iop_And64 pcd (Iex_Const (Ico_U64 1)))
      }
      else None)"

section \<open>Comparisons\<close>

text \<open>The operators the exact comparison uses at a type: OR, AND (defined if either), NOT, XOR,
  equality, and the all-ones value.\<close>

definition cmp_ops :: "IRType \<Rightarrow> (IROp \<times> IROp \<times> IROp \<times> IROp \<times> IROp \<times> IRExpr) option" where
  "cmp_ops ty = (case ty of
       Ity_I16 \<Rightarrow> Some (Iop_Or16, Iop_And16, Iop_Not16, Iop_Xor16, Iop_CmpEQ16, Iex_Const (Ico_U16 0xFFFF))
     | Ity_I32 \<Rightarrow> Some (Iop_Or32, Iop_And32, Iop_Not32, Iop_Xor32, Iop_CmpEQ32, Iex_Const (Ico_U32 0xFFFFFFFF))
     | Ity_I64 \<Rightarrow> Some (Iop_Or64, Iop_And64, Iop_Not64, Iop_Xor64, Iop_CmpEQ64, Iex_Const (Ico_U64 0xFFFFFFFFFFFFFFFF))
     | _ \<Rightarrow> None)"

definition expensiveCmpEQorNE :: "MCEnv \<Rightarrow> IRType \<Rightarrow> IRExpr \<Rightarrow> IRExpr \<Rightarrow> IRExpr \<Rightarrow> IRExpr \<Rightarrow> (IRExpr \<times> MCEnv) option" where
  "expensiveCmpEQorNE mce ty vxx vyy xx yy = do {
     assert_that (isShadowAtom mce vxx);
     assert_that (isShadowAtom mce vyy);
     assert_that (isOriginalAtom mce xx);
     assert_that (isOriginalAtom mce yy);
     assert_that (sameKindedAtoms vxx xx);
     assert_that (sameKindedAtoms vyy yy);
     (opOR, opDIFD, opNOT, opXOR, opCMP, top) \<leftarrow> cmp_ops ty;
     (u, mce) \<leftarrow> assignNew CHR ''V'' mce ty (Iex_Binop opOR vxx vyy);
     (naive, mce) \<leftarrow> mkPCastTo mce ty u;
     (o1, mce) \<leftarrow> assignNew CHR ''V'' mce ty (Iex_Binop opOR vxx vyy);
     (x1, mce) \<leftarrow> assignNew CHR ''V'' mce ty (Iex_Binop opXOR xx yy);
     (n1, mce) \<leftarrow> assignNew CHR ''V'' mce ty (Iex_Unop opNOT x1);
     (vec, mce) \<leftarrow> assignNew CHR ''V'' mce ty (Iex_Binop opOR o1 n1);
     (c, mce) \<leftarrow> assignNew CHR ''V'' mce Ity_I1 (Iex_Binop opCMP vec top);
     (improvement_term, mce) \<leftarrow> mkPCastTo mce ty c;
     (improved, mce) \<leftarrow> assignNew CHR ''V'' mce ty (Iex_Binop opDIFD naive improvement_term);
     mkPCastTo mce Ity_I1 improved
   }"

definition isZeroU32 :: "IRExpr \<Rightarrow> bool" where
  "isZeroU32 e \<longleftrightarrow> e = Iex_Const (Ico_U32 0)"

definition isZeroU64 :: "IRExpr \<Rightarrow> bool" where
  "isZeroU64 e \<longleftrightarrow> e = Iex_Const (Ico_U64 0)"

definition doCmpORD :: "MCEnv \<Rightarrow> IROp \<Rightarrow> IRExpr \<Rightarrow> IRExpr \<Rightarrow> IRExpr \<Rightarrow> IRExpr \<Rightarrow> (IRExpr \<times> MCEnv) option" where
  "doCmpORD mce cmp_op xxhash yyhash xx yy = do {
     let m64 = (cmp_op = Iop_CmpORD64S \<or> cmp_op = Iop_CmpORD64U);
     let syned = (cmp_op = Iop_CmpORD64S \<or> cmp_op = Iop_CmpORD32S);
     let opOR = (if m64 then Iop_Or64 else Iop_Or32);
     let opAND = (if m64 then Iop_And64 else Iop_And32);
     let opSHL = (if m64 then Iop_Shl64 else Iop_Shl32);
     let opSHR = (if m64 then Iop_Shr64 else Iop_Shr32);
     let ty = (if m64 then Ity_I64 else Ity_I32);
     let width = (if m64 then 64 else 32 :: u8);
     let isZero = (if m64 then isZeroU64 else isZeroU32);
     assert_that (isShadowAtom mce xxhash);
     assert_that (isShadowAtom mce yyhash);
     assert_that (isOriginalAtom mce xx);
     assert_that (isOriginalAtom mce yy);
     assert_that (sameKindedAtoms xxhash xx);
     assert_that (sameKindedAtoms yyhash yy);
     assert_that (cmp_op = Iop_CmpORD32S \<or> cmp_op = Iop_CmpORD32U \<or> cmp_op = Iop_CmpORD64S \<or> cmp_op = Iop_CmpORD64U);
     if syned \<and> isZero yy then do {
       assert_that (isZero yyhash);
       let threeLeft1 = (if m64 then Iex_Const (Ico_U64 6) else Iex_Const (Ico_U32 6));
       (p, mce) \<leftarrow> mkPCastTo mce ty xxhash;
       (a, mce) \<leftarrow> assignNew CHR ''V'' mce ty (Iex_Binop opAND p threeLeft1);
       (s, mce) \<leftarrow> assignNew CHR ''V'' mce ty (Iex_Binop opSHR xxhash (Iex_Const (Ico_U8 (width - 1))));
       (l, mce) \<leftarrow> assignNew CHR ''V'' mce ty (Iex_Binop opSHL s (Iex_Const (Ico_U8 3)));
       Some (Iex_Binop opOR a l, mce)
     }
     else do {
       let sevenLeft1 = (if m64 then Iex_Const (Ico_U64 14) else Iex_Const (Ico_U32 14));
       (u, mce) \<leftarrow> mkUifU mce ty xxhash yyhash;
       (p, mce) \<leftarrow> mkPCastTo mce ty u;
       Some (Iex_Binop opAND p sevenLeft1, mce)
     }
   }"

section \<open>Lazy propagation\<close>

definition mkLazy2 :: "MCEnv \<Rightarrow> IRType \<Rightarrow> IRExpr \<Rightarrow> IRExpr \<Rightarrow> (IRExpr \<times> MCEnv) option" where
  "mkLazy2 mce finalVty va1 va2 = do {
     t1 \<leftarrow> typeOfIRExpr (sb_tyenv mce) va1;
     t2 \<leftarrow> typeOfIRExpr (sb_tyenv mce) va2;
     assert_that (isShadowAtom mce va1);
     assert_that (isShadowAtom mce va2);
     if t1 = Ity_I64 \<and> t2 = Ity_I64 \<and> finalVty = Ity_I64 then do {
       (at, mce) \<leftarrow> mkUifU mce Ity_I64 va1 va2;
       mkPCastTo mce Ity_I64 at
     }
     else if t1 = Ity_I64 \<and> t2 = Ity_I64 \<and> finalVty = Ity_I32 then do {
       (at, mce) \<leftarrow> mkUifU mce Ity_I64 va1 va2;
       mkPCastTo mce Ity_I32 at
     }
     else do {
       (at, mce) \<leftarrow> mkPCastTo mce Ity_I32 va1;
       (at2, mce) \<leftarrow> mkPCastTo mce Ity_I32 va2;
       (at, mce) \<leftarrow> mkUifU mce Ity_I32 at at2;
       mkPCastTo mce finalVty at
     }
   }"

definition mkLazy3 :: "MCEnv \<Rightarrow> IRType \<Rightarrow> IRExpr \<Rightarrow> IRExpr \<Rightarrow> IRExpr \<Rightarrow> (IRExpr \<times> MCEnv) option" where
  "mkLazy3 mce finalVty va1 va2 va3 = do {
     t1 \<leftarrow> typeOfIRExpr (sb_tyenv mce) va1;
     t2 \<leftarrow> typeOfIRExpr (sb_tyenv mce) va2;
     t3 \<leftarrow> typeOfIRExpr (sb_tyenv mce) va3;
     assert_that (isShadowAtom mce va1);
     assert_that (isShadowAtom mce va2);
     assert_that (isShadowAtom mce va3);
     if (t1, t2, t3, finalVty) = (Ity_I32, Ity_I64, Ity_I64, Ity_I64) then do {
       (at, mce) \<leftarrow> mkPCastTo mce Ity_I64 va1;
       (at, mce) \<leftarrow> mkUifU mce Ity_I64 at va2;
       (at, mce) \<leftarrow> mkUifU mce Ity_I64 at va3;
       mkPCastTo mce Ity_I64 at
     }
     else if (t1, t2, t3, finalVty) = (Ity_I32, Ity_I8, Ity_I64, Ity_I64) then do {
       (at1, mce) \<leftarrow> mkPCastTo mce Ity_I64 va1;
       (at2, mce) \<leftarrow> mkPCastTo mce Ity_I64 va2;
       (at, mce) \<leftarrow> mkUifU mce Ity_I64 at1 at2;
       (at, mce) \<leftarrow> mkUifU mce Ity_I64 at va3;
       mkPCastTo mce Ity_I64 at
     }
     else if (t1, t2, t3, finalVty) = (Ity_I32, Ity_I64, Ity_I64, Ity_I32) then do {
       (at, mce) \<leftarrow> mkPCastTo mce Ity_I64 va1;
       (at, mce) \<leftarrow> mkUifU mce Ity_I64 at va2;
       (at, mce) \<leftarrow> mkUifU mce Ity_I64 at va3;
       mkPCastTo mce Ity_I32 at
     }
     else if (t1, t2, t3, finalVty) = (Ity_I32, Ity_I32, Ity_I32, Ity_I32) then do {
       (at, mce) \<leftarrow> mkUifU mce Ity_I32 va1 va2;
       (at, mce) \<leftarrow> mkUifU mce Ity_I32 at va3;
       mkPCastTo mce Ity_I32 at
     }
     else if (t1, t2, t3, finalVty) = (Ity_I32, Ity_I128, Ity_I128, Ity_I128) then do {
       (at, mce) \<leftarrow> mkPCastTo mce Ity_I128 va1;
       (at, mce) \<leftarrow> mkUifU mce Ity_I128 at va2;
       (at, mce) \<leftarrow> mkUifU mce Ity_I128 at va3;
       mkPCastTo mce Ity_I128 at
     }
     else if (t1, t2, t3, finalVty) = (Ity_I32, Ity_I8, Ity_I128, Ity_I128) then do {
       (at1, mce) \<leftarrow> mkPCastTo mce Ity_I64 va1;
       (at2, mce) \<leftarrow> mkPCastTo mce Ity_I64 va2;
       (at3, mce) \<leftarrow> mkPCastTo mce Ity_I64 va3;
       (at, mce) \<leftarrow> mkUifU mce Ity_I64 at1 at2;
       (at, mce) \<leftarrow> mkUifU mce Ity_I64 at at3;
       mkPCastTo mce Ity_I128 at
     }
     else None
   }"

definition mkLazy4 :: "MCEnv \<Rightarrow> IRType \<Rightarrow> IRExpr \<Rightarrow> IRExpr \<Rightarrow> IRExpr \<Rightarrow> IRExpr \<Rightarrow> (IRExpr \<times> MCEnv) option" where
  "mkLazy4 mce finalVty va1 va2 va3 va4 = do {
     t1 \<leftarrow> typeOfIRExpr (sb_tyenv mce) va1;
     t2 \<leftarrow> typeOfIRExpr (sb_tyenv mce) va2;
     t3 \<leftarrow> typeOfIRExpr (sb_tyenv mce) va3;
     t4 \<leftarrow> typeOfIRExpr (sb_tyenv mce) va4;
     assert_that (isShadowAtom mce va1);
     assert_that (isShadowAtom mce va2);
     assert_that (isShadowAtom mce va3);
     assert_that (isShadowAtom mce va4);
     if (t1, t2, t3, t4, finalVty) = (Ity_I32, Ity_I128, Ity_I128, Ity_I128, Ity_I128) then do {
       (at, mce) \<leftarrow> mkPCastTo mce Ity_I128 va1;
       (at, mce) \<leftarrow> mkUifU mce Ity_I128 at va2;
       (at, mce) \<leftarrow> mkUifU mce Ity_I128 at va3;
       (at, mce) \<leftarrow> mkUifU mce Ity_I128 at va4;
       mkPCastTo mce Ity_I128 at
     }
     else if (t1, t2, t3, t4, finalVty) = (Ity_I32, Ity_I64, Ity_I64, Ity_I64, Ity_I64) then do {
       (at, mce) \<leftarrow> mkPCastTo mce Ity_I64 va1;
       (at, mce) \<leftarrow> mkUifU mce Ity_I64 at va2;
       (at, mce) \<leftarrow> mkUifU mce Ity_I64 at va3;
       (at, mce) \<leftarrow> mkUifU mce Ity_I64 at va4;
       mkPCastTo mce Ity_I64 at
     }
     else if (t1, t2, t3, t4, finalVty) = (Ity_I32, Ity_I32, Ity_I32, Ity_I32, Ity_I32) then do {
       (at, mce) \<leftarrow> mkUifU mce Ity_I32 va1 va2;
       (at, mce) \<leftarrow> mkUifU mce Ity_I32 at va3;
       (at, mce) \<leftarrow> mkUifU mce Ity_I32 at va4;
       mkPCastTo mce Ity_I32 at
     }
     else None
   }"

text \<open>\<open>atom2vbits\<close> is defined further down the file in C; the lazy merge of a helper call's
  arguments already uses it.\<close>

definition atom2vbits :: "MCEnv \<Rightarrow> IRExpr \<Rightarrow> (IRExpr \<times> MCEnv) option" where
  "atom2vbits mce atom = do {
     assert_that (isIRAtom atom);
     (case atom of
        Iex_RdTmp t \<Rightarrow> do { (v, mce) \<leftarrow> findShadowTmpV mce t; Some (Iex_RdTmp v, mce) }
      | Iex_Const c \<Rightarrow> do {
          ty \<leftarrow> typeOfIRExpr (sb_tyenv mce) atom;
          sty \<leftarrow> shadowTypeV ty;
          d \<leftarrow> definedOfType sty;
          Some (d, mce)
        }
      | _ \<Rightarrow> None)
   }"

definition arg_masked :: "IRCallee \<Rightarrow> nat \<Rightarrow> bool" where
  "arg_masked cee i \<longleftrightarrow> cee_mcx_mask cee AND push_bit i 1 \<noteq> 0"

fun lazyN_all64 :: "MCEnv \<Rightarrow> IRCallee \<Rightarrow> nat \<Rightarrow> IRExpr list \<Rightarrow> bool option" where
  "lazyN_all64 mce cee i [] = Some True"
| "lazyN_all64 mce cee i (e # es) = do {
     assert_that (i < 32);
     assert_that (isOriginalAtom mce e);
     rest \<leftarrow> lazyN_all64 mce cee (Suc i) es;
     if arg_masked cee i then Some rest
     else do { ty \<leftarrow> typeOfIRExpr (sb_tyenv mce) e; Some (rest \<and> ty = Ity_I64) }
   }"

fun lazyN_merge :: "MCEnv \<Rightarrow> IRCallee \<Rightarrow> bool \<Rightarrow> nat \<Rightarrow> IRExpr list \<Rightarrow> IRExpr \<Rightarrow> (IRExpr \<times> MCEnv) option" where
  "lazyN_merge mce cee mergeTy64 i [] cur = Some (cur, mce)"
| "lazyN_merge mce cee mergeTy64 i (e # es) cur = do {
     assert_that (i < 32);
     assert_that (isOriginalAtom mce e);
     if arg_masked cee i then lazyN_merge mce cee mergeTy64 (Suc i) es cur
     else do {
       (v, mce) \<leftarrow> atom2vbits mce e;
       (here, mce) \<leftarrow> mkPCastTo mce (if mergeTy64 then Ity_I64 else Ity_I32) v;
       (cur, mce) \<leftarrow> (if mergeTy64 then mkUifU64 mce here cur else mkUifU32 mce here cur);
       lazyN_merge mce cee mergeTy64 (Suc i) es cur
     }
   }"

definition mkLazyN :: "MCEnv \<Rightarrow> IRExpr list \<Rightarrow> IRType \<Rightarrow> IRCallee \<Rightarrow> (IRExpr \<times> MCEnv) option" where
  "mkLazyN mce exprvec finalVtype cee = do {
     mergeTy64 \<leftarrow> lazyN_all64 mce cee 0 exprvec;
     cur \<leftarrow> definedOfType (if mergeTy64 then Ity_I64 else Ity_I32);
     (cur, mce) \<leftarrow> lazyN_merge mce cee mergeTy64 0 exprvec cur;
     mkPCastTo mce finalVtype cur
   }"

section \<open>Exact carry chains\<close>

definition addsub_ops :: "IRType \<Rightarrow> (IROp \<times> IROp \<times> IROp \<times> IROp \<times> IROp \<times> IROp) option" where
  "addsub_ops ty = (case ty of
       Ity_I32 \<Rightarrow> Some (Iop_And32, Iop_Or32, Iop_Xor32, Iop_Not32, Iop_Add32, Iop_Sub32)
     | Ity_I64 \<Rightarrow> Some (Iop_And64, Iop_Or64, Iop_Xor64, Iop_Not64, Iop_Add64, Iop_Sub64)
     | _ \<Rightarrow> None)"

definition expensiveAddSub :: "MCEnv \<Rightarrow> bool \<Rightarrow> IRType \<Rightarrow> IRExpr \<Rightarrow> IRExpr \<Rightarrow> IRExpr \<Rightarrow> IRExpr \<Rightarrow> (IRExpr \<times> MCEnv) option" where
  "expensiveAddSub mce add ty qaa qbb aa bb = do {
     assert_that (isShadowAtom mce qaa);
     assert_that (isShadowAtom mce qbb);
     assert_that (isOriginalAtom mce aa);
     assert_that (isOriginalAtom mce bb);
     assert_that (sameKindedAtoms qaa aa);
     assert_that (sameKindedAtoms qbb bb);
     (opAND, opOR, opXOR, opNOT, opADD, opSUB) \<leftarrow> addsub_ops ty;
     (na, mce) \<leftarrow> assignNew CHR ''V'' mce ty (Iex_Unop opNOT qaa);
     (a_min, mce) \<leftarrow> assignNew CHR ''V'' mce ty (Iex_Binop opAND aa na);
     (nb, mce) \<leftarrow> assignNew CHR ''V'' mce ty (Iex_Unop opNOT qbb);
     (b_min, mce) \<leftarrow> assignNew CHR ''V'' mce ty (Iex_Binop opAND bb nb);
     (a_max, mce) \<leftarrow> assignNew CHR ''V'' mce ty (Iex_Binop opOR aa qaa);
     (b_max, mce) \<leftarrow> assignNew CHR ''V'' mce ty (Iex_Binop opOR bb qbb);
     if add then do {
       (q, mce) \<leftarrow> assignNew CHR ''V'' mce ty (Iex_Binop opOR qaa qbb);
       (lo, mce) \<leftarrow> assignNew CHR ''V'' mce ty (Iex_Binop opADD a_min b_min);
       (hi, mce) \<leftarrow> assignNew CHR ''V'' mce ty (Iex_Binop opADD a_max b_max);
       (x, mce) \<leftarrow> assignNew CHR ''V'' mce ty (Iex_Binop opXOR lo hi);
       assignNew CHR ''V'' mce ty (Iex_Binop opOR q x)
     }
     else do {
       (q, mce) \<leftarrow> assignNew CHR ''V'' mce ty (Iex_Binop opOR qaa qbb);
       (lo, mce) \<leftarrow> assignNew CHR ''V'' mce ty (Iex_Binop opSUB a_min b_max);
       (hi, mce) \<leftarrow> assignNew CHR ''V'' mce ty (Iex_Binop opSUB a_max b_min);
       (x, mce) \<leftarrow> assignNew CHR ''V'' mce ty (Iex_Binop opXOR lo hi);
       assignNew CHR ''V'' mce ty (Iex_Binop opOR q x)
     }
   }"

definition expensiveCountTrailingZeroes :: "MCEnv \<Rightarrow> IROp \<Rightarrow> IRExpr \<Rightarrow> IRExpr \<Rightarrow> (IRExpr \<times> MCEnv) option" where
  "expensiveCountTrailingZeroes mce czop atom vatom = do {
     assert_that (isShadowAtom mce vatom);
     assert_that (isOriginalAtom mce atom);
     assert_that (sameKindedAtoms atom vatom);
     (ty, xorOp, subOp, andOp, one) \<leftarrow>
       (if czop = Iop_Ctz32 then Some (Ity_I32, Iop_Xor32, Iop_Sub32, Iop_And32, Iex_Const (Ico_U32 1))
        else if czop = Iop_Ctz64 then Some (Ity_I64, Iop_Xor64, Iop_Sub64, Iop_And64, Iex_Const (Ico_U64 1))
        else None);
     (s, mce) \<leftarrow> assignNew CHR ''V'' mce ty (Iex_Binop subOp atom one);
     (improver, mce) \<leftarrow> assignNew CHR ''V'' mce ty (Iex_Binop xorOp atom s);
     (improved, mce) \<leftarrow> assignNew CHR ''V'' mce ty (Iex_Binop andOp vatom improver);
     mkPCastTo mce ty improved
   }"

section \<open>Scalar shifts\<close>

definition scalarShift :: "MCEnv \<Rightarrow> IRType \<Rightarrow> IROp \<Rightarrow> IRExpr \<Rightarrow> IRExpr \<Rightarrow> IRExpr \<Rightarrow> IRExpr \<Rightarrow> (IRExpr \<times> MCEnv) option" where
  "scalarShift mce ty original_op qaa qbb aa bb = do {
     assert_that (isShadowAtom mce qaa);
     assert_that (isShadowAtom mce qbb);
     assert_that (isOriginalAtom mce aa);
     assert_that (isOriginalAtom mce bb);
     assert_that (sameKindedAtoms qaa aa);
     assert_that (sameKindedAtoms qbb bb);
     (s, mce) \<leftarrow> assignNew CHR ''V'' mce ty (Iex_Binop original_op qaa bb);
     (p, mce) \<leftarrow> mkPCastTo mce ty qbb;
     (u, mce) \<leftarrow> mkUifU mce ty s p;
     assignNew CHR ''V'' mce ty u
   }"

section \<open>Vector primitives\<close>

text \<open>Pessimise within each lane.\<close>

definition mkPCast8x16 :: "MCEnv \<Rightarrow> IRExpr \<Rightarrow> (IRExpr \<times> MCEnv) option" where
  "mkPCast8x16 mce at = assignNew CHR ''V'' mce Ity_V128 (Iex_Unop Iop_CmpNEZ8x16 at)"

definition mkPCast16x8 :: "MCEnv \<Rightarrow> IRExpr \<Rightarrow> (IRExpr \<times> MCEnv) option" where
  "mkPCast16x8 mce at = assignNew CHR ''V'' mce Ity_V128 (Iex_Unop Iop_CmpNEZ16x8 at)"

definition mkPCast32x4 :: "MCEnv \<Rightarrow> IRExpr \<Rightarrow> (IRExpr \<times> MCEnv) option" where
  "mkPCast32x4 mce at = assignNew CHR ''V'' mce Ity_V128 (Iex_Unop Iop_CmpNEZ32x4 at)"

definition mkPCast64x2 :: "MCEnv \<Rightarrow> IRExpr \<Rightarrow> (IRExpr \<times> MCEnv) option" where
  "mkPCast64x2 mce at = assignNew CHR ''V'' mce Ity_V128 (Iex_Unop Iop_CmpNEZ64x2 at)"

definition mkPCast64x4 :: "MCEnv \<Rightarrow> IRExpr \<Rightarrow> (IRExpr \<times> MCEnv) option" where
  "mkPCast64x4 mce at = assignNew CHR ''V'' mce Ity_V256 (Iex_Unop Iop_CmpNEZ64x4 at)"

definition mkPCast32x8 :: "MCEnv \<Rightarrow> IRExpr \<Rightarrow> (IRExpr \<times> MCEnv) option" where
  "mkPCast32x8 mce at = assignNew CHR ''V'' mce Ity_V256 (Iex_Unop Iop_CmpNEZ32x8 at)"

definition mkPCast32x2 :: "MCEnv \<Rightarrow> IRExpr \<Rightarrow> (IRExpr \<times> MCEnv) option" where
  "mkPCast32x2 mce at = assignNew CHR ''V'' mce Ity_I64 (Iex_Unop Iop_CmpNEZ32x2 at)"

definition mkPCast16x16 :: "MCEnv \<Rightarrow> IRExpr \<Rightarrow> (IRExpr \<times> MCEnv) option" where
  "mkPCast16x16 mce at = assignNew CHR ''V'' mce Ity_V256 (Iex_Unop Iop_CmpNEZ16x16 at)"

definition mkPCast16x4 :: "MCEnv \<Rightarrow> IRExpr \<Rightarrow> (IRExpr \<times> MCEnv) option" where
  "mkPCast16x4 mce at = assignNew CHR ''V'' mce Ity_I64 (Iex_Unop Iop_CmpNEZ16x4 at)"

definition mkPCast8x32 :: "MCEnv \<Rightarrow> IRExpr \<Rightarrow> (IRExpr \<times> MCEnv) option" where
  "mkPCast8x32 mce at = assignNew CHR ''V'' mce Ity_V256 (Iex_Unop Iop_CmpNEZ8x32 at)"

definition mkPCast8x8 :: "MCEnv \<Rightarrow> IRExpr \<Rightarrow> (IRExpr \<times> MCEnv) option" where
  "mkPCast8x8 mce at = assignNew CHR ''V'' mce Ity_I64 (Iex_Unop Iop_CmpNEZ8x8 at)"

definition mkPCast16x2 :: "MCEnv \<Rightarrow> IRExpr \<Rightarrow> (IRExpr \<times> MCEnv) option" where
  "mkPCast16x2 mce at = assignNew CHR ''V'' mce Ity_I32 (Iex_Unop Iop_CmpNEZ16x2 at)"

definition mkPCast8x4 :: "MCEnv \<Rightarrow> IRExpr \<Rightarrow> (IRExpr \<times> MCEnv) option" where
  "mkPCast8x4 mce at = assignNew CHR ''V'' mce Ity_I32 (Iex_Unop Iop_CmpNEZ8x4 at)"

text \<open>Floating point on lanes; a \<open>0\<close> in the name is an operation on the lowest lane only.\<close>

definition binary32Fx4 :: "MCEnv \<Rightarrow> IRExpr \<Rightarrow> IRExpr \<Rightarrow> (IRExpr \<times> MCEnv) option" where
  "binary32Fx4 mce vatomX vatomY = do {
     assert_that (isShadowAtom mce vatomX);
     assert_that (isShadowAtom mce vatomY);
     (at, mce) \<leftarrow> mkUifUV128 mce vatomX vatomY;
     (at, mce) \<leftarrow> mkPCast32x4 mce at;
     assignNew CHR ''V'' mce Ity_V128 at
   }"

definition unary32Fx4 :: "MCEnv \<Rightarrow> IRExpr \<Rightarrow> (IRExpr \<times> MCEnv) option" where
  "unary32Fx4 mce vatomX = do {
     assert_that (isShadowAtom mce vatomX);
     (at, mce) \<leftarrow> mkPCast32x4 mce vatomX;
     assignNew CHR ''V'' mce Ity_V128 at
   }"

definition binary32F0x4 :: "MCEnv \<Rightarrow> IRExpr \<Rightarrow> IRExpr \<Rightarrow> (IRExpr \<times> MCEnv) option" where
  "binary32F0x4 mce vatomX vatomY = do {
     assert_that (isShadowAtom mce vatomX);
     assert_that (isShadowAtom mce vatomY);
     (at, mce) \<leftarrow> mkUifUV128 mce vatomX vatomY;
     (at, mce) \<leftarrow> assignNew CHR ''V'' mce Ity_I32 (Iex_Unop Iop_V128to32 at);
     (at, mce) \<leftarrow> mkPCastTo mce Ity_I32 at;
     assignNew CHR ''V'' mce Ity_V128 (Iex_Binop Iop_SetV128lo32 vatomX at)
   }"

definition unary32F0x4 :: "MCEnv \<Rightarrow> IRExpr \<Rightarrow> (IRExpr \<times> MCEnv) option" where
  "unary32F0x4 mce vatomX = do {
     assert_that (isShadowAtom mce vatomX);
     (at, mce) \<leftarrow> assignNew CHR ''V'' mce Ity_I32 (Iex_Unop Iop_V128to32 vatomX);
     (at, mce) \<leftarrow> mkPCastTo mce Ity_I32 at;
     assignNew CHR ''V'' mce Ity_V128 (Iex_Binop Iop_SetV128lo32 vatomX at)
   }"

definition binary64Fx2 :: "MCEnv \<Rightarrow> IRExpr \<Rightarrow> IRExpr \<Rightarrow> (IRExpr \<times> MCEnv) option" where
  "binary64Fx2 mce vatomX vatomY = do {
     assert_that (isShadowAtom mce vatomX);
     assert_that (isShadowAtom mce vatomY);
     (at, mce) \<leftarrow> mkUifUV128 mce vatomX vatomY;
     (at, mce) \<leftarrow> mkPCast64x2 mce at;
     assignNew CHR ''V'' mce Ity_V128 at
   }"

definition unary64Fx2 :: "MCEnv \<Rightarrow> IRExpr \<Rightarrow> (IRExpr \<times> MCEnv) option" where
  "unary64Fx2 mce vatomX = do {
     assert_that (isShadowAtom mce vatomX);
     (at, mce) \<leftarrow> mkPCast64x2 mce vatomX;
     assignNew CHR ''V'' mce Ity_V128 at
   }"

definition binary64F0x2 :: "MCEnv \<Rightarrow> IRExpr \<Rightarrow> IRExpr \<Rightarrow> (IRExpr \<times> MCEnv) option" where
  "binary64F0x2 mce vatomX vatomY = do {
     assert_that (isShadowAtom mce vatomX);
     assert_that (isShadowAtom mce vatomY);
     (at, mce) \<leftarrow> mkUifUV128 mce vatomX vatomY;
     (at, mce) \<leftarrow> assignNew CHR ''V'' mce Ity_I64 (Iex_Unop Iop_V128to64 at);
     (at, mce) \<leftarrow> mkPCastTo mce Ity_I64 at;
     assignNew CHR ''V'' mce Ity_V128 (Iex_Binop Iop_SetV128lo64 vatomX at)
   }"

definition unary64F0x2 :: "MCEnv \<Rightarrow> IRExpr \<Rightarrow> (IRExpr \<times> MCEnv) option" where
  "unary64F0x2 mce vatomX = do {
     assert_that (isShadowAtom mce vatomX);
     (at, mce) \<leftarrow> assignNew CHR ''V'' mce Ity_I64 (Iex_Unop Iop_V128to64 vatomX);
     (at, mce) \<leftarrow> mkPCastTo mce Ity_I64 at;
     assignNew CHR ''V'' mce Ity_V128 (Iex_Binop Iop_SetV128lo64 vatomX at)
   }"

definition binary32Fx2 :: "MCEnv \<Rightarrow> IRExpr \<Rightarrow> IRExpr \<Rightarrow> (IRExpr \<times> MCEnv) option" where
  "binary32Fx2 mce vatomX vatomY = do {
     assert_that (isShadowAtom mce vatomX);
     assert_that (isShadowAtom mce vatomY);
     (at, mce) \<leftarrow> mkUifU64 mce vatomX vatomY;
     (at, mce) \<leftarrow> mkPCast32x2 mce at;
     assignNew CHR ''V'' mce Ity_I64 at
   }"

definition unary32Fx2 :: "MCEnv \<Rightarrow> IRExpr \<Rightarrow> (IRExpr \<times> MCEnv) option" where
  "unary32Fx2 mce vatomX = do {
     assert_that (isShadowAtom mce vatomX);
     (at, mce) \<leftarrow> mkPCast32x2 mce vatomX;
     assignNew CHR ''V'' mce Ity_I64 at
   }"

definition binary64Fx4 :: "MCEnv \<Rightarrow> IRExpr \<Rightarrow> IRExpr \<Rightarrow> (IRExpr \<times> MCEnv) option" where
  "binary64Fx4 mce vatomX vatomY = do {
     assert_that (isShadowAtom mce vatomX);
     assert_that (isShadowAtom mce vatomY);
     (at, mce) \<leftarrow> mkUifUV256 mce vatomX vatomY;
     (at, mce) \<leftarrow> mkPCast64x4 mce at;
     assignNew CHR ''V'' mce Ity_V256 at
   }"

definition unary64Fx4 :: "MCEnv \<Rightarrow> IRExpr \<Rightarrow> (IRExpr \<times> MCEnv) option" where
  "unary64Fx4 mce vatomX = do {
     assert_that (isShadowAtom mce vatomX);
     (at, mce) \<leftarrow> mkPCast64x4 mce vatomX;
     assignNew CHR ''V'' mce Ity_V256 at
   }"

definition binary32Fx8 :: "MCEnv \<Rightarrow> IRExpr \<Rightarrow> IRExpr \<Rightarrow> (IRExpr \<times> MCEnv) option" where
  "binary32Fx8 mce vatomX vatomY = do {
     assert_that (isShadowAtom mce vatomX);
     assert_that (isShadowAtom mce vatomY);
     (at, mce) \<leftarrow> mkUifUV256 mce vatomX vatomY;
     (at, mce) \<leftarrow> mkPCast32x8 mce at;
     assignNew CHR ''V'' mce Ity_V256 at
   }"

definition unary32Fx8 :: "MCEnv \<Rightarrow> IRExpr \<Rightarrow> (IRExpr \<times> MCEnv) option" where
  "unary32Fx8 mce vatomX = do {
     assert_that (isShadowAtom mce vatomX);
     (at, mce) \<leftarrow> mkPCast32x8 mce vatomX;
     assignNew CHR ''V'' mce Ity_V256 at
   }"

definition binary64Fx2_w_rm :: "MCEnv \<Rightarrow> IRExpr \<Rightarrow> IRExpr \<Rightarrow> IRExpr \<Rightarrow> (IRExpr \<times> MCEnv) option" where
  "binary64Fx2_w_rm mce vRM vatomX vatomY = do {
     (t1, mce) \<leftarrow> binary64Fx2 mce vatomX vatomY;
     (t2, mce) \<leftarrow> mkPCastTo mce Ity_V128 vRM;
     mkUifUV128 mce t1 t2
   }"

definition binary32Fx4_w_rm :: "MCEnv \<Rightarrow> IRExpr \<Rightarrow> IRExpr \<Rightarrow> IRExpr \<Rightarrow> (IRExpr \<times> MCEnv) option" where
  "binary32Fx4_w_rm mce vRM vatomX vatomY = do {
     (t1, mce) \<leftarrow> binary32Fx4 mce vatomX vatomY;
     (t2, mce) \<leftarrow> mkPCastTo mce Ity_V128 vRM;
     mkUifUV128 mce t1 t2
   }"

definition binary64Fx4_w_rm :: "MCEnv \<Rightarrow> IRExpr \<Rightarrow> IRExpr \<Rightarrow> IRExpr \<Rightarrow> (IRExpr \<times> MCEnv) option" where
  "binary64Fx4_w_rm mce vRM vatomX vatomY = do {
     (t1, mce) \<leftarrow> binary64Fx4 mce vatomX vatomY;
     (t2, mce) \<leftarrow> mkPCastTo mce Ity_V256 vRM;
     mkUifUV256 mce t1 t2
   }"

definition binary32Fx8_w_rm :: "MCEnv \<Rightarrow> IRExpr \<Rightarrow> IRExpr \<Rightarrow> IRExpr \<Rightarrow> (IRExpr \<times> MCEnv) option" where
  "binary32Fx8_w_rm mce vRM vatomX vatomY = do {
     (t1, mce) \<leftarrow> binary32Fx8 mce vatomX vatomY;
     (t2, mce) \<leftarrow> mkPCastTo mce Ity_V256 vRM;
     mkUifUV256 mce t1 t2
   }"

definition unary64Fx2_w_rm :: "MCEnv \<Rightarrow> IRExpr \<Rightarrow> IRExpr \<Rightarrow> (IRExpr \<times> MCEnv) option" where
  "unary64Fx2_w_rm mce vRM vatomX = do {
     (t1, mce) \<leftarrow> unary64Fx2 mce vatomX;
     (t2, mce) \<leftarrow> mkPCastTo mce Ity_V128 vRM;
     mkUifUV128 mce t1 t2
   }"

definition unary32Fx4_w_rm :: "MCEnv \<Rightarrow> IRExpr \<Rightarrow> IRExpr \<Rightarrow> (IRExpr \<times> MCEnv) option" where
  "unary32Fx4_w_rm mce vRM vatomX = do {
     (t1, mce) \<leftarrow> unary32Fx4 mce vatomX;
     (t2, mce) \<leftarrow> mkPCastTo mce Ity_V128 vRM;
     mkUifUV128 mce t1 t2
   }"

text \<open>Narrowing and widening of lanes.\<close>

definition vanillaNarrowingOpOfShape :: "IROp \<Rightarrow> IROp option" where
  "vanillaNarrowingOpOfShape qnarrowOp = switch [
     ([Iop_QNarrowBin16Sto8Ux16, Iop_QNarrowBin16Sto8Sx16, Iop_QNarrowBin16Uto8Ux16,
       Iop_QNarrowBin64Sto32Sx4, Iop_QNarrowBin64Uto32Ux4], Iop_NarrowBin16to8x16),
     ([Iop_QNarrowBin32Sto16Ux8, Iop_QNarrowBin32Sto16Sx8, Iop_QNarrowBin32Uto16Ux8], Iop_NarrowBin32to16x8),
     ([Iop_QNarrowBin32Sto16Sx4], Iop_NarrowBin32to16x4),
     ([Iop_QNarrowBin16Sto8Ux8, Iop_QNarrowBin16Sto8Sx8], Iop_NarrowBin16to8x8),
     ([Iop_QNarrowUn64Uto32Ux2, Iop_QNarrowUn64Sto32Sx2, Iop_QNarrowUn64Sto32Ux2], Iop_NarrowUn64to32x2),
     ([Iop_QNarrowUn32Uto16Ux4, Iop_QNarrowUn32Sto16Sx4, Iop_QNarrowUn32Sto16Ux4], Iop_NarrowUn32to16x4),
     ([Iop_QNarrowUn16Uto8Ux8, Iop_QNarrowUn16Sto8Sx8, Iop_QNarrowUn16Sto8Ux8], Iop_NarrowUn16to8x8)] qnarrowOp"

definition vectorNarrowBinV128 :: "MCEnv \<Rightarrow> IROp \<Rightarrow> IRExpr \<Rightarrow> IRExpr \<Rightarrow> (IRExpr \<times> MCEnv) option" where
  "vectorNarrowBinV128 mce narrow_op vatom1 vatom2 = do {
     pcast \<leftarrow> switch [
       ([Iop_QNarrowBin64Sto32Sx4], mkPCast32x4), ([Iop_QNarrowBin64Uto32Ux4], mkPCast32x4),
       ([Iop_QNarrowBin32Sto16Sx8], mkPCast32x4), ([Iop_QNarrowBin32Uto16Ux8], mkPCast32x4),
       ([Iop_QNarrowBin32Sto16Ux8], mkPCast32x4), ([Iop_QNarrowBin16Sto8Sx16], mkPCast16x8),
       ([Iop_QNarrowBin16Uto8Ux16], mkPCast16x8), ([Iop_QNarrowBin16Sto8Ux16], mkPCast16x8)] narrow_op;
     vanilla_narrow \<leftarrow> vanillaNarrowingOpOfShape narrow_op;
     assert_that (isShadowAtom mce vatom1);
     assert_that (isShadowAtom mce vatom2);
     (p1, mce) \<leftarrow> pcast mce vatom1;
     (at1, mce) \<leftarrow> assignNew CHR ''V'' mce Ity_V128 p1;
     (p2, mce) \<leftarrow> pcast mce vatom2;
     (at2, mce) \<leftarrow> assignNew CHR ''V'' mce Ity_V128 p2;
     assignNew CHR ''V'' mce Ity_V128 (Iex_Binop vanilla_narrow at1 at2)
   }"

definition vectorNarrowBin64 :: "MCEnv \<Rightarrow> IROp \<Rightarrow> IRExpr \<Rightarrow> IRExpr \<Rightarrow> (IRExpr \<times> MCEnv) option" where
  "vectorNarrowBin64 mce narrow_op vatom1 vatom2 = do {
     pcast \<leftarrow> switch [
       ([Iop_QNarrowBin32Sto16Sx4], mkPCast32x2), ([Iop_QNarrowBin16Sto8Sx8], mkPCast16x4),
       ([Iop_QNarrowBin16Sto8Ux8], mkPCast16x4)] narrow_op;
     vanilla_narrow \<leftarrow> vanillaNarrowingOpOfShape narrow_op;
     assert_that (isShadowAtom mce vatom1);
     assert_that (isShadowAtom mce vatom2);
     (p1, mce) \<leftarrow> pcast mce vatom1;
     (at1, mce) \<leftarrow> assignNew CHR ''V'' mce Ity_I64 p1;
     (p2, mce) \<leftarrow> pcast mce vatom2;
     (at2, mce) \<leftarrow> assignNew CHR ''V'' mce Ity_I64 p2;
     assignNew CHR ''V'' mce Ity_I64 (Iex_Binop vanilla_narrow at1 at2)
   }"

definition vectorNarrowUnV128 :: "MCEnv \<Rightarrow> IROp \<Rightarrow> IRExpr \<Rightarrow> (IRExpr \<times> MCEnv) option" where
  "vectorNarrowUnV128 mce narrow_op vatom1 = do {
     assert_that (isShadowAtom mce vatom1);
     if narrow_op \<in> set [Iop_NarrowUn16to8x8, Iop_NarrowUn32to16x4, Iop_NarrowUn64to32x2]
     then assignNew CHR ''V'' mce Ity_I64 (Iex_Unop narrow_op vatom1)
     else do {
       pcast \<leftarrow> switch [
         ([Iop_QNarrowUn16Sto8Sx8], mkPCast16x8), ([Iop_QNarrowUn16Sto8Ux8], mkPCast16x8),
         ([Iop_QNarrowUn16Uto8Ux8], mkPCast16x8), ([Iop_QNarrowUn32Sto16Sx4], mkPCast32x4),
         ([Iop_QNarrowUn32Sto16Ux4], mkPCast32x4), ([Iop_QNarrowUn32Uto16Ux4], mkPCast32x4),
         ([Iop_QNarrowUn64Sto32Sx2], mkPCast64x2), ([Iop_QNarrowUn64Sto32Ux2], mkPCast64x2),
         ([Iop_QNarrowUn64Uto32Ux2], mkPCast64x2)] narrow_op;
       vanilla_narrow \<leftarrow> vanillaNarrowingOpOfShape narrow_op;
       (p, mce) \<leftarrow> pcast mce vatom1;
       (at1, mce) \<leftarrow> assignNew CHR ''V'' mce Ity_V128 p;
       assignNew CHR ''V'' mce Ity_I64 (Iex_Unop vanilla_narrow at1)
     }
   }"

definition vectorWidenI64 :: "MCEnv \<Rightarrow> IROp \<Rightarrow> IRExpr \<Rightarrow> (IRExpr \<times> MCEnv) option" where
  "vectorWidenI64 mce longen_op vatom1 = do {
     pcast \<leftarrow> switch [
       ([Iop_Widen8Uto16x8], mkPCast16x8), ([Iop_Widen8Sto16x8], mkPCast16x8),
       ([Iop_Widen16Uto32x4], mkPCast32x4), ([Iop_Widen16Sto32x4], mkPCast32x4),
       ([Iop_Widen32Uto64x2], mkPCast64x2), ([Iop_Widen32Sto64x2], mkPCast64x2),
       ([Iop_F16toF32x4], mkPCast32x4)] longen_op;
     assert_that (isShadowAtom mce vatom1);
     (at1, mce) \<leftarrow> assignNew CHR ''V'' mce Ity_V128 (Iex_Unop longen_op vatom1);
     (p, mce) \<leftarrow> pcast mce at1;
     assignNew CHR ''V'' mce Ity_V128 p
   }"

text \<open>Integer arithmetic on lanes: merge the arguments and pessimise each lane.\<close>

definition binary8Ix32 :: "MCEnv \<Rightarrow> IRExpr \<Rightarrow> IRExpr \<Rightarrow> (IRExpr \<times> MCEnv) option" where
  "binary8Ix32 mce vatom1 vatom2 = do {
     (at, mce) \<leftarrow> mkUifUV256 mce vatom1 vatom2;
     mkPCast8x32 mce at
   }"

definition binary16Ix16 :: "MCEnv \<Rightarrow> IRExpr \<Rightarrow> IRExpr \<Rightarrow> (IRExpr \<times> MCEnv) option" where
  "binary16Ix16 mce vatom1 vatom2 = do {
     (at, mce) \<leftarrow> mkUifUV256 mce vatom1 vatom2;
     mkPCast16x16 mce at
   }"

definition binary32Ix8 :: "MCEnv \<Rightarrow> IRExpr \<Rightarrow> IRExpr \<Rightarrow> (IRExpr \<times> MCEnv) option" where
  "binary32Ix8 mce vatom1 vatom2 = do {
     (at, mce) \<leftarrow> mkUifUV256 mce vatom1 vatom2;
     mkPCast32x8 mce at
   }"

definition binary64Ix4 :: "MCEnv \<Rightarrow> IRExpr \<Rightarrow> IRExpr \<Rightarrow> (IRExpr \<times> MCEnv) option" where
  "binary64Ix4 mce vatom1 vatom2 = do {
     (at, mce) \<leftarrow> mkUifUV256 mce vatom1 vatom2;
     mkPCast64x4 mce at
   }"

definition binary8Ix16 :: "MCEnv \<Rightarrow> IRExpr \<Rightarrow> IRExpr \<Rightarrow> (IRExpr \<times> MCEnv) option" where
  "binary8Ix16 mce vatom1 vatom2 = do {
     (at, mce) \<leftarrow> mkUifUV128 mce vatom1 vatom2;
     mkPCast8x16 mce at
   }"

definition binary16Ix8 :: "MCEnv \<Rightarrow> IRExpr \<Rightarrow> IRExpr \<Rightarrow> (IRExpr \<times> MCEnv) option" where
  "binary16Ix8 mce vatom1 vatom2 = do {
     (at, mce) \<leftarrow> mkUifUV128 mce vatom1 vatom2;
     mkPCast16x8 mce at
   }"

definition binary32Ix4 :: "MCEnv \<Rightarrow> IRExpr \<Rightarrow> IRExpr \<Rightarrow> (IRExpr \<times> MCEnv) option" where
  "binary32Ix4 mce vatom1 vatom2 = do {
     (at, mce) \<leftarrow> mkUifUV128 mce vatom1 vatom2;
     mkPCast32x4 mce at
   }"

definition binary64Ix2 :: "MCEnv \<Rightarrow> IRExpr \<Rightarrow> IRExpr \<Rightarrow> (IRExpr \<times> MCEnv) option" where
  "binary64Ix2 mce vatom1 vatom2 = do {
     (at, mce) \<leftarrow> mkUifUV128 mce vatom1 vatom2;
     mkPCast64x2 mce at
   }"

definition binary8Ix8 :: "MCEnv \<Rightarrow> IRExpr \<Rightarrow> IRExpr \<Rightarrow> (IRExpr \<times> MCEnv) option" where
  "binary8Ix8 mce vatom1 vatom2 = do {
     (at, mce) \<leftarrow> mkUifU64 mce vatom1 vatom2;
     mkPCast8x8 mce at
   }"

definition binary16Ix4 :: "MCEnv \<Rightarrow> IRExpr \<Rightarrow> IRExpr \<Rightarrow> (IRExpr \<times> MCEnv) option" where
  "binary16Ix4 mce vatom1 vatom2 = do {
     (at, mce) \<leftarrow> mkUifU64 mce vatom1 vatom2;
     mkPCast16x4 mce at
   }"

definition binary32Ix2 :: "MCEnv \<Rightarrow> IRExpr \<Rightarrow> IRExpr \<Rightarrow> (IRExpr \<times> MCEnv) option" where
  "binary32Ix2 mce vatom1 vatom2 = do {
     (at, mce) \<leftarrow> mkUifU64 mce vatom1 vatom2;
     mkPCast32x2 mce at
   }"

definition binary64Ix1 :: "MCEnv \<Rightarrow> IRExpr \<Rightarrow> IRExpr \<Rightarrow> (IRExpr \<times> MCEnv) option" where
  "binary64Ix1 mce vatom1 vatom2 = do {
     (at, mce) \<leftarrow> mkUifU64 mce vatom1 vatom2;
     mkPCastTo mce Ity_I64 at
   }"

definition binary8Ix4 :: "MCEnv \<Rightarrow> IRExpr \<Rightarrow> IRExpr \<Rightarrow> (IRExpr \<times> MCEnv) option" where
  "binary8Ix4 mce vatom1 vatom2 = do {
     (at, mce) \<leftarrow> mkUifU32 mce vatom1 vatom2;
     mkPCast8x4 mce at
   }"

definition binary16Ix2 :: "MCEnv \<Rightarrow> IRExpr \<Rightarrow> IRExpr \<Rightarrow> (IRExpr \<times> MCEnv) option" where
  "binary16Ix2 mce vatom1 vatom2 = do {
     (at, mce) \<leftarrow> mkUifU32 mce vatom1 vatom2;
     mkPCast16x2 mce at
   }"

end
