(* ===== verification/TntExpr.thy ===== *)
theory TntExpr
  imports TntPrims
begin

text \<open>
  Shadow values of expressions (\<^verbatim>\<open>taintgrind/tnt_translate.c\<close>, lines 2390 to 4260 and
  4450 to 4590): for each operator the statements that compute the V bits of its result from
  the V bits of its arguments, as the tables of the four C switches, then \<open>expr2vbits\<close>. The
  arguments \<open>v1\<close>, \<open>v2\<close>, ... of a rule are the V bits, \<open>a1\<close>, \<open>a2\<close>, ... the original
  atoms. The binary and unary cases take the V bits of their arguments with \<open>expr2vbits\<close> in
  C and assert at once that the arguments are atoms, where that function is \<open>atom2vbits\<close>.
  Loads, guest state reads and helper calls are in \<open>expr2vbits\<close>'s other cases and not here.
\<close>

type_synonym emitted = "(IRExpr \<times> MCEnv) option"
type_synonym qop_rule = "MCEnv \<Rightarrow> IROp \<Rightarrow> IRExpr \<Rightarrow> IRExpr \<Rightarrow> IRExpr \<Rightarrow> IRExpr \<Rightarrow> emitted"
type_synonym triop_rule = "MCEnv \<Rightarrow> IROp \<Rightarrow> IRExpr \<Rightarrow> IRExpr \<Rightarrow> IRExpr \<Rightarrow> IRExpr \<Rightarrow> IRExpr \<Rightarrow> IRExpr \<Rightarrow> emitted"
type_synonym binop_rule = "MCEnv \<Rightarrow> IROp \<Rightarrow> IRExpr \<Rightarrow> IRExpr \<Rightarrow> IRExpr \<Rightarrow> IRExpr \<Rightarrow> emitted"
type_synonym unop_rule = "MCEnv \<Rightarrow> IROp \<Rightarrow> IRExpr \<Rightarrow> IRExpr \<Rightarrow> emitted"

section \<open>Four and three arguments\<close>

definition expr2vbits_Qop_cases :: "(IROp list \<times> qop_rule) list" where
  "expr2vbits_Qop_cases = [
     ([Iop_MAddF64, Iop_MAddF64r32, Iop_MSubF64, Iop_MSubF64r32],
        \<lambda>mce _ v1 v2 v3 v4. mkLazy4 mce Ity_I64 v1 v2 v3 v4),
     ([Iop_MAddF32, Iop_MSubF32],
        \<lambda>mce _ v1 v2 v3 v4. mkLazy4 mce Ity_I32 v1 v2 v3 v4),
     ([Iop_MAddF128, Iop_MSubF128, Iop_NegMAddF128, Iop_NegMSubF128],
        \<lambda>mce _ v1 v2 v3 v4. mkLazy4 mce Ity_I128 v1 v2 v3 v4),
     ([Iop_64x4toV256],
        \<lambda>mce op v1 v2 v3 v4. assignNew CHR ''V'' mce Ity_V256 (Iex_Qop op v1 v2 v3 v4))]"

definition expr2vbits_Qop_groups :: label_tree where
  "expr2vbits_Qop_groups =
     Below Iop_MAddF64 (Below Iop_MAddF32 (Group 2) (Group 1)) (Below Iop_64x4toV256 (Group 0) (Group 3))"

definition expr2vbits_Qop :: "MCEnv \<Rightarrow> IROp \<Rightarrow> IRExpr \<Rightarrow> IRExpr \<Rightarrow> IRExpr \<Rightarrow> IRExpr \<Rightarrow> emitted" where
  "expr2vbits_Qop mce op atom1 atom2 atom3 atom4 = do {
     (vatom1, mce) \<leftarrow> atom2vbits mce atom1;
     (vatom2, mce) \<leftarrow> atom2vbits mce atom2;
     (vatom3, mce) \<leftarrow> atom2vbits mce atom3;
     (vatom4, mce) \<leftarrow> atom2vbits mce atom4;
     assert_that (list_all (isOriginalAtom mce) [atom1, atom2, atom3, atom4]);
     assert_that (list_all (isShadowAtom mce) [vatom1, vatom2, vatom3, vatom4]);
     assert_that (list_all2 sameKindedAtoms [atom1, atom2, atom3, atom4] [vatom1, vatom2, vatom3, vatom4]);
     rule \<leftarrow> switch expr2vbits_Qop_cases op;
     rule mce op vatom1 vatom2 vatom3 vatom4
   }"

definition expr2vbits_Triop_cases :: "(IROp list \<times> triop_rule) list" where
  "expr2vbits_Triop_cases = [
     ([Iop_AddF128, Iop_SubF128, Iop_MulF128, Iop_DivF128, Iop_AddD128, Iop_SubD128, Iop_MulD128,
      Iop_DivD128, Iop_QuantizeD128],
        \<lambda>mce _ v1 v2 v3 _ _ _. mkLazy3 mce Ity_I128 v1 v2 v3),
     ([Iop_AddF64, Iop_AddD64, Iop_AddF64r32, Iop_SubF64, Iop_SubD64, Iop_SubF64r32, Iop_MulF64,
      Iop_MulD64, Iop_MulF64r32, Iop_DivF64, Iop_DivD64, Iop_DivF64r32, Iop_ScaleF64, Iop_Yl2xF64,
      Iop_Yl2xp1F64, Iop_AtanF64, Iop_PRemF64, Iop_PRem1F64, Iop_QuantizeD64],
        \<lambda>mce _ v1 v2 v3 _ _ _. mkLazy3 mce Ity_I64 v1 v2 v3),
     ([Iop_PRemC3210F64, Iop_PRem1C3210F64],
        \<lambda>mce _ v1 v2 v3 _ _ _. mkLazy3 mce Ity_I32 v1 v2 v3),
     ([Iop_AddF32, Iop_SubF32, Iop_MulF32, Iop_DivF32],
        \<lambda>mce _ v1 v2 v3 _ _ _. mkLazy3 mce Ity_I32 v1 v2 v3),
     ([Iop_SignificanceRoundD64],
        \<lambda>mce _ v1 v2 v3 _ _ _. mkLazy3 mce Ity_I64 v1 v2 v3),
     ([Iop_SignificanceRoundD128],
        \<lambda>mce _ v1 v2 v3 _ _ _. mkLazy3 mce Ity_I128 v1 v2 v3),
     ([Iop_SliceV128],
        \<lambda>mce op v1 v2 _ _ _ a3. assignNew CHR ''V'' mce Ity_V128 (Iex_Triop op v1 v2 a3)),
     ([Iop_Slice64],
        \<lambda>mce op v1 v2 _ _ _ a3. assignNew CHR ''V'' mce Ity_I64 (Iex_Triop op v1 v2 a3)),
     ([Iop_SetElem8x8, Iop_SetElem16x4, Iop_SetElem32x2],
        \<lambda>mce op v1 _ v3 _ a2 _. assignNew CHR ''V'' mce Ity_I64 (Iex_Triop op v1 a2 v3)),
     ([Iop_Add64Fx2, Iop_Sub64Fx2, Iop_Mul64Fx2, Iop_Div64Fx2],
        \<lambda>mce _ v1 v2 v3 _ _ _. binary64Fx2_w_rm mce v1 v2 v3),
     ([Iop_Add32Fx4, Iop_Sub32Fx4, Iop_Mul32Fx4, Iop_Div32Fx4],
        \<lambda>mce _ v1 v2 v3 _ _ _. binary32Fx4_w_rm mce v1 v2 v3),
     ([Iop_Add64Fx4, Iop_Sub64Fx4, Iop_Mul64Fx4, Iop_Div64Fx4],
        \<lambda>mce _ v1 v2 v3 _ _ _. binary64Fx4_w_rm mce v1 v2 v3),
     ([Iop_Add32Fx8, Iop_Sub32Fx8, Iop_Mul32Fx8, Iop_Div32Fx8],
        \<lambda>mce _ v1 v2 v3 _ _ _. binary32Fx8_w_rm mce v1 v2 v3)]"

definition expr2vbits_Triop_groups :: label_tree where
  "expr2vbits_Triop_groups =
     Below Iop_AddD64 (Below Iop_PRemC3210F64 (Below Iop_AddF64r32 (Below Iop_AddF32 (Group 1) (Group 3))
     (Below Iop_AddF128 (Group 1) (Below Iop_AtanF64 (Group 0) (Group 1)))) (Below Iop_ScaleF64 (Below
     Iop_PRem1F64 (Group 2) (Below Iop_PRem1C3210F64 (Group 1) (Group 2))) (Below Iop_SetElem8x8 (Group
     1) (Below Iop_Slice64 (Group 8) (Group 7))))) (Below Iop_SignificanceRoundD128 (Below
     Iop_QuantizeD64 (Below Iop_AddD128 (Group 1) (Group 0)) (Below Iop_QuantizeD128 (Group 1) (Below
     Iop_SignificanceRoundD64 (Group 0) (Group 4)))) (Below Iop_SliceV128 (Below Iop_Add32Fx4 (Group 5)
     (Below Iop_Add64Fx2 (Group 10) (Group 9))) (Below Iop_Add64Fx4 (Group 6) (Below Iop_Add32Fx8 (Group
     11) (Group 12)))))"

definition expr2vbits_Triop :: "MCEnv \<Rightarrow> IROp \<Rightarrow> IRExpr \<Rightarrow> IRExpr \<Rightarrow> IRExpr \<Rightarrow> emitted" where
  "expr2vbits_Triop mce op atom1 atom2 atom3 = do {
     (vatom1, mce) \<leftarrow> atom2vbits mce atom1;
     (vatom2, mce) \<leftarrow> atom2vbits mce atom2;
     (vatom3, mce) \<leftarrow> atom2vbits mce atom3;
     assert_that (list_all (isOriginalAtom mce) [atom1, atom2, atom3]);
     assert_that (list_all (isShadowAtom mce) [vatom1, vatom2, vatom3]);
     assert_that (list_all2 sameKindedAtoms [atom1, atom2, atom3] [vatom1, vatom2, vatom3]);
     rule \<leftarrow> switch expr2vbits_Triop_cases op;
     rule mce op vatom1 vatom2 vatom3 atom1 atom2 atom3
   }"

section \<open>Two arguments\<close>

definition cheap_AddSub32 :: "MCEnv \<Rightarrow> IRExpr \<Rightarrow> IRExpr \<Rightarrow> emitted" where
  "cheap_AddSub32 mce v1 v2 = do { (u, mce) \<leftarrow> mkUifU32 mce v1 v2; mkLeft32 mce u }"

definition cheap_AddSub64 :: "MCEnv \<Rightarrow> IRExpr \<Rightarrow> IRExpr \<Rightarrow> emitted" where
  "cheap_AddSub64 mce v1 v2 = do { (u, mce) \<leftarrow> mkUifU64 mce v1 v2; mkLeft64 mce u }"

definition cheap_cmp32 :: "MCEnv \<Rightarrow> IRExpr \<Rightarrow> IRExpr \<Rightarrow> emitted" where
  "cheap_cmp32 mce v1 v2 = do { (u, mce) \<leftarrow> mkUifU32 mce v1 v2; mkPCastTo mce Ity_I1 u }"

definition cheap_cmp64 :: "MCEnv \<Rightarrow> IRExpr \<Rightarrow> IRExpr \<Rightarrow> emitted" where
  "cheap_cmp64 mce v1 v2 = do { (u, mce) \<leftarrow> mkUifU64 mce v1 v2; mkPCastTo mce Ity_I1 u }"

definition do_And_Or :: "(MCEnv \<Rightarrow> IRExpr \<Rightarrow> IRExpr \<Rightarrow> emitted) \<Rightarrow> (MCEnv \<Rightarrow> IRExpr \<Rightarrow> IRExpr \<Rightarrow> emitted) \<Rightarrow> IRType \<Rightarrow>
    (MCEnv \<Rightarrow> IRExpr \<Rightarrow> IRExpr \<Rightarrow> emitted) \<Rightarrow> MCEnv \<Rightarrow> IRExpr \<Rightarrow> IRExpr \<Rightarrow> IRExpr \<Rightarrow> IRExpr \<Rightarrow> emitted" where
  "do_And_Or uifu difd and_or_ty improve mce v1 v2 a1 a2 = do {
     (u, mce) \<leftarrow> uifu mce v1 v2;
     (i1, mce) \<leftarrow> improve mce a1 v1;
     (i2, mce) \<leftarrow> improve mce a2 v2;
     (d, mce) \<leftarrow> difd mce i1 i2;
     (r, mce) \<leftarrow> difd mce u d;
     assignNew CHR ''V'' mce and_or_ty r
   }"

text \<open>Shift, saturate and narrow: each lane is pessimised at its wide width and truncated; the
  lowest bit of the upper half tells whether anything was saturated.\<close>

definition qandq_narrow :: "MCEnv \<Rightarrow> IROp \<Rightarrow> IRExpr \<Rightarrow> emitted" where
  "qandq_narrow mce op v1 = do {
     (fnPessim, opNarrow) \<leftarrow> switch [
       ([Iop_QandQShrNnarrow64Uto32Ux2, Iop_QandQSarNnarrow64Sto32Sx2, Iop_QandQSarNnarrow64Sto32Ux2,
         Iop_QandQRShrNnarrow64Uto32Ux2, Iop_QandQRSarNnarrow64Sto32Sx2, Iop_QandQRSarNnarrow64Sto32Ux2],
        (mkPCast64x2, Iop_NarrowUn64to32x2)),
       ([Iop_QandQShrNnarrow32Uto16Ux4, Iop_QandQSarNnarrow32Sto16Sx4, Iop_QandQSarNnarrow32Sto16Ux4,
         Iop_QandQRShrNnarrow32Uto16Ux4, Iop_QandQRSarNnarrow32Sto16Sx4, Iop_QandQRSarNnarrow32Sto16Ux4],
        (mkPCast32x4, Iop_NarrowUn32to16x4)),
       ([Iop_QandQShrNnarrow16Uto8Ux8, Iop_QandQSarNnarrow16Sto8Sx8, Iop_QandQSarNnarrow16Sto8Ux8,
         Iop_QandQRShrNnarrow16Uto8Ux8, Iop_QandQRSarNnarrow16Sto8Sx8, Iop_QandQRSarNnarrow16Sto8Ux8],
        (mkPCast16x8, Iop_NarrowUn16to8x8))] op;
     (shV, mce) \<leftarrow> fnPessim mce v1;
     (shVnarrowed, mce) \<leftarrow> assignNew CHR ''V'' mce Ity_I64 (Iex_Unop opNarrow shV);
     (qV, mce) \<leftarrow> mkPCastXXtoXXlsb mce shVnarrowed Ity_I64;
     assignNew CHR ''V'' mce Ity_V128 (Iex_Binop Iop_64HLtoV128 qV shVnarrowed)
   }"

definition qandq_shift :: "MCEnv \<Rightarrow> IROp \<Rightarrow> IRExpr \<Rightarrow> IRExpr \<Rightarrow> emitted" where
  "qandq_shift mce op v1 v2 = do {
     binaryNIxM \<leftarrow> switch [
       ([Iop_QandSQsh64x2, Iop_QandUQsh64x2, Iop_QandSQRsh64x2, Iop_QandUQRsh64x2], binary64Ix2),
       ([Iop_QandSQsh32x4, Iop_QandUQsh32x4, Iop_QandSQRsh32x4, Iop_QandUQRsh32x4], binary32Ix4),
       ([Iop_QandSQsh16x8, Iop_QandUQsh16x8, Iop_QandSQRsh16x8, Iop_QandUQRsh16x8], binary16Ix8),
       ([Iop_QandSQsh8x16, Iop_QandUQsh8x16, Iop_QandSQRsh8x16, Iop_QandUQRsh8x16], binary8Ix16)] op;
     (shV, mce) \<leftarrow> binaryNIxM mce v1 v2;
     (qV, mce) \<leftarrow> mkPCastXXtoXXlsb mce shV Ity_V128;
     assignNew CHR ''V'' mce Ity_V256 (Iex_Binop Iop_V128HLtoV256 qV shV)
   }"

definition expr2vbits_Binop_cases_1 :: "(IROp list \<times> binop_rule) list" where
  "expr2vbits_Binop_cases_1 = [
     ([Iop_Add16x2, Iop_HAdd16Ux2, Iop_HAdd16Sx2, Iop_Sub16x2, Iop_HSub16Ux2, Iop_HSub16Sx2,
      Iop_QAdd16Sx2, Iop_QSub16Sx2, Iop_QSub16Ux2, Iop_QAdd16Ux2],
        \<lambda>mce _ v1 v2 _ _. binary16Ix2 mce v1 v2),
     ([Iop_Add8x4, Iop_HAdd8Ux4, Iop_HAdd8Sx4, Iop_Sub8x4, Iop_HSub8Ux4, Iop_HSub8Sx4, Iop_QSub8Ux4,
      Iop_QAdd8Ux4, Iop_QSub8Sx4, Iop_QAdd8Sx4],
        \<lambda>mce _ v1 v2 _ _. binary8Ix4 mce v1 v2),
     ([Iop_ShrN8x8, Iop_ShrN16x4, Iop_ShrN32x2, Iop_SarN8x8, Iop_SarN16x4, Iop_SarN32x2, Iop_ShlN16x4,
      Iop_ShlN32x2, Iop_ShlN8x8],
        \<lambda>mce op v1 _ _ a2. assignNew CHR ''V'' mce Ity_I64 (Iex_Binop op v1 a2)),
     ([Iop_QNarrowBin32Sto16Sx4, Iop_QNarrowBin16Sto8Sx8, Iop_QNarrowBin16Sto8Ux8],
        \<lambda>mce op v1 v2 _ _. vectorNarrowBin64 mce op v1 v2),
     ([Iop_Min8Ux8, Iop_Min8Sx8, Iop_Max8Ux8, Iop_Max8Sx8, Iop_Avg8Ux8, Iop_QSub8Sx8, Iop_QSub8Ux8,
      Iop_Sub8x8, Iop_CmpGT8Sx8, Iop_CmpGT8Ux8, Iop_CmpEQ8x8, Iop_QAdd8Sx8, Iop_QAdd8Ux8, Iop_QSal8x8,
      Iop_QShl8x8, Iop_Add8x8, Iop_Mul8x8, Iop_PolynomialMul8x8],
        \<lambda>mce _ v1 v2 _ _. binary8Ix8 mce v1 v2),
     ([Iop_Min16Sx4, Iop_Min16Ux4, Iop_Max16Sx4, Iop_Max16Ux4, Iop_Avg16Ux4, Iop_QSub16Ux4,
      Iop_QSub16Sx4, Iop_Sub16x4, Iop_Mul16x4, Iop_MulHi16Sx4, Iop_MulHi16Ux4, Iop_CmpGT16Sx4,
      Iop_CmpGT16Ux4, Iop_CmpEQ16x4, Iop_QAdd16Sx4, Iop_QAdd16Ux4, Iop_QSal16x4, Iop_QShl16x4,
      Iop_Add16x4, Iop_QDMulHi16Sx4, Iop_QRDMulHi16Sx4],
        \<lambda>mce _ v1 v2 _ _. binary16Ix4 mce v1 v2),
     ([Iop_Sub32x2, Iop_Mul32x2, Iop_Max32Sx2, Iop_Max32Ux2, Iop_Min32Sx2, Iop_Min32Ux2, Iop_CmpGT32Sx2,
      Iop_CmpGT32Ux2, Iop_CmpEQ32x2, Iop_Add32x2, Iop_QAdd32Ux2, Iop_QAdd32Sx2, Iop_QSub32Ux2,
      Iop_QSub32Sx2, Iop_QSal32x2, Iop_QShl32x2, Iop_QDMulHi32Sx2, Iop_QRDMulHi32Sx2],
        \<lambda>mce _ v1 v2 _ _. binary32Ix2 mce v1 v2),
     ([Iop_QSub64Ux1, Iop_QSub64Sx1, Iop_QAdd64Ux1, Iop_QAdd64Sx1, Iop_QSal64x1, Iop_QShl64x1,
      Iop_Sal64x1],
        \<lambda>mce _ v1 v2 _ _. binary64Ix1 mce v1 v2),
     ([Iop_QShlNsatSU8x8, Iop_QShlNsatUU8x8, Iop_QShlNsatSS8x8],
        \<lambda>mce _ v1 _ _ _. mkPCast8x8 mce v1),
     ([Iop_QShlNsatSU16x4, Iop_QShlNsatUU16x4, Iop_QShlNsatSS16x4],
        \<lambda>mce _ v1 _ _ _. mkPCast16x4 mce v1),
     ([Iop_QShlNsatSU32x2, Iop_QShlNsatUU32x2, Iop_QShlNsatSS32x2],
        \<lambda>mce _ v1 _ _ _. mkPCast32x2 mce v1),
     ([Iop_QShlNsatSU64x1, Iop_QShlNsatUU64x1, Iop_QShlNsatSS64x1],
        \<lambda>mce _ v1 _ _ _. mkPCast32x2 mce v1)]"

definition expr2vbits_Binop_cases_2 :: "(IROp list \<times> binop_rule) list" where
  "expr2vbits_Binop_cases_2 = [
     ([Iop_PwMax32Sx2, Iop_PwMax32Ux2, Iop_PwMin32Sx2, Iop_PwMin32Ux2, Iop_PwMax32Fx2, Iop_PwMin32Fx2],
        \<lambda>mce _ v1 v2 _ _. do { (t1, mce) \<leftarrow> mkPCast32x2 mce v1;
            (t2, mce) \<leftarrow> mkPCast32x2 mce v2;
            assignNew CHR ''V'' mce Ity_I64 (Iex_Binop Iop_PwMax32Ux2 t1 t2) }),
     ([Iop_PwMax16Sx4, Iop_PwMax16Ux4, Iop_PwMin16Sx4, Iop_PwMin16Ux4],
        \<lambda>mce _ v1 v2 _ _. do { (t1, mce) \<leftarrow> mkPCast16x4 mce v1;
            (t2, mce) \<leftarrow> mkPCast16x4 mce v2;
            assignNew CHR ''V'' mce Ity_I64 (Iex_Binop Iop_PwMax16Ux4 t1 t2) }),
     ([Iop_PwMax8Sx8, Iop_PwMax8Ux8, Iop_PwMin8Sx8, Iop_PwMin8Ux8],
        \<lambda>mce _ v1 v2 _ _. do { (t1, mce) \<leftarrow> mkPCast8x8 mce v1;
            (t2, mce) \<leftarrow> mkPCast8x8 mce v2;
            assignNew CHR ''V'' mce Ity_I64 (Iex_Binop Iop_PwMax8Ux8 t1 t2) }),
     ([Iop_PwAdd32x2, Iop_PwAdd32Fx2],
        \<lambda>mce _ v1 v2 _ _. do { (t1, mce) \<leftarrow> mkPCast32x2 mce v1;
            (t2, mce) \<leftarrow> mkPCast32x2 mce v2;
            (t3, mce) \<leftarrow> assignNew CHR ''V'' mce Ity_I64 (Iex_Binop Iop_PwAdd32x2 t1 t2);
            mkPCast32x2 mce t3 }),
     ([Iop_PwAdd16x4],
        \<lambda>mce op v1 v2 _ _. do { (t1, mce) \<leftarrow> mkPCast16x4 mce v1;
            (t2, mce) \<leftarrow> mkPCast16x4 mce v2;
            (t3, mce) \<leftarrow> assignNew CHR ''V'' mce Ity_I64 (Iex_Binop op t1 t2);
            mkPCast16x4 mce t3 }),
     ([Iop_PwAdd8x8],
        \<lambda>mce op v1 v2 _ _. do { (t1, mce) \<leftarrow> mkPCast8x8 mce v1;
            (t2, mce) \<leftarrow> mkPCast8x8 mce v2;
            (t3, mce) \<leftarrow> assignNew CHR ''V'' mce Ity_I64 (Iex_Binop op t1 t2);
            mkPCast8x8 mce t3 }),
     ([Iop_Shl8x8, Iop_Shr8x8, Iop_Sar8x8, Iop_Sal8x8],
        \<lambda>mce op v1 v2 _ a2. do { (t1, mce) \<leftarrow> assignNew CHR ''V'' mce Ity_I64 (Iex_Binop op v1 a2);
            (t2, mce) \<leftarrow> mkPCast8x8 mce v2;
            mkUifU64 mce t1 t2 }),
     ([Iop_Shl16x4, Iop_Shr16x4, Iop_Sar16x4, Iop_Sal16x4],
        \<lambda>mce op v1 v2 _ a2. do { (t1, mce) \<leftarrow> assignNew CHR ''V'' mce Ity_I64 (Iex_Binop op v1 a2);
            (t2, mce) \<leftarrow> mkPCast16x4 mce v2;
            mkUifU64 mce t1 t2 }),
     ([Iop_Shl32x2, Iop_Shr32x2, Iop_Sar32x2, Iop_Sal32x2],
        \<lambda>mce op v1 v2 _ a2. do { (t1, mce) \<leftarrow> assignNew CHR ''V'' mce Ity_I64 (Iex_Binop op v1 a2);
            (t2, mce) \<leftarrow> mkPCast32x2 mce v2;
            mkUifU64 mce t1 t2 }),
     ([Iop_InterleaveLO32x2, Iop_InterleaveLO16x4, Iop_InterleaveLO8x8, Iop_InterleaveHI32x2,
      Iop_InterleaveHI16x4, Iop_InterleaveHI8x8, Iop_CatOddLanes8x8, Iop_CatEvenLanes8x8,
      Iop_CatOddLanes16x4, Iop_CatEvenLanes16x4, Iop_InterleaveOddLanes8x8, Iop_InterleaveEvenLanes8x8,
      Iop_InterleaveOddLanes16x4, Iop_InterleaveEvenLanes16x4],
        \<lambda>mce op v1 v2 _ _. assignNew CHR ''V'' mce Ity_I64 (Iex_Binop op v1 v2)),
     ([Iop_GetElem8x8],
        \<lambda>mce op v1 _ _ a2. assignNew CHR ''V'' mce Ity_I8 (Iex_Binop op v1 a2)),
     ([Iop_GetElem16x4],
        \<lambda>mce op v1 _ _ a2. assignNew CHR ''V'' mce Ity_I16 (Iex_Binop op v1 a2)),
     ([Iop_GetElem32x2],
        \<lambda>mce op v1 _ _ a2. assignNew CHR ''V'' mce Ity_I32 (Iex_Binop op v1 a2)),
     ([Iop_Perm8x8],
        \<lambda>mce op v1 v2 _ a2. do { (t1, mce) \<leftarrow> assignNew CHR ''V'' mce Ity_I64 (Iex_Binop op v1 a2);
            (t2, mce) \<leftarrow> mkPCast8x8 mce v2;
            mkUifU64 mce t1 t2 }),
     ([Iop_Sqrt32Fx4],
        \<lambda>mce _ v1 v2 _ _. unary32Fx4_w_rm mce v1 v2),
     ([Iop_Sqrt64Fx2],
        \<lambda>mce _ v1 v2 _ _. unary64Fx2_w_rm mce v1 v2),
     ([Iop_ShrN8x16, Iop_ShrN16x8, Iop_ShrN32x4, Iop_ShrN64x2, Iop_SarN8x16, Iop_SarN16x8, Iop_SarN32x4,
      Iop_SarN64x2, Iop_ShlN8x16, Iop_ShlN16x8, Iop_ShlN32x4, Iop_ShlN64x2],
        \<lambda>mce op v1 _ _ a2. assignNew CHR ''V'' mce Ity_V128 (Iex_Binop op v1 a2))]"

definition expr2vbits_Binop_cases_3 :: "(IROp list \<times> binop_rule) list" where
  "expr2vbits_Binop_cases_3 = [
     ([Iop_Shl8x16, Iop_Shr8x16, Iop_Sar8x16, Iop_Sal8x16, Iop_Rol8x16, Iop_Sh8Sx16, Iop_Sh8Ux16],
        \<lambda>mce op v1 v2 _ a2. do { (t1, mce) \<leftarrow> assignNew CHR ''V'' mce Ity_V128 (Iex_Binop op v1 a2);
            (t2, mce) \<leftarrow> mkPCast8x16 mce v2;
            mkUifUV128 mce t1 t2 }),
     ([Iop_Shl16x8, Iop_Shr16x8, Iop_Sar16x8, Iop_Sal16x8, Iop_Rol16x8, Iop_Sh16Sx8, Iop_Sh16Ux8],
        \<lambda>mce op v1 v2 _ a2. do { (t1, mce) \<leftarrow> assignNew CHR ''V'' mce Ity_V128 (Iex_Binop op v1 a2);
            (t2, mce) \<leftarrow> mkPCast16x8 mce v2;
            mkUifUV128 mce t1 t2 }),
     ([Iop_Shl32x4, Iop_Shr32x4, Iop_Sar32x4, Iop_Sal32x4, Iop_Rol32x4, Iop_Sh32Sx4, Iop_Sh32Ux4],
        \<lambda>mce op v1 v2 _ a2. do { (t1, mce) \<leftarrow> assignNew CHR ''V'' mce Ity_V128 (Iex_Binop op v1 a2);
            (t2, mce) \<leftarrow> mkPCast32x4 mce v2;
            mkUifUV128 mce t1 t2 }),
     ([Iop_Shl64x2, Iop_Shr64x2, Iop_Sar64x2, Iop_Sal64x2, Iop_Rol64x2, Iop_Sh64Sx2, Iop_Sh64Ux2],
        \<lambda>mce op v1 v2 _ a2. do { (t1, mce) \<leftarrow> assignNew CHR ''V'' mce Ity_V128 (Iex_Binop op v1 a2);
            (t2, mce) \<leftarrow> mkPCast64x2 mce v2;
            mkUifUV128 mce t1 t2 }),
     ([Iop_Rsh8Sx16, Iop_Rsh8Ux16],
        \<lambda>mce _ v1 v2 _ _. binary8Ix16 mce v1 v2),
     ([Iop_Rsh16Sx8, Iop_Rsh16Ux8],
        \<lambda>mce _ v1 v2 _ _. binary16Ix8 mce v1 v2),
     ([Iop_Rsh32Sx4, Iop_Rsh32Ux4],
        \<lambda>mce _ v1 v2 _ _. binary32Ix4 mce v1 v2),
     ([Iop_Rsh64Sx2, Iop_Rsh64Ux2],
        \<lambda>mce _ v1 v2 _ _. binary64Ix2 mce v1 v2),
     ([Iop_F32ToFixed32Ux4_RZ, Iop_F32ToFixed32Sx4_RZ, Iop_Fixed32UToF32x4_RN, Iop_Fixed32SToF32x4_RN],
        \<lambda>mce _ v1 _ _ _. mkPCast32x4 mce v1),
     ([Iop_F32ToFixed32Ux2_RZ, Iop_F32ToFixed32Sx2_RZ, Iop_Fixed32UToF32x2_RN, Iop_Fixed32SToF32x2_RN],
        \<lambda>mce _ v1 _ _ _. mkPCast32x2 mce v1),
     ([Iop_QSub8Ux16, Iop_QSub8Sx16, Iop_Sub8x16, Iop_Min8Ux16, Iop_Min8Sx16, Iop_Max8Ux16,
      Iop_Max8Sx16, Iop_CmpGT8Sx16, Iop_CmpGT8Ux16, Iop_CmpEQ8x16, Iop_Avg8Ux16, Iop_Avg8Sx16,
      Iop_QAdd8Ux16, Iop_QAdd8Sx16, Iop_QAddExtUSsatSS8x16, Iop_QAddExtSUsatUU8x16, Iop_QSal8x16,
      Iop_QShl8x16, Iop_Add8x16, Iop_Mul8x16, Iop_PolynomialMul8x16, Iop_PolynomialMulAdd8x16],
        \<lambda>mce _ v1 v2 _ _. binary8Ix16 mce v1 v2),
     ([Iop_QSub16Ux8, Iop_QSub16Sx8, Iop_Sub16x8, Iop_Mul16x8, Iop_MulHi16Sx8, Iop_MulHi16Ux8,
      Iop_Min16Sx8, Iop_Min16Ux8, Iop_Max16Sx8, Iop_Max16Ux8, Iop_CmpGT16Sx8, Iop_CmpGT16Ux8,
      Iop_CmpEQ16x8, Iop_Avg16Ux8, Iop_Avg16Sx8, Iop_QAdd16Ux8, Iop_QAdd16Sx8, Iop_QAddExtUSsatSS16x8,
      Iop_QAddExtSUsatUU16x8, Iop_QSal16x8, Iop_QShl16x8, Iop_Add16x8, Iop_QDMulHi16Sx8,
      Iop_QRDMulHi16Sx8, Iop_PolynomialMulAdd16x8],
        \<lambda>mce _ v1 v2 _ _. binary16Ix8 mce v1 v2)]"

definition expr2vbits_Binop_cases_4 :: "(IROp list \<times> binop_rule) list" where
  "expr2vbits_Binop_cases_4 = [
     ([Iop_Sub32x4, Iop_CmpGT32Sx4, Iop_CmpGT32Ux4, Iop_CmpEQ32x4, Iop_QAdd32Sx4, Iop_QAdd32Ux4,
      Iop_QSub32Sx4, Iop_QSub32Ux4, Iop_QAddExtUSsatSS32x4, Iop_QAddExtSUsatUU32x4, Iop_QSal32x4,
      Iop_QShl32x4, Iop_Avg32Ux4, Iop_Avg32Sx4, Iop_Add32x4, Iop_Max32Ux4, Iop_Max32Sx4, Iop_Min32Ux4,
      Iop_Min32Sx4, Iop_Mul32x4, Iop_QDMulHi32Sx4, Iop_QRDMulHi32Sx4, Iop_PolynomialMulAdd32x4],
        \<lambda>mce _ v1 v2 _ _. binary32Ix4 mce v1 v2),
     ([Iop_Sub64x2, Iop_Add64x2, Iop_Max64Sx2, Iop_Max64Ux2, Iop_Min64Sx2, Iop_Min64Ux2, Iop_CmpEQ64x2,
      Iop_CmpGT64Sx2, Iop_CmpGT64Ux2, Iop_QSal64x2, Iop_QShl64x2, Iop_QAdd64Ux2, Iop_QAdd64Sx2,
      Iop_QSub64Ux2, Iop_QSub64Sx2, Iop_QAddExtUSsatSS64x2, Iop_QAddExtSUsatUU64x2,
      Iop_PolynomialMulAdd64x2, Iop_CipherV128, Iop_CipherLV128, Iop_NCipherV128, Iop_NCipherLV128,
      Iop_MulI128by10E, Iop_MulI128by10ECarry],
        \<lambda>mce _ v1 v2 _ _. binary64Ix2 mce v1 v2),
     ([Iop_QNarrowBin64Sto32Sx4, Iop_QNarrowBin64Uto32Ux4, Iop_QNarrowBin32Sto16Sx8,
      Iop_QNarrowBin32Uto16Ux8, Iop_QNarrowBin32Sto16Ux8, Iop_QNarrowBin16Sto8Sx16,
      Iop_QNarrowBin16Uto8Ux16, Iop_QNarrowBin16Sto8Ux16],
        \<lambda>mce op v1 v2 _ _. vectorNarrowBinV128 mce op v1 v2),
     ([Iop_Min64Fx2, Iop_Max64Fx2, Iop_CmpLT64Fx2, Iop_CmpLE64Fx2, Iop_CmpEQ64Fx2, Iop_CmpUN64Fx2,
      Iop_RecipStep64Fx2, Iop_RSqrtStep64Fx2],
        \<lambda>mce _ v1 v2 _ _. binary64Fx2 mce v1 v2),
     ([Iop_Sub64F0x2, Iop_Mul64F0x2, Iop_Min64F0x2, Iop_Max64F0x2, Iop_Div64F0x2, Iop_CmpLT64F0x2,
      Iop_CmpLE64F0x2, Iop_CmpEQ64F0x2, Iop_CmpUN64F0x2, Iop_Add64F0x2],
        \<lambda>mce _ v1 v2 _ _. binary64F0x2 mce v1 v2),
     ([Iop_Min32Fx4, Iop_Max32Fx4, Iop_CmpLT32Fx4, Iop_CmpLE32Fx4, Iop_CmpEQ32Fx4, Iop_CmpUN32Fx4,
      Iop_CmpGT32Fx4, Iop_CmpGE32Fx4, Iop_RecipStep32Fx4, Iop_RSqrtStep32Fx4],
        \<lambda>mce _ v1 v2 _ _. binary32Fx4 mce v1 v2),
     ([Iop_Sub32Fx2, Iop_Mul32Fx2, Iop_Min32Fx2, Iop_Max32Fx2, Iop_CmpEQ32Fx2, Iop_CmpGT32Fx2,
      Iop_CmpGE32Fx2, Iop_Add32Fx2, Iop_RecipStep32Fx2, Iop_RSqrtStep32Fx2],
        \<lambda>mce _ v1 v2 _ _. binary32Fx2 mce v1 v2),
     ([Iop_Sub32F0x4, Iop_Mul32F0x4, Iop_Min32F0x4, Iop_Max32F0x4, Iop_Div32F0x4, Iop_CmpLT32F0x4,
      Iop_CmpLE32F0x4, Iop_CmpEQ32F0x4, Iop_CmpUN32F0x4, Iop_Add32F0x4],
        \<lambda>mce _ v1 v2 _ _. binary32F0x4 mce v1 v2),
     ([Iop_QShlNsatSU8x16, Iop_QShlNsatUU8x16, Iop_QShlNsatSS8x16],
        \<lambda>mce _ v1 _ _ _. mkPCast8x16 mce v1),
     ([Iop_QShlNsatSU16x8, Iop_QShlNsatUU16x8, Iop_QShlNsatSS16x8],
        \<lambda>mce _ v1 _ _ _. mkPCast16x8 mce v1),
     ([Iop_QShlNsatSU32x4, Iop_QShlNsatUU32x4, Iop_QShlNsatSS32x4],
        \<lambda>mce _ v1 _ _ _. mkPCast32x4 mce v1),
     ([Iop_QShlNsatSU64x2, Iop_QShlNsatUU64x2, Iop_QShlNsatSS64x2],
        \<lambda>mce _ v1 _ _ _. mkPCast32x4 mce v1)]"

definition expr2vbits_Binop_cases_5 :: "(IROp list \<times> binop_rule) list" where
  "expr2vbits_Binop_cases_5 = [
     ([Iop_QandQShrNnarrow64Uto32Ux2, Iop_QandQSarNnarrow64Sto32Sx2, Iop_QandQSarNnarrow64Sto32Ux2,
      Iop_QandQRShrNnarrow64Uto32Ux2, Iop_QandQRSarNnarrow64Sto32Sx2, Iop_QandQRSarNnarrow64Sto32Ux2,
      Iop_QandQShrNnarrow32Uto16Ux4, Iop_QandQSarNnarrow32Sto16Sx4, Iop_QandQSarNnarrow32Sto16Ux4,
      Iop_QandQRShrNnarrow32Uto16Ux4, Iop_QandQRSarNnarrow32Sto16Sx4, Iop_QandQRSarNnarrow32Sto16Ux4,
      Iop_QandQShrNnarrow16Uto8Ux8, Iop_QandQSarNnarrow16Sto8Sx8, Iop_QandQSarNnarrow16Sto8Ux8,
      Iop_QandQRShrNnarrow16Uto8Ux8, Iop_QandQRSarNnarrow16Sto8Sx8, Iop_QandQRSarNnarrow16Sto8Ux8],
        \<lambda>mce op v1 _ _ _. qandq_narrow mce op v1),
     ([Iop_Mull32Sx2, Iop_Mull32Ux2, Iop_QDMull32Sx2],
        \<lambda>mce _ v1 v2 _ _. do { (t1, mce) \<leftarrow> mkUifU64 mce v1 v2;
            vectorWidenI64 mce Iop_Widen32Sto64x2 t1 }),
     ([Iop_Mull16Sx4, Iop_Mull16Ux4, Iop_QDMull16Sx4],
        \<lambda>mce _ v1 v2 _ _. do { (t1, mce) \<leftarrow> mkUifU64 mce v1 v2;
            vectorWidenI64 mce Iop_Widen16Sto32x4 t1 }),
     ([Iop_Mull8Sx8, Iop_Mull8Ux8, Iop_PolynomialMull8x8],
        \<lambda>mce _ v1 v2 _ _. do { (t1, mce) \<leftarrow> mkUifU64 mce v1 v2;
            vectorWidenI64 mce Iop_Widen8Sto16x8 t1 }),
     ([Iop_PwAdd32x4],
        \<lambda>mce op v1 v2 _ _. do { (t1, mce) \<leftarrow> mkPCast32x4 mce v1;
            (t2, mce) \<leftarrow> mkPCast32x4 mce v2;
            (t3, mce) \<leftarrow> assignNew CHR ''V'' mce Ity_V128 (Iex_Binop op t1 t2);
            mkPCast32x4 mce t3 }),
     ([Iop_PwAdd16x8],
        \<lambda>mce op v1 v2 _ _. do { (t1, mce) \<leftarrow> mkPCast16x8 mce v1;
            (t2, mce) \<leftarrow> mkPCast16x8 mce v2;
            (t3, mce) \<leftarrow> assignNew CHR ''V'' mce Ity_V128 (Iex_Binop op t1 t2);
            mkPCast16x8 mce t3 }),
     ([Iop_PwAdd8x16],
        \<lambda>mce op v1 v2 _ _. do { (t1, mce) \<leftarrow> mkPCast8x16 mce v1;
            (t2, mce) \<leftarrow> mkPCast8x16 mce v2;
            (t3, mce) \<leftarrow> assignNew CHR ''V'' mce Ity_V128 (Iex_Binop op t1 t2);
            mkPCast8x16 mce t3 }),
     ([Iop_SetV128lo32, Iop_SetV128lo64, Iop_64HLtoV128, Iop_InterleaveLO64x2, Iop_InterleaveLO32x4,
      Iop_InterleaveLO16x8, Iop_InterleaveLO8x16, Iop_InterleaveHI64x2, Iop_InterleaveHI32x4,
      Iop_InterleaveHI16x8, Iop_InterleaveHI8x16, Iop_CatOddLanes8x16, Iop_CatOddLanes16x8,
      Iop_CatOddLanes32x4, Iop_CatEvenLanes8x16, Iop_CatEvenLanes16x8, Iop_CatEvenLanes32x4,
      Iop_InterleaveOddLanes8x16, Iop_InterleaveOddLanes16x8, Iop_InterleaveOddLanes32x4,
      Iop_InterleaveEvenLanes8x16, Iop_InterleaveEvenLanes16x8, Iop_InterleaveEvenLanes32x4],
        \<lambda>mce op v1 v2 _ _. assignNew CHR ''V'' mce Ity_V128 (Iex_Binop op v1 v2)),
     ([Iop_GetElem8x16],
        \<lambda>mce op v1 _ _ a2. assignNew CHR ''V'' mce Ity_I8 (Iex_Binop op v1 a2)),
     ([Iop_GetElem16x8],
        \<lambda>mce op v1 _ _ a2. assignNew CHR ''V'' mce Ity_I16 (Iex_Binop op v1 a2)),
     ([Iop_GetElem32x4],
        \<lambda>mce op v1 _ _ a2. assignNew CHR ''V'' mce Ity_I32 (Iex_Binop op v1 a2)),
     ([Iop_GetElem64x2],
        \<lambda>mce op v1 _ _ a2. assignNew CHR ''V'' mce Ity_I64 (Iex_Binop op v1 a2)),
     ([Iop_Perm8x16],
        \<lambda>mce op v1 v2 _ a2. do { (t1, mce) \<leftarrow> assignNew CHR ''V'' mce Ity_V128 (Iex_Binop op v1 a2);
            (t2, mce) \<leftarrow> mkPCast8x16 mce v2;
            mkUifUV128 mce t1 t2 })]"

definition expr2vbits_Binop_cases_6 :: "(IROp list \<times> binop_rule) list" where
  "expr2vbits_Binop_cases_6 = [
     ([Iop_Perm32x4],
        \<lambda>mce op v1 v2 _ a2. do { (t1, mce) \<leftarrow> assignNew CHR ''V'' mce Ity_V128 (Iex_Binop op v1 a2);
            (t2, mce) \<leftarrow> mkPCast32x4 mce v2;
            mkUifUV128 mce t1 t2 }),
     ([Iop_MullEven16Ux8, Iop_MullEven16Sx8],
        \<lambda>mce _ v1 v2 _ _. do { (t, mce) \<leftarrow> binary16Ix8 mce v1 v2;
            (t, mce) \<leftarrow> assignNew CHR ''V'' mce Ity_V128 (Iex_Binop Iop_ShlN32x4 t (Iex_Const (Ico_U8 16)));
            assignNew CHR ''V'' mce Ity_V128 (Iex_Binop Iop_SarN32x4 t (Iex_Const (Ico_U8 16))) }),
     ([Iop_MullEven8Ux16, Iop_MullEven8Sx16],
        \<lambda>mce _ v1 v2 _ _. do { (t, mce) \<leftarrow> binary8Ix16 mce v1 v2;
            (t, mce) \<leftarrow> assignNew CHR ''V'' mce Ity_V128 (Iex_Binop Iop_ShlN16x8 t (Iex_Const (Ico_U8 8)));
            assignNew CHR ''V'' mce Ity_V128 (Iex_Binop Iop_SarN16x8 t (Iex_Const (Ico_U8 8))) }),
     ([Iop_MullEven32Ux4, Iop_MullEven32Sx4],
        \<lambda>mce _ v1 v2 _ _. do { (t, mce) \<leftarrow> binary32Ix4 mce v1 v2;
            (t, mce) \<leftarrow> assignNew CHR ''V'' mce Ity_V128 (Iex_Binop Iop_ShlN64x2 t (Iex_Const (Ico_U8 32)));
            assignNew CHR ''V'' mce Ity_V128 (Iex_Binop Iop_SarN64x2 t (Iex_Const (Ico_U8 32))) }),
     ([Iop_NarrowBin32to16x8, Iop_NarrowBin16to8x16, Iop_NarrowBin64to32x4],
        \<lambda>mce op v1 v2 _ _. assignNew CHR ''V'' mce Ity_V128 (Iex_Binop op v1 v2)),
     ([Iop_ShrV128, Iop_ShlV128, Iop_I128StoBCD128],
        \<lambda>mce op v1 _ _ a2. assignNew CHR ''V'' mce Ity_V128 (Iex_Binop op v1 a2)),
     ([Iop_BCDAdd, Iop_BCDSub],
        \<lambda>mce _ v1 v2 _ _. mkLazy2 mce Ity_V128 v1 v2),
     ([Iop_SHA256, Iop_SHA512],
        \<lambda>mce op v1 _ _ a2. assignNew CHR ''V'' mce Ity_V128 (Iex_Binop op v1 a2)),
     ([Iop_64HLto128],
        \<lambda>mce op v1 v2 _ _. assignNew CHR ''V'' mce Ity_I128 (Iex_Binop op v1 v2)),
     ([Iop_Max64Fx4, Iop_Min64Fx4],
        \<lambda>mce _ v1 v2 _ _. binary64Fx4 mce v1 v2),
     ([Iop_Max32Fx8, Iop_Min32Fx8],
        \<lambda>mce _ v1 v2 _ _. binary32Fx8 mce v1 v2),
     ([Iop_V128HLtoV256],
        \<lambda>mce op v1 v2 _ _. assignNew CHR ''V'' mce Ity_V256 (Iex_Binop op v1 v2)),
     ([Iop_F32toI64S, Iop_F32toI64U],
        \<lambda>mce _ v1 v2 _ _. mkLazy2 mce Ity_I64 v1 v2),
     ([Iop_I64StoF32],
        \<lambda>mce _ v1 v2 _ _. mkLazy2 mce Ity_I32 v1 v2),
     ([Iop_RoundF64toInt, Iop_RoundF64toF32, Iop_F64toI64S, Iop_F64toI64U, Iop_I64StoF64, Iop_I64UtoF64,
      Iop_SinF64, Iop_CosF64, Iop_TanF64, Iop_2xm1F64, Iop_SqrtF64, Iop_RecpExpF64],
        \<lambda>mce _ v1 v2 _ _. mkLazy2 mce Ity_I64 v1 v2),
     ([Iop_ShlD64, Iop_ShrD64, Iop_RoundD64toInt],
        \<lambda>mce _ v1 v2 _ _. mkLazy2 mce Ity_I64 v1 v2),
     ([Iop_ShlD128, Iop_ShrD128, Iop_RoundD128toInt],
        \<lambda>mce _ v1 v2 _ _. mkLazy2 mce Ity_I128 v1 v2),
     ([Iop_RoundF128toInt],
        \<lambda>mce _ v1 v2 _ _. mkLazy2 mce Ity_I128 v1 v2),
     ([Iop_D64toI64S, Iop_D64toI64U, Iop_I64StoD64, Iop_I64UtoD64],
        \<lambda>mce _ v1 v2 _ _. mkLazy2 mce Ity_I64 v1 v2),
     ([Iop_F32toD32, Iop_F64toD32, Iop_F128toD32, Iop_D32toF32, Iop_D64toF32, Iop_D128toF32],
        \<lambda>mce _ v1 v2 _ _. mkLazy2 mce Ity_I32 v1 v2)]"

definition expr2vbits_Binop_cases_7 :: "(IROp list \<times> binop_rule) list" where
  "expr2vbits_Binop_cases_7 = [
     ([Iop_F32toD64, Iop_F64toD64, Iop_F128toD64, Iop_D32toF64, Iop_D64toF64, Iop_D128toF64],
        \<lambda>mce _ v1 v2 _ _. mkLazy2 mce Ity_I64 v1 v2),
     ([Iop_F32toD128, Iop_F64toD128, Iop_F128toD128, Iop_D32toF128, Iop_D64toF128, Iop_D128toF128],
        \<lambda>mce _ v1 v2 _ _. mkLazy2 mce Ity_I128 v1 v2),
     ([Iop_RoundF32toInt, Iop_SqrtF32, Iop_RecpExpF32],
        \<lambda>mce _ v1 v2 _ _. mkLazy2 mce Ity_I32 v1 v2),
     ([Iop_SqrtF128],
        \<lambda>mce _ v1 v2 _ _. mkLazy2 mce Ity_I128 v1 v2),
     ([Iop_I32StoF32, Iop_I32UtoF32, Iop_F32toI32S, Iop_F32toI32U],
        \<lambda>mce _ v1 v2 _ _. mkLazy2 mce Ity_I32 v1 v2),
     ([Iop_F64toF16, Iop_F32toF16],
        \<lambda>mce _ v1 v2 _ _. mkLazy2 mce Ity_I16 v1 v2),
     ([Iop_F128toI32S, Iop_F128toI32U, Iop_F128toF32, Iop_D128toI32S, Iop_D128toI32U],
        \<lambda>mce _ v1 v2 _ _. mkLazy2 mce Ity_I32 v1 v2),
     ([Iop_F128toI128S, Iop_RndF128],
        \<lambda>mce _ v1 v2 _ _. mkLazy2 mce Ity_I128 v1 v2),
     ([Iop_F128toI64S, Iop_F128toI64U, Iop_F128toF64, Iop_D128toD64, Iop_D128toI64S, Iop_D128toI64U],
        \<lambda>mce _ v1 v2 _ _. mkLazy2 mce Ity_I64 v1 v2),
     ([Iop_F64HLtoF128, Iop_D64HLtoD128],
        \<lambda>mce _ v1 v2 _ _. assignNew CHR ''V'' mce Ity_I128 (Iex_Binop Iop_64HLto128 v1 v2)),
     ([Iop_F64toI32U, Iop_F64toI32S, Iop_F64toF32, Iop_I64UtoF32, Iop_D64toI32U, Iop_D64toI32S],
        \<lambda>mce _ v1 v2 _ _. mkLazy2 mce Ity_I32 v1 v2),
     ([Iop_D64toD32],
        \<lambda>mce _ v1 v2 _ _. mkLazy2 mce Ity_I32 v1 v2),
     ([Iop_F64toI16S],
        \<lambda>mce _ v1 v2 _ _. mkLazy2 mce Ity_I16 v1 v2),
     ([Iop_InsertExpD64],
        \<lambda>mce _ v1 v2 _ _. mkLazy2 mce Ity_I64 v1 v2),
     ([Iop_InsertExpD128],
        \<lambda>mce _ v1 v2 _ _. mkLazy2 mce Ity_I128 v1 v2),
     ([Iop_CmpF32, Iop_CmpF64, Iop_CmpF128, Iop_CmpD64, Iop_CmpD128, Iop_CmpExpD64, Iop_CmpExpD128],
        \<lambda>mce _ v1 v2 _ _. mkLazy2 mce Ity_I32 v1 v2),
     ([Iop_DivModU64to32, Iop_DivModS64to32],
        \<lambda>mce _ v1 v2 _ _. mkLazy2 mce Ity_I64 v1 v2),
     ([Iop_DivModU128to64, Iop_DivModS128to64],
        \<lambda>mce _ v1 v2 _ _. mkLazy2 mce Ity_I128 v1 v2),
     ([Iop_8HLto16],
        \<lambda>mce op v1 v2 _ _. assignNew CHR ''V'' mce Ity_I16 (Iex_Binop op v1 v2)),
     ([Iop_16HLto32],
        \<lambda>mce op v1 v2 _ _. assignNew CHR ''V'' mce Ity_I32 (Iex_Binop op v1 v2)),
     ([Iop_32HLto64],
        \<lambda>mce op v1 v2 _ _. assignNew CHR ''V'' mce Ity_I64 (Iex_Binop op v1 v2)),
     ([Iop_DivModS64to64, Iop_MullS64, Iop_MullU64],
        \<lambda>mce _ v1 v2 _ _. do { (u, mce) \<leftarrow> mkUifU64 mce v1 v2;
            (vLo64, mce) \<leftarrow> mkLeft64 mce u;
            (vHi64, mce) \<leftarrow> mkPCastTo mce Ity_I64 vLo64;
            assignNew CHR ''V'' mce Ity_I128 (Iex_Binop Iop_64HLto128 vHi64 vLo64) }),
     ([Iop_MullS32, Iop_MullU32],
        \<lambda>mce _ v1 v2 _ _. do { (u, mce) \<leftarrow> mkUifU32 mce v1 v2;
            (vLo32, mce) \<leftarrow> mkLeft32 mce u;
            (vHi32, mce) \<leftarrow> mkPCastTo mce Ity_I32 vLo32;
            assignNew CHR ''V'' mce Ity_I64 (Iex_Binop Iop_32HLto64 vHi32 vLo32) }),
     ([Iop_MullS16, Iop_MullU16],
        \<lambda>mce _ v1 v2 _ _. do { (u, mce) \<leftarrow> mkUifU16 mce v1 v2;
            (vLo16, mce) \<leftarrow> mkLeft16 mce u;
            (vHi16, mce) \<leftarrow> mkPCastTo mce Ity_I16 vLo16;
            assignNew CHR ''V'' mce Ity_I32 (Iex_Binop Iop_16HLto32 vHi16 vLo16) }),
     ([Iop_MullS8, Iop_MullU8],
        \<lambda>mce _ v1 v2 _ _. do { (u, mce) \<leftarrow> mkUifU8 mce v1 v2;
            (vLo8, mce) \<leftarrow> mkLeft8 mce u;
            (vHi8, mce) \<leftarrow> mkPCastTo mce Ity_I8 vLo8;
            assignNew CHR ''V'' mce Ity_I16 (Iex_Binop Iop_8HLto16 vHi8 vLo8) })]"

definition expr2vbits_Binop_cases_8 :: "(IROp list \<times> binop_rule) list" where
  "expr2vbits_Binop_cases_8 = [
     ([Iop_Sad8Ux4, Iop_DivS32, Iop_DivU32, Iop_DivU32E, Iop_DivS32E, Iop_QAdd32S, Iop_QSub32S],
        \<lambda>mce _ v1 v2 _ _. mkLazy2 mce Ity_I32 v1 v2),
     ([Iop_DivS64, Iop_DivU64, Iop_DivS64E, Iop_DivU64E],
        \<lambda>mce _ v1 v2 _ _. mkLazy2 mce Ity_I64 v1 v2),
     ([Iop_Add32],
        \<lambda>mce _ v1 v2 a1 a2. if bogusLiterals mce \<or> useLLVMworkarounds mce
            then expensiveAddSub mce True Ity_I32 v1 v2 a1 a2 else cheap_AddSub32 mce v1 v2),
     ([Iop_Sub32],
        \<lambda>mce _ v1 v2 a1 a2. if bogusLiterals mce then expensiveAddSub mce False Ity_I32 v1 v2 a1 a2 else cheap_AddSub32 mce v1 v2),
     ([Iop_Mul32],
        \<lambda>mce _ v1 v2 _ _. cheap_AddSub32 mce v1 v2),
     ([Iop_CmpORD32S, Iop_CmpORD32U, Iop_CmpORD64S, Iop_CmpORD64U],
        \<lambda>mce op v1 v2 a1 a2. doCmpORD mce op v1 v2 a1 a2),
     ([Iop_Add64],
        \<lambda>mce _ v1 v2 a1 a2. if bogusLiterals mce \<or> useLLVMworkarounds mce
            then expensiveAddSub mce True Ity_I64 v1 v2 a1 a2 else cheap_AddSub64 mce v1 v2),
     ([Iop_Sub64],
        \<lambda>mce _ v1 v2 a1 a2. if bogusLiterals mce then expensiveAddSub mce False Ity_I64 v1 v2 a1 a2 else cheap_AddSub64 mce v1 v2),
     ([Iop_Mul64],
        \<lambda>mce _ v1 v2 _ _. cheap_AddSub64 mce v1 v2),
     ([Iop_Mul16, Iop_Add16, Iop_Sub16],
        \<lambda>mce _ v1 v2 _ _. do { (t1, mce) \<leftarrow> mkUifU16 mce v1 v2; mkLeft16 mce t1 }),
     ([Iop_Mul8, Iop_Sub8, Iop_Add8],
        \<lambda>mce _ v1 v2 _ _. do { (t1, mce) \<leftarrow> mkUifU8 mce v1 v2; mkLeft8 mce t1 }),
     ([Iop_CmpEQ64, Iop_CmpNE64],
        \<lambda>mce _ v1 v2 a1 a2. if bogusLiterals mce then expensiveCmpEQorNE mce Ity_I64 v1 v2 a1 a2 else cheap_cmp64 mce v1 v2),
     ([Iop_ExpCmpNE64],
        \<lambda>mce _ v1 v2 a1 a2. expensiveCmpEQorNE mce Ity_I64 v1 v2 a1 a2),
     ([Iop_CmpLE64S, Iop_CmpLE64U, Iop_CmpLT64U, Iop_CmpLT64S],
        \<lambda>mce _ v1 v2 _ _. cheap_cmp64 mce v1 v2),
     ([Iop_CmpEQ32, Iop_CmpNE32],
        \<lambda>mce _ v1 v2 a1 a2. if bogusLiterals mce then expensiveCmpEQorNE mce Ity_I32 v1 v2 a1 a2 else cheap_cmp32 mce v1 v2),
     ([Iop_ExpCmpNE32],
        \<lambda>mce _ v1 v2 a1 a2. expensiveCmpEQorNE mce Ity_I32 v1 v2 a1 a2),
     ([Iop_CmpLE32S, Iop_CmpLE32U, Iop_CmpLT32U, Iop_CmpLT32S],
        \<lambda>mce _ v1 v2 _ _. cheap_cmp32 mce v1 v2),
     ([Iop_CmpEQ16, Iop_CmpNE16],
        \<lambda>mce _ v1 v2 _ _. do { (t1, mce) \<leftarrow> mkUifU16 mce v1 v2; mkPCastTo mce Ity_I1 t1 }),
     ([Iop_ExpCmpNE16],
        \<lambda>mce _ v1 v2 a1 a2. expensiveCmpEQorNE mce Ity_I16 v1 v2 a1 a2),
     ([Iop_CmpEQ8, Iop_CmpNE8],
        \<lambda>mce _ v1 v2 _ _. do { (t1, mce) \<leftarrow> mkUifU8 mce v1 v2; mkPCastTo mce Ity_I1 t1 }),
     ([Iop_CasCmpEQ8, Iop_CasCmpNE8, Iop_CasCmpEQ16, Iop_CasCmpNE16, Iop_CasCmpEQ32, Iop_CasCmpNE32,
      Iop_CasCmpEQ64, Iop_CasCmpNE64],
        \<lambda>mce _ _ _ _ _. assignNew CHR ''V'' mce Ity_I1 (Iex_Const (Ico_U1 False))),
     ([Iop_Shl64, Iop_Shr64, Iop_Sar64],
        \<lambda>mce op v1 v2 a1 a2. scalarShift mce Ity_I64 op v1 v2 a1 a2),
     ([Iop_Shl32, Iop_Shr32, Iop_Sar32],
        \<lambda>mce op v1 v2 a1 a2. scalarShift mce Ity_I32 op v1 v2 a1 a2),
     ([Iop_Shl16, Iop_Shr16, Iop_Sar16],
        \<lambda>mce op v1 v2 a1 a2. scalarShift mce Ity_I16 op v1 v2 a1 a2),
     ([Iop_Shl8, Iop_Shr8, Iop_Sar8],
        \<lambda>mce op v1 v2 a1 a2. scalarShift mce Ity_I8 op v1 v2 a1 a2),
     ([Iop_AndV256],
        \<lambda>mce _ v1 v2 a1 a2. do_And_Or mkUifUV256 mkDifDV256 Ity_V256 mkImproveANDV256 mce v1 v2 a1 a2),
     ([Iop_AndV128],
        \<lambda>mce _ v1 v2 a1 a2. do_And_Or mkUifUV128 mkDifDV128 Ity_V128 mkImproveANDV128 mce v1 v2 a1 a2),
     ([Iop_And64],
        \<lambda>mce _ v1 v2 a1 a2. do_And_Or mkUifU64 mkDifD64 Ity_I64 mkImproveAND64 mce v1 v2 a1 a2),
     ([Iop_And32],
        \<lambda>mce _ v1 v2 a1 a2. do_And_Or mkUifU32 mkDifD32 Ity_I32 mkImproveAND32 mce v1 v2 a1 a2),
     ([Iop_And16],
        \<lambda>mce _ v1 v2 a1 a2. do_And_Or mkUifU16 mkDifD16 Ity_I16 mkImproveAND16 mce v1 v2 a1 a2),
     ([Iop_And8],
        \<lambda>mce _ v1 v2 a1 a2. do_And_Or mkUifU8 mkDifD8 Ity_I8 mkImproveAND8 mce v1 v2 a1 a2),
     ([Iop_OrV256],
        \<lambda>mce _ v1 v2 a1 a2. do_And_Or mkUifUV256 mkDifDV256 Ity_V256 mkImproveORV256 mce v1 v2 a1 a2)]"

definition expr2vbits_Binop_cases_9 :: "(IROp list \<times> binop_rule) list" where
  "expr2vbits_Binop_cases_9 = [
     ([Iop_OrV128],
        \<lambda>mce _ v1 v2 a1 a2. do_And_Or mkUifUV128 mkDifDV128 Ity_V128 mkImproveORV128 mce v1 v2 a1 a2),
     ([Iop_Or64],
        \<lambda>mce _ v1 v2 a1 a2. do_And_Or mkUifU64 mkDifD64 Ity_I64 mkImproveOR64 mce v1 v2 a1 a2),
     ([Iop_Or32],
        \<lambda>mce _ v1 v2 a1 a2. do_And_Or mkUifU32 mkDifD32 Ity_I32 mkImproveOR32 mce v1 v2 a1 a2),
     ([Iop_Or16],
        \<lambda>mce _ v1 v2 a1 a2. do_And_Or mkUifU16 mkDifD16 Ity_I16 mkImproveOR16 mce v1 v2 a1 a2),
     ([Iop_Or8],
        \<lambda>mce _ v1 v2 a1 a2. do_And_Or mkUifU8 mkDifD8 Ity_I8 mkImproveOR8 mce v1 v2 a1 a2),
     ([Iop_Xor8],
        \<lambda>mce _ v1 v2 _ _. mkUifU8 mce v1 v2),
     ([Iop_Xor16],
        \<lambda>mce _ v1 v2 _ _. mkUifU16 mce v1 v2),
     ([Iop_Xor32],
        \<lambda>mce _ v1 v2 _ _. mkUifU32 mce v1 v2),
     ([Iop_Xor64],
        \<lambda>mce _ v1 v2 _ _. mkUifU64 mce v1 v2),
     ([Iop_XorV128],
        \<lambda>mce _ v1 v2 _ _. mkUifUV128 mce v1 v2),
     ([Iop_XorV256],
        \<lambda>mce _ v1 v2 _ _. mkUifUV256 mce v1 v2),
     ([Iop_ShrN16x16, Iop_ShrN32x8, Iop_ShrN64x4, Iop_SarN16x16, Iop_SarN32x8, Iop_ShlN16x16,
      Iop_ShlN32x8, Iop_ShlN64x4],
        \<lambda>mce op v1 _ _ a2. assignNew CHR ''V'' mce Ity_V256 (Iex_Binop op v1 a2)),
     ([Iop_QSub8Ux32, Iop_QSub8Sx32, Iop_Sub8x32, Iop_Min8Ux32, Iop_Min8Sx32, Iop_Max8Ux32,
      Iop_Max8Sx32, Iop_CmpGT8Sx32, Iop_CmpEQ8x32, Iop_Avg8Ux32, Iop_QAdd8Ux32, Iop_QAdd8Sx32,
      Iop_Add8x32],
        \<lambda>mce _ v1 v2 _ _. binary8Ix32 mce v1 v2),
     ([Iop_QSub16Ux16, Iop_QSub16Sx16, Iop_Sub16x16, Iop_Mul16x16, Iop_MulHi16Sx16, Iop_MulHi16Ux16,
      Iop_Min16Sx16, Iop_Min16Ux16, Iop_Max16Sx16, Iop_Max16Ux16, Iop_CmpGT16Sx16, Iop_CmpEQ16x16,
      Iop_Avg16Ux16, Iop_QAdd16Ux16, Iop_QAdd16Sx16, Iop_Add16x16],
        \<lambda>mce _ v1 v2 _ _. binary16Ix16 mce v1 v2),
     ([Iop_Sub32x8, Iop_CmpGT32Sx8, Iop_CmpEQ32x8, Iop_Add32x8, Iop_Max32Ux8, Iop_Max32Sx8,
      Iop_Min32Ux8, Iop_Min32Sx8, Iop_Mul32x8],
        \<lambda>mce _ v1 v2 _ _. binary32Ix8 mce v1 v2),
     ([Iop_Sub64x4, Iop_Add64x4, Iop_CmpEQ64x4, Iop_CmpGT64Sx4],
        \<lambda>mce _ v1 v2 _ _. binary64Ix4 mce v1 v2),
     ([Iop_Perm32x8],
        \<lambda>mce op v1 v2 _ a2. do { (t1, mce) \<leftarrow> assignNew CHR ''V'' mce Ity_V256 (Iex_Binop op v1 a2);
            (t2, mce) \<leftarrow> mkPCast32x8 mce v2;
            mkUifUV256 mce t1 t2 })]"

definition expr2vbits_Binop_cases_10 :: "(IROp list \<times> binop_rule) list" where
  "expr2vbits_Binop_cases_10 = [
     ([Iop_QandSQsh64x2, Iop_QandUQsh64x2, Iop_QandSQRsh64x2, Iop_QandUQRsh64x2, Iop_QandSQsh32x4,
      Iop_QandUQsh32x4, Iop_QandSQRsh32x4, Iop_QandUQRsh32x4, Iop_QandSQsh16x8, Iop_QandUQsh16x8,
      Iop_QandSQRsh16x8, Iop_QandUQRsh16x8, Iop_QandSQsh8x16, Iop_QandUQsh8x16, Iop_QandSQRsh8x16,
      Iop_QandUQRsh8x16],
        \<lambda>mce op v1 v2 _ _. qandq_shift mce op v1 v2)]"

definition expr2vbits_Binop_cases :: "(IROp list \<times> binop_rule) list" where
  "expr2vbits_Binop_cases =
     expr2vbits_Binop_cases_1 @
     expr2vbits_Binop_cases_2 @
     expr2vbits_Binop_cases_3 @
     expr2vbits_Binop_cases_4 @
     expr2vbits_Binop_cases_5 @
     expr2vbits_Binop_cases_6 @
     expr2vbits_Binop_cases_7 @
     expr2vbits_Binop_cases_8 @
     expr2vbits_Binop_cases_9 @
     expr2vbits_Binop_cases_10"

definition expr2vbits_Binop_groups :: label_tree where
  "expr2vbits_Binop_groups =
     Below Iop_D64toF32 (Below Iop_QAdd8Sx8 (Below Iop_CmpLT64U (Below Iop_Shr32 (Below Iop_Or64 (Below
     Iop_Sub64 (Below Iop_Add64 (Below Iop_Add16 (Group 121) (Below Iop_Add32 (Group 120) (Group 113)))
     (Below Iop_Sub16 (Below Iop_Sub8 (Group 117) (Group 121)) (Below Iop_Sub32 (Group 120) (Group
     114)))) (Below Iop_Mul64 (Below Iop_Mul16 (Below Iop_Mul8 (Group 118) (Group 121)) (Below Iop_Mul32
     (Group 120) (Group 115))) (Below Iop_Or16 (Below Iop_Or8 (Group 119) (Group 147)) (Below Iop_Or32
     (Group 146) (Group 145))))) (Below Iop_Xor32 (Below Iop_And32 (Below Iop_And8 (Group 144) (Below
     Iop_And16 (Group 141) (Group 140))) (Below Iop_Xor8 (Below Iop_And64 (Group 139) (Group 138)) (Below
     Iop_Xor16 (Group 148) (Group 149)))) (Below Iop_Shl32 (Below Iop_Shl8 (Below Iop_Xor64 (Group 150)
     (Group 151)) (Below Iop_Shl16 (Group 135) (Group 134))) (Below Iop_Shr8 (Below Iop_Shl64 (Group 133)
     (Group 132)) (Below Iop_Shr16 (Group 135) (Group 134)))))) (Below Iop_ExpCmpNE16 (Below Iop_CmpEQ16
     (Below Iop_Sar16 (Below Iop_Shr64 (Group 133) (Below Iop_Sar8 (Group 132) (Group 135))) (Below
     Iop_Sar64 (Below Iop_Sar32 (Group 134) (Group 133)) (Below Iop_CmpEQ8 (Group 132) (Group 130))))
     (Below Iop_CmpNE16 (Below Iop_CmpEQ64 (Below Iop_CmpEQ32 (Group 128) (Group 125)) (Below Iop_CmpNE8
     (Group 122) (Group 130))) (Below Iop_CmpNE64 (Below Iop_CmpNE32 (Group 128) (Group 125)) (Below
     Iop_CasCmpEQ8 (Group 122) (Group 131))))) (Below Iop_MullU16 (Below Iop_MullS16 (Below
     Iop_ExpCmpNE64 (Below Iop_ExpCmpNE32 (Group 129) (Group 126)) (Below Iop_MullS8 (Group 123) (Group
     110))) (Below Iop_MullS64 (Below Iop_MullS32 (Group 109) (Group 108)) (Below Iop_MullU8 (Group 107)
     (Group 110)))) (Below Iop_CmpLT64S (Below Iop_MullU64 (Below Iop_MullU32 (Group 109) (Group 108))
     (Below Iop_CmpLT32S (Group 107) (Group 127))) (Below Iop_CmpLE64S (Below Iop_CmpLE32S (Group 124)
     (Group 127)) (Below Iop_CmpLT32U (Group 124) (Group 127))))))) (Below Iop_SqrtF128 (Below
     Iop_SqrtF32 (Below Iop_DivModU64to32 (Below Iop_CmpORD32U (Below Iop_CmpLE32U (Group 124) (Below
     Iop_CmpLE64U (Group 127) (Group 124))) (Below Iop_DivU64 (Below Iop_DivU32 (Group 116) (Group 111))
     (Below Iop_DivU32E (Group 112) (Group 111)))) (Below Iop_16HLto32 (Below Iop_DivModS64to64 (Below
     Iop_DivModU128to64 (Group 102) (Group 103)) (Below Iop_8HLto16 (Group 107) (Group 104))) (Below
     Iop_64HLto128 (Below Iop_32HLto64 (Group 105) (Group 106)) (Below Iop_SqrtF64 (Group 74) (Group
     80))))) (Below Iop_I32UtoF32 (Below Iop_F64toI64S (Below Iop_F64toI16S (Below Iop_CmpF64 (Group 88)
     (Group 101)) (Below Iop_F64toI32S (Group 98) (Group 96))) (Below Iop_I64StoF64 (Below Iop_F64toI32U
     (Group 80) (Group 96)) (Below Iop_I64UtoF32 (Group 80) (Group 96)))) (Below Iop_I32StoF32 (Below
     Iop_F32toI32U (Below Iop_F32toI64S (Group 90) (Group 78)) (Below Iop_F32toI64U (Group 90) (Group
     78))) (Below Iop_F64toF32 (Below Iop_I64StoF32 (Group 90) (Group 79)) (Below Iop_F64HLtoF128 (Group
     96) (Group 95)))))) (Below Iop_F64toF16 (Below Iop_F128toF32 (Below Iop_F128toI32U (Below
     Iop_F128toI32S (Group 89) (Below Iop_F128toI64S (Group 92) (Group 94))) (Below Iop_F128toI128S
     (Below Iop_F128toI64U (Group 92) (Group 94)) (Below Iop_F128toF64 (Group 93) (Group 94)))) (Below
     Iop_RoundF64toInt (Below Iop_SinF64 (Below Iop_RndF128 (Group 92) (Group 93)) (Below
     Iop_RoundF128toInt (Group 80) (Group 83))) (Below Iop_RoundF64toF32 (Below Iop_RoundF32toInt (Group
     80) (Group 88)) (Below Iop_RecpExpF32 (Group 80) (Group 88))))) (Below Iop_CmpEQ32Fx2 (Below
     Iop_Sad8Ux4 (Below Iop_Add16x2 (Below Iop_QAdd32S (Group 91) (Group 111)) (Below Iop_Add8x4 (Group
     0) (Group 1))) (Below Iop_Max32Fx2 (Below Iop_F32ToFixed32Ux2_RZ (Group 111) (Group 38)) (Below
     Iop_PwMax32Fx2 (Group 47) (Group 12)))) (Below Iop_QAdd8Ux8 (Below Iop_Add16x4 (Below Iop_Add8x8
     (Group 47) (Group 4)) (Below Iop_Add32x2 (Group 5) (Group 6))) (Below Iop_QAdd32Ux2 (Below
     Iop_QAdd16Ux4 (Group 4) (Group 5)) (Below Iop_QAdd64Ux1 (Group 6) (Group 7)))))))) (Below
     Iop_CmpGT32Sx2 (Below Iop_Mul16x4 (Below Iop_PwMin32Sx2 (Below Iop_PwMax8Sx8 (Below Iop_QAdd64Sx1
     (Below Iop_QAdd16Sx4 (Group 4) (Below Iop_QAdd32Sx2 (Group 5) (Group 6))) (Below Iop_PwAdd16x4
     (Below Iop_PwAdd8x8 (Group 7) (Group 17)) (Below Iop_PwAdd32x2 (Group 16) (Group 15)))) (Below
     Iop_PwMax16Ux4 (Below Iop_PwMax32Sx2 (Below Iop_PwMax16Sx4 (Group 14) (Group 13)) (Below
     Iop_PwMax8Ux8 (Group 12) (Group 14))) (Below Iop_PwMin8Sx8 (Below Iop_PwMax32Ux2 (Group 13) (Group
     12)) (Below Iop_PwMin16Sx4 (Group 14) (Group 13))))) (Below Iop_QSub16Ux4 (Below Iop_Sub8x8 (Below
     Iop_PwMin16Ux4 (Below Iop_PwMin8Ux8 (Group 12) (Group 14)) (Below Iop_PwMin32Ux2 (Group 13) (Group
     12))) (Below Iop_Sub32x2 (Below Iop_Sub16x4 (Group 4) (Group 5)) (Below Iop_QSub8Ux8 (Group 6)
     (Group 4)))) (Below Iop_QSub16Sx4 (Below Iop_QSub64Ux1 (Below Iop_QSub32Ux2 (Group 5) (Group 6))
     (Below Iop_QSub8Sx8 (Group 7) (Group 4))) (Below Iop_QSub64Sx1 (Below Iop_QSub32Sx2 (Group 5) (Group
     6)) (Below Iop_Mul8x8 (Group 7) (Group 4)))))) (Below Iop_Max16Ux4 (Below Iop_QRDMulHi16Sx4 (Below
     Iop_MulHi16Ux4 (Below Iop_Mul32x2 (Group 5) (Below Iop_Mul32Fx2 (Group 6) (Group 47))) (Below
     Iop_QDMulHi16Sx4 (Below Iop_PolynomialMul8x8 (Group 5) (Group 4)) (Below Iop_QDMulHi32Sx2 (Group 5)
     (Group 6)))) (Below Iop_Max8Sx8 (Below Iop_Avg8Ux8 (Below Iop_QRDMulHi32Sx2 (Group 5) (Group 6))
     (Below Iop_Avg16Ux4 (Group 4) (Group 5))) (Below Iop_Max32Sx2 (Below Iop_Max16Sx4 (Group 4) (Group
     5)) (Below Iop_Max8Ux8 (Group 6) (Group 4))))) (Below Iop_CmpEQ8x8 (Below Iop_Min32Sx2 (Below
     Iop_Min8Sx8 (Below Iop_Max32Ux2 (Group 5) (Group 6)) (Below Iop_Min16Sx4 (Group 4) (Group 5)))
     (Below Iop_Min16Ux4 (Below Iop_Min8Ux8 (Group 6) (Group 4)) (Below Iop_Min32Ux2 (Group 5) (Group
     6)))) (Below Iop_CmpGT16Ux4 (Below Iop_CmpEQ32x2 (Below Iop_CmpEQ16x4 (Group 4) (Group 5)) (Below
     Iop_CmpGT8Ux8 (Group 6) (Group 4))) (Below Iop_CmpGT8Sx8 (Below Iop_CmpGT32Ux2 (Group 5) (Group 6))
     (Below Iop_CmpGT16Sx4 (Group 4) (Group 5))))))) (Below Iop_QShlNsatSS8x8 (Below Iop_QShl8x8 (Below
     Iop_Sar8x8 (Below Iop_Shl32x2 (Below Iop_Shl8x8 (Group 6) (Below Iop_Shl16x4 (Group 18) (Group 19)))
     (Below Iop_Shr16x4 (Below Iop_Shr8x8 (Group 20) (Group 18)) (Below Iop_Shr32x2 (Group 19) (Group
     20)))) (Below Iop_Sal16x4 (Below Iop_Sar32x2 (Below Iop_Sar16x4 (Group 18) (Group 19)) (Below
     Iop_Sal8x8 (Group 20) (Group 18))) (Below Iop_Sal64x1 (Below Iop_Sal32x2 (Group 19) (Group 20))
     (Below Iop_ShlN8x8 (Group 7) (Group 2))))) (Below Iop_QShlNsatSU8x8 (Below Iop_QSal8x8 (Below
     Iop_QShl32x2 (Below Iop_QShl16x4 (Group 4) (Group 5)) (Below Iop_QShl64x1 (Group 6) (Group 7)))
     (Below Iop_QSal32x2 (Below Iop_QSal16x4 (Group 4) (Group 5)) (Below Iop_QSal64x1 (Group 6) (Group
     7)))) (Below Iop_QShlNsatUU8x8 (Below Iop_QShlNsatSU32x2 (Below Iop_QShlNsatSU16x4 (Group 8) (Group
     9)) (Below Iop_QShlNsatSU64x1 (Group 10) (Group 11))) (Below Iop_QShlNsatUU32x2 (Below
     Iop_QShlNsatUU16x4 (Group 8) (Group 9)) (Below Iop_QShlNsatUU64x1 (Group 10) (Group 11)))))) (Below
     Iop_D64toI32S (Below Iop_GetElem16x4 (Below Iop_QShlNsatSS64x1 (Below Iop_QShlNsatSS16x4 (Group 8)
     (Below Iop_QShlNsatSS32x2 (Group 9) (Group 10))) (Below Iop_InterleaveHI8x8 (Below
     Iop_QNarrowBin16Sto8Ux8 (Group 11) (Group 3)) (Below Iop_GetElem8x8 (Group 21) (Group 22)))) (Below
     Iop_ShlD128 (Below Iop_Perm8x8 (Below Iop_GetElem32x2 (Group 23) (Group 24)) (Below Iop_ShlD64
     (Group 25) (Group 81))) (Below Iop_D128toD64 (Below Iop_D64toD32 (Group 82) (Group 97)) (Below
     Iop_I64StoD64 (Group 94) (Group 84))))) (Below Iop_F64toD64 (Below Iop_F32toD32 (Below
     Iop_D128toI32S (Below Iop_D64toI64S (Group 96) (Group 84)) (Below Iop_D128toI64S (Group 92) (Group
     94))) (Below Iop_F32toD128 (Below Iop_F32toD64 (Group 85) (Group 86)) (Below Iop_F64toD32 (Group 87)
     (Group 85)))) (Below Iop_F128toD128 (Below Iop_F128toD32 (Below Iop_F64toD128 (Group 86) (Group 87))
     (Below Iop_F128toD64 (Group 85) (Group 86))) (Below Iop_D32toF64 (Below Iop_D32toF32 (Group 87)
     (Group 85)) (Below Iop_D32toF128 (Group 86) (Group 87))))))))) (Below Iop_CmpGT32Ux4 (Below
     Iop_QSub64Sx2 (Below Iop_Add8x16 (Below Iop_Add32Fx2 (Below Iop_RoundD128toInt (Below Iop_D128toF32
     (Below Iop_D64toF64 (Group 85) (Below Iop_D64toF128 (Group 86) (Group 87))) (Below Iop_D128toF128
     (Below Iop_D128toF64 (Group 85) (Group 86)) (Below Iop_RoundD64toInt (Group 87) (Group 81)))) (Below
     Iop_D64HLtoD128 (Below Iop_InsertExpD64 (Below Iop_CmpD64 (Group 82) (Group 101)) (Below
     Iop_InsertExpD128 (Group 99) (Group 100))) (Below Iop_I128StoBCD128 (Below Iop_BCDAdd (Group 95)
     (Group 72)) (Below Iop_Max32Fx4 (Group 71) (Group 46))))) (Below Iop_Sqrt64Fx2 (Below
     Iop_RecipStep32Fx4 (Below Iop_CmpEQ32Fx4 (Group 47) (Below Iop_Sqrt32Fx4 (Group 46) (Group 26)))
     (Below Iop_Add32F0x4 (Below Iop_F32ToFixed32Ux4_RZ (Group 46) (Group 37)) (Below Iop_Max64Fx2 (Group
     48) (Group 44)))) (Below Iop_AndV128 (Below Iop_Add64F0x2 (Below Iop_RecipStep64Fx2 (Group 27)
     (Group 44)) (Below Iop_64HLtoV128 (Group 45) (Group 60))) (Below Iop_XorV128 (Below Iop_OrV128
     (Group 137) (Group 143)) (Below Iop_ShlV128 (Group 152) (Group 71)))))) (Below
     Iop_QAddExtUSsatSS64x2 (Below Iop_QAdd64Ux2 (Below Iop_Add64x2 (Below Iop_Add16x8 (Group 39) (Below
     Iop_Add32x4 (Group 40) (Group 41))) (Below Iop_QAdd16Ux8 (Below Iop_QAdd8Ux16 (Group 42) (Group 39))
     (Below Iop_QAdd32Ux4 (Group 40) (Group 41)))) (Below Iop_QAdd64Sx2 (Below Iop_QAdd16Sx8 (Below
     Iop_QAdd8Sx16 (Group 42) (Group 39)) (Below Iop_QAdd32Sx4 (Group 40) (Group 41))) (Below
     Iop_QAddExtUSsatSS16x8 (Below Iop_QAddExtUSsatSS8x16 (Group 42) (Group 39)) (Below
     Iop_QAddExtUSsatSS32x4 (Group 40) (Group 41))))) (Below Iop_Sub64x2 (Below Iop_QAddExtSUsatUU64x2
     (Below Iop_QAddExtSUsatUU16x8 (Below Iop_QAddExtSUsatUU8x16 (Group 42) (Group 39)) (Below
     Iop_QAddExtSUsatUU32x4 (Group 40) (Group 41))) (Below Iop_Sub16x8 (Below Iop_Sub8x16 (Group 42)
     (Group 39)) (Below Iop_Sub32x4 (Group 40) (Group 41)))) (Below Iop_QSub64Ux2 (Below Iop_QSub16Ux8
     (Below Iop_QSub8Ux16 (Group 42) (Group 39)) (Below Iop_QSub32Ux4 (Group 40) (Group 41))) (Below
     Iop_QSub16Sx8 (Below Iop_QSub8Sx16 (Group 42) (Group 39)) (Below Iop_QSub32Sx4 (Group 40) (Group
     41))))))) (Below Iop_Avg16Ux8 (Below Iop_QDMull32Sx2 (Below Iop_MullEven32Ux4 (Below Iop_Mul32x4
     (Below Iop_Mul8x16 (Group 42) (Below Iop_Mul16x8 (Group 39) (Group 40))) (Below Iop_MullEven8Ux16
     (Below Iop_MulHi16Ux8 (Group 41) (Group 40)) (Below Iop_MullEven16Ux8 (Group 68) (Group 67))))
     (Below Iop_Mull8Ux8 (Below Iop_MullEven16Sx8 (Below Iop_MullEven8Sx16 (Group 69) (Group 68)) (Below
     Iop_MullEven32Sx4 (Group 67) (Group 69))) (Below Iop_Mull32Ux2 (Below Iop_Mull16Ux4 (Group 56)
     (Group 55)) (Below Iop_QDMull16Sx4 (Group 54) (Group 55))))) (Below Iop_PolynomialMulAdd16x8 (Below
     Iop_QRDMulHi32Sx4 (Below Iop_QDMulHi32Sx4 (Below Iop_QDMulHi16Sx8 (Group 54) (Group 40)) (Below
     Iop_QRDMulHi16Sx8 (Group 41) (Group 40))) (Below Iop_PolynomialMull8x8 (Below Iop_PolynomialMul8x16
     (Group 41) (Group 39)) (Below Iop_PolynomialMulAdd8x16 (Group 56) (Group 39)))) (Below Iop_PwAdd16x8
     (Below Iop_PolynomialMulAdd64x2 (Below Iop_PolynomialMulAdd32x4 (Group 40) (Group 41)) (Below
     Iop_PwAdd8x16 (Group 42) (Group 59))) (Below Iop_PwAdd32Fx2 (Below Iop_PwAdd32x4 (Group 58) (Group
     57)) (Below Iop_Avg8Ux16 (Group 15) (Group 39)))))) (Below Iop_Min32Sx4 (Below Iop_Max32Sx4 (Below
     Iop_Avg16Sx8 (Below Iop_Avg32Ux4 (Group 40) (Below Iop_Avg8Sx16 (Group 41) (Group 39))) (Below
     Iop_Max8Sx16 (Below Iop_Avg32Sx4 (Group 40) (Group 41)) (Below Iop_Max16Sx8 (Group 39) (Group 40))))
     (Below Iop_Max32Ux4 (Below Iop_Max8Ux16 (Below Iop_Max64Sx2 (Group 41) (Group 42)) (Below
     Iop_Max16Ux8 (Group 39) (Group 40))) (Below Iop_Min8Sx16 (Below Iop_Max64Ux2 (Group 41) (Group 42))
     (Below Iop_Min16Sx8 (Group 39) (Group 40))))) (Below Iop_CmpEQ32x4 (Below Iop_Min32Ux4 (Below
     Iop_Min8Ux16 (Below Iop_Min64Sx2 (Group 41) (Group 42)) (Below Iop_Min16Ux8 (Group 39) (Group 40)))
     (Below Iop_CmpEQ8x16 (Below Iop_Min64Ux2 (Group 41) (Group 42)) (Below Iop_CmpEQ16x8 (Group 39)
     (Group 40)))) (Below Iop_CmpGT32Sx4 (Below Iop_CmpGT8Sx16 (Below Iop_CmpEQ64x2 (Group 41) (Group
     42)) (Below Iop_CmpGT16Sx8 (Group 39) (Group 40))) (Below Iop_CmpGT8Ux16 (Below Iop_CmpGT64Sx2
     (Group 41) (Group 42)) (Below Iop_CmpGT16Ux8 (Group 39) (Group 40)))))))) (Below
     Iop_NarrowBin16to8x16 (Below Iop_QShlNsatSU8x16 (Below Iop_Sal8x16 (Below Iop_Shr8x16 (Below
     Iop_Shl8x16 (Below Iop_CmpGT64Ux2 (Group 41) (Below Iop_ShlN8x16 (Group 42) (Group 28))) (Below
     Iop_Shl32x4 (Below Iop_Shl16x8 (Group 29) (Group 30)) (Below Iop_Shl64x2 (Group 31) (Group 32))))
     (Below Iop_Sar8x16 (Below Iop_Shr32x4 (Below Iop_Shr16x8 (Group 29) (Group 30)) (Below Iop_Shr64x2
     (Group 31) (Group 32))) (Below Iop_Sar32x4 (Below Iop_Sar16x8 (Group 29) (Group 30)) (Below
     Iop_Sar64x2 (Group 31) (Group 32))))) (Below Iop_QShl8x16 (Below Iop_Rol8x16 (Below Iop_Sal32x4
     (Below Iop_Sal16x8 (Group 29) (Group 30)) (Below Iop_Sal64x2 (Group 31) (Group 32))) (Below
     Iop_Rol32x4 (Below Iop_Rol16x8 (Group 29) (Group 30)) (Below Iop_Rol64x2 (Group 31) (Group 32))))
     (Below Iop_QSal8x16 (Below Iop_QShl32x4 (Below Iop_QShl16x8 (Group 39) (Group 40)) (Below
     Iop_QShl64x2 (Group 41) (Group 42))) (Below Iop_QSal32x4 (Below Iop_QSal16x8 (Group 39) (Group 40))
     (Below Iop_QSal64x2 (Group 41) (Group 42)))))) (Below Iop_Sh32Sx4 (Below Iop_QShlNsatUU64x2 (Below
     Iop_QShlNsatSU64x2 (Below Iop_QShlNsatSU16x8 (Group 49) (Below Iop_QShlNsatSU32x4 (Group 50) (Group
     51))) (Below Iop_QShlNsatUU16x8 (Below Iop_QShlNsatUU8x16 (Group 52) (Group 49)) (Below
     Iop_QShlNsatUU32x4 (Group 50) (Group 51)))) (Below Iop_QShlNsatSS64x2 (Below Iop_QShlNsatSS16x8
     (Below Iop_QShlNsatSS8x16 (Group 52) (Group 49)) (Below Iop_QShlNsatSS32x4 (Group 50) (Group 51)))
     (Below Iop_Sh8Sx16 (Below Iop_QandUQsh8x16 (Group 52) (Group 160)) (Below Iop_Sh16Sx8 (Group 29)
     (Group 30))))) (Below Iop_Rsh32Sx4 (Below Iop_Sh32Ux4 (Below Iop_Sh8Ux16 (Below Iop_Sh64Sx2 (Group
     31) (Group 32)) (Below Iop_Sh16Ux8 (Group 29) (Group 30))) (Below Iop_Rsh8Sx16 (Below Iop_Sh64Ux2
     (Group 31) (Group 32)) (Below Iop_Rsh16Sx8 (Group 33) (Group 34)))) (Below Iop_Rsh32Ux4 (Below
     Iop_Rsh8Ux16 (Below Iop_Rsh64Sx2 (Group 35) (Group 36)) (Below Iop_Rsh16Ux8 (Group 33) (Group 34)))
     (Below Iop_QandQShrNnarrow16Uto8Ux8 (Below Iop_Rsh64Ux2 (Group 35) (Group 36)) (Below
     Iop_QNarrowBin16Sto8Ux16 (Group 53) (Group 43))))))) (Below Iop_ShlN16x16 (Below Iop_Add8x32 (Below
     Iop_GetElem64x2 (Below Iop_InterleaveHI8x16 (Below Iop_QNarrowBin64Sto32Sx4 (Group 70) (Below
     Iop_NarrowBin64to32x4 (Group 43) (Group 70))) (Below Iop_GetElem16x8 (Below Iop_GetElem8x16 (Group
     60) (Group 61)) (Below Iop_GetElem32x4 (Group 62) (Group 63)))) (Below Iop_V128HLtoV256 (Below
     Iop_Perm32x4 (Below Iop_Perm8x16 (Group 64) (Group 65)) (Below Iop_MulI128by10E (Group 66) (Group
     42))) (Below Iop_OrV256 (Below Iop_AndV256 (Group 77) (Group 136)) (Below Iop_XorV256 (Group 142)
     (Group 153))))) (Below Iop_CmpEQ8x32 (Below Iop_Sub8x32 (Below Iop_Add32x8 (Below Iop_Add16x16
     (Group 155) (Group 156)) (Below Iop_Add64x4 (Group 157) (Group 158))) (Below Iop_Sub32x8 (Below
     Iop_Sub16x16 (Group 155) (Group 156)) (Below Iop_Sub64x4 (Group 157) (Group 158)))) (Below
     Iop_CmpGT8Sx32 (Below Iop_CmpEQ32x8 (Below Iop_CmpEQ16x16 (Group 155) (Group 156)) (Below
     Iop_CmpEQ64x4 (Group 157) (Group 158))) (Below Iop_CmpGT32Sx8 (Below Iop_CmpGT16Sx16 (Group 155)
     (Group 156)) (Below Iop_CmpGT64Sx4 (Group 157) (Group 158)))))) (Below Iop_MulHi16Ux16 (Below
     Iop_Min8Sx32 (Below Iop_Max32Sx8 (Below Iop_Max8Sx32 (Group 154) (Below Iop_Max16Sx16 (Group 155)
     (Group 156))) (Below Iop_Max16Ux16 (Below Iop_Max8Ux32 (Group 157) (Group 155)) (Below Iop_Max32Ux8
     (Group 156) (Group 157)))) (Below Iop_Min16Ux16 (Below Iop_Min32Sx8 (Below Iop_Min16Sx16 (Group 155)
     (Group 156)) (Below Iop_Min8Ux32 (Group 157) (Group 155))) (Below Iop_Mul16x16 (Below Iop_Min32Ux8
     (Group 156) (Group 157)) (Below Iop_Mul32x8 (Group 156) (Group 157))))) (Below Iop_QSub16Sx16 (Below
     Iop_QAdd16Sx16 (Below Iop_QAdd16Ux16 (Below Iop_QAdd8Ux32 (Group 156) (Group 155)) (Below
     Iop_QAdd8Sx32 (Group 156) (Group 155))) (Below Iop_QSub16Ux16 (Below Iop_QSub8Ux32 (Group 156)
     (Group 155)) (Below Iop_QSub8Sx32 (Group 156) (Group 155)))) (Below Iop_CipherV128 (Below
     Iop_Avg16Ux16 (Below Iop_Avg8Ux32 (Group 156) (Group 155)) (Below Iop_Perm32x8 (Group 156) (Group
     159))) (Below Iop_Max32Fx8 (Below Iop_SHA512 (Group 42) (Group 73)) (Below Iop_Max64Fx4 (Group 76)
     (Group 75)))))))))"

definition expr2vbits_Binop :: "MCEnv \<Rightarrow> IROp \<Rightarrow> IRExpr \<Rightarrow> IRExpr \<Rightarrow> emitted" where
  "expr2vbits_Binop mce op atom1 atom2 = do {
     (vatom1, mce) \<leftarrow> atom2vbits mce atom1;
     (vatom2, mce) \<leftarrow> atom2vbits mce atom2;
     assert_that (isOriginalAtom mce atom1);
     assert_that (isOriginalAtom mce atom2);
     assert_that (isShadowAtom mce vatom1);
     assert_that (isShadowAtom mce vatom2);
     assert_that (sameKindedAtoms atom1 vatom1);
     assert_that (sameKindedAtoms atom2 vatom2);
     rule \<leftarrow> switch expr2vbits_Binop_cases op;
     rule mce op vatom1 vatom2 atom1 atom2
   }"

section \<open>One argument\<close>

definition expr2vbits_Unop_cases_1 :: "(IROp list \<times> unop_rule) list" where
  "expr2vbits_Unop_cases_1 = [
     ([Iop_Abs64Fx2, Iop_Neg64Fx2, Iop_RSqrtEst64Fx2, Iop_RecipEst64Fx2],
        \<lambda>mce _ v _. unary64Fx2 mce v),
     ([Iop_Sqrt64F0x2],
        \<lambda>mce _ v _. unary64F0x2 mce v),
     ([Iop_Sqrt32Fx8, Iop_RSqrtEst32Fx8, Iop_RecipEst32Fx8],
        \<lambda>mce _ v _. unary32Fx8 mce v),
     ([Iop_Sqrt64Fx4],
        \<lambda>mce _ v _. unary64Fx4 mce v),
     ([Iop_RecipEst32Fx4, Iop_I32UtoFx4, Iop_I32StoFx4, Iop_QFtoI32Ux4_RZ, Iop_QFtoI32Sx4_RZ,
      Iop_RoundF32x4_RM, Iop_RoundF32x4_RP, Iop_RoundF32x4_RN, Iop_RoundF32x4_RZ, Iop_RecipEst32Ux4,
      Iop_Abs32Fx4, Iop_Neg32Fx4, Iop_RSqrtEst32Fx4],
        \<lambda>mce _ v _. unary32Fx4 mce v),
     ([Iop_I32UtoFx2, Iop_I32StoFx2, Iop_RecipEst32Fx2, Iop_RecipEst32Ux2, Iop_Abs32Fx2, Iop_Neg32Fx2,
      Iop_RSqrtEst32Fx2],
        \<lambda>mce _ v _. unary32Fx2 mce v),
     ([Iop_Sqrt32F0x4, Iop_RSqrtEst32F0x4, Iop_RecipEst32F0x4],
        \<lambda>mce _ v _. unary32F0x4 mce v),
     ([Iop_32UtoV128, Iop_64UtoV128, Iop_Dup8x16, Iop_Dup16x8, Iop_Dup32x4, Iop_Reverse1sIn8_x16,
      Iop_Reverse8sIn16_x8, Iop_Reverse8sIn32_x4, Iop_Reverse16sIn32_x4, Iop_Reverse8sIn64_x2,
      Iop_Reverse16sIn64_x2, Iop_Reverse32sIn64_x2, Iop_V256toV128_1, Iop_V256toV128_0,
      Iop_ZeroHI64ofV128, Iop_ZeroHI96ofV128, Iop_ZeroHI112ofV128, Iop_ZeroHI120ofV128],
        \<lambda>mce op v _. assignNew CHR ''V'' mce Ity_V128 (Iex_Unop op v)),
     ([Iop_F128HItoF64, Iop_D128HItoD64],
        \<lambda>mce _ v _. assignNew CHR ''V'' mce Ity_I64 (Iex_Unop Iop_128HIto64 v)),
     ([Iop_F128LOtoF64, Iop_D128LOtoD64],
        \<lambda>mce _ v _. assignNew CHR ''V'' mce Ity_I64 (Iex_Unop Iop_128to64 v)),
     ([Iop_NegF128, Iop_AbsF128, Iop_RndF128, Iop_TruncF128toI64S, Iop_TruncF128toI32S,
      Iop_TruncF128toI64U, Iop_TruncF128toI32U],
        \<lambda>mce _ v _. mkPCastTo mce Ity_I128 v),
     ([Iop_BCD128toI128S, Iop_MulI128by10, Iop_MulI128by10Carry, Iop_F16toF64x2, Iop_F64toF16x2],
        \<lambda>mce _ v _. Some (v, mce)),
     ([Iop_I32StoF128, Iop_I64StoF128, Iop_I32UtoF128, Iop_I64UtoF128, Iop_F32toF128, Iop_F64toF128,
      Iop_I32StoD128, Iop_I64StoD128, Iop_I32UtoD128, Iop_I64UtoD128],
        \<lambda>mce _ v _. mkPCastTo mce Ity_I128 v),
     ([Iop_F16toF64, Iop_F32toF64, Iop_I32StoF64, Iop_I32UtoF64, Iop_NegF64, Iop_AbsF64,
      Iop_RSqrtEst5GoodF64, Iop_RoundF64toF64_NEAREST, Iop_RoundF64toF64_NegINF,
      Iop_RoundF64toF64_PosINF, Iop_RoundF64toF64_ZERO, Iop_Clz64, Iop_D32toD64, Iop_I32StoD64,
      Iop_I32UtoD64, Iop_ExtractExpD64, Iop_ExtractExpD128, Iop_ExtractSigD64, Iop_ExtractSigD128,
      Iop_DPBtoBCD, Iop_BCDtoDPB],
        \<lambda>mce _ v _. mkPCastTo mce Ity_I64 v),
     ([Iop_D64toD128],
        \<lambda>mce _ v _. mkPCastTo mce Ity_I128 v),
     ([Iop_Clz32, Iop_TruncF64asF32, Iop_NegF32, Iop_AbsF32, Iop_F16toF32],
        \<lambda>mce _ v _. mkPCastTo mce Ity_I32 v),
     ([Iop_Ctz32, Iop_Ctz64],
        \<lambda>mce op v a. expensiveCountTrailingZeroes mce op a v)]"

definition expr2vbits_Unop_cases_2 :: "(IROp list \<times> unop_rule) list" where
  "expr2vbits_Unop_cases_2 = [
     ([Iop_1Uto64, Iop_1Sto64, Iop_8Uto64, Iop_8Sto64, Iop_16Uto64, Iop_16Sto64, Iop_32Sto64,
      Iop_32Uto64, Iop_V128to64, Iop_V128HIto64, Iop_128HIto64, Iop_128to64, Iop_Dup8x8, Iop_Dup16x4,
      Iop_Dup32x2, Iop_Reverse8sIn16_x4, Iop_Reverse8sIn32_x2, Iop_Reverse16sIn32_x2,
      Iop_Reverse8sIn64_x1, Iop_Reverse16sIn64_x1, Iop_Reverse32sIn64_x1, Iop_V256to64_0,
      Iop_V256to64_1, Iop_V256to64_2, Iop_V256to64_3],
        \<lambda>mce op v _. assignNew CHR ''V'' mce Ity_I64 (Iex_Unop op v)),
     ([Iop_64to32, Iop_64HIto32, Iop_1Uto32, Iop_1Sto32, Iop_8Uto32, Iop_16Uto32, Iop_16Sto32,
      Iop_8Sto32, Iop_V128to32],
        \<lambda>mce op v _. assignNew CHR ''V'' mce Ity_I32 (Iex_Unop op v)),
     ([Iop_8Sto16, Iop_8Uto16, Iop_32to16, Iop_32HIto16, Iop_64to16, Iop_GetMSBs8x16],
        \<lambda>mce op v _. assignNew CHR ''V'' mce Ity_I16 (Iex_Unop op v)),
     ([Iop_1Uto8, Iop_1Sto8, Iop_16to8, Iop_16HIto8, Iop_32to8, Iop_64to8, Iop_GetMSBs8x8],
        \<lambda>mce op v _. assignNew CHR ''V'' mce Ity_I8 (Iex_Unop op v)),
     ([Iop_32to1],
        \<lambda>mce _ v _. assignNew CHR ''V'' mce Ity_I1 (Iex_Unop Iop_32to1 v)),
     ([Iop_64to1],
        \<lambda>mce _ v _. assignNew CHR ''V'' mce Ity_I1 (Iex_Unop Iop_64to1 v)),
     ([Iop_ReinterpF64asI64, Iop_ReinterpI64asF64, Iop_ReinterpI32asF32, Iop_ReinterpF32asI32,
      Iop_ReinterpI64asD64, Iop_ReinterpD64asI64, Iop_NotV256, Iop_NotV128, Iop_Not64, Iop_Not32,
      Iop_Not16, Iop_Not8, Iop_Not1],
        \<lambda>mce _ v _. Some (v, mce)),
     ([Iop_CmpNEZ8x8, Iop_Cnt8x8, Iop_Clz8x8, Iop_Cls8x8, Iop_Abs8x8],
        \<lambda>mce _ v _. mkPCast8x8 mce v),
     ([Iop_CmpNEZ8x16, Iop_Cnt8x16, Iop_Clz8x16, Iop_Cls8x16, Iop_Abs8x16, Iop_Ctz8x16],
        \<lambda>mce _ v _. mkPCast8x16 mce v),
     ([Iop_CmpNEZ16x4, Iop_Clz16x4, Iop_Cls16x4, Iop_Abs16x4],
        \<lambda>mce _ v _. mkPCast16x4 mce v),
     ([Iop_CmpNEZ16x8, Iop_Clz16x8, Iop_Cls16x8, Iop_Abs16x8, Iop_Ctz16x8],
        \<lambda>mce _ v _. mkPCast16x8 mce v),
     ([Iop_CmpNEZ32x2, Iop_Clz32x2, Iop_Cls32x2, Iop_FtoI32Ux2_RZ, Iop_FtoI32Sx2_RZ, Iop_Abs32x2],
        \<lambda>mce _ v _. mkPCast32x2 mce v),
     ([Iop_CmpNEZ32x4, Iop_Clz32x4, Iop_Cls32x4, Iop_FtoI32Ux4_RZ, Iop_FtoI32Sx4_RZ, Iop_Abs32x4,
      Iop_RSqrtEst32Ux4, Iop_Ctz32x4],
        \<lambda>mce _ v _. mkPCast32x4 mce v),
     ([Iop_CmpwNEZ32],
        \<lambda>mce _ v _. mkPCastTo mce Ity_I32 v),
     ([Iop_CmpwNEZ64],
        \<lambda>mce _ v _. mkPCastTo mce Ity_I64 v),
     ([Iop_CmpNEZ64x2, Iop_CipherSV128, Iop_Clz64x2, Iop_Abs64x2],
        \<lambda>mce _ v _. mkPCast64x2 mce v),
     ([Iop_PwBitMtxXpose64x2],
        \<lambda>mce op v _. assignNew CHR ''V'' mce Ity_V128 (Iex_Unop op v)),
     ([Iop_NarrowUn16to8x8, Iop_NarrowUn32to16x4, Iop_NarrowUn64to32x2, Iop_QNarrowUn16Sto8Sx8,
      Iop_QNarrowUn16Sto8Ux8, Iop_QNarrowUn16Uto8Ux8, Iop_QNarrowUn32Sto16Sx4, Iop_QNarrowUn32Sto16Ux4,
      Iop_QNarrowUn32Uto16Ux4, Iop_QNarrowUn64Sto32Sx2, Iop_QNarrowUn64Sto32Ux2,
      Iop_QNarrowUn64Uto32Ux2, Iop_F32toF16x4],
        \<lambda>mce op v _. vectorNarrowUnV128 mce op v)]"

definition expr2vbits_Unop_cases_3 :: "(IROp list \<times> unop_rule) list" where
  "expr2vbits_Unop_cases_3 = [
     ([Iop_Widen8Sto16x8, Iop_Widen8Uto16x8, Iop_Widen16Sto32x4, Iop_Widen16Uto32x4, Iop_Widen32Sto64x2,
      Iop_Widen32Uto64x2, Iop_F16toF32x4],
        \<lambda>mce op v _. vectorWidenI64 mce op v),
     ([Iop_PwAddL32Ux2, Iop_PwAddL32Sx2],
        \<lambda>mce op v _. do { (t1, mce) \<leftarrow> mkPCast32x2 mce v;
            (t2, mce) \<leftarrow> assignNew CHR ''V'' mce Ity_I64 (Iex_Unop op t1);
            mkPCastTo mce Ity_I64 t2 }),
     ([Iop_PwAddL16Ux4, Iop_PwAddL16Sx4],
        \<lambda>mce op v _. do { (t1, mce) \<leftarrow> mkPCast16x4 mce v;
            (t2, mce) \<leftarrow> assignNew CHR ''V'' mce Ity_I64 (Iex_Unop op t1);
            mkPCast32x2 mce t2 }),
     ([Iop_PwAddL8Ux8, Iop_PwAddL8Sx8],
        \<lambda>mce op v _. do { (t1, mce) \<leftarrow> mkPCast8x8 mce v;
            (t2, mce) \<leftarrow> assignNew CHR ''V'' mce Ity_I64 (Iex_Unop op t1);
            mkPCast16x4 mce t2 }),
     ([Iop_PwAddL32Ux4, Iop_PwAddL32Sx4],
        \<lambda>mce op v _. do { (t1, mce) \<leftarrow> mkPCast32x4 mce v;
            (t2, mce) \<leftarrow> assignNew CHR ''V'' mce Ity_V128 (Iex_Unop op t1);
            mkPCast64x2 mce t2 }),
     ([Iop_PwAddL16Ux8, Iop_PwAddL16Sx8],
        \<lambda>mce op v _. do { (t1, mce) \<leftarrow> mkPCast16x8 mce v;
            (t2, mce) \<leftarrow> assignNew CHR ''V'' mce Ity_V128 (Iex_Unop op t1);
            mkPCast32x4 mce t2 }),
     ([Iop_PwAddL8Ux16, Iop_PwAddL8Sx16],
        \<lambda>mce op v _. do { (t1, mce) \<leftarrow> mkPCast8x16 mce v;
            (t2, mce) \<leftarrow> assignNew CHR ''V'' mce Ity_V128 (Iex_Unop op t1);
            mkPCast16x8 mce t2 })]"

definition expr2vbits_Unop_cases :: "(IROp list \<times> unop_rule) list" where
  "expr2vbits_Unop_cases =
     expr2vbits_Unop_cases_1 @
     expr2vbits_Unop_cases_2 @
     expr2vbits_Unop_cases_3"

definition expr2vbits_Unop_groups :: label_tree where
  "expr2vbits_Unop_groups =
     Below Iop_Cls32x2 (Below Iop_NegF32 (Below Iop_64to8 (Below Iop_8Uto64 (Below Iop_CmpwNEZ32 (Below
     Iop_Clz32 (Below Iop_Clz64 (Group 23) (Group 13)) (Below Iop_Ctz64 (Group 15) (Group 16))) (Below
     Iop_8Uto16 (Below Iop_CmpwNEZ64 (Group 30) (Group 31)) (Below Iop_8Uto32 (Group 19) (Group 18))))
     (Below Iop_8Sto32 (Below Iop_16Uto64 (Below Iop_16Uto32 (Group 17) (Group 18)) (Below Iop_8Sto16
     (Group 17) (Group 19))) (Below Iop_16Sto32 (Below Iop_8Sto64 (Group 18) (Group 17)) (Below
     Iop_16Sto64 (Group 18) (Group 17))))) (Below Iop_64to1 (Below Iop_64to32 (Below Iop_16to8 (Below
     Iop_64to16 (Group 20) (Group 19)) (Below Iop_32to16 (Group 20) (Group 19))) (Below Iop_Not1 (Below
     Iop_128to64 (Group 18) (Group 17)) (Below Iop_32to1 (Group 23) (Group 21)))) (Below Iop_1Sto8 (Below
     Iop_1Uto32 (Below Iop_1Uto8 (Group 22) (Group 20)) (Below Iop_1Uto64 (Group 18) (Group 17))) (Below
     Iop_1Sto64 (Below Iop_1Sto32 (Group 20) (Group 18)) (Below Iop_NegF64 (Group 17) (Group 13))))))
     (Below Iop_CmpNEZ16x4 (Below Iop_RSqrtEst5GoodF64 (Below Iop_F128LOtoF64 (Below Iop_ReinterpF64asI64
     (Below Iop_I32StoF64 (Group 15) (Group 13)) (Below Iop_F128HItoF64 (Group 23) (Group 8))) (Below
     Iop_I32StoF128 (Below Iop_NegF128 (Group 9) (Group 10)) (Below Iop_RndF128 (Group 12) (Group 10))))
     (Below Iop_I32UtoFx2 (Below Iop_F16toF64 (Below Iop_TruncF64asF32 (Group 13) (Group 15)) (Below
     Iop_F16toF32 (Group 13) (Group 15))) (Below Iop_RecipEst32Fx2 (Below Iop_FtoI32Ux2_RZ (Group 5)
     (Group 28)) (Below Iop_CmpNEZ8x8 (Group 5) (Group 24))))) (Below Iop_Abs8x8 (Below Iop_PwAddL32Ux2
     (Below Iop_PwAddL8Ux8 (Below Iop_CmpNEZ32x2 (Group 26) (Group 28)) (Below Iop_PwAddL16Ux4 (Group 38)
     (Group 37))) (Below Iop_PwAddL16Sx4 (Below Iop_PwAddL8Sx8 (Group 36) (Group 38)) (Below
     Iop_PwAddL32Sx2 (Group 37) (Group 36)))) (Below Iop_Clz16x4 (Below Iop_Abs32x2 (Below Iop_Abs16x4
     (Group 24) (Group 26)) (Below Iop_Cnt8x8 (Group 28) (Group 24))) (Below Iop_Cls8x8 (Below
     Iop_Clz32x2 (Group 26) (Group 28)) (Below Iop_Cls16x4 (Group 24) (Group 26))))))) (Below
     Iop_CmpNEZ32x4 (Below Iop_ReinterpI64asD64 (Below Iop_D32toD64 (Below Iop_Ctz32x4 (Below Iop_Ctz8x16
     (Below Iop_Clz64x2 (Group 28) (Group 32)) (Below Iop_Ctz16x8 (Group 25) (Group 27))) (Below
     Iop_GetMSBs8x8 (Below Iop_Dup8x8 (Group 29) (Group 17)) (Below Iop_RecipEst32Ux2 (Group 20) (Group
     5)))) (Below Iop_D128HItoD64 (Below Iop_I32StoD128 (Below Iop_D64toD128 (Group 13) (Group 14))
     (Below Iop_I32StoD64 (Group 12) (Group 13))) (Below Iop_DPBtoBCD (Below Iop_D128LOtoD64 (Group 8)
     (Group 9)) (Below Iop_BCD128toI128S (Group 13) (Group 11))))) (Below Iop_Abs64Fx2 (Below
     Iop_F32toF16x4 (Below Iop_FtoI32Ux4_RZ (Below Iop_Abs32Fx4 (Group 23) (Group 4)) (Below
     Iop_QFtoI32Ux4_RZ (Group 29) (Group 4))) (Below Iop_F64toF16x2 (Below Iop_F16toF32x4 (Group 34)
     (Group 35)) (Below Iop_RecipEst32F0x4 (Group 11) (Group 6)))) (Below Iop_V128to32 (Below
     Iop_V128to64 (Below Iop_Sqrt64F0x2 (Group 0) (Group 1)) (Below Iop_64UtoV128 (Group 17) (Group 7)))
     (Below Iop_CmpNEZ8x16 (Below Iop_NotV128 (Group 18) (Group 23)) (Below Iop_CmpNEZ16x8 (Group 25)
     (Group 27)))))) (Below Iop_Cls8x16 (Below Iop_PwBitMtxXpose64x2 (Below Iop_PwAddL32Ux4 (Below
     Iop_PwAddL8Ux16 (Below Iop_CmpNEZ64x2 (Group 29) (Group 32)) (Below Iop_PwAddL16Ux8 (Group 41)
     (Group 40))) (Below Iop_PwAddL16Sx8 (Below Iop_PwAddL8Sx16 (Group 39) (Group 41)) (Below
     Iop_PwAddL32Sx4 (Group 40) (Group 39)))) (Below Iop_Abs64x2 (Below Iop_Abs16x8 (Below Iop_Abs8x16
     (Group 33) (Group 25)) (Below Iop_Abs32x4 (Group 27) (Group 29))) (Below Iop_Clz16x8 (Below
     Iop_Cnt8x16 (Group 32) (Group 25)) (Below Iop_Clz32x4 (Group 27) (Group 29))))) (Below
     Iop_RSqrtEst32Ux4 (Below Iop_Widen8Uto16x8 (Below Iop_Cls32x4 (Below Iop_Cls16x8 (Group 25) (Group
     27)) (Below Iop_NarrowUn16to8x8 (Group 29) (Group 34))) (Below Iop_GetMSBs8x16 (Below Iop_Dup8x16
     (Group 35) (Group 7)) (Below Iop_RecipEst32Ux4 (Group 19) (Group 4)))) (Below Iop_NotV256 (Below
     Iop_V256to64_0 (Below Iop_MulI128by10 (Group 29) (Group 11)) (Below Iop_V256toV128_0 (Group 17)
     (Group 7))) (Below Iop_Sqrt32Fx8 (Below Iop_CipherSV128 (Group 23) (Group 32)) (Below Iop_Sqrt64Fx4
     (Group 2) (Below Iop_RSqrtEst32Fx8 (Group 3) (Group 2))))))))"

definition expr2vbits_Unop :: "MCEnv \<Rightarrow> IROp \<Rightarrow> IRExpr \<Rightarrow> emitted" where
  "expr2vbits_Unop mce op atom = do {
     (vatom, mce) \<leftarrow> atom2vbits mce atom;
     assert_that (isOriginalAtom mce atom);
     rule \<leftarrow> switch expr2vbits_Unop_cases op;
     rule mce op vatom atom
   }"

section \<open>If-then-else\<close>

definition expr2vbits_ITE :: "MCEnv \<Rightarrow> IRExpr \<Rightarrow> IRExpr \<Rightarrow> IRExpr \<Rightarrow> emitted" where
  "expr2vbits_ITE mce cond iftrue iffalse = do {
     assert_that (isOriginalAtom mce cond);
     assert_that (isOriginalAtom mce iftrue);
     assert_that (isOriginalAtom mce iffalse);
     (vbitsC, mce) \<leftarrow> atom2vbits mce cond;
     (vbitsT, mce) \<leftarrow> atom2vbits mce iftrue;
     (vbitsF, mce) \<leftarrow> atom2vbits mce iffalse;
     ty \<leftarrow> typeOfIRExpr (sb_tyenv mce) vbitsT;
     (i, mce) \<leftarrow> assignNew CHR ''V'' mce ty (Iex_ITE cond vbitsT vbitsF);
     (p, mce) \<leftarrow> mkPCastTo mce ty vbitsC;
     mkUifU mce ty i p
   }"

end
