(* ===== verification/TntTyping.thy ===== *)
theory TntTyping
  imports TntExpr
begin

text \<open>
  The type discipline of the instrumenter. \<open>typed G m ty\<close> states that an emitter \<open>m\<close>, started in
  any well-formed environment where the atoms of \<open>G\<close> have the kinds and types given there, does
  not fail, adds only statements that write new temporaries, keeps the environment well-formed
  and returns a shadow atom of type \<open>ty\<close>. Each emitter has one rule in \<open>typed_rules\<close>.
\<close>

section \<open>Growth of a superblock\<close>

text \<open>The map of temporaries has an entry per temporary, and the shadow of an original one is a
  shadow temporary of the shadow type.\<close>

definition shadow_ok :: "MCEnv \<Rightarrow> IRTemp \<Rightarrow> IRTemp \<Rightarrow> bool" where
  "shadow_ok mce t s \<longleftrightarrow> tempKind mce s = Some VSh \<and> shadowTypeV (sb_tyenv mce ! t) = Some (sb_tyenv mce ! s)"

definition mce_ok :: "MCEnv \<Rightarrow> bool" where
  "mce_ok mce \<longleftrightarrow> length (tmpMap mce) = length (sb_tyenv mce) \<and>
     (\<forall>t s. t < length (tmpMap mce) \<longrightarrow> tm_shadowV (tmpMap mce ! t) = Some s \<longrightarrow> shadow_ok mce t s)"

fun writes_from :: "nat \<Rightarrow> IRStmt \<Rightarrow> bool" where
  "writes_from n (Ist_WrTmp t e) = (n \<le> t)"
| "writes_from n _ = False"

text \<open>\<open>grows mce mce'\<close>: only statements that write new temporaries have been added.\<close>

definition grows :: "MCEnv \<Rightarrow> MCEnv \<Rightarrow> bool" where
  "grows mce mce' \<longleftrightarrow>
     (\<exists>tys. sb_tyenv mce' = sb_tyenv mce @ tys) \<and>
     (\<exists>sts. sb_stmts mce' = sb_stmts mce @ sts \<and> list_all (writes_from (length (sb_tyenv mce))) sts) \<and>
     (\<exists>ks. map tm_kind (tmpMap mce') = map tm_kind (tmpMap mce) @ ks) \<and>
     (\<forall>t s. t < length (tmpMap mce) \<longrightarrow> tm_shadowV (tmpMap mce ! t) = Some s \<longrightarrow> tm_shadowV (tmpMap mce' ! t) = Some s) \<and>
     bogusLiterals mce' = bogusLiterals mce \<and> useLLVMworkarounds mce' = useLLVMworkarounds mce \<and>
     mc_layout mce' = mc_layout mce \<and> hWordTy mce' = hWordTy mce"

lemma grows_refl [simp]: "grows mce mce"
  by (simp add: grows_def)

lemma writes_from_mono: "writes_from n st \<Longrightarrow> m \<le> n \<Longrightarrow> writes_from m st"
  by (cases st) auto

lemma grows_trans:
  assumes "grows m1 m2" "grows m2 m3"
  shows "grows m1 m3"
proof -
  from assms obtain ty1 st1 e1 ty2 st2 e2
    where "sb_tyenv m2 = sb_tyenv m1 @ ty1" "sb_tyenv m3 = sb_tyenv m2 @ ty2"
      "sb_stmts m2 = sb_stmts m1 @ st1" "list_all (writes_from (length (sb_tyenv m1))) st1"
      "sb_stmts m3 = sb_stmts m2 @ st2" "list_all (writes_from (length (sb_tyenv m2))) st2"
      "map tm_kind (tmpMap m2) = map tm_kind (tmpMap m1) @ e1" "map tm_kind (tmpMap m3) = map tm_kind (tmpMap m2) @ e2"
    unfolding grows_def by (elim exE conjE) (rule that)
  moreover from this have "list_all (writes_from (length (sb_tyenv m1))) st2"
    by (auto simp: list_all_iff intro: writes_from_mono)
  moreover have "length (tmpMap m1) \<le> length (tmpMap m2)"
    using arg_cong [OF \<open>map tm_kind (tmpMap m2) = _\<close>, of length] by simp
  ultimately show ?thesis using assms unfolding grows_def by (auto dest: less_le_trans)
qed

lemma tempKind_grows: "grows mce mce' \<Longrightarrow> tempKind mce t = Some k \<Longrightarrow> tempKind mce' t = Some k"
proof -
  assume "grows mce mce'" and k: "tempKind mce t = Some k"
  then obtain ks where ks: "map tm_kind (tmpMap mce') = map tm_kind (tmpMap mce) @ ks"
    unfolding grows_def by blast
  have t: "t < length (tmpMap mce)" using k by (simp add: tempKind_def split: if_splits)
  moreover have "t < length (tmpMap mce')" using t arg_cong [OF ks, of length] by simp
  moreover have "tm_kind (tmpMap mce' ! t) = tm_kind (tmpMap mce ! t)"
    using arg_cong [OF ks, of "\<lambda>xs. xs ! t"] calculation by (simp add: nth_append)
  ultimately show ?thesis using k by (simp add: tempKind_def)
qed

section \<open>Typed atoms\<close>

definition kinded :: "MCEnv \<Rightarrow> TempKind \<Rightarrow> IRExpr \<Rightarrow> bool" where
  "kinded mce k a = (case a of Iex_RdTmp t \<Rightarrow> tempKind mce t = Some k | Iex_Const _ \<Rightarrow> True | _ \<Rightarrow> False)"

lemma isShadowAtom_kinded: "isShadowAtom mce a = kinded mce VSh a"
  by (cases a) (auto simp: kinded_def)

lemma isOriginalAtom_kinded: "isOriginalAtom mce a = kinded mce Orig a"
  by (cases a) (auto simp: kinded_def)

type_synonym typed_atom = "TempKind \<times> IRExpr \<times> IRType"

definition tatom :: "MCEnv \<Rightarrow> typed_atom \<Rightarrow> bool" where
  "tatom mce = (\<lambda>(k, a, ty). kinded mce k a \<and> typeOfIRExpr (sb_tyenv mce) a = Some ty)"

lemma tatom_grows: "grows mce mce' \<Longrightarrow> tatom mce x \<Longrightarrow> tatom mce' x"
  using tempKind_grows [of mce mce']
  by (auto simp: grows_def tatom_def kinded_def typeOfIRTemp_def nth_append split: IRExpr.splits if_splits)

definition tctx :: "typed_atom set \<Rightarrow> MCEnv \<Rightarrow> bool" where
  "tctx G mce \<longleftrightarrow> mce_ok mce \<and> (\<forall>x \<in> G. tatom mce x)"

lemma tctx_kinded: "tctx G mce \<Longrightarrow> (k, a, ty) \<in> G \<Longrightarrow> kinded mce k a"
  by (auto simp: tctx_def tatom_def)

lemma tctx_type: "tctx G mce \<Longrightarrow> (k, a, ty) \<in> G \<Longrightarrow> typeOfIRExpr (sb_tyenv mce) a = Some ty"
  by (auto simp: tctx_def tatom_def)

section \<open>Typed emission\<close>

type_synonym emitter = "MCEnv \<Rightarrow> (IRExpr \<times> MCEnv) option"

definition typed :: "typed_atom set \<Rightarrow> emitter \<Rightarrow> IRType \<Rightarrow> bool" where
  "typed G m ty \<longleftrightarrow> (\<forall>mce. tctx G mce \<longrightarrow>
     (\<exists>r mce'. m mce = Some (r, mce') \<and> grows mce mce' \<and> mce_ok mce' \<and> tatom mce' (VSh, r, ty)))"

lemma typed_bind:
  assumes "typed G m ty"
    and "\<And>r. typed (insert (VSh, r, ty) G) (\<lambda>mce. k r mce) ty'"
  shows "typed G (\<lambda>mce. Option.bind (m mce) (\<lambda>(r, mce). k r mce)) ty'"
  unfolding typed_def
proof (intro allI impI)
  fix mce assume ctx: "tctx G mce"
  obtain r mce1 where 1: "m mce = Some (r, mce1)" "grows mce mce1" "mce_ok mce1" "tatom mce1 (VSh, r, ty)"
    using assms(1) ctx unfolding typed_def by blast
  have "tctx (insert (VSh, r, ty) G) mce1"
    using ctx 1 by (auto simp: tctx_def dest: tatom_grows)
  then obtain r' mce2 where 2: "k r mce1 = Some (r', mce2)" "grows mce1 mce2" "mce_ok mce2" "tatom mce2 (VSh, r', ty')"
    using assms(2) unfolding typed_def by blast
  show "\<exists>r mce'. Option.bind (m mce) (\<lambda>(r, mce). k r mce) = Some (r, mce') \<and>
      grows mce mce' \<and> mce_ok mce' \<and> tatom mce' (VSh, r, ty')"
    using 1 2 grows_trans by auto
qed

lemma typed_pure_bind:
  assumes "\<And>mce. tctx G mce \<Longrightarrow> f mce = Some x" "typed G (\<lambda>mce. k x mce) ty"
  shows "typed G (\<lambda>mce. Option.bind (f mce) (\<lambda>x. k x mce)) ty"
  using assms by (auto simp: typed_def)

lemma typed_assert:
  assumes "\<And>mce. tctx G mce \<Longrightarrow> b mce" "typed G m ty"
  shows "typed G (\<lambda>mce. Option.bind (assert_that (b mce)) (\<lambda>_. m mce)) ty"
  using assms by (auto simp: typed_def)

lemma typed_if:
  assumes "typed G m ty" "typed G m' ty"
  shows "typed G (\<lambda>mce. if b mce then m mce else m' mce) ty"
  using assms by (auto simp: typed_def)

lemma typed_cond:
  assumes "b \<Longrightarrow> typed G m ty" "\<not> b \<Longrightarrow> typed G m' ty"
  shows "typed G (\<lambda>mce. if b then m mce else m' mce) ty"
  using assms by (cases b) auto

lemma typed_return: "(VSh, a, ty) \<in> G \<Longrightarrow> typed G (\<lambda>mce. Some (a, mce)) ty"
  by (auto simp: typed_def tctx_def)

lemma assignNew_ok:
  assumes ok: "mce_ok mce" and ty: "typeOfIRExpr (sb_tyenv mce) e = Some ty"
  obtains mce' where "assignNew CHR ''V'' mce ty e = Some (Iex_RdTmp (length (sb_tyenv mce)), mce')" "grows mce mce'" "mce_ok mce'"
    "tatom mce' (VSh, Iex_RdTmp (length (sb_tyenv mce)), ty)"
    "sb_stmts mce' = sb_stmts mce @ [Ist_WrTmp (length (sb_tyenv mce)) e]"
proof -
  have len: "length (tmpMap mce) = length (sb_tyenv mce)" using ok by (simp add: mce_ok_def)
  let ?t = "length (sb_tyenv mce)"
  let ?mce' = "mce\<lparr>sb_tyenv := sb_tyenv mce @ [ty], tmpMap := tmpMap mce @ [\<lparr>tm_kind = VSh, tm_shadowV = None\<rparr>],
      sb_stmts := sb_stmts mce @ [Ist_WrTmp ?t e]\<rparr>"
  have "assignNew CHR ''V'' mce ty e = Some (Iex_RdTmp ?t, ?mce')"
    using ty len by (simp add: assignNew_def newTemp_def assign_def stmt_def)
  moreover have "grows mce ?mce'" by (simp add: grows_def nth_append)
  moreover have "tatom ?mce' (VSh, Iex_RdTmp ?t, ty)"
    using len by (simp add: tatom_def kinded_def tempKind_def typeOfIRTemp_def nth_append)
  moreover have "mce_ok ?mce'"
    using ok len by (auto simp: mce_ok_def shadow_ok_def tempKind_def nth_append less_Suc_eq split: if_splits)
  moreover have "sb_stmts ?mce' = sb_stmts mce @ [Ist_WrTmp ?t e]" by simp
  ultimately show thesis using that by blast
qed

lemma typed_assignNew:
  assumes "\<And>mce. tctx G mce \<Longrightarrow> typeOfIRExpr (sb_tyenv mce) e = Some ty"
  shows "typed G (\<lambda>mce. assignNew CHR ''V'' mce ty e) ty"
  unfolding typed_def
proof (intro allI impI)
  fix mce assume ctx: "tctx G mce"
  then have ok: "mce_ok mce" by (simp add: tctx_def)
  show "\<exists>r mce'. assignNew CHR ''V'' mce ty e = Some (r, mce') \<and> grows mce mce' \<and> mce_ok mce' \<and> tatom mce' (VSh, r, ty)"
    by (rule assignNew_ok [OF ok assms [OF ctx]]) blast
qed

lemma tctx_shadow: "tctx G mce \<Longrightarrow> (VSh, a, ty) \<in> G \<Longrightarrow> isShadowAtom mce a"
  by (simp add: isShadowAtom_kinded tctx_kinded)

lemma tctx_original: "tctx G mce \<Longrightarrow> (Orig, a, ty) \<in> G \<Longrightarrow> isOriginalAtom mce a"
  by (simp add: isOriginalAtom_kinded tctx_kinded)

lemma type_of_op:
  "map_option fst (typeOfPrimop op) = Some ty \<Longrightarrow> typeOfIRExpr env (Iex_Unop op a) = Some ty"
  "map_option fst (typeOfPrimop op) = Some ty \<Longrightarrow> typeOfIRExpr env (Iex_Binop op a b) = Some ty"
  "map_option fst (typeOfPrimop op) = Some ty \<Longrightarrow> typeOfIRExpr env (Iex_Triop op a b c) = Some ty"
  "map_option fst (typeOfPrimop op) = Some ty \<Longrightarrow> typeOfIRExpr env (Iex_Qop op a b c d) = Some ty"
  "typeOfIRConst k = ty \<Longrightarrow> typeOfIRExpr env (Iex_Const k) = Some ty"
  "typeOfIRExpr env f = Some ty \<Longrightarrow> typeOfIRExpr env (Iex_ITE c t f) = Some ty"
  by simp_all

lemmas typed_steps = typed_assert typed_bind typed_assignNew typed_return typed_pure_bind insertI1 insertI2 type_of_op
lemmas typed_elims = tctx_shadow tctx_original tctx_type

named_theorems typed_rules \<open>the type of the atom an emitter returns\<close>

lemma typed_mkDifD8 [typed_rules]:
  "(VSh, a, Ity_I8) \<in> G \<Longrightarrow> (VSh, b, Ity_I8) \<in> G \<Longrightarrow> typed G (\<lambda>mce. mkDifD8 mce a b) Ity_I8"
  unfolding mkDifD8_def
  by ((rule typed_rules typed_steps | erule typed_elims | assumption | simp add: prim_type_defs)+)

lemma typed_mkUifU8 [typed_rules]:
  "(VSh, a, Ity_I8) \<in> G \<Longrightarrow> (VSh, b, Ity_I8) \<in> G \<Longrightarrow> typed G (\<lambda>mce. mkUifU8 mce a b) Ity_I8"
  unfolding mkUifU8_def
  by ((rule typed_rules typed_steps | erule typed_elims | assumption | simp add: prim_type_defs)+)

lemma typed_mkDifD16 [typed_rules]:
  "(VSh, a, Ity_I16) \<in> G \<Longrightarrow> (VSh, b, Ity_I16) \<in> G \<Longrightarrow> typed G (\<lambda>mce. mkDifD16 mce a b) Ity_I16"
  unfolding mkDifD16_def
  by ((rule typed_rules typed_steps | erule typed_elims | assumption | simp add: prim_type_defs)+)

lemma typed_mkUifU16 [typed_rules]:
  "(VSh, a, Ity_I16) \<in> G \<Longrightarrow> (VSh, b, Ity_I16) \<in> G \<Longrightarrow> typed G (\<lambda>mce. mkUifU16 mce a b) Ity_I16"
  unfolding mkUifU16_def
  by ((rule typed_rules typed_steps | erule typed_elims | assumption | simp add: prim_type_defs)+)

lemma typed_mkDifD32 [typed_rules]:
  "(VSh, a, Ity_I32) \<in> G \<Longrightarrow> (VSh, b, Ity_I32) \<in> G \<Longrightarrow> typed G (\<lambda>mce. mkDifD32 mce a b) Ity_I32"
  unfolding mkDifD32_def
  by ((rule typed_rules typed_steps | erule typed_elims | assumption | simp add: prim_type_defs)+)

lemma typed_mkUifU32 [typed_rules]:
  "(VSh, a, Ity_I32) \<in> G \<Longrightarrow> (VSh, b, Ity_I32) \<in> G \<Longrightarrow> typed G (\<lambda>mce. mkUifU32 mce a b) Ity_I32"
  unfolding mkUifU32_def
  by ((rule typed_rules typed_steps | erule typed_elims | assumption | simp add: prim_type_defs)+)

lemma typed_mkDifD64 [typed_rules]:
  "(VSh, a, Ity_I64) \<in> G \<Longrightarrow> (VSh, b, Ity_I64) \<in> G \<Longrightarrow> typed G (\<lambda>mce. mkDifD64 mce a b) Ity_I64"
  unfolding mkDifD64_def
  by ((rule typed_rules typed_steps | erule typed_elims | assumption | simp add: prim_type_defs)+)

lemma typed_mkUifU64 [typed_rules]:
  "(VSh, a, Ity_I64) \<in> G \<Longrightarrow> (VSh, b, Ity_I64) \<in> G \<Longrightarrow> typed G (\<lambda>mce. mkUifU64 mce a b) Ity_I64"
  unfolding mkUifU64_def
  by ((rule typed_rules typed_steps | erule typed_elims | assumption | simp add: prim_type_defs)+)

lemma typed_mkDifDV128 [typed_rules]:
  "(VSh, a, Ity_V128) \<in> G \<Longrightarrow> (VSh, b, Ity_V128) \<in> G \<Longrightarrow> typed G (\<lambda>mce. mkDifDV128 mce a b) Ity_V128"
  unfolding mkDifDV128_def
  by ((rule typed_rules typed_steps | erule typed_elims | assumption | simp add: prim_type_defs)+)

lemma typed_mkUifUV128 [typed_rules]:
  "(VSh, a, Ity_V128) \<in> G \<Longrightarrow> (VSh, b, Ity_V128) \<in> G \<Longrightarrow> typed G (\<lambda>mce. mkUifUV128 mce a b) Ity_V128"
  unfolding mkUifUV128_def
  by ((rule typed_rules typed_steps | erule typed_elims | assumption | simp add: prim_type_defs)+)

lemma typed_mkDifDV256 [typed_rules]:
  "(VSh, a, Ity_V256) \<in> G \<Longrightarrow> (VSh, b, Ity_V256) \<in> G \<Longrightarrow> typed G (\<lambda>mce. mkDifDV256 mce a b) Ity_V256"
  unfolding mkDifDV256_def
  by ((rule typed_rules typed_steps | erule typed_elims | assumption | simp add: prim_type_defs)+)

lemma typed_mkUifUV256 [typed_rules]:
  "(VSh, a, Ity_V256) \<in> G \<Longrightarrow> (VSh, b, Ity_V256) \<in> G \<Longrightarrow> typed G (\<lambda>mce. mkUifUV256 mce a b) Ity_V256"
  unfolding mkUifUV256_def
  by ((rule typed_rules typed_steps | erule typed_elims | assumption | simp add: prim_type_defs)+)

lemma typed_mkImproveAND8 [typed_rules]:
  "(Orig, d, Ity_I8) \<in> G \<Longrightarrow> (VSh, v, Ity_I8) \<in> G \<Longrightarrow> sameKindedAtoms d v \<Longrightarrow> typed G (\<lambda>mce. mkImproveAND8 mce d v) Ity_I8"
  unfolding mkImproveAND8_def
  by ((rule typed_rules typed_steps | erule typed_elims | assumption | simp add: prim_type_defs)+)

lemma typed_mkImproveOR8 [typed_rules]:
  "(Orig, d, Ity_I8) \<in> G \<Longrightarrow> (VSh, v, Ity_I8) \<in> G \<Longrightarrow> sameKindedAtoms d v \<Longrightarrow> typed G (\<lambda>mce. mkImproveOR8 mce d v) Ity_I8"
  unfolding mkImproveOR8_def
  by ((rule typed_rules typed_steps | erule typed_elims | assumption | simp add: prim_type_defs)+)

lemma typed_mkImproveAND16 [typed_rules]:
  "(Orig, d, Ity_I16) \<in> G \<Longrightarrow> (VSh, v, Ity_I16) \<in> G \<Longrightarrow> sameKindedAtoms d v \<Longrightarrow> typed G (\<lambda>mce. mkImproveAND16 mce d v) Ity_I16"
  unfolding mkImproveAND16_def
  by ((rule typed_rules typed_steps | erule typed_elims | assumption | simp add: prim_type_defs)+)

lemma typed_mkImproveOR16 [typed_rules]:
  "(Orig, d, Ity_I16) \<in> G \<Longrightarrow> (VSh, v, Ity_I16) \<in> G \<Longrightarrow> sameKindedAtoms d v \<Longrightarrow> typed G (\<lambda>mce. mkImproveOR16 mce d v) Ity_I16"
  unfolding mkImproveOR16_def
  by ((rule typed_rules typed_steps | erule typed_elims | assumption | simp add: prim_type_defs)+)

lemma typed_mkImproveAND32 [typed_rules]:
  "(Orig, d, Ity_I32) \<in> G \<Longrightarrow> (VSh, v, Ity_I32) \<in> G \<Longrightarrow> sameKindedAtoms d v \<Longrightarrow> typed G (\<lambda>mce. mkImproveAND32 mce d v) Ity_I32"
  unfolding mkImproveAND32_def
  by ((rule typed_rules typed_steps | erule typed_elims | assumption | simp add: prim_type_defs)+)

lemma typed_mkImproveOR32 [typed_rules]:
  "(Orig, d, Ity_I32) \<in> G \<Longrightarrow> (VSh, v, Ity_I32) \<in> G \<Longrightarrow> sameKindedAtoms d v \<Longrightarrow> typed G (\<lambda>mce. mkImproveOR32 mce d v) Ity_I32"
  unfolding mkImproveOR32_def
  by ((rule typed_rules typed_steps | erule typed_elims | assumption | simp add: prim_type_defs)+)

lemma typed_mkImproveAND64 [typed_rules]:
  "(Orig, d, Ity_I64) \<in> G \<Longrightarrow> (VSh, v, Ity_I64) \<in> G \<Longrightarrow> sameKindedAtoms d v \<Longrightarrow> typed G (\<lambda>mce. mkImproveAND64 mce d v) Ity_I64"
  unfolding mkImproveAND64_def
  by ((rule typed_rules typed_steps | erule typed_elims | assumption | simp add: prim_type_defs)+)

lemma typed_mkImproveOR64 [typed_rules]:
  "(Orig, d, Ity_I64) \<in> G \<Longrightarrow> (VSh, v, Ity_I64) \<in> G \<Longrightarrow> sameKindedAtoms d v \<Longrightarrow> typed G (\<lambda>mce. mkImproveOR64 mce d v) Ity_I64"
  unfolding mkImproveOR64_def
  by ((rule typed_rules typed_steps | erule typed_elims | assumption | simp add: prim_type_defs)+)

lemma typed_mkImproveANDV128 [typed_rules]:
  "(Orig, d, Ity_V128) \<in> G \<Longrightarrow> (VSh, v, Ity_V128) \<in> G \<Longrightarrow> sameKindedAtoms d v \<Longrightarrow> typed G (\<lambda>mce. mkImproveANDV128 mce d v) Ity_V128"
  unfolding mkImproveANDV128_def
  by ((rule typed_rules typed_steps | erule typed_elims | assumption | simp add: prim_type_defs)+)

lemma typed_mkImproveORV128 [typed_rules]:
  "(Orig, d, Ity_V128) \<in> G \<Longrightarrow> (VSh, v, Ity_V128) \<in> G \<Longrightarrow> sameKindedAtoms d v \<Longrightarrow> typed G (\<lambda>mce. mkImproveORV128 mce d v) Ity_V128"
  unfolding mkImproveORV128_def
  by ((rule typed_rules typed_steps | erule typed_elims | assumption | simp add: prim_type_defs)+)

lemma typed_mkImproveANDV256 [typed_rules]:
  "(Orig, d, Ity_V256) \<in> G \<Longrightarrow> (VSh, v, Ity_V256) \<in> G \<Longrightarrow> sameKindedAtoms d v \<Longrightarrow> typed G (\<lambda>mce. mkImproveANDV256 mce d v) Ity_V256"
  unfolding mkImproveANDV256_def
  by ((rule typed_rules typed_steps | erule typed_elims | assumption | simp add: prim_type_defs)+)

lemma typed_mkImproveORV256 [typed_rules]:
  "(Orig, d, Ity_V256) \<in> G \<Longrightarrow> (VSh, v, Ity_V256) \<in> G \<Longrightarrow> sameKindedAtoms d v \<Longrightarrow> typed G (\<lambda>mce. mkImproveORV256 mce d v) Ity_V256"
  unfolding mkImproveORV256_def
  by ((rule typed_rules typed_steps | erule typed_elims | assumption | simp add: prim_type_defs)+)

lemma typed_mkLeft8 [typed_rules]:
  "(VSh, a, Ity_I8) \<in> G \<Longrightarrow> typed G (\<lambda>mce. mkLeft8 mce a) Ity_I8"
  unfolding mkLeft8_def
  by ((rule typed_rules typed_steps | erule typed_elims | assumption | simp add: prim_type_defs)+)

lemma typed_mkLeft16 [typed_rules]:
  "(VSh, a, Ity_I16) \<in> G \<Longrightarrow> typed G (\<lambda>mce. mkLeft16 mce a) Ity_I16"
  unfolding mkLeft16_def
  by ((rule typed_rules typed_steps | erule typed_elims | assumption | simp add: prim_type_defs)+)

lemma typed_mkLeft32 [typed_rules]:
  "(VSh, a, Ity_I32) \<in> G \<Longrightarrow> typed G (\<lambda>mce. mkLeft32 mce a) Ity_I32"
  unfolding mkLeft32_def
  by ((rule typed_rules typed_steps | erule typed_elims | assumption | simp add: prim_type_defs)+)

lemma typed_mkLeft64 [typed_rules]:
  "(VSh, a, Ity_I64) \<in> G \<Longrightarrow> typed G (\<lambda>mce. mkLeft64 mce a) Ity_I64"
  unfolding mkLeft64_def
  by ((rule typed_rules typed_steps | erule typed_elims | assumption | simp add: prim_type_defs)+)

lemma typed_mkUifU [typed_rules]:
  "ty \<in> {Ity_I8, Ity_I16, Ity_I32, Ity_I64, Ity_V128, Ity_V256} \<Longrightarrow> (VSh, a, ty) \<in> G \<Longrightarrow> (VSh, b, ty) \<in> G \<Longrightarrow>
    typed G (\<lambda>mce. mkUifU mce ty a b) ty"
  by (auto simp: mkUifU_def intro: typed_rules)

text \<open>The types a cast starts from and those it can produce.\<close>

definition cast_types :: "IRType set" where
  "cast_types = {Ity_I1, Ity_I8, Ity_I16, Ity_I32, Ity_I64, Ity_I128, Ity_V128, Ity_V256}"

lemma typed_pcast_collapse [typed_rules]:
  "ty \<in> cast_types \<Longrightarrow> (VSh, v, ty) \<in> G \<Longrightarrow> typed G (\<lambda>mce. pcast_collapse mce ty v) Ity_I1"
  unfolding cast_types_def pcast_collapse_def
  by (elim insertE emptyE; simp; (rule typed_steps | erule typed_elims | assumption | simp add: prim_type_defs)+)

lemma typed_pcast_widen [typed_rules]:
  "ty \<in> cast_types \<Longrightarrow> (VSh, v, Ity_I1) \<in> G \<Longrightarrow> typed G (\<lambda>mce. pcast_widen mce ty v) ty"
  unfolding cast_types_def pcast_widen_def
  by (elim insertE emptyE; simp; (rule typed_steps | erule typed_elims | assumption | simp add: prim_type_defs)+)

lemma typed_mkPCastTo [typed_rules]:
  "(VSh, v, ty') \<in> G \<Longrightarrow> ty \<in> cast_types \<Longrightarrow> ty' \<in> cast_types \<Longrightarrow> typed G (\<lambda>mce. mkPCastTo mce ty v) ty"
  unfolding mkPCastTo_def
  by (rule typed_assert, erule tctx_shadow, assumption, rule typed_pure_bind, erule tctx_type, assumption,
      intro typed_cond; (elim conjE, hypsubst)?;
      (rule typed_rules typed_steps | erule typed_elims | assumption | simp add: prim_type_defs)+)

lemma typed_mkPCast8x16 [typed_rules]:
  "(VSh, a, Ity_V128) \<in> G \<Longrightarrow> typed G (\<lambda>mce. mkPCast8x16 mce a) Ity_V128"
  unfolding mkPCast8x16_def
  by ((rule typed_rules typed_steps | erule typed_elims | assumption | simp add: prim_type_defs)+)

lemma typed_mkPCast16x8 [typed_rules]:
  "(VSh, a, Ity_V128) \<in> G \<Longrightarrow> typed G (\<lambda>mce. mkPCast16x8 mce a) Ity_V128"
  unfolding mkPCast16x8_def
  by ((rule typed_rules typed_steps | erule typed_elims | assumption | simp add: prim_type_defs)+)

lemma typed_mkPCast32x4 [typed_rules]:
  "(VSh, a, Ity_V128) \<in> G \<Longrightarrow> typed G (\<lambda>mce. mkPCast32x4 mce a) Ity_V128"
  unfolding mkPCast32x4_def
  by ((rule typed_rules typed_steps | erule typed_elims | assumption | simp add: prim_type_defs)+)

lemma typed_mkPCast64x2 [typed_rules]:
  "(VSh, a, Ity_V128) \<in> G \<Longrightarrow> typed G (\<lambda>mce. mkPCast64x2 mce a) Ity_V128"
  unfolding mkPCast64x2_def
  by ((rule typed_rules typed_steps | erule typed_elims | assumption | simp add: prim_type_defs)+)

lemma typed_mkPCast64x4 [typed_rules]:
  "(VSh, a, Ity_V256) \<in> G \<Longrightarrow> typed G (\<lambda>mce. mkPCast64x4 mce a) Ity_V256"
  unfolding mkPCast64x4_def
  by ((rule typed_rules typed_steps | erule typed_elims | assumption | simp add: prim_type_defs)+)

lemma typed_mkPCast32x8 [typed_rules]:
  "(VSh, a, Ity_V256) \<in> G \<Longrightarrow> typed G (\<lambda>mce. mkPCast32x8 mce a) Ity_V256"
  unfolding mkPCast32x8_def
  by ((rule typed_rules typed_steps | erule typed_elims | assumption | simp add: prim_type_defs)+)

lemma typed_mkPCast32x2 [typed_rules]:
  "(VSh, a, Ity_I64) \<in> G \<Longrightarrow> typed G (\<lambda>mce. mkPCast32x2 mce a) Ity_I64"
  unfolding mkPCast32x2_def
  by ((rule typed_rules typed_steps | erule typed_elims | assumption | simp add: prim_type_defs)+)

lemma typed_mkPCast16x16 [typed_rules]:
  "(VSh, a, Ity_V256) \<in> G \<Longrightarrow> typed G (\<lambda>mce. mkPCast16x16 mce a) Ity_V256"
  unfolding mkPCast16x16_def
  by ((rule typed_rules typed_steps | erule typed_elims | assumption | simp add: prim_type_defs)+)

lemma typed_mkPCast16x4 [typed_rules]:
  "(VSh, a, Ity_I64) \<in> G \<Longrightarrow> typed G (\<lambda>mce. mkPCast16x4 mce a) Ity_I64"
  unfolding mkPCast16x4_def
  by ((rule typed_rules typed_steps | erule typed_elims | assumption | simp add: prim_type_defs)+)

lemma typed_mkPCast8x32 [typed_rules]:
  "(VSh, a, Ity_V256) \<in> G \<Longrightarrow> typed G (\<lambda>mce. mkPCast8x32 mce a) Ity_V256"
  unfolding mkPCast8x32_def
  by ((rule typed_rules typed_steps | erule typed_elims | assumption | simp add: prim_type_defs)+)

lemma typed_mkPCast8x8 [typed_rules]:
  "(VSh, a, Ity_I64) \<in> G \<Longrightarrow> typed G (\<lambda>mce. mkPCast8x8 mce a) Ity_I64"
  unfolding mkPCast8x8_def
  by ((rule typed_rules typed_steps | erule typed_elims | assumption | simp add: prim_type_defs)+)

lemma typed_mkPCast16x2 [typed_rules]:
  "(VSh, a, Ity_I32) \<in> G \<Longrightarrow> typed G (\<lambda>mce. mkPCast16x2 mce a) Ity_I32"
  unfolding mkPCast16x2_def
  by ((rule typed_rules typed_steps | erule typed_elims | assumption | simp add: prim_type_defs)+)

lemma typed_mkPCast8x4 [typed_rules]:
  "(VSh, a, Ity_I32) \<in> G \<Longrightarrow> typed G (\<lambda>mce. mkPCast8x4 mce a) Ity_I32"
  unfolding mkPCast8x4_def
  by ((rule typed_rules typed_steps | erule typed_elims | assumption | simp add: prim_type_defs)+)

lemma cast_types_simps [simp]: "Ity_I1 \<in> cast_types" "Ity_I8 \<in> cast_types" "Ity_I16 \<in> cast_types"
  "Ity_I32 \<in> cast_types" "Ity_I64 \<in> cast_types" "Ity_I128 \<in> cast_types" "Ity_V128 \<in> cast_types" "Ity_V256 \<in> cast_types"
  by (simp_all add: cast_types_def)

lemma typed_mkPCastXXtoXXlsb [typed_rules]:
  "(VSh, v, ty') \<in> G \<Longrightarrow> ty' \<in> cast_types \<Longrightarrow> ty \<in> {Ity_V128, Ity_I64} \<Longrightarrow> typed G (\<lambda>mce. mkPCastXXtoXXlsb mce v ty) ty"
  unfolding mkPCastXXtoXXlsb_def
  by (elim insertE emptyE; hypsubst; simp; (rule typed_rules typed_steps | erule typed_elims | assumption | simp add: prim_type_defs)+)

lemma typed_expensiveCmpEQorNE [typed_rules]:
  "ty \<in> {Ity_I16, Ity_I32, Ity_I64} \<Longrightarrow> (VSh, qa, ty) \<in> G \<Longrightarrow> (VSh, qb, ty) \<in> G \<Longrightarrow> (Orig, a, ty) \<in> G \<Longrightarrow> (Orig, b, ty) \<in> G \<Longrightarrow> sameKindedAtoms qa a \<Longrightarrow> sameKindedAtoms qb b \<Longrightarrow> typed G (\<lambda>mce. expensiveCmpEQorNE mce ty qa qb a b) Ity_I1"
  unfolding expensiveCmpEQorNE_def cmp_ops_def
  by (elim insertE emptyE; hypsubst; simp; (rule typed_rules typed_steps | erule typed_elims | assumption | simp add: prim_type_defs)+)

lemma typed_expensiveAddSub [typed_rules]:
  "ty \<in> {Ity_I32, Ity_I64} \<Longrightarrow> (VSh, qa, ty) \<in> G \<Longrightarrow> (VSh, qb, ty) \<in> G \<Longrightarrow> (Orig, a, ty) \<in> G \<Longrightarrow> (Orig, b, ty) \<in> G \<Longrightarrow> sameKindedAtoms qa a \<Longrightarrow> sameKindedAtoms qb b \<Longrightarrow> typed G (\<lambda>mce. expensiveAddSub mce add ty qa qb a b) ty"
  unfolding expensiveAddSub_def addsub_ops_def
  by (elim insertE emptyE; hypsubst; cases add; simp; (rule typed_rules typed_steps | erule typed_elims | assumption | simp add: prim_type_defs)+)

lemma typed_scalarShift [typed_rules]:
  "ty \<in> {Ity_I8, Ity_I16, Ity_I32, Ity_I64} \<Longrightarrow> (VSh, qa, ty) \<in> G \<Longrightarrow> (VSh, qb, Ity_I8) \<in> G \<Longrightarrow> (Orig, a, ty) \<in> G \<Longrightarrow> (Orig, b, Ity_I8) \<in> G \<Longrightarrow> sameKindedAtoms qa a \<Longrightarrow> sameKindedAtoms qb b \<Longrightarrow> map_option fst (typeOfPrimop op) = Some ty \<Longrightarrow> typed G (\<lambda>mce. scalarShift mce ty op qa qb a b) ty"
  unfolding scalarShift_def
  by (elim insertE emptyE; hypsubst; (rule typed_rules typed_steps | erule typed_elims | assumption | simp)+)

lemma typed_expensiveCTZ [typed_rules]:
  "(czop, ty) \<in> {(Iop_Ctz32, Ity_I32), (Iop_Ctz64, Ity_I64)} \<Longrightarrow> (Orig, a, ty) \<in> G \<Longrightarrow> (VSh, v, ty) \<in> G \<Longrightarrow> sameKindedAtoms a v \<Longrightarrow> typed G (\<lambda>mce. expensiveCountTrailingZeroes mce czop a v) ty"
  unfolding expensiveCountTrailingZeroes_def
  by (elim insertE emptyE Pair_inject; hypsubst; simp; (rule typed_rules typed_steps | erule typed_elims | assumption | simp add: prim_type_defs)+)

lemma typed_mkLazy2 [typed_rules]:
  "(VSh, v1, t1) \<in> G \<Longrightarrow> (VSh, v2, t2) \<in> G \<Longrightarrow> t1 \<in> cast_types \<Longrightarrow> t2 \<in> cast_types \<Longrightarrow> ty \<in> cast_types \<Longrightarrow> typed G (\<lambda>mce. mkLazy2 mce ty v1 v2) ty"
  unfolding mkLazy2_def
  by (rule typed_pure_bind, erule tctx_type, assumption, rule typed_pure_bind, erule tctx_type, assumption, rule typed_assert, erule tctx_shadow, assumption, rule typed_assert, erule tctx_shadow, assumption,
      intro typed_cond; (elim conjE, hypsubst)?; (rule typed_rules typed_steps | erule typed_elims | assumption | simp)+)

lemma typed_mkLazy3 [typed_rules]:
  "(VSh, v1, t1) \<in> G \<Longrightarrow> (VSh, v2, t2) \<in> G \<Longrightarrow> (VSh, v3, t3) \<in> G \<Longrightarrow> (t1, t2, t3, ty) \<in> {(Ity_I32, Ity_I64, Ity_I64, Ity_I64),
    (Ity_I32, Ity_I8, Ity_I64, Ity_I64),
    (Ity_I32, Ity_I64, Ity_I64, Ity_I32),
    (Ity_I32, Ity_I32, Ity_I32, Ity_I32),
    (Ity_I32, Ity_I8, Ity_I128, Ity_I128)} \<Longrightarrow> typed G (\<lambda>mce. mkLazy3 mce ty v1 v2 v3) ty"
  unfolding mkLazy3_def
  by (elim insertE emptyE Pair_inject; hypsubst; (rule typed_rules typed_steps | erule typed_elims | assumption | simp)+)

lemma typed_mkLazy4 [typed_rules]:
  "(VSh, v1, t1) \<in> G \<Longrightarrow> (VSh, v2, t2) \<in> G \<Longrightarrow> (VSh, v3, t3) \<in> G \<Longrightarrow> (VSh, v4, t4) \<in> G \<Longrightarrow> (t1, t2, t3, t4, ty) \<in> {(Ity_I32, Ity_I64, Ity_I64, Ity_I64, Ity_I64),
    (Ity_I32, Ity_I32, Ity_I32, Ity_I32, Ity_I32)} \<Longrightarrow> typed G (\<lambda>mce. mkLazy4 mce ty v1 v2 v3 v4) ty"
  unfolding mkLazy4_def
  by (elim insertE emptyE Pair_inject; hypsubst; (rule typed_rules typed_steps | erule typed_elims | assumption | simp)+)

lemma typed_binary32Fx4 [typed_rules]:
  "(VSh, a, Ity_V128) \<in> G \<Longrightarrow> (VSh, b, Ity_V128) \<in> G \<Longrightarrow> typed G (\<lambda>mce. binary32Fx4 mce a b) Ity_V128"
  unfolding binary32Fx4_def
  by ((rule typed_rules typed_steps | erule typed_elims | assumption | simp add: prim_type_defs cast_types_def)+)

lemma typed_unary32Fx4 [typed_rules]:
  "(VSh, a, Ity_V128) \<in> G \<Longrightarrow> typed G (\<lambda>mce. unary32Fx4 mce a) Ity_V128"
  unfolding unary32Fx4_def
  by ((rule typed_rules typed_steps | erule typed_elims | assumption | simp add: prim_type_defs cast_types_def)+)

lemma typed_binary32F0x4 [typed_rules]:
  "(VSh, a, Ity_V128) \<in> G \<Longrightarrow> (VSh, b, Ity_V128) \<in> G \<Longrightarrow> typed G (\<lambda>mce. binary32F0x4 mce a b) Ity_V128"
  unfolding binary32F0x4_def
  by ((rule typed_rules typed_steps | erule typed_elims | assumption | simp add: prim_type_defs cast_types_def)+)

lemma typed_unary32F0x4 [typed_rules]:
  "(VSh, a, Ity_V128) \<in> G \<Longrightarrow> typed G (\<lambda>mce. unary32F0x4 mce a) Ity_V128"
  unfolding unary32F0x4_def
  by ((rule typed_rules typed_steps | erule typed_elims | assumption | simp add: prim_type_defs cast_types_def)+)

lemma typed_binary64Fx2 [typed_rules]:
  "(VSh, a, Ity_V128) \<in> G \<Longrightarrow> (VSh, b, Ity_V128) \<in> G \<Longrightarrow> typed G (\<lambda>mce. binary64Fx2 mce a b) Ity_V128"
  unfolding binary64Fx2_def
  by ((rule typed_rules typed_steps | erule typed_elims | assumption | simp add: prim_type_defs cast_types_def)+)

lemma typed_unary64Fx2 [typed_rules]:
  "(VSh, a, Ity_V128) \<in> G \<Longrightarrow> typed G (\<lambda>mce. unary64Fx2 mce a) Ity_V128"
  unfolding unary64Fx2_def
  by ((rule typed_rules typed_steps | erule typed_elims | assumption | simp add: prim_type_defs cast_types_def)+)

lemma typed_binary64F0x2 [typed_rules]:
  "(VSh, a, Ity_V128) \<in> G \<Longrightarrow> (VSh, b, Ity_V128) \<in> G \<Longrightarrow> typed G (\<lambda>mce. binary64F0x2 mce a b) Ity_V128"
  unfolding binary64F0x2_def
  by ((rule typed_rules typed_steps | erule typed_elims | assumption | simp add: prim_type_defs cast_types_def)+)

lemma typed_unary64F0x2 [typed_rules]:
  "(VSh, a, Ity_V128) \<in> G \<Longrightarrow> typed G (\<lambda>mce. unary64F0x2 mce a) Ity_V128"
  unfolding unary64F0x2_def
  by ((rule typed_rules typed_steps | erule typed_elims | assumption | simp add: prim_type_defs cast_types_def)+)

lemma typed_binary32Fx2 [typed_rules]:
  "(VSh, a, Ity_I64) \<in> G \<Longrightarrow> (VSh, b, Ity_I64) \<in> G \<Longrightarrow> typed G (\<lambda>mce. binary32Fx2 mce a b) Ity_I64"
  unfolding binary32Fx2_def
  by ((rule typed_rules typed_steps | erule typed_elims | assumption | simp add: prim_type_defs cast_types_def)+)

lemma typed_unary32Fx2 [typed_rules]:
  "(VSh, a, Ity_I64) \<in> G \<Longrightarrow> typed G (\<lambda>mce. unary32Fx2 mce a) Ity_I64"
  unfolding unary32Fx2_def
  by ((rule typed_rules typed_steps | erule typed_elims | assumption | simp add: prim_type_defs cast_types_def)+)

lemma typed_binary64Fx4 [typed_rules]:
  "(VSh, a, Ity_V256) \<in> G \<Longrightarrow> (VSh, b, Ity_V256) \<in> G \<Longrightarrow> typed G (\<lambda>mce. binary64Fx4 mce a b) Ity_V256"
  unfolding binary64Fx4_def
  by ((rule typed_rules typed_steps | erule typed_elims | assumption | simp add: prim_type_defs cast_types_def)+)

lemma typed_unary64Fx4 [typed_rules]:
  "(VSh, a, Ity_V256) \<in> G \<Longrightarrow> typed G (\<lambda>mce. unary64Fx4 mce a) Ity_V256"
  unfolding unary64Fx4_def
  by ((rule typed_rules typed_steps | erule typed_elims | assumption | simp add: prim_type_defs cast_types_def)+)

lemma typed_binary32Fx8 [typed_rules]:
  "(VSh, a, Ity_V256) \<in> G \<Longrightarrow> (VSh, b, Ity_V256) \<in> G \<Longrightarrow> typed G (\<lambda>mce. binary32Fx8 mce a b) Ity_V256"
  unfolding binary32Fx8_def
  by ((rule typed_rules typed_steps | erule typed_elims | assumption | simp add: prim_type_defs cast_types_def)+)

lemma typed_unary32Fx8 [typed_rules]:
  "(VSh, a, Ity_V256) \<in> G \<Longrightarrow> typed G (\<lambda>mce. unary32Fx8 mce a) Ity_V256"
  unfolding unary32Fx8_def
  by ((rule typed_rules typed_steps | erule typed_elims | assumption | simp add: prim_type_defs cast_types_def)+)

lemma typed_binary64Fx2_w_rm [typed_rules]:
  "(VSh, rm, Ity_I32) \<in> G \<Longrightarrow> (VSh, a, Ity_V128) \<in> G \<Longrightarrow> (VSh, b, Ity_V128) \<in> G \<Longrightarrow> typed G (\<lambda>mce. binary64Fx2_w_rm mce rm a b) Ity_V128"
  unfolding binary64Fx2_w_rm_def
  by ((rule typed_rules typed_steps | erule typed_elims | assumption | simp add: prim_type_defs cast_types_def)+)

lemma typed_binary32Fx4_w_rm [typed_rules]:
  "(VSh, rm, Ity_I32) \<in> G \<Longrightarrow> (VSh, a, Ity_V128) \<in> G \<Longrightarrow> (VSh, b, Ity_V128) \<in> G \<Longrightarrow> typed G (\<lambda>mce. binary32Fx4_w_rm mce rm a b) Ity_V128"
  unfolding binary32Fx4_w_rm_def
  by ((rule typed_rules typed_steps | erule typed_elims | assumption | simp add: prim_type_defs cast_types_def)+)

lemma typed_binary64Fx4_w_rm [typed_rules]:
  "(VSh, rm, Ity_I32) \<in> G \<Longrightarrow> (VSh, a, Ity_V256) \<in> G \<Longrightarrow> (VSh, b, Ity_V256) \<in> G \<Longrightarrow> typed G (\<lambda>mce. binary64Fx4_w_rm mce rm a b) Ity_V256"
  unfolding binary64Fx4_w_rm_def
  by ((rule typed_rules typed_steps | erule typed_elims | assumption | simp add: prim_type_defs cast_types_def)+)

lemma typed_binary32Fx8_w_rm [typed_rules]:
  "(VSh, rm, Ity_I32) \<in> G \<Longrightarrow> (VSh, a, Ity_V256) \<in> G \<Longrightarrow> (VSh, b, Ity_V256) \<in> G \<Longrightarrow> typed G (\<lambda>mce. binary32Fx8_w_rm mce rm a b) Ity_V256"
  unfolding binary32Fx8_w_rm_def
  by ((rule typed_rules typed_steps | erule typed_elims | assumption | simp add: prim_type_defs cast_types_def)+)

lemma typed_unary64Fx2_w_rm [typed_rules]:
  "(VSh, rm, Ity_I32) \<in> G \<Longrightarrow> (VSh, a, Ity_V128) \<in> G \<Longrightarrow> typed G (\<lambda>mce. unary64Fx2_w_rm mce rm a) Ity_V128"
  unfolding unary64Fx2_w_rm_def
  by ((rule typed_rules typed_steps | erule typed_elims | assumption | simp add: prim_type_defs cast_types_def)+)

lemma typed_unary32Fx4_w_rm [typed_rules]:
  "(VSh, rm, Ity_I32) \<in> G \<Longrightarrow> (VSh, a, Ity_V128) \<in> G \<Longrightarrow> typed G (\<lambda>mce. unary32Fx4_w_rm mce rm a) Ity_V128"
  unfolding unary32Fx4_w_rm_def
  by ((rule typed_rules typed_steps | erule typed_elims | assumption | simp add: prim_type_defs cast_types_def)+)

lemma typed_binary8Ix32 [typed_rules]:
  "(VSh, a, Ity_V256) \<in> G \<Longrightarrow> (VSh, b, Ity_V256) \<in> G \<Longrightarrow> typed G (\<lambda>mce. binary8Ix32 mce a b) Ity_V256"
  unfolding binary8Ix32_def
  by ((rule typed_rules typed_steps | erule typed_elims | assumption | simp add: prim_type_defs cast_types_def)+)

lemma typed_binary16Ix16 [typed_rules]:
  "(VSh, a, Ity_V256) \<in> G \<Longrightarrow> (VSh, b, Ity_V256) \<in> G \<Longrightarrow> typed G (\<lambda>mce. binary16Ix16 mce a b) Ity_V256"
  unfolding binary16Ix16_def
  by ((rule typed_rules typed_steps | erule typed_elims | assumption | simp add: prim_type_defs cast_types_def)+)

lemma typed_binary32Ix8 [typed_rules]:
  "(VSh, a, Ity_V256) \<in> G \<Longrightarrow> (VSh, b, Ity_V256) \<in> G \<Longrightarrow> typed G (\<lambda>mce. binary32Ix8 mce a b) Ity_V256"
  unfolding binary32Ix8_def
  by ((rule typed_rules typed_steps | erule typed_elims | assumption | simp add: prim_type_defs cast_types_def)+)

lemma typed_binary64Ix4 [typed_rules]:
  "(VSh, a, Ity_V256) \<in> G \<Longrightarrow> (VSh, b, Ity_V256) \<in> G \<Longrightarrow> typed G (\<lambda>mce. binary64Ix4 mce a b) Ity_V256"
  unfolding binary64Ix4_def
  by ((rule typed_rules typed_steps | erule typed_elims | assumption | simp add: prim_type_defs cast_types_def)+)

lemma typed_binary8Ix16 [typed_rules]:
  "(VSh, a, Ity_V128) \<in> G \<Longrightarrow> (VSh, b, Ity_V128) \<in> G \<Longrightarrow> typed G (\<lambda>mce. binary8Ix16 mce a b) Ity_V128"
  unfolding binary8Ix16_def
  by ((rule typed_rules typed_steps | erule typed_elims | assumption | simp add: prim_type_defs cast_types_def)+)

lemma typed_binary16Ix8 [typed_rules]:
  "(VSh, a, Ity_V128) \<in> G \<Longrightarrow> (VSh, b, Ity_V128) \<in> G \<Longrightarrow> typed G (\<lambda>mce. binary16Ix8 mce a b) Ity_V128"
  unfolding binary16Ix8_def
  by ((rule typed_rules typed_steps | erule typed_elims | assumption | simp add: prim_type_defs cast_types_def)+)

lemma typed_binary32Ix4 [typed_rules]:
  "(VSh, a, Ity_V128) \<in> G \<Longrightarrow> (VSh, b, Ity_V128) \<in> G \<Longrightarrow> typed G (\<lambda>mce. binary32Ix4 mce a b) Ity_V128"
  unfolding binary32Ix4_def
  by ((rule typed_rules typed_steps | erule typed_elims | assumption | simp add: prim_type_defs cast_types_def)+)

lemma typed_binary64Ix2 [typed_rules]:
  "(VSh, a, Ity_V128) \<in> G \<Longrightarrow> (VSh, b, Ity_V128) \<in> G \<Longrightarrow> typed G (\<lambda>mce. binary64Ix2 mce a b) Ity_V128"
  unfolding binary64Ix2_def
  by ((rule typed_rules typed_steps | erule typed_elims | assumption | simp add: prim_type_defs cast_types_def)+)

lemma typed_binary8Ix8 [typed_rules]:
  "(VSh, a, Ity_I64) \<in> G \<Longrightarrow> (VSh, b, Ity_I64) \<in> G \<Longrightarrow> typed G (\<lambda>mce. binary8Ix8 mce a b) Ity_I64"
  unfolding binary8Ix8_def
  by ((rule typed_rules typed_steps | erule typed_elims | assumption | simp add: prim_type_defs cast_types_def)+)

lemma typed_binary16Ix4 [typed_rules]:
  "(VSh, a, Ity_I64) \<in> G \<Longrightarrow> (VSh, b, Ity_I64) \<in> G \<Longrightarrow> typed G (\<lambda>mce. binary16Ix4 mce a b) Ity_I64"
  unfolding binary16Ix4_def
  by ((rule typed_rules typed_steps | erule typed_elims | assumption | simp add: prim_type_defs cast_types_def)+)

lemma typed_binary32Ix2 [typed_rules]:
  "(VSh, a, Ity_I64) \<in> G \<Longrightarrow> (VSh, b, Ity_I64) \<in> G \<Longrightarrow> typed G (\<lambda>mce. binary32Ix2 mce a b) Ity_I64"
  unfolding binary32Ix2_def
  by ((rule typed_rules typed_steps | erule typed_elims | assumption | simp add: prim_type_defs cast_types_def)+)

lemma typed_binary64Ix1 [typed_rules]:
  "(VSh, a, Ity_I64) \<in> G \<Longrightarrow> (VSh, b, Ity_I64) \<in> G \<Longrightarrow> typed G (\<lambda>mce. binary64Ix1 mce a b) Ity_I64"
  unfolding binary64Ix1_def
  by ((rule typed_rules typed_steps | erule typed_elims | assumption | simp add: prim_type_defs cast_types_def)+)

lemma typed_binary8Ix4 [typed_rules]:
  "(VSh, a, Ity_I32) \<in> G \<Longrightarrow> (VSh, b, Ity_I32) \<in> G \<Longrightarrow> typed G (\<lambda>mce. binary8Ix4 mce a b) Ity_I32"
  unfolding binary8Ix4_def
  by ((rule typed_rules typed_steps | erule typed_elims | assumption | simp add: prim_type_defs cast_types_def)+)

lemma typed_binary16Ix2 [typed_rules]:
  "(VSh, a, Ity_I32) \<in> G \<Longrightarrow> (VSh, b, Ity_I32) \<in> G \<Longrightarrow> typed G (\<lambda>mce. binary16Ix2 mce a b) Ity_I32"
  unfolding binary16Ix2_def
  by ((rule typed_rules typed_steps | erule typed_elims | assumption | simp add: prim_type_defs cast_types_def)+)


text \<open>The result of an emitter as an expression that need not be an atom.\<close>

definition typed_expr :: "typed_atom set \<Rightarrow> emitter \<Rightarrow> IRType \<Rightarrow> bool" where
  "typed_expr G m ty \<longleftrightarrow> (\<forall>mce. tctx G mce \<longrightarrow>
     (\<exists>r mce'. m mce = Some (r, mce') \<and> grows mce mce' \<and> mce_ok mce' \<and> typeOfIRExpr (sb_tyenv mce') r = Some ty))"

lemma typed_exprI: "typed G m ty \<Longrightarrow> typed_expr G m ty"
  unfolding typed_def typed_expr_def tatom_def by fastforce

lemma typed_expr_return: "(\<And>mce. tctx G mce \<Longrightarrow> typeOfIRExpr (sb_tyenv mce) e = Some ty) \<Longrightarrow> typed_expr G (\<lambda>mce. Some (e, mce)) ty"
  by (auto simp: typed_expr_def tctx_def)

lemma typed_expr_assert:
  assumes "\<And>mce. tctx G mce \<Longrightarrow> b mce" "typed_expr G m ty"
  shows "typed_expr G (\<lambda>mce. Option.bind (assert_that (b mce)) (\<lambda>_. m mce)) ty"
  using assms by (auto simp: typed_expr_def)

lemma typed_expr_bind:
  assumes "typed G m ty"
    and "\<And>r. typed_expr (insert (VSh, r, ty) G) (\<lambda>mce. k r mce) ty'"
  shows "typed_expr G (\<lambda>mce. Option.bind (m mce) (\<lambda>(r, mce). k r mce)) ty'"
  unfolding typed_expr_def
proof (intro allI impI)
  fix mce assume ctx: "tctx G mce"
  obtain r mce1 where 1: "m mce = Some (r, mce1)" "grows mce mce1" "mce_ok mce1" "tatom mce1 (VSh, r, ty)"
    using assms(1) ctx unfolding typed_def by blast
  have "tctx (insert (VSh, r, ty) G) mce1"
    using ctx 1 by (auto simp: tctx_def dest: tatom_grows)
  then obtain r' mce2 where 2: "k r mce1 = Some (r', mce2)" "grows mce1 mce2" "mce_ok mce2" "typeOfIRExpr (sb_tyenv mce2) r' = Some ty'"
    using assms(2) unfolding typed_expr_def by blast
  show "\<exists>r mce'. Option.bind (m mce) (\<lambda>(r, mce). k r mce) = Some (r, mce') \<and>
      grows mce mce' \<and> mce_ok mce' \<and> typeOfIRExpr (sb_tyenv mce') r = Some ty'"
    using 1 2 grows_trans by auto
qed

lemma atom2vbits_tmp:
  assumes ok: "mce_ok mce" and a: "tatom mce (Orig, Iex_RdTmp t, ty)" and s: "shadowTypeV ty = Some sty"
  shows "\<exists>v mce'. findShadowTmpV mce t = Some (v, mce') \<and> grows mce mce' \<and> mce_ok mce' \<and> tatom mce' (VSh, Iex_RdTmp v, sty)"
proof -
  from a have t: "t < length (tmpMap mce)" "tm_kind (tmpMap mce ! t) = Orig" "sb_tyenv mce ! t = ty" "t < length (sb_tyenv mce)"
    by (auto simp: tatom_def kinded_def tempKind_def typeOfIRTemp_def split: if_splits)
  note len = ok [unfolded mce_ok_def, THEN conjunct1]
  show ?thesis
  proof (cases "tm_shadowV (tmpMap mce ! t)")
    case (Some v)
    then have "shadow_ok mce t v" using ok t by (auto simp: mce_ok_def)
    then have "tatom mce (VSh, Iex_RdTmp v, sty)"
      using len s t by (auto simp: shadow_ok_def tatom_def kinded_def tempKind_def typeOfIRTemp_def split: if_splits)
    then show ?thesis using Some t ok by (simp add: findShadowTmpV_def)
  next
    case None
    let ?v = "length (sb_tyenv mce)"
    let ?mce' = "mce\<lparr>sb_tyenv := sb_tyenv mce @ [sty],
       tmpMap := (tmpMap mce @ [\<lparr>tm_kind = VSh, tm_shadowV = None\<rparr>])[t := (tmpMap mce ! t)\<lparr>tm_shadowV := Some ?v\<rparr>]\<rparr>"
    have "findShadowTmpV mce t = Some (?v, ?mce')"
      using None t s len by (simp add: findShadowTmpV_def newTemp_def typeOfIRTemp_def nth_append list_update_append)
    moreover have "grows mce ?mce'"
      using None t by (simp add: grows_def nth_append list_update_append nth_list_update list_update_same_conv map_update)
    moreover have "tatom ?mce' (VSh, Iex_RdTmp ?v, sty)"
      using t len by (simp add: tatom_def kinded_def tempKind_def typeOfIRTemp_def nth_append list_update_append)
    moreover have "mce_ok ?mce'"
      unfolding mce_ok_def
    proof (intro conjI allI impI)
      fix u w assume u: "u < length (tmpMap ?mce')" and w: "tm_shadowV (tmpMap ?mce' ! u) = Some w"
      show "shadow_ok ?mce' u w"
      proof (cases "u = t")
        case True
        then show ?thesis using w t len s by (simp add: shadow_ok_def tempKind_def nth_append list_update_append nth_list_update)
      next
        case False
        then have "u < length (tmpMap mce)" "tm_shadowV (tmpMap mce ! u) = Some w"
          using u w t len by (auto simp: nth_append list_update_append nth_list_update split: if_splits)
        then have "shadow_ok mce u w" using ok by (simp add: mce_ok_def)
        then show ?thesis using \<open>u < length (tmpMap mce)\<close> len t
          by (auto simp: shadow_ok_def tempKind_def nth_append list_update_append nth_list_update split: if_splits)
      qed
    qed (use len in simp)
    ultimately show ?thesis by blast
  qed
qed

lemma atom2vbits_typed:
  assumes ok: "mce_ok mce" and a: "tatom mce (Orig, a, ty)" and s: "shadowTypeV ty = Some sty"
  shows "\<exists>r mce'. atom2vbits mce a = Some (r, mce') \<and> grows mce mce' \<and> mce_ok mce' \<and> tatom mce' (VSh, r, sty) \<and> sameKindedAtoms a r"
proof (cases a)
  case (Iex_RdTmp t)
  then show ?thesis using atom2vbits_tmp [OF ok a [unfolded Iex_RdTmp] s] by (auto simp: atom2vbits_def)
next
  case (Iex_Const c)
  then show ?thesis using a s ok
    by (cases c) (auto simp: atom2vbits_def tatom_def kinded_def)
qed (use a in \<open>auto simp: tatom_def kinded_def\<close>)



lemma typed_vectorNarrowBinV128 [typed_rules]:
  "op \<in> {Iop_QNarrowBin64Sto32Sx4, Iop_QNarrowBin64Uto32Ux4, Iop_QNarrowBin32Sto16Sx8, Iop_QNarrowBin32Uto16Ux8,
    Iop_QNarrowBin32Sto16Ux8, Iop_QNarrowBin16Sto8Sx16, Iop_QNarrowBin16Uto8Ux16, Iop_QNarrowBin16Sto8Ux16} \<Longrightarrow> (VSh, a, Ity_V128) \<in> G \<Longrightarrow> (VSh, b, Ity_V128) \<in> G \<Longrightarrow> typed G (\<lambda>mce. vectorNarrowBinV128 mce op a b) Ity_V128"
  unfolding vectorNarrowBinV128_def vanillaNarrowingOpOfShape_def
  by (elim insertE emptyE; hypsubst; simp add: switch_simps; (rule typed_rules typed_steps | erule typed_elims | assumption | simp add: prim_type_defs)+)

lemma typed_vectorNarrowBin64 [typed_rules]:
  "op \<in> {Iop_QNarrowBin32Sto16Sx4, Iop_QNarrowBin16Sto8Sx8, Iop_QNarrowBin16Sto8Ux8} \<Longrightarrow> (VSh, a, Ity_I64) \<in> G \<Longrightarrow> (VSh, b, Ity_I64) \<in> G \<Longrightarrow> typed G (\<lambda>mce. vectorNarrowBin64 mce op a b) Ity_I64"
  unfolding vectorNarrowBin64_def vanillaNarrowingOpOfShape_def
  by (elim insertE emptyE; hypsubst; simp add: switch_simps; (rule typed_rules typed_steps | erule typed_elims | assumption | simp add: prim_type_defs)+)

lemma typed_vectorNarrowUnV128 [typed_rules]:
  "op \<in> {Iop_NarrowUn16to8x8, Iop_NarrowUn32to16x4, Iop_NarrowUn64to32x2, Iop_QNarrowUn16Sto8Sx8, Iop_QNarrowUn16Sto8Ux8,
    Iop_QNarrowUn16Uto8Ux8, Iop_QNarrowUn32Sto16Sx4, Iop_QNarrowUn32Sto16Ux4, Iop_QNarrowUn32Uto16Ux4, Iop_QNarrowUn64Sto32Sx2,
    Iop_QNarrowUn64Sto32Ux2, Iop_QNarrowUn64Uto32Ux2} \<Longrightarrow> (VSh, a, Ity_V128) \<in> G \<Longrightarrow> typed G (\<lambda>mce. vectorNarrowUnV128 mce op a) Ity_I64"
  unfolding vectorNarrowUnV128_def vanillaNarrowingOpOfShape_def
  by (elim insertE emptyE; hypsubst; simp add: switch_simps; (rule typed_rules typed_steps | erule typed_elims | assumption | simp add: prim_type_defs)+)

lemma typed_vectorWidenI64 [typed_rules]:
  "op \<in> {Iop_Widen8Uto16x8, Iop_Widen8Sto16x8, Iop_Widen16Uto32x4, Iop_Widen16Sto32x4, Iop_Widen32Uto64x2,
    Iop_Widen32Sto64x2, Iop_F16toF32x4} \<Longrightarrow> (VSh, a, Ity_I64) \<in> G \<Longrightarrow> typed G (\<lambda>mce. vectorWidenI64 mce op a) Ity_V128"
  unfolding vectorWidenI64_def
  by (elim insertE emptyE; hypsubst; simp add: switch_simps; (rule typed_rules typed_steps | erule typed_elims | assumption | simp add: prim_type_defs)+)

lemma typed_cheap_AddSub32 [typed_rules]:
  "(VSh, a, Ity_I32) \<in> G \<Longrightarrow> (VSh, b, Ity_I32) \<in> G \<Longrightarrow> typed G (\<lambda>mce. cheap_AddSub32 mce a b) Ity_I32"
  unfolding cheap_AddSub32_def
  by ((rule typed_rules typed_steps | erule typed_elims | assumption | simp add: prim_type_defs)+)

lemma typed_cheap_cmp32 [typed_rules]:
  "(VSh, a, Ity_I32) \<in> G \<Longrightarrow> (VSh, b, Ity_I32) \<in> G \<Longrightarrow> typed G (\<lambda>mce. cheap_cmp32 mce a b) Ity_I1"
  unfolding cheap_cmp32_def
  by ((rule typed_rules typed_steps | erule typed_elims | assumption | simp add: prim_type_defs)+)

lemma typed_cheap_AddSub64 [typed_rules]:
  "(VSh, a, Ity_I64) \<in> G \<Longrightarrow> (VSh, b, Ity_I64) \<in> G \<Longrightarrow> typed G (\<lambda>mce. cheap_AddSub64 mce a b) Ity_I64"
  unfolding cheap_AddSub64_def
  by ((rule typed_rules typed_steps | erule typed_elims | assumption | simp add: prim_type_defs)+)

lemma typed_cheap_cmp64 [typed_rules]:
  "(VSh, a, Ity_I64) \<in> G \<Longrightarrow> (VSh, b, Ity_I64) \<in> G \<Longrightarrow> typed G (\<lambda>mce. cheap_cmp64 mce a b) Ity_I1"
  unfolding cheap_cmp64_def
  by ((rule typed_rules typed_steps | erule typed_elims | assumption | simp add: prim_type_defs)+)

lemma typed_do_AND8 [typed_rules]:
  "(VSh, v1, Ity_I8) \<in> G \<Longrightarrow> (VSh, v2, Ity_I8) \<in> G \<Longrightarrow> (Orig, a1, Ity_I8) \<in> G \<Longrightarrow> (Orig, a2, Ity_I8) \<in> G \<Longrightarrow> sameKindedAtoms a1 v1 \<Longrightarrow> sameKindedAtoms a2 v2 \<Longrightarrow> typed G (\<lambda>mce. do_And_Or mkUifU8 mkDifD8 Ity_I8 mkImproveAND8 mce v1 v2 a1 a2) Ity_I8"
  unfolding do_And_Or_def
  by ((rule typed_rules typed_steps | erule typed_elims | assumption | simp add: prim_type_defs)+)

lemma typed_do_OR8 [typed_rules]:
  "(VSh, v1, Ity_I8) \<in> G \<Longrightarrow> (VSh, v2, Ity_I8) \<in> G \<Longrightarrow> (Orig, a1, Ity_I8) \<in> G \<Longrightarrow> (Orig, a2, Ity_I8) \<in> G \<Longrightarrow> sameKindedAtoms a1 v1 \<Longrightarrow> sameKindedAtoms a2 v2 \<Longrightarrow> typed G (\<lambda>mce. do_And_Or mkUifU8 mkDifD8 Ity_I8 mkImproveOR8 mce v1 v2 a1 a2) Ity_I8"
  unfolding do_And_Or_def
  by ((rule typed_rules typed_steps | erule typed_elims | assumption | simp add: prim_type_defs)+)

lemma typed_do_AND16 [typed_rules]:
  "(VSh, v1, Ity_I16) \<in> G \<Longrightarrow> (VSh, v2, Ity_I16) \<in> G \<Longrightarrow> (Orig, a1, Ity_I16) \<in> G \<Longrightarrow> (Orig, a2, Ity_I16) \<in> G \<Longrightarrow> sameKindedAtoms a1 v1 \<Longrightarrow> sameKindedAtoms a2 v2 \<Longrightarrow> typed G (\<lambda>mce. do_And_Or mkUifU16 mkDifD16 Ity_I16 mkImproveAND16 mce v1 v2 a1 a2) Ity_I16"
  unfolding do_And_Or_def
  by ((rule typed_rules typed_steps | erule typed_elims | assumption | simp add: prim_type_defs)+)

lemma typed_do_OR16 [typed_rules]:
  "(VSh, v1, Ity_I16) \<in> G \<Longrightarrow> (VSh, v2, Ity_I16) \<in> G \<Longrightarrow> (Orig, a1, Ity_I16) \<in> G \<Longrightarrow> (Orig, a2, Ity_I16) \<in> G \<Longrightarrow> sameKindedAtoms a1 v1 \<Longrightarrow> sameKindedAtoms a2 v2 \<Longrightarrow> typed G (\<lambda>mce. do_And_Or mkUifU16 mkDifD16 Ity_I16 mkImproveOR16 mce v1 v2 a1 a2) Ity_I16"
  unfolding do_And_Or_def
  by ((rule typed_rules typed_steps | erule typed_elims | assumption | simp add: prim_type_defs)+)

lemma typed_do_AND32 [typed_rules]:
  "(VSh, v1, Ity_I32) \<in> G \<Longrightarrow> (VSh, v2, Ity_I32) \<in> G \<Longrightarrow> (Orig, a1, Ity_I32) \<in> G \<Longrightarrow> (Orig, a2, Ity_I32) \<in> G \<Longrightarrow> sameKindedAtoms a1 v1 \<Longrightarrow> sameKindedAtoms a2 v2 \<Longrightarrow> typed G (\<lambda>mce. do_And_Or mkUifU32 mkDifD32 Ity_I32 mkImproveAND32 mce v1 v2 a1 a2) Ity_I32"
  unfolding do_And_Or_def
  by ((rule typed_rules typed_steps | erule typed_elims | assumption | simp add: prim_type_defs)+)

lemma typed_do_OR32 [typed_rules]:
  "(VSh, v1, Ity_I32) \<in> G \<Longrightarrow> (VSh, v2, Ity_I32) \<in> G \<Longrightarrow> (Orig, a1, Ity_I32) \<in> G \<Longrightarrow> (Orig, a2, Ity_I32) \<in> G \<Longrightarrow> sameKindedAtoms a1 v1 \<Longrightarrow> sameKindedAtoms a2 v2 \<Longrightarrow> typed G (\<lambda>mce. do_And_Or mkUifU32 mkDifD32 Ity_I32 mkImproveOR32 mce v1 v2 a1 a2) Ity_I32"
  unfolding do_And_Or_def
  by ((rule typed_rules typed_steps | erule typed_elims | assumption | simp add: prim_type_defs)+)

lemma typed_do_AND64 [typed_rules]:
  "(VSh, v1, Ity_I64) \<in> G \<Longrightarrow> (VSh, v2, Ity_I64) \<in> G \<Longrightarrow> (Orig, a1, Ity_I64) \<in> G \<Longrightarrow> (Orig, a2, Ity_I64) \<in> G \<Longrightarrow> sameKindedAtoms a1 v1 \<Longrightarrow> sameKindedAtoms a2 v2 \<Longrightarrow> typed G (\<lambda>mce. do_And_Or mkUifU64 mkDifD64 Ity_I64 mkImproveAND64 mce v1 v2 a1 a2) Ity_I64"
  unfolding do_And_Or_def
  by ((rule typed_rules typed_steps | erule typed_elims | assumption | simp add: prim_type_defs)+)

lemma typed_do_OR64 [typed_rules]:
  "(VSh, v1, Ity_I64) \<in> G \<Longrightarrow> (VSh, v2, Ity_I64) \<in> G \<Longrightarrow> (Orig, a1, Ity_I64) \<in> G \<Longrightarrow> (Orig, a2, Ity_I64) \<in> G \<Longrightarrow> sameKindedAtoms a1 v1 \<Longrightarrow> sameKindedAtoms a2 v2 \<Longrightarrow> typed G (\<lambda>mce. do_And_Or mkUifU64 mkDifD64 Ity_I64 mkImproveOR64 mce v1 v2 a1 a2) Ity_I64"
  unfolding do_And_Or_def
  by ((rule typed_rules typed_steps | erule typed_elims | assumption | simp add: prim_type_defs)+)

lemma typed_do_ANDV128 [typed_rules]:
  "(VSh, v1, Ity_V128) \<in> G \<Longrightarrow> (VSh, v2, Ity_V128) \<in> G \<Longrightarrow> (Orig, a1, Ity_V128) \<in> G \<Longrightarrow> (Orig, a2, Ity_V128) \<in> G \<Longrightarrow> sameKindedAtoms a1 v1 \<Longrightarrow> sameKindedAtoms a2 v2 \<Longrightarrow> typed G (\<lambda>mce. do_And_Or mkUifUV128 mkDifDV128 Ity_V128 mkImproveANDV128 mce v1 v2 a1 a2) Ity_V128"
  unfolding do_And_Or_def
  by ((rule typed_rules typed_steps | erule typed_elims | assumption | simp add: prim_type_defs)+)

lemma typed_do_ORV128 [typed_rules]:
  "(VSh, v1, Ity_V128) \<in> G \<Longrightarrow> (VSh, v2, Ity_V128) \<in> G \<Longrightarrow> (Orig, a1, Ity_V128) \<in> G \<Longrightarrow> (Orig, a2, Ity_V128) \<in> G \<Longrightarrow> sameKindedAtoms a1 v1 \<Longrightarrow> sameKindedAtoms a2 v2 \<Longrightarrow> typed G (\<lambda>mce. do_And_Or mkUifUV128 mkDifDV128 Ity_V128 mkImproveORV128 mce v1 v2 a1 a2) Ity_V128"
  unfolding do_And_Or_def
  by ((rule typed_rules typed_steps | erule typed_elims | assumption | simp add: prim_type_defs)+)

lemma typed_do_ANDV256 [typed_rules]:
  "(VSh, v1, Ity_V256) \<in> G \<Longrightarrow> (VSh, v2, Ity_V256) \<in> G \<Longrightarrow> (Orig, a1, Ity_V256) \<in> G \<Longrightarrow> (Orig, a2, Ity_V256) \<in> G \<Longrightarrow> sameKindedAtoms a1 v1 \<Longrightarrow> sameKindedAtoms a2 v2 \<Longrightarrow> typed G (\<lambda>mce. do_And_Or mkUifUV256 mkDifDV256 Ity_V256 mkImproveANDV256 mce v1 v2 a1 a2) Ity_V256"
  unfolding do_And_Or_def
  by ((rule typed_rules typed_steps | erule typed_elims | assumption | simp add: prim_type_defs)+)

lemma typed_do_ORV256 [typed_rules]:
  "(VSh, v1, Ity_V256) \<in> G \<Longrightarrow> (VSh, v2, Ity_V256) \<in> G \<Longrightarrow> (Orig, a1, Ity_V256) \<in> G \<Longrightarrow> (Orig, a2, Ity_V256) \<in> G \<Longrightarrow> sameKindedAtoms a1 v1 \<Longrightarrow> sameKindedAtoms a2 v2 \<Longrightarrow> typed G (\<lambda>mce. do_And_Or mkUifUV256 mkDifDV256 Ity_V256 mkImproveORV256 mce v1 v2 a1 a2) Ity_V256"
  unfolding do_And_Or_def
  by ((rule typed_rules typed_steps | erule typed_elims | assumption | simp add: prim_type_defs)+)

lemma typed_qandq_narrow [typed_rules]:
  "op \<in> {Iop_QandQShrNnarrow64Uto32Ux2, Iop_QandQSarNnarrow64Sto32Sx2, Iop_QandQSarNnarrow64Sto32Ux2, 
    Iop_QandQRShrNnarrow64Uto32Ux2, Iop_QandQRSarNnarrow64Sto32Sx2, Iop_QandQRSarNnarrow64Sto32Ux2, 
    Iop_QandQShrNnarrow32Uto16Ux4, Iop_QandQSarNnarrow32Sto16Sx4, Iop_QandQSarNnarrow32Sto16Ux4, 
    Iop_QandQRShrNnarrow32Uto16Ux4, Iop_QandQRSarNnarrow32Sto16Sx4, Iop_QandQRSarNnarrow32Sto16Ux4, 
    Iop_QandQShrNnarrow16Uto8Ux8, Iop_QandQSarNnarrow16Sto8Sx8, Iop_QandQSarNnarrow16Sto8Ux8, 
    Iop_QandQRShrNnarrow16Uto8Ux8, Iop_QandQRSarNnarrow16Sto8Sx8, Iop_QandQRSarNnarrow16Sto8Ux8} \<Longrightarrow> (VSh, v, Ity_V128) \<in> G \<Longrightarrow> typed G (\<lambda>mce. qandq_narrow mce op v) Ity_V128"
  unfolding qandq_narrow_def
  by (elim insertE emptyE; hypsubst; simp add: switch_simps; (rule typed_rules typed_steps | erule typed_elims | assumption | simp add: prim_type_defs)+)

lemma typed_qandq_shift [typed_rules]:
  "op \<in> {Iop_QandSQsh64x2, Iop_QandUQsh64x2, Iop_QandSQRsh64x2, Iop_QandUQRsh64x2, Iop_QandSQsh32x4, 
    Iop_QandUQsh32x4, Iop_QandSQRsh32x4, Iop_QandUQRsh32x4, Iop_QandSQsh16x8, Iop_QandUQsh16x8, 
    Iop_QandSQRsh16x8, Iop_QandUQRsh16x8, Iop_QandSQsh8x16, Iop_QandUQsh8x16, Iop_QandSQRsh8x16, 
    Iop_QandUQRsh8x16} \<Longrightarrow> (VSh, a, Ity_V128) \<in> G \<Longrightarrow> (VSh, b, Ity_V128) \<in> G \<Longrightarrow> typed G (\<lambda>mce. qandq_shift mce op a b) Ity_V256"
  unfolding qandq_shift_def
  by (elim insertE emptyE; hypsubst; simp add: switch_simps; (rule typed_rules typed_steps | erule typed_elims | assumption | simp add: prim_type_defs)+)

text \<open>The three-way comparisons return an operator application, not an atom.\<close>

lemma typed_expr_cond:
  assumes "b \<Longrightarrow> typed_expr G m ty" "\<not> b \<Longrightarrow> typed_expr G m' ty"
  shows "typed_expr G (\<lambda>mce. if b then m mce else m' mce) ty"
  using assms by (cases b) auto

lemmas typed_expr_steps = typed_expr_assert typed_expr_bind typed_expr_cond typed_expr_return

lemma typed_doCmpORD:
  "(op, ty) \<in> {(Iop_CmpORD32S, Ity_I32), (Iop_CmpORD32U, Ity_I32), (Iop_CmpORD64S, Ity_I64), (Iop_CmpORD64U, Ity_I64)} \<Longrightarrow>
    (VSh, v1, ty) \<in> G \<Longrightarrow> (VSh, v2, ty) \<in> G \<Longrightarrow> (Orig, a1, ty) \<in> G \<Longrightarrow> (Orig, a2, ty) \<in> G \<Longrightarrow>
    sameKindedAtoms v1 a1 \<Longrightarrow> sameKindedAtoms v2 a2 \<Longrightarrow>
    (isZeroU32 a2 \<longrightarrow> isZeroU32 v2) \<Longrightarrow> (isZeroU64 a2 \<longrightarrow> isZeroU64 v2) \<Longrightarrow>
    typed_expr G (\<lambda>mce. doCmpORD mce op v1 v2 a1 a2) ty"
  unfolding doCmpORD_def
  by (elim insertE emptyE Pair_inject; hypsubst; simp add: Let_def;
      (rule typed_rules typed_expr_steps typed_steps | erule typed_elims | assumption | simp add: prim_type_defs)+)


end
