(* ===== verification/TntExprTyping.thy ===== *)
theory TntExprTyping
  imports TntTyping
begin

text \<open>
  Every rule of the four switches of \<^verbatim>\<open>taintgrind/tnt_translate.c\<close> against the operator types of
  \<^verbatim>\<open>VEX/priv/ir_defs.c\<close>: the shadow of an operator's result has the shadow type of the result.
  The exceptions are fourteen operators on 128-bit floats and half floats; for those the
  instrumenter stops.
\<close>

section \<open>Well-typed rules\<close>

text \<open>An original atom and the V bits \<open>atom2vbits\<close> gives for it: a constant is defined.\<close>

definition shadows :: "IRExpr \<Rightarrow> IRExpr \<Rightarrow> bool" where
  "shadows a v \<longleftrightarrow> sameKindedAtoms a v \<and> sameKindedAtoms v a \<and> (isZeroU32 a \<longrightarrow> isZeroU32 v) \<and> (isZeroU64 a \<longrightarrow> isZeroU64 v)"

definition binop_typed :: "IROp \<Rightarrow> binop_rule \<Rightarrow> bool" where
  "binop_typed op rule \<longleftrightarrow> (\<exists>ty t1 t2 s s1 s2. typeOfPrimop op = Some (ty, t1, t2, Ity_INVALID, Ity_INVALID) \<and>
     shadowTypeV ty = Some s \<and> shadowTypeV t1 = Some s1 \<and> shadowTypeV t2 = Some s2 \<and>
     (\<forall>G v1 v2 a1 a2. (VSh, v1, s1) \<in> G \<longrightarrow> (VSh, v2, s2) \<in> G \<longrightarrow>
       (Orig, a1, t1) \<in> G \<longrightarrow> (Orig, a2, t2) \<in> G \<longrightarrow> shadows a1 v1 \<longrightarrow> shadows a2 v2 \<longrightarrow>
       typed_expr G (\<lambda>mce. rule mce op v1 v2 a1 a2) s))"

lemma binop_typedI:
  assumes "typeOfPrimop op = Some (ty, t1, t2, Ity_INVALID, Ity_INVALID)" "shadowTypeV ty = Some s" "shadowTypeV t1 = Some s1" "shadowTypeV t2 = Some s2"
    and "\<And>G v1 v2 a1 a2. (VSh, v1, s1) \<in> G \<Longrightarrow> (VSh, v2, s2) \<in> G \<Longrightarrow> (Orig, a1, t1) \<in> G \<Longrightarrow> (Orig, a2, t2) \<in> G \<Longrightarrow> sameKindedAtoms a1 v1 \<Longrightarrow> sameKindedAtoms v1 a1 \<Longrightarrow> isZeroU32 a1 \<longrightarrow> isZeroU32 v1 \<Longrightarrow> isZeroU64 a1 \<longrightarrow> isZeroU64 v1 \<Longrightarrow> sameKindedAtoms a2 v2 \<Longrightarrow> sameKindedAtoms v2 a2 \<Longrightarrow> isZeroU32 a2 \<longrightarrow> isZeroU32 v2 \<Longrightarrow> isZeroU64 a2 \<longrightarrow> isZeroU64 v2 \<Longrightarrow>
      typed_expr G (\<lambda>mce. rule mce op v1 v2 a1 a2) s"
  shows "binop_typed op rule"
  using assms unfolding binop_typed_def shadows_def by blast

definition unop_typed :: "IROp \<Rightarrow> unop_rule \<Rightarrow> bool" where
  "unop_typed op rule \<longleftrightarrow> (\<exists>ty t1 s s1. typeOfPrimop op = Some (ty, t1, Ity_INVALID, Ity_INVALID, Ity_INVALID) \<and>
     shadowTypeV ty = Some s \<and> shadowTypeV t1 = Some s1 \<and>
     (\<forall>G v1 a1. (VSh, v1, s1) \<in> G \<longrightarrow>
       (Orig, a1, t1) \<in> G \<longrightarrow> shadows a1 v1 \<longrightarrow>
       typed_expr G (\<lambda>mce. rule mce op v1 a1) s))"

lemma unop_typedI:
  assumes "typeOfPrimop op = Some (ty, t1, Ity_INVALID, Ity_INVALID, Ity_INVALID)" "shadowTypeV ty = Some s" "shadowTypeV t1 = Some s1"
    and "\<And>G v1 a1. (VSh, v1, s1) \<in> G \<Longrightarrow> (Orig, a1, t1) \<in> G \<Longrightarrow> sameKindedAtoms a1 v1 \<Longrightarrow> sameKindedAtoms v1 a1 \<Longrightarrow> isZeroU32 a1 \<longrightarrow> isZeroU32 v1 \<Longrightarrow> isZeroU64 a1 \<longrightarrow> isZeroU64 v1 \<Longrightarrow>
      typed_expr G (\<lambda>mce. rule mce op v1 a1) s"
  shows "unop_typed op rule"
  using assms unfolding unop_typed_def shadows_def by blast

definition triop_typed :: "IROp \<Rightarrow> triop_rule \<Rightarrow> bool" where
  "triop_typed op rule \<longleftrightarrow> (\<exists>ty t1 t2 t3 s s1 s2 s3. typeOfPrimop op = Some (ty, t1, t2, t3, Ity_INVALID) \<and>
     shadowTypeV ty = Some s \<and> shadowTypeV t1 = Some s1 \<and> shadowTypeV t2 = Some s2 \<and> shadowTypeV t3 = Some s3 \<and>
     (\<forall>G v1 v2 v3 a1 a2 a3. (VSh, v1, s1) \<in> G \<longrightarrow> (VSh, v2, s2) \<in> G \<longrightarrow> (VSh, v3, s3) \<in> G \<longrightarrow>
       (Orig, a1, t1) \<in> G \<longrightarrow> (Orig, a2, t2) \<in> G \<longrightarrow> (Orig, a3, t3) \<in> G \<longrightarrow>
       typed_expr G (\<lambda>mce. rule mce op v1 v2 v3 a1 a2 a3) s))"

lemma triop_typedI:
  assumes "typeOfPrimop op = Some (ty, t1, t2, t3, Ity_INVALID)" "shadowTypeV ty = Some s" "shadowTypeV t1 = Some s1" "shadowTypeV t2 = Some s2" "shadowTypeV t3 = Some s3"
    and "\<And>G v1 v2 v3 a1 a2 a3. (VSh, v1, s1) \<in> G \<Longrightarrow> (VSh, v2, s2) \<in> G \<Longrightarrow> (VSh, v3, s3) \<in> G \<Longrightarrow> (Orig, a1, t1) \<in> G \<Longrightarrow> (Orig, a2, t2) \<in> G \<Longrightarrow> (Orig, a3, t3) \<in> G \<Longrightarrow>
      typed_expr G (\<lambda>mce. rule mce op v1 v2 v3 a1 a2 a3) s"
  shows "triop_typed op rule"
  using assms unfolding triop_typed_def by blast

definition qop_typed :: "IROp \<Rightarrow> qop_rule \<Rightarrow> bool" where
  "qop_typed op rule \<longleftrightarrow> (\<exists>ty t1 t2 t3 t4 s s1 s2 s3 s4. typeOfPrimop op = Some (ty, t1, t2, t3, t4) \<and>
     shadowTypeV ty = Some s \<and> shadowTypeV t1 = Some s1 \<and> shadowTypeV t2 = Some s2 \<and> shadowTypeV t3 = Some s3 \<and> shadowTypeV t4 = Some s4 \<and>
     (\<forall>G v1 v2 v3 v4. (VSh, v1, s1) \<in> G \<longrightarrow> (VSh, v2, s2) \<in> G \<longrightarrow> (VSh, v3, s3) \<in> G \<longrightarrow> (VSh, v4, s4) \<in> G \<longrightarrow>
       typed_expr G (\<lambda>mce. rule mce op v1 v2 v3 v4) s))"

lemma qop_typedI:
  assumes "typeOfPrimop op = Some (ty, t1, t2, t3, t4)" "shadowTypeV ty = Some s" "shadowTypeV t1 = Some s1" "shadowTypeV t2 = Some s2" "shadowTypeV t3 = Some s3" "shadowTypeV t4 = Some s4"
    and "\<And>G v1 v2 v3 v4. (VSh, v1, s1) \<in> G \<Longrightarrow> (VSh, v2, s2) \<in> G \<Longrightarrow> (VSh, v3, s3) \<in> G \<Longrightarrow> (VSh, v4, s4) \<in> G \<Longrightarrow>
      typed_expr G (\<lambda>mce. rule mce op v1 v2 v3 v4) s"
  shows "qop_typed op rule"
  using assms unfolding qop_typed_def by blast

lemma Binop_typed_1: "switch_all binop_typed expr2vbits_Binop_cases_1"
  unfolding expr2vbits_Binop_cases_1_def switch_all_unfold
  by (intro conjI TrueI; rule binop_typedI, simp add: prim_type_defs, simp, simp, simp, (rule typed_doCmpORD | rule typed_exprI); (rule typed_rules typed_steps typed_if | erule typed_elims | assumption | simp add: prim_type_defs)+)

lemma Binop_typed_2: "switch_all binop_typed expr2vbits_Binop_cases_2"
  unfolding expr2vbits_Binop_cases_2_def switch_all_unfold
  by (intro conjI TrueI; rule binop_typedI, simp add: prim_type_defs, simp, simp, simp, (rule typed_doCmpORD | rule typed_exprI); (rule typed_rules typed_steps typed_if | erule typed_elims | assumption | simp add: prim_type_defs)+)

lemma Binop_typed_3: "switch_all binop_typed expr2vbits_Binop_cases_3"
  unfolding expr2vbits_Binop_cases_3_def switch_all_unfold
  by (intro conjI TrueI; rule binop_typedI, simp add: prim_type_defs, simp, simp, simp, (rule typed_doCmpORD | rule typed_exprI); (rule typed_rules typed_steps typed_if | erule typed_elims | assumption | simp add: prim_type_defs)+)

lemma Binop_typed_4: "switch_all binop_typed expr2vbits_Binop_cases_4"
  unfolding expr2vbits_Binop_cases_4_def switch_all_unfold
  by (intro conjI TrueI; rule binop_typedI, simp add: prim_type_defs, simp, simp, simp, (rule typed_doCmpORD | rule typed_exprI); (rule typed_rules typed_steps typed_if | erule typed_elims | assumption | simp add: prim_type_defs)+)

lemma Binop_typed_5: "switch_all binop_typed expr2vbits_Binop_cases_5"
  unfolding expr2vbits_Binop_cases_5_def switch_all_unfold
  by (intro conjI TrueI; rule binop_typedI, simp add: prim_type_defs, simp, simp, simp, (rule typed_doCmpORD | rule typed_exprI); (rule typed_rules typed_steps typed_if | erule typed_elims | assumption | simp add: prim_type_defs)+)

lemma Binop_typed_6: "switch_all binop_typed expr2vbits_Binop_cases_6"
  unfolding expr2vbits_Binop_cases_6_def switch_all_unfold
  by (intro conjI TrueI; rule binop_typedI, simp add: prim_type_defs, simp, simp, simp, (rule typed_doCmpORD | rule typed_exprI); (rule typed_rules typed_steps typed_if | erule typed_elims | assumption | simp add: prim_type_defs)+)

lemma Binop_typed_7: "switch_all binop_typed expr2vbits_Binop_cases_7"
  unfolding expr2vbits_Binop_cases_7_def switch_all_unfold
  by (intro conjI TrueI; rule binop_typedI, simp add: prim_type_defs, simp, simp, simp, (rule typed_doCmpORD | rule typed_exprI); (rule typed_rules typed_steps typed_if | erule typed_elims | assumption | simp add: prim_type_defs)+)

lemma Binop_typed_8: "switch_all binop_typed expr2vbits_Binop_cases_8"
  unfolding expr2vbits_Binop_cases_8_def switch_all_unfold
  by (intro conjI TrueI; rule binop_typedI, simp add: prim_type_defs, simp, simp, simp, (rule typed_doCmpORD | rule typed_exprI); (rule typed_rules typed_steps typed_if | erule typed_elims | assumption | simp add: prim_type_defs)+)

lemma Binop_typed_9: "switch_all binop_typed expr2vbits_Binop_cases_9"
  unfolding expr2vbits_Binop_cases_9_def switch_all_unfold
  by (intro conjI TrueI; rule binop_typedI, simp add: prim_type_defs, simp, simp, simp, (rule typed_doCmpORD | rule typed_exprI); (rule typed_rules typed_steps typed_if | erule typed_elims | assumption | simp add: prim_type_defs)+)

lemma Binop_typed_10: "switch_all binop_typed expr2vbits_Binop_cases_10"
  unfolding expr2vbits_Binop_cases_10_def switch_all_unfold
  by (intro conjI TrueI; rule binop_typedI, simp add: prim_type_defs, simp, simp, simp, (rule typed_doCmpORD | rule typed_exprI); (rule typed_rules typed_steps typed_if | erule typed_elims | assumption | simp add: prim_type_defs)+)

lemma Binop_typed: "switch_all binop_typed expr2vbits_Binop_cases"
  unfolding expr2vbits_Binop_cases_def switch_all_append
  by (intro conjI Binop_typed_1 Binop_typed_2 Binop_typed_3 Binop_typed_4 Binop_typed_5 Binop_typed_6 Binop_typed_7
      Binop_typed_8 Binop_typed_9 Binop_typed_10)

text \<open>The operators whose rule fails, and \<open>RndF128\<close>, a binary operator among the unary ones.\<close>

definition untyped_unops :: "IROp list" where
  "untyped_unops = [Iop_F32toF16x4, Iop_RndF128]"

definition F128_triops :: "IROp list" where
  "F128_triops = [Iop_AddF128, Iop_SubF128, Iop_MulF128, Iop_DivF128, Iop_AddD128, Iop_SubD128, Iop_MulD128,
     Iop_DivD128, Iop_QuantizeD128]"

definition F128_qops :: "IROp list" where
  "F128_qops = [Iop_MAddF128, Iop_MSubF128, Iop_NegMAddF128, Iop_NegMSubF128]"

lemma Unop_typed_1: "switch_all (\<lambda>op rule. op \<in> set untyped_unops \<or> unop_typed op rule) expr2vbits_Unop_cases_1"
  unfolding expr2vbits_Unop_cases_1_def switch_all_unfold untyped_unops_def
  by (intro conjI TrueI; ((rule disjI1, simp; fail) | (rule disjI2, rule unop_typedI, simp add: prim_type_defs, simp, simp, (rule typed_exprI); (rule typed_rules typed_steps typed_if | erule typed_elims | assumption | simp add: prim_type_defs)+)))

lemma Unop_typed_2: "switch_all (\<lambda>op rule. op \<in> set untyped_unops \<or> unop_typed op rule) expr2vbits_Unop_cases_2"
  unfolding expr2vbits_Unop_cases_2_def switch_all_unfold untyped_unops_def
  by (intro conjI TrueI; ((rule disjI1, simp; fail) | (rule disjI2, rule unop_typedI, simp add: prim_type_defs, simp, simp, (rule typed_exprI); (rule typed_rules typed_steps typed_if | erule typed_elims | assumption | simp add: prim_type_defs)+)))

lemma Unop_typed_3: "switch_all (\<lambda>op rule. op \<in> set untyped_unops \<or> unop_typed op rule) expr2vbits_Unop_cases_3"
  unfolding expr2vbits_Unop_cases_3_def switch_all_unfold untyped_unops_def
  by (intro conjI TrueI; ((rule disjI1, simp; fail) | (rule disjI2, rule unop_typedI, simp add: prim_type_defs, simp, simp, (rule typed_exprI); (rule typed_rules typed_steps typed_if | erule typed_elims | assumption | simp add: prim_type_defs)+)))

lemma Unop_typed: "switch_all (\<lambda>op rule. op \<in> set untyped_unops \<or> unop_typed op rule) expr2vbits_Unop_cases"
  unfolding expr2vbits_Unop_cases_def switch_all_append by (intro conjI Unop_typed_1 Unop_typed_2 Unop_typed_3)

lemma Triop_typed: "switch_all (\<lambda>op rule. op \<in> set F128_triops \<or> triop_typed op rule) expr2vbits_Triop_cases"
  unfolding expr2vbits_Triop_cases_def switch_all_unfold F128_triops_def
  by (intro conjI TrueI; ((rule disjI1, simp; fail) | (rule disjI2, rule triop_typedI, simp add: prim_type_defs, simp, simp, simp, simp, (rule typed_exprI); (rule typed_rules typed_steps typed_if | erule typed_elims | assumption | simp add: prim_type_defs)+)))

lemma Qop_typed: "switch_all (\<lambda>op rule. op \<in> set F128_qops \<or> qop_typed op rule) expr2vbits_Qop_cases"
  unfolding expr2vbits_Qop_cases_def switch_all_unfold F128_qops_def
  by (intro conjI TrueI; ((rule disjI1, simp; fail) | (rule disjI2, rule qop_typedI, simp add: prim_type_defs, simp, simp, simp, simp, simp, (rule typed_exprI); (rule typed_rules typed_steps typed_if | erule typed_elims | assumption | simp add: prim_type_defs)+)))


section \<open>Expressions\<close>

lemma atom2vbits_shadows:
  assumes ok: "mce_ok mce" and a: "tatom mce (Orig, a, ty)" and s: "shadowTypeV ty = Some sty"
  obtains r mce' where "atom2vbits mce a = Some (r, mce')" "grows mce mce'" "mce_ok mce'" "tatom mce' (VSh, r, sty)" "shadows a r"
proof -
  obtain r mce' where r: "atom2vbits mce a = Some (r, mce')" "grows mce mce'" "mce_ok mce'" "tatom mce' (VSh, r, sty)" "sameKindedAtoms a r"
    using atom2vbits_typed [OF ok a s] by (elim exE conjE) (rule that)
  have "shadows a r"
  proof (cases a)
    case (Iex_Const c)
    then show ?thesis using r by (cases c) (auto simp: shadows_def atom2vbits_def isZeroU32_def isZeroU64_def)
  next
    case (Iex_RdTmp t)
    then show ?thesis using r by (cases r) (auto simp: shadows_def isZeroU32_def isZeroU64_def)
  qed (use a in \<open>auto simp: tatom_def kinded_def\<close>)
  then show thesis using r that by blast
qed

lemma tatom_isOriginalAtom: "tatom mce (Orig, a, ty) \<Longrightarrow> isOriginalAtom mce a"
  by (simp add: tatom_def isOriginalAtom_kinded)

lemma tatom_isShadowAtom: "tatom mce (VSh, a, ty) \<Longrightarrow> isShadowAtom mce a"
  by (simp add: tatom_def isShadowAtom_kinded)

lemmas tatom_atoms = tatom_isOriginalAtom tatom_isShadowAtom

text \<open>What instrumenting an expression of type \<open>ty\<close> must give.\<close>

definition instrumented :: "MCEnv \<Rightarrow> emitted \<Rightarrow> IRType \<Rightarrow> bool" where
  "instrumented mce res ty \<longleftrightarrow> (\<exists>r mce'. res = Some (r, mce') \<and> grows mce mce' \<and> mce_ok mce' \<and>
     typeOfIRExpr (sb_tyenv mce') r = shadowTypeV ty)"

lemma instrumented_rule:
  assumes "typed_expr G m s" "tctx G mce'" "grows mce mce'" "shadowTypeV ty = Some s"
  shows "instrumented mce (m mce') ty"
  using assms grows_trans unfolding typed_expr_def instrumented_def by fastforce

lemma Unop_args:
  assumes ok: "mce_ok mce" and a: "tatom mce (Orig, a1, t1)"
    and s: "shadowTypeV t1 = Some s1"
  obtains v1 m where "grows mce m" "tctx {(VSh, v1, s1), (Orig, a1, t1)} m" "shadows a1 v1"
    "\<And>rule. switch expr2vbits_Unop_cases op = Some rule \<Longrightarrow> expr2vbits_Unop mce op a1 = rule m op v1 a1"
proof -
  obtain v1 m1 where v1: "atom2vbits mce a1 = Some (v1, m1)" "grows mce m1" "mce_ok m1" "tatom m1 (VSh, v1, s1)" "shadows a1 v1"
    using atom2vbits_shadows [OF ok a s] .
  note g1 = v1(2)
  have ctx: "tctx {(VSh, v1, s1), (Orig, a1, t1)} m1"
    using v1(3,4) tatom_grows [OF g1 a]
    by (simp add: tctx_def)
  show thesis
  proof (rule that [OF g1 ctx v1(5)])
    fix rule assume "switch expr2vbits_Unop_cases op = Some rule"
    then show "expr2vbits_Unop mce op a1 = rule m1 op v1 a1"
      using ctx v1(1,5) by (simp add: expr2vbits_Unop_def tctx_def tatom_def isOriginalAtom_kinded isShadowAtom_kinded shadows_def)
  qed
qed

lemma Unop_instrumented:
  assumes rule: "switch expr2vbits_Unop_cases op = Some rule" "unop_typed op rule"
    and ok: "mce_ok mce" and ty: "typeOfPrimop op = Some (ty, t1, Ity_INVALID, Ity_INVALID, Ity_INVALID)"
    and a: "tatom mce (Orig, a1, t1)"
  shows "instrumented mce (expr2vbits_Unop mce op a1) ty"
proof -
  obtain s s1 where s: "shadowTypeV ty = Some s" "shadowTypeV t1 = Some s1"
    and te: "\<And>G v1 a1. (VSh, v1, s1) \<in> G \<Longrightarrow> (Orig, a1, t1) \<in> G \<Longrightarrow> shadows a1 v1 \<Longrightarrow> typed_expr G (\<lambda>mce. rule mce op v1 a1) s"
    using rule(2) ty unfolding unop_typed_def by auto
  obtain v1 m where m: "grows mce m" "tctx {(VSh, v1, s1), (Orig, a1, t1)} m" "shadows a1 v1"
    "expr2vbits_Unop mce op a1 = rule m op v1 a1"
    using Unop_args [OF ok a s(2)] rule(1) by metis
  have "instrumented mce (rule m op v1 a1) ty"
    by (rule instrumented_rule [OF te m(2,1) s(1)]) (use m in auto)
  then show ?thesis using m by simp
qed

lemma Binop_args:
  assumes ok: "mce_ok mce" and a: "tatom mce (Orig, a1, t1)" "tatom mce (Orig, a2, t2)"
    and s: "shadowTypeV t1 = Some s1" "shadowTypeV t2 = Some s2"
  obtains v1 v2 m where "grows mce m" "tctx {(VSh, v1, s1), (VSh, v2, s2), (Orig, a1, t1), (Orig, a2, t2)} m" "shadows a1 v1" "shadows a2 v2"
    "\<And>rule. switch expr2vbits_Binop_cases op = Some rule \<Longrightarrow> expr2vbits_Binop mce op a1 a2 = rule m op v1 v2 a1 a2"
proof -
  obtain v1 m1 where v1: "atom2vbits mce a1 = Some (v1, m1)" "grows mce m1" "mce_ok m1" "tatom m1 (VSh, v1, s1)" "shadows a1 v1"
    using atom2vbits_shadows [OF ok a(1) s(1)] .
  note g1 = v1(2)
  obtain v2 m2 where v2: "atom2vbits m1 a2 = Some (v2, m2)" "grows m1 m2" "mce_ok m2" "tatom m2 (VSh, v2, s2)" "shadows a2 v2"
    using atom2vbits_shadows [OF v1(3) tatom_grows [OF g1 a(2)] s(2)] .
  note g2 = grows_trans [OF g1 v2(2)]
  have ctx: "tctx {(VSh, v1, s1), (VSh, v2, s2), (Orig, a1, t1), (Orig, a2, t2)} m2"
    using v2(3,4) tatom_grows [OF v2(2) v1(4)]
      tatom_grows [OF g2 a(1)]
      tatom_grows [OF g2 a(2)]
    by (simp add: tctx_def)
  show thesis
  proof (rule that [OF g2 ctx v1(5) v2(5)])
    fix rule assume "switch expr2vbits_Binop_cases op = Some rule"
    then show "expr2vbits_Binop mce op a1 a2 = rule m2 op v1 v2 a1 a2"
      using ctx v1(1,5) v2(1,5) by (simp add: expr2vbits_Binop_def tctx_def tatom_def isOriginalAtom_kinded isShadowAtom_kinded shadows_def)
  qed
qed

lemma Binop_instrumented:
  assumes rule: "switch expr2vbits_Binop_cases op = Some rule" "binop_typed op rule"
    and ok: "mce_ok mce" and ty: "typeOfPrimop op = Some (ty, t1, t2, Ity_INVALID, Ity_INVALID)"
    and a: "tatom mce (Orig, a1, t1)" "tatom mce (Orig, a2, t2)"
  shows "instrumented mce (expr2vbits_Binop mce op a1 a2) ty"
proof -
  obtain s s1 s2 where s: "shadowTypeV ty = Some s" "shadowTypeV t1 = Some s1" "shadowTypeV t2 = Some s2"
    and te: "\<And>G v1 v2 a1 a2. (VSh, v1, s1) \<in> G \<Longrightarrow> (VSh, v2, s2) \<in> G \<Longrightarrow> (Orig, a1, t1) \<in> G \<Longrightarrow> (Orig, a2, t2) \<in> G \<Longrightarrow>
      shadows a1 v1 \<Longrightarrow> shadows a2 v2 \<Longrightarrow> typed_expr G (\<lambda>mce. rule mce op v1 v2 a1 a2) s"
    using rule(2) ty unfolding binop_typed_def by auto
  obtain v1 v2 m where m: "grows mce m" "tctx {(VSh, v1, s1), (VSh, v2, s2), (Orig, a1, t1), (Orig, a2, t2)} m" "shadows a1 v1" "shadows a2 v2"
    "expr2vbits_Binop mce op a1 a2 = rule m op v1 v2 a1 a2"
    using Binop_args [OF ok a s(2,3)] rule(1) by metis
  have "instrumented mce (rule m op v1 v2 a1 a2) ty"
    by (rule instrumented_rule [OF te m(2,1) s(1)]) (use m in auto)
  then show ?thesis using m by simp
qed

lemma Triop_args:
  assumes ok: "mce_ok mce" and a: "tatom mce (Orig, a1, t1)" "tatom mce (Orig, a2, t2)" "tatom mce (Orig, a3, t3)"
    and s: "shadowTypeV t1 = Some s1" "shadowTypeV t2 = Some s2" "shadowTypeV t3 = Some s3"
  obtains v1 v2 v3 m where "grows mce m" "tctx {(VSh, v1, s1), (VSh, v2, s2), (VSh, v3, s3), (Orig, a1, t1), (Orig, a2, t2), (Orig, a3, t3)} m" "shadows a1 v1" "shadows a2 v2" "shadows a3 v3"
    "\<And>rule. switch expr2vbits_Triop_cases op = Some rule \<Longrightarrow> expr2vbits_Triop mce op a1 a2 a3 = rule m op v1 v2 v3 a1 a2 a3"
proof -
  obtain v1 m1 where v1: "atom2vbits mce a1 = Some (v1, m1)" "grows mce m1" "mce_ok m1" "tatom m1 (VSh, v1, s1)" "shadows a1 v1"
    using atom2vbits_shadows [OF ok a(1) s(1)] .
  note g1 = v1(2)
  obtain v2 m2 where v2: "atom2vbits m1 a2 = Some (v2, m2)" "grows m1 m2" "mce_ok m2" "tatom m2 (VSh, v2, s2)" "shadows a2 v2"
    using atom2vbits_shadows [OF v1(3) tatom_grows [OF g1 a(2)] s(2)] .
  note g2 = grows_trans [OF g1 v2(2)]
  obtain v3 m3 where v3: "atom2vbits m2 a3 = Some (v3, m3)" "grows m2 m3" "mce_ok m3" "tatom m3 (VSh, v3, s3)" "shadows a3 v3"
    using atom2vbits_shadows [OF v2(3) tatom_grows [OF g2 a(3)] s(3)] .
  note g3 = grows_trans [OF g2 v3(2)]
  have ctx: "tctx {(VSh, v1, s1), (VSh, v2, s2), (VSh, v3, s3), (Orig, a1, t1), (Orig, a2, t2), (Orig, a3, t3)} m3"
    using v3(3,4) tatom_grows [OF grows_trans [OF v2(2) v3(2)] v1(4)]
      tatom_grows [OF g3 a(1)]
      tatom_grows [OF v3(2) v2(4)]
      tatom_grows [OF g3 a(2)]
      tatom_grows [OF g3 a(3)]
    by (simp add: tctx_def)
  show thesis
  proof (rule that [OF g3 ctx v1(5) v2(5) v3(5)])
    fix rule assume "switch expr2vbits_Triop_cases op = Some rule"
    then show "expr2vbits_Triop mce op a1 a2 a3 = rule m3 op v1 v2 v3 a1 a2 a3"
      using ctx v1(1,5) v2(1,5) v3(1,5) by (simp add: expr2vbits_Triop_def tctx_def tatom_def isOriginalAtom_kinded isShadowAtom_kinded shadows_def)
  qed
qed

lemma Triop_instrumented:
  assumes rule: "switch expr2vbits_Triop_cases op = Some rule" "triop_typed op rule"
    and ok: "mce_ok mce" and ty: "typeOfPrimop op = Some (ty, t1, t2, t3, Ity_INVALID)"
    and a: "tatom mce (Orig, a1, t1)" "tatom mce (Orig, a2, t2)" "tatom mce (Orig, a3, t3)"
  shows "instrumented mce (expr2vbits_Triop mce op a1 a2 a3) ty"
proof -
  obtain s s1 s2 s3 where s: "shadowTypeV ty = Some s" "shadowTypeV t1 = Some s1" "shadowTypeV t2 = Some s2" "shadowTypeV t3 = Some s3"
    and te: "\<And>G v1 v2 v3 a1 a2 a3. (VSh, v1, s1) \<in> G \<Longrightarrow> (VSh, v2, s2) \<in> G \<Longrightarrow> (VSh, v3, s3) \<in> G \<Longrightarrow>
      (Orig, a1, t1) \<in> G \<Longrightarrow> (Orig, a2, t2) \<in> G \<Longrightarrow> (Orig, a3, t3) \<in> G \<Longrightarrow> typed_expr G (\<lambda>mce. rule mce op v1 v2 v3 a1 a2 a3) s"
    using rule(2) ty unfolding triop_typed_def by auto
  obtain v1 v2 v3 m where m: "grows mce m" "tctx {(VSh, v1, s1), (VSh, v2, s2), (VSh, v3, s3), (Orig, a1, t1), (Orig, a2, t2), (Orig, a3, t3)} m" "shadows a1 v1" "shadows a2 v2" "shadows a3 v3"
    "expr2vbits_Triop mce op a1 a2 a3 = rule m op v1 v2 v3 a1 a2 a3"
    using Triop_args [OF ok a s(2,3,4)] rule(1) by metis
  have "instrumented mce (rule m op v1 v2 v3 a1 a2 a3) ty"
    by (rule instrumented_rule [OF te m(2,1) s(1)]) (use m in auto)
  then show ?thesis using m by simp
qed

lemma Qop_args:
  assumes ok: "mce_ok mce" and a: "tatom mce (Orig, a1, t1)" "tatom mce (Orig, a2, t2)" "tatom mce (Orig, a3, t3)" "tatom mce (Orig, a4, t4)"
    and s: "shadowTypeV t1 = Some s1" "shadowTypeV t2 = Some s2" "shadowTypeV t3 = Some s3" "shadowTypeV t4 = Some s4"
  obtains v1 v2 v3 v4 m where "grows mce m" "tctx {(VSh, v1, s1), (VSh, v2, s2), (VSh, v3, s3), (VSh, v4, s4), (Orig, a1, t1), (Orig, a2, t2), (Orig, a3, t3), (Orig, a4, t4)} m" "shadows a1 v1" "shadows a2 v2" "shadows a3 v3" "shadows a4 v4"
    "\<And>rule. switch expr2vbits_Qop_cases op = Some rule \<Longrightarrow> expr2vbits_Qop mce op a1 a2 a3 a4 = rule m op v1 v2 v3 v4"
proof -
  obtain v1 m1 where v1: "atom2vbits mce a1 = Some (v1, m1)" "grows mce m1" "mce_ok m1" "tatom m1 (VSh, v1, s1)" "shadows a1 v1"
    using atom2vbits_shadows [OF ok a(1) s(1)] .
  note g1 = v1(2)
  obtain v2 m2 where v2: "atom2vbits m1 a2 = Some (v2, m2)" "grows m1 m2" "mce_ok m2" "tatom m2 (VSh, v2, s2)" "shadows a2 v2"
    using atom2vbits_shadows [OF v1(3) tatom_grows [OF g1 a(2)] s(2)] .
  note g2 = grows_trans [OF g1 v2(2)]
  obtain v3 m3 where v3: "atom2vbits m2 a3 = Some (v3, m3)" "grows m2 m3" "mce_ok m3" "tatom m3 (VSh, v3, s3)" "shadows a3 v3"
    using atom2vbits_shadows [OF v2(3) tatom_grows [OF g2 a(3)] s(3)] .
  note g3 = grows_trans [OF g2 v3(2)]
  obtain v4 m4 where v4: "atom2vbits m3 a4 = Some (v4, m4)" "grows m3 m4" "mce_ok m4" "tatom m4 (VSh, v4, s4)" "shadows a4 v4"
    using atom2vbits_shadows [OF v3(3) tatom_grows [OF g3 a(4)] s(4)] .
  note g4 = grows_trans [OF g3 v4(2)]
  have ctx: "tctx {(VSh, v1, s1), (VSh, v2, s2), (VSh, v3, s3), (VSh, v4, s4), (Orig, a1, t1), (Orig, a2, t2), (Orig, a3, t3), (Orig, a4, t4)} m4"
    using v4(3,4) tatom_grows [OF grows_trans [OF v2(2) grows_trans [OF v3(2) v4(2)]] v1(4)]
      tatom_grows [OF g4 a(1)]
      tatom_grows [OF grows_trans [OF v3(2) v4(2)] v2(4)]
      tatom_grows [OF g4 a(2)]
      tatom_grows [OF v4(2) v3(4)]
      tatom_grows [OF g4 a(3)]
      tatom_grows [OF g4 a(4)]
    by (simp add: tctx_def)
  show thesis
  proof (rule that [OF g4 ctx v1(5) v2(5) v3(5) v4(5)])
    fix rule assume "switch expr2vbits_Qop_cases op = Some rule"
    then show "expr2vbits_Qop mce op a1 a2 a3 a4 = rule m4 op v1 v2 v3 v4"
      using ctx v1(1,5) v2(1,5) v3(1,5) v4(1,5) by (simp add: expr2vbits_Qop_def tctx_def tatom_def isOriginalAtom_kinded isShadowAtom_kinded shadows_def)
  qed
qed

lemma Qop_instrumented:
  assumes rule: "switch expr2vbits_Qop_cases op = Some rule" "qop_typed op rule"
    and ok: "mce_ok mce" and ty: "typeOfPrimop op = Some (ty, t1, t2, t3, t4)"
    and a: "tatom mce (Orig, a1, t1)" "tatom mce (Orig, a2, t2)" "tatom mce (Orig, a3, t3)" "tatom mce (Orig, a4, t4)"
  shows "instrumented mce (expr2vbits_Qop mce op a1 a2 a3 a4) ty"
proof -
  obtain s s1 s2 s3 s4 where s: "shadowTypeV ty = Some s" "shadowTypeV t1 = Some s1" "shadowTypeV t2 = Some s2"
      "shadowTypeV t3 = Some s3" "shadowTypeV t4 = Some s4"
    and te: "\<And>G v1 v2 v3 v4. (VSh, v1, s1) \<in> G \<Longrightarrow> (VSh, v2, s2) \<in> G \<Longrightarrow> (VSh, v3, s3) \<in> G \<Longrightarrow>
      (VSh, v4, s4) \<in> G \<Longrightarrow> typed_expr G (\<lambda>mce. rule mce op v1 v2 v3 v4) s"
    using rule(2) ty unfolding qop_typed_def by auto
  obtain v1 v2 v3 v4 m where m: "grows mce m" "tctx {(VSh, v1, s1), (VSh, v2, s2), (VSh, v3, s3), (VSh, v4, s4), (Orig, a1, t1), (Orig, a2, t2), (Orig, a3, t3), (Orig, a4, t4)} m" "shadows a1 v1" "shadows a2 v2" "shadows a3 v3" "shadows a4 v4"
    "expr2vbits_Qop mce op a1 a2 a3 a4 = rule m op v1 v2 v3 v4"
    using Qop_args [OF ok a s(2,3,4,5)] rule(1) by metis
  have "instrumented mce (rule m op v1 v2 v3 v4) ty"
    by (rule instrumented_rule [OF te m(2,1) s(1)]) (use m in auto)
  then show ?thesis using m by simp
qed

section \<open>The rule of each operator\<close>

lemma expr2vbits_Binop_switch: "switch_ok expr2vbits_Binop_groups 0 expr2vbits_Binop_cases"
  unfolding expr2vbits_Binop_cases_def switch_ok_append expr2vbits_Binop_groups_def expr2vbits_Binop_cases_1_def
    expr2vbits_Binop_cases_2_def expr2vbits_Binop_cases_3_def expr2vbits_Binop_cases_4_def
    expr2vbits_Binop_cases_5_def expr2vbits_Binop_cases_6_def expr2vbits_Binop_cases_7_def
    expr2vbits_Binop_cases_8_def expr2vbits_Binop_cases_9_def expr2vbits_Binop_cases_10_def list.size
  by (intro conjI) (simp only: switch_check list.size cong: group_of_cong in_group_cong switch_ok_cong if_weak_cong)+

lemma expr2vbits_Unop_switch: "switch_ok expr2vbits_Unop_groups 0 expr2vbits_Unop_cases"
  unfolding expr2vbits_Unop_cases_def switch_ok_append expr2vbits_Unop_groups_def expr2vbits_Unop_cases_1_def
    expr2vbits_Unop_cases_2_def expr2vbits_Unop_cases_3_def list.size
  by (intro conjI) (simp only: switch_check list.size cong: group_of_cong in_group_cong switch_ok_cong if_weak_cong)+

lemma expr2vbits_Triop_switch: "switch_ok expr2vbits_Triop_groups 0 expr2vbits_Triop_cases"
  unfolding expr2vbits_Triop_groups_def expr2vbits_Triop_cases_def
  by (simp only: switch_check list.size cong: group_of_cong in_group_cong switch_ok_cong if_weak_cong)

lemma expr2vbits_Qop_switch: "switch_ok expr2vbits_Qop_groups 0 expr2vbits_Qop_cases"
  unfolding expr2vbits_Qop_groups_def expr2vbits_Qop_cases_def
  by (simp only: switch_check list.size cong: group_of_cong in_group_cong switch_ok_cong if_weak_cong)

lemmas expr2vbits_Binop_eqs = switch_eqsI [OF expr2vbits_Binop_switch, unfolded expr2vbits_Binop_cases_def switch_eqs_append, folded expr2vbits_Binop_cases_def]
lemmas expr2vbits_Binop_rules =
  expr2vbits_Binop_eqs [unfolded expr2vbits_Binop_cases_1_def
    expr2vbits_Binop_cases_2_def expr2vbits_Binop_cases_3_def expr2vbits_Binop_cases_4_def
    expr2vbits_Binop_cases_5_def expr2vbits_Binop_cases_6_def expr2vbits_Binop_cases_7_def
    expr2vbits_Binop_cases_8_def expr2vbits_Binop_cases_9_def expr2vbits_Binop_cases_10_def switch_eqs_unfold]


lemmas expr2vbits_Unop_eqs = switch_eqsI [OF expr2vbits_Unop_switch, unfolded expr2vbits_Unop_cases_def switch_eqs_append, folded expr2vbits_Unop_cases_def]
lemmas expr2vbits_Unop_rules =
  expr2vbits_Unop_eqs [unfolded expr2vbits_Unop_cases_1_def expr2vbits_Unop_cases_2_def expr2vbits_Unop_cases_3_def switch_eqs_unfold]

lemma expr2vbits_Triop_eqs: "switch_eqs (\<lambda>op. switch expr2vbits_Triop_cases op) expr2vbits_Triop_cases"
  by (rule switch_eqsI [OF expr2vbits_Triop_switch])

lemma expr2vbits_Qop_eqs: "switch_eqs (\<lambda>op. switch expr2vbits_Qop_cases op) expr2vbits_Qop_cases"
  by (rule switch_eqsI [OF expr2vbits_Qop_switch])

lemma switch_eqsD: "switch_eqs f gs \<Longrightarrow> (ls, b) \<in> set gs \<Longrightarrow> k \<in> set ls \<Longrightarrow> f k = Some b"
  by (auto simp: switch_eqs_def)

text \<open>The lazy schemes merge 128-bit V bits with \<open>mkUifU\<close>, which has no case for them.\<close>

lemma mkUifU_I128: "mkUifU mce Ity_I128 a b = None"
  by (simp add: mkUifU_def)

lemma mkLazy3_I128: "typeOfIRExpr (sb_tyenv mce) v1 = Some Ity_I32 \<Longrightarrow> typeOfIRExpr (sb_tyenv mce) v2 = Some Ity_I128 \<Longrightarrow>
    mkLazy3 mce Ity_I128 v1 v2 v3 = None"
  unfolding mkLazy3_def by (cases "typeOfIRExpr (sb_tyenv mce) v3") (auto simp: mkUifU_I128 assert_that_def split: bind_split)

lemma mkLazy4_I128: "typeOfIRExpr (sb_tyenv mce) v1 = Some Ity_I32 \<Longrightarrow> typeOfIRExpr (sb_tyenv mce) v2 = Some Ity_I128 \<Longrightarrow>
    mkLazy4 mce Ity_I128 v1 v2 v3 v4 = None"
  unfolding mkLazy4_def
  by (cases "typeOfIRExpr (sb_tyenv mce) v3"; cases "typeOfIRExpr (sb_tyenv mce) v4")
    (auto simp: mkUifU_I128 assert_that_def split: bind_split)


section \<open>Properties\<close>

text \<open>An environment with original temporaries of given types and nothing emitted yet.\<close>

definition fresh_mce :: "IRType list \<Rightarrow> MCEnv" where
  "fresh_mce tys = \<lparr>sb_tyenv = tys, sb_stmts = [], tmpMap = map (\<lambda>_. \<lparr>tm_kind = Orig, tm_shadowV = None\<rparr>) tys,
     bogusLiterals = False, useLLVMworkarounds = False,
     mc_layout = \<lparr>total_sizeB = 0, offset_SP = 0, sizeof_SP = 0, offset_IP = 0, sizeof_IP = 0, alwaysDefd = []\<rparr>,
     hWordTy = Ity_I64\<rparr>"

lemma fresh_mce_ok: "mce_ok (fresh_mce tys)"
  by (simp add: mce_ok_def fresh_mce_def)

lemma fresh_mce_atom: "t < length tys \<Longrightarrow> tatom (fresh_mce tys) (Orig, Iex_RdTmp t, tys ! t)"
  by (simp add: tatom_def kinded_def tempKind_def fresh_mce_def typeOfIRTemp_def)

lemma handledD: "switch_all P gs \<Longrightarrow> switch gs op \<noteq> None \<Longrightarrow> \<exists>rule. switch gs op = Some rule \<and> P op rule"
  using switch_allD by fastforce

text \<open>C16
  Every binary operator the instrumenter handles: on original atoms of the operator's argument
  types no assertion fails, only new temporaries are written, the environment stays
  well-formed, and the shadow value has the shadow type of the operator's result.\<close>
theorem expr2vbits_Binop_typed:
  assumes "switch expr2vbits_Binop_cases op \<noteq> None"
    and "typeOfPrimop op = Some (ty, t1, t2, Ity_INVALID, Ity_INVALID)"
    and "mce_ok mce" "tatom mce (Orig, a1, t1)" "tatom mce (Orig, a2, t2)"
  shows "\<exists>r mce'. expr2vbits_Binop mce op a1 a2 = Some (r, mce') \<and> grows mce mce' \<and> mce_ok mce' \<and>
    typeOfIRExpr (sb_tyenv mce') r = shadowTypeV ty"
  using handledD [OF Binop_typed assms(1)] Binop_instrumented assms(2-) unfolding instrumented_def by blast

theorem expr2vbits_Binop_typed_witness:
  "\<exists>r mce'. expr2vbits_Binop (fresh_mce [Ity_I32, Ity_I32]) Iop_Sub32 (Iex_RdTmp 0) (Iex_RdTmp 1) = Some (r, mce') \<and>
    grows (fresh_mce [Ity_I32, Ity_I32]) mce' \<and> mce_ok mce' \<and> typeOfIRExpr (sb_tyenv mce') r = shadowTypeV Ity_I32"
  by (rule expr2vbits_Binop_typed [where ?t1.0 = Ity_I32 and ?t2.0 = Ity_I32])
    (use fresh_mce_atom [of 0 "[Ity_I32, Ity_I32]"] fresh_mce_atom [of 1 "[Ity_I32, Ity_I32]"]
      in \<open>simp_all add: expr2vbits_Binop_rules prim_type_defs fresh_mce_ok\<close>)

text \<open>C17
  The same for the unary operators, but for the conversion of four floats to half floats and
  for \<open>RndF128\<close>, which has two arguments and is a dead label here.\<close>
theorem expr2vbits_Unop_typed:
  assumes "switch expr2vbits_Unop_cases op \<noteq> None" "op \<notin> {Iop_F32toF16x4, Iop_RndF128}"
    and "typeOfPrimop op = Some (ty, t1, Ity_INVALID, Ity_INVALID, Ity_INVALID)"
    and "mce_ok mce" "tatom mce (Orig, a1, t1)"
  shows "\<exists>r mce'. expr2vbits_Unop mce op a1 = Some (r, mce') \<and> grows mce mce' \<and> mce_ok mce' \<and>
    typeOfIRExpr (sb_tyenv mce') r = shadowTypeV ty"
  using handledD [OF Unop_typed assms(1)] Unop_instrumented assms(2-) unfolding instrumented_def untyped_unops_def by auto

theorem expr2vbits_Unop_typed_witness:
  "\<exists>r mce'. expr2vbits_Unop (fresh_mce [Ity_I32]) Iop_Clz32 (Iex_RdTmp 0) = Some (r, mce') \<and>
    grows (fresh_mce [Ity_I32]) mce' \<and> mce_ok mce' \<and> typeOfIRExpr (sb_tyenv mce') r = shadowTypeV Ity_I32"
  by (rule expr2vbits_Unop_typed [where ?t1.0 = Ity_I32])
    (use fresh_mce_atom [of 0 "[Ity_I32]"] in \<open>simp_all add: expr2vbits_Unop_rules prim_type_defs fresh_mce_ok\<close>)

text \<open>C18
  The same for the operators of three arguments, but for the arithmetic on 128-bit floats.\<close>
theorem expr2vbits_Triop_typed:
  assumes "switch expr2vbits_Triop_cases op \<noteq> None" "op \<notin> set F128_triops"
    and "typeOfPrimop op = Some (ty, t1, t2, t3, Ity_INVALID)"
    and "mce_ok mce" "tatom mce (Orig, a1, t1)" "tatom mce (Orig, a2, t2)" "tatom mce (Orig, a3, t3)"
  shows "\<exists>r mce'. expr2vbits_Triop mce op a1 a2 a3 = Some (r, mce') \<and> grows mce mce' \<and> mce_ok mce' \<and>
    typeOfIRExpr (sb_tyenv mce') r = shadowTypeV ty"
  using handledD [OF Triop_typed assms(1)] Triop_instrumented assms(2-) unfolding instrumented_def by blast

theorem expr2vbits_Triop_typed_witness:
  "\<exists>r mce'. expr2vbits_Triop (fresh_mce [Ity_I32, Ity_F64, Ity_F64]) Iop_AddF64 (Iex_RdTmp 0) (Iex_RdTmp 1) (Iex_RdTmp 2) = Some (r, mce') \<and>
    grows (fresh_mce [Ity_I32, Ity_F64, Ity_F64]) mce' \<and> mce_ok mce' \<and> typeOfIRExpr (sb_tyenv mce') r = shadowTypeV Ity_F64"
  by (rule expr2vbits_Triop_typed [where ?t1.0 = Ity_I32 and ?t2.0 = Ity_F64 and ?t3.0 = Ity_F64])
    (use fresh_mce_atom [of 0 "[Ity_I32, Ity_F64, Ity_F64]"] fresh_mce_atom [of 1 "[Ity_I32, Ity_F64, Ity_F64]"]
        fresh_mce_atom [of 2 "[Ity_I32, Ity_F64, Ity_F64]"]
        expr2vbits_Triop_eqs [unfolded expr2vbits_Triop_cases_def switch_eqs_unfold, folded expr2vbits_Triop_cases_def]
      in \<open>simp_all add: prim_type_defs fresh_mce_ok F128_triops_def\<close>)

text \<open>C19
  Arithmetic on 128-bit floats, binary or decimal, stops the instrumenter: \<open>mkUifU\<close> has no case
  for 128-bit V bits. The fused forms of four arguments stop it too, and so does the conversion
  of four floats to half floats, which is sent to a narrowing that does not know it.\<close>
theorem F128_arithmetic_panics:
  assumes "mce_ok mce"
  shows "(op \<in> set F128_triops \<longrightarrow> typeOfPrimop op = Some (ty, t1, t2, t3, Ity_INVALID) \<longrightarrow>
      tatom mce (Orig, a1, t1) \<longrightarrow> tatom mce (Orig, a2, t2) \<longrightarrow> tatom mce (Orig, a3, t3) \<longrightarrow>
      expr2vbits_Triop mce op a1 a2 a3 = None) \<and>
    (op \<in> set F128_qops \<longrightarrow> typeOfPrimop op = Some (ty, t1, t2, t3, t4) \<longrightarrow>
      tatom mce (Orig, a1, t1) \<longrightarrow> tatom mce (Orig, a2, t2) \<longrightarrow> tatom mce (Orig, a3, t3) \<longrightarrow> tatom mce (Orig, a4, t4) \<longrightarrow>
      expr2vbits_Qop mce op a1 a2 a3 a4 = None) \<and>
    (tatom mce (Orig, a1, Ity_V128) \<longrightarrow> expr2vbits_Unop mce Iop_F32toF16x4 a1 = None)"
proof (intro conjI impI)
  assume op: "op \<in> set F128_triops" and ty: "typeOfPrimop op = Some (ty, t1, t2, t3, Ity_INVALID)"
    and a: "tatom mce (Orig, a1, t1)" "tatom mce (Orig, a2, t2)" "tatom mce (Orig, a3, t3)"
  have s: "shadowTypeV t1 = Some Ity_I32 \<and> shadowTypeV t2 = Some Ity_I128 \<and> shadowTypeV t3 = Some Ity_I128"
    using op ty by (auto simp: F128_triops_def prim_type_defs)
  obtain v1 v2 v3 m where m: "tctx {(VSh, v1, Ity_I32), (VSh, v2, Ity_I128), (VSh, v3, Ity_I128), (Orig, a1, t1), (Orig, a2, t2), (Orig, a3, t3)} m"
    and r: "\<And>rule. switch expr2vbits_Triop_cases op = Some rule \<Longrightarrow> expr2vbits_Triop mce op a1 a2 a3 = rule m op v1 v2 v3 a1 a2 a3"
    using Triop_args [OF assms a, of Ity_I32 Ity_I128 Ity_I128] s by metis
  have "switch expr2vbits_Triop_cases op = Some (\<lambda>mce _ v1 v2 v3 _ _ _. mkLazy3 mce Ity_I128 v1 v2 v3)"
    by (rule switch_eqsD [OF expr2vbits_Triop_eqs, of F128_triops])
      (use op in \<open>simp_all add: expr2vbits_Triop_cases_def F128_triops_def\<close>)
  then show "expr2vbits_Triop mce op a1 a2 a3 = None"
    using r mkLazy3_I128 m by (simp add: tctx_def tatom_def)
next
  assume op: "op \<in> set F128_qops" and ty: "typeOfPrimop op = Some (ty, t1, t2, t3, t4)"
    and a: "tatom mce (Orig, a1, t1)" "tatom mce (Orig, a2, t2)" "tatom mce (Orig, a3, t3)" "tatom mce (Orig, a4, t4)"
  have s: "shadowTypeV t1 = Some Ity_I32 \<and> shadowTypeV t2 = Some Ity_I128 \<and> shadowTypeV t3 = Some Ity_I128 \<and> shadowTypeV t4 = Some Ity_I128"
    using op ty by (auto simp: F128_qops_def prim_type_defs)
  obtain v1 v2 v3 v4 m where m: "tctx {(VSh, v1, Ity_I32), (VSh, v2, Ity_I128), (VSh, v3, Ity_I128), (VSh, v4, Ity_I128),
      (Orig, a1, t1), (Orig, a2, t2), (Orig, a3, t3), (Orig, a4, t4)} m"
    and r: "\<And>rule. switch expr2vbits_Qop_cases op = Some rule \<Longrightarrow> expr2vbits_Qop mce op a1 a2 a3 a4 = rule m op v1 v2 v3 v4"
    using Qop_args [OF assms a, of Ity_I32 Ity_I128 Ity_I128 Ity_I128] s by metis
  have "switch expr2vbits_Qop_cases op = Some (\<lambda>mce _ v1 v2 v3 v4. mkLazy4 mce Ity_I128 v1 v2 v3 v4)"
    by (rule switch_eqsD [OF expr2vbits_Qop_eqs, of F128_qops])
      (use op in \<open>simp_all add: expr2vbits_Qop_cases_def F128_qops_def\<close>)
  then show "expr2vbits_Qop mce op a1 a2 a3 a4 = None"
    using r mkLazy4_I128 m by (simp add: tctx_def tatom_def)
next
  assume a: "tatom mce (Orig, a1, Ity_V128)"
  obtain v m where "tctx {(VSh, v, Ity_V128), (Orig, a1, Ity_V128)} m"
    and r: "\<And>rule. switch expr2vbits_Unop_cases Iop_F32toF16x4 = Some rule \<Longrightarrow> expr2vbits_Unop mce Iop_F32toF16x4 a1 = rule m Iop_F32toF16x4 v a1"
    using Unop_args [OF assms a, of Ity_V128] by (metis shadowTypeV.simps(14))
  show "expr2vbits_Unop mce Iop_F32toF16x4 a1 = None"
    using r [of "\<lambda>mce op v _. vectorNarrowUnV128 mce op v"]
    by (simp add: expr2vbits_Unop_rules vectorNarrowUnV128_def switch_simps assert_that_def split: bind_split)
qed

theorem F128_arithmetic_panics_witness:
  "expr2vbits_Triop (fresh_mce [Ity_I32, Ity_F128, Ity_F128]) Iop_AddF128 (Iex_RdTmp 0) (Iex_RdTmp 1) (Iex_RdTmp 2) = None"
  using F128_arithmetic_panics [OF fresh_mce_ok, of Iop_AddF128 Ity_F128 Ity_I32 Ity_F128 Ity_F128 "[Ity_I32, Ity_F128, Ity_F128]" "Iex_RdTmp 0" "Iex_RdTmp 1" "Iex_RdTmp 2"]
    fresh_mce_atom [of 0 "[Ity_I32, Ity_F128, Ity_F128]"] fresh_mce_atom [of 1 "[Ity_I32, Ity_F128, Ity_F128]"]
    fresh_mce_atom [of 2 "[Ity_I32, Ity_F128, Ity_F128]"]
  by (simp add: F128_triops_def prim_type_defs)

end
