(* ===== verification/IRSem.thy ===== *)
theory IRSem
  imports VexIR
begin

text \<open>
  A reference semantics of the IR operators, after their description in
  \<^verbatim>\<open>VEX/pub/libvex_ir.h\<close>: values are the integers from 0 up to two to the width of their type,
  and an operator is a partial function on them (a shift by the width or more, or a count of
  the zeros of zero, has no value). It is the specification against which the constant folder
  of VEX and the instrumenter are proved.
\<close>

section \<open>Values\<close>

fun ty_bits :: "IRType \<Rightarrow> nat" where
  "ty_bits Ity_INVALID = 0"
| "ty_bits Ity_I1 = 1"
| "ty_bits Ity_I8 = 8"
| "ty_bits Ity_I16 = 16"
| "ty_bits Ity_I32 = 32"
| "ty_bits Ity_I64 = 64"
| "ty_bits Ity_I128 = 128"
| "ty_bits Ity_F16 = 16"
| "ty_bits Ity_F32 = 32"
| "ty_bits Ity_F64 = 64"
| "ty_bits Ity_D32 = 32"
| "ty_bits Ity_D64 = 64"
| "ty_bits Ity_D128 = 128"
| "ty_bits Ity_F128 = 128"
| "ty_bits Ity_V128 = 128"
| "ty_bits Ity_V256 = 256"

definition fits :: "IRType \<Rightarrow> int \<Rightarrow> bool" where
  "fits ty x \<longleftrightarrow> take_bit (ty_bits ty) x = x"

text \<open>A vector constant has a bit per byte.\<close>

fun spread_bytes :: "nat \<Rightarrow> int \<Rightarrow> int" where
  "spread_bytes 0 m = 0"
| "spread_bytes (Suc n) m = (if odd m then 255 else 0) + 256 * spread_bytes n (m div 2)"

fun const_val :: "IRConst \<Rightarrow> int" where
  "const_val (Ico_U1 b) = of_bool b"
| "const_val (Ico_U8 w) = uint w"
| "const_val (Ico_U16 w) = uint w"
| "const_val (Ico_U32 w) = uint w"
| "const_val (Ico_U64 w) = uint w"
| "const_val (Ico_F32 w) = uint w"
| "const_val (Ico_F32i w) = uint w"
| "const_val (Ico_F64 w) = uint w"
| "const_val (Ico_F64i w) = uint w"
| "const_val (Ico_V128 m) = spread_bytes 16 (uint m)"
| "const_val (Ico_V256 m) = spread_bytes 32 (uint m)"

section \<open>Operators\<close>

text \<open>A function applied to each of \<open>k\<close> lanes of \<open>w\<close> bits.\<close>

fun lanes :: "nat \<Rightarrow> nat \<Rightarrow> (int \<Rightarrow> int) \<Rightarrow> int \<Rightarrow> int" where
  "lanes w 0 f x = 0"
| "lanes w (Suc k) f x = take_bit w (f (take_bit w x)) OR push_bit w (lanes w k f (drop_bit w x))"

definition pess :: "nat \<Rightarrow> int \<Rightarrow> int" where
  "pess w x = (if x = 0 then 0 else mask w)"

definition lanes1 :: "nat \<Rightarrow> nat \<Rightarrow> (int \<Rightarrow> int) \<Rightarrow> int \<Rightarrow> int option" where
  "lanes1 w k f x = Some (lanes w k f x)"

definition not_w :: "nat \<Rightarrow> int \<Rightarrow> int option" where
  "not_w w x = Some (take_bit w (NOT x))"

definition cmpnez :: "int \<Rightarrow> int option" where
  "cmpnez x = Some (of_bool (x \<noteq> 0))"

definition cmpwnez :: "nat \<Rightarrow> int \<Rightarrow> int option" where
  "cmpwnez w x = Some (pess w x)"

definition left_w :: "nat \<Rightarrow> int \<Rightarrow> int option" where
  "left_w w x = Some (take_bit w (x OR - x))"

definition zext :: "int \<Rightarrow> int option" where
  "zext x = Some x"

definition sext :: "nat \<Rightarrow> nat \<Rightarrow> int \<Rightarrow> int option" where
  "sext v w x = Some (take_bit w (signed_take_bit (v - 1) x))"

definition trunc :: "nat \<Rightarrow> int \<Rightarrow> int option" where
  "trunc w x = Some (take_bit w x)"

definition bits_at :: "nat \<Rightarrow> nat \<Rightarrow> int \<Rightarrow> int option" where
  "bits_at n w x = Some (take_bit w (drop_bit n x))"

fun leading_zeros :: "nat \<Rightarrow> int \<Rightarrow> nat" where
  "leading_zeros 0 x = 0"
| "leading_zeros (Suc w) x = (if bit x w then 0 else Suc (leading_zeros w x))"

fun trailing_zeros :: "nat \<Rightarrow> int \<Rightarrow> nat" where
  "trailing_zeros 0 x = 0"
| "trailing_zeros (Suc w) x = (if odd x then 0 else Suc (trailing_zeros w (x div 2)))"

definition clz :: "nat \<Rightarrow> int \<Rightarrow> int option" where
  "clz w x = (if x = 0 then None else Some (int (leading_zeros w x)))"

definition ctz :: "nat \<Rightarrow> int \<Rightarrow> int option" where
  "ctz w x = (if x = 0 then None else Some (int (trailing_zeros w x)))"

definition add_w :: "nat \<Rightarrow> int \<Rightarrow> int \<Rightarrow> int option" where
  "add_w w x y = Some (take_bit w (x + y))"

definition sub_w :: "nat \<Rightarrow> int \<Rightarrow> int \<Rightarrow> int option" where
  "sub_w w x y = Some (take_bit w (x - y))"

definition mul_w :: "nat \<Rightarrow> int \<Rightarrow> int \<Rightarrow> int option" where
  "mul_w w x y = Some (take_bit w (x * y))"

definition and2 :: "int \<Rightarrow> int \<Rightarrow> int option" where "and2 x y = Some (x AND y)"
definition or2 :: "int \<Rightarrow> int \<Rightarrow> int option" where "or2 x y = Some (x OR y)"
definition xor2 :: "int \<Rightarrow> int \<Rightarrow> int option" where "xor2 x y = Some (x XOR y)"

definition shl_w :: "nat \<Rightarrow> int \<Rightarrow> int \<Rightarrow> int option" where
  "shl_w w x y = (if y < int w then Some (take_bit w (push_bit (nat y) x)) else None)"

definition shr_w :: "nat \<Rightarrow> int \<Rightarrow> int \<Rightarrow> int option" where
  "shr_w w x y = (if y < int w then Some (drop_bit (nat y) x) else None)"

definition sar_w :: "nat \<Rightarrow> int \<Rightarrow> int \<Rightarrow> int option" where
  "sar_w w x y = (if y < int w then Some (take_bit w (drop_bit (nat y) (signed_take_bit (w - 1) x))) else None)"

definition cmpeq :: "int \<Rightarrow> int \<Rightarrow> int option" where "cmpeq x y = Some (of_bool (x = y))"
definition cmpne :: "int \<Rightarrow> int \<Rightarrow> int option" where "cmpne x y = Some (of_bool (x \<noteq> y))"
definition cmplt :: "int \<Rightarrow> int \<Rightarrow> int option" where "cmplt x y = Some (of_bool (x < y))"
definition cmple :: "int \<Rightarrow> int \<Rightarrow> int option" where "cmple x y = Some (of_bool (x \<le> y))"

definition cmplts :: "nat \<Rightarrow> int \<Rightarrow> int \<Rightarrow> int option" where
  "cmplts w x y = cmplt (signed_take_bit (w - 1) x) (signed_take_bit (w - 1) y)"

definition cmples :: "nat \<Rightarrow> int \<Rightarrow> int \<Rightarrow> int option" where
  "cmples w x y = cmple (signed_take_bit (w - 1) x) (signed_take_bit (w - 1) y)"

definition cmpord :: "int \<Rightarrow> int \<Rightarrow> int option" where
  "cmpord x y = Some (if x < y then 8 else if y < x then 4 else 2)"

definition cmpords :: "nat \<Rightarrow> int \<Rightarrow> int \<Rightarrow> int option" where
  "cmpords w x y = cmpord (signed_take_bit (w - 1) x) (signed_take_bit (w - 1) y)"

definition mullu :: "int \<Rightarrow> int \<Rightarrow> int option" where "mullu x y = Some (x * y)"

definition mulls :: "nat \<Rightarrow> int \<Rightarrow> int \<Rightarrow> int option" where
  "mulls w x y = Some (take_bit (2 * w) (signed_take_bit (w - 1) x * signed_take_bit (w - 1) y))"

definition maxu :: "int \<Rightarrow> int \<Rightarrow> int option" where "maxu x y = Some (max x y)"

definition hl :: "nat \<Rightarrow> int \<Rightarrow> int \<Rightarrow> int option" where
  "hl n x y = Some (push_bit n x OR y)"

definition ihi64 :: "int \<Rightarrow> int \<Rightarrow> int option" where
  "ihi64 x y = Some (push_bit 64 (drop_bit 64 x) OR drop_bit 64 y)"

definition setlo :: "nat \<Rightarrow> int \<Rightarrow> int \<Rightarrow> int option" where
  "setlo n x y = Some (push_bit n (drop_bit n x) OR y)"

definition sem1_cases :: "(IROp list \<times> (int \<Rightarrow> int option)) list" where
  "sem1_cases = [
     ([Iop_Not1], not_w 1),
     ([Iop_Not8], not_w 8),
     ([Iop_Not16], not_w 16),
     ([Iop_Not32], not_w 32),
     ([Iop_Not64], not_w 64),
     ([Iop_NotV128], not_w 128),
     ([Iop_NotV256], not_w 256),
     ([Iop_CmpNEZ8, Iop_CmpNEZ16, Iop_CmpNEZ32, Iop_CmpNEZ64], cmpnez),
     ([Iop_CmpwNEZ32, Iop_1Sto32], cmpwnez 32),
     ([Iop_CmpwNEZ64, Iop_1Sto64], cmpwnez 64),
     ([Iop_Left8], left_w 8),
     ([Iop_Left16], left_w 16),
     ([Iop_Left32], left_w 32),
     ([Iop_Left64], left_w 64),
     ([Iop_1Uto8, Iop_1Uto32, Iop_1Uto64, Iop_8Uto16, Iop_8Uto32, Iop_8Uto64, Iop_16Uto32, Iop_16Uto64,
      Iop_32Uto64, Iop_32UtoV128, Iop_64UtoV128, Iop_ReinterpF64asI64, Iop_ReinterpI64asF64,
      Iop_ReinterpF32asI32, Iop_ReinterpI32asF32, Iop_ReinterpI64asD64, Iop_ReinterpD64asI64], zext),
     ([Iop_1Sto8], cmpwnez 8),
     ([Iop_1Sto16], cmpwnez 16),
     ([Iop_8Sto16], sext 8 16),
     ([Iop_8Sto32], sext 8 32),
     ([Iop_8Sto64], sext 8 64),
     ([Iop_16Sto32], sext 16 32),
     ([Iop_16Sto64], sext 16 64),
     ([Iop_32Sto64], sext 32 64),
     ([Iop_32to1, Iop_64to1], trunc 1),
     ([Iop_16to8, Iop_32to8, Iop_64to8, Iop_ZeroHI120ofV128], trunc 8),
     ([Iop_32to16, Iop_64to16, Iop_ZeroHI112ofV128], trunc 16),
     ([Iop_64to32, Iop_V128to32, Iop_ZeroHI96ofV128], trunc 32),
     ([Iop_128to64, Iop_V128to64, Iop_V256to64_0, Iop_ZeroHI64ofV128, Iop_F128LOtoF64, Iop_D128LOtoD64], trunc 64),
     ([Iop_V256toV128_0], trunc 128),
     ([Iop_16HIto8], bits_at 8 8),
     ([Iop_32HIto16], bits_at 16 16),
     ([Iop_64HIto32], bits_at 32 32),
     ([Iop_128HIto64, Iop_V128HIto64, Iop_V256to64_1, Iop_F128HItoF64, Iop_D128HItoD64], bits_at 64 64),
     ([Iop_V256to64_2], bits_at 128 64),
     ([Iop_V256to64_3], bits_at 192 64),
     ([Iop_V256toV128_1], bits_at 128 128),
     ([Iop_Clz32], clz 32),
     ([Iop_Ctz32], ctz 32),
     ([Iop_Clz64], clz 64),
     ([Iop_Ctz64], ctz 64),
     ([Iop_CmpNEZ8x4], lanes1 8 4 (pess 8)),
     ([Iop_CmpNEZ16x2], lanes1 16 2 (pess 16)),
     ([Iop_CmpNEZ8x8], lanes1 8 8 (pess 8)),
     ([Iop_CmpNEZ16x4], lanes1 16 4 (pess 16)),
     ([Iop_CmpNEZ32x2], lanes1 32 2 (pess 32)),
     ([Iop_CmpNEZ8x16], lanes1 8 16 (pess 8)),
     ([Iop_CmpNEZ16x8], lanes1 16 8 (pess 16)),
     ([Iop_CmpNEZ32x4], lanes1 32 4 (pess 32)),
     ([Iop_CmpNEZ64x2], lanes1 64 2 (pess 64)),
     ([Iop_CmpNEZ8x32], lanes1 8 32 (pess 8)),
     ([Iop_CmpNEZ16x16], lanes1 16 16 (pess 16)),
     ([Iop_CmpNEZ32x8], lanes1 32 8 (pess 32)),
     ([Iop_CmpNEZ64x4], lanes1 64 4 (pess 64))]"

definition sem2_cases :: "(IROp list \<times> (int \<Rightarrow> int \<Rightarrow> int option)) list" where
  "sem2_cases = [
     ([Iop_Add8], add_w 8),
     ([Iop_Add16], add_w 16),
     ([Iop_Add32], add_w 32),
     ([Iop_Add64], add_w 64),
     ([Iop_Sub8], sub_w 8),
     ([Iop_Sub16], sub_w 16),
     ([Iop_Sub32], sub_w 32),
     ([Iop_Sub64], sub_w 64),
     ([Iop_Mul8], mul_w 8),
     ([Iop_Mul16], mul_w 16),
     ([Iop_Mul32], mul_w 32),
     ([Iop_Mul64], mul_w 64),
     ([Iop_And8, Iop_And16, Iop_And32, Iop_And64, Iop_AndV128, Iop_AndV256], and2),
     ([Iop_Or8, Iop_Or16, Iop_Or32, Iop_Or64, Iop_OrV128, Iop_OrV256], or2),
     ([Iop_Xor8, Iop_Xor16, Iop_Xor32, Iop_Xor64, Iop_XorV128, Iop_XorV256], xor2),
     ([Iop_Shl8], shl_w 8),
     ([Iop_Shl16], shl_w 16),
     ([Iop_Shl32], shl_w 32),
     ([Iop_Shl64], shl_w 64),
     ([Iop_Shr8], shr_w 8),
     ([Iop_Shr16], shr_w 16),
     ([Iop_Shr32], shr_w 32),
     ([Iop_Shr64], shr_w 64),
     ([Iop_Sar8], sar_w 8),
     ([Iop_Sar16], sar_w 16),
     ([Iop_Sar32], sar_w 32),
     ([Iop_Sar64], sar_w 64),
     ([Iop_CmpEQ8, Iop_CmpEQ16, Iop_CmpEQ32, Iop_CmpEQ64, Iop_CasCmpEQ8, Iop_CasCmpEQ16, Iop_CasCmpEQ32,
      Iop_CasCmpEQ64], cmpeq),
     ([Iop_CmpNE8, Iop_CmpNE16, Iop_CmpNE32, Iop_CmpNE64, Iop_CasCmpNE8, Iop_CasCmpNE16, Iop_CasCmpNE32,
      Iop_CasCmpNE64, Iop_ExpCmpNE8, Iop_ExpCmpNE16, Iop_ExpCmpNE32, Iop_ExpCmpNE64], cmpne),
     ([Iop_CmpLT32U, Iop_CmpLT64U], cmplt),
     ([Iop_CmpLE32U, Iop_CmpLE64U], cmple),
     ([Iop_CmpLT32S], cmplts 32),
     ([Iop_CmpLE32S], cmples 32),
     ([Iop_CmpORD32U, Iop_CmpORD64U], cmpord),
     ([Iop_CmpORD32S], cmpords 32),
     ([Iop_CmpLT64S], cmplts 64),
     ([Iop_CmpLE64S], cmples 64),
     ([Iop_CmpORD64S], cmpords 64),
     ([Iop_MullU8, Iop_MullU16, Iop_MullU32, Iop_MullU64], mullu),
     ([Iop_MullS8], mulls 8),
     ([Iop_MullS16], mulls 16),
     ([Iop_MullS32], mulls 32),
     ([Iop_MullS64], mulls 64),
     ([Iop_Max32U], maxu),
     ([Iop_8HLto16], hl 8),
     ([Iop_16HLto32], hl 16),
     ([Iop_32HLto64], hl 32),
     ([Iop_64HLto128, Iop_64HLtoV128, Iop_F64HLtoF128, Iop_D64HLtoD128], hl 64),
     ([Iop_V128HLtoV256], hl 128),
     ([Iop_InterleaveHI64x2], ihi64),
     ([Iop_SetV128lo32], setlo 32),
     ([Iop_SetV128lo64], setlo 64)]"

definition sem1_groups :: label_tree where
  "sem1_groups =
     Below Iop_1Sto32 (Below Iop_8Sto64 (Below Iop_CmpwNEZ32 (Below Iop_Clz64 (Below Iop_Not32 (Below
     Iop_Not16 (Group 1) (Group 2)) (Below Iop_Not64 (Group 3) (Group 4))) (Below Iop_Ctz64 (Below
     Iop_Clz32 (Group 38) (Group 36)) (Below Iop_Ctz32 (Group 39) (Below Iop_CmpNEZ8 (Group 37) (Group
     7))))) (Below Iop_Left32 (Below Iop_Left8 (Below Iop_CmpwNEZ64 (Group 8) (Group 9)) (Below
     Iop_Left16 (Group 10) (Group 11))) (Below Iop_8Uto16 (Below Iop_Left64 (Group 12) (Group 13)) (Below
     Iop_8Sto16 (Group 14) (Below Iop_8Sto32 (Group 17) (Group 18)))))) (Below Iop_32HIto16 (Below
     Iop_64to8 (Below Iop_16Sto64 (Below Iop_16Sto32 (Group 19) (Group 20)) (Below Iop_32Sto64 (Group 21)
     (Group 22))) (Below Iop_16to8 (Below Iop_64to16 (Group 24) (Group 25)) (Below Iop_16HIto8 (Group 24)
     (Below Iop_32to16 (Group 29) (Group 25))))) (Below Iop_Not1 (Below Iop_64HIto32 (Below Iop_64to32
     (Group 30) (Group 26)) (Below Iop_128to64 (Group 31) (Below Iop_128HIto64 (Group 27) (Group 32))))
     (Below Iop_1Uto8 (Below Iop_32to1 (Group 0) (Group 23)) (Below Iop_1Sto8 (Group 14) (Below
     Iop_1Sto16 (Group 15) (Group 16))))))) (Below Iop_ZeroHI120ofV128 (Below Iop_CmpNEZ32x2 (Below
     Iop_F128LOtoF64 (Below Iop_ReinterpF64asI64 (Below Iop_1Sto64 (Group 8) (Group 9)) (Below
     Iop_F128HItoF64 (Group 14) (Group 32))) (Below Iop_CmpNEZ8x4 (Below Iop_CmpNEZ16x2 (Group 27) (Group
     41)) (Below Iop_CmpNEZ8x8 (Group 40) (Below Iop_CmpNEZ16x4 (Group 42) (Group 43))))) (Below
     Iop_V128HIto64 (Below Iop_D128LOtoD64 (Below Iop_D128HItoD64 (Group 44) (Group 32)) (Below
     Iop_ReinterpI64asD64 (Group 27) (Below Iop_V128to64 (Group 14) (Group 27)))) (Below
     Iop_ZeroHI64ofV128 (Below Iop_64UtoV128 (Group 32) (Group 14)) (Below Iop_ZeroHI96ofV128 (Group 27)
     (Below Iop_ZeroHI112ofV128 (Group 26) (Group 25)))))) (Below Iop_V256to64_1 (Below Iop_CmpNEZ8x16
     (Below Iop_V128to32 (Below Iop_32UtoV128 (Group 24) (Group 14)) (Below Iop_NotV128 (Group 26) (Group
     5))) (Below Iop_CmpNEZ32x4 (Below Iop_CmpNEZ16x8 (Group 45) (Group 46)) (Below Iop_CmpNEZ64x2 (Group
     47) (Below Iop_V256to64_0 (Group 48) (Group 27))))) (Below Iop_NotV256 (Below Iop_V256to64_3 (Below
     Iop_V256to64_2 (Group 32) (Group 33)) (Below Iop_V256toV128_0 (Group 34) (Below Iop_V256toV128_1
     (Group 28) (Group 35)))) (Below Iop_CmpNEZ16x16 (Below Iop_CmpNEZ8x32 (Group 6) (Group 49)) (Below
     Iop_CmpNEZ32x8 (Group 50) (Below Iop_CmpNEZ64x4 (Group 51) (Group 52)))))))"

definition sem2_groups :: label_tree where
  "sem2_groups =
     Below Iop_CasCmpNE8 (Below Iop_Shl8 (Below Iop_Sub64 (Below Iop_Add64 (Below Iop_Add16 (Group 0)
     (Below Iop_Add32 (Group 1) (Group 2))) (Below Iop_Sub16 (Below Iop_Sub8 (Group 3) (Group 4)) (Below
     Iop_Sub32 (Group 5) (Group 6)))) (Below Iop_Mul64 (Below Iop_Mul16 (Below Iop_Mul8 (Group 7) (Group
     8)) (Below Iop_Mul32 (Group 9) (Group 10))) (Below Iop_And8 (Below Iop_Or8 (Group 11) (Group 13))
     (Below Iop_Xor8 (Group 12) (Group 14))))) (Below Iop_Shr64 (Below Iop_Shl64 (Below Iop_Shl16 (Group
     15) (Below Iop_Shl32 (Group 16) (Group 17))) (Below Iop_Shr16 (Below Iop_Shr8 (Group 18) (Group 19))
     (Below Iop_Shr32 (Group 20) (Group 21)))) (Below Iop_Sar64 (Below Iop_Sar16 (Below Iop_Sar8 (Group
     22) (Group 23)) (Below Iop_Sar32 (Group 24) (Group 25))) (Below Iop_CmpNE8 (Below Iop_CmpEQ8 (Group
     26) (Group 27)) (Below Iop_CasCmpEQ8 (Group 28) (Group 27)))))) (Below Iop_CmpORD64S (Below
     Iop_CmpLT64S (Below Iop_MullS32 (Below Iop_MullS8 (Group 28) (Below Iop_MullS16 (Group 39) (Group
     40))) (Below Iop_MullU8 (Below Iop_MullS64 (Group 41) (Group 42)) (Below Iop_CmpLT32S (Group 38)
     (Group 31)))) (Below Iop_CmpLE32U (Below Iop_CmpLE64S (Below Iop_CmpLE32S (Group 35) (Group 32))
     (Below Iop_CmpLT32U (Group 36) (Group 29))) (Below Iop_CmpORD32U (Below Iop_Max32U (Group 30) (Group
     43)) (Below Iop_CmpORD32S (Group 33) (Group 34))))) (Below Iop_AndV128 (Below Iop_32HLto64 (Below
     Iop_8HLto16 (Group 37) (Below Iop_16HLto32 (Group 44) (Group 45))) (Below Iop_SetV128lo64 (Below
     Iop_64HLto128 (Group 46) (Group 47)) (Below Iop_SetV128lo32 (Group 51) (Group 50)))) (Below
     Iop_V128HLtoV256 (Below Iop_XorV128 (Below Iop_OrV128 (Group 12) (Group 13)) (Below
     Iop_InterleaveHI64x2 (Group 14) (Group 49))) (Below Iop_OrV256 (Below Iop_AndV256 (Group 48) (Group
     12)) (Below Iop_XorV256 (Group 13) (Group 14))))))"

definition prim :: "IROp \<Rightarrow> int list \<Rightarrow> int option" where
  "prim op xs = (case xs of
       [x] \<Rightarrow> Option.bind (switch sem1_cases op) (\<lambda>f. f x)
     | [x, y] \<Rightarrow> Option.bind (switch sem2_cases op) (\<lambda>f. f x y)
     | _ \<Rightarrow> None)"

lemma sem1_switch: "switch_ok sem1_groups 0 sem1_cases"
  unfolding sem1_groups_def sem1_cases_def
  by (simp only: switch_check list.size cong: group_of_cong in_group_cong switch_ok_cong if_weak_cong)

lemma sem2_switch: "switch_ok sem2_groups 0 sem2_cases"
  unfolding sem2_groups_def sem2_cases_def
  by (simp only: switch_check list.size cong: group_of_cong in_group_cong switch_ok_cong if_weak_cong)

lemma sem1_eqs: "switch_eqs (switch sem1_cases) sem1_cases"
  by (rule switch_eqsI [OF sem1_switch])

lemma sem2_eqs: "switch_eqs (switch sem2_cases) sem2_cases"
  by (rule switch_eqsI [OF sem2_switch])

text \<open>The value of every operator.\<close>

lemmas sem_rules [simp] =
  sem1_eqs [unfolded sem1_cases_def switch_eqs_unfold, folded sem1_cases_def]
  sem2_eqs [unfolded sem2_cases_def switch_eqs_unfold, folded sem2_cases_def]

lemma prim_simps [simp]:
  "prim op [x] = Option.bind (switch sem1_cases op) (\<lambda>f. f x)"
  "prim op [x, y] = Option.bind (switch sem2_cases op) (\<lambda>f. f x y)"
  by (simp_all add: prim_def)

lemmas sem_defs = lanes1_def not_w_def cmpnez_def cmpwnez_def left_w_def zext_def sext_def trunc_def bits_at_def
  clz_def ctz_def add_w_def sub_w_def mul_w_def and2_def or2_def xor2_def shl_w_def shr_w_def sar_w_def
  cmpeq_def cmpne_def cmplt_def cmple_def cmplts_def cmples_def cmpord_def cmpords_def mullu_def mulls_def
  maxu_def hl_def ihi64_def setlo_def

section \<open>Constants\<close>

lemma bit_255: "bit (255 :: int) i \<longleftrightarrow> i < 8"
proof -
  have "(255 :: int) = mask 8" by (simp add: mask_eq_exp_minus_1)
  then show ?thesis by (simp only: bit_mask_iff) simp
qed

lemma bit_spread_bytes: "bit (spread_bytes n m) i \<longleftrightarrow> i div 8 < n \<and> bit m (i div 8)"
proof (induction n arbitrary: m i)
  case (Suc n)
  have split: "spread_bytes (Suc n) m = (if odd m then 255 else 0) OR push_bit 8 (spread_bytes n (m div 2))"
  proof -
    have "take_bit 8 (if odd m then 255 else 0 :: int) = (if odd m then 255 else 0)" by simp
    then have "(if odd m then 255 else 0) + push_bit 8 (spread_bytes n (m div 2)) = (if odd m then 255 else 0) OR push_bit 8 (spread_bytes n (m div 2))"
      by (intro disjunctive_add) (auto simp: bit_push_bit_iff bit_255)
    then show ?thesis by (simp add: push_bit_eq_mult)
  qed
  show ?case
  proof (cases "i < 8")
    case True
    then show ?thesis by (simp only: split bit_or_iff bit_push_bit_iff) (simp add: bit_255 bit_0)
  next
    case False
    then have "i div 8 = Suc ((i - 8) div 8)" by (simp add: le_div_geq)
    with False Suc.IH [of "m div 2" "i - 8"] show ?thesis
      by (simp only: split bit_or_iff bit_push_bit_iff) (simp add: bit_255 bit_Suc)
  qed
qed simp

lemma spread_bytes_fits: "take_bit (8 * n) (spread_bytes n m) = spread_bytes n m"
  by (rule bit_eqI) (auto simp: bit_simps bit_spread_bytes)

lemma const_val_fits: "fits (typeOfIRConst c) (const_val c)"
  using spread_bytes_fits [of 16] spread_bytes_fits [of 32]
  by (cases c) (simp_all add: fits_def take_bit_uint)

end
