(* ===== verification/TaintAlgebra.thy ===== *)
theory TaintAlgebra
  imports IRSem
begin

text \<open>
  Soundness of taint propagation on values, apart from the instrumenter: \<open>agree w v x y\<close> relates
  the values that differ only on the tainted bits \<open>v\<close>, and each scheme of V bits (Left, exact
  carry chains, exact comparison, shifts, lanes, pessimisation) is shown to cover every bit of
  the result that can change.
\<close>

section \<open>Agreement on the untainted bits\<close>

text \<open>A V bit of 1 is a tainted bit. Two values agree up to \<open>v\<close> if their untainted bits are the same.\<close>

definition agree :: "nat \<Rightarrow> int \<Rightarrow> int \<Rightarrow> int \<Rightarrow> bool" where
  "agree w v x y \<longleftrightarrow> (\<forall>n < w. \<not> bit v n \<longrightarrow> bit x n = bit y n)"

lemma agreeD: "agree w v x y \<Longrightarrow> n < w \<Longrightarrow> \<not> bit v n \<Longrightarrow> bit x n = bit y n"
  by (simp add: agree_def)

lemma agree_refl [simp]: "agree w v x x"
  by (simp add: agree_def)

lemma agree_mask [simp]: "agree w (mask w) x y"
  by (simp add: agree_def bit_mask_iff)

lemma fits_bit: "fits ty x \<Longrightarrow> bit x n \<Longrightarrow> n < ty_bits ty"
  unfolding fits_def by (metis bit_take_bit_iff)

lemma fits_nonneg: "fits ty x \<Longrightarrow> 0 \<le> x"
  unfolding fits_def by (metis take_bit_nonnegative)

lemma agree_zero: "agree (ty_bits ty) 0 x y \<Longrightarrow> fits ty x \<Longrightarrow> fits ty y \<Longrightarrow> x = y"
  by (rule bit_eqI) (metis agree_def bit_0_eq bot_apply bot_bool_def fits_bit)

text \<open>Nothing tainted going in, nothing tainted coming out; otherwise everything is.\<close>

lemma agree_pess:
  assumes "v = 0 \<Longrightarrow> x = y"
  shows "agree w (pess w v) x y"
  using assms by (simp add: pess_def)

lemma agree_or_zero: "(v1 OR v2 = (0::int)) = (v1 = 0 \<and> v2 = 0)"
  by (rule or_eq_0_iff)

lemma agree_xor: "agree w v1 x1 y1 \<Longrightarrow> agree w v2 x2 y2 \<Longrightarrow> agree w (v1 OR v2) (x1 XOR x2) (y1 XOR y2)"
  by (simp add: agree_def bit_simps)

lemma agree_and:
  "agree w v1 x1 y1 \<Longrightarrow> agree w v2 x2 y2 \<Longrightarrow>
    agree w ((v1 OR v2) AND ((x1 OR v1) AND (x2 OR v2))) (x1 AND x2) (y1 AND y2)"
  by (auto simp: agree_def bit_simps)

lemma agree_or:
  "agree w v1 x1 y1 \<Longrightarrow> agree w v2 x2 y2 \<Longrightarrow>
    agree w ((v1 OR v2) AND ((take_bit w (NOT x1) OR v1) AND (take_bit w (NOT x2) OR v2))) (x1 OR x2) (y1 OR y2)"
  by (auto simp: agree_def bit_simps)

section \<open>Carries\<close>

lemma bit_left: "bit (x OR - x) n \<longleftrightarrow> take_bit (Suc n) (x::int) \<noteq> 0"
proof (induction n arbitrary: x)
  case 0
  show ?case by (auto simp: bit_0 even_or_iff take_bit_Suc mod2_eq_if)
next
  case (Suc n)
  show ?case
  proof (cases "even x")
    case True
    then obtain z where z: "x = 2 * z" by (elim evenE)
    have "bit (x OR - x) (Suc n) = bit (z OR - z) n"
    proof -
      have "bit (2 * z) (Suc n) = bit z n" "bit (2 * - z) (Suc n) = bit (- z) n"
        by (simp_all add: bit_Suc del: mult_minus_right)
      then show ?thesis unfolding z bit_or_iff by simp
    qed
    also have "\<dots> = (take_bit (Suc n) z \<noteq> 0)" by (rule Suc)
    finally show ?thesis unfolding z by (simp add: take_bit_Suc [of "Suc n"])
  next
    case False
    then have "take_bit (Suc (Suc n)) x \<noteq> 0" by (simp add: take_bit_Suc) presburger
    moreover have "bit (x OR - x) (Suc n)"
    proof -
      have "- x = NOT x + 1" by (simp add: minus_eq_not_plus_1)
      moreover have "NOT x + 1 = NOT x OR 1" using False by (auto intro!: disjunctive_add simp: bit_simps bit_0)
      ultimately show ?thesis by (auto simp: bit_simps)
    qed
    ultimately show ?thesis by simp
  qed
qed

lemma agree_take_zero: "agree w v x y \<Longrightarrow> n < w \<Longrightarrow> take_bit (Suc n) v = 0 \<Longrightarrow> take_bit (Suc n) x = take_bit (Suc n) y"
proof (rule bit_eqI)
  fix m assume a: "agree w v x y" "n < w" "take_bit (Suc n) v = 0"
  have "m < Suc n \<Longrightarrow> \<not> bit v m" using a(3) by (metis bit_0_eq bit_take_bit_iff bot_apply bot_bool_def)
  then show "bit (take_bit (Suc n) x) m = bit (take_bit (Suc n) y) m"
    using a by (auto simp: bit_simps agree_def)
qed

lemma bit_take_Suc: "take_bit (Suc n) x = take_bit (Suc n) y \<Longrightarrow> bit x n = bit y n"
  by (metis bit_take_bit_iff lessI)

text \<open>The Left scheme is sound for every operation whose low bits come from the low bits of its
  arguments.\<close>

definition low_closed :: "(int \<Rightarrow> int \<Rightarrow> int) \<Rightarrow> bool" where
  "low_closed f \<longleftrightarrow> (\<forall>n x y x' y'. take_bit n x = take_bit n x' \<longrightarrow> take_bit n y = take_bit n y' \<longrightarrow>
     take_bit n (f x y) = take_bit n (f x' y'))"

lemma low_closed_arith: "low_closed (+)" "low_closed (-)" "low_closed (*)"
  unfolding low_closed_def take_bit_eq_mod by (auto intro: mod_add_cong mod_diff_cong mod_mult_cong)

lemma agree_left:
  assumes f: "low_closed f" and a: "agree w v1 x1 y1" "agree w v2 x2 y2"
  shows "agree w (take_bit w ((v1 OR v2) OR - (v1 OR v2))) (take_bit w (f x1 x2)) (take_bit w (f y1 y2))"
  unfolding agree_def
proof (intro allI impI)
  fix n assume n: "n < w" and "\<not> bit (take_bit w ((v1 OR v2) OR - (v1 OR v2))) n"
  then have "\<not> bit ((v1 OR v2) OR - (v1 OR v2)) n" unfolding bit_take_bit_iff by blast
  then have "take_bit (Suc n) (v1 OR v2) = 0" unfolding bit_left by blast
  then have "take_bit (Suc n) v1 = 0" "take_bit (Suc n) v2 = 0" by (simp_all add: or_eq_0_iff)
  then have "take_bit (Suc n) (f x1 x2) = take_bit (Suc n) (f y1 y2)"
    using f agree_take_zero [OF a(1) n] agree_take_zero [OF a(2) n] unfolding low_closed_def by blast
  then show "bit (take_bit w (f x1 x2)) n = bit (take_bit w (f y1 y2)) n"
    using n bit_take_Suc by (simp add: bit_take_bit_iff)
qed


text \<open>The exact scheme for addition: a carry into a bit is between the carries of the smallest and
  the largest operands the taint allows.\<close>

lemma bit_add_carry:
  fixes a b :: int
  assumes "0 \<le> a" "0 \<le> b"
  shows "bit (a + b) n \<longleftrightarrow> (bit a n \<noteq> (bit b n \<noteq> (2 ^ n \<le> take_bit n a + take_bit n b)))"
proof -
  have "a + b = 2 ^ n * (a div 2 ^ n + b div 2 ^ n) + (take_bit n a + take_bit n b)"
    by (simp add: take_bit_eq_mod algebra_simps)
  then have "(a + b) div 2 ^ n = (a div 2 ^ n + b div 2 ^ n) + (take_bit n a + take_bit n b) div 2 ^ n"
    by (metis div_mult_self4 power_not_zero zero_neq_numeral add.commute)
  moreover have "(take_bit n a + take_bit n b) div 2 ^ n = of_bool (2 ^ n \<le> take_bit n a + take_bit n b)"
  proof (cases "2 ^ n \<le> take_bit n a + take_bit n b")
    case True
    have "take_bit n a + take_bit n b < 2 ^ n + 2 ^ n" using take_bit_int_less_exp [of n a] take_bit_int_less_exp [of n b] by linarith
    then show ?thesis using True by (simp add: div_pos_geq)
  qed (simp add: div_pos_pos_trivial)
  ultimately show ?thesis by (simp add: bit_iff_odd) blast
qed

lemma bit_sub_borrow:
  fixes a b :: int
  shows "bit (a - b) n \<longleftrightarrow> (bit a n \<noteq> (bit b n \<noteq> (take_bit n a < take_bit n b)))"
proof -
  have "a - b = 2 ^ n * (a div 2 ^ n - b div 2 ^ n) + (take_bit n a - take_bit n b)"
    by (simp add: take_bit_eq_mod algebra_simps)
  then have "(a - b) div 2 ^ n = (a div 2 ^ n - b div 2 ^ n) + (take_bit n a - take_bit n b) div 2 ^ n"
    by (metis div_mult_self4 power_not_zero zero_neq_numeral add.commute)
  moreover have "(take_bit n a - take_bit n b) div 2 ^ n = (if take_bit n a < take_bit n b then - 1 else 0)"
  proof -
    let ?d = "take_bit n a - take_bit n b"
    have "- (2 ^ n) \<le> ?d" "?d < 2 ^ n"
      using take_bit_int_less_exp [of n a] take_bit_int_less_exp [of n b] take_bit_nonnegative [of n a] take_bit_nonnegative [of n b]
      by linarith+
    then show ?thesis
      using int_div_pos_eq [of ?d "2 ^ n" "- 1" "?d + 2 ^ n"] int_div_pos_eq [of ?d "2 ^ n" 0 ?d] by auto
  qed
  ultimately show ?thesis by (auto simp: bit_iff_odd)
qed

lemma take_bit_mono_bits:
  fixes x y :: int
  assumes "\<And>k. k < n \<Longrightarrow> bit x k \<Longrightarrow> bit y k"
  shows "take_bit n x \<le> take_bit n y"
proof -
  have "take_bit n x = take_bit n x AND take_bit n y"
    by (rule bit_eqI) (use assms in \<open>auto simp: bit_simps\<close>)
  then show ?thesis by (metis AND_upper2 take_bit_nonnegative)
qed


text \<open>\<open>lowest v x\<close> and \<open>highest v x\<close>: the least and the greatest value that agrees with \<open>x\<close> up to \<open>v\<close>.\<close>

lemma agree_between:
  assumes "agree w v x y" "n < w"
  shows "take_bit n (x AND NOT v) \<le> take_bit n y" "take_bit n y \<le> take_bit n (x OR v)"
proof -
  show "take_bit n (x AND NOT v) \<le> take_bit n y"
    by (rule take_bit_mono_bits) (use assms in \<open>auto simp: agree_def bit_simps\<close>)
  show "take_bit n y \<le> take_bit n (x OR v)"
    by (rule take_bit_mono_bits) (use assms in \<open>auto simp: agree_def bit_simps\<close>)
qed

lemma take_min_le: "take_bit n (a AND take_bit w (NOT q)) \<le> take_bit n (a::int)"
  by (rule take_bit_mono_bits) (simp add: bit_simps)

definition addsub_val :: "bool \<Rightarrow> nat \<Rightarrow> int \<Rightarrow> int \<Rightarrow> int \<Rightarrow> int \<Rightarrow> int" where
  "addsub_val add w qa qb a b = (let
     a_min = a AND take_bit w (NOT qa); b_min = b AND take_bit w (NOT qb); a_max = a OR qa; b_max = b OR qb in
     (qa OR qb) OR (if add then take_bit w (a_min + b_min) XOR take_bit w (a_max + b_max)
                    else take_bit w (a_min - b_max) XOR take_bit w (a_max - b_min)))"

lemma take_and_not: "n \<le> w \<Longrightarrow> take_bit n (a AND take_bit w (NOT q)) = take_bit n (a AND NOT q)"
  by (rule bit_eqI) (auto simp: bit_simps)

lemma agree_add_exact:
  assumes a: "agree w qa a a'" and b: "agree w qb b b'"
    and pos: "0 \<le> a" "0 \<le> b" "0 \<le> a'" "0 \<le> b'" "0 \<le> qa" "0 \<le> qb"
  shows "agree w (addsub_val True w qa qb a b) (take_bit w (a + b)) (take_bit w (a' + b'))"
  unfolding agree_def
proof (intro allI impI)
  fix n assume n: "n < w" and nv: "\<not> bit (addsub_val True w qa qb a b) n"
  let ?amin = "a AND take_bit w (NOT qa)" and ?bmin = "b AND take_bit w (NOT qb)"
  have q: "\<not> bit qa n" "\<not> bit qb n"
    and c: "bit (?amin + ?bmin) n = bit ((a OR qa) + (b OR qb)) n"
    using nv n by (simp_all add: addsub_val_def Let_def bit_or_iff bit_xor_iff bit_take_bit_iff)
  have min: "bit ?amin n = bit a n" "bit ?bmin n = bit b n" and max: "bit (a OR qa) n = bit a n" "bit (b OR qb) n = bit b n"
    using q n by (simp_all add: bit_simps)
  let ?c = "\<lambda>x y. 2 ^ n \<le> take_bit n x + take_bit n (y :: int)"
  have eq: "?c ?amin ?bmin = ?c (a OR qa) (b OR qb)"
    using c min max pos bit_add_carry [of ?amin ?bmin n] bit_add_carry [of "a OR qa" "b OR qb" n] by auto
  have "take_bit n ?amin = take_bit n (a AND NOT qa)" "take_bit n ?bmin = take_bit n (b AND NOT qb)"
    using n by (simp_all add: take_and_not)
  then have lo: "take_bit n ?amin \<le> take_bit n a'" "take_bit n ?bmin \<le> take_bit n b'"
    using agree_between(1) [OF a n] agree_between(1) [OF b n] by metis+
  note lo' = take_min_le [of n a w qa] take_min_le [of n b w qb]
  have hi: "take_bit n a' \<le> take_bit n (a OR qa)" "take_bit n b' \<le> take_bit n (b OR qb)"
      "take_bit n a \<le> take_bit n (a OR qa)" "take_bit n b \<le> take_bit n (b OR qb)"
    using agree_between(2) [OF a n] agree_between(2) [OF b n] agree_between(2) [OF agree_refl n, of a qa]
      agree_between(2) [OF agree_refl n, of b qb] by blast+
  have "?c a b = ?c a' b'" using eq lo lo' hi by linarith
  moreover have "bit a n = bit a' n" "bit b n = bit b' n" using a b n q by (auto simp: agree_def)
  ultimately show "bit (take_bit w (a + b)) n = bit (take_bit w (a' + b')) n"
    unfolding bit_take_bit_iff bit_add_carry [OF pos(1,2)] bit_add_carry [OF pos(3,4)] by blast
qed

lemma agree_sub_exact:
  assumes a: "agree w qa a a'" and b: "agree w qb b b'"
  shows "agree w (addsub_val False w qa qb a b) (take_bit w (a - b)) (take_bit w (a' - b'))"
  unfolding agree_def
proof (intro allI impI)
  fix n assume n: "n < w" and nv: "\<not> bit (addsub_val False w qa qb a b) n"
  let ?amin = "a AND take_bit w (NOT qa)" and ?bmin = "b AND take_bit w (NOT qb)"
  have q: "\<not> bit qa n" "\<not> bit qb n"
    and c: "bit (?amin - (b OR qb)) n = bit ((a OR qa) - ?bmin) n"
    using nv n by (simp_all add: addsub_val_def Let_def bit_or_iff bit_xor_iff bit_take_bit_iff)
  have min: "bit ?amin n = bit a n" "bit ?bmin n = bit b n" and max: "bit (a OR qa) n = bit a n" "bit (b OR qb) n = bit b n"
    using q n by (simp_all add: bit_simps)
  let ?c = "\<lambda>x y. take_bit n x < take_bit n (y :: int)"
  have eq: "?c ?amin (b OR qb) = ?c (a OR qa) ?bmin"
    using c min max bit_sub_borrow [of ?amin "b OR qb" n] bit_sub_borrow [of "a OR qa" ?bmin n] by auto
  have "take_bit n ?amin = take_bit n (a AND NOT qa)" "take_bit n ?bmin = take_bit n (b AND NOT qb)"
    using n by (simp_all add: take_and_not)
  then have lo: "take_bit n ?amin \<le> take_bit n a'" "take_bit n ?bmin \<le> take_bit n b'"
    using agree_between(1) [OF a n] agree_between(1) [OF b n] by metis+
  note lo' = take_min_le [of n a w qa] take_min_le [of n b w qb]
  have hi: "take_bit n a' \<le> take_bit n (a OR qa)" "take_bit n b' \<le> take_bit n (b OR qb)"
      "take_bit n a \<le> take_bit n (a OR qa)" "take_bit n b \<le> take_bit n (b OR qb)"
    using agree_between(2) [OF a n] agree_between(2) [OF b n] agree_between(2) [OF agree_refl n, of a qa]
      agree_between(2) [OF agree_refl n, of b qb] by blast+
  have "?c a b = ?c a' b'" using eq lo lo' hi by linarith
  moreover have "bit a n = bit a' n" "bit b n = bit b' n" using a b n q by (auto simp: agree_def)
  ultimately show "bit (take_bit w (a - b)) n = bit (take_bit w (a' - b')) n"
    unfolding bit_take_bit_iff bit_sub_borrow by blast
qed


section \<open>Comparisons, shifts, lanes\<close>

definition cmp_val :: "nat \<Rightarrow> int \<Rightarrow> int \<Rightarrow> int \<Rightarrow> int \<Rightarrow> int" where
  "cmp_val w qa qb a b = pess (Suc 0) (pess w (qa OR qb) AND
     pess w (of_bool ((qa OR qb) OR take_bit w (NOT (a XOR b)) = mask w)))"

text \<open>Equality is known if nothing is tainted, or if two untainted bits differ.\<close>

lemma cmp_exact:
  assumes a: "agree w qa a a'" and b: "agree w qb b b'" and w: "0 < w"
    and fits: "\<And>n. bit qa n \<Longrightarrow> n < w" "\<And>n. bit qb n \<Longrightarrow> n < w" "\<And>n. bit a n \<Longrightarrow> n < w" "\<And>n. bit b n \<Longrightarrow> n < w"
      "\<And>n. bit a' n \<Longrightarrow> n < w" "\<And>n. bit b' n \<Longrightarrow> n < w"
    and z: "cmp_val w qa qb a b = 0"
  shows "(a = b) = (a' = b')"
proof (cases "qa OR qb = 0")
  case True
  then have "qa = 0" "qb = 0" by (simp_all add: or_eq_0_iff)
  then have "bit a n = bit a' n" "bit b n = bit b' n" for n
    by (cases "n < w"; use a b fits(3-6) [of n] in \<open>auto simp: agree_def\<close>)+
  then show ?thesis by (simp add: bit_eq_iff)
next
  case False
  have m: "mask w AND mask w = (mask w :: int)" by simp
  have "(qa OR qb) OR take_bit w (NOT (a XOR b)) \<noteq> mask w"
    using z False w by (auto simp: cmp_val_def pess_def split: if_splits)
  then obtain n where n: "bit ((qa OR qb) OR take_bit w (NOT (a XOR b))) n \<noteq> bit (mask w :: int) n"
    by (metis bit_eqI)
  then have "n < w" "\<not> bit qa n" "\<not> bit qb n" "bit a n \<noteq> bit b n"
    using fits(1,2) by (auto simp: bit_simps)
  moreover from this have "bit a' n \<noteq> bit b' n" using a b by (auto simp: agree_def)
  ultimately show ?thesis by auto
qed

lemma agree_cmp:
  assumes "v = 0 \<Longrightarrow> p = p'"
  shows "agree (Suc 0) (pess (Suc 0) v) (of_bool p) (of_bool p')"
  by (rule agree_pess) (use assms in simp)

text \<open>A shift by an untainted amount shifts the taint along.\<close>

lemma agree_shl: "agree w v x y \<Longrightarrow> agree w (take_bit w (push_bit k v)) (take_bit w (push_bit k x)) (take_bit w (push_bit k y))"
  by (auto simp: agree_def bit_simps)

lemma agree_shr: "agree w v x y \<Longrightarrow> (\<And>n. bit x n \<Longrightarrow> n < w) \<Longrightarrow> (\<And>n. bit y n \<Longrightarrow> n < w) \<Longrightarrow> agree w (drop_bit k v) (drop_bit k x) (drop_bit k y)"
  unfolding agree_def bit_drop_bit_eq comp_def by (metis add.commute)

lemma agree_sar:
  "agree w v x y \<Longrightarrow> 0 < w \<Longrightarrow> agree w (take_bit w (drop_bit k (signed_take_bit (w - 1) v)))
     (take_bit w (drop_bit k (signed_take_bit (w - 1) x))) (take_bit w (drop_bit k (signed_take_bit (w - 1) y)))"
  by (auto simp: agree_def bit_simps min_def)

lemma agree_or_left: "agree w v x y \<Longrightarrow> agree w (v OR u) x y"
  by (simp add: agree_def bit_or_iff)

lemma agree_or_right: "agree w v x y \<Longrightarrow> agree w (u OR v) x y"
  by (simp add: agree_def bit_or_iff)

text \<open>A lane of V bits that is not zero taints the whole lane.\<close>

lemma bit_lanes:
  assumes "0 < w"
  shows "bit (lanes w k f x) n \<longleftrightarrow> n < w * k \<and> bit (f (take_bit w (drop_bit (w * (n div w)) x))) (n mod w)"
  using assms
proof (induction k arbitrary: x n)
  case (Suc k)
  show ?case
  proof (cases "n < w")
    case True
    then show ?thesis by (simp add: bit_simps)
  next
    case False
    then obtain m where m: "n = w + m" by (metis le_Suc_ex not_less)
    have "n div w = Suc (m div w)" "n mod w = m mod w" using Suc.prems m by (simp_all add: div_add_self1)
    then show ?thesis
      using Suc.IH [OF Suc.prems, of "drop_bit w x" m] m by (simp add: bit_simps add.commute)
  qed
qed simp

definition lane :: "nat \<Rightarrow> nat \<Rightarrow> int \<Rightarrow> int" where
  "lane w i x = take_bit w (drop_bit (w * i) x)"

lemma lane_agree:
  assumes a: "agree (w * k) v x y" and i: "i < k" and v: "lane w i v = 0"
  shows "lane w i x = lane w i y"
proof (rule bit_eqI)
  fix m
  show "bit (lane w i x) m = bit (lane w i y) m"
  proof (cases "m < w")
    case True
    then have "w * i + m < w * k" using i by (metis Suc_leI add_less_cancel_left less_le_trans mult_Suc_right mult_le_mono2 add.commute)
    moreover have "\<not> bit v (w * i + m)" using v True by (auto simp: lane_def bit_simps dest!: arg_cong [of _ _ "\<lambda>z. bit z m"])
    ultimately show ?thesis using a True by (simp add: lane_def agree_def bit_simps)
  qed (simp add: lane_def bit_simps)
qed

lemma agree_lanesI:
  assumes w: "0 < w" and f: "\<And>i. i < k \<Longrightarrow> lane w i v = 0 \<Longrightarrow> lane w i z = lane w i z'"
  shows "agree (w * k) (lanes w k (pess w) v) z z'"
  unfolding agree_def
proof (intro allI impI)
  fix n assume n: "n < w * k" and nb: "\<not> bit (lanes w k (pess w) v) n"
  let ?i = "n div w"
  have nm: "n = w * ?i + n mod w" "n mod w < w" using w by simp_all
  have i: "?i < k" using n w by (simp add: less_mult_imp_div_less mult.commute)
  have "lane w ?i v = 0"
    using nb n w nm(2) unfolding bit_lanes [OF w] lane_def by (auto simp: pess_def bit_mask_iff split: if_splits)
  then have "bit (lane w ?i z) (n mod w) = bit (lane w ?i z') (n mod w)" using f [OF i] by simp
  then show "bit z n = bit z' n" using nm by (simp add: lane_def bit_simps)
qed

lemma lane_or_zero: "lane w i (x OR y) = 0 \<longleftrightarrow> lane w i x = 0 \<and> lane w i y = 0"
  by (simp add: lane_def or_eq_0_iff)

lemma agree_lanes2:
  assumes "0 < w" "agree (w * k) v1 x1 y1" "agree (w * k) v2 x2 y2"
    and "\<And>i. i < k \<Longrightarrow> lane w i x1 = lane w i y1 \<Longrightarrow> lane w i x2 = lane w i y2 \<Longrightarrow> lane w i z = lane w i z'"
  shows "agree (w * k) (lanes w k (pess w) (v1 OR v2)) z z'"
  using assms by (intro agree_lanesI) (auto simp: lane_or_zero intro: lane_agree)

text \<open>A double-width product: the low half by the Left scheme, the high half tainted if anything is.\<close>

lemma left_zero: "0 \<le> v \<Longrightarrow> v < 2 ^ w \<Longrightarrow> take_bit w (v OR - v) = 0 \<longleftrightarrow> v = (0::int)"
proof
  assume v: "0 \<le> v" "v < 2 ^ w" and z: "take_bit w (v OR - v) = 0"
  have "\<not> bit v n" for n
  proof (cases "n < w")
    case True
    then show ?thesis using z by (auto simp: bit_simps dest!: arg_cong [of _ _ "\<lambda>z. bit z n"])
  next
    case False
    have "take_bit w v = v" using v by (simp add: take_bit_int_eq_self_iff)
    then show ?thesis using False by (metis bit_take_bit_iff)
  qed
  then show "v = 0" by (simp add: bit_eq_iff)
qed simp

lemma agree_mull:
  assumes a: "agree w v1 x1 y1" "agree w v2 x2 y2" and v: "0 \<le> v1" "v1 < 2 ^ w" "0 \<le> v2" "v2 < 2 ^ w"
    and eq: "v1 = 0 \<Longrightarrow> x1 = y1" "v2 = 0 \<Longrightarrow> x2 = y2" "x1 = y1 \<Longrightarrow> x2 = y2 \<Longrightarrow> z = z'"
    and z: "take_bit w z = take_bit w (x1 * x2)" "take_bit w z' = take_bit w (y1 * y2)"
  defines "l \<equiv> take_bit w ((v1 OR v2) OR - (v1 OR v2))"
  shows "agree (w + w) (push_bit w (pess w l) OR l) z z'"
proof (cases "v1 OR v2 = 0")
  case True
  then show ?thesis using eq by (simp add: or_eq_0_iff)
next
  case False
  have "v1 OR v2 < 2 ^ w" using v by (simp add: OR_upper)
  then have "l \<noteq> 0" using False v left_zero [of "v1 OR v2" w] by (simp add: l_def)
  then have p: "pess w l = mask w" by (simp add: pess_def)
  have lo: "agree w l (take_bit w z) (take_bit w z')"
    using agree_left [OF low_closed_arith(3) a] unfolding l_def z .
  show ?thesis unfolding agree_def
  proof (intro allI impI)
    fix n assume n: "n < w + w" "\<not> bit (push_bit w (pess w l) OR l) n"
    then have "n < w" unfolding p by (auto simp: bit_simps)
    then show "bit z n = bit z' n" using n lo by (auto simp: agree_def bit_simps)
  qed
qed

text \<open>The lowest set bit and the zeros below it are all that a count of trailing zeros depends on.\<close>

definition ctz_val :: "nat \<Rightarrow> int \<Rightarrow> int \<Rightarrow> int" where
  "ctz_val w v a = pess w (v AND (a XOR take_bit w (a - 1)))"

lemma bit_below: "bit (a XOR (a - 1)) n \<longleftrightarrow> take_bit n (a::int) = 0"
proof (cases n)
  case 0
  then show ?thesis by (simp add: bit_0 even_xor_iff)
next
  case (Suc m)
  have "take_bit n a < 1 \<longleftrightarrow> take_bit n a = 0" using take_bit_nonnegative [of n a] by linarith
  then show ?thesis using bit_sub_borrow [of a 1 n] Suc by (auto simp: bit_xor_iff bit_1_iff)
qed

lemma trailing_zeros_eq:
  "k < w \<Longrightarrow> bit x k \<Longrightarrow> (\<And>j. j < k \<Longrightarrow> \<not> bit x j) \<Longrightarrow> trailing_zeros w x = k"
proof (induction w arbitrary: x k)
  case (Suc w)
  show ?case
  proof (cases k)
    case 0
    then show ?thesis using Suc.prems by (simp add: bit_0)
  next
    case (Suc m)
    then have "even x" using Suc.prems(3) [of 0] by (simp add: bit_0)
    moreover have "trailing_zeros w (x div 2) = m"
      by (rule Suc.IH) (use Suc.prems Suc in \<open>auto simp flip: bit_Suc\<close>)
    ultimately show ?thesis using Suc by simp
  qed
qed simp

lemma agree_ctz:
  assumes a: "agree w v x y" and fits: "\<And>n. bit x n \<Longrightarrow> n < w" and nz: "x \<noteq> 0" and z: "ctz_val w v x = 0"
  shows "y \<noteq> 0 \<and> trailing_zeros w y = trailing_zeros w x"
proof -
  have "\<exists>k. bit x k" using nz by (metis bit_0_eq bit_eqI bot_apply bot_bool_def)
  then obtain k where k: "bit x k" "\<And>j. j < k \<Longrightarrow> \<not> bit x j"
    by (metis LeastI_ex not_less_Least)
  have kw: "k < w" using fits k(1) .
  have "v AND (x XOR take_bit w (x - 1)) = 0" using z kw by (auto simp: ctz_val_def pess_def split: if_splits)
  then have vb: "\<not> bit v n" if "n \<le> k" for n
  proof -
    assume v0: "v AND (x XOR take_bit w (x - 1)) = 0"
    have "take_bit n x = 0" by (rule bit_eqI) (use k(2) that in \<open>auto simp: bit_simps\<close>)
    then have "bit (x XOR (x - 1)) n" by (simp only: bit_below)
    then have "bit (x XOR take_bit w (x - 1)) n" using that kw by (auto simp: bit_xor_iff bit_take_bit_iff)
    moreover have "\<not> bit (v AND (x XOR take_bit w (x - 1))) n" using v0 by simp
    ultimately show ?thesis unfolding bit_and_iff by blast
  qed
  have y: "bit y k" "\<And>j. j < k \<Longrightarrow> \<not> bit y j"
    using a vb k kw unfolding agree_def by (metis le_refl, metis less_imp_le less_trans)
  then have "y \<noteq> 0" by auto
  then show ?thesis using trailing_zeros_eq [OF kw k] trailing_zeros_eq [OF kw y] by simp
qed

section \<open>Assembling, widening and narrowing\<close>

lemma agree_hl:
  assumes "agree u v1 x1 y1" "agree n v2 x2 y2" "\<And>m. bit x2 m \<Longrightarrow> m < n" "\<And>m. bit y2 m \<Longrightarrow> m < n"
  shows "agree (n + u) (push_bit n v1 OR v2) (push_bit n x1 OR x2) (push_bit n y1 OR y2)"
  unfolding agree_def
proof (intro allI impI)
  fix m assume m: "m < n + u" "\<not> bit (push_bit n v1 OR v2) m"
  show "bit (push_bit n x1 OR x2) m = bit (push_bit n y1 OR y2) m"
  proof (cases "m < n")
    case True
    then show ?thesis using m assms(2) by (auto simp: agree_def bit_simps)
  next
    case False
    then have "\<not> bit x2 m" "\<not> bit y2 m" "m - n < u" using assms(3,4) m by auto
    then show ?thesis using m False assms(1) by (auto simp: agree_def bit_simps)
  qed
qed

lemma agree_zext: "agree w v x y \<Longrightarrow> (\<And>n. bit x n \<Longrightarrow> n < w) \<Longrightarrow> (\<And>n. bit y n \<Longrightarrow> n < w) \<Longrightarrow> agree w' v x y"
  unfolding agree_def by metis

lemma agree_trunc: "agree w v x y \<Longrightarrow> w' \<le> w \<Longrightarrow> agree w' (take_bit w' v) (take_bit w' x) (take_bit w' y)"
  by (auto simp: agree_def bit_simps)

lemma agree_bits_at: "agree w v x y \<Longrightarrow> n + w' \<le> w \<Longrightarrow>
    agree w' (take_bit w' (drop_bit n v)) (take_bit w' (drop_bit n x)) (take_bit w' (drop_bit n y))"
  by (auto simp: agree_def bit_simps)

lemma agree_sext: "agree w v x y \<Longrightarrow> 0 < w \<Longrightarrow>
    agree w' (take_bit w' (signed_take_bit (w - 1) v)) (take_bit w' (signed_take_bit (w - 1) x)) (take_bit w' (signed_take_bit (w - 1) y))"
  by (auto simp: agree_def bit_simps min_def)

lemma agree_not: "agree w v x y \<Longrightarrow> agree w v (take_bit w (NOT x)) (take_bit w (NOT y))"
  by (simp add: agree_def bit_simps)

section \<open>Lanes of the operators\<close>

text \<open>The operators on pairs of vectors that work lane by lane, by the width of the lanes.\<close>

definition lane_ops :: "(IROp list \<times> nat) list" where
  "lane_ops = [
     ([Iop_Add8x4, Iop_HAdd8Ux4, Iop_HAdd8Sx4, Iop_Sub8x4, Iop_HSub8Ux4, Iop_HSub8Sx4, Iop_QSub8Ux4,
      Iop_QAdd8Ux4, Iop_QSub8Sx4, Iop_QAdd8Sx4, Iop_Min8Ux8, Iop_Min8Sx8, Iop_Max8Ux8, Iop_Max8Sx8,
      Iop_Avg8Ux8, Iop_QSub8Sx8, Iop_QSub8Ux8, Iop_Sub8x8, Iop_CmpGT8Sx8, Iop_CmpGT8Ux8, Iop_CmpEQ8x8,
      Iop_QAdd8Sx8, Iop_QAdd8Ux8, Iop_QSal8x8, Iop_QShl8x8, Iop_Add8x8, Iop_Mul8x8,
      Iop_PolynomialMul8x8, Iop_Rsh8Sx16, Iop_Rsh8Ux16, Iop_QSub8Ux16, Iop_QSub8Sx16, Iop_Sub8x16,
      Iop_Min8Ux16, Iop_Min8Sx16, Iop_Max8Ux16, Iop_Max8Sx16, Iop_CmpGT8Sx16, Iop_CmpGT8Ux16,
      Iop_CmpEQ8x16, Iop_Avg8Ux16, Iop_Avg8Sx16, Iop_QAdd8Ux16, Iop_QAdd8Sx16, Iop_QSal8x16,
      Iop_QShl8x16, Iop_Add8x16, Iop_Mul8x16, Iop_PolynomialMul8x16, Iop_QSub8Ux32, Iop_QSub8Sx32,
      Iop_Sub8x32, Iop_Min8Ux32, Iop_Min8Sx32, Iop_Max8Ux32, Iop_Max8Sx32, Iop_CmpGT8Sx32,
      Iop_CmpEQ8x32, Iop_Avg8Ux32, Iop_QAdd8Ux32, Iop_QAdd8Sx32, Iop_Add8x32], 8),
     ([Iop_Add16x2, Iop_HAdd16Ux2, Iop_HAdd16Sx2, Iop_Sub16x2, Iop_HSub16Ux2, Iop_HSub16Sx2,
      Iop_QAdd16Sx2, Iop_QSub16Sx2, Iop_QSub16Ux2, Iop_QAdd16Ux2, Iop_Min16Sx4, Iop_Min16Ux4,
      Iop_Max16Sx4, Iop_Max16Ux4, Iop_Avg16Ux4, Iop_QSub16Ux4, Iop_QSub16Sx4, Iop_Sub16x4, Iop_Mul16x4,
      Iop_MulHi16Sx4, Iop_MulHi16Ux4, Iop_CmpGT16Sx4, Iop_CmpGT16Ux4, Iop_CmpEQ16x4, Iop_QAdd16Sx4,
      Iop_QAdd16Ux4, Iop_QSal16x4, Iop_QShl16x4, Iop_Add16x4, Iop_QDMulHi16Sx4, Iop_QRDMulHi16Sx4,
      Iop_Rsh16Sx8, Iop_Rsh16Ux8, Iop_QSub16Ux8, Iop_QSub16Sx8, Iop_Sub16x8, Iop_Mul16x8,
      Iop_MulHi16Sx8, Iop_MulHi16Ux8, Iop_Min16Sx8, Iop_Min16Ux8, Iop_Max16Sx8, Iop_Max16Ux8,
      Iop_CmpGT16Sx8, Iop_CmpGT16Ux8, Iop_CmpEQ16x8, Iop_Avg16Ux8, Iop_Avg16Sx8, Iop_QAdd16Ux8,
      Iop_QAdd16Sx8, Iop_QSal16x8, Iop_QShl16x8, Iop_Add16x8, Iop_QDMulHi16Sx8, Iop_QRDMulHi16Sx8,
      Iop_QSub16Ux16, Iop_QSub16Sx16, Iop_Sub16x16, Iop_Mul16x16, Iop_MulHi16Sx16, Iop_MulHi16Ux16,
      Iop_Min16Sx16, Iop_Min16Ux16, Iop_Max16Sx16, Iop_Max16Ux16, Iop_CmpGT16Sx16, Iop_CmpEQ16x16,
      Iop_Avg16Ux16, Iop_QAdd16Ux16, Iop_QAdd16Sx16, Iop_Add16x16], 16),
     ([Iop_Sub32x2, Iop_Mul32x2, Iop_Max32Sx2, Iop_Max32Ux2, Iop_Min32Sx2, Iop_Min32Ux2, Iop_CmpGT32Sx2,
      Iop_CmpGT32Ux2, Iop_CmpEQ32x2, Iop_Add32x2, Iop_QAdd32Ux2, Iop_QAdd32Sx2, Iop_QSub32Ux2,
      Iop_QSub32Sx2, Iop_QSal32x2, Iop_QShl32x2, Iop_QDMulHi32Sx2, Iop_QRDMulHi32Sx2, Iop_Rsh32Sx4,
      Iop_Rsh32Ux4, Iop_Sub32x4, Iop_CmpGT32Sx4, Iop_CmpGT32Ux4, Iop_CmpEQ32x4, Iop_QAdd32Sx4,
      Iop_QAdd32Ux4, Iop_QSub32Sx4, Iop_QSub32Ux4, Iop_QSal32x4, Iop_QShl32x4, Iop_Avg32Ux4,
      Iop_Avg32Sx4, Iop_Add32x4, Iop_Max32Ux4, Iop_Max32Sx4, Iop_Min32Ux4, Iop_Min32Sx4, Iop_Mul32x4,
      Iop_QDMulHi32Sx4, Iop_QRDMulHi32Sx4, Iop_Min32Fx4, Iop_Max32Fx4, Iop_CmpLT32Fx4, Iop_CmpLE32Fx4,
      Iop_CmpEQ32Fx4, Iop_CmpUN32Fx4, Iop_CmpGT32Fx4, Iop_CmpGE32Fx4, Iop_RecipStep32Fx4,
      Iop_RSqrtStep32Fx4, Iop_Sub32Fx2, Iop_Mul32Fx2, Iop_Min32Fx2, Iop_Max32Fx2, Iop_CmpEQ32Fx2,
      Iop_CmpGT32Fx2, Iop_CmpGE32Fx2, Iop_Add32Fx2, Iop_RecipStep32Fx2, Iop_RSqrtStep32Fx2,
      Iop_Max32Fx8, Iop_Min32Fx8, Iop_Sub32x8, Iop_CmpGT32Sx8, Iop_CmpEQ32x8, Iop_Add32x8, Iop_Max32Ux8,
      Iop_Max32Sx8, Iop_Min32Ux8, Iop_Min32Sx8, Iop_Mul32x8], 32),
     ([Iop_Rsh64Sx2, Iop_Rsh64Ux2, Iop_Sub64x2, Iop_Add64x2, Iop_Max64Sx2, Iop_Max64Ux2, Iop_Min64Sx2,
      Iop_Min64Ux2, Iop_CmpEQ64x2, Iop_CmpGT64Sx2, Iop_CmpGT64Ux2, Iop_QSal64x2, Iop_QShl64x2,
      Iop_QAdd64Ux2, Iop_QAdd64Sx2, Iop_QSub64Ux2, Iop_QSub64Sx2, Iop_Min64Fx2, Iop_Max64Fx2,
      Iop_CmpLT64Fx2, Iop_CmpLE64Fx2, Iop_CmpEQ64Fx2, Iop_CmpUN64Fx2, Iop_RecipStep64Fx2,
      Iop_RSqrtStep64Fx2, Iop_Max64Fx4, Iop_Min64Fx4, Iop_Sub64x4, Iop_Add64x4, Iop_CmpEQ64x4,
      Iop_CmpGT64Sx4], 64)]"

definition lane_groups :: label_tree where
  "lane_groups =
     Below Iop_Avg16Ux8 (Below Iop_CmpEQ32x2 (Below Iop_Mul32x2 (Below Iop_QAdd32Sx2 (Below Iop_Add32x2
     (Below Iop_Max32Fx2 (Below Iop_Add8x4 (Group 1) (Group 0)) (Below Iop_Add8x8 (Group 2) (Below
     Iop_Add16x4 (Group 0) (Group 1)))) (Below Iop_QAdd32Ux2 (Below Iop_QAdd8Ux8 (Group 2) (Below
     Iop_QAdd16Ux4 (Group 0) (Group 1))) (Below Iop_QAdd8Sx8 (Group 2) (Below Iop_QAdd16Sx4 (Group 0)
     (Group 1))))) (Below Iop_QSub32Ux2 (Below Iop_Sub32x2 (Below Iop_Sub8x8 (Group 2) (Below Iop_Sub16x4
     (Group 0) (Group 1))) (Below Iop_QSub8Ux8 (Group 2) (Below Iop_QSub16Ux4 (Group 0) (Group 1))))
     (Below Iop_QSub32Sx2 (Below Iop_QSub8Sx8 (Group 2) (Below Iop_QSub16Sx4 (Group 0) (Group 1))) (Below
     Iop_Mul8x8 (Group 2) (Below Iop_Mul16x4 (Group 0) (Group 1)))))) (Below Iop_Max32Sx2 (Below
     Iop_QRDMulHi16Sx4 (Below Iop_PolynomialMul8x8 (Below Iop_MulHi16Ux4 (Group 2) (Group 1)) (Below
     Iop_QDMulHi16Sx4 (Group 0) (Below Iop_QDMulHi32Sx2 (Group 1) (Group 2)))) (Below Iop_Avg16Ux4 (Below
     Iop_QRDMulHi32Sx2 (Group 1) (Below Iop_Avg8Ux8 (Group 2) (Group 0))) (Below Iop_Max8Sx8 (Group 1)
     (Below Iop_Max16Sx4 (Group 0) (Group 1))))) (Below Iop_Min32Sx2 (Below Iop_Max32Ux2 (Below
     Iop_Max8Ux8 (Group 2) (Below Iop_Max16Ux4 (Group 0) (Group 1))) (Below Iop_Min8Sx8 (Group 2) (Below
     Iop_Min16Sx4 (Group 0) (Group 1)))) (Below Iop_Min32Ux2 (Below Iop_Min8Ux8 (Group 2) (Below
     Iop_Min16Ux4 (Group 0) (Group 1))) (Below Iop_CmpEQ8x8 (Group 2) (Below Iop_CmpEQ16x4 (Group 0)
     (Group 1))))))) (Below Iop_QAdd16Sx8 (Below Iop_QSal16x4 (Below Iop_CmpGT16Sx4 (Below Iop_CmpGT16Ux4
     (Below Iop_CmpGT8Ux8 (Group 2) (Group 0)) (Below Iop_CmpGT32Ux2 (Group 1) (Below Iop_CmpGT8Sx8
     (Group 2) (Group 0)))) (Below Iop_QShl16x4 (Below Iop_CmpGT32Sx2 (Group 1) (Below Iop_QShl8x8 (Group
     2) (Group 0))) (Below Iop_QShl32x2 (Group 1) (Below Iop_QSal8x8 (Group 2) (Group 0))))) (Below
     Iop_Add64x2 (Below Iop_Add8x16 (Below Iop_QSal32x2 (Group 1) (Below Iop_Max64Fx2 (Group 2) (Group
     3))) (Below Iop_Add16x8 (Group 0) (Below Iop_Add32x4 (Group 1) (Group 2)))) (Below Iop_QAdd32Ux4
     (Below Iop_QAdd8Ux16 (Group 3) (Below Iop_QAdd16Ux8 (Group 0) (Group 1))) (Below Iop_QAdd64Ux2
     (Group 2) (Below Iop_QAdd8Sx16 (Group 3) (Group 0)))))) (Below Iop_QSub8Sx16 (Below Iop_Sub32x4
     (Below Iop_QAdd64Sx2 (Below Iop_QAdd32Sx4 (Group 1) (Group 2)) (Below Iop_Sub8x16 (Group 3) (Below
     Iop_Sub16x8 (Group 0) (Group 1)))) (Below Iop_QSub16Ux8 (Below Iop_Sub64x2 (Group 2) (Below
     Iop_QSub8Ux16 (Group 3) (Group 0))) (Below Iop_QSub32Ux4 (Group 1) (Below Iop_QSub64Ux2 (Group 2)
     (Group 3))))) (Below Iop_Mul32x4 (Below Iop_QSub64Sx2 (Below Iop_QSub16Sx8 (Group 0) (Below
     Iop_QSub32Sx4 (Group 1) (Group 2))) (Below Iop_Mul8x16 (Group 3) (Below Iop_Mul16x8 (Group 0) (Group
     1)))) (Below Iop_QRDMulHi16Sx8 (Below Iop_MulHi16Ux8 (Group 2) (Below Iop_QDMulHi32Sx4 (Group 1)
     (Group 2))) (Below Iop_QRDMulHi32Sx4 (Group 1) (Below Iop_PolynomialMul8x16 (Group 2) (Group
     0)))))))) (Below Iop_Rsh16Ux8 (Below Iop_CmpEQ32x4 (Below Iop_Max32Ux4 (Below Iop_Max8Sx16 (Below
     Iop_Avg8Sx16 (Below Iop_Avg32Ux4 (Group 1) (Group 2)) (Below Iop_Avg16Sx8 (Group 0) (Below
     Iop_Avg32Sx4 (Group 1) (Group 2)))) (Below Iop_Max64Sx2 (Below Iop_Max16Sx8 (Group 0) (Below
     Iop_Max32Sx4 (Group 1) (Group 2))) (Below Iop_Max8Ux16 (Group 3) (Below Iop_Max16Ux8 (Group 0)
     (Group 1))))) (Below Iop_Min8Ux16 (Below Iop_Min16Sx8 (Below Iop_Max64Ux2 (Group 2) (Below
     Iop_Min8Sx16 (Group 3) (Group 0))) (Below Iop_Min32Sx4 (Group 1) (Below Iop_Min64Sx2 (Group 2)
     (Group 3)))) (Below Iop_Min64Ux2 (Below Iop_Min16Ux8 (Group 0) (Below Iop_Min32Ux4 (Group 1) (Group
     2))) (Below Iop_CmpEQ8x16 (Group 3) (Below Iop_CmpEQ16x8 (Group 0) (Group 1)))))) (Below
     Iop_QShl16x8 (Below Iop_CmpGT64Sx2 (Below Iop_CmpGT8Sx16 (Below Iop_CmpEQ64x2 (Group 2) (Group 3))
     (Below Iop_CmpGT16Sx8 (Group 0) (Below Iop_CmpGT32Sx4 (Group 1) (Group 2)))) (Below Iop_CmpGT32Ux4
     (Below Iop_CmpGT8Ux16 (Group 3) (Below Iop_CmpGT16Ux8 (Group 0) (Group 1))) (Below Iop_CmpGT64Ux2
     (Group 2) (Below Iop_QShl8x16 (Group 3) (Group 0))))) (Below Iop_QSal64x2 (Below Iop_QSal8x16 (Below
     Iop_QShl32x4 (Group 1) (Below Iop_QShl64x2 (Group 2) (Group 3))) (Below Iop_QSal16x8 (Group 0)
     (Below Iop_QSal32x4 (Group 1) (Group 2)))) (Below Iop_Rsh32Sx4 (Below Iop_Rsh8Sx16 (Group 3) (Below
     Iop_Rsh16Sx8 (Group 0) (Group 1))) (Below Iop_Rsh64Sx2 (Group 2) (Below Iop_Rsh8Ux16 (Group 3)
     (Group 0))))))) (Below Iop_Max16Ux16 (Below Iop_CmpEQ8x32 (Below Iop_Add32x8 (Below Iop_Rsh64Ux2
     (Below Iop_Rsh32Ux4 (Group 1) (Group 2)) (Below Iop_Add8x32 (Group 3) (Below Iop_Add16x16 (Group 0)
     (Group 1)))) (Below Iop_Sub16x16 (Below Iop_Add64x4 (Group 2) (Below Iop_Sub8x32 (Group 3) (Group
     0))) (Below Iop_Sub32x8 (Group 1) (Below Iop_Sub64x4 (Group 2) (Group 3))))) (Below Iop_CmpGT32Sx8
     (Below Iop_CmpEQ64x4 (Below Iop_CmpEQ16x16 (Group 0) (Below Iop_CmpEQ32x8 (Group 1) (Group 2)))
     (Below Iop_CmpGT8Sx32 (Group 3) (Below Iop_CmpGT16Sx16 (Group 0) (Group 1)))) (Below Iop_Max16Sx16
     (Below Iop_CmpGT64Sx4 (Group 2) (Below Iop_Max8Sx32 (Group 3) (Group 0))) (Below Iop_Max32Sx8 (Group
     1) (Below Iop_Max8Ux32 (Group 2) (Group 0)))))) (Below Iop_QAdd8Ux32 (Below Iop_Min8Ux32 (Below
     Iop_Min8Sx32 (Below Iop_Max32Ux8 (Group 1) (Group 2)) (Below Iop_Min16Sx16 (Group 0) (Below
     Iop_Min32Sx8 (Group 1) (Group 2)))) (Below Iop_Mul16x16 (Below Iop_Min16Ux16 (Group 0) (Below
     Iop_Min32Ux8 (Group 1) (Group 2))) (Below Iop_Mul32x8 (Group 1) (Below Iop_MulHi16Ux16 (Group 2)
     (Group 1))))) (Below Iop_QSub8Sx32 (Below Iop_QAdd16Sx16 (Below Iop_QAdd16Ux16 (Group 0) (Below
     Iop_QAdd8Sx32 (Group 1) (Group 0))) (Below Iop_QSub8Ux32 (Group 1) (Below Iop_QSub16Ux16 (Group 0)
     (Group 1)))) (Below Iop_Avg16Ux16 (Below Iop_QSub16Sx16 (Group 0) (Below Iop_Avg8Ux32 (Group 1)
     (Group 0))) (Below Iop_Max32Fx8 (Group 1) (Below Iop_Max64Fx4 (Group 2) (Group 3))))))))"

lemma lane_switch: "switch_ok lane_groups 0 lane_ops"
  unfolding lane_groups_def lane_ops_def
  by (simp only: switch_check list.size cong: group_of_cong in_group_cong switch_ok_cong if_weak_cong)

lemma lane_eqs: "switch_eqs (switch lane_ops) lane_ops"
  by (rule switch_eqsI [OF lane_switch])

lemmas lane_rules = lane_eqs [unfolded lane_ops_def switch_eqs_unfold, folded lane_ops_def]

end
