(* ===== verification/Simd64.thy ===== *)
theory Simd64
  imports TaintAlgebra "HOL-Library.Signed_Division"
begin

text \<open>
  The helper functions for 64-bit and 32-bit vectors, after \<^verbatim>\<open>VEX/priv/host_generic_simd64.c\<close>: the
  code that \<^verbatim>\<open>host_amd64_isel.c\<close> and \<^verbatim>\<open>host_arm_isel.c\<close> call for the IR operators on such vectors.
\<close>

unbundle bit_operations_syntax

section \<open>Casts\<close>

text \<open>The casts of \<^verbatim>\<open>libvex_basictypes.h\<close>, which first mask their argument.\<close>

definition toUChar :: "32 word \<Rightarrow> 8 word" where
  "toUChar x = ucast (x AND 0xFF)"

definition toUShort :: "32 word \<Rightarrow> 16 word" where
  "toUShort x = ucast (x AND 0xFFFF)"

definition toUInt :: "64 word \<Rightarrow> 32 word" where
  "toUInt x = ucast (x AND 0xFFFFFFFF)"

section \<open>Tuples of lanes\<close>

definition mk32x2 :: "32 word \<Rightarrow> 32 word \<Rightarrow> 64 word" where
  "mk32x2 w1 w0 = push_bit 32 (ucast w1) OR ucast w0"

definition sel32x2_1 :: "64 word \<Rightarrow> 32 word" where
  "sel32x2_1 w64 = 0xFFFFFFFF AND toUInt (drop_bit 32 w64)"

definition sel32x2_0 :: "64 word \<Rightarrow> 32 word" where
  "sel32x2_0 w64 = 0xFFFFFFFF AND toUInt w64"

definition mk16x4 :: "16 word \<Rightarrow> 16 word \<Rightarrow> 16 word \<Rightarrow> 16 word \<Rightarrow> 64 word" where
  "mk16x4 w3 w2 w1 w0 = (let
     hi32 = push_bit 16 (ucast w3) OR ucast w2;
     lo32 = push_bit 16 (ucast w1) OR ucast w0 in
     mk32x2 hi32 lo32)"

definition sel16x4_3 :: "64 word \<Rightarrow> 16 word" where
  "sel16x4_3 w64 = (let hi32 = toUInt (drop_bit 32 w64) in toUShort (0xFFFF AND drop_bit 16 hi32))"

definition sel16x4_2 :: "64 word \<Rightarrow> 16 word" where
  "sel16x4_2 w64 = (let hi32 = toUInt (drop_bit 32 w64) in toUShort (0xFFFF AND hi32))"

definition sel16x4_1 :: "64 word \<Rightarrow> 16 word" where
  "sel16x4_1 w64 = (let lo32 = ucast w64 :: 32 word in toUShort (0xFFFF AND drop_bit 16 lo32))"

definition sel16x4_0 :: "64 word \<Rightarrow> 16 word" where
  "sel16x4_0 w64 = (let lo32 = ucast w64 :: 32 word in toUShort (0xFFFF AND lo32))"

definition mk8x8 :: "8 word \<Rightarrow> 8 word \<Rightarrow> 8 word \<Rightarrow> 8 word \<Rightarrow> 8 word \<Rightarrow> 8 word \<Rightarrow> 8 word \<Rightarrow> 8 word \<Rightarrow> 64 word" where
  "mk8x8 w7 w6 w5 w4 w3 w2 w1 w0 = (let
     hi32 = push_bit 24 (ucast w7) OR push_bit 16 (ucast w6) OR push_bit 8 (ucast w5) OR push_bit 0 (ucast w4);
     lo32 = push_bit 24 (ucast w3) OR push_bit 16 (ucast w2) OR push_bit 8 (ucast w1) OR push_bit 0 (ucast w0) in
     mk32x2 hi32 lo32)"

definition sel8x8_7 :: "64 word \<Rightarrow> 8 word" where
  "sel8x8_7 w64 = (let hi32 = toUInt (drop_bit 32 w64) in toUChar (0xFF AND drop_bit 24 hi32))"

definition sel8x8_6 :: "64 word \<Rightarrow> 8 word" where
  "sel8x8_6 w64 = (let hi32 = toUInt (drop_bit 32 w64) in toUChar (0xFF AND drop_bit 16 hi32))"

definition sel8x8_5 :: "64 word \<Rightarrow> 8 word" where
  "sel8x8_5 w64 = (let hi32 = toUInt (drop_bit 32 w64) in toUChar (0xFF AND drop_bit 8 hi32))"

definition sel8x8_4 :: "64 word \<Rightarrow> 8 word" where
  "sel8x8_4 w64 = (let hi32 = toUInt (drop_bit 32 w64) in toUChar (0xFF AND drop_bit 0 hi32))"

definition sel8x8_3 :: "64 word \<Rightarrow> 8 word" where
  "sel8x8_3 w64 = (let lo32 = ucast w64 :: 32 word in toUChar (0xFF AND drop_bit 24 lo32))"

definition sel8x8_2 :: "64 word \<Rightarrow> 8 word" where
  "sel8x8_2 w64 = (let lo32 = ucast w64 :: 32 word in toUChar (0xFF AND drop_bit 16 lo32))"

definition sel8x8_1 :: "64 word \<Rightarrow> 8 word" where
  "sel8x8_1 w64 = (let lo32 = ucast w64 :: 32 word in toUChar (0xFF AND drop_bit 8 lo32))"

definition sel8x8_0 :: "64 word \<Rightarrow> 8 word" where
  "sel8x8_0 w64 = (let lo32 = ucast w64 :: 32 word in toUChar (0xFF AND drop_bit 0 lo32))"

definition index8x8 :: "64 word \<Rightarrow> 8 word \<Rightarrow> 8 word" where
  "index8x8 w64 ix = (let ix = ix AND 7 in toUChar (ucast (drop_bit (8 * unat ix) w64 AND 0xFF)))"

section \<open>Scalar helpers\<close>

text \<open>A signed C integer is a word read with \<^const>\<open>sint\<close>; a conversion to a wider type is
  \<^const>\<open>scast\<close> from a signed type and \<^const>\<open>ucast\<close> from an unsigned one.\<close>

definition qadd32S :: "32 word \<Rightarrow> 32 word \<Rightarrow> 32 word" where
  "qadd32S xx yy = (let
     t = (scast xx + scast yy :: 64 word);
     t = (if sint t < - 0x80000000 then - 0x80000000 else t);
     t = (if sint t > 0x7FFFFFFF then 0x7FFFFFFF else t) in
     ucast t)"

definition qadd16S :: "16 word \<Rightarrow> 16 word \<Rightarrow> 16 word" where
  "qadd16S xx yy = (let
     t = (scast xx + scast yy :: 32 word);
     t = (if sint t < - 32768 then - 32768 else t);
     t = (if sint t > 32767 then 32767 else t) in
     ucast t)"

definition qadd8S :: "8 word \<Rightarrow> 8 word \<Rightarrow> 8 word" where
  "qadd8S xx yy = (let
     t = (scast xx + scast yy :: 32 word);
     t = (if sint t < - 128 then - 128 else t);
     t = (if sint t > 127 then 127 else t) in
     ucast t)"

definition qadd16U :: "16 word \<Rightarrow> 16 word \<Rightarrow> 16 word" where
  "qadd16U xx yy = (let
     t = (ucast xx + ucast yy :: 32 word);
     t = (if t > 0xFFFF then 0xFFFF else t) in
     ucast t)"

definition qadd8U :: "8 word \<Rightarrow> 8 word \<Rightarrow> 8 word" where
  "qadd8U xx yy = (let
     t = (ucast xx + ucast yy :: 32 word);
     t = (if t > 0xFF then 0xFF else t) in
     ucast t)"

definition qsub32S :: "32 word \<Rightarrow> 32 word \<Rightarrow> 32 word" where
  "qsub32S xx yy = (let
     t = (scast xx - scast yy :: 64 word);
     t = (if sint t < - 0x80000000 then - 0x80000000 else t);
     t = (if sint t > 0x7FFFFFFF then 0x7FFFFFFF else t) in
     ucast t)"

definition qsub16S :: "16 word \<Rightarrow> 16 word \<Rightarrow> 16 word" where
  "qsub16S xx yy = (let
     t = (scast xx - scast yy :: 32 word);
     t = (if sint t < - 32768 then - 32768 else t);
     t = (if sint t > 32767 then 32767 else t) in
     ucast t)"

definition qsub8S :: "8 word \<Rightarrow> 8 word \<Rightarrow> 8 word" where
  "qsub8S xx yy = (let
     t = (scast xx - scast yy :: 32 word);
     t = (if sint t < - 128 then - 128 else t);
     t = (if sint t > 127 then 127 else t) in
     ucast t)"

definition qsub16U :: "16 word \<Rightarrow> 16 word \<Rightarrow> 16 word" where
  "qsub16U xx yy = (let
     t = (ucast xx - ucast yy :: 32 word);
     t = (if sint t < 0 then 0 else t);
     t = (if sint t > 0xFFFF then 0xFFFF else t) in
     ucast t)"

definition qsub8U :: "8 word \<Rightarrow> 8 word \<Rightarrow> 8 word" where
  "qsub8U xx yy = (let
     t = (ucast xx - ucast yy :: 32 word);
     t = (if sint t < 0 then 0 else t);
     t = (if sint t > 0xFF then 0xFF else t) in
     ucast t)"

definition mul16 :: "16 word \<Rightarrow> 16 word \<Rightarrow> 16 word" where
  "mul16 xx yy = (let t = (scast xx * scast yy :: 32 word) in ucast t)"

definition mul32 :: "32 word \<Rightarrow> 32 word \<Rightarrow> 32 word" where
  "mul32 xx yy = xx * yy"

definition mulhi16S :: "16 word \<Rightarrow> 16 word \<Rightarrow> 16 word" where
  "mulhi16S xx yy = (let t = (scast xx * scast yy :: 32 word); t = signed_drop_bit 16 t in ucast t)"

definition mulhi16U :: "16 word \<Rightarrow> 16 word \<Rightarrow> 16 word" where
  "mulhi16U xx yy = (let t = (ucast xx * ucast yy :: 32 word); t = drop_bit 16 t in ucast t)"

definition cmpeq32 :: "32 word \<Rightarrow> 32 word \<Rightarrow> 32 word" where
  "cmpeq32 xx yy = (if xx = yy then 0xFFFFFFFF else 0)"

definition cmpeq16 :: "16 word \<Rightarrow> 16 word \<Rightarrow> 16 word" where
  "cmpeq16 xx yy = toUShort (if xx = yy then 0xFFFF else 0)"

definition cmpeq8 :: "8 word \<Rightarrow> 8 word \<Rightarrow> 8 word" where
  "cmpeq8 xx yy = toUChar (if xx = yy then 0xFF else 0)"

definition cmpgt32S :: "32 word \<Rightarrow> 32 word \<Rightarrow> 32 word" where
  "cmpgt32S xx yy = (if sint xx > sint yy then 0xFFFFFFFF else 0)"

definition cmpgt16S :: "16 word \<Rightarrow> 16 word \<Rightarrow> 16 word" where
  "cmpgt16S xx yy = toUShort (if sint xx > sint yy then 0xFFFF else 0)"

definition cmpgt8S :: "8 word \<Rightarrow> 8 word \<Rightarrow> 8 word" where
  "cmpgt8S xx yy = toUChar (if sint xx > sint yy then 0xFF else 0)"

definition cmpnez32 :: "32 word \<Rightarrow> 32 word" where
  "cmpnez32 xx = (if xx = 0 then 0 else 0xFFFFFFFF)"

definition cmpnez16 :: "16 word \<Rightarrow> 16 word" where
  "cmpnez16 xx = toUShort (if xx = 0 then 0 else 0xFFFF)"

definition cmpnez8 :: "8 word \<Rightarrow> 8 word" where
  "cmpnez8 xx = toUChar (if xx = 0 then 0 else 0xFF)"

definition qnarrow32Sto16S :: "32 word \<Rightarrow> 16 word" where
  "qnarrow32Sto16S xx0 = (let
     xx = xx0;
     xx = (if sint xx < - 32768 then - 32768 else xx);
     xx = (if sint xx > 32767 then 32767 else xx) in
     ucast xx)"

definition qnarrow16Sto8S :: "16 word \<Rightarrow> 8 word" where
  "qnarrow16Sto8S xx0 = (let
     xx = xx0;
     xx = (if sint xx < - 128 then - 128 else xx);
     xx = (if sint xx > 127 then 127 else xx) in
     ucast xx)"

definition qnarrow16Sto8U :: "16 word \<Rightarrow> 8 word" where
  "qnarrow16Sto8U xx0 = (let
     xx = xx0;
     xx = (if sint xx < 0 then 0 else xx);
     xx = (if sint xx > 255 then 255 else xx) in
     ucast xx)"

definition narrow32to16 :: "32 word \<Rightarrow> 16 word" where
  "narrow32to16 xx = ucast xx"

definition narrow16to8 :: "16 word \<Rightarrow> 8 word" where
  "narrow16to8 xx = ucast xx"

definition shl8 :: "8 word \<Rightarrow> 32 word \<Rightarrow> 8 word" where
  "shl8 v n = toUChar (push_bit (unat n) (ucast v))"

definition sar8 :: "8 word \<Rightarrow> 32 word \<Rightarrow> 8 word" where
  "sar8 v n = toUChar (signed_drop_bit (unat n) (scast v))"

definition shl16 :: "16 word \<Rightarrow> 32 word \<Rightarrow> 16 word" where
  "shl16 v n = toUShort (push_bit (unat n) (ucast v))"

definition shr16 :: "16 word \<Rightarrow> 32 word \<Rightarrow> 16 word" where
  "shr16 v n = toUShort (signed_drop_bit (unat n) (ucast v))"

definition sar16 :: "16 word \<Rightarrow> 32 word \<Rightarrow> 16 word" where
  "sar16 v n = toUShort (signed_drop_bit (unat n) (scast v))"

definition shl32 :: "32 word \<Rightarrow> 32 word \<Rightarrow> 32 word" where
  "shl32 v n = push_bit (unat n) v"

definition shr32 :: "32 word \<Rightarrow> 32 word \<Rightarrow> 32 word" where
  "shr32 v n = drop_bit (unat n) v"

definition sar32 :: "32 word \<Rightarrow> 32 word \<Rightarrow> 32 word" where
  "sar32 v n = signed_drop_bit (unat n) v"

definition avg8U :: "8 word \<Rightarrow> 8 word \<Rightarrow> 8 word" where
  "avg8U xx yy = (let xxi = ucast xx; yyi = ucast yy; r = (drop_bit 1 (xxi + yyi + 1) :: 32 word) in ucast r)"

definition avg16U :: "16 word \<Rightarrow> 16 word \<Rightarrow> 16 word" where
  "avg16U xx yy = (let xxi = ucast xx; yyi = ucast yy; r = (drop_bit 1 (xxi + yyi + 1) :: 32 word) in ucast r)"

definition max16S :: "16 word \<Rightarrow> 16 word \<Rightarrow> 16 word" where
  "max16S xx yy = toUShort (if sint xx > sint yy then scast xx else scast yy)"

definition max8U :: "8 word \<Rightarrow> 8 word \<Rightarrow> 8 word" where
  "max8U xx yy = toUChar (if xx > yy then ucast xx else ucast yy)"

definition min16S :: "16 word \<Rightarrow> 16 word \<Rightarrow> 16 word" where
  "min16S xx yy = toUShort (if sint xx < sint yy then scast xx else scast yy)"

definition min8U :: "8 word \<Rightarrow> 8 word \<Rightarrow> 8 word" where
  "min8U xx yy = toUChar (if xx < yy then ucast xx else ucast yy)"

definition hadd16U :: "16 word \<Rightarrow> 16 word \<Rightarrow> 16 word" where
  "hadd16U xx yy = (let xxi = ucast xx; yyi = ucast yy; r = (drop_bit 1 (xxi + yyi) :: 32 word) in ucast r)"

definition hadd16S :: "16 word \<Rightarrow> 16 word \<Rightarrow> 16 word" where
  "hadd16S xx yy = (let xxi = scast xx; yyi = scast yy; r = (signed_drop_bit 1 (xxi + yyi) :: 32 word) in ucast r)"

definition hsub16U :: "16 word \<Rightarrow> 16 word \<Rightarrow> 16 word" where
  "hsub16U xx yy = (let xxi = ucast xx; yyi = ucast yy; r = (drop_bit 1 (xxi - yyi) :: 32 word) in ucast r)"

definition hsub16S :: "16 word \<Rightarrow> 16 word \<Rightarrow> 16 word" where
  "hsub16S xx yy = (let xxi = scast xx; yyi = scast yy; r = (signed_drop_bit 1 (xxi - yyi) :: 32 word) in ucast r)"

definition hadd8U :: "8 word \<Rightarrow> 8 word \<Rightarrow> 8 word" where
  "hadd8U xx yy = (let xxi = ucast xx; yyi = ucast yy; r = (drop_bit 1 (xxi + yyi) :: 32 word) in ucast r)"

definition hadd8S :: "8 word \<Rightarrow> 8 word \<Rightarrow> 8 word" where
  "hadd8S xx yy = (let xxi = scast xx; yyi = scast yy; r = (signed_drop_bit 1 (xxi + yyi) :: 32 word) in ucast r)"

definition hsub8U :: "8 word \<Rightarrow> 8 word \<Rightarrow> 8 word" where
  "hsub8U xx yy = (let xxi = ucast xx; yyi = ucast yy; r = (drop_bit 1 (xxi - yyi) :: 32 word) in ucast r)"

definition hsub8S :: "8 word \<Rightarrow> 8 word \<Rightarrow> 8 word" where
  "hsub8S xx yy = (let xxi = scast xx; yyi = scast yy; r = (signed_drop_bit 1 (xxi - yyi) :: 32 word) in ucast r)"

definition absdiff8U :: "8 word \<Rightarrow> 8 word \<Rightarrow> 32 word" where
  "absdiff8U xx yy = (let xxu = ucast xx; yyu = ucast yy in if xxu \<ge> yyu then xxu - yyu else yyu - xxu)"

section \<open>64-bit vectors\<close>

definition h_generic_calc_Add32x2 :: "64 word \<Rightarrow> 64 word \<Rightarrow> 64 word" where
  "h_generic_calc_Add32x2 xx yy =
     mk32x2
       (sel32x2_1 xx + sel32x2_1 yy)
       (sel32x2_0 xx + sel32x2_0 yy)"

definition h_generic_calc_Add16x4 :: "64 word \<Rightarrow> 64 word \<Rightarrow> 64 word" where
  "h_generic_calc_Add16x4 xx yy =
     mk16x4
       (toUShort (ucast (sel16x4_3 xx) + ucast (sel16x4_3 yy)))
       (toUShort (ucast (sel16x4_2 xx) + ucast (sel16x4_2 yy)))
       (toUShort (ucast (sel16x4_1 xx) + ucast (sel16x4_1 yy)))
       (toUShort (ucast (sel16x4_0 xx) + ucast (sel16x4_0 yy)))"

definition h_generic_calc_Add8x8 :: "64 word \<Rightarrow> 64 word \<Rightarrow> 64 word" where
  "h_generic_calc_Add8x8 xx yy =
     mk8x8
       (toUChar (ucast (sel8x8_7 xx) + ucast (sel8x8_7 yy)))
       (toUChar (ucast (sel8x8_6 xx) + ucast (sel8x8_6 yy)))
       (toUChar (ucast (sel8x8_5 xx) + ucast (sel8x8_5 yy)))
       (toUChar (ucast (sel8x8_4 xx) + ucast (sel8x8_4 yy)))
       (toUChar (ucast (sel8x8_3 xx) + ucast (sel8x8_3 yy)))
       (toUChar (ucast (sel8x8_2 xx) + ucast (sel8x8_2 yy)))
       (toUChar (ucast (sel8x8_1 xx) + ucast (sel8x8_1 yy)))
       (toUChar (ucast (sel8x8_0 xx) + ucast (sel8x8_0 yy)))"

definition h_generic_calc_QAdd16Sx4 :: "64 word \<Rightarrow> 64 word \<Rightarrow> 64 word" where
  "h_generic_calc_QAdd16Sx4 xx yy =
     mk16x4
       (qadd16S (sel16x4_3 xx) (sel16x4_3 yy))
       (qadd16S (sel16x4_2 xx) (sel16x4_2 yy))
       (qadd16S (sel16x4_1 xx) (sel16x4_1 yy))
       (qadd16S (sel16x4_0 xx) (sel16x4_0 yy))"

definition h_generic_calc_QAdd8Sx8 :: "64 word \<Rightarrow> 64 word \<Rightarrow> 64 word" where
  "h_generic_calc_QAdd8Sx8 xx yy =
     mk8x8
       (qadd8S (sel8x8_7 xx) (sel8x8_7 yy))
       (qadd8S (sel8x8_6 xx) (sel8x8_6 yy))
       (qadd8S (sel8x8_5 xx) (sel8x8_5 yy))
       (qadd8S (sel8x8_4 xx) (sel8x8_4 yy))
       (qadd8S (sel8x8_3 xx) (sel8x8_3 yy))
       (qadd8S (sel8x8_2 xx) (sel8x8_2 yy))
       (qadd8S (sel8x8_1 xx) (sel8x8_1 yy))
       (qadd8S (sel8x8_0 xx) (sel8x8_0 yy))"

definition h_generic_calc_QAdd16Ux4 :: "64 word \<Rightarrow> 64 word \<Rightarrow> 64 word" where
  "h_generic_calc_QAdd16Ux4 xx yy =
     mk16x4
       (qadd16U (sel16x4_3 xx) (sel16x4_3 yy))
       (qadd16U (sel16x4_2 xx) (sel16x4_2 yy))
       (qadd16U (sel16x4_1 xx) (sel16x4_1 yy))
       (qadd16U (sel16x4_0 xx) (sel16x4_0 yy))"

definition h_generic_calc_QAdd8Ux8 :: "64 word \<Rightarrow> 64 word \<Rightarrow> 64 word" where
  "h_generic_calc_QAdd8Ux8 xx yy =
     mk8x8
       (qadd8U (sel8x8_7 xx) (sel8x8_7 yy))
       (qadd8U (sel8x8_6 xx) (sel8x8_6 yy))
       (qadd8U (sel8x8_5 xx) (sel8x8_5 yy))
       (qadd8U (sel8x8_4 xx) (sel8x8_4 yy))
       (qadd8U (sel8x8_3 xx) (sel8x8_3 yy))
       (qadd8U (sel8x8_2 xx) (sel8x8_2 yy))
       (qadd8U (sel8x8_1 xx) (sel8x8_1 yy))
       (qadd8U (sel8x8_0 xx) (sel8x8_0 yy))"

definition h_generic_calc_Sub32x2 :: "64 word \<Rightarrow> 64 word \<Rightarrow> 64 word" where
  "h_generic_calc_Sub32x2 xx yy =
     mk32x2
       (sel32x2_1 xx - sel32x2_1 yy)
       (sel32x2_0 xx - sel32x2_0 yy)"

definition h_generic_calc_Sub16x4 :: "64 word \<Rightarrow> 64 word \<Rightarrow> 64 word" where
  "h_generic_calc_Sub16x4 xx yy =
     mk16x4
       (toUShort (ucast (sel16x4_3 xx) - ucast (sel16x4_3 yy)))
       (toUShort (ucast (sel16x4_2 xx) - ucast (sel16x4_2 yy)))
       (toUShort (ucast (sel16x4_1 xx) - ucast (sel16x4_1 yy)))
       (toUShort (ucast (sel16x4_0 xx) - ucast (sel16x4_0 yy)))"

definition h_generic_calc_Sub8x8 :: "64 word \<Rightarrow> 64 word \<Rightarrow> 64 word" where
  "h_generic_calc_Sub8x8 xx yy =
     mk8x8
       (toUChar (ucast (sel8x8_7 xx) - ucast (sel8x8_7 yy)))
       (toUChar (ucast (sel8x8_6 xx) - ucast (sel8x8_6 yy)))
       (toUChar (ucast (sel8x8_5 xx) - ucast (sel8x8_5 yy)))
       (toUChar (ucast (sel8x8_4 xx) - ucast (sel8x8_4 yy)))
       (toUChar (ucast (sel8x8_3 xx) - ucast (sel8x8_3 yy)))
       (toUChar (ucast (sel8x8_2 xx) - ucast (sel8x8_2 yy)))
       (toUChar (ucast (sel8x8_1 xx) - ucast (sel8x8_1 yy)))
       (toUChar (ucast (sel8x8_0 xx) - ucast (sel8x8_0 yy)))"

definition h_generic_calc_QSub16Sx4 :: "64 word \<Rightarrow> 64 word \<Rightarrow> 64 word" where
  "h_generic_calc_QSub16Sx4 xx yy =
     mk16x4
       (qsub16S (sel16x4_3 xx) (sel16x4_3 yy))
       (qsub16S (sel16x4_2 xx) (sel16x4_2 yy))
       (qsub16S (sel16x4_1 xx) (sel16x4_1 yy))
       (qsub16S (sel16x4_0 xx) (sel16x4_0 yy))"

definition h_generic_calc_QSub8Sx8 :: "64 word \<Rightarrow> 64 word \<Rightarrow> 64 word" where
  "h_generic_calc_QSub8Sx8 xx yy =
     mk8x8
       (qsub8S (sel8x8_7 xx) (sel8x8_7 yy))
       (qsub8S (sel8x8_6 xx) (sel8x8_6 yy))
       (qsub8S (sel8x8_5 xx) (sel8x8_5 yy))
       (qsub8S (sel8x8_4 xx) (sel8x8_4 yy))
       (qsub8S (sel8x8_3 xx) (sel8x8_3 yy))
       (qsub8S (sel8x8_2 xx) (sel8x8_2 yy))
       (qsub8S (sel8x8_1 xx) (sel8x8_1 yy))
       (qsub8S (sel8x8_0 xx) (sel8x8_0 yy))"

definition h_generic_calc_QSub16Ux4 :: "64 word \<Rightarrow> 64 word \<Rightarrow> 64 word" where
  "h_generic_calc_QSub16Ux4 xx yy =
     mk16x4
       (qsub16U (sel16x4_3 xx) (sel16x4_3 yy))
       (qsub16U (sel16x4_2 xx) (sel16x4_2 yy))
       (qsub16U (sel16x4_1 xx) (sel16x4_1 yy))
       (qsub16U (sel16x4_0 xx) (sel16x4_0 yy))"

definition h_generic_calc_QSub8Ux8 :: "64 word \<Rightarrow> 64 word \<Rightarrow> 64 word" where
  "h_generic_calc_QSub8Ux8 xx yy =
     mk8x8
       (qsub8U (sel8x8_7 xx) (sel8x8_7 yy))
       (qsub8U (sel8x8_6 xx) (sel8x8_6 yy))
       (qsub8U (sel8x8_5 xx) (sel8x8_5 yy))
       (qsub8U (sel8x8_4 xx) (sel8x8_4 yy))
       (qsub8U (sel8x8_3 xx) (sel8x8_3 yy))
       (qsub8U (sel8x8_2 xx) (sel8x8_2 yy))
       (qsub8U (sel8x8_1 xx) (sel8x8_1 yy))
       (qsub8U (sel8x8_0 xx) (sel8x8_0 yy))"

definition h_generic_calc_Mul16x4 :: "64 word \<Rightarrow> 64 word \<Rightarrow> 64 word" where
  "h_generic_calc_Mul16x4 xx yy =
     mk16x4
       (mul16 (sel16x4_3 xx) (sel16x4_3 yy))
       (mul16 (sel16x4_2 xx) (sel16x4_2 yy))
       (mul16 (sel16x4_1 xx) (sel16x4_1 yy))
       (mul16 (sel16x4_0 xx) (sel16x4_0 yy))"

definition h_generic_calc_Mul32x2 :: "64 word \<Rightarrow> 64 word \<Rightarrow> 64 word" where
  "h_generic_calc_Mul32x2 xx yy =
     mk32x2
       (mul32 (sel32x2_1 xx) (sel32x2_1 yy))
       (mul32 (sel32x2_0 xx) (sel32x2_0 yy))"

definition h_generic_calc_MulHi16Sx4 :: "64 word \<Rightarrow> 64 word \<Rightarrow> 64 word" where
  "h_generic_calc_MulHi16Sx4 xx yy =
     mk16x4
       (mulhi16S (sel16x4_3 xx) (sel16x4_3 yy))
       (mulhi16S (sel16x4_2 xx) (sel16x4_2 yy))
       (mulhi16S (sel16x4_1 xx) (sel16x4_1 yy))
       (mulhi16S (sel16x4_0 xx) (sel16x4_0 yy))"

definition h_generic_calc_MulHi16Ux4 :: "64 word \<Rightarrow> 64 word \<Rightarrow> 64 word" where
  "h_generic_calc_MulHi16Ux4 xx yy =
     mk16x4
       (mulhi16U (sel16x4_3 xx) (sel16x4_3 yy))
       (mulhi16U (sel16x4_2 xx) (sel16x4_2 yy))
       (mulhi16U (sel16x4_1 xx) (sel16x4_1 yy))
       (mulhi16U (sel16x4_0 xx) (sel16x4_0 yy))"

definition h_generic_calc_CmpEQ32x2 :: "64 word \<Rightarrow> 64 word \<Rightarrow> 64 word" where
  "h_generic_calc_CmpEQ32x2 xx yy =
     mk32x2
       (cmpeq32 (sel32x2_1 xx) (sel32x2_1 yy))
       (cmpeq32 (sel32x2_0 xx) (sel32x2_0 yy))"

definition h_generic_calc_CmpEQ16x4 :: "64 word \<Rightarrow> 64 word \<Rightarrow> 64 word" where
  "h_generic_calc_CmpEQ16x4 xx yy =
     mk16x4
       (cmpeq16 (sel16x4_3 xx) (sel16x4_3 yy))
       (cmpeq16 (sel16x4_2 xx) (sel16x4_2 yy))
       (cmpeq16 (sel16x4_1 xx) (sel16x4_1 yy))
       (cmpeq16 (sel16x4_0 xx) (sel16x4_0 yy))"

definition h_generic_calc_CmpEQ8x8 :: "64 word \<Rightarrow> 64 word \<Rightarrow> 64 word" where
  "h_generic_calc_CmpEQ8x8 xx yy =
     mk8x8
       (cmpeq8 (sel8x8_7 xx) (sel8x8_7 yy))
       (cmpeq8 (sel8x8_6 xx) (sel8x8_6 yy))
       (cmpeq8 (sel8x8_5 xx) (sel8x8_5 yy))
       (cmpeq8 (sel8x8_4 xx) (sel8x8_4 yy))
       (cmpeq8 (sel8x8_3 xx) (sel8x8_3 yy))
       (cmpeq8 (sel8x8_2 xx) (sel8x8_2 yy))
       (cmpeq8 (sel8x8_1 xx) (sel8x8_1 yy))
       (cmpeq8 (sel8x8_0 xx) (sel8x8_0 yy))"

definition h_generic_calc_CmpGT32Sx2 :: "64 word \<Rightarrow> 64 word \<Rightarrow> 64 word" where
  "h_generic_calc_CmpGT32Sx2 xx yy =
     mk32x2
       (cmpgt32S (sel32x2_1 xx) (sel32x2_1 yy))
       (cmpgt32S (sel32x2_0 xx) (sel32x2_0 yy))"

definition h_generic_calc_CmpGT16Sx4 :: "64 word \<Rightarrow> 64 word \<Rightarrow> 64 word" where
  "h_generic_calc_CmpGT16Sx4 xx yy =
     mk16x4
       (cmpgt16S (sel16x4_3 xx) (sel16x4_3 yy))
       (cmpgt16S (sel16x4_2 xx) (sel16x4_2 yy))
       (cmpgt16S (sel16x4_1 xx) (sel16x4_1 yy))
       (cmpgt16S (sel16x4_0 xx) (sel16x4_0 yy))"

definition h_generic_calc_CmpGT8Sx8 :: "64 word \<Rightarrow> 64 word \<Rightarrow> 64 word" where
  "h_generic_calc_CmpGT8Sx8 xx yy =
     mk8x8
       (cmpgt8S (sel8x8_7 xx) (sel8x8_7 yy))
       (cmpgt8S (sel8x8_6 xx) (sel8x8_6 yy))
       (cmpgt8S (sel8x8_5 xx) (sel8x8_5 yy))
       (cmpgt8S (sel8x8_4 xx) (sel8x8_4 yy))
       (cmpgt8S (sel8x8_3 xx) (sel8x8_3 yy))
       (cmpgt8S (sel8x8_2 xx) (sel8x8_2 yy))
       (cmpgt8S (sel8x8_1 xx) (sel8x8_1 yy))
       (cmpgt8S (sel8x8_0 xx) (sel8x8_0 yy))"

definition h_generic_calc_CmpNEZ32x2 :: "64 word \<Rightarrow> 64 word" where
  "h_generic_calc_CmpNEZ32x2 xx =
     mk32x2
       (cmpnez32 (sel32x2_1 xx))
       (cmpnez32 (sel32x2_0 xx))"

definition h_generic_calc_CmpNEZ16x4 :: "64 word \<Rightarrow> 64 word" where
  "h_generic_calc_CmpNEZ16x4 xx =
     mk16x4
       (cmpnez16 (sel16x4_3 xx))
       (cmpnez16 (sel16x4_2 xx))
       (cmpnez16 (sel16x4_1 xx))
       (cmpnez16 (sel16x4_0 xx))"

definition h_generic_calc_CmpNEZ8x8 :: "64 word \<Rightarrow> 64 word" where
  "h_generic_calc_CmpNEZ8x8 xx =
     mk8x8
       (cmpnez8 (sel8x8_7 xx))
       (cmpnez8 (sel8x8_6 xx))
       (cmpnez8 (sel8x8_5 xx))
       (cmpnez8 (sel8x8_4 xx))
       (cmpnez8 (sel8x8_3 xx))
       (cmpnez8 (sel8x8_2 xx))
       (cmpnez8 (sel8x8_1 xx))
       (cmpnez8 (sel8x8_0 xx))"

definition h_generic_calc_QNarrowBin32Sto16Sx4 :: "64 word \<Rightarrow> 64 word \<Rightarrow> 64 word" where
  "h_generic_calc_QNarrowBin32Sto16Sx4 aa bb = (let d = sel32x2_1 aa; c = sel32x2_0 aa; b = sel32x2_1 bb; a = sel32x2_0 bb in
     mk16x4
       (qnarrow32Sto16S d)
       (qnarrow32Sto16S c)
       (qnarrow32Sto16S b)
       (qnarrow32Sto16S a))"

definition h_generic_calc_QNarrowBin16Sto8Sx8 :: "64 word \<Rightarrow> 64 word \<Rightarrow> 64 word" where
  "h_generic_calc_QNarrowBin16Sto8Sx8 aa bb = (let h = sel16x4_3 aa; g = sel16x4_2 aa; f = sel16x4_1 aa; e = sel16x4_0 aa; d = sel16x4_3 bb; c = sel16x4_2 bb; b = sel16x4_1 bb; a = sel16x4_0 bb in
     mk8x8
       (qnarrow16Sto8S h)
       (qnarrow16Sto8S g)
       (qnarrow16Sto8S f)
       (qnarrow16Sto8S e)
       (qnarrow16Sto8S d)
       (qnarrow16Sto8S c)
       (qnarrow16Sto8S b)
       (qnarrow16Sto8S a))"

definition h_generic_calc_QNarrowBin16Sto8Ux8 :: "64 word \<Rightarrow> 64 word \<Rightarrow> 64 word" where
  "h_generic_calc_QNarrowBin16Sto8Ux8 aa bb = (let h = sel16x4_3 aa; g = sel16x4_2 aa; f = sel16x4_1 aa; e = sel16x4_0 aa; d = sel16x4_3 bb; c = sel16x4_2 bb; b = sel16x4_1 bb; a = sel16x4_0 bb in
     mk8x8
       (qnarrow16Sto8U h)
       (qnarrow16Sto8U g)
       (qnarrow16Sto8U f)
       (qnarrow16Sto8U e)
       (qnarrow16Sto8U d)
       (qnarrow16Sto8U c)
       (qnarrow16Sto8U b)
       (qnarrow16Sto8U a))"

definition h_generic_calc_NarrowBin32to16x4 :: "64 word \<Rightarrow> 64 word \<Rightarrow> 64 word" where
  "h_generic_calc_NarrowBin32to16x4 aa bb = (let d = sel32x2_1 aa; c = sel32x2_0 aa; b = sel32x2_1 bb; a = sel32x2_0 bb in
     mk16x4
       (narrow32to16 d)
       (narrow32to16 c)
       (narrow32to16 b)
       (narrow32to16 a))"

definition h_generic_calc_NarrowBin16to8x8 :: "64 word \<Rightarrow> 64 word \<Rightarrow> 64 word" where
  "h_generic_calc_NarrowBin16to8x8 aa bb = (let h = sel16x4_3 aa; g = sel16x4_2 aa; f = sel16x4_1 aa; e = sel16x4_0 aa; d = sel16x4_3 bb; c = sel16x4_2 bb; b = sel16x4_1 bb; a = sel16x4_0 bb in
     mk8x8
       (narrow16to8 h)
       (narrow16to8 g)
       (narrow16to8 f)
       (narrow16to8 e)
       (narrow16to8 d)
       (narrow16to8 c)
       (narrow16to8 b)
       (narrow16to8 a))"

definition h_generic_calc_InterleaveHI8x8 :: "64 word \<Rightarrow> 64 word \<Rightarrow> 64 word" where
  "h_generic_calc_InterleaveHI8x8 aa bb =
     mk8x8
       (sel8x8_7 aa)
       (sel8x8_7 bb)
       (sel8x8_6 aa)
       (sel8x8_6 bb)
       (sel8x8_5 aa)
       (sel8x8_5 bb)
       (sel8x8_4 aa)
       (sel8x8_4 bb)"

definition h_generic_calc_InterleaveLO8x8 :: "64 word \<Rightarrow> 64 word \<Rightarrow> 64 word" where
  "h_generic_calc_InterleaveLO8x8 aa bb =
     mk8x8
       (sel8x8_3 aa)
       (sel8x8_3 bb)
       (sel8x8_2 aa)
       (sel8x8_2 bb)
       (sel8x8_1 aa)
       (sel8x8_1 bb)
       (sel8x8_0 aa)
       (sel8x8_0 bb)"

definition h_generic_calc_InterleaveHI16x4 :: "64 word \<Rightarrow> 64 word \<Rightarrow> 64 word" where
  "h_generic_calc_InterleaveHI16x4 aa bb =
     mk16x4
       (sel16x4_3 aa)
       (sel16x4_3 bb)
       (sel16x4_2 aa)
       (sel16x4_2 bb)"

definition h_generic_calc_InterleaveLO16x4 :: "64 word \<Rightarrow> 64 word \<Rightarrow> 64 word" where
  "h_generic_calc_InterleaveLO16x4 aa bb =
     mk16x4
       (sel16x4_1 aa)
       (sel16x4_1 bb)
       (sel16x4_0 aa)
       (sel16x4_0 bb)"

definition h_generic_calc_InterleaveHI32x2 :: "64 word \<Rightarrow> 64 word \<Rightarrow> 64 word" where
  "h_generic_calc_InterleaveHI32x2 aa bb =
     mk32x2
       (sel32x2_1 aa)
       (sel32x2_1 bb)"

definition h_generic_calc_InterleaveLO32x2 :: "64 word \<Rightarrow> 64 word \<Rightarrow> 64 word" where
  "h_generic_calc_InterleaveLO32x2 aa bb =
     mk32x2
       (sel32x2_0 aa)
       (sel32x2_0 bb)"

definition h_generic_calc_CatOddLanes16x4 :: "64 word \<Rightarrow> 64 word \<Rightarrow> 64 word" where
  "h_generic_calc_CatOddLanes16x4 aa bb =
     mk16x4
       (sel16x4_3 aa)
       (sel16x4_1 aa)
       (sel16x4_3 bb)
       (sel16x4_1 bb)"

definition h_generic_calc_CatEvenLanes16x4 :: "64 word \<Rightarrow> 64 word \<Rightarrow> 64 word" where
  "h_generic_calc_CatEvenLanes16x4 aa bb =
     mk16x4
       (sel16x4_2 aa)
       (sel16x4_0 aa)
       (sel16x4_2 bb)
       (sel16x4_0 bb)"

definition h_generic_calc_Perm8x8 :: "64 word \<Rightarrow> 64 word \<Rightarrow> 64 word" where
  "h_generic_calc_Perm8x8 aa bb =
     mk8x8
       (index8x8 aa (sel8x8_7 bb))
       (index8x8 aa (sel8x8_6 bb))
       (index8x8 aa (sel8x8_5 bb))
       (index8x8 aa (sel8x8_4 bb))
       (index8x8 aa (sel8x8_3 bb))
       (index8x8 aa (sel8x8_2 bb))
       (index8x8 aa (sel8x8_1 bb))
       (index8x8 aa (sel8x8_0 bb))"

definition h_generic_calc_ShlN32x2 :: "64 word \<Rightarrow> 32 word \<Rightarrow> 64 word" where
  "h_generic_calc_ShlN32x2 xx nn = (let nn = nn AND 31 in
     mk32x2
       (shl32 (sel32x2_1 xx) nn)
       (shl32 (sel32x2_0 xx) nn))"

definition h_generic_calc_ShlN16x4 :: "64 word \<Rightarrow> 32 word \<Rightarrow> 64 word" where
  "h_generic_calc_ShlN16x4 xx nn = (let nn = nn AND 15 in
     mk16x4
       (shl16 (sel16x4_3 xx) nn)
       (shl16 (sel16x4_2 xx) nn)
       (shl16 (sel16x4_1 xx) nn)
       (shl16 (sel16x4_0 xx) nn))"

definition h_generic_calc_ShlN8x8 :: "64 word \<Rightarrow> 32 word \<Rightarrow> 64 word" where
  "h_generic_calc_ShlN8x8 xx nn = (let nn = nn AND 7 in
     mk8x8
       (shl8 (sel8x8_7 xx) nn)
       (shl8 (sel8x8_6 xx) nn)
       (shl8 (sel8x8_5 xx) nn)
       (shl8 (sel8x8_4 xx) nn)
       (shl8 (sel8x8_3 xx) nn)
       (shl8 (sel8x8_2 xx) nn)
       (shl8 (sel8x8_1 xx) nn)
       (shl8 (sel8x8_0 xx) nn))"

definition h_generic_calc_ShrN32x2 :: "64 word \<Rightarrow> 32 word \<Rightarrow> 64 word" where
  "h_generic_calc_ShrN32x2 xx nn = (let nn = nn AND 31 in
     mk32x2
       (shr32 (sel32x2_1 xx) nn)
       (shr32 (sel32x2_0 xx) nn))"

definition h_generic_calc_ShrN16x4 :: "64 word \<Rightarrow> 32 word \<Rightarrow> 64 word" where
  "h_generic_calc_ShrN16x4 xx nn = (let nn = nn AND 15 in
     mk16x4
       (shr16 (sel16x4_3 xx) nn)
       (shr16 (sel16x4_2 xx) nn)
       (shr16 (sel16x4_1 xx) nn)
       (shr16 (sel16x4_0 xx) nn))"

definition h_generic_calc_SarN32x2 :: "64 word \<Rightarrow> 32 word \<Rightarrow> 64 word" where
  "h_generic_calc_SarN32x2 xx nn = (let nn = nn AND 31 in
     mk32x2
       (sar32 (sel32x2_1 xx) nn)
       (sar32 (sel32x2_0 xx) nn))"

definition h_generic_calc_SarN16x4 :: "64 word \<Rightarrow> 32 word \<Rightarrow> 64 word" where
  "h_generic_calc_SarN16x4 xx nn = (let nn = nn AND 15 in
     mk16x4
       (sar16 (sel16x4_3 xx) nn)
       (sar16 (sel16x4_2 xx) nn)
       (sar16 (sel16x4_1 xx) nn)
       (sar16 (sel16x4_0 xx) nn))"

definition h_generic_calc_SarN8x8 :: "64 word \<Rightarrow> 32 word \<Rightarrow> 64 word" where
  "h_generic_calc_SarN8x8 xx nn = (let nn = nn AND 7 in
     mk8x8
       (sar8 (sel8x8_7 xx) nn)
       (sar8 (sel8x8_6 xx) nn)
       (sar8 (sel8x8_5 xx) nn)
       (sar8 (sel8x8_4 xx) nn)
       (sar8 (sel8x8_3 xx) nn)
       (sar8 (sel8x8_2 xx) nn)
       (sar8 (sel8x8_1 xx) nn)
       (sar8 (sel8x8_0 xx) nn))"

definition h_generic_calc_Avg8Ux8 :: "64 word \<Rightarrow> 64 word \<Rightarrow> 64 word" where
  "h_generic_calc_Avg8Ux8 xx yy =
     mk8x8
       (avg8U (sel8x8_7 xx) (sel8x8_7 yy))
       (avg8U (sel8x8_6 xx) (sel8x8_6 yy))
       (avg8U (sel8x8_5 xx) (sel8x8_5 yy))
       (avg8U (sel8x8_4 xx) (sel8x8_4 yy))
       (avg8U (sel8x8_3 xx) (sel8x8_3 yy))
       (avg8U (sel8x8_2 xx) (sel8x8_2 yy))
       (avg8U (sel8x8_1 xx) (sel8x8_1 yy))
       (avg8U (sel8x8_0 xx) (sel8x8_0 yy))"

definition h_generic_calc_Avg16Ux4 :: "64 word \<Rightarrow> 64 word \<Rightarrow> 64 word" where
  "h_generic_calc_Avg16Ux4 xx yy =
     mk16x4
       (avg16U (sel16x4_3 xx) (sel16x4_3 yy))
       (avg16U (sel16x4_2 xx) (sel16x4_2 yy))
       (avg16U (sel16x4_1 xx) (sel16x4_1 yy))
       (avg16U (sel16x4_0 xx) (sel16x4_0 yy))"

definition h_generic_calc_Max16Sx4 :: "64 word \<Rightarrow> 64 word \<Rightarrow> 64 word" where
  "h_generic_calc_Max16Sx4 xx yy =
     mk16x4
       (max16S (sel16x4_3 xx) (sel16x4_3 yy))
       (max16S (sel16x4_2 xx) (sel16x4_2 yy))
       (max16S (sel16x4_1 xx) (sel16x4_1 yy))
       (max16S (sel16x4_0 xx) (sel16x4_0 yy))"

definition h_generic_calc_Max8Ux8 :: "64 word \<Rightarrow> 64 word \<Rightarrow> 64 word" where
  "h_generic_calc_Max8Ux8 xx yy =
     mk8x8
       (max8U (sel8x8_7 xx) (sel8x8_7 yy))
       (max8U (sel8x8_6 xx) (sel8x8_6 yy))
       (max8U (sel8x8_5 xx) (sel8x8_5 yy))
       (max8U (sel8x8_4 xx) (sel8x8_4 yy))
       (max8U (sel8x8_3 xx) (sel8x8_3 yy))
       (max8U (sel8x8_2 xx) (sel8x8_2 yy))
       (max8U (sel8x8_1 xx) (sel8x8_1 yy))
       (max8U (sel8x8_0 xx) (sel8x8_0 yy))"

definition h_generic_calc_Min16Sx4 :: "64 word \<Rightarrow> 64 word \<Rightarrow> 64 word" where
  "h_generic_calc_Min16Sx4 xx yy =
     mk16x4
       (min16S (sel16x4_3 xx) (sel16x4_3 yy))
       (min16S (sel16x4_2 xx) (sel16x4_2 yy))
       (min16S (sel16x4_1 xx) (sel16x4_1 yy))
       (min16S (sel16x4_0 xx) (sel16x4_0 yy))"

definition h_generic_calc_Min8Ux8 :: "64 word \<Rightarrow> 64 word \<Rightarrow> 64 word" where
  "h_generic_calc_Min8Ux8 xx yy =
     mk8x8
       (min8U (sel8x8_7 xx) (sel8x8_7 yy))
       (min8U (sel8x8_6 xx) (sel8x8_6 yy))
       (min8U (sel8x8_5 xx) (sel8x8_5 yy))
       (min8U (sel8x8_4 xx) (sel8x8_4 yy))
       (min8U (sel8x8_3 xx) (sel8x8_3 yy))
       (min8U (sel8x8_2 xx) (sel8x8_2 yy))
       (min8U (sel8x8_1 xx) (sel8x8_1 yy))
       (min8U (sel8x8_0 xx) (sel8x8_0 yy))"

definition h_generic_calc_GetMSBs8x8 :: "64 word \<Rightarrow> 32 word" where
  "h_generic_calc_GetMSBs8x8 xx = (let
     r = 0;
     r = (if xx AND push_bit (64 - 1) 1 \<noteq> 0 then r OR push_bit 7 1 else r);
     r = (if xx AND push_bit (56 - 1) 1 \<noteq> 0 then r OR push_bit 6 1 else r);
     r = (if xx AND push_bit (48 - 1) 1 \<noteq> 0 then r OR push_bit 5 1 else r);
     r = (if xx AND push_bit (40 - 1) 1 \<noteq> 0 then r OR push_bit 4 1 else r);
     r = (if xx AND push_bit (32 - 1) 1 \<noteq> 0 then r OR push_bit 3 1 else r);
     r = (if xx AND push_bit (24 - 1) 1 \<noteq> 0 then r OR push_bit 2 1 else r);
     r = (if xx AND push_bit (16 - 1) 1 \<noteq> 0 then r OR push_bit 1 1 else r);
     r = (if xx AND push_bit (8 - 1) 1 \<noteq> 0 then r OR push_bit 0 1 else r) in
     r)"

section \<open>32-bit vectors\<close>

definition mk16x2 :: "16 word \<Rightarrow> 16 word \<Rightarrow> 32 word" where
  "mk16x2 w1 w2 = push_bit 16 (ucast w1) OR ucast w2"

definition sel16x2_1 :: "32 word \<Rightarrow> 16 word" where
  "sel16x2_1 w32 = 0xFFFF AND ucast (drop_bit 16 w32)"

definition sel16x2_0 :: "32 word \<Rightarrow> 16 word" where
  "sel16x2_0 w32 = 0xFFFF AND ucast w32"

definition mk8x4 :: "8 word \<Rightarrow> 8 word \<Rightarrow> 8 word \<Rightarrow> 8 word \<Rightarrow> 32 word" where
  "mk8x4 w3 w2 w1 w0 = push_bit 24 (ucast w3) OR push_bit 16 (ucast w2) OR push_bit 8 (ucast w1) OR push_bit 0 (ucast w0)"

definition sel8x4_3 :: "32 word \<Rightarrow> 8 word" where
  "sel8x4_3 w32 = toUChar (0xFF AND drop_bit 24 w32)"

definition sel8x4_2 :: "32 word \<Rightarrow> 8 word" where
  "sel8x4_2 w32 = toUChar (0xFF AND drop_bit 16 w32)"

definition sel8x4_1 :: "32 word \<Rightarrow> 8 word" where
  "sel8x4_1 w32 = toUChar (0xFF AND drop_bit 8 w32)"

definition sel8x4_0 :: "32 word \<Rightarrow> 8 word" where
  "sel8x4_0 w32 = toUChar (0xFF AND drop_bit 0 w32)"

definition h_generic_calc_Add16x2 :: "32 word \<Rightarrow> 32 word \<Rightarrow> 32 word" where
  "h_generic_calc_Add16x2 xx yy =
     mk16x2
       (ucast (ucast (sel16x2_1 xx) + ucast (sel16x2_1 yy) :: 32 word))
       (ucast (ucast (sel16x2_0 xx) + ucast (sel16x2_0 yy) :: 32 word))"

definition h_generic_calc_Sub16x2 :: "32 word \<Rightarrow> 32 word \<Rightarrow> 32 word" where
  "h_generic_calc_Sub16x2 xx yy =
     mk16x2
       (ucast (ucast (sel16x2_1 xx) - ucast (sel16x2_1 yy) :: 32 word))
       (ucast (ucast (sel16x2_0 xx) - ucast (sel16x2_0 yy) :: 32 word))"

definition h_generic_calc_HAdd16Ux2 :: "32 word \<Rightarrow> 32 word \<Rightarrow> 32 word" where
  "h_generic_calc_HAdd16Ux2 xx yy =
     mk16x2
       (hadd16U (sel16x2_1 xx) (sel16x2_1 yy))
       (hadd16U (sel16x2_0 xx) (sel16x2_0 yy))"

definition h_generic_calc_HAdd16Sx2 :: "32 word \<Rightarrow> 32 word \<Rightarrow> 32 word" where
  "h_generic_calc_HAdd16Sx2 xx yy =
     mk16x2
       (hadd16S (sel16x2_1 xx) (sel16x2_1 yy))
       (hadd16S (sel16x2_0 xx) (sel16x2_0 yy))"

definition h_generic_calc_HSub16Ux2 :: "32 word \<Rightarrow> 32 word \<Rightarrow> 32 word" where
  "h_generic_calc_HSub16Ux2 xx yy =
     mk16x2
       (hsub16U (sel16x2_1 xx) (sel16x2_1 yy))
       (hsub16U (sel16x2_0 xx) (sel16x2_0 yy))"

definition h_generic_calc_HSub16Sx2 :: "32 word \<Rightarrow> 32 word \<Rightarrow> 32 word" where
  "h_generic_calc_HSub16Sx2 xx yy =
     mk16x2
       (hsub16S (sel16x2_1 xx) (sel16x2_1 yy))
       (hsub16S (sel16x2_0 xx) (sel16x2_0 yy))"

definition h_generic_calc_QAdd16Ux2 :: "32 word \<Rightarrow> 32 word \<Rightarrow> 32 word" where
  "h_generic_calc_QAdd16Ux2 xx yy =
     mk16x2
       (qadd16U (sel16x2_1 xx) (sel16x2_1 yy))
       (qadd16U (sel16x2_0 xx) (sel16x2_0 yy))"

definition h_generic_calc_QAdd16Sx2 :: "32 word \<Rightarrow> 32 word \<Rightarrow> 32 word" where
  "h_generic_calc_QAdd16Sx2 xx yy =
     mk16x2
       (qadd16S (sel16x2_1 xx) (sel16x2_1 yy))
       (qadd16S (sel16x2_0 xx) (sel16x2_0 yy))"

definition h_generic_calc_QSub16Ux2 :: "32 word \<Rightarrow> 32 word \<Rightarrow> 32 word" where
  "h_generic_calc_QSub16Ux2 xx yy =
     mk16x2
       (qsub16U (sel16x2_1 xx) (sel16x2_1 yy))
       (qsub16U (sel16x2_0 xx) (sel16x2_0 yy))"

definition h_generic_calc_QSub16Sx2 :: "32 word \<Rightarrow> 32 word \<Rightarrow> 32 word" where
  "h_generic_calc_QSub16Sx2 xx yy =
     mk16x2
       (qsub16S (sel16x2_1 xx) (sel16x2_1 yy))
       (qsub16S (sel16x2_0 xx) (sel16x2_0 yy))"

definition h_generic_calc_Add8x4 :: "32 word \<Rightarrow> 32 word \<Rightarrow> 32 word" where
  "h_generic_calc_Add8x4 xx yy =
     mk8x4
       (ucast (ucast (sel8x4_3 xx) + ucast (sel8x4_3 yy) :: 32 word))
       (ucast (ucast (sel8x4_2 xx) + ucast (sel8x4_2 yy) :: 32 word))
       (ucast (ucast (sel8x4_1 xx) + ucast (sel8x4_1 yy) :: 32 word))
       (ucast (ucast (sel8x4_0 xx) + ucast (sel8x4_0 yy) :: 32 word))"

definition h_generic_calc_Sub8x4 :: "32 word \<Rightarrow> 32 word \<Rightarrow> 32 word" where
  "h_generic_calc_Sub8x4 xx yy =
     mk8x4
       (ucast (ucast (sel8x4_3 xx) - ucast (sel8x4_3 yy) :: 32 word))
       (ucast (ucast (sel8x4_2 xx) - ucast (sel8x4_2 yy) :: 32 word))
       (ucast (ucast (sel8x4_1 xx) - ucast (sel8x4_1 yy) :: 32 word))
       (ucast (ucast (sel8x4_0 xx) - ucast (sel8x4_0 yy) :: 32 word))"

definition h_generic_calc_HAdd8Ux4 :: "32 word \<Rightarrow> 32 word \<Rightarrow> 32 word" where
  "h_generic_calc_HAdd8Ux4 xx yy =
     mk8x4
       (hadd8U (sel8x4_3 xx) (sel8x4_3 yy))
       (hadd8U (sel8x4_2 xx) (sel8x4_2 yy))
       (hadd8U (sel8x4_1 xx) (sel8x4_1 yy))
       (hadd8U (sel8x4_0 xx) (sel8x4_0 yy))"

definition h_generic_calc_HAdd8Sx4 :: "32 word \<Rightarrow> 32 word \<Rightarrow> 32 word" where
  "h_generic_calc_HAdd8Sx4 xx yy =
     mk8x4
       (hadd8S (sel8x4_3 xx) (sel8x4_3 yy))
       (hadd8S (sel8x4_2 xx) (sel8x4_2 yy))
       (hadd8S (sel8x4_1 xx) (sel8x4_1 yy))
       (hadd8S (sel8x4_0 xx) (sel8x4_0 yy))"

definition h_generic_calc_HSub8Ux4 :: "32 word \<Rightarrow> 32 word \<Rightarrow> 32 word" where
  "h_generic_calc_HSub8Ux4 xx yy =
     mk8x4
       (hsub8U (sel8x4_3 xx) (sel8x4_3 yy))
       (hsub8U (sel8x4_2 xx) (sel8x4_2 yy))
       (hsub8U (sel8x4_1 xx) (sel8x4_1 yy))
       (hsub8U (sel8x4_0 xx) (sel8x4_0 yy))"

definition h_generic_calc_HSub8Sx4 :: "32 word \<Rightarrow> 32 word \<Rightarrow> 32 word" where
  "h_generic_calc_HSub8Sx4 xx yy =
     mk8x4
       (hsub8S (sel8x4_3 xx) (sel8x4_3 yy))
       (hsub8S (sel8x4_2 xx) (sel8x4_2 yy))
       (hsub8S (sel8x4_1 xx) (sel8x4_1 yy))
       (hsub8S (sel8x4_0 xx) (sel8x4_0 yy))"

definition h_generic_calc_QAdd8Ux4 :: "32 word \<Rightarrow> 32 word \<Rightarrow> 32 word" where
  "h_generic_calc_QAdd8Ux4 xx yy =
     mk8x4
       (qadd8U (sel8x4_3 xx) (sel8x4_3 yy))
       (qadd8U (sel8x4_2 xx) (sel8x4_2 yy))
       (qadd8U (sel8x4_1 xx) (sel8x4_1 yy))
       (qadd8U (sel8x4_0 xx) (sel8x4_0 yy))"

definition h_generic_calc_QAdd8Sx4 :: "32 word \<Rightarrow> 32 word \<Rightarrow> 32 word" where
  "h_generic_calc_QAdd8Sx4 xx yy =
     mk8x4
       (qadd8S (sel8x4_3 xx) (sel8x4_3 yy))
       (qadd8S (sel8x4_2 xx) (sel8x4_2 yy))
       (qadd8S (sel8x4_1 xx) (sel8x4_1 yy))
       (qadd8S (sel8x4_0 xx) (sel8x4_0 yy))"

definition h_generic_calc_QSub8Ux4 :: "32 word \<Rightarrow> 32 word \<Rightarrow> 32 word" where
  "h_generic_calc_QSub8Ux4 xx yy =
     mk8x4
       (qsub8U (sel8x4_3 xx) (sel8x4_3 yy))
       (qsub8U (sel8x4_2 xx) (sel8x4_2 yy))
       (qsub8U (sel8x4_1 xx) (sel8x4_1 yy))
       (qsub8U (sel8x4_0 xx) (sel8x4_0 yy))"

definition h_generic_calc_QSub8Sx4 :: "32 word \<Rightarrow> 32 word \<Rightarrow> 32 word" where
  "h_generic_calc_QSub8Sx4 xx yy =
     mk8x4
       (qsub8S (sel8x4_3 xx) (sel8x4_3 yy))
       (qsub8S (sel8x4_2 xx) (sel8x4_2 yy))
       (qsub8S (sel8x4_1 xx) (sel8x4_1 yy))
       (qsub8S (sel8x4_0 xx) (sel8x4_0 yy))"

definition h_generic_calc_CmpNEZ16x2 :: "32 word \<Rightarrow> 32 word" where
  "h_generic_calc_CmpNEZ16x2 xx =
     mk16x2
       (cmpnez16 (sel16x2_1 xx))
       (cmpnez16 (sel16x2_0 xx))"

definition h_generic_calc_CmpNEZ8x4 :: "32 word \<Rightarrow> 32 word" where
  "h_generic_calc_CmpNEZ8x4 xx =
     mk8x4
       (cmpnez8 (sel8x4_3 xx))
       (cmpnez8 (sel8x4_2 xx))
       (cmpnez8 (sel8x4_1 xx))
       (cmpnez8 (sel8x4_0 xx))"

definition h_generic_calc_Sad8Ux4 :: "32 word \<Rightarrow> 32 word \<Rightarrow> 32 word" where
  "h_generic_calc_Sad8Ux4 xx yy = absdiff8U (sel8x4_3 xx) (sel8x4_3 yy) + absdiff8U (sel8x4_2 xx) (sel8x4_2 yy)
     + absdiff8U (sel8x4_1 xx) (sel8x4_1 yy) + absdiff8U (sel8x4_0 xx) (sel8x4_0 yy)"

definition h_generic_calc_QAdd32S :: "32 word \<Rightarrow> 32 word \<Rightarrow> 32 word" where
  "h_generic_calc_QAdd32S xx yy = qadd32S xx yy"

definition h_generic_calc_QSub32S :: "32 word \<Rightarrow> 32 word \<Rightarrow> 32 word" where
  "h_generic_calc_QSub32S xx yy = qsub32S xx yy"

section \<open>Decimal conversions\<close>

text \<open>A \<^verbatim>\<open>Short\<close> is a \<^typ>\<open>16 word\<close>; the macros \<^verbatim>\<open>NOT\<close>, \<^verbatim>\<open>GET\<close> and \<^verbatim>\<open>PUT\<close> are \<open>notS\<close>, \<open>getS\<close>
  and \<open>putS\<close> (the last shifts an \<^verbatim>\<open>int\<close>, to which a \<^verbatim>\<open>Short\<close> is promoted).\<close>

definition notS :: "16 word \<Rightarrow> 16 word" where
  "notS x = (if x = 0 then 1 else 0)"

definition getS :: "64 word \<Rightarrow> nat \<Rightarrow> 16 word" where
  "getS x y = ucast (drop_bit y (x AND push_bit y 1))"

definition putS :: "16 word \<Rightarrow> nat \<Rightarrow> 32 word" where
  "putS x y = push_bit y (scast x)"

definition dpb_to_bcd :: "64 word \<Rightarrow> 64 word" where
  "dpb_to_bcd chunk = (let
     p = getS chunk 9;
     q = getS chunk 8;
     r = getS chunk 7;
     s = getS chunk 6;
     t = getS chunk 5;
     u = getS chunk 4;
     v = getS chunk 3;
     w = getS chunk 2;
     x = getS chunk 1;
     y = getS chunk 0;
     a = (notS s AND v AND w) OR (t AND v AND w AND s) OR (v AND w AND notS x);
     b = (p AND s AND x AND notS t) OR (p AND notS w) OR (p AND notS v);
     c = (q AND s AND x AND notS t) OR (q AND notS w) OR (q AND notS v);
     d = r;
     e = (v AND notS w AND x) OR (s AND v AND w AND x) OR (notS t AND v AND x AND w);
     f = (p AND t AND v AND w AND x AND notS s) OR (s AND notS x AND v) OR (s AND notS v);
     g = (q AND t AND w AND v AND x AND notS s) OR (t AND notS x AND v) OR (t AND notS v);
     h = u;
     i = (t AND v AND w AND x) OR (s AND v AND w AND x) OR (v AND notS w AND notS x);
     j = (p AND notS s AND notS t AND w AND v) OR (s AND v AND notS w AND x) OR (p AND w AND notS x AND v) OR (w AND notS v);
     k = (q AND notS s AND notS t AND v AND w) OR (t AND v AND notS w AND x) OR (q AND v AND w AND notS x) OR (x AND notS v);
     m = y;
     value = scast (putS a 11 OR putS b 10 OR putS c 9 OR putS d 8 OR putS e 7 OR putS f 6 OR putS g 5 OR putS h 4 OR putS i 3 OR putS j 2 OR putS k 1 OR putS m 0) in
     value)"

definition bcd_to_dpb :: "64 word \<Rightarrow> 64 word" where
  "bcd_to_dpb chunk = (let
     a = getS chunk 11;
     b = getS chunk 10;
     c = getS chunk 9;
     d = getS chunk 8;
     e = getS chunk 7;
     f = getS chunk 6;
     g = getS chunk 5;
     h = getS chunk 4;
     i = getS chunk 3;
     j = getS chunk 2;
     k = getS chunk 1;
     m = getS chunk 0;
     p = (f AND a AND i AND notS e) OR (j AND a AND notS i) OR (b AND notS a);
     q = (g AND a AND i AND notS e) OR (k AND a AND notS i) OR (c AND notS a);
     r = d;
     s = (j AND notS a AND e AND notS i) OR (f AND notS i AND notS e) OR (f AND notS a AND notS e) OR (e AND i);
     t = (k AND notS a AND e AND notS i) OR (g AND notS i AND notS e) OR (g AND notS a AND notS e) OR (a AND i);
     u = h;
     v = a OR e OR i;
     w = (notS e AND j AND notS i) OR (e AND i) OR a;
     x = (notS a AND k AND notS i) OR (a AND i) OR e;
     y = m;
     value = scast (putS p 9 OR putS q 8 OR putS r 7 OR putS s 6 OR putS t 5 OR putS u 4 OR putS v 3 OR putS w 2 OR putS x 1 OR scast y) in
     value)"

definition h_calc_DPBtoBCD :: "64 word \<Rightarrow> 64 word" where
  "h_calc_DPBtoBCD dpb = fold (\<lambda>i result. let
     chunk = drop_bit ((4 - i) * 10) dpb;
     result = push_bit 12 result in
     result OR dpb_to_bcd (chunk AND 0x3FF)) [0, 1, 2, 3, 4] 0"

definition h_calc_BCDtoDPB :: "64 word \<Rightarrow> 64 word" where
  "h_calc_BCDtoDPB bcd = fold (\<lambda>i result. let
     chunk = drop_bit ((4 - i) * 12) bcd;
     result = push_bit 10 result in
     result OR bcd_to_dpb (chunk AND 0xFFF)) [0, 1, 2, 3, 4] 0"

section \<open>Division\<close>

text \<open>The division of C: a division by zero and a signed quotient that does not fit its type are undefined (the machine traps),
  here \<^const>\<open>None\<close>; a signed quotient is rounded towards zero, which is \<open>sdiv\<close> of the library.\<close>

definition c_udiv :: "'a::len word \<Rightarrow> 'a word \<Rightarrow> 'a word option" where
  "c_udiv x y = (if y = 0 then None else Some (x div y))"

definition c_sdiv :: "'a::len word \<Rightarrow> 'a word \<Rightarrow> 'a word option" where
  "c_sdiv x y = (let q = sint x sdiv sint y in
     if y = 0 \<or> q < - (2 ^ (LENGTH('a) - 1)) \<or> 2 ^ (LENGTH('a) - 1) \<le> q then None else Some (word_of_int q))"

definition h_calc_udiv32_w_arm_semantics :: "32 word \<Rightarrow> 32 word \<Rightarrow> 32 word option" where
  "h_calc_udiv32_w_arm_semantics x y = (if y = 0 then Some 0 else c_udiv x y)"

definition h_calc_udiv64_w_arm_semantics :: "64 word \<Rightarrow> 64 word \<Rightarrow> 64 word option" where
  "h_calc_udiv64_w_arm_semantics x y = (if y = 0 then Some 0 else c_udiv x y)"

definition h_calc_sdiv32_w_arm_semantics :: "32 word \<Rightarrow> 32 word \<Rightarrow> 32 word option" where
  "h_calc_sdiv32_w_arm_semantics x y =
     (if y = 0 then Some 0
      else if x = 0x80000000 \<and> y = 0xFFFFFFFF then Some 0x80000000
      else c_sdiv x y)"

definition h_calc_sdiv64_w_arm_semantics :: "64 word \<Rightarrow> 64 word \<Rightarrow> 64 word option" where
  "h_calc_sdiv64_w_arm_semantics x y =
     (if y = 0 then Some 0
      else if x = 0x8000000000000000 \<and> y = 0xFFFFFFFFFFFFFFFF then Some 0x8000000000000000
      else c_sdiv x y)"

text \<open>The value a helper that divides returns; that it returns one is proved in theory SimdSem.\<close>

definition returned :: "('a \<Rightarrow> 'a \<Rightarrow> 'b option) \<Rightarrow> 'a \<Rightarrow> 'a \<Rightarrow> 'b" where
  "returned h x y = the (h x y)"

section \<open>Which helper implements which operator\<close>

text \<open>The switches of the instruction selectors: \<^verbatim>\<open>iselIntExpr_R_wrk\<close> of \<^verbatim>\<open>host_amd64_isel.c\<close> for the operators
  on 64-bit vectors (a second argument that is a shift amount is passed as a \<^verbatim>\<open>UInt\<close>: \<^verbatim>\<open>second_is_UInt\<close>), and of
  \<^verbatim>\<open>host_arm_isel.c\<close> for those on 32 bits.\<close>

definition amd64_binops :: "(IROp list \<times> (64 word \<Rightarrow> 64 word \<Rightarrow> 64 word)) list" where
  "amd64_binops = [
     ([Iop_Add8x8], h_generic_calc_Add8x8),
     ([Iop_Add16x4], h_generic_calc_Add16x4),
     ([Iop_Add32x2], h_generic_calc_Add32x2),
     ([Iop_Avg8Ux8], h_generic_calc_Avg8Ux8),
     ([Iop_Avg16Ux4], h_generic_calc_Avg16Ux4),
     ([Iop_CmpEQ8x8], h_generic_calc_CmpEQ8x8),
     ([Iop_CmpEQ16x4], h_generic_calc_CmpEQ16x4),
     ([Iop_CmpEQ32x2], h_generic_calc_CmpEQ32x2),
     ([Iop_CmpGT8Sx8], h_generic_calc_CmpGT8Sx8),
     ([Iop_CmpGT16Sx4], h_generic_calc_CmpGT16Sx4),
     ([Iop_CmpGT32Sx2], h_generic_calc_CmpGT32Sx2),
     ([Iop_InterleaveHI8x8], h_generic_calc_InterleaveHI8x8),
     ([Iop_InterleaveLO8x8], h_generic_calc_InterleaveLO8x8),
     ([Iop_InterleaveHI16x4], h_generic_calc_InterleaveHI16x4),
     ([Iop_InterleaveLO16x4], h_generic_calc_InterleaveLO16x4),
     ([Iop_InterleaveHI32x2], h_generic_calc_InterleaveHI32x2),
     ([Iop_InterleaveLO32x2], h_generic_calc_InterleaveLO32x2),
     ([Iop_CatOddLanes16x4], h_generic_calc_CatOddLanes16x4),
     ([Iop_CatEvenLanes16x4], h_generic_calc_CatEvenLanes16x4),
     ([Iop_Perm8x8], h_generic_calc_Perm8x8),
     ([Iop_Max8Ux8], h_generic_calc_Max8Ux8),
     ([Iop_Max16Sx4], h_generic_calc_Max16Sx4),
     ([Iop_Min8Ux8], h_generic_calc_Min8Ux8),
     ([Iop_Min16Sx4], h_generic_calc_Min16Sx4),
     ([Iop_Mul16x4], h_generic_calc_Mul16x4),
     ([Iop_Mul32x2], h_generic_calc_Mul32x2),
     ([Iop_MulHi16Sx4], h_generic_calc_MulHi16Sx4),
     ([Iop_MulHi16Ux4], h_generic_calc_MulHi16Ux4),
     ([Iop_QAdd8Sx8], h_generic_calc_QAdd8Sx8),
     ([Iop_QAdd16Sx4], h_generic_calc_QAdd16Sx4),
     ([Iop_QAdd8Ux8], h_generic_calc_QAdd8Ux8),
     ([Iop_QAdd16Ux4], h_generic_calc_QAdd16Ux4),
     ([Iop_QNarrowBin32Sto16Sx4], h_generic_calc_QNarrowBin32Sto16Sx4),
     ([Iop_QNarrowBin16Sto8Sx8], h_generic_calc_QNarrowBin16Sto8Sx8),
     ([Iop_QNarrowBin16Sto8Ux8], h_generic_calc_QNarrowBin16Sto8Ux8),
     ([Iop_NarrowBin16to8x8], h_generic_calc_NarrowBin16to8x8),
     ([Iop_NarrowBin32to16x4], h_generic_calc_NarrowBin32to16x4),
     ([Iop_QSub8Sx8], h_generic_calc_QSub8Sx8),
     ([Iop_QSub16Sx4], h_generic_calc_QSub16Sx4),
     ([Iop_QSub8Ux8], h_generic_calc_QSub8Ux8),
     ([Iop_QSub16Ux4], h_generic_calc_QSub16Ux4),
     ([Iop_Sub8x8], h_generic_calc_Sub8x8),
     ([Iop_Sub16x4], h_generic_calc_Sub16x4),
     ([Iop_Sub32x2], h_generic_calc_Sub32x2)]"

definition amd64_shifts :: "(IROp list \<times> (64 word \<Rightarrow> 32 word \<Rightarrow> 64 word)) list" where
  "amd64_shifts = [
     ([Iop_ShlN32x2], h_generic_calc_ShlN32x2),
     ([Iop_ShlN16x4], h_generic_calc_ShlN16x4),
     ([Iop_ShlN8x8], h_generic_calc_ShlN8x8),
     ([Iop_ShrN32x2], h_generic_calc_ShrN32x2),
     ([Iop_ShrN16x4], h_generic_calc_ShrN16x4),
     ([Iop_SarN32x2], h_generic_calc_SarN32x2),
     ([Iop_SarN16x4], h_generic_calc_SarN16x4),
     ([Iop_SarN8x8], h_generic_calc_SarN8x8)]"

definition amd64_unops :: "(IROp list \<times> (64 word \<Rightarrow> 64 word)) list" where
  "amd64_unops = [
     ([Iop_CmpNEZ32x2], h_generic_calc_CmpNEZ32x2),
     ([Iop_CmpNEZ16x4], h_generic_calc_CmpNEZ16x4),
     ([Iop_CmpNEZ8x8], h_generic_calc_CmpNEZ8x8)]"

definition arm_binops :: "(IROp list \<times> (32 word \<Rightarrow> 32 word \<Rightarrow> 32 word)) list" where
  "arm_binops = [
     ([Iop_Add16x2], h_generic_calc_Add16x2),
     ([Iop_Sub16x2], h_generic_calc_Sub16x2),
     ([Iop_HAdd16Ux2], h_generic_calc_HAdd16Ux2),
     ([Iop_HAdd16Sx2], h_generic_calc_HAdd16Sx2),
     ([Iop_HSub16Ux2], h_generic_calc_HSub16Ux2),
     ([Iop_HSub16Sx2], h_generic_calc_HSub16Sx2),
     ([Iop_QAdd16Sx2], h_generic_calc_QAdd16Sx2),
     ([Iop_QAdd16Ux2], h_generic_calc_QAdd16Ux2),
     ([Iop_QSub16Sx2], h_generic_calc_QSub16Sx2),
     ([Iop_Add8x4], h_generic_calc_Add8x4),
     ([Iop_Sub8x4], h_generic_calc_Sub8x4),
     ([Iop_HAdd8Ux4], h_generic_calc_HAdd8Ux4),
     ([Iop_HAdd8Sx4], h_generic_calc_HAdd8Sx4),
     ([Iop_HSub8Ux4], h_generic_calc_HSub8Ux4),
     ([Iop_HSub8Sx4], h_generic_calc_HSub8Sx4),
     ([Iop_QAdd8Sx4], h_generic_calc_QAdd8Sx4),
     ([Iop_QAdd8Ux4], h_generic_calc_QAdd8Ux4),
     ([Iop_QSub8Sx4], h_generic_calc_QSub8Sx4),
     ([Iop_QSub8Ux4], h_generic_calc_QSub8Ux4),
     ([Iop_Sad8Ux4], h_generic_calc_Sad8Ux4),
     ([Iop_QAdd32S], h_generic_calc_QAdd32S),
     ([Iop_QSub32S], h_generic_calc_QSub32S),
     ([Iop_QSub16Ux2], h_generic_calc_QSub16Ux2),
     ([Iop_DivU32], returned h_calc_udiv32_w_arm_semantics),
     ([Iop_DivS32], returned h_calc_sdiv32_w_arm_semantics)]"

definition arm_unops :: "(IROp list \<times> (32 word \<Rightarrow> 32 word)) list" where
  "arm_unops = [
     ([Iop_CmpNEZ16x2], h_generic_calc_CmpNEZ16x2),
     ([Iop_CmpNEZ8x4], h_generic_calc_CmpNEZ8x4)]"

end
