(* ===== verification/TntValues.thy ===== *)
theory TntValues
  imports TntExprTyping TaintAlgebra
begin

text \<open>
  The values the emitted code computes. \<open>vals sem G m ty x\<close> states that an emitter \<open>m\<close>, started
  in any well-formed environment and store where the atoms of \<open>G\<close> have the kinds, types and
  values given there, emits statements that run without error in the semantics \<open>sem\<close>, leaves
  all older temporaries unchanged and returns a shadow atom of type \<open>ty\<close> whose value is then
  \<open>x\<close>. The locale \<open>ir_sem\<close> is the semantics: anything that agrees with the reference one.
\<close>

section \<open>Running emitted code\<close>

type_synonym store = "IRTemp \<Rightarrow> int"
type_synonym op_sem = "IROp \<Rightarrow> int list \<Rightarrow> int option"

fun eval :: "op_sem \<Rightarrow> store \<Rightarrow> IRExpr \<Rightarrow> int option" where
  "eval sem s (Iex_RdTmp t) = Some (s t)"
| "eval sem s (Iex_Const c) = Some (const_val c)"
| "eval sem s (Iex_Unop op a) = do { x \<leftarrow> eval sem s a; sem op [x] }"
| "eval sem s (Iex_Binop op a b) = do { x \<leftarrow> eval sem s a; y \<leftarrow> eval sem s b; sem op [x, y] }"
| "eval sem s (Iex_Triop op a b c) = do { x \<leftarrow> eval sem s a; y \<leftarrow> eval sem s b; z \<leftarrow> eval sem s c; sem op [x, y, z] }"
| "eval sem s (Iex_Qop op a b c d) =
     do { x \<leftarrow> eval sem s a; y \<leftarrow> eval sem s b; z \<leftarrow> eval sem s c; u \<leftarrow> eval sem s d; sem op [x, y, z, u] }"
| "eval sem s (Iex_ITE c t f) = do { x \<leftarrow> eval sem s c; y \<leftarrow> eval sem s t; z \<leftarrow> eval sem s f; Some (if x \<noteq> 0 then y else z) }"
| "eval sem s _ = None"

fun run :: "op_sem \<Rightarrow> IRStmt list \<Rightarrow> store \<Rightarrow> store option" where
  "run sem [] s = Some s"
| "run sem (Ist_WrTmp t e # sts) s = do { x \<leftarrow> eval sem s e; run sem sts (s(t := x)) }"
| "run sem (_ # sts) s = None"

lemma run_append: "run sem (xs @ ys) s = Option.bind (run sem xs s) (run sem ys)"
proof (induction xs arbitrary: s)
  case (Cons st xs)
  show ?case
  proof (cases st)
    case (Ist_WrTmp t e)
    then show ?thesis using Cons by (cases "eval sem s e") (simp_all del: fun_upd_apply)
  qed simp_all
qed simp

lemma run_preserves:
  "list_all (writes_from n) sts \<Longrightarrow> run sem sts s = Some s' \<Longrightarrow> t < n \<Longrightarrow> s' t = s t"
proof (induction sts arbitrary: s)
  case (Cons st sts)
  then show ?case by (cases st) (auto simp: bind_Some_iff)
qed simp

text \<open>An atom with its value.\<close>

type_synonym valued_atom = "TempKind \<times> IRExpr \<times> IRType \<times> int"

definition aval :: "store \<Rightarrow> IRExpr \<Rightarrow> int" where
  "aval s a = (case a of Iex_RdTmp t \<Rightarrow> s t | Iex_Const c \<Rightarrow> const_val c | _ \<Rightarrow> 0)"

definition vatom :: "MCEnv \<Rightarrow> store \<Rightarrow> valued_atom \<Rightarrow> bool" where
  "vatom mce s = (\<lambda>(k, a, ty, x). tatom mce (k, a, ty) \<and> aval s a = x \<and> fits ty x)"

definition vctx :: "valued_atom set \<Rightarrow> MCEnv \<Rightarrow> store \<Rightarrow> bool" where
  "vctx G mce s \<longleftrightarrow> mce_ok mce \<and> (\<forall>x \<in> G. vatom mce s x)"

lemma vatom_eval: "vatom mce s (k, a, ty, x) \<Longrightarrow> eval sem s a = Some x"
  by (cases a) (auto simp: vatom_def tatom_def kinded_def aval_def)

text \<open>\<open>steps sem (mce, s) (mce', s')\<close>: statements have been added, and running them leads from
  the one store to the other.\<close>

definition steps :: "op_sem \<Rightarrow> MCEnv \<Rightarrow> store \<Rightarrow> MCEnv \<Rightarrow> store \<Rightarrow> bool" where
  "steps sem mce s mce' s' \<longleftrightarrow> grows mce mce' \<and> mce_ok mce' \<and>
     (\<exists>sts. sb_stmts mce' = sb_stmts mce @ sts \<and> run sem sts s = Some s')"

lemma steps_trans: "steps sem m1 s1 m2 s2 \<Longrightarrow> steps sem m2 s2 m3 s3 \<Longrightarrow> steps sem m1 s1 m3 s3"
  unfolding steps_def using grows_trans by (auto simp: run_append)

lemma steps_refl: "mce_ok mce \<Longrightarrow> steps sem mce s mce s"
  by (simp add: steps_def)

lemma vatom_steps:
  assumes st: "steps sem mce s mce' s'" and ok: "mce_ok mce" and v: "vatom mce s x"
  shows "vatom mce' s' x"
proof -
  obtain k a ty y where x: "x = (k, a, ty, y)" by (cases x)
  obtain sts where sts: "sb_stmts mce' = sb_stmts mce @ sts" "run sem sts s = Some s'" "grows mce mce'"
    using st by (auto simp: steps_def)
  then have w: "list_all (writes_from (length (sb_tyenv mce))) sts" by (auto simp: grows_def)
  have "aval s' a = aval s a"
  proof (cases a)
    case (Iex_RdTmp t)
    then have "t < length (sb_tyenv mce)"
      using v x by (auto simp: vatom_def tatom_def typeOfIRTemp_def split: if_splits)
    then show ?thesis using run_preserves [OF w sts(2)] Iex_RdTmp by (simp add: aval_def)
  qed (simp_all add: aval_def)
  then show ?thesis using v x tatom_grows [OF sts(3)] by (auto simp: vatom_def)
qed

lemma vctx_steps: "steps sem mce s mce' s' \<Longrightarrow> vctx G mce s \<Longrightarrow> vctx G mce' s'"
  using vatom_steps [of sem mce s mce' s'] by (auto simp: vctx_def steps_def)

section \<open>Valued emission\<close>

definition vals :: "op_sem \<Rightarrow> valued_atom set \<Rightarrow> emitter \<Rightarrow> IRType \<Rightarrow> int \<Rightarrow> bool" where
  "vals sem G m ty x \<longleftrightarrow> (\<forall>mce s. vctx G mce s \<longrightarrow>
     (\<exists>r mce' s'. m mce = Some (r, mce') \<and> steps sem mce s mce' s' \<and> vatom mce' s' (VSh, r, ty, x)))"

lemma vals_bind:
  assumes "vals sem G m ty x"
    and "\<And>r. fits ty x \<Longrightarrow> vals sem (insert (VSh, r, ty, x) G) (\<lambda>mce. k r mce) ty' y"
  shows "vals sem G (\<lambda>mce. Option.bind (m mce) (\<lambda>(r, mce). k r mce)) ty' y"
  unfolding vals_def
proof (intro allI impI)
  fix mce s assume ctx: "vctx G mce s"
  obtain r m1 s1 where 1: "m mce = Some (r, m1)" "steps sem mce s m1 s1" "vatom m1 s1 (VSh, r, ty, x)"
    using assms(1) ctx unfolding vals_def by blast
  then have "fits ty x" "vctx (insert (VSh, r, ty, x) G) m1 s1"
    using vctx_steps [OF 1(2) ctx] by (auto simp: vctx_def vatom_def)
  then obtain r' m2 s2 where "k r m1 = Some (r', m2)" "steps sem m1 s1 m2 s2" "vatom m2 s2 (VSh, r', ty', y)"
    using assms(2) unfolding vals_def by blast
  then show "\<exists>r' mce' s'. Option.bind (m mce) (\<lambda>(r, mce). k r mce) = Some (r', mce') \<and>
      steps sem mce s mce' s' \<and> vatom mce' s' (VSh, r', ty', y)"
    using 1(1) steps_trans [OF 1(2)] by auto
qed

lemma vals_pure_bind:
  assumes "\<And>mce s. vctx G mce s \<Longrightarrow> f mce = Some x" "vals sem G (\<lambda>mce. k x mce) ty y"
  shows "vals sem G (\<lambda>mce. Option.bind (f mce) (\<lambda>x. k x mce)) ty y"
  using assms by (auto simp: vals_def)

lemma vals_assert:
  assumes "\<And>mce s. vctx G mce s \<Longrightarrow> b mce" "vals sem G m ty y"
  shows "vals sem G (\<lambda>mce. Option.bind (assert_that (b mce)) (\<lambda>_. m mce)) ty y"
  using assms by (auto simp: vals_def)

lemma vals_cond:
  assumes "b \<Longrightarrow> vals sem G m ty y" "\<not> b \<Longrightarrow> vals sem G m' ty y"
  shows "vals sem G (\<lambda>mce. if b then m mce else m' mce) ty y"
  using assms by (cases b) auto

lemma vals_return: "(VSh, a, ty, x) \<in> G \<Longrightarrow> vals sem G (\<lambda>mce. Some (a, mce)) ty x"
  unfolding vals_def vctx_def by (auto intro!: exI steps_refl)

lemma vals_assignNew:
  assumes ty: "\<And>mce s. vctx G mce s \<Longrightarrow> typeOfIRExpr (sb_tyenv mce) e = Some ty"
    and ev: "\<And>mce s. vctx G mce s \<Longrightarrow> eval sem s e = Some x"
    and fits: "fits ty x"
  shows "vals sem G (\<lambda>mce. assignNew CHR ''V'' mce ty e) ty x"
  unfolding vals_def
proof (intro allI impI)
  fix mce s assume ctx: "vctx G mce s"
  let ?s = "s(length (sb_tyenv mce) := x)"
  obtain mce' where r: "assignNew CHR ''V'' mce ty e = Some (Iex_RdTmp (length (sb_tyenv mce)), mce')" "grows mce mce'"
    "mce_ok mce'" "tatom mce' (VSh, Iex_RdTmp (length (sb_tyenv mce)), ty)"
    "sb_stmts mce' = sb_stmts mce @ [Ist_WrTmp (length (sb_tyenv mce)) e]"
    using assignNew_ok [OF _ ty [OF ctx]] ctx by (auto simp: vctx_def)
  have "steps sem mce s mce' ?s" using r ev [OF ctx] by (simp add: steps_def)
  moreover have "vatom mce' ?s (VSh, Iex_RdTmp (length (sb_tyenv mce)), ty, x)"
    using r fits by (simp add: vatom_def aval_def)
  ultimately show "\<exists>r mce' s'. assignNew CHR ''V'' mce ty e = Some (r, mce') \<and> steps sem mce s mce' s' \<and>
      vatom mce' s' (VSh, r, ty, x)"
    using r(1) by blast
qed

lemma vctx_shadow: "vctx G mce s \<Longrightarrow> (VSh, a, ty, x) \<in> G \<Longrightarrow> isShadowAtom mce a"
  by (auto simp: vctx_def vatom_def dest: tatom_atoms)

lemma vctx_original: "vctx G mce s \<Longrightarrow> (Orig, a, ty, x) \<in> G \<Longrightarrow> isOriginalAtom mce a"
  by (auto simp: vctx_def vatom_def dest: tatom_atoms)

lemma vctx_type: "vctx G mce s \<Longrightarrow> (k, a, ty, x) \<in> G \<Longrightarrow> typeOfIRExpr (sb_tyenv mce) a = Some ty"
  by (auto simp: vctx_def vatom_def tatom_def)

lemma vctx_eval: "vctx G mce s \<Longrightarrow> (k, a, ty, x) \<in> G \<Longrightarrow> eval sem s a = Some x"
  by (auto simp: vctx_def dest: vatom_eval)

lemma eval_op:
  "eval sem s a = Some x \<Longrightarrow> sem op [x] = Some y \<Longrightarrow> eval sem s (Iex_Unop op a) = Some y"
  "eval sem s a = Some x \<Longrightarrow> eval sem s b = Some y \<Longrightarrow> sem op [x, y] = Some z \<Longrightarrow> eval sem s (Iex_Binop op a b) = Some z"
  "const_val c = x \<Longrightarrow> eval sem s (Iex_Const c) = Some x"
  by simp_all

lemmas vals_steps = vals_assert vals_bind vals_assignNew vals_return vals_pure_bind insertI1 insertI2 type_of_op eval_op
lemmas vals_elims = vctx_shadow vctx_original vctx_type vctx_eval


section \<open>Widths\<close>

lemma fits_bitwise: "fits ty x \<Longrightarrow> fits ty y \<Longrightarrow> fits ty (x OR y)" "fits ty x \<Longrightarrow> fits ty y \<Longrightarrow> fits ty (x AND y)"
  "fits ty x \<Longrightarrow> fits ty y \<Longrightarrow> fits ty (x XOR y)"
  by (simp_all add: fits_def)

lemma fits_take: "ty_bits ty = w \<Longrightarrow> fits ty (take_bit w x)"
  by (simp add: fits_def)

lemma fits_pess: "ty_bits ty = w \<Longrightarrow> fits ty (pess w x)"
  by (simp add: fits_def pess_def)

lemma fits_range: "fits ty x \<longleftrightarrow> 0 \<le> x \<and> x < 2 ^ ty_bits ty"
  by (simp add: fits_def take_bit_int_eq_self_iff)

lemma take_bit_lanes: "take_bit (w * k) (lanes w k f x) = lanes w k f x"
proof (induction k arbitrary: x)
  case (Suc k)
  have "take_bit (w + w * k) (push_bit w (lanes w k f (drop_bit w x))) = push_bit w (lanes w k f (drop_bit w x))"
    using Suc [of "drop_bit w x"] by (simp add: take_bit_push_bit)
  then show ?case by (simp add: take_bit_or min_def)
qed simp

lemma fits_lanes: "w * k = ty_bits ty \<Longrightarrow> fits ty (lanes w k f x)"
  using take_bit_lanes [of w k f x] by (simp add: fits_def)

lemma fits_of_bool: "fits Ity_I1 (of_bool b)"
  by (simp add: fits_def)

lemmas fits_rules = fits_lanes fits_bitwise fits_take fits_pess fits_of_bool

text \<open>What the Left family and the casts compute.\<close>

definition left_val :: "IRType \<Rightarrow> int \<Rightarrow> int" where
  "left_val ty x = take_bit (ty_bits ty) (x OR - x)"

definition not_val :: "IRType \<Rightarrow> int \<Rightarrow> int" where
  "not_val ty x = take_bit (ty_bits ty) (NOT x)"

definition pcast :: "IRType \<Rightarrow> int \<Rightarrow> int" where
  "pcast ty x = pess (ty_bits ty) x"

section \<open>The semantics the emitted code runs in\<close>

text \<open>
  Any semantics that gives the reference operators their reference value and works lane by lane
  on the operators that are documented to do so. What it says of the other operators (floating
  point, cryptography, permutations) is left open.
\<close>

named_theorems vals_rules \<open>the value of the atom an emitter returns\<close>

locale ir_sem =
  fixes sem :: op_sem
  assumes sem_unop_eq: "switch sem1_cases op = Some f \<Longrightarrow> sem op [x] = f x"
    and sem_binop_eq: "switch sem2_cases op = Some g \<Longrightarrow> sem op [x, y] = g x y"
    and sem_lanes: "switch lane_ops op = Some w \<Longrightarrow> sem op [x, y] = Some z \<Longrightarrow> sem op [x', y'] = Some z' \<Longrightarrow>
      lane w i x = lane w i x' \<Longrightarrow> lane w i y = lane w i y' \<Longrightarrow> lane w i z = lane w i z'"
begin

lemma sem_unop: "switch sem1_cases op = Some f \<Longrightarrow> f x = Some y \<Longrightarrow> sem op [x] = Some y"
  by (simp add: sem_unop_eq)

lemma sem_binop: "switch sem2_cases op = Some f \<Longrightarrow> f x y = Some z \<Longrightarrow> sem op [x, y] = Some z"
  by (simp add: sem_binop_eq)

lemma vals_eq: "vals sem G m ty x \<Longrightarrow> x = y \<Longrightarrow> vals sem G m ty y"
  by simp

lemmas vals_ops = sem_unop sem_binop

lemma vals_mkDifD8 [vals_rules]:
  "(VSh, a, Ity_I8, x) \<in> G \<Longrightarrow> (VSh, b, Ity_I8, y) \<in> G \<Longrightarrow> fits Ity_I8 x \<Longrightarrow> fits Ity_I8 y \<Longrightarrow> vals sem G (\<lambda>mce. mkDifD8 mce a b) Ity_I8 (x AND y)"
  unfolding mkDifD8_def
  by ((rule vals_rules vals_steps fits_rules | erule vals_elims | assumption | rule vals_ops, simp; simp add: sem_defs | simp add: prim_type_defs)+)

lemma vals_mkUifU8 [vals_rules]:
  "(VSh, a, Ity_I8, x) \<in> G \<Longrightarrow> (VSh, b, Ity_I8, y) \<in> G \<Longrightarrow> fits Ity_I8 x \<Longrightarrow> fits Ity_I8 y \<Longrightarrow> vals sem G (\<lambda>mce. mkUifU8 mce a b) Ity_I8 (x OR y)"
  unfolding mkUifU8_def
  by ((rule vals_rules vals_steps fits_rules | erule vals_elims | assumption | rule vals_ops, simp; simp add: sem_defs | simp add: prim_type_defs)+)

lemma vals_mkDifD16 [vals_rules]:
  "(VSh, a, Ity_I16, x) \<in> G \<Longrightarrow> (VSh, b, Ity_I16, y) \<in> G \<Longrightarrow> fits Ity_I16 x \<Longrightarrow> fits Ity_I16 y \<Longrightarrow> vals sem G (\<lambda>mce. mkDifD16 mce a b) Ity_I16 (x AND y)"
  unfolding mkDifD16_def
  by ((rule vals_rules vals_steps fits_rules | erule vals_elims | assumption | rule vals_ops, simp; simp add: sem_defs | simp add: prim_type_defs)+)

lemma vals_mkUifU16 [vals_rules]:
  "(VSh, a, Ity_I16, x) \<in> G \<Longrightarrow> (VSh, b, Ity_I16, y) \<in> G \<Longrightarrow> fits Ity_I16 x \<Longrightarrow> fits Ity_I16 y \<Longrightarrow> vals sem G (\<lambda>mce. mkUifU16 mce a b) Ity_I16 (x OR y)"
  unfolding mkUifU16_def
  by ((rule vals_rules vals_steps fits_rules | erule vals_elims | assumption | rule vals_ops, simp; simp add: sem_defs | simp add: prim_type_defs)+)

lemma vals_mkDifD32 [vals_rules]:
  "(VSh, a, Ity_I32, x) \<in> G \<Longrightarrow> (VSh, b, Ity_I32, y) \<in> G \<Longrightarrow> fits Ity_I32 x \<Longrightarrow> fits Ity_I32 y \<Longrightarrow> vals sem G (\<lambda>mce. mkDifD32 mce a b) Ity_I32 (x AND y)"
  unfolding mkDifD32_def
  by ((rule vals_rules vals_steps fits_rules | erule vals_elims | assumption | rule vals_ops, simp; simp add: sem_defs | simp add: prim_type_defs)+)

lemma vals_mkUifU32 [vals_rules]:
  "(VSh, a, Ity_I32, x) \<in> G \<Longrightarrow> (VSh, b, Ity_I32, y) \<in> G \<Longrightarrow> fits Ity_I32 x \<Longrightarrow> fits Ity_I32 y \<Longrightarrow> vals sem G (\<lambda>mce. mkUifU32 mce a b) Ity_I32 (x OR y)"
  unfolding mkUifU32_def
  by ((rule vals_rules vals_steps fits_rules | erule vals_elims | assumption | rule vals_ops, simp; simp add: sem_defs | simp add: prim_type_defs)+)

lemma vals_mkDifD64 [vals_rules]:
  "(VSh, a, Ity_I64, x) \<in> G \<Longrightarrow> (VSh, b, Ity_I64, y) \<in> G \<Longrightarrow> fits Ity_I64 x \<Longrightarrow> fits Ity_I64 y \<Longrightarrow> vals sem G (\<lambda>mce. mkDifD64 mce a b) Ity_I64 (x AND y)"
  unfolding mkDifD64_def
  by ((rule vals_rules vals_steps fits_rules | erule vals_elims | assumption | rule vals_ops, simp; simp add: sem_defs | simp add: prim_type_defs)+)

lemma vals_mkUifU64 [vals_rules]:
  "(VSh, a, Ity_I64, x) \<in> G \<Longrightarrow> (VSh, b, Ity_I64, y) \<in> G \<Longrightarrow> fits Ity_I64 x \<Longrightarrow> fits Ity_I64 y \<Longrightarrow> vals sem G (\<lambda>mce. mkUifU64 mce a b) Ity_I64 (x OR y)"
  unfolding mkUifU64_def
  by ((rule vals_rules vals_steps fits_rules | erule vals_elims | assumption | rule vals_ops, simp; simp add: sem_defs | simp add: prim_type_defs)+)

lemma vals_mkDifDV128 [vals_rules]:
  "(VSh, a, Ity_V128, x) \<in> G \<Longrightarrow> (VSh, b, Ity_V128, y) \<in> G \<Longrightarrow> fits Ity_V128 x \<Longrightarrow> fits Ity_V128 y \<Longrightarrow> vals sem G (\<lambda>mce. mkDifDV128 mce a b) Ity_V128 (x AND y)"
  unfolding mkDifDV128_def
  by ((rule vals_rules vals_steps fits_rules | erule vals_elims | assumption | rule vals_ops, simp; simp add: sem_defs | simp add: prim_type_defs)+)

lemma vals_mkUifUV128 [vals_rules]:
  "(VSh, a, Ity_V128, x) \<in> G \<Longrightarrow> (VSh, b, Ity_V128, y) \<in> G \<Longrightarrow> fits Ity_V128 x \<Longrightarrow> fits Ity_V128 y \<Longrightarrow> vals sem G (\<lambda>mce. mkUifUV128 mce a b) Ity_V128 (x OR y)"
  unfolding mkUifUV128_def
  by ((rule vals_rules vals_steps fits_rules | erule vals_elims | assumption | rule vals_ops, simp; simp add: sem_defs | simp add: prim_type_defs)+)

lemma vals_mkDifDV256 [vals_rules]:
  "(VSh, a, Ity_V256, x) \<in> G \<Longrightarrow> (VSh, b, Ity_V256, y) \<in> G \<Longrightarrow> fits Ity_V256 x \<Longrightarrow> fits Ity_V256 y \<Longrightarrow> vals sem G (\<lambda>mce. mkDifDV256 mce a b) Ity_V256 (x AND y)"
  unfolding mkDifDV256_def
  by ((rule vals_rules vals_steps fits_rules | erule vals_elims | assumption | rule vals_ops, simp; simp add: sem_defs | simp add: prim_type_defs)+)

lemma vals_mkUifUV256 [vals_rules]:
  "(VSh, a, Ity_V256, x) \<in> G \<Longrightarrow> (VSh, b, Ity_V256, y) \<in> G \<Longrightarrow> fits Ity_V256 x \<Longrightarrow> fits Ity_V256 y \<Longrightarrow> vals sem G (\<lambda>mce. mkUifUV256 mce a b) Ity_V256 (x OR y)"
  unfolding mkUifUV256_def
  by ((rule vals_rules vals_steps fits_rules | erule vals_elims | assumption | rule vals_ops, simp; simp add: sem_defs | simp add: prim_type_defs)+)

lemma vals_mkImproveAND8 [vals_rules]:
  "(Orig, d, Ity_I8, x) \<in> G \<Longrightarrow> (VSh, v, Ity_I8, y) \<in> G \<Longrightarrow> fits Ity_I8 x \<Longrightarrow> fits Ity_I8 y \<Longrightarrow> sameKindedAtoms d v \<Longrightarrow> vals sem G (\<lambda>mce. mkImproveAND8 mce d v) Ity_I8 (x OR y)"
  unfolding mkImproveAND8_def
  by ((rule vals_rules vals_steps fits_rules | erule vals_elims | assumption | rule vals_ops, simp; simp add: sem_defs | simp add: prim_type_defs)+)

lemma vals_mkImproveOR8 [vals_rules]:
  "(Orig, d, Ity_I8, x) \<in> G \<Longrightarrow> (VSh, v, Ity_I8, y) \<in> G \<Longrightarrow> fits Ity_I8 x \<Longrightarrow> fits Ity_I8 y \<Longrightarrow> sameKindedAtoms d v \<Longrightarrow> vals sem G (\<lambda>mce. mkImproveOR8 mce d v) Ity_I8 (take_bit 8 (NOT x) OR y)"
  unfolding mkImproveOR8_def
  by ((rule vals_rules vals_steps fits_rules | erule vals_elims | assumption | rule vals_ops, simp; simp add: sem_defs | simp add: prim_type_defs)+)

lemma vals_mkImproveAND16 [vals_rules]:
  "(Orig, d, Ity_I16, x) \<in> G \<Longrightarrow> (VSh, v, Ity_I16, y) \<in> G \<Longrightarrow> fits Ity_I16 x \<Longrightarrow> fits Ity_I16 y \<Longrightarrow> sameKindedAtoms d v \<Longrightarrow> vals sem G (\<lambda>mce. mkImproveAND16 mce d v) Ity_I16 (x OR y)"
  unfolding mkImproveAND16_def
  by ((rule vals_rules vals_steps fits_rules | erule vals_elims | assumption | rule vals_ops, simp; simp add: sem_defs | simp add: prim_type_defs)+)

lemma vals_mkImproveOR16 [vals_rules]:
  "(Orig, d, Ity_I16, x) \<in> G \<Longrightarrow> (VSh, v, Ity_I16, y) \<in> G \<Longrightarrow> fits Ity_I16 x \<Longrightarrow> fits Ity_I16 y \<Longrightarrow> sameKindedAtoms d v \<Longrightarrow> vals sem G (\<lambda>mce. mkImproveOR16 mce d v) Ity_I16 (take_bit 16 (NOT x) OR y)"
  unfolding mkImproveOR16_def
  by ((rule vals_rules vals_steps fits_rules | erule vals_elims | assumption | rule vals_ops, simp; simp add: sem_defs | simp add: prim_type_defs)+)

lemma vals_mkImproveAND32 [vals_rules]:
  "(Orig, d, Ity_I32, x) \<in> G \<Longrightarrow> (VSh, v, Ity_I32, y) \<in> G \<Longrightarrow> fits Ity_I32 x \<Longrightarrow> fits Ity_I32 y \<Longrightarrow> sameKindedAtoms d v \<Longrightarrow> vals sem G (\<lambda>mce. mkImproveAND32 mce d v) Ity_I32 (x OR y)"
  unfolding mkImproveAND32_def
  by ((rule vals_rules vals_steps fits_rules | erule vals_elims | assumption | rule vals_ops, simp; simp add: sem_defs | simp add: prim_type_defs)+)

lemma vals_mkImproveOR32 [vals_rules]:
  "(Orig, d, Ity_I32, x) \<in> G \<Longrightarrow> (VSh, v, Ity_I32, y) \<in> G \<Longrightarrow> fits Ity_I32 x \<Longrightarrow> fits Ity_I32 y \<Longrightarrow> sameKindedAtoms d v \<Longrightarrow> vals sem G (\<lambda>mce. mkImproveOR32 mce d v) Ity_I32 (take_bit 32 (NOT x) OR y)"
  unfolding mkImproveOR32_def
  by ((rule vals_rules vals_steps fits_rules | erule vals_elims | assumption | rule vals_ops, simp; simp add: sem_defs | simp add: prim_type_defs)+)

lemma vals_mkImproveAND64 [vals_rules]:
  "(Orig, d, Ity_I64, x) \<in> G \<Longrightarrow> (VSh, v, Ity_I64, y) \<in> G \<Longrightarrow> fits Ity_I64 x \<Longrightarrow> fits Ity_I64 y \<Longrightarrow> sameKindedAtoms d v \<Longrightarrow> vals sem G (\<lambda>mce. mkImproveAND64 mce d v) Ity_I64 (x OR y)"
  unfolding mkImproveAND64_def
  by ((rule vals_rules vals_steps fits_rules | erule vals_elims | assumption | rule vals_ops, simp; simp add: sem_defs | simp add: prim_type_defs)+)

lemma vals_mkImproveOR64 [vals_rules]:
  "(Orig, d, Ity_I64, x) \<in> G \<Longrightarrow> (VSh, v, Ity_I64, y) \<in> G \<Longrightarrow> fits Ity_I64 x \<Longrightarrow> fits Ity_I64 y \<Longrightarrow> sameKindedAtoms d v \<Longrightarrow> vals sem G (\<lambda>mce. mkImproveOR64 mce d v) Ity_I64 (take_bit 64 (NOT x) OR y)"
  unfolding mkImproveOR64_def
  by ((rule vals_rules vals_steps fits_rules | erule vals_elims | assumption | rule vals_ops, simp; simp add: sem_defs | simp add: prim_type_defs)+)

lemma vals_mkImproveANDV128 [vals_rules]:
  "(Orig, d, Ity_V128, x) \<in> G \<Longrightarrow> (VSh, v, Ity_V128, y) \<in> G \<Longrightarrow> fits Ity_V128 x \<Longrightarrow> fits Ity_V128 y \<Longrightarrow> sameKindedAtoms d v \<Longrightarrow> vals sem G (\<lambda>mce. mkImproveANDV128 mce d v) Ity_V128 (x OR y)"
  unfolding mkImproveANDV128_def
  by ((rule vals_rules vals_steps fits_rules | erule vals_elims | assumption | rule vals_ops, simp; simp add: sem_defs | simp add: prim_type_defs)+)

lemma vals_mkImproveORV128 [vals_rules]:
  "(Orig, d, Ity_V128, x) \<in> G \<Longrightarrow> (VSh, v, Ity_V128, y) \<in> G \<Longrightarrow> fits Ity_V128 x \<Longrightarrow> fits Ity_V128 y \<Longrightarrow> sameKindedAtoms d v \<Longrightarrow> vals sem G (\<lambda>mce. mkImproveORV128 mce d v) Ity_V128 (take_bit 128 (NOT x) OR y)"
  unfolding mkImproveORV128_def
  by ((rule vals_rules vals_steps fits_rules | erule vals_elims | assumption | rule vals_ops, simp; simp add: sem_defs | simp add: prim_type_defs)+)

lemma vals_mkImproveANDV256 [vals_rules]:
  "(Orig, d, Ity_V256, x) \<in> G \<Longrightarrow> (VSh, v, Ity_V256, y) \<in> G \<Longrightarrow> fits Ity_V256 x \<Longrightarrow> fits Ity_V256 y \<Longrightarrow> sameKindedAtoms d v \<Longrightarrow> vals sem G (\<lambda>mce. mkImproveANDV256 mce d v) Ity_V256 (x OR y)"
  unfolding mkImproveANDV256_def
  by ((rule vals_rules vals_steps fits_rules | erule vals_elims | assumption | rule vals_ops, simp; simp add: sem_defs | simp add: prim_type_defs)+)

lemma vals_mkImproveORV256 [vals_rules]:
  "(Orig, d, Ity_V256, x) \<in> G \<Longrightarrow> (VSh, v, Ity_V256, y) \<in> G \<Longrightarrow> fits Ity_V256 x \<Longrightarrow> fits Ity_V256 y \<Longrightarrow> sameKindedAtoms d v \<Longrightarrow> vals sem G (\<lambda>mce. mkImproveORV256 mce d v) Ity_V256 (take_bit 256 (NOT x) OR y)"
  unfolding mkImproveORV256_def
  by ((rule vals_rules vals_steps fits_rules | erule vals_elims | assumption | rule vals_ops, simp; simp add: sem_defs | simp add: prim_type_defs)+)

lemma vals_mkLeft8 [vals_rules]:
  "(VSh, a, Ity_I8, x) \<in> G \<Longrightarrow> vals sem G (\<lambda>mce. mkLeft8 mce a) Ity_I8 (left_val Ity_I8 x)"
  unfolding mkLeft8_def left_val_def
  by ((rule vals_rules vals_steps fits_rules | erule vals_elims | assumption | rule vals_ops, simp; simp add: sem_defs | simp add: prim_type_defs)+)

lemma vals_mkLeft16 [vals_rules]:
  "(VSh, a, Ity_I16, x) \<in> G \<Longrightarrow> vals sem G (\<lambda>mce. mkLeft16 mce a) Ity_I16 (left_val Ity_I16 x)"
  unfolding mkLeft16_def left_val_def
  by ((rule vals_rules vals_steps fits_rules | erule vals_elims | assumption | rule vals_ops, simp; simp add: sem_defs | simp add: prim_type_defs)+)

lemma vals_mkLeft32 [vals_rules]:
  "(VSh, a, Ity_I32, x) \<in> G \<Longrightarrow> vals sem G (\<lambda>mce. mkLeft32 mce a) Ity_I32 (left_val Ity_I32 x)"
  unfolding mkLeft32_def left_val_def
  by ((rule vals_rules vals_steps fits_rules | erule vals_elims | assumption | rule vals_ops, simp; simp add: sem_defs | simp add: prim_type_defs)+)

lemma vals_mkLeft64 [vals_rules]:
  "(VSh, a, Ity_I64, x) \<in> G \<Longrightarrow> vals sem G (\<lambda>mce. mkLeft64 mce a) Ity_I64 (left_val Ity_I64 x)"
  unfolding mkLeft64_def left_val_def
  by ((rule vals_rules vals_steps fits_rules | erule vals_elims | assumption | rule vals_ops, simp; simp add: sem_defs | simp add: prim_type_defs)+)

lemma vals_mkPCast8x16 [vals_rules]:
  "(VSh, a, Ity_V128, x) \<in> G \<Longrightarrow> vals sem G (\<lambda>mce. mkPCast8x16 mce a) Ity_V128 (lanes 8 16 (pess 8) x)"
  unfolding mkPCast8x16_def
  by ((rule vals_rules vals_steps fits_rules | erule vals_elims | assumption | rule vals_ops, simp; simp add: sem_defs | simp add: prim_type_defs)+)

lemma vals_mkPCast16x8 [vals_rules]:
  "(VSh, a, Ity_V128, x) \<in> G \<Longrightarrow> vals sem G (\<lambda>mce. mkPCast16x8 mce a) Ity_V128 (lanes 16 8 (pess 16) x)"
  unfolding mkPCast16x8_def
  by ((rule vals_rules vals_steps fits_rules | erule vals_elims | assumption | rule vals_ops, simp; simp add: sem_defs | simp add: prim_type_defs)+)

lemma vals_mkPCast32x4 [vals_rules]:
  "(VSh, a, Ity_V128, x) \<in> G \<Longrightarrow> vals sem G (\<lambda>mce. mkPCast32x4 mce a) Ity_V128 (lanes 32 4 (pess 32) x)"
  unfolding mkPCast32x4_def
  by ((rule vals_rules vals_steps fits_rules | erule vals_elims | assumption | rule vals_ops, simp; simp add: sem_defs | simp add: prim_type_defs)+)

lemma vals_mkPCast64x2 [vals_rules]:
  "(VSh, a, Ity_V128, x) \<in> G \<Longrightarrow> vals sem G (\<lambda>mce. mkPCast64x2 mce a) Ity_V128 (lanes 64 2 (pess 64) x)"
  unfolding mkPCast64x2_def
  by ((rule vals_rules vals_steps fits_rules | erule vals_elims | assumption | rule vals_ops, simp; simp add: sem_defs | simp add: prim_type_defs)+)

lemma vals_mkPCast64x4 [vals_rules]:
  "(VSh, a, Ity_V256, x) \<in> G \<Longrightarrow> vals sem G (\<lambda>mce. mkPCast64x4 mce a) Ity_V256 (lanes 64 4 (pess 64) x)"
  unfolding mkPCast64x4_def
  by ((rule vals_rules vals_steps fits_rules | erule vals_elims | assumption | rule vals_ops, simp; simp add: sem_defs | simp add: prim_type_defs)+)

lemma vals_mkPCast32x8 [vals_rules]:
  "(VSh, a, Ity_V256, x) \<in> G \<Longrightarrow> vals sem G (\<lambda>mce. mkPCast32x8 mce a) Ity_V256 (lanes 32 8 (pess 32) x)"
  unfolding mkPCast32x8_def
  by ((rule vals_rules vals_steps fits_rules | erule vals_elims | assumption | rule vals_ops, simp; simp add: sem_defs | simp add: prim_type_defs)+)

lemma vals_mkPCast32x2 [vals_rules]:
  "(VSh, a, Ity_I64, x) \<in> G \<Longrightarrow> vals sem G (\<lambda>mce. mkPCast32x2 mce a) Ity_I64 (lanes 32 2 (pess 32) x)"
  unfolding mkPCast32x2_def
  by ((rule vals_rules vals_steps fits_rules | erule vals_elims | assumption | rule vals_ops, simp; simp add: sem_defs | simp add: prim_type_defs)+)

lemma vals_mkPCast16x16 [vals_rules]:
  "(VSh, a, Ity_V256, x) \<in> G \<Longrightarrow> vals sem G (\<lambda>mce. mkPCast16x16 mce a) Ity_V256 (lanes 16 16 (pess 16) x)"
  unfolding mkPCast16x16_def
  by ((rule vals_rules vals_steps fits_rules | erule vals_elims | assumption | rule vals_ops, simp; simp add: sem_defs | simp add: prim_type_defs)+)

lemma vals_mkPCast16x4 [vals_rules]:
  "(VSh, a, Ity_I64, x) \<in> G \<Longrightarrow> vals sem G (\<lambda>mce. mkPCast16x4 mce a) Ity_I64 (lanes 16 4 (pess 16) x)"
  unfolding mkPCast16x4_def
  by ((rule vals_rules vals_steps fits_rules | erule vals_elims | assumption | rule vals_ops, simp; simp add: sem_defs | simp add: prim_type_defs)+)

lemma vals_mkPCast8x32 [vals_rules]:
  "(VSh, a, Ity_V256, x) \<in> G \<Longrightarrow> vals sem G (\<lambda>mce. mkPCast8x32 mce a) Ity_V256 (lanes 8 32 (pess 8) x)"
  unfolding mkPCast8x32_def
  by ((rule vals_rules vals_steps fits_rules | erule vals_elims | assumption | rule vals_ops, simp; simp add: sem_defs | simp add: prim_type_defs)+)

lemma vals_mkPCast8x8 [vals_rules]:
  "(VSh, a, Ity_I64, x) \<in> G \<Longrightarrow> vals sem G (\<lambda>mce. mkPCast8x8 mce a) Ity_I64 (lanes 8 8 (pess 8) x)"
  unfolding mkPCast8x8_def
  by ((rule vals_rules vals_steps fits_rules | erule vals_elims | assumption | rule vals_ops, simp; simp add: sem_defs | simp add: prim_type_defs)+)

lemma vals_mkPCast16x2 [vals_rules]:
  "(VSh, a, Ity_I32, x) \<in> G \<Longrightarrow> vals sem G (\<lambda>mce. mkPCast16x2 mce a) Ity_I32 (lanes 16 2 (pess 16) x)"
  unfolding mkPCast16x2_def
  by ((rule vals_rules vals_steps fits_rules | erule vals_elims | assumption | rule vals_ops, simp; simp add: sem_defs | simp add: prim_type_defs)+)

lemma vals_mkPCast8x4 [vals_rules]:
  "(VSh, a, Ity_I32, x) \<in> G \<Longrightarrow> vals sem G (\<lambda>mce. mkPCast8x4 mce a) Ity_I32 (lanes 8 4 (pess 8) x)"
  unfolding mkPCast8x4_def
  by ((rule vals_rules vals_steps fits_rules | erule vals_elims | assumption | rule vals_ops, simp; simp add: sem_defs | simp add: prim_type_defs)+)

lemma vals_mkUifU [vals_rules]:
  "ty \<in> {Ity_I8, Ity_I16, Ity_I32, Ity_I64, Ity_V128, Ity_V256} \<Longrightarrow> (VSh, a, ty, x) \<in> G \<Longrightarrow> (VSh, b, ty, y) \<in> G \<Longrightarrow>
    fits ty x \<Longrightarrow> fits ty y \<Longrightarrow> vals sem G (\<lambda>mce. mkUifU mce ty a b) ty (x OR y)"
  by (elim insertE emptyE; hypsubst; simp add: mkUifU_def; rule vals_rules; assumption)

lemma pess_simps [simp]: "pess w 0 = 0" "x \<noteq> 0 \<Longrightarrow> pess w x = mask w" "(pess w x = 0) = (x = 0 \<or> w = 0)"
  by (simp_all add: pess_def)

lemma parts_zero: "take_bit n x = 0 \<Longrightarrow> drop_bit n x = 0 \<Longrightarrow> x = (0::int)"
  using bits_ident [of n x] by simp

lemma halves_zero: "take_bit (n + m) x = x \<Longrightarrow> take_bit m (drop_bit n x) = 0 \<Longrightarrow> take_bit n x = 0 \<Longrightarrow> x = (0::int)"
  by (rule parts_zero [of n]) (simp_all add: take_bit_drop_bit add.commute)

lemma I128_zero: "fits Ity_I128 x \<Longrightarrow> (take_bit 64 (drop_bit 64 x) = 0 \<and> take_bit 64 x = 0) = (x = 0)"
  using halves_zero [of 64 64 x] by (auto simp: fits_def)

lemma V128_zero: "fits Ity_V128 x \<Longrightarrow> (take_bit 64 (drop_bit 64 x) = 0 \<and> take_bit 64 x = 0) = (x = 0)"
  using halves_zero [of 64 64 x] by (auto simp: fits_def)

lemma V256_zero: "fits Ity_V256 x \<Longrightarrow>
    (take_bit 64 x = 0 \<and> take_bit 64 (drop_bit 64 x) = 0 \<and> take_bit 64 (drop_bit 128 x) = 0 \<and> take_bit 64 (drop_bit 192 x) = 0) = (x = 0)"
  using halves_zero [of 64 192 x] halves_zero [of 64 128 "drop_bit 64 x"] halves_zero [of 64 64 "drop_bit 128 x"]
  by (auto simp: fits_def take_bit_drop_bit)


end

section \<open>Casts\<close>

context ir_sem
begin

lemma vals_pcast_collapse [vals_rules]:
  "ty \<in> cast_types \<Longrightarrow> (VSh, v, ty, x) \<in> G \<Longrightarrow> fits ty x \<Longrightarrow> vals sem G (\<lambda>mce. pcast_collapse mce ty v) Ity_I1 (pess (Suc 0) x)"
  unfolding cast_types_def pcast_collapse_def
  by (elim insertE emptyE; hypsubst; simp only: IRType.case; rule vals_eq,
      ((rule vals_rules vals_steps fits_rules | erule vals_elims | assumption | rule vals_ops, simp; simp add: sem_defs | simp add: prim_type_defs)+),
      (auto simp: I128_zero V128_zero V256_zero or_eq_0_iff pess_def fits_range)?)

lemma pess_pess [simp]: "0 < v \<Longrightarrow> pess w (pess v x) = pess w x"
  by (simp add: pess_def)

lemma pess_or: "pess w (x OR y) = pess w x OR pess w y"
  by (simp add: pess_def or_eq_0_iff)

lemma mask_double: "push_bit n (mask n) OR mask n = (mask (n + n) :: int)"
  by (rule bit_eqI) (auto simp: bit_simps)

lemma mask_doubles: "push_bit 32 (mask 32) OR mask 32 = (mask 64 :: int)" "push_bit 64 (mask 64) OR mask 64 = (mask 128 :: int)"
  "push_bit 128 (mask 128) OR mask 128 = (mask 256 :: int)"
  using mask_double [of 32] mask_double [of 64] mask_double [of 128] by simp_all

lemma fits_mask: "w \<le> ty_bits ty \<Longrightarrow> fits ty (mask w)"
  by (simp add: fits_def min_def)

lemma pess_hl: "push_bit 32 (pess 32 x) OR pess 32 x = pess 64 x" "push_bit 64 (pess 64 x) OR pess 64 x = pess 128 x"
  "push_bit 128 (pess 128 x) OR pess 128 x = pess 256 x"
  by (simp_all add: pess_def mask_doubles)

lemma take_pess: "take_bit v (pess w x) = pess (min v w) x"
  by (simp add: pess_def)

lemma vals_hl:
  "(VSh, a, Ity_I32, pess 32 x) \<in> G \<Longrightarrow> vals sem G (\<lambda>mce. assignNew CHR ''V'' mce Ity_I64 (Iex_Binop Iop_32HLto64 a a)) Ity_I64 (pess 64 x)"
  "(VSh, a, Ity_I64, pess 64 x) \<in> G \<Longrightarrow> vals sem G (\<lambda>mce. assignNew CHR ''V'' mce Ity_V128 (Iex_Binop Iop_64HLtoV128 a a)) Ity_V128 (pess 128 x)"
  "(VSh, a, Ity_I64, pess 64 x) \<in> G \<Longrightarrow> vals sem G (\<lambda>mce. assignNew CHR ''V'' mce Ity_I128 (Iex_Binop Iop_64HLto128 a a)) Ity_I128 (pess 128 x)"
  "(VSh, a, Ity_V128, pess 128 x) \<in> G \<Longrightarrow> vals sem G (\<lambda>mce. assignNew CHR ''V'' mce Ity_V256 (Iex_Binop Iop_V128HLtoV256 a a)) Ity_V256 (pess 256 x)"
  by ((rule vals_rules vals_steps fits_rules | erule vals_elims | assumption | rule vals_ops, simp; simp add: sem_defs pess_hl | simp add: prim_type_defs)+)+

lemma vals_pcast_widen [vals_rules]:
  "ty \<in> cast_types \<Longrightarrow> (VSh, v, Ity_I1, pess (Suc 0) x) \<in> G \<Longrightarrow> vals sem G (\<lambda>mce. pcast_widen mce ty v) ty (pcast ty x)"
  unfolding cast_types_def pcast_widen_def pcast_def
  by (elim insertE emptyE; hypsubst; simp only: IRType.case ty_bits.simps; (rule vals_hl vals_rules vals_steps fits_rules | erule vals_elims | assumption | rule vals_ops, simp; simp add: sem_defs | simp add: prim_type_defs)+)

lemmas vals_pcast_widen' = vals_pcast_widen [unfolded pcast_def]

lemma fits_high_bit: "fits ty x \<Longrightarrow> bit x k \<Longrightarrow> k < ty_bits ty"
  unfolding fits_def by (metis bit_take_bit_iff)

lemma fitsI: "(\<And>k. bit x k \<Longrightarrow> k < ty_bits ty) \<Longrightarrow> fits ty x"
  unfolding fits_def by (rule bit_eqI) (auto simp: bit_simps)

lemma fits_drop: "fits ty x \<Longrightarrow> fits ty (drop_bit n x)"
  by (rule fitsI) (auto simp: bit_simps dest!: fits_high_bit)

lemma fits_hi: "fits ty x \<Longrightarrow> fits ty (push_bit n (drop_bit n x))"
  by (rule fitsI) (auto simp: bit_simps dest!: fits_high_bit)

lemma pess_ihi64:
  "fits Ity_V128 x \<Longrightarrow> pess 64 (take_bit 64 ((push_bit 64 (drop_bit 64 x) OR drop_bit 64 x) OR x)) = pess 64 x"
proof -
  assume f: "fits Ity_V128 x"
  then have "take_bit 64 (drop_bit 64 x) = drop_bit 64 x" by (simp add: fits_def take_bit_drop_bit)
  then have "take_bit 64 ((push_bit 64 (drop_bit 64 x) OR drop_bit 64 x) OR x) = drop_bit 64 x OR take_bit 64 x"
    by (simp add: take_bit_or take_bit_push_bit)
  moreover have "(drop_bit 64 x OR take_bit 64 x = 0) = (x = 0)"
    using parts_zero [of 64 x] by (auto simp: or_eq_0_iff)
  ultimately show ?thesis by (simp add: pess_def)
qed

lemma vals_pcast_V128_I64:
  "(VSh, v, Ity_V128, x) \<in> G \<Longrightarrow> fits Ity_V128 x \<Longrightarrow> vals sem G (\<lambda>mce. do {
       (hi64hi64, mce) \<leftarrow> assignNew CHR ''V'' mce Ity_V128 (Iex_Binop Iop_InterleaveHI64x2 v v);
       (lohi64, mce) \<leftarrow> mkUifUV128 mce hi64hi64 v;
       (lo64, mce) \<leftarrow> assignNew CHR ''V'' mce Ity_I64 (Iex_Unop Iop_V128to64 lohi64);
       assignNew CHR ''V'' mce Ity_I64 (Iex_Unop Iop_CmpwNEZ64 lo64)
     }) Ity_I64 (pess 64 x)"
  by (rule vals_eq [OF _ pess_ihi64])
    ((rule vals_rules vals_steps fits_hi fits_drop fits_rules | erule vals_elims | assumption | rule vals_ops, simp; simp add: sem_defs | simp add: prim_type_defs)+)

lemma vals_mkPCastTo [vals_rules]:
  "(VSh, v, ty', x) \<in> G \<Longrightarrow> ty \<in> cast_types \<Longrightarrow> ty' \<in> cast_types \<Longrightarrow> fits ty' x \<Longrightarrow> vals sem G (\<lambda>mce. mkPCastTo mce ty v) ty (pcast ty x)"
  unfolding mkPCastTo_def
  apply (rule vals_assert, erule vctx_shadow, assumption, rule vals_pure_bind, erule vctx_type, assumption,
      intro vals_cond; (elim conjE, hypsubst)?; (simp only: pcast_def ty_bits.simps)?; 
      ((rule vals_pcast_V128_I64 vals_hl vals_pcast_widen' vals_rules vals_steps fits_rules | erule vals_elims | assumption | rule vals_ops, simp; simp add: sem_defs take_pess | simp add: prim_type_defs)+)?)
  done

end

section \<open>Exact and lazy schemes\<close>

lemma mask_vals: "mask 8 = (255::int)" "mask 16 = (65535::int)" "mask 32 = (4294967295::int)" "mask 64 = (18446744073709551615::int)"
  by (simp_all add: mask_eq_exp_minus_1)

context ir_sem
begin

lemma vals_expensive_add32 [vals_rules]:
  "(VSh, qa, Ity_I32, x) \<in> G \<Longrightarrow> (VSh, qb, Ity_I32, y) \<in> G \<Longrightarrow> (Orig, a, Ity_I32, u) \<in> G \<Longrightarrow> (Orig, b, Ity_I32, v) \<in> G \<Longrightarrow> fits Ity_I32 x \<Longrightarrow> fits Ity_I32 y \<Longrightarrow> fits Ity_I32 u \<Longrightarrow> fits Ity_I32 v \<Longrightarrow> sameKindedAtoms qa a \<Longrightarrow> sameKindedAtoms qb b \<Longrightarrow>
    vals sem G (\<lambda>mce. expensiveAddSub mce True Ity_I32 qa qb a b) Ity_I32 (addsub_val True 32 x y u v)"
  unfolding expensiveAddSub_def addsub_ops_def addsub_val_def Let_def
  apply (simp only: IRType.case option.simps bind.simps prod.case if_True if_False)
  by ((rule vals_rules vals_steps fits_rules | erule vals_elims | assumption | rule vals_ops, simp; simp add: sem_defs | simp add: prim_type_defs)+)

lemma vals_expensive_sub32 [vals_rules]:
  "(VSh, qa, Ity_I32, x) \<in> G \<Longrightarrow> (VSh, qb, Ity_I32, y) \<in> G \<Longrightarrow> (Orig, a, Ity_I32, u) \<in> G \<Longrightarrow> (Orig, b, Ity_I32, v) \<in> G \<Longrightarrow> fits Ity_I32 x \<Longrightarrow> fits Ity_I32 y \<Longrightarrow> fits Ity_I32 u \<Longrightarrow> fits Ity_I32 v \<Longrightarrow> sameKindedAtoms qa a \<Longrightarrow> sameKindedAtoms qb b \<Longrightarrow>
    vals sem G (\<lambda>mce. expensiveAddSub mce False Ity_I32 qa qb a b) Ity_I32 (addsub_val False 32 x y u v)"
  unfolding expensiveAddSub_def addsub_ops_def addsub_val_def Let_def
  apply (simp only: IRType.case option.simps bind.simps prod.case if_True if_False)
  by ((rule vals_rules vals_steps fits_rules | erule vals_elims | assumption | rule vals_ops, simp; simp add: sem_defs | simp add: prim_type_defs)+)

lemma vals_expensive_add64 [vals_rules]:
  "(VSh, qa, Ity_I64, x) \<in> G \<Longrightarrow> (VSh, qb, Ity_I64, y) \<in> G \<Longrightarrow> (Orig, a, Ity_I64, u) \<in> G \<Longrightarrow> (Orig, b, Ity_I64, v) \<in> G \<Longrightarrow> fits Ity_I64 x \<Longrightarrow> fits Ity_I64 y \<Longrightarrow> fits Ity_I64 u \<Longrightarrow> fits Ity_I64 v \<Longrightarrow> sameKindedAtoms qa a \<Longrightarrow> sameKindedAtoms qb b \<Longrightarrow>
    vals sem G (\<lambda>mce. expensiveAddSub mce True Ity_I64 qa qb a b) Ity_I64 (addsub_val True 64 x y u v)"
  unfolding expensiveAddSub_def addsub_ops_def addsub_val_def Let_def
  apply (simp only: IRType.case option.simps bind.simps prod.case if_True if_False)
  by ((rule vals_rules vals_steps fits_rules | erule vals_elims | assumption | rule vals_ops, simp; simp add: sem_defs | simp add: prim_type_defs)+)

lemma vals_expensive_sub64 [vals_rules]:
  "(VSh, qa, Ity_I64, x) \<in> G \<Longrightarrow> (VSh, qb, Ity_I64, y) \<in> G \<Longrightarrow> (Orig, a, Ity_I64, u) \<in> G \<Longrightarrow> (Orig, b, Ity_I64, v) \<in> G \<Longrightarrow> fits Ity_I64 x \<Longrightarrow> fits Ity_I64 y \<Longrightarrow> fits Ity_I64 u \<Longrightarrow> fits Ity_I64 v \<Longrightarrow> sameKindedAtoms qa a \<Longrightarrow> sameKindedAtoms qb b \<Longrightarrow>
    vals sem G (\<lambda>mce. expensiveAddSub mce False Ity_I64 qa qb a b) Ity_I64 (addsub_val False 64 x y u v)"
  unfolding expensiveAddSub_def addsub_ops_def addsub_val_def Let_def
  apply (simp only: IRType.case option.simps bind.simps prod.case if_True if_False)
  by ((rule vals_rules vals_steps fits_rules | erule vals_elims | assumption | rule vals_ops, simp; simp add: sem_defs | simp add: prim_type_defs)+)

lemma vals_expensiveCmp16 [vals_rules]:
  "(VSh, qa, Ity_I16, x) \<in> G \<Longrightarrow> (VSh, qb, Ity_I16, y) \<in> G \<Longrightarrow> (Orig, a, Ity_I16, u) \<in> G \<Longrightarrow> (Orig, b, Ity_I16, v) \<in> G \<Longrightarrow> fits Ity_I16 x \<Longrightarrow> fits Ity_I16 y \<Longrightarrow> fits Ity_I16 u \<Longrightarrow> fits Ity_I16 v \<Longrightarrow> sameKindedAtoms qa a \<Longrightarrow> sameKindedAtoms qb b \<Longrightarrow>
    vals sem G (\<lambda>mce. expensiveCmpEQorNE mce Ity_I16 qa qb a b) Ity_I1 (cmp_val 16 x y u v)"
  unfolding expensiveCmpEQorNE_def cmp_ops_def cmp_val_def
  apply (simp only: IRType.case option.simps bind.simps prod.case if_True if_False)
  apply (rule vals_eq)
  apply ((rule vals_rules vals_steps fits_rules | erule vals_elims | assumption | rule vals_ops, simp; simp add: sem_defs | simp add: prim_type_defs)+)
  apply (simp add: pcast_def mask_vals)
  done

lemma vals_expensiveCmp32 [vals_rules]:
  "(VSh, qa, Ity_I32, x) \<in> G \<Longrightarrow> (VSh, qb, Ity_I32, y) \<in> G \<Longrightarrow> (Orig, a, Ity_I32, u) \<in> G \<Longrightarrow> (Orig, b, Ity_I32, v) \<in> G \<Longrightarrow> fits Ity_I32 x \<Longrightarrow> fits Ity_I32 y \<Longrightarrow> fits Ity_I32 u \<Longrightarrow> fits Ity_I32 v \<Longrightarrow> sameKindedAtoms qa a \<Longrightarrow> sameKindedAtoms qb b \<Longrightarrow>
    vals sem G (\<lambda>mce. expensiveCmpEQorNE mce Ity_I32 qa qb a b) Ity_I1 (cmp_val 32 x y u v)"
  unfolding expensiveCmpEQorNE_def cmp_ops_def cmp_val_def
  apply (simp only: IRType.case option.simps bind.simps prod.case if_True if_False)
  apply (rule vals_eq)
  apply ((rule vals_rules vals_steps fits_rules | erule vals_elims | assumption | rule vals_ops, simp; simp add: sem_defs | simp add: prim_type_defs)+)
  apply (simp add: pcast_def mask_vals)
  done

lemma vals_expensiveCmp64 [vals_rules]:
  "(VSh, qa, Ity_I64, x) \<in> G \<Longrightarrow> (VSh, qb, Ity_I64, y) \<in> G \<Longrightarrow> (Orig, a, Ity_I64, u) \<in> G \<Longrightarrow> (Orig, b, Ity_I64, v) \<in> G \<Longrightarrow> fits Ity_I64 x \<Longrightarrow> fits Ity_I64 y \<Longrightarrow> fits Ity_I64 u \<Longrightarrow> fits Ity_I64 v \<Longrightarrow> sameKindedAtoms qa a \<Longrightarrow> sameKindedAtoms qb b \<Longrightarrow>
    vals sem G (\<lambda>mce. expensiveCmpEQorNE mce Ity_I64 qa qb a b) Ity_I1 (cmp_val 64 x y u v)"
  unfolding expensiveCmpEQorNE_def cmp_ops_def cmp_val_def
  apply (simp only: IRType.case option.simps bind.simps prod.case if_True if_False)
  apply (rule vals_eq)
  apply ((rule vals_rules vals_steps fits_rules | erule vals_elims | assumption | rule vals_ops, simp; simp add: sem_defs | simp add: prim_type_defs)+)
  apply (simp add: pcast_def mask_vals)
  done

lemma vals_scalarShift8 [vals_rules]:
  "(VSh, qa, Ity_I8, x) \<in> G \<Longrightarrow> (VSh, qb, Ity_I8, y) \<in> G \<Longrightarrow> (Orig, a, Ity_I8, u) \<in> G \<Longrightarrow> (Orig, b, Ity_I8, v) \<in> G \<Longrightarrow> fits Ity_I8 x \<Longrightarrow> fits Ity_I8 y \<Longrightarrow> fits Ity_I8 s \<Longrightarrow> sameKindedAtoms qa a \<Longrightarrow> sameKindedAtoms qb b \<Longrightarrow> typeOfPrimop op = Some (BINARY Ity_I8 Ity_I8 Ity_I8) \<Longrightarrow> sem op [x, v] = Some s \<Longrightarrow>
    vals sem G (\<lambda>mce. scalarShift mce Ity_I8 op qa qb a b) Ity_I8 (s OR pess 8 y)"
  unfolding scalarShift_def
  by ((rule vals_eq [OF vals_mkPCastTo, unfolded pcast_def] vals_rules vals_steps fits_rules | erule vals_elims | assumption | simp add: prim_type_defs)+)

lemma vals_scalarShift16 [vals_rules]:
  "(VSh, qa, Ity_I16, x) \<in> G \<Longrightarrow> (VSh, qb, Ity_I8, y) \<in> G \<Longrightarrow> (Orig, a, Ity_I16, u) \<in> G \<Longrightarrow> (Orig, b, Ity_I8, v) \<in> G \<Longrightarrow> fits Ity_I16 x \<Longrightarrow> fits Ity_I8 y \<Longrightarrow> fits Ity_I16 s \<Longrightarrow> sameKindedAtoms qa a \<Longrightarrow> sameKindedAtoms qb b \<Longrightarrow> typeOfPrimop op = Some (BINARY Ity_I16 Ity_I8 Ity_I16) \<Longrightarrow> sem op [x, v] = Some s \<Longrightarrow>
    vals sem G (\<lambda>mce. scalarShift mce Ity_I16 op qa qb a b) Ity_I16 (s OR pess 16 y)"
  unfolding scalarShift_def
  by ((rule vals_eq [OF vals_mkPCastTo, unfolded pcast_def] vals_rules vals_steps fits_rules | erule vals_elims | assumption | simp add: prim_type_defs)+)

lemma vals_scalarShift32 [vals_rules]:
  "(VSh, qa, Ity_I32, x) \<in> G \<Longrightarrow> (VSh, qb, Ity_I8, y) \<in> G \<Longrightarrow> (Orig, a, Ity_I32, u) \<in> G \<Longrightarrow> (Orig, b, Ity_I8, v) \<in> G \<Longrightarrow> fits Ity_I32 x \<Longrightarrow> fits Ity_I8 y \<Longrightarrow> fits Ity_I32 s \<Longrightarrow> sameKindedAtoms qa a \<Longrightarrow> sameKindedAtoms qb b \<Longrightarrow> typeOfPrimop op = Some (BINARY Ity_I32 Ity_I8 Ity_I32) \<Longrightarrow> sem op [x, v] = Some s \<Longrightarrow>
    vals sem G (\<lambda>mce. scalarShift mce Ity_I32 op qa qb a b) Ity_I32 (s OR pess 32 y)"
  unfolding scalarShift_def
  by ((rule vals_eq [OF vals_mkPCastTo, unfolded pcast_def] vals_rules vals_steps fits_rules | erule vals_elims | assumption | simp add: prim_type_defs)+)

lemma vals_scalarShift64 [vals_rules]:
  "(VSh, qa, Ity_I64, x) \<in> G \<Longrightarrow> (VSh, qb, Ity_I8, y) \<in> G \<Longrightarrow> (Orig, a, Ity_I64, u) \<in> G \<Longrightarrow> (Orig, b, Ity_I8, v) \<in> G \<Longrightarrow> fits Ity_I64 x \<Longrightarrow> fits Ity_I8 y \<Longrightarrow> fits Ity_I64 s \<Longrightarrow> sameKindedAtoms qa a \<Longrightarrow> sameKindedAtoms qb b \<Longrightarrow> typeOfPrimop op = Some (BINARY Ity_I64 Ity_I8 Ity_I64) \<Longrightarrow> sem op [x, v] = Some s \<Longrightarrow>
    vals sem G (\<lambda>mce. scalarShift mce Ity_I64 op qa qb a b) Ity_I64 (s OR pess 64 y)"
  unfolding scalarShift_def
  by ((rule vals_eq [OF vals_mkPCastTo, unfolded pcast_def] vals_rules vals_steps fits_rules | erule vals_elims | assumption | simp add: prim_type_defs)+)

lemma vals_ctz32 [vals_rules]:
  "(Orig, a, Ity_I32, u) \<in> G \<Longrightarrow> (VSh, v, Ity_I32, x) \<in> G \<Longrightarrow> fits Ity_I32 u \<Longrightarrow> fits Ity_I32 x \<Longrightarrow> sameKindedAtoms a v \<Longrightarrow>
    vals sem G (\<lambda>mce. expensiveCountTrailingZeroes mce Iop_Ctz32 a v) Ity_I32 (ctz_val 32 x u)"
  unfolding expensiveCountTrailingZeroes_def ctz_val_def
  apply (simp only: if_True if_False bind.simps prod.case simp_thms rel_simps)
  apply (rule vals_eq)
  apply ((rule vals_rules vals_steps fits_rules | erule vals_elims | assumption | rule vals_ops, simp; simp add: sem_defs | simp add: prim_type_defs)+)
  apply (simp add: pcast_def)
  done

lemma vals_ctz64 [vals_rules]:
  "(Orig, a, Ity_I64, u) \<in> G \<Longrightarrow> (VSh, v, Ity_I64, x) \<in> G \<Longrightarrow> fits Ity_I64 u \<Longrightarrow> fits Ity_I64 x \<Longrightarrow> sameKindedAtoms a v \<Longrightarrow>
    vals sem G (\<lambda>mce. expensiveCountTrailingZeroes mce Iop_Ctz64 a v) Ity_I64 (ctz_val 64 x u)"
  unfolding expensiveCountTrailingZeroes_def ctz_val_def
  apply (simp only: if_True if_False bind.simps prod.case simp_thms rel_simps)
  apply (rule vals_eq)
  apply ((rule vals_rules vals_steps fits_rules | erule vals_elims | assumption | rule vals_ops, simp; simp add: sem_defs | simp add: prim_type_defs)+)
  apply (simp add: pcast_def)
  done

lemma vals_cheap_AddSub32 [vals_rules]:
  "(VSh, a, Ity_I32, x) \<in> G \<Longrightarrow> (VSh, b, Ity_I32, y) \<in> G \<Longrightarrow> fits Ity_I32 x \<Longrightarrow> fits Ity_I32 y \<Longrightarrow> vals sem G (\<lambda>mce. cheap_AddSub32 mce a b) Ity_I32 (left_val Ity_I32 (x OR y))"
  unfolding cheap_AddSub32_def
  by ((rule vals_rules vals_steps fits_rules | erule vals_elims | assumption | rule vals_ops, simp; simp add: sem_defs | simp add: prim_type_defs)+)

lemma vals_cheap_cmp32 [vals_rules]:
  "(VSh, a, Ity_I32, x) \<in> G \<Longrightarrow> (VSh, b, Ity_I32, y) \<in> G \<Longrightarrow> fits Ity_I32 x \<Longrightarrow> fits Ity_I32 y \<Longrightarrow> vals sem G (\<lambda>mce. cheap_cmp32 mce a b) Ity_I1 (pcast Ity_I1 (x OR y))"
  unfolding cheap_cmp32_def
  by ((rule vals_rules vals_steps fits_rules | erule vals_elims | assumption | rule vals_ops, simp; simp add: sem_defs | simp add: prim_type_defs)+)

lemma vals_cheap_AddSub64 [vals_rules]:
  "(VSh, a, Ity_I64, x) \<in> G \<Longrightarrow> (VSh, b, Ity_I64, y) \<in> G \<Longrightarrow> fits Ity_I64 x \<Longrightarrow> fits Ity_I64 y \<Longrightarrow> vals sem G (\<lambda>mce. cheap_AddSub64 mce a b) Ity_I64 (left_val Ity_I64 (x OR y))"
  unfolding cheap_AddSub64_def
  by ((rule vals_rules vals_steps fits_rules | erule vals_elims | assumption | rule vals_ops, simp; simp add: sem_defs | simp add: prim_type_defs)+)

lemma vals_cheap_cmp64 [vals_rules]:
  "(VSh, a, Ity_I64, x) \<in> G \<Longrightarrow> (VSh, b, Ity_I64, y) \<in> G \<Longrightarrow> fits Ity_I64 x \<Longrightarrow> fits Ity_I64 y \<Longrightarrow> vals sem G (\<lambda>mce. cheap_cmp64 mce a b) Ity_I1 (pcast Ity_I1 (x OR y))"
  unfolding cheap_cmp64_def
  by ((rule vals_rules vals_steps fits_rules | erule vals_elims | assumption | rule vals_ops, simp; simp add: sem_defs | simp add: prim_type_defs)+)

lemma vals_do_AND8 [vals_rules]:
  "(VSh, v1, Ity_I8, x) \<in> G \<Longrightarrow> (VSh, v2, Ity_I8, y) \<in> G \<Longrightarrow> (Orig, a1, Ity_I8, u) \<in> G \<Longrightarrow> (Orig, a2, Ity_I8, v) \<in> G \<Longrightarrow> fits Ity_I8 x \<Longrightarrow> fits Ity_I8 y \<Longrightarrow> fits Ity_I8 u \<Longrightarrow> fits Ity_I8 v \<Longrightarrow> sameKindedAtoms a1 v1 \<Longrightarrow> sameKindedAtoms a2 v2 \<Longrightarrow> vals sem G (\<lambda>mce. do_And_Or mkUifU8 mkDifD8 Ity_I8 mkImproveAND8 mce v1 v2 a1 a2) Ity_I8 ((x OR y) AND ((u OR x) AND (v OR y)))"
  unfolding do_And_Or_def
  by ((rule vals_rules vals_steps fits_rules | erule vals_elims | assumption | rule vals_ops, simp; simp add: sem_defs | simp add: prim_type_defs)+)

lemma vals_do_OR8 [vals_rules]:
  "(VSh, v1, Ity_I8, x) \<in> G \<Longrightarrow> (VSh, v2, Ity_I8, y) \<in> G \<Longrightarrow> (Orig, a1, Ity_I8, u) \<in> G \<Longrightarrow> (Orig, a2, Ity_I8, v) \<in> G \<Longrightarrow> fits Ity_I8 x \<Longrightarrow> fits Ity_I8 y \<Longrightarrow> fits Ity_I8 u \<Longrightarrow> fits Ity_I8 v \<Longrightarrow> sameKindedAtoms a1 v1 \<Longrightarrow> sameKindedAtoms a2 v2 \<Longrightarrow> vals sem G (\<lambda>mce. do_And_Or mkUifU8 mkDifD8 Ity_I8 mkImproveOR8 mce v1 v2 a1 a2) Ity_I8 ((x OR y) AND ((take_bit 8 (NOT u) OR x) AND (take_bit 8 (NOT v) OR y)))"
  unfolding do_And_Or_def
  by ((rule vals_rules vals_steps fits_rules | erule vals_elims | assumption | rule vals_ops, simp; simp add: sem_defs | simp add: prim_type_defs)+)

lemma vals_do_AND16 [vals_rules]:
  "(VSh, v1, Ity_I16, x) \<in> G \<Longrightarrow> (VSh, v2, Ity_I16, y) \<in> G \<Longrightarrow> (Orig, a1, Ity_I16, u) \<in> G \<Longrightarrow> (Orig, a2, Ity_I16, v) \<in> G \<Longrightarrow> fits Ity_I16 x \<Longrightarrow> fits Ity_I16 y \<Longrightarrow> fits Ity_I16 u \<Longrightarrow> fits Ity_I16 v \<Longrightarrow> sameKindedAtoms a1 v1 \<Longrightarrow> sameKindedAtoms a2 v2 \<Longrightarrow> vals sem G (\<lambda>mce. do_And_Or mkUifU16 mkDifD16 Ity_I16 mkImproveAND16 mce v1 v2 a1 a2) Ity_I16 ((x OR y) AND ((u OR x) AND (v OR y)))"
  unfolding do_And_Or_def
  by ((rule vals_rules vals_steps fits_rules | erule vals_elims | assumption | rule vals_ops, simp; simp add: sem_defs | simp add: prim_type_defs)+)

lemma vals_do_OR16 [vals_rules]:
  "(VSh, v1, Ity_I16, x) \<in> G \<Longrightarrow> (VSh, v2, Ity_I16, y) \<in> G \<Longrightarrow> (Orig, a1, Ity_I16, u) \<in> G \<Longrightarrow> (Orig, a2, Ity_I16, v) \<in> G \<Longrightarrow> fits Ity_I16 x \<Longrightarrow> fits Ity_I16 y \<Longrightarrow> fits Ity_I16 u \<Longrightarrow> fits Ity_I16 v \<Longrightarrow> sameKindedAtoms a1 v1 \<Longrightarrow> sameKindedAtoms a2 v2 \<Longrightarrow> vals sem G (\<lambda>mce. do_And_Or mkUifU16 mkDifD16 Ity_I16 mkImproveOR16 mce v1 v2 a1 a2) Ity_I16 ((x OR y) AND ((take_bit 16 (NOT u) OR x) AND (take_bit 16 (NOT v) OR y)))"
  unfolding do_And_Or_def
  by ((rule vals_rules vals_steps fits_rules | erule vals_elims | assumption | rule vals_ops, simp; simp add: sem_defs | simp add: prim_type_defs)+)

lemma vals_do_AND32 [vals_rules]:
  "(VSh, v1, Ity_I32, x) \<in> G \<Longrightarrow> (VSh, v2, Ity_I32, y) \<in> G \<Longrightarrow> (Orig, a1, Ity_I32, u) \<in> G \<Longrightarrow> (Orig, a2, Ity_I32, v) \<in> G \<Longrightarrow> fits Ity_I32 x \<Longrightarrow> fits Ity_I32 y \<Longrightarrow> fits Ity_I32 u \<Longrightarrow> fits Ity_I32 v \<Longrightarrow> sameKindedAtoms a1 v1 \<Longrightarrow> sameKindedAtoms a2 v2 \<Longrightarrow> vals sem G (\<lambda>mce. do_And_Or mkUifU32 mkDifD32 Ity_I32 mkImproveAND32 mce v1 v2 a1 a2) Ity_I32 ((x OR y) AND ((u OR x) AND (v OR y)))"
  unfolding do_And_Or_def
  by ((rule vals_rules vals_steps fits_rules | erule vals_elims | assumption | rule vals_ops, simp; simp add: sem_defs | simp add: prim_type_defs)+)

lemma vals_do_OR32 [vals_rules]:
  "(VSh, v1, Ity_I32, x) \<in> G \<Longrightarrow> (VSh, v2, Ity_I32, y) \<in> G \<Longrightarrow> (Orig, a1, Ity_I32, u) \<in> G \<Longrightarrow> (Orig, a2, Ity_I32, v) \<in> G \<Longrightarrow> fits Ity_I32 x \<Longrightarrow> fits Ity_I32 y \<Longrightarrow> fits Ity_I32 u \<Longrightarrow> fits Ity_I32 v \<Longrightarrow> sameKindedAtoms a1 v1 \<Longrightarrow> sameKindedAtoms a2 v2 \<Longrightarrow> vals sem G (\<lambda>mce. do_And_Or mkUifU32 mkDifD32 Ity_I32 mkImproveOR32 mce v1 v2 a1 a2) Ity_I32 ((x OR y) AND ((take_bit 32 (NOT u) OR x) AND (take_bit 32 (NOT v) OR y)))"
  unfolding do_And_Or_def
  by ((rule vals_rules vals_steps fits_rules | erule vals_elims | assumption | rule vals_ops, simp; simp add: sem_defs | simp add: prim_type_defs)+)

lemma vals_do_AND64 [vals_rules]:
  "(VSh, v1, Ity_I64, x) \<in> G \<Longrightarrow> (VSh, v2, Ity_I64, y) \<in> G \<Longrightarrow> (Orig, a1, Ity_I64, u) \<in> G \<Longrightarrow> (Orig, a2, Ity_I64, v) \<in> G \<Longrightarrow> fits Ity_I64 x \<Longrightarrow> fits Ity_I64 y \<Longrightarrow> fits Ity_I64 u \<Longrightarrow> fits Ity_I64 v \<Longrightarrow> sameKindedAtoms a1 v1 \<Longrightarrow> sameKindedAtoms a2 v2 \<Longrightarrow> vals sem G (\<lambda>mce. do_And_Or mkUifU64 mkDifD64 Ity_I64 mkImproveAND64 mce v1 v2 a1 a2) Ity_I64 ((x OR y) AND ((u OR x) AND (v OR y)))"
  unfolding do_And_Or_def
  by ((rule vals_rules vals_steps fits_rules | erule vals_elims | assumption | rule vals_ops, simp; simp add: sem_defs | simp add: prim_type_defs)+)

lemma vals_do_OR64 [vals_rules]:
  "(VSh, v1, Ity_I64, x) \<in> G \<Longrightarrow> (VSh, v2, Ity_I64, y) \<in> G \<Longrightarrow> (Orig, a1, Ity_I64, u) \<in> G \<Longrightarrow> (Orig, a2, Ity_I64, v) \<in> G \<Longrightarrow> fits Ity_I64 x \<Longrightarrow> fits Ity_I64 y \<Longrightarrow> fits Ity_I64 u \<Longrightarrow> fits Ity_I64 v \<Longrightarrow> sameKindedAtoms a1 v1 \<Longrightarrow> sameKindedAtoms a2 v2 \<Longrightarrow> vals sem G (\<lambda>mce. do_And_Or mkUifU64 mkDifD64 Ity_I64 mkImproveOR64 mce v1 v2 a1 a2) Ity_I64 ((x OR y) AND ((take_bit 64 (NOT u) OR x) AND (take_bit 64 (NOT v) OR y)))"
  unfolding do_And_Or_def
  by ((rule vals_rules vals_steps fits_rules | erule vals_elims | assumption | rule vals_ops, simp; simp add: sem_defs | simp add: prim_type_defs)+)

lemma vals_do_ANDV128 [vals_rules]:
  "(VSh, v1, Ity_V128, x) \<in> G \<Longrightarrow> (VSh, v2, Ity_V128, y) \<in> G \<Longrightarrow> (Orig, a1, Ity_V128, u) \<in> G \<Longrightarrow> (Orig, a2, Ity_V128, v) \<in> G \<Longrightarrow> fits Ity_V128 x \<Longrightarrow> fits Ity_V128 y \<Longrightarrow> fits Ity_V128 u \<Longrightarrow> fits Ity_V128 v \<Longrightarrow> sameKindedAtoms a1 v1 \<Longrightarrow> sameKindedAtoms a2 v2 \<Longrightarrow> vals sem G (\<lambda>mce. do_And_Or mkUifUV128 mkDifDV128 Ity_V128 mkImproveANDV128 mce v1 v2 a1 a2) Ity_V128 ((x OR y) AND ((u OR x) AND (v OR y)))"
  unfolding do_And_Or_def
  by ((rule vals_rules vals_steps fits_rules | erule vals_elims | assumption | rule vals_ops, simp; simp add: sem_defs | simp add: prim_type_defs)+)

lemma vals_do_ORV128 [vals_rules]:
  "(VSh, v1, Ity_V128, x) \<in> G \<Longrightarrow> (VSh, v2, Ity_V128, y) \<in> G \<Longrightarrow> (Orig, a1, Ity_V128, u) \<in> G \<Longrightarrow> (Orig, a2, Ity_V128, v) \<in> G \<Longrightarrow> fits Ity_V128 x \<Longrightarrow> fits Ity_V128 y \<Longrightarrow> fits Ity_V128 u \<Longrightarrow> fits Ity_V128 v \<Longrightarrow> sameKindedAtoms a1 v1 \<Longrightarrow> sameKindedAtoms a2 v2 \<Longrightarrow> vals sem G (\<lambda>mce. do_And_Or mkUifUV128 mkDifDV128 Ity_V128 mkImproveORV128 mce v1 v2 a1 a2) Ity_V128 ((x OR y) AND ((take_bit 128 (NOT u) OR x) AND (take_bit 128 (NOT v) OR y)))"
  unfolding do_And_Or_def
  by ((rule vals_rules vals_steps fits_rules | erule vals_elims | assumption | rule vals_ops, simp; simp add: sem_defs | simp add: prim_type_defs)+)

lemma vals_do_ANDV256 [vals_rules]:
  "(VSh, v1, Ity_V256, x) \<in> G \<Longrightarrow> (VSh, v2, Ity_V256, y) \<in> G \<Longrightarrow> (Orig, a1, Ity_V256, u) \<in> G \<Longrightarrow> (Orig, a2, Ity_V256, v) \<in> G \<Longrightarrow> fits Ity_V256 x \<Longrightarrow> fits Ity_V256 y \<Longrightarrow> fits Ity_V256 u \<Longrightarrow> fits Ity_V256 v \<Longrightarrow> sameKindedAtoms a1 v1 \<Longrightarrow> sameKindedAtoms a2 v2 \<Longrightarrow> vals sem G (\<lambda>mce. do_And_Or mkUifUV256 mkDifDV256 Ity_V256 mkImproveANDV256 mce v1 v2 a1 a2) Ity_V256 ((x OR y) AND ((u OR x) AND (v OR y)))"
  unfolding do_And_Or_def
  by ((rule vals_rules vals_steps fits_rules | erule vals_elims | assumption | rule vals_ops, simp; simp add: sem_defs | simp add: prim_type_defs)+)

lemma vals_do_ORV256 [vals_rules]:
  "(VSh, v1, Ity_V256, x) \<in> G \<Longrightarrow> (VSh, v2, Ity_V256, y) \<in> G \<Longrightarrow> (Orig, a1, Ity_V256, u) \<in> G \<Longrightarrow> (Orig, a2, Ity_V256, v) \<in> G \<Longrightarrow> fits Ity_V256 x \<Longrightarrow> fits Ity_V256 y \<Longrightarrow> fits Ity_V256 u \<Longrightarrow> fits Ity_V256 v \<Longrightarrow> sameKindedAtoms a1 v1 \<Longrightarrow> sameKindedAtoms a2 v2 \<Longrightarrow> vals sem G (\<lambda>mce. do_And_Or mkUifUV256 mkDifDV256 Ity_V256 mkImproveORV256 mce v1 v2 a1 a2) Ity_V256 ((x OR y) AND ((take_bit 256 (NOT u) OR x) AND (take_bit 256 (NOT v) OR y)))"
  unfolding do_And_Or_def
  by ((rule vals_rules vals_steps fits_rules | erule vals_elims | assumption | rule vals_ops, simp; simp add: sem_defs | simp add: prim_type_defs)+)

lemma vals_binary8Ix32 [vals_rules]:
  "(VSh, a, Ity_V256, x) \<in> G \<Longrightarrow> (VSh, b, Ity_V256, y) \<in> G \<Longrightarrow> fits Ity_V256 x \<Longrightarrow> fits Ity_V256 y \<Longrightarrow> vals sem G (\<lambda>mce. binary8Ix32 mce a b) Ity_V256 (lanes 8 32 (pess 8) (x OR y))"
  unfolding binary8Ix32_def
  by ((rule vals_rules vals_steps fits_rules | erule vals_elims | assumption | rule vals_ops, simp; simp add: sem_defs | simp add: prim_type_defs)+)

lemma vals_binary16Ix16 [vals_rules]:
  "(VSh, a, Ity_V256, x) \<in> G \<Longrightarrow> (VSh, b, Ity_V256, y) \<in> G \<Longrightarrow> fits Ity_V256 x \<Longrightarrow> fits Ity_V256 y \<Longrightarrow> vals sem G (\<lambda>mce. binary16Ix16 mce a b) Ity_V256 (lanes 16 16 (pess 16) (x OR y))"
  unfolding binary16Ix16_def
  by ((rule vals_rules vals_steps fits_rules | erule vals_elims | assumption | rule vals_ops, simp; simp add: sem_defs | simp add: prim_type_defs)+)

lemma vals_binary32Ix8 [vals_rules]:
  "(VSh, a, Ity_V256, x) \<in> G \<Longrightarrow> (VSh, b, Ity_V256, y) \<in> G \<Longrightarrow> fits Ity_V256 x \<Longrightarrow> fits Ity_V256 y \<Longrightarrow> vals sem G (\<lambda>mce. binary32Ix8 mce a b) Ity_V256 (lanes 32 8 (pess 32) (x OR y))"
  unfolding binary32Ix8_def
  by ((rule vals_rules vals_steps fits_rules | erule vals_elims | assumption | rule vals_ops, simp; simp add: sem_defs | simp add: prim_type_defs)+)

lemma vals_binary64Ix4 [vals_rules]:
  "(VSh, a, Ity_V256, x) \<in> G \<Longrightarrow> (VSh, b, Ity_V256, y) \<in> G \<Longrightarrow> fits Ity_V256 x \<Longrightarrow> fits Ity_V256 y \<Longrightarrow> vals sem G (\<lambda>mce. binary64Ix4 mce a b) Ity_V256 (lanes 64 4 (pess 64) (x OR y))"
  unfolding binary64Ix4_def
  by ((rule vals_rules vals_steps fits_rules | erule vals_elims | assumption | rule vals_ops, simp; simp add: sem_defs | simp add: prim_type_defs)+)

lemma vals_binary8Ix16 [vals_rules]:
  "(VSh, a, Ity_V128, x) \<in> G \<Longrightarrow> (VSh, b, Ity_V128, y) \<in> G \<Longrightarrow> fits Ity_V128 x \<Longrightarrow> fits Ity_V128 y \<Longrightarrow> vals sem G (\<lambda>mce. binary8Ix16 mce a b) Ity_V128 (lanes 8 16 (pess 8) (x OR y))"
  unfolding binary8Ix16_def
  by ((rule vals_rules vals_steps fits_rules | erule vals_elims | assumption | rule vals_ops, simp; simp add: sem_defs | simp add: prim_type_defs)+)

lemma vals_binary16Ix8 [vals_rules]:
  "(VSh, a, Ity_V128, x) \<in> G \<Longrightarrow> (VSh, b, Ity_V128, y) \<in> G \<Longrightarrow> fits Ity_V128 x \<Longrightarrow> fits Ity_V128 y \<Longrightarrow> vals sem G (\<lambda>mce. binary16Ix8 mce a b) Ity_V128 (lanes 16 8 (pess 16) (x OR y))"
  unfolding binary16Ix8_def
  by ((rule vals_rules vals_steps fits_rules | erule vals_elims | assumption | rule vals_ops, simp; simp add: sem_defs | simp add: prim_type_defs)+)

lemma vals_binary32Ix4 [vals_rules]:
  "(VSh, a, Ity_V128, x) \<in> G \<Longrightarrow> (VSh, b, Ity_V128, y) \<in> G \<Longrightarrow> fits Ity_V128 x \<Longrightarrow> fits Ity_V128 y \<Longrightarrow> vals sem G (\<lambda>mce. binary32Ix4 mce a b) Ity_V128 (lanes 32 4 (pess 32) (x OR y))"
  unfolding binary32Ix4_def
  by ((rule vals_rules vals_steps fits_rules | erule vals_elims | assumption | rule vals_ops, simp; simp add: sem_defs | simp add: prim_type_defs)+)

lemma vals_binary64Ix2 [vals_rules]:
  "(VSh, a, Ity_V128, x) \<in> G \<Longrightarrow> (VSh, b, Ity_V128, y) \<in> G \<Longrightarrow> fits Ity_V128 x \<Longrightarrow> fits Ity_V128 y \<Longrightarrow> vals sem G (\<lambda>mce. binary64Ix2 mce a b) Ity_V128 (lanes 64 2 (pess 64) (x OR y))"
  unfolding binary64Ix2_def
  by ((rule vals_rules vals_steps fits_rules | erule vals_elims | assumption | rule vals_ops, simp; simp add: sem_defs | simp add: prim_type_defs)+)

lemma vals_binary8Ix8 [vals_rules]:
  "(VSh, a, Ity_I64, x) \<in> G \<Longrightarrow> (VSh, b, Ity_I64, y) \<in> G \<Longrightarrow> fits Ity_I64 x \<Longrightarrow> fits Ity_I64 y \<Longrightarrow> vals sem G (\<lambda>mce. binary8Ix8 mce a b) Ity_I64 (lanes 8 8 (pess 8) (x OR y))"
  unfolding binary8Ix8_def
  by ((rule vals_rules vals_steps fits_rules | erule vals_elims | assumption | rule vals_ops, simp; simp add: sem_defs | simp add: prim_type_defs)+)

lemma vals_binary16Ix4 [vals_rules]:
  "(VSh, a, Ity_I64, x) \<in> G \<Longrightarrow> (VSh, b, Ity_I64, y) \<in> G \<Longrightarrow> fits Ity_I64 x \<Longrightarrow> fits Ity_I64 y \<Longrightarrow> vals sem G (\<lambda>mce. binary16Ix4 mce a b) Ity_I64 (lanes 16 4 (pess 16) (x OR y))"
  unfolding binary16Ix4_def
  by ((rule vals_rules vals_steps fits_rules | erule vals_elims | assumption | rule vals_ops, simp; simp add: sem_defs | simp add: prim_type_defs)+)

lemma vals_binary32Ix2 [vals_rules]:
  "(VSh, a, Ity_I64, x) \<in> G \<Longrightarrow> (VSh, b, Ity_I64, y) \<in> G \<Longrightarrow> fits Ity_I64 x \<Longrightarrow> fits Ity_I64 y \<Longrightarrow> vals sem G (\<lambda>mce. binary32Ix2 mce a b) Ity_I64 (lanes 32 2 (pess 32) (x OR y))"
  unfolding binary32Ix2_def
  by ((rule vals_rules vals_steps fits_rules | erule vals_elims | assumption | rule vals_ops, simp; simp add: sem_defs | simp add: prim_type_defs)+)

lemma vals_binary8Ix4 [vals_rules]:
  "(VSh, a, Ity_I32, x) \<in> G \<Longrightarrow> (VSh, b, Ity_I32, y) \<in> G \<Longrightarrow> fits Ity_I32 x \<Longrightarrow> fits Ity_I32 y \<Longrightarrow> vals sem G (\<lambda>mce. binary8Ix4 mce a b) Ity_I32 (lanes 8 4 (pess 8) (x OR y))"
  unfolding binary8Ix4_def
  by ((rule vals_rules vals_steps fits_rules | erule vals_elims | assumption | rule vals_ops, simp; simp add: sem_defs | simp add: prim_type_defs)+)

lemma vals_binary16Ix2 [vals_rules]:
  "(VSh, a, Ity_I32, x) \<in> G \<Longrightarrow> (VSh, b, Ity_I32, y) \<in> G \<Longrightarrow> fits Ity_I32 x \<Longrightarrow> fits Ity_I32 y \<Longrightarrow> vals sem G (\<lambda>mce. binary16Ix2 mce a b) Ity_I32 (lanes 16 2 (pess 16) (x OR y))"
  unfolding binary16Ix2_def
  by ((rule vals_rules vals_steps fits_rules | erule vals_elims | assumption | rule vals_ops, simp; simp add: sem_defs | simp add: prim_type_defs)+)

lemma vals_binary64Ix1 [vals_rules]:
  "(VSh, a, Ity_I64, x) \<in> G \<Longrightarrow> (VSh, b, Ity_I64, y) \<in> G \<Longrightarrow> fits Ity_I64 x \<Longrightarrow> fits Ity_I64 y \<Longrightarrow> vals sem G (\<lambda>mce. binary64Ix1 mce a b) Ity_I64 (pcast Ity_I64 (x OR y))"
  unfolding binary64Ix1_def
  by ((rule vals_rules vals_steps fits_rules | erule vals_elims | assumption | rule vals_ops, simp; simp add: sem_defs | simp add: prim_type_defs)+)

lemma vals_binary32Fx4 [vals_rules]:
  "(VSh, a, Ity_V128, x) \<in> G \<Longrightarrow> (VSh, b, Ity_V128, y) \<in> G \<Longrightarrow> fits Ity_V128 x \<Longrightarrow> fits Ity_V128 y \<Longrightarrow> vals sem G (\<lambda>mce. binary32Fx4 mce a b) Ity_V128 (lanes 32 4 (pess 32) (x OR y))"
  unfolding binary32Fx4_def
  by ((rule vals_rules vals_steps fits_rules | erule vals_elims | assumption | rule vals_ops, simp; simp add: sem_defs | simp add: prim_type_defs)+)

lemma vals_unary32Fx4 [vals_rules]:
  "(VSh, a, Ity_V128, x) \<in> G \<Longrightarrow> fits Ity_V128 x \<Longrightarrow> vals sem G (\<lambda>mce. unary32Fx4 mce a) Ity_V128 (lanes 32 4 (pess 32) x)"
  unfolding unary32Fx4_def
  by ((rule vals_rules vals_steps fits_rules | erule vals_elims | assumption | rule vals_ops, simp; simp add: sem_defs | simp add: prim_type_defs)+)

lemma vals_binary64Fx2 [vals_rules]:
  "(VSh, a, Ity_V128, x) \<in> G \<Longrightarrow> (VSh, b, Ity_V128, y) \<in> G \<Longrightarrow> fits Ity_V128 x \<Longrightarrow> fits Ity_V128 y \<Longrightarrow> vals sem G (\<lambda>mce. binary64Fx2 mce a b) Ity_V128 (lanes 64 2 (pess 64) (x OR y))"
  unfolding binary64Fx2_def
  by ((rule vals_rules vals_steps fits_rules | erule vals_elims | assumption | rule vals_ops, simp; simp add: sem_defs | simp add: prim_type_defs)+)

lemma vals_unary64Fx2 [vals_rules]:
  "(VSh, a, Ity_V128, x) \<in> G \<Longrightarrow> fits Ity_V128 x \<Longrightarrow> vals sem G (\<lambda>mce. unary64Fx2 mce a) Ity_V128 (lanes 64 2 (pess 64) x)"
  unfolding unary64Fx2_def
  by ((rule vals_rules vals_steps fits_rules | erule vals_elims | assumption | rule vals_ops, simp; simp add: sem_defs | simp add: prim_type_defs)+)

lemma vals_binary32Fx2 [vals_rules]:
  "(VSh, a, Ity_I64, x) \<in> G \<Longrightarrow> (VSh, b, Ity_I64, y) \<in> G \<Longrightarrow> fits Ity_I64 x \<Longrightarrow> fits Ity_I64 y \<Longrightarrow> vals sem G (\<lambda>mce. binary32Fx2 mce a b) Ity_I64 (lanes 32 2 (pess 32) (x OR y))"
  unfolding binary32Fx2_def
  by ((rule vals_rules vals_steps fits_rules | erule vals_elims | assumption | rule vals_ops, simp; simp add: sem_defs | simp add: prim_type_defs)+)

lemma vals_unary32Fx2 [vals_rules]:
  "(VSh, a, Ity_I64, x) \<in> G \<Longrightarrow> fits Ity_I64 x \<Longrightarrow> vals sem G (\<lambda>mce. unary32Fx2 mce a) Ity_I64 (lanes 32 2 (pess 32) x)"
  unfolding unary32Fx2_def
  by ((rule vals_rules vals_steps fits_rules | erule vals_elims | assumption | rule vals_ops, simp; simp add: sem_defs | simp add: prim_type_defs)+)

lemma vals_binary64Fx4 [vals_rules]:
  "(VSh, a, Ity_V256, x) \<in> G \<Longrightarrow> (VSh, b, Ity_V256, y) \<in> G \<Longrightarrow> fits Ity_V256 x \<Longrightarrow> fits Ity_V256 y \<Longrightarrow> vals sem G (\<lambda>mce. binary64Fx4 mce a b) Ity_V256 (lanes 64 4 (pess 64) (x OR y))"
  unfolding binary64Fx4_def
  by ((rule vals_rules vals_steps fits_rules | erule vals_elims | assumption | rule vals_ops, simp; simp add: sem_defs | simp add: prim_type_defs)+)

lemma vals_unary64Fx4 [vals_rules]:
  "(VSh, a, Ity_V256, x) \<in> G \<Longrightarrow> fits Ity_V256 x \<Longrightarrow> vals sem G (\<lambda>mce. unary64Fx4 mce a) Ity_V256 (lanes 64 4 (pess 64) x)"
  unfolding unary64Fx4_def
  by ((rule vals_rules vals_steps fits_rules | erule vals_elims | assumption | rule vals_ops, simp; simp add: sem_defs | simp add: prim_type_defs)+)

lemma vals_binary32Fx8 [vals_rules]:
  "(VSh, a, Ity_V256, x) \<in> G \<Longrightarrow> (VSh, b, Ity_V256, y) \<in> G \<Longrightarrow> fits Ity_V256 x \<Longrightarrow> fits Ity_V256 y \<Longrightarrow> vals sem G (\<lambda>mce. binary32Fx8 mce a b) Ity_V256 (lanes 32 8 (pess 32) (x OR y))"
  unfolding binary32Fx8_def
  by ((rule vals_rules vals_steps fits_rules | erule vals_elims | assumption | rule vals_ops, simp; simp add: sem_defs | simp add: prim_type_defs)+)

lemma vals_unary32Fx8 [vals_rules]:
  "(VSh, a, Ity_V256, x) \<in> G \<Longrightarrow> fits Ity_V256 x \<Longrightarrow> vals sem G (\<lambda>mce. unary32Fx8 mce a) Ity_V256 (lanes 32 8 (pess 32) x)"
  unfolding unary32Fx8_def
  by ((rule vals_rules vals_steps fits_rules | erule vals_elims | assumption | rule vals_ops, simp; simp add: sem_defs | simp add: prim_type_defs)+)

lemma vals_mkLazy2 [vals_rules]:
  "(VSh, a, t1, x) \<in> G \<Longrightarrow> (VSh, b, t2, y) \<in> G \<Longrightarrow> t1 \<in> cast_types \<Longrightarrow> t2 \<in> cast_types \<Longrightarrow> ty \<in> cast_types \<Longrightarrow>
   fits t1 x \<Longrightarrow> fits t2 y \<Longrightarrow> vals sem G (\<lambda>mce. mkLazy2 mce ty a b) ty (pcast ty (x OR y))"
  unfolding mkLazy2_def
  apply (rule vals_pure_bind, erule vctx_type, assumption, rule vals_pure_bind, erule vctx_type, assumption,
      rule vals_assert, erule vctx_shadow, assumption, rule vals_assert, erule vctx_shadow, assumption,
      intro vals_cond; (elim conjE, hypsubst)?; (rule vals_eq, ((rule vals_rules vals_steps fits_rules | erule vals_elims | assumption | rule vals_ops, simp; simp add: sem_defs | simp add: prim_type_defs)+), (simp add: pcast_def pess_or)?))
  done

lemma vals_mkLazy3 [vals_rules]:
  "(VSh, v1, t1, x) \<in> G \<Longrightarrow> (VSh, v2, t2, y) \<in> G \<Longrightarrow> (VSh, v3, t3, z) \<in> G \<Longrightarrow> (t1, t2, t3, ty) \<in> {(Ity_I32, Ity_I64, Ity_I64, Ity_I64),
    (Ity_I32, Ity_I8, Ity_I64, Ity_I64),
    (Ity_I32, Ity_I64, Ity_I64, Ity_I32),
    (Ity_I32, Ity_I32, Ity_I32, Ity_I32),
    (Ity_I32, Ity_I8, Ity_I128, Ity_I128)} \<Longrightarrow> fits t1 x \<Longrightarrow> fits t2 y \<Longrightarrow> fits t3 z \<Longrightarrow>
    vals sem G (\<lambda>mce. mkLazy3 mce ty v1 v2 v3) ty (pcast ty (x OR y OR z))"
  unfolding mkLazy3_def
  by (elim insertE emptyE Pair_inject; hypsubst; (rule vals_eq, ((rule vals_rules vals_steps fits_rules | erule vals_elims | assumption | rule vals_ops, simp; simp add: sem_defs | simp add: prim_type_defs)+), (simp add: pcast_def pess_or ac_simps)?))

lemma vals_mkLazy4 [vals_rules]:
  "(VSh, v1, t1, x) \<in> G \<Longrightarrow> (VSh, v2, t2, y) \<in> G \<Longrightarrow> (VSh, v3, t3, z) \<in> G \<Longrightarrow> (VSh, v4, t4, u) \<in> G \<Longrightarrow> (t1, t2, t3, t4, ty) \<in> {(Ity_I32, Ity_I64, Ity_I64, Ity_I64, Ity_I64),
    (Ity_I32, Ity_I32, Ity_I32, Ity_I32, Ity_I32)} \<Longrightarrow> fits t1 x \<Longrightarrow> fits t2 y \<Longrightarrow> fits t3 z \<Longrightarrow> fits t4 u \<Longrightarrow>
    vals sem G (\<lambda>mce. mkLazy4 mce ty v1 v2 v3 v4) ty (pcast ty (x OR y OR z OR u))"
  unfolding mkLazy4_def
  by (elim insertE emptyE Pair_inject; hypsubst; (rule vals_eq, ((rule vals_rules vals_steps fits_rules | erule vals_elims | assumption | rule vals_ops, simp; simp add: sem_defs | simp add: prim_type_defs)+), (simp add: pcast_def pess_or ac_simps)?))

end

end
