(* ===== verification/TntSound.thy ===== *)
theory TntSound
  imports TntValues
begin

text \<open>
  Soundness of the V bits. A rule is sound if, whatever the values of the tainted bits of the
  arguments, the bits of the result that are not tainted stay the same: the instrumenter never
  reports a bit as untainted that a tainted input can change. One lemma per scheme of V bits,
  then the rules of the switches of \<open>expr2vbits_Binop\<close> and \<open>expr2vbits_Unop\<close>.
\<close>

section \<open>The operators of each scheme\<close>

text \<open>The operators whose rules are proved sound below, by the scheme of V bits the rule uses.\<close>

definition lazy_scheme :: "IROp list" where
  "lazy_scheme = [
    Iop_QSub64Ux1, Iop_QSub64Sx1, Iop_QAdd64Ux1, Iop_QAdd64Sx1, Iop_QSal64x1, Iop_QShl64x1,
    Iop_Sal64x1, Iop_BCDAdd, Iop_BCDSub, Iop_F32toI64S, Iop_F32toI64U, Iop_I64StoF32,
    Iop_RoundF64toInt, Iop_RoundF64toF32, Iop_F64toI64S, Iop_F64toI64U, Iop_I64StoF64, Iop_I64UtoF64,
    Iop_SinF64, Iop_CosF64, Iop_TanF64, Iop_2xm1F64, Iop_SqrtF64, Iop_RecpExpF64, Iop_ShlD64,
    Iop_ShrD64, Iop_RoundD64toInt, Iop_ShlD128, Iop_ShrD128, Iop_RoundD128toInt, Iop_RoundF128toInt,
    Iop_D64toI64S, Iop_D64toI64U, Iop_I64StoD64, Iop_I64UtoD64, Iop_F32toD32, Iop_F64toD32,
    Iop_F128toD32, Iop_D32toF32, Iop_D64toF32, Iop_D128toF32, Iop_F32toD64, Iop_F64toD64,
    Iop_F128toD64, Iop_D32toF64, Iop_D64toF64, Iop_D128toF64, Iop_F32toD128, Iop_F64toD128,
    Iop_F128toD128, Iop_D32toF128, Iop_D64toF128, Iop_D128toF128, Iop_RoundF32toInt, Iop_SqrtF32,
    Iop_RecpExpF32, Iop_SqrtF128, Iop_I32StoF32, Iop_I32UtoF32, Iop_F32toI32S, Iop_F32toI32U,
    Iop_F64toF16, Iop_F32toF16, Iop_F128toI32S, Iop_F128toI32U, Iop_F128toF32, Iop_D128toI32S,
    Iop_D128toI32U, Iop_F128toI128S, Iop_RndF128, Iop_F128toI64S, Iop_F128toI64U, Iop_F128toF64,
    Iop_D128toD64, Iop_D128toI64S, Iop_D128toI64U, Iop_F64toI32U, Iop_F64toI32S, Iop_F64toF32,
    Iop_I64UtoF32, Iop_D64toI32U, Iop_D64toI32S, Iop_D64toD32, Iop_F64toI16S, Iop_InsertExpD64,
    Iop_InsertExpD128, Iop_CmpF32, Iop_CmpF64, Iop_CmpF128, Iop_CmpD64, Iop_CmpD128, Iop_CmpExpD64,
    Iop_CmpExpD128, Iop_DivModU64to32, Iop_DivModS64to32, Iop_DivModU128to64, Iop_DivModS128to64,
    Iop_Sad8Ux4, Iop_DivS32, Iop_DivU32, Iop_DivU32E, Iop_DivS32E, Iop_QAdd32S, Iop_QSub32S,
    Iop_DivS64, Iop_DivU64, Iop_DivS64E, Iop_DivU64E, Iop_CmpLE64S, Iop_CmpLE64U, Iop_CmpLT64U,
    Iop_CmpLT64S, Iop_CmpLE32S, Iop_CmpLE32U, Iop_CmpLT32U, Iop_CmpLT32S, Iop_CmpEQ16, Iop_CmpNE16,
    Iop_CmpEQ8, Iop_CmpNE8]"

definition left_scheme :: "IROp list" where
  "left_scheme = [
    Iop_Add8, Iop_Add16, Iop_Sub8, Iop_Sub16, Iop_Mul8, Iop_Mul16, Iop_Mul32, Iop_Mul64]"

definition addsub_scheme :: "IROp list" where
  "addsub_scheme = [
    Iop_Add32, Iop_Sub32, Iop_Add64, Iop_Sub64]"

definition xor_scheme :: "IROp list" where
  "xor_scheme = [
    Iop_Xor8, Iop_Xor16, Iop_Xor32, Iop_Xor64, Iop_XorV128, Iop_XorV256]"

definition and_scheme :: "IROp list" where
  "and_scheme = [
    Iop_And8, Iop_And16, Iop_And32, Iop_And64, Iop_AndV128, Iop_AndV256]"

definition or_scheme :: "IROp list" where
  "or_scheme = [
    Iop_Or8, Iop_Or16, Iop_Or32, Iop_Or64, Iop_OrV128, Iop_OrV256]"

definition hl_scheme :: "IROp list" where
  "hl_scheme = [
    Iop_8HLto16, Iop_16HLto32, Iop_32HLto64, Iop_64HLto128, Iop_64HLtoV128, Iop_F64HLtoF128,
    Iop_D64HLtoD128, Iop_V128HLtoV256]"

definition cmp_scheme :: "IROp list" where
  "cmp_scheme = [
    Iop_ExpCmpNE16, Iop_ExpCmpNE32, Iop_ExpCmpNE64]"

definition cmp_if_scheme :: "IROp list" where
  "cmp_if_scheme = [
    Iop_CmpEQ32, Iop_CmpNE32, Iop_CmpEQ64, Iop_CmpNE64]"

definition mull_scheme :: "IROp list" where
  "mull_scheme = [
    Iop_MullS8, Iop_MullS16, Iop_MullS32, Iop_MullS64, Iop_MullU8, Iop_MullU16, Iop_MullU32, Iop_MullU64]"

definition shl_scheme :: "IROp list" where
  "shl_scheme = [
    Iop_Shl8, Iop_Shl16, Iop_Shl32, Iop_Shl64]"

definition shr_scheme :: "IROp list" where
  "shr_scheme = [
    Iop_Shr8, Iop_Shr16, Iop_Shr32, Iop_Shr64]"

definition sar_scheme :: "IROp list" where
  "sar_scheme = [
    Iop_Sar8, Iop_Sar16, Iop_Sar32, Iop_Sar64]"

definition lane_scheme :: "IROp list" where
  "lane_scheme = [
    Iop_Add16x2, Iop_HAdd16Ux2, Iop_HAdd16Sx2, Iop_Sub16x2, Iop_HSub16Ux2, Iop_HSub16Sx2,
    Iop_QAdd16Sx2, Iop_QSub16Sx2, Iop_QSub16Ux2, Iop_QAdd16Ux2, Iop_Add8x4, Iop_HAdd8Ux4, Iop_HAdd8Sx4,
    Iop_Sub8x4, Iop_HSub8Ux4, Iop_HSub8Sx4, Iop_QSub8Ux4, Iop_QAdd8Ux4, Iop_QSub8Sx4, Iop_QAdd8Sx4,
    Iop_Min8Ux8, Iop_Min8Sx8, Iop_Max8Ux8, Iop_Max8Sx8, Iop_Avg8Ux8, Iop_QSub8Sx8, Iop_QSub8Ux8,
    Iop_Sub8x8, Iop_CmpGT8Sx8, Iop_CmpGT8Ux8, Iop_CmpEQ8x8, Iop_QAdd8Sx8, Iop_QAdd8Ux8, Iop_QSal8x8,
    Iop_QShl8x8, Iop_Add8x8, Iop_Mul8x8, Iop_PolynomialMul8x8, Iop_Min16Sx4, Iop_Min16Ux4,
    Iop_Max16Sx4, Iop_Max16Ux4, Iop_Avg16Ux4, Iop_QSub16Ux4, Iop_QSub16Sx4, Iop_Sub16x4, Iop_Mul16x4,
    Iop_MulHi16Sx4, Iop_MulHi16Ux4, Iop_CmpGT16Sx4, Iop_CmpGT16Ux4, Iop_CmpEQ16x4, Iop_QAdd16Sx4,
    Iop_QAdd16Ux4, Iop_QSal16x4, Iop_QShl16x4, Iop_Add16x4, Iop_QDMulHi16Sx4, Iop_QRDMulHi16Sx4,
    Iop_Sub32x2, Iop_Mul32x2, Iop_Max32Sx2, Iop_Max32Ux2, Iop_Min32Sx2, Iop_Min32Ux2, Iop_CmpGT32Sx2,
    Iop_CmpGT32Ux2, Iop_CmpEQ32x2, Iop_Add32x2, Iop_QAdd32Ux2, Iop_QAdd32Sx2, Iop_QSub32Ux2,
    Iop_QSub32Sx2, Iop_QSal32x2, Iop_QShl32x2, Iop_QDMulHi32Sx2, Iop_QRDMulHi32Sx2, Iop_Rsh8Sx16,
    Iop_Rsh8Ux16, Iop_Rsh16Sx8, Iop_Rsh16Ux8, Iop_Rsh32Sx4, Iop_Rsh32Ux4, Iop_Rsh64Sx2, Iop_Rsh64Ux2,
    Iop_QSub8Ux16, Iop_QSub8Sx16, Iop_Sub8x16, Iop_Min8Ux16, Iop_Min8Sx16, Iop_Max8Ux16, Iop_Max8Sx16,
    Iop_CmpGT8Sx16, Iop_CmpGT8Ux16, Iop_CmpEQ8x16, Iop_Avg8Ux16, Iop_Avg8Sx16, Iop_QAdd8Ux16,
    Iop_QAdd8Sx16, Iop_QSal8x16, Iop_QShl8x16, Iop_Add8x16, Iop_Mul8x16, Iop_PolynomialMul8x16,
    Iop_QSub16Ux8, Iop_QSub16Sx8, Iop_Sub16x8, Iop_Mul16x8, Iop_MulHi16Sx8, Iop_MulHi16Ux8,
    Iop_Min16Sx8, Iop_Min16Ux8, Iop_Max16Sx8, Iop_Max16Ux8, Iop_CmpGT16Sx8, Iop_CmpGT16Ux8,
    Iop_CmpEQ16x8, Iop_Avg16Ux8, Iop_Avg16Sx8, Iop_QAdd16Ux8, Iop_QAdd16Sx8, Iop_QSal16x8,
    Iop_QShl16x8, Iop_Add16x8, Iop_QDMulHi16Sx8, Iop_QRDMulHi16Sx8, Iop_Sub32x4, Iop_CmpGT32Sx4,
    Iop_CmpGT32Ux4, Iop_CmpEQ32x4, Iop_QAdd32Sx4, Iop_QAdd32Ux4, Iop_QSub32Sx4, Iop_QSub32Ux4,
    Iop_QSal32x4, Iop_QShl32x4, Iop_Avg32Ux4, Iop_Avg32Sx4, Iop_Add32x4, Iop_Max32Ux4, Iop_Max32Sx4,
    Iop_Min32Ux4, Iop_Min32Sx4, Iop_Mul32x4, Iop_QDMulHi32Sx4, Iop_QRDMulHi32Sx4, Iop_Sub64x2,
    Iop_Add64x2, Iop_Max64Sx2, Iop_Max64Ux2, Iop_Min64Sx2, Iop_Min64Ux2, Iop_CmpEQ64x2, Iop_CmpGT64Sx2,
    Iop_CmpGT64Ux2, Iop_QSal64x2, Iop_QShl64x2, Iop_QAdd64Ux2, Iop_QAdd64Sx2, Iop_QSub64Ux2,
    Iop_QSub64Sx2, Iop_Min64Fx2, Iop_Max64Fx2, Iop_CmpLT64Fx2, Iop_CmpLE64Fx2, Iop_CmpEQ64Fx2,
    Iop_CmpUN64Fx2, Iop_RecipStep64Fx2, Iop_RSqrtStep64Fx2, Iop_Min32Fx4, Iop_Max32Fx4, Iop_CmpLT32Fx4,
    Iop_CmpLE32Fx4, Iop_CmpEQ32Fx4, Iop_CmpUN32Fx4, Iop_CmpGT32Fx4, Iop_CmpGE32Fx4, Iop_RecipStep32Fx4,
    Iop_RSqrtStep32Fx4, Iop_Sub32Fx2, Iop_Mul32Fx2, Iop_Min32Fx2, Iop_Max32Fx2, Iop_CmpEQ32Fx2,
    Iop_CmpGT32Fx2, Iop_CmpGE32Fx2, Iop_Add32Fx2, Iop_RecipStep32Fx2, Iop_RSqrtStep32Fx2, Iop_Max64Fx4,
    Iop_Min64Fx4, Iop_Max32Fx8, Iop_Min32Fx8, Iop_QSub8Ux32, Iop_QSub8Sx32, Iop_Sub8x32, Iop_Min8Ux32,
    Iop_Min8Sx32, Iop_Max8Ux32, Iop_Max8Sx32, Iop_CmpGT8Sx32, Iop_CmpEQ8x32, Iop_Avg8Ux32,
    Iop_QAdd8Ux32, Iop_QAdd8Sx32, Iop_Add8x32, Iop_QSub16Ux16, Iop_QSub16Sx16, Iop_Sub16x16,
    Iop_Mul16x16, Iop_MulHi16Sx16, Iop_MulHi16Ux16, Iop_Min16Sx16, Iop_Min16Ux16, Iop_Max16Sx16,
    Iop_Max16Ux16, Iop_CmpGT16Sx16, Iop_CmpEQ16x16, Iop_Avg16Ux16, Iop_QAdd16Ux16, Iop_QAdd16Sx16,
    Iop_Add16x16, Iop_Sub32x8, Iop_CmpGT32Sx8, Iop_CmpEQ32x8, Iop_Add32x8, Iop_Max32Ux8, Iop_Max32Sx8,
    Iop_Min32Ux8, Iop_Min32Sx8, Iop_Mul32x8, Iop_Sub64x4, Iop_Add64x4, Iop_CmpEQ64x4, Iop_CmpGT64Sx4]"

definition sound_binops :: "IROp list" where
  "sound_binops = lazy_scheme @ left_scheme @ addsub_scheme @ xor_scheme @ and_scheme @ or_scheme @ hl_scheme @ cmp_scheme @ cmp_if_scheme @ mull_scheme @ shl_scheme @ shr_scheme @ sar_scheme @ lane_scheme"

definition pcast_scheme :: "IROp list" where
  "pcast_scheme = [
    Iop_NegF128, Iop_AbsF128, Iop_TruncF128toI64S, Iop_TruncF128toI32S, Iop_TruncF128toI64U,
    Iop_TruncF128toI32U, Iop_I32StoF128, Iop_I64StoF128, Iop_I32UtoF128, Iop_I64UtoF128, Iop_F32toF128,
    Iop_F64toF128, Iop_I32StoD128, Iop_I64StoD128, Iop_I32UtoD128, Iop_I64UtoD128, Iop_F16toF64,
    Iop_F32toF64, Iop_I32StoF64, Iop_I32UtoF64, Iop_NegF64, Iop_AbsF64, Iop_RSqrtEst5GoodF64,
    Iop_RoundF64toF64_NEAREST, Iop_RoundF64toF64_NegINF, Iop_RoundF64toF64_PosINF,
    Iop_RoundF64toF64_ZERO, Iop_Clz64, Iop_D32toD64, Iop_I32StoD64, Iop_I32UtoD64, Iop_ExtractExpD64,
    Iop_ExtractExpD128, Iop_ExtractSigD64, Iop_ExtractSigD128, Iop_DPBtoBCD, Iop_BCDtoDPB,
    Iop_D64toD128, Iop_Clz32, Iop_TruncF64asF32, Iop_NegF32, Iop_AbsF32, Iop_F16toF32, Iop_CmpwNEZ32,
    Iop_CmpwNEZ64]"

definition not_scheme :: "IROp list" where
  "not_scheme = [
    Iop_Not1, Iop_Not8, Iop_Not16, Iop_Not32, Iop_Not64, Iop_NotV128, Iop_NotV256]"

definition copy_scheme :: "IROp list" where
  "copy_scheme = [
    Iop_ReinterpF64asI64, Iop_ReinterpI64asF64, Iop_ReinterpI32asF32, Iop_ReinterpF32asI32,
    Iop_ReinterpI64asD64, Iop_ReinterpD64asI64]"

definition zext_scheme :: "IROp list" where
  "zext_scheme = [
    Iop_1Uto8, Iop_1Uto32, Iop_1Uto64, Iop_8Uto16, Iop_8Uto32, Iop_8Uto64, Iop_16Uto32, Iop_16Uto64,
    Iop_32Uto64, Iop_32UtoV128, Iop_64UtoV128]"

definition trunc_scheme :: "IROp list" where
  "trunc_scheme = [
    Iop_32to1, Iop_64to1, Iop_16to8, Iop_32to8, Iop_64to8, Iop_32to16, Iop_64to16, Iop_64to32,
    Iop_V128to32, Iop_128to64, Iop_V128to64, Iop_V256to64_0, Iop_F128LOtoF64, Iop_D128LOtoD64,
    Iop_V256toV128_0]"

definition bits_at_scheme :: "IROp list" where
  "bits_at_scheme = [
    Iop_16HIto8, Iop_32HIto16, Iop_64HIto32, Iop_128HIto64, Iop_V128HIto64, Iop_V256to64_1,
    Iop_V256to64_2, Iop_V256to64_3, Iop_F128HItoF64, Iop_D128HItoD64, Iop_V256toV128_1]"

definition sext_scheme :: "IROp list" where
  "sext_scheme = [
    Iop_8Sto16, Iop_8Sto32, Iop_8Sto64, Iop_16Sto32, Iop_16Sto64, Iop_32Sto64]"

definition pess_scheme :: "IROp list" where
  "pess_scheme = [
    Iop_1Sto8, Iop_1Sto32, Iop_1Sto64]"

definition lanes1_scheme :: "IROp list" where
  "lanes1_scheme = [
    Iop_CmpNEZ8x8, Iop_CmpNEZ8x16, Iop_CmpNEZ16x4, Iop_CmpNEZ16x8, Iop_CmpNEZ32x2, Iop_CmpNEZ32x4,
    Iop_CmpNEZ64x2]"

definition ctz_scheme :: "IROp list" where
  "ctz_scheme = [
    Iop_Ctz32, Iop_Ctz64]"

definition sound_unops :: "IROp list" where
  "sound_unops = pcast_scheme @ not_scheme @ copy_scheme @ zext_scheme @ trunc_scheme @ bits_at_scheme @ sext_scheme @ pess_scheme @ lanes1_scheme @ ctz_scheme"

section \<open>Soundness of a rule\<close>

definition sound_at :: "op_sem \<Rightarrow> valued_atom set \<Rightarrow> emitter \<Rightarrow> IRType \<Rightarrow> (int \<Rightarrow> bool) \<Rightarrow> bool" where
  "sound_at sem G m ty P \<longleftrightarrow> (\<forall>mce s. vctx G mce s \<longrightarrow>
     (\<exists>r mce' s' V. m mce = Some (r, mce') \<and> steps sem mce s mce' s' \<and> vatom mce' s' (VSh, r, ty, V) \<and> P V))"

lemma sound_vals: "vals sem G m ty V \<Longrightarrow> P V \<Longrightarrow> sound_at sem G m ty P"
  unfolding vals_def sound_at_def by blast

lemma sound_if: "sound_at sem G m ty P \<Longrightarrow> sound_at sem G m' ty P \<Longrightarrow> sound_at sem G (\<lambda>mce. if b mce then m mce else m' mce) ty P"
  unfolding sound_at_def by auto

text \<open>\<open>V\<close> covers every bit of the result that a change of tainted argument bits can change.\<close>

definition covers :: "op_sem \<Rightarrow> IROp \<Rightarrow> IRType \<Rightarrow> IRType \<Rightarrow> IRType \<Rightarrow> int \<Rightarrow> int \<Rightarrow> int \<Rightarrow> int \<Rightarrow> int \<Rightarrow> int \<Rightarrow> bool" where
  "covers sem op t1 t2 ty q1 q2 x1 x2 z V \<longleftrightarrow> (\<forall>y1 y2 z'. fits t1 y1 \<longrightarrow> fits t2 y2 \<longrightarrow>
     agree (ty_bits t1) q1 x1 y1 \<longrightarrow> agree (ty_bits t2) q2 x2 y2 \<longrightarrow> sem op [y1, y2] = Some z' \<longrightarrow> agree (ty_bits ty) V z z')"

lemma coversI:
  assumes "\<And>y1 y2 z'. fits t1 y1 \<Longrightarrow> fits t2 y2 \<Longrightarrow> agree (ty_bits t1) q1 x1 y1 \<Longrightarrow> agree (ty_bits t2) q2 x2 y2 \<Longrightarrow>
    sem op [y1, y2] = Some z' \<Longrightarrow> agree (ty_bits ty) V z z'"
  shows "covers sem op t1 t2 ty q1 q2 x1 x2 z V"
  using assms by (simp add: covers_def)

definition sound_binop :: "op_sem \<Rightarrow> IROp \<Rightarrow> bool" where
  "sound_binop sem op \<longleftrightarrow> (\<exists>rule ty t1 t2 s s1 s2. switch expr2vbits_Binop_cases op = Some rule \<and>
     typeOfPrimop op = Some (ty, t1, t2, Ity_INVALID, Ity_INVALID) \<and>
     shadowTypeV ty = Some s \<and> shadowTypeV t1 = Some s1 \<and> shadowTypeV t2 = Some s2 \<and>
     (\<forall>G v1 v2 a1 a2 x1 x2 q1 q2 z. (VSh, v1, s1, q1) \<in> G \<longrightarrow> (VSh, v2, s2, q2) \<in> G \<longrightarrow>
       (Orig, a1, t1, x1) \<in> G \<longrightarrow> (Orig, a2, t2, x2) \<in> G \<longrightarrow> fits s1 q1 \<longrightarrow> fits s2 q2 \<longrightarrow> fits t1 x1 \<longrightarrow> fits t2 x2 \<longrightarrow>
       sameKindedAtoms a1 v1 \<longrightarrow> sameKindedAtoms v1 a1 \<longrightarrow> sameKindedAtoms a2 v2 \<longrightarrow> sameKindedAtoms v2 a2 \<longrightarrow>
       sem op [x1, x2] = Some z \<longrightarrow>
       sound_at sem G (\<lambda>mce. rule mce op v1 v2 a1 a2) s (covers sem op t1 t2 ty q1 q2 x1 x2 z)))"

lemma sound_binopI:
  assumes "switch expr2vbits_Binop_cases op = Some rule"
    and "typeOfPrimop op = Some (ty, t1, t2, Ity_INVALID, Ity_INVALID)"
    and "shadowTypeV ty = Some s" "shadowTypeV t1 = Some s1" "shadowTypeV t2 = Some s2"
    and "\<And>G v1 v2 a1 a2 x1 x2 q1 q2 z. (VSh, v1, s1, q1) \<in> G \<Longrightarrow> (VSh, v2, s2, q2) \<in> G \<Longrightarrow>
       (Orig, a1, t1, x1) \<in> G \<Longrightarrow> (Orig, a2, t2, x2) \<in> G \<Longrightarrow> fits s1 q1 \<Longrightarrow> fits s2 q2 \<Longrightarrow> fits t1 x1 \<Longrightarrow> fits t2 x2 \<Longrightarrow>
       sameKindedAtoms a1 v1 \<Longrightarrow> sameKindedAtoms v1 a1 \<Longrightarrow> sameKindedAtoms a2 v2 \<Longrightarrow> sameKindedAtoms v2 a2 \<Longrightarrow>
       sem op [x1, x2] = Some z \<Longrightarrow>
       sound_at sem G (\<lambda>mce. rule mce op v1 v2 a1 a2) s (covers sem op t1 t2 ty q1 q2 x1 x2 z)"
  shows "sound_binop sem op"
  unfolding sound_binop_def using assms by blast

lemma shadow_bits: "shadowTypeV ty = Some s \<Longrightarrow> ty_bits s = ty_bits ty"
  by (cases ty) auto

lemma shadow_cast: "shadowTypeV ty = Some s \<Longrightarrow> s \<in> cast_types"
  by (cases ty) (auto simp: cast_types_def)

lemma covers_pess:
  assumes z: "sem op [x1, x2] = Some z" and f: "fits t1 x1" "fits t2 x2"
  shows "covers sem op t1 t2 ty q1 q2 x1 x2 z (pess (ty_bits ty) (q1 OR q2))"
proof (rule coversI, rule agree_pess)
  fix y1 y2 z'
  assume y: "fits t1 y1" "fits t2 y2" "agree (ty_bits t1) q1 x1 y1" "agree (ty_bits t2) q2 x2 y2" "sem op [y1, y2] = Some z'"
    and "q1 OR q2 = 0"
  then have "q1 = 0" "q2 = 0" by (simp_all add: or_eq_0_iff)
  then have "x1 = y1" "x2 = y2" using y f agree_zero by simp_all
  then show "z = z'" using y z by simp
qed

context ir_sem
begin

lemma sound_lazy:
  assumes "switch expr2vbits_Binop_cases op = Some rule"
    and "typeOfPrimop op = Some (ty, t1, t2, Ity_INVALID, Ity_INVALID)"
    and s: "shadowTypeV ty = Some s" "shadowTypeV t1 = Some s1" "shadowTypeV t2 = Some s2"
    and r: "\<And>G v1 v2 a1 a2 q1 q2. (VSh, v1, s1, q1) \<in> G \<Longrightarrow> (VSh, v2, s2, q2) \<in> G \<Longrightarrow> fits s1 q1 \<Longrightarrow> fits s2 q2 \<Longrightarrow>
      vals sem G (\<lambda>mce. rule mce op v1 v2 a1 a2) s (pcast s (q1 OR q2))"
  shows "sound_binop sem op"
proof (rule sound_binopI [OF assms(1-5)])
  fix G :: "valued_atom set" and v1 v2 a1 a2 x1 x2 q1 q2 z
  assume "(VSh, v1, s1, q1) \<in> G" "(VSh, v2, s2, q2) \<in> G" "fits s1 q1" "fits s2 q2"
    and x: "fits t1 x1" "fits t2 x2" "sem op [x1, x2] = Some z"
  note v = r [OF this(1-4), unfolded pcast_def shadow_bits [OF s(1)]]
  show "sound_at sem G (\<lambda>mce. rule mce op v1 v2 a1 a2) s (covers sem op t1 t2 ty q1 q2 x1 x2 z)"
    by (rule sound_vals, rule v, rule covers_pess, fact x(3), fact x(1), fact x(2))
qed

lemma sound_lazy_ops: "list_all (sound_binop sem) lazy_scheme"
  unfolding lazy_scheme_def list.pred_inject(2)
  by (intro conjI list.pred_inject(1); rule sound_lazy, simp add: expr2vbits_Binop_rules, simp add: prim_type_defs, simp, simp, simp,
      (rule vals_rules vals_steps | assumption | simp add: fits_bitwise)+)


lemma covers_left:
  assumes f: "low_closed f" and op: "\<And>x y. sem op [x, y] = Some (take_bit (ty_bits t) (f x y))" and z: "sem op [x1, x2] = Some z"
  shows "covers sem op t t t q1 q2 x1 x2 z (left_val t (q1 OR q2))"
  by (rule coversI) (use agree_left [OF f] z in \<open>auto simp: op left_val_def\<close>)

lemma sem_arith:
  "switch sem2_cases op = Some (add_w w) \<Longrightarrow> sem op [x, y] = Some (take_bit w (x + y))"
  "switch sem2_cases op = Some (sub_w w) \<Longrightarrow> sem op [x, y] = Some (take_bit w (x - y))"
  "switch sem2_cases op = Some (mul_w w) \<Longrightarrow> sem op [x, y] = Some (take_bit w (x * y))"
  by (simp_all add: sem_binop_eq add_w_def sub_w_def mul_w_def)

lemma covers_addsub:
  assumes op: "\<And>x y. sem op [x, y] = Some (take_bit w (if add then x + y else x - y))" and z: "sem op [x1, x2] = Some z"
    and w: "ty_bits t = w" and f: "fits t x1" "fits t x2" "fits t q1" "fits t q2"
  shows "covers sem op t t t q1 q2 x1 x2 z (addsub_val add w q1 q2 x1 x2)"
proof (rule coversI)
  fix y1 y2 z'
  assume y: "fits t y1" "fits t y2" "agree (ty_bits t) q1 x1 y1" "agree (ty_bits t) q2 x2 y2" "sem op [y1, y2] = Some z'"
  show "agree (ty_bits t) (addsub_val add w q1 q2 x1 x2) z z'"
    using agree_add_exact [OF y(3,4)] agree_sub_exact [OF y(3,4)] y z f fits_nonneg op w by (cases add) auto
qed


text \<open>One lemma per family of rules.\<close>

lemma sound_left:
  assumes "switch expr2vbits_Binop_cases op = Some rule" "typeOfPrimop op = Some (t, t, t, Ity_INVALID, Ity_INVALID)"
    and "shadowTypeV t = Some t" "low_closed f" "\<And>x y. sem op [x, y] = Some (take_bit (ty_bits t) (f x y))"
    and r: "\<And>G v1 v2 a1 a2 q1 q2. (VSh, v1, t, q1) \<in> G \<Longrightarrow> (VSh, v2, t, q2) \<in> G \<Longrightarrow> fits t q1 \<Longrightarrow> fits t q2 \<Longrightarrow>
      vals sem G (\<lambda>mce. rule mce op v1 v2 a1 a2) t (left_val t (q1 OR q2))"
  shows "sound_binop sem op"
  by (rule sound_binopI [OF assms(1,2,3,3,3)], rule sound_vals, rule r) (assumption | rule covers_left assms)+

lemma sound_addsub:
  assumes "switch expr2vbits_Binop_cases op =
      Some (\<lambda>mce _ v1 v2 a1 a2. if b mce then expensiveAddSub mce add t v1 v2 a1 a2 else cheap mce v1 v2)"
    and "typeOfPrimop op = Some (t, t, t, Ity_INVALID, Ity_INVALID)" "shadowTypeV t = Some t" "ty_bits t = w"
    and op: "\<And>x y. sem op [x, y] = Some (take_bit w (if add then x + y else x - y))"
    and "\<And>G v1 v2 a1 a2 q1 q2 x1 x2. (VSh, v1, t, q1) \<in> G \<Longrightarrow> (VSh, v2, t, q2) \<in> G \<Longrightarrow> (Orig, a1, t, x1) \<in> G \<Longrightarrow> (Orig, a2, t, x2) \<in> G \<Longrightarrow>
      fits t q1 \<Longrightarrow> fits t q2 \<Longrightarrow> fits t x1 \<Longrightarrow> fits t x2 \<Longrightarrow> sameKindedAtoms v1 a1 \<Longrightarrow> sameKindedAtoms v2 a2 \<Longrightarrow>
      vals sem G (\<lambda>mce. expensiveAddSub mce add t v1 v2 a1 a2) t (addsub_val add w q1 q2 x1 x2)"
    and "\<And>G v1 v2 q1 q2. (VSh, v1, t, q1) \<in> G \<Longrightarrow> (VSh, v2, t, q2) \<in> G \<Longrightarrow> fits t q1 \<Longrightarrow> fits t q2 \<Longrightarrow>
      vals sem G (\<lambda>mce. cheap mce v1 v2) t (left_val t (q1 OR q2))"
  shows "sound_binop sem op"
proof (rule sound_binopI [OF assms(1,2,3,3,3)], rule sound_if)
  fix G :: "valued_atom set" and v1 v2 a1 a2 x1 x2 q1 q2 z
  assume *: "(VSh, v1, t, q1) \<in> G" "(VSh, v2, t, q2) \<in> G" "(Orig, a1, t, x1) \<in> G" "(Orig, a2, t, x2) \<in> G"
    "fits t q1" "fits t q2" "fits t x1" "fits t x2" "sameKindedAtoms a1 v1" "sameKindedAtoms v1 a1" "sameKindedAtoms a2 v2"
    "sameKindedAtoms v2 a2" "sem op [x1, x2] = Some z"
  show "sound_at sem G (\<lambda>mce. expensiveAddSub mce add t v1 v2 a1 a2) t (covers sem op t t t q1 q2 x1 x2 z)"
    by (rule sound_vals, rule assms(6)) (rule * covers_addsub [OF op] assms(4))+
  have f: "low_closed (\<lambda>x y. if add then x + y else x - y)" using low_closed_arith by (cases add) simp_all
  show "sound_at sem G (\<lambda>mce. cheap mce v1 v2) t (covers sem op t t t q1 q2 x1 x2 z)"
    by (rule sound_vals, rule assms(7)) (rule * covers_left [OF f op [folded assms(4)]])+
qed

lemma sound_bitwise:
  assumes "switch expr2vbits_Binop_cases op = Some rule" "typeOfPrimop op = Some (t, t, t, Ity_INVALID, Ity_INVALID)"
    and "shadowTypeV t = Some t"
    and r: "\<And>G v1 v2 a1 a2 q1 q2 x1 x2. (VSh, v1, t, q1) \<in> G \<Longrightarrow> (VSh, v2, t, q2) \<in> G \<Longrightarrow> (Orig, a1, t, x1) \<in> G \<Longrightarrow> (Orig, a2, t, x2) \<in> G \<Longrightarrow>
      fits t q1 \<Longrightarrow> fits t q2 \<Longrightarrow> fits t x1 \<Longrightarrow> fits t x2 \<Longrightarrow> sameKindedAtoms a1 v1 \<Longrightarrow> sameKindedAtoms a2 v2 \<Longrightarrow>
      vals sem G (\<lambda>mce. rule mce op v1 v2 a1 a2) t (V q1 q2 x1 x2)"
    and op: "\<And>x y. sem op [x, y] = Some (f x y)"
    and ag: "\<And>q1 q2 x1 x2 y1 y2. agree (ty_bits t) q1 x1 y1 \<Longrightarrow> agree (ty_bits t) q2 x2 y2 \<Longrightarrow>
      agree (ty_bits t) (V q1 q2 x1 x2) (f x1 x2) (f y1 y2)"
  shows "sound_binop sem op"
proof (rule sound_binopI [OF assms(1,2,3,3,3)], rule sound_vals, rule r)
  fix x1 x2 q1 q2 z assume "sem op [x1, x2] = Some z"
  then show "covers sem op t t t q1 q2 x1 x2 z (V q1 q2 x1 x2)"
    by (intro coversI) (use op ag in auto)
qed

lemma sem_bitwise:
  "switch sem2_cases op = Some and2 \<Longrightarrow> sem op [x, y] = Some (x AND y)"
  "switch sem2_cases op = Some or2 \<Longrightarrow> sem op [x, y] = Some (x OR y)"
  "switch sem2_cases op = Some xor2 \<Longrightarrow> sem op [x, y] = Some (x XOR y)"
  by (simp_all add: sem_binop_eq and2_def or2_def xor2_def)

lemma sound_left_ops: "list_all (sound_binop sem) left_scheme"
  unfolding left_scheme_def list.pred_inject(2)
  by (intro conjI list.pred_inject(1); rule sound_left, simp add: expr2vbits_Binop_rules, simp add: prim_type_defs, simp,
    rule low_closed_arith, rule sem_arith, simp, (rule vals_rules vals_steps | assumption | simp add: fits_bitwise)+)

lemma sound_addsub_ops: "list_all (sound_binop sem) addsub_scheme"
  unfolding addsub_scheme_def list.pred_inject(2)
  by (intro conjI list.pred_inject(1); rule sound_addsub, simp add: expr2vbits_Binop_rules, simp add: prim_type_defs, simp, simp,
    simp add: sem_arith, (rule vals_rules | assumption)+)

lemma sound_xor_ops: "list_all (sound_binop sem) xor_scheme"
  unfolding xor_scheme_def list.pred_inject(2)
  by (intro conjI list.pred_inject(1); rule sound_bitwise, simp add: expr2vbits_Binop_rules, simp add: prim_type_defs, simp,
    rule vals_rules, assumption+, rule sem_bitwise, simp, rule agree_xor, assumption+)

lemma sound_and_ops: "list_all (sound_binop sem) and_scheme"
  unfolding and_scheme_def list.pred_inject(2)
  by (intro conjI list.pred_inject(1); rule sound_bitwise, simp add: expr2vbits_Binop_rules, simp add: prim_type_defs, simp,
    rule vals_rules, assumption+, rule sem_bitwise, simp, rule agree_and, assumption+)

lemma sound_or_ops: "list_all (sound_binop sem) or_scheme"
  unfolding or_scheme_def list.pred_inject(2)
  by (intro conjI list.pred_inject(1); rule sound_bitwise, simp add: expr2vbits_Binop_rules, simp add: prim_type_defs, simp,
    rule vals_rules, assumption+, rule sem_bitwise, simp, simp only: ty_bits.simps, rule agree_or, assumption+)


lemma sound_mull:
  assumes "switch expr2vbits_Binop_cases op = Some rule" "typeOfPrimop op = Some (ty, t, t, Ity_INVALID, Ity_INVALID)"
    and "shadowTypeV ty = Some ty" "shadowTypeV t = Some t" and w: "ty_bits t = w" "ty_bits ty = w + w"
    and op: "\<And>x y z. sem op [x, y] = Some z \<Longrightarrow> take_bit w z = take_bit w (x * y)"
    and r: "\<And>G v1 v2 a1 a2 q1 q2. (VSh, v1, t, q1) \<in> G \<Longrightarrow> (VSh, v2, t, q2) \<in> G \<Longrightarrow> fits t q1 \<Longrightarrow> fits t q2 \<Longrightarrow>
      vals sem G (\<lambda>mce. rule mce op v1 v2 a1 a2) ty (push_bit w (pess w (left_val t (q1 OR q2))) OR left_val t (q1 OR q2))"
  shows "sound_binop sem op"
proof (rule sound_binopI [OF assms(1,2,3,4,4)], rule sound_vals, rule r)
  fix q1 q2 x1 x2 z assume z: "sem op [x1, x2] = Some z" and f: "fits t q1" "fits t q2" "fits t x1" "fits t x2"
  show "covers sem op t t ty q1 q2 x1 x2 z (push_bit w (pess w (left_val t (q1 OR q2))) OR left_val t (q1 OR q2))"
  proof (rule coversI)
    fix y1 y2 z'
    assume y: "fits t y1" "fits t y2" "agree (ty_bits t) q1 x1 y1" "agree (ty_bits t) q2 x2 y2" "sem op [y1, y2] = Some z'"
    show "agree (ty_bits ty) (push_bit w (pess w (left_val t (q1 OR q2))) OR left_val t (q1 OR q2)) z z'"
      unfolding w left_val_def
      by (rule agree_mull [OF y(3,4) [unfolded w]])
        (use y z f w(1) op agree_zero [of t] fits_range [of t] in auto)
  qed
qed

lemma sound_shift:
  assumes "switch expr2vbits_Binop_cases op = Some (\<lambda>mce op v1 v2 a1 a2. scalarShift mce t op v1 v2 a1 a2)"
    and ty: "typeOfPrimop op = Some (BINARY t Ity_I8 t)"
    and "shadowTypeV t = Some t" and w: "ty_bits t = w"
    and op: "\<And>x y. sem op [x, y] = (if y < int w then Some (f (nat y) x) else None)"
    and f: "\<And>k x. fits t x \<Longrightarrow> fits t (f k x)"
      "\<And>k v x y. agree w v x y \<Longrightarrow> fits t x \<Longrightarrow> fits t y \<Longrightarrow> agree w (f k v) (f k x) (f k y)"
    and r: "\<And>G v1 v2 a1 a2 q1 q2 x1 x2 s. (VSh, v1, t, q1) \<in> G \<Longrightarrow> (VSh, v2, Ity_I8, q2) \<in> G \<Longrightarrow> (Orig, a1, t, x1) \<in> G \<Longrightarrow>
      (Orig, a2, Ity_I8, x2) \<in> G \<Longrightarrow> fits t q1 \<Longrightarrow> fits Ity_I8 q2 \<Longrightarrow> fits t s \<Longrightarrow> sameKindedAtoms v1 a1 \<Longrightarrow> sameKindedAtoms v2 a2 \<Longrightarrow>
      typeOfPrimop op = Some (BINARY t Ity_I8 t) \<Longrightarrow> sem op [q1, x2] = Some s \<Longrightarrow>
      vals sem G (\<lambda>mce. scalarShift mce t op v1 v2 a1 a2) t (s OR pess w q2)"
  shows "sound_binop sem op"
proof (rule sound_binopI [OF assms(1) ty [unfolded BINARY_def] assms(3,3)], simp)
  fix G :: "valued_atom set" and v1 v2 a1 a2 x1 x2 q1 q2 z
  assume g: "(VSh, v1, t, q1) \<in> G" "(VSh, v2, Ity_I8, q2) \<in> G" "(Orig, a1, t, x1) \<in> G" "(Orig, a2, Ity_I8, x2) \<in> G"
    and q: "fits t q1" "fits Ity_I8 q2" and x: "fits t x1" "fits Ity_I8 x2"
    and k: "sameKindedAtoms v1 a1" "sameKindedAtoms v2 a2" and z: "sem op [x1, x2] = Some z"
  let ?s = "f (nat x2) q1"
  have s: "sem op [q1, x2] = Some ?s" using z op by (auto split: if_splits)
  have "covers sem op t Ity_I8 t q1 q2 x1 x2 z (?s OR pess w q2)"
  proof (rule coversI)
    fix y1 y2 z'
    assume y: "fits t y1" "fits Ity_I8 y2" "agree (ty_bits t) q1 x1 y1" "agree (ty_bits Ity_I8) q2 x2 y2" "sem op [y1, y2] = Some z'"
    show "agree (ty_bits t) (f (nat x2) q1 OR pess w q2) z z'"
    proof (cases "q2 = 0")
      case True
      then have "x2 = y2" using y(2,4) x(2) agree_zero [of Ity_I8] by simp
      then have "z = f (nat x2) x1" "z' = f (nat x2) y1" using y(5) z op by (auto split: if_splits)
      then show ?thesis using True f(2) [of q1 x1 y1] y(1,3) x(1) w by simp
    next
      case False
      then show ?thesis using agree_or_right [OF agree_mask] w by (simp add: pess_def)
    qed
  qed
  then show "sound_at sem G (\<lambda>mce. scalarShift mce t op v1 v2 a1 a2) t (covers sem op t Ity_I8 t q1 q2 x1 x2 z)"
    by (rule sound_vals [OF r [OF g q f(1) [OF q(1)] k ty s]])
qed

text \<open>Comparisons that are exact, with the cheap scheme as the alternative.\<close>

lemma covers_cmp:
  assumes w: "ty_bits t = w" "0 < w" and op: "\<And>x y. sem op [x, y] = Some (of_bool ((x = y) = b))"
    and z: "sem op [x1, x2] = Some z" and f: "fits t q1" "fits t q2" "fits t x1" "fits t x2"
  shows "covers sem op t t Ity_I1 q1 q2 x1 x2 z (cmp_val w q1 q2 x1 x2)"
proof (rule coversI)
  fix y1 y2 z'
  assume y: "fits t y1" "fits t y2" "agree (ty_bits t) q1 x1 y1" "agree (ty_bits t) q2 x2 y2" "sem op [y1, y2] = Some z'"
  have z: "z = of_bool ((x1 = x2) = b)" "z' = of_bool ((y1 = y2) = b)" using z y(5) op by simp_all
  have eq: "(x1 = x2) = (y1 = y2)" if "cmp_val w q1 q2 x1 x2 = 0"
    by (rule cmp_exact [OF y(3,4) [unfolded w(1)] w(2) _ _ _ _ _ _ that]) (use f y(1,2) fits_bit [of t] w in auto)
  have "agree (Suc 0) (pess (Suc 0) (cmp_val w q1 q2 x1 x2)) z z'" unfolding z by (rule agree_cmp) (simp add: eq)
  moreover have "pess (Suc 0) (cmp_val w q1 q2 x1 x2) = cmp_val w q1 q2 x1 x2" by (simp add: cmp_val_def)
  ultimately show "agree (ty_bits Ity_I1) (cmp_val w q1 q2 x1 x2) z z'" by simp
qed

lemma sound_cmp:
  assumes "switch expr2vbits_Binop_cases op = Some rule" "typeOfPrimop op = Some (Ity_I1, t, t, Ity_INVALID, Ity_INVALID)"
    and "shadowTypeV t = Some t" and w: "ty_bits t = w" "0 < w" and op: "\<And>x y. sem op [x, y] = Some (of_bool ((x = y) = b))"
    and r: "\<And>G v1 v2 a1 a2 q1 q2 x1 x2. (VSh, v1, t, q1) \<in> G \<Longrightarrow> (VSh, v2, t, q2) \<in> G \<Longrightarrow> (Orig, a1, t, x1) \<in> G \<Longrightarrow> (Orig, a2, t, x2) \<in> G \<Longrightarrow>
      fits t q1 \<Longrightarrow> fits t q2 \<Longrightarrow> fits t x1 \<Longrightarrow> fits t x2 \<Longrightarrow> sameKindedAtoms v1 a1 \<Longrightarrow> sameKindedAtoms v2 a2 \<Longrightarrow>
      vals sem G (\<lambda>mce. rule mce op v1 v2 a1 a2) Ity_I1 (cmp_val w q1 q2 x1 x2)"
  shows "sound_binop sem op"
  by (rule sound_binopI [OF assms(1,2) _ assms(3,3)], simp, rule sound_vals, rule r) (assumption | rule covers_cmp op w)+

lemma sound_cmp_if:
  assumes "switch expr2vbits_Binop_cases op =
      Some (\<lambda>mce _ v1 v2 a1 a2. if c mce then expensiveCmpEQorNE mce t v1 v2 a1 a2 else cheap mce v1 v2)"
    and "typeOfPrimop op = Some (Ity_I1, t, t, Ity_INVALID, Ity_INVALID)"
    and "shadowTypeV t = Some t" and w: "ty_bits t = w" "0 < w" and op: "\<And>x y. sem op [x, y] = Some (of_bool ((x = y) = b))"
    and "\<And>G v1 v2 a1 a2 q1 q2 x1 x2. (VSh, v1, t, q1) \<in> G \<Longrightarrow> (VSh, v2, t, q2) \<in> G \<Longrightarrow> (Orig, a1, t, x1) \<in> G \<Longrightarrow> (Orig, a2, t, x2) \<in> G \<Longrightarrow>
      fits t q1 \<Longrightarrow> fits t q2 \<Longrightarrow> fits t x1 \<Longrightarrow> fits t x2 \<Longrightarrow> sameKindedAtoms v1 a1 \<Longrightarrow> sameKindedAtoms v2 a2 \<Longrightarrow>
      vals sem G (\<lambda>mce. expensiveCmpEQorNE mce t v1 v2 a1 a2) Ity_I1 (cmp_val w q1 q2 x1 x2)"
    and "\<And>G v1 v2 q1 q2. (VSh, v1, t, q1) \<in> G \<Longrightarrow> (VSh, v2, t, q2) \<in> G \<Longrightarrow> fits t q1 \<Longrightarrow> fits t q2 \<Longrightarrow>
      vals sem G (\<lambda>mce. cheap mce v1 v2) Ity_I1 (pcast Ity_I1 (q1 OR q2))"
  shows "sound_binop sem op"
proof (rule sound_binopI [OF assms(1,2) _ assms(3,3)], simp, rule sound_if)
  fix G :: "valued_atom set" and v1 v2 a1 a2 x1 x2 q1 q2 z
  assume *: "(VSh, v1, t, q1) \<in> G" "(VSh, v2, t, q2) \<in> G" "(Orig, a1, t, x1) \<in> G" "(Orig, a2, t, x2) \<in> G"
    "fits t q1" "fits t q2" "fits t x1" "fits t x2" "sameKindedAtoms v1 a1" "sameKindedAtoms v2 a2" "sem op [x1, x2] = Some z"
  show "sound_at sem G (\<lambda>mce. expensiveCmpEQorNE mce t v1 v2 a1 a2) Ity_I1 (covers sem op t t Ity_I1 q1 q2 x1 x2 z)"
    by (rule sound_vals, rule assms(7)) (rule * covers_cmp [OF w op])+
  show "sound_at sem G (\<lambda>mce. cheap mce v1 v2) Ity_I1 (covers sem op t t Ity_I1 q1 q2 x1 x2 z)"
    by (rule sound_vals, rule assms(8)) (rule * covers_pess [folded pcast_def])+
qed

lemma sem_cmp:
  "switch sem2_cases op = Some cmpeq \<Longrightarrow> sem op [x, y] = Some (of_bool ((x = y) = True))"
  "switch sem2_cases op = Some cmpne \<Longrightarrow> sem op [x, y] = Some (of_bool ((x = y) = False))"
  by (simp_all add: sem_binop_eq cmpeq_def cmpne_def)

lemma sound_hl:
  assumes "switch expr2vbits_Binop_cases op = Some rule" "typeOfPrimop op = Some (ty, t1, t2, Ity_INVALID, Ity_INVALID)"
    and s: "shadowTypeV ty = Some s" "shadowTypeV t1 = Some s1" "shadowTypeV t2 = Some s2"
    and w: "ty_bits t2 = n" "ty_bits ty = n + ty_bits t1"
    and op: "\<And>x y. sem op [x, y] = Some (push_bit n x OR y)"
    and r: "\<And>G v1 v2 a1 a2 q1 q2. (VSh, v1, s1, q1) \<in> G \<Longrightarrow> (VSh, v2, s2, q2) \<in> G \<Longrightarrow> fits s1 q1 \<Longrightarrow> fits s2 q2 \<Longrightarrow>
      vals sem G (\<lambda>mce. rule mce op v1 v2 a1 a2) s (push_bit n q1 OR q2)"
  shows "sound_binop sem op"
proof (rule sound_binopI [OF assms(1-5)], rule sound_vals, rule r)
  fix q1 q2 x1 x2 z assume z: "sem op [x1, x2] = Some z" and f: "fits t1 x1" "fits t2 x2"
  show "covers sem op t1 t2 ty q1 q2 x1 x2 z (push_bit n q1 OR q2)"
  proof (rule coversI)
    fix y1 y2 z'
    assume y: "fits t1 y1" "fits t2 y2" "agree (ty_bits t1) q1 x1 y1" "agree (ty_bits t2) q2 x2 y2" "sem op [y1, y2] = Some z'"
    then show "agree (ty_bits ty) (push_bit n q1 OR q2) z z'"
      using agree_hl [OF y(3,4)] fits_bit [OF f(2)] fits_bit [OF y(2)] z op w by auto
  qed
qed

lemma sem_hl: "switch sem2_cases op = Some (hl n) \<Longrightarrow> sem op [x, y] = Some (push_bit n x OR y)"
  by (simp add: sem_binop_eq hl_def)

lemma fits_join:
  assumes "fits t1 x" "fits t2 y" "ty_bits t2 = n" "ty_bits ty = n + ty_bits t1"
  shows "fits ty (push_bit n x OR y)"
proof (rule fitsI)
  fix k assume "bit (push_bit n x OR y) k"
  then show "k < ty_bits ty" using assms fits_bit [of t1 x "k - n"] fits_bit [of t2 y k] by (auto simp: bit_simps)
qed

lemma vals_join:
  assumes "switch sem2_cases op = Some (hl n)" "typeOfPrimop op = Some (BINARY t1 t2 ty)"
    and "(VSh, a, t1, x) \<in> G" "(VSh, b, t2, y) \<in> G" "fits t1 x" "fits t2 y" "ty_bits t2 = n" "ty_bits ty = n + ty_bits t1"
  shows "vals sem G (\<lambda>mce. assignNew CHR ''V'' mce ty (Iex_Binop op a b)) ty (push_bit n x OR y)"
proof (rule vals_assignNew)
  show "fits ty (push_bit n x OR y)" using fits_join assms(5-8) .
  fix mce s assume c: "vctx G mce s"
  show "eval sem s (Iex_Binop op a b) = Some (push_bit n x OR y)"
    using vctx_eval [OF c assms(3)] vctx_eval [OF c assms(4)] sem_hl [OF assms(1)] by simp
  show "typeOfIRExpr (sb_tyenv mce) (Iex_Binop op a b) = Some ty"
    using vctx_type [OF c assms(3)] vctx_type [OF c assms(4)] assms(2) by (intro type_of_op) (auto simp: BINARY_def)
qed

lemma sound_hl_ops: "list_all (sound_binop sem) hl_scheme"
  unfolding hl_scheme_def list.pred_inject(2)
  by (intro conjI list.pred_inject(1); rule sound_hl, simp add: expr2vbits_Binop_rules, simp add: prim_type_defs, simp, simp, simp, simp, simp,
    rule sem_hl, simp, rule vals_join, simp, simp add: prim_type_defs, assumption+, simp, simp)

lemma sound_cmp_ops: "list_all (sound_binop sem) cmp_scheme"
  unfolding cmp_scheme_def list.pred_inject(2)
  by (intro conjI list.pred_inject(1); rule sound_cmp, simp add: expr2vbits_Binop_rules, simp add: prim_type_defs, simp, simp, simp,
    (rule sem_cmp, simp; fail), (rule vals_rules | assumption)+)

lemma sound_cmp_if_ops: "list_all (sound_binop sem) cmp_if_scheme"
  unfolding cmp_if_scheme_def list.pred_inject(2)
  by (intro conjI list.pred_inject(1); rule sound_cmp_if, simp add: expr2vbits_Binop_rules, simp add: prim_type_defs, simp, simp, simp,
    (rule sem_cmp, simp; fail), (rule vals_rules | assumption)+)

lemma sem_mull:
  "sem op [x, y] = Some z \<Longrightarrow> switch sem2_cases op = Some mullu \<Longrightarrow> take_bit w z = take_bit w (x * y)"
  "sem op [x, y] = Some z \<Longrightarrow> switch sem2_cases op = Some (mulls w) \<Longrightarrow> 0 < w \<Longrightarrow> take_bit w z = take_bit w (x * y)"
proof -
  show "sem op [x, y] = Some z \<Longrightarrow> switch sem2_cases op = Some mullu \<Longrightarrow> take_bit w z = take_bit w (x * y)"
    by (auto simp add: sem_binop_eq mullu_def)
  assume a: "sem op [x, y] = Some z" "switch sem2_cases op = Some (mulls w)" "0 < w"
  have s: "take_bit w (signed_take_bit (w - 1) v) = take_bit w v" for v :: int
    using a(3) by (simp add: take_bit_signed_take_bit)
  have "take_bit w z = take_bit w (signed_take_bit (w - 1) x * signed_take_bit (w - 1) y)"
    using a(1,2) by (auto simp: sem_binop_eq mulls_def min_def)
  also have "\<dots> = take_bit w (x * y)"
    using low_closed_arith(3) s unfolding low_closed_def by blast
  finally show "take_bit w z = take_bit w (x * y)" .
qed

lemma sound_mull_ops: "list_all (sound_binop sem) mull_scheme"
  unfolding mull_scheme_def list.pred_inject(2)
  by (intro conjI list.pred_inject(1); rule sound_mull, simp add: expr2vbits_Binop_rules, simp add: prim_type_defs, simp, simp, simp, simp,
    (erule sem_mull, simp, simp?; fail),
    rule vals_bind, rule vals_rules, assumption+,
    rule vals_bind, rule vals_rules, rule insertI1, simp add: fits_bitwise,
    rule vals_bind, rule vals_mkPCastTo, rule insertI1, simp add: cast_types_def, simp add: cast_types_def, simp add: fits_take left_val_def,
    unfold pcast_def ty_bits.simps, rule vals_join, simp, simp add: prim_type_defs, (assumption | rule insertI1 insertI2)+,
    simp_all add: fits_take left_val_def)

lemma sem_shift:
  "switch sem2_cases op = Some (shl_w w) \<Longrightarrow> sem op [x, y] = (if y < int w then Some (take_bit w (push_bit (nat y) x)) else None)"
  "switch sem2_cases op = Some (shr_w w) \<Longrightarrow> sem op [x, y] = (if y < int w then Some (drop_bit (nat y) x) else None)"
  "switch sem2_cases op = Some (sar_w w) \<Longrightarrow>
    sem op [x, y] = (if y < int w then Some (take_bit w (drop_bit (nat y) (signed_take_bit (w - 1) x))) else None)"
  by (simp_all add: sem_binop_eq shl_w_def shr_w_def sar_w_def)

lemma agree_drop: "agree (ty_bits t) v x y \<Longrightarrow> fits t x \<Longrightarrow> fits t y \<Longrightarrow> agree (ty_bits t) (drop_bit k v) (drop_bit k x) (drop_bit k y)"
  using agree_shr fits_bit by blast

lemma sound_shl_ops: "list_all (sound_binop sem) shl_scheme"
  unfolding shl_scheme_def list.pred_inject(2)
  by (intro conjI list.pred_inject(1); rule sound_shift, simp add: expr2vbits_Binop_rules, simp add: prim_type_defs, simp, simp,
    rule sem_shift(1), simp, rule fits_take, simp, erule agree_shl, (rule vals_rules; assumption))

lemma sound_shr_ops: "list_all (sound_binop sem) shr_scheme"
  unfolding shr_scheme_def list.pred_inject(2)
  by (intro conjI list.pred_inject(1); rule sound_shift, simp add: expr2vbits_Binop_rules, simp add: prim_type_defs, simp, rule refl,
    simp only: ty_bits.simps, rule sem_shift(2), simp, erule fits_drop, (rule agree_drop; assumption), simp only: ty_bits.simps, (rule vals_rules; assumption))

lemma sound_sar_ops: "list_all (sound_binop sem) sar_scheme"
  unfolding sar_scheme_def list.pred_inject(2)
  by (intro conjI list.pred_inject(1); rule sound_shift, simp add: expr2vbits_Binop_rules, simp add: prim_type_defs, simp, simp,
    rule sem_shift(3), simp, rule fits_take, simp, erule agree_sar, simp, (rule vals_rules; assumption))

lemma sound_lanes:
  assumes "switch expr2vbits_Binop_cases op = Some rule" "typeOfPrimop op = Some (t, t, t, Ity_INVALID, Ity_INVALID)"
    and "shadowTypeV t = Some t"
    and r: "\<And>G v1 v2 a1 a2 q1 q2. (VSh, v1, t, q1) \<in> G \<Longrightarrow> (VSh, v2, t, q2) \<in> G \<Longrightarrow> fits t q1 \<Longrightarrow> fits t q2 \<Longrightarrow>
      vals sem G (\<lambda>mce. rule mce op v1 v2 a1 a2) t (lanes w k (pess w) (q1 OR q2))"
    and op: "switch lane_ops op = Some w" and w: "w * k = ty_bits t" "0 < w"
  shows "sound_binop sem op"
proof (rule sound_binopI [OF assms(1,2,3,3,3)], rule sound_vals, rule r)
  fix q1 q2 x1 x2 z assume z: "sem op [x1, x2] = Some z"
  show "covers sem op t t t q1 q2 x1 x2 z (lanes w k (pess w) (q1 OR q2))"
    by (rule coversI, fold w(1), rule agree_lanes2 [OF w(2)], assumption+, rule sem_lanes [OF op z]) 
qed

lemma sound_lane_ops: "list_all (sound_binop sem) lane_scheme"
  unfolding lane_scheme_def list.pred_inject(2)
  by (intro conjI list.pred_inject(1); rule sound_lanes, simp add: expr2vbits_Binop_rules, simp add: prim_type_defs, simp,
    (rule vals_rules vals_steps | assumption | (simp add: fits_bitwise; fail) | (simp add: lane_rules; fail))+)

end

section \<open>One argument\<close>

definition covers1 :: "op_sem \<Rightarrow> IROp \<Rightarrow> IRType \<Rightarrow> IRType \<Rightarrow> int \<Rightarrow> int \<Rightarrow> int \<Rightarrow> int \<Rightarrow> bool" where
  "covers1 sem op t ty q x z V \<longleftrightarrow> (\<forall>y z'. fits t y \<longrightarrow> agree (ty_bits t) q x y \<longrightarrow> sem op [y] = Some z' \<longrightarrow>
     agree (ty_bits ty) V z z')"

lemma covers1I:
  assumes "\<And>y z'. fits t y \<Longrightarrow> agree (ty_bits t) q x y \<Longrightarrow> sem op [y] = Some z' \<Longrightarrow> agree (ty_bits ty) V z z'"
  shows "covers1 sem op t ty q x z V"
  using assms by (simp add: covers1_def)

definition sound_unop :: "op_sem \<Rightarrow> IROp \<Rightarrow> bool" where
  "sound_unop sem op \<longleftrightarrow> (\<exists>rule ty t s s1. switch expr2vbits_Unop_cases op = Some rule \<and>
     typeOfPrimop op = Some (ty, t, Ity_INVALID, Ity_INVALID, Ity_INVALID) \<and>
     shadowTypeV ty = Some s \<and> shadowTypeV t = Some s1 \<and>
     (\<forall>G v a x q z. (VSh, v, s1, q) \<in> G \<longrightarrow> (Orig, a, t, x) \<in> G \<longrightarrow> fits s1 q \<longrightarrow> fits t x \<longrightarrow>
       sameKindedAtoms a v \<longrightarrow> sameKindedAtoms v a \<longrightarrow> sem op [x] = Some z \<longrightarrow>
       sound_at sem G (\<lambda>mce. rule mce op v a) s (covers1 sem op t ty q x z)))"

lemma sound_unopI:
  assumes "switch expr2vbits_Unop_cases op = Some rule"
    and "typeOfPrimop op = Some (ty, t, Ity_INVALID, Ity_INVALID, Ity_INVALID)"
    and "shadowTypeV ty = Some s" "shadowTypeV t = Some s1"
    and "\<And>G v a x q z. (VSh, v, s1, q) \<in> G \<Longrightarrow> (Orig, a, t, x) \<in> G \<Longrightarrow> fits s1 q \<Longrightarrow> fits t x \<Longrightarrow>
       sameKindedAtoms a v \<Longrightarrow> sameKindedAtoms v a \<Longrightarrow> sem op [x] = Some z \<Longrightarrow>
       sound_at sem G (\<lambda>mce. rule mce op v a) s (covers1 sem op t ty q x z)"
  shows "sound_unop sem op"
  unfolding sound_unop_def using assms by blast

lemma covers1_pess:
  assumes z: "sem op [x] = Some z" and f: "fits t x" and s: "shadowTypeV ty = Some s"
  shows "covers1 sem op t ty q x z (pcast s q)"
  unfolding pcast_def shadow_bits [OF s]
proof (rule covers1I, rule agree_pess)
  fix y z' assume y: "fits t y" "agree (ty_bits t) q x y" "sem op [y] = Some z'" and "q = 0"
  then have "x = y" using f agree_zero [of t] by simp
  then show "z = z'" using y z by simp
qed

lemma lane_lanes:
  assumes w: "0 < w" and i: "i < k" and f: "\<And>y. take_bit w (f y) = f y"
  shows "lane w i (lanes w k f x) = f (lane w i x)"
proof (rule bit_eqI)
  fix m
  have high: "\<not> bit (f (lane w i x)) m" if "\<not> m < w"
    using f [of "lane w i x"] that by (metis bit_take_bit_iff)
  have "w * i + m < w * k" if "m < w"
    using i that by (metis Suc_leI add_less_cancel_left less_le_trans mult_Suc_right mult_le_mono2 add.commute)
  moreover have "(w * i + m) div w = i" "(w * i + m) mod w = m" if "m < w" using that w by simp_all
  ultimately show "bit (lane w i (lanes w k f x)) m = bit (f (lane w i x)) m"
    using high bit_lanes [OF w, of k f x "w * i + m"]
    by (cases "m < w") (simp_all add: lane_def bit_simps)
qed

context ir_sem
begin

lemma sound_pcast:
  assumes "switch expr2vbits_Unop_cases op = Some rule"
    and "typeOfPrimop op = Some (ty, t, Ity_INVALID, Ity_INVALID, Ity_INVALID)"
    and s: "shadowTypeV ty = Some s" "shadowTypeV t = Some s1"
    and r: "\<And>G v a q. (VSh, v, s1, q) \<in> G \<Longrightarrow> fits s1 q \<Longrightarrow> vals sem G (\<lambda>mce. rule mce op v a) s (pcast s q)"
  shows "sound_unop sem op"
  by (rule sound_unopI [OF assms(1-4)], rule sound_vals, rule r) (assumption | rule covers1_pess s)+

lemma sound_copy:
  assumes "switch expr2vbits_Unop_cases op = Some (\<lambda>mce _ v _. Some (v, mce))"
    and "typeOfPrimop op = Some (ty, t, Ity_INVALID, Ity_INVALID, Ity_INVALID)"
    and s: "shadowTypeV ty = Some s" "shadowTypeV t = Some s" and op: "\<And>x. sem op [x] = Some (f x)"
    and ag: "\<And>q x y. agree (ty_bits t) q x y \<Longrightarrow> agree (ty_bits ty) q (f x) (f y)"
  shows "sound_unop sem op"
  by (rule sound_unopI [OF assms(1-4)], rule sound_vals, rule vals_return, assumption)
    (use op ag in \<open>auto intro!: covers1I\<close>)

lemma sound_emit:
  assumes "switch expr2vbits_Unop_cases op = Some rule" "\<And>mce v a. rule mce op v a = assignNew CHR ''V'' mce s (Iex_Unop op' v)"
    and ty: "typeOfPrimop op = Some (ty, t, Ity_INVALID, Ity_INVALID, Ity_INVALID)" "map_option fst (typeOfPrimop op') = Some s"
    and s: "shadowTypeV ty = Some s" "shadowTypeV t = Some s1"
    and op: "\<And>x. sem op [x] = Some (f x)" "\<And>x. sem op' [x] = Some (f x)"
    and f: "\<And>q. fits s1 q \<Longrightarrow> fits s (f q)"
    and ag: "\<And>q x y. agree (ty_bits t) q x y \<Longrightarrow> fits t x \<Longrightarrow> fits t y \<Longrightarrow> agree (ty_bits ty) (f q) (f x) (f y)"
  shows "sound_unop sem op"
proof (rule sound_unopI [OF assms(1) ty(1) s], unfold assms(2), rule sound_vals, rule vals_assignNew)
  fix G :: "valued_atom set" and v a x q z mce st
  assume *: "(VSh, v, s1, q) \<in> G" "fits s1 q" "fits t x" "sem op [x] = Some z"
  show "fits s (f q)" using f *(2) .
  show "covers1 sem op t ty q x z (f q)"
    by (rule covers1I) (use ag * op(1) in auto)
  assume c: "vctx G mce st"
  show "typeOfIRExpr (sb_tyenv mce) (Iex_Unop op' v) = Some s" using ty(2) by (rule type_of_op)
  show "eval sem st (Iex_Unop op' v) = Some (f q)" using vctx_eval [OF c *(1)] op(2) by simp
qed

lemma sound_lanes1:
  assumes "switch expr2vbits_Unop_cases op = Some rule" "typeOfPrimop op = Some (t, t, Ity_INVALID, Ity_INVALID, Ity_INVALID)"
    and "shadowTypeV t = Some t"
    and r: "\<And>G v a q. (VSh, v, t, q) \<in> G \<Longrightarrow> vals sem G (\<lambda>mce. rule mce op v a) t (lanes w k (pess w) q)"
    and op: "switch sem1_cases op = Some (lanes1 w k (pess w))" and w: "w * k = ty_bits t" "0 < w"
  shows "sound_unop sem op"
proof (rule sound_unopI [OF assms(1,2,3,3)], rule sound_vals, rule r, assumption, rule covers1I, fold w(1))
  fix q x z y z' assume z: "sem op [x] = Some z" "sem op [y] = Some z'" and a: "agree (w * k) q x y"
  have "z = lanes w k (pess w) x" "z' = lanes w k (pess w) y" using z by (simp_all add: sem_unop_eq [OF op] lanes1_def)
  moreover have "lane w i x = lane w i y" if "i < k" "lane w i q = 0" for i using lane_agree [OF a] that .
  ultimately show "agree (w * k) (lanes w k (pess w) q) z z'"
    by (intro agree_lanesI [OF w(2)]) (simp add: lane_lanes [OF w(2)] pess_def)
qed

lemma sound_ctz:
  assumes "switch expr2vbits_Unop_cases op = Some rule" "typeOfPrimop op = Some (t, t, Ity_INVALID, Ity_INVALID, Ity_INVALID)"
    and "shadowTypeV t = Some t"
    and r: "\<And>G v a q x. (Orig, a, t, x) \<in> G \<Longrightarrow> (VSh, v, t, q) \<in> G \<Longrightarrow> fits t x \<Longrightarrow> fits t q \<Longrightarrow> sameKindedAtoms a v \<Longrightarrow>
      vals sem G (\<lambda>mce. rule mce op v a) t (ctz_val w q x)"
    and op: "switch sem1_cases op = Some (ctz w)" and w: "ty_bits t = w"
  shows "sound_unop sem op"
proof (rule sound_unopI [OF assms(1,2,3,3)], rule sound_vals, rule r, assumption+, rule covers1I)
  fix q x z y z' assume z: "sem op [x] = Some z" "sem op [y] = Some z'" and a: "agree (ty_bits t) q x y" and f: "fits t x"
  have z: "x \<noteq> 0" "z = int (trailing_zeros w x)" "z' = int (trailing_zeros w y)"
    using z by (auto simp: sem_unop_eq [OF op] ctz_def split: if_splits)
  have "z = z'" if "ctz_val w q x = 0" using agree_ctz [OF a [unfolded w] _ z(1) that] fits_bit [OF f] z w by simp
  moreover have "ctz_val w q x = pess w (ctz_val w q x)" if "0 < w" using that by (simp add: ctz_val_def)
  ultimately show "agree (ty_bits t) (ctz_val w q x) z z'" unfolding w
    by (cases "0 < w") (metis agree_pess, simp add: agree_def)
qed

lemma sem_unary:
  "switch sem1_cases op = Some (not_w w) \<Longrightarrow> sem op [x] = Some (take_bit w (NOT x))"
  "switch sem1_cases op = Some zext \<Longrightarrow> sem op [x] = Some x"
  "switch sem1_cases op = Some (cmpwnez w) \<Longrightarrow> sem op [x] = Some (pess w x)"
  "switch sem1_cases op = Some (sext v w) \<Longrightarrow> sem op [x] = Some (take_bit w (signed_take_bit (v - 1) x))"
  "switch sem1_cases op = Some (trunc w) \<Longrightarrow> sem op [x] = Some (take_bit w x)"
  "switch sem1_cases op = Some (bits_at n w) \<Longrightarrow> sem op [x] = Some (take_bit w (drop_bit n x))"
  by (simp_all add: sem_unop_eq not_w_def zext_def cmpwnez_def sext_def trunc_def bits_at_def)

lemma sound_pcast_ops: "list_all (sound_unop sem) pcast_scheme"
  unfolding pcast_scheme_def list.pred_inject(2)
  by (intro conjI list.pred_inject(1); rule sound_pcast, simp add: expr2vbits_Unop_rules, simp add: prim_type_defs, simp, simp,
    rule vals_mkPCastTo, assumption, simp add: cast_types_def, simp add: cast_types_def, assumption)

lemma sound_not_ops: "list_all (sound_unop sem) not_scheme"
  unfolding not_scheme_def list.pred_inject(2)
  by (intro conjI list.pred_inject(1); rule sound_copy, simp add: expr2vbits_Unop_rules, simp add: prim_type_defs, simp, simp,
    rule sem_unary, simp, simp only: ty_bits.simps One_nat_def, erule agree_not)

lemma sound_copy_ops: "list_all (sound_unop sem) copy_scheme"
  unfolding copy_scheme_def list.pred_inject(2)
  by (intro conjI list.pred_inject(1); rule sound_copy, simp add: expr2vbits_Unop_rules, simp add: prim_type_defs, simp, simp,
    rule sem_unary, simp, simp only: ty_bits.simps)

lemma agree_widen: "agree (ty_bits t) v x y \<Longrightarrow> fits t x \<Longrightarrow> fits t y \<Longrightarrow> agree w v x y"
  using agree_zext fits_bit by blast

lemma fits_widen: "fits t x \<Longrightarrow> ty_bits t \<le> ty_bits ty \<Longrightarrow> fits ty x"
  using fitsI fits_bit by (meson less_le_trans)

lemma sound_zext_ops: "list_all (sound_unop sem) zext_scheme"
  unfolding zext_scheme_def list.pred_inject(2)
  by (intro conjI list.pred_inject(1); rule sound_emit, simp add: expr2vbits_Unop_rules, rule refl, simp add: prim_type_defs, simp add: prim_type_defs, simp, simp,
    rule sem_unary, simp, rule sem_unary, simp, erule fits_widen, simp, rule agree_widen, assumption+)

lemma sound_trunc_ops: "list_all (sound_unop sem) trunc_scheme"
  unfolding trunc_scheme_def list.pred_inject(2)
  by (intro conjI list.pred_inject(1); rule sound_emit, simp add: expr2vbits_Unop_rules, rule refl, simp add: prim_type_defs, simp add: prim_type_defs, simp, simp,
    (rule sem_unary, simp; fail), (rule sem_unary, simp; fail), rule fits_take, simp, simp only: ty_bits.simps One_nat_def, erule agree_trunc, simp)

lemma sound_bits_at_ops: "list_all (sound_unop sem) bits_at_scheme"
  unfolding bits_at_scheme_def list.pred_inject(2)
  by (intro conjI list.pred_inject(1); rule sound_emit, simp add: expr2vbits_Unop_rules, rule refl, simp add: prim_type_defs, simp add: prim_type_defs, simp, simp,
    (rule sem_unary, simp; fail), (rule sem_unary, simp; fail), rule fits_take, simp, simp only: ty_bits.simps, erule agree_bits_at, simp)

lemma sound_sext_ops: "list_all (sound_unop sem) sext_scheme"
  unfolding sext_scheme_def list.pred_inject(2)
  by (intro conjI list.pred_inject(1); rule sound_emit, simp add: expr2vbits_Unop_rules, rule refl, simp add: prim_type_defs, simp add: prim_type_defs, simp, simp,
    (rule sem_unary, simp; fail), (rule sem_unary, simp; fail), rule fits_take, simp, simp only: ty_bits.simps, erule agree_sext, simp)

lemma sound_pess_ops: "list_all (sound_unop sem) pess_scheme"
  unfolding pess_scheme_def list.pred_inject(2)
  by (intro conjI list.pred_inject(1); rule sound_emit, simp add: expr2vbits_Unop_rules, rule refl, simp add: prim_type_defs, simp add: prim_type_defs, simp, simp,
    (rule sem_unary, simp; fail), (rule sem_unary, simp; fail), rule fits_pess, simp, simp only: ty_bits.simps, rule agree_pess, metis agree_zero ty_bits.simps(2))

lemma sound_lanes1_ops: "list_all (sound_unop sem) lanes1_scheme"
  unfolding lanes1_scheme_def list.pred_inject(2)
  by (intro conjI list.pred_inject(1); rule sound_lanes1, simp add: expr2vbits_Unop_rules, simp add: prim_type_defs, simp,
    rule vals_rules, assumption, simp, simp, simp)

lemma sound_ctz_ops: "list_all (sound_unop sem) ctz_scheme"
  unfolding ctz_scheme_def list.pred_inject(2)
  by (intro conjI list.pred_inject(1); rule sound_ctz, simp add: expr2vbits_Unop_rules, simp add: prim_type_defs, simp,
    rule vals_rules, assumption+, simp, simp)

lemma sound_binops_sound: "op \<in> set sound_binops \<Longrightarrow> sound_binop sem op"
  using sound_lazy_ops sound_left_ops sound_addsub_ops sound_xor_ops sound_and_ops sound_or_ops sound_hl_ops sound_cmp_ops sound_cmp_if_ops sound_mull_ops sound_shl_ops sound_shr_ops sound_sar_ops sound_lane_ops
  by (auto simp only: sound_binops_def set_append Un_iff list_all_iff)

lemma sound_unops_sound: "op \<in> set sound_unops \<Longrightarrow> sound_unop sem op"
  using sound_pcast_ops sound_not_ops sound_copy_ops sound_zext_ops sound_trunc_ops sound_bits_at_ops sound_sext_ops sound_pess_ops sound_lanes1_ops sound_ctz_ops
  by (auto simp only: sound_unops_def set_append Un_iff list_all_iff)

end

section \<open>Expressions\<close>

text \<open>The shadow of an atom that has one is found without emitting anything.\<close>

lemma atom2vbits_valued:
  assumes ok: "mce_ok mce" and a: "vatom mce s (Orig, a, ty, x)" and v: "atom2vbits mce a = Some (v, mce)"
    and s: "shadowTypeV ty = Some sty" and f: "fits ty (aval s v)"
  shows "vatom mce s (VSh, v, sty, aval s v)" "shadows a v"
proof -
  have ta: "tatom mce (Orig, a, ty)" using a by (simp add: vatom_def)
  obtain r mce' where "atom2vbits mce a = Some (r, mce')" "tatom mce' (VSh, r, sty)" "shadows a r"
    using atom2vbits_shadows [OF ok ta s] .
  then show "vatom mce s (VSh, v, sty, aval s v)" "shadows a v"
    using v f shadow_bits [OF s] by (auto simp: vatom_def fits_def)
qed

lemma vatom_atoms: "vatom mce s (Orig, a, ty, x) \<Longrightarrow> isOriginalAtom mce a" "vatom mce s (VSh, a, ty, x) \<Longrightarrow> isShadowAtom mce a"
  by (auto simp: vatom_def dest: tatom_atoms)

definition sound_result :: "op_sem \<Rightarrow> MCEnv \<Rightarrow> store \<Rightarrow> emitted \<Rightarrow> (int \<Rightarrow> bool) \<Rightarrow> bool" where
  "sound_result sem mce s res P \<longleftrightarrow> (\<exists>r mce' s' V. res = Some (r, mce') \<and> steps sem mce s mce' s' \<and>
     eval sem s' r = Some V \<and> P V)"

lemma sound_at_result: "sound_at sem G m ty P \<Longrightarrow> vctx G mce s \<Longrightarrow> sound_result sem mce s (m mce) P"
  unfolding sound_at_def sound_result_def using vatom_eval by meson

lemma Binop_sound:
  assumes sound: "sound_binop sem op" and ty: "typeOfPrimop op = Some (ty, t1, t2, Ity_INVALID, Ity_INVALID)"
    and ok: "mce_ok mce" and a: "vatom mce s (Orig, a1, t1, x1)" "vatom mce s (Orig, a2, t2, x2)"
    and v: "atom2vbits mce a1 = Some (v1, mce)" "atom2vbits mce a2 = Some (v2, mce)"
    and f: "fits t1 (aval s v1)" "fits t2 (aval s v2)" and z: "sem op [x1, x2] = Some z"
  shows "sound_result sem mce s (expr2vbits_Binop mce op a1 a2) (covers sem op t1 t2 ty (aval s v1) (aval s v2) x1 x2 z)"
proof -
  obtain rule sty s1 s2 where rule: "switch expr2vbits_Binop_cases op = Some rule"
    and s: "shadowTypeV ty = Some sty" "shadowTypeV t1 = Some s1" "shadowTypeV t2 = Some s2"
    and r: "\<And>G v1 v2 a1 a2 x1 x2 q1 q2 z. (VSh, v1, s1, q1) \<in> G \<Longrightarrow> (VSh, v2, s2, q2) \<in> G \<Longrightarrow>
       (Orig, a1, t1, x1) \<in> G \<Longrightarrow> (Orig, a2, t2, x2) \<in> G \<Longrightarrow> fits s1 q1 \<Longrightarrow> fits s2 q2 \<Longrightarrow> fits t1 x1 \<Longrightarrow> fits t2 x2 \<Longrightarrow>
       sameKindedAtoms a1 v1 \<Longrightarrow> sameKindedAtoms v1 a1 \<Longrightarrow> sameKindedAtoms a2 v2 \<Longrightarrow> sameKindedAtoms v2 a2 \<Longrightarrow>
       sem op [x1, x2] = Some z \<Longrightarrow> sound_at sem G (\<lambda>mce. rule mce op v1 v2 a1 a2) sty (covers sem op t1 t2 ty q1 q2 x1 x2 z)"
    using sound ty unfolding sound_binop_def by auto
  note v1 = atom2vbits_valued [OF ok a(1) v(1) s(2) f(1)] and v2 = atom2vbits_valued [OF ok a(2) v(2) s(3) f(2)]
  let ?G = "{(VSh, v1, s1, aval s v1), (VSh, v2, s2, aval s v2), (Orig, a1, t1, x1), (Orig, a2, t2, x2)}"
  have ctx: "vctx ?G mce s" using ok a v1(1) v2(1) by (simp add: vctx_def)
  have fx: "fits t1 x1" "fits t2 x2" "fits s1 (aval s v1)" "fits s2 (aval s v2)"
    using a v1(1) v2(1) by (simp_all add: vatom_def)
  have "sound_at sem ?G (\<lambda>mce. rule mce op v1 v2 a1 a2) sty (covers sem op t1 t2 ty (aval s v1) (aval s v2) x1 x2 z)"
    by (rule r) (use fx v1(2) v2(2) z in \<open>auto simp: shadows_def\<close>)
  from sound_at_result [OF this ctx] show ?thesis
    using v v1 v2 a rule by (simp add: expr2vbits_Binop_def vatom_atoms shadows_def)
qed

lemma Unop_sound:
  assumes sound: "sound_unop sem op" and ty: "typeOfPrimop op = Some (ty, t, Ity_INVALID, Ity_INVALID, Ity_INVALID)"
    and ok: "mce_ok mce" and a: "vatom mce s (Orig, a, t, x)"
    and v: "atom2vbits mce a = Some (v, mce)" and f: "fits t (aval s v)" and z: "sem op [x] = Some z"
  shows "sound_result sem mce s (expr2vbits_Unop mce op a) (covers1 sem op t ty (aval s v) x z)"
proof -
  obtain rule sty s1 where rule: "switch expr2vbits_Unop_cases op = Some rule"
    and s: "shadowTypeV ty = Some sty" "shadowTypeV t = Some s1"
    and r: "\<And>G v a x q z. (VSh, v, s1, q) \<in> G \<Longrightarrow> (Orig, a, t, x) \<in> G \<Longrightarrow> fits s1 q \<Longrightarrow> fits t x \<Longrightarrow>
       sameKindedAtoms a v \<Longrightarrow> sameKindedAtoms v a \<Longrightarrow> sem op [x] = Some z \<Longrightarrow>
       sound_at sem G (\<lambda>mce. rule mce op v a) sty (covers1 sem op t ty q x z)"
    using sound ty unfolding sound_unop_def by auto
  note v1 = atom2vbits_valued [OF ok a v s(2) f]
  let ?G = "{(VSh, v, s1, aval s v), (Orig, a, t, x)}"
  have ctx: "vctx ?G mce s" using ok a v1(1) by (simp add: vctx_def)
  have fx: "fits t x" "fits s1 (aval s v)" using a v1(1) by (simp_all add: vatom_def)
  have "sound_at sem ?G (\<lambda>mce. rule mce op v a) sty (covers1 sem op t ty (aval s v) x z)"
    by (rule r) (use fx v1(2) z in \<open>auto simp: shadows_def\<close>)
  from sound_at_result [OF this ctx] show ?thesis
    using v v1 a rule by (simp add: expr2vbits_Unop_def vatom_atoms shadows_def)
qed

text \<open>If-then-else: the V bits of the arm taken, pessimised by those of the condition.\<close>

definition uifu_types :: "IRType set" where
  "uifu_types = {Ity_I8, Ity_I16, Ity_I32, Ity_I64, Ity_V128, Ity_V256}"

context ir_sem
begin

lemma vals_ITE:
  assumes c: "(Orig, c, Ity_I1, xc) \<in> G" and v: "(VSh, vc, Ity_I1, qc) \<in> G" "(VSh, vt, sty, qt) \<in> G" "(VSh, vf, sty, qf) \<in> G"
    and fits: "fits sty qt" "fits sty qf" "fits Ity_I1 qc" and sty: "sty \<in> uifu_types"
  shows "vals sem G (\<lambda>mce. do {
     ty \<leftarrow> typeOfIRExpr (sb_tyenv mce) vt;
     (i, mce) \<leftarrow> assignNew CHR ''V'' mce ty (Iex_ITE c vt vf);
     (p, mce) \<leftarrow> mkPCastTo mce ty vc;
     mkUifU mce ty i p }) sty ((if xc \<noteq> 0 then qt else qf) OR pcast sty qc)"
proof (rule vals_pure_bind, erule vctx_type, fact v(2), rule vals_bind, rule vals_assignNew)
  have cast: "sty \<in> cast_types" using sty by (auto simp: uifu_types_def cast_types_def)
  show f: "fits sty (if xc \<noteq> 0 then qt else qf)" using fits by simp
  fix mce s assume ctx: "vctx G mce s"
  show "typeOfIRExpr (sb_tyenv mce) (Iex_ITE c vt vf) = Some sty"
    using vctx_type [OF ctx v(3)] by (rule type_of_op)
  show "eval sem s (Iex_ITE c vt vf) = Some (if xc \<noteq> 0 then qt else qf)"
    using vctx_eval [OF ctx c] vctx_eval [OF ctx v(2)] vctx_eval [OF ctx v(3)] by simp
next
  have cast: "sty \<in> cast_types" using sty by (auto simp: uifu_types_def cast_types_def)
  fix i assume "fits sty (if xc \<noteq> 0 then qt else qf)"
  then show "vals sem (insert (VSh, i, sty, if xc \<noteq> 0 then qt else qf) G)
    (\<lambda>mce. do { (p, mce) \<leftarrow> mkPCastTo mce sty vc; mkUifU mce sty i p }) sty ((if xc \<noteq> 0 then qt else qf) OR pcast sty qc)"
    by (intro vals_bind [OF vals_mkPCastTo [OF insertI2 [OF v(1)] cast _ fits(3)]] vals_mkUifU)
      (use sty in \<open>auto simp: cast_types_def uifu_types_def pcast_def intro: fits_pess\<close>)
qed

lemma ITE_sound:
  assumes ok: "mce_ok mce" and sty: "shadowTypeV ty = Some sty" "sty \<in> uifu_types"
    and a: "vatom mce s (Orig, c, Ity_I1, xc)" "vatom mce s (Orig, t, ty, xt)" "vatom mce s (Orig, f, ty, xf)"
    and v: "atom2vbits mce c = Some (vc, mce)" "atom2vbits mce t = Some (vt, mce)" "atom2vbits mce f = Some (vf, mce)"
    and fits: "fits Ity_I1 (aval s vc)" "fits ty (aval s vt)" "fits ty (aval s vf)"
  shows "sound_result sem mce s (expr2vbits_ITE mce c t f)
    (\<lambda>V. V = ((if xc \<noteq> 0 then aval s vt else aval s vf) OR pcast sty (aval s vc)))"
proof -
  note vc = atom2vbits_valued [OF ok a(1) v(1) _ fits(1), of Ity_I1]
    and vt = atom2vbits_valued [OF ok a(2) v(2) sty(1) fits(2)] and vf = atom2vbits_valued [OF ok a(3) v(3) sty(1) fits(3)]
  let ?G = "{(Orig, c, Ity_I1, xc), (VSh, vc, Ity_I1, aval s vc), (VSh, vt, sty, aval s vt), (VSh, vf, sty, aval s vf)}"
  have ctx: "vctx ?G mce s" using ok a(1) vc(1) vt(1) vf(1) by (simp add: vctx_def)
  have fs: "fits sty (aval s vt)" "fits sty (aval s vf)" using vt(1) vf(1) by (simp_all add: vatom_def)
  note vals = vals_ITE [of c xc ?G vc "aval s vc" vt sty "aval s vt" vf "aval s vf", OF _ _ _ _ fs fits(1) sty(2)]
  have "sound_at sem ?G (\<lambda>mce. do {
     ty \<leftarrow> typeOfIRExpr (sb_tyenv mce) vt;
     (i, mce) \<leftarrow> assignNew CHR ''V'' mce ty (Iex_ITE c vt vf);
     (p, mce) \<leftarrow> mkPCastTo mce ty vc;
     mkUifU mce ty i p }) sty (\<lambda>V. V = ((if xc \<noteq> 0 then aval s vt else aval s vf) OR pcast sty (aval s vc)))"
    by (rule sound_vals [OF vals]) simp_all
  from sound_at_result [OF this ctx] show ?thesis
    using v a by (simp add: expr2vbits_ITE_def vatom_atoms)
qed

end

lemma agree_ITE:
  assumes t: "fits ty xt" "fits ty xf" and c: "fits Ity_I1 xc" "fits Ity_I1 yc" "agree 1 qc xc yc"
    and a: "agree (ty_bits ty) qt xt yt" "agree (ty_bits ty) qf xf yf" and s: "shadowTypeV ty = Some sty"
  shows "agree (ty_bits ty) ((if xc \<noteq> 0 then qt else qf) OR pcast sty qc) (if xc \<noteq> 0 then xt else xf) (if yc \<noteq> 0 then yt else yf)"
proof (cases "qc = 0")
  case True
  then have "xc = yc" using c agree_zero [of Ity_I1 xc yc] by simp
  then show ?thesis using a agree_or_left by simp
next
  case False
  then show ?thesis using shadow_bits [OF s] agree_or_right [OF agree_mask] by (simp add: pcast_def pess_def)
qed

text \<open>No operator with a reference value is in the table of lanes: the two alternate in eight
  intervals of the enumeration.\<close>

definition lane_intervals :: label_tree where
  "lane_intervals =
     Below Iop_64HLtoV128 (Below Iop_D64HLtoD128 (Below Iop_Add16x2 (Group 0) (Group 1)) (Below Iop_Max32Fx4 (Group 0) (Group 1)))
       (Below Iop_InterleaveHI64x2 (Below Iop_Add8x16 (Group 0) (Group 1)) (Below Iop_Add8x32 (Group 0) (Group 1)))"

lemma sem2_intervals: "switch_all (\<lambda>op _. group_of lane_intervals op = 0) sem2_cases"
  unfolding sem2_cases_def switch_all_unfold lane_intervals_def by simp

lemma lane_intervals: "switch_all (\<lambda>op _. group_of lane_intervals op = 1) lane_ops"
  unfolding lane_ops_def switch_all_unfold lane_intervals_def by simp

lemma sem2_not_lane: "switch lane_ops op = Some w \<Longrightarrow> switch sem2_cases op = None"
  using switch_allD [OF sem2_intervals, of op] switch_allD [OF lane_intervals, of op w] by fastforce

text \<open>The reference semantics alone is a model of the interface.\<close>

interpretation prim_sem: ir_sem prim
  by unfold_locales (auto dest: sem2_not_lane)

section \<open>The properties\<close>

text \<open>Two original temporaries and their shadows, for the examples.\<close>

definition shadowed_mce :: "IRType \<Rightarrow> IRType \<Rightarrow> MCEnv" where
  "shadowed_mce t1 t2 = (fresh_mce [])\<lparr>sb_tyenv := [t1, t2, t1, t2],
     tmpMap := [\<lparr>tm_kind = Orig, tm_shadowV = Some 2\<rparr>, \<lparr>tm_kind = Orig, tm_shadowV = Some 3\<rparr>,
       \<lparr>tm_kind = VSh, tm_shadowV = None\<rparr>, \<lparr>tm_kind = VSh, tm_shadowV = None\<rparr>]\<rparr>"

lemma nth_numeral_Cons: "(x # xs) ! numeral k = xs ! pred_numeral k"
  by (simp add: numeral_eq_Suc)

lemma shadowed_mce_ok:
  assumes "shadowTypeV t1 = Some t1" "shadowTypeV t2 = Some t2"
  shows "mce_ok (shadowed_mce t1 t2)"
  using assms
  by (auto simp: mce_ok_def shadowed_mce_def fresh_mce_def shadow_ok_def tempKind_def nth_Cons' typeOfIRTemp_def less_Suc_eq split: if_splits)

lemma shadowed_mce_atoms:
  "fits t1 (s 0) \<Longrightarrow> vatom (shadowed_mce t1 t2) s (Orig, Iex_RdTmp 0, t1, s 0)"
  "fits t2 (s 1) \<Longrightarrow> vatom (shadowed_mce t1 t2) s (Orig, Iex_RdTmp 1, t2, s 1)"
  by (simp_all add: vatom_def tatom_def kinded_def tempKind_def shadowed_mce_def fresh_mce_def typeOfIRTemp_def aval_def)

lemma shadowed_mce_shadows:
  "atom2vbits (shadowed_mce t1 t2) (Iex_RdTmp 0) = Some (Iex_RdTmp 2, shadowed_mce t1 t2)"
  "atom2vbits (shadowed_mce t1 t2) (Iex_RdTmp 1) = Some (Iex_RdTmp 3, shadowed_mce t1 t2)"
  by (simp_all add: atom2vbits_def findShadowTmpV_def shadowed_mce_def fresh_mce_def)

text \<open>C20
  The V bits of the binary operators are sound. Whatever the operator does on the bits the
  reference semantics leaves open, if the code \<open>expr2vbits_Binop\<close> emits is run where the
  arguments have the values \<open>x1\<close> and \<open>x2\<close> and their shadows the values \<open>q1\<close> and \<open>q2\<close>, then it runs
  without error, leaves older temporaries alone, and the value \<open>V\<close> it computes covers the
  result: a bit of the result that \<open>V\<close> leaves untainted is the same for all arguments that
  agree with \<open>x1\<close> and \<open>x2\<close> on the untainted bits. This holds of the 420 operators of \<open>sound_binops\<close>.\<close>
theorem expr2vbits_Binop_sound:
  assumes "ir_sem sem" "op \<in> set sound_binops"
    and "typeOfPrimop op = Some (ty, t1, t2, Ity_INVALID, Ity_INVALID)"
    and "mce_ok mce" "vatom mce s (Orig, a1, t1, x1)" "vatom mce s (Orig, a2, t2, x2)"
    and "atom2vbits mce a1 = Some (v1, mce)" "atom2vbits mce a2 = Some (v2, mce)"
    and "aval s v1 = q1" "aval s v2 = q2" "fits t1 q1" "fits t2 q2" "sem op [x1, x2] = Some z"
  shows "\<exists>r mce' s' V. expr2vbits_Binop mce op a1 a2 = Some (r, mce') \<and> steps sem mce s mce' s' \<and> eval sem s' r = Some V \<and>
    (\<forall>y1 y2 z'. fits t1 y1 \<longrightarrow> fits t2 y2 \<longrightarrow> agree (ty_bits t1) q1 x1 y1 \<longrightarrow> agree (ty_bits t2) q2 x2 y2 \<longrightarrow>
      sem op [y1, y2] = Some z' \<longrightarrow> agree (ty_bits ty) V z z')"
  using Binop_sound [OF ir_sem.sound_binops_sound [OF assms(1,2)] assms(3-8)] assms(9-)
  unfolding sound_result_def covers_def by blast

theorem expr2vbits_Binop_sound_witness:
  "\<exists>r mce' s' V. expr2vbits_Binop (shadowed_mce Ity_I32 Ity_I32) Iop_Sub32 (Iex_RdTmp 0) (Iex_RdTmp 1) = Some (r, mce') \<and>
    steps prim (shadowed_mce Ity_I32 Ity_I32) ((\<lambda>_. 0)(0 := 7, 1 := 12, 2 := 3)) mce' s' \<and> eval prim s' r = Some V \<and>
    (\<forall>y1 y2 z'. fits Ity_I32 y1 \<longrightarrow> fits Ity_I32 y2 \<longrightarrow> agree (ty_bits Ity_I32) 3 7 y1 \<longrightarrow> agree (ty_bits Ity_I32) 0 12 y2 \<longrightarrow>
      prim Iop_Sub32 [y1, y2] = Some z' \<longrightarrow> agree (ty_bits Ity_I32) V 4294967291 z')"
proof -
  let ?s = "(\<lambda>_. 0)(0 := 7, 1 := 12, 2 := 3) :: store"
  have f: "fits Ity_I32 7" "fits Ity_I32 12" "fits Ity_I32 3" "fits Ity_I32 0" by (simp_all add: fits_def)
  have op: "Iop_Sub32 \<in> set sound_binops" by (simp add: sound_binops_def addsub_scheme_def)
  have a: "vatom (shadowed_mce Ity_I32 Ity_I32) ?s (Orig, Iex_RdTmp 0, Ity_I32, 7)" "vatom (shadowed_mce Ity_I32 Ity_I32) ?s (Orig, Iex_RdTmp 1, Ity_I32, 12)"
    using shadowed_mce_atoms [of Ity_I32 ?s Ity_I32] shadowed_mce_atoms(2) [of Ity_I32 ?s Ity_I32] f by auto
  show ?thesis
    by (rule expr2vbits_Binop_sound [OF prim_sem.ir_sem_axioms op _ shadowed_mce_ok a shadowed_mce_shadows _ _ f(3,4)])
      (simp_all add: prim_type_defs aval_def sub_w_def)
qed

text \<open>C21
  The same for 113 unary operators.\<close>
theorem expr2vbits_Unop_sound:
  assumes "ir_sem sem" "op \<in> set sound_unops"
    and "typeOfPrimop op = Some (ty, t, Ity_INVALID, Ity_INVALID, Ity_INVALID)"
    and "mce_ok mce" "vatom mce s (Orig, a, t, x)" "atom2vbits mce a = Some (v, mce)"
    and "aval s v = q" "fits t q" "sem op [x] = Some z"
  shows "\<exists>r mce' s' V. expr2vbits_Unop mce op a = Some (r, mce') \<and> steps sem mce s mce' s' \<and> eval sem s' r = Some V \<and>
    (\<forall>y z'. fits t y \<longrightarrow> agree (ty_bits t) q x y \<longrightarrow> sem op [y] = Some z' \<longrightarrow> agree (ty_bits ty) V z z')"
  using Unop_sound [OF ir_sem.sound_unops_sound [OF assms(1,2)] assms(3-6)] assms(7-)
  unfolding sound_result_def covers1_def by blast

theorem expr2vbits_Unop_sound_witness:
  "\<exists>r mce' s' V. expr2vbits_Unop (shadowed_mce Ity_I32 Ity_I32) Iop_Ctz32 (Iex_RdTmp 0) = Some (r, mce') \<and>
    steps prim (shadowed_mce Ity_I32 Ity_I32) ((\<lambda>_. 0)(0 := 12, 2 := 8)) mce' s' \<and> eval prim s' r = Some V \<and>
    (\<forall>y z'. fits Ity_I32 y \<longrightarrow> agree (ty_bits Ity_I32) 8 12 y \<longrightarrow> prim Iop_Ctz32 [y] = Some z' \<longrightarrow> agree (ty_bits Ity_I32) V 2 z')"
proof -
  let ?s = "(\<lambda>_. 0)(0 := 12, 2 := 8) :: store"
  have f: "fits Ity_I32 12" "fits Ity_I32 8" by (simp_all add: fits_def)
  have op: "Iop_Ctz32 \<in> set sound_unops" by (simp add: sound_unops_def ctz_scheme_def)
  have a: "vatom (shadowed_mce Ity_I32 Ity_I32) ?s (Orig, Iex_RdTmp 0, Ity_I32, 12)"
    using shadowed_mce_atoms [of Ity_I32 ?s Ity_I32] f by simp
  have e: "32 = Suc (Suc (Suc 29))" by simp
  have "trailing_zeros 32 12 = 2" unfolding e trailing_zeros.simps by simp
  then have z: "prim Iop_Ctz32 [12] = Some 2" by (simp add: ctz_def)
  show ?thesis
    by (rule expr2vbits_Unop_sound [OF prim_sem.ir_sem_axioms op _ shadowed_mce_ok a shadowed_mce_shadows(1) _ f(2) z])
      (simp_all add: prim_type_defs aval_def)
qed

text \<open>C22
  The V bits of an if-then-else are sound, on every type \<open>mkUifU\<close> handles: a bit of the result they leave
  untainted is the same for all conditions and arms that agree on their untainted bits.\<close>
theorem expr2vbits_ITE_sound:
  assumes "ir_sem sem" "mce_ok mce" "shadowTypeV ty = Some sty" "sty \<in> {Ity_I8, Ity_I16, Ity_I32, Ity_I64, Ity_V128, Ity_V256}"
    and "vatom mce s (Orig, c, Ity_I1, xc)" "vatom mce s (Orig, t, ty, xt)" "vatom mce s (Orig, f, ty, xf)"
    and "atom2vbits mce c = Some (vc, mce)" "atom2vbits mce t = Some (vt, mce)" "atom2vbits mce f = Some (vf, mce)"
    and "aval s vc = qc" "aval s vt = qt" "aval s vf = qf" "fits Ity_I1 qc" "fits ty qt" "fits ty qf"
  shows "\<exists>r mce' s' V. expr2vbits_ITE mce c t f = Some (r, mce') \<and> steps sem mce s mce' s' \<and> eval sem s' r = Some V \<and>
    (\<forall>yc yt yf. fits Ity_I1 yc \<longrightarrow> agree 1 qc xc yc \<longrightarrow> agree (ty_bits ty) qt xt yt \<longrightarrow> agree (ty_bits ty) qf xf yf \<longrightarrow>
      agree (ty_bits ty) V (if xc \<noteq> 0 then xt else xf) (if yc \<noteq> 0 then yt else yf))"
proof -
  have "fits ty xt" "fits ty xf" "fits Ity_I1 xc" using assms(5-7) by (simp_all add: vatom_def)
  note ag = agree_ITE [OF this(1,2,3) _ _ _ _ assms(3)]
  from ir_sem.ITE_sound [OF assms(1-3) assms(4) [folded uifu_types_def] assms(5-10)] assms(11-)
  show ?thesis unfolding sound_result_def using ag by blast
qed

theorem expr2vbits_ITE_sound_witness:
  "\<exists>r mce' s' V. expr2vbits_ITE (shadowed_mce Ity_I1 Ity_I32) (Iex_RdTmp 0) (Iex_RdTmp 1) (Iex_Const (Ico_U32 5)) = Some (r, mce') \<and>
    steps prim (shadowed_mce Ity_I1 Ity_I32) ((\<lambda>_. 0)(0 := 1, 1 := 12, 3 := 8)) mce' s' \<and> eval prim s' r = Some V \<and>
    (\<forall>yc yt yf. fits Ity_I1 yc \<longrightarrow> agree 1 0 1 yc \<longrightarrow> agree (ty_bits Ity_I32) 8 12 yt \<longrightarrow> agree (ty_bits Ity_I32) 0 5 yf \<longrightarrow>
      agree (ty_bits Ity_I32) V (if (1::int) \<noteq> 0 then 12 else 5) (if yc \<noteq> 0 then yt else yf))"
proof -
  let ?m = "shadowed_mce Ity_I1 Ity_I32" and ?s = "(\<lambda>_. 0)(0 := 1, 1 := 12, 3 := 8) :: store"
  have f: "fits Ity_I1 1" "fits Ity_I32 12" "fits Ity_I1 0" "fits Ity_I32 8" "fits Ity_I32 0" by (simp_all add: fits_def)
  have a: "vatom ?m ?s (Orig, Iex_RdTmp 0, Ity_I1, 1)" "vatom ?m ?s (Orig, Iex_RdTmp 1, Ity_I32, 12)"
    "vatom ?m ?s (Orig, Iex_Const (Ico_U32 5), Ity_I32, 5)"
    using shadowed_mce_atoms [of Ity_I1 ?s Ity_I32] shadowed_mce_atoms(2) [of Ity_I32 ?s Ity_I1] f
    by (auto simp: vatom_def tatom_def kinded_def aval_def fits_def)
  have v: "atom2vbits ?m (Iex_Const (Ico_U32 5)) = Some (Iex_Const (Ico_U32 0), ?m)" by (simp add: atom2vbits_def)
  show ?thesis
    by (rule expr2vbits_ITE_sound [where ?sty = Ity_I32, OF prim_sem.ir_sem_axioms shadowed_mce_ok _ _ a shadowed_mce_shadows v _ _ _ f(3-5)])
      (simp_all add: aval_def)
qed

end
