(* ===== verification/SimdSem.thy ===== *)
theory SimdSem
  imports Simd64 TntSound
begin

text \<open>
  What the vector helpers of \<^verbatim>\<open>host_generic_simd64.c\<close> compute. Each helper takes its arguments apart into lanes, applies a
  scalar helper to them and puts the results together again; here the lanes are integers, the scalar helpers get their
  values on integers (the collection \<open>scalar_rules\<close>), and each operator has a specification by lanes, in the table
  \<open>simd_specs\<close>. With the helpers in the place of the operators the reference semantics leaves open, the taint code of
  those operators is sound for what the host executes.
\<close>

section \<open>Lanes of a tuple\<close>

lemma mask_words: "0xFF = (mask 8 :: 'a::len word)" "0xFFFF = (mask 16 :: 'a word)" "0xFFFFFFFF = (mask 32 :: 'a word)"
  "0xFF = (mask 8 :: int)" "0xFFFF = (mask 16 :: int)" "0xFFFFFFFF = (mask 32 :: int)"
  by (simp_all add: mask_eq_exp_minus_1)

lemma casts: "toUChar x = ucast x" "toUShort x = ucast x" "toUInt y = ucast y"
  unfolding toUChar_def toUShort_def toUInt_def mask_words
  by (rule bit_word_eqI; simp add: bit_simps)+

lemma sels:
  "sel32x2_1 w = ucast (drop_bit 32 w)" "sel32x2_0 w = ucast w"
  "sel16x4_3 w = ucast (drop_bit 48 w)" "sel16x4_2 w = ucast (drop_bit 32 w)"
  "sel16x4_1 w = ucast (drop_bit 16 w)" "sel16x4_0 w = ucast w"
  "sel8x8_7 w = ucast (drop_bit 56 w)" "sel8x8_6 w = ucast (drop_bit 48 w)" "sel8x8_5 w = ucast (drop_bit 40 w)"
  "sel8x8_4 w = ucast (drop_bit 32 w)" "sel8x8_3 w = ucast (drop_bit 24 w)" "sel8x8_2 w = ucast (drop_bit 16 w)"
  "sel8x8_1 w = ucast (drop_bit 8 w)" "sel8x8_0 w = ucast w"
  "sel16x2_1 v = ucast (drop_bit 16 v)" "sel16x2_0 v = ucast v"
  "sel8x4_3 v = ucast (drop_bit 24 v)" "sel8x4_2 v = ucast (drop_bit 16 v)"
  "sel8x4_1 v = ucast (drop_bit 8 v)" "sel8x4_0 v = ucast v"
  unfolding sel32x2_1_def sel32x2_0_def sel16x4_3_def sel16x4_2_def sel16x4_1_def sel16x4_0_def
    sel8x8_7_def sel8x8_6_def sel8x8_5_def sel8x8_4_def sel8x8_3_def sel8x8_2_def sel8x8_1_def sel8x8_0_def
    sel16x2_1_def sel16x2_0_def sel8x4_3_def sel8x4_2_def sel8x4_1_def sel8x4_0_def casts Let_def mask_words
  by (rule bit_word_eqI; simp add: bit_simps; arith?)+

lemma lane_sel:
  "uint (sel32x2_1 w) = lane 32 (Suc 0) (uint w)" "uint (sel32x2_0 w) = lane 32 0 (uint w)"
  "uint (sel16x4_3 w) = lane 16 3 (uint w)" "uint (sel16x4_2 w) = lane 16 2 (uint w)"
  "uint (sel16x4_1 w) = lane 16 (Suc 0) (uint w)" "uint (sel16x4_0 w) = lane 16 0 (uint w)"
  "uint (sel8x8_7 w) = lane 8 7 (uint w)" "uint (sel8x8_6 w) = lane 8 6 (uint w)" "uint (sel8x8_5 w) = lane 8 5 (uint w)"
  "uint (sel8x8_4 w) = lane 8 4 (uint w)" "uint (sel8x8_3 w) = lane 8 3 (uint w)" "uint (sel8x8_2 w) = lane 8 2 (uint w)"
  "uint (sel8x8_1 w) = lane 8 (Suc 0) (uint w)" "uint (sel8x8_0 w) = lane 8 0 (uint w)"
  "uint (sel16x2_1 v) = lane 16 (Suc 0) (uint v)" "uint (sel16x2_0 v) = lane 16 0 (uint v)"
  "uint (sel8x4_3 v) = lane 8 3 (uint v)" "uint (sel8x4_2 v) = lane 8 2 (uint v)"
  "uint (sel8x4_1 v) = lane 8 (Suc 0) (uint v)" "uint (sel8x4_0 v) = lane 8 0 (uint v)"
  by (simp_all add: sels lane_def unsigned_ucast_eq unsigned_drop_bit_eq take_bit_drop_bit)

lemma take_uint: "LENGTH('a) \<le> n \<Longrightarrow> take_bit n (uint (w :: 'a::len word)) = uint w"
proof -
  assume "LENGTH('a) \<le> n"
  then have "uint w < 2 ^ n" using uint_lt2p [of w] by (meson less_le_trans one_le_numeral power_increasing)
  then show ?thesis by (simp add: take_bit_int_eq_self_iff)
qed

lemma uint_push: "uint (push_bit n (ucast (w :: 'a::len word)) :: 'b::len word) = take_bit LENGTH('b) (push_bit n (uint w))"
  by (simp add: unsigned_push_bit_eq unsigned_ucast_eq take_bit_push_bit)

lemma mk32x2_int: "uint (mk32x2 a1 a0) = push_bit 32 (uint a1) OR uint a0"
  unfolding mk32x2_def by (simp add: unsigned_or_eq uint_push unsigned_ucast_eq take_bit_push_bit take_uint)

lemma mk_int:
  "uint (mk16x4 b3 b2 b1 b0) = push_bit 48 (uint b3) OR push_bit 32 (uint b2) OR push_bit 16 (uint b1) OR uint b0"
  "uint (mk8x8 c7 c6 c5 c4 c3 c2 c1 c0) = push_bit 56 (uint c7) OR push_bit 48 (uint c6) OR push_bit 40 (uint c5) OR push_bit 32 (uint c4)
     OR push_bit 24 (uint c3) OR push_bit 16 (uint c2) OR push_bit 8 (uint c1) OR uint c0"
  "uint (mk16x2 b1 b0) = push_bit 16 (uint b1) OR uint b0"
  "uint (mk8x4 c3 c2 c1 c0) = push_bit 24 (uint c3) OR push_bit 16 (uint c2) OR push_bit 8 (uint c1) OR uint c0"
  unfolding mk16x4_def mk8x8_def mk16x2_def mk8x4_def Let_def mk32x2_int
  by (simp_all add: unsigned_or_eq uint_push unsigned_ucast_eq take_bit_push_bit take_uint push_bit_or ac_simps)

text \<open>The lanes of an integer put together from lanes.\<close>

lemma lane_join:
  assumes "take_bit w x = x"
  shows "lane w 0 (push_bit w y OR x) = x" "lane w (Suc i) (push_bit w y OR x) = lane w i y"
proof -
  have "drop_bit w x = 0" using assms by (simp add: take_bit_eq_self_iff_drop_bit_eq_0)
  then have "drop_bit (w * Suc i) (push_bit w y OR x) = drop_bit (w * i) y"
    unfolding mult_Suc_right drop_bit_drop_bit [symmetric] add.commute [of w] by (simp add: drop_bit_push_bit)
  then show "lane w 0 (push_bit w y OR x) = x" "lane w (Suc i) (push_bit w y OR x) = lane w i y"
    using assms by (simp_all add: lane_def take_bit_push_bit)
qed

fun join :: "nat \<Rightarrow> int list \<Rightarrow> int" where
  "join w [] = 0"
| "join w (x # xs) = push_bit w (join w xs) OR x"

lemma lane_join_nth: "\<forall>x \<in> set xs. take_bit w x = x \<Longrightarrow> i < length xs \<Longrightarrow> lane w i (join w xs) = xs ! i"
  by (induction xs arbitrary: i) (auto simp: lane_join less_Suc_eq_0_disj)

lemma mk_join:
  "uint (mk32x2 a1 a0) = join 32 [uint a0, uint a1]"
  "uint (mk16x4 b3 b2 b1 b0) = join 16 [uint b0, uint b1, uint b2, uint b3]"
  "uint (mk8x8 c7 c6 c5 c4 c3 c2 c1 c0) = join 8 [uint c0, uint c1, uint c2, uint c3, uint c4, uint c5, uint c6, uint c7]"
  "uint (mk16x2 b1 b0) = join 16 [uint b0, uint b1]"
  "uint (mk8x4 c3 c2 c1 c0) = join 8 [uint c0, uint c1, uint c2, uint c3]"
  by (simp_all add: mk_int mk32x2_int push_bit_or ac_simps)

definition lanewise :: "nat \<Rightarrow> nat \<Rightarrow> ('a::len word \<Rightarrow> 'a word \<Rightarrow> 'a word) \<Rightarrow> (int \<Rightarrow> int \<Rightarrow> int) \<Rightarrow> bool" where
  "lanewise k w f s \<longleftrightarrow> (\<forall>x y. \<forall>i < k. lane w i (uint (f x y)) = take_bit w (s (lane w i (uint x)) (lane w i (uint y))))"

lemma less_numerals: "i < (8::nat) \<longleftrightarrow> i \<in> {0, 1, 2, 3, 4, 5, 6, 7}" "i < (4::nat) \<longleftrightarrow> i \<in> {0, 1, 2, 3}" "i < (2::nat) \<longleftrightarrow> i \<in> {0, 1}"
  by auto

lemma lanewise_mk:
  "(\<And>x y. f x y = mk32x2 (g32 (sel32x2_1 x) (sel32x2_1 y)) (g32 (sel32x2_0 x) (sel32x2_0 y))) \<Longrightarrow>
    (\<And>a b. uint (g32 a b) = take_bit 32 (s (uint a) (uint b))) \<Longrightarrow> lanewise 2 32 f s"
  "(\<And>x y. f x y = mk16x4 (g16 (sel16x4_3 x) (sel16x4_3 y)) (g16 (sel16x4_2 x) (sel16x4_2 y))
      (g16 (sel16x4_1 x) (sel16x4_1 y)) (g16 (sel16x4_0 x) (sel16x4_0 y))) \<Longrightarrow>
    (\<And>a b. uint (g16 a b) = take_bit 16 (s (uint a) (uint b))) \<Longrightarrow> lanewise 4 16 f s"
  "(\<And>x y. f x y = mk8x8 (g8 (sel8x8_7 x) (sel8x8_7 y)) (g8 (sel8x8_6 x) (sel8x8_6 y))
      (g8 (sel8x8_5 x) (sel8x8_5 y)) (g8 (sel8x8_4 x) (sel8x8_4 y)) (g8 (sel8x8_3 x) (sel8x8_3 y)) (g8 (sel8x8_2 x) (sel8x8_2 y))
      (g8 (sel8x8_1 x) (sel8x8_1 y)) (g8 (sel8x8_0 x) (sel8x8_0 y))) \<Longrightarrow>
    (\<And>a b. uint (g8 a b) = take_bit 8 (s (uint a) (uint b))) \<Longrightarrow> lanewise 8 8 f s"
  "(\<And>x y. h x y = mk16x2 (g16 (sel16x2_1 x) (sel16x2_1 y)) (g16 (sel16x2_0 x) (sel16x2_0 y))) \<Longrightarrow>
    (\<And>a b. uint (g16 a b) = take_bit 16 (s (uint a) (uint b))) \<Longrightarrow> lanewise 2 16 h s"
  "(\<And>x y. h x y = mk8x4 (g8 (sel8x4_3 x) (sel8x4_3 y)) (g8 (sel8x4_2 x) (sel8x4_2 y))
      (g8 (sel8x4_1 x) (sel8x4_1 y)) (g8 (sel8x4_0 x) (sel8x4_0 y))) \<Longrightarrow>
    (\<And>a b. uint (g8 a b) = take_bit 8 (s (uint a) (uint b))) \<Longrightarrow> lanewise 4 8 h s"
  unfolding lanewise_def less_numerals
  by (intro allI impI; elim insertE emptyE; hypsubst; simp add: mk_join lane_join_nth lane_sel [symmetric] del: join.simps)+

section \<open>The scalar helpers\<close>

definition sval :: "nat \<Rightarrow> int \<Rightarrow> int" where "sval w x = signed_take_bit (w - 1) x"
definition clampS :: "nat \<Rightarrow> int \<Rightarrow> int" where "clampS w x = max (- (2 ^ (w - 1))) (min (2 ^ (w - 1) - 1) x)"
definition clampU :: "nat \<Rightarrow> int \<Rightarrow> int" where "clampU w x = max 0 (min (2 ^ w - 1) x)"

lemma sval_sint: "sval 8 (uint (a :: 8 word)) = sint a" "sval 16 (uint (b :: 16 word)) = sint b" "sval 32 (uint (c :: 32 word)) = sint c"
  by (simp_all add: sval_def sint_uint)

lemma sint_range:
  "- 128 \<le> sint (a :: 8 word)" "sint a < 128" "- 32768 \<le> sint (b :: 16 word)" "sint b < 32768"
  "- 2147483648 \<le> sint (c :: 32 word)" "sint c < 2147483648"
  using sint_ge [of a] sint_lt [of a] sint_ge [of b] sint_lt [of b] sint_ge [of c] sint_lt [of c] by simp_all

lemma uint_range: "uint (a :: 8 word) < 256" "uint (b :: 16 word) < 65536" "uint (c :: 32 word) < 4294967296"
  using uint_lt2p [of a] uint_lt2p [of b] uint_lt2p [of c] by simp_all

lemma uint_nonneg: "0 \<le> uint (w :: 'a::len word)"
  by simp

lemma sint_of: "- (2 ^ (LENGTH('a) - 1)) \<le> k \<Longrightarrow> k < 2 ^ (LENGTH('a) - 1) \<Longrightarrow> sint (word_of_int k :: 'a::len word) = k"
  by (simp add: signed_of_int signed_take_bit_int_eq_self)

lemma uint_of: "0 \<le> k \<Longrightarrow> k < 2 ^ LENGTH('a) \<Longrightarrow> uint (word_of_int k :: 'a::len word) = k"
  by (simp add: unsigned_of_int take_bit_int_eq_self)

lemma ucast_of: "LENGTH('b) \<le> LENGTH('a) \<Longrightarrow> uint (ucast (word_of_int k :: 'a::len word) :: 'b::len word) = take_bit LENGTH('b) k"
  by (simp add: unsigned_ucast_eq unsigned_of_int min_def)

lemma word_of_arith:
  "(scast (a :: 'a::len word) + scast b :: 'b::len word) = word_of_int (sint a + sint b)"
  "(scast a - scast b :: 'b word) = word_of_int (sint a - sint b)"
  "(scast a * scast b :: 'b word) = word_of_int (sint a * sint b)"
  "(ucast a + ucast b :: 'b word) = word_of_int (uint a + uint b)"
  "(ucast a - ucast b :: 'b word) = word_of_int (uint a - uint b)"
  "(ucast a * ucast b :: 'b word) = word_of_int (uint a * uint b)"
  "(word_of_int u + 1 :: 'b word) = word_of_int (u + 1)"
  by (simp_all only: scast_eq ucast_eq of_int_add of_int_diff of_int_mult of_int_1)

lemma drop_of:
  "0 \<le> k \<Longrightarrow> k < 2 ^ LENGTH('a) \<Longrightarrow> drop_bit n (word_of_int k :: 'a::len word) = word_of_int (k div 2 ^ n)"
  "- (2 ^ (LENGTH('a) - 1)) \<le> k \<Longrightarrow> k < 2 ^ (LENGTH('a) - 1) \<Longrightarrow> signed_drop_bit n (word_of_int k :: 'a word) = word_of_int (k div 2 ^ n)"
proof -
  assume k: "0 \<le> k" "k < 2 ^ LENGTH('a)"
  have "uint (drop_bit n (word_of_int k :: 'a word)) = drop_bit n (uint (word_of_int k :: 'a word))"
    by (simp add: unsigned_drop_bit_eq take_uint)
  then have "uint (drop_bit n (word_of_int k :: 'a word)) = k div 2 ^ n" by (simp add: uint_of [OF k] drop_bit_eq_div)
  then have "word_of_int (uint (drop_bit n (word_of_int k :: 'a word))) = (word_of_int (k div 2 ^ n) :: 'a word)" by (rule arg_cong)
  then show "drop_bit n (word_of_int k :: 'a word) = word_of_int (k div 2 ^ n)"
    by (simp only: word_of_int_uint)
next
  assume "- (2 ^ (LENGTH('a) - 1)) \<le> k" "k < 2 ^ (LENGTH('a) - 1)"
  then have "sint (signed_drop_bit n (word_of_int k :: 'a word)) = k div 2 ^ n"
    by (simp add: sint_signed_drop_bit_eq sint_of drop_bit_eq_div)
  then have "word_of_int (sint (signed_drop_bit n (word_of_int k :: 'a word))) = (word_of_int (k div 2 ^ n) :: 'a word)" by (rule arg_cong)
  then show "signed_drop_bit n (word_of_int k :: 'a word) = word_of_int (k div 2 ^ n)"
    by (simp only: of_int_sint scast_id)
qed

lemma of32:
  "- 2147483648 \<le> k \<Longrightarrow> k < 2147483648 \<Longrightarrow> sint (word_of_int k :: 32 word) = k"
  "- 9223372036854775808 \<le> k \<Longrightarrow> k < 9223372036854775808 \<Longrightarrow> sint (word_of_int k :: 64 word) = k"
  "0 \<le> k \<Longrightarrow> k < 4294967296 \<Longrightarrow> uint (word_of_int k :: 32 word) = k"
  "- 2147483648 \<le> k \<Longrightarrow> k < 2147483648 \<Longrightarrow> signed_drop_bit n (word_of_int k :: 32 word) = word_of_int (k div 2 ^ n)"
  "0 \<le> k \<Longrightarrow> k < 4294967296 \<Longrightarrow> drop_bit n (word_of_int k :: 32 word) = word_of_int (k div 2 ^ n)"
  by (simp_all add: sint_of uint_of drop_of)

text \<open>The value of each helper, on the unsigned reading of its arguments.\<close>

named_theorems scalar_rules \<open>the value of a scalar helper\<close>

lemma qadd16S_val [scalar_rules]:
  "uint (qadd16S a b) = take_bit 16 (clampS 16 (sval 16 (uint a) + sval 16 (uint b)))"
proof -
  define k where "k = sint a + sint b"
  have r: "- 2147483648 \<le> k" "k < 2147483648" using sint_range(3,4) [of a] sint_range(3,4) [of b] unfolding k_def by linarith+
  show ?thesis unfolding qadd16S_def Let_def casts word_of_arith sval_sint k_def [symmetric] of32(1) [OF r]
    by (simp add: ucast_of of32 r clampS_def max_def min_def)
qed

lemma qsub16S_val [scalar_rules]:
  "uint (qsub16S a b) = take_bit 16 (clampS 16 (sval 16 (uint a) - sval 16 (uint b)))"
proof -
  define k where "k = sint a - sint b"
  have r: "- 2147483648 \<le> k" "k < 2147483648" using sint_range(3,4) [of a] sint_range(3,4) [of b] unfolding k_def by linarith+
  show ?thesis unfolding qsub16S_def Let_def casts word_of_arith sval_sint k_def [symmetric] of32(1) [OF r]
    by (simp add: ucast_of of32 r clampS_def max_def min_def)
qed

lemma qadd8S_val [scalar_rules]:
  "uint (qadd8S a b) = take_bit 8 (clampS 8 (sval 8 (uint a) + sval 8 (uint b)))"
proof -
  define k where "k = sint a + sint b"
  have r: "- 2147483648 \<le> k" "k < 2147483648" using sint_range(1,2) [of a] sint_range(1,2) [of b] unfolding k_def by linarith+
  show ?thesis unfolding qadd8S_def Let_def casts word_of_arith sval_sint k_def [symmetric] of32(1) [OF r]
    by (simp add: ucast_of of32 r clampS_def max_def min_def)
qed

lemma qsub8S_val [scalar_rules]:
  "uint (qsub8S a b) = take_bit 8 (clampS 8 (sval 8 (uint a) - sval 8 (uint b)))"
proof -
  define k where "k = sint a - sint b"
  have r: "- 2147483648 \<le> k" "k < 2147483648" using sint_range(1,2) [of a] sint_range(1,2) [of b] unfolding k_def by linarith+
  show ?thesis unfolding qsub8S_def Let_def casts word_of_arith sval_sint k_def [symmetric] of32(1) [OF r]
    by (simp add: ucast_of of32 r clampS_def max_def min_def)
qed

lemma qadd32S_val [scalar_rules]:
  "uint (qadd32S a b) = take_bit 32 (clampS 32 (sval 32 (uint a) + sval 32 (uint b)))"
proof -
  define k where "k = sint a + sint b"
  have r: "- 9223372036854775808 \<le> k" "k < 9223372036854775808" using sint_range(5,6) [of a] sint_range(5,6) [of b] unfolding k_def by linarith+
  show ?thesis unfolding qadd32S_def Let_def casts word_of_arith sval_sint k_def [symmetric] of32(2) [OF r]
    by (simp add: ucast_of of32 r clampS_def max_def min_def)
qed

lemma qsub32S_val [scalar_rules]:
  "uint (qsub32S a b) = take_bit 32 (clampS 32 (sval 32 (uint a) - sval 32 (uint b)))"
proof -
  define k where "k = sint a - sint b"
  have r: "- 9223372036854775808 \<le> k" "k < 9223372036854775808" using sint_range(5,6) [of a] sint_range(5,6) [of b] unfolding k_def by linarith+
  show ?thesis unfolding qsub32S_def Let_def casts word_of_arith sval_sint k_def [symmetric] of32(2) [OF r]
    by (simp add: ucast_of of32 r clampS_def max_def min_def)
qed

lemma qadd16U_val [scalar_rules]:
  "uint (qadd16U a b) = take_bit 16 (clampU 16 (uint a + uint b))"
proof -
  define k where "k = uint a + uint b"
  have r: "0 \<le> k" "k < 4294967296" using uint_range(2) [of a] uint_range(2) [of b] uint_nonneg [of a] uint_nonneg [of b] unfolding k_def by linarith+
  show ?thesis unfolding qadd16U_def Let_def casts word_of_arith sval_sint k_def [symmetric] word_less_def of32(3) [OF r]
    by (simp add: ucast_of of32 r clampU_def max_def min_def)
qed

lemma qsub16U_val [scalar_rules]:
  "uint (qsub16U a b) = take_bit 16 (clampU 16 (uint a - uint b))"
proof -
  define k where "k = uint a - uint b"
  have r: "- 2147483648 \<le> k" "k < 2147483648" using uint_range(2) [of a] uint_range(2) [of b] uint_nonneg [of a] uint_nonneg [of b] unfolding k_def by linarith+
  show ?thesis unfolding qsub16U_def Let_def casts word_of_arith sval_sint k_def [symmetric] of32(1) [OF r]
    by (simp add: ucast_of of32 r clampU_def max_def min_def)
qed

lemma avg16U_val [scalar_rules]:
  "uint (avg16U a b) = take_bit 16 ((uint a + uint b + 1) div 2)"
proof -
  define k where "k = uint a + uint b + 1"
  have r: "0 \<le> k" "k < 4294967296" using uint_range(2) [of a] uint_range(2) [of b] uint_nonneg [of a] uint_nonneg [of b] unfolding k_def by linarith+
  show ?thesis unfolding avg16U_def Let_def casts word_of_arith sval_sint k_def [symmetric] of32(5) [OF r]
    by (simp add: ucast_of )
qed

lemma hadd16U_val [scalar_rules]:
  "uint (hadd16U a b) = take_bit 16 ((uint a + uint b) div 2)"
proof -
  define k where "k = uint a + uint b"
  have r: "0 \<le> k" "k < 4294967296" using uint_range(2) [of a] uint_range(2) [of b] uint_nonneg [of a] uint_nonneg [of b] unfolding k_def by linarith+
  show ?thesis unfolding hadd16U_def Let_def casts word_of_arith sval_sint k_def [symmetric] of32(5) [OF r]
    by (simp add: ucast_of )
qed

lemma hadd16S_val [scalar_rules]:
  "uint (hadd16S a b) = take_bit 16 ((sval 16 (uint a) + sval 16 (uint b)) div 2)"
proof -
  define k where "k = sint a + sint b"
  have r: "- 2147483648 \<le> k" "k < 2147483648" using sint_range(3,4) [of a] sint_range(3,4) [of b] unfolding k_def by linarith+
  show ?thesis unfolding hadd16S_def Let_def casts word_of_arith sval_sint k_def [symmetric] of32(4) [OF r]
    by (simp add: ucast_of )
qed

lemma hsub16S_val [scalar_rules]:
  "uint (hsub16S a b) = take_bit 16 ((sval 16 (uint a) - sval 16 (uint b)) div 2)"
proof -
  define k where "k = sint a - sint b"
  have r: "- 2147483648 \<le> k" "k < 2147483648" using sint_range(3,4) [of a] sint_range(3,4) [of b] unfolding k_def by linarith+
  show ?thesis unfolding hsub16S_def Let_def casts word_of_arith sval_sint k_def [symmetric] of32(4) [OF r]
    by (simp add: ucast_of )
qed

lemma qadd8U_val [scalar_rules]:
  "uint (qadd8U a b) = take_bit 8 (clampU 8 (uint a + uint b))"
proof -
  define k where "k = uint a + uint b"
  have r: "0 \<le> k" "k < 4294967296" using uint_range(1) [of a] uint_range(1) [of b] uint_nonneg [of a] uint_nonneg [of b] unfolding k_def by linarith+
  show ?thesis unfolding qadd8U_def Let_def casts word_of_arith sval_sint k_def [symmetric] word_less_def of32(3) [OF r]
    by (simp add: ucast_of of32 r clampU_def max_def min_def)
qed

lemma qsub8U_val [scalar_rules]:
  "uint (qsub8U a b) = take_bit 8 (clampU 8 (uint a - uint b))"
proof -
  define k where "k = uint a - uint b"
  have r: "- 2147483648 \<le> k" "k < 2147483648" using uint_range(1) [of a] uint_range(1) [of b] uint_nonneg [of a] uint_nonneg [of b] unfolding k_def by linarith+
  show ?thesis unfolding qsub8U_def Let_def casts word_of_arith sval_sint k_def [symmetric] of32(1) [OF r]
    by (simp add: ucast_of of32 r clampU_def max_def min_def)
qed

lemma avg8U_val [scalar_rules]:
  "uint (avg8U a b) = take_bit 8 ((uint a + uint b + 1) div 2)"
proof -
  define k where "k = uint a + uint b + 1"
  have r: "0 \<le> k" "k < 4294967296" using uint_range(1) [of a] uint_range(1) [of b] uint_nonneg [of a] uint_nonneg [of b] unfolding k_def by linarith+
  show ?thesis unfolding avg8U_def Let_def casts word_of_arith sval_sint k_def [symmetric] of32(5) [OF r]
    by (simp add: ucast_of )
qed

lemma hadd8U_val [scalar_rules]:
  "uint (hadd8U a b) = take_bit 8 ((uint a + uint b) div 2)"
proof -
  define k where "k = uint a + uint b"
  have r: "0 \<le> k" "k < 4294967296" using uint_range(1) [of a] uint_range(1) [of b] uint_nonneg [of a] uint_nonneg [of b] unfolding k_def by linarith+
  show ?thesis unfolding hadd8U_def Let_def casts word_of_arith sval_sint k_def [symmetric] of32(5) [OF r]
    by (simp add: ucast_of )
qed

lemma hadd8S_val [scalar_rules]:
  "uint (hadd8S a b) = take_bit 8 ((sval 8 (uint a) + sval 8 (uint b)) div 2)"
proof -
  define k where "k = sint a + sint b"
  have r: "- 2147483648 \<le> k" "k < 2147483648" using sint_range(1,2) [of a] sint_range(1,2) [of b] unfolding k_def by linarith+
  show ?thesis unfolding hadd8S_def Let_def casts word_of_arith sval_sint k_def [symmetric] of32(4) [OF r]
    by (simp add: ucast_of )
qed

lemma hsub8S_val [scalar_rules]:
  "uint (hsub8S a b) = take_bit 8 ((sval 8 (uint a) - sval 8 (uint b)) div 2)"
proof -
  define k where "k = sint a - sint b"
  have r: "- 2147483648 \<le> k" "k < 2147483648" using sint_range(1,2) [of a] sint_range(1,2) [of b] unfolding k_def by linarith+
  show ?thesis unfolding hsub8S_def Let_def casts word_of_arith sval_sint k_def [symmetric] of32(4) [OF r]
    by (simp add: ucast_of )
qed

lemma uint_drop: "uint (drop_bit n (a :: 'a::len word)) = drop_bit n (uint a)"
  by (simp add: unsigned_drop_bit_eq take_uint)

lemma drop_val:
  assumes l: "LENGTH('b) + n \<le> LENGTH('a)"
  shows "uint (ucast (drop_bit n (word_of_int k :: 'a::len word)) :: 'b::len word) = take_bit LENGTH('b) (k div 2 ^ n)"
proof -
  have "take_bit LENGTH('b) (drop_bit n (take_bit LENGTH('a) k)) = take_bit LENGTH('b) (drop_bit n k)"
    by (rule bit_eqI) (use l in \<open>auto simp: bit_simps\<close>)
  then show ?thesis unfolding unsigned_ucast_eq uint_drop uint_word_of_int_eq drop_bit_eq_div [symmetric] .
qed

lemma hsub16U_val [scalar_rules]: "uint (hsub16U a b) = take_bit 16 ((uint a - uint b) div 2)"
proof -
  define k where "k = uint a - uint b"
  show ?thesis unfolding hsub16U_def Let_def word_of_arith k_def [symmetric]
    using drop_val [where ?'a = 32 and ?'b = 16 and n = 1 and k = k] by simp
qed

lemma hsub8U_val [scalar_rules]: "uint (hsub8U a b) = take_bit 8 ((uint a - uint b) div 2)"
proof -
  define k where "k = uint a - uint b"
  show ?thesis unfolding hsub8U_def Let_def word_of_arith k_def [symmetric]
    using drop_val [where ?'a = 32 and ?'b = 8 and n = 1 and k = k] by simp
qed

lemma take_sint: "w \<le> LENGTH('a) \<Longrightarrow> take_bit w (sint (a :: 'a::len word)) = take_bit w (uint a)"
  proof (rule bit_eqI)
  fix n assume w: "w \<le> LENGTH('a)"
  have "n < w \<Longrightarrow> min (LENGTH('a) - 1) n = n" using w by simp
  then show "bit (take_bit w (sint a)) n = bit (take_bit w (uint a)) n"
    by (auto simp: sint_uint bit_take_bit_iff bit_signed_take_bit_iff)
qed

lemma take_mult: "take_bit w (x * y) = take_bit w (take_bit w x * take_bit w (y :: int))"
  by (simp add: take_bit_eq_mod mod_mult_eq)

lemma mul_val [scalar_rules]:
  "uint (mul16 a b) = take_bit 16 (uint a * uint b)" "uint (mul32 c d) = take_bit 32 (uint c * uint d)"
proof -
  have "take_bit 16 (sint a * sint b) = take_bit 16 (uint a * uint b)"
    unfolding take_mult [of 16 "sint a"] take_mult [of 16 "uint a"] by (simp add: take_sint)
  moreover have "uint (ucast (word_of_int k :: 32 word) :: 16 word) = take_bit 16 k" for k by (simp add: ucast_of)
  ultimately show "uint (mul16 a b) = take_bit 16 (uint a * uint b)"
    unfolding mul16_def Let_def word_of_arith by metis
  show "uint (mul32 c d) = take_bit 32 (uint c * uint d)"
    by (simp add: mul32_def uint_word_arith_bintrs)
qed

lemma mulhi_val [scalar_rules]:
  "uint (mulhi16S a b) = take_bit 16 (sval 16 (uint a) * sval 16 (uint b) div 2 ^ 16)"
  "uint (mulhi16U a b) = take_bit 16 (uint a * uint b div 2 ^ 16)"
proof -
  have 1: "\<bar>sint a\<bar> \<le> 32768" "\<bar>sint b\<bar> \<le> 32768" using sint_range(3,4) [of a] sint_range(3,4) [of b] by simp_all
  define k where "k = sint a * sint b"
  have "\<bar>k\<bar> \<le> 32768 * 32768" unfolding k_def abs_mult by (rule mult_mono) (use 1 in simp_all)
  then have r: "- 2147483648 \<le> k" "k < 2147483648" by simp_all
  show "uint (mulhi16S a b) = take_bit 16 (sval 16 (uint a) * sval 16 (uint b) div 2 ^ 16)"
    unfolding mulhi16S_def Let_def word_of_arith sval_sint k_def [symmetric] of32(4) [OF r] by (simp add: ucast_of)
  define m where "m = uint a * uint b"
  show "uint (mulhi16U a b) = take_bit 16 (uint a * uint b div 2 ^ 16)"
    unfolding mulhi16U_def Let_def word_of_arith m_def [symmetric]
    using drop_val [where ?'a = 32 and ?'b = 16 and n = 16 and k = m] by simp
qed

definition all_ones :: "bool \<Rightarrow> int" where "all_ones p = (if p then - 1 else 0)"

lemma cmp_vals [scalar_rules]:
  "uint (cmpeq32 e f) = take_bit 32 (all_ones (uint e = uint f))" "uint (cmpeq16 a b) = take_bit 16 (all_ones (uint a = uint b))"
  "uint (cmpeq8 c d) = take_bit 8 (all_ones (uint c = uint d))"
  "uint (cmpgt32S e f) = take_bit 32 (all_ones (sval 32 (uint e) > sval 32 (uint f)))"
  "uint (cmpgt16S a b) = take_bit 16 (all_ones (sval 16 (uint a) > sval 16 (uint b)))"
  "uint (cmpgt8S c d) = take_bit 8 (all_ones (sval 8 (uint c) > sval 8 (uint d)))"
  unfolding cmpeq32_def cmpeq16_def cmpeq8_def cmpgt32S_def cmpgt16S_def cmpgt8S_def sval_sint casts all_ones_def
  by (simp_all add: mask_eq_exp_minus_1 word_uint_eq_iff)

lemma scast_back: "take_bit 16 (uint (scast (a :: 16 word) :: 32 word)) = uint a" "uint (ucast (scast a :: 32 word) :: 16 word) = uint a"
proof -
  have "take_bit 16 (sint a) = uint a" using take_sint [of 16 a] by (simp add: take_uint)
  moreover have "uint (scast a :: 32 word) = take_bit 32 (sint a)" unfolding scast_eq uint_word_of_int_eq by simp
  ultimately show "take_bit 16 (uint (scast a :: 32 word)) = uint a" by (simp add: take_bit_take_bit)
  then show "uint (ucast (scast a :: 32 word) :: 16 word) = uint a" by (simp add: unsigned_ucast_eq)
qed

lemma minmaxS_vals [scalar_rules]:
  "uint (max16S a b) = take_bit 16 (if sval 16 (uint a) > sval 16 (uint b) then uint a else uint b)"
  "uint (min16S a b) = take_bit 16 (if sval 16 (uint a) < sval 16 (uint b) then uint a else uint b)"
  unfolding max16S_def min16S_def casts sval_sint
  by (simp_all add: take_uint scast_back)

lemma minmaxU_vals [scalar_rules]:
  "uint (max8U c d) = take_bit 8 (if uint c > uint d then uint c else uint d)"
  "uint (min8U c d) = take_bit 8 (if uint c < uint d then uint c else uint d)"
  unfolding max8U_def min8U_def casts word_less_def
  by (simp_all add: take_uint unsigned_ucast_eq)

lemma add16_val [scalar_rules]: "uint (toUShort (ucast a + ucast b)) = take_bit 16 (uint (a :: 16 word) + uint b)"
proof -
  define k where "k = uint a + uint b"
  show ?thesis unfolding casts word_of_arith k_def [symmetric] by (simp add: ucast_of)
qed

lemma sub16_val [scalar_rules]: "uint (toUShort (ucast a - ucast b)) = take_bit 16 (uint (a :: 16 word) - uint b)"
proof -
  define k where "k = uint a - uint b"
  show ?thesis unfolding casts word_of_arith k_def [symmetric] by (simp add: ucast_of)
qed

lemma add8_val [scalar_rules]: "uint (toUChar (ucast a + ucast b)) = take_bit 8 (uint (a :: 8 word) + uint b)"
proof -
  define k where "k = uint a + uint b"
  show ?thesis unfolding casts word_of_arith k_def [symmetric] by (simp add: ucast_of)
qed

lemma sub8_val [scalar_rules]: "uint (toUChar (ucast a - ucast b)) = take_bit 8 (uint (a :: 8 word) - uint b)"
proof -
  define k where "k = uint a - uint b"
  show ?thesis unfolding casts word_of_arith k_def [symmetric] by (simp add: ucast_of)
qed

lemma add16_conv_val [scalar_rules]: "uint (ucast (ucast a + ucast b :: 32 word) :: 16 word) = take_bit 16 (uint (a :: 16 word) + uint b)"
  using add16_val [of a b] unfolding casts .

lemma sub16_conv_val [scalar_rules]: "uint (ucast (ucast a - ucast b :: 32 word) :: 16 word) = take_bit 16 (uint (a :: 16 word) - uint b)"
  using sub16_val [of a b] unfolding casts .

lemma add8_conv_val [scalar_rules]: "uint (ucast (ucast a + ucast b :: 32 word) :: 8 word) = take_bit 8 (uint (a :: 8 word) + uint b)"
  using add8_val [of a b] unfolding casts .

lemma sub8_conv_val [scalar_rules]: "uint (ucast (ucast a - ucast b :: 32 word) :: 8 word) = take_bit 8 (uint (a :: 8 word) - uint b)"
  using sub8_val [of a b] unfolding casts .

lemma addsub32_val [scalar_rules]:
  "uint (e + f) = take_bit 32 (uint (e :: 32 word) + uint f)" "uint (e - f) = take_bit 32 (uint e - uint f)"
  by (simp_all add: uint_word_arith_bintrs)




section \<open>What the helpers compute\<close>

text \<open>A specification of a helper on two vectors, by the lanes of the result. \<open>Lanewise k w s\<close>: \<open>k\<close> lanes of \<open>w\<close> bits,
  each the function \<open>s\<close> of the same lane of both arguments. \<open>Picking k w w' src s\<close>: lane \<open>i\<close> is \<open>s\<close> of one lane of \<open>w'\<close>
  bits, which \<open>src i\<close> names: from the first argument or not, and its number. \<open>Permuting k w\<close>: lane \<open>i\<close> is the lane of the
  first argument that lane \<open>i\<close> of the second one numbers.\<close>

datatype simd_spec =
    Lanewise nat nat "int \<Rightarrow> int \<Rightarrow> int"
  | Picking nat nat nat "nat \<Rightarrow> bool \<times> nat" "int \<Rightarrow> int"
  | Permuting nat nat

definition picking :: "nat \<Rightarrow> nat \<Rightarrow> nat \<Rightarrow> (nat \<Rightarrow> bool \<times> nat) \<Rightarrow> (int \<Rightarrow> int) \<Rightarrow> ('a::len word \<Rightarrow> 'a word \<Rightarrow> 'a word) \<Rightarrow> bool" where
  "picking k w w' src s f \<longleftrightarrow> (\<forall>x y. \<forall>i < k. lane w i (uint (f x y)) =
     take_bit w (s (lane w' (snd (src i)) (uint (if fst (src i) then x else y)))))"

definition permuting :: "nat \<Rightarrow> nat \<Rightarrow> ('a::len word \<Rightarrow> 'a word \<Rightarrow> 'a word) \<Rightarrow> bool" where
  "permuting k w f \<longleftrightarrow> (\<forall>x y. \<forall>i < k. lane w i (uint (f x y)) = lane w (nat (lane w i (uint y)) mod k) (uint x))"

fun meets :: "simd_spec \<Rightarrow> ('a::len word \<Rightarrow> 'a word \<Rightarrow> 'a word) \<Rightarrow> bool" where
  "meets (Lanewise k w s) f = (k * w = LENGTH('a) \<and> lanewise k w f s)"
| "meets (Picking k w w' src s) f = (k * w = LENGTH('a) \<and> picking k w w' src s f)"
| "meets (Permuting k w) f = (k * w = LENGTH('a) \<and> permuting k w f)"

definition simd_specs :: "(IROp list \<times> simd_spec) list" where
  "simd_specs = [
     ([Iop_Add8x8],
        Lanewise 8 8 (+)),
     ([Iop_Add16x4],
        Lanewise 4 16 (+)),
     ([Iop_Add32x2],
        Lanewise 2 32 (+)),
     ([Iop_Avg8Ux8],
        Lanewise 8 8 (\<lambda>x y. (x + y + 1) div 2)),
     ([Iop_Avg16Ux4],
        Lanewise 4 16 (\<lambda>x y. (x + y + 1) div 2)),
     ([Iop_CmpEQ8x8],
        Lanewise 8 8 (\<lambda>x y. all_ones (x = y))),
     ([Iop_CmpEQ16x4],
        Lanewise 4 16 (\<lambda>x y. all_ones (x = y))),
     ([Iop_CmpEQ32x2],
        Lanewise 2 32 (\<lambda>x y. all_ones (x = y))),
     ([Iop_CmpGT8Sx8],
        Lanewise 8 8 (\<lambda>x y. all_ones (sval 8 x > sval 8 y))),
     ([Iop_CmpGT16Sx4],
        Lanewise 4 16 (\<lambda>x y. all_ones (sval 16 x > sval 16 y))),
     ([Iop_CmpGT32Sx2],
        Lanewise 2 32 (\<lambda>x y. all_ones (sval 32 x > sval 32 y))),
     ([Iop_InterleaveHI8x8],
        Picking 8 8 8 (\<lambda>i. (odd i, 4 + i div 2)) (\<lambda>x. x)),
     ([Iop_InterleaveLO8x8],
        Picking 8 8 8 (\<lambda>i. (odd i, i div 2)) (\<lambda>x. x)),
     ([Iop_InterleaveHI16x4],
        Picking 4 16 16 (\<lambda>i. (odd i, 2 + i div 2)) (\<lambda>x. x)),
     ([Iop_InterleaveLO16x4],
        Picking 4 16 16 (\<lambda>i. (odd i, i div 2)) (\<lambda>x. x)),
     ([Iop_InterleaveHI32x2],
        Picking 2 32 32 (\<lambda>i. (odd i, 1 + i div 2)) (\<lambda>x. x)),
     ([Iop_InterleaveLO32x2],
        Picking 2 32 32 (\<lambda>i. (odd i, i div 2)) (\<lambda>x. x)),
     ([Iop_CatOddLanes16x4],
        Picking 4 16 16 (\<lambda>i. (2 \<le> i, 2 * (i mod 2) + 1)) (\<lambda>x. x)),
     ([Iop_CatEvenLanes16x4],
        Picking 4 16 16 (\<lambda>i. (2 \<le> i, 2 * (i mod 2))) (\<lambda>x. x)),
     ([Iop_Perm8x8],
        Permuting 8 8),
     ([Iop_Max8Ux8],
        Lanewise 8 8 (\<lambda>x y. if x > y then x else y)),
     ([Iop_Max16Sx4],
        Lanewise 4 16 (\<lambda>x y. if sval 16 x > sval 16 y then x else y)),
     ([Iop_Min8Ux8],
        Lanewise 8 8 (\<lambda>x y. if x < y then x else y)),
     ([Iop_Min16Sx4],
        Lanewise 4 16 (\<lambda>x y. if sval 16 x < sval 16 y then x else y)),
     ([Iop_Mul16x4],
        Lanewise 4 16 (*)),
     ([Iop_Mul32x2],
        Lanewise 2 32 (*)),
     ([Iop_MulHi16Sx4],
        Lanewise 4 16 (\<lambda>x y. sval 16 x * sval 16 y div 2 ^ 16)),
     ([Iop_MulHi16Ux4],
        Lanewise 4 16 (\<lambda>x y. x * y div 2 ^ 16)),
     ([Iop_QAdd8Sx8],
        Lanewise 8 8 (\<lambda>x y. clampS 8 (sval 8 x + sval 8 y))),
     ([Iop_QAdd16Sx4],
        Lanewise 4 16 (\<lambda>x y. clampS 16 (sval 16 x + sval 16 y))),
     ([Iop_QAdd8Ux8],
        Lanewise 8 8 (\<lambda>x y. clampU 8 (x + y))),
     ([Iop_QAdd16Ux4],
        Lanewise 4 16 (\<lambda>x y. clampU 16 (x + y))),
     ([Iop_QNarrowBin32Sto16Sx4],
        Picking 4 16 32 (\<lambda>i. (2 \<le> i, i mod 2)) (\<lambda>x. clampS 16 (sval 32 x))),
     ([Iop_QNarrowBin16Sto8Sx8],
        Picking 8 8 16 (\<lambda>i. (4 \<le> i, i mod 4)) (\<lambda>x. clampS 8 (sval 16 x))),
     ([Iop_QNarrowBin16Sto8Ux8],
        Picking 8 8 16 (\<lambda>i. (4 \<le> i, i mod 4)) (\<lambda>x. clampU 8 (sval 16 x))),
     ([Iop_NarrowBin16to8x8],
        Picking 8 8 16 (\<lambda>i. (4 \<le> i, i mod 4)) (\<lambda>x. x)),
     ([Iop_NarrowBin32to16x4],
        Picking 4 16 32 (\<lambda>i. (2 \<le> i, i mod 2)) (\<lambda>x. x)),
     ([Iop_QSub8Sx8],
        Lanewise 8 8 (\<lambda>x y. clampS 8 (sval 8 x - sval 8 y))),
     ([Iop_QSub16Sx4],
        Lanewise 4 16 (\<lambda>x y. clampS 16 (sval 16 x - sval 16 y))),
     ([Iop_QSub8Ux8],
        Lanewise 8 8 (\<lambda>x y. clampU 8 (x - y))),
     ([Iop_QSub16Ux4],
        Lanewise 4 16 (\<lambda>x y. clampU 16 (x - y))),
     ([Iop_Sub8x8],
        Lanewise 8 8 (-)),
     ([Iop_Sub16x4],
        Lanewise 4 16 (-)),
     ([Iop_Sub32x2],
        Lanewise 2 32 (-)),
     ([Iop_Add16x2],
        Lanewise 2 16 (+)),
     ([Iop_Sub16x2],
        Lanewise 2 16 (-)),
     ([Iop_HAdd16Ux2],
        Lanewise 2 16 (\<lambda>x y. (x + y) div 2)),
     ([Iop_HAdd16Sx2],
        Lanewise 2 16 (\<lambda>x y. (sval 16 x + sval 16 y) div 2)),
     ([Iop_HSub16Ux2],
        Lanewise 2 16 (\<lambda>x y. (x - y) div 2)),
     ([Iop_HSub16Sx2],
        Lanewise 2 16 (\<lambda>x y. (sval 16 x - sval 16 y) div 2)),
     ([Iop_QAdd16Sx2],
        Lanewise 2 16 (\<lambda>x y. clampS 16 (sval 16 x + sval 16 y))),
     ([Iop_QAdd16Ux2],
        Lanewise 2 16 (\<lambda>x y. clampU 16 (x + y))),
     ([Iop_QSub16Sx2],
        Lanewise 2 16 (\<lambda>x y. clampS 16 (sval 16 x - sval 16 y))),
     ([Iop_Add8x4],
        Lanewise 4 8 (+)),
     ([Iop_Sub8x4],
        Lanewise 4 8 (-)),
     ([Iop_HAdd8Ux4],
        Lanewise 4 8 (\<lambda>x y. (x + y) div 2)),
     ([Iop_HAdd8Sx4],
        Lanewise 4 8 (\<lambda>x y. (sval 8 x + sval 8 y) div 2)),
     ([Iop_HSub8Ux4],
        Lanewise 4 8 (\<lambda>x y. (x - y) div 2)),
     ([Iop_HSub8Sx4],
        Lanewise 4 8 (\<lambda>x y. (sval 8 x - sval 8 y) div 2)),
     ([Iop_QAdd8Sx4],
        Lanewise 4 8 (\<lambda>x y. clampS 8 (sval 8 x + sval 8 y))),
     ([Iop_QAdd8Ux4],
        Lanewise 4 8 (\<lambda>x y. clampU 8 (x + y))),
     ([Iop_QSub8Sx4],
        Lanewise 4 8 (\<lambda>x y. clampS 8 (sval 8 x - sval 8 y))),
     ([Iop_QSub8Ux4],
        Lanewise 4 8 (\<lambda>x y. clampU 8 (x - y))),
     ([Iop_Sad8Ux4],
        Lanewise 1 32 (\<lambda>x y. sum_list (map (\<lambda>i. \<bar>lane 8 i x - lane 8 i y\<bar>) [0, 1, 2, 3]))),
     ([Iop_QAdd32S],
        Lanewise 1 32 (\<lambda>x y. clampS 32 (sval 32 x + sval 32 y))),
     ([Iop_QSub32S],
        Lanewise 1 32 (\<lambda>x y. clampS 32 (sval 32 x - sval 32 y))),
     ([Iop_QSub16Ux2],
        Lanewise 2 16 (\<lambda>x y. clampU 16 (x - y))),
     ([Iop_DivU32],
        Lanewise 1 32 (\<lambda>x y. if y = 0 then 0 else x div y)),
     ([Iop_DivS32],
        Lanewise 1 32 (\<lambda>x y. if y = 0 then 0 else sval 32 x sdiv sval 32 y))]"

definition simd_groups :: label_tree where
  "simd_groups =
     Below Iop_Sub32x2 (Below Iop_QAdd8Ux4 (Below Iop_QSub16Sx2 (Below Iop_Add16x2 (Below Iop_QAdd32S
     (Below Iop_DivS32 (Group 67) (Group 68)) (Below Iop_QSub32S (Group 64) (Group 65))) (Below
     Iop_QAdd16Sx2 (Below Iop_Sub16x2 (Group 44) (Group 45)) (Below Iop_QAdd16Ux2 (Group 50) (Group
     51)))) (Below Iop_HSub16Ux2 (Below Iop_HAdd16Ux2 (Below Iop_QSub16Ux2 (Group 52) (Group 66)) (Below
     Iop_HAdd16Sx2 (Group 46) (Group 47))) (Below Iop_Add8x4 (Below Iop_HSub16Sx2 (Group 48) (Group 49))
     (Below Iop_Sub8x4 (Group 53) (Below Iop_QAdd8Sx4 (Group 54) (Group 59)))))) (Below Iop_Add8x8 (Below
     Iop_HAdd8Sx4 (Below Iop_QSub8Ux4 (Below Iop_QSub8Sx4 (Group 60) (Group 61)) (Below Iop_HAdd8Ux4
     (Group 62) (Group 55))) (Below Iop_HSub8Sx4 (Below Iop_HSub8Ux4 (Group 56) (Group 57)) (Below
     Iop_Sad8Ux4 (Group 58) (Group 63)))) (Below Iop_QAdd16Ux4 (Below Iop_Add32x2 (Below Iop_Add16x4
     (Group 0) (Group 1)) (Below Iop_QAdd8Ux8 (Group 2) (Group 30))) (Below Iop_QAdd16Sx4 (Below
     Iop_QAdd8Sx8 (Group 31) (Group 28)) (Below Iop_Sub8x8 (Group 29) (Below Iop_Sub16x4 (Group 41)
     (Group 42))))))) (Below Iop_CmpEQ32x2 (Below Iop_MulHi16Sx4 (Below Iop_QSub16Sx4 (Below
     Iop_QSub16Ux4 (Below Iop_QSub8Ux8 (Group 43) (Group 39)) (Below Iop_QSub8Sx8 (Group 40) (Group 37)))
     (Below Iop_Mul32x2 (Below Iop_Mul16x4 (Group 38) (Group 24)) (Below Iop_MulHi16Ux4 (Group 25) (Group
     27)))) (Below Iop_Max8Ux8 (Below Iop_Avg16Ux4 (Below Iop_Avg8Ux8 (Group 26) (Group 3)) (Below
     Iop_Max16Sx4 (Group 4) (Group 21))) (Below Iop_Min8Ux8 (Below Iop_Min16Sx4 (Group 20) (Group 23))
     (Below Iop_CmpEQ8x8 (Group 22) (Below Iop_CmpEQ16x4 (Group 5) (Group 6)))))) (Below
     Iop_InterleaveHI8x8 (Below Iop_QNarrowBin16Sto8Ux8 (Below Iop_CmpGT16Sx4 (Below Iop_CmpGT8Sx8 (Group
     7) (Group 8)) (Below Iop_CmpGT32Sx2 (Group 9) (Group 10))) (Below Iop_QNarrowBin32Sto16Sx4 (Below
     Iop_QNarrowBin16Sto8Sx8 (Group 34) (Group 33)) (Below Iop_NarrowBin16to8x8 (Group 32) (Below
     Iop_NarrowBin32to16x4 (Group 35) (Group 36))))) (Below Iop_InterleaveLO16x4 (Below
     Iop_InterleaveHI32x2 (Below Iop_InterleaveHI16x4 (Group 11) (Group 13)) (Below Iop_InterleaveLO8x8
     (Group 15) (Group 12))) (Below Iop_CatOddLanes16x4 (Below Iop_InterleaveLO32x2 (Group 14) (Group
     16)) (Below Iop_CatEvenLanes16x4 (Group 17) (Below Iop_Perm8x8 (Group 18) (Group 19)))))))"

lemma simd_spec_eqs: "switch_eqs (switch simd_specs) simd_specs"
proof (rule switch_eqsI)
  show "switch_ok simd_groups 0 simd_specs"
    unfolding simd_groups_def simd_specs_def
    by (simp only: switch_check list.size cong: group_of_cong in_group_cong switch_ok_cong if_weak_cong)
qed

lemmas simd_spec_rules = simd_spec_eqs [unfolded simd_specs_def switch_eqs_unfold, folded simd_specs_def]

lemma qnarrow_vals [scalar_rules]:
  "uint (qnarrow32Sto16S e) = take_bit 16 (clampS 16 (sval 32 (uint e)))"
  "uint (qnarrow16Sto8S a) = take_bit 8 (clampS 8 (sval 16 (uint a)))"
  "uint (qnarrow16Sto8U a) = take_bit 8 (clampU 8 (sval 16 (uint a)))"
proof -
  have e: "e = word_of_int (sint e)" and a: "a = word_of_int (sint a)" by simp_all
  show "uint (qnarrow32Sto16S e) = take_bit 16 (clampS 16 (sval 32 (uint e)))"
    unfolding qnarrow32Sto16S_def Let_def sval_sint
    using take_sint [of 16 e] by (auto simp: clampS_def max_def min_def unsigned_ucast_eq)
  show "uint (qnarrow16Sto8S a) = take_bit 8 (clampS 8 (sval 16 (uint a)))"
    unfolding qnarrow16Sto8S_def Let_def sval_sint
    using take_sint [of 8 a] by (auto simp: clampS_def max_def min_def unsigned_ucast_eq)
  show "uint (qnarrow16Sto8U a) = take_bit 8 (clampU 8 (sval 16 (uint a)))"
    unfolding qnarrow16Sto8U_def Let_def sval_sint
    using take_sint [of 8 a] by (auto simp: clampU_def max_def min_def unsigned_ucast_eq)
qed

lemma narrow_vals [scalar_rules]:
  "uint (narrow32to16 e) = take_bit 16 (uint e)" "uint (narrow16to8 a) = take_bit 8 (uint a)"
  by (simp_all add: narrow32to16_def narrow16to8_def unsigned_ucast_eq)

section \<open>Division\<close>

lemma sdiv_bound: "\<bar>x sdiv y\<bar> \<le> \<bar>x :: int\<bar>"
proof (cases "y = 0")
  case False
  have "\<bar>x\<bar> div \<bar>y\<bar> \<le> \<bar>x\<bar>" using zdiv_mono2 [of "\<bar>x\<bar>" 1 "\<bar>y\<bar>"] False by simp
  moreover have "0 \<le> \<bar>x\<bar> div \<bar>y\<bar>" using False by (simp add: pos_imp_zdiv_nonneg_iff)
  ultimately show ?thesis by (simp add: signed_divide_int_def abs_mult abs_sgn_eq)
qed (simp add: signed_divide_int_def)

lemma sdiv_rest:
  assumes "y \<noteq> (0 :: int)"
  shows "\<bar>x - x sdiv y * y\<bar> < \<bar>y\<bar>" "0 \<le> (x - x sdiv y * y) * x"
proof -
  have r: "x - x sdiv y * y = sgn x * (\<bar>x\<bar> mod \<bar>y\<bar>)"
  proof -
    have "x sdiv y * y = sgn x * (\<bar>x\<bar> div \<bar>y\<bar> * (sgn y * y))" by (simp add: signed_divide_int_def sgn_mult)
    also have "sgn y * y = \<bar>y\<bar>" by (simp add: abs_sgn mult.commute)
    also have "\<bar>x\<bar> div \<bar>y\<bar> * \<bar>y\<bar> = \<bar>x\<bar> - \<bar>x\<bar> mod \<bar>y\<bar>" by (simp add: minus_mod_eq_div_mult)
    finally show ?thesis by (simp add: right_diff_distrib sgn_mult_abs)
  qed
  have "0 \<le> \<bar>x\<bar> mod \<bar>y\<bar>" "\<bar>x\<bar> mod \<bar>y\<bar> < \<bar>y\<bar>" using assms by simp_all
  have rx: "sgn x * (\<bar>x\<bar> mod \<bar>y\<bar>) * x = \<bar>x\<bar> mod \<bar>y\<bar> * \<bar>x\<bar>" by (simp add: abs_sgn)
  then show "\<bar>x - x sdiv y * y\<bar> < \<bar>y\<bar>" unfolding r using assms by (simp add: abs_mult abs_sgn_eq)
  have "0 \<le> \<bar>x\<bar> mod \<bar>y\<bar> * \<bar>x\<bar>" using assms by simp
  then show "0 \<le> (x - x sdiv y * y) * x" unfolding r rx .
qed

lemma sdiv_fits:
  assumes "- b \<le> x" "x < b" "- b \<le> y" "\<not> (x = - b \<and> y = (-1 :: int))"
  shows "- b \<le> x sdiv y" "x sdiv y < b"
proof -
  have a: "\<bar>x sdiv y\<bar> \<le> \<bar>x\<bar>" by (rule sdiv_bound)
  then show "- b \<le> x sdiv y" using assms by linarith
  show "x sdiv y < b"
  proof (cases "x = - b")
    case True
    then have b: "0 < b" using assms(2) by linarith
    show ?thesis
    proof (cases "0 \<le> y")
      case True
      then have "0 \<le> b div y" using b by (cases "y = 0") (simp_all add: pos_imp_zdiv_nonneg_iff)
      then show ?thesis using True b \<open>x = - b\<close> by (simp add: signed_divide_int_def sgn_if)
    next
      case False
      then have "2 \<le> - y" using assms(4) \<open>x = - b\<close> by linarith
      then have "b div - y \<le> b div 2" using b by (intro zdiv_mono2) simp_all
      then have "b div - y < b" using b by linarith
      then show ?thesis using False b \<open>x = - b\<close> by (simp add: signed_divide_int_def sgn_if)
    qed
  qed (use a assms in linarith)
qed

lemma sint_eq: "x = y \<longleftrightarrow> sint x = sint (y :: 'a::len word)"
  by (auto intro: signed_word_eqI)

lemma udiv_returns:
  "h_calc_udiv32_w_arm_semantics e f = Some (if f = 0 then 0 else e div f)"
  "h_calc_udiv64_w_arm_semantics a b = Some (if b = 0 then 0 else a div b)"
  by (simp_all add: h_calc_udiv32_w_arm_semantics_def h_calc_udiv64_w_arm_semantics_def c_udiv_def)

lemma sdiv32_returns:
  "\<exists>q. h_calc_sdiv32_w_arm_semantics e f = Some q \<and>
     sint q = (if f = 0 then 0 else if sint e = - (2 ^ 31) \<and> sint f = - 1 then - (2 ^ 31) else sint e sdiv sint f)"
proof -
  have guard: "e = 0x80000000 \<longleftrightarrow> sint e = - (2 ^ 31)" "f = 0xFFFFFFFF \<longleftrightarrow> sint f = - 1"
    by (simp_all add: sint_eq)
  have fits: "- (2 ^ 31) \<le> sint e sdiv sint f \<and> sint e sdiv sint f < 2 ^ 31" if "\<not> (sint e = - (2 ^ 31) \<and> sint f = - 1)"
    using sdiv_fits [of "2 ^ 31" "sint e" "sint f"] that sint_range(5,6) [of e] sint_range(5) [of f] by simp
  then have "sint (word_of_int (sint e sdiv sint f) :: 32 word) = sint e sdiv sint f" if "\<not> (sint e = - (2 ^ 31) \<and> sint f = - 1)"
    using that by (intro of32(1)) simp_all
  with fits show ?thesis unfolding h_calc_sdiv32_w_arm_semantics_def c_sdiv_def guard by (auto simp: Let_def)
qed

lemma sdiv64_returns:
  "\<exists>q. h_calc_sdiv64_w_arm_semantics e f = Some q \<and>
     sint q = (if f = 0 then 0 else if sint e = - (2 ^ 63) \<and> sint f = - 1 then - (2 ^ 63) else sint e sdiv sint f)"
proof -
  have guard: "e = 0x8000000000000000 \<longleftrightarrow> sint e = - (2 ^ 63)" "f = 0xFFFFFFFFFFFFFFFF \<longleftrightarrow> sint f = - 1"
    by (simp_all add: sint_eq)
  have r: "- (2 ^ 63) \<le> sint w" "sint w < 2 ^ 63" for w :: "64 word" using sint_ge [of w] sint_lt [of w] by simp_all
  have fits: "- (2 ^ 63) \<le> sint e sdiv sint f \<and> sint e sdiv sint f < 2 ^ 63" if "\<not> (sint e = - (2 ^ 63) \<and> sint f = - 1)"
    using sdiv_fits [of "2 ^ 63" "sint e" "sint f"] that r by simp
  then have "sint (word_of_int (sint e sdiv sint f) :: 64 word) = sint e sdiv sint f" if "\<not> (sint e = - (2 ^ 63) \<and> sint f = - 1)"
    using that by (intro of32(2)) simp_all
  with fits show ?thesis unfolding h_calc_sdiv64_w_arm_semantics_def c_sdiv_def guard by (auto simp: Let_def)
qed

lemma quotients [scalar_rules]:
  "uint (returned h_calc_udiv32_w_arm_semantics e f) = take_bit 32 (if uint f = 0 then 0 else uint e div uint f)"
  "uint (returned h_calc_sdiv32_w_arm_semantics e f) = take_bit 32 (if uint f = 0 then 0 else sval 32 (uint e) sdiv sval 32 (uint f))"
proof -
  have "uint e div uint f = uint (e div f)" by (simp add: uint_div)
  then show "uint (returned h_calc_udiv32_w_arm_semantics e f) = take_bit 32 (if uint f = 0 then 0 else uint e div uint f)"
    by (simp add: returned_def udiv_returns take_uint uint_0_iff)
  obtain q where q: "h_calc_sdiv32_w_arm_semantics e f = Some q"
    "sint q = (if f = 0 then 0 else if sint e = - (2 ^ 31) \<and> sint f = - 1 then - (2 ^ 31) else sint e sdiv sint f)"
    using sdiv32_returns by blast
  have "uint q = take_bit 32 (sint q)" by (simp add: take_sint take_uint)
  moreover have "take_bit 32 (sint q) = take_bit 32 (if uint f = 0 then 0 else sint e sdiv sint f)"
    unfolding q(2) uint_0_iff by (auto simp: signed_divide_int_def)
  ultimately show "uint (returned h_calc_sdiv32_w_arm_semantics e f) =
      take_bit 32 (if uint f = 0 then 0 else sval 32 (uint e) sdiv sval 32 (uint f))"
    by (simp add: returned_def q(1) sval_sint)
qed

lemma lanewise_one:
  "(\<And>a b. uint (g a b) = take_bit 32 (s (uint a) (uint b))) \<Longrightarrow> lanewise 1 32 (g :: 32 word \<Rightarrow> 32 word \<Rightarrow> 32 word) s"
  by (simp add: lanewise_def lane_def take_uint)

lemma lanewise_32_32:
  "lanewise 1 32 h_generic_calc_QAdd32S (\<lambda>x y. clampS 32 (sval 32 x + sval 32 y))"
  "lanewise 1 32 h_generic_calc_QSub32S (\<lambda>x y. clampS 32 (sval 32 x - sval 32 y))"
  "lanewise 1 32 (returned h_calc_udiv32_w_arm_semantics) (\<lambda>x y. if y = 0 then 0 else x div y)"
  "lanewise 1 32 (returned h_calc_sdiv32_w_arm_semantics) (\<lambda>x y. if y = 0 then 0 else sval 32 x sdiv sval 32 y)"
  by (rule lanewise_one, simp add: scalar_rules h_generic_calc_QAdd32S_def h_generic_calc_QSub32S_def)+

lemma absdiff8U_val: "absdiff8U c d = word_of_int \<bar>uint c - uint d\<bar>"
  by (simp add: absdiff8U_def Let_def abs_if word_le_def unsigned_ucast_eq take_uint)

lemma lanewise_Sad8Ux4: "lanewise 1 32 h_generic_calc_Sad8Ux4 (\<lambda>x y. sum_list (map (\<lambda>i. \<bar>lane 8 i x - lane 8 i y\<bar>) [0, 1, 2, 3]))"
proof (rule lanewise_one)
  fix a b :: "32 word"
  have "h_generic_calc_Sad8Ux4 a b = word_of_int (sum_list (map (\<lambda>i. \<bar>lane 8 i (uint a) - lane 8 i (uint b)\<bar>) [0, 1, 2, 3]))"
    unfolding h_generic_calc_Sad8Ux4_def absdiff8U_val lane_sel of_int_add [symmetric] by (simp add: add_ac)
  then show "uint (h_generic_calc_Sad8Ux4 a b) = take_bit 32 (sum_list (map (\<lambda>i. \<bar>lane 8 i (uint a) - lane 8 i (uint b)\<bar>) [0, 1, 2, 3]))"
    by (simp only: uint_word_of_int_eq) simp
qed

lemma meetsI:
  fixes f :: "'a::len word \<Rightarrow> 'a word \<Rightarrow> 'a word"
  assumes "switch simd_specs op = Some sp"
  shows "sp = Lanewise k w s \<Longrightarrow> k * w = LENGTH('a) \<Longrightarrow> lanewise k w f s \<Longrightarrow> \<exists>sp. switch simd_specs op = Some sp \<and> meets sp f"
    "sp = Picking k w w' src r \<Longrightarrow> k * w = LENGTH('a) \<Longrightarrow> picking k w w' src r f \<Longrightarrow> \<exists>sp. switch simd_specs op = Some sp \<and> meets sp f"
    "sp = Permuting k w \<Longrightarrow> k * w = LENGTH('a) \<Longrightarrow> permuting k w f \<Longrightarrow> \<exists>sp. switch simd_specs op = Some sp \<and> meets sp f"
  using assms by auto

lemma picking_8_8:
  "picking 8 8 8 (\<lambda>i. (odd i, 4 + i div 2)) (\<lambda>x. x) h_generic_calc_InterleaveHI8x8"
  "picking 8 8 8 (\<lambda>i. (odd i, i div 2)) (\<lambda>x. x) h_generic_calc_InterleaveLO8x8"
  unfolding picking_def less_numerals h_generic_calc_InterleaveHI8x8_def h_generic_calc_InterleaveLO8x8_def Let_def
  by (intro allI impI; elim insertE emptyE; hypsubst; simp add: mk_join lane_join_nth lane_sel [symmetric] take_uint scalar_rules del: join.simps)+

lemma picking_4_16:
  "picking 4 16 16 (\<lambda>i. (odd i, 2 + i div 2)) (\<lambda>x. x) h_generic_calc_InterleaveHI16x4"
  "picking 4 16 16 (\<lambda>i. (odd i, i div 2)) (\<lambda>x. x) h_generic_calc_InterleaveLO16x4"
  "picking 4 16 16 (\<lambda>i. (2 \<le> i, 2 * (i mod 2) + 1)) (\<lambda>x. x) h_generic_calc_CatOddLanes16x4"
  "picking 4 16 16 (\<lambda>i. (2 \<le> i, 2 * (i mod 2))) (\<lambda>x. x) h_generic_calc_CatEvenLanes16x4"
  unfolding picking_def less_numerals h_generic_calc_InterleaveHI16x4_def h_generic_calc_InterleaveLO16x4_def h_generic_calc_CatOddLanes16x4_def h_generic_calc_CatEvenLanes16x4_def Let_def
  by (intro allI impI; elim insertE emptyE; hypsubst; simp add: mk_join lane_join_nth lane_sel [symmetric] take_uint scalar_rules del: join.simps)+

lemma picking_2_32:
  "picking 2 32 32 (\<lambda>i. (odd i, 1 + i div 2)) (\<lambda>x. x) h_generic_calc_InterleaveHI32x2"
  "picking 2 32 32 (\<lambda>i. (odd i, i div 2)) (\<lambda>x. x) h_generic_calc_InterleaveLO32x2"
  unfolding picking_def less_numerals h_generic_calc_InterleaveHI32x2_def h_generic_calc_InterleaveLO32x2_def Let_def
  by (intro allI impI; elim insertE emptyE; hypsubst; simp add: mk_join lane_join_nth lane_sel [symmetric] take_uint scalar_rules del: join.simps)+

lemma picking_4_32:
  "picking 4 16 32 (\<lambda>i. (2 \<le> i, i mod 2)) (\<lambda>x. clampS 16 (sval 32 x)) h_generic_calc_QNarrowBin32Sto16Sx4"
  "picking 4 16 32 (\<lambda>i. (2 \<le> i, i mod 2)) (\<lambda>x. x) h_generic_calc_NarrowBin32to16x4"
  unfolding picking_def less_numerals h_generic_calc_QNarrowBin32Sto16Sx4_def h_generic_calc_NarrowBin32to16x4_def Let_def
  by (intro allI impI; elim insertE emptyE; hypsubst; simp add: mk_join lane_join_nth lane_sel [symmetric] take_uint scalar_rules del: join.simps)+

lemma picking_8_16:
  "picking 8 8 16 (\<lambda>i. (4 \<le> i, i mod 4)) (\<lambda>x. clampS 8 (sval 16 x)) h_generic_calc_QNarrowBin16Sto8Sx8"
  "picking 8 8 16 (\<lambda>i. (4 \<le> i, i mod 4)) (\<lambda>x. clampU 8 (sval 16 x)) h_generic_calc_QNarrowBin16Sto8Ux8"
  "picking 8 8 16 (\<lambda>i. (4 \<le> i, i mod 4)) (\<lambda>x. x) h_generic_calc_NarrowBin16to8x8"
  unfolding picking_def less_numerals h_generic_calc_QNarrowBin16Sto8Sx8_def h_generic_calc_QNarrowBin16Sto8Ux8_def h_generic_calc_NarrowBin16to8x8_def Let_def
  by (intro allI impI; elim insertE emptyE; hypsubst; simp add: mk_join lane_join_nth lane_sel [symmetric] take_uint scalar_rules del: join.simps)+

lemma take_lane: "take_bit w (lane w i x) = lane w i x"
  by (simp add: lane_def)

lemma index8x8_val: "uint (index8x8 x v) = lane 8 (nat (uint v) mod 8) (uint x)"
proof -
  have "v AND 7 = take_bit 3 v" by (simp add: take_bit_eq_mask mask_eq_exp_minus_1)
  moreover have "unat (take_bit 3 v) = unat v mod 8" unfolding unsigned_take_bit_eq by (simp add: take_bit_eq_mod)
  ultimately have v: "unat (v AND 7) = unat v mod 8" by simp
  have "8 * unat (v AND 7) + n < 64" if "n < 8" for n using that unfolding v by linarith
  then have "index8x8 x v = ucast (drop_bit (8 * unat (v AND 7)) x)"
    unfolding index8x8_def casts Let_def mask_words by (intro bit_word_eqI) (auto simp: bit_simps)
  then show ?thesis by (simp add: v lane_def unsigned_ucast_eq unsigned_drop_bit_eq take_bit_drop_bit)
qed

lemma permuting_Perm8x8: "permuting 8 8 h_generic_calc_Perm8x8"
  unfolding permuting_def less_numerals h_generic_calc_Perm8x8_def
  by (intro allI impI; elim insertE emptyE; hypsubst; simp add: mk_join lane_join_nth lane_sel [symmetric] take_uint take_lane index8x8_val del: join.simps)+

lemmas lane_defs_64_8 = h_generic_calc_Add8x8_def h_generic_calc_Avg8Ux8_def h_generic_calc_CmpEQ8x8_def h_generic_calc_CmpGT8Sx8_def h_generic_calc_Max8Ux8_def h_generic_calc_Min8Ux8_def h_generic_calc_QAdd8Sx8_def h_generic_calc_QAdd8Ux8_def h_generic_calc_QSub8Sx8_def h_generic_calc_QSub8Ux8_def h_generic_calc_Sub8x8_def

lemma lanewise_64_8:
  "lanewise 8 8 h_generic_calc_Add8x8 (+)"
  "lanewise 8 8 h_generic_calc_Avg8Ux8 (\<lambda>x y. (x + y + 1) div 2)"
  "lanewise 8 8 h_generic_calc_CmpEQ8x8 (\<lambda>x y. all_ones (x = y))"
  "lanewise 8 8 h_generic_calc_CmpGT8Sx8 (\<lambda>x y. all_ones (sval 8 x > sval 8 y))"
  "lanewise 8 8 h_generic_calc_Max8Ux8 (\<lambda>x y. if x > y then x else y)"
  "lanewise 8 8 h_generic_calc_Min8Ux8 (\<lambda>x y. if x < y then x else y)"
  "lanewise 8 8 h_generic_calc_QAdd8Sx8 (\<lambda>x y. clampS 8 (sval 8 x + sval 8 y))"
  "lanewise 8 8 h_generic_calc_QAdd8Ux8 (\<lambda>x y. clampU 8 (x + y))"
  "lanewise 8 8 h_generic_calc_QSub8Sx8 (\<lambda>x y. clampS 8 (sval 8 x - sval 8 y))"
  "lanewise 8 8 h_generic_calc_QSub8Ux8 (\<lambda>x y. clampU 8 (x - y))"
  "lanewise 8 8 h_generic_calc_Sub8x8 (-)"
  by (rule lanewise_mk(3), rule lane_defs_64_8, simp add: scalar_rules)+

lemmas lane_defs_64_16 = h_generic_calc_Add16x4_def h_generic_calc_Avg16Ux4_def h_generic_calc_CmpEQ16x4_def h_generic_calc_CmpGT16Sx4_def h_generic_calc_Max16Sx4_def h_generic_calc_Min16Sx4_def h_generic_calc_Mul16x4_def h_generic_calc_MulHi16Sx4_def h_generic_calc_MulHi16Ux4_def h_generic_calc_QAdd16Sx4_def h_generic_calc_QAdd16Ux4_def h_generic_calc_QSub16Sx4_def h_generic_calc_QSub16Ux4_def h_generic_calc_Sub16x4_def

lemma lanewise_64_16:
  "lanewise 4 16 h_generic_calc_Add16x4 (+)"
  "lanewise 4 16 h_generic_calc_Avg16Ux4 (\<lambda>x y. (x + y + 1) div 2)"
  "lanewise 4 16 h_generic_calc_CmpEQ16x4 (\<lambda>x y. all_ones (x = y))"
  "lanewise 4 16 h_generic_calc_CmpGT16Sx4 (\<lambda>x y. all_ones (sval 16 x > sval 16 y))"
  "lanewise 4 16 h_generic_calc_Max16Sx4 (\<lambda>x y. if sval 16 x > sval 16 y then x else y)"
  "lanewise 4 16 h_generic_calc_Min16Sx4 (\<lambda>x y. if sval 16 x < sval 16 y then x else y)"
  "lanewise 4 16 h_generic_calc_Mul16x4 (*)"
  "lanewise 4 16 h_generic_calc_MulHi16Sx4 (\<lambda>x y. sval 16 x * sval 16 y div 2 ^ 16)"
  "lanewise 4 16 h_generic_calc_MulHi16Ux4 (\<lambda>x y. x * y div 2 ^ 16)"
  "lanewise 4 16 h_generic_calc_QAdd16Sx4 (\<lambda>x y. clampS 16 (sval 16 x + sval 16 y))"
  "lanewise 4 16 h_generic_calc_QAdd16Ux4 (\<lambda>x y. clampU 16 (x + y))"
  "lanewise 4 16 h_generic_calc_QSub16Sx4 (\<lambda>x y. clampS 16 (sval 16 x - sval 16 y))"
  "lanewise 4 16 h_generic_calc_QSub16Ux4 (\<lambda>x y. clampU 16 (x - y))"
  "lanewise 4 16 h_generic_calc_Sub16x4 (-)"
  by (rule lanewise_mk(2), rule lane_defs_64_16, simp add: scalar_rules)+

lemmas lane_defs_64_32 = h_generic_calc_Add32x2_def h_generic_calc_CmpEQ32x2_def h_generic_calc_CmpGT32Sx2_def h_generic_calc_Mul32x2_def h_generic_calc_Sub32x2_def

lemma lanewise_64_32:
  "lanewise 2 32 h_generic_calc_Add32x2 (+)"
  "lanewise 2 32 h_generic_calc_CmpEQ32x2 (\<lambda>x y. all_ones (x = y))"
  "lanewise 2 32 h_generic_calc_CmpGT32Sx2 (\<lambda>x y. all_ones (sval 32 x > sval 32 y))"
  "lanewise 2 32 h_generic_calc_Mul32x2 (*)"
  "lanewise 2 32 h_generic_calc_Sub32x2 (-)"
  by (rule lanewise_mk(1), rule lane_defs_64_32, simp add: scalar_rules)+

lemmas lane_defs_32_8 = h_generic_calc_Add8x4_def h_generic_calc_Sub8x4_def h_generic_calc_HAdd8Ux4_def h_generic_calc_HAdd8Sx4_def h_generic_calc_HSub8Ux4_def h_generic_calc_HSub8Sx4_def h_generic_calc_QAdd8Sx4_def h_generic_calc_QAdd8Ux4_def h_generic_calc_QSub8Sx4_def h_generic_calc_QSub8Ux4_def

lemma lanewise_32_8:
  "lanewise 4 8 h_generic_calc_Add8x4 (+)"
  "lanewise 4 8 h_generic_calc_Sub8x4 (-)"
  "lanewise 4 8 h_generic_calc_HAdd8Ux4 (\<lambda>x y. (x + y) div 2)"
  "lanewise 4 8 h_generic_calc_HAdd8Sx4 (\<lambda>x y. (sval 8 x + sval 8 y) div 2)"
  "lanewise 4 8 h_generic_calc_HSub8Ux4 (\<lambda>x y. (x - y) div 2)"
  "lanewise 4 8 h_generic_calc_HSub8Sx4 (\<lambda>x y. (sval 8 x - sval 8 y) div 2)"
  "lanewise 4 8 h_generic_calc_QAdd8Sx4 (\<lambda>x y. clampS 8 (sval 8 x + sval 8 y))"
  "lanewise 4 8 h_generic_calc_QAdd8Ux4 (\<lambda>x y. clampU 8 (x + y))"
  "lanewise 4 8 h_generic_calc_QSub8Sx4 (\<lambda>x y. clampS 8 (sval 8 x - sval 8 y))"
  "lanewise 4 8 h_generic_calc_QSub8Ux4 (\<lambda>x y. clampU 8 (x - y))"
  by (rule lanewise_mk(5), rule lane_defs_32_8, simp add: scalar_rules)+

lemmas lane_defs_32_16 = h_generic_calc_Add16x2_def h_generic_calc_Sub16x2_def h_generic_calc_HAdd16Ux2_def h_generic_calc_HAdd16Sx2_def h_generic_calc_HSub16Ux2_def h_generic_calc_HSub16Sx2_def h_generic_calc_QAdd16Sx2_def h_generic_calc_QAdd16Ux2_def h_generic_calc_QSub16Sx2_def h_generic_calc_QSub16Ux2_def

lemma lanewise_32_16:
  "lanewise 2 16 h_generic_calc_Add16x2 (+)"
  "lanewise 2 16 h_generic_calc_Sub16x2 (-)"
  "lanewise 2 16 h_generic_calc_HAdd16Ux2 (\<lambda>x y. (x + y) div 2)"
  "lanewise 2 16 h_generic_calc_HAdd16Sx2 (\<lambda>x y. (sval 16 x + sval 16 y) div 2)"
  "lanewise 2 16 h_generic_calc_HSub16Ux2 (\<lambda>x y. (x - y) div 2)"
  "lanewise 2 16 h_generic_calc_HSub16Sx2 (\<lambda>x y. (sval 16 x - sval 16 y) div 2)"
  "lanewise 2 16 h_generic_calc_QAdd16Sx2 (\<lambda>x y. clampS 16 (sval 16 x + sval 16 y))"
  "lanewise 2 16 h_generic_calc_QAdd16Ux2 (\<lambda>x y. clampU 16 (x + y))"
  "lanewise 2 16 h_generic_calc_QSub16Sx2 (\<lambda>x y. clampS 16 (sval 16 x - sval 16 y))"
  "lanewise 2 16 h_generic_calc_QSub16Ux2 (\<lambda>x y. clampU 16 (x - y))"
  by (rule lanewise_mk(4), rule lane_defs_32_16, simp add: scalar_rules)+

lemmas lanewise_rules = lanewise_64_8 lanewise_64_16 lanewise_64_32 lanewise_32_8 lanewise_32_16 lanewise_32_32 lanewise_Sad8Ux4
lemmas picking_rules = picking_8_8 picking_4_16 picking_2_32 picking_4_32 picking_8_16

lemma amd64_binops_meet: "switch_all (\<lambda>op f. \<exists>sp. switch simd_specs op = Some sp \<and> meets sp f) amd64_binops"
  unfolding amd64_binops_def switch_all_unfold
  by (intro conjI; (rule meetsI(1), simp only: simd_spec_rules option.inject, rule refl, simp, rule lanewise_rules
    | rule meetsI(2), simp only: simd_spec_rules option.inject, rule refl, simp, rule picking_rules
    | rule meetsI(3), simp only: simd_spec_rules option.inject, rule refl, simp, rule permuting_Perm8x8))

lemma arm_binops_meet: "switch_all (\<lambda>op f. \<exists>sp. switch simd_specs op = Some sp \<and> meets sp f) arm_binops"
  unfolding arm_binops_def switch_all_unfold
  by (intro conjI; rule meetsI(1), simp only: simd_spec_rules option.inject, rule refl, simp, rule lanewise_rules)


section \<open>Shifts\<close>

definition shifting :: "nat \<Rightarrow> nat \<Rightarrow> (int \<Rightarrow> nat \<Rightarrow> int) \<Rightarrow> (64 word \<Rightarrow> 32 word \<Rightarrow> 64 word) \<Rightarrow> bool" where
  "shifting k w s f \<longleftrightarrow> (\<forall>x n. \<forall>i < k. lane w i (uint (f x n)) = take_bit w (s (lane w i (uint x)) (unat n mod w)))"

text \<open>The lanes of a shift helper: the amount counts modulo the width of a lane.\<close>

definition shift_specs :: "(IROp list \<times> (nat \<times> nat \<times> (int \<Rightarrow> nat \<Rightarrow> int))) list" where
  "shift_specs = [
     ([Iop_ShlN32x2], (2, 32, \<lambda>x n. x * 2 ^ n)),
     ([Iop_ShlN16x4], (4, 16, \<lambda>x n. x * 2 ^ n)),
     ([Iop_ShlN8x8], (8, 8, \<lambda>x n. x * 2 ^ n)),
     ([Iop_ShrN32x2], (2, 32, \<lambda>x n. x div 2 ^ n)),
     ([Iop_ShrN16x4], (4, 16, \<lambda>x n. x div 2 ^ n)),
     ([Iop_SarN32x2], (2, 32, \<lambda>x n. sval 32 x div 2 ^ n)),
     ([Iop_SarN16x4], (4, 16, \<lambda>x n. sval 16 x div 2 ^ n)),
     ([Iop_SarN8x8], (8, 8, \<lambda>x n. sval 8 x div 2 ^ n))]"

lemma and_mod: "unat (n AND 31) = unat n mod 32" "unat (n AND 15) = unat n mod 16" "unat (n AND 7) = unat (n :: 32 word) mod 8"
proof -
  have "n AND 31 = take_bit 5 n" "n AND 15 = take_bit 4 n" "n AND 7 = take_bit 3 n" by (simp_all add: take_bit_eq_mask mask_eq_exp_minus_1)
  moreover have "unat (take_bit m n) = take_bit m (unat n)" for m by (rule unsigned_take_bit_eq)
  ultimately show "unat (n AND 31) = unat n mod 32" "unat (n AND 15) = unat n mod 16" "unat (n AND 7) = unat n mod 8"
    unfolding unsigned_take_bit_eq by (simp_all only: unsigned_take_bit_eq) (simp_all add: take_bit_eq_mod)
qed

lemma ucast_sar:
  fixes w :: "32 word"
  assumes "LENGTH('b) \<le> 32"
  shows "uint (ucast (signed_drop_bit m w) :: 'b::len word) = take_bit LENGTH('b) (sint w div 2 ^ m)"
proof -
  have "uint (ucast (signed_drop_bit m w) :: 'b word) = take_bit LENGTH('b) (uint (signed_drop_bit m w))" by (rule unsigned_ucast_eq)
  also have "\<dots> = take_bit LENGTH('b) (sint (signed_drop_bit m w))" by (rule take_sint [symmetric]) (use assms in simp)
  finally show ?thesis by (simp add: sint_signed_drop_bit_eq drop_bit_eq_div)
qed

lemma ucast_shl:
  fixes a :: "'b::len word"
  assumes "LENGTH('b) \<le> 32"
  shows "uint (ucast (push_bit n (ucast a :: 32 word)) :: 'b word) = take_bit LENGTH('b) (uint a * 2 ^ n)"
proof -
  have "uint (ucast (push_bit n (ucast a :: 32 word)) :: 'b word) = take_bit LENGTH('b) (uint (push_bit n (ucast a :: 32 word)))"
    by (rule unsigned_ucast_eq)
  then show ?thesis unfolding uint_push using assms by (simp add: push_bit_eq_mult min_def)
qed

lemma shift_vals:
  "uint (shl32 e n) = take_bit 32 (uint e * 2 ^ unat n)" "uint (shl16 a n) = take_bit 16 (uint a * 2 ^ unat n)"
  "uint (shl8 c n) = take_bit 8 (uint c * 2 ^ unat n)" "uint (shr32 e n) = take_bit 32 (uint e div 2 ^ unat n)"
  "uint (shr16 a n) = take_bit 16 (uint a div 2 ^ unat n)"
  "uint (sar32 e n) = take_bit 32 (sval 32 (uint e) div 2 ^ unat n)"
  "uint (sar16 a n) = take_bit 16 (sval 16 (uint a) div 2 ^ unat n)"
  "uint (sar8 c n) = take_bit 8 (sval 8 (uint c) div 2 ^ unat n)"
proof -
  have s: "sint (scast a :: 32 word) = sint a" "sint (scast c :: 32 word) = sint c"
    using sint_range(3,4) [of a] sint_range(1,2) [of c] by (simp_all add: scast_eq of32 del: of_int_sint)
  have v: "sint (ucast a :: 32 word) = uint a"
    unfolding ucast_eq by (rule of32(1)) (use uint_range(2) [of a] uint_nonneg [of a] in linarith)+
  show "uint (shr16 a n) = take_bit 16 (uint a div 2 ^ unat n)"
    using ucast_sar [where ?'b = 16, of "unat n" "ucast a"] unfolding shr16_def casts v by simp
  show "uint (sar16 a n) = take_bit 16 (sval 16 (uint a) div 2 ^ unat n)"
    "uint (sar8 c n) = take_bit 8 (sval 8 (uint c) div 2 ^ unat n)"
    unfolding sar16_def sar8_def casts sval_sint using ucast_sar [where ?'b = 16, of "unat n" "scast a"] ucast_sar [where ?'b = 8, of "unat n" "scast c"]
    by (simp_all add: s)
  show "uint (sar32 e n) = take_bit 32 (sval 32 (uint e) div 2 ^ unat n)"
    using ucast_sar [where ?'b = 32, of "unat n" e] unfolding sar32_def sval_sint by simp
  show "uint (shr32 e n) = take_bit 32 (uint e div 2 ^ unat n)"
    using take_uint [of 32 "drop_bit (unat n) e"] unfolding shr32_def uint_drop drop_bit_eq_div [symmetric] by simp
  show "uint (shl32 e n) = take_bit 32 (uint e * 2 ^ unat n)"
    unfolding shl32_def push_bit_eq_mult [symmetric] unsigned_push_bit_eq by simp
  show "uint (shl16 a n) = take_bit 16 (uint a * 2 ^ unat n)" "uint (shl8 c n) = take_bit 8 (uint c * 2 ^ unat n)"
    unfolding shl16_def shl8_def casts by (simp_all add: ucast_shl)
qed

lemma shifting_all:
  "shifting 2 32 (\<lambda>x n. x * 2 ^ n) h_generic_calc_ShlN32x2" "shifting 4 16 (\<lambda>x n. x * 2 ^ n) h_generic_calc_ShlN16x4"
  "shifting 8 8 (\<lambda>x n. x * 2 ^ n) h_generic_calc_ShlN8x8"
  "shifting 2 32 (\<lambda>x n. x div 2 ^ n) h_generic_calc_ShrN32x2" "shifting 4 16 (\<lambda>x n. x div 2 ^ n) h_generic_calc_ShrN16x4"
  "shifting 2 32 (\<lambda>x n. sval 32 x div 2 ^ n) h_generic_calc_SarN32x2"
  "shifting 4 16 (\<lambda>x n. sval 16 x div 2 ^ n) h_generic_calc_SarN16x4"
  "shifting 8 8 (\<lambda>x n. sval 8 x div 2 ^ n) h_generic_calc_SarN8x8"
  unfolding shifting_def less_numerals h_generic_calc_ShlN32x2_def h_generic_calc_ShlN16x4_def h_generic_calc_ShlN8x8_def
    h_generic_calc_ShrN32x2_def h_generic_calc_ShrN16x4_def h_generic_calc_SarN32x2_def h_generic_calc_SarN16x4_def
    h_generic_calc_SarN8x8_def Let_def
  by (intro allI impI; elim insertE emptyE; hypsubst; simp add: mk_join lane_join_nth lane_sel [symmetric] take_uint shift_vals and_mod del: join.simps)+

lemma amd64_shifts_meet: "switch_all (\<lambda>op f. \<exists>k w s. switch shift_specs op = Some (k, w, s) \<and> k * w = 64 \<and> shifting k w s f) amd64_shifts"
  unfolding amd64_shifts_def switch_all_unfold shift_specs_def switch_simps
  by (simp add: shifting_all)

section \<open>Unary helpers\<close>

lemma cmpnez_vals: "uint (cmpnez32 e) = pess 32 (uint e)" "uint (cmpnez16 a) = pess 16 (uint a)" "uint (cmpnez8 c) = pess 8 (uint c)"
  unfolding cmpnez32_def cmpnez16_def cmpnez8_def casts pess_def by (simp_all add: uint_0_iff mask_eq_exp_minus_1)

lemma lanes_join: "lanes w k f x = join w (map (\<lambda>i. take_bit w (f (lane w i x))) [0..<k])"
proof (induction k arbitrary: x)
  case (Suc k)
  have "lane w i (drop_bit w x) = lane w (Suc i) x" for i
    by (simp add: lane_def add.commute)
  then show ?case using Suc by (simp add: map_upt_Suc del: upt_Suc) (simp add: lane_def or.commute add.commute)
qed simp

lemma pess_take: "take_bit w (pess w x) = pess w x"
  by (simp add: pess_def)

lemma upts: "[0..<2] = [0, 1]" "[0..<4] = [0, 1, 2, 3]" "[0..<8] = [0, 1, 2, 3, 4, 5, 6, 7]"
  by (simp_all add: upt_rec)

lemma CmpNEZ_lanes:
  "uint (h_generic_calc_CmpNEZ32x2 x) = lanes 32 2 (pess 32) (uint x)" "uint (h_generic_calc_CmpNEZ16x4 x) = lanes 16 4 (pess 16) (uint x)"
  "uint (h_generic_calc_CmpNEZ8x8 x) = lanes 8 8 (pess 8) (uint x)"
  "uint (h_generic_calc_CmpNEZ16x2 y) = lanes 16 2 (pess 16) (uint y)" "uint (h_generic_calc_CmpNEZ8x4 y) = lanes 8 4 (pess 8) (uint y)"
  unfolding h_generic_calc_CmpNEZ32x2_def h_generic_calc_CmpNEZ16x4_def h_generic_calc_CmpNEZ8x8_def h_generic_calc_CmpNEZ16x2_def
    h_generic_calc_CmpNEZ8x4_def mk_join
  by (simp_all add: cmpnez_vals lane_sel lanes_join pess_take upts del: join.simps)

lemma bit_if_or: "k < 32 \<Longrightarrow> bit (if c then r OR push_bit k (1 :: 32 word) else r) n \<longleftrightarrow> bit r n \<or> c \<and> n = k"
  by (auto simp: bit_simps bit_1_iff)

lemma GetMSBs8x8_bits: "bit (h_generic_calc_GetMSBs8x8 x) n \<longleftrightarrow> n < 8 \<and> bit x (8 * n + 7)"
proof -
  have e: "bit (h_generic_calc_GetMSBs8x8 x) n \<longleftrightarrow> bit (0 :: 32 word) n \<or> bit x (64 - 1) \<and> n = 7 \<or> bit x (56 - 1) \<and> n = 6 \<or>
      bit x (48 - 1) \<and> n = 5 \<or> bit x (40 - 1) \<and> n = 4 \<or> bit x (32 - 1) \<and> n = 3 \<or> bit x (24 - 1) \<and> n = 2 \<or>
      bit x (16 - 1) \<and> n = 1 \<or> bit x (8 - 1) \<and> n = 0"
    unfolding h_generic_calc_GetMSBs8x8_def Let_def bit_iff_and_push_bit_not_eq_0 [symmetric]
    by ((subst bit_if_or, simp)+) (simp only: disj_assoc)
  show ?thesis
  proof (cases "n < 8")
    case True
    then have "n \<in> {0, 1, 2, 3, 4, 5, 6, 7}" by auto
    then show ?thesis unfolding e by (elim insertE emptyE) simp_all
  next
    case False
    then show ?thesis unfolding e by auto
  qed
qed

section \<open>Decimal conversions\<close>

text \<open>Three decimal digits, from the lowest: each of them at most nine.\<close>

definition is_bcd :: "nat \<Rightarrow> int \<Rightarrow> bool" where
  "is_bcd k x \<longleftrightarrow> (\<forall>i < k. lane 4 i x \<le> 9)"

lemma getS_bit: "n < 64 \<Longrightarrow> getS x n = of_bool (bit x n)"
  unfolding getS_def by (rule bit_word_eqI) (auto simp: bit_simps bit_1_iff of_bool_def intro!: gr0I)

lemma short_ops: "notS (of_bool b) = of_bool (\<not> b)" "of_bool b AND of_bool c = (of_bool (b \<and> c) :: 16 word)"
  "of_bool b OR of_bool c = (of_bool (b \<or> c) :: 16 word)"
  by (simp_all add: notS_def)

lemma value_bits:
  "bit (scast (w :: 32 word) :: 64 word) n \<longleftrightarrow> n < 64 \<and> bit w (min 31 n)"
  "bit (putS (of_bool b) k) n \<longleftrightarrow> b \<and> k < 32 \<and> n = k"
  "bit (scast (of_bool b :: 16 word) :: 32 word) n \<longleftrightarrow> b \<and> n = 0"
  "k < 31 \<Longrightarrow> min 31 n = k \<longleftrightarrow> n = k"
  by (auto simp: putS_def bit_simps bit_1_iff of_bool_def min_def)

lemma digit_bits: "lane 4 i x \<le> 9 \<longleftrightarrow> \<not> (bit x (4 * i + 3) \<and> (bit x (4 * i + 2) \<or> bit x (4 * i + 1)))"
proof -
  define d where "d = drop_bit (4 * i) x"
  have "lane 4 i x = of_bool (bit d 0) + 2 * (of_bool (bit d 1) + 2 * (of_bool (bit d 2) + 2 * of_bool (bit d 3)))"
    unfolding lane_def d_def [symmetric] by (simp add: take_bit_rec [of _ d] take_bit_rec bit_0 bit_Suc eval_nat_numeral mod2_eq_if)
  then have "lane 4 i x \<le> 9 \<longleftrightarrow> \<not> (bit d 3 \<and> (bit d 2 \<or> bit d 1))" by (auto simp: of_bool_def)
  then show ?thesis by (simp add: d_def bit_simps)
qed

lemma bcd_to_dpb_bits:
  "bit (bcd_to_dpb x) 9 \<longleftrightarrow> (bit x 6 \<and> bit x 11 \<and> bit x 3 \<and> \<not> bit x 7) \<or> (bit x 2 \<and> bit x 11 \<and> \<not> bit x 3) \<or> (bit x 10 \<and> \<not> bit x 11)"
  "bit (bcd_to_dpb x) 8 \<longleftrightarrow> (bit x 5 \<and> bit x 11 \<and> bit x 3 \<and> \<not> bit x 7) \<or> (bit x 1 \<and> bit x 11 \<and> \<not> bit x 3) \<or> (bit x 9 \<and> \<not> bit x 11)"
  "bit (bcd_to_dpb x) 7 \<longleftrightarrow> bit x 8"
  "bit (bcd_to_dpb x) 6 \<longleftrightarrow> (bit x 2 \<and> \<not> bit x 11 \<and> bit x 7 \<and> \<not> bit x 3) \<or> (bit x 6 \<and> \<not> bit x 3 \<and> \<not> bit x 7) \<or> (bit x 6 \<and> \<not> bit x 11 \<and> \<not> bit x 7) \<or> (bit x 7 \<and> bit x 3)"
  "bit (bcd_to_dpb x) 5 \<longleftrightarrow> (bit x 1 \<and> \<not> bit x 11 \<and> bit x 7 \<and> \<not> bit x 3) \<or> (bit x 5 \<and> \<not> bit x 3 \<and> \<not> bit x 7) \<or> (bit x 5 \<and> \<not> bit x 11 \<and> \<not> bit x 7) \<or> (bit x 11 \<and> bit x 3)"
  "bit (bcd_to_dpb x) 4 \<longleftrightarrow> bit x 4"
  "bit (bcd_to_dpb x) 3 \<longleftrightarrow> bit x 11 \<or> bit x 7 \<or> bit x 3"
  "bit (bcd_to_dpb x) 2 \<longleftrightarrow> (\<not> bit x 7 \<and> bit x 2 \<and> \<not> bit x 3) \<or> (bit x 7 \<and> bit x 3) \<or> bit x 11"
  "bit (bcd_to_dpb x) (Suc 0) \<longleftrightarrow> (\<not> bit x 11 \<and> bit x 1 \<and> \<not> bit x 3) \<or> (bit x 11 \<and> bit x 3) \<or> bit x 7"
  "bit (bcd_to_dpb x) 0 \<longleftrightarrow> bit x 0"
  "10 \<le> n \<Longrightarrow> \<not> bit (bcd_to_dpb x) n"
  unfolding bcd_to_dpb_def Let_def by (simp_all add: getS_bit short_ops value_bits bit_or_iff)

lemma dpb_to_bcd_bits:
  "bit (dpb_to_bcd x) 11 \<longleftrightarrow> (\<not> bit x 6 \<and> bit x 3 \<and> bit x 2) \<or> (bit x 5 \<and> bit x 3 \<and> bit x 2 \<and> bit x 6) \<or> (bit x 3 \<and> bit x 2 \<and> \<not> bit x 1)"
  "bit (dpb_to_bcd x) 10 \<longleftrightarrow> (bit x 9 \<and> bit x 6 \<and> bit x 1 \<and> \<not> bit x 5) \<or> (bit x 9 \<and> \<not> bit x 2) \<or> (bit x 9 \<and> \<not> bit x 3)"
  "bit (dpb_to_bcd x) 9 \<longleftrightarrow> (bit x 8 \<and> bit x 6 \<and> bit x 1 \<and> \<not> bit x 5) \<or> (bit x 8 \<and> \<not> bit x 2) \<or> (bit x 8 \<and> \<not> bit x 3)"
  "bit (dpb_to_bcd x) 8 \<longleftrightarrow> bit x 7"
  "bit (dpb_to_bcd x) 7 \<longleftrightarrow> (bit x 3 \<and> \<not> bit x 2 \<and> bit x 1) \<or> (bit x 6 \<and> bit x 3 \<and> bit x 2 \<and> bit x 1) \<or> (\<not> bit x 5 \<and> bit x 3 \<and> bit x 1 \<and> bit x 2)"
  "bit (dpb_to_bcd x) 6 \<longleftrightarrow> (bit x 9 \<and> bit x 5 \<and> bit x 3 \<and> bit x 2 \<and> bit x 1 \<and> \<not> bit x 6) \<or> (bit x 6 \<and> \<not> bit x 1 \<and> bit x 3) \<or> (bit x 6 \<and> \<not> bit x 3)"
  "bit (dpb_to_bcd x) 5 \<longleftrightarrow> (bit x 8 \<and> bit x 5 \<and> bit x 2 \<and> bit x 3 \<and> bit x 1 \<and> \<not> bit x 6) \<or> (bit x 5 \<and> \<not> bit x 1 \<and> bit x 3) \<or> (bit x 5 \<and> \<not> bit x 3)"
  "bit (dpb_to_bcd x) 4 \<longleftrightarrow> bit x 4"
  "bit (dpb_to_bcd x) 3 \<longleftrightarrow> (bit x 5 \<and> bit x 3 \<and> bit x 2 \<and> bit x 1) \<or> (bit x 6 \<and> bit x 3 \<and> bit x 2 \<and> bit x 1) \<or> (bit x 3 \<and> \<not> bit x 2 \<and> \<not> bit x 1)"
  "bit (dpb_to_bcd x) 2 \<longleftrightarrow> (bit x 9 \<and> \<not> bit x 6 \<and> \<not> bit x 5 \<and> bit x 2 \<and> bit x 3) \<or> (bit x 6 \<and> bit x 3 \<and> \<not> bit x 2 \<and> bit x 1) \<or> (bit x 9 \<and> bit x 2 \<and> \<not> bit x 1 \<and> bit x 3) \<or> (bit x 2 \<and> \<not> bit x 3)"
  "bit (dpb_to_bcd x) (Suc 0) \<longleftrightarrow> (bit x 8 \<and> \<not> bit x 6 \<and> \<not> bit x 5 \<and> bit x 3 \<and> bit x 2) \<or> (bit x 5 \<and> bit x 3 \<and> \<not> bit x 2 \<and> bit x 1) \<or> (bit x 8 \<and> bit x 3 \<and> bit x 2 \<and> \<not> bit x 1) \<or> (bit x 1 \<and> \<not> bit x 3)"
  "bit (dpb_to_bcd x) 0 \<longleftrightarrow> bit x 0"
  "12 \<le> n \<Longrightarrow> \<not> bit (dpb_to_bcd x) n"
  unfolding dpb_to_bcd_def Let_def by (simp_all add: getS_bit short_ops value_bits bit_or_iff)

lemma three_digits: "is_bcd 3 (uint (x :: 64 word)) \<longleftrightarrow> \<not> (bit x 3 \<and> (bit x 2 \<or> bit x (Suc 0))) \<and>
    \<not> (bit x 7 \<and> (bit x 6 \<or> bit x 5)) \<and> \<not> (bit x 11 \<and> (bit x 10 \<or> bit x 9))"
proof -
  have "(\<forall>i < 3. P i) \<longleftrightarrow> P 0 \<and> P 1 \<and> P 2" for P :: "nat \<Rightarrow> bool"
    by (auto simp: numeral_3_eq_3 numeral_2_eq_2 less_Suc_eq)
  then show ?thesis unfolding is_bcd_def digit_bits by (simp add: bit_uint_iff numeral_2_eq_2)
qed

lemma dpb_bcd_digits:
  assumes "is_bcd 3 (uint x)"
  shows "bit (dpb_to_bcd (bcd_to_dpb x)) n \<longleftrightarrow> n < 12 \<and> bit x n"
proof (cases "n < 12")
  case True
  have v: "\<not> (bit x 3 \<and> (bit x 2 \<or> bit x 1))" "\<not> (bit x 7 \<and> (bit x 6 \<or> bit x 5))" "\<not> (bit x 11 \<and> (bit x 10 \<or> bit x 9))"
    using assms by (auto simp: three_digits)
  have "n \<in> {0, 1, 2, 3, 4, 5, 6, 7, 8, 9, 10, 11}" using True unfolding insert_iff empty_iff by arith
  with True v show ?thesis by (elim insertE emptyE; simp add: bcd_to_dpb_bits dpb_to_bcd_bits; cases "bit x 11"; cases "bit x 7"; cases "bit x 3"; auto)
qed (simp add: dpb_to_bcd_bits)

lemma dpb_to_bcd_valid: "is_bcd 3 (uint (dpb_to_bcd x))"
  unfolding three_digits by (auto simp: dpb_to_bcd_bits)

lemma take_chunk: "(\<And>n. k \<le> n \<Longrightarrow> \<not> bit w n) \<Longrightarrow> k \<le> m \<Longrightarrow> take_bit m (uint (w :: 64 word)) = uint w"
  by (rule bit_eqI) (auto simp: bit_simps, meson not_le order_trans)

lemmas take_dpb = take_chunk [where k = 12, OF dpb_to_bcd_bits(13)] take_chunk [where k = 10, OF bcd_to_dpb_bits(11)]

lemma chunks_join:
  "uint (h_calc_DPBtoBCD d) = join 12 (map (\<lambda>i. uint (dpb_to_bcd (drop_bit (i * 10) d AND 0x3FF))) [0, 1, 2, 3, 4])"
  "uint (h_calc_BCDtoDPB d) = join 10 (map (\<lambda>i. uint (bcd_to_dpb (drop_bit (i * 12) d AND 0xFFF))) [0, 1, 2, 3, 4])"
  unfolding h_calc_DPBtoBCD_def h_calc_BCDtoDPB_def Let_def
  by (simp_all add: unsigned_or_eq unsigned_push_bit_eq take_bit_push_bit take_dpb push_bit_or ac_simps)

lemma chunks_lane:
  assumes "i < 5"
  shows "lane 12 i (uint (h_calc_DPBtoBCD d)) = uint (dpb_to_bcd (drop_bit (i * 10) d AND 0x3FF))"
    "lane 10 i (uint (h_calc_BCDtoDPB d)) = uint (bcd_to_dpb (drop_bit (i * 12) d AND 0xFFF))"
proof -
  have "i \<in> {0, 1, 2, 3, 4}" using assms unfolding insert_iff empty_iff by arith
  then have n: "map f [0, 1, 2, 3, 4 :: nat] ! i = f i" for f :: "nat \<Rightarrow> int"
    by (elim insertE emptyE) simp_all
  show "lane 12 i (uint (h_calc_DPBtoBCD d)) = uint (dpb_to_bcd (drop_bit (i * 10) d AND 0x3FF))"
    unfolding chunks_join by (subst lane_join_nth) (simp add: take_dpb, use assms in simp, rule n)
  show "lane 10 i (uint (h_calc_BCDtoDPB d)) = uint (bcd_to_dpb (drop_bit (i * 12) d AND 0xFFF))"
    unfolding chunks_join by (subst lane_join_nth) (simp add: take_dpb, use assms in simp, rule n)
qed

lemma join_lanes: "join w (map (\<lambda>i. lane w i x) [0..<k]) = take_bit (w * k) x"
proof (induction k arbitrary: x)
  case (Suc k)
  have "lane w (Suc i) x = lane w i (drop_bit w x)" for i by (simp add: lane_def add.commute)
  then have "join w (map (\<lambda>i. lane w i x) [0..<Suc k]) = push_bit w (take_bit (w * k) (drop_bit w x)) OR take_bit w x"
    by (simp add: map_upt_Suc Suc del: upt_Suc) (simp add: lane_def)
  also have "\<dots> = take_bit (w * Suc k) x" by (rule bit_eqI) (auto simp: bit_simps)
  finally show ?case .
qed simp

lemma lane_lane: "i < k \<Longrightarrow> lane w i (lane (w * k) j x) = lane w (j * k + i) x"
proof (rule bit_eqI)
  fix m assume "i < k"
  then have "m < w \<Longrightarrow> w * i + m < w * k" by (metis Suc_leI add_less_cancel_left less_le_trans mult_Suc_right mult_le_mono2 add.commute)
  then show "bit (lane w i (lane (w * k) j x)) m = bit (lane w (j * k + i) x) m"
    by (auto simp: lane_def bit_simps algebra_simps)
qed

lemma chunk_lane: "drop_bit (i * k) d AND mask k = (word_of_int (lane k i (uint d)) :: 64 word)"
  by (rule bit_word_eqI) (auto simp: lane_def bit_simps bit_word_of_int_iff mult.commute add.commute)

lemma DPBtoBCD_valid: "is_bcd 15 (uint (h_calc_DPBtoBCD d))"
  unfolding is_bcd_def
proof (intro allI impI)
  fix i :: nat assume i: "i < 15"
  then have d: "i div 3 < 5" by simp
  have "lane 4 (i mod 3) (lane 12 (i div 3) (uint (h_calc_DPBtoBCD d))) = lane 4 i (uint (h_calc_DPBtoBCD d))"
    using lane_lane [of "i mod 3" 3 4 "i div 3" "uint (h_calc_DPBtoBCD d)"] by simp
  moreover have "lane 12 (i div 3) (uint (h_calc_DPBtoBCD d)) = uint (dpb_to_bcd (drop_bit (i div 3 * 10) d AND 0x3FF))"
    by (rule chunks_lane(1) [OF d])
  ultimately show "lane 4 i (uint (h_calc_DPBtoBCD d)) \<le> 9"
    using dpb_to_bcd_valid [unfolded is_bcd_def, rule_format, of "i mod 3" "drop_bit (i div 3 * 10) d AND 0x3FF"] by simp
qed

lemma DPB_roundtrip:
  assumes "is_bcd 15 (uint x)" "uint x < 2 ^ 60"
  shows "h_calc_DPBtoBCD (h_calc_BCDtoDPB x) = x"
proof -
  have c: "dpb_to_bcd (drop_bit (i * 10) (h_calc_BCDtoDPB x) AND 0x3FF) = word_of_int (lane 12 i (uint x))" if i: "i < 5" for i
  proof -
    have "drop_bit (i * 10) (h_calc_BCDtoDPB x) AND 0x3FF = word_of_int (lane 10 i (uint (h_calc_BCDtoDPB x)))"
      using chunk_lane [of i 10] by (simp add: mask_eq_exp_minus_1)
    also have "lane 10 i (uint (h_calc_BCDtoDPB x)) = uint (bcd_to_dpb (drop_bit (i * 12) x AND 0xFFF))"
      by (rule chunks_lane(2) [OF i])
    also have "drop_bit (i * 12) x AND 0xFFF = word_of_int (lane 12 i (uint x))"
      using chunk_lane [of i 12] by (simp add: mask_eq_exp_minus_1)
    finally have e: "drop_bit (i * 10) (h_calc_BCDtoDPB x) AND 0x3FF = bcd_to_dpb (word_of_int (lane 12 i (uint x)))" by simp
    have u: "uint (word_of_int (lane 12 i (uint x)) :: 64 word) = lane 12 i (uint x)"
      unfolding uint_word_of_int_eq by (simp add: lane_def)
    have "is_bcd 3 (lane 12 i (uint x))"
      unfolding is_bcd_def
    proof (intro allI impI)
      fix j :: nat assume j: "j < 3"
      then have "i * 3 + j < 15" using i by linarith
      then show "lane 4 j (lane 12 i (uint x)) \<le> 9"
        using assms(1) lane_lane [OF j, of 4 i "uint x"] by (simp add: is_bcd_def)
    qed
    then have v: "is_bcd 3 (uint (word_of_int (lane 12 i (uint x)) :: 64 word))" unfolding u .
    show ?thesis unfolding e
      by (rule bit_word_eqI) (simp only: dpb_bcd_digits [OF v] bit_word_of_int_iff, auto simp: lane_def bit_simps)
  qed
  have "uint (h_calc_DPBtoBCD (h_calc_BCDtoDPB x)) = join 12 (map (\<lambda>i. uint (word_of_int (lane 12 i (uint x)) :: 64 word)) [0, 1, 2, 3, 4])"
    unfolding chunks_join(1) by (simp only: list.map c rel_simps zero_less_numeral one_less_numeral_iff)
  also have "\<dots> = join 12 (map (\<lambda>i. lane 12 i (uint x)) [0..<5])"
    unfolding uint_word_of_int_eq by (simp add: upt_rec lane_def)
  also have "\<dots> = uint x" unfolding join_lanes using assms(2) by (simp add: take_bit_int_eq_self_iff)
  finally show ?thesis unfolding word_uint_eq_iff .
qed

section \<open>The operators as the hosts compute them\<close>

text \<open>The reference semantics, extended with the helpers the instruction selectors call for the operators it
  leaves open.\<close>

definition host_prim :: op_sem where
  "host_prim op xs = (case xs of
       [x, y] \<Rightarrow> (case switch sem2_cases op of Some g \<Rightarrow> g x y
         | None \<Rightarrow> (case switch amd64_binops op of Some f \<Rightarrow> Some (uint (f (word_of_int x) (word_of_int y)))
         | None \<Rightarrow> (case switch amd64_shifts op of Some f \<Rightarrow> Some (uint (f (word_of_int x) (word_of_int y)))
         | None \<Rightarrow> (case switch arm_binops op of Some f \<Rightarrow> Some (uint (f (word_of_int x) (word_of_int y)))
         | None \<Rightarrow> None))))
     | _ \<Rightarrow> prim op xs)"

text \<open>The helpers of operators that are not in the table of lanes are found in these intervals.\<close>

definition simd_intervals :: label_tree where
  "simd_intervals =
     Below Iop_ShlN8x8 (Below Iop_Sad8Ux4 (Below Iop_Add16x2 (Group 0) (Group 1)) (Below Iop_Max32Fx2
     (Group 0) (Group 1))) (Below Iop_QNarrowBin16Sto8Ux8 (Below Iop_QShl8x8 (Group 0) (Group 1)) (Below
     Iop_Max32Fx4 (Group 0) (Group 1)))"

lemma lane_ops_intervals: "switch_all (\<lambda>op _. group_of simd_intervals op = 1) lane_ops"
  unfolding lane_ops_def switch_all_unfold simd_intervals_def by simp

lemma shifts_intervals: "switch_all (\<lambda>op _. group_of simd_intervals op = 0) amd64_shifts"
  unfolding amd64_shifts_def switch_all_unfold simd_intervals_def by simp

definition spec_width :: "nat \<Rightarrow> simd_spec \<Rightarrow> bool" where
  "spec_width op sp \<longleftrightarrow> (case sp of Lanewise k w s \<Rightarrow> switch lane_ops op = Some w \<or> group_of simd_intervals op = 0
     | _ \<Rightarrow> group_of simd_intervals op = 0)"

lemma spec_widths: "switch_all spec_width simd_specs"
  unfolding simd_specs_def switch_all_unfold spec_width_def simd_spec.case
  by (intro conjI; ((simp only: lane_rules option.inject simp_thms; fail) | (rule disjI2)?, simp add: simd_intervals_def))

lemma lane_spec: "switch lane_ops op = Some w \<Longrightarrow> switch simd_specs op = Some sp \<Longrightarrow> \<exists>k s. sp = Lanewise k w s"
  using switch_allD [OF lane_ops_intervals, of op w] switch_allD [OF spec_widths, of op sp]
  by (cases sp) (auto simp: spec_width_def)

lemma lane_take: "(i + 1) * w \<le> n \<Longrightarrow> lane w i (take_bit n x) = lane w i x"
proof (rule bit_eqI)
  fix m assume "(i + 1) * w \<le> n"
  then have "m < w \<Longrightarrow> w * i + m < n" by (simp add: algebra_simps)
  then show "bit (lane w i (take_bit n x)) m = bit (lane w i x) m" by (auto simp: lane_def bit_simps)
qed

lemma lane_beyond: "k * w = LENGTH('a) \<Longrightarrow> k \<le> i \<Longrightarrow> lane w i (uint (z :: 'a::len word)) = 0"
proof (rule bit_eqI)
  fix m assume "k * w = LENGTH('a)" "k \<le> i"
  then have "LENGTH('a) \<le> w * i + m" by (metis mult.commute mult_le_mono1 trans_le_add1)
  then show "bit (lane w i (uint z)) m = bit 0 m" by (auto simp: lane_def bit_simps dest: bit_imp_le_length)
qed

lemma lanewise_local:
  assumes k: "k * w = LENGTH('a)" and f: "lanewise k w f s" and x: "lane w i x = lane w i x'" and y: "lane w i y = lane w i y'"
  shows "lane w i (uint (f (word_of_int x :: 'a::len word) (word_of_int y))) = lane w i (uint (f (word_of_int x') (word_of_int y')))"
proof (cases "i < k")
  case True
  have "(i + 1) * w \<le> LENGTH('a)" unfolding k [symmetric] using True by (intro mult_le_mono1) simp
  then have "lane w i (uint (word_of_int z :: 'a word)) = lane w i z" for z
    unfolding uint_word_of_int_eq by (rule lane_take)
  then show ?thesis using f True x y by (simp add: lanewise_def)
next
  case False
  then show ?thesis using lane_beyond [OF k] by simp
qed

lemma helper_local:
  assumes w: "switch lane_ops op = Some w" and sp: "switch simd_specs op = Some sp" "meets sp f"
    and x: "lane w i x = lane w i x'" "lane w i y = lane w i y'"
  shows "lane w i (uint (f (word_of_int x) (word_of_int y))) = lane w i (uint (f (word_of_int x') (word_of_int y')))"
  using lane_spec [OF w sp(1)] sp(2) lanewise_local [OF _ _ x] by auto

interpretation host_sem: ir_sem host_prim
proof
  show "switch sem1_cases op = Some f \<Longrightarrow> host_prim op [x] = f x" for op f x by (simp add: host_prim_def)
  show "switch sem2_cases op = Some g \<Longrightarrow> host_prim op [x, y] = g x y" for op g x y by (simp add: host_prim_def)
  show "lane w i z = lane w i z'"
    if w: "switch lane_ops op = Some w" and z: "host_prim op [x, y] = Some z" "host_prim op [x', y'] = Some z'"
      and l: "lane w i x = lane w i x'" "lane w i y = lane w i y'" for op w x y z x' y' z' i
  proof -
    have "switch amd64_shifts op = None"
      using switch_allD [OF lane_ops_intervals w] switch_allD [OF shifts_intervals, of op] by (cases "switch amd64_shifts op") auto
    moreover note sem2_not_lane [OF w]
    moreover have "lane w i (uint (f (word_of_int x) (word_of_int y))) = lane w i (uint (f (word_of_int x') (word_of_int y')))"
      if "switch amd64_binops op = Some f" for f
      using switch_allD [OF amd64_binops_meet that] helper_local [OF w _ _ l] by blast
    moreover have "lane w i (uint (f (word_of_int x) (word_of_int y))) = lane w i (uint (f (word_of_int x') (word_of_int y')))"
      if "switch arm_binops op = Some f" for f
      using switch_allD [OF arm_binops_meet that] helper_local [OF w _ _ l] by blast
    ultimately show ?thesis using z by (auto simp: host_prim_def split: option.splits)
  qed
qed

section \<open>Division\<close>

section \<open>The properties\<close>

text \<open>C23
  Every operator in the table of the operators on two 64-bit integers for which \<open>iselIntExpr_R_wrk\<close> of the amd64 instruction
  selector calls a vector helper, and in the table of the 32-bit binary operators for which \<open>iselIntExpr_R_wrk\<close> of the ARM one
  does, gets a helper that computes it: lane by lane the modular, saturating, averaging, halving, comparing or multiplying function of
  the operator's name, or the lanes it interleaves, concatenates, narrows or permutes. The helpers of shifts and of unary operators,
  and those of 128 and 256-bit vectors, are not in these tables.\<close>
theorem simd_binops_meet:
  "(switch amd64_binops op = Some f \<longrightarrow> (\<exists>sp. switch simd_specs op = Some sp \<and> meets sp f)) \<and>
   (switch arm_binops op = Some g \<longrightarrow> (\<exists>sp. switch simd_specs op = Some sp \<and> meets sp g))"
  using switch_allD [OF amd64_binops_meet, of op f] switch_allD [OF arm_binops_meet, of op g] by blast

theorem simd_binops_meet_witness:
  "lane 8 2 (uint (h_generic_calc_QSub8Ux8 0x50000 0x70000)) = 0"
proof -
  have s: "switch amd64_binops Iop_QSub8Ux8 = Some h_generic_calc_QSub8Ux8"
    by (simp add: amd64_binops_def switch_simps)
  obtain sp where "switch simd_specs Iop_QSub8Ux8 = Some sp" "meets sp h_generic_calc_QSub8Ux8"
    using simd_binops_meet [of Iop_QSub8Ux8 h_generic_calc_QSub8Ux8] s by blast
  then have "lanewise 8 8 h_generic_calc_QSub8Ux8 (\<lambda>x y. clampU 8 (x - y))" by (simp only: simd_spec_rules option.inject) auto
  then have "lane 8 2 (uint (h_generic_calc_QSub8Ux8 0x50000 0x70000)) =
      take_bit 8 (clampU 8 (lane 8 2 (uint (0x50000 :: 64 word)) - lane 8 2 (uint (0x70000 :: 64 word))))"
    unfolding lanewise_def by simp
  then show ?thesis by (simp add: clampU_def lane_def)
qed

text \<open>C24
  The shift helpers shift each lane by the amount modulo the width of a lane: to the left, to the right with zeros, or
  to the right with copies of the sign.\<close>
theorem simd_shifts_meet:
  "switch amd64_shifts op = Some f \<Longrightarrow>
    \<exists>k w s. switch shift_specs op = Some (k, w, s) \<and> k * w = 64 \<and> shifting k w s f"
  using switch_allD [OF amd64_shifts_meet] by blast

theorem simd_shifts_meet_witness:
  "lane 16 1 (uint (h_generic_calc_SarN16x4 0x80000000 17)) = 0xC000"
proof -
  have "switch amd64_shifts Iop_SarN16x4 = Some h_generic_calc_SarN16x4" by (simp add: amd64_shifts_def switch_simps)
  from simd_shifts_meet [OF this] have "shifting 4 16 (\<lambda>x n. sval 16 x div 2 ^ n) h_generic_calc_SarN16x4"
    by (auto simp: shift_specs_def switch_simps)
  then have "lane 16 1 (uint (h_generic_calc_SarN16x4 0x80000000 17)) =
      take_bit 16 (sval 16 (lane 16 1 (uint (0x80000000 :: 64 word))) div 2 ^ (unat (17 :: 32 word) mod 16))"
    unfolding shifting_def by simp
  then show ?thesis by (simp add: lane_def sval_def)
qed

text \<open>C25
  The helpers of the unary operators that the taint code emits on vectors compute the reference semantics, on both hosts;
  and the mask of \<open>GetMSBs8x8\<close> has bit \<open>n\<close> exactly if lane \<open>n\<close> is negative.\<close>
theorem simd_unops_refine:
  "(switch amd64_unops op = Some f \<longrightarrow> prim op [uint x] = Some (uint (f x))) \<and>
   (switch arm_unops op = Some g \<longrightarrow> prim op [uint y] = Some (uint (g y))) \<and>
   bit (h_generic_calc_GetMSBs8x8 x) n = (n < 8 \<and> bit x (8 * n + 7))"
proof -
  have "switch_all (\<lambda>op f. prim op [uint x] = Some (uint (f x))) amd64_unops"
    unfolding amd64_unops_def switch_all_unfold by (simp add: lanes1_def CmpNEZ_lanes)
  moreover have "switch_all (\<lambda>op f. prim op [uint y] = Some (uint (f y))) arm_unops"
    unfolding arm_unops_def switch_all_unfold by (simp add: lanes1_def CmpNEZ_lanes)
  ultimately show ?thesis
    using switch_allD [of _ amd64_unops op f] switch_allD [of _ arm_unops op g] GetMSBs8x8_bits by blast
qed

theorem simd_unops_refine_witness:
  "prim Iop_CmpNEZ16x4 [0x100000000] = Some (uint (h_generic_calc_CmpNEZ16x4 0x100000000))"
  using simd_unops_refine [of Iop_CmpNEZ16x4 h_generic_calc_CmpNEZ16x4 "0x100000000"]
  by (simp add: amd64_unops_def switch_simps)

text \<open>C26
  Densely packed decimals. Fifteen binary coded decimal digits survive the conversion to the packed form and back; and
  whatever is converted from the packed form, also from one of the packed patterns no digits are converted to, gives
  decimal digits.\<close>
theorem DPB_BCD_roundtrip:
  "is_bcd 15 (uint (h_calc_DPBtoBCD d)) \<and>
   (is_bcd 15 (uint x) \<longrightarrow> uint x < 2 ^ 60 \<longrightarrow> h_calc_DPBtoBCD (h_calc_BCDtoDPB x) = x)"
  using DPBtoBCD_valid DPB_roundtrip by blast

theorem DPB_BCD_roundtrip_witness: "h_calc_DPBtoBCD (h_calc_BCDtoDPB 0x999888777123456) = 0x999888777123456"
proof -
  have "is_bcd 15 (0x999888777123456 :: int)" unfolding is_bcd_def
  proof (intro allI impI)
    fix i :: nat assume "i < 15"
    then have "i \<in> {0, 1, 2, 3, 4, 5, 6, 7, 8, 9, 10, 11, 12, 13, 14}" unfolding insert_iff empty_iff by arith
    then show "lane 4 i 0x999888777123456 \<le> 9"
      by (elim insertE emptyE; hypsubst; simp add: lane_def take_bit_eq_mod drop_bit_eq_div)
  qed
  then show ?thesis using DPB_BCD_roundtrip [of 0 "0x999888777123456"] by simp
qed

text \<open>\<open>q\<close> is \<open>x\<close> divided by \<open>y\<close>, rounded towards zero.\<close>

definition rounds_to_zero :: "int \<Rightarrow> int \<Rightarrow> int \<Rightarrow> bool" where
  "rounds_to_zero x y q \<longleftrightarrow> \<bar>x - q * y\<bar> < \<bar>y\<bar> \<and> 0 \<le> (x - q * y) * x"

lemma rounds_sdiv: "y \<noteq> 0 \<Longrightarrow> rounds_to_zero x y (x sdiv y)"
  using sdiv_rest by (simp add: rounds_to_zero_def)

lemma sint_zero: "w = 0 \<longleftrightarrow> sint w = 0" for w :: "'a::len word"
  using sint_eq [of w 0] by simp

text \<open>C27: the division helpers never trap: they return zero for a zero divisor, the least number for the one signed quotient that does
  not fit, and otherwise the quotient rounded towards zero: the remainder it leaves is smaller than the divisor and has the sign of
  the dividend.\<close>

theorem division_arm_semantics:
  "h_calc_udiv32_w_arm_semantics c d = Some (if d = 0 then 0 else c div d) \<and>
   h_calc_udiv64_w_arm_semantics a b = Some (if b = 0 then 0 else a div b) \<and>
   (\<exists>q. h_calc_sdiv32_w_arm_semantics x y = Some q \<and>
     (if y = 0 then q = 0 else if sint x = - (2 ^ 31) \<and> sint y = - 1 then sint q = - (2 ^ 31)
      else rounds_to_zero (sint x) (sint y) (sint q))) \<and>
   (\<exists>q. h_calc_sdiv64_w_arm_semantics x' y' = Some q \<and>
     (if y' = 0 then q = 0 else if sint x' = - (2 ^ 63) \<and> sint y' = - 1 then sint q = - (2 ^ 63)
      else rounds_to_zero (sint x') (sint y') (sint q)))"
proof -
  obtain q where q: "h_calc_sdiv32_w_arm_semantics x y = Some q"
    "sint q = (if y = 0 then 0 else if sint x = - (2 ^ 31) \<and> sint y = - 1 then - (2 ^ 31) else sint x sdiv sint y)"
    using sdiv32_returns by blast
  obtain q' where q': "h_calc_sdiv64_w_arm_semantics x' y' = Some q'"
    "sint q' = (if y' = 0 then 0 else if sint x' = - (2 ^ 63) \<and> sint y' = - 1 then - (2 ^ 63) else sint x' sdiv sint y')"
    using sdiv64_returns by blast
  have "if y = 0 then q = 0 else if sint x = - (2 ^ 31) \<and> sint y = - 1 then sint q = - (2 ^ 31)
      else rounds_to_zero (sint x) (sint y) (sint q)"
    using rounds_sdiv [of "sint y" "sint x"] sint_zero [of y] sint_zero [of q] q(2) by (simp split: if_splits)
  moreover have "if y' = 0 then q' = 0 else if sint x' = - (2 ^ 63) \<and> sint y' = - 1 then sint q' = - (2 ^ 63)
      else rounds_to_zero (sint x') (sint y') (sint q')"
    using rounds_sdiv [of "sint y'" "sint x'"] sint_zero [of y'] sint_zero [of q'] q'(2) by (simp split: if_splits)
  ultimately show ?thesis using q(1) q'(1) udiv_returns by blast
qed

theorem division_arm_semantics_witness:
  "h_calc_sdiv32_w_arm_semantics 5 0 = Some 0 \<and> h_calc_udiv64_w_arm_semantics 7 0 = Some 0 \<and>
   (\<exists>q. h_calc_sdiv32_w_arm_semantics 0x80000000 0xFFFFFFFF = Some q \<and> sint q = - (2 ^ 31)) \<and>
   (\<exists>q. h_calc_sdiv64_w_arm_semantics (- 7) 2 = Some q \<and> rounds_to_zero (- 7) 2 (sint q))"
  using division_arm_semantics [of 1 1 7 0 5 0 1 1] division_arm_semantics [of 1 1 1 1 "0x80000000" "0xFFFFFFFF" "- 7" 2] by simp

text \<open>C28
  The V bits of an operator on 64-bit vectors are sound for the helper the host runs. If the code
  \<open>expr2vbits_Binop\<close> emits for the operator computes the V bits \<open>V\<close> where the arguments are \<open>x1\<close> and \<open>x2\<close> with
  the V bits \<open>q1\<close> and \<open>q2\<close>, then every bit of the helper's result that \<open>V\<close> leaves untainted is the same for all
  arguments that agree with \<open>x1\<close> and \<open>x2\<close> on their untainted bits.\<close>
theorem simd_helper_taint_sound:
  assumes "switch amd64_binops op = Some f" "switch lane_ops op = Some w" "op \<in> set sound_binops"
    and "typeOfPrimop op = Some (Ity_I64, Ity_I64, Ity_I64, Ity_INVALID, Ity_INVALID)"
    and "mce_ok mce" "vatom mce s (Orig, a1, Ity_I64, uint x1)" "vatom mce s (Orig, a2, Ity_I64, uint x2)"
    and "atom2vbits mce a1 = Some (v1, mce)" "atom2vbits mce a2 = Some (v2, mce)"
    and "aval s v1 = q1" "aval s v2 = q2" "fits Ity_I64 q1" "fits Ity_I64 q2"
  shows "\<exists>r mce' s' V. expr2vbits_Binop mce op a1 a2 = Some (r, mce') \<and> steps host_prim mce s mce' s' \<and> eval host_prim s' r = Some V \<and>
    (\<forall>y1 y2. agree 64 q1 (uint x1) (uint y1) \<longrightarrow> agree 64 q2 (uint x2) (uint y2) \<longrightarrow> agree 64 V (uint (f x1 x2)) (uint (f y1 y2)))"
proof -
  have h: "host_prim op [uint y1, uint y2] = Some (uint (f y1 y2))" for y1 y2
    using assms(1) sem2_not_lane [OF assms(2)] by (simp add: host_prim_def)
  have u: "fits Ity_I64 (uint y)" for y :: "64 word" using take_uint [of 64 y] by (simp add: fits_def)
  have "\<exists>r mce' s' V. expr2vbits_Binop mce op a1 a2 = Some (r, mce') \<and> steps host_prim mce s mce' s' \<and> eval host_prim s' r = Some V \<and>
      (\<forall>y1 y2 z'. fits Ity_I64 y1 \<longrightarrow> fits Ity_I64 y2 \<longrightarrow> agree (ty_bits Ity_I64) q1 (uint x1) y1 \<longrightarrow> agree (ty_bits Ity_I64) q2 (uint x2) y2 \<longrightarrow>
        host_prim op [y1, y2] = Some z' \<longrightarrow> agree (ty_bits Ity_I64) V (uint (f x1 x2)) z')"
    using Binop_sound [OF host_sem.sound_binops_sound [OF assms(3)] assms(4-9)] assms(10-13) h [of x1 x2]
    unfolding sound_result_def covers_def by blast
  then obtain r mce' s' V where e: "expr2vbits_Binop mce op a1 a2 = Some (r, mce')" "steps host_prim mce s mce' s'" "eval host_prim s' r = Some V"
    and v: "\<And>y1 y2 z'. fits Ity_I64 y1 \<Longrightarrow> fits Ity_I64 y2 \<Longrightarrow> agree (ty_bits Ity_I64) q1 (uint x1) y1 \<Longrightarrow> agree (ty_bits Ity_I64) q2 (uint x2) y2 \<Longrightarrow>
        host_prim op [y1, y2] = Some z' \<Longrightarrow> agree (ty_bits Ity_I64) V (uint (f x1 x2)) z'"
    by blast
  show ?thesis using e v [OF u u _ _ h] by (intro exI conjI allI impI) simp_all
qed

theorem simd_helper_taint_sound_witness:
  "\<exists>r mce' s' V. expr2vbits_Binop (shadowed_mce Ity_I64 Ity_I64) Iop_QSub8Ux8 (Iex_RdTmp 0) (Iex_RdTmp 1) = Some (r, mce') \<and>
    steps host_prim (shadowed_mce Ity_I64 Ity_I64) ((\<lambda>_. 0)(0 := 0x50000, 1 := 7, 2 := 0xFF)) mce' s' \<and> eval host_prim s' r = Some V \<and>
    (\<forall>y1 y2. agree 64 0xFF (uint (0x50000 :: 64 word)) (uint y1) \<longrightarrow> agree 64 0 (uint (7 :: 64 word)) (uint y2) \<longrightarrow>
      agree 64 V (uint (h_generic_calc_QSub8Ux8 0x50000 7)) (uint (h_generic_calc_QSub8Ux8 y1 y2)))"
proof -
  let ?s = "(\<lambda>_. 0)(0 := 0x50000, 1 := 7, 2 := 0xFF) :: store"
  have f: "fits Ity_I64 0x50000" "fits Ity_I64 7" "fits Ity_I64 0xFF" "fits Ity_I64 0" by (simp_all add: fits_def)
  have b: "switch amd64_binops Iop_QSub8Ux8 = Some h_generic_calc_QSub8Ux8" "switch lane_ops Iop_QSub8Ux8 = Some 8"
    by (simp_all add: amd64_binops_def switch_simps lane_rules)
  have op: "Iop_QSub8Ux8 \<in> set sound_binops" by (simp add: sound_binops_def lane_scheme_def)
  have a: "vatom (shadowed_mce Ity_I64 Ity_I64) ?s (Orig, Iex_RdTmp 0, Ity_I64, uint (0x50000 :: 64 word))"
    "vatom (shadowed_mce Ity_I64 Ity_I64) ?s (Orig, Iex_RdTmp 1, Ity_I64, uint (7 :: 64 word))"
    using shadowed_mce_atoms [of Ity_I64 ?s Ity_I64] shadowed_mce_atoms(2) [of Ity_I64 ?s Ity_I64] f by auto
  show ?thesis
    by (rule simd_helper_taint_sound [OF b op _ shadowed_mce_ok a shadowed_mce_shadows _ _ f(3,4)])
      (simp_all add: prim_type_defs aval_def)
qed

end
