(* ===== verification/IRSanity.thy ===== *)
theory IRSanity
  imports TntTranslate
begin

text \<open>
  The sanity checker of IR blocks (\<^verbatim>\<open>VEX/priv/ir_defs.c\<close>), the list operations that build a block, and the small
  helpers at the end of that file. What the checker establishes: single assignment, definition before use and typing, and
  what it leaves out.
\<close>

section \<open>Flatness\<close>

fun is_IRExpr_VECRET_or_GSPTR :: "IRExpr \<Rightarrow> bool" where
  "is_IRExpr_VECRET_or_GSPTR Iex_VECRET = True"
| "is_IRExpr_VECRET_or_GSPTR Iex_GSPTR = True"
| "is_IRExpr_VECRET_or_GSPTR _ = False"

definition isIRAtom_or_VECRET_or_GSPTR :: "IRExpr \<Rightarrow> bool" where
  "isIRAtom_or_VECRET_or_GSPTR e = (if isIRAtom e then True else is_IRExpr_VECRET_or_GSPTR e)"

text \<open>A \<^const>\<open>None\<close> is a panic.\<close>

fun isFlat_rhs :: "IRExpr \<Rightarrow> bool option" where
  "isFlat_rhs (Iex_Binder _) = Some True"
| "isFlat_rhs (Iex_Get _ _) = Some True"
| "isFlat_rhs (Iex_GetI _ ix _) = Some (isIRAtom ix)"
| "isFlat_rhs (Iex_RdTmp _) = Some True"
| "isFlat_rhs (Iex_Qop _ a1 a2 a3 a4) = Some (isIRAtom a1 \<and> isIRAtom a2 \<and> isIRAtom a3 \<and> isIRAtom a4)"
| "isFlat_rhs (Iex_Triop _ a1 a2 a3) = Some (isIRAtom a1 \<and> isIRAtom a2 \<and> isIRAtom a3)"
| "isFlat_rhs (Iex_Binop _ a1 a2) = Some (isIRAtom a1 \<and> isIRAtom a2)"
| "isFlat_rhs (Iex_Unop _ a) = Some (isIRAtom a)"
| "isFlat_rhs (Iex_Load _ _ a) = Some (isIRAtom a)"
| "isFlat_rhs (Iex_Const _) = Some True"
| "isFlat_rhs (Iex_CCall _ _ args) = Some (list_all isIRAtom args)"
| "isFlat_rhs (Iex_ITE c t f) = Some (isIRAtom c \<and> isIRAtom t \<and> isIRAtom f)"
| "isFlat_rhs Iex_VECRET = None"
| "isFlat_rhs Iex_GSPTR = None"

fun isFlatIRStmt :: "IRStmt \<Rightarrow> bool option" where
  "isFlatIRStmt (Ist_AbiHint base _ nia) = Some (isIRAtom base \<and> isIRAtom nia)"
| "isFlatIRStmt (Ist_Put _ d) = Some (isIRAtom d)"
| "isFlatIRStmt (Ist_PutI _ ix _ d) = Some (isIRAtom ix \<and> isIRAtom d)"
| "isFlatIRStmt (Ist_WrTmp _ e) = isFlat_rhs e"
| "isFlatIRStmt (Ist_Store _ a d) = Some (isIRAtom a \<and> isIRAtom d)"
| "isFlatIRStmt (Ist_StoreG sg) = Some (isIRAtom (sg_addr sg) \<and> isIRAtom (sg_data sg) \<and> isIRAtom (sg_guard sg))"
| "isFlatIRStmt (Ist_LoadG lg) = Some (isIRAtom (lg_addr lg) \<and> isIRAtom (lg_alt lg) \<and> isIRAtom (lg_guard lg))"
| "isFlatIRStmt (Ist_CAS cas) = Some (isIRAtom (cas_addr cas) \<and>
     (case cas_expdHi cas of Some e \<Rightarrow> isIRAtom e | None \<Rightarrow> True) \<and> isIRAtom (cas_expdLo cas) \<and>
     (case cas_dataHi cas of Some e \<Rightarrow> isIRAtom e | None \<Rightarrow> True) \<and> isIRAtom (cas_dataLo cas))"
| "isFlatIRStmt (Ist_LLSC _ _ a d) = Some (isIRAtom a \<and> (case d of Some e \<Rightarrow> isIRAtom e | None \<Rightarrow> True))"
| "isFlatIRStmt (Ist_Dirty di) = Some (isIRAtom (d_guard di) \<and> list_all isIRAtom_or_VECRET_or_GSPTR (d_args di) \<and>
     (case d_mAddr di of Some a \<Rightarrow> isIRAtom a | None \<Rightarrow> True))"
| "isFlatIRStmt Ist_NoOp = Some True"
| "isFlatIRStmt (Ist_IMark _ _ _) = Some True"
| "isFlatIRStmt (Ist_MBE _) = Some True"
| "isFlatIRStmt (Ist_Exit g _ _ _) = Some (isIRAtom g)"

section \<open>Sane parts\<close>

definition saneIRRegArray :: "IRRegArray \<Rightarrow> bool" where
  "saneIRRegArray arr =
     (if ra_base arr < 0 \<or> ra_base arr > 10000 then False
      else if ra_elemTy arr = Ity_I1 then False
      else if ra_nElems arr \<le> 0 \<or> ra_nElems arr > 500 then False
      else True)"

definition saneIRCallee :: "IRCallee \<Rightarrow> bool" where
  "saneIRCallee cee =
     (if cee_name cee = None then False
      else if cee_addr cee = 0 then False
      else if cee_regparms cee < 0 \<or> cee_regparms cee > 3 then False
      else True)"

fun saneIRConst :: "IRConst \<Rightarrow> bool" where
  "saneIRConst (Ico_U1 b) = (b = True \<or> b = False)"
| "saneIRConst _ = True"

section \<open>Each temporary is assigned once, before its uses\<close>

text \<open>These checks, and the type checks below, abort the program with a message when they fail: they return whether
  they pass. The array \<^verbatim>\<open>def_counts\<close> is a list.\<close>

definition useBeforeDef_Temp :: "IRSB \<Rightarrow> IRTemp \<Rightarrow> nat list \<Rightarrow> bool" where
  "useBeforeDef_Temp bb tmp def_counts =
     (if tmp \<ge> length (bb_tyenv bb) then False
      else if def_counts ! tmp < 1 then False
      else True)"

definition assignedOnce_Temp :: "IRTemp \<Rightarrow> nat list \<Rightarrow> nat \<Rightarrow> nat list option" where
  "assignedOnce_Temp tmp def_counts n_def_counts =
     (if tmp \<ge> n_def_counts then None
      else let def_counts = def_counts[tmp := def_counts ! tmp + 1] in
        if def_counts ! tmp > 1 then None else Some def_counts)"

fun useBeforeDef_Expr :: "IRSB \<Rightarrow> IRExpr \<Rightarrow> nat list \<Rightarrow> bool" where
  "useBeforeDef_Expr bb (Iex_Get _ _) dc = True"
| "useBeforeDef_Expr bb (Iex_GetI _ ix _) dc = useBeforeDef_Expr bb ix dc"
| "useBeforeDef_Expr bb (Iex_RdTmp t) dc = useBeforeDef_Temp bb t dc"
| "useBeforeDef_Expr bb (Iex_Qop _ a1 a2 a3 a4) dc =
     (useBeforeDef_Expr bb a1 dc \<and> useBeforeDef_Expr bb a2 dc \<and> useBeforeDef_Expr bb a3 dc \<and> useBeforeDef_Expr bb a4 dc)"
| "useBeforeDef_Expr bb (Iex_Triop _ a1 a2 a3) dc =
     (useBeforeDef_Expr bb a1 dc \<and> useBeforeDef_Expr bb a2 dc \<and> useBeforeDef_Expr bb a3 dc)"
| "useBeforeDef_Expr bb (Iex_Binop _ a1 a2) dc = (useBeforeDef_Expr bb a1 dc \<and> useBeforeDef_Expr bb a2 dc)"
| "useBeforeDef_Expr bb (Iex_Unop _ a) dc = useBeforeDef_Expr bb a dc"
| "useBeforeDef_Expr bb (Iex_Load _ _ a) dc = useBeforeDef_Expr bb a dc"
| "useBeforeDef_Expr bb (Iex_Const _) dc = True"
| "useBeforeDef_Expr bb (Iex_CCall _ _ args) dc =
     (\<forall>arg \<in> set args. if is_IRExpr_VECRET_or_GSPTR arg then False else useBeforeDef_Expr bb arg dc)"
| "useBeforeDef_Expr bb (Iex_ITE c t f) dc =
     (useBeforeDef_Expr bb c dc \<and> useBeforeDef_Expr bb t dc \<and> useBeforeDef_Expr bb f dc)"
| "useBeforeDef_Expr bb (Iex_Binder _) dc = False"
| "useBeforeDef_Expr bb Iex_VECRET dc = False"
| "useBeforeDef_Expr bb Iex_GSPTR dc = False"

fun useBeforeDef_Stmt :: "IRSB \<Rightarrow> IRStmt \<Rightarrow> nat list \<Rightarrow> bool" where
  "useBeforeDef_Stmt bb (Ist_IMark _ _ _) dc = True"
| "useBeforeDef_Stmt bb (Ist_AbiHint base _ nia) dc = (useBeforeDef_Expr bb base dc \<and> useBeforeDef_Expr bb nia dc)"
| "useBeforeDef_Stmt bb (Ist_Put _ d) dc = useBeforeDef_Expr bb d dc"
| "useBeforeDef_Stmt bb (Ist_PutI _ ix _ d) dc = (useBeforeDef_Expr bb ix dc \<and> useBeforeDef_Expr bb d dc)"
| "useBeforeDef_Stmt bb (Ist_WrTmp _ e) dc = useBeforeDef_Expr bb e dc"
| "useBeforeDef_Stmt bb (Ist_Store _ a d) dc = (useBeforeDef_Expr bb a dc \<and> useBeforeDef_Expr bb d dc)"
| "useBeforeDef_Stmt bb (Ist_StoreG sg) dc =
     (useBeforeDef_Expr bb (sg_addr sg) dc \<and> useBeforeDef_Expr bb (sg_data sg) dc \<and> useBeforeDef_Expr bb (sg_guard sg) dc)"
| "useBeforeDef_Stmt bb (Ist_LoadG lg) dc =
     (useBeforeDef_Expr bb (lg_addr lg) dc \<and> useBeforeDef_Expr bb (lg_alt lg) dc \<and> useBeforeDef_Expr bb (lg_guard lg) dc)"
| "useBeforeDef_Stmt bb (Ist_CAS cas) dc =
     (useBeforeDef_Expr bb (cas_addr cas) dc \<and>
      (case cas_expdHi cas of Some e \<Rightarrow> useBeforeDef_Expr bb e dc | None \<Rightarrow> True) \<and> useBeforeDef_Expr bb (cas_expdLo cas) dc \<and>
      (case cas_dataHi cas of Some e \<Rightarrow> useBeforeDef_Expr bb e dc | None \<Rightarrow> True) \<and> useBeforeDef_Expr bb (cas_dataLo cas) dc)"
| "useBeforeDef_Stmt bb (Ist_LLSC _ _ a d) dc =
     (useBeforeDef_Expr bb a dc \<and> (case d of Some e \<Rightarrow> useBeforeDef_Expr bb e dc | None \<Rightarrow> True))"
| "useBeforeDef_Stmt bb (Ist_Dirty d) dc =
     ((\<forall>arg \<in> set (d_args d). if is_IRExpr_VECRET_or_GSPTR arg then True else useBeforeDef_Expr bb arg dc) \<and>
      (if d_mFx d \<noteq> Ifx_None then (case d_mAddr d of Some a \<Rightarrow> useBeforeDef_Expr bb a dc | None \<Rightarrow> False) else True))"
| "useBeforeDef_Stmt bb Ist_NoOp dc = True"
| "useBeforeDef_Stmt bb (Ist_MBE _) dc = True"
| "useBeforeDef_Stmt bb (Ist_Exit g _ _ _) dc = useBeforeDef_Expr bb g dc"

fun assignedOnce_Stmt :: "IRStmt \<Rightarrow> nat list \<Rightarrow> nat \<Rightarrow> nat list option" where
  "assignedOnce_Stmt (Ist_WrTmp t _) dc n = assignedOnce_Temp t dc n"
| "assignedOnce_Stmt (Ist_LoadG lg) dc n = assignedOnce_Temp (lg_dst lg) dc n"
| "assignedOnce_Stmt (Ist_Dirty d) dc n = (case d_tmp d of Some t \<Rightarrow> assignedOnce_Temp t dc n | None \<Rightarrow> Some dc)"
| "assignedOnce_Stmt (Ist_CAS cas) dc n = do {
     dc \<leftarrow> (case cas_oldHi cas of Some t \<Rightarrow> assignedOnce_Temp t dc n | None \<Rightarrow> Some dc);
     assignedOnce_Temp (cas_oldLo cas) dc n
   }"
| "assignedOnce_Stmt (Ist_LLSC _ r _ _) dc n = assignedOnce_Temp r dc n"
| "assignedOnce_Stmt _ dc n = Some dc"

section \<open>Types\<close>

text \<open>A type is \<^const>\<open>None\<close> where computing it aborts.\<close>

fun typeOfIRLoadGOp :: "IRLoadGOp \<Rightarrow> (IRType \<times> IRType) option" where
  "typeOfIRLoadGOp ILGop_IdentV128 = Some (Ity_V128, Ity_V128)"
| "typeOfIRLoadGOp ILGop_Ident64 = Some (Ity_I64, Ity_I64)"
| "typeOfIRLoadGOp ILGop_Ident32 = Some (Ity_I32, Ity_I32)"
| "typeOfIRLoadGOp ILGop_16Uto32 = Some (Ity_I32, Ity_I16)"
| "typeOfIRLoadGOp ILGop_16Sto32 = Some (Ity_I32, Ity_I16)"
| "typeOfIRLoadGOp ILGop_8Uto32 = Some (Ity_I32, Ity_I8)"
| "typeOfIRLoadGOp ILGop_8Sto32 = Some (Ity_I32, Ity_I8)"
| "typeOfIRLoadGOp ILGop_INVALID = None"

fun isPlausibleIRType :: "IRType \<Rightarrow> bool" where
  "isPlausibleIRType _ = True"

definition has_ty :: "IRType list \<Rightarrow> IRExpr \<Rightarrow> IRType \<Rightarrow> bool" where
  "has_ty tyenv e ty \<longleftrightarrow> typeOfIRExpr tyenv e = Some ty"

definition not_ty :: "IRType list \<Rightarrow> IRExpr \<Rightarrow> IRType \<Rightarrow> bool" where
  "not_ty tyenv e ty \<longleftrightarrow> typeOfIRExpr tyenv e \<noteq> None \<and> typeOfIRExpr tyenv e \<noteq> Some ty"

fun tcExpr :: "IRSB \<Rightarrow> IRExpr \<Rightarrow> IRType \<Rightarrow> bool" where
  "tcExpr bb (Iex_Get _ _) gWordTy = True"
| "tcExpr bb (Iex_RdTmp _) gWordTy = True"
| "tcExpr bb (Iex_GetI descr ix _) gWordTy =
     (tcExpr bb ix gWordTy \<and> has_ty (bb_tyenv bb) ix Ity_I32 \<and> saneIRRegArray descr)"
| "tcExpr bb (Iex_Qop op a1 a2 a3 a4) gWordTy =
     (tcExpr bb a1 gWordTy \<and> tcExpr bb a2 gWordTy \<and> tcExpr bb a3 gWordTy \<and> tcExpr bb a4 gWordTy \<and>
      (case typeOfPrimop op of None \<Rightarrow> False | Some (t_dst, t_arg1, t_arg2, t_arg3, t_arg4) \<Rightarrow>
         (if t_arg1 = Ity_INVALID \<or> t_arg2 = Ity_INVALID \<or> t_arg3 = Ity_INVALID \<or> t_arg4 = Ity_INVALID then False
          else has_ty (bb_tyenv bb) a1 t_arg1 \<and> has_ty (bb_tyenv bb) a2 t_arg2 \<and> has_ty (bb_tyenv bb) a3 t_arg3 \<and>
            has_ty (bb_tyenv bb) a4 t_arg4)))"
| "tcExpr bb (Iex_Triop op a1 a2 a3) gWordTy =
     (tcExpr bb a1 gWordTy \<and> tcExpr bb a2 gWordTy \<and> tcExpr bb a3 gWordTy \<and>
      (case typeOfPrimop op of None \<Rightarrow> False | Some (t_dst, t_arg1, t_arg2, t_arg3, t_arg4) \<Rightarrow>
         (if t_arg1 = Ity_INVALID \<or> t_arg2 = Ity_INVALID \<or> t_arg3 = Ity_INVALID \<or> t_arg4 \<noteq> Ity_INVALID then False
          else has_ty (bb_tyenv bb) a1 t_arg1 \<and> has_ty (bb_tyenv bb) a2 t_arg2 \<and> has_ty (bb_tyenv bb) a3 t_arg3)))"
| "tcExpr bb (Iex_Binop op a1 a2) gWordTy =
     (tcExpr bb a1 gWordTy \<and> tcExpr bb a2 gWordTy \<and>
      (case typeOfPrimop op of None \<Rightarrow> False | Some (t_dst, t_arg1, t_arg2, t_arg3, t_arg4) \<Rightarrow>
         (if t_arg1 = Ity_INVALID \<or> t_arg2 = Ity_INVALID \<or> t_arg3 \<noteq> Ity_INVALID \<or> t_arg4 \<noteq> Ity_INVALID then False
          else has_ty (bb_tyenv bb) a1 t_arg1 \<and> has_ty (bb_tyenv bb) a2 t_arg2)))"
| "tcExpr bb (Iex_Unop op a) gWordTy =
     (tcExpr bb a gWordTy \<and>
      (case typeOfPrimop op of None \<Rightarrow> False | Some (t_dst, t_arg1, t_arg2, t_arg3, t_arg4) \<Rightarrow>
         (if t_arg1 = Ity_INVALID \<or> t_arg2 \<noteq> Ity_INVALID \<or> t_arg3 \<noteq> Ity_INVALID \<or> t_arg4 \<noteq> Ity_INVALID then False
          else has_ty (bb_tyenv bb) a t_arg1)))"
| "tcExpr bb (Iex_Load _ _ a) gWordTy = (tcExpr bb a gWordTy \<and> has_ty (bb_tyenv bb) a gWordTy)"
| "tcExpr bb (Iex_CCall cee retty args) gWordTy =
     (saneIRCallee cee \<and> cee_regparms cee \<le> int (length args) \<and> length args \<le> 32 \<and>
      (\<forall>arg \<in> set args. if is_IRExpr_VECRET_or_GSPTR arg then False else tcExpr bb arg gWordTy) \<and>
      retty \<noteq> Ity_I1 \<and> (\<forall>arg \<in> set args. not_ty (bb_tyenv bb) arg Ity_I1))"
| "tcExpr bb (Iex_Const c) gWordTy = saneIRConst c"
| "tcExpr bb (Iex_ITE c t f) gWordTy =
     (tcExpr bb c gWordTy \<and> tcExpr bb t gWordTy \<and> tcExpr bb f gWordTy \<and> has_ty (bb_tyenv bb) c Ity_I1 \<and>
      (case typeOfIRExpr (bb_tyenv bb) t of None \<Rightarrow> False | Some ty \<Rightarrow> has_ty (bb_tyenv bb) f ty))"
| "tcExpr bb (Iex_Binder _) gWordTy = False"
| "tcExpr bb Iex_VECRET gWordTy = False"
| "tcExpr bb Iex_GSPTR gWordTy = False"

definition lane_tys :: "IRType list" where
  "lane_tys = [Ity_I64, Ity_I32, Ity_I16, Ity_I8]"

text \<open>A double compare-and-swap has all three high parts, a single one none.\<close>

definition tcCAS :: "IRSB \<Rightarrow> IRCAS \<Rightarrow> IRType \<Rightarrow> bool" where
  "tcCAS bb cas gWordTy = (let tyenv = bb_tyenv bb in
     (cas_oldHi cas = None \<and> cas_expdHi cas = None \<and> cas_dataHi cas = None \<or>
      cas_oldHi cas \<noteq> None \<and> cas_expdHi cas \<noteq> None \<and> cas_dataHi cas \<noteq> None) \<and>
     tcExpr bb (cas_addr cas) gWordTy \<and> has_ty tyenv (cas_addr cas) gWordTy \<and>
     (case (typeOfIRExpr tyenv (cas_expdLo cas), typeOfIRExpr tyenv (cas_dataLo cas), typeOfIRTemp tyenv (cas_oldLo cas)) of
        (Some tyExpd, Some tyData, Some tyOld) \<Rightarrow>
          tyExpd = tyData \<and> tyExpd = tyOld \<and>
          (tyExpd = Ity_I8 \<or> tyExpd = Ity_I16 \<or> tyExpd = Ity_I32 \<or> (gWordTy = Ity_I64 \<and> tyExpd = Ity_I64))
      | _ \<Rightarrow> False) \<and>
     (case (cas_oldHi cas, cas_expdHi cas, cas_dataHi cas) of
        (Some oldHi, Some expdHi, Some dataHi) \<Rightarrow>
          (case (typeOfIRExpr tyenv expdHi, typeOfIRExpr tyenv dataHi, typeOfIRTemp tyenv oldHi) of
             (Some tyExpd, Some tyData, Some tyOld) \<Rightarrow>
               tyExpd = tyData \<and> tyExpd = tyOld \<and> typeOfIRTemp tyenv (cas_oldLo cas) = Some tyOld
           | _ \<Rightarrow> False)
      | _ \<Rightarrow> True))"

text \<open>One effect of a dirty call on the guest state. The size is positive when the remainder is taken.\<close>

definition sane_fxState :: "IRFxState \<Rightarrow> bool" where
  "sane_fxState fx =
     (if fx_fx fx = Ifx_None then False
      else if fx_size fx \<le> 0 then False
      else if fx_nRepeats fx = 0 then \<not> fx_repeatLen fx \<noteq> 0
      else if fx_repeatLen fx \<le> fx_size fx then False
      else \<not> fx_repeatLen fx mod fx_size fx \<noteq> 0)"

text \<open>The loop over the arguments of a dirty call: the body for argument \<^verbatim>\<open>i\<close>, with the counters
  \<^verbatim>\<open>nVECRETs\<close> and \<^verbatim>\<open>nGSPTRs\<close>, and the loop from argument \<^verbatim>\<open>i\<close> on. \<^const>\<open>None\<close> is a failed check.\<close>

definition tcDirty_arg :: "IRType list \<Rightarrow> IRType \<Rightarrow> nat \<Rightarrow> IRExpr \<Rightarrow> nat \<times> nat \<Rightarrow> (nat \<times> nat) option" where
  "tcDirty_arg tyenv retTy i arg n =
     (let nVECRETs = (if arg = Iex_VECRET then fst n + 1 else fst n);
          nGSPTRs = (if arg = Iex_GSPTR then snd n + 1 else snd n) in
      if i \<ge> 32 then None
      else if arg \<noteq> Iex_VECRET \<and> arg \<noteq> Iex_GSPTR \<and> \<not> not_ty tyenv arg Ity_I1 then None
      else if nGSPTRs > 1 then None
      else if nVECRETs = 1 then
        (if retTy \<noteq> Ity_V128 \<and> retTy \<noteq> Ity_V256 then None else Some (nVECRETs, nGSPTRs))
      else if nVECRETs = 0 then
        (if retTy = Ity_V128 \<or> retTy = Ity_V256 then None else Some (nVECRETs, nGSPTRs))
      else None)"

primrec tcDirty_args :: "IRType list \<Rightarrow> IRType \<Rightarrow> IRExpr list \<Rightarrow> nat \<Rightarrow> nat \<times> nat \<Rightarrow> (nat \<times> nat) option" where
  "tcDirty_args tyenv retTy [] i n = Some n"
| "tcDirty_args tyenv retTy (arg # args) i n =
     (case tcDirty_arg tyenv retTy i arg n of None \<Rightarrow> None | Some n \<Rightarrow> tcDirty_args tyenv retTy args (i + 1) n)"

definition tcDirty :: "IRSB \<Rightarrow> IRDirty \<Rightarrow> IRType \<Rightarrow> bool" where
  "tcDirty bb d gWordTy = (let tyenv = bb_tyenv bb in
     saneIRCallee (d_cee d) \<and> \<not> cee_regparms (d_cee d) > int (length (d_args d)) \<and>
     (if d_mFx d = Ifx_None then \<not> (d_mAddr d \<noteq> None \<or> d_mSize d \<noteq> 0)
      else \<not> (d_mAddr d = None \<or> d_mSize d = 0)) \<and>
     \<not> length (d_fxState d) > 7 \<and> list_all sane_fxState (d_fxState d) \<and>
     tcExpr bb (d_guard d) gWordTy \<and> has_ty tyenv (d_guard d) Ity_I1 \<and>
     (case (case d_tmp d of None \<Rightarrow> Some Ity_INVALID | Some t \<Rightarrow> typeOfIRTemp tyenv t) of
        None \<Rightarrow> False
      | Some retTy \<Rightarrow> \<not> (d_tmp d \<noteq> None \<and> retTy = Ity_I1) \<and>
          (case tcDirty_args tyenv retTy (d_args d) 0 (0, 0) of
             None \<Rightarrow> False
           | Some (nVECRETs, nGSPTRs) \<Rightarrow> \<not> nGSPTRs > 1 \<and> \<not> (length (d_fxState d) = 0 \<and> nGSPTRs \<noteq> 0))))"

text \<open>The endianness and the bus event have no values beyond those the code allows.\<close>

fun tcStmt :: "IRSB \<Rightarrow> IRStmt \<Rightarrow> IRType \<Rightarrow> bool" where
  "tcStmt bb (Ist_IMark _ len delta) gWordTy = (\<not> len > 24 \<and> \<not> delta > 1)"
| "tcStmt bb (Ist_AbiHint base _ nia) gWordTy =
     (has_ty (bb_tyenv bb) base gWordTy \<and> has_ty (bb_tyenv bb) nia gWordTy)"
| "tcStmt bb (Ist_Put _ d) gWordTy = (tcExpr bb d gWordTy \<and> not_ty (bb_tyenv bb) d Ity_I1)"
| "tcStmt bb (Ist_PutI descr ix _ d) gWordTy =
     (tcExpr bb d gWordTy \<and> tcExpr bb ix gWordTy \<and> not_ty (bb_tyenv bb) d Ity_I1 \<and>
      has_ty (bb_tyenv bb) d (ra_elemTy descr) \<and> has_ty (bb_tyenv bb) ix Ity_I32 \<and> saneIRRegArray descr)"
| "tcStmt bb (Ist_WrTmp t e) gWordTy =
     (tcExpr bb e gWordTy \<and>
      (case typeOfIRTemp (bb_tyenv bb) t of None \<Rightarrow> False | Some ty \<Rightarrow> has_ty (bb_tyenv bb) e ty))"
| "tcStmt bb (Ist_Store _ a d) gWordTy =
     (tcExpr bb a gWordTy \<and> tcExpr bb d gWordTy \<and> has_ty (bb_tyenv bb) a gWordTy \<and> not_ty (bb_tyenv bb) d Ity_I1)"
| "tcStmt bb (Ist_StoreG sg) gWordTy =
     (tcExpr bb (sg_addr sg) gWordTy \<and> tcExpr bb (sg_data sg) gWordTy \<and> tcExpr bb (sg_guard sg) gWordTy \<and>
      has_ty (bb_tyenv bb) (sg_addr sg) gWordTy \<and> not_ty (bb_tyenv bb) (sg_data sg) Ity_I1 \<and>
      has_ty (bb_tyenv bb) (sg_guard sg) Ity_I1)"
| "tcStmt bb (Ist_LoadG lg) gWordTy =
     (tcExpr bb (lg_addr lg) gWordTy \<and> tcExpr bb (lg_alt lg) gWordTy \<and> tcExpr bb (lg_guard lg) gWordTy \<and>
      has_ty (bb_tyenv bb) (lg_guard lg) Ity_I1 \<and> has_ty (bb_tyenv bb) (lg_addr lg) gWordTy \<and>
      (case typeOfIRTemp (bb_tyenv bb) (lg_dst lg) of
         None \<Rightarrow> False
       | Some ty \<Rightarrow> has_ty (bb_tyenv bb) (lg_alt lg) ty \<and> map_option fst (typeOfIRLoadGOp (lg_cvt lg)) = Some ty))"
| "tcStmt bb (Ist_CAS cas) gWordTy = tcCAS bb cas gWordTy"
| "tcStmt bb (Ist_LLSC _ result addr storedata) gWordTy =
     (has_ty (bb_tyenv bb) addr gWordTy \<and>
      (case typeOfIRTemp (bb_tyenv bb) result of
         None \<Rightarrow> False
       | Some tyRes \<Rightarrow>
           (case storedata of
              None \<Rightarrow> tyRes \<in> set lane_tys
            | Some sd \<Rightarrow> tyRes = Ity_I1 \<and>
                (case typeOfIRExpr (bb_tyenv bb) sd of None \<Rightarrow> False | Some tyData \<Rightarrow> tyData \<in> set lane_tys))))"
| "tcStmt bb (Ist_Dirty d) gWordTy = tcDirty bb d gWordTy"
| "tcStmt bb Ist_NoOp gWordTy = True"
| "tcStmt bb (Ist_MBE _) gWordTy = True"
| "tcStmt bb (Ist_Exit g _ dst offsIP) gWordTy =
     (tcExpr bb g gWordTy \<and> has_ty (bb_tyenv bb) g Ity_I1 \<and> saneIRConst dst \<and> typeOfIRConst dst = gWordTy \<and> \<not> offsIP < 16)"

section \<open>The check of a block\<close>

text \<open>The loop that counts the definitions, over the statements that remain.\<close>

primrec check_defs :: "IRSB \<Rightarrow> IRStmt list \<Rightarrow> nat list \<Rightarrow> nat list option" where
  "check_defs bb [] def_counts = Some def_counts"
| "check_defs bb (st # stmts) def_counts =
     (if useBeforeDef_Stmt bb st def_counts then
        (case assignedOnce_Stmt st def_counts (length (bb_tyenv bb)) of
           None \<Rightarrow> None | Some def_counts \<Rightarrow> check_defs bb stmts def_counts)
      else None)"

definition sanityCheckIRSB :: "IRSB \<Rightarrow> bool \<Rightarrow> IRType \<Rightarrow> bool" where
  "sanityCheckIRSB bb require_flat guest_word_size \<longleftrightarrow>
     (guest_word_size = Ity_I32 \<or> guest_word_size = Ity_I64) \<and>
     \<not> (bb_stmts_size bb < 8 \<or> int (length (bb_stmts bb)) > bb_stmts_size bb) \<and>
     list_all isPlausibleIRType (bb_tyenv bb) \<and>
     (require_flat \<longrightarrow> list_all (\<lambda>st. isFlatIRStmt st = Some True) (bb_stmts bb) \<and> isIRAtom (bb_next bb)) \<and>
     check_defs bb (bb_stmts bb) (replicate (length (bb_tyenv bb)) 0) \<noteq> None \<and>
     list_all (\<lambda>st. tcStmt bb st guest_word_size) (bb_stmts bb) \<and>
     has_ty (bb_tyenv bb) (bb_next bb) guest_word_size \<and> \<not> bb_offsIP bb < 16"

section \<open>Helper functions\<close>

text \<open>The comparison of two floating-point numbers with an exponent of \<open>e\<close> bits and a fraction of \<open>f\<close>, by
  their bits: a NaN differs from every number, and the two zeros are equal.\<close>

definition float_nan :: "nat \<Rightarrow> nat \<Rightarrow> int \<Rightarrow> bool" where
  "float_nan e f x \<longleftrightarrow> take_bit e (drop_bit f x) = mask e \<and> take_bit f x \<noteq> 0"

definition float_eq :: "nat \<Rightarrow> nat \<Rightarrow> int \<Rightarrow> int \<Rightarrow> bool" where
  "float_eq e f x y \<longleftrightarrow>
     \<not> float_nan e f x \<and> \<not> float_nan e f y \<and> (x = y \<or> take_bit (e + f) x = 0 \<and> take_bit (e + f) y = 0)"

definition eqIRConst :: "IRConst \<Rightarrow> IRConst \<Rightarrow> bool" where
  "eqIRConst c1 c2 = (case c1 of
      Ico_U1 a \<Rightarrow> (case c2 of Ico_U1 b \<Rightarrow> a = b | _ \<Rightarrow> False)
    | Ico_U8 a \<Rightarrow> (case c2 of Ico_U8 b \<Rightarrow> a = b | _ \<Rightarrow> False)
    | Ico_U16 a \<Rightarrow> (case c2 of Ico_U16 b \<Rightarrow> a = b | _ \<Rightarrow> False)
    | Ico_U32 a \<Rightarrow> (case c2 of Ico_U32 b \<Rightarrow> a = b | _ \<Rightarrow> False)
    | Ico_U64 a \<Rightarrow> (case c2 of Ico_U64 b \<Rightarrow> a = b | _ \<Rightarrow> False)
    | Ico_F32 a \<Rightarrow> (case c2 of Ico_F32 b \<Rightarrow> float_eq 8 23 (uint a) (uint b) | _ \<Rightarrow> False)
    | Ico_F32i a \<Rightarrow> (case c2 of Ico_F32i b \<Rightarrow> a = b | _ \<Rightarrow> False)
    | Ico_F64 a \<Rightarrow> (case c2 of Ico_F64 b \<Rightarrow> float_eq 11 52 (uint a) (uint b) | _ \<Rightarrow> False)
    | Ico_F64i a \<Rightarrow> (case c2 of Ico_F64i b \<Rightarrow> a = b | _ \<Rightarrow> False)
    | Ico_V128 a \<Rightarrow> (case c2 of Ico_V128 b \<Rightarrow> a = b | _ \<Rightarrow> False)
    | Ico_V256 a \<Rightarrow> (case c2 of Ico_V256 b \<Rightarrow> a = b | _ \<Rightarrow> False))"

definition eqIRRegArray :: "IRRegArray \<Rightarrow> IRRegArray \<Rightarrow> bool" where
  "eqIRRegArray descr1 descr2 =
     (ra_base descr1 = ra_base descr2 \<and> ra_elemTy descr1 = ra_elemTy descr2 \<and> ra_nElems descr1 = ra_nElems descr2)"

definition integerIRTypeOfSize :: "int \<Rightarrow> IRType option" where
  "integerIRTypeOfSize szB =
     (if szB = 8 then Some Ity_I64
      else if szB = 4 then Some Ity_I32
      else if szB = 2 then Some Ity_I16
      else if szB = 1 then Some Ity_I8
      else None)"

text \<open>The host word has eight bytes.\<close>

definition mkIRExpr_HWord :: "u64 \<Rightarrow> IRExpr" where
  "mkIRExpr_HWord hw = Iex_Const (Ico_U64 hw)"

definition mkIRCallee :: "int \<Rightarrow> string option \<Rightarrow> u64 \<Rightarrow> IRCallee option" where
  "mkIRCallee regparms name addr =
     (if \<not> (regparms \<ge> 0 \<and> regparms \<le> 3) then None
      else if \<not> name \<noteq> None then None
      else if \<not> addr \<noteq> 0 then None
      else Some \<lparr> cee_regparms = regparms, cee_name = name, cee_addr = addr, cee_mcx_mask = 0 \<rparr>)"

definition unsafeIRDirty_0_N :: "int \<Rightarrow> string option \<Rightarrow> u64 \<Rightarrow> IRExpr list \<Rightarrow> IRDirty option" where
  "unsafeIRDirty_0_N regparms name addr args =
     (case mkIRCallee regparms name addr of
        None \<Rightarrow> None
      | Some cee \<Rightarrow> Some \<lparr> d_cee = cee, d_guard = Iex_Const (Ico_U1 True), d_args = args, d_tmp = None,
          d_mFx = Ifx_None, d_mAddr = None, d_mSize = 0, d_fxState = [] \<rparr>)"

definition unsafeIRDirty_1_N :: "IRTemp \<Rightarrow> int \<Rightarrow> string option \<Rightarrow> u64 \<Rightarrow> IRExpr list \<Rightarrow> IRDirty option" where
  "unsafeIRDirty_1_N dst regparms name addr args =
     (case mkIRCallee regparms name addr of
        None \<Rightarrow> None
      | Some cee \<Rightarrow> Some \<lparr> d_cee = cee, d_guard = Iex_Const (Ico_U1 True), d_args = args, d_tmp = Some dst,
          d_mFx = Ifx_None, d_mAddr = None, d_mSize = 0, d_fxState = [] \<rparr>)"

definition mkIRExprCCall :: "IRType \<Rightarrow> int \<Rightarrow> string option \<Rightarrow> u64 \<Rightarrow> IRExpr list \<Rightarrow> IRExpr option" where
  "mkIRExprCCall retty regparms name addr args =
     (case mkIRCallee regparms name addr of None \<Rightarrow> None | Some cee \<Rightarrow> Some (Iex_CCall cee retty args))"

definition eqIRAtom :: "IRExpr \<Rightarrow> IRExpr \<Rightarrow> bool option" where
  "eqIRAtom a1 a2 =
     (if \<not> isIRAtom a1 then None
      else if \<not> isIRAtom a2 then None
      else case (a1, a2) of
        (Iex_RdTmp t1, Iex_RdTmp t2) \<Rightarrow> Some (t1 = t2)
      | (Iex_Const c1, Iex_Const c2) \<Rightarrow> Some (eqIRConst c1 c2)
      | _ \<Rightarrow> Some False)"

section \<open>Building a block\<close>

text \<open>The blocks the passes build: the types and the statements in use are lists. \<open>add_stmt\<close> and \<open>new_temp\<close> are the
  calls of \<open>addStmtToIRSB\<close> and \<open>newIRTemp\<close> on them, where memory is not exhausted. Theory IRBuild has these functions on
  their arrays, with the allocator, and proves that they refine the lists.\<close>

definition empty_block :: "IRExpr \<Rightarrow> IRSB" where
  "empty_block nul = \<lparr> bb_tyenv = [], bb_stmts = [], bb_stmts_size = 8, bb_next = nul, bb_jumpkind = Ijk_Boring, bb_offsIP = 0 \<rparr>"

definition add_stmt :: "IRSB \<Rightarrow> IRStmt \<Rightarrow> IRSB option" where
  "add_stmt bb st = do {
     let stmts_used = int (length (bb_stmts bb));
     bb \<leftarrow> (if stmts_used = bb_stmts_size bb then do {
         assert_that (2 * bb_stmts_size bb < 2 ^ 31);
         Some (bb \<lparr> bb_stmts_size := 2 * bb_stmts_size bb \<rparr>) } else Some bb);
     assert_that (stmts_used < bb_stmts_size bb);
     Some (bb \<lparr> bb_stmts := bb_stmts bb @ [st] \<rparr>) }"

definition new_temp :: "IRSB \<Rightarrow> IRType \<Rightarrow> IRTemp \<times> IRSB" where
  "new_temp bb ty = (length (bb_tyenv bb), bb \<lparr> bb_tyenv := bb_tyenv bb @ [ty] \<rparr>)"

section \<open>What the check establishes\<close>

fun expr_temps :: "IRExpr \<Rightarrow> IRTemp set" where
  "expr_temps (Iex_GetI _ ix _) = expr_temps ix"
| "expr_temps (Iex_RdTmp t) = {t}"
| "expr_temps (Iex_Qop _ a1 a2 a3 a4) = expr_temps a1 \<union> expr_temps a2 \<union> expr_temps a3 \<union> expr_temps a4"
| "expr_temps (Iex_Triop _ a1 a2 a3) = expr_temps a1 \<union> expr_temps a2 \<union> expr_temps a3"
| "expr_temps (Iex_Binop _ a1 a2) = expr_temps a1 \<union> expr_temps a2"
| "expr_temps (Iex_Unop _ a) = expr_temps a"
| "expr_temps (Iex_Load _ _ a) = expr_temps a"
| "expr_temps (Iex_CCall _ _ args) = (\<Union>a \<in> set args. expr_temps a)"
| "expr_temps (Iex_ITE c t f) = expr_temps c \<union> expr_temps t \<union> expr_temps f"
| "expr_temps _ = {}"

definition opt_temps :: "IRExpr option \<Rightarrow> IRTemp set" where
  "opt_temps e = (case e of None \<Rightarrow> {} | Some e \<Rightarrow> expr_temps e)"

text \<open>The temporaries a statement reads, and those it assigns.\<close>

fun stmt_uses :: "IRStmt \<Rightarrow> IRTemp set" where
  "stmt_uses (Ist_AbiHint base _ nia) = expr_temps base \<union> expr_temps nia"
| "stmt_uses (Ist_Put _ d) = expr_temps d"
| "stmt_uses (Ist_PutI _ ix _ d) = expr_temps ix \<union> expr_temps d"
| "stmt_uses (Ist_WrTmp _ e) = expr_temps e"
| "stmt_uses (Ist_Store _ a d) = expr_temps a \<union> expr_temps d"
| "stmt_uses (Ist_StoreG sg) = expr_temps (sg_addr sg) \<union> expr_temps (sg_data sg) \<union> expr_temps (sg_guard sg)"
| "stmt_uses (Ist_LoadG lg) = expr_temps (lg_addr lg) \<union> expr_temps (lg_alt lg) \<union> expr_temps (lg_guard lg)"
| "stmt_uses (Ist_CAS cas) = expr_temps (cas_addr cas) \<union> opt_temps (cas_expdHi cas) \<union> expr_temps (cas_expdLo cas) \<union>
     opt_temps (cas_dataHi cas) \<union> expr_temps (cas_dataLo cas)"
| "stmt_uses (Ist_LLSC _ _ a d) = expr_temps a \<union> opt_temps d"
| "stmt_uses (Ist_Dirty d) = expr_temps (d_guard d) \<union> (\<Union>a \<in> set (d_args d). expr_temps a) \<union> opt_temps (d_mAddr d)"
| "stmt_uses (Ist_Exit g _ _ _) = expr_temps g"
| "stmt_uses _ = {}"

fun dirty_guard_temps :: "IRStmt \<Rightarrow> IRTemp set" where
  "dirty_guard_temps (Ist_Dirty d) = expr_temps (d_guard d)"
| "dirty_guard_temps _ = {}"

definition opt_list :: "'a option \<Rightarrow> 'a list" where
  "opt_list x = (case x of None \<Rightarrow> [] | Some y \<Rightarrow> [y])"

fun stmt_defs :: "IRStmt \<Rightarrow> IRTemp list" where
  "stmt_defs (Ist_WrTmp t _) = [t]"
| "stmt_defs (Ist_LoadG lg) = [lg_dst lg]"
| "stmt_defs (Ist_Dirty d) = opt_list (d_tmp d)"
| "stmt_defs (Ist_CAS cas) = opt_list (cas_oldHi cas) @ [cas_oldLo cas]"
| "stmt_defs (Ist_LLSC _ r _ _) = [r]"
| "stmt_defs _ = []"

text \<open>The counters after the assignments \<open>ts\<close>.\<close>

definition counts :: "nat \<Rightarrow> IRTemp list \<Rightarrow> nat list" where
  "counts n ts = map (count_list ts) [0..<n]"

lemma length_counts [simp]: "length (counts n ts) = n"
  by (simp add: counts_def)

lemma counts_nth [simp]: "t < n \<Longrightarrow> counts n ts ! t = count_list ts t"
  by (simp add: counts_def)

lemma counts_Nil: "counts n [] = replicate n 0"
  by (simp add: counts_def list_eq_iff_nth_eq)

lemma useBeforeDef_Temp_counts:
  "length (bb_tyenv bb) = n \<Longrightarrow> useBeforeDef_Temp bb t (counts n ts) \<longleftrightarrow> t < n \<and> t \<in> set ts"
  by (auto simp: useBeforeDef_Temp_def count_list_0_iff)

lemma count_list_Cons_eq: "count_list (t # ts) u = (if t = u then 1 else 0) + count_list ts u"
  by simp

lemma assignedOnce_Temp_counts:
  "assignedOnce_Temp t (counts n ts) n = (if t < n \<and> t \<notin> set ts then Some (counts n (t # ts)) else None)"
proof -
  have "t < n \<Longrightarrow> (counts n ts)[t := counts n ts ! t + 1] = counts n (t # ts)"
    by (rule nth_equalityI) (auto simp: nth_list_update)
  then show ?thesis
    by (auto simp: assignedOnce_Temp_def Let_def count_list_0_iff)
qed

lemma assignedOnce_Stmt_counts:
  "assignedOnce_Stmt st (counts n ts) n =
     (if distinct (stmt_defs st) \<and> set (stmt_defs st) \<subseteq> {..<n} - set ts then Some (counts n (rev (stmt_defs st) @ ts)) else None)"
  by (cases st) (auto simp: assignedOnce_Temp_counts opt_list_def split: option.splits)

lemma useBeforeDef_Expr_counts:
  "length (bb_tyenv bb) = n \<Longrightarrow> useBeforeDef_Expr bb e (counts n ts) \<Longrightarrow> expr_temps e \<subseteq> set ts"
  by (induction e rule: expr_temps.induct) (fastforce simp: useBeforeDef_Temp_counts split: if_splits)+

lemma useBeforeDef_Expr_temp:
  assumes "useBeforeDef_Expr bb e (counts (length (bb_tyenv bb)) ts)" "t \<in> expr_temps e"
  shows "t \<in> set ts"
  using useBeforeDef_Expr_counts [OF refl assms(1)] assms(2) by (rule subsetD)

lemma useBeforeDef_arg_temp:
  "is_IRExpr_VECRET_or_GSPTR a \<or> useBeforeDef_Expr bb a (counts (length (bb_tyenv bb)) ts) \<Longrightarrow> t \<in> expr_temps a \<Longrightarrow> t \<in> set ts"
  by (elim disjE useBeforeDef_Expr_temp) (cases a; simp)+

lemma tcDirty_mAddr: "tcDirty bb d w \<Longrightarrow> d_mFx d = Ifx_None \<Longrightarrow> d_mAddr d = None"
  by (simp add: tcDirty_def Let_def)

lemma useBeforeDef_Stmt_counts:
  assumes "useBeforeDef_Stmt bb st (counts (length (bb_tyenv bb)) ts)" "tcStmt bb st w"
  shows "stmt_uses st \<subseteq> set ts \<union> dirty_guard_temps st"
proof (cases st)
  case (Ist_Dirty d)
  with assms(1) have args: "\<forall>a \<in> set (d_args d).
      is_IRExpr_VECRET_or_GSPTR a \<or> useBeforeDef_Expr bb a (counts (length (bb_tyenv bb)) ts)"
    by (auto split: if_splits)
  have "expr_temps a \<subseteq> set ts" if "a \<in> set (d_args d)" for a
    using useBeforeDef_arg_temp [OF bspec [OF args that]] by blast
  moreover have "opt_temps (d_mAddr d) \<subseteq> set ts"
    using assms Ist_Dirty tcDirty_mAddr [of bb d w] useBeforeDef_Expr_temp
    by (auto simp: opt_temps_def split: option.splits if_splits)
  ultimately show ?thesis
    using Ist_Dirty by auto
qed (use assms(1) in \<open>auto simp: opt_temps_def elim: useBeforeDef_Expr_temp split: option.splits\<close>)

lemma check_defs_step:
  assumes "check_defs bb (st # sts) (counts (length (bb_tyenv bb)) ts) \<noteq> None"
  shows "useBeforeDef_Stmt bb st (counts (length (bb_tyenv bb)) ts)"
    and "distinct (stmt_defs st)" "set (stmt_defs st) \<subseteq> {..<length (bb_tyenv bb)} - set ts"
    and "check_defs bb sts (counts (length (bb_tyenv bb)) (rev (stmt_defs st) @ ts)) \<noteq> None"
  using assms by (auto simp: assignedOnce_Stmt_counts split: if_splits)

lemma check_defs_counts:
  assumes "check_defs bb sts (counts (length (bb_tyenv bb)) ts) \<noteq> None" "distinct ts"
  shows "distinct (ts @ concat (map stmt_defs sts)) \<and> set (concat (map stmt_defs sts)) \<subseteq> {..<length (bb_tyenv bb)}"
  using assms
proof (induction sts arbitrary: ts)
  case (Cons st sts)
  from check_defs_step [OF Cons.prems(1)] Cons.prems(2) Cons.IH [of "rev (stmt_defs st) @ ts"] show ?case
    by auto
qed simp

lemma check_defs_uses:
  assumes "check_defs bb sts (counts (length (bb_tyenv bb)) ts) \<noteq> None" "list_all (\<lambda>st. tcStmt bb st w) sts" "i < length sts"
  shows "stmt_uses (sts ! i) \<subseteq> set ts \<union> set (concat (map stmt_defs (take i sts))) \<union> dirty_guard_temps (sts ! i)"
  using assms
proof (induction sts arbitrary: ts i)
  case (Cons st sts)
  note step = check_defs_step [OF Cons.prems(1)]
  show ?case
  proof (cases i)
    case 0
    with useBeforeDef_Stmt_counts [OF step(1), of w] Cons.prems(2) show ?thesis
      by auto
  next
    case (Suc k)
    with Cons.IH [OF step(4), of k] Cons.prems(2,3) show ?thesis
      by auto
  qed
qed simp

lemma distinct_Nil: "distinct []"
  by simp

text \<open>C29: in a block the checker accepts, the temporaries are in the type environment, every temporary is assigned at
  most once, and every temporary a statement reads was assigned by an earlier statement, those in the guard of a dirty
  call excepted.\<close>

theorem sanityCheck_single_assignment:
  assumes "sanityCheckIRSB bb require_flat w"
  shows "distinct (concat (map stmt_defs (bb_stmts bb))) \<and>
    (\<forall>t \<in> set (concat (map stmt_defs (bb_stmts bb))). t < length (bb_tyenv bb)) \<and>
    (\<forall>i < length (bb_stmts bb). \<forall>t \<in> stmt_uses (bb_stmts bb ! i) - dirty_guard_temps (bb_stmts bb ! i).
       \<exists>j < i. t \<in> set (stmt_defs (bb_stmts bb ! j)))"
proof -
  have ok: "check_defs bb (bb_stmts bb) (counts (length (bb_tyenv bb)) []) \<noteq> None"
    and tc: "list_all (\<lambda>st. tcStmt bb st w) (bb_stmts bb)"
    using assms unfolding sanityCheckIRSB_def counts_Nil by blast+
  have "\<exists>j < i. t \<in> set (stmt_defs (bb_stmts bb ! j))"
    if i: "i < length (bb_stmts bb)" and "t \<in> stmt_uses (bb_stmts bb ! i) - dirty_guard_temps (bb_stmts bb ! i)" for i t
  proof -
    have "t \<in> set (concat (map stmt_defs (take i (bb_stmts bb))))"
      using check_defs_uses [OF ok tc i] that(2) by auto
    then obtain st where "st \<in> set (take i (bb_stmts bb))" "t \<in> set (stmt_defs st)"
      by auto
    with i show ?thesis
      by (fastforce simp: in_set_conv_nth [of st])
  qed
  then show ?thesis
    using check_defs_counts [OF ok distinct_Nil] by auto
qed

definition good_block :: IRSB where
  "good_block = \<lparr> bb_tyenv = [Ity_I64, Ity_I64, Ity_I1],
     bb_stmts = [Ist_IMark 0x400000 3 0, Ist_WrTmp 0 (Iex_Get 16 Ity_I64),
       Ist_WrTmp 1 (Iex_Binop Iop_Add64 (Iex_RdTmp 0) (Iex_Const (Ico_U64 1))),
       Ist_WrTmp (Suc (Suc 0)) (Iex_Binop Iop_CmpEQ64 (Iex_RdTmp 1) (Iex_Const (Ico_U64 0))),
       Ist_Exit (Iex_RdTmp (Suc (Suc 0))) Ijk_Boring (Ico_U64 0x400010) 184],
     bb_stmts_size = 8, bb_next = Iex_RdTmp 1, bb_jumpkind = Ijk_Boring, bb_offsIP = 184 \<rparr>"

lemmas sanity_defs = sanityCheckIRSB_def isFlatIRStmt.simps useBeforeDef_Temp_def assignedOnce_Temp_def has_ty_def
  not_ty_def typeOfIRTemp_def Let_def

lemma good_block_ok: "sanityCheckIRSB good_block True Ity_I64"
  by (simp add: sanity_defs good_block_def BINARY_def COMPARISON_def)

lemma good_block_use: "length (bb_stmts good_block) = 5" "1 \<in> stmt_uses (bb_stmts good_block ! 3)"
    "1 \<notin> dirty_guard_temps (bb_stmts good_block ! 3)"
  by (simp_all add: good_block_def)

theorem sanityCheck_single_assignment_witness:
  "distinct (concat (map stmt_defs (bb_stmts good_block))) \<and> (\<exists>j < 3. 1 \<in> set (stmt_defs (bb_stmts good_block ! j)))"
  using sanityCheck_single_assignment [OF good_block_ok] good_block_use by simp

text \<open>C30: the checker does not establish what its comment says: it accepts a flat block in which the guard of a dirty
  call and the address of the next block read temporaries that no statement assigns.\<close>

theorem sanityCheck_misses_guard_and_next:
  "\<exists>bb d. sanityCheckIRSB bb True Ity_I64 \<and> bb_stmts bb = [Ist_Dirty d] \<and> d_guard d = Iex_RdTmp 0 \<and>
     bb_next bb = Iex_RdTmp 1 \<and> concat (map stmt_defs (bb_stmts bb)) = []"
proof -
  define d where "d = \<lparr> d_cee = \<lparr> cee_regparms = 0, cee_name = Some ''helper'', cee_addr = 1, cee_mcx_mask = 0 \<rparr>,
    d_guard = Iex_RdTmp 0, d_args = [], d_tmp = None, d_mFx = Ifx_None, d_mAddr = None, d_mSize = 0, d_fxState = [] \<rparr>"
  define bb where "bb = \<lparr> bb_tyenv = [Ity_I1, Ity_I64], bb_stmts = [Ist_Dirty d], bb_stmts_size = 8,
    bb_next = Iex_RdTmp 1, bb_jumpkind = Ijk_Boring, bb_offsIP = 184 \<rparr>"
  have "sanityCheckIRSB bb True Ity_I64"
    by (simp add: sanity_defs bb_def d_def tcDirty_def saneIRCallee_def)
  then show ?thesis
    by (intro exI [of _ bb] exI [of _ d]) (simp add: bb_def d_def opt_list_def)
qed

section \<open>Arguments of dirty calls\<close>

definition vector_ty :: "IRType \<Rightarrow> bool" where
  "vector_ty ty \<longleftrightarrow> ty = Ity_V128 \<or> ty = Ity_V256"

lemma tcDirty_arg_step:
  assumes "tcDirty_arg tyenv retTy i arg (nV, nG) = Some (nV', nG')"
  shows "i < 32" "nV' = nV + of_bool (arg = Iex_VECRET)" "nG' = nG + of_bool (arg = Iex_GSPTR)" "nG' \<le> 1"
    "nV' = of_bool (vector_ty retTy)"
  using assms by (auto simp: tcDirty_arg_def Let_def vector_ty_def split: if_splits)

lemma tcDirty_args_counts:
  assumes "tcDirty_args tyenv retTy args i (nV, nG) = Some (nV', nG')"
  shows "nV' = nV + count_list args Iex_VECRET \<and> nG' = nG + count_list args Iex_GSPTR \<and>
    (args \<noteq> [] \<longrightarrow> i + length args \<le> 32 \<and> nV' = of_bool (vector_ty retTy) \<and>
       nV + of_bool (hd args = Iex_VECRET) = of_bool (vector_ty retTy))"
  using assms
proof (induction args arbitrary: i nV nG)
  case (Cons arg args)
  then obtain nV1 nG1 where step: "tcDirty_arg tyenv retTy i arg (nV, nG) = Some (nV1, nG1)"
    and rest: "tcDirty_args tyenv retTy args (i + 1) (nV1, nG1) = Some (nV', nG')"
    by (auto split: option.splits)
  from tcDirty_arg_step [OF step] Cons.IH [OF rest] show ?case
    by (cases args) (auto split: if_splits)
qed simp

text \<open>C31: an accepted dirty call has at most 32 arguments, at most one of them the guest state pointer, and then it
  declares what it does to the guest state. When the result is a vector, the pointer to the result is the first
  argument, or there is no argument at all; otherwise it is not an argument.\<close>

theorem tcDirty_arguments:
  assumes "tcStmt bb (Ist_Dirty d) w"
  shows "length (d_args d) \<le> 32 \<and> count_list (d_args d) Iex_GSPTR \<le> 1 \<and>
    (count_list (d_args d) Iex_GSPTR = 1 \<longrightarrow> d_fxState d \<noteq> []) \<and>
    (if \<exists>t ty. d_tmp d = Some t \<and> typeOfIRTemp (bb_tyenv bb) t = Some ty \<and> vector_ty ty
     then d_args d = [] \<or> (\<exists>args. d_args d = Iex_VECRET # args \<and> Iex_VECRET \<notin> set args)
     else Iex_VECRET \<notin> set (d_args d))"
proof -
  obtain retTy nV nG where retTy: "(case d_tmp d of None \<Rightarrow> Some Ity_INVALID | Some t \<Rightarrow> typeOfIRTemp (bb_tyenv bb) t) = Some retTy"
    and args: "tcDirty_args (bb_tyenv bb) retTy (d_args d) 0 (0, 0) = Some (nV, nG)"
    and nG: "\<not> nG > 1" "\<not> (length (d_fxState d) = 0 \<and> nG \<noteq> 0)"
    using assms by (auto simp: tcDirty_def Let_def simp del: length_0_conv split: option.split_asm)
  have vec: "(\<exists>t ty. d_tmp d = Some t \<and> typeOfIRTemp (bb_tyenv bb) t = Some ty \<and> vector_ty ty) = vector_ty retTy"
    using retTy by (auto simp: vector_ty_def split: option.splits)
  note n = tcDirty_args_counts [OF args]
  show ?thesis
  proof (cases "d_args d")
    case Nil
    then show ?thesis
      by simp
  next
    case (Cons arg args')
    then have ne: "d_args d \<noteq> []" and hd: "hd (d_args d) = arg"
      by simp_all
    from n ne hd have len: "length (d_args d) \<le> 32" and counts: "nV = count_list (d_args d) Iex_VECRET"
        "nG = count_list (d_args d) Iex_GSPTR"
      and v: "nV = of_bool (vector_ty retTy)" and first: "(of_bool (arg = Iex_VECRET) :: nat) = of_bool (vector_ty retTy)"
      by simp_all
    from first have first: "(arg = Iex_VECRET) = vector_ty retTy"
      by (simp only: of_bool_eq_iff)
    have "count_list (d_args d) Iex_VECRET = of_bool (vector_ty retTy)" "count_list (d_args d) Iex_GSPTR \<le> 1"
      "count_list (d_args d) Iex_GSPTR = 1 \<longrightarrow> d_fxState d \<noteq> []"
      using counts v nG by auto
    note this len first
    with Cons show ?thesis
      unfolding vec by (cases "vector_ty retTy") (simp_all add: count_list_0_iff)
  qed
qed

definition vec_call :: IRDirty where
  "vec_call = \<lparr> d_cee = \<lparr> cee_regparms = 0, cee_name = Some ''helper'', cee_addr = 1, cee_mcx_mask = 0 \<rparr>,
    d_guard = Iex_Const (Ico_U1 True), d_args = [Iex_VECRET, Iex_Const (Ico_U64 5)], d_tmp = Some 0, d_mFx = Ifx_None,
    d_mAddr = None, d_mSize = 0, d_fxState = [] \<rparr>"

definition vec_block :: IRSB where
  "vec_block = good_block \<lparr> bb_tyenv := [Ity_V128] \<rparr>"

lemma vec_call_ok: "tcStmt vec_block (Ist_Dirty vec_call) Ity_I64"
  by (simp add: vec_block_def vec_call_def tcDirty_def saneIRCallee_def tcDirty_arg_def sanity_defs)

theorem tcDirty_arguments_witness:
  "length (d_args vec_call) \<le> 32 \<and> (\<exists>args. d_args vec_call = Iex_VECRET # args \<and> Iex_VECRET \<notin> set args)"
  using tcDirty_arguments [OF vec_call_ok] by (simp add: vec_call_def vec_block_def typeOfIRTemp_def vector_ty_def)

section \<open>Typing\<close>

text \<open>A declarative typing of the expressions.\<close>

inductive wt :: "IRType list \<Rightarrow> IRType \<Rightarrow> IRExpr \<Rightarrow> IRType \<Rightarrow> bool" for tyenv gWordTy where
  wt_Get: "wt tyenv gWordTy (Iex_Get off ty) ty"
| wt_GetI: "wt tyenv gWordTy ix Ity_I32 \<Longrightarrow> saneIRRegArray descr \<Longrightarrow> wt tyenv gWordTy (Iex_GetI descr ix bias) (ra_elemTy descr)"
| wt_RdTmp: "t < length tyenv \<Longrightarrow> wt tyenv gWordTy (Iex_RdTmp t) (tyenv ! t)"
| wt_Qop: "typeOfPrimop op = Some (ty, t1, t2, t3, t4) \<Longrightarrow> Ity_INVALID \<notin> {t1, t2, t3, t4} \<Longrightarrow>
    wt tyenv gWordTy a1 t1 \<Longrightarrow> wt tyenv gWordTy a2 t2 \<Longrightarrow> wt tyenv gWordTy a3 t3 \<Longrightarrow> wt tyenv gWordTy a4 t4 \<Longrightarrow>
    wt tyenv gWordTy (Iex_Qop op a1 a2 a3 a4) ty"
| wt_Triop: "typeOfPrimop op = Some (ty, t1, t2, t3, Ity_INVALID) \<Longrightarrow> Ity_INVALID \<notin> {t1, t2, t3} \<Longrightarrow>
    wt tyenv gWordTy a1 t1 \<Longrightarrow> wt tyenv gWordTy a2 t2 \<Longrightarrow> wt tyenv gWordTy a3 t3 \<Longrightarrow>
    wt tyenv gWordTy (Iex_Triop op a1 a2 a3) ty"
| wt_Binop: "typeOfPrimop op = Some (ty, t1, t2, Ity_INVALID, Ity_INVALID) \<Longrightarrow> Ity_INVALID \<notin> {t1, t2} \<Longrightarrow>
    wt tyenv gWordTy a1 t1 \<Longrightarrow> wt tyenv gWordTy a2 t2 \<Longrightarrow> wt tyenv gWordTy (Iex_Binop op a1 a2) ty"
| wt_Unop: "typeOfPrimop op = Some (ty, t1, Ity_INVALID, Ity_INVALID, Ity_INVALID) \<Longrightarrow> t1 \<noteq> Ity_INVALID \<Longrightarrow>
    wt tyenv gWordTy a t1 \<Longrightarrow> wt tyenv gWordTy (Iex_Unop op a) ty"
| wt_Load: "wt tyenv gWordTy a gWordTy \<Longrightarrow> wt tyenv gWordTy (Iex_Load e ty a) ty"
| wt_Const: "wt tyenv gWordTy (Iex_Const c) (typeOfIRConst c)"
| wt_ITE: "wt tyenv gWordTy c Ity_I1 \<Longrightarrow> wt tyenv gWordTy t ty \<Longrightarrow> wt tyenv gWordTy f ty \<Longrightarrow> wt tyenv gWordTy (Iex_ITE c t f) ty"
| wt_CCall: "saneIRCallee cee \<Longrightarrow> cee_regparms cee \<le> int (length args) \<Longrightarrow> length args \<le> 32 \<Longrightarrow> retty \<noteq> Ity_I1 \<Longrightarrow>
    \<forall>arg \<in> set args. \<exists>ty. ty \<noteq> Ity_I1 \<and> wt tyenv gWordTy arg ty \<Longrightarrow> wt tyenv gWordTy (Iex_CCall cee retty args) retty"

lemma wt_typeOf: "wt tyenv gWordTy e ty \<Longrightarrow> typeOfIRExpr tyenv e = Some ty"
  by (induction rule: wt.induct) (auto simp: typeOfIRTemp_def)

lemma saneIRConst_all [simp]: "saneIRConst c"
  by (cases c) auto

lemma wt_not_special: "wt tyenv gWordTy e ty \<Longrightarrow> \<not> is_IRExpr_VECRET_or_GSPTR e"
  by (induction rule: wt.induct) auto

lemma wt_has_ty: "wt tyenv gWordTy e ty \<Longrightarrow> has_ty tyenv e ty' \<longleftrightarrow> ty' = ty"
  by (auto simp: has_ty_def dest: wt_typeOf)

lemma wt_not_ty: "wt tyenv gWordTy e ty \<Longrightarrow> not_ty tyenv e ty' \<longleftrightarrow> ty' \<noteq> ty"
  by (auto simp: not_ty_def dest: wt_typeOf)

lemma wt_tcExpr: "wt (bb_tyenv bb) gWordTy e ty \<Longrightarrow> tcExpr bb e gWordTy"
proof (induction rule: wt.induct)
  case (wt_CCall cee args retty)
  then have "\<not> is_IRExpr_VECRET_or_GSPTR arg \<and> tcExpr bb arg gWordTy \<and> not_ty (bb_tyenv bb) arg Ity_I1" if "arg \<in> set args" for arg
    using that wt_not_special wt_not_ty by metis
  with wt_CCall show ?case
    by simp
qed (auto simp: wt_has_ty wt_typeOf)

lemma tcExpr_wt: "tcExpr bb e gWordTy \<Longrightarrow> typeOfIRExpr (bb_tyenv bb) e = Some ty \<Longrightarrow> wt (bb_tyenv bb) gWordTy e ty"
proof (induction bb e gWordTy arbitrary: ty rule: tcExpr.induct)
  case (9 bb cee retty args gWordTy)
  have "\<exists>ty. ty \<noteq> Ity_I1 \<and> wt (bb_tyenv bb) gWordTy arg ty" if arg: "arg \<in> set args" for arg
  proof -
    from 9(2) arg have *: "\<not> is_IRExpr_VECRET_or_GSPTR arg" "tcExpr bb arg gWordTy" "not_ty (bb_tyenv bb) arg Ity_I1"
      by (auto split: if_splits)
    then obtain ty where "typeOfIRExpr (bb_tyenv bb) arg = Some ty" "ty \<noteq> Ity_I1"
      by (auto simp: not_ty_def)
    with 9(1) [OF arg *(1,2)] show ?thesis
      by blast
  qed
  with 9 show ?case
    by (auto intro: wt.intros)
qed (auto simp: has_ty_def not_ty_def typeOfIRTemp_def intro: wt.intros split: option.splits if_splits prod.splits)

text \<open>C32: the checker accepts an expression, and computes a type for it, exactly when the expression is well typed.\<close>

theorem tcExpr_iff_wt:
  "tcExpr bb e gWordTy \<and> typeOfIRExpr (bb_tyenv bb) e = Some ty \<longleftrightarrow> wt (bb_tyenv bb) gWordTy e ty"
  using tcExpr_wt wt_tcExpr wt_typeOf by blast

end
