(* ===== verification/IRBuild.thy ===== *)
theory IRBuild
  imports IRSanity
begin

text \<open>
  Building a block in memory: the allocator \<open>LibVEX_Alloc_inline\<close> of \<^verbatim>\<open>VEX/priv/main_util.h\<close>, and the constructors
  \<open>emptyIRTypeEnv\<close> and \<open>emptyIRSB\<close>, \<open>newIRTemp\<close> and \<open>addStmtToIRSB\<close> of \<^verbatim>\<open>VEX/priv/ir_defs.c\<close>.

  The temporary area is its current and its last address; when a block does not fit, the allocator does not return, which is
  \<^const>\<open>None\<close> (also the value of a failed assertion, of an overflow of an \<^verbatim>\<open>Int\<close> and of an access out of the bounds of an
  array). An array is the list of its slots, \<^const>\<open>None\<close> where memory is not yet written; a block owns its arrays. The
  arrays double when they are full, and their entries are copied one by one.

  The lemmas: each function refines the list operation of theory IRSanity, whenever the allocation it makes succeeds; what a sequence
  of calls allocates is bounded by a potential, so that it is known in advance how much room makes them all succeed.
\<close>

section \<open>The allocator\<close>

record vex_arena =
  alloc_curr :: u64
  alloc_last :: u64

text \<open>Blocks are multiples of 8 bytes, the alignment of a pointer on the 64-bit build (\<open>ALIGN\<close> is \<open>offsetof(struct align, x) - 1\<close>).
  An \<^verbatim>\<open>IRSB\<close> has 40 bytes there, an \<^verbatim>\<open>IRTypeEnv\<close> 16, an \<^verbatim>\<open>IRType\<close> 4 and a pointer 8.\<close>

definition LibVEX_Alloc_inline :: "vex_arena \<Rightarrow> u64 \<Rightarrow> (u64 \<times> vex_arena) option" where
  "LibVEX_Alloc_inline M nbytes = (
     let ALIGN = 7;
       nbytes = (nbytes + ALIGN) AND NOT ALIGN;
       curr = alloc_curr M;
       next = curr + nbytes
     in if next \<ge> alloc_last M then None else Some (curr, M\<lparr>alloc_curr := next\<rparr>))"

section \<open>Arrays\<close>

text \<open>A result of \<^verbatim>\<open>Int\<close> arithmetic.\<close>

definition c_int :: "int \<Rightarrow> int option" where
  "c_int x = (if - (2 ^ 31) \<le> x \<and> x < 2 ^ 31 then Some x else None)"

definition read_slot :: "'a list \<Rightarrow> int \<Rightarrow> 'a option" where
  "read_slot xs i = (if 0 \<le> i \<and> i < int (length xs) then Some (xs ! nat i) else None)"

definition write_slot :: "'a list \<Rightarrow> int \<Rightarrow> 'a \<Rightarrow> 'a list option" where
  "write_slot xs i v = (if 0 \<le> i \<and> i < int (length xs) then Some (xs[nat i := v]) else None)"

text \<open>\<open>for (; i < n; i++) dst[i] = src[i]\<close>\<close>

function copy_slots :: "'a list \<Rightarrow> 'a list \<Rightarrow> int \<Rightarrow> int \<Rightarrow> 'a list option" where
  "copy_slots dst src i n =
     (if i < n then do { x \<leftarrow> read_slot src i; dst \<leftarrow> write_slot dst i x; copy_slots dst src (i + 1) n } else Some dst)"
  by pat_completeness auto
termination by (relation "measure (\<lambda>(_, _, i, n). nat (n - i))") auto

declare copy_slots.simps [simp del]

section \<open>Type environments\<close>

record IRTypeEnv =
  types :: "IRType option list"
  types_size :: int
  types_used :: int

definition emptyIRTypeEnv :: "vex_arena \<Rightarrow> (IRTypeEnv \<times> vex_arena) option" where
  "emptyIRTypeEnv M = do {
     (_, M) \<leftarrow> LibVEX_Alloc_inline M 16;
     (_, M) \<leftarrow> LibVEX_Alloc_inline M (8 * 4);
     Some (\<lparr> types = replicate 8 None, types_size = 8, types_used = 0 \<rparr>, M)
   }"

partial_function (option) newIRTemp :: "vex_arena \<Rightarrow> IRTypeEnv \<Rightarrow> IRType \<Rightarrow> (IRTemp \<times> IRTypeEnv \<times> vex_arena) option" where
  "newIRTemp M env ty = do {
     assert_that (types_used env \<ge> 0);
     assert_that (types_size env \<ge> 0);
     assert_that (types_used env \<le> types_size env);
     if types_used env < types_size env then do {
       ts \<leftarrow> write_slot (types env) (types_used env) (Some ty);
       Some (nat (types_used env), env\<lparr>types := ts, types_used := types_used env + 1\<rparr>, M)
     } else do {
       new_size \<leftarrow> (if types_size env = 0 then Some 8 else c_int (2 * types_size env));
       (_, M) \<leftarrow> LibVEX_Alloc_inline M (word_of_int new_size * 4);
       new_types \<leftarrow> copy_slots (replicate (nat new_size) None) (types env) 0 (types_used env);
       newIRTemp M (env\<lparr>types := new_types, types_size := new_size\<rparr>) ty
     }
   }"

section \<open>Blocks\<close>

record IRSB_mem =
  im_tyenv :: IRTypeEnv
  im_stmts :: "IRStmt option list"
  im_stmts_size :: int
  im_stmts_used :: int
  im_next :: "IRExpr option"
  im_jumpkind :: IRJumpKind
  im_offsIP :: int

definition emptyIRSB :: "vex_arena \<Rightarrow> (IRSB_mem \<times> vex_arena) option" where
  "emptyIRSB M = do {
     (_, M) \<leftarrow> LibVEX_Alloc_inline M 40;
     (env, M) \<leftarrow> emptyIRTypeEnv M;
     (_, M) \<leftarrow> LibVEX_Alloc_inline M (8 * 8);
     Some (\<lparr> im_tyenv = env, im_stmts = replicate 8 None, im_stmts_size = 8, im_stmts_used = 0, im_next = None,
             im_jumpkind = Ijk_Boring, im_offsIP = 0 \<rparr>, M)
   }"

definition addStmtToIRSB :: "vex_arena \<Rightarrow> IRSB_mem \<Rightarrow> IRStmt \<Rightarrow> (IRSB_mem \<times> vex_arena) option" where
  "addStmtToIRSB M bb st = do {
     (bb, M) \<leftarrow> (if im_stmts_used bb = im_stmts_size bb then do {
         n \<leftarrow> c_int (2 * im_stmts_size bb);
         (_, M) \<leftarrow> LibVEX_Alloc_inline M (word_of_int n * 8);
         stmts2 \<leftarrow> copy_slots (replicate (nat n) None) (im_stmts bb) 0 (im_stmts_size bb);
         Some (bb\<lparr>im_stmts := stmts2, im_stmts_size := n\<rparr>, M)
       } else Some (bb, M));
     assert_that (im_stmts_used bb < im_stmts_size bb);
     sts \<leftarrow> write_slot (im_stmts bb) (im_stmts_used bb) (Some st);
     Some (bb\<lparr>im_stmts := sts, im_stmts_used := im_stmts_used bb + 1\<rparr>, M)
   }"

text \<open>What the front ends, the passes and the tool do with a block: they make temporaries and add statements, in any order.\<close>

datatype build_op = New_temp IRType | Add_stmt IRStmt

fun build_ops :: "vex_arena \<Rightarrow> IRSB_mem \<Rightarrow> build_op list \<Rightarrow> (IRTemp list \<times> IRSB_mem \<times> vex_arena) option" where
  "build_ops M bb [] = Some ([], bb, M)"
| "build_ops M bb (New_temp ty # ops) = do {
     (t, env, M) \<leftarrow> newIRTemp M (im_tyenv bb) ty;
     (ts, bb, M) \<leftarrow> build_ops M (bb\<lparr>im_tyenv := env\<rparr>) ops;
     Some (t # ts, bb, M) }"
| "build_ops M bb (Add_stmt st # ops) = do { (bb, M) \<leftarrow> addStmtToIRSB M bb st; build_ops M bb ops }"

definition build_block :: "vex_arena \<Rightarrow> build_op list \<Rightarrow> (IRTemp list \<times> IRSB_mem \<times> vex_arena) option" where
  "build_block M ops = do { (bb, M) \<leftarrow> emptyIRSB M; build_ops M bb ops }"

section \<open>What the pieces do\<close>

lemma nat_double: "nat (2 * int n) = 2 * n"
  by (simp add: nat_mult_distrib)

text \<open>The array holds the list \<open>l\<close> in its first slots.\<close>

definition array_holds :: "'a option list \<Rightarrow> int \<Rightarrow> int \<Rightarrow> 'a list \<Rightarrow> bool" where
  "array_holds xs cap used l \<longleftrightarrow> cap = int (length xs) \<and> used = int (length l) \<and> length l \<le> length xs \<and> take (length l) xs = map Some l"

lemma array_holds_length: "array_holds xs cap used l \<Longrightarrow> length l \<le> length xs"
  by (simp add: array_holds_def)

lemma array_holds_write:
  assumes "array_holds xs cap used l" "length l < length xs"
  shows "\<exists>ys. write_slot xs used (Some v) = Some ys \<and> length ys = length xs \<and> array_holds ys cap (used + 1) (l @ [v])"
  using assms by (simp add: array_holds_def write_slot_def take_Suc_conv_app_nth)

lemma copy_slots_eq:
  assumes "i \<le> n" "n \<le> length src" "n \<le> length dst"
  shows "copy_slots dst src (int i) (int n) = Some (take i dst @ take (n - i) (drop i src) @ drop n dst)"
  using assms
proof (induction "n - i" arbitrary: i dst)
  case 0
  then show ?case by (subst copy_slots.simps) simp
next
  case (Suc k)
  then have i: "i < n" by simp
  have step: "copy_slots dst src (int i) (int n) = copy_slots (dst[i := src ! i]) src (int (Suc i)) (int n)"
    using Suc.prems i by (subst copy_slots.simps) (simp add: read_slot_def write_slot_def add.commute)
  have "copy_slots (dst[i := src ! i]) src (int (Suc i)) (int n) =
    Some (take (Suc i) (dst[i := src ! i]) @ take (n - Suc i) (drop (Suc i) src) @ drop n (dst[i := src ! i]))"
    using Suc.hyps(2) Suc.prems i by (intro Suc.hyps(1)) simp_all
  moreover have "take (Suc i) (dst[i := src ! i]) = take i dst @ [src ! i]"
    using Suc.prems i by (simp add: take_Suc_conv_app_nth)
  moreover have "take (n - i) (drop i src) = src ! i # take (n - Suc i) (drop (Suc i) src)"
    using Suc.prems i by (simp add: Cons_nth_drop_Suc [symmetric] take_Cons' Suc_diff_Suc)
  ultimately show ?case unfolding step using i by simp
qed

lemma array_holds_grow:
  assumes "array_holds xs cap used l" "length l = length xs" "length xs \<le> m"
  shows "\<exists>ys. copy_slots (replicate m None) xs 0 used = Some ys \<and> length ys = m \<and> array_holds ys (int m) used l"
proof -
  have "copy_slots (replicate m None) xs (int 0) (int (length l)) = Some (take (length l) xs @ drop (length l) (replicate m None))"
    using assms copy_slots_eq [of 0 "length l" xs "replicate m None"] by simp
  then show ?thesis using assms by (simp add: array_holds_def)
qed

definition arena_free :: "vex_arena \<Rightarrow> nat" where
  "arena_free M = unat (alloc_last M) - unat (alloc_curr M)"

lemma round_up_8:
  assumes "n mod 8 = 0" "n < 2 ^ 64"
  shows "((of_nat n :: u64) + 7) AND NOT 7 = of_nat n"
proof -
  have "unat (of_nat n :: u64) = n" using assms(2) by (simp add: unat_of_nat take_bit_nat_eq_self)
  then have "unat (take_bit 3 (of_nat n :: u64)) = 0"
    using assms(1) unfolding unsigned_take_bit_eq by (simp add: take_bit_eq_mod)
  then have "take_bit 3 (of_nat n :: u64) = 0" by (simp only: word_unat_eq_iff unsigned_0)
  then have z: "(of_nat n :: u64) AND 7 = 0" by (simp add: take_bit_eq_mask mask_numeral)
  then have "(of_nat n :: u64) + 7 = of_nat n OR 7" by (rule disjunctive_add_eq_or)
  moreover have "(x OR y) AND NOT y = x" if "x AND y = 0" for x y :: u64
    using that by (auto simp: bit_eq_iff bit_simps)
  ultimately show ?thesis using z by (simp only:)
qed

lemma LibVEX_Alloc_ok:
  assumes "n mod 8 = 0" "n < arena_free M"
  shows "\<exists>p M'. LibVEX_Alloc_inline M (of_nat n) = Some (p, M') \<and> arena_free M' = arena_free M - n"
proof -
  have last: "unat (alloc_last M) < 2 ^ 64" using unsigned_less [of "alloc_last M"] by simp
  then have n: "n < 2 ^ 64" using assms(2) by (simp add: arena_free_def)
  have sum: "unat (alloc_curr M) + n < unat (alloc_last M)" using assms(2) by (simp add: arena_free_def)
  then have "unat (alloc_curr M + of_nat n) = unat (alloc_curr M) + n"
    using last n by (simp add: unat_word_ariths unat_of_nat take_bit_nat_eq_self)
  moreover from this sum have "\<not> alloc_last M \<le> alloc_curr M + of_nat n" by (simp add: word_le_nat_alt)
  ultimately show ?thesis
    using round_up_8 [OF assms(1) n] by (simp add: LibVEX_Alloc_inline_def arena_free_def Let_def)
qed

definition env_holds :: "IRTypeEnv \<Rightarrow> IRType list \<Rightarrow> bool" where
  "env_holds env tys \<longleftrightarrow> array_holds (types env) (types_size env) (types_used env) tys"

lemma newIRTemp_room:
  assumes "env_holds env tys" "length tys < length (types env)"
  shows "\<exists>env'. newIRTemp M env ty = Some (length tys, env', M) \<and> env_holds env' (tys @ [ty]) \<and> length (types env') = length (types env)"
proof -
  obtain ys where "write_slot (types env) (types_used env) (Some ty) = Some ys" "length ys = length (types env)"
    "array_holds ys (types_size env) (types_used env + 1) (tys @ [ty])"
    using array_holds_write [OF assms(1) [unfolded env_holds_def] assms(2), of ty] by (elim exE conjE) (rule that)
  with assms show ?thesis by (subst newIRTemp.simps) (simp add: env_holds_def array_holds_def assert_that_def)
qed

lemma newIRTemp_grow:
  assumes "env_holds env tys" "length tys = length (types env)" "types env \<noteq> []" "length tys < 2 ^ 30"
    and M': "LibVEX_Alloc_inline M (of_nat (8 * length tys)) = Some (p, M')"
  shows "\<exists>env'. newIRTemp M env ty = Some (length tys, env', M') \<and> env_holds env' (tys @ [ty]) \<and> length (types env') = 2 * length tys"
proof -
  let ?m = "2 * length tys"
  have u: "types_used env = int (length tys)" "types_size env = int (length tys)"
    using assms(1,2) by (simp_all add: env_holds_def array_holds_def)
  have sz: "word_of_int (int ?m) * 4 = (of_nat (8 * length tys) :: u64)" by (simp add: mult.commute)
  obtain ys where ys: "copy_slots (replicate ?m None) (types env) 0 (types_used env) = Some ys" "length ys = ?m"
    "array_holds ys (int ?m) (types_used env) tys"
    using array_holds_grow [of "types env" "types_size env" "types_used env" tys ?m] assms(1,2) unfolding env_holds_def by auto
  have "env_holds (env\<lparr>types := ys, types_size := int ?m\<rparr>) tys" using ys(3) by (simp add: env_holds_def)
  moreover have "length tys < length ys" using assms(2,3) ys(2) by (cases "types env") simp_all
  ultimately obtain env' where env': "newIRTemp M' (env\<lparr>types := ys, types_size := int ?m\<rparr>) ty = Some (length tys, env', M')"
    "env_holds env' (tys @ [ty])" "length (types env') = ?m"
    using newIRTemp_room [of "env\<lparr>types := ys, types_size := int ?m\<rparr>" tys M' ty] ys(2) by auto
  have "newIRTemp M env ty = newIRTemp M' (env\<lparr>types := ys, types_size := int ?m\<rparr>) ty"
    using assms(2-4) M' [folded sz] ys(1) u
    by (subst newIRTemp.simps) (simp add: assert_that_def c_int_def nat_double)
  with env' show ?thesis by auto
qed

definition stmts_hold :: "IRSB_mem \<Rightarrow> IRStmt list \<Rightarrow> bool" where
  "stmts_hold bb sts \<longleftrightarrow> array_holds (im_stmts bb) (im_stmts_size bb) (im_stmts_used bb) sts"

text \<open>The parts of a block that adding a statement leaves alone.\<close>

definition same_rest :: "IRSB_mem \<Rightarrow> IRSB_mem \<Rightarrow> bool" where
  "same_rest bb bb' \<longleftrightarrow> im_next bb' = im_next bb \<and> im_jumpkind bb' = im_jumpkind bb \<and> im_offsIP bb' = im_offsIP bb"

lemma addStmt_room:
  assumes "stmts_hold bb sts" "length sts < length (im_stmts bb)"
  shows "\<exists>bb'. addStmtToIRSB M bb st = Some (bb', M) \<and> stmts_hold bb' (sts @ [st]) \<and> length (im_stmts bb') = length (im_stmts bb) \<and>
    im_tyenv bb' = im_tyenv bb \<and> same_rest bb bb'"
proof -
  obtain ys where "write_slot (im_stmts bb) (im_stmts_used bb) (Some st) = Some ys" "length ys = length (im_stmts bb)"
    "array_holds ys (im_stmts_size bb) (im_stmts_used bb + 1) (sts @ [st])"
    using array_holds_write [OF assms(1) [unfolded stmts_hold_def] assms(2), of st] by (elim exE conjE) (rule that)
  with assms show ?thesis by (simp add: addStmtToIRSB_def stmts_hold_def array_holds_def assert_that_def same_rest_def)
qed

lemma addStmt_grow:
  assumes "stmts_hold bb sts" "length sts = length (im_stmts bb)" "im_stmts bb \<noteq> []" "length sts < 2 ^ 30"
    and M': "LibVEX_Alloc_inline M (of_nat (16 * length sts)) = Some (p, M')"
  shows "\<exists>bb'. addStmtToIRSB M bb st = Some (bb', M') \<and> stmts_hold bb' (sts @ [st]) \<and> length (im_stmts bb') = 2 * length sts \<and>
    im_tyenv bb' = im_tyenv bb \<and> same_rest bb bb'"
proof -
  let ?m = "2 * length sts"
  have u: "im_stmts_used bb = int (length sts)" "im_stmts_size bb = int (length sts)"
    using assms(1,2) by (simp_all add: stmts_hold_def array_holds_def)
  have sz: "word_of_int (int ?m) * 8 = (of_nat (16 * length sts) :: u64)" by (simp add: mult.commute)
  obtain ys where ys: "copy_slots (replicate ?m None) (im_stmts bb) 0 (im_stmts_used bb) = Some ys" "length ys = ?m"
    "array_holds ys (int ?m) (im_stmts_used bb) sts"
    using array_holds_grow [of "im_stmts bb" "im_stmts_size bb" "im_stmts_used bb" sts ?m] assms(1,2) unfolding stmts_hold_def by auto
  let ?bb = "bb\<lparr>im_stmts := ys, im_stmts_size := int ?m\<rparr>"
  have "stmts_hold ?bb sts" using ys(3) by (simp add: stmts_hold_def)
  moreover have less: "length sts < length ys" using assms(2,3) ys(2) by (cases "im_stmts bb") simp_all
  ultimately obtain bb' where bb': "addStmtToIRSB M' ?bb st = Some (bb', M')"
    "stmts_hold bb' (sts @ [st])" "length (im_stmts bb') = ?m" "im_tyenv bb' = im_tyenv bb" "same_rest bb bb'"
    using addStmt_room [of ?bb sts M' st] ys(2) by (auto simp: same_rest_def)
  have "addStmtToIRSB M bb st = addStmtToIRSB M' ?bb st"
    using assms(2-4) M' [folded sz] ys(1,2) u less by (simp add: addStmtToIRSB_def c_int_def nat_double)
  with bb' show ?thesis by auto
qed

section \<open>They refine the lists\<close>

text \<open>A block in memory and the block of lists.\<close>

definition block_holds :: "IRSB_mem \<Rightarrow> IRSB \<Rightarrow> bool" where
  "block_holds bb B \<longleftrightarrow> env_holds (im_tyenv bb) (bb_tyenv B) \<and> stmts_hold bb (bb_stmts B) \<and> im_stmts_size bb = bb_stmts_size B \<and>
     im_jumpkind bb = bb_jumpkind B \<and> im_offsIP bb = bb_offsIP B"

lemma c_int_double: "c_int (2 * int n) = Some m \<Longrightarrow> n < 2 ^ 30 \<and> m = int (2 * n)"
  by (simp add: c_int_def split: if_splits)

lemma newIRTemp_refines:
  assumes h: "block_holds bb B" and r: "newIRTemp M (im_tyenv bb) ty = Some (t, env, M')" and ne: "types (im_tyenv bb) \<noteq> []"
  shows "t = fst (new_temp B ty) \<and> block_holds (bb\<lparr>im_tyenv := env\<rparr>) (snd (new_temp B ty))"
proof -
  let ?env = "im_tyenv bb" and ?tys = "bb_tyenv B"
  have e: "env_holds ?env ?tys" using h by (simp add: block_holds_def)
  have "t = length ?tys \<and> env_holds env (?tys @ [ty])"
  proof (cases "length ?tys < length (types ?env)")
    case True
    with newIRTemp_room [OF e, of M ty] r show ?thesis by auto
  next
    case False
    moreover have "length ?tys \<le> length (types ?env)" using e unfolding env_holds_def by (rule array_holds_length)
    ultimately have l: "length ?tys = length (types ?env)" by linarith
    have u: "types_used ?env = int (length ?tys)" "types_size ?env = int (length ?tys)" "length ?tys \<noteq> 0"
      using e l ne by (simp_all add: env_holds_def array_holds_def)
    obtain n p M1 where n: "c_int (2 * int (length ?tys)) = Some n" "LibVEX_Alloc_inline M (word_of_int n * 4) = Some (p, M1)"
      using r u(3) unfolding newIRTemp.simps [of M ?env ty] u(1,2) by (auto simp: bind_Some_iff)
    from c_int_double [OF n(1)] n(2) have "length ?tys < 2 ^ 30" "LibVEX_Alloc_inline M (of_nat (8 * length ?tys)) = Some (p, M1)"
      by (simp_all add: mult.commute)
    from newIRTemp_grow [OF e l ne this, of ty] r show ?thesis by auto
  qed
  with h show ?thesis by (auto simp: new_temp_def block_holds_def stmts_hold_def)
qed

lemma addStmtToIRSB_refines:
  assumes h: "block_holds bb B" and r: "addStmtToIRSB M bb st = Some (bb', M')" and ne: "im_stmts bb \<noteq> []"
  shows "\<exists>B'. add_stmt B st = Some B' \<and> block_holds bb' B'"
proof -
  let ?sts = "bb_stmts B"
  have e: "stmts_hold bb ?sts" "im_stmts_size bb = bb_stmts_size B" using h by (simp_all add: block_holds_def)
  have u: "im_stmts_used bb = int (length ?sts)" "im_stmts_size bb = int (length (im_stmts bb))"
    using e(1) by (simp_all add: stmts_hold_def array_holds_def)
  show ?thesis
  proof (cases "length ?sts < length (im_stmts bb)")
    case True
    from addStmt_room [OF e(1) this, of M st] r have
      "stmts_hold bb' (?sts @ [st])" "length (im_stmts bb') = length (im_stmts bb)" "im_tyenv bb' = im_tyenv bb" "same_rest bb bb'" by auto
    moreover from this(1,2) have "im_stmts_size bb' = int (length (im_stmts bb))" by (simp add: stmts_hold_def array_holds_def)
    ultimately show ?thesis using h u e(2) True
      by (simp add: add_stmt_def block_holds_def same_rest_def assert_that_def env_holds_def stmts_hold_def)
  next
    case False
    moreover have "length ?sts \<le> length (im_stmts bb)" using e(1) unfolding stmts_hold_def by (rule array_holds_length)
    ultimately have l: "length ?sts = length (im_stmts bb)" by linarith
    obtain n p M1 where n: "c_int (2 * int (length ?sts)) = Some n" "LibVEX_Alloc_inline M (word_of_int n * 8) = Some (p, M1)"
      using r u l by (auto simp: addStmtToIRSB_def bind_Some_iff)
    from c_int_double [OF n(1)] n(2) have 30: "length ?sts < 2 ^ 30" "LibVEX_Alloc_inline M (of_nat (16 * length ?sts)) = Some (p, M1)"
      by (simp_all add: mult.commute)
    from addStmt_grow [OF e(1) l ne this, of st] r have s:
      "stmts_hold bb' (?sts @ [st])" "length (im_stmts bb') = 2 * length ?sts" "im_tyenv bb' = im_tyenv bb" "same_rest bb bb'" by auto
    from s(1,2) have "im_stmts_size bb' = 2 * int (length ?sts)" by (simp add: stmts_hold_def array_holds_def)
    with s h u e(2) l ne 30(1) show ?thesis
      by (simp add: add_stmt_def block_holds_def same_rest_def assert_that_def env_holds_def stmts_hold_def)
  qed
qed

section \<open>Any sequence of calls\<close>

fun op_types :: "build_op list \<Rightarrow> IRType list" where
  "op_types [] = []"
| "op_types (New_temp ty # ops) = ty # op_types ops"
| "op_types (Add_stmt _ # ops) = op_types ops"

fun op_stmts :: "build_op list \<Rightarrow> IRStmt list" where
  "op_stmts [] = []"
| "op_stmts (New_temp _ # ops) = op_stmts ops"
| "op_stmts (Add_stmt st # ops) = st # op_stmts ops"

text \<open>Room for \<open>k\<close> more calls. The sizes of the arrays are a potential: doubling an array costs as many bytes as its potential rises
  by, and the potential is bounded by the entries in use.\<close>

definition build_room :: "vex_arena \<Rightarrow> IRSB_mem \<Rightarrow> nat \<Rightarrow> nat \<Rightarrow> nat \<Rightarrow> bool" where
  "build_room M bb n_tys n_sts k \<longleftrightarrow>
     8 \<le> length (types (im_tyenv bb)) \<and> length (types (im_tyenv bb)) \<le> 8 + 2 * n_tys \<and>
     8 \<le> length (im_stmts bb) \<and> length (im_stmts bb) \<le> 8 + 2 * n_sts \<and> n_tys + n_sts + k < 2 ^ 30 \<and>
     192 + 32 * (n_tys + n_sts + k) < arena_free M + 8 * length (types (im_tyenv bb)) + 16 * length (im_stmts bb)"

lemma newIRTemp_step:
  assumes h: "env_holds (im_tyenv bb) tys" and room: "build_room M bb (length tys) n (Suc k)"
  shows "\<exists>env' M'. newIRTemp M (im_tyenv bb) ty = Some (length tys, env', M') \<and> env_holds env' (tys @ [ty]) \<and>
    build_room M' (bb\<lparr>im_tyenv := env'\<rparr>) (Suc (length tys)) n k"
proof (cases "length tys < length (types (im_tyenv bb))")
  case True
  then show ?thesis using newIRTemp_room [OF h True, of M ty] room by (auto simp: build_room_def)
next
  case False
  moreover have "length tys \<le> length (types (im_tyenv bb))" using h unfolding env_holds_def by (rule array_holds_length)
  ultimately have l: "length tys = length (types (im_tyenv bb))" by linarith
  have "types (im_tyenv bb) \<noteq> []" "length tys < 2 ^ 30" "8 * length tys < arena_free M"
    using room l by (auto simp: build_room_def)
  moreover from this obtain p M' where M': "LibVEX_Alloc_inline M (of_nat (8 * length tys)) = Some (p, M')"
      "arena_free M' = arena_free M - 8 * length tys"
    using LibVEX_Alloc_ok [of "8 * length tys" M] by auto
  ultimately obtain env' where
    "newIRTemp M (im_tyenv bb) ty = Some (length tys, env', M')" "env_holds env' (tys @ [ty])"
    "length (types env') = 2 * length tys" using newIRTemp_grow [OF h l _ _ M'(1), of ty] by blast
  with M'(2) room l \<open>8 * length tys < arena_free M\<close> show ?thesis by (auto simp: build_room_def)
qed

lemma addStmt_step:
  assumes h: "stmts_hold bb sts" and room: "build_room M bb n (length sts) (Suc k)"
  shows "\<exists>bb' M'. addStmtToIRSB M bb st = Some (bb', M') \<and> stmts_hold bb' (sts @ [st]) \<and> im_tyenv bb' = im_tyenv bb \<and>
    same_rest bb bb' \<and> build_room M' bb' n (Suc (length sts)) k"
proof (cases "length sts < length (im_stmts bb)")
  case True
  then show ?thesis using addStmt_room [OF h True, of M st] room by (auto simp: build_room_def)
next
  case False
  moreover have "length sts \<le> length (im_stmts bb)" using h unfolding stmts_hold_def by (rule array_holds_length)
  ultimately have l: "length sts = length (im_stmts bb)" by linarith
  have "im_stmts bb \<noteq> []" "length sts < 2 ^ 30" "16 * length sts < arena_free M"
    using room l by (auto simp: build_room_def)
  moreover from this obtain p M' where M': "LibVEX_Alloc_inline M (of_nat (16 * length sts)) = Some (p, M')"
      "arena_free M' = arena_free M - 16 * length sts"
    using LibVEX_Alloc_ok [of "16 * length sts" M] by auto
  ultimately obtain bb' where
    "addStmtToIRSB M bb st = Some (bb', M')" "stmts_hold bb' (sts @ [st])" "length (im_stmts bb') = 2 * length sts"
    "im_tyenv bb' = im_tyenv bb" "same_rest bb bb'" using addStmt_grow [OF h l _ _ M'(1), of st] by blast
  with M'(2) room l \<open>16 * length sts < arena_free M\<close> show ?thesis by (auto simp: build_room_def)
qed

lemma build_ops_ok:
  assumes "env_holds (im_tyenv bb) tys" "stmts_hold bb sts" "build_room M bb (length tys) (length sts) (length ops)"
  shows "\<exists>bb' M'. build_ops M bb ops = Some ([length tys..<length tys + length (op_types ops)], bb', M') \<and>
    env_holds (im_tyenv bb') (tys @ op_types ops) \<and> stmts_hold bb' (sts @ op_stmts ops) \<and> same_rest bb bb'"
  using assms
proof (induction ops arbitrary: M bb tys sts rule: op_types.induct)
  case 1
  then show ?case by (simp add: same_rest_def)
next
  case (2 ty ops)
  obtain env M1 where s1: "newIRTemp M (im_tyenv bb) ty = Some (length tys, env, M1)" "env_holds env (tys @ [ty])"
    "build_room M1 (bb\<lparr>im_tyenv := env\<rparr>) (Suc (length tys)) (length sts) (length ops)"
    using newIRTemp_step [OF "2.prems"(1), of M "length sts" "length ops" ty] "2.prems"(3) by auto
  have "stmts_hold (bb\<lparr>im_tyenv := env\<rparr>) sts" using "2.prems"(2) by (simp add: stmts_hold_def)
  from "2.IH" [OF _ this, of "tys @ [ty]" M1] s1(2,3) obtain bb' M' where
    s2: "build_ops M1 (bb\<lparr>im_tyenv := env\<rparr>) ops = Some ([Suc (length tys)..<Suc (length tys) + length (op_types ops)], bb', M')"
    "env_holds (im_tyenv bb') (tys @ ty # op_types ops)" "stmts_hold bb' (sts @ op_stmts ops)" "same_rest (bb\<lparr>im_tyenv := env\<rparr>) bb'"
    by auto
  have "length tys # [Suc (length tys)..<Suc (length tys) + length (op_types ops)] = [length tys..<length tys + length (op_types (New_temp ty # ops))]"
    by (simp add: upt_rec)
  with s1(1) s2 show ?case by (simp add: same_rest_def del: upt_Suc)
next
  case (3 st ops)
  obtain bb1 M1 where s1: "addStmtToIRSB M bb st = Some (bb1, M1)" "stmts_hold bb1 (sts @ [st])" "im_tyenv bb1 = im_tyenv bb"
    "same_rest bb bb1" "build_room M1 bb1 (length tys) (Suc (length sts)) (length ops)"
    using addStmt_step [OF "3.prems"(2), of M "length tys" "length ops" st] "3.prems"(3) by auto
  have "env_holds (im_tyenv bb1) tys" using "3.prems"(1) s1(3) by simp
  from "3.IH" [OF this s1(2), of M1] s1(5) obtain bb' M' where
    "build_ops M1 bb1 ops = Some ([length tys..<length tys + length (op_types ops)], bb', M')"
    "env_holds (im_tyenv bb') (tys @ op_types ops)" "stmts_hold bb' (sts @ st # op_stmts ops)" "same_rest bb1 bb'" by auto
  with s1(1,4) show ?case by (simp add: same_rest_def)
qed

lemma emptyIRSB_ok:
  assumes "152 < arena_free M"
  shows "\<exists>bb M'. emptyIRSB M = Some (bb, M') \<and> block_holds bb (empty_block nul) \<and> im_next bb = None \<and>
    length (types (im_tyenv bb)) = 8 \<and> length (im_stmts bb) = 8 \<and> arena_free M' = arena_free M - 152"
proof -
  obtain p1 M1 where 1: "LibVEX_Alloc_inline M 40 = Some (p1, M1)" "arena_free M1 = arena_free M - 40"
    using LibVEX_Alloc_ok [of 40 M] assms by auto
  have "16 < arena_free M1" using assms 1(2) by linarith
  then obtain p2 M2 where 2: "LibVEX_Alloc_inline M1 16 = Some (p2, M2)" "arena_free M2 = arena_free M - 56"
    using LibVEX_Alloc_ok [of 16 M1] 1(2) by auto
  have "32 < arena_free M2" using assms 2(2) by linarith
  then obtain p3 M3 where 3: "LibVEX_Alloc_inline M2 32 = Some (p3, M3)" "arena_free M3 = arena_free M - 88"
    using LibVEX_Alloc_ok [of 32 M2] 2(2) by auto
  have "64 < arena_free M3" using assms 3(2) by linarith
  then obtain p4 M4 where 4: "LibVEX_Alloc_inline M3 64 = Some (p4, M4)" "arena_free M4 = arena_free M - 152"
    using LibVEX_Alloc_ok [of 64 M3] 3(2) by auto
  from 1 2 3 4 show ?thesis
    by (simp add: emptyIRSB_def emptyIRTypeEnv_def block_holds_def env_holds_def stmts_hold_def array_holds_def empty_block_def)
qed

section \<open>Properties\<close>

text \<open>C33: Building a block: in a temporary area with room for 152 bytes and 32 bytes for each call, \<open>emptyIRSB\<close> followed by any
  sequence of fewer than \<open>2^30\<close> calls of \<open>newIRTemp\<close> and \<open>addStmtToIRSB\<close> succeeds: no panic of the allocator, no overflow
  of a size, no access out of the bounds of an array. The temporaries are numbered from 0 in the order of the calls, and the arrays of
  the block, however often they were moved, hold the types and the statements in that order.\<close>

theorem build_block_ok:
  assumes "length ops < 2 ^ 30" "152 + 32 * length ops < arena_free M"
  shows "\<exists>bb M'. build_block M ops = Some ([0..<length (op_types ops)], bb, M') \<and>
    env_holds (im_tyenv bb) (op_types ops) \<and> stmts_hold bb (op_stmts ops) \<and>
    im_next bb = None \<and> im_jumpkind bb = Ijk_Boring \<and> im_offsIP bb = 0"
proof -
  obtain bb M1 where e: "emptyIRSB M = Some (bb, M1)" "block_holds bb (empty_block (Iex_RdTmp 0))" "im_next bb = None"
    "length (types (im_tyenv bb)) = 8" "length (im_stmts bb) = 8" "arena_free M1 = arena_free M - 152"
    using emptyIRSB_ok [of M "Iex_RdTmp 0"] assms(2) by auto
  have h: "env_holds (im_tyenv bb) []" "stmts_hold bb []" "im_jumpkind bb = Ijk_Boring" "im_offsIP bb = 0"
    using e(2) by (simp_all add: block_holds_def empty_block_def)
  have "build_room M1 bb (length ([] :: IRType list)) (length ([] :: IRStmt list)) (length ops)"
    using assms e(4-6) by (simp add: build_room_def)
  from build_ops_ok [OF h(1,2) this] e(1,3) h(3,4) show ?thesis by (auto simp: build_block_def same_rest_def)
qed

text \<open>Nine temporaries and nine statements, so that both arrays are moved once.\<close>

theorem build_block_ok_witness:
  "\<exists>bb M'. build_block \<lparr> alloc_curr = 0x10000, alloc_last = 0x12000 \<rparr>
      (replicate 9 (New_temp Ity_I32) @ replicate 9 (Add_stmt Ist_NoOp)) = Some ([0..<9], bb, M') \<and> stmts_hold bb (replicate 9 Ist_NoOp)"
proof -
  let ?ops = "replicate 9 (New_temp Ity_I32) @ replicate 9 (Add_stmt Ist_NoOp)"
  have "length (op_types ?ops) = 9" "op_stmts ?ops = replicate 9 Ist_NoOp"
    by (simp_all add: numeral_eq_Suc)
  moreover have "length ?ops < 2 ^ 30" "152 + 32 * length ?ops < arena_free \<lparr> alloc_curr = 0x10000, alloc_last = 0x12000 \<rparr>"
    by (simp_all add: arena_free_def)
  ultimately show ?thesis using build_block_ok [of ?ops "\<lparr> alloc_curr = 0x10000, alloc_last = 0x12000 \<rparr>"] by auto
qed

end
