(* ===== verification/IRExec.thy ===== *)
theory IRExec
  imports IRSanity TntValues
begin

text \<open>
  The meaning of a superblock, after the comments of \<open>VEX/pub/libvex_ir.h\<close>. The guest state and the memory are a parameter:
  a type \<open>'m\<close> of states with the reads and writes of \<open>guest\<close>; so are the helper functions a block calls. The operators are the
  parameter \<open>sem\<close> (theory TntValues). Running a block gives the address of the next instruction, the kind of the jump, the
  offset of the instruction pointer and the state, or \<^const>\<open>None\<close> when an expression has no value.
\<close>

section \<open>The guest\<close>

text \<open>A value with its type.\<close>

type_synonym tval = "IRType \<times> int"

text \<open>An argument of a dirty call: a value, or one of the two special ones.\<close>

datatype dirty_arg = Arg_val tval | Arg_VECRET | Arg_GSPTR

record 'm guest =
  g_get :: "int \<Rightarrow> IRType \<Rightarrow> 'm \<Rightarrow> int option"
  g_getI :: "IRRegArray \<Rightarrow> int \<Rightarrow> int \<Rightarrow> 'm \<Rightarrow> int option"
  g_load :: "IREndness \<Rightarrow> IRType \<Rightarrow> int \<Rightarrow> 'm \<Rightarrow> int option"
  g_clean :: "IRCallee \<Rightarrow> IRType \<Rightarrow> int list \<Rightarrow> int option"
  g_put :: "int \<Rightarrow> tval \<Rightarrow> 'm \<Rightarrow> 'm"
  g_putI :: "IRRegArray \<Rightarrow> tval \<Rightarrow> int \<Rightarrow> tval \<Rightarrow> 'm \<Rightarrow> 'm"
  g_store :: "IREndness \<Rightarrow> tval \<Rightarrow> tval \<Rightarrow> 'm \<Rightarrow> 'm option"
  g_cas :: "IREndness \<Rightarrow> tval \<Rightarrow> tval option \<Rightarrow> tval \<Rightarrow> tval option \<Rightarrow> tval \<Rightarrow> 'm \<Rightarrow> (int \<times> int \<times> 'm) option"
  g_ll :: "IREndness \<Rightarrow> IRType \<Rightarrow> tval \<Rightarrow> 'm \<Rightarrow> (int \<times> 'm) option"
  g_sc :: "IREndness \<Rightarrow> tval \<Rightarrow> tval \<Rightarrow> 'm \<Rightarrow> (int \<times> 'm) option"
  g_dirty :: "IRCallee \<Rightarrow> IREffect \<Rightarrow> tval option \<Rightarrow> int \<Rightarrow> IRFxState list \<Rightarrow> dirty_arg list \<Rightarrow> 'm \<Rightarrow> (int \<times> 'm) option"
  g_hint :: "tval \<Rightarrow> int \<Rightarrow> tval \<Rightarrow> 'm \<Rightarrow> 'm"
  g_mark :: "u64 \<Rightarrow> u32 \<Rightarrow> u8 \<Rightarrow> 'm \<Rightarrow> 'm"
  g_mbe :: "IRMBusEvent \<Rightarrow> 'm \<Rightarrow> 'm"

section \<open>Expressions\<close>

fun val :: "'m guest \<Rightarrow> op_sem \<Rightarrow> store \<Rightarrow> 'm \<Rightarrow> IRExpr \<Rightarrow> int option"
  and vals_of :: "'m guest \<Rightarrow> op_sem \<Rightarrow> store \<Rightarrow> 'm \<Rightarrow> IRExpr list \<Rightarrow> int list option" where
  "val G sem s m (Iex_RdTmp t) = Some (s t)"
| "val G sem s m (Iex_Const c) = Some (const_val c)"
| "val G sem s m (Iex_Unop op a) = do { x \<leftarrow> val G sem s m a; sem op [x] }"
| "val G sem s m (Iex_Binop op a b) = do { x \<leftarrow> val G sem s m a; y \<leftarrow> val G sem s m b; sem op [x, y] }"
| "val G sem s m (Iex_Triop op a b c) =
     do { x \<leftarrow> val G sem s m a; y \<leftarrow> val G sem s m b; z \<leftarrow> val G sem s m c; sem op [x, y, z] }"
| "val G sem s m (Iex_Qop op a b c d) =
     do { x \<leftarrow> val G sem s m a; y \<leftarrow> val G sem s m b; z \<leftarrow> val G sem s m c; u \<leftarrow> val G sem s m d; sem op [x, y, z, u] }"
| "val G sem s m (Iex_ITE c t f) =
     do { x \<leftarrow> val G sem s m c; y \<leftarrow> val G sem s m t; z \<leftarrow> val G sem s m f; Some (if x \<noteq> 0 then y else z) }"
| "val G sem s m (Iex_Get off ty) = g_get G off ty m"
| "val G sem s m (Iex_GetI descr ix bias) = do { x \<leftarrow> val G sem s m ix; g_getI G descr x bias m }"
| "val G sem s m (Iex_Load en ty a) = do { x \<leftarrow> val G sem s m a; g_load G en ty x m }"
| "val G sem s m (Iex_CCall cee retty args) = do { xs \<leftarrow> vals_of G sem s m args; g_clean G cee retty xs }"
| "val G sem s m (Iex_Binder _) = None"
| "val G sem s m Iex_VECRET = None"
| "val G sem s m Iex_GSPTR = None"
| "vals_of G sem s m [] = Some []"
| "vals_of G sem s m (a # args) = do { x \<leftarrow> val G sem s m a; xs \<leftarrow> vals_of G sem s m args; Some (x # xs) }"

text \<open>The value of an expression over the temporaries of the block, with its type.\<close>

definition tval :: "IRType list \<Rightarrow> 'm guest \<Rightarrow> op_sem \<Rightarrow> store \<Rightarrow> 'm \<Rightarrow> IRExpr \<Rightarrow> tval option" where
  "tval tyenv G sem s m e = (if \<forall>t \<in> expr_temps e. t < length tyenv then do {
     ty \<leftarrow> typeOfIRExpr tyenv e;
     x \<leftarrow> val G sem s m e;
     if fits ty x then Some (ty, x) else None } else None)"

fun tval_opt :: "IRType list \<Rightarrow> 'm guest \<Rightarrow> op_sem \<Rightarrow> store \<Rightarrow> 'm \<Rightarrow> IRExpr option \<Rightarrow> tval option option" where
  "tval_opt tyenv G sem s m None = Some None"
| "tval_opt tyenv G sem s m (Some e) = map_option Some (tval tyenv G sem s m e)"

fun darg :: "IRType list \<Rightarrow> 'm guest \<Rightarrow> op_sem \<Rightarrow> store \<Rightarrow> 'm \<Rightarrow> IRExpr \<Rightarrow> dirty_arg option" where
  "darg tyenv G sem s m Iex_VECRET = Some Arg_VECRET"
| "darg tyenv G sem s m Iex_GSPTR = Some Arg_GSPTR"
| "darg tyenv G sem s m e = map_option Arg_val (tval tyenv G sem s m e)"

primrec dargs :: "IRType list \<Rightarrow> 'm guest \<Rightarrow> op_sem \<Rightarrow> store \<Rightarrow> 'm \<Rightarrow> IRExpr list \<Rightarrow> dirty_arg list option" where
  "dargs tyenv G sem s m [] = Some []"
| "dargs tyenv G sem s m (e # es) = do { x \<leftarrow> darg tyenv G sem s m e; xs \<leftarrow> dargs tyenv G sem s m es; Some (x # xs) }"

section \<open>Statements\<close>

definition assign :: "IRType list \<Rightarrow> IRTemp \<Rightarrow> int \<Rightarrow> store \<Rightarrow> store option" where
  "assign tyenv t x s = (if t < length tyenv \<and> fits (tyenv ! t) x then Some (s(t := x)) else None)"

definition assign_opt :: "IRType list \<Rightarrow> IRTemp option \<Rightarrow> int \<Rightarrow> store \<Rightarrow> store option" where
  "assign_opt tyenv t x s = (case t of None \<Rightarrow> Some s | Some t \<Rightarrow> assign tyenv t x s)"

text \<open>The result of a dirty call that is not made has the bit pattern \<open>0x555..555\<close>.\<close>

definition fives :: "IRType \<Rightarrow> int" where
  "fives ty = take_bit (ty_bits ty) (mask 256 div 3)"

fun cvt_val :: "IRLoadGOp \<Rightarrow> int \<Rightarrow> int option" where
  "cvt_val ILGop_IdentV128 x = Some x"
| "cvt_val ILGop_Ident64 x = Some x"
| "cvt_val ILGop_Ident32 x = Some x"
| "cvt_val ILGop_16Uto32 x = zext x"
| "cvt_val ILGop_16Sto32 x = sext 16 32 x"
| "cvt_val ILGop_8Uto32 x = zext x"
| "cvt_val ILGop_8Sto32 x = sext 8 32 x"
| "cvt_val ILGop_INVALID x = None"

text \<open>The value of a guarded load, the result of a load-linked or store-conditional, the address and the result of a dirty call.\<close>

definition loadg_val :: "'m guest \<Rightarrow> IRLoadG \<Rightarrow> IRType \<Rightarrow> int \<Rightarrow> int \<Rightarrow> int \<Rightarrow> 'm \<Rightarrow> int option" where
  "loadg_val G lg arg p y g m =
     (if g \<noteq> 0 then do { x \<leftarrow> g_load G (lg_end lg) arg p m; if fits arg x then cvt_val (lg_cvt lg) x else None } else Some y)"

definition llsc_result :: "IRType list \<Rightarrow> 'm guest \<Rightarrow> IREndness \<Rightarrow> IRTemp \<Rightarrow> tval \<Rightarrow> tval option \<Rightarrow> 'm \<Rightarrow> (int \<times> 'm) option" where
  "llsc_result tyenv G en r p x m = (case x of
     None \<Rightarrow> if r < length tyenv then g_ll G en (tyenv ! r) p m else None
   | Some x \<Rightarrow> g_sc G en p x m)"

definition dirty_addr :: "IRType list \<Rightarrow> 'm guest \<Rightarrow> op_sem \<Rightarrow> store \<Rightarrow> 'm \<Rightarrow> IRDirty \<Rightarrow> tval option option" where
  "dirty_addr tyenv G sem s m d =
     (if d_mFx d \<noteq> Ifx_None then do { a \<leftarrow> d_mAddr d; map_option Some (tval tyenv G sem s m a) } else Some None)"

definition dirty_result :: "IRType list \<Rightarrow> 'm guest \<Rightarrow> IRDirty \<Rightarrow> tval option \<Rightarrow> dirty_arg list \<Rightarrow> int \<Rightarrow> 'm \<Rightarrow> (int \<times> 'm) option" where
  "dirty_result tyenv G d p xs g m =
     (if g \<noteq> 0 then g_dirty G (d_cee d) (d_mFx d) p (d_mSize d) (d_fxState d) xs m
      else Some (case d_tmp d of None \<Rightarrow> 0 | Some t \<Rightarrow> fives (tyenv ! t), m))"

text \<open>A statement falls through to the next one, or leaves the block.\<close>

datatype 'm outcome = Falls store 'm | Exits int IRJumpKind int 'm

fun exec_stmt :: "IRType list \<Rightarrow> 'm guest \<Rightarrow> op_sem \<Rightarrow> IRStmt \<Rightarrow> store \<Rightarrow> 'm \<Rightarrow> 'm outcome option" where
  "exec_stmt tyenv G sem Ist_NoOp s m = Some (Falls s m)"
| "exec_stmt tyenv G sem (Ist_IMark a len delta) s m = Some (Falls s (g_mark G a len delta m))"
| "exec_stmt tyenv G sem (Ist_AbiHint base len nia) s m = do {
     b \<leftarrow> tval tyenv G sem s m base; n \<leftarrow> tval tyenv G sem s m nia; Some (Falls s (g_hint G b len n m)) }"
| "exec_stmt tyenv G sem (Ist_Put off d) s m = do { x \<leftarrow> tval tyenv G sem s m d; Some (Falls s (g_put G off x m)) }"
| "exec_stmt tyenv G sem (Ist_PutI descr ix bias d) s m = do {
     i \<leftarrow> tval tyenv G sem s m ix; x \<leftarrow> tval tyenv G sem s m d; Some (Falls s (g_putI G descr i bias x m)) }"
| "exec_stmt tyenv G sem (Ist_WrTmp t e) s m = do {
     (ty, x) \<leftarrow> tval tyenv G sem s m e; s \<leftarrow> assign tyenv t x s; Some (Falls s m) }"
| "exec_stmt tyenv G sem (Ist_Store en a d) s m = do {
     p \<leftarrow> tval tyenv G sem s m a; x \<leftarrow> tval tyenv G sem s m d; m \<leftarrow> g_store G en p x m; Some (Falls s m) }"
| "exec_stmt tyenv G sem (Ist_StoreG sg) s m = do {
     p \<leftarrow> tval tyenv G sem s m (sg_addr sg); x \<leftarrow> tval tyenv G sem s m (sg_data sg);
     (_, g) \<leftarrow> tval tyenv G sem s m (sg_guard sg);
     if g \<noteq> 0 then do { m \<leftarrow> g_store G (sg_end sg) p x m; Some (Falls s m) } else Some (Falls s m) }"
| "exec_stmt tyenv G sem (Ist_LoadG lg) s m = do {
     (_, p) \<leftarrow> tval tyenv G sem s m (lg_addr lg); (_, y) \<leftarrow> tval tyenv G sem s m (lg_alt lg);
     (_, g) \<leftarrow> tval tyenv G sem s m (lg_guard lg);
     (res, arg) \<leftarrow> typeOfIRLoadGOp (lg_cvt lg);
     x \<leftarrow> loadg_val G lg arg p y g m;
     s \<leftarrow> assign tyenv (lg_dst lg) x s;
     Some (Falls s m) }"
| "exec_stmt tyenv G sem (Ist_CAS cas) s m = do {
     p \<leftarrow> tval tyenv G sem s m (cas_addr cas);
     eHi \<leftarrow> tval_opt tyenv G sem s m (cas_expdHi cas); eLo \<leftarrow> tval tyenv G sem s m (cas_expdLo cas);
     dHi \<leftarrow> tval_opt tyenv G sem s m (cas_dataHi cas); dLo \<leftarrow> tval tyenv G sem s m (cas_dataLo cas);
     (hi, lo, m) \<leftarrow> g_cas G (cas_end cas) p eHi eLo dHi dLo m;
     s \<leftarrow> assign_opt tyenv (cas_oldHi cas) hi s;
     s \<leftarrow> assign tyenv (cas_oldLo cas) lo s;
     Some (Falls s m) }"
| "exec_stmt tyenv G sem (Ist_LLSC en r a d) s m = do {
     p \<leftarrow> tval tyenv G sem s m a;
     x \<leftarrow> tval_opt tyenv G sem s m d;
     (res, m) \<leftarrow> llsc_result tyenv G en r p x m;
     s \<leftarrow> assign tyenv r res s;
     Some (Falls s m) }"
| "exec_stmt tyenv G sem (Ist_Dirty d) s m = do {
     p \<leftarrow> dirty_addr tyenv G sem s m d;
     xs \<leftarrow> dargs tyenv G sem s m (d_args d);
     (_, g) \<leftarrow> tval tyenv G sem s m (d_guard d);
     (x, m) \<leftarrow> dirty_result tyenv G d p xs g m;
     s \<leftarrow> assign_opt tyenv (d_tmp d) x s;
     Some (Falls s m) }"
| "exec_stmt tyenv G sem (Ist_MBE ev) s m = Some (Falls s (g_mbe G ev m))"
| "exec_stmt tyenv G sem (Ist_Exit g jk dst offsIP) s m = do {
     (_, x) \<leftarrow> tval tyenv G sem s m g;
     Some (if x \<noteq> 0 then Exits (const_val dst) jk offsIP m else Falls s m) }"

primrec exec_stmts :: "IRType list \<Rightarrow> 'm guest \<Rightarrow> op_sem \<Rightarrow> IRStmt list \<Rightarrow> store \<Rightarrow> 'm \<Rightarrow> 'm outcome option" where
  "exec_stmts tyenv G sem [] s m = Some (Falls s m)"
| "exec_stmts tyenv G sem (st # sts) s m = (case exec_stmt tyenv G sem st s m of
     None \<Rightarrow> None
   | Some (Falls s m) \<Rightarrow> exec_stmts tyenv G sem sts s m
   | Some (Exits pc jk offsIP m) \<Rightarrow> Some (Exits pc jk offsIP m))"

definition exec_block :: "'m guest \<Rightarrow> op_sem \<Rightarrow> IRSB \<Rightarrow> store \<Rightarrow> 'm \<Rightarrow> (int \<times> IRJumpKind \<times> int \<times> 'm) option" where
  "exec_block G sem bb s m = (case exec_stmts (bb_tyenv bb) G sem (bb_stmts bb) s m of
     None \<Rightarrow> None
   | Some (Exits pc jk offsIP m) \<Rightarrow> Some (pc, jk, offsIP, m)
   | Some (Falls s m) \<Rightarrow>
       map_option (\<lambda>(_, pc). (pc, bb_jumpkind bb, bb_offsIP bb, m)) (tval (bb_tyenv bb) G sem s m (bb_next bb)))"

section \<open>What the values depend on\<close>

text \<open>The temporaries an expression reads.\<close>

lemma val_agree:
  "(\<forall>t \<in> expr_temps e. s' t = s t) \<Longrightarrow> val G sem s' m e = val G sem s m e"
  "(\<forall>e \<in> set es. \<forall>t \<in> expr_temps e. s' t = s t) \<Longrightarrow> vals_of G sem s' m es = vals_of G sem s m es"
  by (induction G sem s m e and G sem s m es rule: val_vals_of.induct) (auto cong: Option.bind_cong)

lemma tval_agree: "(\<forall>t \<in> expr_temps e. t < length tyenv \<longrightarrow> s' t = s t) \<Longrightarrow> tval tyenv G sem s' m e = tval tyenv G sem s m e"
  unfolding tval_def using val_agree(1) [of e s' s G sem m] by auto

lemma tval_temps: "tval tyenv G sem s m e = Some p \<Longrightarrow> t \<in> expr_temps e \<Longrightarrow> t < length tyenv"
  by (auto simp: tval_def split: if_splits)

lemma tval_Some: "tval tyenv G sem s m e = Some (ty, x) \<Longrightarrow> typeOfIRExpr tyenv e = Some ty \<and> val G sem s m e = Some x \<and> fits ty x"
  by (auto simp: tval_def bind_Some_iff split: if_splits)

lemma exec_append: "exec_stmts tyenv G sem (xs @ ys) s m = (case exec_stmts tyenv G sem xs s m of
     None \<Rightarrow> None
   | Some (Falls s m) \<Rightarrow> exec_stmts tyenv G sem ys s m
   | Some (Exits pc jk offsIP m) \<Rightarrow> Some (Exits pc jk offsIP m))"
  by (induction xs arbitrary: s m) (auto split: option.splits outcome.splits)

section \<open>Related statements\<close>

text \<open>Arguments of dirty calls: the special ones are the same.\<close>

definition same_arg :: "(IRExpr \<Rightarrow> IRExpr \<Rightarrow> bool) \<Rightarrow> IRExpr \<Rightarrow> IRExpr \<Rightarrow> bool" where
  "same_arg R x y \<longleftrightarrow> (if is_IRExpr_VECRET_or_GSPTR x then y = x else R x y)"

text \<open>Two statements that differ in their operands only, which are related by \<open>R\<close>.\<close>

inductive stmt_rel :: "(IRExpr \<Rightarrow> IRExpr \<Rightarrow> bool) \<Rightarrow> IRStmt \<Rightarrow> IRStmt \<Rightarrow> bool" for R where
  rel_NoOp: "stmt_rel R Ist_NoOp Ist_NoOp"
| rel_IMark: "stmt_rel R (Ist_IMark a len delta) (Ist_IMark a len delta)"
| rel_MBE: "stmt_rel R (Ist_MBE ev) (Ist_MBE ev)"
| rel_AbiHint: "R base base' \<Longrightarrow> R nia nia' \<Longrightarrow> stmt_rel R (Ist_AbiHint base len nia) (Ist_AbiHint base' len nia')"
| rel_Put: "R d d' \<Longrightarrow> stmt_rel R (Ist_Put off d) (Ist_Put off d')"
| rel_PutI: "R ix ix' \<Longrightarrow> R d d' \<Longrightarrow> stmt_rel R (Ist_PutI descr ix bias d) (Ist_PutI descr ix' bias d')"
| rel_WrTmp: "R e e' \<Longrightarrow> stmt_rel R (Ist_WrTmp t e) (Ist_WrTmp t e')"
| rel_Store: "R a a' \<Longrightarrow> R d d' \<Longrightarrow> stmt_rel R (Ist_Store en a d) (Ist_Store en a' d')"
| rel_StoreG: "R (sg_addr sg) a \<Longrightarrow> R (sg_data sg) d \<Longrightarrow> R (sg_guard sg) g \<Longrightarrow>
    stmt_rel R (Ist_StoreG sg) (Ist_StoreG (sg \<lparr> sg_addr := a, sg_data := d, sg_guard := g \<rparr>))"
| rel_LoadG: "R (lg_addr lg) a \<Longrightarrow> R (lg_alt lg) e \<Longrightarrow> R (lg_guard lg) g \<Longrightarrow>
    stmt_rel R (Ist_LoadG lg) (Ist_LoadG (lg \<lparr> lg_addr := a, lg_alt := e, lg_guard := g \<rparr>))"
| rel_CAS: "R (cas_addr cas) a \<Longrightarrow> rel_option R (cas_expdHi cas) eh \<Longrightarrow> R (cas_expdLo cas) el \<Longrightarrow> rel_option R (cas_dataHi cas) dh \<Longrightarrow>
    R (cas_dataLo cas) dl \<Longrightarrow>
    stmt_rel R (Ist_CAS cas) (Ist_CAS (cas \<lparr> cas_addr := a, cas_expdHi := eh, cas_expdLo := el, cas_dataHi := dh, cas_dataLo := dl \<rparr>))"
| rel_LLSC: "R a a' \<Longrightarrow> rel_option R d d' \<Longrightarrow> stmt_rel R (Ist_LLSC en t a d) (Ist_LLSC en t a' d')"
| rel_Dirty: "(d_mFx d \<noteq> Ifx_None \<Longrightarrow> rel_option R (d_mAddr d) a) \<Longrightarrow> R (d_guard d) g \<Longrightarrow>
    list_all2 (same_arg R) (d_args d) args \<Longrightarrow>
    stmt_rel R (Ist_Dirty d) (Ist_Dirty (d \<lparr> d_mAddr := a, d_guard := g, d_args := args \<rparr>))"
| rel_Exit: "R g g' \<Longrightarrow> stmt_rel R (Ist_Exit g jk dst off) (Ist_Exit g' jk dst off)"

text \<open>The operands of a statement.\<close>

fun stmt_exprs :: "IRStmt \<Rightarrow> IRExpr set" where
  "stmt_exprs (Ist_AbiHint base _ nia) = {base, nia}"
| "stmt_exprs (Ist_Put _ d) = {d}"
| "stmt_exprs (Ist_PutI _ ix _ d) = {ix, d}"
| "stmt_exprs (Ist_WrTmp _ e) = {e}"
| "stmt_exprs (Ist_Store _ a d) = {a, d}"
| "stmt_exprs (Ist_StoreG sg) = {sg_addr sg, sg_data sg, sg_guard sg}"
| "stmt_exprs (Ist_LoadG lg) = {lg_addr lg, lg_alt lg, lg_guard lg}"
| "stmt_exprs (Ist_CAS cas) = {cas_addr cas, cas_expdLo cas, cas_dataLo cas} \<union> set_option (cas_expdHi cas) \<union> set_option (cas_dataHi cas)"
| "stmt_exprs (Ist_LLSC _ _ a d) = {a} \<union> set_option d"
| "stmt_exprs (Ist_Dirty d) = {d_guard d} \<union> {a \<in> set (d_args d). \<not> is_IRExpr_VECRET_or_GSPTR a} \<union>
     (if d_mFx d \<noteq> Ifx_None then set_option (d_mAddr d) else {})"
| "stmt_exprs (Ist_Exit g _ _ _) = {g}"
| "stmt_exprs _ = {}"

lemma stmt_rel_refl:
  assumes "\<And>e. e \<in> stmt_exprs st \<Longrightarrow> R e e"
  shows "stmt_rel R st st"
proof -
  have opt: "(\<And>e. e \<in> set_option x \<Longrightarrow> R e e) \<Longrightarrow> rel_option R x x" for x by (cases x) auto
  have args: "(\<And>e. e \<in> {a \<in> set as. \<not> is_IRExpr_VECRET_or_GSPTR a} \<Longrightarrow> R e e) \<Longrightarrow>
      list_all2 (same_arg R) as as" for as
    by (auto simp: list_all2_conv_all_nth same_arg_def)
  show ?thesis
  proof (cases st)
    case (Ist_StoreG sg)
    with assms rel_StoreG [of R sg "sg_addr sg" "sg_data sg" "sg_guard sg"] show ?thesis by simp
  next
    case (Ist_LoadG lg)
    with assms rel_LoadG [of R lg "lg_addr lg" "lg_alt lg" "lg_guard lg"] show ?thesis by simp
  next
    case (Ist_CAS cas)
    with assms rel_CAS [of R cas "cas_addr cas" "cas_expdHi cas" "cas_expdLo cas" "cas_dataHi cas" "cas_dataLo cas"] show ?thesis
      by (auto intro: opt)
  next
    case (Ist_Dirty d)
    with assms rel_Dirty [of d R "d_mAddr d" "d_guard d" "d_args d"] opt [of "d_mAddr d"] args [of "d_args d"] show ?thesis by auto
  qed (use assms in \<open>auto intro!: stmt_rel.intros opt\<close>)
qed

text \<open>The two stores after a statement that assigns \<open>D\<close>.\<close>

definition upd_rel :: "IRTemp set \<Rightarrow> store \<Rightarrow> store \<Rightarrow> store \<Rightarrow> store \<Rightarrow> bool" where
  "upd_rel D s s' s1 s1' \<longleftrightarrow> (\<forall>t. if t \<in> D then s1' t = s1 t else s1 t = s t \<and> s1' t = s' t)"

lemma upd_rel_same [simp]: "upd_rel {} s s' s s'"
  by (simp add: upd_rel_def)

lemma upd_rel_assign [simp]: "upd_rel {t} s s' (s(t := x)) (s'(t := x))"
  by (simp add: upd_rel_def)

lemma upd_rel_trans: "upd_rel D s s' s1 s1' \<Longrightarrow> upd_rel E s1 s1' s2 s2' \<Longrightarrow> upd_rel (D \<union> E) s s' s2 s2'"
  unfolding upd_rel_def by (metis Un_iff)

definition outcome_rel :: "(store \<Rightarrow> store \<Rightarrow> bool) \<Rightarrow> 'm outcome \<Rightarrow> 'm outcome \<Rightarrow> bool" where
  "outcome_rel R r r' \<longleftrightarrow> (case r of Exits _ _ _ _ \<Rightarrow> r' = r | Falls s m \<Rightarrow> (\<exists>s'. r' = Falls s' m \<and> R s s'))"

lemma outcome_rel_simps [simp]:
  "outcome_rel R (Falls s m) r' \<longleftrightarrow> (\<exists>s'. r' = Falls s' m \<and> R s s')" "outcome_rel R (Exits pc jk offsIP m) r' \<longleftrightarrow> r' = Exits pc jk offsIP m"
  by (simp_all add: outcome_rel_def)

lemma outcome_rel_mono: "outcome_rel R r r' \<Longrightarrow> (\<And>s s'. R s s' \<Longrightarrow> R' s s') \<Longrightarrow> outcome_rel R' r r'"
  by (cases r) auto

lemma assign_Some: "assign tyenv t x s = Some s1 \<longleftrightarrow> t < length tyenv \<and> fits (tyenv ! t) x \<and> s1 = s(t := x)"
  by (auto simp: assign_def)

text \<open>A larger type environment, and operands with the same values.\<close>

definition types_extend :: "IRType list \<Rightarrow> IRType list \<Rightarrow> bool" where
  "types_extend tyenv tyenv' \<longleftrightarrow> (\<forall>t < length tyenv. t < length tyenv' \<and> tyenv' ! t = tyenv ! t)"

lemma types_extendD: "types_extend tyenv tyenv' \<Longrightarrow> t < length tyenv \<Longrightarrow> t < length tyenv' \<and> tyenv' ! t = tyenv ! t"
  by (simp add: types_extend_def)

lemma types_extend_refl [simp]: "types_extend tyenv tyenv" "types_extend tyenv (tyenv @ ts)"
  by (auto simp: types_extend_def nth_append)

definition same_tval :: "IRType list \<Rightarrow> IRType list \<Rightarrow> 'm guest \<Rightarrow> op_sem \<Rightarrow> store \<Rightarrow> store \<Rightarrow> 'm \<Rightarrow> IRExpr \<Rightarrow> IRExpr \<Rightarrow> bool" where
  "same_tval tyenv tyenv' G sem s s' m e e' \<longleftrightarrow> (\<forall>p. tval tyenv G sem s m e = Some p \<longrightarrow> tval tyenv' G sem s' m e' = Some p)"

lemma same_tvalD: "same_tval tyenv tyenv' G sem s s' m e e' \<Longrightarrow> tval tyenv G sem s m e = Some p \<Longrightarrow> tval tyenv' G sem s' m e' = Some p"
  by (simp add: same_tval_def)

lemma same_tval_opt:
  "rel_option (same_tval tyenv tyenv' G sem s s' m) e e' \<Longrightarrow> tval_opt tyenv G sem s m e = Some p \<Longrightarrow> tval_opt tyenv' G sem s' m e' = Some p"
  by (cases e; cases e') (auto dest: same_tvalD)

lemma same_dargs:
  assumes "list_all2 (same_arg (same_tval tyenv tyenv' G sem s s' m)) as bs"
    "dargs tyenv G sem s m as = Some ps"
  shows "dargs tyenv' G sem s' m bs = Some ps"
  using assms
proof (induction arbitrary: ps rule: list_all2_induct)
  case (Cons a as b bs)
  then obtain p ps' where p: "darg tyenv G sem s m a = Some p" "dargs tyenv G sem s m as = Some ps'" "ps = p # ps'"
    by (auto simp: bind_Some_iff)
  have "darg tyenv' G sem s' m b = Some p"
  proof (cases "is_IRExpr_VECRET_or_GSPTR a")
    case True
    with Cons.hyps(1) p(1) show ?thesis by (cases a) (auto simp: same_arg_def)
  next
    case False
    then obtain v where v: "tval tyenv G sem s m a = Some v" "p = Arg_val v" using p(1) by (cases a) auto
    with same_tvalD [of tyenv tyenv' G sem s s' m a b v] Cons.hyps(1) False have "tval tyenv' G sem s' m b = Some v" by (simp add: same_arg_def)
    with v(2) show ?thesis by (cases b) (auto simp: tval_def)
  qed
  with Cons.IH [OF p(2)] p(3) show ?case by simp
qed simp

lemma tval_Const: "tval tyenv G sem s m (Iex_Const c) = Some (typeOfIRConst c, const_val c)"
  by (simp add: tval_def const_val_fits)

lemma assign_same:
  "types_extend tyenv tyenv' \<Longrightarrow> assign tyenv t x s1 = Some s2 \<Longrightarrow> assign tyenv' t x s1' = Some (s1'(t := x)) \<and> s2 = s1(t := x)"
  by (auto simp: assign_Some types_extendD)

lemma assign_opt_same:
  assumes "types_extend tyenv tyenv'" "assign_opt tyenv t x s1 = Some s2"
  shows "\<exists>s2'. assign_opt tyenv' t x s1' = Some s2' \<and> upd_rel (set (opt_list t)) s1 s1' s2 s2'"
proof (cases t)
  case (Some u)
  with assms(2) have "assign tyenv u x s1 = Some s2" by (simp add: assign_opt_def)
  from assign_same [OF assms(1) this, of s1'] Some show ?thesis by (auto simp: assign_opt_def opt_list_def)
qed (use assms in \<open>simp add: assign_opt_def opt_list_def\<close>)

text \<open>Related statements do the same.\<close>

lemma exec_CAS_rel:
  assumes ty: "types_extend tyenv tyenv'"
    and R: "R (cas_addr cas) a" "rel_option R (cas_expdHi cas) eh" "R (cas_expdLo cas) el" "rel_option R (cas_dataHi cas) dh" "R (cas_dataLo cas) dl"
    and ex: "exec_stmt tyenv G sem (Ist_CAS cas) s m = Some r" and R_def: "R = same_tval tyenv tyenv' G sem s s' m"
  shows "\<exists>r'. exec_stmt tyenv' G sem (Ist_CAS (cas \<lparr> cas_addr := a, cas_expdHi := eh, cas_expdLo := el, cas_dataHi := dh, cas_dataLo := dl \<rparr>))
    s' m = Some r' \<and> outcome_rel (upd_rel (set (stmt_defs (Ist_CAS cas))) s s') r r'"
proof -
  obtain p x1 x2 x3 x4 hi lo m' s1 s2 where v: "tval tyenv G sem s m (cas_addr cas) = Some p"
    "tval_opt tyenv G sem s m (cas_expdHi cas) = Some x1" "tval tyenv G sem s m (cas_expdLo cas) = Some x2"
    "tval_opt tyenv G sem s m (cas_dataHi cas) = Some x3" "tval tyenv G sem s m (cas_dataLo cas) = Some x4"
    and r: "g_cas G (cas_end cas) p x1 x2 x3 x4 m = Some (hi, lo, m')"
      "assign_opt tyenv (cas_oldHi cas) hi s = Some s1" "assign tyenv (cas_oldLo cas) lo s1 = Some s2" "r = Falls s2 m'"
    using ex by (auto simp: bind_Some_iff)
  note R = R [unfolded R_def]
  note v' = same_tvalD [OF R(1) v(1)] same_tval_opt [OF R(2) v(2)] same_tvalD [OF R(3) v(3)] same_tval_opt [OF R(4) v(4)] same_tvalD [OF R(5) v(5)]
  from assign_opt_same [OF ty r(2), of s'] obtain s1' where
    s1': "assign_opt tyenv' (cas_oldHi cas) hi s' = Some s1'" "upd_rel (set (opt_list (cas_oldHi cas))) s s' s1 s1'" by blast
  from assign_same [OF ty r(3), of s1'] upd_rel_trans [OF s1'(2) upd_rel_assign, of "cas_oldLo cas" lo] s1'(1) r(1,4) v' show ?thesis
    by auto
qed

lemma exec_Dirty_rel:
  assumes ty: "types_extend tyenv tyenv'" and R: "d_mFx d \<noteq> Ifx_None \<Longrightarrow> rel_option R (d_mAddr d) a" "R (d_guard d) g"
      "list_all2 (same_arg R) (d_args d) args"
    and ex: "exec_stmt tyenv G sem (Ist_Dirty d) s m = Some r" and R_def: "R = same_tval tyenv tyenv' G sem s s' m"
  shows "\<exists>r'. exec_stmt tyenv' G sem (Ist_Dirty (d \<lparr> d_mAddr := a, d_guard := g, d_args := args \<rparr>)) s' m = Some r' \<and>
    outcome_rel (upd_rel (set (stmt_defs (Ist_Dirty d))) s s') r r'"
proof -
  obtain p xs gt gv x m' s1 where v: "dirty_addr tyenv G sem s m d = Some p" "dargs tyenv G sem s m (d_args d) = Some xs"
    "tval tyenv G sem s m (d_guard d) = Some (gt, gv)" "dirty_result tyenv G d p xs gv m = Some (x, m')"
    "assign_opt tyenv (d_tmp d) x s = Some s1" "r = Falls s1 m'"
    using ex by (auto simp: bind_Some_iff)
  let ?d = "d \<lparr> d_mAddr := a, d_guard := g, d_args := args \<rparr>"
  note R = R [unfolded R_def]
  have "dirty_addr tyenv' G sem s' m ?d = Some p"
    using v(1) R(1) by (cases "d_mAddr d"; cases a) (auto simp: dirty_addr_def dest: same_tvalD split: if_splits)
  moreover have "dirty_result tyenv' G ?d p xs gv m = Some (x, m')"
    using v(4,5) types_extendD [OF ty] by (auto simp: dirty_result_def assign_opt_def assign_Some split: option.splits if_splits)
  moreover note same_tvalD [OF R(2) v(3)] same_dargs [OF R(3) v(2)] assign_opt_same [OF ty v(5), of s']
  ultimately show ?thesis using v(6) by auto
qed

lemma exec_LLSC_rel:
  assumes ty: "types_extend tyenv tyenv'" and R: "same_tval tyenv tyenv' G sem s s' m a a'" "rel_option (same_tval tyenv tyenv' G sem s s' m) d d'"
    and ex: "exec_stmt tyenv G sem (Ist_LLSC en t a d) s m = Some r"
  shows "\<exists>r'. exec_stmt tyenv' G sem (Ist_LLSC en t a' d') s' m = Some r' \<and> outcome_rel (upd_rel {t} s s') r r'"
proof -
  obtain p x y m' s1 where v: "tval tyenv G sem s m a = Some p" "tval_opt tyenv G sem s m d = Some x"
    "llsc_result tyenv G en t p x m = Some (y, m')" "assign tyenv t y s = Some s1" "r = Falls s1 m'"
    using ex by (auto simp: bind_Some_iff)
  have "llsc_result tyenv' G en t p x m = Some (y, m')"
    using v(3) types_extendD [OF ty] by (auto simp: llsc_result_def split: option.splits if_splits)
  with v(5) assign_same [OF ty v(4), of s'] same_tvalD [OF R(1) v(1)] same_tval_opt [OF R(2) v(2)] show ?thesis
    by auto
qed

lemma loadg_val_operands: "loadg_val G (lg \<lparr> lg_addr := a, lg_alt := e, lg_guard := g \<rparr>) arg p y gv m = loadg_val G lg arg p y gv m"
  by (simp add: loadg_val_def cong: if_cong)

lemma exec_LoadG_rel:
  assumes ty: "types_extend tyenv tyenv'" and R: "R (lg_addr lg) a" "R (lg_alt lg) e" "R (lg_guard lg) g"
    and ex: "exec_stmt tyenv G sem (Ist_LoadG lg) s m = Some r" and R_def: "R = same_tval tyenv tyenv' G sem s s' m"
  shows "\<exists>r'. exec_stmt tyenv' G sem (Ist_LoadG (lg \<lparr> lg_addr := a, lg_alt := e, lg_guard := g \<rparr>)) s' m = Some r' \<and>
    outcome_rel (upd_rel {lg_dst lg} s s') r r'"
proof -
  obtain pt p yt y gt gv res arg x s1 where v: "tval tyenv G sem s m (lg_addr lg) = Some (pt, p)"
      "tval tyenv G sem s m (lg_alt lg) = Some (yt, y)" "tval tyenv G sem s m (lg_guard lg) = Some (gt, gv)"
      "typeOfIRLoadGOp (lg_cvt lg) = Some (res, arg)" "loadg_val G lg arg p y gv m = Some x"
      "assign tyenv (lg_dst lg) x s = Some s1" "r = Falls s1 m"
    using ex by (auto simp: bind_Some_iff)
  note R = R [unfolded R_def]
  from assign_same [OF ty v(6), of s'] same_tvalD [OF R(1) v(1)] same_tvalD [OF R(2) v(2)] same_tvalD [OF R(3) v(3)] v(4,5,7) show ?thesis
    by (auto simp: loadg_val_operands)
qed

lemma exec_stmt_rel:
  assumes rel: "stmt_rel (same_tval tyenv tyenv' G sem s s' m) st st'" and ty: "types_extend tyenv tyenv'"
    and ex: "exec_stmt tyenv G sem st s m = Some r"
  shows "\<exists>r'. exec_stmt tyenv' G sem st' s' m = Some r' \<and> outcome_rel (upd_rel (set (stmt_defs st)) s s') r r'"
  using rel
proof (cases rule: stmt_rel.cases)
  case (rel_WrTmp e e' t)
  with ex obtain ety x s1 where v: "tval tyenv G sem s m e = Some (ety, x)" "assign tyenv t x s = Some s1" "r = Falls s1 m"
    by (auto simp: bind_Some_iff)
  with assign_same [OF ty v(2), of s'] same_tvalD [OF rel_WrTmp(3) v(1)] rel_WrTmp(1,2) show ?thesis by auto
next
  case (rel_StoreG sg a d g)
  with ex obtain p x gt gv where v: "tval tyenv G sem s m (sg_addr sg) = Some p" "tval tyenv G sem s m (sg_data sg) = Some x"
      "tval tyenv G sem s m (sg_guard sg) = Some (gt, gv)"
    by (auto simp: bind_Some_iff)
  with same_tvalD [OF rel_StoreG(3) v(1)] same_tvalD [OF rel_StoreG(4) v(2)] same_tvalD [OF rel_StoreG(5) v(3)] ex rel_StoreG(1,2) show ?thesis
    by (auto simp: bind_Some_iff split: if_splits)
next
  case (rel_LoadG lg a e g)
  then show ?thesis using exec_LoadG_rel [OF ty rel_LoadG(3-5) ex [unfolded rel_LoadG(1)] refl] by simp
next
  case (rel_CAS cas a eh el dh dl)
  then show ?thesis using exec_CAS_rel [OF ty rel_CAS(3-7) ex [unfolded rel_CAS(1)] refl] by simp
next
  case (rel_LLSC a a' d d' en t)
  then show ?thesis using exec_LLSC_rel [OF ty rel_LLSC(3,4) ex [unfolded rel_LLSC(1)]] by simp
next
  case (rel_Dirty d a g args)
  then show ?thesis using exec_Dirty_rel [OF ty rel_Dirty(3-5) ex [unfolded rel_Dirty(1)] refl] by simp
qed (use ex in \<open>fastforce simp: bind_Some_iff dest: same_tvalD\<close>)+

section \<open>A guest for the examples\<close>

text \<open>A guest with one cell.\<close>

definition cell_guest :: "int guest" where
  "cell_guest = \<lparr> g_get = (\<lambda>_ _ m. Some m), g_getI = (\<lambda>_ _ _ m. Some m), g_load = (\<lambda>_ _ p _. Some p), g_clean = (\<lambda>_ _ _. None),
     g_put = (\<lambda>_ x _. snd x), g_putI = (\<lambda>_ _ _ x _. snd x), g_store = (\<lambda>_ _ x _. Some (snd x)), g_cas = (\<lambda>_ _ _ _ _ _ _. None),
     g_ll = (\<lambda>_ _ _ _. None), g_sc = (\<lambda>_ _ _ _. None), g_dirty = (\<lambda>_ _ _ _ _ _ _. None), g_hint = (\<lambda>_ _ _ m. m),
     g_mark = (\<lambda>_ _ _ m. m), g_mbe = (\<lambda>_ m. m) \<rparr>"

end
