(* ===== verification/IropFold.thy ===== *)
theory IropFold
  imports IRSanity Switch
begin

text \<open>
  The constant folder of the IR optimiser (\<^verbatim>\<open>VEX/priv/ir_opt.c\<close>, lines 1000 to 2428): the comparison of two
  expressions through the temporaries they read, the folding of an operator on constants, and the identities for an
  operator with one constant or two equal arguments. The C \<^verbatim>\<open>switch\<close> statements are tables. A result \<^const>\<open>None\<close> is a
  failed assertion or a panic.
\<close>

section \<open>Are two expressions the same?\<close>

text \<open>The array \<^verbatim>\<open>env\<close> maps a temporary to the expression assigned to it; null is \<^const>\<open>None\<close>.\<close>

type_synonym ir_env = "IRTemp \<Rightarrow> IRExpr option"

definition NODE_LIMIT :: nat where "NODE_LIMIT = 30"

text \<open>The constructor of an expression.\<close>

fun expr_tag :: "IRExpr \<Rightarrow> nat" where
  "expr_tag (Iex_Binder _) = 0"
| "expr_tag (Iex_Get _ _) = 1"
| "expr_tag (Iex_GetI _ _ _) = 2"
| "expr_tag (Iex_RdTmp _) = 3"
| "expr_tag (Iex_Qop _ _ _ _ _) = 4"
| "expr_tag (Iex_Triop _ _ _ _) = 5"
| "expr_tag (Iex_Binop _ _ _) = 6"
| "expr_tag (Iex_Unop _ _) = 7"
| "expr_tag (Iex_Load _ _ _) = 8"
| "expr_tag (Iex_Const _) = 9"
| "expr_tag (Iex_ITE _ _ _) = 10"
| "expr_tag (Iex_CCall _ _ _) = 11"
| "expr_tag Iex_VECRET = 12"
| "expr_tag Iex_GSPTR = 13"

fun const_tag :: "IRConst \<Rightarrow> nat" where
  "const_tag (Ico_U1 _) = 0"
| "const_tag (Ico_U8 _) = 1"
| "const_tag (Ico_U16 _) = 2"
| "const_tag (Ico_U32 _) = 3"
| "const_tag (Ico_U64 _) = 4"
| "const_tag (Ico_F32 _) = 5"
| "const_tag (Ico_F32i _) = 6"
| "const_tag (Ico_F64 _) = 7"
| "const_tag (Ico_F64i _) = 8"
| "const_tag (Ico_V128 _) = 9"
| "const_tag (Ico_V256 _) = 10"

fun same_int_const :: "IRConst \<Rightarrow> IRConst \<Rightarrow> bool" where
  "same_int_const (Ico_U1 a) (Ico_U1 b) = (a = b)"
| "same_int_const (Ico_U8 a) (Ico_U8 b) = (a = b)"
| "same_int_const (Ico_U16 a) (Ico_U16 b) = (a = b)"
| "same_int_const (Ico_U32 a) (Ico_U32 b) = (a = b)"
| "same_int_const (Ico_U64 a) (Ico_U64 b) = (a = b)"
| "same_int_const _ _ = False"

text \<open>The comparison counts the nodes it visits in \<^verbatim>\<open>num_nodes_visited\<close>. Its outcome is the answer with the new
  count, or a failed assertion.\<close>

datatype same_result = Same bool nat | AssertFailed

text \<open>The conjunction of C: the second comparison runs only when the first one succeeds, on the count it left. A \<^const>\<open>None\<close> would
  be a comparison that does not return.\<close>

definition and_then :: "same_result option \<Rightarrow> (nat \<Rightarrow> same_result option) \<Rightarrow> same_result option" where
  "and_then r f = Option.bind r (\<lambda>r. case r of
     AssertFailed \<Rightarrow> Some AssertFailed
   | Same same n \<Rightarrow> (if same then f n else Some (Same False n)))"

lemma and_then_mono [partial_function_mono]:
  assumes "mono_option B" "\<And>n. mono_option (\<lambda>f. C n f)"
  shows "mono_option (\<lambda>f. and_then (B f) (\<lambda>n. C n f))"
  unfolding and_then_def using assms
  by (intro bind_mono) (auto split: same_result.split simp: monotone_on_def fun_ord_def flat_ord_def)

partial_function (option) sameIRExprs_aux :: "ir_env \<Rightarrow> nat \<Rightarrow> IRExpr \<Rightarrow> IRExpr \<Rightarrow> same_result option" where
  "sameIRExprs_aux env n e1 e2 =
     (if expr_tag e1 \<noteq> expr_tag e2 then Some (Same False n)
      else if n > NODE_LIMIT then Some (Same False (n + 1))
      else case (e1, e2) of
        (Iex_RdTmp t1, Iex_RdTmp t2) \<Rightarrow>
          (if t1 = t2 then Some (Same True (n + 1))
           else case (env t1, env t2) of
             (Some x1, Some x2) \<Rightarrow> sameIRExprs_aux env (n + 1) x1 x2
           | _ \<Rightarrow> Some (Same False (n + 1)))
      | (Iex_Binop op1 a1 b1, Iex_Binop op2 a2 b2) \<Rightarrow>
          (if op1 = op2 then and_then (sameIRExprs_aux env (n + 1) a1 a2) (\<lambda>n. sameIRExprs_aux env n b1 b2)
           else Some (Same False (n + 1)))
      | (Iex_Unop op1 a1, Iex_Unop op2 a2) \<Rightarrow>
          (if op1 = op2 then sameIRExprs_aux env (n + 1) a1 a2 else Some (Same False (n + 1)))
      | (Iex_Const c1, Iex_Const c2) \<Rightarrow>
          (if const_tag c1 \<noteq> const_tag c2 then Some AssertFailed else Some (Same (same_int_const c1 c2) (n + 1)))
      | (Iex_Triop op1 a1 b1 c1, Iex_Triop op2 a2 b2 c2) \<Rightarrow>
          (if op1 = op2 then
             and_then (sameIRExprs_aux env (n + 1) a1 a2) (\<lambda>n.
             and_then (sameIRExprs_aux env n b1 b2) (\<lambda>n. sameIRExprs_aux env n c1 c2))
           else Some (Same False (n + 1)))
      | (Iex_ITE c1 t1 f1, Iex_ITE c2 t2 f2) \<Rightarrow>
          and_then (sameIRExprs_aux env (n + 1) c1 c2) (\<lambda>n.
          and_then (sameIRExprs_aux env n t1 t2) (\<lambda>n. sameIRExprs_aux env n f1 f2))
      | _ \<Rightarrow> Some (Same False (n + 1)))"

definition sameIRExprs :: "ir_env \<Rightarrow> IRExpr \<Rightarrow> IRExpr \<Rightarrow> bool option" where
  "sameIRExprs env e1 e2 = (case sameIRExprs_aux env 0 e1 e2 of Some (Same same _) \<Rightarrow> Some same | _ \<Rightarrow> None)"

section \<open>Recognising and making constants\<close>

text \<open>The members of the union in a constant: reading another one than that of the tag has no value here.\<close>


fun con_U1 :: "IRConst \<Rightarrow> bool option" where
  "con_U1 (Ico_U1 x) = Some x"
| "con_U1 _ = None"

fun con_U8 :: "IRConst \<Rightarrow> u8 option" where
  "con_U8 (Ico_U8 x) = Some x"
| "con_U8 _ = None"

fun con_U16 :: "IRConst \<Rightarrow> u16 option" where
  "con_U16 (Ico_U16 x) = Some x"
| "con_U16 _ = None"

fun con_U32 :: "IRConst \<Rightarrow> u32 option" where
  "con_U32 (Ico_U32 x) = Some x"
| "con_U32 _ = None"

fun con_U64 :: "IRConst \<Rightarrow> u64 option" where
  "con_U64 (Ico_U64 x) = Some x"
| "con_U64 _ = None"

fun con_V128 :: "IRConst \<Rightarrow> u16 option" where
  "con_V128 (Ico_V128 x) = Some x"
| "con_V128 _ = None"

fun con_V256 :: "IRConst \<Rightarrow> u32 option" where
  "con_V256 (Ico_V256 x) = Some x"
| "con_V256 _ = None"

definition isZeroU32_opt :: "IRExpr \<Rightarrow> bool" where
  "isZeroU32_opt e = (case e of Iex_Const (Ico_U32 x) \<Rightarrow> x = 0 | _ \<Rightarrow> False)"

definition isZeroV128 :: "IRExpr \<Rightarrow> bool" where
  "isZeroV128 e = (case e of Iex_Const (Ico_V128 x) \<Rightarrow> x = 0x0000 | _ \<Rightarrow> False)"

definition isZeroV256 :: "IRExpr \<Rightarrow> bool" where
  "isZeroV256 e = (case e of Iex_Const (Ico_V256 x) \<Rightarrow> x = 0x00000000 | _ \<Rightarrow> False)"

fun const_isZeroU :: "IRConst \<Rightarrow> bool option" where
  "const_isZeroU (Ico_U1 x) = Some (x = False)"
| "const_isZeroU (Ico_U8 x) = Some (x = 0)"
| "const_isZeroU (Ico_U16 x) = Some (x = 0)"
| "const_isZeroU (Ico_U32 x) = Some (x = 0)"
| "const_isZeroU (Ico_U64 x) = Some (x = 0)"
| "const_isZeroU (Ico_V256 x) = Some (x = 0x00000000)"
| "const_isZeroU _ = None"

definition isZeroU :: "IRExpr \<Rightarrow> bool option" where
  "isZeroU e = (case e of Iex_Const c \<Rightarrow> const_isZeroU c | _ \<Rightarrow> Some False)"

fun const_isOnesU :: "IRConst \<Rightarrow> bool option" where
  "const_isOnesU (Ico_U8 x) = Some (x = 0xFF)"
| "const_isOnesU (Ico_U16 x) = Some (x = 0xFFFF)"
| "const_isOnesU (Ico_U32 x) = Some (x = 0xFFFFFFFF)"
| "const_isOnesU (Ico_U64 x) = Some (x = 0xFFFFFFFFFFFFFFFF)"
| "const_isOnesU _ = None"

definition isOnesU :: "IRExpr \<Rightarrow> bool option" where
  "isOnesU e = (case e of Iex_Const c \<Rightarrow> const_isOnesU c | _ \<Rightarrow> Some False)"

definition notBool :: "bool \<Rightarrow> bool" where
  "notBool b = (if b = True then False else True)"

definition zero_cases :: "(IROp list \<times> IRConst) list" where
  "zero_cases = [
     ([Iop_CmpNE32], Ico_U1 False),
     ([Iop_Xor8], Ico_U8 0),
     ([Iop_Xor16], Ico_U16 0),
     ([Iop_Sub32, Iop_Xor32], Ico_U32 0),
     ([Iop_And64, Iop_Sub64, Iop_Xor64], Ico_U64 0),
     ([Iop_XorV128, Iop_AndV128], Ico_V128 0),
     ([Iop_XorV256, Iop_AndV256], Ico_V256 0)]"

definition mkZeroOfPrimopResultType :: "IROp \<Rightarrow> IRExpr option" where
  "mkZeroOfPrimopResultType op = map_option Iex_Const (switch zero_cases op)"

definition ones_cases :: "(IROp list \<times> IRConst) list" where
  "ones_cases = [
     ([Iop_CmpEQ32, Iop_CmpEQ64], Ico_U1 True),
     ([Iop_Or8], Ico_U8 0xFF),
     ([Iop_Or16], Ico_U16 0xFFFF),
     ([Iop_Or32], Ico_U32 0xFFFFFFFF),
     ([Iop_CmpEQ8x8, Iop_Or64], Ico_U64 0xFFFFFFFFFFFFFFFF),
     ([Iop_CmpEQ8x16, Iop_CmpEQ16x8, Iop_CmpEQ32x4], Ico_V128 0xFFFF)]"

definition mkOnesOfPrimopResultType :: "IROp \<Rightarrow> IRExpr option" where
  "mkOnesOfPrimopResultType op = map_option Iex_Const (switch ones_cases op)"

text \<open>The counting loops run over \<^verbatim>\<open>i\<close> from 0 and return the first hit; running out is a failed assertion.\<close>

definition fold_Clz64 :: "u64 \<Rightarrow> u32 option" where
  "fold_Clz64 value =
     (if \<not> value \<noteq> 0 then None
      else map_option of_nat (List.find (\<lambda>i. 0 \<noteq> value AND push_bit (63 - i) 1) [0..<64]))"

definition fold_Clz32 :: "u32 \<Rightarrow> u32 option" where
  "fold_Clz32 value =
     (if \<not> value \<noteq> 0 then None
      else map_option of_nat (List.find (\<lambda>i. 0 \<noteq> value AND push_bit (31 - i) 1) [0..<32]))"

text \<open>Following a temporary to the expression it stands for. The outer \<^const>\<open>None\<close> would be a loop that does not end, the inner
  one is the null pointer.\<close>

partial_function (option) chase :: "ir_env \<Rightarrow> IRExpr \<Rightarrow> IRExpr option option" where
  "chase env e =
     (case e of
        Iex_RdTmp t \<Rightarrow> (case env t of None \<Rightarrow> Some None | Some e \<Rightarrow> chase env e)
      | _ \<Rightarrow> Some (Some e))"

definition chase1 :: "ir_env \<Rightarrow> IRExpr option \<Rightarrow> IRExpr option" where
  "chase1 env e = (case e of Some (Iex_RdTmp t) \<Rightarrow> env t | _ \<Rightarrow> e)"

section \<open>Operators on constants\<close>

text \<open>Each case gives the constant the operator folds to, or \<^term>\<open>Some None\<close> when the expression stays as it is. The
  outer \<^const>\<open>None\<close> is a failed assertion, or a constant of another type than the operator's argument.\<close>

type_synonym 'a fold_result = "'a option option"

definition fold1 :: "(IRConst \<Rightarrow> 'a option) \<Rightarrow> ('a \<Rightarrow> IRConst) \<Rightarrow> IRConst \<Rightarrow> IRConst fold_result" where
  "fold1 get f c = map_option (\<lambda>x. Some (f x)) (get c)"

definition fold1_when :: "(IRConst \<Rightarrow> 'a option) \<Rightarrow> ('a \<Rightarrow> bool) \<Rightarrow> ('a \<Rightarrow> IRConst) \<Rightarrow> IRConst \<Rightarrow> IRConst fold_result" where
  "fold1_when get P f c = map_option (\<lambda>x. if P x then Some (f x) else None) (get c)"

definition fold2 :: "(IRConst \<Rightarrow> 'a option) \<Rightarrow> ('a \<Rightarrow> 'a \<Rightarrow> IRConst) \<Rightarrow> IRConst \<Rightarrow> IRConst \<Rightarrow> IRConst fold_result" where
  "fold2 get f c1 c2 = (case (get c1, get c2) of (Some x, Some y) \<Rightarrow> Some (Some (f x y)) | _ \<Rightarrow> None)"

definition fold2_when ::
  "(IRConst \<Rightarrow> 'a option) \<Rightarrow> ('a \<Rightarrow> 'a \<Rightarrow> bool) \<Rightarrow> ('a \<Rightarrow> 'a \<Rightarrow> IRConst) \<Rightarrow> IRConst \<Rightarrow> IRConst \<Rightarrow> IRConst fold_result" where
  "fold2_when get P f c1 c2 =
     (case (get c1, get c2) of (Some x, Some y) \<Rightarrow> Some (if P x y then Some (f x y) else None) | _ \<Rightarrow> None)"

text \<open>A shift by a constant, when the amount is below \<open>w\<close>.\<close>

definition fold_shift :: "(IRConst \<Rightarrow> 'a option) \<Rightarrow> nat \<Rightarrow> (nat \<Rightarrow> 'a \<Rightarrow> IRConst) \<Rightarrow> IRConst \<Rightarrow> IRConst \<Rightarrow> IRConst fold_result" where
  "fold_shift get w f c1 c2 =
     (case (con_U8 c2, get c1) of
        (Some n, Some x) \<Rightarrow> (let shift = unat n in Some (if shift \<le> w - 1 then Some (f shift x) else None))
      | _ \<Rightarrow> None)"

definition fold_unop_cases_1 :: "(IROp list \<times> (IRConst \<Rightarrow> IRConst fold_result)) list" where
  "fold_unop_cases_1 = [
     ([Iop_1Uto8], fold1 con_U1 (\<lambda>b. Ico_U8 (if b then 1 else 0))),
     ([Iop_1Uto32], fold1 con_U1 (\<lambda>b. Ico_U32 (if b then 1 else 0))),
     ([Iop_1Uto64], fold1 con_U1 (\<lambda>b. Ico_U64 (if b then 1 else 0))),
     ([Iop_1Sto8], fold1 con_U1 (\<lambda>b. Ico_U8 (if b then 0xFF else 0))),
     ([Iop_1Sto16], fold1 con_U1 (\<lambda>b. Ico_U16 (if b then 0xFFFF else 0))),
     ([Iop_1Sto32], fold1 con_U1 (\<lambda>b. Ico_U32 (if b then 0xFFFFFFFF else 0))),
     ([Iop_1Sto64], fold1 con_U1 (\<lambda>b. Ico_U64 (if b then 0xFFFFFFFFFFFFFFFF else 0))),
     ([Iop_8Sto32], fold1 con_U8 (\<lambda>x. Ico_U32 (signed_drop_bit 24 (push_bit 24 (ucast x))))),
     ([Iop_16Sto32], fold1 con_U16 (\<lambda>x. Ico_U32 (signed_drop_bit 16 (push_bit 16 (ucast x))))),
     ([Iop_8Uto64], fold1 con_U8 (\<lambda>x. Ico_U64 (0xFF AND ucast x))),
     ([Iop_16Uto64], fold1 con_U16 (\<lambda>x. Ico_U64 (0xFFFF AND ucast x))),
     ([Iop_8Uto32], fold1 con_U8 (\<lambda>x. Ico_U32 (0xFF AND ucast x))),
     ([Iop_8Sto16], fold1 con_U8 (\<lambda>x. Ico_U16 (signed_drop_bit 8 (push_bit 8 (ucast x))))),
     ([Iop_8Uto16], fold1 con_U8 (\<lambda>x. Ico_U16 (0xFF AND ucast x))),
     ([Iop_16Uto32], fold1 con_U16 (\<lambda>x. Ico_U32 (0xFFFF AND ucast x))),
     ([Iop_32to16], fold1 con_U32 (\<lambda>x. Ico_U16 (ucast (0xFFFF AND x)))),
     ([Iop_32to8], fold1 con_U32 (\<lambda>x. Ico_U8 (ucast (0xFF AND x)))),
     ([Iop_32to1], fold1 con_U32 (\<lambda>x. Ico_U1 (1 = 1 AND x))),
     ([Iop_64to1], fold1 con_U64 (\<lambda>x. Ico_U1 (1 = 1 AND x))),
     ([Iop_NotV128], fold1 con_V128 (\<lambda>x. Ico_V128 (NOT x))),
     ([Iop_Not64], fold1 con_U64 (\<lambda>x. Ico_U64 (NOT x))),
     ([Iop_Not32], fold1 con_U32 (\<lambda>x. Ico_U32 (NOT x))),
     ([Iop_Not16], fold1 con_U16 (\<lambda>x. Ico_U16 (NOT x))),
     ([Iop_Not8], fold1 con_U8 (\<lambda>x. Ico_U8 (NOT x))),
     ([Iop_Not1], fold1 con_U1 (\<lambda>b. Ico_U1 (notBool b)))]"

definition fold_unop_cases_2 :: "(IROp list \<times> (IRConst \<Rightarrow> IRConst fold_result)) list" where
  "fold_unop_cases_2 = [
     ([Iop_64to8], fold1 con_U64 (\<lambda>x. Ico_U8 (ucast (x AND 0xFF)))),
     ([Iop_64to16], fold1 con_U64 (\<lambda>x. Ico_U16 (ucast (x AND 0xFFFF)))),
     ([Iop_64to32], fold1 con_U64 (\<lambda>x. Ico_U32 (ucast (x AND 0x00000000FFFFFFFF)))),
     ([Iop_64HIto32], fold1 con_U64 (\<lambda>x. Ico_U32 (ucast (drop_bit 32 x)))),
     ([Iop_32Uto64], fold1 con_U32 (\<lambda>x. Ico_U64 (0xFFFFFFFF AND ucast x))),
     ([Iop_16Sto64], fold1 con_U16 (\<lambda>x. Ico_U64 (signed_drop_bit 48 (push_bit 48 (ucast x))))),
     ([Iop_32Sto64], fold1 con_U32 (\<lambda>x. Ico_U64 (signed_drop_bit 32 (push_bit 32 (ucast x))))),
     ([Iop_16to8], fold1 con_U16 (\<lambda>x. Ico_U8 (ucast (x AND 0xFF)))),
     ([Iop_16HIto8], fold1 con_U16 (\<lambda>x. Ico_U8 (ucast (drop_bit 8 x AND 0xFF)))),
     ([Iop_CmpNEZ8], fold1 con_U8 (\<lambda>x. Ico_U1 (0 \<noteq> 0xFF AND x))),
     ([Iop_CmpNEZ32], fold1 con_U32 (\<lambda>x. Ico_U1 (0 \<noteq> 0xFFFFFFFF AND x))),
     ([Iop_CmpNEZ64], fold1 con_U64 (\<lambda>x. Ico_U1 (0 \<noteq> x))),
     ([Iop_CmpwNEZ32], fold1 con_U32 (\<lambda>x. if x = 0 then Ico_U32 0 else Ico_U32 0xFFFFFFFF)),
     ([Iop_CmpwNEZ64], fold1 con_U64 (\<lambda>x. if x = 0 then Ico_U64 0 else Ico_U64 0xFFFFFFFFFFFFFFFF)),
     ([Iop_Left32], fold1 con_U32 (\<lambda>x. Ico_U32 ((x AND 0xFFFFFFFF) OR - (x AND 0xFFFFFFFF)))),
     ([Iop_Left64], fold1 con_U64 (\<lambda>x. Ico_U64 (x OR - x))),
     ([Iop_Clz32], (\<lambda>c. Option.bind (con_U32 c) (\<lambda>x. if x \<noteq> 0 then map_option (\<lambda>n. Some (Ico_U32 n)) (fold_Clz32 x) else Some None))),
     ([Iop_Clz64], (\<lambda>c. Option.bind (con_U64 c) (\<lambda>x. if x \<noteq> 0 then map_option (\<lambda>n. Some (Ico_U64 (ucast n))) (fold_Clz64 x) else Some None)))]"

definition fold_unop_cases_3 :: "(IROp list \<times> (IRConst \<Rightarrow> IRConst fold_result)) list" where
  "fold_unop_cases_3 = [
     ([Iop_32UtoV128], fold1_when con_U32 (\<lambda>x. 0 = x) (\<lambda>_. Ico_V128 0x0000)),
     ([Iop_V128to64], fold1_when con_V128 (\<lambda>x. 0 = drop_bit 0 x AND 0xFF) (\<lambda>_. Ico_U64 0)),
     ([Iop_V128HIto64], fold1_when con_V128 (\<lambda>x. 0 = drop_bit 8 x AND 0xFF) (\<lambda>_. Ico_U64 0)),
     ([Iop_64UtoV128], fold1_when con_U64 (\<lambda>x. 0 = x) (\<lambda>_. Ico_V128 0x0000)),
     ([Iop_V256to64_0, Iop_V256to64_1, Iop_V256to64_2, Iop_V256to64_3], fold1_when con_V256 (\<lambda>x. x = 0x00000000) (\<lambda>_. Ico_U64 0)),
     ([Iop_ZeroHI64ofV128], fold1_when con_V128 (\<lambda>x. x = 0x0000) (\<lambda>_. Ico_V128 0x0000))]"

definition fold_unop_cases :: "(IROp list \<times> (IRConst \<Rightarrow> IRConst fold_result)) list" where
  "fold_unop_cases = fold_unop_cases_1 @ fold_unop_cases_2 @ fold_unop_cases_3"

definition fold_binop_cases_1 :: "(IROp list \<times> (IRConst \<Rightarrow> IRConst \<Rightarrow> IRConst fold_result)) list" where
  "fold_binop_cases_1 = [
     ([Iop_Or8], fold2 con_U8 (\<lambda>x y. Ico_U8 (x OR y))),
     ([Iop_Or16], fold2 con_U16 (\<lambda>x y. Ico_U16 (x OR y))),
     ([Iop_Or32], fold2 con_U32 (\<lambda>x y. Ico_U32 (x OR y))),
     ([Iop_Or64], fold2 con_U64 (\<lambda>x y. Ico_U64 (x OR y))),
     ([Iop_OrV128], fold2 con_V128 (\<lambda>x y. Ico_V128 (x OR y))),
     ([Iop_Xor8], fold2 con_U8 (\<lambda>x y. Ico_U8 (x XOR y))),
     ([Iop_Xor16], fold2 con_U16 (\<lambda>x y. Ico_U16 (x XOR y))),
     ([Iop_Xor32], fold2 con_U32 (\<lambda>x y. Ico_U32 (x XOR y))),
     ([Iop_Xor64], fold2 con_U64 (\<lambda>x y. Ico_U64 (x XOR y))),
     ([Iop_XorV128], fold2 con_V128 (\<lambda>x y. Ico_V128 (x XOR y))),
     ([Iop_And8], fold2 con_U8 (\<lambda>x y. Ico_U8 (x AND y))),
     ([Iop_And16], fold2 con_U16 (\<lambda>x y. Ico_U16 (x AND y))),
     ([Iop_And32], fold2 con_U32 (\<lambda>x y. Ico_U32 (x AND y))),
     ([Iop_And64], fold2 con_U64 (\<lambda>x y. Ico_U64 (x AND y))),
     ([Iop_AndV128], fold2 con_V128 (\<lambda>x y. Ico_V128 (x AND y))),
     ([Iop_Add8], fold2 con_U8 (\<lambda>x y. Ico_U8 (x + y))),
     ([Iop_Add32], fold2 con_U32 (\<lambda>x y. Ico_U32 (x + y))),
     ([Iop_Add64], fold2 con_U64 (\<lambda>x y. Ico_U64 (x + y))),
     ([Iop_Sub8], fold2 con_U8 (\<lambda>x y. Ico_U8 (x - y))),
     ([Iop_Sub32], fold2 con_U32 (\<lambda>x y. Ico_U32 (x - y))),
     ([Iop_Sub64], fold2 con_U64 (\<lambda>x y. Ico_U64 (x - y))),
     ([Iop_Max32U], fold2 con_U32 (\<lambda>x y. Ico_U32 (if x > y then x else y))),
     ([Iop_Mul32], fold2 con_U32 (\<lambda>x y. Ico_U32 (x * y))),
     ([Iop_Mul64], fold2 con_U64 (\<lambda>x y. Ico_U64 (x * y))),
     ([Iop_MullS32], fold2 con_U32 (\<lambda>x y. Ico_U64 (scast x * scast y)))]"

definition fold_binop_cases_2 :: "(IROp list \<times> (IRConst \<Rightarrow> IRConst \<Rightarrow> IRConst fold_result)) list" where
  "fold_binop_cases_2 = [
     ([Iop_Shl32], fold_shift con_U32 32 (\<lambda>n x. Ico_U32 (push_bit n x))),
     ([Iop_Shl64], fold_shift con_U64 64 (\<lambda>n x. Ico_U64 (push_bit n x))),
     ([Iop_Sar32], fold_shift con_U32 32 (\<lambda>n x. Ico_U32 (signed_drop_bit n x))),
     ([Iop_Sar64], fold_shift con_U64 64 (\<lambda>n x. Ico_U64 (signed_drop_bit n x))),
     ([Iop_Shr32], fold_shift con_U32 32 (\<lambda>n x. Ico_U32 (drop_bit n x))),
     ([Iop_Shr64], fold_shift con_U64 64 (\<lambda>n x. Ico_U64 (drop_bit n x))),
     ([Iop_CmpEQ32], fold2 con_U32 (\<lambda>x y. Ico_U1 (x = y))),
     ([Iop_CmpEQ64], fold2 con_U64 (\<lambda>x y. Ico_U1 (x = y))),
     ([Iop_CmpNE8, Iop_CasCmpNE8, Iop_ExpCmpNE8], fold2 con_U8 (\<lambda>x y. Ico_U1 (0xFF AND x \<noteq> 0xFF AND y))),
     ([Iop_CmpNE32, Iop_CasCmpNE32, Iop_ExpCmpNE32], fold2 con_U32 (\<lambda>x y. Ico_U1 (x \<noteq> y))),
     ([Iop_CmpNE64, Iop_CasCmpNE64, Iop_ExpCmpNE64], fold2 con_U64 (\<lambda>x y. Ico_U1 (x \<noteq> y)))]"

definition fold_binop_cases_3 :: "(IROp list \<times> (IRConst \<Rightarrow> IRConst \<Rightarrow> IRConst fold_result)) list" where
  "fold_binop_cases_3 = [
     ([Iop_CmpLE32U], fold2 con_U32 (\<lambda>x y. Ico_U1 (x \<le> y))),
     ([Iop_CmpLE64U], fold2 con_U64 (\<lambda>x y. Ico_U1 (x \<le> y))),
     ([Iop_CmpLE32S], fold2 con_U32 (\<lambda>x y. Ico_U1 (sint x \<le> sint y))),
     ([Iop_CmpLE64S], fold2 con_U64 (\<lambda>x y. Ico_U1 (sint x \<le> sint y))),
     ([Iop_CmpLT32S], fold2 con_U32 (\<lambda>x y. Ico_U1 (sint x < sint y))),
     ([Iop_CmpLT64S], fold2 con_U64 (\<lambda>x y. Ico_U1 (sint x < sint y))),
     ([Iop_CmpLT32U], fold2 con_U32 (\<lambda>x y. Ico_U1 (x < y))),
     ([Iop_CmpLT64U], fold2 con_U64 (\<lambda>x y. Ico_U1 (x < y))),
     ([Iop_CmpORD32S], fold2 con_U32 (\<lambda>x y. Ico_U32 (if sint x < sint y then 0x8 else if sint x > sint y then 0x4 else 0x2))),
     ([Iop_32HLto64], fold2 con_U32 (\<lambda>x y. Ico_U64 (push_bit 32 (ucast x) OR ucast y))),
     ([Iop_64HLto128], (\<lambda>c1 c2. Some None)),
     ([Iop_64HLtoV128], fold2_when con_U64 (\<lambda>x y. 0 = x \<and> 0 = y) (\<lambda>_ _. Ico_V128 0)),
     ([Iop_V128HLtoV256], (\<lambda>c1 c2. Some (if isZeroV128 (Iex_Const c1) \<and> isZeroV128 (Iex_Const c2) then Some (Ico_V256 0) else None))),
     ([Iop_InterleaveLO8x16], fold2_when con_V128 (\<lambda>x y. 0 = x \<and> 0 = y) (\<lambda>_ _. Ico_V128 0))]"

definition fold_binop_cases :: "(IROp list \<times> (IRConst \<Rightarrow> IRConst \<Rightarrow> IRConst fold_result)) list" where
  "fold_binop_cases = fold_binop_cases_1 @ fold_binop_cases_2 @ fold_binop_cases_3"

section \<open>Identities\<close>

text \<open>The rules for an operator with an argument that is not a constant. They return the new expression, or the old one.\<close>

type_synonym ident_rule = "ir_env \<Rightarrow> IROp \<Rightarrow> IRExpr \<Rightarrow> IRExpr \<Rightarrow> IRExpr option"

definition ident_shift_both :: ident_rule where
  "ident_shift_both env op a1 a2 = do {
     z2 \<leftarrow> isZeroU a2;
     if z2 then Some a1 else do {
     z1 \<leftarrow> isZeroU a1;
     if z1 then Some a1 else Some (Iex_Binop op a1 a2) } }"

definition ident_shift_right :: ident_rule where
  "ident_shift_right env op a1 a2 = do {
     z2 \<leftarrow> isZeroU a2;
     if z2 then Some a1 else Some (Iex_Binop op a1 a2) }"

definition ident_or :: ident_rule where
  "ident_or env op a1 a2 = do {
     z2 \<leftarrow> isZeroU a2;
     if z2 then Some a1 else do {
     z1 \<leftarrow> isZeroU a1;
     if z1 then Some a2 else do {
     o1 \<leftarrow> isOnesU a1;
     o2 \<leftarrow> (if o1 then Some True else isOnesU a2);
     if o2 then mkOnesOfPrimopResultType op else do {
     same \<leftarrow> sameIRExprs env a1 a2;
     if same then Some a1 else Some (Iex_Binop op a1 a2) } } } }"

definition ident_add8 :: ident_rule where
  "ident_add8 env op a1 a2 = do {
     same \<leftarrow> sameIRExprs env a1 a2;
     if same then Some (Iex_Binop Iop_Shl8 a1 (Iex_Const (Ico_U8 1))) else Some (Iex_Binop op a1 a2) }"

definition ident_add :: ident_rule where
  "ident_add env op a1 a2 = do {
     z2 \<leftarrow> isZeroU a2;
     if z2 then Some a1 else do {
     z1 \<leftarrow> isZeroU a1;
     if z1 then Some a2 else do {
     same \<leftarrow> sameIRExprs env a1 a2;
     if same then Some (Iex_Binop (if op = Iop_Add32 then Iop_Shl32 else Iop_Shl64) a1 (Iex_Const (Ico_U8 1)))
     else Some (Iex_Binop op a1 a2) } } }"

definition ident_sub :: ident_rule where
  "ident_sub env op a1 a2 = do {
     z2 \<leftarrow> isZeroU a2;
     if z2 then Some a1 else do {
     same \<leftarrow> sameIRExprs env a1 a2;
     if same then mkZeroOfPrimopResultType op else Some (Iex_Binop op a1 a2) } }"

definition ident_sub8x16 :: ident_rule where
  "ident_sub8x16 env op a1 a2 = (if isZeroV128 a2 then Some a1 else Some (Iex_Binop op a1 a2))"

definition ident_and :: ident_rule where
  "ident_and env op a1 a2 = do {
     o2 \<leftarrow> isOnesU a2;
     if o2 then Some a1 else do {
     o1 \<leftarrow> isOnesU a1;
     if o1 then Some a2 else do {
     z2 \<leftarrow> isZeroU a2;
     if z2 then Some a2 else do {
     z1 \<leftarrow> isZeroU a1;
     if z1 then Some a1 else do {
     same \<leftarrow> sameIRExprs env a1 a2;
     if same then Some a1 else Some (Iex_Binop op a1 a2) } } } } }"

definition ident_andV :: ident_rule where
  "ident_andV env op a1 a2 = do {
     same \<leftarrow> sameIRExprs env a1 a2;
     if same then Some a1
     else if op = Iop_AndV256 \<and> (isZeroV256 a1 \<or> isZeroV256 a2) then mkZeroOfPrimopResultType op
     else if op = Iop_AndV128 \<and> (isZeroV128 a1 \<or> isZeroV128 a2) then mkZeroOfPrimopResultType op
     else Some (Iex_Binop op a1 a2) }"

definition ident_orV :: ident_rule where
  "ident_orV env op a1 a2 = do {
     same \<leftarrow> sameIRExprs env a1 a2;
     if same then Some a1
     else if op = Iop_OrV128 \<and> isZeroV128 a2 then Some a1
     else if op = Iop_OrV128 \<and> isZeroV128 a1 then Some a2
     else if op = Iop_OrV256 \<and> isZeroV256 a2 then Some a1
     else Some (Iex_Binop op a1 a2) }"

definition ident_xor :: ident_rule where
  "ident_xor env op a1 a2 = do {
     same \<leftarrow> sameIRExprs env a1 a2;
     if same then mkZeroOfPrimopResultType op
     else if op = Iop_XorV128 then (if isZeroV128 a2 then Some a1 else Some (Iex_Binop op a1 a2))
     else do {
     z1 \<leftarrow> isZeroU a1;
     if z1 then Some a2 else do {
     z2 \<leftarrow> isZeroU a2;
     if z2 then Some a1 else Some (Iex_Binop op a1 a2) } } }"

definition ident_cmpNE32 :: ident_rule where
  "ident_cmpNE32 env op a1 a2 = do {
     same \<leftarrow> sameIRExprs env a1 a2;
     if same then mkZeroOfPrimopResultType op
     else if isZeroU32_opt a2 then do {
       r \<leftarrow> chase env a1;
       (case r of
          Some (Iex_Unop uop arg) \<Rightarrow> if uop = Iop_1Uto32 then Some arg else Some (Iex_Binop op a1 a2)
        | _ \<Rightarrow> Some (Iex_Binop op a1 a2)) }
     else Some (Iex_Binop op a1 a2) }"

definition ident_cmpEQ :: ident_rule where
  "ident_cmpEQ env op a1 a2 = do {
     same \<leftarrow> sameIRExprs env a1 a2;
     if same then mkOnesOfPrimopResultType op else Some (Iex_Binop op a1 a2) }"

definition fold_ident_cases :: "(IROp list \<times> ident_rule) list" where
  "fold_ident_cases = [
     ([Iop_Shl32, Iop_Shl64, Iop_Shr64, Iop_Sar64], ident_shift_both),
     ([Iop_Sar32, Iop_Shr32], ident_shift_right),
     ([Iop_Or8, Iop_Or16, Iop_Or32, Iop_Or64, Iop_Max32U], ident_or),
     ([Iop_Add8], ident_add8),
     ([Iop_Add32, Iop_Add64], ident_add),
     ([Iop_Sub32, Iop_Sub64], ident_sub),
     ([Iop_Sub8x16], ident_sub8x16),
     ([Iop_And8, Iop_And16, Iop_And32, Iop_And64], ident_and),
     ([Iop_AndV128, Iop_AndV256], ident_andV),
     ([Iop_OrV128, Iop_OrV256], ident_orV),
     ([Iop_Xor8, Iop_Xor16, Iop_Xor32, Iop_Xor64, Iop_XorV128, Iop_XorV256], ident_xor),
     ([Iop_CmpNE32], ident_cmpNE32),
     ([Iop_CmpEQ32, Iop_CmpEQ64, Iop_CmpEQ8x8, Iop_CmpEQ8x16, Iop_CmpEQ16x8, Iop_CmpEQ32x4], ident_cmpEQ)]"

section \<open>Folding an expression\<close>

text \<open>The debugging output is left out.\<close>

definition fold_Expr :: "ir_env \<Rightarrow> IRExpr \<Rightarrow> IRExpr option" where
  "fold_Expr env e = (case e of
     Iex_Unop op a \<Rightarrow>
       (case a of
          Iex_Const c \<Rightarrow>
            (case switch fold_unop_cases op of
               None \<Rightarrow> Some e
             | Some f \<Rightarrow> map_option (\<lambda>r. case r of None \<Rightarrow> e | Some c' \<Rightarrow> Iex_Const c') (f c))
        | _ \<Rightarrow> Some e)
   | Iex_Binop op a1 a2 \<Rightarrow>
       (case (a1, a2) of
          (Iex_Const c1, Iex_Const c2) \<Rightarrow>
            (case switch fold_binop_cases op of
               None \<Rightarrow> Some e
             | Some f \<Rightarrow> map_option (\<lambda>r. case r of None \<Rightarrow> e | Some c' \<Rightarrow> Iex_Const c') (f c1 c2))
        | _ \<Rightarrow> (case switch fold_ident_cases op of None \<Rightarrow> Some e | Some rule \<Rightarrow> rule env op a1 a2))
   | Iex_ITE cond iftrue iffalse \<Rightarrow>
       (case cond of
          Iex_Const c \<Rightarrow> (case c of Ico_U1 b \<Rightarrow> Some (if b then iftrue else iffalse) | _ \<Rightarrow> None)
        | _ \<Rightarrow> do {
            same \<leftarrow> sameIRExprs env iftrue iffalse;
            if same then Some iffalse else Some e })
   | _ \<Rightarrow> Some e)"

section \<open>The switches\<close>

definition fold_unop_groups :: label_tree where
  "fold_unop_groups =
     Below Iop_64to8 (Below Iop_Left64 (Below Iop_CmpNEZ8 (Below Iop_Not64 (Below Iop_Not16 (Group 23)
     (Below Iop_Not32 (Group 22) (Group 21))) (Below Iop_Clz64 (Group 20) (Below Iop_Clz32 (Group 42)
     (Group 41)))) (Below Iop_CmpwNEZ32 (Below Iop_CmpNEZ32 (Group 34) (Below Iop_CmpNEZ64 (Group 35)
     (Group 36))) (Below Iop_CmpwNEZ64 (Group 37) (Below Iop_Left32 (Group 38) (Group 39))))) (Below
     Iop_32Uto64 (Below Iop_8Uto64 (Below Iop_8Uto16 (Group 40) (Below Iop_8Uto32 (Group 13) (Group 11)))
     (Below Iop_16Uto32 (Group 9) (Below Iop_16Uto64 (Group 14) (Group 10)))) (Below Iop_16Sto32 (Below
     Iop_8Sto16 (Group 29) (Below Iop_8Sto32 (Group 12) (Group 7))) (Below Iop_16Sto64 (Group 8) (Below
     Iop_32Sto64 (Group 30) (Group 31)))))) (Below Iop_1Uto32 (Below Iop_64to32 (Below Iop_16to8 (Below
     Iop_32to8 (Group 25) (Below Iop_64to16 (Group 16) (Group 26))) (Below Iop_16HIto8 (Group 32) (Below
     Iop_32to16 (Group 33) (Group 15)))) (Below Iop_32to1 (Below Iop_64HIto32 (Group 27) (Below Iop_Not1
     (Group 28) (Group 24))) (Below Iop_64to1 (Group 17) (Below Iop_1Uto8 (Group 18) (Group 0))))) (Below
     Iop_V128to64 (Below Iop_1Sto16 (Below Iop_1Uto64 (Group 1) (Below Iop_1Sto8 (Group 2) (Group 3)))
     (Below Iop_1Sto32 (Group 4) (Below Iop_1Sto64 (Group 5) (Group 6)))) (Below Iop_ZeroHI64ofV128
     (Below Iop_V128HIto64 (Group 44) (Below Iop_64UtoV128 (Group 45) (Group 46))) (Below Iop_NotV128
     (Below Iop_32UtoV128 (Group 48) (Group 43)) (Below Iop_V256to64_0 (Group 19) (Group 47))))))"

definition fold_binop_groups :: label_tree where
  "fold_binop_groups =
     Below Iop_CmpNE8 (Below Iop_And32 (Below Iop_Mul64 (Below Iop_Sub8 (Below Iop_Add32 (Group 15)
     (Below Iop_Add64 (Group 16) (Group 17))) (Below Iop_Sub64 (Below Iop_Sub32 (Group 18) (Group 19))
     (Below Iop_Mul32 (Group 20) (Group 22)))) (Below Iop_Or32 (Below Iop_Or8 (Group 23) (Below Iop_Or16
     (Group 0) (Group 1))) (Below Iop_And8 (Below Iop_Or64 (Group 2) (Group 3)) (Below Iop_And16 (Group
     10) (Group 11))))) (Below Iop_Shl64 (Below Iop_Xor16 (Below Iop_And64 (Group 12) (Below Iop_Xor8
     (Group 13) (Group 5))) (Below Iop_Xor64 (Below Iop_Xor32 (Group 6) (Group 7)) (Below Iop_Shl32
     (Group 8) (Group 25)))) (Below Iop_Sar32 (Below Iop_Shr32 (Group 26) (Below Iop_Shr64 (Group 29)
     (Group 30))) (Below Iop_CmpEQ32 (Below Iop_Sar64 (Group 27) (Group 28)) (Below Iop_CmpEQ64 (Group
     31) (Group 32)))))) (Below Iop_CmpLT32U (Below Iop_ExpCmpNE32 (Below Iop_CasCmpNE8 (Below
     Iop_CmpNE32 (Group 33) (Below Iop_CmpNE64 (Group 34) (Group 35))) (Below Iop_CasCmpNE64 (Below
     Iop_CasCmpNE32 (Group 33) (Group 34)) (Below Iop_ExpCmpNE8 (Group 35) (Group 33)))) (Below
     Iop_CmpLT32S (Below Iop_ExpCmpNE64 (Group 34) (Below Iop_MullS32 (Group 35) (Group 24))) (Below
     Iop_CmpLE32S (Below Iop_CmpLT64S (Group 40) (Group 41)) (Below Iop_CmpLE64S (Group 38) (Group
     39))))) (Below Iop_64HLto128 (Below Iop_CmpLE64U (Below Iop_CmpLT64U (Group 42) (Below Iop_CmpLE32U
     (Group 43) (Group 36))) (Below Iop_CmpORD32S (Below Iop_Max32U (Group 37) (Group 21)) (Below
     Iop_32HLto64 (Group 44) (Group 45)))) (Below Iop_OrV128 (Below Iop_64HLtoV128 (Group 46) (Below
     Iop_AndV128 (Group 47) (Group 14))) (Below Iop_InterleaveLO8x16 (Below Iop_XorV128 (Group 4) (Group
     9)) (Below Iop_V128HLtoV256 (Group 49) (Group 48))))))"

definition fold_ident_groups :: label_tree where
  "fold_ident_groups =
     Below Iop_CmpEQ32 (Below Iop_Xor8 (Below Iop_Sub32 (Below Iop_Add32 (Group 3) (Group 4)) (Below
     Iop_Or8 (Group 5) (Below Iop_And8 (Group 2) (Group 7)))) (Below Iop_Shr64 (Below Iop_Shl32 (Group
     10) (Below Iop_Shr32 (Group 0) (Group 1))) (Below Iop_Sar32 (Group 0) (Below Iop_Sar64 (Group 1)
     (Group 0))))) (Below Iop_XorV128 (Below Iop_CmpEQ8x8 (Below Iop_CmpNE32 (Group 12) (Below Iop_Max32U
     (Group 11) (Group 2))) (Below Iop_AndV128 (Group 12) (Below Iop_OrV128 (Group 8) (Group 9)))) (Below
     Iop_AndV256 (Below Iop_Sub8x16 (Group 10) (Below Iop_CmpEQ8x16 (Group 6) (Group 12))) (Below
     Iop_OrV256 (Group 8) (Below Iop_XorV256 (Group 9) (Group 10)))))"

definition zero_groups :: label_tree where
  "zero_groups =
     Below Iop_Xor32 (Below Iop_Xor8 (Below Iop_Sub64 (Group 3) (Group 4)) (Below Iop_Xor16 (Group 1)
     (Group 2))) (Below Iop_CmpNE32 (Below Iop_Xor64 (Group 3) (Group 4)) (Below Iop_AndV128 (Group 0)
     (Below Iop_AndV256 (Group 5) (Group 6))))"

definition ones_groups :: label_tree where
  "ones_groups =
     Below Iop_Or64 (Below Iop_Or16 (Group 1) (Below Iop_Or32 (Group 2) (Group 3))) (Below Iop_CmpEQ8x8
     (Below Iop_CmpEQ32 (Group 4) (Group 0)) (Below Iop_CmpEQ8x16 (Group 4) (Group 5)))"

lemma fold_unop_eqs: "switch_eqs (switch fold_unop_cases) fold_unop_cases"
proof (rule switch_eqsI)
  show "switch_ok fold_unop_groups 0 fold_unop_cases"
    unfolding fold_unop_cases_def switch_ok_append fold_unop_groups_def fold_unop_cases_1_def fold_unop_cases_2_def fold_unop_cases_3_def list.size
    by (intro conjI) (simp only: switch_check list.size cong: group_of_cong in_group_cong switch_ok_cong if_weak_cong)+
qed

lemmas fold_unop_rules = fold_unop_eqs [unfolded fold_unop_cases_def fold_unop_cases_1_def fold_unop_cases_2_def fold_unop_cases_3_def append.simps switch_eqs_unfold,
  folded fold_unop_cases_1_def fold_unop_cases_2_def fold_unop_cases_3_def, folded fold_unop_cases_def]

lemma fold_binop_eqs: "switch_eqs (switch fold_binop_cases) fold_binop_cases"
proof (rule switch_eqsI)
  show "switch_ok fold_binop_groups 0 fold_binop_cases"
    unfolding fold_binop_cases_def switch_ok_append fold_binop_groups_def fold_binop_cases_1_def fold_binop_cases_2_def fold_binop_cases_3_def list.size
    by (intro conjI) (simp only: switch_check list.size cong: group_of_cong in_group_cong switch_ok_cong if_weak_cong)+
qed

lemmas fold_binop_rules = fold_binop_eqs [unfolded fold_binop_cases_def fold_binop_cases_1_def fold_binop_cases_2_def fold_binop_cases_3_def append.simps switch_eqs_unfold,
  folded fold_binop_cases_1_def fold_binop_cases_2_def fold_binop_cases_3_def, folded fold_binop_cases_def]

lemma fold_ident_eqs: "switch_eqs (switch fold_ident_cases) fold_ident_cases"
proof (rule switch_eqsI)
  show "switch_ok fold_ident_groups 0 fold_ident_cases"
    unfolding fold_ident_cases_def fold_ident_groups_def
    by (simp only: switch_check list.size cong: group_of_cong in_group_cong switch_ok_cong if_weak_cong)
qed

lemmas fold_ident_rules = fold_ident_eqs [unfolded fold_ident_cases_def switch_eqs_unfold, folded fold_ident_cases_def]

lemma zero_eqs: "switch_eqs (switch zero_cases) zero_cases"
proof (rule switch_eqsI)
  show "switch_ok zero_groups 0 zero_cases"
    unfolding zero_cases_def zero_groups_def
    by (simp only: switch_check list.size cong: group_of_cong in_group_cong switch_ok_cong if_weak_cong)
qed

lemmas zero_rules = zero_eqs [unfolded zero_cases_def switch_eqs_unfold, folded zero_cases_def]

lemma ones_eqs: "switch_eqs (switch ones_cases) ones_cases"
proof (rule switch_eqsI)
  show "switch_ok ones_groups 0 ones_cases"
    unfolding ones_cases_def ones_groups_def
    by (simp only: switch_check list.size cong: group_of_cong in_group_cong switch_ok_cong if_weak_cong)
qed

lemmas ones_rules = ones_eqs [unfolded ones_cases_def switch_eqs_unfold, folded ones_cases_def]
end
