(* ===== verification/IropPasses.thy ===== *)
theory IropPasses
  imports IRSanity IropFold
begin

text \<open>
  Three passes of the optimiser \<open>VEX/priv/ir_opt.c\<close> over a block: flattening into atomic form (\<open>flatten_BB\<close>),
  constant propagation and folding (\<open>cprop_BB\<close>) and the removal of dead assignments (\<open>do_deadcode_BB\<close>). A panic, a failed
  assertion or an access out of the bounds of an array is \<^const>\<open>None\<close>. The type environment of a block is the list of the
  types in use: \<open>new_temp\<close> and \<open>add_stmt\<close> are \<open>newIRTemp\<close> and \<open>addStmtToIRSB\<close> on lists (theory IRSanity). That memory may be
  exhausted is not modelled here, but in theory IRBuild.
\<close>

section \<open>Flattening\<close>

fun isFlat :: "IRExpr \<Rightarrow> bool" where
  "isFlat (Iex_Get _ _) = True"
| "isFlat (Iex_Binop _ a1 a2) = (isIRAtom a1 \<and> isIRAtom a2)"
| "isFlat (Iex_Load _ _ a) = isIRAtom a"
| "isFlat _ = False"

text \<open>\<open>addStmtToIRSB(bb, IRStmt_WrTmp(t1, e)); return IRExpr_RdTmp(t1)\<close>. The arguments of a constructor are flattened from left to
  right; C leaves their order open, and every order gives a block with the same meaning.\<close>

definition lift_tmp :: "IRTemp \<Rightarrow> IRExpr \<Rightarrow> IRSB \<Rightarrow> (IRExpr \<times> IRSB) option" where
  "lift_tmp t e bb = map_option (\<lambda>bb. (Iex_RdTmp t, bb)) (add_stmt bb (Ist_WrTmp t e))"

definition new_temp_for :: "IRSB \<Rightarrow> IRExpr \<Rightarrow> (IRTemp \<times> IRSB) option" where
  "new_temp_for bb ex = map_option (new_temp bb) (typeOfIRExpr (bb_tyenv bb) ex)"

fun is_F64i :: "IRConst \<Rightarrow> bool" where
  "is_F64i (Ico_F64i _) = True"
| "is_F64i _ = False"

fun flatten_Expr :: "IRSB \<Rightarrow> IRExpr \<Rightarrow> (IRExpr \<times> IRSB) option"
  and flatten_Exprs :: "IRSB \<Rightarrow> IRExpr list \<Rightarrow> (IRExpr list \<times> IRSB) option" where
  "flatten_Expr bb (Iex_GetI descr ix bias) = do {
     (t1, bb) \<leftarrow> new_temp_for bb (Iex_GetI descr ix bias);
     (ix', bb) \<leftarrow> flatten_Expr bb ix;
     lift_tmp t1 (Iex_GetI descr ix' bias) bb }"
| "flatten_Expr bb (Iex_Get off ty) = do {
     (t1, bb) \<leftarrow> new_temp_for bb (Iex_Get off ty);
     lift_tmp t1 (Iex_Get off ty) bb }"
| "flatten_Expr bb (Iex_Qop op a1 a2 a3 a4) = do {
     (t1, bb) \<leftarrow> new_temp_for bb (Iex_Qop op a1 a2 a3 a4);
     (b1, bb) \<leftarrow> flatten_Expr bb a1;
     (b2, bb) \<leftarrow> flatten_Expr bb a2;
     (b3, bb) \<leftarrow> flatten_Expr bb a3;
     (b4, bb) \<leftarrow> flatten_Expr bb a4;
     lift_tmp t1 (Iex_Qop op b1 b2 b3 b4) bb }"
| "flatten_Expr bb (Iex_Triop op a1 a2 a3) = do {
     (t1, bb) \<leftarrow> new_temp_for bb (Iex_Triop op a1 a2 a3);
     (b1, bb) \<leftarrow> flatten_Expr bb a1;
     (b2, bb) \<leftarrow> flatten_Expr bb a2;
     (b3, bb) \<leftarrow> flatten_Expr bb a3;
     lift_tmp t1 (Iex_Triop op b1 b2 b3) bb }"
| "flatten_Expr bb (Iex_Binop op a1 a2) = do {
     (t1, bb) \<leftarrow> new_temp_for bb (Iex_Binop op a1 a2);
     (b1, bb) \<leftarrow> flatten_Expr bb a1;
     (b2, bb) \<leftarrow> flatten_Expr bb a2;
     lift_tmp t1 (Iex_Binop op b1 b2) bb }"
| "flatten_Expr bb (Iex_Unop op a) = do {
     (t1, bb) \<leftarrow> new_temp_for bb (Iex_Unop op a);
     (b, bb) \<leftarrow> flatten_Expr bb a;
     lift_tmp t1 (Iex_Unop op b) bb }"
| "flatten_Expr bb (Iex_Load e ty a) = do {
     (t1, bb) \<leftarrow> new_temp_for bb (Iex_Load e ty a);
     (b, bb) \<leftarrow> flatten_Expr bb a;
     lift_tmp t1 (Iex_Load e ty b) bb }"
| "flatten_Expr bb (Iex_CCall cee retty args) = do {
     (newargs, bb) \<leftarrow> flatten_Exprs bb args;
     (t1, bb) \<leftarrow> new_temp_for bb (Iex_CCall cee retty args);
     lift_tmp t1 (Iex_CCall cee retty newargs) bb }"
| "flatten_Expr bb (Iex_ITE c t f) = do {
     (t1, bb) \<leftarrow> new_temp_for bb (Iex_ITE c t f);
     (c', bb) \<leftarrow> flatten_Expr bb c;
     (t', bb) \<leftarrow> flatten_Expr bb t;
     (f', bb) \<leftarrow> flatten_Expr bb f;
     lift_tmp t1 (Iex_ITE c' t' f') bb }"
| "flatten_Expr bb (Iex_Const c) =
     (if is_F64i c then do {
        (t1, bb) \<leftarrow> new_temp_for bb (Iex_Const c);
        lift_tmp t1 (Iex_Const c) bb }
      else Some (Iex_Const c, bb))"
| "flatten_Expr bb (Iex_RdTmp t) = do { _ \<leftarrow> typeOfIRTemp (bb_tyenv bb) t; Some (Iex_RdTmp t, bb) }"
| "flatten_Expr bb (Iex_Binder _) = None"
| "flatten_Expr bb Iex_VECRET = None"
| "flatten_Expr bb Iex_GSPTR = None"
| "flatten_Exprs bb [] = Some ([], bb)"
| "flatten_Exprs bb (a # args) = do {
     (b, bb) \<leftarrow> flatten_Expr bb a;
     (newargs, bb) \<leftarrow> flatten_Exprs bb args;
     Some (b # newargs, bb) }"

text \<open>The absent operands of a statement are null pointers.\<close>

fun flatten_opt :: "IRSB \<Rightarrow> IRExpr option \<Rightarrow> (IRExpr option \<times> IRSB) option" where
  "flatten_opt bb None = Some (None, bb)"
| "flatten_opt bb (Some e) = map_option (\<lambda>(e, bb). (Some e, bb)) (flatten_Expr bb e)"

text \<open>The loop over the arguments of a dirty call passes over the two special ones.\<close>

fun flatten_args :: "IRSB \<Rightarrow> IRExpr list \<Rightarrow> (IRExpr list \<times> IRSB) option" where
  "flatten_args bb [] = Some ([], bb)"
| "flatten_args bb (a # args) = do {
     (b, bb) \<leftarrow> (if is_IRExpr_VECRET_or_GSPTR a then Some (a, bb) else flatten_Expr bb a);
     (newargs, bb) \<leftarrow> flatten_args bb args;
     Some (b # newargs, bb) }"

fun flatten_Stmt :: "IRSB \<Rightarrow> IRStmt \<Rightarrow> IRSB option" where
  "flatten_Stmt bb (Ist_Put off d) =
     (if isIRAtom d then add_stmt bb (Ist_Put off d)
      else do { (e1, bb) \<leftarrow> flatten_Expr bb d; add_stmt bb (Ist_Put off e1) })"
| "flatten_Stmt bb (Ist_PutI descr ix bias d) = do {
     (e1, bb) \<leftarrow> flatten_Expr bb ix;
     (e2, bb) \<leftarrow> flatten_Expr bb d;
     add_stmt bb (Ist_PutI descr e1 bias e2) }"
| "flatten_Stmt bb (Ist_WrTmp t e) =
     (if isFlat e then add_stmt bb (Ist_WrTmp t e)
      else do { (e1, bb) \<leftarrow> flatten_Expr bb e; add_stmt bb (Ist_WrTmp t e1) })"
| "flatten_Stmt bb (Ist_Store en a d) = do {
     (e1, bb) \<leftarrow> flatten_Expr bb a;
     (e2, bb) \<leftarrow> flatten_Expr bb d;
     add_stmt bb (Ist_Store en e1 e2) }"
| "flatten_Stmt bb (Ist_StoreG sg) = do {
     (e1, bb) \<leftarrow> flatten_Expr bb (sg_addr sg);
     (e2, bb) \<leftarrow> flatten_Expr bb (sg_data sg);
     (e3, bb) \<leftarrow> flatten_Expr bb (sg_guard sg);
     add_stmt bb (Ist_StoreG (sg \<lparr> sg_addr := e1, sg_data := e2, sg_guard := e3 \<rparr>)) }"
| "flatten_Stmt bb (Ist_LoadG lg) = do {
     (e1, bb) \<leftarrow> flatten_Expr bb (lg_addr lg);
     (e2, bb) \<leftarrow> flatten_Expr bb (lg_alt lg);
     (e3, bb) \<leftarrow> flatten_Expr bb (lg_guard lg);
     add_stmt bb (Ist_LoadG (lg \<lparr> lg_addr := e1, lg_alt := e2, lg_guard := e3 \<rparr>)) }"
| "flatten_Stmt bb (Ist_CAS cas) = do {
     (e1, bb) \<leftarrow> flatten_Expr bb (cas_addr cas);
     (e2, bb) \<leftarrow> flatten_opt bb (cas_expdHi cas);
     (e3, bb) \<leftarrow> flatten_Expr bb (cas_expdLo cas);
     (e4, bb) \<leftarrow> flatten_opt bb (cas_dataHi cas);
     (e5, bb) \<leftarrow> flatten_Expr bb (cas_dataLo cas);
     add_stmt bb (Ist_CAS (cas \<lparr> cas_addr := e1, cas_expdHi := e2, cas_expdLo := e3, cas_dataHi := e4, cas_dataLo := e5 \<rparr>)) }"
| "flatten_Stmt bb (Ist_LLSC en r a d) = do {
     (e1, bb) \<leftarrow> flatten_Expr bb a;
     (e2, bb) \<leftarrow> flatten_opt bb d;
     add_stmt bb (Ist_LLSC en r e1 e2) }"
| "flatten_Stmt bb (Ist_Dirty d) = do {
     (m, bb) \<leftarrow> (if d_mFx d \<noteq> Ifx_None then (case d_mAddr d of None \<Rightarrow> None | Some a \<Rightarrow> flatten_opt bb (Some a))
                else if d_mAddr d = None then Some (None, bb) else None);
     (g, bb) \<leftarrow> flatten_Expr bb (d_guard d);
     (args, bb) \<leftarrow> flatten_args bb (d_args d);
     add_stmt bb (Ist_Dirty (d \<lparr> d_mAddr := m, d_guard := g, d_args := args \<rparr>)) }"
| "flatten_Stmt bb Ist_NoOp = add_stmt bb Ist_NoOp"
| "flatten_Stmt bb (Ist_MBE ev) = add_stmt bb (Ist_MBE ev)"
| "flatten_Stmt bb (Ist_IMark a len delta) = add_stmt bb (Ist_IMark a len delta)"
| "flatten_Stmt bb (Ist_AbiHint base len nia) = do {
     (e1, bb) \<leftarrow> flatten_Expr bb base;
     (e2, bb) \<leftarrow> flatten_Expr bb nia;
     add_stmt bb (Ist_AbiHint e1 len e2) }"
| "flatten_Stmt bb (Ist_Exit g jk dst offsIP) = do {
     (e1, bb) \<leftarrow> flatten_Expr bb g;
     add_stmt bb (Ist_Exit e1 jk dst offsIP) }"

primrec flatten_Stmts :: "IRSB \<Rightarrow> IRStmt list \<Rightarrow> IRSB option" where
  "flatten_Stmts bb [] = Some bb"
| "flatten_Stmts bb (st # sts) = Option.bind (flatten_Stmt bb st) (\<lambda>bb. flatten_Stmts bb sts)"

definition flatten_BB :: "IRSB \<Rightarrow> IRSB option" where
  "flatten_BB bb_in = do {
     let out = empty_block (bb_next bb_in) \<lparr> bb_tyenv := bb_tyenv bb_in \<rparr>;
     out \<leftarrow> flatten_Stmts out (bb_stmts bb_in);
     (next', out) \<leftarrow> flatten_Expr out (bb_next bb_in);
     Some (out \<lparr> bb_next := next', bb_jumpkind := bb_jumpkind bb_in, bb_offsIP := bb_offsIP bb_in \<rparr>) }"

section \<open>Substitution\<close>

text \<open>What the environment gives for a temporary: another temporary, or a constant other than an \<open>F64i\<close>.\<close>

fun propagates :: "IRExpr \<Rightarrow> bool" where
  "propagates (Iex_RdTmp _) = True"
| "propagates (Iex_Const c) = (\<not> is_F64i c)"
| "propagates _ = False"

definition subst_tmp :: "ir_env \<Rightarrow> IRTemp \<Rightarrow> IRExpr" where
  "subst_tmp env t = (case env t of Some rhs \<Rightarrow> if propagates rhs then rhs else Iex_RdTmp t | None \<Rightarrow> Iex_RdTmp t)"

text \<open>\<open>vassert(isIRAtom(a)); subst_Expr(env, a)\<close>\<close>

fun subst_arg :: "ir_env \<Rightarrow> IRExpr \<Rightarrow> IRExpr option" where
  "subst_arg env (Iex_RdTmp t) = Some (subst_tmp env t)"
| "subst_arg env (Iex_Const c) = Some (Iex_Const c)"
| "subst_arg env _ = None"

fun subst_args :: "ir_env \<Rightarrow> IRExpr list \<Rightarrow> IRExpr list option" where
  "subst_args env [] = Some []"
| "subst_args env (a # args) = do { b \<leftarrow> subst_arg env a; args2 \<leftarrow> subst_args env args; Some (b # args2) }"

fun subst_Expr :: "ir_env \<Rightarrow> IRExpr \<Rightarrow> IRExpr option" where
  "subst_Expr env (Iex_RdTmp t) = Some (subst_tmp env t)"
| "subst_Expr env (Iex_Const c) = Some (Iex_Const c)"
| "subst_Expr env (Iex_Get off ty) = Some (Iex_Get off ty)"
| "subst_Expr env (Iex_GetI descr ix bias) = do { ix \<leftarrow> subst_arg env ix; Some (Iex_GetI descr ix bias) }"
| "subst_Expr env (Iex_Qop op a1 a2 a3 a4) = do {
     b1 \<leftarrow> subst_arg env a1; b2 \<leftarrow> subst_arg env a2; b3 \<leftarrow> subst_arg env a3; b4 \<leftarrow> subst_arg env a4;
     Some (Iex_Qop op b1 b2 b3 b4) }"
| "subst_Expr env (Iex_Triop op a1 a2 a3) = do {
     b1 \<leftarrow> subst_arg env a1; b2 \<leftarrow> subst_arg env a2; b3 \<leftarrow> subst_arg env a3; Some (Iex_Triop op b1 b2 b3) }"
| "subst_Expr env (Iex_Binop op a1 a2) = do { b1 \<leftarrow> subst_arg env a1; b2 \<leftarrow> subst_arg env a2; Some (Iex_Binop op b1 b2) }"
| "subst_Expr env (Iex_Unop op a) = do { b \<leftarrow> subst_arg env a; Some (Iex_Unop op b) }"
| "subst_Expr env (Iex_Load en ty a) = do { b \<leftarrow> subst_arg env a; Some (Iex_Load en ty b) }"
| "subst_Expr env (Iex_CCall cee retty args) = do { args2 \<leftarrow> subst_args env args; Some (Iex_CCall cee retty args2) }"
| "subst_Expr env (Iex_ITE c t f) = do {
     c' \<leftarrow> subst_arg env c; t' \<leftarrow> subst_arg env t; f' \<leftarrow> subst_arg env f; Some (Iex_ITE c' t' f') }"
| "subst_Expr env (Iex_Binder _) = None"
| "subst_Expr env Iex_VECRET = None"
| "subst_Expr env Iex_GSPTR = None"

text \<open>\<open>vassert(isIRAtom(a)); fold_Expr(env, subst_Expr(env, a))\<close>\<close>

definition fold_arg :: "ir_env \<Rightarrow> IRExpr \<Rightarrow> IRExpr option" where
  "fold_arg env a = Option.bind (subst_arg env a) (fold_Expr env)"

fun fold_opt :: "ir_env \<Rightarrow> IRExpr option \<Rightarrow> IRExpr option option" where
  "fold_opt env None = Some None"
| "fold_opt env (Some a) = map_option Some (fold_arg env a)"

fun fold_dirty_args :: "ir_env \<Rightarrow> IRExpr list \<Rightarrow> IRExpr list option" where
  "fold_dirty_args env [] = Some []"
| "fold_dirty_args env (a # args) = do {
     b \<leftarrow> (if is_IRExpr_VECRET_or_GSPTR a then Some a else fold_arg env a);
     args2 \<leftarrow> fold_dirty_args env args;
     Some (b # args2) }"

text \<open>What a condition has folded down to: nothing known, or a constant, which must be an \<open>U1\<close>.\<close>

fun folded_cond :: "IRExpr \<Rightarrow> bool option option" where
  "folded_cond (Iex_Const c) = (case c of Ico_U1 b \<Rightarrow> Some (Some b) | _ \<Rightarrow> None)"
| "folded_cond _ = Some None"

fun subst_and_fold_Stmt :: "ir_env \<Rightarrow> IRStmt \<Rightarrow> IRStmt option" where
  "subst_and_fold_Stmt env (Ist_AbiHint base len nia) = do {
     base' \<leftarrow> fold_arg env base; nia' \<leftarrow> fold_arg env nia; Some (Ist_AbiHint base' len nia') }"
| "subst_and_fold_Stmt env (Ist_Put off d) = do { d' \<leftarrow> fold_arg env d; Some (Ist_Put off d') }"
| "subst_and_fold_Stmt env (Ist_PutI descr ix bias d) = do {
     ix' \<leftarrow> fold_arg env ix; d' \<leftarrow> fold_arg env d; Some (Ist_PutI descr ix' bias d') }"
| "subst_and_fold_Stmt env (Ist_WrTmp t e) = do { e1 \<leftarrow> subst_Expr env e; e2 \<leftarrow> fold_Expr env e1; Some (Ist_WrTmp t e2) }"
| "subst_and_fold_Stmt env (Ist_Store en a d) = do { a' \<leftarrow> fold_arg env a; d' \<leftarrow> fold_arg env d; Some (Ist_Store en a' d') }"
| "subst_and_fold_Stmt env (Ist_StoreG sg) = do {
     faddr \<leftarrow> fold_arg env (sg_addr sg); fdata \<leftarrow> fold_arg env (sg_data sg); fguard \<leftarrow> fold_arg env (sg_guard sg);
     known \<leftarrow> folded_cond fguard;
     Some (case known of
       None \<Rightarrow> Ist_StoreG (sg \<lparr> sg_addr := faddr, sg_data := fdata, sg_guard := fguard \<rparr>)
     | Some False \<Rightarrow> Ist_NoOp
     | Some True \<Rightarrow> Ist_Store (sg_end sg) faddr fdata) }"
| "subst_and_fold_Stmt env (Ist_LoadG lg) = do {
     faddr \<leftarrow> fold_arg env (lg_addr lg); falt \<leftarrow> fold_arg env (lg_alt lg); fguard \<leftarrow> fold_arg env (lg_guard lg);
     known \<leftarrow> folded_cond fguard;
     Some (case known of
       Some False \<Rightarrow> Ist_WrTmp (lg_dst lg) falt
     | _ \<Rightarrow> Ist_LoadG (lg \<lparr> lg_addr := faddr, lg_alt := falt, lg_guard := fguard \<rparr>)) }"
| "subst_and_fold_Stmt env (Ist_CAS cas) = do {
     addr' \<leftarrow> fold_arg env (cas_addr cas); eHi \<leftarrow> fold_opt env (cas_expdHi cas); eLo \<leftarrow> fold_arg env (cas_expdLo cas);
     dHi \<leftarrow> fold_opt env (cas_dataHi cas); dLo \<leftarrow> fold_arg env (cas_dataLo cas);
     Some (Ist_CAS (cas \<lparr> cas_addr := addr', cas_expdHi := eHi, cas_expdLo := eLo, cas_dataHi := dHi, cas_dataLo := dLo \<rparr>)) }"
| "subst_and_fold_Stmt env (Ist_LLSC en r a d) = do { a' \<leftarrow> fold_arg env a; d' \<leftarrow> fold_opt env d; Some (Ist_LLSC en r a' d') }"
| "subst_and_fold_Stmt env (Ist_Dirty d) = do {
     m \<leftarrow> (if d_mFx d \<noteq> Ifx_None then (case d_mAddr d of None \<Rightarrow> None | Some a \<Rightarrow> map_option Some (fold_arg env a))
          else Some (d_mAddr d));
     g \<leftarrow> fold_arg env (d_guard d);
     args2 \<leftarrow> fold_dirty_args env (d_args d);
     Some (Ist_Dirty (d \<lparr> d_mAddr := m, d_guard := g, d_args := args2 \<rparr>)) }"
| "subst_and_fold_Stmt env (Ist_IMark a len delta) = Some (Ist_IMark a len delta)"
| "subst_and_fold_Stmt env Ist_NoOp = Some Ist_NoOp"
| "subst_and_fold_Stmt env (Ist_MBE ev) = Some (Ist_MBE ev)"
| "subst_and_fold_Stmt env (Ist_Exit g jk dst offsIP) = do {
     fcond \<leftarrow> fold_arg env g;
     known \<leftarrow> folded_cond fcond;
     Some (case known of Some False \<Rightarrow> Ist_NoOp | _ \<Rightarrow> Ist_Exit fcond jk dst offsIP) }"

section \<open>Constant propagation\<close>

definition N_FIXUPS :: nat where "N_FIXUPS = 16"

text \<open>The loop of \<open>cprop_BB\<close> carries the environment, the output block and the places where a guarded load has become
  unconditional.\<close>

type_synonym cprop_state = "ir_env \<times> IRSB \<times> nat list"

definition cprop_emit :: "cprop_state \<Rightarrow> IRStmt \<Rightarrow> cprop_state option" where
  "cprop_emit = (\<lambda>(env, out, fixups) st. map_option (\<lambda>out. (env, out, fixups)) (add_stmt out st))"

definition cprop_Stmt :: "cprop_state \<Rightarrow> IRStmt \<Rightarrow> cprop_state option" where
  "cprop_Stmt = (\<lambda>(env, out, fixups) st. if st = Ist_NoOp then Some (env, out, fixups) else do {
     st2 \<leftarrow> subst_and_fold_Stmt env st;
     (case st2 of
        Ist_NoOp \<Rightarrow> Some (env, out, fixups)
      | Ist_WrTmp t e \<Rightarrow> do {
          _ \<leftarrow> assert_that (env t = None);
          let env = env(t \<mapsto> e);
          if propagates e then Some (env, out, fixups) else cprop_emit (env, out, fixups) st2 }
      | Ist_LoadG lg \<Rightarrow> do {
          known \<leftarrow> folded_cond (lg_guard lg);
          (case known of
             None \<Rightarrow> cprop_emit (env, out, fixups) st2
           | Some b \<Rightarrow> do {
               _ \<leftarrow> assert_that (b \<and> length fixups \<le> N_FIXUPS);
               (env, out, fixups) \<leftarrow>
                 (if length fixups < N_FIXUPS then cprop_emit (env, out, fixups @ [length (bb_stmts out)]) Ist_NoOp
                  else Some (env, out, fixups));
               cprop_emit (env, out, fixups) st2 }) }
      | _ \<Rightarrow> cprop_emit (env, out, fixups) st2) })"

primrec cprop_Stmts :: "cprop_state \<Rightarrow> IRStmt list \<Rightarrow> cprop_state option" where
  "cprop_Stmts cs [] = Some cs"
| "cprop_Stmts cs (st # sts) = Option.bind (cprop_Stmt cs st) (\<lambda>cs. cprop_Stmts cs sts)"

text \<open>The operator of a conversion, \<^const>\<open>None\<close> for the identity.\<close>

fun cprop_cvtOp :: "IRLoadGOp \<Rightarrow> IROp option option" where
  "cprop_cvtOp ILGop_IdentV128 = Some None"
| "cprop_cvtOp ILGop_Ident64 = Some None"
| "cprop_cvtOp ILGop_Ident32 = Some None"
| "cprop_cvtOp ILGop_8Uto32 = Some (Some Iop_8Uto32)"
| "cprop_cvtOp ILGop_8Sto32 = Some (Some Iop_8Sto32)"
| "cprop_cvtOp ILGop_16Uto32 = Some (Some Iop_16Uto32)"
| "cprop_cvtOp ILGop_16Sto32 = Some (Some Iop_16Sto32)"
| "cprop_cvtOp ILGop_INVALID = None"

definition cprop_fixup :: "IRSB \<Rightarrow> nat \<Rightarrow> IRSB option" where
  "cprop_fixup out ix =
     (if \<not> ix + 1 < length (bb_stmts out) then None
      else case (bb_stmts out ! ix, bb_stmts out ! (ix + 1)) of
        (Ist_NoOp, Ist_LoadG lg) \<Rightarrow>
          (if lg_guard lg \<noteq> Iex_Const (Ico_U1 True) then None
           else do {
             (cvtRes, cvtArg) \<leftarrow> typeOfIRLoadGOp (lg_cvt lg);
             cvtOp \<leftarrow> cprop_cvtOp (lg_cvt lg);
             let (tLoaded, out) = new_temp out cvtArg;
             Some (out \<lparr> bb_stmts := (bb_stmts out)
               [ix := Ist_WrTmp tLoaded (Iex_Load (lg_end lg) cvtArg (lg_addr lg)),
                ix + 1 := Ist_WrTmp (lg_dst lg) (case cvtOp of None \<Rightarrow> Iex_RdTmp tLoaded
                   | Some op \<Rightarrow> Iex_Unop op (Iex_RdTmp tLoaded))] \<rparr>) })
      | _ \<Rightarrow> None)"

primrec cprop_fixups :: "IRSB \<Rightarrow> nat list \<Rightarrow> IRSB option" where
  "cprop_fixups out [] = Some out"
| "cprop_fixups out (ix # ixs) = Option.bind (cprop_fixup out ix) (\<lambda>out. cprop_fixups out ixs)"

definition cprop_BB :: "IRSB \<Rightarrow> IRSB option" where
  "cprop_BB bb_in = do {
     let out = empty_block (bb_next bb_in) \<lparr> bb_tyenv := bb_tyenv bb_in \<rparr>;
     (env, out, fixups) \<leftarrow> cprop_Stmts (\<lambda>_. None, out, []) (bb_stmts bb_in);
     next' \<leftarrow> subst_Expr env (bb_next bb_in);
     cprop_fixups (out \<lparr> bb_next := next', bb_jumpkind := bb_jumpkind bb_in, bb_offsIP := bb_offsIP bb_in \<rparr>) fixups }"

section \<open>Dead code\<close>

text \<open>The set of temporaries in use is an array of booleans.\<close>

definition addUses_Temp :: "bool list \<Rightarrow> IRTemp \<Rightarrow> bool list option" where
  "addUses_Temp used t = (if t < length used then Some (used[t := True]) else None)"

fun addUses_Expr :: "bool list \<Rightarrow> IRExpr \<Rightarrow> bool list option"
  and addUses_Exprs :: "bool list \<Rightarrow> IRExpr list \<Rightarrow> bool list option" where
  "addUses_Expr used (Iex_GetI _ ix _) = addUses_Expr used ix"
| "addUses_Expr used (Iex_ITE c t f) = do { used \<leftarrow> addUses_Expr used c; used \<leftarrow> addUses_Expr used t; addUses_Expr used f }"
| "addUses_Expr used (Iex_CCall _ _ args) = addUses_Exprs used args"
| "addUses_Expr used (Iex_Load _ _ a) = addUses_Expr used a"
| "addUses_Expr used (Iex_Qop _ a1 a2 a3 a4) = do { used \<leftarrow> addUses_Expr used a1; used \<leftarrow> addUses_Expr used a2; used \<leftarrow> addUses_Expr used a3; addUses_Expr used a4 }"
| "addUses_Expr used (Iex_Triop _ a1 a2 a3) = do { used \<leftarrow> addUses_Expr used a1; used \<leftarrow> addUses_Expr used a2; addUses_Expr used a3 }"
| "addUses_Expr used (Iex_Binop _ a1 a2) = do { used \<leftarrow> addUses_Expr used a1; addUses_Expr used a2 }"
| "addUses_Expr used (Iex_Unop _ a) = addUses_Expr used a"
| "addUses_Expr used (Iex_RdTmp t) = addUses_Temp used t"
| "addUses_Expr used (Iex_Const _) = Some used"
| "addUses_Expr used (Iex_Get _ _) = Some used"
| "addUses_Expr used (Iex_Binder _) = None"
| "addUses_Expr used Iex_VECRET = None"
| "addUses_Expr used Iex_GSPTR = None"
| "addUses_Exprs used [] = Some used"
| "addUses_Exprs used (a # args) = Option.bind (addUses_Expr used a) (\<lambda>used. addUses_Exprs used args)"

text \<open>The operands of a statement, in the order \<open>addUses_Stmt\<close> visits them; a null address of a dirty call that accesses memory
  is dereferenced.\<close>

fun addUses_Stmt :: "bool list \<Rightarrow> IRStmt \<Rightarrow> bool list option" where
  "addUses_Stmt used (Ist_AbiHint base _ nia) = addUses_Exprs used [base, nia]"
| "addUses_Stmt used (Ist_PutI _ ix _ d) = addUses_Exprs used [ix, d]"
| "addUses_Stmt used (Ist_WrTmp _ e) = addUses_Expr used e"
| "addUses_Stmt used (Ist_Put _ d) = addUses_Expr used d"
| "addUses_Stmt used (Ist_Store _ a d) = addUses_Exprs used [a, d]"
| "addUses_Stmt used (Ist_StoreG sg) = addUses_Exprs used [sg_addr sg, sg_data sg, sg_guard sg]"
| "addUses_Stmt used (Ist_LoadG lg) = addUses_Exprs used [lg_addr lg, lg_alt lg, lg_guard lg]"
| "addUses_Stmt used (Ist_CAS cas) =
     addUses_Exprs used (cas_addr cas # opt_list (cas_expdHi cas) @ cas_expdLo cas # opt_list (cas_dataHi cas) @ [cas_dataLo cas])"
| "addUses_Stmt used (Ist_LLSC _ _ a d) = addUses_Exprs used (a # opt_list d)"
| "addUses_Stmt used (Ist_Dirty d) = do {
     m \<leftarrow> (if d_mFx d \<noteq> Ifx_None then map_option (\<lambda>a. [a]) (d_mAddr d) else Some []);
     addUses_Exprs used (m @ d_guard d # filter (\<lambda>a. \<not> is_IRExpr_VECRET_or_GSPTR a) (d_args d)) }"
| "addUses_Stmt used Ist_NoOp = Some used"
| "addUses_Stmt used (Ist_IMark _ _ _) = Some used"
| "addUses_Stmt used (Ist_MBE _) = Some used"
| "addUses_Stmt used (Ist_Exit g _ _ _) = addUses_Expr used g"

definition isZeroU1 :: "IRExpr \<Rightarrow> bool" where
  "isZeroU1 e \<longleftrightarrow> e = Iex_Const (Ico_U1 False)"

definition isOneU1 :: "IRExpr \<Rightarrow> bool" where
  "isOneU1 e \<longleftrightarrow> e = Iex_Const (Ico_U1 True)"

text \<open>One step of the first pass: the used, the statement that replaces the given one, and whether it is an exit that is always
  taken.\<close>

definition deadcode_Stmt :: "bool list \<Rightarrow> IRStmt \<Rightarrow> (bool list \<times> IRStmt \<times> bool) option" where
  "deadcode_Stmt used st = (case st of
       Ist_NoOp \<Rightarrow> Some (used, Ist_NoOp, False)
     | Ist_WrTmp t e \<Rightarrow>
         (if \<not> t < length used then None
          else if used ! t = False then Some (used, Ist_NoOp, False)
          else map_option (\<lambda>used. (used, st, False)) (addUses_Stmt used st))
     | Ist_Dirty d \<Rightarrow>
         (if isZeroU1 (d_guard d) then Some (used, Ist_NoOp, False)
          else map_option (\<lambda>used. (used, st, False)) (addUses_Stmt used st))
     | Ist_Exit g jk dst offsIP \<Rightarrow> map_option (\<lambda>used. (used, st, isOneU1 g)) (addUses_Stmt used st)
     | _ \<Rightarrow> map_option (\<lambda>used. (used, st, False)) (addUses_Stmt used st))"

text \<open>The pass runs backwards from the last statement and notes the earliest exit that is always taken.\<close>

primrec deadcode_Stmts :: "bool list \<Rightarrow> IRStmt list \<Rightarrow> (bool list \<times> IRStmt list \<times> nat option) option" where
  "deadcode_Stmts used [] = Some (used, [], None)"
| "deadcode_Stmts used (st # sts) = do {
     (used, sts, exit) \<leftarrow> deadcode_Stmts used sts;
     (used, st, always) \<leftarrow> deadcode_Stmt used st;
     Some (used, st # sts, if always then Some 0 else map_option Suc exit) }"

definition do_deadcode_BB :: "IRSB \<Rightarrow> IRSB option" where
  "do_deadcode_BB bb = do {
     used \<leftarrow> addUses_Expr (replicate (length (bb_tyenv bb)) False) (bb_next bb);
     (used, sts, i_unconditional_exit) \<leftarrow> deadcode_Stmts used (bb_stmts bb);
     (case i_unconditional_exit of
        None \<Rightarrow> Some (bb \<lparr> bb_stmts := sts \<rparr>)
      | Some i \<Rightarrow>
          (case sts ! i of
             Ist_Exit g jk dst offsIP \<Rightarrow> Some (bb \<lparr>
               bb_stmts := take i sts @ replicate (length sts - i) Ist_NoOp,
               bb_next := Iex_Const dst, bb_jumpkind := jk, bb_offsIP := offsIP \<rparr>)
           | _ \<Rightarrow> None)) }"

end
