(* ===== verification/IropFoldSound.thy ===== *)
theory IropFoldSound
  imports SimdSem IropFold
begin

text \<open>
  Correctness of the constant folder of \<open>VEX/priv/ir_opt.c\<close> (theory IropFold) against the reference semantics of the
  operators (theory IRSem): the bounded comparison of expressions returns and only equates expressions of one value; each
  constant rule computes what the operator computes; each identity rule is an algebraic law of the operator. Locale
  \<open>fold_sem\<close> holds what the folder relies on, and its interpretation gives the operators their meaning by the code of the
  hosts (theory SimdSem).
\<close>

section \<open>The comparison always returns\<close>

text \<open>The outcome of a comparison that started at count \<open>n\<close>: no answer yet below it.\<close>

definition returns_from :: "nat \<Rightarrow> same_result option \<Rightarrow> bool" where
  "returns_from n r \<longleftrightarrow> r = Some AssertFailed \<or> (\<exists>b n'. r = Some (Same b n') \<and> n \<le> n')"

lemma returns_from_Same [intro, simp]: "n \<le> n' \<Longrightarrow> returns_from n (Some (Same b n'))"
  by (simp add: returns_from_def)

lemma returns_from_AssertFailed [intro, simp]: "returns_from n (Some AssertFailed)"
  by (simp add: returns_from_def)

lemma returns_from_mono: "returns_from n r \<Longrightarrow> m \<le> n \<Longrightarrow> returns_from m r"
  by (auto simp: returns_from_def)

lemma returns_from_and_then:
  assumes "returns_from n r" "\<And>n'. n \<le> n' \<Longrightarrow> returns_from n (f n')"
  shows "returns_from n (and_then r f)"
proof -
  consider "r = Some AssertFailed" | b n' where "r = Some (Same b n')" "n \<le> n'"
    using assms(1) by (auto simp: returns_from_def)
  then show ?thesis
    by cases (use assms(2) in \<open>auto simp: and_then_def\<close>)
qed

lemma sameIRExprs_aux_returns_from: "returns_from n (sameIRExprs_aux env n e1 e2)"
proof (induction "NODE_LIMIT + 1 - n" arbitrary: n e1 e2 rule: less_induct)
  case less
  show ?case
  proof (cases "expr_tag e1 = expr_tag e2 \<and> n \<le> NODE_LIMIT")
    case False
    then show ?thesis by (subst sameIRExprs_aux.simps) (auto simp: not_le)
  next
    case True
    have IH: "returns_from n (sameIRExprs_aux env n' a b)" if "n + 1 \<le> n'" for n' a b
      using that True by (intro returns_from_mono [OF less]) auto
    have IH': "returns_from (n + 1) (sameIRExprs_aux env n' a b)" if "n + 1 \<le> n'" for n' a b
      using that True by (intro returns_from_mono [OF less]) auto
    from True show ?thesis
      by (subst sameIRExprs_aux.simps)
        (auto split: IRExpr.split option.split intro!: IH returns_from_mono [OF returns_from_and_then, of "n + 1" _ _ n] IH'
          returns_from_and_then [of "n + 1"])
  qed
qed

text \<open>C37: the comparison of two expressions returns whatever the environment is, even one in which a temporary stands for itself: the
  limit on the nodes bounds it.\<close>

theorem sameIRExprs_aux_returns: "\<exists>r. sameIRExprs_aux env 0 e1 e2 = Some r"
  using sameIRExprs_aux_returns_from [of 0 env e1 e2] by (auto simp: returns_from_def)

section \<open>Equal expressions have equal values\<close>

fun pure :: "IRExpr \<Rightarrow> bool" where
  "pure (Iex_Get _ _) = False"
| "pure (Iex_GetI _ _ _) = False"
| "pure (Iex_Load _ _ _) = False"
| "pure (Iex_CCall _ _ _) = False"
| "pure _ = True"

definition env_vals :: "op_sem \<Rightarrow> store \<Rightarrow> ir_env \<Rightarrow> bool" where
  "env_vals sem s env \<longleftrightarrow> (\<forall>t x. env t = Some x \<longrightarrow> pure x \<longrightarrow> eval sem s x = Some (s t))"

lemma and_then_True: "and_then r f = Some (Same True n) \<Longrightarrow> \<exists>n'. r = Some (Same True n') \<and> f n' = Some (Same True n)"
  by (auto simp: and_then_def split: bind_splits same_result.splits if_splits)

lemma same_int_const_eq: "same_int_const c1 c2 \<Longrightarrow> c1 = c2"
  by (cases "(c1, c2)" rule: same_int_const.cases) auto

lemma env_valsD: "env_vals sem s env \<Longrightarrow> env t = Some x \<Longrightarrow> pure x \<Longrightarrow> eval sem s x = Some (s t)"
  by (auto simp: env_vals_def)

lemma sameIRExprs_aux_eval:
  assumes "sameIRExprs_aux env n e1 e2 = Some (Same True n')" "env_vals sem s env"
  shows "eval sem s e1 = eval sem s e2 \<and> pure e1 \<and> pure e2"
proof -
  define P where "P env n e1 e2 r \<longleftrightarrow> (env_vals sem s env \<longrightarrow> (\<forall>n'. r = Same True n' \<longrightarrow>
    eval sem s e1 = eval sem s e2 \<and> pure e1 \<and> pure e2))" for env e1 e2 and r and n :: nat
  have "P env n e1 e2 (Same True n')"
  proof (rule sameIRExprs_aux.raw_induct [OF _ assms(1), of P])
    fix f env n e1 e2 r
    assume IH: "\<And>env n e1 e2 r. f env n e1 e2 = Some r \<Longrightarrow> P env n e1 e2 r"
    have IH': "eval sem s a = eval sem s b \<and> pure a \<and> pure b" if "f env n a b = Some (Same True n')" "env_vals sem s env" for n a b n'
      using IH [OF that(1)] that(2) by (auto simp: P_def)
    assume *: "(if expr_tag e1 \<noteq> expr_tag e2 then Some (Same False n)
      else if n > NODE_LIMIT then Some (Same False (n + 1))
      else case (e1, e2) of
        (Iex_RdTmp t1, Iex_RdTmp t2) \<Rightarrow>
          (if t1 = t2 then Some (Same True (n + 1))
           else case (env t1, env t2) of
             (Some x1, Some x2) \<Rightarrow> f env (n + 1) x1 x2
           | _ \<Rightarrow> Some (Same False (n + 1)))
      | (Iex_Binop op1 a1 b1, Iex_Binop op2 a2 b2) \<Rightarrow>
          (if op1 = op2 then and_then (f env (n + 1) a1 a2) (\<lambda>n. f env n b1 b2)
           else Some (Same False (n + 1)))
      | (Iex_Unop op1 a1, Iex_Unop op2 a2) \<Rightarrow>
          (if op1 = op2 then f env (n + 1) a1 a2 else Some (Same False (n + 1)))
      | (Iex_Const c1, Iex_Const c2) \<Rightarrow>
          (if const_tag c1 \<noteq> const_tag c2 then Some AssertFailed else Some (Same (same_int_const c1 c2) (n + 1)))
      | (Iex_Triop op1 a1 b1 c1, Iex_Triop op2 a2 b2 c2) \<Rightarrow>
          (if op1 = op2 then
             and_then (f env (n + 1) a1 a2) (\<lambda>n.
             and_then (f env n b1 b2) (\<lambda>n. f env n c1 c2))
           else Some (Same False (n + 1)))
      | (Iex_ITE c1 t1 f1, Iex_ITE c2 t2 f2) \<Rightarrow>
          and_then (f env (n + 1) c1 c2) (\<lambda>n.
          and_then (f env n t1 t2) (\<lambda>n. f env n f1 f2))
      | _ \<Rightarrow> Some (Same False (n + 1))) = Some r"
    show "P env n e1 e2 r"
      unfolding P_def using *
      by (cases e1; cases e2)
        (auto split: if_splits option.splits dest!: and_then_True IH' same_int_const_eq simp: env_valsD)
  qed
  with assms(2) show ?thesis by (simp add: P_def)
qed

lemma sameIRExprs_eval:
  "sameIRExprs env e1 e2 = Some True \<Longrightarrow> env_vals sem s env \<Longrightarrow> eval sem s e1 = eval sem s e2"
  by (auto simp: sameIRExprs_def dest: sameIRExprs_aux_eval split: option.splits same_result.splits)
section \<open>Operators on constants\<close>

text \<open>A result is right when it is a constant of the type of the operator with the value the reference semantics gives.\<close>

fun lanes2 :: "nat \<Rightarrow> nat \<Rightarrow> (int \<Rightarrow> int \<Rightarrow> int) \<Rightarrow> int \<Rightarrow> int \<Rightarrow> int" where
  "lanes2 w 0 f x y = 0"
| "lanes2 w (Suc k) f x y = take_bit w (f (take_bit w x) (take_bit w y)) OR push_bit w (lanes2 w k f (drop_bit w x) (drop_bit w y))"

definition eq_lane :: "nat \<Rightarrow> int \<Rightarrow> int \<Rightarrow> int" where
  "eq_lane w x y = (if x = y then mask w else 0)"

text \<open>The lanes of the second argument and of the first one in turn.\<close>

fun interleave :: "nat \<Rightarrow> nat \<Rightarrow> int \<Rightarrow> int \<Rightarrow> int" where
  "interleave w 0 x y = 0"
| "interleave w (Suc k) x y =
     take_bit w y OR push_bit w (take_bit w x) OR push_bit (2 * w) (interleave w k (drop_bit w x) (drop_bit w y))"

definition vec_cases :: "(IROp list \<times> (int \<Rightarrow> int \<Rightarrow> int)) list" where
  "vec_cases = [
     ([Iop_Sub8x16], lanes2 8 16 (-)),
     ([Iop_CmpEQ8x8], lanes2 8 8 (eq_lane 8)),
     ([Iop_CmpEQ8x16], lanes2 8 16 (eq_lane 8)),
     ([Iop_CmpEQ16x8], lanes2 16 8 (eq_lane 16)),
     ([Iop_CmpEQ32x4], lanes2 32 4 (eq_lane 32)),
     ([Iop_InterleaveLO8x16], interleave 8 8)]"

definition vec_groups :: label_tree where
  "vec_groups =
     Below Iop_CmpEQ16x8 (Below Iop_Sub8x16 (Group 1) (Below Iop_CmpEQ8x16 (Group 0) (Group 2))) (Below
     Iop_CmpEQ32x4 (Group 3) (Below Iop_InterleaveLO8x16 (Group 4) (Group 5)))"


lemma vec_eqs: "switch_eqs (switch vec_cases) vec_cases"
proof (rule switch_eqsI)
  show "switch_ok vec_groups 0 vec_cases"
    unfolding vec_cases_def vec_groups_def
    by (simp only: switch_check list.size cong: group_of_cong in_group_cong switch_ok_cong if_weak_cong)
qed

lemmas vec_rules = vec_eqs [unfolded vec_cases_def switch_eqs_unfold, folded vec_cases_def]

text \<open>The meaning of a binary operator: the reference semantics, with the vector operators the folder knows.\<close>

definition sem_ext :: "IROp \<Rightarrow> (int \<Rightarrow> int \<Rightarrow> int option) option" where
  "sem_ext op = (case switch sem2_cases op of
     Some g \<Rightarrow> Some g
   | None \<Rightarrow> map_option (\<lambda>g x y. Some (g x y)) (switch vec_cases op))"

lemma vec_not_sem2: "switch_all (\<lambda>op _. switch sem2_cases op = None) vec_cases"
  unfolding vec_cases_def switch_all_unfold
  by (simp add: switch_None sem2_cases_def)

lemma sem_ext_sem2: "switch sem2_cases op = Some g \<Longrightarrow> sem_ext op = Some g"
  by (simp add: sem_ext_def)

lemma sem_ext_vec: "switch vec_cases op = Some g \<Longrightarrow> sem_ext op = Some (\<lambda>x y. Some (g x y))"
  using switch_allD [OF vec_not_sem2, of op g] by (simp add: sem_ext_def)

definition good_const :: "IRType \<Rightarrow> int option \<Rightarrow> IRConst \<Rightarrow> bool" where
  "good_const td v c \<longleftrightarrow> typeOfIRConst c = td \<and> (\<forall>x. v = Some x \<longrightarrow> const_val c = x)"

definition good_result :: "IRType \<Rightarrow> int option \<Rightarrow> IRConst fold_result \<Rightarrow> bool" where
  "good_result td v r \<longleftrightarrow> (\<exists>r'. r = Some r' \<and> (\<forall>c. r' = Some c \<longrightarrow> good_const td v c))"

lemma good_result_Some [simp]: "good_result td v (Some r) \<longleftrightarrow> (\<forall>c. r = Some c \<longrightarrow> good_const td v c)"
  by (simp add: good_result_def)

definition unop_folds_at :: "IRType \<Rightarrow> IRType \<Rightarrow> (int \<Rightarrow> int option) \<Rightarrow> (IRConst \<Rightarrow> IRConst fold_result) \<Rightarrow> bool" where
  "unop_folds_at ta td g f \<longleftrightarrow> (\<forall>c. typeOfIRConst c = ta \<longrightarrow> good_result td (g (const_val c)) (f c))"

definition binop_folds_at ::
  "IRType \<Rightarrow> IRType \<Rightarrow> IRType \<Rightarrow> (int \<Rightarrow> int \<Rightarrow> int option) \<Rightarrow> (IRConst \<Rightarrow> IRConst \<Rightarrow> IRConst fold_result) \<Rightarrow> bool" where
  "binop_folds_at t1 t2 td g f \<longleftrightarrow> (\<forall>c1 c2. typeOfIRConst c1 = t1 \<longrightarrow> typeOfIRConst c2 = t2 \<longrightarrow>
     good_result td (g (const_val c1) (const_val c2)) (f c1 c2))"

definition unop_folds :: "IROp \<Rightarrow> (IRConst \<Rightarrow> IRConst fold_result) \<Rightarrow> bool" where
  "unop_folds op f \<longleftrightarrow> (\<exists>td ta g. typeOfPrimop op = Some (td, ta, Ity_INVALID, Ity_INVALID, Ity_INVALID) \<and>
     switch sem1_cases op = Some g \<and> unop_folds_at ta td g f)"

definition binop_folds :: "IROp \<Rightarrow> (IRConst \<Rightarrow> IRConst \<Rightarrow> IRConst fold_result) \<Rightarrow> bool" where
  "binop_folds op f \<longleftrightarrow> (\<exists>td t1 t2 g. typeOfPrimop op = Some (td, t1, t2, Ity_INVALID, Ity_INVALID) \<and>
     sem_ext op = Some g \<and> binop_folds_at t1 t2 td g f)"

lemma unop_foldsI: "typeOfPrimop op = Some (td, ta, Ity_INVALID, Ity_INVALID, Ity_INVALID) \<Longrightarrow>
    switch sem1_cases op = Some g \<Longrightarrow> unop_folds_at ta td g f \<Longrightarrow> unop_folds op f"
  by (auto simp: unop_folds_def)

lemma binop_foldsI: "typeOfPrimop op = Some (td, t1, t2, Ity_INVALID, Ity_INVALID) \<Longrightarrow>
    sem_ext op = Some g \<Longrightarrow> binop_folds_at t1 t2 td g f \<Longrightarrow> binop_folds op f"
  by (auto simp: binop_folds_def)

lemma const_of_U1: "typeOfIRConst c = Ity_I1 \<Longrightarrow> \<exists>x. c = Ico_U1 x"
  by (cases c) auto

lemma const_of_U8: "typeOfIRConst c = Ity_I8 \<Longrightarrow> \<exists>x. c = Ico_U8 x"
  by (cases c) auto

lemma const_of_U16: "typeOfIRConst c = Ity_I16 \<Longrightarrow> \<exists>x. c = Ico_U16 x"
  by (cases c) auto

lemma const_of_U32: "typeOfIRConst c = Ity_I32 \<Longrightarrow> \<exists>x. c = Ico_U32 x"
  by (cases c) auto

lemma const_of_U64: "typeOfIRConst c = Ity_I64 \<Longrightarrow> \<exists>x. c = Ico_U64 x"
  by (cases c) auto

lemma const_of_V128: "typeOfIRConst c = Ity_V128 \<Longrightarrow> \<exists>x. c = Ico_V128 x"
  by (cases c) auto

lemma const_of_V256: "typeOfIRConst c = Ity_V256 \<Longrightarrow> \<exists>x. c = Ico_V256 x"
  by (cases c) auto

lemma fold1_U1: "(\<And>x. good_const td (g (const_val (Ico_U1 x))) (f x)) \<Longrightarrow> unop_folds_at Ity_I1 td g (fold1 con_U1 f)"
  by (auto simp: unop_folds_at_def fold1_def dest!: const_of_U1)

lemma fold1_when_U1: "(\<And>x. P x \<Longrightarrow> good_const td (g (const_val (Ico_U1 x))) (f x)) \<Longrightarrow>
    unop_folds_at Ity_I1 td g (fold1_when con_U1 P f)"
  by (auto simp: unop_folds_at_def fold1_when_def dest!: const_of_U1)

lemma fold2_U1: "(\<And>x y. good_const td (g (const_val (Ico_U1 x)) (const_val (Ico_U1 y))) (f x y)) \<Longrightarrow>
    binop_folds_at Ity_I1 Ity_I1 td g (fold2 con_U1 f)"
  by (auto simp: binop_folds_at_def fold2_def dest!: const_of_U1)

lemma fold2_when_U1: "(\<And>x y. P x y \<Longrightarrow> good_const td (g (const_val (Ico_U1 x)) (const_val (Ico_U1 y))) (f x y)) \<Longrightarrow>
    binop_folds_at Ity_I1 Ity_I1 td g (fold2_when con_U1 P f)"
  by (auto simp: binop_folds_at_def fold2_when_def dest!: const_of_U1)

lemma fold1_U8: "(\<And>x. good_const td (g (const_val (Ico_U8 x))) (f x)) \<Longrightarrow> unop_folds_at Ity_I8 td g (fold1 con_U8 f)"
  by (auto simp: unop_folds_at_def fold1_def dest!: const_of_U8)

lemma fold1_when_U8: "(\<And>x. P x \<Longrightarrow> good_const td (g (const_val (Ico_U8 x))) (f x)) \<Longrightarrow>
    unop_folds_at Ity_I8 td g (fold1_when con_U8 P f)"
  by (auto simp: unop_folds_at_def fold1_when_def dest!: const_of_U8)

lemma fold2_U8: "(\<And>x y. good_const td (g (const_val (Ico_U8 x)) (const_val (Ico_U8 y))) (f x y)) \<Longrightarrow>
    binop_folds_at Ity_I8 Ity_I8 td g (fold2 con_U8 f)"
  by (auto simp: binop_folds_at_def fold2_def dest!: const_of_U8)

lemma fold2_when_U8: "(\<And>x y. P x y \<Longrightarrow> good_const td (g (const_val (Ico_U8 x)) (const_val (Ico_U8 y))) (f x y)) \<Longrightarrow>
    binop_folds_at Ity_I8 Ity_I8 td g (fold2_when con_U8 P f)"
  by (auto simp: binop_folds_at_def fold2_when_def dest!: const_of_U8)

lemma fold1_U16: "(\<And>x. good_const td (g (const_val (Ico_U16 x))) (f x)) \<Longrightarrow> unop_folds_at Ity_I16 td g (fold1 con_U16 f)"
  by (auto simp: unop_folds_at_def fold1_def dest!: const_of_U16)

lemma fold1_when_U16: "(\<And>x. P x \<Longrightarrow> good_const td (g (const_val (Ico_U16 x))) (f x)) \<Longrightarrow>
    unop_folds_at Ity_I16 td g (fold1_when con_U16 P f)"
  by (auto simp: unop_folds_at_def fold1_when_def dest!: const_of_U16)

lemma fold2_U16: "(\<And>x y. good_const td (g (const_val (Ico_U16 x)) (const_val (Ico_U16 y))) (f x y)) \<Longrightarrow>
    binop_folds_at Ity_I16 Ity_I16 td g (fold2 con_U16 f)"
  by (auto simp: binop_folds_at_def fold2_def dest!: const_of_U16)

lemma fold2_when_U16: "(\<And>x y. P x y \<Longrightarrow> good_const td (g (const_val (Ico_U16 x)) (const_val (Ico_U16 y))) (f x y)) \<Longrightarrow>
    binop_folds_at Ity_I16 Ity_I16 td g (fold2_when con_U16 P f)"
  by (auto simp: binop_folds_at_def fold2_when_def dest!: const_of_U16)

lemma fold1_U32: "(\<And>x. good_const td (g (const_val (Ico_U32 x))) (f x)) \<Longrightarrow> unop_folds_at Ity_I32 td g (fold1 con_U32 f)"
  by (auto simp: unop_folds_at_def fold1_def dest!: const_of_U32)

lemma fold1_when_U32: "(\<And>x. P x \<Longrightarrow> good_const td (g (const_val (Ico_U32 x))) (f x)) \<Longrightarrow>
    unop_folds_at Ity_I32 td g (fold1_when con_U32 P f)"
  by (auto simp: unop_folds_at_def fold1_when_def dest!: const_of_U32)

lemma fold2_U32: "(\<And>x y. good_const td (g (const_val (Ico_U32 x)) (const_val (Ico_U32 y))) (f x y)) \<Longrightarrow>
    binop_folds_at Ity_I32 Ity_I32 td g (fold2 con_U32 f)"
  by (auto simp: binop_folds_at_def fold2_def dest!: const_of_U32)

lemma fold2_when_U32: "(\<And>x y. P x y \<Longrightarrow> good_const td (g (const_val (Ico_U32 x)) (const_val (Ico_U32 y))) (f x y)) \<Longrightarrow>
    binop_folds_at Ity_I32 Ity_I32 td g (fold2_when con_U32 P f)"
  by (auto simp: binop_folds_at_def fold2_when_def dest!: const_of_U32)

lemma fold1_U64: "(\<And>x. good_const td (g (const_val (Ico_U64 x))) (f x)) \<Longrightarrow> unop_folds_at Ity_I64 td g (fold1 con_U64 f)"
  by (auto simp: unop_folds_at_def fold1_def dest!: const_of_U64)

lemma fold1_when_U64: "(\<And>x. P x \<Longrightarrow> good_const td (g (const_val (Ico_U64 x))) (f x)) \<Longrightarrow>
    unop_folds_at Ity_I64 td g (fold1_when con_U64 P f)"
  by (auto simp: unop_folds_at_def fold1_when_def dest!: const_of_U64)

lemma fold2_U64: "(\<And>x y. good_const td (g (const_val (Ico_U64 x)) (const_val (Ico_U64 y))) (f x y)) \<Longrightarrow>
    binop_folds_at Ity_I64 Ity_I64 td g (fold2 con_U64 f)"
  by (auto simp: binop_folds_at_def fold2_def dest!: const_of_U64)

lemma fold2_when_U64: "(\<And>x y. P x y \<Longrightarrow> good_const td (g (const_val (Ico_U64 x)) (const_val (Ico_U64 y))) (f x y)) \<Longrightarrow>
    binop_folds_at Ity_I64 Ity_I64 td g (fold2_when con_U64 P f)"
  by (auto simp: binop_folds_at_def fold2_when_def dest!: const_of_U64)

lemma fold1_V128: "(\<And>x. good_const td (g (const_val (Ico_V128 x))) (f x)) \<Longrightarrow> unop_folds_at Ity_V128 td g (fold1 con_V128 f)"
  by (auto simp: unop_folds_at_def fold1_def dest!: const_of_V128)

lemma fold1_when_V128: "(\<And>x. P x \<Longrightarrow> good_const td (g (const_val (Ico_V128 x))) (f x)) \<Longrightarrow>
    unop_folds_at Ity_V128 td g (fold1_when con_V128 P f)"
  by (auto simp: unop_folds_at_def fold1_when_def dest!: const_of_V128)

lemma fold2_V128: "(\<And>x y. good_const td (g (const_val (Ico_V128 x)) (const_val (Ico_V128 y))) (f x y)) \<Longrightarrow>
    binop_folds_at Ity_V128 Ity_V128 td g (fold2 con_V128 f)"
  by (auto simp: binop_folds_at_def fold2_def dest!: const_of_V128)

lemma fold2_when_V128: "(\<And>x y. P x y \<Longrightarrow> good_const td (g (const_val (Ico_V128 x)) (const_val (Ico_V128 y))) (f x y)) \<Longrightarrow>
    binop_folds_at Ity_V128 Ity_V128 td g (fold2_when con_V128 P f)"
  by (auto simp: binop_folds_at_def fold2_when_def dest!: const_of_V128)

lemma fold1_V256: "(\<And>x. good_const td (g (const_val (Ico_V256 x))) (f x)) \<Longrightarrow> unop_folds_at Ity_V256 td g (fold1 con_V256 f)"
  by (auto simp: unop_folds_at_def fold1_def dest!: const_of_V256)

lemma fold1_when_V256: "(\<And>x. P x \<Longrightarrow> good_const td (g (const_val (Ico_V256 x))) (f x)) \<Longrightarrow>
    unop_folds_at Ity_V256 td g (fold1_when con_V256 P f)"
  by (auto simp: unop_folds_at_def fold1_when_def dest!: const_of_V256)

lemma fold2_V256: "(\<And>x y. good_const td (g (const_val (Ico_V256 x)) (const_val (Ico_V256 y))) (f x y)) \<Longrightarrow>
    binop_folds_at Ity_V256 Ity_V256 td g (fold2 con_V256 f)"
  by (auto simp: binop_folds_at_def fold2_def dest!: const_of_V256)

lemma fold2_when_V256: "(\<And>x y. P x y \<Longrightarrow> good_const td (g (const_val (Ico_V256 x)) (const_val (Ico_V256 y))) (f x y)) \<Longrightarrow>
    binop_folds_at Ity_V256 Ity_V256 td g (fold2_when con_V256 P f)"
  by (auto simp: binop_folds_at_def fold2_when_def dest!: const_of_V256)

lemma fold_shift_U32: "(\<And>n x. n \<le> w - 1 \<Longrightarrow> good_const td (g (const_val (Ico_U32 x)) (int n)) (f n x)) \<Longrightarrow>
    binop_folds_at Ity_I32 Ity_I8 td g (fold_shift con_U32 w f)"
proof (unfold binop_folds_at_def, intro allI impI)
  fix c1 c2 assume hit: "\<And>n x. n \<le> w - 1 \<Longrightarrow> good_const td (g (const_val (Ico_U32 x)) (int n)) (f n x)"
  assume "typeOfIRConst c1 = Ity_I32" "typeOfIRConst c2 = Ity_I8"
  then obtain x n where "c1 = Ico_U32 x" "c2 = Ico_U8 n"
    using const_of_U32 const_of_U8 by blast
  with hit [of "unat n" x] show "good_result td (g (const_val c1) (const_val c2)) (fold_shift con_U32 w f c1 c2)"
    by (simp add: fold_shift_def Let_def)
qed

lemma fold_shift_U64: "(\<And>n x. n \<le> w - 1 \<Longrightarrow> good_const td (g (const_val (Ico_U64 x)) (int n)) (f n x)) \<Longrightarrow>
    binop_folds_at Ity_I64 Ity_I8 td g (fold_shift con_U64 w f)"
proof (unfold binop_folds_at_def, intro allI impI)
  fix c1 c2 assume hit: "\<And>n x. n \<le> w - 1 \<Longrightarrow> good_const td (g (const_val (Ico_U64 x)) (int n)) (f n x)"
  assume "typeOfIRConst c1 = Ity_I64" "typeOfIRConst c2 = Ity_I8"
  then obtain x n where "c1 = Ico_U64 x" "c2 = Ico_U8 n"
    using const_of_U64 const_of_U8 by blast
  with hit [of "unat n" x] show "good_result td (g (const_val c1) (const_val c2)) (fold_shift con_U64 w f c1 c2)"
    by (simp add: fold_shift_def Let_def)
qed
section \<open>Values of words\<close>

lemma good_constI: "typeOfIRConst c = td \<Longrightarrow> v = Some (const_val c) \<Longrightarrow> good_const td v c"
  by (simp add: good_const_def)

lemma mask_low_bits:
  "(255 :: 16 word) = mask 8" "(255 :: 32 word) = mask 8" "(255 :: 64 word) = mask 8" "(65535 :: 32 word) = mask 16"
  "(65535 :: 64 word) = mask 16" "(4294967295 :: 64 word) = mask 32"
  by (simp_all add: mask_eq_exp_minus_1)

lemma full_mask:
  "(255 :: 8 word) = - 1" "(65535 :: 16 word) = - 1" "(4294967295 :: 32 word) = - 1" "(18446744073709551615 :: 64 word) = - 1"
  by simp_all

lemma sext_shifts:
  "signed_drop_bit 24 (push_bit 24 (ucast (x :: 8 word))) = (scast x :: 32 word)"
  "signed_drop_bit 16 (push_bit 16 (ucast (y :: 16 word))) = (scast y :: 32 word)"
  "signed_drop_bit 8 (push_bit 8 (ucast (x :: 8 word))) = (scast x :: 16 word)"
  "signed_drop_bit 48 (push_bit 48 (ucast (y :: 16 word))) = (scast y :: 64 word)"
  "signed_drop_bit 32 (push_bit 32 (ucast (z :: 32 word))) = (scast z :: 64 word)"
  by (rule bit_eqI; auto simp: bit_simps)+

lemma uint_scast: "uint (scast (x :: 'a::len word) :: 'b::len word) = take_bit LENGTH('b) (signed_take_bit (LENGTH('a) - 1) (uint x))"
  by (rule bit_eqI) (auto simp: bit_simps)

lemma uint_mask_and: "uint (mask n AND w) = take_bit n (uint w)" "uint (w AND mask n) = take_bit n (uint w)"
  for w :: "'a::len word"
  by (rule bit_eqI; auto simp: bit_simps dest: bit_imp_le_length)+

lemma uint_ucast: "uint (ucast (x :: 'a::len word) :: 'b::len word) = take_bit LENGTH('b) (uint x)"
  by (rule bit_eqI) (auto simp: bit_simps)

lemma uint_not: "uint (NOT x) = take_bit LENGTH('a) (NOT (uint (x :: 'a::len word)))"
  by (rule bit_eqI) (auto simp: bit_simps)

lemma uint_drop_bit: "uint (drop_bit n x) = drop_bit n (uint (x :: 'a::len word))"
  by (rule bit_eqI) (auto simp: bit_simps)

lemma uint_eq_0: "0 = uint x \<longleftrightarrow> 0 = x" for x :: "'a::len word"
  by (auto simp: uint_0_iff eq_commute [of 0])

lemma even_uint: "even (uint x) = even x" for x :: "'a::len word"
proof -
  have "bit (uint x) 0 = bit x 0" by (simp only: bit_uint_iff) simp
  then show ?thesis unfolding bit_0 by blast
qed

lemma low_bit: "(1 = 1 AND x) = odd (uint x)" for x :: "'a::len word"
  by (simp add: one_and_eq mod_2_eq_odd even_uint)

lemma spread_bytes_take: "spread_bytes n (take_bit n m) = spread_bytes n m"
  by (rule bit_eqI) (simp add: bit_spread_bytes bit_take_bit_iff)

lemma spread_bytes_ops:
  "spread_bytes n (x AND y) = spread_bytes n x AND spread_bytes n y"
  "spread_bytes n (x OR y) = spread_bytes n x OR spread_bytes n y"
  "spread_bytes n (x XOR y) = spread_bytes n x XOR spread_bytes n y"
  "spread_bytes n (NOT x) = take_bit (8 * n) (NOT (spread_bytes n x))"
  by (rule bit_eqI; auto simp: bit_simps bit_spread_bytes)+

lemmas word_values = uint_mask_and uint_ucast take_bit_uint uint_not uint_drop_bit uint_scast sext_shifts mask_low_bits full_mask
  unsigned_minus_1_eq_mask uint_eq_0 low_bit

lemmas fold1_rules = fold1_U1 fold1_U8 fold1_U16 fold1_U32 fold1_U64 fold1_V128 fold1_V256

lemma unop_folds_1: "switch_all unop_folds fold_unop_cases_1"
  unfolding fold_unop_cases_1_def switch_all_unfold
  apply (intro conjI; (rule unop_foldsI, simp add: prim_type_defs, simp only: sem_rules, rule fold1_rules, rule good_constI, simp))
  apply (simp_all add: sem_defs word_values notBool_def spread_bytes_take spread_bytes_ops flip: odd_iff_mod_2_eq_one)
  done

lemma clz_find: "x \<noteq> 0 \<Longrightarrow> take_bit w x = x \<Longrightarrow> List.find (\<lambda>i. bit x (w - 1 - i)) [0..<w] = Some (leading_zeros w x)"
proof (induction w arbitrary: x)
  case (Suc w)
  have upt: "[0..<Suc w] = 0 # map Suc [0..<w]"
    by (simp add: map_Suc_upt upt_conv_Cons del: upt_Suc)
  have find_map: "List.find P (map Suc xs) = map_option Suc (List.find (\<lambda>i. P (Suc i)) xs)" for P xs
    by (induction xs) auto
  show ?case
  proof (cases "bit x w")
    case True
    then show ?thesis unfolding upt by simp
  next
    case False
    then have "take_bit w x = x"
      using Suc.prems(2) by (simp add: take_bit_Suc_from_most)
    with Suc.IH [OF Suc.prems(1)] False show ?thesis
      unfolding upt by (simp add: find_map)
  qed
qed simp

lemma and_bit: "(0 \<noteq> x AND push_bit k 1) = bit x k" for x :: "'a::len word"
  by (metis bit_iff_and_push_bit_not_eq_0)

lemma leading_zeros_le: "leading_zeros w x \<le> w"
  by (induction w) auto

lemma fold_Clz32_value: "x \<noteq> 0 \<Longrightarrow> \<exists>n. fold_Clz32 x = Some n \<and> uint n = int (leading_zeros 32 (uint x))"
proof -
  assume x: "x \<noteq> 0"
  have "(0 \<noteq> x AND push_bit (31 - i) 1) = bit (uint x) (32 - 1 - i)" for i
    by (simp only: and_bit bit_uint_iff) auto
  then have "List.find (\<lambda>i. 0 \<noteq> x AND push_bit (31 - i) 1) [0..<32] = Some (leading_zeros 32 (uint x))"
    using clz_find [of "uint x" 32] x by (simp only: take_bit_uint uint_0_iff) (simp add: take_bit_uint)
  then have "fold_Clz32 x = Some (of_nat (leading_zeros 32 (uint x)))"
    using x by (simp only: fold_Clz32_def) simp
  moreover have "uint (of_nat (leading_zeros 32 (uint x)) :: u32) = int (leading_zeros 32 (uint x))"
    using leading_zeros_le [of 32 "uint x"] by (simp add: unsigned_of_nat take_bit_nat_eq_self_iff)
  ultimately show ?thesis by blast
qed

lemma fold_Clz64_value: "x \<noteq> 0 \<Longrightarrow> \<exists>n. fold_Clz64 x = Some n \<and> uint n = int (leading_zeros 64 (uint x))"
proof -
  assume x: "x \<noteq> 0"
  have "(0 \<noteq> x AND push_bit (63 - i) 1) = bit (uint x) (64 - 1 - i)" for i
    by (simp only: and_bit bit_uint_iff) auto
  then have "List.find (\<lambda>i. 0 \<noteq> x AND push_bit (63 - i) 1) [0..<64] = Some (leading_zeros 64 (uint x))"
    using clz_find [of "uint x" 64] x by (simp only: take_bit_uint uint_0_iff) (simp add: take_bit_uint)
  then have "fold_Clz64 x = Some (of_nat (leading_zeros 64 (uint x)))"
    using x by (simp only: fold_Clz64_def) simp
  moreover have "uint (of_nat (leading_zeros 64 (uint x)) :: u32) = int (leading_zeros 64 (uint x))"
    using leading_zeros_le [of 64 "uint x"] by (simp add: unsigned_of_nat take_bit_nat_eq_self_iff)
  ultimately show ?thesis by blast
qed

lemma uint_or: "uint (x OR y) = uint x OR uint y" for x :: "'a::len word"
  by (rule unsigned_or_eq)

lemma uint_neg: "uint (- x) = take_bit LENGTH('a) (- uint x)" for x :: "'a::len word"
  by (simp add: uint_word_ariths take_bit_eq_mod)

lemma uint_ucast_up: "uint (ucast (n :: u32) :: u64) = uint n"
  by (simp add: uint_ucast take_bit_uint)

lemma folds_Clz32: "unop_folds_at Ity_I32 Ity_I32 (clz 32)
    (\<lambda>c. Option.bind (con_U32 c) (\<lambda>x. if x \<noteq> 0 then map_option (\<lambda>n. Some (Ico_U32 n)) (fold_Clz32 x) else Some None))"
proof (unfold unop_folds_at_def, intro allI impI)
  fix c assume "typeOfIRConst c = Ity_I32"
  then obtain x where c: "c = Ico_U32 x" using const_of_U32 by blast
  show "good_result Ity_I32 (clz 32 (const_val c))
      (Option.bind (con_U32 c) (\<lambda>x. if x \<noteq> 0 then map_option (\<lambda>n. Some (Ico_U32 n)) (fold_Clz32 x) else Some None))"
    using fold_Clz32_value [of x] by (cases "x = 0") (auto simp: c good_const_def clz_def uint_0_iff uint_ucast_up)
qed

lemma folds_Clz64: "unop_folds_at Ity_I64 Ity_I64 (clz 64)
    (\<lambda>c. Option.bind (con_U64 c) (\<lambda>x. if x \<noteq> 0 then map_option (\<lambda>n. Some (Ico_U64 (ucast n))) (fold_Clz64 x) else Some None))"
proof (unfold unop_folds_at_def, intro allI impI)
  fix c assume "typeOfIRConst c = Ity_I64"
  then obtain x where c: "c = Ico_U64 x" using const_of_U64 by blast
  show "good_result Ity_I64 (clz 64 (const_val c))
      (Option.bind (con_U64 c) (\<lambda>x. if x \<noteq> 0 then map_option (\<lambda>n. Some (Ico_U64 (ucast n))) (fold_Clz64 x) else Some None))"
    using fold_Clz64_value [of x] by (cases "x = 0") (auto simp: c good_const_def clz_def uint_0_iff uint_ucast_up)
qed

lemma unop_folds_2: "switch_all unop_folds fold_unop_cases_2"
  unfolding fold_unop_cases_2_def switch_all_unfold
  apply (intro conjI; (rule unop_foldsI, simp add: prim_type_defs, simp only: sem_rules, (rule folds_Clz32 folds_Clz64 | (rule fold1_rules, rule good_constI, simp))))
  apply (simp_all add: sem_defs word_values pess_def uint_0_iff uint_or uint_neg)
  done

lemmas fold1_when_rules = fold1_when_U1 fold1_when_U8 fold1_when_U16 fold1_when_U32 fold1_when_U64 fold1_when_V128 fold1_when_V256

lemma spread_zero:
  assumes "\<And>j. j < 8 \<Longrightarrow> \<not> bit m (k + j)"
  shows "take_bit 64 (drop_bit (8 * k) (spread_bytes n m)) = 0"
proof (rule bit_eqI)
  fix i
  have "(8 * k + i) div 8 = k + i div 8" by simp
  then show "bit (take_bit 64 (drop_bit (8 * k) (spread_bytes n m))) i = bit 0 i"
    using assms [of "i div 8"] by (auto simp: bit_simps bit_spread_bytes)
qed

lemma spread_bytes_0: "spread_bytes n 0 = 0"
  by (rule bit_eqI) (simp add: bit_spread_bytes)

lemma and_low_byte: "drop_bit k x AND mask 8 = 0 \<Longrightarrow> j < 8 \<Longrightarrow> \<not> bit (uint x) (k + j)" for x :: "16 word"
proof
  assume *: "drop_bit k x AND mask 8 = 0" "j < 8" "bit (uint x) (k + j)"
  from *(1) have "\<not> bit (drop_bit k x AND mask 8) j" by (simp only: *(1)) simp
  with *(2,3) show False by (simp add: bit_simps)
qed

lemma unop_folds_3: "switch_all unop_folds fold_unop_cases_3"
  unfolding fold_unop_cases_3_def switch_all_unfold
  apply (intro conjI; (rule unop_foldsI, simp add: prim_type_defs, simp only: sem_rules, rule fold1_when_rules, rule good_constI, simp))
  apply (simp_all add: sem_defs word_values spread_bytes_0)
  using spread_zero [OF and_low_byte, of 0] spread_zero [OF and_low_byte, of 8]
  apply simp_all
  done

lemmas fold2_rules = fold2_U1 fold2_U8 fold2_U16 fold2_U32 fold2_U64 fold2_V128 fold2_V256

lemma uint_logic: "uint (x AND y) = uint x AND uint y" "uint (x XOR y) = uint x XOR uint y" for x :: "'a::len word"
  by (rule unsigned_and_eq unsigned_xor_eq)+

lemma uint_arith:
  "uint (x + y) = take_bit LENGTH('a) (uint x + uint y)"
  "uint (x - y) = take_bit LENGTH('a) (uint x - uint y)"
  "uint (x * y) = take_bit LENGTH('a) (uint x * uint y)" for x :: "'a::len word"
  by (simp_all add: uint_word_ariths take_bit_eq_mod)

lemma uint_shifts:
  "uint (push_bit n x) = take_bit LENGTH('a) (push_bit n (uint x))"
  "uint (signed_drop_bit n x) = take_bit LENGTH('a) (drop_bit n (signed_take_bit (LENGTH('a) - 1) (uint x)))" for x :: "'a::len word"
  by (rule bit_eqI; auto simp: bit_simps dest: bit_imp_le_length)+

lemma signed_uint:
  "signed_take_bit 31 (uint x) = sint x" "signed_take_bit 63 (uint y) = sint y" for x :: u32 and y :: u64
  by (simp_all add: sint_uint)

lemma push_32_fits: "take_bit 64 (push_bit 32 (uint x)) = push_bit 32 (uint x)" for x :: u32
  by (rule bit_eqI) (auto simp: bit_simps dest: bit_imp_le_length)

lemma shift_fits: "n \<le> 31 \<Longrightarrow> int n < 32" "n \<le> 63 \<Longrightarrow> int n < 64"
  by simp_all

lemmas fold2_when_rules = fold2_when_U64 fold2_when_V128

text \<open>One entry of a table.\<close>

lemmas binop_foldsI2 = binop_foldsI [OF _ sem_ext_sem2]

lemma binop_folds_1: "switch_all binop_folds fold_binop_cases_1"
  unfolding fold_binop_cases_1_def switch_all_unfold
  by (intro conjI; (rule binop_foldsI2, simp add: prim_type_defs, simp only: sem_rules, rule fold2_rules, rule good_constI, simp))
    (simp_all add: sem_defs uint_or uint_logic spread_bytes_ops uint_arith word_less_def uint_scast take_bit_mult)

lemma binop_folds_2: "switch_all binop_folds fold_binop_cases_2"
  unfolding fold_binop_cases_2_def switch_all_unfold
  by (intro conjI; (rule binop_foldsI2, simp add: prim_type_defs, simp only: sem_rules, rule fold2_rules fold_shift_U32 fold_shift_U64, rule good_constI, simp))
    (simp_all add: sem_defs full_mask shift_fits uint_shifts uint_drop_bit signed_uint word_uint_eq_iff)

lemma binop_folds_never: "binop_folds_at t1 t2 td g (\<lambda>c1 c2. Some None)"
  by (simp add: binop_folds_at_def)

lemma binop_folds_V128HL: "binop_folds_at Ity_V128 Ity_V128 Ity_V256 (hl 128)
    (\<lambda>c1 c2. Some (if isZeroV128 (Iex_Const c1) \<and> isZeroV128 (Iex_Const c2) then Some (Ico_V256 0) else None))"
  by (auto simp: binop_folds_at_def good_const_def isZeroV128_def sem_defs spread_bytes_0 dest!: const_of_V128)

lemma interleave_0: "interleave w k 0 0 = 0"
  by (induction k) simp_all

lemma binop_folds_3: "switch_all binop_folds fold_binop_cases_3"
  unfolding fold_binop_cases_3_def switch_all_unfold
  apply (intro conjI;
     ((rule binop_foldsI2, simp add: prim_type_defs, simp only: sem_rules, rule fold2_rules, rule good_constI, simp)
      | (rule binop_foldsI2, simp add: prim_type_defs, simp only: sem_rules, rule binop_folds_never binop_folds_V128HL)
      | (rule binop_foldsI2, simp add: prim_type_defs, simp only: sem_rules, rule fold2_when_rules, rule good_constI, simp)
      | (rule binop_foldsI [OF _ sem_ext_vec], simp add: prim_type_defs, simp only: vec_rules, rule fold2_when_rules, rule good_constI, simp))?)
  apply (simp_all add: sem_defs word_less_def word_le_def signed_uint uint_or uint_shifts uint_ucast_up push_32_fits spread_bytes_0 interleave_0)
  done

lemma unop_folds_all: "switch_all unop_folds fold_unop_cases"
  unfolding fold_unop_cases_def switch_all_append using unop_folds_1 unop_folds_2 unop_folds_3 by blast

lemma binop_folds_all: "switch_all binop_folds fold_binop_cases"
  unfolding fold_binop_cases_def switch_all_append using binop_folds_1 binop_folds_2 binop_folds_3 by blast

section \<open>Following temporaries\<close>

text \<open>An environment of flat, well typed expressions.\<close>

definition env_wt :: "IRType list \<Rightarrow> IRType \<Rightarrow> ir_env \<Rightarrow> bool" where
  "env_wt tyenv w env \<longleftrightarrow>
     (\<forall>t e. env t = Some e \<longrightarrow> t < length tyenv \<and> wt tyenv w e (tyenv ! t) \<and> isFlat_rhs e = Some True)"

lemma env_wtD:
  "env_wt tyenv w env \<Longrightarrow> env t = Some e \<Longrightarrow> wt tyenv w e (tyenv ! t)"
  "env_wt tyenv w env \<Longrightarrow> env t = Some e \<Longrightarrow> isFlat_rhs e = Some True"
  by (auto simp: env_wt_def)

inductive_cases wt_RdTmpE: "wt tyenv w (Iex_RdTmp t) ty"
inductive_cases wt_ConstE: "wt tyenv w (Iex_Const c) ty"
inductive_cases wt_UnopE: "wt tyenv w (Iex_Unop op a) ty"
inductive_cases wt_BinopE: "wt tyenv w (Iex_Binop op a b) ty"
inductive_cases wt_ITEE: "wt tyenv w (Iex_ITE c t f) ty"

lemma chase_step: "chase env e = (case e of
        Iex_RdTmp t \<Rightarrow> (case env t of None \<Rightarrow> Some None | Some e \<Rightarrow> chase env e)
      | _ \<Rightarrow> Some (Some e))"
  by (rule chase.simps)

lemma chase_result:
  assumes "chase env e = Some (Some e')" "env_wt tyenv w env" "env_vals sem s env" "wt tyenv w e ty" "isFlat_rhs e = Some True"
  shows "wt tyenv w e' ty \<and> isFlat_rhs e' = Some True \<and> (pure e' \<longrightarrow> eval sem s e' = eval sem s e)"
proof -
  define P where "P env e r \<longleftrightarrow> (\<forall>e' ty. env_wt tyenv w env \<longrightarrow> env_vals sem s env \<longrightarrow> r = Some e' \<longrightarrow> wt tyenv w e ty \<longrightarrow>
    isFlat_rhs e = Some True \<longrightarrow> wt tyenv w e' ty \<and> isFlat_rhs e' = Some True \<and> (pure e' \<longrightarrow> pure e \<and> eval sem s e' = eval sem s e))"
    for env e and r
  have "P env e (Some e')"
  proof (rule chase.raw_induct [OF _ assms(1), of P])
    fix f env e r
    assume IH: "\<And>env e r. f env e = Some r \<Longrightarrow> P env e r"
    assume *: "(case e of Iex_RdTmp t \<Rightarrow> (case env t of None \<Rightarrow> Some None | Some e \<Rightarrow> f env e) | _ \<Rightarrow> Some (Some e)) = Some r"
    show "P env e r"
    proof (cases e)
      case (Iex_RdTmp t)
      show ?thesis
      proof (cases "env t")
        case (Some x)
        with * Iex_RdTmp have "P env x r" by (auto intro: IH)
        then show ?thesis
          unfolding P_def Iex_RdTmp
        proof (intro allI impI, goal_cases)
          case (1 e' ty)
          then have "wt tyenv w x ty" "isFlat_rhs x = Some True"
            using env_wtD [of tyenv w env t x] Some by (auto elim!: wt_RdTmpE)
          with 1 have "wt tyenv w e' ty" "isFlat_rhs e' = Some True" "pure e' \<longrightarrow> pure x \<and> eval sem s e' = eval sem s x"
            by blast+
          with 1 Some show ?case
            by (auto dest: env_valsD)
        qed
      qed (use * Iex_RdTmp in \<open>simp add: P_def\<close>)
    qed (use * in \<open>auto simp: P_def\<close>)
  qed
  with assms(2-) show ?thesis by (auto simp: P_def)
qed

text \<open>In an environment without cycles the loop ends.\<close>

definition acyclic_env :: "ir_env \<Rightarrow> bool" where
  "acyclic_env env \<longleftrightarrow> (\<exists>rank :: IRTemp \<Rightarrow> nat. \<forall>t t'. env t = Some (Iex_RdTmp t') \<longrightarrow> rank t' < rank t)"

lemma chase_returns:
  assumes "acyclic_env env"
  shows "\<exists>r. chase env e = Some r"
proof (cases e)
  case (Iex_RdTmp t)
  obtain rank :: "IRTemp \<Rightarrow> nat" where rank: "\<And>t t'. env t = Some (Iex_RdTmp t') \<Longrightarrow> rank t' < rank t"
    using assms by (auto simp: acyclic_env_def)
  have "\<exists>r. chase env (Iex_RdTmp t) = Some r"
  proof (induction "rank t" arbitrary: t rule: less_induct)
    case less
    show ?case
    proof (cases "env t")
      case (Some x)
      show ?thesis
      proof (cases x)
        case (Iex_RdTmp t')
        with less [of t'] rank [of t t'] Some show ?thesis by (subst chase_step) simp
      qed (use Some in \<open>subst chase_step; simp; subst chase_step; simp\<close>)+
    qed (subst chase_step, simp)
  qed
  with Iex_RdTmp show ?thesis by simp
qed (subst chase_step, simp)+

section \<open>Identities\<close>

definition store_ok :: "IRType list \<Rightarrow> store \<Rightarrow> bool" where
  "store_ok tyenv s \<longleftrightarrow> (\<forall>t < length tyenv. fits (tyenv ! t) (s t))"

lemma atom_value:
  assumes "isIRAtom a" "wt tyenv w a ty" "store_ok tyenv s"
  shows "\<exists>x. eval sem s a = Some x \<and> fits ty x"
  using assms const_val_fits by (cases a) (auto elim!: wt_RdTmpE wt_ConstE simp: store_ok_def)

text \<open>The operands of a binary operator, with their values.\<close>

definition operands :: "op_sem \<Rightarrow> IRType list \<Rightarrow> IRType \<Rightarrow> store \<Rightarrow> IROp \<Rightarrow> IRExpr \<Rightarrow> IRExpr \<Rightarrow> IRType \<Rightarrow> IRType \<Rightarrow> IRType \<Rightarrow> int \<Rightarrow> int \<Rightarrow> bool" where
  "operands sem tyenv w s op a1 a2 td t1 t2 x y \<longleftrightarrow>
     typeOfPrimop op = Some (td, t1, t2, Ity_INVALID, Ity_INVALID) \<and> Ity_INVALID \<notin> {t1, t2} \<and> isIRAtom a1 \<and> isIRAtom a2 \<and>
     wt tyenv w a1 t1 \<and> wt tyenv w a2 t2 \<and> eval sem s a1 = Some x \<and> eval sem s a2 = Some y \<and> fits t1 x \<and> fits t2 y"

text \<open>A right result for an expression of type \<open>td\<close> and value \<open>v\<close>.\<close>

definition folded :: "op_sem \<Rightarrow> IRType list \<Rightarrow> IRType \<Rightarrow> store \<Rightarrow> IRType \<Rightarrow> int option \<Rightarrow> IRExpr \<Rightarrow> bool" where
  "folded sem tyenv w s td v e \<longleftrightarrow> wt tyenv w e td \<and> isFlat_rhs e = Some True \<and> (\<forall>z. v = Some z \<longrightarrow> eval sem s e = Some z)"

lemma atom_flat: "isIRAtom a \<Longrightarrow> isFlat_rhs a = Some True"
  by (cases a) simp_all

lemma folded_atom: "isIRAtom a \<Longrightarrow> wt tyenv w a td \<Longrightarrow> (\<And>z. v = Some z \<Longrightarrow> eval sem s a = Some z) \<Longrightarrow> folded sem tyenv w s td v a"
  by (simp add: folded_def atom_flat)

lemma folded_const: "typeOfIRConst c = td \<Longrightarrow> (\<And>z. v = Some z \<Longrightarrow> const_val c = z) \<Longrightarrow> folded sem tyenv w s td v (Iex_Const c)"
  by (auto simp: folded_def intro: wt_Const)

lemma folded_binop:
  "operands sem tyenv w s op a1 a2 td t1 t2 x y \<Longrightarrow> v = sem op [x, y] \<Longrightarrow> folded sem tyenv w s td v (Iex_Binop op a1 a2)"
  by (auto simp: folded_def operands_def intro: wt_Binop)

lemma isZeroU_value: "isZeroU a = Some True \<Longrightarrow> eval sem s a = Some x \<Longrightarrow> x = 0"
  unfolding isZeroU_def
  by (auto split: IRExpr.splits elim!: const_isZeroU.elims simp: spread_bytes_0)

lemma isOnesU_value: "isOnesU a = Some True \<Longrightarrow> eval sem s a = Some x \<Longrightarrow> wt tyenv w a ty \<Longrightarrow> x = mask (ty_bits ty)"
  unfolding isOnesU_def
  by (auto split: IRExpr.splits elim!: const_isOnesU.elims wt_ConstE simp: mask_eq_exp_minus_1)

lemma isZeroV_value:
  "isZeroV128 a \<Longrightarrow> eval sem s a = Some x \<Longrightarrow> x = 0" "isZeroV256 a \<Longrightarrow> eval sem s a = Some x \<Longrightarrow> x = 0"
  "isZeroU32_opt a \<Longrightarrow> eval sem s a = Some x \<Longrightarrow> x = 0"
  unfolding isZeroV128_def isZeroV256_def isZeroU32_opt_def
  by (auto split: IRExpr.splits IRConst.splits simp: spread_bytes_0)

definition fold_hyps :: "op_sem \<Rightarrow> IRType list \<Rightarrow> IRType \<Rightarrow> store \<Rightarrow> ir_env \<Rightarrow> bool" where
  "fold_hyps sem tyenv w s env \<longleftrightarrow> store_ok tyenv s \<and> env_wt tyenv w env \<and> env_vals sem s env"

lemma same_value:
  assumes "sameIRExprs env a1 a2 = Some True" "fold_hyps sem tyenv w s env" "operands sem tyenv w s op a1 a2 td t1 t2 x y"
  shows "x = y"
proof -
  have "eval sem s a1 = eval sem s a2"
    using sameIRExprs_eval [OF assms(1)] assms(2) by (simp add: fold_hyps_def)
  with assms(3) show ?thesis by (auto simp: operands_def)
qed

lemma zero_value: "isZeroU a = Some True \<Longrightarrow> operands sem tyenv w s op a1 a2 td t1 t2 x y \<Longrightarrow>
    (a = a1 \<longrightarrow> x = 0) \<and> (a = a2 \<longrightarrow> y = 0)"
  by (auto simp: operands_def dest: isZeroU_value)

lemma ones_value: "isOnesU a = Some True \<Longrightarrow> operands sem tyenv w s op a1 a2 td t1 t2 x y \<Longrightarrow>
    (a = a1 \<longrightarrow> x = mask (ty_bits t1)) \<and> (a = a2 \<longrightarrow> y = mask (ty_bits t2))"
  by (auto simp: operands_def dest: isOnesU_value)

lemma zeroV_value: "isZeroV128 a \<or> isZeroV256 a \<or> isZeroU32_opt a \<Longrightarrow> operands sem tyenv w s op a1 a2 td t1 t2 x y \<Longrightarrow>
    (a = a1 \<longrightarrow> x = 0) \<and> (a = a2 \<longrightarrow> y = 0)"
  by (auto simp: operands_def dest: isZeroV_value)

lemma folded_arg1: "operands sem tyenv w s op a1 a2 td t1 t2 x y \<Longrightarrow> t1 = td \<Longrightarrow> (\<And>z. v = Some z \<Longrightarrow> x = z) \<Longrightarrow>
    folded sem tyenv w s td v a1"
  by (rule folded_atom) (auto simp: operands_def)

lemma folded_arg2: "operands sem tyenv w s op a1 a2 td t1 t2 x y \<Longrightarrow> t2 = td \<Longrightarrow> (\<And>z. v = Some z \<Longrightarrow> y = z) \<Longrightarrow>
    folded sem tyenv w s td v a2"
  by (rule folded_atom) (auto simp: operands_def)

text \<open>What a rule for an operator with meaning \<open>g\<close> and types \<open>td\<close>, \<open>t1\<close>, \<open>t2\<close> needs.\<close>

definition rule_ok :: "op_sem \<Rightarrow> IROp \<Rightarrow> ident_rule \<Rightarrow> bool" where
  "rule_ok sem op rule \<longleftrightarrow> (\<forall>tyenv w s env a1 a2 td t1 t2 x y e.
     fold_hyps sem tyenv w s env \<longrightarrow> operands sem tyenv w s op a1 a2 td t1 t2 x y \<longrightarrow> rule env op a1 a2 = Some e \<longrightarrow>
     folded sem tyenv w s td (sem op [x, y]) e)"

definition laws :: "op_sem \<Rightarrow> IROp \<Rightarrow> IRType \<Rightarrow> IRType \<Rightarrow> IRType \<Rightarrow> (int \<Rightarrow> int \<Rightarrow> int option) \<Rightarrow> bool" where
  "laws sem op t1 t2 td g \<longleftrightarrow> typeOfPrimop op = Some (td, t1, t2, Ity_INVALID, Ity_INVALID) \<and>
     (\<forall>x y. fits t1 x \<longrightarrow> fits t2 y \<longrightarrow> sem op [x, y] = g x y)"

lemma rule_okI:
  assumes "laws sem op t1 t2 td g"
    and "\<And>tyenv w s env a1 a2 x y e. fold_hyps sem tyenv w s env \<Longrightarrow> operands sem tyenv w s op a1 a2 td t1 t2 x y \<Longrightarrow>
      sem op [x, y] = g x y \<Longrightarrow> fits t1 x \<Longrightarrow> fits t2 y \<Longrightarrow> rule env op a1 a2 = Some e \<Longrightarrow> folded sem tyenv w s td (g x y) e"
  shows "rule_ok sem op rule"
  using assms by (fastforce simp: rule_ok_def laws_def operands_def)

lemma bool_bind: "Option.bind r (\<lambda>b. if b then p else q) = Some e \<longleftrightarrow> (r = Some True \<and> p = Some e) \<or> (r = Some False \<and> q = Some e)"
  by (cases r) auto

text \<open>A rule either leaves the expression or returns one of the arguments or a constant, under a test on the values.\<close>

definition left_zero :: "IRType \<Rightarrow> (int \<Rightarrow> int \<Rightarrow> int option) \<Rightarrow> (int \<Rightarrow> int) \<Rightarrow> bool" where
  "left_zero t g f \<longleftrightarrow> (\<forall>y z. fits t y \<longrightarrow> g 0 y = Some z \<longrightarrow> z = f y)"

definition right_zero :: "IRType \<Rightarrow> (int \<Rightarrow> int \<Rightarrow> int option) \<Rightarrow> (int \<Rightarrow> int) \<Rightarrow> bool" where
  "right_zero t g f \<longleftrightarrow> (\<forall>x z. fits t x \<longrightarrow> g x 0 = Some z \<longrightarrow> z = f x)"

definition ones_law :: "IRType \<Rightarrow> (int \<Rightarrow> int \<Rightarrow> int option) \<Rightarrow> (int \<Rightarrow> int) \<Rightarrow> bool" where
  "ones_law t g f \<longleftrightarrow> (\<forall>x z. fits t x \<longrightarrow> (g x (mask (ty_bits t)) = Some z \<or> g (mask (ty_bits t)) x = Some z) \<longrightarrow> z = f x)"

definition diagonal :: "IRType \<Rightarrow> (int \<Rightarrow> int \<Rightarrow> int option) \<Rightarrow> (int \<Rightarrow> int) \<Rightarrow> bool" where
  "diagonal t g f \<longleftrightarrow> (\<forall>x z. fits t x \<longrightarrow> g x x = Some z \<longrightarrow> z = f x)"

lemmas law_defs = left_zero_def right_zero_def ones_law_def diagonal_def

text \<open>A constant made by the rules, if one is made.\<close>

definition makes :: "IRExpr option \<Rightarrow> IRType \<Rightarrow> int \<Rightarrow> bool" where
  "makes r td k \<longleftrightarrow> (\<forall>e. r = Some e \<longrightarrow> (\<exists>c. e = Iex_Const c \<and> typeOfIRConst c = td \<and> const_val c = k))"

definition is0 :: "IRExpr \<Rightarrow> bool" where
  "is0 a \<longleftrightarrow> isZeroU a = Some True \<or> isZeroV128 a \<or> isZeroV256 a \<or> isZeroU32_opt a"

lemma is0_value: "is0 a \<Longrightarrow> operands sem tyenv w s op a1 a2 td t1 t2 x y \<Longrightarrow>
    (a = a1 \<longrightarrow> x = 0) \<and> (a = a2 \<longrightarrow> y = 0)"
  using zero_value [of a sem tyenv w s op a1 a2] zeroV_value [of a sem tyenv w s op a1 a2] unfolding is0_def by meson

lemma operands_fit: "operands sem tyenv w s op a1 a2 td t1 t2 x y \<Longrightarrow> fits t1 x \<and> fits t2 y"
  by (simp add: operands_def)

lemma outcome_zero:
  assumes ops: "operands sem tyenv w s op a1 a2 td t1 t2 x y"
  shows "right_zero t1 g (\<lambda>x. x) \<Longrightarrow> t1 = td \<Longrightarrow> is0 a2 \<Longrightarrow> folded sem tyenv w s td (g x y) a1"
    and "left_zero t2 g (\<lambda>y. y) \<Longrightarrow> t2 = td \<Longrightarrow> is0 a1 \<Longrightarrow> folded sem tyenv w s td (g x y) a2"
    and "left_zero t2 g (\<lambda>y. 0) \<Longrightarrow> t1 = td \<Longrightarrow> is0 a1 \<Longrightarrow> folded sem tyenv w s td (g x y) a1"
    and "right_zero t1 g (\<lambda>x. 0) \<Longrightarrow> t2 = td \<Longrightarrow> is0 a2 \<Longrightarrow> folded sem tyenv w s td (g x y) a2"
    and "left_zero t2 g (\<lambda>_. k) \<Longrightarrow> is0 a1 \<Longrightarrow> makes r td k \<Longrightarrow> r = Some e \<Longrightarrow> folded sem tyenv w s td (g x y) e"
    and "right_zero t1 g (\<lambda>_. k) \<Longrightarrow> is0 a2 \<Longrightarrow> makes r td k \<Longrightarrow> r = Some e \<Longrightarrow> folded sem tyenv w s td (g x y) e"
  using operands_fit [OF ops] is0_value [OF _ ops]
  by (auto simp: law_defs makes_def intro!: folded_arg1 [OF ops] folded_arg2 [OF ops] folded_const)

lemma outcome_ones:
  assumes ops: "operands sem tyenv w s op a1 a2 td td td x y"
  shows "ones_law td g (\<lambda>x. x) \<Longrightarrow> isOnesU a2 = Some True \<Longrightarrow> folded sem tyenv w s td (g x y) a1"
    and "ones_law td g (\<lambda>x. x) \<Longrightarrow> isOnesU a1 = Some True \<Longrightarrow> folded sem tyenv w s td (g x y) a2"
    and "ones_law td g (\<lambda>_. k) \<Longrightarrow> isOnesU a2 = Some True \<or> isOnesU a1 = Some True \<Longrightarrow> makes r td k \<Longrightarrow> r = Some e \<Longrightarrow>
      folded sem tyenv w s td (g x y) e"
  using operands_fit [OF ops] ones_value [OF _ ops]
  by (auto simp: law_defs makes_def intro!: folded_arg1 [OF ops] folded_arg2 [OF ops] folded_const)

lemma outcome_same:
  assumes hyps: "fold_hyps sem tyenv w s env" and ops: "operands sem tyenv w s op a1 a2 td t1 t2 x y"
  shows "diagonal t1 g (\<lambda>x. x) \<Longrightarrow> t1 = td \<Longrightarrow> sameIRExprs env a1 a2 = Some True \<Longrightarrow> folded sem tyenv w s td (g x y) a1"
    and "diagonal t1 g (\<lambda>_. k) \<Longrightarrow> sameIRExprs env a1 a2 = Some True \<Longrightarrow> makes r td k \<Longrightarrow> r = Some e \<Longrightarrow>
      folded sem tyenv w s td (g x y) e"
  using operands_fit [OF ops] same_value [OF _ hyps ops]
  by (auto simp: law_defs makes_def intro!: folded_arg1 [OF ops] folded_const)

lemma is0I: "isZeroU a = Some True \<Longrightarrow> is0 a" "isZeroV128 a \<Longrightarrow> is0 a" "isZeroV256 a \<Longrightarrow> is0 a" "isZeroU32_opt a \<Longrightarrow> is0 a"
  by (auto simp: is0_def)

lemma rule_shift_both:
  assumes "laws sem op t Ity_I8 t g" "right_zero t g (\<lambda>x. x)" "left_zero Ity_I8 g (\<lambda>y. 0)"
  shows "rule_ok sem op ident_shift_both"
  using assms(1)
proof (rule rule_okI)
  fix tyenv w s env a1 a2 x y e
  assume ops: "operands sem tyenv w s op a1 a2 t t Ity_I8 x y" and "sem op [x, y] = g x y"
    and "ident_shift_both env op a1 a2 = Some e"
  then show "folded sem tyenv w s t (g x y) e"
    using outcome_zero(1,3) [OF ops, of g] assms(2,3) folded_binop [OF ops]
    by (auto simp: ident_shift_both_def bool_bind is0I)
qed

lemma rule_shift_right:
  assumes "laws sem op t Ity_I8 t g" "right_zero t g (\<lambda>x. x)"
  shows "rule_ok sem op ident_shift_right"
  using assms(1)
proof (rule rule_okI)
  fix tyenv w s env a1 a2 x y e
  assume ops: "operands sem tyenv w s op a1 a2 t t Ity_I8 x y" and "sem op [x, y] = g x y"
    and "ident_shift_right env op a1 a2 = Some e"
  then show "folded sem tyenv w s t (g x y) e"
    using outcome_zero(1) [OF ops, of g] assms(2) folded_binop [OF ops]
    by (auto simp: ident_shift_right_def bool_bind is0I)
qed

lemma rule_or:
  assumes "laws sem op t t t g" "right_zero t g (\<lambda>x. x)" "left_zero t g (\<lambda>x. x)" "ones_law t g (\<lambda>_. mask (ty_bits t))" "diagonal t g (\<lambda>x. x)"
    "makes (mkOnesOfPrimopResultType op) t (mask (ty_bits t))"
  shows "rule_ok sem op ident_or"
  using assms(1)
proof (rule rule_okI)
  fix tyenv w s env a1 a2 x y e
  assume hyps: "fold_hyps sem tyenv w s env" and ops: "operands sem tyenv w s op a1 a2 t t t x y"
    and "sem op [x, y] = g x y" "ident_or env op a1 a2 = Some e"
  then show "folded sem tyenv w s t (g x y) e"
    using outcome_zero(1,2) [OF ops, of g] outcome_ones(3) [OF ops assms(4) _ assms(6)] outcome_same(1) [OF hyps ops, of g] assms(2-5)
      folded_binop [OF ops]
    by (auto simp: ident_or_def bool_bind is0I bind_eq_Some_conv split: if_splits)
qed

lemma rule_and:
  assumes "laws sem op t t t g" "right_zero t g (\<lambda>x. 0)" "left_zero t g (\<lambda>x. 0)" "ones_law t g (\<lambda>x. x)" "diagonal t g (\<lambda>x. x)"
  shows "rule_ok sem op ident_and"
  using assms(1)
proof (rule rule_okI)
  fix tyenv w s env a1 a2 x y e
  assume hyps: "fold_hyps sem tyenv w s env" and ops: "operands sem tyenv w s op a1 a2 t t t x y"
    and "sem op [x, y] = g x y" "ident_and env op a1 a2 = Some e"
  then show "folded sem tyenv w s t (g x y) e"
    using outcome_zero(3,4) [OF ops, of g] outcome_ones(1,2) [OF ops assms(4)] outcome_same(1) [OF hyps ops, of g] assms(2-5)
      folded_binop [OF ops]
    by (auto simp: ident_and_def bool_bind is0I)
qed

lemma rule_sub:
  assumes "laws sem op t t t g" "right_zero t g (\<lambda>x. x)" "diagonal t g (\<lambda>_. 0)" "makes (mkZeroOfPrimopResultType op) t 0"
  shows "rule_ok sem op ident_sub"
  using assms(1)
proof (rule rule_okI)
  fix tyenv w s env a1 a2 x y e
  assume hyps: "fold_hyps sem tyenv w s env" and ops: "operands sem tyenv w s op a1 a2 t t t x y"
    and "sem op [x, y] = g x y" "ident_sub env op a1 a2 = Some e"
  then show "folded sem tyenv w s t (g x y) e"
    using outcome_zero(1) [OF ops, of g] outcome_same(2) [OF hyps ops assms(3) _ assms(4)] assms(2) folded_binop [OF ops]
    by (auto simp: ident_sub_def bool_bind is0I)
qed

lemma rule_sub8x16:
  assumes "laws sem op t t t g" "right_zero t g (\<lambda>x. x)"
  shows "rule_ok sem op ident_sub8x16"
  using assms(1)
proof (rule rule_okI)
  fix tyenv w s env a1 a2 x y e
  assume ops: "operands sem tyenv w s op a1 a2 t t t x y"
    and "sem op [x, y] = g x y" "ident_sub8x16 env op a1 a2 = Some e"
  then show "folded sem tyenv w s t (g x y) e"
    using outcome_zero(1) [OF ops, of g] assms(2) folded_binop [OF ops]
    by (auto simp: ident_sub8x16_def is0I split: if_splits)
qed

lemma rule_andV:
  assumes "laws sem op t t t g" "right_zero t g (\<lambda>x. 0)" "left_zero t g (\<lambda>x. 0)" "diagonal t g (\<lambda>x. x)"
    "makes (mkZeroOfPrimopResultType op) t 0"
  shows "rule_ok sem op ident_andV"
  using assms(1)
proof (rule rule_okI)
  fix tyenv w s env a1 a2 x y e
  assume hyps: "fold_hyps sem tyenv w s env" and ops: "operands sem tyenv w s op a1 a2 t t t x y"
    and "sem op [x, y] = g x y" "ident_andV env op a1 a2 = Some e"
  then show "folded sem tyenv w s t (g x y) e"
    using outcome_zero(5) [OF ops assms(3) _ assms(5)] outcome_zero(6) [OF ops assms(2) _ assms(5)]
      outcome_same(1) [OF hyps ops assms(4)] folded_binop [OF ops]
    by (auto simp: ident_andV_def bool_bind is0I split: if_splits)
qed

lemma rule_orV:
  assumes "laws sem op t t t g" "right_zero t g (\<lambda>x. x)" "left_zero t g (\<lambda>x. x)" "diagonal t g (\<lambda>x. x)"
  shows "rule_ok sem op ident_orV"
  using assms(1)
proof (rule rule_okI)
  fix tyenv w s env a1 a2 x y e
  assume hyps: "fold_hyps sem tyenv w s env" and ops: "operands sem tyenv w s op a1 a2 t t t x y"
    and "sem op [x, y] = g x y" "ident_orV env op a1 a2 = Some e"
  then show "folded sem tyenv w s t (g x y) e"
    using outcome_zero(1,2) [OF ops, of g] assms(2,3) outcome_same(1) [OF hyps ops assms(4)] folded_binop [OF ops]
    by (auto simp: ident_orV_def bool_bind is0I split: if_splits)
qed

lemma rule_xor:
  assumes "laws sem op t t t g" "right_zero t g (\<lambda>x. x)" "left_zero t g (\<lambda>x. x)" "diagonal t g (\<lambda>x. 0)"
    "makes (mkZeroOfPrimopResultType op) t 0"
  shows "rule_ok sem op ident_xor"
  using assms(1)
proof (rule rule_okI)
  fix tyenv w s env a1 a2 x y e
  assume hyps: "fold_hyps sem tyenv w s env" and ops: "operands sem tyenv w s op a1 a2 t t t x y"
    and "sem op [x, y] = g x y" "ident_xor env op a1 a2 = Some e"
  then show "folded sem tyenv w s t (g x y) e"
    using outcome_zero(1,2) [OF ops, of g] assms(2,3) outcome_same(2) [OF hyps ops assms(4) _ assms(5)] folded_binop [OF ops]
    by (auto simp: ident_xor_def bool_bind is0I split: if_splits)
qed

lemma rule_cmpEQ:
  assumes "laws sem op t t td g" "diagonal t g (\<lambda>_. mask (ty_bits td))" "makes (mkOnesOfPrimopResultType op) td (mask (ty_bits td))"
  shows "rule_ok sem op ident_cmpEQ"
  using assms(1)
proof (rule rule_okI)
  fix tyenv w s env a1 a2 x y e
  assume hyps: "fold_hyps sem tyenv w s env" and ops: "operands sem tyenv w s op a1 a2 td t t x y"
    and "sem op [x, y] = g x y" "ident_cmpEQ env op a1 a2 = Some e"
  then show "folded sem tyenv w s td (g x y) e"
    using outcome_same(2) [OF hyps ops assms(2) _ assms(3)] folded_binop [OF ops]
    by (auto simp: ident_cmpEQ_def bool_bind)
qed

text \<open>Doubling is a shift.\<close>

lemma folded_double:
  assumes ops: "operands sem tyenv w s op a1 a2 t t t x x" and shl: "laws sem shl t Ity_I8 t h" and t: "t \<noteq> Ity_INVALID"
    and eq: "\<And>z. g x x = Some z \<Longrightarrow> h x 1 = Some z"
  shows "folded sem tyenv w s t (g x x) (Iex_Binop shl a1 (Iex_Const (Ico_U8 1)))"
proof -
  have "fits Ity_I8 1" by (simp add: fits_def)
  with ops shl eq t show ?thesis
    by (auto simp: folded_def operands_def laws_def intro: wt_Binop wt_Const [of _ _ "Ico_U8 1", simplified])
qed

lemma rule_add8:
  assumes "laws sem Iop_Add8 t t t g" "laws sem Iop_Shl8 t Ity_I8 t h" "t \<noteq> Ity_INVALID" "\<And>x z. g x x = Some z \<Longrightarrow> h x 1 = Some z"
  shows "rule_ok sem Iop_Add8 ident_add8"
  using assms(1)
proof (rule rule_okI)
  fix tyenv w s env a1 a2 x y e
  assume hyps: "fold_hyps sem tyenv w s env" and ops: "operands sem tyenv w s Iop_Add8 a1 a2 t t t x y"
    and "sem Iop_Add8 [x, y] = g x y" "ident_add8 env Iop_Add8 a1 a2 = Some e"
  then show "folded sem tyenv w s t (g x y) e"
    using same_value [OF _ hyps ops] folded_double [OF _ assms(2,3,4), of tyenv w s Iop_Add8 a1 a2 x g] folded_binop [OF ops] ops
    by (auto simp: ident_add8_def bool_bind)
qed

lemma rule_add:
  assumes "laws sem op t t t g" "laws sem (if op = Iop_Add32 then Iop_Shl32 else Iop_Shl64) t Ity_I8 t h" "t \<noteq> Ity_INVALID"
    "\<And>x z. g x x = Some z \<Longrightarrow> h x 1 = Some z" "right_zero t g (\<lambda>x. x)" "left_zero t g (\<lambda>x. x)"
  shows "rule_ok sem op ident_add"
  using assms(1)
proof (rule rule_okI)
  fix tyenv w s env a1 a2 x y e
  assume hyps: "fold_hyps sem tyenv w s env" and ops: "operands sem tyenv w s op a1 a2 t t t x y"
    and *: "sem op [x, y] = g x y" "ident_add env op a1 a2 = Some e"
  define shl where "shl = (if op = Iop_Add32 then Iop_Shl32 else Iop_Shl64)"
  have "sameIRExprs env a1 a2 = Some True \<Longrightarrow> folded sem tyenv w s t (g x y) (Iex_Binop shl a1 (Iex_Const (Ico_U8 1)))"
    using same_value [OF _ hyps ops] folded_double [OF _ assms(2,3,4), of tyenv w s op a1 a2 x g] ops by (auto simp: shl_def)
  with * show "folded sem tyenv w s t (g x y) e"
    using outcome_zero(1,2) [OF ops, of g] assms(5,6) folded_binop [OF ops]
    by (auto simp: ident_add_def bool_bind is0I shl_def)
qed

lemma ident_cmpNE32_cases:
  assumes "ident_cmpNE32 env op a1 a2 = Some e"
  shows "sameIRExprs env a1 a2 = Some True \<and> mkZeroOfPrimopResultType op = Some e \<or> e = Iex_Binop op a1 a2 \<or>
    isZeroU32_opt a2 \<and> chase env a1 = Some (Some (Iex_Unop Iop_1Uto32 e))"
proof (cases "sameIRExprs env a1 a2 = Some False \<and> isZeroU32_opt a2")
  case True
  with assms obtain r where r: "chase env a1 = Some r"
    and e: "(case r of Some (Iex_Unop uop arg) \<Rightarrow> if uop = Iop_1Uto32 then Some arg else Some (Iex_Binop op a1 a2)
      | _ \<Rightarrow> Some (Iex_Binop op a1 a2)) = Some e"
    by (auto simp: ident_cmpNE32_def bind_eq_Some_conv)
  show ?thesis
  proof (cases r)
    case (Some x)
    with True r e show ?thesis by (cases x) (auto split: if_splits)
  qed (use e in simp)
qed (use assms in \<open>auto simp: ident_cmpNE32_def bool_bind split: if_splits\<close>)

lemma rule_cmpNE32:
  assumes "laws sem Iop_CmpNE32 Ity_I32 Ity_I32 Ity_I1 g" "diagonal Ity_I32 g (\<lambda>_. 0)" "\<And>x. g x 0 = Some (of_bool (x \<noteq> 0))"
    "\<And>x. sem Iop_1Uto32 [x] = Some x"
  shows "rule_ok sem Iop_CmpNE32 ident_cmpNE32"
  using assms(1)
proof (rule rule_okI)
  fix tyenv w s env a1 a2 x y e
  assume hyps: "fold_hyps sem tyenv w s env" and ops: "operands sem tyenv w s Iop_CmpNE32 a1 a2 Ity_I1 Ity_I32 Ity_I32 x y"
    and *: "sem Iop_CmpNE32 [x, y] = g x y" "ident_cmpNE32 env Iop_CmpNE32 a1 a2 = Some e"
  have zero: "makes (mkZeroOfPrimopResultType Iop_CmpNE32) Ity_I1 0"
    using zero_rules by (simp add: makes_def mkZeroOfPrimopResultType_def)
  have widened: "folded sem tyenv w s Ity_I1 (g x y) arg"
    if c: "chase env a1 = Some (Some (Iex_Unop Iop_1Uto32 arg))" and z: "isZeroU32_opt a2" for arg
  proof -
    have y: "y = 0" using is0_value [OF is0I(4) [OF z] ops] by simp
    have "wt tyenv w (Iex_Unop Iop_1Uto32 arg) Ity_I32 \<and> isFlat_rhs (Iex_Unop Iop_1Uto32 arg) = Some True \<and>
        eval sem s (Iex_Unop Iop_1Uto32 arg) = Some x"
      using chase_result [OF c, of tyenv w sem s Ity_I32] hyps ops by (simp add: fold_hyps_def operands_def atom_flat)
    then have arg: "isIRAtom arg" "wt tyenv w arg Ity_I1" "eval sem s arg = Some x"
      by (auto elim!: wt_UnopE simp: UNARY_def assms(4) bind_eq_Some_conv)
    moreover from atom_value [OF arg(1,2), of s sem] arg(3) hyps have "fits Ity_I1 x"
      by (auto simp: fold_hyps_def)
    then have "of_bool (x \<noteq> 0) = x"
      by (auto simp: fits_def take_bit_eq_mod)
    ultimately show ?thesis
      unfolding y assms(3) by (intro folded_atom) auto
  qed
  show "folded sem tyenv w s Ity_I1 (g x y) e"
    using ident_cmpNE32_cases [OF *(2)]
  proof (elim disjE conjE)
    assume "e = Iex_Binop Iop_CmpNE32 a1 a2"
    with folded_binop [OF ops] *(1) show ?thesis by simp
  qed (use outcome_same(2) [OF hyps ops assms(2) _ zero] widened in auto)
qed

section \<open>The laws of the operators\<close>

lemma fits_bounds: "fits t x \<Longrightarrow> 0 \<le> x \<and> x \<le> mask (ty_bits t)"
  using take_bit_nonnegative [of "ty_bits t" x] take_bit_int_less_exp [of "ty_bits t" x] by (auto simp: fits_def mask_eq_exp_minus_1)

lemma fits_ones: "take_bit n x = x \<Longrightarrow> x OR mask n = mask n \<and> mask n OR x = mask n \<and> x AND mask n = x \<and> mask n AND x = x" for x :: int
  by (metis and.commute or.commute bit.disj_one_right take_bit_eq_mask take_bit_minus_one_eq_mask take_bit_or)

lemma fits_max: "fits t x \<Longrightarrow> max x (mask (ty_bits t)) = mask (ty_bits t) \<and> max (mask (ty_bits t)) x = mask (ty_bits t) \<and> max x 0 = x \<and> max 0 x = x"
  using fits_bounds [of t x] by auto

lemma mask_split: "mask ((k :: nat) + n) = (mask k OR push_bit k (mask n) :: int)"
  by (rule bit_eqI) (auto simp: bit_simps)

lemma lanes2_eq: "lanes2 w k (eq_lane w) x x = mask (k * w)"
  by (induction k arbitrary: x) (simp_all add: eq_lane_def mask_split)

lemma take_bit_split: "take_bit (w + n) x = take_bit w x OR push_bit w (take_bit n (drop_bit w x))" for x :: int
  by (rule bit_eqI) (auto simp: bit_simps)

lemma lanes2_minus_0: "lanes2 w k (-) x 0 = take_bit (k * w) x"
  by (induction k arbitrary: x) (simp_all add: take_bit_split)

lemma spread_bytes_ones: "spread_bytes 16 65535 = mask 128"
proof (rule bit_eqI)
  fix i
  have m: "(65535 :: int) = mask 16" by (simp add: mask_eq_exp_minus_1)
  show "bit (spread_bytes 16 65535) i = bit (mask 128 :: int) i"
    unfolding m bit_spread_bytes bit_mask_iff by auto
qed

lemma spread_bytes_mask: "spread_bytes 16 (mask 16) = mask 128"
  using spread_bytes_ones by (simp add: mask_eq_exp_minus_1)

locale fold_sem = ir_sem sem for sem +
  assumes sem_vec: "switch vec_cases op = Some g \<Longrightarrow> typeOfPrimop op = Some (td, t1, t2, Ity_INVALID, Ity_INVALID) \<Longrightarrow>
    fits t1 x \<Longrightarrow> fits t2 y \<Longrightarrow> sem op [x, y] = Some (g x y)"
begin

lemma laws_sem: "typeOfPrimop op = Some (td, t1, t2, Ity_INVALID, Ity_INVALID) \<Longrightarrow> switch sem2_cases op = Some g \<Longrightarrow>
    laws sem op t1 t2 td g"
  by (simp add: laws_def sem_binop_eq)

lemma laws_vec: "typeOfPrimop op = Some (td, t1, t2, Ity_INVALID, Ity_INVALID) \<Longrightarrow> switch vec_cases op = Some g \<Longrightarrow>
    laws sem op t1 t2 td (\<lambda>x y. Some (g x y))"
  by (simp add: laws_def sem_vec)

lemma sem_1Uto32: "sem Iop_1Uto32 [x] = Some x"
  using sem_unop_eq [of Iop_1Uto32 zext x] by (simp add: zext_def)

lemmas ident_simps = law_defs sem_defs fits_def fits_ones makes_def mkOnesOfPrimopResultType_def mkZeroOfPrimopResultType_def
  full_mask unsigned_minus_1_eq_mask spread_bytes_0 spread_bytes_mask lanes2_eq lanes2_minus_0

lemma double_shift: "add_w n x x = Some z \<Longrightarrow> 1 < n \<Longrightarrow> shl_w n x 1 = Some z"
  by (simp add: add_w_def shl_w_def push_bit_eq_mult mult_2_right)

lemma rules_add8: "rule_ok sem Iop_Add8 ident_add8"
  by (rule rule_add8 [OF laws_sem laws_sem], simp add: prim_type_defs, simp only: sem_rules, simp add: prim_type_defs, simp only: sem_rules)
    (simp_all add: double_shift)

lemma rules_add: "rule_ok sem Iop_Add32 ident_add" "rule_ok sem Iop_Add64 ident_add"
  by (rule rule_add [OF laws_sem laws_sem], simp add: prim_type_defs, simp only: sem_rules, simp add: prim_type_defs,
      simp only: sem_rules if_True if_False simp_thms arith_simps rel_simps, simp, rule double_shift, assumption, simp;
      simp add: ident_simps)+

lemma rules_cmpNE32: "rule_ok sem Iop_CmpNE32 ident_cmpNE32"
  by (rule rule_cmpNE32 [OF laws_sem], simp add: prim_type_defs, simp only: sem_rules)
    (simp_all add: ident_simps sem_1Uto32)

lemma ones_Max32U: "switch ones_cases Iop_Max32U = None"
  by (simp add: switch_None ones_cases_def)

lemma max_32: "take_bit 32 x = x \<Longrightarrow> max x (mask 32) = mask 32 \<and> max (mask 32) x = mask 32 \<and> max x 0 = x \<and> max 0 x = x" for x :: int
  using fits_max [of Ity_I32 x] by (simp add: fits_def)

text \<open>Every rule of the table is right.\<close>

lemma rules_ok: "switch_all (rule_ok sem) fold_ident_cases"
  unfolding fold_ident_cases_def switch_all_unfold
  by (intro conjI;
    ((rule rule_shift_both [OF laws_sem] rule_shift_right [OF laws_sem] rule_or [OF laws_sem] rule_sub [OF laws_sem] rule_and [OF laws_sem]
      rule_andV [OF laws_sem] rule_orV [OF laws_sem] rule_xor [OF laws_sem] rule_cmpEQ [OF laws_sem],
      simp add: prim_type_defs, simp only: sem_rules)
     | (rule rule_sub8x16 [OF laws_vec] rule_cmpEQ [OF laws_vec], simp add: prim_type_defs, simp only: vec_rules)
     | rule rules_add8 rules_add rules_cmpNE32))
    (simp_all add: ident_simps zero_rules ones_rules ones_Max32U max_32 take_bit_signed_take_bit)

lemma folded_result:
  assumes "good_result td v r" "map_option (\<lambda>r. case r of None \<Rightarrow> e | Some c' \<Rightarrow> Iex_Const c') r = Some e'" "folded sem tyenv w s td v e"
  shows "folded sem tyenv w s td v e'"
proof -
  obtain r' where r': "r = Some r'" "\<And>c. r' = Some c \<Longrightarrow> good_const td v c"
    using assms(1) by (auto simp: good_result_def)
  show ?thesis
    using assms(2,3) r' by (cases r') (auto simp: good_const_def intro: folded_const)
qed

lemma fold_Unop_folded:
  assumes "wt tyenv w (Iex_Unop op (Iex_Const c)) ty" "switch fold_unop_cases op = Some f"
  shows "good_result ty (sem op [const_val c]) (f c)"
proof -
  from switch_allD [OF unop_folds_all assms(2)] obtain td ta g where
    g: "typeOfPrimop op = Some (td, ta, Ity_INVALID, Ity_INVALID, Ity_INVALID)" "switch sem1_cases op = Some g" "unop_folds_at ta td g f"
    by (auto simp: unop_folds_def)
  from assms(1) g(1) have "ty = td" "typeOfIRConst c = ta"
    by (auto elim!: wt_UnopE wt_ConstE)
  with g(3) sem_unop_eq [OF g(2)] show ?thesis
    by (simp add: unop_folds_at_def)
qed

lemma laws_ext:
  assumes "typeOfPrimop op = Some (td, t1, t2, Ity_INVALID, Ity_INVALID)" "sem_ext op = Some g"
  shows "laws sem op t1 t2 td g"
  using assms laws_sem laws_vec by (auto simp: sem_ext_def split: option.splits)

lemma fold_Binop_folded:
  assumes "wt tyenv w (Iex_Binop op (Iex_Const c1) (Iex_Const c2)) ty" "switch fold_binop_cases op = Some f"
  shows "good_result ty (sem op [const_val c1, const_val c2]) (f c1 c2)"
proof -
  from switch_allD [OF binop_folds_all assms(2)] obtain td t1 t2 g where
    g: "typeOfPrimop op = Some (td, t1, t2, Ity_INVALID, Ity_INVALID)" "sem_ext op = Some g" "binop_folds_at t1 t2 td g f"
    by (auto simp: binop_folds_def)
  from assms(1) g(1) have t: "ty = td" "typeOfIRConst c1 = t1" "typeOfIRConst c2 = t2"
    by (auto elim!: wt_BinopE wt_ConstE)
  with const_val_fits [of c1] const_val_fits [of c2] laws_ext [OF g(1,2)] have "sem op [const_val c1, const_val c2] = g (const_val c1) (const_val c2)"
    by (simp add: laws_def)
  with g(3) t show ?thesis
    by (simp add: binop_folds_at_def)
qed

lemma wt_Binop_operands:
  assumes "wt tyenv w (Iex_Binop op a1 a2) ty" "isIRAtom a1" "isIRAtom a2" "store_ok tyenv s"
  shows "\<exists>t1 t2 x y. operands sem tyenv w s op a1 a2 ty t1 t2 x y"
proof -
  obtain t1 t2 where t: "typeOfPrimop op = Some (ty, t1, t2, Ity_INVALID, Ity_INVALID)" "Ity_INVALID \<notin> {t1, t2}" "wt tyenv w a1 t1" "wt tyenv w a2 t2"
    using assms(1) by (auto elim!: wt_BinopE)
  from atom_value [OF assms(2) t(3) assms(4), of sem] atom_value [OF assms(3) t(4) assms(4), of sem] t assms(2,3) show ?thesis
    by (auto simp: operands_def)
qed

lemma fold_ident_folded:
  assumes "fold_hyps sem tyenv w s env" "wt tyenv w (Iex_Binop op a1 a2) ty" "isIRAtom a1" "isIRAtom a2"
    "switch fold_ident_cases op = Some rule" "rule env op a1 a2 = Some e'"
  shows "folded sem tyenv w s ty (eval sem s (Iex_Binop op a1 a2)) e'"
proof -
  obtain t1 t2 x y where ops: "operands sem tyenv w s op a1 a2 ty t1 t2 x y"
    using wt_Binop_operands [OF assms(2-4), of s] assms(1) unfolding fold_hyps_def by blast
  with switch_allD [OF rules_ok assms(5)] assms(1,6) have "folded sem tyenv w s ty (sem op [x, y]) e'"
    by (simp add: rule_ok_def)
  with ops show ?thesis by (simp add: operands_def)
qed

text \<open>Folding preserves type, flatness and value.\<close>

lemma fold_Expr_folded:
  assumes "fold_hyps sem tyenv w s env" "wt tyenv w e ty" "isFlat_rhs e = Some True" "fold_Expr env e = Some e'"
  shows "folded sem tyenv w s ty (eval sem s e) e'"
proof -
  have same: "folded sem tyenv w s ty (eval sem s e) e"
    using assms(2,3) by (simp add: folded_def)
  then have unchanged: ?thesis if "fold_Expr env e = Some e"
    using that assms(4) by simp
  show ?thesis
  proof (cases e)
    case (Iex_Unop op a)
    show ?thesis
    proof (cases "\<exists>c f. a = Iex_Const c \<and> switch fold_unop_cases op = Some f")
      case True
      then obtain c f where a: "a = Iex_Const c" and f: "switch fold_unop_cases op = Some f" by blast
      have v: "eval sem s e = sem op [const_val c]" by (simp add: Iex_Unop a)
      have "map_option (\<lambda>r. case r of None \<Rightarrow> e | Some c' \<Rightarrow> Iex_Const c') (f c) = Some e'"
        using assms(4) f unfolding fold_Expr_def Iex_Unop a by simp
      from folded_result [OF fold_Unop_folded [OF assms(2) [unfolded Iex_Unop a] f] this] same show ?thesis
        unfolding v by blast
    next
      case False
      with assms(4) have "e' = e" by (cases a) (auto simp: Iex_Unop fold_Expr_def split: option.splits)
      with same show ?thesis by simp
    qed
  next
    case (Iex_Binop op a1 a2)
    show ?thesis
    proof (cases "\<exists>c1 c2. a1 = Iex_Const c1 \<and> a2 = Iex_Const c2")
      case True
      then obtain c1 c2 where c: "a1 = Iex_Const c1" "a2 = Iex_Const c2" by blast
      show ?thesis
      proof (cases "switch fold_binop_cases op")
        case None
        with assms(4) c have "e' = e" by (simp add: Iex_Binop fold_Expr_def)
        with same show ?thesis by simp
      next
        case (Some f)
        have v: "eval sem s e = sem op [const_val c1, const_val c2]" by (simp add: Iex_Binop c)
        have "map_option (\<lambda>r. case r of None \<Rightarrow> e | Some c' \<Rightarrow> Iex_Const c') (f c1 c2) = Some e'"
          using assms(4) Some unfolding fold_Expr_def Iex_Binop c by simp
        from folded_result [OF fold_Binop_folded [OF assms(2) [unfolded Iex_Binop c] Some] this] same show ?thesis
          unfolding v by blast
      qed
    next
      case False
      then have e': "(case switch fold_ident_cases op of None \<Rightarrow> Some (Iex_Binop op a1 a2) | Some rule \<Rightarrow> rule env op a1 a2) = Some e'"
        using assms(4) by (cases a1; cases a2) (auto simp: Iex_Binop fold_Expr_def)
      show ?thesis
      proof (cases "switch fold_ident_cases op")
        case None
        with e' same show ?thesis by (simp add: Iex_Binop)
      next
        case (Some rule)
        with fold_ident_folded [OF assms(1), of op a1 a2 ty rule e'] e' assms(2,3) show ?thesis
          by (simp add: Iex_Binop)
      qed
    qed
  next
    case (Iex_ITE c t f)
    then have atoms: "isIRAtom c" "isIRAtom t" "isIRAtom f" and wts: "wt tyenv w c Ity_I1" "wt tyenv w t ty" "wt tyenv w f ty"
      using assms(2,3) by (auto elim!: wt_ITEE)
    show ?thesis
    proof (cases "\<exists>k. c = Iex_Const k")
      case True
      then obtain b where "c = Iex_Const (Ico_U1 b)"
        using wts(1) by (metis const_of_U1 wt_ConstE)
      with assms(4) atoms wts show ?thesis
        by (auto simp: Iex_ITE fold_Expr_def bind_eq_Some_conv intro!: folded_atom split: if_splits)
    next
      case False
      then have "Option.bind (sameIRExprs env t f) (\<lambda>same. if same then Some f else Some (Iex_ITE c t f)) = Some e'"
        using assms(4) by (cases c) (auto simp: Iex_ITE fold_Expr_def)
      then consider "sameIRExprs env t f = Some True" "e' = f" | "e' = e"
        by (auto simp: bool_bind Iex_ITE)
      then show ?thesis
      proof cases
        case 1
        then have "eval sem s t = eval sem s f"
          using sameIRExprs_eval assms(1) by (auto simp: fold_hyps_def)
        with 1 atoms wts show ?thesis
          by (auto simp: Iex_ITE bind_eq_Some_conv intro!: folded_atom)
      qed (use same in simp)
    qed
  qed (rule unchanged, simp add: fold_Expr_def)+
qed

end

section \<open>The folder and the hosts\<close>

text \<open>The operators as the hosts compute them, with the 128-bit vector instructions the folder knows after their
  description.\<close>

definition host_vec :: op_sem where
  "host_vec op xs = (case xs of
       [x, y] \<Rightarrow> (if op = Iop_CmpEQ8x8 then host_prim op xs
                 else case switch vec_cases op of Some g \<Rightarrow> Some (g x y) | None \<Rightarrow> host_prim op xs)
     | _ \<Rightarrow> host_prim op xs)"

lemma lane_lanes2: "lane w i (lanes2 w k f x y) = (if i < k then take_bit w (f (lane w i x) (lane w i y)) else 0)"
proof (induction k arbitrary: i x y)
  case (Suc k)
  show ?case
  proof (cases i)
    case 0
    show ?thesis unfolding 0
      by (rule bit_eqI) (auto simp: lane_def bit_simps)
  next
    case (Suc j)
    have drop: "lane w j (drop_bit w z) = lane w (Suc j) z" for z
      by (simp add: lane_def algebra_simps)
    have "lane w (Suc j) (lanes2 w (Suc k) f x y) = lane w j (lanes2 w k f (drop_bit w x) (drop_bit w y))"
      by (rule bit_eqI) (auto simp: lane_def bit_simps algebra_simps)
    with Suc.IH [of j "drop_bit w x" "drop_bit w y"] show ?thesis
      unfolding Suc by (simp add: drop)
  qed
qed (simp add: lane_def)

lemma lanes_eqI:
  assumes "take_bit (w * k) x = x" "take_bit (w * k) y = y" "0 < w" "\<And>i. i < k \<Longrightarrow> lane w i x = lane w i y"
  shows "x = (y :: int)"
proof (rule bit_eqI)
  fix m
  show "bit x m = bit y m"
  proof (cases "m < w * k")
    case True
    then have "m div w < k" using assms(3) by (simp add: div_less_iff_less_mult mult.commute)
    from assms(4) [OF this] have "bit (lane w (m div w) x) (m mod w) = bit (lane w (m div w) y) (m mod w)" by simp
    with assms(3) show ?thesis by (simp add: lane_def bit_simps)
  next
    case False
    with assms(1,2) show ?thesis by (metis bit_take_bit_iff)
  qed
qed

lemma bit_lanes2: "bit (lanes2 w k f x y) m \<Longrightarrow> m < w * k"
proof (induction k arbitrary: x y m)
  case (Suc k)
  show ?case
  proof (cases "m < w")
    case False
    with Suc.prems have "bit (lanes2 w k f (drop_bit w x) (drop_bit w y)) (m - w)" by (simp add: bit_simps)
    from Suc.IH [OF this] False show ?thesis by simp
  qed simp
qed simp

lemma lanes2_fits: "take_bit (w * k) (lanes2 w k f x y) = lanes2 w k f x y"
  by (rule bit_eqI) (auto simp: bit_simps dest: bit_lanes2)

lemma host_CmpEQ8x8:
  assumes "fits Ity_I64 x" "fits Ity_I64 y"
  shows "host_prim Iop_CmpEQ8x8 [x, y] = Some (lanes2 8 8 (eq_lane 8) x y)"
proof -
  have words: "uint (word_of_int x :: u64) = x" "uint (word_of_int y :: u64) = y"
    using assms by (simp_all add: uint_word_of_int_eq fits_def)
  have "uint (h_generic_calc_CmpEQ8x8 (word_of_int x) (word_of_int y)) = lanes2 8 8 (eq_lane 8) x y"
  proof (rule lanes_eqI [of 8 8])
    show "take_bit (8 * 8) (lanes2 8 8 (eq_lane 8) x y) = lanes2 8 8 (eq_lane 8) x y" by (rule lanes2_fits)
    show "lane 8 i (uint (h_generic_calc_CmpEQ8x8 (word_of_int x) (word_of_int y))) = lane 8 i (lanes2 8 8 (eq_lane 8) x y)"
      if "i < 8" for i
      using lanewise_64_8(3) that unfolding lanewise_def lane_lanes2
      by (simp add: words eq_lane_def all_ones_def)
  qed (simp_all add: take_bit_uint)
  moreover have "switch amd64_binops Iop_CmpEQ8x8 = Some h_generic_calc_CmpEQ8x8"
    by (simp add: amd64_binops_def switch_simps)
  moreover have "switch sem2_cases Iop_CmpEQ8x8 = None"
    by (rule switch_allD [OF vec_not_sem2]) (simp only: vec_rules)
  ultimately show ?thesis
    by (simp add: host_prim_def)
qed

lemma vec_lanes: "switch_all (\<lambda>op g. switch lane_ops op = None \<or> (\<exists>w k f. switch lane_ops op = Some w \<and> g = lanes2 w k f)) vec_cases"
  unfolding vec_cases_def switch_all_unfold
  by (simp only: lane_rules option.inject option.distinct ex_simps simp_thms, intro conjI)
    (rule exI refl | simp add: switch_None lane_ops_def)+

interpretation host_fold: fold_sem host_vec
proof
  show "switch sem1_cases op = Some f \<Longrightarrow> host_vec op [x] = f x" for op f x by (simp add: host_vec_def host_prim_def)
  show "host_vec op [x, y] = g x y" if "switch sem2_cases op = Some g" for op g x y
    using switch_allD [OF vec_not_sem2, of op] host_sem.sem_binop_eq [OF that] that
    by (auto simp: host_vec_def split: option.splits)
  show "lane w i z = lane w i z'"
    if w: "switch lane_ops op = Some w" and z: "host_vec op [x, y] = Some z" "host_vec op [x', y'] = Some z'"
      and l: "lane w i x = lane w i x'" "lane w i y = lane w i y'" for op w x y z x' y' z' i
  proof (cases "op = Iop_CmpEQ8x8 \<or> switch vec_cases op = None")
    case True
    then show ?thesis using host_sem.sem_lanes [OF w _ _ l] z by (auto simp: host_vec_def split: if_splits)
  next
    case False
    then obtain g where "switch vec_cases op = Some g" by auto
    with switch_allD [OF vec_lanes this] w z l False show ?thesis
      by (auto simp: host_vec_def lane_lanes2)
  qed
  show "host_vec op [x, y] = Some (g x y)"
    if "switch vec_cases op = Some g" "typeOfPrimop op = Some (td, t1, t2, Ity_INVALID, Ity_INVALID)" "fits t1 x" "fits t2 y" for op g td t1 t2 x y
  proof (cases "op = Iop_CmpEQ8x8")
    case True
    then have "g = lanes2 8 8 (eq_lane 8)" "t1 = Ity_I64" "t2 = Ity_I64" using that vec_rules by (simp_all add: prim_type_defs)
    with that(3,4) show ?thesis by (simp add: host_vec_def True host_CmpEQ8x8)
  qed (use that(1) in \<open>simp add: host_vec_def\<close>)
qed

text \<open>C35: folding a well typed flat expression never changes its type, its flatness or its value, in any state that agrees with the
  environment of the assignments so far.\<close>

theorem fold_Expr_sound:
  assumes "fold_hyps host_vec tyenv w s env" "wt tyenv w e ty" "isFlat_rhs e = Some True" "fold_Expr env e = Some e'"
  shows "wt tyenv w e' ty \<and> isFlat_rhs e' = Some True \<and> (\<forall>z. eval host_vec s e = Some z \<longrightarrow> eval host_vec s e' = Some z)"
  using host_fold.fold_Expr_folded [OF assms] unfolding folded_def .

theorem fold_Expr_sound_witness:
  "fold_Expr (\<lambda>_. None) (Iex_Binop Iop_Or32 (Iex_RdTmp 0) (Iex_Const (Ico_U32 0))) = Some (Iex_RdTmp 0) \<and>
   eval host_vec (\<lambda>_. 5) (Iex_Binop Iop_Or32 (Iex_RdTmp 0) (Iex_Const (Ico_U32 0))) = Some 5 \<and>
   wt [Ity_I32] Ity_I64 (Iex_RdTmp 0) Ity_I32"
proof -
  let ?e = "Iex_Binop Iop_Or32 (Iex_RdTmp 0) (Iex_Const (Ico_U32 0))"
  have hyps: "fold_hyps host_vec [Ity_I32] Ity_I64 (\<lambda>_. 5) (\<lambda>_. None)"
    by (simp add: fold_hyps_def store_ok_def env_wt_def env_vals_def fits_def)
  have wt: "wt [Ity_I32] Ity_I64 ?e Ity_I32"
    using wt_RdTmp [of 0 "[Ity_I32]" Ity_I64] wt_Const [of "[Ity_I32]" Ity_I64 "Ico_U32 0"]
    by (intro wt_Binop) (simp_all add: prim_type_defs)
  have fold: "fold_Expr (\<lambda>_. None) ?e = Some (Iex_RdTmp 0)"
    by (simp add: fold_Expr_def fold_ident_rules ident_or_def isZeroU_def)
  have v: "eval host_vec (\<lambda>_. 5) ?e = Some 5"
    using host_fold.sem_binop_eq [of Iop_Or32 or2 5 0] by (simp add: sem_rules sem_defs)
  from fold_Expr_sound [OF hyps wt _ fold] v fold show ?thesis by simp
qed

text \<open>C36: the identity rules panic on a well typed flat expression: a maximum with an all ones constant asks for the ones of
  \<open>Iop_Max32U\<close>, which \<open>mkOnesOfPrimopResultType\<close> does not know, whatever the environment.\<close>

theorem fold_Max32U_panics:
  "fold_Expr env (Iex_Binop Iop_Max32U (Iex_RdTmp 0) (Iex_Const (Ico_U32 0xFFFFFFFF))) = None \<and>
   wt [Ity_I32] w (Iex_Binop Iop_Max32U (Iex_RdTmp 0) (Iex_Const (Ico_U32 0xFFFFFFFF))) Ity_I32 \<and>
   isFlat_rhs (Iex_Binop Iop_Max32U (Iex_RdTmp 0) (Iex_Const (Ico_U32 0xFFFFFFFF))) = Some True"
proof -
  have "wt [Ity_I32] w (Iex_Binop Iop_Max32U (Iex_RdTmp 0) (Iex_Const (Ico_U32 0xFFFFFFFF))) Ity_I32"
    using wt_RdTmp [of 0 "[Ity_I32]" w] wt_Const [of "[Ity_I32]" w "Ico_U32 0xFFFFFFFF"]
    by (intro wt_Binop) (simp_all add: prim_type_defs)
  then show ?thesis
    by (simp add: fold_Expr_def fold_ident_rules ident_or_def isZeroU_def isOnesU_def mkOnesOfPrimopResultType_def host_fold.ones_Max32U)
qed

end
