(* ===== verification/IropCprop.thy ===== *)
theory IropCprop
  imports IRExec IropPasses IropFoldSound
begin

text \<open>
  Constant and copy propagation, \<open>cprop_BB\<close> of \<open>VEX/priv/ir_opt.c\<close>: a block the sanity checker accepts and the block the
  pass makes of it run the same way. \<open>cprop_rel\<close> relates the two runs: the stores agree except on the temporaries whose
  assignment was left out, and every binding of the environment holds its value.
\<close>

section \<open>Values of flat expressions\<close>

lemma eval_val: "eval sem s e = Some x \<Longrightarrow> val G sem s m e = Some x"
  by (induction sem s e arbitrary: x rule: eval.induct) (auto simp: bind_Some_iff)

lemma atom_val: "isIRAtom a \<Longrightarrow> val G sem s m a = eval sem s a"
  by (cases a) auto

lemma flat_val: "isFlat_rhs e = Some True \<Longrightarrow> pure e \<Longrightarrow> val G sem s m e = eval sem s e"
  by (cases e) (auto simp: atom_val)

lemma flat_op_val:
  assumes "isIRAtom a" "isIRAtom a'" "eval sem s a' = eval sem s a"
  shows "val G sem s m a' = val G sem s m a"
  using assms by (simp add: atom_val)

lemma wt_temps: "wt tyenv w e ty \<Longrightarrow> t \<in> expr_temps e \<Longrightarrow> t < length tyenv"
proof (induction rule: wt.induct)
  case (wt_CCall cee args retty)
  then show ?case by auto
qed auto

lemma atom_wt: "isIRAtom a \<Longrightarrow> tval tyenv G sem s m a = Some (ty, x) \<Longrightarrow> wt tyenv w a ty"
  by (cases a) (auto simp: tval_def typeOfIRTemp_def bind_Some_iff intro: wt_RdTmp wt_Const split: if_splits)

section \<open>Substitution\<close>

definition dropped :: "ir_env \<Rightarrow> IRTemp set" where
  "dropped env = {t. \<exists>x. env t = Some x \<and> propagates x}"

definition env_temps :: "ir_env \<Rightarrow> IRTemp set" where
  "env_temps env = (\<Union>x \<in> ran env. expr_temps x)"

lemma env_tempsI: "env t = Some x \<Longrightarrow> u \<in> expr_temps x \<Longrightarrow> u \<in> env_temps env"
  by (auto simp: env_temps_def ran_def)

text \<open>The environment only mentions temporaries it does not replace.\<close>

definition env_clean :: "ir_env \<Rightarrow> bool" where
  "env_clean env \<longleftrightarrow> env_temps env \<inter> dropped env = {}"

lemma propagates_pure: "propagates x \<Longrightarrow> pure x \<and> isIRAtom x"
  by (cases x) auto

lemma subst_tmp_atom: "isIRAtom (subst_tmp env t)"
  using propagates_pure by (auto simp: subst_tmp_def split: option.splits)

lemma subst_arg_cases: "subst_arg env a = Some b \<Longrightarrow> isIRAtom a \<and> isIRAtom b"
  by (cases a) (auto simp: subst_tmp_atom)

lemma subst_tmp_eval: "env_vals sem s env \<Longrightarrow> eval sem s (subst_tmp env t) = Some (s t)"
  using propagates_pure by (auto simp: subst_tmp_def env_valsD split: option.splits)

lemma subst_arg_eval: "subst_arg env a = Some b \<Longrightarrow> env_vals sem s env \<Longrightarrow> eval sem s b = eval sem s a"
  by (cases a) (auto simp: subst_tmp_eval)

lemma subst_arg_val: "subst_arg env a = Some b \<Longrightarrow> env_vals sem s env \<Longrightarrow> val G sem s m b = val G sem s m a"
  using subst_arg_eval [of env a b sem s] subst_arg_cases [of env a b] by (simp add: atom_val)

lemma subst_args_val: "subst_args env as = Some bs \<Longrightarrow> env_vals sem s env \<Longrightarrow> vals_of G sem s m bs = vals_of G sem s m as"
  by (induction as arbitrary: bs) (auto simp: bind_Some_iff subst_arg_val)

lemma subst_Expr_val: "subst_Expr env e = Some e' \<Longrightarrow> env_vals sem s env \<Longrightarrow> val G sem s m e' = val G sem s m e"
  by (cases e) (auto simp: bind_Some_iff subst_arg_val [of env _ _ sem s G m] subst_args_val [of env _ _ sem s G m]
      subst_arg_val [of env "Iex_RdTmp t" for t, simplified])

lemma subst_tmp_wt: "env_wt tyenv w env \<Longrightarrow> t < length tyenv \<Longrightarrow> wt tyenv w (subst_tmp env t) (tyenv ! t)"
  by (auto simp: subst_tmp_def env_wtD wt_RdTmp split: option.splits)

lemma subst_arg_wt: "subst_arg env a = Some b \<Longrightarrow> env_wt tyenv w env \<Longrightarrow> wt tyenv w a ty \<Longrightarrow> wt tyenv w b ty"
  by (cases a) (auto elim!: wt_RdTmpE intro: subst_tmp_wt)

lemma subst_args_wt:
  "subst_args env as = Some bs \<Longrightarrow> env_wt tyenv w env \<Longrightarrow> \<forall>a \<in> set as. \<exists>ty. ty \<noteq> Ity_I1 \<and> wt tyenv w a ty \<Longrightarrow>
    length bs = length as \<and> list_all isIRAtom bs \<and> (\<forall>b \<in> set bs. \<exists>ty. ty \<noteq> Ity_I1 \<and> wt tyenv w b ty)"
  by (induction as arbitrary: bs) (auto simp: bind_Some_iff dest: subst_arg_cases, (blast intro: subst_arg_wt)+)

inductive_cases wt_GetIE: "wt tyenv w (Iex_GetI descr ix bias) ty"
inductive_cases wt_QopE: "wt tyenv w (Iex_Qop op a b c d) ty"
inductive_cases wt_TriopE: "wt tyenv w (Iex_Triop op a b c) ty"
inductive_cases wt_LoadE: "wt tyenv w (Iex_Load en lty a) ty"
inductive_cases wt_CCallE: "wt tyenv w (Iex_CCall cee retty args) ty"

lemma subst_Expr_wt:
  assumes "subst_Expr env e = Some e'" "env_wt tyenv w env" "wt tyenv w e ty"
  shows "wt tyenv w e' ty \<and> isFlat_rhs e' = Some True"
proof (cases e)
  case (Iex_RdTmp t)
  then show ?thesis
    using assms subst_tmp_atom [of env t] by (auto elim!: wt_RdTmpE intro: subst_tmp_wt atom_flat)
next
  case (Iex_GetI descr ix bias)
  with assms show ?thesis
    by (auto simp: bind_Some_iff elim!: wt_GetIE intro: wt_GetI dest: subst_arg_wt subst_arg_cases)
next
  case (Iex_Qop op a b c d)
  with assms show ?thesis
    by (auto simp: bind_Some_iff elim!: wt_QopE intro!: wt_Qop dest: subst_arg_wt subst_arg_cases)
next
  case (Iex_Triop op a b c)
  with assms show ?thesis
    by (auto simp: bind_Some_iff elim!: wt_TriopE intro!: wt_Triop dest: subst_arg_wt subst_arg_cases)
next
  case (Iex_Binop op a b)
  with assms show ?thesis
    by (auto simp: bind_Some_iff elim!: wt_BinopE intro!: wt_Binop dest: subst_arg_wt subst_arg_cases)
next
  case (Iex_Unop op a)
  with assms show ?thesis
    by (auto simp: bind_Some_iff elim!: wt_UnopE intro!: wt_Unop dest: subst_arg_wt subst_arg_cases)
next
  case (Iex_Load en lty a)
  with assms show ?thesis
    by (auto simp: bind_Some_iff elim!: wt_LoadE intro!: wt_Load dest: subst_arg_wt subst_arg_cases)
next
  case (Iex_CCall cee retty args)
  with assms obtain args2 where a2: "subst_args env args = Some args2" "e' = Iex_CCall cee retty args2"
    by (auto simp: bind_Some_iff)
  with assms(3) Iex_CCall subst_args_wt [OF a2(1) assms(2)] show ?thesis
    by (auto elim!: wt_CCallE intro!: wt_CCall)
next
  case (Iex_ITE c t f)
  with assms show ?thesis
    by (auto simp: bind_Some_iff elim!: wt_ITEE intro!: wt_ITE dest: subst_arg_wt subst_arg_cases)
qed (use assms in auto)

text \<open>The temporaries of the result.\<close>

lemma subst_tmp_temps: "env_clean env \<Longrightarrow> expr_temps (subst_tmp env t) \<subseteq> ({t} \<union> env_temps env) - dropped env"
  by (auto simp: subst_tmp_def env_clean_def dropped_def split: option.splits intro: env_tempsI)

lemma subst_arg_temps: "subst_arg env a = Some b \<Longrightarrow> env_clean env \<Longrightarrow> expr_temps b \<subseteq> (expr_temps a \<union> env_temps env) - dropped env"
  using subst_tmp_temps [of env] by (cases a) auto

lemma subst_args_temps: "subst_args env as = Some bs \<Longrightarrow> env_clean env \<Longrightarrow>
    (\<Union>b \<in> set bs. expr_temps b) \<subseteq> ((\<Union>a \<in> set as. expr_temps a) \<union> env_temps env) - dropped env"
proof (induction as arbitrary: bs)
  case (Cons a as)
  then obtain b bs' where b: "subst_arg env a = Some b" "subst_args env as = Some bs'" "bs = b # bs'"
    by (auto simp: bind_Some_iff)
  from subst_arg_temps [OF b(1) Cons.prems(2)] Cons.IH [OF b(2) Cons.prems(2)] b(3) show ?case by auto
qed simp

lemma subst_Expr_temps:
  assumes "subst_Expr env e = Some e'" "env_clean env"
  shows "expr_temps e' \<subseteq> (expr_temps e \<union> env_temps env) - dropped env"
  using assms subst_tmp_temps [OF assms(2)]
  by (cases e) (auto simp: bind_Some_iff dest!: subst_arg_temps [OF _ assms(2)] subst_args_temps [OF _ assms(2)], blast+)

section \<open>Folding\<close>

lemma chase_temps:
  assumes "chase env e = Some r"
  shows "r = Some x \<Longrightarrow> expr_temps x \<subseteq> expr_temps e \<union> env_temps env"
proof -
  define P where "P env e r \<longleftrightarrow> (\<forall>x. r = Some x \<longrightarrow> expr_temps x \<subseteq> expr_temps e \<union> env_temps env)" for env e and r :: "IRExpr option"
  have "P env e r"
  proof (rule chase.raw_induct [OF _ assms, of P])
    fix f env e r
    assume IH: "\<And>env e r. f env e = Some r \<Longrightarrow> P env e r"
    assume *: "(case e of Iex_RdTmp t \<Rightarrow> (case env t of None \<Rightarrow> Some None | Some e \<Rightarrow> f env e) | _ \<Rightarrow> Some (Some e)) = Some r"
    show "P env e r"
    proof (cases "\<exists>t. e = Iex_RdTmp t")
      case True
      with * show ?thesis
        using IH env_tempsI [of env] by (fastforce simp: P_def split: option.splits)
    next
      case False
      with * have "r = Some e" by (cases e) auto
      then show ?thesis by (simp add: P_def)
    qed
  qed
  then show "r = Some x \<Longrightarrow> ?thesis" by (simp add: P_def)
qed

text \<open>A rule only mentions the temporaries of its arguments and of the environment.\<close>

definition rule_temps :: "ident_rule \<Rightarrow> bool" where
  "rule_temps rule \<longleftrightarrow> (\<forall>env op a1 a2 e. rule env op a1 a2 = Some e \<longrightarrow> expr_temps e \<subseteq> expr_temps a1 \<union> expr_temps a2 \<union> env_temps env)"

lemma constant_temps:
  "mkZeroOfPrimopResultType op = Some e \<Longrightarrow> expr_temps e = {}" "mkOnesOfPrimopResultType op = Some e \<Longrightarrow> expr_temps e = {}"
  by (auto simp: mkZeroOfPrimopResultType_def mkOnesOfPrimopResultType_def)

lemmas rule_temps_defs = rule_temps_def bool_bind constant_temps

lemma rule_temps_shifts: "rule_temps ident_shift_both" "rule_temps ident_shift_right"
  by (auto simp: rule_temps_defs ident_shift_both_def ident_shift_right_def)

lemma rule_temps_or: "rule_temps ident_or" "rule_temps ident_orV"
  by (auto simp: rule_temps_defs ident_or_def ident_orV_def bind_Some_iff split: if_splits)

lemma rule_temps_and: "rule_temps ident_and" "rule_temps ident_andV"
  by (auto simp: rule_temps_defs ident_and_def ident_andV_def split: if_splits)

lemma rule_temps_add: "rule_temps ident_add8" "rule_temps ident_add" "rule_temps ident_sub" "rule_temps ident_sub8x16" "rule_temps ident_xor"
  "rule_temps ident_cmpEQ"
  by (auto simp: rule_temps_defs ident_add8_def ident_add_def ident_sub_def ident_sub8x16_def ident_xor_def ident_cmpEQ_def split: if_splits)

lemma rule_temps_cmpNE32: "rule_temps ident_cmpNE32"
  unfolding rule_temps_def
proof (intro allI impI)
  fix env op a1 a2 e
  assume "ident_cmpNE32 env op a1 a2 = Some e"
  from ident_cmpNE32_cases [OF this] chase_temps [of env a1 "Some (Iex_Unop Iop_1Uto32 e)"]
  show "expr_temps e \<subseteq> expr_temps a1 \<union> expr_temps a2 \<union> env_temps env"
    by (auto simp: constant_temps)
qed

lemma rules_temps: "switch_all (\<lambda>_. rule_temps) fold_ident_cases"
  unfolding fold_ident_cases_def switch_all_unfold
  by (simp add: rule_temps_shifts rule_temps_or rule_temps_and rule_temps_add rule_temps_cmpNE32)

lemma fold_Binop_rule:
  "\<not> (\<exists>c1 c2. a1 = Iex_Const c1 \<and> a2 = Iex_Const c2) \<Longrightarrow> fold_Expr env (Iex_Binop op a1 a2) =
     (case switch fold_ident_cases op of None \<Rightarrow> Some (Iex_Binop op a1 a2) | Some rule \<Rightarrow> rule env op a1 a2)"
  by (cases a1; cases a2) (auto simp: fold_Expr_def)

lemma fold_Expr_temps:
  assumes "fold_Expr env e = Some e'"
  shows "expr_temps e' \<subseteq> expr_temps e \<union> env_temps env"
proof (cases e)
  case (Iex_Unop op a)
  with assms show ?thesis
    by (cases a) (auto simp: fold_Expr_def split: option.splits)
next
  case (Iex_Binop op a1 a2)
  show ?thesis
  proof (cases "\<exists>c1 c2. a1 = Iex_Const c1 \<and> a2 = Iex_Const c2")
    case True
    with assms Iex_Binop show ?thesis
      by (auto simp: fold_Expr_def split: option.splits)
  next
    case False
    with assms fold_Binop_rule [OF False, of env op] switch_allD [OF rules_temps, of op] show ?thesis
      by (auto simp: Iex_Binop rule_temps_def split: option.splits)
  qed
next
  case (Iex_ITE c t f)
  with assms show ?thesis
    by (cases c) (auto simp: fold_Expr_def bool_bind split: IRConst.splits if_splits)
qed (use assms in \<open>auto simp: fold_Expr_def\<close>)

section \<open>Folding and values\<close>

context fold_sem
begin

lemma pure_cases: "\<not> pure e \<Longrightarrow> fold_Expr env e = Some e' \<Longrightarrow> e' = e"
  by (cases e) (auto simp: fold_Expr_def)

lemma fold_Expr_val:
  assumes "fold_hyps sem tyenv w s env" "wt tyenv w e ty" "isFlat_rhs e = Some True" "fold_Expr env e = Some e'" "val G sem s m e = Some x"
  shows "wt tyenv w e' ty \<and> isFlat_rhs e' = Some True \<and> val G sem s m e' = Some x"
proof (cases "pure e")
  case True
  have "eval sem s e = Some x" using flat_val [OF assms(3) True] assms(5) by metis
  with fold_Expr_folded [OF assms(1-4)] show ?thesis
    by (auto simp: folded_def intro: eval_val)
next
  case False
  with pure_cases [OF False assms(4)] assms show ?thesis by simp
qed

lemma fold_atom: "isIRAtom a \<Longrightarrow> fold_Expr env a = Some a"
  by (cases a) (auto simp: fold_Expr_def)

lemma fold_arg_subst: "fold_arg env a = subst_arg env a"
  using subst_arg_cases [of env a] by (cases "subst_arg env a") (auto simp: fold_arg_def fold_atom)

end

section \<open>The invariant of constant propagation\<close>

text \<open>The store \<open>s\<close> of the original block agrees with the environment, and the store \<open>s'\<close> of the output with \<open>s\<close> outside the
  temporaries the environment replaces. \<open>U\<close> is the set of temporaries assigned so far.\<close>

definition cprop_rel :: "op_sem \<Rightarrow> IRType list \<Rightarrow> IRType \<Rightarrow> ir_env \<Rightarrow> IRTemp set \<Rightarrow> store \<Rightarrow> store \<Rightarrow> bool" where
  "cprop_rel sem tyenv w env U s s' \<longleftrightarrow> fold_hyps sem tyenv w s env \<and> dom env \<subseteq> U \<and> env_clean env \<and> env_temps env \<subseteq> U \<and>
     (\<forall>t. t \<notin> dropped env \<longrightarrow> s' t = s t)"

lemma eval_agree: "(\<forall>t \<in> expr_temps e. s' t = s t) \<Longrightarrow> eval sem s' e = eval sem s e"
  by (induction sem s e rule: eval.induct) (auto cong: Option.bind_cong)

lemma cprop_relD:
  assumes "cprop_rel sem tyenv w env U s s'"
  shows "env_vals sem s env" "env_wt tyenv w env" "env_clean env" "store_ok tyenv s" "fold_hyps sem tyenv w s env"
    "dom env \<subseteq> U" "env_temps env \<subseteq> U" "t \<notin> dropped env \<Longrightarrow> s' t = s t"
  using assms by (auto simp: cprop_rel_def fold_hyps_def)

lemma cprop_rel_mono: "cprop_rel sem tyenv w env U s s' \<Longrightarrow> U \<subseteq> U' \<Longrightarrow> cprop_rel sem tyenv w env U' s s'"
  by (auto simp: cprop_rel_def)

text \<open>After an assignment to new temporaries in both stores.\<close>

lemma fold_hyps_upd:
  assumes rel: "cprop_rel sem tyenv w env U s s'" and same: "\<forall>t \<in> U. s1 t = s t" and ok: "store_ok tyenv s1"
  shows "fold_hyps sem tyenv w s1 env"
proof -
  note D = cprop_relD [OF rel]
  have "env_vals sem s1 env"
    unfolding env_vals_def
  proof (intro allI impI)
    fix u y
    assume u: "env u = Some y" "pure y"
    then have "u \<in> U" "expr_temps y \<subseteq> U" using D(6,7) env_tempsI [of env u y] by blast+
    then have "eval sem s1 y = eval sem s y" "s1 u = s u" using same eval_agree [of y s1 s sem] by auto
    with D(1) u show "eval sem s1 y = Some (s1 u)" by (simp add: env_vals_def)
  qed
  with D(2) ok show ?thesis by (simp add: fold_hyps_def)
qed

lemma cprop_rel_upd:
  assumes rel: "cprop_rel sem tyenv w env U s s'" and upd: "upd_rel D s s' s1 s1'" and fresh: "D \<inter> U = {}" and ok: "store_ok tyenv s1"
  shows "cprop_rel sem tyenv w env (U \<union> D) s1 s1'"
proof -
  have "\<forall>t \<in> U. s1 t = s t" using upd fresh unfolding upd_rel_def by (metis disjoint_iff)
  note h = fold_hyps_upd [OF rel this ok]
  have "\<forall>t. t \<notin> dropped env \<longrightarrow> s1' t = s1 t"
    using upd cprop_relD(8) [OF rel] unfolding upd_rel_def by metis
  with h rel show ?thesis by (auto simp: cprop_rel_def)
qed

lemma dropped_upd: "dropped (env(t \<mapsto> e)) \<subseteq> insert t (dropped env)" "propagates e \<Longrightarrow> t \<in> dropped (env(t \<mapsto> e))"
  "u \<in> dropped env \<Longrightarrow> env t = None \<Longrightarrow> u \<in> dropped (env(t \<mapsto> e))"
  by (auto simp: dropped_def)

lemma env_temps_upd: "env t = None \<Longrightarrow> env_temps (env(t \<mapsto> e)) = expr_temps e \<union> env_temps env"
  by (auto simp: env_temps_def ran_map_upd)

text \<open>Recording the assignment of \<open>e\<close> to \<open>t\<close>, and leaving it out of the output when \<open>e\<close> is propagated.\<close>

lemma cprop_rel_bind:
  assumes rel: "cprop_rel sem tyenv w env U s s'" and t: "t \<notin> U" "t < length tyenv" "fits (tyenv ! t) x"
    and e: "wt tyenv w e (tyenv ! t)" "isFlat_rhs e = Some True" "expr_temps e \<subseteq> U - dropped env" "pure e \<Longrightarrow> eval sem s e = Some x"
    and s1': "s1' = s'(t := x) \<or> propagates e \<and> s1' = s'"
  shows "cprop_rel sem tyenv w (env(t \<mapsto> e)) (insert t U) (s(t := x)) s1'"
proof -
  note D = cprop_relD [OF rel]
  have none: "env t = None" using D(6) t(1) by auto
  have "eval sem (s(t := x)) e = Some x" if "pure e"
  proof -
    have "\<forall>u \<in> expr_temps e. u \<noteq> t" using e(3) t(1) by blast
    then have "eval sem (s(t := x)) e = eval sem s e" by (intro eval_agree) auto
    with e(4) [OF that] show ?thesis by simp
  qed
  then have "fold_hyps sem tyenv w (s(t := x)) (env(t \<mapsto> e))"
  proof -
    have "\<forall>u \<in> U. (s(t := x)) u = s u" using t(1) by auto
    moreover have "store_ok tyenv (s(t := x))" using D(4) t(2,3) by (simp add: store_ok_def)
    ultimately have "fold_hyps sem tyenv w (s(t := x)) env" by (rule fold_hyps_upd [OF rel])
    then show ?thesis
      using \<open>pure e \<Longrightarrow> eval sem (s(t := x)) e = Some x\<close> e(1,2) t(2) by (auto simp: fold_hyps_def env_wt_def env_vals_def)
  qed
  moreover have "env_clean (env(t \<mapsto> e))"
    using D(3,7) e(3) t(1) dropped_upd(1) [of env t e] unfolding env_clean_def env_temps_upd [of env t e, OF none] by blast
  moreover have "s1' u = (s(t := x)) u" if "u \<notin> dropped (env(t \<mapsto> e))" for u
    using that s1' D(8) [of u] dropped_upd(2) [of e t env] dropped_upd(3) [of u env t e] none by (cases "u = t"; cases "u \<in> dropped env") auto
  ultimately show ?thesis
    using D(6,7) e(3) unfolding cprop_rel_def env_temps_upd [of env t e, OF none] by auto
qed

section \<open>One statement\<close>

text \<open>The right hand sides are well typed.\<close>

definition assigned_ok :: "IRType list \<Rightarrow> IRType \<Rightarrow> IRStmt \<Rightarrow> bool" where
  "assigned_ok tyenv w st \<longleftrightarrow> (case st of
     Ist_WrTmp t e \<Rightarrow> wt tyenv w e (tyenv ! t)
   | Ist_LoadG lg \<Rightarrow> wt tyenv w (lg_alt lg) (tyenv ! lg_dst lg)
   | _ \<Rightarrow> True)"

context fold_sem
begin

lemma tval_transfer:
  assumes "cprop_rel sem tyenv w env U s s'" "wt tyenv w e ty" "expr_temps e \<inter> dropped env = {}" "val G sem s m e = Some x" "fits ty x"
  shows "tval tyenv G sem s' m e = Some (ty, x)"
proof -
  have "val G sem s' m e = val G sem s m e"
    using assms(3) cprop_relD(8) [OF assms(1)] by (intro val_agree(1)) auto
  with assms wt_temps [OF assms(2)] wt_typeOf [OF assms(2)] show ?thesis by (simp add: tval_def)
qed

lemma subst_arg_tval:
  assumes "cprop_rel sem tyenv w env U s s'" "subst_arg env a = Some b" "tval tyenv G sem s m a = Some p"
  shows "tval tyenv G sem s' m b = Some p"
proof -
  obtain ty x where p: "p = (ty, x)" by fastforce
  note D = cprop_relD [OF assms(1)]
  have "wt tyenv w a ty" using atom_wt [OF _ assms(3) [unfolded p]] subst_arg_cases [OF assms(2)] by simp
  then have "wt tyenv w b ty" by (rule subst_arg_wt [OF assms(2) D(2)])
  moreover have "expr_temps b \<inter> dropped env = {}" using subst_arg_temps [OF assms(2) D(3)] by blast
  moreover have "val G sem s m b = Some x" "fits ty x"
    using subst_arg_val [OF assms(2) D(1), of G m] tval_Some [OF assms(3) [unfolded p]] by simp_all
  ultimately show ?thesis unfolding p by (rule tval_transfer [OF assms(1)])
qed

lemma subst_arg_same:
  "cprop_rel sem tyenv w env U s s' \<Longrightarrow> subst_arg env a = Some b \<Longrightarrow> same_tval tyenv tyenv G sem s s' m a b"
  using subst_arg_tval by (auto simp: same_tval_def)

lemma fold_opt_same:
  "cprop_rel sem tyenv w env U s s' \<Longrightarrow> fold_opt env a = Some b \<Longrightarrow> rel_option (same_tval tyenv tyenv G sem s s' m) a b"
  by (cases a) (auto simp: fold_arg_subst intro: subst_arg_same)

lemma fold_dirty_args_same:
  assumes "cprop_rel sem tyenv w env U s s'"
  shows "fold_dirty_args env as = Some bs \<Longrightarrow>
    list_all2 (same_arg (same_tval tyenv tyenv G sem s s' m)) as bs"
  by (induction as arbitrary: bs) (auto simp: bind_Some_iff fold_arg_subst subst_arg_same [OF assms] same_arg_def split: if_splits)

lemma subst_WrTmp:
  assumes rel: "cprop_rel sem tyenv w env U s s'" and "wt tyenv w e ty" "subst_Expr env e = Some e1" "fold_Expr env e1 = Some e2"
    and v: "tval tyenv G sem s m e = Some (ty', x)"
  shows "wt tyenv w e2 ty \<and> isFlat_rhs e2 = Some True \<and> val G sem s m e2 = Some x \<and>
    expr_temps e2 \<subseteq> (expr_temps e \<union> env_temps env) - dropped env \<and> tval tyenv G sem s' m e2 = Some (ty', x)"
proof -
  note D = cprop_relD [OF rel]
  have e1: "wt tyenv w e1 ty" "isFlat_rhs e1 = Some True" "val G sem s m e1 = Some x"
    using subst_Expr_wt [OF assms(3) D(2) assms(2)] subst_Expr_val [OF assms(3) D(1), of G m] tval_Some [OF v] by simp_all
  have temps: "expr_temps e2 \<subseteq> (expr_temps e \<union> env_temps env) - dropped env"
    using subst_Expr_temps [OF assms(3) D(3)] fold_Expr_temps [OF assms(4)] D(3) unfolding env_clean_def by blast
  have "ty' = ty" using tval_Some [OF v] wt_typeOf [OF assms(2)] by simp
  moreover note e2 = fold_Expr_val [OF D(5) e1(1,2) assms(4) e1(3)]
  moreover have "tval tyenv G sem s' m e2 = Some (ty, x)"
    using e2 temps tval_Some [OF v] \<open>ty' = ty\<close> by (intro tval_transfer [OF rel]) auto
  ultimately show ?thesis using temps by simp
qed

lemma folded_cond_Some: "folded_cond g = Some (Some b) \<Longrightarrow> g = Iex_Const (Ico_U1 b)"
  by (cases g rule: folded_cond.cases) (auto split: IRConst.splits)

lemma folded_cond_tval: "folded_cond g = Some (Some b) \<Longrightarrow> tval tyenv G sem s m g = Some (ty, x) \<Longrightarrow> x \<noteq> 0 \<longleftrightarrow> b"
  using folded_cond_Some by (fastforce dest: tval_Some)

end

text \<open>A substituted statement is related to the original, before the guards that are known now are used.\<close>

lemma exec_store_ok:
  assumes ok: "store_ok tyenv s" and ex: "exec_stmt tyenv G sem st s m = Some (Falls s1 m1)"
  shows "store_ok tyenv s1"
proof -
  have 1: "assign tyenv t x s2 = Some s3 \<Longrightarrow> store_ok tyenv s2 \<Longrightarrow> store_ok tyenv s3" for t x s2 s3
    by (auto simp: assign_Some store_ok_def)
  then have 2: "assign_opt tyenv t x s2 = Some s3 \<Longrightarrow> store_ok tyenv s2 \<Longrightarrow> store_ok tyenv s3" for t x s2 s3
    by (cases t) (auto simp: assign_opt_def)
  show ?thesis
    using ex ok by (cases st) (auto simp: bind_Some_iff dest: 1 2 split: if_splits)
qed

context fold_sem
begin

definition guard_used :: "IRType list \<Rightarrow> 'm guest \<Rightarrow> store \<Rightarrow> 'm \<Rightarrow> IRStmt \<Rightarrow> IRStmt \<Rightarrow> bool" where
  "guard_used tyenv G s m st1 st2 \<longleftrightarrow> (\<forall>r. exec_stmt tyenv G sem st1 s m = Some r \<longrightarrow> exec_stmt tyenv G sem st2 s m = Some r)"

lemma guard_used_refl [simp]: "guard_used tyenv G s m st st"
  by (simp add: guard_used_def)

lemma guard_used_StoreG:
  assumes "folded_cond g = Some k"
  shows "guard_used tyenv G s m (Ist_StoreG (sg \<lparr> sg_addr := a, sg_data := b, sg_guard := g \<rparr>))
    (case k of None \<Rightarrow> Ist_StoreG (sg \<lparr> sg_addr := a, sg_data := b, sg_guard := g \<rparr>) | Some False \<Rightarrow> Ist_NoOp
      | Some True \<Rightarrow> Ist_Store (sg_end sg) a b)"
proof (cases k)
  case (Some c)
  from folded_cond_Some [OF assms [unfolded Some]] show ?thesis
    unfolding Some by (cases c) (auto simp: guard_used_def bind_Some_iff tval_Const)
qed simp

lemma guard_used_LoadG:
  assumes "folded_cond g = Some k"
  shows "guard_used tyenv G s m (Ist_LoadG (lg \<lparr> lg_addr := a, lg_alt := b, lg_guard := g \<rparr>))
    (case k of Some False \<Rightarrow> Ist_WrTmp (lg_dst lg) b | _ \<Rightarrow> Ist_LoadG (lg \<lparr> lg_addr := a, lg_alt := b, lg_guard := g \<rparr>))"
proof (cases "k = Some False")
  case True
  from folded_cond_Some [OF assms [unfolded True]] True show ?thesis
    by (auto simp: guard_used_def bind_Some_iff loadg_val_def tval_Const)
qed (auto split: option.split bool.split)

lemma guard_used_Exit:
  assumes "folded_cond g = Some k"
  shows "guard_used tyenv G s m (Ist_Exit g jk dst off) (case k of Some False \<Rightarrow> Ist_NoOp | _ \<Rightarrow> Ist_Exit g jk dst off)"
proof (cases "k = Some False")
  case True
  from folded_cond_Some [OF assms [unfolded True]] True show ?thesis
    by (auto simp: guard_used_def bind_Some_iff tval_Const)
qed (auto split: option.split bool.split)

lemma subst_fold_rel:
  assumes rel: "cprop_rel sem tyenv w env U s s'" and st2: "subst_and_fold_Stmt env st = Some st2" and ok: "assigned_ok tyenv w st"
  shows "\<exists>st1. stmt_rel (same_tval tyenv tyenv G sem s s' m) st st1 \<and> guard_used tyenv G s' m st1 st2"
proof -
  let ?R = "same_tval tyenv tyenv G sem s s' m"
  note arg = subst_arg_same [OF rel, of _ _ G m] and opt = fold_opt_same [OF rel, of _ _ G m]
  show ?thesis
  proof (cases st)
    case (Ist_WrTmp t e)
    then obtain e1 e2 where b: "subst_Expr env e = Some e1" "fold_Expr env e1 = Some e2" "st2 = Ist_WrTmp t e2"
      using st2 by (auto simp: bind_Some_iff)
    have "?R e e2"
      using subst_WrTmp [OF rel _ b(1,2), of "tyenv ! t" G m] ok by (auto simp: same_tval_def assigned_ok_def Ist_WrTmp)
    with b(3) Ist_WrTmp show ?thesis by (auto intro: rel_WrTmp)
  next
    case (Ist_StoreG sg)
    with st2 obtain a b g k where a: "subst_arg env (sg_addr sg) = Some a" "subst_arg env (sg_data sg) = Some b"
        "subst_arg env (sg_guard sg) = Some g" "folded_cond g = Some k"
      and k: "st2 = (case k of None \<Rightarrow> Ist_StoreG (sg \<lparr> sg_addr := a, sg_data := b, sg_guard := g \<rparr>) | Some False \<Rightarrow> Ist_NoOp
         | Some True \<Rightarrow> Ist_Store (sg_end sg) a b)"
      by (auto simp: bind_Some_iff fold_arg_subst)
    note b = arg [OF a(1)] arg [OF a(2)] arg [OF a(3)]
    show ?thesis
      unfolding k Ist_StoreG by (rule exI, rule conjI, rule rel_StoreG [of ?R, OF b], rule guard_used_StoreG [OF a(4)])
  next
    case (Ist_LoadG lg)
    with st2 obtain a b g k where a: "subst_arg env (lg_addr lg) = Some a" "subst_arg env (lg_alt lg) = Some b"
        "subst_arg env (lg_guard lg) = Some g" "folded_cond g = Some k"
      and k: "st2 = (case k of Some False \<Rightarrow> Ist_WrTmp (lg_dst lg) b | _ \<Rightarrow> Ist_LoadG (lg \<lparr> lg_addr := a, lg_alt := b, lg_guard := g \<rparr>))"
      by (auto simp: bind_Some_iff fold_arg_subst)
    note b = arg [OF a(1)] arg [OF a(2)] arg [OF a(3)]
    show ?thesis
      unfolding k Ist_LoadG by (rule exI, rule conjI, rule rel_LoadG [of ?R, OF b], rule guard_used_LoadG [OF a(4)])
  next
    case (Ist_Exit g jk dst off)
    with st2 obtain g' k where a: "subst_arg env g = Some g'" "folded_cond g' = Some k"
      and k: "st2 = (case k of Some False \<Rightarrow> Ist_NoOp | _ \<Rightarrow> Ist_Exit g' jk dst off)"
      by (auto simp: bind_Some_iff fold_arg_subst)
    show ?thesis
      unfolding k Ist_Exit by (rule exI, rule conjI, rule rel_Exit [of ?R, OF arg [OF a(1)]], rule guard_used_Exit [OF a(2)])
  next
    case (Ist_CAS cas)
    with st2 show ?thesis
      by (intro exI [of _ st2] conjI) (auto simp: bind_Some_iff fold_arg_subst intro!: rel_CAS dest: arg opt)
  next
    case (Ist_Dirty d)
    with st2 obtain a g as where b: "(if d_mFx d \<noteq> Ifx_None then (case d_mAddr d of None \<Rightarrow> None | Some a \<Rightarrow> map_option Some (fold_arg env a))
        else Some (d_mAddr d)) = Some a" "subst_arg env (d_guard d) = Some g" "fold_dirty_args env (d_args d) = Some as"
      "st2 = Ist_Dirty (d \<lparr> d_mAddr := a, d_guard := g, d_args := as \<rparr>)"
      by (auto simp: bind_Some_iff fold_arg_subst simp del: if_split)
    have "d_mFx d \<noteq> Ifx_None \<Longrightarrow> rel_option ?R (d_mAddr d) a"
      using b(1) by (auto simp: fold_arg_subst split: option.splits dest: arg)
    then show ?thesis
      unfolding b(4) Ist_Dirty
      by (intro exI, rule conjI [OF rel_Dirty guard_used_refl])
        (assumption, rule arg [OF b(2)], rule fold_dirty_args_same [OF rel b(3)])
  next
    case (Ist_AbiHint base len nia)
    with st2 show ?thesis
      by (intro exI [of _ st2] conjI) (auto simp: bind_Some_iff fold_arg_subst intro!: rel_AbiHint dest: arg)
  next
    case (Ist_Put off d)
    with st2 show ?thesis
      by (intro exI [of _ st2] conjI) (auto simp: bind_Some_iff fold_arg_subst intro!: rel_Put dest: arg)
  next
    case (Ist_PutI descr ix bias d)
    with st2 show ?thesis
      by (intro exI [of _ st2] conjI) (auto simp: bind_Some_iff fold_arg_subst intro!: rel_PutI dest: arg)
  next
    case (Ist_Store en a d)
    with st2 show ?thesis
      by (intro exI [of _ st2] conjI) (auto simp: bind_Some_iff fold_arg_subst intro!: rel_Store dest: arg)
  next
    case (Ist_LLSC en t a d)
    with st2 show ?thesis
      by (intro exI [of _ st2] conjI) (auto simp: bind_Some_iff fold_arg_subst intro!: rel_LLSC dest: arg opt)
  qed (use st2 in \<open>auto intro!: exI [of _ st2] intro: stmt_rel.intros\<close>)
qed

lemma subst_fold_exec:
  assumes rel: "cprop_rel sem tyenv w env U s s'" and st2: "subst_and_fold_Stmt env st = Some st2"
    and ex: "exec_stmt tyenv G sem st s m = Some r" and ok: "assigned_ok tyenv w st" and fresh: "set (stmt_defs st) \<inter> U = {}"
  shows "\<exists>r'. exec_stmt tyenv G sem st2 s' m = Some r' \<and> outcome_rel (cprop_rel sem tyenv w env (U \<union> set (stmt_defs st))) r r'"
proof -
  from subst_fold_rel [OF rel st2 ok, of G m] obtain st1 where
    st1: "stmt_rel (same_tval tyenv tyenv G sem s s' m) st st1" "guard_used tyenv G s' m st1 st2" by (elim exE conjE)
  from exec_stmt_rel [OF st1(1) types_extend_refl(1) ex] st1(2) obtain r' where
    r': "exec_stmt tyenv G sem st2 s' m = Some r'" "outcome_rel (upd_rel (set (stmt_defs st)) s s') r r'"
    by (auto simp: guard_used_def)
  show ?thesis
  proof (cases r)
    case (Falls s1 m1)
    from r' Falls obtain s1' where s1': "r' = Falls s1' m1" "upd_rel (set (stmt_defs st)) s s' s1 s1'" by auto
    from cprop_rel_upd [OF rel s1'(2) fresh exec_store_ok [OF cprop_relD(4) [OF rel] ex [unfolded Falls]]] s1'(1) r'(1) Falls
    show ?thesis by simp
  qed (use r' in auto)
qed

end

section \<open>The loop\<close>

lemma addStmt_fields:
  "add_stmt bb st = Some bb' \<Longrightarrow> bb_stmts bb' = bb_stmts bb @ [st] \<and> bb_tyenv bb' = bb_tyenv bb \<and> bb_next bb' = bb_next bb \<and>
     bb_jumpkind bb' = bb_jumpkind bb \<and> bb_offsIP bb' = bb_offsIP bb"
  by (auto simp: add_stmt_def Let_def bind_Some_iff assert_that_def split: if_splits)

lemma cprop_emit_Some:
  "cprop_emit (env, out, fixups) st = Some (env', out', fixups') \<Longrightarrow>
     env' = env \<and> fixups' = fixups \<and> bb_stmts out' = bb_stmts out @ [st] \<and> bb_tyenv out' = bb_tyenv out"
  by (auto simp: cprop_emit_def dest: addStmt_fields)

text \<open>What is emitted for a statement after substitution.\<close>

definition emitted :: "IRStmt \<Rightarrow> IRStmt list \<Rightarrow> bool" where
  "emitted st2 new \<longleftrightarrow> new = [st2] \<or> new = [Ist_NoOp, st2] \<or> (new = [] \<and> (st2 = Ist_NoOp \<or> (\<exists>t e. st2 = Ist_WrTmp t e \<and> propagates e)))"

lemma cprop_Stmt_NoOp: "cprop_Stmt cs Ist_NoOp = Some cs"
  by (cases cs) (simp add: cprop_Stmt_def)

lemma cprop_emit_emitted:
  assumes "cprop_emit (env, out, fixups) st2 = Some (env', out', fixups')"
  shows "\<exists>new. bb_stmts out' = bb_stmts out @ new \<and> bb_tyenv out' = bb_tyenv out \<and> emitted st2 new \<and> env' = env"
  using cprop_emit_Some [OF assms] by (intro exI [of _ "[st2]"]) (simp add: emitted_def)

lemma cprop_Stmt_emits:
  assumes "cprop_Stmt (env, out, fixups) st = Some (env', out', fixups')" "st \<noteq> Ist_NoOp"
  shows "\<exists>st2 new. subst_and_fold_Stmt env st = Some st2 \<and> bb_stmts out' = bb_stmts out @ new \<and> bb_tyenv out' = bb_tyenv out \<and>
    emitted st2 new \<and> env' = (case st2 of Ist_WrTmp t e \<Rightarrow> env(t \<mapsto> e) | _ \<Rightarrow> env)"
proof -
  from assms obtain st2 where st2: "subst_and_fold_Stmt env st = Some st2"
    by (auto simp: cprop_Stmt_def bind_Some_iff)
  have "\<exists>new. bb_stmts out' = bb_stmts out @ new \<and> bb_tyenv out' = bb_tyenv out \<and> emitted st2 new \<and>
      env' = (case st2 of Ist_WrTmp t e \<Rightarrow> env(t \<mapsto> e) | _ \<Rightarrow> env)"
  proof (cases "(\<exists>t e. st2 = Ist_WrTmp t e) \<or> (\<exists>lg. st2 = Ist_LoadG lg) \<or> st2 = Ist_NoOp")
    case False
    with assms st2 have "cprop_emit (env, out, fixups) st2 = Some (env', out', fixups')"
      by (cases st2) (auto simp: cprop_Stmt_def)
    from cprop_emit_emitted [OF this] False show ?thesis by (cases st2) auto
  next
    case True
    then consider (wr) t e where "st2 = Ist_WrTmp t e" | (lg) lg where "st2 = Ist_LoadG lg" | (nop) "st2 = Ist_NoOp" by blast
    then show ?thesis
    proof cases
      case wr
      show ?thesis
      proof (cases "propagates e")
        case True
        with assms st2 wr show ?thesis by (auto simp: cprop_Stmt_def emitted_def bind_Some_iff)
      next
        case False
        with assms st2 wr have "cprop_emit (env(t \<mapsto> e), out, fixups) st2 = Some (env', out', fixups')"
          by (auto simp: cprop_Stmt_def bind_Some_iff)
        from cprop_emit_emitted [OF this] wr show ?thesis by simp
      qed
    next
      case lg
      show ?thesis
      proof (cases "\<exists>fixups2. cprop_emit (env, out, fixups2) st2 = Some (env', out', fixups')")
        case True
        with lg show ?thesis by (auto dest: cprop_emit_emitted)
      next
        case False
        with assms st2 lg obtain env2 out2 fixups2 where
          e: "cprop_emit (env, out, fixups @ [length (bb_stmts out)]) Ist_NoOp = Some (env2, out2, fixups2)"
            "cprop_emit (env2, out2, fixups2) st2 = Some (env', out', fixups')"
          by (auto simp: cprop_Stmt_def bind_Some_iff split: option.splits if_splits)
        with lg cprop_emit_Some [OF e(1)] cprop_emit_Some [OF e(2)] show ?thesis
          by (intro exI [of _ "[Ist_NoOp, st2]"]) (simp add: emitted_def)
      qed
    next
      case nop
      with assms st2 show ?thesis by (auto simp: cprop_Stmt_def emitted_def)
    qed
  qed
  with st2 show ?thesis by blast
qed

context fold_sem
begin

text \<open>The environment after an assignment.\<close>

lemma subst_WrTmp_shape:
  assumes "subst_and_fold_Stmt env st = Some (Ist_WrTmp t e2)"
  shows "(\<exists>e. st = Ist_WrTmp t e) \<or> (\<exists>lg. st = Ist_LoadG lg \<and> lg_dst lg = t \<and> subst_arg env (lg_alt lg) = Some e2)"
  using assms by (cases st) (auto simp: bind_Some_iff fold_arg_subst split: option.splits bool.splits)

lemma subst_WrTmp_value:
  assumes rel: "cprop_rel sem tyenv w env U s s'" and st2: "subst_and_fold_Stmt env st = Some (Ist_WrTmp t e2)"
    and ex: "exec_stmt tyenv G sem st s m = Some r" and ok: "assigned_ok tyenv w st" and uses: "stmt_uses st \<subseteq> U"
  shows "\<exists>x. r = Falls (s(t := x)) m \<and> t < length tyenv \<and> fits (tyenv ! t) x \<and> wt tyenv w e2 (tyenv ! t) \<and>
    isFlat_rhs e2 = Some True \<and> val G sem s m e2 = Some x \<and> expr_temps e2 \<subseteq> U - dropped env \<and> stmt_defs st = [t]"
  using subst_WrTmp_shape [OF st2]
proof (elim disjE exE conjE)
  fix e
  assume st: "st = Ist_WrTmp t e"
  then obtain e1 where b: "subst_Expr env e = Some e1" "fold_Expr env e1 = Some e2"
    using st2 by (auto simp: bind_Some_iff)
  obtain ty x s1 where v: "tval tyenv G sem s m e = Some (ty, x)" "assign tyenv t x s = Some s1" "r = Falls s1 m"
    using ex st by (auto simp: bind_Some_iff)
  have "wt tyenv w e (tyenv ! t)" using ok st by (simp add: assigned_ok_def)
  from subst_WrTmp [OF rel this b v(1)] v(2,3) uses st cprop_relD(7) [OF rel] show ?thesis
    by (auto simp: assign_Some)
next
  fix lg
  assume st: "st = Ist_LoadG lg" "lg_dst lg = t" "subst_arg env (lg_alt lg) = Some e2"
  then obtain g where g: "subst_arg env (lg_guard lg) = Some g" "folded_cond g = Some (Some False)"
    using st2 by (auto simp: bind_Some_iff fold_arg_subst split: option.splits bool.splits)
  obtain pt p yt y gt gv res arg x s1 where v: "tval tyenv G sem s m (lg_alt lg) = Some (yt, y)"
      "tval tyenv G sem s m (lg_guard lg) = Some (gt, gv)" "loadg_val G lg arg p y gv m = Some x"
    and s1: "assign tyenv (lg_dst lg) x s = Some s1" "r = Falls s1 m"
    using ex unfolding st(1) by (auto simp: bind_Some_iff)
  have "gv = 0" using folded_cond_tval [OF g(2) subst_arg_tval [OF rel g(1) v(2)]] by simp
  then have "x = y" using v(3) by (simp add: loadg_val_def)
  note D = cprop_relD [OF rel]
  have "wt tyenv w (lg_alt lg) (tyenv ! t)" using ok st(1,2) by (simp add: assigned_ok_def)
  then have "wt tyenv w e2 (tyenv ! t)" using subst_arg_wt [OF st(3) D(2)] by simp
  moreover have "isFlat_rhs e2 = Some True" using subst_arg_cases [OF st(3)] atom_flat by blast
  moreover have "val G sem s m e2 = Some x"
    using subst_arg_val [OF st(3) D(1), of G m] tval_Some [OF v(1)] \<open>x = y\<close> by simp
  moreover have "expr_temps e2 \<subseteq> U - dropped env"
    using subst_arg_temps [OF st(3) D(3)] uses st(1) D(7) by auto
  ultimately show ?thesis using s1 st(1,2) by (auto simp: assign_Some)
qed

end

lemma exec_stmts_emitted:
  assumes "emitted st2 new" "\<not> (\<exists>t e. st2 = Ist_WrTmp t e)"
  shows "exec_stmts tyenv G sem new s m = exec_stmt tyenv G sem st2 s m"
  using assms by (auto simp: emitted_def split: option.splits outcome.splits)

lemma exec_stmts_WrTmp:
  assumes "emitted (Ist_WrTmp t e) new"
  shows "exec_stmts tyenv G sem new s m = exec_stmt tyenv G sem (Ist_WrTmp t e) s m \<or>
    propagates e \<and> exec_stmts tyenv G sem new s m = Some (Falls s m)"
  using assms by (auto simp: emitted_def simp del: exec_stmt.simps(6) split: option.splits outcome.splits)

text \<open>Statements in single assignment form, after the assignments to \<open>U\<close>.\<close>

primrec ssa_ok :: "IRType list \<Rightarrow> IRType \<Rightarrow> IRTemp set \<Rightarrow> IRStmt list \<Rightarrow> bool" where
  "ssa_ok tyenv w U [] = True"
| "ssa_ok tyenv w U (st # sts) = (assigned_ok tyenv w st \<and> distinct (stmt_defs st) \<and> set (stmt_defs st) \<inter> U = {} \<and>
     stmt_uses st \<subseteq> U \<union> dirty_guard_temps st \<and> ssa_ok tyenv w (U \<union> set (stmt_defs st)) sts)"

context fold_sem
begin

lemma cprop_Stmt_sim:
  assumes rel: "cprop_rel sem tyenv w env U s s'" and cp: "cprop_Stmt (env, out, fixups) st = Some (env', out', fixups')"
    and ex: "exec_stmt tyenv G sem st s m = Some r" and ssa: "ssa_ok tyenv w U (st # sts)"
  shows "\<exists>new r'. bb_stmts out' = bb_stmts out @ new \<and> exec_stmts tyenv G sem new s' m = Some r' \<and>
    outcome_rel (cprop_rel sem tyenv w env' (U \<union> set (stmt_defs st))) r r'"
proof (cases "st = Ist_NoOp")
  case True
  with cp ex rel show ?thesis by (auto simp: cprop_Stmt_NoOp intro!: exI [of _ "[]"])
next
  case False
  from cprop_Stmt_emits [OF cp False] obtain st2 new where st2: "subst_and_fold_Stmt env st = Some st2"
    and new: "bb_stmts out' = bb_stmts out @ new" "emitted st2 new" and env': "env' = (case st2 of Ist_WrTmp t e \<Rightarrow> env(t \<mapsto> e) | _ \<Rightarrow> env)"
    by blast
  show ?thesis
  proof (cases "\<exists>t e. st2 = Ist_WrTmp t e")
    case False
    then have "env' = env" using env' by (cases st2) auto
    with subst_fold_exec [OF rel st2 ex] ssa new(1) exec_stmts_emitted [OF new(2) False, of tyenv G sem s' m] show ?thesis
      by simp
  next
    case True
    then obtain t e2 where t: "st2 = Ist_WrTmp t e2" by blast
    have "dirty_guard_temps st = {}"
      using subst_WrTmp_shape [OF st2 [unfolded t]] by auto
    with subst_WrTmp_value [OF rel st2 [unfolded t] ex] ssa obtain x where x: "r = Falls (s(t := x)) m" "t < length tyenv" "fits (tyenv ! t) x"
        "wt tyenv w e2 (tyenv ! t)" "isFlat_rhs e2 = Some True" "val G sem s m e2 = Some x" "expr_temps e2 \<subseteq> U - dropped env"
        "stmt_defs st = [t]" by auto
    have "pure e2 \<Longrightarrow> eval sem s e2 = Some x" using flat_val [OF x(5), of G sem s m] x(6) by simp
    moreover have "t \<notin> U" using ssa x(8) by simp
    ultimately have bind: "s1' = s'(t := x) \<or> propagates e2 \<and> s1' = s' \<Longrightarrow> cprop_rel sem tyenv w env' (insert t U) (s(t := x)) s1'" for s1'
      using cprop_rel_bind [OF rel _ x(2-5,7)] unfolding env' t by simp
    have "tval tyenv G sem s' m e2 = Some (tyenv ! t, x)"
      using x(7) by (intro tval_transfer [OF rel x(4) _ x(6,3)]) blast
    then have "exec_stmt tyenv G sem st2 s' m = Some (Falls (s'(t := x)) m)"
      using x(2,3) by (simp add: t assign_def)
    with exec_stmts_WrTmp [OF new(2) [unfolded t], of tyenv G sem s' m] bind show ?thesis
      using new(1) x(1,8) by (auto simp: t)
  qed
qed

lemma cprop_Stmts_appends:
  "cprop_Stmts (env, out, fixups) sts = Some (env', out', fixups') \<Longrightarrow>
     \<exists>new. bb_stmts out' = bb_stmts out @ new \<and> bb_tyenv out' = bb_tyenv out"
proof (induction sts arbitrary: env out fixups)
  case (Cons st sts)
  then obtain env1 out1 fixups1 where 1: "cprop_Stmt (env, out, fixups) st = Some (env1, out1, fixups1)"
    "cprop_Stmts (env1, out1, fixups1) sts = Some (env', out', fixups')" by (auto simp: bind_Some_iff)
  from cprop_Stmt_emits [OF 1(1)] 1(1) Cons.IH [OF 1(2)] show ?case
    by (cases "st = Ist_NoOp") (auto simp: cprop_Stmt_NoOp)
qed simp

lemma cprop_Stmts_sim:
  assumes "cprop_rel sem tyenv w env U s s'" "cprop_Stmts (env, out, fixups) sts = Some (env', out', fixups')"
    "exec_stmts tyenv G sem sts s m = Some r" "ssa_ok tyenv w U sts"
  shows "\<exists>new r'. bb_stmts out' = bb_stmts out @ new \<and> exec_stmts tyenv G sem new s' m = Some r' \<and>
    outcome_rel (\<lambda>s s'. \<exists>U'. cprop_rel sem tyenv w env' U' s s') r r'"
  using assms
proof (induction sts arbitrary: env out fixups U s s' m)
  case Nil
  then show ?case by (auto intro!: exI [of _ "[]"])
next
  case (Cons st sts)
  from Cons.prems(2) obtain env1 out1 fixups1 where 1: "cprop_Stmt (env, out, fixups) st = Some (env1, out1, fixups1)"
    "cprop_Stmts (env1, out1, fixups1) sts = Some (env', out', fixups')" by (auto simp: bind_Some_iff)
  from Cons.prems(3) obtain r1 where r1: "exec_stmt tyenv G sem st s m = Some r1" by (auto split: option.splits)
  from cprop_Stmt_sim [OF Cons.prems(1) 1(1) r1 Cons.prems(4)] obtain new r' where new: "bb_stmts out1 = bb_stmts out @ new"
    "exec_stmts tyenv G sem new s' m = Some r'" "outcome_rel (cprop_rel sem tyenv w env1 (U \<union> set (stmt_defs st))) r1 r'" by blast
  show ?case
  proof (cases r1)
    case (Falls s1 m1)
    with new(3) obtain s1' where s1': "r' = Falls s1' m1" "cprop_rel sem tyenv w env1 (U \<union> set (stmt_defs st)) s1 s1'" by auto
    have "exec_stmts tyenv G sem sts s1 m1 = Some r" using Cons.prems(3) r1 Falls by simp
    from Cons.IH [OF s1'(2) 1(2) this] Cons.prems(4) obtain new2 r2 where "bb_stmts out' = bb_stmts out1 @ new2"
      "exec_stmts tyenv G sem new2 s1' m1 = Some r2" "outcome_rel (\<lambda>s s'. \<exists>U'. cprop_rel sem tyenv w env' U' s s') r r2" by auto
    with new s1'(1) show ?thesis by (intro exI [of _ "new @ new2"] exI [of _ r2]) (simp add: exec_append)
  next
    case (Exits pc jk off m1)
    then have "r = r1" using Cons.prems(3) r1 by simp
    with cprop_Stmts_appends [OF 1(2)] new Exits show ?thesis by (auto simp: exec_append)
  qed
qed

end

section \<open>What the sanity check gives\<close>

lemma tcStmt_assigned:
  assumes "tcStmt bb st w"
  shows "assigned_ok (bb_tyenv bb) w st"
proof (cases st)
  case (Ist_WrTmp t e)
  with assms show ?thesis
    by (auto simp: assigned_ok_def has_ty_def typeOfIRTemp_def intro!: tcExpr_wt split: option.splits if_splits)
next
  case (Ist_LoadG lg)
  with assms show ?thesis
    by (auto simp: assigned_ok_def has_ty_def typeOfIRTemp_def intro!: tcExpr_wt split: option.splits if_splits)
qed (simp_all add: assigned_ok_def)

lemma check_defs_ssa:
  assumes "check_defs bb sts (counts (length (bb_tyenv bb)) ts) \<noteq> None" "list_all (\<lambda>st. tcStmt bb st w) sts"
  shows "ssa_ok (bb_tyenv bb) w (set ts) sts"
  using assms
proof (induction sts arbitrary: ts)
  case (Cons st sts)
  note step = check_defs_step [OF Cons.prems(1)]
  have "assigned_ok (bb_tyenv bb) w st" "stmt_uses st \<subseteq> set ts \<union> dirty_guard_temps st"
    using tcStmt_assigned useBeforeDef_Stmt_counts [OF step(1), of w] Cons.prems(2) by auto
  with step(2,3) Cons.IH [OF step(4)] Cons.prems(2) show ?case by (auto simp: Un_commute)
qed simp

lemma sanityCheck_ssa: "sanityCheckIRSB bb flat w \<Longrightarrow> ssa_ok (bb_tyenv bb) w {} (bb_stmts bb)"
  using check_defs_ssa [of bb "bb_stmts bb" "[]" w] by (auto simp: sanityCheckIRSB_def counts_Nil)

section \<open>Guarded loads that became unconditional\<close>

definition agree_below :: "nat \<Rightarrow> store \<Rightarrow> store \<Rightarrow> bool" where
  "agree_below n s s' \<longleftrightarrow> (\<forall>t < n. s' t = s t)"

lemma typeOf_extend: "typeOfIRExpr tyenv e = Some ty \<Longrightarrow> typeOfIRExpr (tyenv @ ts) e = Some ty"
  by (induction e arbitrary: ty) (auto simp: typeOfIRTemp_def nth_append split: if_splits)

lemma tval_extend:
  assumes "agree_below (length tyenv) s s'" "tval tyenv G sem s m e = Some p"
  shows "tval (tyenv @ ts) G sem s' m e = Some p"
proof -
  obtain ty x where p: "p = (ty, x)" by fastforce
  have temps: "\<forall>t \<in> expr_temps e. t < length tyenv" using tval_temps [OF assms(2)] by blast
  then have "val G sem s' m e = val G sem s m e"
    using assms(1) by (intro val_agree(1)) (auto simp: agree_below_def)
  with tval_Some [OF assms(2) [unfolded p]] typeOf_extend [of tyenv e ty ts] temps show ?thesis
    unfolding p tval_def by auto
qed

lemma exec_stmts_extend:
  assumes "agree_below (length tyenv) s s'" "exec_stmts tyenv G sem sts s m = Some r"
  shows "\<exists>r'. exec_stmts (tyenv @ ts) G sem sts s' m = Some r' \<and> outcome_rel (agree_below (length tyenv)) r r'"
  using assms
proof (induction sts arbitrary: s s' m)
  case (Cons st sts)
  from Cons.prems(2) obtain r1 where r1: "exec_stmt tyenv G sem st s m = Some r1" by (auto split: option.splits)
  have "stmt_rel (same_tval tyenv (tyenv @ ts) G sem s s' m) st st"
    unfolding same_tval_def using tval_extend [OF Cons.prems(1)] by (intro stmt_rel_refl allI impI)
  from exec_stmt_rel [OF this types_extend_refl(2) r1] obtain r1' where
    r1': "exec_stmt (tyenv @ ts) G sem st s' m = Some r1'" "outcome_rel (upd_rel (set (stmt_defs st)) s s') r1 r1'" by blast
  show ?case
  proof (cases r1)
    case (Falls s1 m1)
    with r1'(2) obtain s1' where s1': "r1' = Falls s1' m1" "upd_rel (set (stmt_defs st)) s s' s1 s1'" by auto
    then have "agree_below (length tyenv) s1 s1'"
      using Cons.prems(1) unfolding agree_below_def upd_rel_def by metis
    from Cons.IH [OF this] Cons.prems(2) r1 r1'(1) Falls s1'(1) show ?thesis by simp
  qed (use Cons.prems(2) r1 r1' in auto)
qed auto

text \<open>The conversion of a guarded load is the operator the pass emits.\<close>

lemma take_bit_wider: "take_bit n x = x \<Longrightarrow> n \<le> k \<Longrightarrow> take_bit k x = x" for x :: int
  by (metis min.absorb2 take_bit_take_bit)

lemma cvt_val_types:
  assumes "cvt_val cvt y = Some x" "typeOfIRLoadGOp cvt = Some (res, arg)" "fits arg y"
  shows "fits res x"
  using assms by (cases cvt) (auto simp: fits_def zext_def sext_def take_bit_take_bit elim: take_bit_wider)

context fold_sem
begin

lemma cvt_val_op:
  assumes "cvt_val cvt y = Some x" "cprop_cvtOp cvt = Some op" "typeOfIRLoadGOp cvt = Some (res, arg)" "fits arg y"
    "tn < length tyenv" "tyenv ! tn = arg" "s tn = y"
  shows "tval tyenv G sem s m (case op of None \<Rightarrow> Iex_RdTmp tn | Some op \<Rightarrow> Iex_Unop op (Iex_RdTmp tn)) = Some (res, x)"
proof -
  have u: "sem Iop_8Uto32 [z] = zext z" "sem Iop_16Uto32 [z] = zext z" "sem Iop_8Sto32 [z] = sext 8 32 z" "sem Iop_16Sto32 [z] = sext 16 32 z" for z
    by (rule sem_unop_eq, simp add: sem_rules)+
  show ?thesis
    using assms cvt_val_types [OF assms(1,3,4)]
    by (cases cvt) (auto simp: tval_def typeOfIRTemp_def u prim_type_defs)
qed

text \<open>A guarded load whose guard is true, and the pair of assignments that replaces it.\<close>

lemma loadg_pair:
  assumes ex: "exec_stmt tyenv G sem (Ist_LoadG lg) s m = Some r" and g: "lg_guard lg = Iex_Const (Ico_U1 True)"
    and cvt: "typeOfIRLoadGOp (lg_cvt lg) = Some (res, arg)" "cprop_cvtOp (lg_cvt lg) = Some op" and ag: "agree_below (length tyenv) s s'"
  shows "\<exists>s1 s1'. r = Falls s1 m \<and> agree_below (length tyenv) s1 s1' \<and>
    exec_stmts (tyenv @ [arg]) G sem [Ist_WrTmp (length tyenv) (Iex_Load (lg_end lg) arg (lg_addr lg)),
      Ist_WrTmp (lg_dst lg) (case op of None \<Rightarrow> Iex_RdTmp (length tyenv) | Some op \<Rightarrow> Iex_Unop op (Iex_RdTmp (length tyenv)))] s' m =
        Some (Falls s1' m)"
proof -
  let ?n = "length tyenv" and ?tyenv = "tyenv @ [arg]"
  obtain pt p yt y gt gv x s1 where v: "tval tyenv G sem s m (lg_addr lg) = Some (pt, p)" "tval tyenv G sem s m (lg_guard lg) = Some (gt, gv)"
      "loadg_val G lg arg p y gv m = Some x" "assign tyenv (lg_dst lg) x s = Some s1" "r = Falls s1 m"
    using ex cvt(1) by (auto simp: bind_Some_iff)
  have "gv \<noteq> 0" using v(2) g tval_Some by fastforce
  then obtain z where z: "g_load G (lg_end lg) arg p m = Some z" "fits arg z" "cvt_val (lg_cvt lg) z = Some x"
    using v(3) by (auto simp: loadg_val_def bind_Some_iff split: if_splits)
  have addr: "tval ?tyenv G sem s' m (lg_addr lg) = Some (pt, p)" by (rule tval_extend [OF ag v(1)])
  then have "tval ?tyenv G sem s' m (Iex_Load (lg_end lg) arg (lg_addr lg)) = Some (arg, z)"
    using tval_Some [OF addr] tval_temps [OF addr] z(1,2) by (auto simp: tval_def)
  moreover have "tval ?tyenv G sem (s'(?n := z)) m (case op of None \<Rightarrow> Iex_RdTmp ?n | Some op \<Rightarrow> Iex_Unop op (Iex_RdTmp ?n)) = Some (res, x)"
    by (rule cvt_val_op [OF z(3) cvt(2,1) z(2)]) simp_all
  moreover have "assign ?tyenv (lg_dst lg) x (s'(?n := z)) = Some (s'(?n := z, lg_dst lg := x))"
    using v(4) by (auto simp: assign_Some nth_append)
  moreover have "agree_below ?n s1 (s'(?n := z, lg_dst lg := x))"
    using v(4) ag by (auto simp: assign_Some agree_below_def)
  moreover have "assign ?tyenv ?n z s' = Some (s'(?n := z))" using z(2) by (simp add: assign_Some)
  ultimately show ?thesis using v(5) by auto
qed

lemma update_pair: "Suc i < length xs \<Longrightarrow> xs[i := a, Suc i := b] = take i xs @ [a, b] @ drop (Suc (Suc i)) xs"
  by (simp add: upd_conv_take_nth_drop take_Suc_conv_app_nth Cons_nth_drop_Suc min_def drop_take)

lemma split_pair: "Suc i < length xs \<Longrightarrow> xs = take i xs @ [xs ! i, xs ! Suc i] @ drop (Suc (Suc i)) xs"
  by (simp add: Cons_nth_drop_Suc)

lemma fixup_exec:
  assumes fx: "cprop_fixup out ix = Some out'" and ex: "exec_stmts (bb_tyenv out) G sem (bb_stmts out) s m = Some r"
  shows "\<exists>ts r'. out' = out \<lparr> bb_tyenv := bb_tyenv out @ ts, bb_stmts := bb_stmts out' \<rparr> \<and>
    exec_stmts (bb_tyenv out @ ts) G sem (bb_stmts out') s m = Some r' \<and> outcome_rel (agree_below (length (bb_tyenv out))) r r'"
proof -
  let ?ty = "bb_tyenv out" and ?sts = "bb_stmts out"
  from fx obtain lg res arg op where lg: "Suc ix < length ?sts" "?sts ! ix = Ist_NoOp" "?sts ! Suc ix = Ist_LoadG lg"
      "lg_guard lg = Iex_Const (Ico_U1 True)" "typeOfIRLoadGOp (lg_cvt lg) = Some (res, arg)" "cprop_cvtOp (lg_cvt lg) = Some op"
    and out': "out' = out \<lparr> bb_tyenv := ?ty @ [arg], bb_stmts := ?sts[ix := Ist_WrTmp (length ?ty) (Iex_Load (lg_end lg) arg (lg_addr lg)),
      Suc ix := Ist_WrTmp (lg_dst lg) (case op of None \<Rightarrow> Iex_RdTmp (length ?ty) | Some op \<Rightarrow> Iex_Unop op (Iex_RdTmp (length ?ty)))] \<rparr>"
    by (auto simp: cprop_fixup_def bind_Some_iff new_temp_def split: IRStmt.splits if_splits)
  then have stmts': "bb_stmts out' = take ix ?sts @ [Ist_WrTmp (length ?ty) (Iex_Load (lg_end lg) arg (lg_addr lg)),
      Ist_WrTmp (lg_dst lg) (case op of None \<Rightarrow> Iex_RdTmp (length ?ty) | Some op \<Rightarrow> Iex_Unop op (Iex_RdTmp (length ?ty)))] @
      drop (Suc (Suc ix)) ?sts"
    by (simp add: update_pair [OF lg(1)])
  have ag: "agree_below (length ?ty) s s" by (simp add: agree_below_def)
  from ex have ex': "exec_stmts ?ty G sem (take ix ?sts @ [Ist_NoOp, Ist_LoadG lg] @ drop (Suc (Suc ix)) ?sts) s m = Some r"
    using split_pair [OF lg(1)] lg(2,3) by simp
  then obtain r1 where r1: "exec_stmts ?ty G sem (take ix ?sts) s m = Some r1"
    by (auto simp: exec_append split: option.splits)
  from exec_stmts_extend [OF ag r1, of "[arg]"] obtain r1' where
    r1': "exec_stmts (?ty @ [arg]) G sem (take ix ?sts) s m = Some r1'" "outcome_rel (agree_below (length ?ty)) r1 r1'" by blast
  have "\<exists>r'. exec_stmts (?ty @ [arg]) G sem (bb_stmts out') s m = Some r' \<and> outcome_rel (agree_below (length ?ty)) r r'"
  proof (cases r1)
    case (Exits pc jk off m1)
    then have "r = r1" "r1' = r1" using ex' r1 r1'(2) by (auto simp: exec_append)
    with Exits r1' show ?thesis by (simp add: stmts' exec_append)
  next
    case (Falls s1 m1)
    with r1'(2) obtain s1' where s1': "r1' = Falls s1' m1" "agree_below (length ?ty) s1 s1'" by auto
    from ex' r1 Falls obtain r2 where r2: "exec_stmt ?ty G sem (Ist_LoadG lg) s1 m1 = Some r2"
      by (auto simp: exec_append simp del: exec_stmt.simps(9) split: option.splits outcome.splits)
    from loadg_pair [OF r2 lg(4-6) s1'(2)] obtain s2 s2' where s2: "r2 = Falls s2 m1" "agree_below (length ?ty) s2 s2'"
      and pair: "exec_stmts (?ty @ [arg]) G sem [Ist_WrTmp (length ?ty) (Iex_Load (lg_end lg) arg (lg_addr lg)),
        Ist_WrTmp (lg_dst lg) (case op of None \<Rightarrow> Iex_RdTmp (length ?ty) | Some op \<Rightarrow> Iex_Unop op (Iex_RdTmp (length ?ty)))] s1' m1 =
          Some (Falls s2' m1)" by blast
    have "exec_stmts ?ty G sem (drop (Suc (Suc ix)) ?sts) s2 m1 = Some r"
      using ex' r1 Falls r2 s2(1) by (simp add: exec_append del: exec_stmt.simps(9))
    from exec_stmts_extend [OF s2(2) this, of "[arg]"] show ?thesis
      using r1'(1) s1'(1) pair by (simp only: stmts' exec_append option.case outcome.case)
  qed
  with out' show ?thesis by auto
qed

end

section \<open>The pass\<close>

context fold_sem
begin

lemma fixup_block:
  assumes fx: "cprop_fixup out ix = Some out'" and ex: "exec_block G sem out s m = Some r"
  shows "exec_block G sem out' s m = Some r"
proof -
  obtain r1 where r1: "exec_stmts (bb_tyenv out) G sem (bb_stmts out) s m = Some r1"
    using ex by (auto simp: exec_block_def split: option.splits)
  from fixup_exec [OF fx r1] obtain ts r1' where out': "out' = out \<lparr> bb_tyenv := bb_tyenv out @ ts, bb_stmts := bb_stmts out' \<rparr>"
    "exec_stmts (bb_tyenv out @ ts) G sem (bb_stmts out') s m = Some r1'" "outcome_rel (agree_below (length (bb_tyenv out))) r1 r1'" by blast
  have fields: "bb_tyenv out' = bb_tyenv out @ ts" "bb_next out' = bb_next out" "bb_jumpkind out' = bb_jumpkind out" "bb_offsIP out' = bb_offsIP out"
    by (subst out'(1), simp)+
  show ?thesis
  proof (cases r1)
    case (Falls s1 m1)
    with out'(3) obtain s1' where s1': "r1' = Falls s1' m1" "agree_below (length (bb_tyenv out)) s1 s1'" by auto
    from ex r1 Falls obtain ty pc where pc: "tval (bb_tyenv out) G sem s1 m1 (bb_next out) = Some (ty, pc)"
      "r = (pc, bb_jumpkind out, bb_offsIP out, m1)" by (auto simp: exec_block_def)
    from tval_extend [OF s1'(2) pc(1), of ts] pc(2) out'(2) s1'(1) show ?thesis by (simp add: exec_block_def fields)
  qed (use ex r1 out'(2,3) in \<open>simp add: exec_block_def fields\<close>)
qed

lemma fixups_block:
  "cprop_fixups out ixs = Some out' \<Longrightarrow> exec_block G sem out s m = Some r \<Longrightarrow> exec_block G sem out' s m = Some r"
  by (induction ixs arbitrary: out) (auto simp: bind_Some_iff intro: fixup_block)

lemma subst_atom: "isIRAtom a \<Longrightarrow> subst_Expr env a = subst_arg env a"
  by (cases a) auto

lemma cprop_start: "store_ok tyenv s \<Longrightarrow> cprop_rel sem tyenv w (\<lambda>_. None) {} s s"
  by (simp add: cprop_rel_def fold_hyps_def env_wt_def env_vals_def env_clean_def env_temps_def)

lemma cprop_block:
  assumes sane: "sanityCheckIRSB bb True w" and cp: "cprop_BB bb = Some bb'" and s: "store_ok (bb_tyenv bb) s"
    and ex: "exec_block G sem bb s m = Some r"
  shows "exec_block G sem bb' s m = Some r"
proof -
  let ?ty = "bb_tyenv bb" and ?out0 = "empty_block (bb_next bb) \<lparr> bb_tyenv := bb_tyenv bb \<rparr>"
  obtain env out fixups next' where cs: "cprop_Stmts (\<lambda>_. None, ?out0, []) (bb_stmts bb) = Some (env, out, fixups)"
    and nx: "subst_Expr env (bb_next bb) = Some next'"
    and fx: "cprop_fixups (out \<lparr> bb_next := next', bb_jumpkind := bb_jumpkind bb, bb_offsIP := bb_offsIP bb \<rparr>) fixups = Some bb'"
      (is "cprop_fixups ?out fixups = _")
    using cp by (auto simp: cprop_BB_def bind_Some_iff)
  obtain r1 where r1: "exec_stmts ?ty G sem (bb_stmts bb) s m = Some r1"
    using ex by (auto simp: exec_block_def split: option.splits)
  from cprop_Stmts_sim [OF cprop_start [OF s] cs r1 sanityCheck_ssa [OF sane]] obtain r1' where
    r1': "exec_stmts ?ty G sem (bb_stmts out) s m = Some r1'" "outcome_rel (\<lambda>s s'. \<exists>U'. cprop_rel sem ?ty w env U' s s') r1 r1'"
    by (auto simp: empty_block_def)
  have ty: "bb_tyenv out = ?ty" using cprop_Stmts_appends [OF cs] by (simp add: empty_block_def)
  have "exec_block G sem ?out s m = Some r"
  proof (cases r1)
    case (Falls s1 m1)
    with r1'(2) obtain s1' U where s1': "r1' = Falls s1' m1" "cprop_rel sem ?ty w env U s1 s1'" by auto
    from ex r1 Falls obtain t pc where pc: "tval ?ty G sem s1 m1 (bb_next bb) = Some (t, pc)"
      "r = (pc, bb_jumpkind bb, bb_offsIP bb, m1)" by (auto simp: exec_block_def)
    have "isIRAtom (bb_next bb)" using sane by (simp add: sanityCheckIRSB_def)
    with nx have "subst_arg env (bb_next bb) = Some next'" by (simp add: subst_atom)
    from subst_arg_tval [OF s1'(2) this pc(1)] pc(2) r1'(1) s1'(1) show ?thesis
      by (simp add: exec_block_def ty)
  qed (use ex r1 r1' ty in \<open>simp add: exec_block_def\<close>)
  from fixups_block [OF fx this] show ?thesis .
qed

end

section \<open>The pass keeps the behaviour\<close>

text \<open>C38: constant propagation keeps the behaviour of every block the sanity checker accepts: if the block runs, from temporaries
  that fit their types, the block the pass returns runs to the same next address, jump kind, instruction pointer and state, for every
  guest and for every meaning of the operators that agrees with the hosts on the ones the folder knows.\<close>

theorem cprop_BB_refines:
  assumes "fold_sem sem" "sanityCheckIRSB bb True w" "cprop_BB bb = Some bb'" "store_ok (bb_tyenv bb) s"
    "exec_block G sem bb s m = Some r"
  shows "exec_block G sem bb' s m = Some r"
  using fold_sem.cprop_block [OF assms] .

text \<open>A guarded load whose guard is known to be true: the pass makes it unconditional.\<close>

definition cprop_example :: IRSB where
  "cprop_example = \<lparr> bb_tyenv = [Ity_I64, Ity_I1, Ity_I64], bb_stmts =
     [Ist_WrTmp 0 (Iex_Get 16 Ity_I64), Ist_WrTmp 1 (Iex_Const (Ico_U1 True)),
      Ist_LoadG \<lparr> lg_end = Iend_LE, lg_cvt = ILGop_Ident64, lg_dst = 2, lg_addr = Iex_RdTmp 0, lg_alt = Iex_Const (Ico_U64 0),
        lg_guard = Iex_RdTmp 1 \<rparr>,
      Ist_Put 16 (Iex_RdTmp 2)], bb_stmts_size = 8, bb_next = Iex_Const (Ico_U64 4), bb_jumpkind = Ijk_Boring, bb_offsIP = 16 \<rparr>"

definition cprop_example_out :: IRSB where
  "cprop_example_out = \<lparr> bb_tyenv = [Ity_I64, Ity_I1, Ity_I64, Ity_I64], bb_stmts =
     [Ist_WrTmp 0 (Iex_Get 16 Ity_I64), Ist_WrTmp 3 (Iex_Load Iend_LE Ity_I64 (Iex_RdTmp 0)), Ist_WrTmp 2 (Iex_RdTmp 3),
      Ist_Put 16 (Iex_RdTmp 2)], bb_stmts_size = 8, bb_next = Iex_Const (Ico_U64 4), bb_jumpkind = Ijk_Boring, bb_offsIP = 16 \<rparr>"

lemma cprop_example_sane: "sanityCheckIRSB cprop_example True Ity_I64"
  by (simp add: sanity_defs cprop_example_def)

lemma cprop_example_result: "cprop_BB cprop_example = Some cprop_example_out"
  by (simp add: cprop_BB_def cprop_example_def cprop_example_out_def empty_block_def cprop_Stmt_def cprop_emit_def add_stmt_def
     fold_Expr_def cprop_fixup_def new_temp_def Let_def host_fold.fold_arg_subst subst_tmp_def assert_that_def N_FIXUPS_def propagates.simps)

theorem cprop_BB_refines_witness:
  "cprop_BB cprop_example = Some cprop_example_out \<and>
   exec_block cell_guest host_vec cprop_example_out (\<lambda>_. 0) 7 = Some (4, Ijk_Boring, 16, 7)"
proof -
  have "exec_block cell_guest host_vec cprop_example (\<lambda>_. 0) 7 = Some (4, Ijk_Boring, 16, 7)"
    by (simp add: exec_block_def cprop_example_def cell_guest_def tval_def typeOfIRTemp_def fits_def assign_def loadg_val_def)
  moreover have "store_ok (bb_tyenv cprop_example) (\<lambda>_. 0)" by (simp add: store_ok_def fits_def)
  ultimately show ?thesis
    using cprop_BB_refines [OF host_fold.fold_sem_axioms cprop_example_sane cprop_example_result, of "\<lambda>_. 0" cell_guest 7]
      cprop_example_result by simp
qed

end
