(* ===== verification/IropDead.thy ===== *)
theory IropDead
  imports IRExec IropPasses
begin

text \<open>
  Removal of dead assignments, \<open>do_deadcode_BB\<close> of \<open>VEX/priv/ir_opt.c\<close>: the block runs the same way afterwards, when no
  dirty call that is never made assigns a temporary; for such a call the pass deletes the assignment of a temporary that is
  still in use.
\<close>

section \<open>The temporaries in use\<close>

text \<open>The temporaries in use, and the stores that agree on them.\<close>

definition agree_on :: "bool list \<Rightarrow> store \<Rightarrow> store \<Rightarrow> bool" where
  "agree_on used s s' \<longleftrightarrow> (\<forall>t < length used. used ! t \<longrightarrow> s' t = s t)"

definition uses_more :: "bool list \<Rightarrow> IRTemp set \<Rightarrow> bool list \<Rightarrow> bool" where
  "uses_more used T used' \<longleftrightarrow> length used' = length used \<and> (\<forall>t < length used. used ! t \<longrightarrow> used' ! t) \<and>
     (\<forall>t \<in> T. t < length used \<and> used' ! t)"

lemma uses_more_refl: "uses_more used {} used"
  by (simp add: uses_more_def)

lemma uses_more_trans: "uses_more u T u' \<Longrightarrow> uses_more u' T' u'' \<Longrightarrow> uses_more u (T \<union> T') u''"
  by (auto simp: uses_more_def)

lemma addUses_more:
  "addUses_Expr used e = Some used' \<Longrightarrow> uses_more used (expr_temps e) used'"
  "addUses_Exprs used es = Some used' \<Longrightarrow> uses_more used (\<Union>e \<in> set es. expr_temps e) used'"
  by (induction used e and used es arbitrary: used' and used' rule: addUses_Expr_addUses_Exprs.induct)
    (auto simp: bind_Some_iff addUses_Temp_def nth_list_update uses_more_def split: if_splits)

lemma addUses_one: "addUses_Exprs used [e] = addUses_Expr used e"
  by (cases "addUses_Expr used e") simp_all

lemma set_opt_list: "set (opt_list x) = set_option x"
  by (cases x) (simp_all add: opt_list_def)

lemma addUses_Stmt_exprs:
  assumes "addUses_Stmt used st = Some used'"
  shows "\<exists>es. addUses_Exprs used es = Some used' \<and> set es = stmt_exprs st"
proof (cases st)
  case (Ist_Put off d)
  with assms show ?thesis by (intro exI [of _ "[d]"]) (simp add: addUses_one del: addUses_Exprs.simps)
next
  case (Ist_WrTmp t e)
  with assms show ?thesis by (intro exI [of _ "[e]"]) (simp add: addUses_one del: addUses_Exprs.simps)
next
  case (Ist_Exit g jk dst off)
  with assms show ?thesis by (intro exI [of _ "[g]"]) (simp add: addUses_one del: addUses_Exprs.simps)
next
  case (Ist_AbiHint base len nia)
  with assms show ?thesis by (intro exI [of _ "[base, nia]"]) simp
next
  case (Ist_PutI descr ix bias d)
  with assms show ?thesis by (intro exI [of _ "[ix, d]"]) simp
next
  case (Ist_Store en a d)
  with assms show ?thesis by (intro exI [of _ "[a, d]"]) simp
next
  case (Ist_StoreG sg)
  with assms show ?thesis by (intro exI [of _ "[sg_addr sg, sg_data sg, sg_guard sg]"]) simp
next
  case (Ist_LoadG lg)
  with assms show ?thesis by (intro exI [of _ "[lg_addr lg, lg_alt lg, lg_guard lg]"]) simp
next
  case (Ist_CAS cas)
  with assms show ?thesis
    by (intro exI [of _ "cas_addr cas # opt_list (cas_expdHi cas) @ cas_expdLo cas # opt_list (cas_dataHi cas) @ [cas_dataLo cas]"])
      (auto simp: set_opt_list simp del: addUses_Exprs.simps)
next
  case (Ist_LLSC en r a d)
  with assms show ?thesis by (intro exI [of _ "a # opt_list d"]) (simp add: set_opt_list del: addUses_Exprs.simps)
next
  case (Ist_Dirty d)
  with assms obtain m where m: "(if d_mFx d \<noteq> Ifx_None then map_option (\<lambda>a. [a]) (d_mAddr d) else Some []) = Some m"
    "addUses_Exprs used (m @ d_guard d # filter (\<lambda>a. \<not> is_IRExpr_VECRET_or_GSPTR a) (d_args d)) = Some used'"
    by (auto simp: bind_Some_iff simp del: addUses_Exprs.simps)
  then show ?thesis
    unfolding Ist_Dirty
    by (intro exI [of _ "m @ d_guard d # filter (\<lambda>a. \<not> is_IRExpr_VECRET_or_GSPTR a) (d_args d)"])
      (auto simp del: addUses_Exprs.simps split: if_splits)
qed (use assms in \<open>auto intro: exI [of _ "[]"]\<close>)

lemma addUses_Stmt_more: "addUses_Stmt used st = Some used' \<Longrightarrow> uses_more used (\<Union>e \<in> stmt_exprs st. expr_temps e) used'"
  by (drule addUses_Stmt_exprs) (metis addUses_more(2))

text \<open>A statement that is kept.\<close>

lemma exec_used:
  assumes more: "uses_more used (\<Union>e \<in> stmt_exprs st. expr_temps e) used'" and ag: "agree_on used' s s'"
    and ex: "exec_stmt tyenv G sem st s m = Some r"
  shows "\<exists>r'. exec_stmt tyenv G sem st s' m = Some r' \<and> outcome_rel (agree_on used) r r'"
proof -
  have "tval tyenv G sem s' m e = tval tyenv G sem s m e" if "e \<in> stmt_exprs st" for e
    using that more ag by (intro tval_agree) (auto simp: uses_more_def agree_on_def)
  then have "stmt_rel (same_tval tyenv tyenv G sem s s' m) st st" by (intro stmt_rel_refl) (simp add: same_tval_def)
  from exec_stmt_rel [OF this types_extend_refl(1) ex] obtain r' where
    r': "exec_stmt tyenv G sem st s' m = Some r'" "outcome_rel (upd_rel (set (stmt_defs st)) s s') r r'" by blast
  have "agree_on used s1 s1'" if "upd_rel (set (stmt_defs st)) s s' s1 s1'" for s1 s1'
    using that more ag unfolding upd_rel_def agree_on_def uses_more_def by metis
  with r' show ?thesis by (cases r) auto
qed

text \<open>A dirty call that is never made may be deleted when it assigns nothing.\<close>

definition dirty_drop_ok :: "IRStmt \<Rightarrow> bool" where
  "dirty_drop_ok st \<longleftrightarrow> (case st of Ist_Dirty d \<Rightarrow> isZeroU1 (d_guard d) \<longrightarrow> d_tmp d = None | _ \<Rightarrow> True)"

lemma deadcode_Stmt_cases:
  assumes "deadcode_Stmt used st = Some (used', st', always)"
  shows "st' = st \<and> addUses_Stmt used st = Some used' \<or> st' = Ist_NoOp \<and> used' = used \<and>
    (st = Ist_NoOp \<or> (\<exists>t e. st = Ist_WrTmp t e \<and> t < length used \<and> \<not> used ! t) \<or> (\<exists>d. st = Ist_Dirty d \<and> isZeroU1 (d_guard d)))"
  using assms by (cases st) (auto simp: deadcode_Stmt_def simp del: addUses_Stmt.simps split: if_splits)

lemma exec_dead:
  assumes dc: "deadcode_Stmt used st = Some (used', st', always)" and ag: "agree_on used' s s'"
    and ex: "exec_stmt tyenv G sem st s m = Some r" and ok: "dirty_drop_ok st"
  shows "\<exists>r'. exec_stmt tyenv G sem st' s' m = Some r' \<and> outcome_rel (agree_on used) r r'"
proof (cases "st' = st \<and> addUses_Stmt used st = Some used'")
  case True
  with exec_used [OF addUses_Stmt_more ag ex] show ?thesis by simp
next
  case False
  with deadcode_Stmt_cases [OF dc] have nop: "st' = Ist_NoOp" "used' = used" and
    st: "st = Ist_NoOp \<or> (\<exists>t e. st = Ist_WrTmp t e \<and> t < length used \<and> \<not> used ! t) \<or> (\<exists>d. st = Ist_Dirty d \<and> isZeroU1 (d_guard d))"
    by blast+
  have "\<exists>s1. r = Falls s1 m \<and> agree_on used s1 s'"
    using st
  proof (elim disjE exE conjE)
    fix t e
    assume t: "st = Ist_WrTmp t e" "\<not> used ! t"
    with ex ag nop(2) show ?thesis by (auto simp: bind_Some_iff assign_Some agree_on_def)
  next
    fix d
    assume d: "st = Ist_Dirty d" "isZeroU1 (d_guard d)"
    with ok have "d_tmp d = None" by (simp add: dirty_drop_ok_def)
    moreover obtain p xs gt gv x m' s1 where v: "tval tyenv G sem s m (d_guard d) = Some (gt, gv)"
        "dirty_result tyenv G d p xs gv m = Some (x, m')" "assign_opt tyenv (d_tmp d) x s = Some s1" "r = Falls s1 m'"
      using ex d(1) by (auto simp: bind_Some_iff)
    moreover have "gv = 0" using v(1) d(2) tval_Some [OF v(1)] by (auto simp: isZeroU1_def)
    ultimately show ?thesis using ag nop(2) by (auto simp: dirty_result_def assign_opt_def)
  qed (use ex ag nop(2) in auto)
  with nop(1) show ?thesis by auto
qed

lemma deadcode_Stmts_sim:
  assumes "deadcode_Stmts used sts = Some (used', sts', i)" "agree_on used' s s'" "exec_stmts tyenv G sem sts s m = Some r"
    "list_all dirty_drop_ok sts"
  shows "\<exists>r'. exec_stmts tyenv G sem sts' s' m = Some r' \<and> outcome_rel (agree_on used) r r'"
  using assms
proof (induction sts arbitrary: used' sts' i s s' m)
  case (Cons st sts)
  from Cons.prems(1) obtain used1 sts1 j st' always where dc: "deadcode_Stmts used sts = Some (used1, sts1, j)"
    "deadcode_Stmt used1 st = Some (used', st', always)" "sts' = st' # sts1" by (auto simp: bind_Some_iff)
  from Cons.prems(3) obtain r1 where r1: "exec_stmt tyenv G sem st s m = Some r1" by (auto split: option.splits)
  from exec_dead [OF dc(2) Cons.prems(2) r1] Cons.prems(4) obtain r1' where
    r1': "exec_stmt tyenv G sem st' s' m = Some r1'" "outcome_rel (agree_on used1) r1 r1'" by auto
  show ?case
  proof (cases r1)
    case (Falls s1 m1)
    with r1'(2) obtain s1' where s1': "r1' = Falls s1' m1" "agree_on used1 s1 s1'" by auto
    with Cons.IH [OF dc(1) s1'(2)] Cons.prems(3,4) r1 r1'(1) Falls dc(3) show ?thesis by simp
  qed (use Cons.prems(3) r1 r1' dc(3) in auto)
qed auto

lemma deadcode_exit:
  "deadcode_Stmts used sts = Some (used', sts', Some i) \<Longrightarrow>
     i < length sts' \<and> (\<exists>jk dst off. sts' ! i = Ist_Exit (Iex_Const (Ico_U1 True)) jk dst off)"
proof (induction sts arbitrary: used' sts' i)
  case (Cons st sts)
  from Cons.prems obtain used1 sts1 j st' always where dc: "deadcode_Stmts used sts = Some (used1, sts1, j)"
    "deadcode_Stmt used1 st = Some (used', st', always)" "sts' = st' # sts1" "Some i = (if always then Some 0 else map_option Suc j)"
    by (auto simp: bind_Some_iff)
  show ?case
  proof (cases always)
    case True
    with dc(2) have "\<exists>jk dst off. st' = Ist_Exit (Iex_Const (Ico_U1 True)) jk dst off"
      by (cases st) (auto simp: deadcode_Stmt_def isOneU1_def simp del: addUses_Stmt.simps split: if_splits)
    with True dc(3,4) show ?thesis by simp
  next
    case False
    with dc(4) obtain k where "j = Some k" "i = Suc k" by (cases j) auto
    with Cons.IH [of used1 sts1 k] dc(1,3) show ?thesis by simp
  qed
qed simp

lemma exec_NoOps: "exec_stmts tyenv G sem (replicate n Ist_NoOp) s m = Some (Falls s m)"
  by (induction n) simp_all

lemma exec_cut:
  assumes "i < length sts" "sts ! i = Ist_Exit (Iex_Const (Ico_U1 True)) jk dst off" "exec_stmts tyenv G sem sts s m = Some r"
  shows "case exec_stmts tyenv G sem (take i sts @ replicate n Ist_NoOp) s m of
      None \<Rightarrow> False
    | Some (Falls s1 m1) \<Rightarrow> r = Exits (const_val dst) jk off m1
    | Some (Exits pc jk off m1) \<Rightarrow> r = Exits pc jk off m1"
proof -
  have "exec_stmts tyenv G sem (take i sts @ Ist_Exit (Iex_Const (Ico_U1 True)) jk dst off # drop (Suc i) sts) s m = Some r"
    using id_take_nth_drop [OF assms(1)] assms(2,3) by simp
  then show ?thesis
    by (auto simp: exec_append exec_NoOps tval_def fits_def split: option.splits outcome.splits)
qed

lemma deadcode_block:
  assumes dc: "do_deadcode_BB bb = Some bb'" and ex: "exec_block G sem bb s m = Some r" and ok: "list_all dirty_drop_ok (bb_stmts bb)"
  shows "exec_block G sem bb' s m = Some r"
proof -
  obtain used used' sts i where d: "addUses_Expr (replicate (length (bb_tyenv bb)) False) (bb_next bb) = Some used"
    "deadcode_Stmts used (bb_stmts bb) = Some (used', sts, i)" using dc by (auto simp: do_deadcode_BB_def bind_Some_iff)
  obtain r1 where r1: "exec_stmts (bb_tyenv bb) G sem (bb_stmts bb) s m = Some r1"
    using ex by (auto simp: exec_block_def split: option.splits)
  from deadcode_Stmts_sim [OF d(2) _ r1 ok, of s] obtain r1' where
    r1': "exec_stmts (bb_tyenv bb) G sem sts s m = Some r1'" "outcome_rel (agree_on used) r1 r1'" by (auto simp: agree_on_def)
  show ?thesis
  proof (cases i)
    case None
    then have bb': "bb' = bb \<lparr> bb_stmts := sts \<rparr>" using dc d by (simp add: do_deadcode_BB_def)
    show ?thesis
    proof (cases r1)
      case (Falls s1 m1)
      with r1'(2) obtain s1' where s1': "r1' = Falls s1' m1" "agree_on used s1 s1'" by auto
      have "tval (bb_tyenv bb) G sem s1' m1 (bb_next bb) = tval (bb_tyenv bb) G sem s1 m1 (bb_next bb)"
        using addUses_more(1) [OF d(1)] s1'(2) by (intro tval_agree) (auto simp: uses_more_def agree_on_def)
      with ex r1 r1'(1) Falls s1'(1) show ?thesis by (simp add: exec_block_def bb')
    qed (use ex r1 r1' in \<open>simp add: exec_block_def bb'\<close>)
  next
    case (Some k)
    from deadcode_exit [OF d(2) [unfolded Some]] obtain jk dst off where
      k: "k < length sts" "sts ! k = Ist_Exit (Iex_Const (Ico_U1 True)) jk dst off" by blast
    then have bb': "bb' = bb \<lparr> bb_stmts := take k sts @ replicate (length sts - k) Ist_NoOp, bb_next := Iex_Const dst,
        bb_jumpkind := jk, bb_offsIP := off \<rparr>"
      using dc d Some by (simp add: do_deadcode_BB_def)
    have cut: "case exec_stmts (bb_tyenv bb) G sem (take k sts @ replicate (length sts - k) Ist_NoOp) s m of
        None \<Rightarrow> False | Some (Falls s1 m1) \<Rightarrow> r1' = Exits (const_val dst) jk off m1 | Some (Exits pc jk off m1) \<Rightarrow> r1' = Exits pc jk off m1"
      by (rule exec_cut [OF k r1'(1)])
    then have "\<exists>pc jk off m1. r1' = Exits pc jk off m1" by (auto split: option.splits outcome.splits)
    then have "r1' = r1" using r1'(2) by (cases r1) auto
    with cut ex r1 show ?thesis
      unfolding exec_block_def bb'
      by (auto simp: tval_def const_val_fits split: option.splits outcome.splits)
  qed
qed

section \<open>The pass keeps the behaviour\<close>

text \<open>C39: the removal of dead code keeps the behaviour of every block in which no dirty call with a constant false guard assigns
  a temporary: if the block runs, the block the pass returns runs to the same next address, jump kind, instruction pointer and state.\<close>

theorem do_deadcode_BB_refines:
  assumes "do_deadcode_BB bb = Some bb'" "list_all dirty_drop_ok (bb_stmts bb)" "exec_block G sem bb s m = Some r"
  shows "exec_block G sem bb' s m = Some r"
  using deadcode_block [OF assms(1,3,2)] .

text \<open>A block with a dead load and an exit that is always taken.\<close>

definition dead_example :: IRSB where
  "dead_example = \<lparr> bb_tyenv = [Ity_I64, Ity_I64], bb_stmts =
     [Ist_WrTmp 0 (Iex_Get 16 Ity_I64), Ist_WrTmp 1 (Iex_Load Iend_LE Ity_I64 (Iex_RdTmp 0)), Ist_Put 24 (Iex_RdTmp 0),
      Ist_Exit (Iex_Const (Ico_U1 True)) Ijk_Boring (Ico_U64 8) 16, Ist_Put 32 (Iex_Const (Ico_U64 1))],
     bb_stmts_size = 8, bb_next = Iex_Const (Ico_U64 4), bb_jumpkind = Ijk_Call, bb_offsIP = 16 \<rparr>"

definition dead_example_out :: IRSB where
  "dead_example_out = \<lparr> bb_tyenv = [Ity_I64, Ity_I64], bb_stmts =
     [Ist_WrTmp 0 (Iex_Get 16 Ity_I64), Ist_NoOp, Ist_Put 24 (Iex_RdTmp 0), Ist_NoOp, Ist_NoOp],
     bb_stmts_size = 8, bb_next = Iex_Const (Ico_U64 8), bb_jumpkind = Ijk_Boring, bb_offsIP = 16 \<rparr>"

theorem do_deadcode_BB_refines_witness:
  "do_deadcode_BB dead_example = Some dead_example_out \<and>
   exec_block cell_guest (\<lambda>_ _. None) dead_example_out (\<lambda>_. 0) 7 = Some (8, Ijk_Boring, 16, 7)"
proof -
  have dc: "do_deadcode_BB dead_example = Some dead_example_out"
    by (simp add: do_deadcode_BB_def dead_example_def dead_example_out_def deadcode_Stmt_def addUses_Temp_def isOneU1_def numeral_3_eq_3)
  have ex: "exec_block cell_guest (\<lambda>_ _. None) dead_example (\<lambda>_. 0) 7 = Some (8, Ijk_Boring, 16, 7)"
    by (simp add: exec_block_def dead_example_def cell_guest_def tval_def typeOfIRTemp_def fits_def assign_def)
  have "list_all dirty_drop_ok (bb_stmts dead_example)" by (simp add: dead_example_def dirty_drop_ok_def)
  from do_deadcode_BB_refines [OF dc this ex] dc show ?thesis by simp
qed

text \<open>A helper that is never called and assigns a temporary.\<close>

definition uncalled_helper :: IRDirty where
  "uncalled_helper = \<lparr> d_cee = \<lparr> cee_regparms = 0, cee_name = Some ''helper'', cee_addr = 1, cee_mcx_mask = 0 \<rparr>,
    d_guard = Iex_Const (Ico_U1 False), d_args = [], d_tmp = Some 0, d_mFx = Ifx_None, d_mAddr = None, d_mSize = 0, d_fxState = [] \<rparr>"

definition uncalled_block :: IRSB where
  "uncalled_block = \<lparr> bb_tyenv = [Ity_I64], bb_stmts = [Ist_Dirty uncalled_helper, Ist_Put 16 (Iex_RdTmp 0)],
     bb_stmts_size = 8, bb_next = Iex_Const (Ico_U64 4), bb_jumpkind = Ijk_Boring, bb_offsIP = 16 \<rparr>"

text \<open>C40: without that condition it does not: the pass deletes a dirty call that is never made although it assigns a temporary that
  is read afterwards. The sanity checker accepts the block before the pass and rejects it afterwards, and the two runs differ.\<close>

theorem do_deadcode_BB_drops_result:
  "\<exists>bb'. sanityCheckIRSB uncalled_block True Ity_I64 \<and> do_deadcode_BB uncalled_block = Some bb' \<and>
     \<not> sanityCheckIRSB bb' True Ity_I64 \<and>
     exec_block cell_guest (\<lambda>_ _. None) uncalled_block (\<lambda>_. 0) 7 = Some (4, Ijk_Boring, 16, 0x5555555555555555) \<and>
     exec_block cell_guest (\<lambda>_ _. None) bb' (\<lambda>_. 0) 7 = Some (4, Ijk_Boring, 16, 0)"
proof -
  let ?bb' = "uncalled_block \<lparr> bb_stmts := [Ist_NoOp, Ist_Put 16 (Iex_RdTmp 0)] \<rparr>"
  have "sanityCheckIRSB uncalled_block True Ity_I64"
    by (simp add: sanity_defs uncalled_block_def uncalled_helper_def tcDirty_def saneIRCallee_def)
  moreover have "do_deadcode_BB uncalled_block = Some ?bb'"
    by (simp add: do_deadcode_BB_def uncalled_block_def uncalled_helper_def deadcode_Stmt_def addUses_Temp_def isZeroU1_def)
  moreover have "\<not> sanityCheckIRSB ?bb' True Ity_I64"
    by (simp add: sanity_defs uncalled_block_def)
  moreover have "fits Ity_I64 (fives Ity_I64)" "fives Ity_I64 = 0x5555555555555555"
    by (simp_all add: fits_def fives_def take_bit_eq_mod mask_eq_exp_minus_1)
  then have "exec_block cell_guest (\<lambda>_ _. None) uncalled_block (\<lambda>_. 0) 7 = Some (4, Ijk_Boring, 16, 0x5555555555555555)"
    by (simp add: exec_block_def uncalled_block_def uncalled_helper_def cell_guest_def tval_def typeOfIRTemp_def assign_def assign_opt_def
      dirty_addr_def dirty_result_def const_val_fits) (simp add: fits_def)
  moreover have "exec_block cell_guest (\<lambda>_ _. None) ?bb' (\<lambda>_. 0) 7 = Some (4, Ijk_Boring, 16, 0)"
    by (simp add: exec_block_def uncalled_block_def cell_guest_def tval_def typeOfIRTemp_def fits_def)
  ultimately show ?thesis by blast
qed

end
