(* ===== verification/Spec2Isabelle.thy ===== *)
theory Spec2Isabelle
  imports OSet TntRange TntExprTyping SimdSem IRBuild IropCprop IropDead
begin

text \<open>
  A verification library for Autonomizer. The program is a taint tracker, the Valgrind tool \<^verbatim>\<open>taintgrind\<close> with the parts of
  Valgrind 3.13.0 below it, and a runtime for machine learning models on top. This library models the logic of the taint tracker: its
  shadow memory, the code it instruments expressions with, and the parts of VEX that the instrumented code goes through. All paths
  below are under \<^verbatim>\<open>src/valgrind-3.13.0/\<close>.

  How the parts interact. VEX translates a block of machine code to a superblock of its intermediate representation and
  optimises it (\<^verbatim>\<open>VEX/priv/ir_opt.c\<close>). The tool then adds, to every expression, code that computes its V bits, one bit per bit
  of the value, 1 where the value is tainted (\<^verbatim>\<open>taintgrind/tnt_translate.c\<close>). That code calls helpers that load and store the
  V bits of memory (\<^verbatim>\<open>taintgrind/tnt_main.c\<close>). The block is checked (\<^verbatim>\<open>VEX/priv/ir_defs.c\<close>) and compiled, and vector
  operators become calls of \<^verbatim>\<open>VEX/priv/host_generic_simd64.c\<close>. The shadow memory keeps its large tables in the ordered sets of
  \<^verbatim>\<open>coregrind/m_oset.c\<close>.

  Common conventions. A C function that can stop the process (a panic, a failed assertion, a division that traps, an access out of
  the bounds of an array) returns an \<open>option\<close>, and \<open>None\<close> is the stop; theorems that a function succeeds are stated as
  \<open>Some\<close>. State that C mutates is passed and returned. Machine integers are words where their width matters; an \<^verbatim>\<open>Int\<close> that may
  overflow is checked. Theory Prelude has the types, the fact collections and the shared lemmas, theory Switch the C \<^verbatim>\<open>switch\<close> as
  a table.

  \<^bold>\<open>Ordered sets\<close> (theory OSet, \<^verbatim>\<open>m_oset.c\<close>). The AVL tree with its rotations, insertion, deletion and the iterator
  with its stack of 32 nodes. \<open>oset_inv\<close> is the invariant (sorted keys, heights and balances, the count of elements). Insertion and
  deletion refine update and deletion of a map, iteration gives all elements in order for fewer than 9227464 of them, and a set of
  that size makes the iterator fail: the bound is sharp. Locale \<open>oset_order\<close> is the order on the keys, \<open>keyed_table\<close> and
  \<open>word_set\<close> are the contracts of the clients; their interpretations are the code.

  \<^bold>\<open>Shadow memory\<close> (theories TntBits, TntShadow, TntAccess, TntRange, \<^verbatim>\<open>tnt_main.c\<close>). \<open>tnt_mem\<close> is the state: the
  primary map, the auxiliary map with its self-organising cache, the secondary maps with copy on write, and the table of V bits of
  partly tainted bytes with its collection. \<open>vbyte\<close> is what it stands for, a byte of V bits and an addressability bit per address;
  \<open>store_ok\<close> is the invariant. Each operation keeps the invariant and has its effect on \<open>vbyte\<close> as its specification: lookups
  and copies change nothing, a write changes one byte, the load and store helpers, fast and slow paths, read and write the bytes they
  cover, and setting a range (TntRange) sets exactly its bytes, for every address and length. \<open>pdb_room\<close> is the premise that
  the table stays within what the iterator of the set can traverse, three million granules of 16 bytes. Allocation of secondary maps
  may fail (\<open>shadow_alloc_ok\<close>); \<open>store_ok\<close> assumes that it does not. Locale \<open>byte_store\<close> is the contract the byte loops
  rely on.

  \<^bold>\<open>Intermediate representation\<close> (theories VexIR, IRSem, IRExec, IRSanity, IRBuild; \<^verbatim>\<open>VEX/pub/libvex_ir.h\<close>,
  \<^verbatim>\<open>ir_defs.c\<close>). VexIR has the types, expressions and statements and \<open>typeOfPrimop\<close>. IRSem is a reference semantics of the
  operators and IRExec one of the blocks, both written after the comments of the header; the guest state, the memory and the helpers
  are parameters there, as is the meaning of operators the reference leaves open. IRSanity is the sanity checker: single assignment
  and definition before use follow from acceptance, with the exceptions shown, and the type checker is equivalent to declarative
  rules. IRBuild has the allocator of VEX and the arrays a block is built in: with 152 bytes of room and 32 for each call, building
  cannot fail. The passes below use the list versions \<open>new_temp\<close> and \<open>add_stmt\<close>, which IRBuild refines; running out of memory
  is modelled in IRBuild only.

  \<^bold>\<open>Instrumentation\<close> (theories TntTranslate, TntPrims, TntExpr, TntTyping, TntExprTyping, TaintAlgebra, TntValues,
  TntSound; \<^verbatim>\<open>tnt_translate.c\<close>). The emitters and the rules of the four switches over the operators. Typing: a rule for a handled operator
  does not fail, writes new temporaries only and gives V bits of the right type, but for fourteen operators that make the tool stop.
  Soundness, for 420 binary and 113 unary operators and if-then-else: a result bit that is not tainted does not depend on tainted
  bits. TaintAlgebra has this for values, TntValues connects values with emitted code; locale \<open>ir_sem\<close> is any semantics that
  extends the reference one, interpreted on the reference semantics and on that of the hosts.

  \<^bold>\<open>Vector helpers\<close> (theories Simd64, SimdSem; \<^verbatim>\<open>host_generic_simd64.c\<close>). All helpers of the file, and the tables of
  \<^verbatim>\<open>host_amd64_isel.c\<close> and \<^verbatim>\<open>host_arm_isel.c\<close> that name the helper of an operator. They meet a specification by
  lanes, the decimal packing is a round trip, the divisions avoid the two cases in which C division traps, and the soundness of V bits carries
  over to what the host executes.

  \<^bold>\<open>Optimiser\<close> (theories IropFold, IropFoldSound, IropPasses, IropCprop, IropDead; \<^verbatim>\<open>ir_opt.c\<close>). The constant folder with
  every rule, flattening, constant propagation with its repair of guarded loads (at most \<open>N_FIXUPS\<close> of them), and removal of dead
  code. Folding keeps type, flatness and value; constant propagation and dead code removal keep what a block does, for every guest.
  The bounded comparison of expressions visits at most \<open>NODE_LIMIT\<close> = 30 nodes and so returns on cyclic environments too. Locale
  \<open>fold_sem\<close> is what the folder relies on of the operators, interpreted on the hosts. The environment of constant propagation is a
  total function of temporaries; in C it is an array of the temporaries of the block, and the sanity check that the theorem assumes
  keeps accesses inside it. Flattening puts arguments in order from left to right, where C leaves the order open.

  Defects of the program that the library proves: the iterator's limit, panics of the instrumenter on 128-bit floats and of the folder
  on an unsigned maximum, temporaries the sanity checker does not look at, and a dirty call whose result is still used but which dead
  code removal deletes.

  \<^bold>\<open>Not modelled.\<close> In \<^verbatim>\<open>tnt_main.c\<close>: the copy of the state of a range, options, client requests, messages.
  In \<^verbatim>\<open>tnt_translate.c\<close>: loads, guest state accesses and statements, and the calls that print flows. \<^verbatim>\<open>tnt_syswrap.c\<close>
  depends on the kernel. In \<^verbatim>\<open>ir_opt.c\<close>: redundant gets and puts, common subexpressions, helper specialisation, chains of
  PutI and GetI, unrolling and tree building. In \<^verbatim>\<open>ir_defs.c\<close>: printing, constructors, deep copies. The wider vector helpers
  (\<^verbatim>\<open>host_generic_simd128.c\<close> and \<^verbatim>\<open>host_generic_simd256.c\<close>), the front ends, instruction selection and assemblers of VEX, the rest of
  Valgrind, the C++ runtime and its Python bridge (input and output, foreign interfaces) are outside this library.
\<close>

end
